(* ===== verification/Prelude.thy ===== *)
theory Prelude
  imports Complex_Main "HOL-Library.Word"
begin

text \<open>
  Shared vocabulary of the development.

  \<^item> Results: a Rust \<open>Result<T, E>\<close> is \<open>'e + 'a\<close>; an operation that may also panic (an
    overflowing \<open>Decimal\<close> operator, say) is \<open>'e fault + 'a\<close>, so a panic is a value of the model
    and never confused with an error the caller can handle.  \<open>rbind\<close> is the \<open>?\<close> operator.
  \<^item> Integers: \<open>u64\<close> counters that saturate are \<open>64 word\<close>; \<open>i64\<close> values that are only compared or
    subtracted inside their range are \<open>int\<close> with the range checks written where the source has them.
  \<^item> Strings are byte strings (\<open>char list\<close>), which is what Rust's UTF-8 \<open>str\<close> stores; the ASCII
    predicates, \<open>trim\<close> and the integer parsers of the standard library are written out here.
\<close>

named_theorems res_simps "simplification rules of the result monad"

type_synonym u64 = "64 word"
type_synonym u32 = "32 word"

section \<open>Results\<close>

datatype 'e fault = Panic | Fail 'e

definition rbind :: "'e + 'a \<Rightarrow> ('a \<Rightarrow> 'e + 'b) \<Rightarrow> 'e + 'b" where
  "rbind m f = (case m of Inl e \<Rightarrow> Inl e | Inr x \<Rightarrow> f x)"

definition ensure :: "bool \<Rightarrow> 'e \<Rightarrow> 'e + unit" where
  "ensure b e = (if b then Inr () else Inl e)"

definition ok_or :: "'e \<Rightarrow> 'a option \<Rightarrow> 'e + 'a" where
  "ok_or e x = (case x of None \<Rightarrow> Inl e | Some v \<Rightarrow> Inr v)"

definition map_err :: "('e \<Rightarrow> 'f) \<Rightarrow> 'e + 'a \<Rightarrow> 'f + 'a" where
  "map_err g m = (case m of Inl e \<Rightarrow> Inl (g e) | Inr x \<Rightarrow> Inr x)"

fun try_fold :: "('s \<Rightarrow> 'a \<Rightarrow> 'e + 's) \<Rightarrow> 's \<Rightarrow> 'a list \<Rightarrow> 'e + 's" where
  "try_fold f s [] = Inr s"
| "try_fold f s (x # xs) = rbind (f s x) (\<lambda>s'. try_fold f s' xs)"

fun try_map :: "('a \<Rightarrow> 'e + 'b) \<Rightarrow> 'a list \<Rightarrow> 'e + 'b list" where
  "try_map f [] = Inr []"
| "try_map f (x # xs) = rbind (f x) (\<lambda>y. rbind (try_map f xs) (\<lambda>ys. Inr (y # ys)))"

lemma rbind_Inr [simp]: "rbind (Inr x) f = f x"
  by (simp add: rbind_def)

lemma rbind_Inl [simp]: "rbind (Inl e) f = Inl e"
  by (simp add: rbind_def)

lemma rbind_eq_Inr [res_simps]: "rbind m f = Inr y \<longleftrightarrow> (\<exists>x. m = Inr x \<and> f x = Inr y)"
  by (cases m) auto

lemma rbind_eq_Inl [res_simps]:
  "rbind m f = Inl e \<longleftrightarrow> m = Inl e \<or> (\<exists>x. m = Inr x \<and> f x = Inl e)"
  by (cases m) auto

lemma ensure_eq_Inr [simp]: "ensure b e = Inr u \<longleftrightarrow> b"
  by (simp add: ensure_def)

lemma ensure_eq_Inl [simp]: "ensure b e = Inl e' \<longleftrightarrow> \<not> b \<and> e' = e"
  by (auto simp: ensure_def)

lemma ensure_True [simp]: "ensure True e = Inr ()"
  by (simp add: ensure_def)

lemma ensure_False [simp]: "ensure False e = Inl e"
  by (simp add: ensure_def)

lemma ok_or_eq_Inr [simp]: "ok_or e x = Inr v \<longleftrightarrow> x = Some v"
  by (cases x) (auto simp: ok_or_def)

lemma ok_or_eq_Inl [simp]: "ok_or e x = Inl e' \<longleftrightarrow> x = None \<and> e' = e"
  by (cases x) (auto simp: ok_or_def)

lemma ok_or_simps [simp]: "ok_or e (Some v) = Inr v" "ok_or e None = Inl e"
  by (simp_all add: ok_or_def)

lemma map_err_simps [simp]: "map_err g (Inr x) = Inr x" "map_err g (Inl e) = Inl (g e)"
  by (simp_all add: map_err_def)

lemma map_err_eq_Inr [simp]: "map_err g m = Inr x \<longleftrightarrow> m = Inr x"
  by (cases m) auto

lemma try_fold_invariant:
  assumes "try_fold f s xs = Inr s'" and "P s"
    and "\<And>s x s'. x \<in> set xs \<Longrightarrow> P s \<Longrightarrow> f s x = Inr s' \<Longrightarrow> P s'"
  shows "P s'"
  using assms
proof (induction xs arbitrary: s)
  case Nil
  then show ?case by simp
next
  case (Cons x xs)
  then obtain t where t: "f s x = Inr t" "try_fold f t xs = Inr s'"
    by (auto simp: rbind_eq_Inr)
  have "P t" using Cons.prems(2,3) t(1) by auto
  then show ?case using Cons.IH [OF t(2)] Cons.prems(3) by auto
qed

lemma try_map_length: "try_map f xs = Inr ys \<Longrightarrow> length ys = length xs"
  by (induction xs arbitrary: ys) (auto simp: rbind_eq_Inr)

lemma try_map_all:
  assumes "try_map f xs = Inr ys" and "\<And>x y. x \<in> set xs \<Longrightarrow> f x = Inr y \<Longrightarrow> P y"
  shows "\<forall>y\<in>set ys. P y"
  using assms by (induction xs arbitrary: ys) (auto simp: rbind_eq_Inr, blast+)

lemma try_map_sources:
  assumes "try_map f xs = Inr ys"
  shows "\<forall>x\<in>set xs. \<exists>y\<in>set ys. f x = Inr y"
  using assms by (induction xs arbitrary: ys) (auto simp: rbind_eq_Inr)

section \<open>Which errors an operation can report\<close>

text \<open>
  \<open>fails_only P m\<close>: every error of \<open>m\<close> other than a panic satisfies \<open>P\<close>.  The rules of \<open>fail_rules\<close>
  follow the structure of a definition.
\<close>

named_theorems fail_rules "structural rules for the errors of an operation"

definition fails_only :: "('e \<Rightarrow> bool) \<Rightarrow> 'e fault + 'a \<Rightarrow> bool" where
  "fails_only P m = (\<forall>e. m = Inl (Fail e) \<longrightarrow> P e)"

lemma fails_onlyD: "fails_only P m \<Longrightarrow> m = Inl (Fail e) \<Longrightarrow> P e"
  by (simp add: fails_only_def)

lemma fails_only_Inr [fail_rules]: "fails_only P (Inr x)"
  by (simp add: fails_only_def)

lemma fails_only_Inl [fail_rules]: "P e \<Longrightarrow> fails_only P (Inl (Fail e))"
  by (simp add: fails_only_def)

lemma fails_only_panic [fail_rules]: "fails_only P (Inl Panic)"
  by (simp add: fails_only_def)

lemma fails_only_rbind [fail_rules]:
  "fails_only P m \<Longrightarrow> (\<And>x. m = Inr x \<Longrightarrow> fails_only P (f x)) \<Longrightarrow> fails_only P (rbind m f)"
  by (auto simp: fails_only_def rbind_eq_Inl)

lemma fails_only_ok_or [fail_rules]: "P e \<Longrightarrow> fails_only P (ok_or (Fail e) x)"
  by (simp add: fails_only_def)

lemma fails_only_ok_or_panic [fail_rules]: "fails_only P (ok_or Panic x)"
  by (simp add: fails_only_def)

lemma fails_only_ensure [fail_rules]: "P e \<Longrightarrow> fails_only P (ensure b (Fail e))"
  by (simp add: fails_only_def)

lemma fails_only_if [fail_rules]:
  "(b \<Longrightarrow> fails_only P x) \<Longrightarrow> (\<not> b \<Longrightarrow> fails_only P y) \<Longrightarrow> fails_only P (if b then x else y)"
  by simp

lemma fails_only_prod [fail_rules]:
  "(\<And>x y. p = (x, y) \<Longrightarrow> fails_only P (f x y)) \<Longrightarrow> fails_only P (case p of (x, y) \<Rightarrow> f x y)"
  by (simp split: prod.split)

lemma fails_only_option [fail_rules]:
  "(x = None \<Longrightarrow> fails_only P a) \<Longrightarrow> (\<And>v. x = Some v \<Longrightarrow> fails_only P (f v)) \<Longrightarrow>
    fails_only P (case x of None \<Rightarrow> a | Some v \<Rightarrow> f v)"
  by (simp split: option.split)

lemma fails_only_map_err [fail_rules]:
  "(\<And>e. P (g e)) \<Longrightarrow> fails_only P (map_err (\<lambda>e. Fail (g e)) m)"
  by (cases m) (auto simp: fails_only_def)

lemma fails_only_try_fold [fail_rules]:
  "(\<And>s x. fails_only P (f s x)) \<Longrightarrow> fails_only P (try_fold f s xs)"
  by (induction xs arbitrary: s) (auto simp: fails_only_def rbind_eq_Inl)

lemma fails_only_try_map [fail_rules]:
  "(\<And>x. fails_only P (f x)) \<Longrightarrow> fails_only P (try_map f xs)"
  by (induction xs) (auto simp: fails_only_def rbind_eq_Inl)

lemma fails_only_Let [fail_rules]: "fails_only P (f a) \<Longrightarrow> fails_only P (let x = a in f x)"
  by simp

section \<open>Saturating and bounded integers\<close>

definition u64_max :: nat where
  "u64_max = 2 ^ 64 - 1"

definition i64_max :: int where
  "i64_max = 2 ^ 63 - 1"

definition i64_min :: int where
  "i64_min = - (2 ^ 63)"

text \<open>\<open>u64::saturating_add(1)\<close>.\<close>

definition sat_succ :: "u64 \<Rightarrow> u64" where
  "sat_succ w = (if w = - 1 then - 1 else w + 1)"

lemma unat_sat_succ: "unat (sat_succ w) = min (Suc (unat w)) u64_max"
proof (cases "w = - 1")
  case True
  then show ?thesis
    by (simp add: sat_succ_def u64_max_def unsigned_minus_1_eq_mask mask_eq_exp_minus_1)
next
  case False
  have "unat w \<noteq> unat (- 1 :: u64)"
    using False by (simp only: word_unat_eq_iff [symmetric] not_False_eq_True)
  moreover have "unat w < 2 ^ 64"
    using unsigned_less [of w, where ?'a = nat] by simp
  ultimately have "unat w < 2 ^ 64 - 1"
    by (simp add: unsigned_minus_1_eq_mask mask_eq_exp_minus_1)
  with False show ?thesis
    by (simp add: sat_succ_def u64_max_def unat_word_ariths)
qed

end
