(* ===== verification/Rust_Strings.thy ===== *)
theory Rust_Strings
  imports Prelude
begin

text \<open>
  The parts of Rust's \<open>str\<close>, \<open>char\<close> and integer parsing that the code uses, on byte strings.
  A Rust string is UTF-8, so \<open>len\<close> is \<open>length\<close> and an ASCII test on characters is a test on bytes:
  every byte of a character outside ASCII is at least 128.  \<open>trim\<close> removes Unicode white space, which
  is a fixed list of byte sequences.
\<close>

section \<open>ASCII classes\<close>

definition byte :: "char \<Rightarrow> nat" where
  "byte c = of_char c"

definition is_ascii :: "char \<Rightarrow> bool" where
  "is_ascii c = (byte c < 128)"

definition is_ascii_digit :: "char \<Rightarrow> bool" where
  "is_ascii_digit c = (48 \<le> byte c \<and> byte c \<le> 57)"

definition is_ascii_uppercase :: "char \<Rightarrow> bool" where
  "is_ascii_uppercase c = (65 \<le> byte c \<and> byte c \<le> 90)"

definition is_ascii_lowercase :: "char \<Rightarrow> bool" where
  "is_ascii_lowercase c = (97 \<le> byte c \<and> byte c \<le> 122)"

definition is_ascii_alphanumeric :: "char \<Rightarrow> bool" where
  "is_ascii_alphanumeric c = (is_ascii_digit c \<or> is_ascii_uppercase c \<or> is_ascii_lowercase c)"

text \<open>\<open>u8::is_ascii_whitespace\<close>: space, tab, line feed, form feed, carriage return (no vertical tab).\<close>

definition is_ascii_whitespace :: "char \<Rightarrow> bool" where
  "is_ascii_whitespace c = (byte c \<in> {32, 9, 10, 12, 13})"

definition to_ascii_uppercase :: "char \<Rightarrow> char" where
  "to_ascii_uppercase c = (if is_ascii_lowercase c then char_of (byte c - 32) else c)"

definition eq_ignore_ascii_case :: "string \<Rightarrow> string \<Rightarrow> bool" where
  "eq_ignore_ascii_case a b = (map to_ascii_uppercase a = map to_ascii_uppercase b)"

lemma to_ascii_uppercase_alnum:
  "is_ascii_alphanumeric c \<Longrightarrow>
    is_ascii_digit (to_ascii_uppercase c) \<or> is_ascii_uppercase (to_ascii_uppercase c)"
  by (auto simp: to_ascii_uppercase_def is_ascii_alphanumeric_def is_ascii_lowercase_def
      is_ascii_uppercase_def is_ascii_digit_def byte_def)

section \<open>White space and trim\<close>

text \<open>The UTF-8 encodings of the characters with the Unicode property \<open>White_Space\<close>.\<close>

definition whitespace_encodings :: "nat list list" where
  "whitespace_encodings =
     [[9], [10], [11], [12], [13], [32], [194, 133], [194, 160], [225, 154, 128],
      [226, 128, 128], [226, 128, 129], [226, 128, 130], [226, 128, 131], [226, 128, 132],
      [226, 128, 133], [226, 128, 134], [226, 128, 135], [226, 128, 136], [226, 128, 137],
      [226, 128, 138], [226, 128, 168], [226, 128, 169], [226, 128, 175], [226, 129, 159],
      [227, 128, 128]]"

fun strip_bytes :: "nat list \<Rightarrow> string \<Rightarrow> string option" where
  "strip_bytes [] s = Some s"
| "strip_bytes (b # bs) [] = None"
| "strip_bytes (b # bs) (c # s) = (if byte c = b then strip_bytes bs s else None)"

fun strip_any :: "nat list list \<Rightarrow> string \<Rightarrow> string option" where
  "strip_any [] s = None"
| "strip_any (e # es) s =
     (case strip_bytes e s of Some r \<Rightarrow> Some r | None \<Rightarrow> strip_any es s)"

lemma strip_bytes_length: "strip_bytes bs s = Some r \<Longrightarrow> length s = length bs + length r"
  by (induction bs s rule: strip_bytes.induct) (auto split: if_splits)

lemma strip_any_shorter:
  "strip_any es s = Some r \<Longrightarrow> \<forall>e\<in>set es. e \<noteq> [] \<Longrightarrow> length r < length s"
  by (induction es) (auto split: option.splits dest: strip_bytes_length)

lemma whitespace_encodings_nonempty: "\<forall>e\<in>set whitespace_encodings. e \<noteq> []"
  by (simp add: whitespace_encodings_def)

lemma whitespace_rev_nonempty: "\<forall>e\<in>set (map rev whitespace_encodings). e \<noteq> []"
  by (simp add: whitespace_encodings_def)

function trim_start :: "string \<Rightarrow> string" where
  "trim_start s = (case strip_any whitespace_encodings s of None \<Rightarrow> s | Some r \<Rightarrow> trim_start r)"
  by pat_completeness auto
termination
  by (relation "measure length")
    (auto dest: strip_any_shorter [OF _ whitespace_encodings_nonempty])

function trim_end_rev :: "string \<Rightarrow> string" where
  "trim_end_rev s =
     (case strip_any (map rev whitespace_encodings) s of None \<Rightarrow> s | Some r \<Rightarrow> trim_end_rev r)"
  by pat_completeness auto
termination
  by (relation "measure length")
    (auto dest: strip_any_shorter [OF _ whitespace_rev_nonempty])

declare trim_start.simps [simp del] trim_end_rev.simps [simp del]

definition trim :: "string \<Rightarrow> string" where
  "trim s = rev (trim_end_rev (rev (trim_start s)))"

definition blank :: "string \<Rightarrow> bool" where
  "blank s = (trim s = [])"

lemma trim_Nil [simp]: "trim [] = []"
  by (simp add: trim_def trim_start.simps [of "[]"] trim_end_rev.simps [of "[]"]
      whitespace_encodings_def)

lemma blank_Nil [simp]: "blank []"
  by (simp add: blank_def)

section \<open>Prefixes and splitting\<close>

fun strip_prefix :: "string \<Rightarrow> string \<Rightarrow> string option" where
  "strip_prefix [] s = Some s"
| "strip_prefix (p # ps) [] = None"
| "strip_prefix (p # ps) (c # s) = (if p = c then strip_prefix ps s else None)"

definition starts_with :: "string \<Rightarrow> string \<Rightarrow> bool" where
  "starts_with p s = (strip_prefix p s \<noteq> None)"

lemma strip_prefix_append [simp]: "strip_prefix p (p @ s) = Some s"
  by (induction p) auto

lemma strip_prefix_SomeD: "strip_prefix p s = Some r \<Longrightarrow> s = p @ r"
  by (induction p s rule: strip_prefix.induct) (auto split: if_splits)

lemma strip_prefix_Some_iff: "strip_prefix p s = Some r \<longleftrightarrow> s = p @ r"
  using strip_prefix_SomeD by auto

lemma starts_with_iff: "starts_with p s \<longleftrightarrow> (\<exists>r. s = p @ r)"
  by (auto simp: starts_with_def strip_prefix_Some_iff)

text \<open>\<open>str::split(sep)\<close>: the pieces between separators, at least one.\<close>

fun split_on :: "char \<Rightarrow> string \<Rightarrow> string list" where
  "split_on d [] = [[]]"
| "split_on d (c # s) =
     (if c = d then [] # split_on d s
      else (case split_on d s of [] \<Rightarrow> [[c]] | p # ps \<Rightarrow> (c # p) # ps))"

text \<open>\<open>str::split_once(sep)\<close>: at the first separator.\<close>

fun split_once :: "char \<Rightarrow> string \<Rightarrow> (string \<times> string) option" where
  "split_once d [] = None"
| "split_once d (c # s) =
     (if c = d then Some ([], s) else map_option (\<lambda>(a, b). (c # a, b)) (split_once d s))"

lemma split_on_nonempty [simp]: "split_on d s \<noteq> []"
  by (induction s) (auto split: list.splits)

lemma split_on_no_sep: "d \<notin> set s \<Longrightarrow> split_on d s = [s]"
  by (induction s) auto

lemma split_on_append:
  "d \<notin> set s \<Longrightarrow> split_on d (s @ d # t) = s # split_on d t"
  by (induction s) auto

lemma split_on_two:
  assumes "split_on d s = [a, b]"
  shows "s = a @ d # b \<and> d \<notin> set a \<and> d \<notin> set b"
  using assms
proof (induction s arbitrary: a)
  case Nil
  then show ?case by simp
next
  case (Cons c s)
  have single: "split_on d t = [u] \<Longrightarrow> t = u \<and> d \<notin> set u" for t u
  proof (induction t arbitrary: u)
    case (Cons x t)
    then show ?case by (cases "split_on d t") (auto split: if_splits)
  qed auto
  show ?case
  proof (cases "c = d")
    case True
    with Cons.prems single [of s b] show ?thesis by auto
  next
    case False
    with Cons show ?thesis by (auto split: list.splits)
  qed
qed

lemma split_once_Some: "split_once d s = Some (a, b) \<Longrightarrow> s = a @ d # b \<and> d \<notin> set a"
  by (induction s arbitrary: a b) (auto split: if_splits)

lemma split_once_append: "d \<notin> set a \<Longrightarrow> split_once d (a @ d # b) = Some (a, b)"
  by (induction a) auto

section \<open>Integer parsing\<close>

definition digit_value :: "char \<Rightarrow> nat" where
  "digit_value c = byte c - 48"

definition digits_value :: "string \<Rightarrow> nat" where
  "digits_value s = foldl (\<lambda>n c. 10 * n + digit_value c) 0 s"

definition parse_digits :: "string \<Rightarrow> nat option" where
  "parse_digits s =
     (if s \<noteq> [] \<and> list_all is_ascii_digit s then Some (digits_value s) else None)"

text \<open>
  \<open>str::parse::<u64>\<close> accepts one leading plus sign; \<open>parse::<i64>\<close> and \<open>parse::<i128>\<close> accept a
  leading plus or minus sign; each fails on an empty digit sequence and outside its range.
\<close>

definition parse_unsigned :: "nat \<Rightarrow> string \<Rightarrow> nat option" where
  "parse_unsigned bound s =
     (case parse_digits (case s of c # r \<Rightarrow> if c = CHR ''+'' then r else s | [] \<Rightarrow> [])
      of None \<Rightarrow> None | Some n \<Rightarrow> if n \<le> bound then Some n else None)"

definition parse_signed :: "int \<Rightarrow> int \<Rightarrow> string \<Rightarrow> int option" where
  "parse_signed lo hi s =
     (case (case s of
              [] \<Rightarrow> None
            | c # r \<Rightarrow>
                (if c = CHR ''-'' then map_option (\<lambda>n. - int n) (parse_digits r)
                 else if c = CHR ''+'' then map_option int (parse_digits r)
                 else map_option int (parse_digits s)))
      of None \<Rightarrow> None | Some n \<Rightarrow> if lo \<le> n \<and> n \<le> hi then Some n else None)"

definition parse_u64 :: "string \<Rightarrow> nat option" where
  "parse_u64 = parse_unsigned u64_max"

definition parse_i64 :: "string \<Rightarrow> int option" where
  "parse_i64 = parse_signed i64_min i64_max"

definition parse_i128 :: "string \<Rightarrow> int option" where
  "parse_i128 = parse_signed (- (2 ^ 127)) (2 ^ 127 - 1)"

lemma parse_u64_bound: "parse_u64 s = Some n \<Longrightarrow> n \<le> u64_max"
  by (auto simp: parse_u64_def parse_unsigned_def split: option.splits if_splits)

lemma parse_i64_bound: "parse_i64 s = Some n \<Longrightarrow> i64_min \<le> n \<and> n \<le> i64_max"
  by (auto simp: parse_i64_def parse_signed_def split: option.splits if_splits list.splits)

end
