(* ===== verification/Float64.thy ===== *)
theory Float64
  imports Rust_Strings "HOL-Library.Log_Nat"
begin

text \<open>
  Rust's \<open>f64\<close>: IEEE 754 binary64, round to nearest, ties to even.  A finite value is the rational it
  denotes.  The two zeros are one value here: they compare equal, and no code modelled divides by a
  value that can be zero, takes its sign bit or prints it, so the sign of a zero is unobservable.
  Each operation computes exactly and rounds once (\<open>f64_round\<close>), which is the definition of the
  standard's correctly rounded operations.
\<close>

datatype f64 = F_NaN | F_Inf bool | F_Fin rat

text \<open>\<open>F_Inf True\<close> is minus infinity.\<close>

definition pow2 :: "int \<Rightarrow> rat" where
  "pow2 e = (if 0 \<le> e then 2 ^ nat e else 1 / 2 ^ nat (- e))"

text \<open>The exponent \<open>e\<close> with \<open>2^e \<le> x < 2^(e+1)\<close>, for positive \<open>x\<close>.\<close>

definition ilog2 :: "rat \<Rightarrow> int" where
  "ilog2 x =
     (let (p, q) = quotient_of x; e = bitlen p - bitlen q
      in if pow2 e \<le> x then e else e - 1)"

definition round_half_even :: "rat \<Rightarrow> int" where
  "round_half_even x =
     (let f = \<lfloor>x\<rfloor>; d = x - of_int f
      in if d < 1 / 2 then f else if 1 / 2 < d then f + 1 else if even f then f else f + 1)"

definition f64_round :: "rat \<Rightarrow> f64" where
  "f64_round x =
     (if x = 0 then F_Fin 0
      else let u = pow2 (max (ilog2 \<bar>x\<bar> - 52) (- 1074));
               r = of_int (round_half_even (x / u)) * u
           in if pow2 1024 \<le> \<bar>r\<bar> then F_Inf (x < 0) else F_Fin r)"

definition f64_of_nat :: "nat \<Rightarrow> f64" where
  "f64_of_nat n = f64_round (of_nat n)"

fun f64_neg :: "f64 \<Rightarrow> f64" where
  "f64_neg F_NaN = F_NaN"
| "f64_neg (F_Inf s) = F_Inf (\<not> s)"
| "f64_neg (F_Fin x) = F_Fin (- x)"

fun f64_add :: "f64 \<Rightarrow> f64 \<Rightarrow> f64" where
  "f64_add (F_Fin x) (F_Fin y) = f64_round (x + y)"
| "f64_add F_NaN _ = F_NaN"
| "f64_add _ F_NaN = F_NaN"
| "f64_add (F_Inf s) (F_Inf t) = (if s = t then F_Inf s else F_NaN)"
| "f64_add (F_Inf s) _ = F_Inf s"
| "f64_add _ (F_Inf t) = F_Inf t"

definition f64_sub :: "f64 \<Rightarrow> f64 \<Rightarrow> f64" where
  "f64_sub a b = f64_add a (f64_neg b)"

fun f64_mul :: "f64 \<Rightarrow> f64 \<Rightarrow> f64" where
  "f64_mul (F_Fin x) (F_Fin y) = f64_round (x * y)"
| "f64_mul F_NaN _ = F_NaN"
| "f64_mul _ F_NaN = F_NaN"
| "f64_mul (F_Inf s) (F_Inf t) = F_Inf (s \<noteq> t)"
| "f64_mul (F_Inf s) (F_Fin y) = (if y = 0 then F_NaN else F_Inf (s \<noteq> (y < 0)))"
| "f64_mul (F_Fin x) (F_Inf t) = (if x = 0 then F_NaN else F_Inf (t \<noteq> (x < 0)))"

text \<open>Division; the divisor of every division in the code is a positive finite number.\<close>

fun f64_div :: "f64 \<Rightarrow> f64 \<Rightarrow> f64" where
  "f64_div (F_Fin x) (F_Fin y) =
     (if y = 0 then (if x = 0 then F_NaN else F_Inf (x < 0)) else f64_round (x / y))"
| "f64_div F_NaN _ = F_NaN"
| "f64_div _ F_NaN = F_NaN"
| "f64_div (F_Inf s) (F_Inf t) = F_NaN"
| "f64_div (F_Inf s) (F_Fin y) = F_Inf (s \<noteq> (y < 0))"
| "f64_div (F_Fin x) (F_Inf t) = F_Fin 0"

fun f64_abs :: "f64 \<Rightarrow> f64" where
  "f64_abs F_NaN = F_NaN"
| "f64_abs (F_Inf s) = F_Inf False"
| "f64_abs (F_Fin x) = F_Fin \<bar>x\<bar>"

text \<open>Comparisons are false when an operand is a NaN.\<close>

fun f64_le :: "f64 \<Rightarrow> f64 \<Rightarrow> bool" where
  "f64_le (F_Fin x) (F_Fin y) = (x \<le> y)"
| "f64_le F_NaN _ = False"
| "f64_le _ F_NaN = False"
| "f64_le (F_Inf s) (F_Inf t) = (s \<or> \<not> t)"
| "f64_le (F_Inf s) (F_Fin _) = s"
| "f64_le (F_Fin _) (F_Inf t) = (\<not> t)"

definition f64_lt :: "f64 \<Rightarrow> f64 \<Rightarrow> bool" where
  "f64_lt a b = (f64_le a b \<and> \<not> f64_le b a)"

text \<open>\<open>f64::max\<close> returns the other operand when one is a NaN.\<close>

definition f64_max :: "f64 \<Rightarrow> f64 \<Rightarrow> f64" where
  "f64_max a b = (if a = F_NaN then b else if b = F_NaN then a else if f64_le a b then b else a)"

definition is_finite :: "f64 \<Rightarrow> bool" where
  "is_finite a = (case a of F_Fin _ \<Rightarrow> True | _ \<Rightarrow> False)"

definition is_normal :: "f64 \<Rightarrow> bool" where
  "is_normal a = (case a of F_Fin x \<Rightarrow> pow2 (- 1022) \<le> \<bar>x\<bar> | _ \<Rightarrow> False)"

text \<open>
  \<open>f64::from_str\<close>: an optional sign, then \<open>inf\<close>, \<open>infinity\<close> or \<open>nan\<close> in any case, or digits with at
  most one point (and at least one digit) and an optional exponent, rounded once.
\<close>

definition split_sign :: "string \<Rightarrow> bool \<times> string" where
  "split_sign s =
     (case s of c # r \<Rightarrow> if c = CHR ''-'' then (True, r) else if c = CHR ''+'' then (False, r)
                       else (False, s)
      | [] \<Rightarrow> (False, []))"

definition parse_mantissa :: "string \<Rightarrow> rat option" where
  "parse_mantissa s =
     (let w = takeWhile (\<lambda>c. c \<noteq> CHR ''.'') s; f = drop (Suc (length w)) s in
      if list_all is_ascii_digit (w @ f) \<and> w @ f \<noteq> []
      then Some (of_nat (digits_value (w @ f)) / 10 ^ length f) else None)"

definition parse_exponent :: "string \<Rightarrow> int option" where
  "parse_exponent s =
     (let (neg, r) = split_sign s in
      map_option (\<lambda>n. if neg then - int n else int n) (parse_digits r))"

definition pow10 :: "int \<Rightarrow> rat" where
  "pow10 e = (if 0 \<le> e then 10 ^ nat e else 1 / 10 ^ nat (- e))"

definition parse_number :: "string \<Rightarrow> rat option" where
  "parse_number s =
     (let m = takeWhile (\<lambda>c. to_ascii_uppercase c \<noteq> CHR ''E'') s in
      if m = s then parse_mantissa m
      else (case (parse_mantissa m, parse_exponent (drop (Suc (length m)) s)) of
              (Some x, Some e) \<Rightarrow> Some (x * pow10 e)
            | _ \<Rightarrow> None))"

definition parse_f64 :: "string \<Rightarrow> f64 option" where
  "parse_f64 s =
     (let (neg, r) = split_sign s; u = map to_ascii_uppercase r in
      if u = ''INF'' \<or> u = ''INFINITY'' then Some (F_Inf neg)
      else if u = ''NAN'' then Some F_NaN
      else map_option (\<lambda>x. f64_round (if neg then - x else x)) (parse_number r))"

abbreviation f64_zero :: f64 where
  "f64_zero \<equiv> F_Fin 0"

section \<open>Facts\<close>

lemma pow2_pos [simp]: "0 < pow2 e"
  by (simp add: pow2_def)

lemma f64_lt_Fin [simp]: "f64_lt (F_Fin x) (F_Fin y) \<longleftrightarrow> x < y"
  by (auto simp: f64_lt_def)

lemma is_finite_Fin [simp]: "is_finite (F_Fin x)"
  by (simp add: is_finite_def)

lemma is_finiteE: "is_finite a \<Longrightarrow> (\<And>x. a = F_Fin x \<Longrightarrow> P) \<Longrightarrow> P"
  by (cases a) (auto simp: is_finite_def)

lemma round_half_even_of_int [simp]: "round_half_even (of_int n) = n"
  by (simp add: round_half_even_def)

lemma round_half_even_mono:
  assumes "x \<le> y" shows "round_half_even x \<le> round_half_even y"
proof (cases "\<lfloor>x\<rfloor> = \<lfloor>y\<rfloor>")
  case True
  with assms show ?thesis by (auto simp: round_half_even_def Let_def)
next
  case False
  moreover have "\<lfloor>x\<rfloor> \<le> \<lfloor>y\<rfloor>" using assms by (rule floor_mono)
  ultimately have "\<lfloor>x\<rfloor> + 1 \<le> \<lfloor>y\<rfloor>" by simp
  moreover have "round_half_even x \<le> \<lfloor>x\<rfloor> + 1" and "\<lfloor>y\<rfloor> \<le> round_half_even y"
    by (auto simp: round_half_even_def Let_def)
  ultimately show ?thesis by linarith
qed

lemma round_half_even_nonneg: "0 \<le> x \<Longrightarrow> 0 \<le> round_half_even x"
  using round_half_even_mono [of 0 x] round_half_even_of_int [of 0] by simp

lemma f64_round_nonneg:
  assumes "0 \<le> x" shows "f64_le f64_zero (f64_round x)"
proof (cases "x = 0")
  case False
  let ?u = "pow2 (max (ilog2 \<bar>x\<bar> - 52) (- 1074))"
  have "0 \<le> (of_int (round_half_even (x / ?u)) :: rat)"
    using assms by (simp add: round_half_even_nonneg less_imp_le)
  then have "0 \<le> of_int (round_half_even (x / ?u)) * ?u"
    by (rule mult_nonneg_nonneg) (simp add: less_imp_le)
  with False assms show ?thesis by (simp add: f64_round_def Let_def)
qed (simp add: f64_round_def)

lemma is_normal_finite: "is_normal a \<Longrightarrow> is_finite a"
  by (cases a) (auto simp: is_normal_def)

text \<open>Small integers are exact.\<close>

lemma f64_round_of_int:
  assumes "0 < n" and "n < 2 ^ 53"
  shows "f64_round (of_int n) = F_Fin (of_int n)"
proof -
  have "2 ^ nat (bitlen n - 1) < (2 ^ 53 :: int)"
    using bitlen_bounds [OF assms(1)] assms(2) by linarith
  then have "nat (bitlen n - 1) < 53" by (rule power_less_imp_less_exp [rotated]) simp
  then have "bitlen n \<le> 53" by linarith
  moreover have one: "bitlen 1 = 1" by (simp add: bitlen_def compute_floorlog)
  ultimately have e: "ilog2 (of_int n) \<le> 52"
    using assms(1) one by (simp add: ilog2_def Let_def)
  define k where "k = max (ilog2 (of_int n) - 52) (- 1074)"
  have k: "k \<le> 0" using e by (simp add: k_def)
  then have p: "pow2 k * 2 ^ nat (- k) = 1" by (simp add: pow2_def)
  have x: "of_int n / pow2 k = (of_int (n * 2 ^ nat (- k)) :: rat)"
    using k by (auto simp: pow2_def)
  have "of_int (round_half_even (of_int n / pow2 k)) * pow2 k = (of_int n * (pow2 k * 2 ^ nat (- k)) :: rat)"
    unfolding x round_half_even_of_int by (simp add: algebra_simps)
  then have r: "of_int (round_half_even (of_int n / pow2 k)) * pow2 k = (of_int n :: rat)"
    by (simp only: p mult_1_right)
  have small: "(of_int n :: rat) < 2 ^ 53"
    using assms(2) by (metis of_int_less_iff of_int_numeral of_int_power)
  also have "(2 :: rat) ^ 53 \<le> 2 ^ 1024" by (rule power_increasing) simp_all
  finally have "\<not> pow2 1024 \<le> \<bar>of_int n :: rat\<bar>" using assms(1) by (simp add: pow2_def)
  with r assms(1) show ?thesis
    by (simp add: f64_round_def Let_def k_def [symmetric])
qed

lemma f64_round_zero [simp]: "f64_round 0 = F_Fin 0"
  by (simp add: f64_round_def)

lemma f64_round_one [simp]: "f64_round 1 = F_Fin 1"
  using f64_round_of_int [of 1] by simp

lemma f64_round_numeral [simp]:
  "(numeral k :: int) < 2 ^ 53 \<Longrightarrow> f64_round (numeral k) = F_Fin (numeral k)"
  using f64_round_of_int [of "numeral k"] by simp

end
