(* ===== verification/Decimal_Ops.thy ===== *)
theory Decimal_Ops
  imports Float64
begin

text \<open>
  \<open>rust_decimal::Decimal\<close> is a third-party type: its arithmetic is a parameter of the model.

  A decimal is represented by the rational it denotes (the crate documents a value as
  \<open>m / 10^s\<close> with a 96-bit \<open>m\<close> and \<open>s \<le> 28\<close>, and compares decimals by value), so the order, equality,
  \<open>min\<close>, \<open>max\<close>, negation and \<open>abs\<close> are those of the rationals.  The operations that may round or
  overflow, and the conversions (from and to text and \<open>f64\<close>), are fields of \<open>decimal_ops\<close>: \<open>None\<close> is what \<open>checked_add\<close> and its
  kin return on overflow (or on division by zero), and what makes the operators panic.

  \<open>decimal_laws\<close> states the documented behaviour the development relies on: an operation whose exact
  result is a decimal returns it, and division by zero is refused.  \<open>exact_decimal\<close> is a concrete
  instance (unbounded exact arithmetic) on which the witnesses evaluate.
\<close>

type_synonym decimal = rat

record decimal_ops =
  d_add :: "decimal \<Rightarrow> decimal \<Rightarrow> decimal option"
  d_sub :: "decimal \<Rightarrow> decimal \<Rightarrow> decimal option"
  d_mul :: "decimal \<Rightarrow> decimal \<Rightarrow> decimal option"
  d_div :: "decimal \<Rightarrow> decimal \<Rightarrow> decimal option"
  d_floor :: "decimal \<Rightarrow> decimal"
  d_ceil :: "decimal \<Rightarrow> decimal"
  d_parse :: "string \<Rightarrow> decimal option"
  d_show :: "decimal \<Rightarrow> string"
  d_from_f64 :: "f64 \<Rightarrow> decimal option"
  d_to_f64 :: "decimal \<Rightarrow> f64 option"

section \<open>The operators, which panic where the checked operation fails\<close>

definition or_panic :: "'a option \<Rightarrow> 'e fault + 'a" where
  "or_panic x = ok_or Panic x"

definition dec_add :: "decimal_ops \<Rightarrow> decimal \<Rightarrow> decimal \<Rightarrow> 'e fault + decimal" where
  "dec_add D a b = or_panic (d_add D a b)"

definition dec_sub :: "decimal_ops \<Rightarrow> decimal \<Rightarrow> decimal \<Rightarrow> 'e fault + decimal" where
  "dec_sub D a b = or_panic (d_sub D a b)"

definition dec_mul :: "decimal_ops \<Rightarrow> decimal \<Rightarrow> decimal \<Rightarrow> 'e fault + decimal" where
  "dec_mul D a b = or_panic (d_mul D a b)"

definition dec_div :: "decimal_ops \<Rightarrow> decimal \<Rightarrow> decimal \<Rightarrow> 'e fault + decimal" where
  "dec_div D a b = or_panic (d_div D a b)"

text \<open>\<open>Iterator::sum::<Decimal>\<close>: left to right from zero.\<close>

definition dec_sum :: "decimal_ops \<Rightarrow> decimal list \<Rightarrow> 'e fault + decimal" where
  "dec_sum D xs = try_fold (dec_add D) 0 xs"

lemma or_panic_eq_Inr [simp]: "or_panic x = Inr v \<longleftrightarrow> x = Some v"
  by (simp add: or_panic_def)

lemma or_panic_Some [simp]: "or_panic (Some v) = Inr v"
  by (simp add: or_panic_def)

lemmas dec_ops_defs = dec_add_def dec_sub_def dec_mul_def dec_div_def

lemma dec_ops_fail [fail_rules]:
  "fails_only P (dec_add D a b)" "fails_only P (dec_sub D a b)"
  "fails_only P (dec_mul D a b)" "fails_only P (dec_div D a b)" "fails_only P (dec_sum D xs)"
  by (auto simp: dec_add_def dec_sub_def dec_mul_def dec_div_def dec_sum_def or_panic_def
      intro!: fail_rules)

section \<open>Documented laws and the exact instance\<close>

definition representable :: "decimal \<Rightarrow> bool" where
  "representable x =
     (\<exists>(m::int) (s::nat). s \<le> 28 \<and> \<bar>m\<bar> < 2 ^ 96 \<and> x = of_int m / 10 ^ s)"

definition decimal_laws :: "decimal_ops \<Rightarrow> bool" where
  "decimal_laws D =
     ((\<forall>a b. representable a \<longrightarrow> representable b \<longrightarrow> representable (a + b) \<longrightarrow>
         d_add D a b = Some (a + b)) \<and>
      (\<forall>a b. representable a \<longrightarrow> representable b \<longrightarrow> representable (a - b) \<longrightarrow>
         d_sub D a b = Some (a - b)) \<and>
      (\<forall>a b. representable a \<longrightarrow> representable b \<longrightarrow> representable (a * b) \<longrightarrow>
         d_mul D a b = Some (a * b)) \<and>
      (\<forall>a b. representable a \<longrightarrow> representable b \<longrightarrow> b \<noteq> 0 \<longrightarrow> representable (a / b) \<longrightarrow>
         d_div D a b = Some (a / b)) \<and>
      (\<forall>a. d_div D a 0 = None) \<and>
      (\<forall>a. representable a \<longrightarrow> d_floor D a = of_int \<lfloor>a\<rfloor>) \<and>
      (\<forall>a. representable a \<longrightarrow> d_ceil D a = of_int \<lceil>a\<rceil>))"

text \<open>
  A simple decimal reader and printer complete the exact instance; no law speaks about them.  The
  reader accepts an optional minus sign, digits and at most one point.
\<close>

definition ascii_digits :: "string \<Rightarrow> bool" where
  "ascii_digits s = (s \<noteq> [] \<and> list_all (\<lambda>c. 48 \<le> (of_char c :: nat) \<and> of_char c \<le> (57 :: nat)) s)"

definition digits_nat :: "string \<Rightarrow> nat" where
  "digits_nat s = foldl (\<lambda>n c. 10 * n + (of_char c - 48)) 0 s"

definition read_unsigned :: "string \<Rightarrow> decimal option" where
  "read_unsigned s =
     (let w = takeWhile (\<lambda>c. c \<noteq> CHR ''.'') s; f = drop (Suc (length w)) s in
      if s = w then (if ascii_digits w then Some (of_nat (digits_nat w)) else None)
      else if ascii_digits w \<and> ascii_digits f
        then Some (of_nat (digits_nat (w @ f)) / 10 ^ length f) else None)"

definition read_decimal :: "string \<Rightarrow> decimal option" where
  "read_decimal s =
     (case s of c # r \<Rightarrow> if c = CHR ''-'' then map_option uminus (read_unsigned r)
                       else read_unsigned s
      | [] \<Rightarrow> None)"

definition exact_decimal :: decimal_ops where
  "exact_decimal =
     \<lparr> d_add = (\<lambda>a b. Some (a + b)), d_sub = (\<lambda>a b. Some (a - b)), d_mul = (\<lambda>a b. Some (a * b)),
       d_div = (\<lambda>a b. if b = 0 then None else Some (a / b)),
       d_floor = (\<lambda>a. of_int \<lfloor>a\<rfloor>), d_ceil = (\<lambda>a. of_int \<lceil>a\<rceil>),
       d_parse = read_decimal, d_show = (\<lambda>_. []),
       d_from_f64 = (\<lambda>v. case v of F_Fin x \<Rightarrow> Some x | _ \<Rightarrow> None),
       d_to_f64 = (\<lambda>x. Some (f64_round x)) \<rparr>"

lemma exact_decimal_simps [simp]:
  "d_add exact_decimal a b = Some (a + b)"
  "d_sub exact_decimal a b = Some (a - b)"
  "d_mul exact_decimal a b = Some (a * b)"
  "d_div exact_decimal a b = (if b = 0 then None else Some (a / b))"
  "d_floor exact_decimal a = of_int \<lfloor>a\<rfloor>"
  "d_ceil exact_decimal a = of_int \<lceil>a\<rceil>"
  "d_parse exact_decimal = read_decimal"
  "d_show exact_decimal a = []"
  "d_from_f64 exact_decimal (F_Fin a) = Some a"
  "d_to_f64 exact_decimal a = Some (f64_round a)"
  by (simp_all add: exact_decimal_def)

lemma exact_decimal_laws: "decimal_laws exact_decimal"
  by (simp add: decimal_laws_def)

lemma decimal_laws_add:
  "decimal_laws D \<Longrightarrow> representable a \<Longrightarrow> representable b \<Longrightarrow> representable (a + b) \<Longrightarrow>
    d_add D a b = Some (a + b)"
  by (simp add: decimal_laws_def)

lemma decimal_laws_sub:
  "decimal_laws D \<Longrightarrow> representable a \<Longrightarrow> representable b \<Longrightarrow> representable (a - b) \<Longrightarrow>
    d_sub D a b = Some (a - b)"
  by (simp add: decimal_laws_def)

lemma decimal_laws_mul:
  "decimal_laws D \<Longrightarrow> representable a \<Longrightarrow> representable b \<Longrightarrow> representable (a * b) \<Longrightarrow>
    d_mul D a b = Some (a * b)"
  by (simp add: decimal_laws_def)

lemma decimal_laws_div:
  "decimal_laws D \<Longrightarrow> representable a \<Longrightarrow> representable b \<Longrightarrow> b \<noteq> 0 \<Longrightarrow> representable (a / b) \<Longrightarrow>
    d_div D a b = Some (a / b)"
  by (simp add: decimal_laws_def)

lemma decimal_laws_div_zero: "decimal_laws D \<Longrightarrow> d_div D a 0 = None"
  by (simp add: decimal_laws_def)

lemma decimal_laws_floor: "decimal_laws D \<Longrightarrow> representable a \<Longrightarrow> d_floor D a = of_int \<lfloor>a\<rfloor>"
  by (simp add: decimal_laws_def)

lemma decimal_laws_ceil: "decimal_laws D \<Longrightarrow> representable a \<Longrightarrow> d_ceil D a = of_int \<lceil>a\<rceil>"
  by (simp add: decimal_laws_def)

lemma representable_of_int: "\<bar>n\<bar> < 2 ^ 96 \<Longrightarrow> representable (of_int n)"
  unfolding representable_def by (rule exI [of _ n], rule exI [of _ 0]) simp

lemma representable_fraction:
  "s \<le> 28 \<Longrightarrow> \<bar>m\<bar> < 2 ^ 96 \<Longrightarrow> representable (of_int m / 10 ^ s)"
  unfolding representable_def by blast

end
