(* ===== verification/Okx_Types.thy ===== *)
theory Okx_Types
  imports Decimal_Ops
begin

text \<open>
  \<open>okx/types.rs\<close>: the data OKX returns and its validation.

  A record keeps the strings of the API; the getters parse them.  An \<open>anyhow\<close> error is only ever
  displayed, so it is represented by its context and its reason.  Results are \<open>rt_error fault + 'a\<close>
  where \<open>Decimal\<close> operators may panic.
\<close>

datatype rt_error = Bad string string

type_synonym 'a res = "rt_error fault + 'a"

definition require :: "bool \<Rightarrow> string \<Rightarrow> string \<Rightarrow> unit res" where
  "require b context reason = ensure b (Fail (Bad context reason))"

lemma require_eq_Inr [simp]: "require b c r = Inr u \<longleftrightarrow> b"
  by (simp add: require_def)

lemma require_eq_Inl [simp]: "require b c r = Inl e \<longleftrightarrow> \<not> b \<and> e = Fail (Bad c r)"
  by (auto simp: require_def)

lemma require_simps [simp]: "require True c r = Inr ()" "require False c r = Inl (Fail (Bad c r))"
  by (simp_all add: require_def)

section \<open>Field parsers\<close>

definition parse_decimal :: "decimal_ops \<Rightarrow> string \<Rightarrow> string \<Rightarrow> decimal res" where
  "parse_decimal D context v = ok_or (Fail (Bad context ''must be a decimal'')) (d_parse D v)"

definition parse_positive_decimal :: "decimal_ops \<Rightarrow> string \<Rightarrow> string \<Rightarrow> decimal res" where
  "parse_positive_decimal D context v =
     rbind (ok_or (Fail (Bad context ''must be a decimal'')) (d_parse D v)) (\<lambda>parsed.
     rbind (require (parsed > 0) context ''must be positive'') (\<lambda>_. Inr parsed))"

definition parse_non_negative_decimal :: "decimal_ops \<Rightarrow> string \<Rightarrow> string \<Rightarrow> decimal res" where
  "parse_non_negative_decimal D context v =
     rbind (parse_decimal D context v) (\<lambda>parsed.
     rbind (require (parsed \<ge> 0) context ''must be non-negative'') (\<lambda>_. Inr parsed))"

definition parse_optional_positive_decimal ::
    "decimal_ops \<Rightarrow> string \<Rightarrow> string \<Rightarrow> decimal option res" where
  "parse_optional_positive_decimal D context v =
     (if blank v then Inr None
      else rbind (parse_positive_decimal D context v) (\<lambda>x. Inr (Some x)))"

definition parse_timestamp_ms :: "string \<Rightarrow> string \<Rightarrow> int res" where
  "parse_timestamp_ms context v =
     rbind (ok_or (Fail (Bad context ''must be an integer timestamp'')) (parse_i64 v)) (\<lambda>t.
     rbind (require (t > 0) context ''must be positive'') (\<lambda>_. Inr t))"

definition validate_fee_group_id :: "string \<Rightarrow> string \<Rightarrow> unit res" where
  "validate_fee_group_id context v =
     rbind (require (v \<noteq> []) context ''must be provided'') (\<lambda>_.
     rbind (require (v = trim v) context ''must not contain surrounding whitespace'') (\<lambda>_.
     rbind (require (list_all is_ascii_digit v) context
              ''must contain only ASCII decimal digits'') (\<lambda>_.
     rbind (ok_or (Fail (Bad context ''must fit in an unsigned 64-bit integer'')) (parse_u64 v))
       (\<lambda>parsed. require (parsed > 0) context ''must be positive''))))"

definition is_okx_asset_code :: "string \<Rightarrow> bool" where
  "is_okx_asset_code v =
     (2 \<le> length v \<and> length v \<le> 12 \<and>
      list_all (\<lambda>c. is_ascii_uppercase c \<or> is_ascii_digit c) v)"

definition ensure_max_size :: "string \<Rightarrow> decimal \<Rightarrow> decimal option \<Rightarrow> string \<Rightarrow> unit res" where
  "ensure_max_size context sz max_size okx_field =
     (case max_size of None \<Rightarrow> Inr ()
      | Some m \<Rightarrow> require (sz \<le> m) context (''exceeds OKX '' @ okx_field))"

section \<open>Candles\<close>

record MarketBar =
  mb_ts_ms :: int
  mb_open :: f64
  mb_high :: f64
  mb_low :: f64
  mb_close :: f64
  mb_confirm :: bool

definition ensure_positive_finite_candle_value :: "string \<Rightarrow> string \<Rightarrow> f64 \<Rightarrow> unit res" where
  "ensure_positive_finite_candle_value context name v =
     require (is_finite v \<and> f64_lt f64_zero v) (context @ '' '' @ name)
       ''must be finite and positive''"

definition market_bar_validate :: "MarketBar \<Rightarrow> string \<Rightarrow> unit res" where
  "market_bar_validate b context =
     rbind (require (mb_ts_ms b > 0) context ''ts must be positive'') (\<lambda>_.
     rbind (ensure_positive_finite_candle_value context ''open'' (mb_open b)) (\<lambda>_.
     rbind (ensure_positive_finite_candle_value context ''high'' (mb_high b)) (\<lambda>_.
     rbind (ensure_positive_finite_candle_value context ''low'' (mb_low b)) (\<lambda>_.
     rbind (ensure_positive_finite_candle_value context ''close'' (mb_close b)) (\<lambda>_.
     rbind (require (f64_le (mb_open b) (mb_high b)) context ''high must be at least open'') (\<lambda>_.
     rbind (require (f64_le (mb_close b) (mb_high b)) context ''high must be at least close'') (\<lambda>_.
     rbind (require (f64_le (mb_low b) (mb_high b)) context ''high must be at least low'') (\<lambda>_.
     rbind (require (f64_le (mb_low b) (mb_open b)) context ''low must be at most open'') (\<lambda>_.
     rbind (require (f64_le (mb_low b) (mb_close b)) context ''low must be at most close'') (\<lambda>_.
     require (f64_le (mb_low b) (mb_high b)) context ''low must be at most high''))))))))))"

definition candle_field :: "(string \<Rightarrow> 'a option) \<Rightarrow> string list \<Rightarrow> nat \<Rightarrow> string \<Rightarrow> 'a res" where
  "candle_field parse values index name =
     rbind (if index < length values then Inr (values ! index)
            else Inl (Fail (Bad ''OKX candle'' (''missing '' @ name)))) (\<lambda>v.
     ok_or (Fail (Bad ''OKX candle'' (''invalid '' @ name))) (parse v))"

definition parse_confirm_flag :: "string list \<Rightarrow> bool res" where
  "parse_confirm_flag values =
     (if 8 < length values then
        (if values ! 8 = ''0'' then Inr False
         else if values ! 8 = ''1'' then Inr True
         else Inl (Fail (Bad ''OKX candle'' ''confirm flag must be 0 or 1'')))
      else Inl (Fail (Bad ''OKX candle'' ''missing confirm field'')))"

text \<open>\<open>MarketBar::deserialize\<close>, from the string array serde delivers.\<close>

definition market_bar_deserialize :: "string list \<Rightarrow> MarketBar res" where
  "market_bar_deserialize values =
     (if length values < 9 then
        Inl (Fail (Bad ''OKX candle'' ''payload must contain at least 9 fields''))
      else
        rbind (candle_field parse_i64 values 0 ''ts'') (\<lambda>ts.
        rbind (candle_field parse_f64 values 1 ''open'') (\<lambda>open_px.
        rbind (candle_field parse_f64 values 2 ''high'') (\<lambda>hi.
        rbind (candle_field parse_f64 values 3 ''low'') (\<lambda>lo.
        rbind (candle_field parse_f64 values 4 ''close'') (\<lambda>cl.
        rbind (parse_confirm_flag values) (\<lambda>confirm.
        let bar = \<lparr> mb_ts_ms = ts, mb_open = open_px, mb_high = hi, mb_low = lo, mb_close = cl,
                    mb_confirm = confirm \<rparr> in
        rbind (market_bar_validate bar ''OKX candle'') (\<lambda>_. Inr bar))))))))"

section \<open>Tickers\<close>

record OkxTicker =
  tk_inst_type :: string
  tk_inst_id :: string
  tk_bid_px :: string
  tk_ask_px :: string
  tk_last :: string

definition bid_decimal :: "decimal_ops \<Rightarrow> OkxTicker \<Rightarrow> decimal res" where
  "bid_decimal D t = parse_positive_decimal D ''OKX ticker bidPx'' (tk_bid_px t)"

definition ask_decimal :: "decimal_ops \<Rightarrow> OkxTicker \<Rightarrow> decimal res" where
  "ask_decimal D t = parse_positive_decimal D ''OKX ticker askPx'' (tk_ask_px t)"

definition last_decimal :: "decimal_ops \<Rightarrow> OkxTicker \<Rightarrow> decimal res" where
  "last_decimal D t = parse_positive_decimal D ''OKX ticker last'' (tk_last t)"

definition validate_prices :: "decimal_ops \<Rightarrow> OkxTicker \<Rightarrow> unit res" where
  "validate_prices D t =
     rbind (bid_decimal D t) (\<lambda>_. rbind (ask_decimal D t) (\<lambda>_.
     rbind (last_decimal D t) (\<lambda>_. Inr ())))"

definition ticker_bid :: "decimal_ops \<Rightarrow> OkxTicker \<Rightarrow> f64 res" where
  "ticker_bid D t =
     rbind (bid_decimal D t) (\<lambda>x.
     ok_or (Fail (Bad ''OKX ticker bidPx'' ''cannot be represented as f64'')) (d_to_f64 D x))"

definition ticker_last :: "decimal_ops \<Rightarrow> OkxTicker \<Rightarrow> f64 res" where
  "ticker_last D t =
     rbind (last_decimal D t) (\<lambda>x.
     ok_or (Fail (Bad ''OKX ticker last'' ''cannot be represented as f64'')) (d_to_f64 D x))"

section \<open>Instruments\<close>

record OkxInstrument =
  oi_inst_type :: string
  oi_inst_id :: string
  oi_group_id :: string
  oi_inst_id_code :: "nat option"
  oi_state :: string
  oi_base_ccy :: string
  oi_quote_ccy :: string
  oi_trade_quote_currencies :: "string list"
  oi_tick_size :: string
  oi_lot_size :: string
  oi_min_size :: string
  oi_max_limit_size :: string
  oi_max_limit_amount :: string
  oi_max_market_size :: string
  oi_max_market_amount :: string
  oi_max_trigger_size :: string
  oi_initial_price_limit_pct :: string
  oi_float_price_limit_pct :: string
  oi_maximum_price_limit_pct :: string

definition fee_group_id :: "OkxInstrument \<Rightarrow> string res" where
  "fee_group_id i =
     rbind (validate_fee_group_id ''OKX instrument groupId'' (oi_group_id i)) (\<lambda>_.
     Inr (oi_group_id i))"

definition websocket_inst_id_code :: "OkxInstrument \<Rightarrow> nat option res" where
  "websocket_inst_id_code i =
     (case oi_inst_id_code i of None \<Rightarrow> Inr None
      | Some code \<Rightarrow>
          rbind (require (code > 0) (oi_inst_id i) ''instIdCode must be positive'') (\<lambda>_.
          Inr (Some code)))"

definition ensure_live :: "OkxInstrument \<Rightarrow> unit res" where
  "ensure_live i = require (oi_state i = ''live'') (oi_inst_id i) ''state is not live''"

definition tick_size :: "decimal_ops \<Rightarrow> OkxInstrument \<Rightarrow> decimal res" where
  "tick_size D i = parse_positive_decimal D ''OKX instrument tickSz'' (oi_tick_size i)"

definition lot_size :: "decimal_ops \<Rightarrow> OkxInstrument \<Rightarrow> decimal res" where
  "lot_size D i = parse_positive_decimal D ''OKX instrument lotSz'' (oi_lot_size i)"

definition min_size :: "decimal_ops \<Rightarrow> OkxInstrument \<Rightarrow> decimal res" where
  "min_size D i = parse_positive_decimal D ''OKX instrument minSz'' (oi_min_size i)"

definition max_limit_size :: "decimal_ops \<Rightarrow> OkxInstrument \<Rightarrow> decimal option res" where
  "max_limit_size D i =
     parse_optional_positive_decimal D ''OKX instrument maxLmtSz'' (oi_max_limit_size i)"

definition max_limit_amount :: "decimal_ops \<Rightarrow> OkxInstrument \<Rightarrow> decimal option res" where
  "max_limit_amount D i =
     parse_optional_positive_decimal D ''OKX instrument maxLmtAmt'' (oi_max_limit_amount i)"

definition max_market_size_usdt :: "decimal_ops \<Rightarrow> OkxInstrument \<Rightarrow> decimal option res" where
  "max_market_size_usdt D i =
     parse_optional_positive_decimal D ''OKX instrument maxMktSz'' (oi_max_market_size i)"

definition max_market_amount :: "decimal_ops \<Rightarrow> OkxInstrument \<Rightarrow> decimal option res" where
  "max_market_amount D i =
     parse_optional_positive_decimal D ''OKX instrument maxMktAmt'' (oi_max_market_amount i)"

definition max_trigger_size :: "decimal_ops \<Rightarrow> OkxInstrument \<Rightarrow> decimal option res" where
  "max_trigger_size D i =
     parse_optional_positive_decimal D ''OKX instrument maxTriggerSz'' (oi_max_trigger_size i)"

definition price_limit_percentages ::
    "decimal_ops \<Rightarrow> OkxInstrument \<Rightarrow> (decimal option \<times> decimal \<times> decimal) res" where
  "price_limit_percentages D i =
     rbind (if oi_initial_price_limit_pct i = [] then Inr None
            else rbind (parse_positive_decimal D ''OKX instrument initPxLmtPct''
                          (oi_initial_price_limit_pct i)) (\<lambda>x. Inr (Some x))) (\<lambda>initial.
     rbind (parse_positive_decimal D ''OKX instrument floatPxLmtPct''
              (oi_float_price_limit_pct i)) (\<lambda>float_pct.
     rbind (parse_positive_decimal D ''OKX instrument maxPxLmtPct''
              (oi_maximum_price_limit_pct i)) (\<lambda>max_pct.
     Inr (initial, float_pct, max_pct))))"

definition validate_order_limits :: "decimal_ops \<Rightarrow> OkxInstrument \<Rightarrow> unit res" where
  "validate_order_limits D i =
     rbind (max_limit_size D i) (\<lambda>_. rbind (max_limit_amount D i) (\<lambda>_.
     rbind (max_market_size_usdt D i) (\<lambda>_. rbind (max_market_amount D i) (\<lambda>_.
     rbind (max_trigger_size D i) (\<lambda>_. rbind (price_limit_percentages D i) (\<lambda>_. Inr ()))))))"

text \<open>The set is a \<open>BTreeSet\<close>; only membership and equality are observed.\<close>

fun collect_currencies :: "string \<Rightarrow> string set \<Rightarrow> string list \<Rightarrow> string set res" where
  "collect_currencies inst_id seen [] = Inr seen"
| "collect_currencies inst_id seen (c # cs) =
     rbind (require (is_okx_asset_code c) inst_id
              ''tradeQuoteCcyList entry must use an uppercase OKX asset code'') (\<lambda>_.
     rbind (require (c \<notin> seen) inst_id ''tradeQuoteCcyList contains duplicate currency'') (\<lambda>_.
     collect_currencies inst_id (insert c seen) cs))"

definition trade_quote_currency_set :: "OkxInstrument \<Rightarrow> string set res" where
  "trade_quote_currency_set i =
     rbind (require (oi_trade_quote_currencies i \<noteq> []) (oi_inst_id i)
              ''omitted tradeQuoteCcyList'') (\<lambda>_.
     collect_currencies (oi_inst_id i) {} (oi_trade_quote_currencies i))"

definition ensure_trade_quote_currency :: "OkxInstrument \<Rightarrow> string \<Rightarrow> unit res" where
  "ensure_trade_quote_currency i quote =
     rbind (trade_quote_currency_set i) (\<lambda>s.
     require (quote \<in> s) (oi_inst_id i) ''tradeQuoteCcyList does not include the quote'')"

definition has_usd_order_amount_limit :: "decimal_ops \<Rightarrow> OkxInstrument \<Rightarrow> bool res" where
  "has_usd_order_amount_limit D i =
     rbind (max_limit_amount D i) (\<lambda>a.
     if a \<noteq> None then Inr True
     else rbind (max_market_amount D i) (\<lambda>m. Inr (m \<noteq> None)))"

definition ensure_limit_size :: "decimal_ops \<Rightarrow> OkxInstrument \<Rightarrow> decimal \<Rightarrow> string \<Rightarrow> unit res" where
  "ensure_limit_size D i sz context =
     rbind (max_limit_size D i) (\<lambda>m. ensure_max_size context sz m ''maxLmtSz'')"

definition ensure_limit_quote_amount ::
    "decimal_ops \<Rightarrow> OkxInstrument \<Rightarrow> decimal \<Rightarrow> string \<Rightarrow> unit res" where
  "ensure_limit_quote_amount D i amount context =
     rbind (max_limit_amount D i) (\<lambda>m.
     case m of None \<Rightarrow> Inr ()
     | Some mx \<Rightarrow>
         rbind (require (oi_quote_ccy i = ''USD'') (oi_inst_id i)
                  ''maxLmtAmt is USD-denominated but the quote lacks conversion evidence'') (\<lambda>_.
         ensure_max_size context amount (Some mx) ''maxLmtAmt''))"

definition ensure_spot_market_sell_size ::
    "decimal_ops \<Rightarrow> OkxInstrument \<Rightarrow> decimal \<Rightarrow> decimal \<Rightarrow> string \<Rightarrow> unit res" where
  "ensure_spot_market_sell_size D i base_size reference_price context =
     rbind (require (oi_inst_type i = ''SPOT'') context
              ''maxMktSz validation requires a SPOT instrument'') (\<lambda>_.
     rbind (require (base_size > 0) context ''must be positive'') (\<lambda>_.
     rbind (require (reference_price > 0) context ''reference price must be positive'') (\<lambda>_.
     rbind (max_market_size_usdt D i) (\<lambda>m.
     case m of None \<Rightarrow> Inr ()
     | Some max_market \<Rightarrow>
         rbind (require (oi_quote_ccy i = ''USDT'') (oi_inst_id i)
                  ''maxMktSz is USDT-denominated but the quote cannot be converted'') (\<lambda>_.
         rbind (ok_or (Fail (Bad context ''USDT notional overflowed Decimal''))
                  (d_mul D base_size reference_price)) (\<lambda>usdt_notional.
         ensure_max_size (context @ '' USDT notional'') usdt_notional (Some max_market)
           ''maxMktSz''))))))"

definition ensure_market_buy_quote_amount ::
    "decimal_ops \<Rightarrow> OkxInstrument \<Rightarrow> decimal \<Rightarrow> string \<Rightarrow> unit res" where
  "ensure_market_buy_quote_amount D i amount context =
     rbind (max_market_amount D i) (\<lambda>m.
     case m of None \<Rightarrow> Inr ()
     | Some mx \<Rightarrow>
         rbind (require (oi_quote_ccy i = ''USD'') (oi_inst_id i)
                  ''maxMktAmt is USD-denominated but the quote lacks conversion evidence'') (\<lambda>_.
         ensure_max_size context amount (Some mx) ''maxMktAmt''))"

definition ensure_trigger_size :: "decimal_ops \<Rightarrow> OkxInstrument \<Rightarrow> decimal \<Rightarrow> string \<Rightarrow> unit res" where
  "ensure_trigger_size D i sz context =
     rbind (max_trigger_size D i) (\<lambda>m. ensure_max_size context sz m ''maxTriggerSz'')"

section \<open>Index tickers, price limits, sizes\<close>

record OkxIndexTicker =
  ix_inst_id :: string
  ix_index_price :: string
  ix_timestamp_ms :: string

definition index_price :: "decimal_ops \<Rightarrow> OkxIndexTicker \<Rightarrow> decimal res" where
  "index_price D t = parse_positive_decimal D ''OKX index ticker idxPx'' (ix_index_price t)"

definition index_timestamp_ms :: "OkxIndexTicker \<Rightarrow> int res" where
  "index_timestamp_ms t =
     rbind (ok_or (Fail (Bad ''OKX index ticker ts'' ''must be Unix milliseconds''))
              (parse_i128 (ix_timestamp_ms t))) (\<lambda>ts.
     rbind (require (ts > 0) ''OKX index ticker ts'' ''must be positive Unix milliseconds'') (\<lambda>_.
     Inr ts))"

text \<open>\<open>instIdCode\<close> as serde delivers it: absent or null, a JSON integer, or a string.\<close>

datatype OptionalU64String = CodeInteger nat | CodeString string

definition deserialize_optional_u64_string :: "OptionalU64String option \<Rightarrow> nat option res" where
  "deserialize_optional_u64_string v =
     (case v of
        None \<Rightarrow> Inr None
      | Some (CodeInteger n) \<Rightarrow> Inr (Some n)
      | Some (CodeString s) \<Rightarrow>
          let s = trim s in
          if s = [] then Inr None
          else rbind (ok_or (Fail (Bad ''instIdCode'' ''must be an integer'')) (parse_u64 s))
                 (\<lambda>n. Inr (Some n)))"

record OkxMaximumOrderSize =
  mo_inst_id :: string
  mo_ccy :: string
  mo_max_buy :: string
  mo_max_sell :: string

definition ensure_cash_spot_margin_currency :: "OkxMaximumOrderSize \<Rightarrow> string \<Rightarrow> unit res" where
  "ensure_cash_spot_margin_currency m expected_base_ccy =
     require (mo_ccy m = [] \<or> mo_ccy m = expected_base_ccy) ''OKX cash-SPOT max-size''
       ''margin currency must be empty or match validated base currency''"

definition max_buy_base :: "decimal_ops \<Rightarrow> OkxMaximumOrderSize \<Rightarrow> decimal res" where
  "max_buy_base D m = parse_non_negative_decimal D ''OKX maximum order size maxBuy'' (mo_max_buy m)"

definition max_sell_quote :: "decimal_ops \<Rightarrow> OkxMaximumOrderSize \<Rightarrow> decimal res" where
  "max_sell_quote D m =
     parse_non_negative_decimal D ''OKX maximum order size maxSell'' (mo_max_sell m)"

record OkxMaximumAvailableSize =
  ma_inst_id :: string
  ma_available_buy :: string
  ma_available_sell :: string

definition available_buy_quote :: "decimal_ops \<Rightarrow> OkxMaximumAvailableSize \<Rightarrow> decimal res" where
  "available_buy_quote D m = parse_non_negative_decimal D
     ''OKX maximum available tradable amount availBuy'' (ma_available_buy m)"

definition available_sell_base :: "decimal_ops \<Rightarrow> OkxMaximumAvailableSize \<Rightarrow> decimal res" where
  "available_sell_base D m = parse_non_negative_decimal D
     ''OKX maximum available tradable amount availSell'' (ma_available_sell m)"

section \<open>Orders\<close>

datatype OrderSide = Buy | Sell

datatype OrderKind = Limit | Market | PostOnly

definition side_as_okx :: "OrderSide \<Rightarrow> string" where
  "side_as_okx s = (case s of Buy \<Rightarrow> ''buy'' | Sell \<Rightarrow> ''sell'')"

definition kind_as_okx :: "OrderKind \<Rightarrow> string" where
  "kind_as_okx k = (case k of Limit \<Rightarrow> ''limit'' | Market \<Rightarrow> ''market'' | PostOnly \<Rightarrow> ''post_only'')"

definition parse_side :: "string \<Rightarrow> OrderSide option" where
  "parse_side s = (if s = ''buy'' then Some Buy else if s = ''sell'' then Some Sell else None)"

definition parse_kind :: "string \<Rightarrow> OrderKind option" where
  "parse_kind s =
     (if s = ''limit'' then Some Limit else if s = ''market'' then Some Market
      else if s = ''post_only'' then Some PostOnly else None)"

record OkxOrderAck =
  ak_order_id :: string
  ak_client_order_id :: string
  ak_status_code :: string
  ak_status_message :: string
  ak_status_sub_code :: string
  ak_timestamp :: string

record OkxAlgoOrderAck =
  aa_algo_id :: string
  aa_client_order_id :: string
  aa_status_code :: string
  aa_status_message :: string

record OkxOrder =
  or_inst_type :: string
  or_inst_id :: string
  or_order_id :: string
  or_client_order_id :: string
  or_side :: string
  or_order_type :: string
  or_price :: string
  or_state :: string
  or_average_price :: string
  or_accumulated_fill_size :: string
  or_fee :: string
  or_fee_currency :: string
  or_rebate :: string
  or_rebate_currency :: string
  or_sz :: string
  or_created_at_ms :: string
  or_updated_at_ms :: string

record OkxSpotFillAccounting =
  ac_base_change :: decimal
  ac_quote_change :: decimal

definition no_accounting :: OkxSpotFillAccounting where
  "no_accounting = \<lparr> ac_base_change = 0, ac_quote_change = 0 \<rparr>"

definition order_fill_size :: "decimal_ops \<Rightarrow> OkxOrder \<Rightarrow> decimal res" where
  "order_fill_size D o1 =
     parse_non_negative_decimal D ''OKX order accFillSz'' (or_accumulated_fill_size o1)"

definition average_fill_price :: "decimal_ops \<Rightarrow> OkxOrder \<Rightarrow> decimal option res" where
  "average_fill_price D o1 =
     (if blank (or_average_price o1) then Inr None
      else
        rbind (parse_non_negative_decimal D ''OKX order avgPx'' (or_average_price o1)) (\<lambda>avg.
        if avg = 0 then
          rbind (order_fill_size D o1) (\<lambda>filled.
          rbind (require (filled = 0) ''OKX order avgPx''
                   ''must be positive when accFillSz is positive'') (\<lambda>_. Inr None))
        else Inr (Some avg)))"

text \<open>\<open>apply_spot_currency_adjustment\<close> returns the adjusted accounting.\<close>

definition apply_spot_currency_adjustment ::
    "decimal_ops \<Rightarrow> string \<Rightarrow> string \<Rightarrow> OkxSpotFillAccounting \<Rightarrow> decimal \<Rightarrow> string \<Rightarrow> string \<Rightarrow>
      string \<Rightarrow> OkxSpotFillAccounting res" where
  "apply_spot_currency_adjustment D context field accounting amount currency base quote =
     rbind (require (currency = base \<or> currency = quote) context
              (field @ '' does not match base or quote'')) (\<lambda>_.
     if currency = base then
       rbind (dec_add D (ac_base_change accounting) amount) (\<lambda>x.
       Inr (accounting\<lparr> ac_base_change := x \<rparr>))
     else
       rbind (dec_add D (ac_quote_change accounting) amount) (\<lambda>x.
       Inr (accounting\<lparr> ac_quote_change := x \<rparr>)))"

definition ensure_spot_accounting_direction ::
    "string \<Rightarrow> OrderSide option \<Rightarrow> OkxSpotFillAccounting \<Rightarrow> unit res" where
  "ensure_spot_accounting_direction context side a =
     rbind (ok_or (Fail (Bad context ''has undocumented side'')) side) (\<lambda>s.
     case s of
       Buy \<Rightarrow> require (ac_base_change a > 0 \<and> ac_quote_change a < 0) context
                ''buy accounting must receive positive base and spend positive quote''
     | Sell \<Rightarrow> require (ac_base_change a < 0 \<and> ac_quote_change a > 0) context
                ''sell accounting must spend positive base and receive positive quote'')"

definition spot_fill_accounting ::
    "decimal_ops \<Rightarrow> string \<Rightarrow> OrderSide option \<Rightarrow> decimal \<Rightarrow> decimal \<Rightarrow> string \<times> string \<Rightarrow>
      string \<Rightarrow> string \<Rightarrow> OkxSpotFillAccounting res" where
  "spot_fill_accounting D context side fill_size fill_price fee base quote =
     rbind (require (\<not> blank base \<and> \<not> blank quote) context
              ''SPOT accounting requires base and quote currencies'') (\<lambda>_.
     rbind (require (base \<noteq> quote) context
              ''SPOT accounting requires distinct base and quote currencies'') (\<lambda>_.
     rbind (ok_or (Fail (Bad context ''has undocumented side'')) side) (\<lambda>s.
     rbind (parse_decimal D (context @ '' fee'') (fst fee)) (\<lambda>fee_amount.
     rbind (dec_mul D fill_size fill_price) (\<lambda>notional.
     let accounting = (case s of
           Buy \<Rightarrow> \<lparr> ac_base_change = fill_size, ac_quote_change = - notional \<rparr>
         | Sell \<Rightarrow> \<lparr> ac_base_change = - fill_size, ac_quote_change = notional \<rparr>) in
     rbind (apply_spot_currency_adjustment D context ''feeCcy'' accounting fee_amount (snd fee)
              base quote) (\<lambda>accounting.
     rbind (ensure_spot_accounting_direction context (Some s) accounting) (\<lambda>_.
     Inr accounting)))))))"

definition apply_spot_rebate ::
    "decimal_ops \<Rightarrow> string \<Rightarrow> OkxSpotFillAccounting \<Rightarrow> string \<Rightarrow> string \<Rightarrow> string \<Rightarrow> string \<Rightarrow>
      OkxSpotFillAccounting res" where
  "apply_spot_rebate D context accounting rebate rebate_currency base quote =
     rbind (if blank rebate then Inr 0
            else parse_non_negative_decimal D (context @ '' rebate'') rebate) (\<lambda>amount.
     if amount = 0 \<and> blank rebate_currency then Inr accounting
     else apply_spot_currency_adjustment D context ''rebateCcy'' accounting amount rebate_currency
            base quote)"

definition order_parsed_side :: "OkxOrder \<Rightarrow> OrderSide option" where
  "order_parsed_side o1 = parse_side (or_side o1)"

definition order_parsed_kind :: "OkxOrder \<Rightarrow> OrderKind option" where
  "order_parsed_kind o1 = parse_kind (or_order_type o1)"

definition cumulative_spot_accounting ::
    "decimal_ops \<Rightarrow> OkxOrder \<Rightarrow> string \<Rightarrow> string \<Rightarrow> OkxSpotFillAccounting res" where
  "cumulative_spot_accounting D o1 base quote =
     rbind (order_fill_size D o1) (\<lambda>fill_size.
     if fill_size = 0 then Inr no_accounting
     else
       rbind (average_fill_price D o1) (\<lambda>avg.
       rbind (ok_or (Fail (Bad ''OKX filled order'' ''is missing avgPx'')) avg) (\<lambda>fill_price.
       rbind (spot_fill_accounting D ''OKX order'' (order_parsed_side o1) fill_size fill_price
                (or_fee o1, or_fee_currency o1) base quote) (\<lambda>accounting.
       rbind (apply_spot_rebate D ''OKX order'' accounting (or_rebate o1) (or_rebate_currency o1)
                base quote) (\<lambda>accounting.
       rbind (ensure_spot_accounting_direction ''OKX order'' (order_parsed_side o1) accounting) (\<lambda>_.
       Inr accounting))))))"

definition order_created_at_ms :: "OkxOrder \<Rightarrow> int res" where
  "order_created_at_ms o1 = parse_timestamp_ms ''OKX order cTime'' (or_created_at_ms o1)"

definition is_live :: "OkxOrder \<Rightarrow> bool" where
  "is_live o1 = (or_state o1 = ''live'' \<or> or_state o1 = ''partially_filled'')"

definition is_terminal :: "OkxOrder \<Rightarrow> bool" where
  "is_terminal o1 =
     (or_state o1 = ''filled'' \<or> or_state o1 = ''canceled'' \<or> or_state o1 = ''mmp_canceled'')"

definition is_filled :: "OkxOrder \<Rightarrow> bool" where
  "is_filled o1 = (or_state o1 = ''filled'')"

definition is_terminal_without_fill :: "OkxOrder \<Rightarrow> bool" where
  "is_terminal_without_fill o1 = (or_state o1 = ''canceled'' \<or> or_state o1 = ''mmp_canceled'')"

definition order_ensure_documented_state :: "OkxOrder \<Rightarrow> string \<Rightarrow> unit res" where
  "order_ensure_documented_state o1 context =
     require (is_live o1 \<or> is_terminal o1) context ''returned order with undocumented state''"

definition order_requested_size :: "decimal_ops \<Rightarrow> OkxOrder \<Rightarrow> decimal res" where
  "order_requested_size D o1 = parse_positive_decimal D ''OKX order sz'' (or_sz o1)"

definition order_updated_at_ms :: "OkxOrder \<Rightarrow> int" where
  "order_updated_at_ms o1 =
     (case parse_i64 (or_updated_at_ms o1) of Some t \<Rightarrow> t
      | None \<Rightarrow> (case parse_i64 (or_created_at_ms o1) of Some t \<Rightarrow> t | None \<Rightarrow> 0))"

section \<open>Fills\<close>

record OkxFill =
  fi_inst_type :: string
  fi_inst_id :: string
  fi_order_id :: string
  fi_client_order_id :: string
  fi_bill_id :: string
  fi_trade_id :: string
  fi_side :: string
  fi_fill_size :: string
  fi_fill_price :: string
  fi_fee :: string
  fi_fee_currency :: string
  fi_fee_rate :: string
  fi_execution_type :: string
  fi_fill_time_ms :: string
  fi_event_time_ms :: string

definition fill_fill_size :: "decimal_ops \<Rightarrow> OkxFill \<Rightarrow> decimal res" where
  "fill_fill_size D f = parse_positive_decimal D ''OKX fill fillSz'' (fi_fill_size f)"

definition fill_fill_price :: "decimal_ops \<Rightarrow> OkxFill \<Rightarrow> decimal res" where
  "fill_fill_price D f = parse_positive_decimal D ''OKX fill fillPx'' (fi_fill_price f)"

definition fill_parsed_side :: "OkxFill \<Rightarrow> OrderSide option" where
  "fill_parsed_side f = parse_side (fi_side f)"

definition spot_accounting ::
    "decimal_ops \<Rightarrow> OkxFill \<Rightarrow> string \<Rightarrow> string \<Rightarrow> OkxSpotFillAccounting res" where
  "spot_accounting D f base quote =
     rbind (fill_fill_size D f) (\<lambda>fill_size.
     rbind (fill_fill_price D f) (\<lambda>fill_price.
     spot_fill_accounting D ''OKX fill'' (fill_parsed_side f) fill_size fill_price
       (fi_fee f, fi_fee_currency f) base quote))"

definition preferred_fill_time_ms :: "OkxFill \<Rightarrow> string" where
  "preferred_fill_time_ms f =
     (if blank (fi_fill_time_ms f) then fi_event_time_ms f else fi_fill_time_ms f)"

definition fill_time_ms :: "OkxFill \<Rightarrow> int" where
  "fill_time_ms f =
     (case parse_i64 (preferred_fill_time_ms f) of Some t \<Rightarrow> t | None \<Rightarrow> 0)"

definition dedupe_key :: "OkxFill \<Rightarrow> string" where
  "dedupe_key f =
     (if \<not> blank (fi_bill_id f) then fi_bill_id f
      else if \<not> blank (fi_trade_id f) then fi_trade_id f
      else if blank (fi_order_id f) \<and> blank (fi_client_order_id f) \<and> blank (fi_side f) \<and>
              blank (preferred_fill_time_ms f) \<and> blank (fi_fill_size f) then []
      else fi_order_id f @ '':'' @ fi_client_order_id f @ '':'' @ fi_side f @ '':'' @
           preferred_fill_time_ms f @ '':'' @ fi_fill_size f)"

section \<open>Algo orders\<close>

record OkxAlgoOrder =
  ao_inst_type :: string
  ao_inst_id :: string
  ao_td_mode :: string
  ao_algo_id :: string
  ao_client_order_id :: string
  ao_side :: string
  ao_order_type :: string
  ao_trigger_price :: string
  ao_order_price :: string
  ao_state :: string
  ao_sz :: string
  ao_created_at_ms :: string
  ao_updated_at_ms :: string

definition algo_is_live :: "OkxAlgoOrder \<Rightarrow> bool" where
  "algo_is_live a = (ao_state a = ''live'' \<or> ao_state a = ''pause'')"

definition algo_is_effective :: "OkxAlgoOrder \<Rightarrow> bool" where
  "algo_is_effective a = (ao_state a = ''effective'')"

definition algo_is_terminal_without_execution :: "OkxAlgoOrder \<Rightarrow> bool" where
  "algo_is_terminal_without_execution a =
     (ao_state a = ''canceled'' \<or> ao_state a = ''order_failed'')"

definition algo_ensure_documented_state :: "OkxAlgoOrder \<Rightarrow> string \<Rightarrow> unit res" where
  "algo_ensure_documented_state a context =
     require (ao_state a \<in> {''live'', ''pause'', ''effective'', ''canceled'', ''order_failed'',
         ''partially_effective'', ''partially_failed''}) context
       ''returned algo with undocumented state''"

definition algo_trigger_price :: "decimal_ops \<Rightarrow> OkxAlgoOrder \<Rightarrow> decimal res" where
  "algo_trigger_price D a =
     parse_positive_decimal D ''OKX algo order triggerPx'' (ao_trigger_price a)"

definition algo_requested_size :: "decimal_ops \<Rightarrow> OkxAlgoOrder \<Rightarrow> decimal res" where
  "algo_requested_size D a = parse_positive_decimal D ''OKX algo order sz'' (ao_sz a)"

definition algo_parsed_side :: "OkxAlgoOrder \<Rightarrow> OrderSide option" where
  "algo_parsed_side a = parse_side (ao_side a)"

definition is_trigger_market_order :: "OkxAlgoOrder \<Rightarrow> bool" where
  "is_trigger_market_order a = (ao_order_type a = ''trigger'' \<and> ao_order_price a = ''-1'')"

section \<open>Balances and account\<close>

record OkxBalanceDetail =
  bd_ccy :: string
  bd_available_balance :: string
  bd_cash_balance :: string
  bd_frozen_balance :: string

record OkxBalance =
  ba_details :: "OkxBalanceDetail list"

definition balance_total :: "decimal_ops \<Rightarrow> OkxBalanceDetail \<Rightarrow> decimal res" where
  "balance_total D d =
     rbind (require (\<not> blank (bd_cash_balance d)) ''OKX balance cashBal'' ''must be provided'') (\<lambda>_.
     parse_non_negative_decimal D ''OKX balance cashBal'' (bd_cash_balance d))"

definition balance_available :: "decimal_ops \<Rightarrow> OkxBalanceDetail \<Rightarrow> decimal res" where
  "balance_available D d =
     parse_non_negative_decimal D ''OKX balance availBal'' (bd_available_balance d)"

definition balance_frozen :: "decimal_ops \<Rightarrow> OkxBalanceDetail \<Rightarrow> decimal res" where
  "balance_frozen D d =
     rbind (require (\<not> blank (bd_frozen_balance d)) ''OKX balance frozenBal'' ''must be provided'') (\<lambda>_.
     parse_non_negative_decimal D ''OKX balance frozenBal'' (bd_frozen_balance d))"

fun validate_details :: "decimal_ops \<Rightarrow> OkxBalanceDetail list \<Rightarrow> unit res" where
  "validate_details D [] = Inr ()"
| "validate_details D (d # ds) =
     rbind (require (\<not> blank (bd_ccy d)) ''OKX balance ccy'' ''must be provided'') (\<lambda>_.
     rbind (balance_available D d) (\<lambda>_. rbind (balance_total D d) (\<lambda>_.
     rbind (balance_frozen D d) (\<lambda>_. validate_details D ds))))"

definition balance_validate :: "decimal_ops \<Rightarrow> OkxBalance \<Rightarrow> unit res" where
  "balance_validate D b = validate_details D (ba_details b)"

record OkxAccountConfig =
  cf_uid :: string
  cf_main_uid :: string
  cf_account_level :: string
  cf_perm :: string
  cf_auto_loan :: bool
  cf_enable_spot_borrow :: bool
  cf_spot_borrow_auto_repay :: bool
  cf_fee_type :: string
  cf_kyc_level :: string

datatype ValidatedLiveKycLevel = LevelTwo | LevelThree

datatype OkxSpotFeeType = ReceivedCurrency | QuoteCurrency

datatype AccountLevelDiagnostic = AccountOne | AccountTwo | AccountThree | AccountFour

text \<open>\<open>AccountLevelDiagnostic::parse\<close>; \<open>observe\<close> adds the time of the observation.\<close>

definition account_level_parse :: "string \<Rightarrow> AccountLevelDiagnostic res" where
  "account_level_parse v =
     (if v = ''1'' then Inr AccountOne else if v = ''2'' then Inr AccountTwo
      else if v = ''3'' then Inr AccountThree else if v = ''4'' then Inr AccountFour
      else Inl (Fail (Bad ''OKX account configuration acctLv''
        ''is missing, malformed, or undocumented'')))"

definition spot_fee_type :: "OkxAccountConfig \<Rightarrow> OkxSpotFeeType res" where
  "spot_fee_type c =
     (if cf_fee_type c = ''0'' then Inr ReceivedCurrency
      else if cf_fee_type c = ''1'' then Inr QuoteCurrency
      else Inl (Fail (Bad ''OKX account feeType'' ''is unsupported'')))"

definition has_trade_permission :: "OkxAccountConfig \<Rightarrow> bool" where
  "has_trade_permission c =
     list_ex (\<lambda>p. eq_ignore_ascii_case p ''trade'') (map trim (split_on (CHR '','') (cf_perm c)))"

definition no_borrowing :: "OkxAccountConfig \<Rightarrow> unit res" where
  "no_borrowing c =
     require (\<not> cf_auto_loan c \<and> \<not> cf_enable_spot_borrow c \<and> \<not> cf_spot_borrow_auto_repay c)
       ''OKX account'' ''borrow/auto-loan settings are enabled''"

definition ensure_spot_trading_enabled :: "OkxAccountConfig \<Rightarrow> unit res" where
  "ensure_spot_trading_enabled c =
     rbind (account_level_parse (cf_account_level c)) (\<lambda>_.
     rbind (require (has_trade_permission c) ''OKX API key'' ''permissions do not include trade'') (\<lambda>_.
     rbind (no_borrowing c) (\<lambda>_.
     rbind (spot_fee_type c) (\<lambda>_. Inr ()))))"

definition ensure_spot_economics_safe :: "OkxAccountConfig \<Rightarrow> unit res" where
  "ensure_spot_economics_safe c =
     rbind (account_level_parse (cf_account_level c)) (\<lambda>_.
     rbind (no_borrowing c) (\<lambda>_.
     rbind (spot_fee_type c) (\<lambda>_. Inr ())))"

definition validated_live_kyc_level :: "OkxAccountConfig \<Rightarrow> ValidatedLiveKycLevel res" where
  "validated_live_kyc_level c =
     (if cf_kyc_level c = ''2'' then Inr LevelTwo
      else if cf_kyc_level c = ''3'' then Inr LevelThree
      else Inl (Fail (Bad ''Production order placement'' ''requires OKX kycLv 2 or 3'')))"

section \<open>Fees\<close>

record OkxTradeFeeGroup =
  fg_group_id :: string
  fg_maker :: string
  fg_taker :: string

record OkxTradeFeeResponse =
  fr_inst_type :: string
  fr_level :: string
  fr_fee_groups :: "OkxTradeFeeGroup list"
  fr_ts :: string

record OkxTradeFeeRate =
  tf_inst_type :: string
  tf_level :: string
  tf_group_id :: string
  tf_maker :: string
  tf_taker :: string
  tf_ts :: string

definition commission_rate :: "decimal_ops \<Rightarrow> string \<Rightarrow> string \<Rightarrow> decimal res" where
  "commission_rate D context v =
     rbind (parse_decimal D context v) (\<lambda>r. Inr (if r < 0 then - r else 0))"

definition normalized_cost_rate :: "decimal_ops \<Rightarrow> string \<Rightarrow> string \<Rightarrow> decimal res" where
  "normalized_cost_rate D context v = rbind (parse_decimal D context v) (\<lambda>r. Inr (- r))"

definition normalized_maker_cost_rate :: "decimal_ops \<Rightarrow> OkxTradeFeeRate \<Rightarrow> decimal res" where
  "normalized_maker_cost_rate D r = normalized_cost_rate D ''OKX fee maker'' (tf_maker r)"

definition normalized_taker_cost_rate :: "decimal_ops \<Rightarrow> OkxTradeFeeRate \<Rightarrow> decimal res" where
  "normalized_taker_cost_rate D r = normalized_cost_rate D ''OKX fee taker'' (tf_taker r)"

definition into_spot_group_rate ::
    "decimal_ops \<Rightarrow> OkxTradeFeeResponse \<Rightarrow> string \<Rightarrow> string \<Rightarrow> OkxTradeFeeRate res" where
  "into_spot_group_rate D r inst_id expected_group_id =
     rbind (require (fr_inst_type r = ''SPOT'') inst_id ''fee-rate response is not SPOT'') (\<lambda>_.
     rbind (validate_fee_group_id ''validated OKX instrument groupId'' expected_group_id) (\<lambda>_.
     let matching = filter (\<lambda>g. fg_group_id g = expected_group_id) (fr_fee_groups r) in
     rbind (require (length matching = 1) inst_id ''feeGroup rows matching groupId'') (\<lambda>_.
     let group = hd matching;
         rate = \<lparr> tf_inst_type = fr_inst_type r, tf_level = fr_level r,
                  tf_group_id = fg_group_id group, tf_maker = fg_maker group,
                  tf_taker = fg_taker group, tf_ts = fr_ts r \<rparr> in
     rbind (normalized_maker_cost_rate D rate) (\<lambda>_.
     rbind (normalized_taker_cost_rate D rate) (\<lambda>_.
     Inr rate)))))"

definition fee_ensure_spot :: "OkxTradeFeeRate \<Rightarrow> string \<Rightarrow> unit res" where
  "fee_ensure_spot r inst_id =
     rbind (require (tf_inst_type r = ''SPOT'') inst_id ''fee-rate response is not SPOT'') (\<lambda>_.
     validate_fee_group_id ''OKX fee rate groupId'' (tf_group_id r))"

definition round_trip_commission_rate :: "decimal_ops \<Rightarrow> OkxTradeFeeRate \<Rightarrow> decimal res" where
  "round_trip_commission_rate D r =
     rbind (commission_rate D ''OKX fee maker'' (tf_maker r)) (\<lambda>m.
     rbind (commission_rate D ''OKX fee taker'' (tf_taker r)) (\<lambda>t.
     dec_add D m t))"

definition ensure_round_trip_commission_at_most ::
    "decimal_ops \<Rightarrow> OkxTradeFeeRate \<Rightarrow> string \<Rightarrow> decimal \<Rightarrow> unit res" where
  "ensure_round_trip_commission_at_most D r inst_id max_rate =
     rbind (round_trip_commission_rate D r) (\<lambda>c.
     require (c \<le> max_rate) inst_id ''round-trip commission rate exceeds strategy fee assumption'')"

definition ensure_commissions_at_most ::
    "decimal_ops \<Rightarrow> OkxTradeFeeRate \<Rightarrow> string \<Rightarrow> decimal \<Rightarrow> decimal \<Rightarrow> unit res" where
  "ensure_commissions_at_most D r inst_id max_maker max_taker =
     rbind (commission_rate D ''OKX fee maker'' (tf_maker r)) (\<lambda>m.
     rbind (commission_rate D ''OKX fee taker'' (tf_taker r)) (\<lambda>t.
     rbind (require (m \<le> max_maker) inst_id ''maker commission rate exceeds assumption'') (\<lambda>_.
     require (t \<le> max_taker) inst_id ''taker commission rate exceeds assumption'')))"

section \<open>Quantization\<close>

definition quantize_decimal_down :: "decimal_ops \<Rightarrow> decimal \<Rightarrow> decimal \<Rightarrow> decimal res" where
  "quantize_decimal_down D v step =
     rbind (require (v > 0) ''value'' ''must be positive'') (\<lambda>_.
     rbind (dec_div D v step) (\<lambda>q. dec_mul D (d_floor D q) step))"

definition quantize_decimal_up :: "decimal_ops \<Rightarrow> decimal \<Rightarrow> decimal \<Rightarrow> decimal res" where
  "quantize_decimal_up D v step =
     rbind (require (v > 0) ''value'' ''must be positive'') (\<lambda>_.
     rbind (dec_div D v step) (\<lambda>q. dec_mul D (d_ceil D q) step))"

definition decimal_to_okx :: "decimal_ops \<Rightarrow> decimal \<Rightarrow> string" where
  "decimal_to_okx D v = d_show D v"

section \<open>Lemmas\<close>

lemma parse_positive_decimal_Inr:
  "parse_positive_decimal D c v = Inr x \<longleftrightarrow> d_parse D v = Some x \<and> 0 < x"
  by (auto simp: parse_positive_decimal_def rbind_eq_Inr)

lemma parse_non_negative_decimal_Inr:
  "parse_non_negative_decimal D c v = Inr x \<longleftrightarrow> d_parse D v = Some x \<and> 0 \<le> x"
  by (auto simp: parse_non_negative_decimal_def parse_decimal_def rbind_eq_Inr)

lemma ensure_max_size_Inr:
  "ensure_max_size c x m f = Inr u \<longleftrightarrow> (\<forall>b. m = Some b \<longrightarrow> x \<le> b)"
  by (cases m) (auto simp: ensure_max_size_def)

lemma candle_value_Inr:
  "ensure_positive_finite_candle_value c n v = Inr u \<longleftrightarrow> (\<exists>x. v = F_Fin x \<and> 0 < x)"
  by (cases v) (auto simp: ensure_positive_finite_candle_value_def is_finite_def)

lemma market_bar_validate_Inr:
  "market_bar_validate b c = Inr u \<longleftrightarrow>
    0 < mb_ts_ms b \<and>
    (\<exists>op hi lo cl. mb_open b = F_Fin op \<and> mb_high b = F_Fin hi \<and> mb_low b = F_Fin lo \<and>
       mb_close b = F_Fin cl \<and> 0 < lo \<and> lo \<le> op \<and> lo \<le> cl \<and> op \<le> hi \<and> cl \<le> hi)"
  by (auto simp: market_bar_validate_def rbind_eq_Inr candle_value_Inr)

lemma direction_Inr:
  "ensure_spot_accounting_direction c s a = Inr u \<longleftrightarrow>
    s = Some Buy \<and> 0 < ac_base_change a \<and> ac_quote_change a < 0 \<or>
    s = Some Sell \<and> ac_base_change a < 0 \<and> 0 < ac_quote_change a"
  by (auto simp: ensure_spot_accounting_direction_def rbind_eq_Inr split: OrderSide.splits)
    (metis OrderSide.exhaust)+

section \<open>Properties\<close>

text \<open>
  a candle that passes validation has a positive time stamp and finite prices with
  0 < low, low at most open and close, and open and close at most high; nothing else is accepted.
\<close>
theorem market_bar_validated:
  "market_bar_validate b c = Inr () \<longleftrightarrow>
    0 < mb_ts_ms b \<and>
    (\<exists>op hi lo cl. mb_open b = F_Fin op \<and> mb_high b = F_Fin hi \<and> mb_low b = F_Fin lo \<and>
       mb_close b = F_Fin cl \<and> 0 < lo \<and> lo \<le> op \<and> lo \<le> cl \<and> op \<le> hi \<and> cl \<le> hi)"
  by (rule market_bar_validate_Inr)

text \<open>
  The accounting of a filled order always moves the two currencies in opposite directions, as its
  side says: a buy receives base and spends quote, a sell spends base and receives quote, fee and
  rebate included.  Only an order without fill accounts to nothing.
\<close>
theorem order_accounting_direction:
  assumes "cumulative_spot_accounting D o1 base quote = Inr a"
  shows "(\<exists>filled. order_fill_size D o1 = Inr filled \<and>
     (if filled = 0 then a = no_accounting
      else case order_parsed_side o1 of
          None \<Rightarrow> False
        | Some Buy \<Rightarrow> 0 < ac_base_change a \<and> ac_quote_change a < 0
        | Some Sell \<Rightarrow> ac_base_change a < 0 \<and> 0 < ac_quote_change a))"
proof -
  obtain filled where filled: "order_fill_size D o1 = Inr filled"
    using assms by (auto simp: cumulative_spot_accounting_def rbind_eq_Inr)
  show ?thesis
  proof (cases "filled = 0")
    case True
    with assms filled show ?thesis by (simp add: cumulative_spot_accounting_def)
  next
    case False
    with assms filled
    have "ensure_spot_accounting_direction ''OKX order'' (order_parsed_side o1) a = Inr ()"
      by (auto simp: cumulative_spot_accounting_def rbind_eq_Inr)
    then show ?thesis using False filled by (auto simp: direction_Inr)
  qed
qed

definition sample_order :: OkxOrder where
  "sample_order =
     \<lparr> or_inst_type = ''SPOT'', or_inst_id = ''BTC-USDT'', or_order_id = ''1'',
       or_client_order_id = ''c'', or_side = ''buy'', or_order_type = ''limit'', or_price = ''10'',
       or_state = ''filled'', or_average_price = ''10'', or_accumulated_fill_size = ''2'',
       or_fee = ''-1'', or_fee_currency = ''BTC'', or_rebate = [], or_rebate_currency = [],
       or_sz = ''2'', or_created_at_ms = ''5'', or_updated_at_ms = ''6'' \<rparr>"

lemma not_blank_Cons_digit [simp]:
  "is_ascii_alphanumeric c \<Longrightarrow> \<not> blank [c]"
  by (auto simp: blank_def trim_def trim_start.simps trim_end_rev.simps whitespace_encodings_def
      is_ascii_alphanumeric_def is_ascii_digit_def is_ascii_uppercase_def is_ascii_lowercase_def)

lemma sample_order_accounting:
  "cumulative_spot_accounting exact_decimal sample_order ''BTC'' ''USDT'' =
     Inr \<lparr> ac_base_change = 1, ac_quote_change = - 20 \<rparr>"
proof -
  have blanks: "\<not> blank ''BTC''" "\<not> blank ''USDT''" "\<not> blank ''10''"
    by (simp_all add: blank_def trim_def trim_start.simps trim_end_rev.simps
        whitespace_encodings_def byte_def)
  have decs: "read_decimal ''10'' = Some 10" "read_decimal ''2'' = Some 2"
      "read_decimal ''-1'' = Some (- 1)"
    by (simp_all add: read_decimal_def read_unsigned_def ascii_digits_def digits_nat_def)
  show ?thesis
    by (simp add: cumulative_spot_accounting_def order_fill_size_def average_fill_price_def
        sample_order_def parse_non_negative_decimal_def parse_decimal_def blanks decs
        spot_fill_accounting_def order_parsed_side_def parse_side_def dec_mul_def dec_add_def
        apply_spot_currency_adjustment_def apply_spot_rebate_def
        ensure_spot_accounting_direction_def)
qed

theorem order_accounting_direction_witness:
  "\<exists>a. cumulative_spot_accounting exact_decimal sample_order ''BTC'' ''USDT'' = Inr a \<and>
    0 < ac_base_change a \<and> ac_quote_change a < 0"
  using order_accounting_direction [OF sample_order_accounting] sample_order_accounting
  by simp

text \<open>
  where the quotient and the product are exact decimals, quantization returns the multiple of the
  step next to the value: the greatest not above it, or the least not below it.
\<close>
theorem quantize_nearest_multiple:
  assumes "decimal_laws D" and "0 < v" and "0 < step" and "representable v" and "representable step"
    and "representable (v / step)"
    and "representable (of_int \<lfloor>v / step\<rfloor>)" and "representable (of_int \<lfloor>v / step\<rfloor> * step)"
    and "representable (of_int \<lceil>v / step\<rceil>)" and "representable (of_int \<lceil>v / step\<rceil> * step)"
  shows "\<exists>n m. quantize_decimal_down D v step = Inr (of_int n * step) \<and>
    of_int n * step \<le> v \<and> v < of_int (n + 1) * step \<and>
    quantize_decimal_up D v step = Inr (of_int m * step) \<and>
    v \<le> of_int m * step \<and> of_int (m - 1) * step < v"
proof (intro exI conjI)
  have div: "d_div D v step = Some (v / step)" and fl: "d_floor D (v / step) = of_int \<lfloor>v / step\<rfloor>"
    and ce: "d_ceil D (v / step) = of_int \<lceil>v / step\<rceil>"
    using assms by (auto intro: decimal_laws_div decimal_laws_floor decimal_laws_ceil)
  have "d_mul D (of_int \<lfloor>v / step\<rfloor>) step = Some (of_int \<lfloor>v / step\<rfloor> * step)"
    and "d_mul D (of_int \<lceil>v / step\<rceil>) step = Some (of_int \<lceil>v / step\<rceil> * step)"
    using assms by (auto intro: decimal_laws_mul)
  with assms(2) div fl ce
  show "quantize_decimal_down D v step = Inr (of_int \<lfloor>v / step\<rfloor> * step)"
    and "quantize_decimal_up D v step = Inr (of_int \<lceil>v / step\<rceil> * step)"
    by (simp_all add: quantize_decimal_down_def quantize_decimal_up_def dec_div_def dec_mul_def)
  show "of_int \<lfloor>v / step\<rfloor> * step \<le> v" "v \<le> of_int \<lceil>v / step\<rceil> * step"
    using assms(3) of_int_floor_le [of "v / step"] le_of_int_ceiling [of "v / step"]
    by (simp_all only: pos_le_divide_eq pos_divide_le_eq)
  have "v / step < of_int (\<lfloor>v / step\<rfloor> + 1)" "of_int (\<lceil>v / step\<rceil> - 1) < v / step"
    by linarith+
  then show "v < of_int (\<lfloor>v / step\<rfloor> + 1) * step" "of_int (\<lceil>v / step\<rceil> - 1) * step < v"
    using assms(3) by (simp_all only: pos_divide_less_eq pos_less_divide_eq)
qed

theorem quantize_nearest_multiple_witness:
  "\<exists>n m. quantize_decimal_down exact_decimal 7 2 = Inr (of_int n * 2) \<and> of_int n * 2 \<le> (7 :: rat) \<and>
    quantize_decimal_up exact_decimal 7 2 = Inr (of_int m * 2) \<and> (7 :: rat) \<le> of_int m * 2"
proof -
  have fl: "\<lfloor>7 / 2 :: rat\<rfloor> = 3" and ce: "\<lceil>7 / 2 :: rat\<rceil> = 4"
    by (simp_all add: floor_eq_iff ceiling_eq_iff)
  have r: "representable (of_int k)" if "\<bar>k\<bar> < 2 ^ 96" for k
    using that by (rule representable_of_int)
  have "representable (7 / 2)"
    using representable_fraction [of 1 35] by simp
  then show ?thesis
    using quantize_nearest_multiple [of exact_decimal 7 2] exact_decimal_laws
      r [of 7] r [of 2] r [of 3] r [of 4] r [of 6] r [of 8] unfolding fl ce
    by simp blast
qed

text \<open>
  a market sell that passes the size check is of a SPOT instrument, positive, and, where OKX gives
  a market limit, quoted in USDT with a notional within that limit.
\<close>
theorem market_sell_within_limit:
  assumes "ensure_spot_market_sell_size D i sz price c = Inr ()"
  shows "oi_inst_type i = ''SPOT'' \<and> 0 < sz \<and> 0 < price \<and>
    (\<exists>limit. max_market_size_usdt D i = Inr limit \<and>
       (\<forall>m. limit = Some m \<longrightarrow> oi_quote_ccy i = ''USDT'' \<and>
          (\<exists>notional. d_mul D sz price = Some notional \<and> notional \<le> m)))"
  using assms
  by (auto simp: ensure_spot_market_sell_size_def rbind_eq_Inr ensure_max_size_Inr
      split: option.splits)

definition sample_instrument :: OkxInstrument where
  "sample_instrument =
     \<lparr> oi_inst_type = ''SPOT'', oi_inst_id = ''BTC-USDT'', oi_group_id = ''1'',
       oi_inst_id_code = Some 3, oi_state = ''live'', oi_base_ccy = ''BTC'',
       oi_quote_ccy = ''USDT'', oi_trade_quote_currencies = [''USDT''], oi_tick_size = ''1'',
       oi_lot_size = ''1'', oi_min_size = ''1'', oi_max_limit_size = [], oi_max_limit_amount = [],
       oi_max_market_size = ''7'', oi_max_market_amount = [], oi_max_trigger_size = [],
       oi_initial_price_limit_pct = [], oi_float_price_limit_pct = ''1'',
       oi_maximum_price_limit_pct = ''1'' \<rparr>"

theorem market_sell_within_limit_witness:
  "ensure_spot_market_sell_size exact_decimal sample_instrument 2 3 ''exit'' = Inr () \<and>
   oi_quote_ccy sample_instrument = ''USDT''"
proof -
  have "\<not> blank ''7''" by (simp add: is_ascii_alphanumeric_def is_ascii_digit_def byte_def)
  moreover have "read_decimal ''7'' = Some 7"
    by (simp add: read_decimal_def read_unsigned_def ascii_digits_def digits_nat_def)
  ultimately have max: "max_market_size_usdt exact_decimal sample_instrument = Inr (Some 7)"
    by (simp add: max_market_size_usdt_def parse_optional_positive_decimal_def
        parse_positive_decimal_def sample_instrument_def)
  then have run: "ensure_spot_market_sell_size exact_decimal sample_instrument 2 3 ''exit'' = Inr ()"
    by (simp add: ensure_spot_market_sell_size_def ensure_max_size_def)
      (simp add: sample_instrument_def)
  with market_sell_within_limit [OF run] max show ?thesis by auto
qed

end
