(* ===== verification/Inventory.thy ===== *)
theory Inventory
  imports Okx_Types
begin

text \<open>
  \<open>strategies/okx_ema_atr_maker_trend/inventory.rs\<close>: what part of the account's base balance the
  strategy may treat as its own.
\<close>

record StrategyBalance =
  sb_total :: decimal
  sb_tradeable_quantity :: decimal

definition strategy_balance_after_operator_baseline ::
    "decimal_ops \<Rightarrow> decimal \<Rightarrow> decimal \<Rightarrow> decimal \<Rightarrow> decimal \<Rightarrow> string \<Rightarrow> StrategyBalance res" where
  "strategy_balance_after_operator_baseline D account_total operator_owned lot min_sz base_currency =
     rbind (require (operator_owned \<ge> 0) base_currency
              ''configured operator-owned balance must be non-negative'') (\<lambda>_.
     rbind (require (account_total \<ge> operator_owned) base_currency
              ''cash balance is below configured operator-owned base balance'') (\<lambda>_.
     rbind (dec_sub D account_total operator_owned) (\<lambda>total.
     if total \<le> 0 \<or> total < min_sz
     then Inr \<lparr> sb_total = total, sb_tradeable_quantity = 0 \<rparr>
     else
       rbind (quantize_decimal_down D total lot) (\<lambda>q.
       Inr \<lparr> sb_total = total, sb_tradeable_quantity = q \<rparr>))))"

section \<open>Lemmas\<close>

lemma strategy_balance_cases:
  assumes "strategy_balance_after_operator_baseline D t b lot m c = Inr r"
  shows "0 \<le> b \<and> b \<le> t \<and> d_sub D t b = Some (sb_total r) \<and>
    (if sb_total r \<le> 0 \<or> sb_total r < m then sb_tradeable_quantity r = 0
     else quantize_decimal_down D (sb_total r) lot = Inr (sb_tradeable_quantity r))"
  using assms
  by (auto simp: strategy_balance_after_operator_baseline_def rbind_eq_Inr dec_sub_def split: if_splits)

lemma exact_quantize_down_bounds:
  assumes "quantize_decimal_down exact_decimal v step = Inr q" and "0 < step"
  shows "0 \<le> q \<and> q \<le> v \<and> v - q < step \<and> (\<exists>n::int. q = of_int n * step)"
proof -
  have v: "0 < v" and q: "q = of_int \<lfloor>v / step\<rfloor> * step"
    using assms by (auto simp: quantize_decimal_down_def rbind_eq_Inr dec_div_def dec_mul_def)
  have "0 \<le> \<lfloor>v / step\<rfloor>" using v assms(2) by simp
  moreover have "of_int \<lfloor>v / step\<rfloor> * step \<le> v"
    using of_int_floor_le [of "v / step"] by (simp only: pos_le_divide_eq [OF assms(2)])
  moreover have "v < (of_int \<lfloor>v / step\<rfloor> + 1) * step"
    using assms(2) floor_correct [of "v / step"] by (simp add: pos_divide_less_eq)
  ultimately show ?thesis using assms(2) by (auto simp: q algebra_simps)
qed

section \<open>Properties\<close>



end
