(* ===== verification/Ordered_Map.thy ===== *)
theory Ordered_Map
  imports Prelude
begin

text \<open>
  \<open>std::collections::BTreeMap\<close> (and \<open>BTreeSet\<close>): an ordered map as its sequence of entries, strictly
  ascending by key.  The list is what \<open>iter()\<close> yields, so two maps are equal exactly when Rust's
  \<open>==\<close> says so.  \<open>bt_insert\<close> returns the previous value with the new map, as \<open>insert\<close> does, and
  \<open>bt_remove\<close> the removed one.

  The interface the order books rely on is the locale \<open>ordered_map\<close>: what a lookup returns after an
  insertion or a removal, that the entries stay ordered, and that the first and last entries are the
  least and greatest keys.  Lemmas about runs of insertions and removals are proved once in it.
\<close>

type_synonym ('k, 'v) btree = "('k \<times> 'v) list"

definition bt_ok :: "('k::linorder, 'v) btree \<Rightarrow> bool" where
  "bt_ok m = sorted_wrt (<) (map fst m)"

definition bt_get :: "('k::linorder, 'v) btree \<Rightarrow> 'k \<Rightarrow> 'v option" where
  "bt_get m = map_of m"

fun bt_put :: "'k::linorder \<Rightarrow> 'v \<Rightarrow> ('k, 'v) btree \<Rightarrow> ('k, 'v) btree" where
  "bt_put k v [] = [(k, v)]"
| "bt_put k v ((a, b) # m) =
     (if k < a then (k, v) # (a, b) # m
      else if k = a then (k, v) # m
      else (a, b) # bt_put k v m)"

fun bt_del :: "'k::linorder \<Rightarrow> ('k, 'v) btree \<Rightarrow> ('k, 'v) btree" where
  "bt_del k [] = []"
| "bt_del k ((a, b) # m) = (if k = a then m else (a, b) # bt_del k m)"

definition bt_insert ::
    "'k::linorder \<Rightarrow> 'v \<Rightarrow> ('k, 'v) btree \<Rightarrow> 'v option \<times> ('k, 'v) btree" where
  "bt_insert k v m = (bt_get m k, bt_put k v m)"

definition bt_remove ::
    "'k::linorder \<Rightarrow> ('k, 'v) btree \<Rightarrow> 'v option \<times> ('k, 'v) btree" where
  "bt_remove k m = (bt_get m k, bt_del k m)"

definition bt_first :: "('k, 'v) btree \<Rightarrow> ('k \<times> 'v) option" where
  "bt_first m = (case m of [] \<Rightarrow> None | e # _ \<Rightarrow> Some e)"

definition bt_last :: "('k, 'v) btree \<Rightarrow> ('k \<times> 'v) option" where
  "bt_last m = (if m = [] then None else Some (last m))"

section \<open>Correctness of the operations\<close>

lemma bt_ok_Nil [simp]: "bt_ok []"
  by (simp add: bt_ok_def)

lemma bt_get_Nil [simp]: "bt_get [] = Map.empty"
  by (simp add: bt_get_def)

lemma bt_ok_Cons: "bt_ok ((a, b) # m) \<longleftrightarrow> (\<forall>k\<in>set (map fst m). a < k) \<and> bt_ok m"
  by (auto simp: bt_ok_def)

lemma bt_get_not_in: "k \<notin> set (map fst m) \<Longrightarrow> bt_get m k = None"
  by (auto simp: bt_get_def map_of_eq_None_iff)

lemma bt_keys_put: "set (map fst (bt_put k v m)) = insert k (set (map fst m))"
  by (induction k v m rule: bt_put.induct) auto

lemma bt_keys_del: "set (map fst (bt_del k m)) \<subseteq> set (map fst m)"
  by (induction k m rule: bt_del.induct) auto

lemma bt_ok_put: "bt_ok m \<Longrightarrow> bt_ok (bt_put k v m)"
proof (induction k v m rule: bt_put.induct)
  case (2 k v a b m)
  show ?case
  proof (cases "a < k")
    case True
    with 2 have "bt_ok (bt_put k v m)" by (auto simp: bt_ok_Cons)
    with 2 True show ?thesis by (auto simp: bt_ok_Cons bt_keys_put simp del: set_map)
  next
    case False
    with 2 show ?thesis by (force simp: bt_ok_Cons)
  qed
qed (simp add: bt_ok_def)

lemma bt_ok_del: "bt_ok m \<Longrightarrow> bt_ok (bt_del k m)"
proof (induction k m rule: bt_del.induct)
  case (2 k a b m)
  then show ?case
    using bt_keys_del [of k m] by (auto simp: bt_ok_Cons simp del: set_map)
qed simp

lemma bt_get_put: "bt_ok m \<Longrightarrow> bt_get (bt_put k v m) = (bt_get m)(k \<mapsto> v)"
  by (induction k v m rule: bt_put.induct) (auto simp: bt_get_def bt_ok_Cons fun_eq_iff)

lemma bt_get_del: "bt_ok m \<Longrightarrow> bt_get (bt_del k m) = (bt_get m)(k := None)"
proof (induction k m rule: bt_del.induct)
  case (2 k a b m)
  then have "k = a \<Longrightarrow> bt_get m a = None"
    by (auto simp: bt_ok_Cons intro!: bt_get_not_in)
  with 2 show ?case by (auto simp: bt_get_def bt_ok_Cons fun_eq_iff)
qed (simp add: bt_get_def)

lemma bt_get_iff_mem: "bt_ok m \<Longrightarrow> bt_get m k = Some v \<longleftrightarrow> (k, v) \<in> set m"
  unfolding bt_get_def bt_ok_def
  by (metis map_of_eq_Some_iff strict_sorted_iff)

lemma bt_dom: "bt_ok m \<Longrightarrow> dom (bt_get m) = fst ` set m"
  by (simp add: bt_get_def dom_map_of_conv_image_fst)

lemma bt_entries: "bt_ok m \<Longrightarrow> map (\<lambda>k. (k, the (bt_get m k))) (map fst m) = m"
  by (auto simp: o_def bt_get_iff_mem [THEN iffD2] intro!: map_idI)

lemma bt_extensional:
  assumes "bt_ok m" and "bt_ok m'" and "bt_get m = bt_get m'"
  shows "m = m'"
proof -
  have "set (map fst m) = set (map fst m')"
    using assms bt_dom by (metis set_map)
  then have "map fst m = map fst m'"
    using assms(1,2) by (auto simp: bt_ok_def intro: strict_sorted_equal)
  then show ?thesis
    using bt_entries [OF assms(1)] bt_entries [OF assms(2)] assms(3) by metis
qed

lemma bt_first_least:
  "bt_ok m \<Longrightarrow> bt_first m = Some (k, v) \<Longrightarrow> bt_get m k = Some v \<and> (\<forall>j\<in>dom (bt_get m). k \<le> j)"
  by (cases m) (auto simp: bt_first_def bt_ok_Cons bt_dom bt_get_iff_mem)

lemma bt_last_greatest:
  assumes "bt_ok m" and "bt_last m = Some (k, v)"
  shows "bt_get m k = Some v \<and> (\<forall>j\<in>dom (bt_get m). j \<le> k)"
proof -
  from assms(2) obtain xs where m: "m = xs @ [(k, v)]"
    by (auto simp: bt_last_def split: if_splits) (metis append_butlast_last_id)
  with assms(1) show ?thesis
    by (auto simp: bt_ok_def sorted_wrt_append bt_dom bt_get_iff_mem)
qed

lemma bt_first_None [simp]: "bt_first m = None \<longleftrightarrow> m = []"
  by (auto simp: bt_first_def split: list.splits)

lemma bt_last_None [simp]: "bt_last m = None \<longleftrightarrow> m = []"
  by (simp add: bt_last_def)

lemma bt_last_mem: "bt_last m = Some e \<Longrightarrow> e \<in> set m"
  using last_in_set [of m] by (auto simp: bt_last_def split: if_splits)

lemma bt_first_mem: "bt_first m = Some e \<Longrightarrow> e \<in> set m"
  by (auto simp: bt_first_def split: list.splits)

lemma bt_mem_dom: "(k, v) \<in> set m \<Longrightarrow> k \<in> dom (bt_get m)"
  by (simp add: bt_get_def domIff map_of_eq_None_iff image_iff) force

lemma bt_empty_get: "bt_ok m \<Longrightarrow> m = [] \<longleftrightarrow> bt_get m = Map.empty"
  by (auto simp: bt_get_def)

lemma bt_length_del: "k \<in> dom (bt_get m) \<Longrightarrow> Suc (length (bt_del k m)) = length m"
  by (induction k m rule: bt_del.induct) (auto simp: bt_get_def split: if_splits)

lemma bt_length_put:
  "length (bt_put k v m) \<le> Suc (length m)"
  by (induction k v m rule: bt_put.induct) auto

section \<open>The interface\<close>

locale ordered_map =
  fixes empty :: "'m"
    and get :: "'m \<Rightarrow> 'k::linorder \<Rightarrow> 'v option"
    and insert :: "'k \<Rightarrow> 'v \<Rightarrow> 'm \<Rightarrow> 'v option \<times> 'm"
    and remove :: "'k \<Rightarrow> 'm \<Rightarrow> 'v option \<times> 'm"
    and first :: "'m \<Rightarrow> ('k \<times> 'v) option"
    and last_entry :: "'m \<Rightarrow> ('k \<times> 'v) option"
    and ok :: "'m \<Rightarrow> bool"
  assumes ok_empty: "ok empty"
    and get_empty: "get empty k = None"
    and insert_old: "fst (insert k v m) = get m k"
    and remove_old: "fst (remove k m) = get m k"
    and ok_insert: "ok m \<Longrightarrow> ok (snd (insert k v m))"
    and ok_remove: "ok m \<Longrightarrow> ok (snd (remove k m))"
    and get_insert: "ok m \<Longrightarrow> get (snd (insert k v m)) = (get m)(k \<mapsto> v)"
    and get_remove: "ok m \<Longrightarrow> get (snd (remove k m)) = (get m)(k := None)"
    and first_None: "ok m \<Longrightarrow> first m = None \<longleftrightarrow> get m = Map.empty"
    and first_least: "ok m \<Longrightarrow> first m = Some (k, v) \<Longrightarrow> get m k = Some v \<and> (\<forall>j\<in>dom (get m). k \<le> j)"
    and last_None: "ok m \<Longrightarrow> last_entry m = None \<longleftrightarrow> get m = Map.empty"
    and last_greatest:
      "ok m \<Longrightarrow> last_entry m = Some (k, v) \<Longrightarrow> get m k = Some v \<and> (\<forall>j\<in>dom (get m). j \<le> k)"
begin

text \<open>Removing an entry of a side whose least (greatest) key it is keeps the other extreme.\<close>

lemma remove_first_keeps_last:
  assumes "ok m" and "first m = Some (k, v)" and "last_entry m = Some (l, w)" and "k \<noteq> l"
  shows "last_entry (snd (remove k m)) = Some (l, w)"
proof -
  have l: "get m l = Some w" and gt: "\<forall>j\<in>dom (get m). j \<le> l"
    using last_greatest [OF assms(1,3)] by auto
  have ok': "ok (snd (remove k m))" using assms(1) by (rule ok_remove)
  have g: "get (snd (remove k m)) = (get m)(k := None)" using assms(1) by (rule get_remove)
  then have "get (snd (remove k m)) l = Some w" using l assms(4) by simp
  then obtain l' w' where last': "last_entry (snd (remove k m)) = Some (l', w')"
    using last_None [OF ok'] by (cases "last_entry (snd (remove k m))") auto
  note lg = last_greatest [OF ok' last']
  have "l \<le> l'" using lg g l assms(4) by (auto simp: dom_def)
  moreover have "l' \<le> l" using lg g gt by (auto simp: dom_def split: if_splits)
  ultimately have "l' = l" by simp
  then show ?thesis using last' lg g l assms(4) by simp
qed

lemma remove_last_keeps_first:
  assumes "ok m" and "first m = Some (k, v)" and "last_entry m = Some (l, w)" and "k \<noteq> l"
  shows "first (snd (remove l m)) = Some (k, v)"
proof -
  have k: "get m k = Some v" and le: "\<forall>j\<in>dom (get m). k \<le> j"
    using first_least [OF assms(1,2)] by auto
  have ok': "ok (snd (remove l m))" using assms(1) by (rule ok_remove)
  have g: "get (snd (remove l m)) = (get m)(l := None)" using assms(1) by (rule get_remove)
  then have "get (snd (remove l m)) k = Some v" using k assms(4) by simp
  then obtain k' v' where first': "first (snd (remove l m)) = Some (k', v')"
    using first_None [OF ok'] by (cases "first (snd (remove l m))") auto
  note fl = first_least [OF ok' first']
  have "k' \<le> k" using fl g k assms(4) by (auto simp: dom_def)
  moreover have "k \<le> k'" using fl g le by (auto simp: dom_def split: if_splits)
  ultimately have "k' = k" by simp
  then show ?thesis using first' fl g k assms(4) by simp
qed

end

interpretation bt: ordered_map "[]" bt_get bt_insert bt_remove bt_first bt_last bt_ok
  by unfold_locales
    (auto simp: bt_insert_def bt_remove_def bt_get_put bt_get_del bt_ok_put bt_ok_del
      bt_empty_get [symmetric] bt_get_not_in
      dest: bt_first_least bt_last_greatest)

end
