(* ===== verification/Strategy_Config.thy ===== *)
theory Strategy_Config
  imports Okx_Types Ordered_Map
begin

text \<open>
  The strategy's configuration (\<open>config/types.rs\<close>, \<open>config/validation.rs\<close>): the requested instrument,
  the parameters with their defaults, the decimal strings a configuration may use, and the validation
  of each group.  TOML itself is parsed by a library.
\<close>

section \<open>The requested instrument\<close>

datatype RequestedInstrumentType =
  RequestedSpot | RequestedMargin | RequestedSwap | RequestedFutures | RequestedOption | RequestedEvents

datatype RequestedTradeMode =
  RequestedCash | RequestedCross | RequestedIsolated | RequestedSpotIsolated

definition inst_type_as_okx :: "RequestedInstrumentType \<Rightarrow> string" where
  "inst_type_as_okx t =
     (case t of RequestedSpot \<Rightarrow> ''SPOT'' | RequestedMargin \<Rightarrow> ''MARGIN'' | RequestedSwap \<Rightarrow> ''SWAP''
      | RequestedFutures \<Rightarrow> ''FUTURES'' | RequestedOption \<Rightarrow> ''OPTION'' | RequestedEvents \<Rightarrow> ''EVENTS'')"

definition trade_mode_as_okx :: "RequestedTradeMode \<Rightarrow> string" where
  "trade_mode_as_okx m =
     (case m of RequestedCash \<Rightarrow> ''cash'' | RequestedCross \<Rightarrow> ''cross''
      | RequestedIsolated \<Rightarrow> ''isolated'' | RequestedSpotIsolated \<Rightarrow> ''spot_isolated'')"

record RequestedTradingInstrument =
  rq_instrument :: string
  rq_inst_type :: RequestedInstrumentType
  rq_td_mode :: RequestedTradeMode

text \<open>\<open>parts.next().unwrap_or_default()\<close> twice, then a third \<open>next()\<close>.\<close>

definition okx_spot_quote_asset :: "string \<Rightarrow> string \<Rightarrow> string res" where
  "okx_spot_quote_asset context v =
     (let symbol = trim v in
      rbind (require (symbol \<noteq> []) context ''must not contain empty symbols'') (\<lambda>_.
      rbind (require (symbol = v) context
               ''symbol must not contain leading or trailing whitespace'') (\<lambda>_.
      let parts = split_on (CHR ''-'') symbol;
          base = (case parts of b # _ \<Rightarrow> b | [] \<Rightarrow> []);
          quote = (case parts of _ # q # _ \<Rightarrow> q | _ \<Rightarrow> [])
      in
      rbind (require (length parts \<le> 2) context
               ''symbol must use OKX spot format BASE-QUOTE'') (\<lambda>_.
      rbind (require (is_okx_asset_code base \<and> is_okx_asset_code quote) context
               ''symbol must use uppercase OKX spot format BASE-QUOTE'') (\<lambda>_.
      Inr quote)))))"

definition validate_okx_spot_symbol :: "string \<Rightarrow> string \<Rightarrow> unit res" where
  "validate_okx_spot_symbol context v = rbind (okx_spot_quote_asset context v) (\<lambda>_. Inr ())"

text \<open>\<open>char::is_control\<close> on an ASCII character.\<close>

definition is_ascii_control :: "char \<Rightarrow> bool" where
  "is_ascii_control c = (byte c < 32 \<or> byte c = 127)"

definition validate_requested_trading_instrument :: "RequestedTradingInstrument \<Rightarrow> unit res" where
  "validate_requested_trading_instrument r =
     (let instrument = rq_instrument r; c = ''strategy instrument'' in
      rbind (require (instrument \<noteq> []) c ''must not be empty'') (\<lambda>_.
      rbind (require (instrument = trim instrument) c
               ''must not contain leading or trailing whitespace'') (\<lambda>_.
      rbind (require (length instrument \<le> 64) c ''must not exceed 64 bytes'') (\<lambda>_.
      rbind (require (list_all is_ascii instrument \<and> \<not> list_ex is_ascii_control instrument) c
               ''must contain canonical printable ASCII only'') (\<lambda>_.
      rbind (validate_okx_spot_symbol c instrument) (\<lambda>_.
      if rq_inst_type r = RequestedSpot \<and> rq_td_mode r = RequestedCash then Inr ()
      else if rq_inst_type r = RequestedSpot \<and> rq_td_mode r = RequestedCross then
        Inl (Fail (Bad ''OKX SPOT + cross'' ''is not admitted by the current cash-SPOT runtime''))
      else if rq_inst_type r = RequestedSpot then
        Inl (Fail (Bad ''OKX SPOT trade mode'' ''is unsupported''))
      else Inl (Fail (Bad ''OKX instrument tuple'' ''is unsupported''))))))))"

section \<open>Strategy parameters\<close>

record OkxEmaAtrMakerTrendConfig =
  sc_fast_ema_period :: nat
  sc_slow_ema_period :: nat
  sc_atr_period :: nat
  sc_quantity :: decimal
  sc_operator_owned_base_balance :: decimal
  sc_max_entry_order_age_ms :: nat
  sc_max_quote_notional :: "decimal option"
  sc_max_quote_notional_by_instrument :: "(string \<times> decimal) list"
  sc_entry_offset_atr_multiple :: decimal
  sc_min_entry_offset_bps :: decimal
  sc_max_entry_offset_bps :: decimal
  sc_take_profit_atr_multiple :: decimal
  sc_stop_loss_atr_multiple :: decimal

definition default_strategy_config :: OkxEmaAtrMakerTrendConfig where
  "default_strategy_config =
     \<lparr> sc_fast_ema_period = 20, sc_slow_ema_period = 100, sc_atr_period = 14,
       sc_quantity = 1 / 1000, sc_operator_owned_base_balance = 0,
       sc_max_entry_order_age_ms = 15000, sc_max_quote_notional = None,
       sc_max_quote_notional_by_instrument = [], sc_entry_offset_atr_multiple = 1 / 10,
       sc_min_entry_offset_bps = 1, sc_max_entry_offset_bps = 15,
       sc_take_profit_atr_multiple = 2, sc_stop_loss_atr_multiple = 3 / 2 \<rparr>"

datatype DecimalStringViolation =
  EmptyDecimal | SurroundingWhitespace | ScientificNotation | TooManyFractionalDigits

definition MAX_DECIMAL_FRACTIONAL_DIGITS :: nat where
  "MAX_DECIMAL_FRACTIONAL_DIGITS = 28"

definition decimal_violation :: "string \<Rightarrow> DecimalStringViolation option" where
  "decimal_violation v =
     (if v = [] then Some EmptyDecimal
      else if v \<noteq> trim v then Some SurroundingWhitespace
      else if CHR ''e'' \<in> set v \<or> CHR ''E'' \<in> set v then Some ScientificNotation
      else if (case split_once (CHR ''.'') v of None \<Rightarrow> False
               | Some (_, fractional) \<Rightarrow> length fractional > MAX_DECIMAL_FRACTIONAL_DIGITS)
        then Some TooManyFractionalDigits
      else None)"

definition parse_decimal_config_string :: "decimal_ops \<Rightarrow> string \<Rightarrow> decimal res" where
  "parse_decimal_config_string D v =
     (case decimal_violation v of
        Some _ \<Rightarrow> Inl (Fail (Bad ''decimal string'' ''is not a plain decimal''))
      | None \<Rightarrow> ok_or (Fail (Bad ''decimal string'' ''is invalid'')) (d_parse D v))"

abbreviation sc_error :: "bool \<Rightarrow> string \<Rightarrow> unit res" where
  "sc_error b reason \<equiv> require b ''OkxEmaAtrMakerTrend'' reason"

definition validate_periods :: "OkxEmaAtrMakerTrendConfig \<Rightarrow> unit res" where
  "validate_periods p =
     rbind (sc_error (sc_fast_ema_period p > 0) ''fast_ema_period must be positive'') (\<lambda>_.
     rbind (sc_error (sc_slow_ema_period p > sc_fast_ema_period p)
              ''slow_ema_period must be greater than fast_ema_period'') (\<lambda>_.
     sc_error (sc_atr_period p > 1) ''atr_period must be greater than 1''))"

fun validate_quote_map :: "(string \<times> decimal) list \<Rightarrow> unit res" where
  "validate_quote_map [] = Inr ()"
| "validate_quote_map ((i, q) # m) =
     rbind (validate_okx_spot_symbol ''OkxEmaAtrMakerTrend max_quote_notional_by_instrument'' i) (\<lambda>_.
     rbind (sc_error (q > 0) ''max_quote_notional_by_instrument values must be positive'') (\<lambda>_.
     validate_quote_map m))"

definition validate_quote_sizing :: "OkxEmaAtrMakerTrendConfig \<Rightarrow> unit res" where
  "validate_quote_sizing p =
     rbind (sc_error (sc_quantity p > 0) ''quantity must be positive'') (\<lambda>_.
     rbind (sc_error (sc_operator_owned_base_balance p \<ge> 0)
              ''operator_owned_base_balance must be non-negative'') (\<lambda>_.
     rbind (case sc_max_quote_notional p of None \<Rightarrow> Inr ()
            | Some m \<Rightarrow> sc_error (m > 0) ''max_quote_notional must be positive'') (\<lambda>_.
     validate_quote_map (sc_max_quote_notional_by_instrument p))))"

definition validate_entry_lifetime :: "OkxEmaAtrMakerTrendConfig \<Rightarrow> unit res" where
  "validate_entry_lifetime p =
     sc_error (1000 \<le> sc_max_entry_order_age_ms p \<and> sc_max_entry_order_age_ms p \<le> 60000)
       ''max_entry_order_age_ms must be between 1000 and 60000''"

definition validate_entry_offsets :: "OkxEmaAtrMakerTrendConfig \<Rightarrow> unit res" where
  "validate_entry_offsets p =
     rbind (sc_error (sc_entry_offset_atr_multiple p > 0 \<and> sc_entry_offset_atr_multiple p \<le> 1)
              ''entry_offset_atr_multiple must be positive and reasonable'') (\<lambda>_.
     rbind (sc_error (sc_min_entry_offset_bps p > 0 \<and> sc_min_entry_offset_bps p \<le> 100)
              ''min_entry_offset_bps must be positive and reasonable'') (\<lambda>_.
     rbind (sc_error (sc_max_entry_offset_bps p > 0 \<and> sc_max_entry_offset_bps p \<le> 100)
              ''max_entry_offset_bps must be positive and reasonable'') (\<lambda>_.
     sc_error (sc_min_entry_offset_bps p \<le> sc_max_entry_offset_bps p)
       ''min_entry_offset_bps must be less than or equal to max_entry_offset_bps'')))"

definition validate_exit_multiples :: "OkxEmaAtrMakerTrendConfig \<Rightarrow> unit res" where
  "validate_exit_multiples p =
     rbind (sc_error (sc_take_profit_atr_multiple p > 0 \<and> sc_take_profit_atr_multiple p \<le> 10)
              ''take_profit_atr_multiple must be positive and reasonable'') (\<lambda>_.
     sc_error (sc_stop_loss_atr_multiple p > 0 \<and> sc_stop_loss_atr_multiple p \<le> 10)
       ''stop_loss_atr_multiple must be positive and reasonable'')"

definition validate_parameters :: "OkxEmaAtrMakerTrendConfig \<Rightarrow> unit res" where
  "validate_parameters p =
     rbind (validate_periods p) (\<lambda>_. rbind (validate_quote_sizing p) (\<lambda>_.
     rbind (validate_entry_lifetime p) (\<lambda>_. rbind (validate_entry_offsets p) (\<lambda>_.
     rbind (validate_exit_multiples p) (\<lambda>_. Inr ())))))"

section \<open>Properties\<close>

text \<open>
  the shipped defaults pass the validation, and validated parameters are usable by the strategy:
  a fast EMA strictly shorter than the slow one, a positive quantity, positive caps, offsets and
  multiples inside their ranges and an entry lifetime between one second and one minute.
\<close>
theorem validated_parameters:
  "validate_parameters default_strategy_config = Inr () \<and>
   (validate_parameters p = Inr () \<longrightarrow>
     0 < sc_fast_ema_period p \<and> sc_fast_ema_period p < sc_slow_ema_period p \<and>
     1 < sc_atr_period p \<and> 0 < sc_quantity p \<and> 0 \<le> sc_operator_owned_base_balance p \<and>
     (\<forall>m. sc_max_quote_notional p = Some m \<longrightarrow> 0 < m) \<and>
     (\<forall>(i, m)\<in>set (sc_max_quote_notional_by_instrument p). 0 < m) \<and>
     0 < sc_min_entry_offset_bps p \<and> sc_min_entry_offset_bps p \<le> sc_max_entry_offset_bps p \<and>
     sc_max_entry_offset_bps p \<le> 100 \<and> 0 < sc_entry_offset_atr_multiple p \<and>
     0 < sc_take_profit_atr_multiple p \<and> 0 < sc_stop_loss_atr_multiple p \<and>
     sc_max_entry_order_age_ms p \<in> {1000..60000})"
proof -
  have caps: "validate_quote_map m = Inr () \<Longrightarrow> \<forall>(i, q)\<in>set m. 0 < q" for m
    by (induction m rule: validate_quote_map.induct) (auto simp: rbind_eq_Inr)
  show ?thesis
    by (auto simp: validate_parameters_def validate_periods_def validate_quote_sizing_def
        validate_entry_lifetime_def validate_entry_offsets_def validate_exit_multiples_def
        default_strategy_config_def rbind_eq_Inr dest: caps split: option.splits)
qed

theorem validated_parameters_witness:
  "validate_parameters default_strategy_config = Inr () \<and>
   0 < sc_quantity default_strategy_config"
  using validated_parameters [of default_strategy_config] by blast

end
