(* ===== verification/Trading_Instrument.thy ===== *)
theory Trading_Instrument
  imports Strategy_Config
begin

text \<open>
  \<open>okx/trading_instrument.rs\<close>: the validated trading instrument, the USD conversion evidence and the
  fresh price limit.  A validated value is built only by its constructor function; the properties say
  what such a value guarantees.
\<close>

datatype ValidatedQuoteUsdSource = UsdIdentity | UsdIndex string

record ValidatedQuoteUsdRate =
  qr_quote_ccy :: string
  qr_source :: ValidatedQuoteUsdSource
  qr_usd_per_quote :: decimal
  qr_source_timestamp_ms :: "int option"

record OkxPriceLimit =
  pl_inst_type :: string
  pl_inst_id :: string
  pl_buy_limit :: string
  pl_sell_limit :: string
  pl_timestamp_ms :: string
  pl_enabled :: bool

record ValidatedSpotPriceLimit =
  vp_inst_id :: string
  vp_buy_limit :: "decimal option"
  vp_sell_limit :: "decimal option"
  vp_source_timestamp_ms :: int

section \<open>Price limits\<close>

definition parse_positive_price_limit :: "decimal_ops \<Rightarrow> string \<Rightarrow> string \<Rightarrow> decimal res" where
  "parse_positive_price_limit D field v =
     rbind (require (\<not> blank v \<and> v = trim v) field ''must be non-empty and trimmed when enabled'') (\<lambda>_.
     rbind (ok_or (Fail (Bad field ''must be a decimal value'')) (d_parse D v)) (\<lambda>x.
     rbind (require (x > 0) field ''must be positive'') (\<lambda>_. Inr x)))"

text \<open>
  \<open>ValidatedSpotPriceLimit::from_response\<close>; the staleness bound is the duration's milliseconds.  The
  age cannot overflow an \<open>i128\<close>: both times are positive and ordered by then.
\<close>

definition price_limit_from_response ::
    "decimal_ops \<Rightarrow> string \<Rightarrow> OkxPriceLimit \<Rightarrow> int \<Rightarrow> nat \<Rightarrow> ValidatedSpotPriceLimit res" where
  "price_limit_from_response D expected_inst_id row server_now_ms max_staleness_ms =
     rbind (require (pl_inst_type row = ''SPOT'' \<or> pl_inst_type row = ''MARGIN'') expected_inst_id
              ''price-limit response returned unsupported instType'') (\<lambda>_.
     rbind (require (pl_inst_id row = expected_inst_id) expected_inst_id
              ''price-limit response returned another instrument'') (\<lambda>_.
     rbind (require (server_now_ms > 0) ''synchronized OKX server time'' ''must be positive'') (\<lambda>_.
     rbind (ok_or (Fail (Bad ''OKX price-limit ts'' ''must be Unix milliseconds''))
              (parse_i128 (pl_timestamp_ms row))) (\<lambda>ts.
     rbind (require (ts > 0) ''OKX price-limit ts'' ''must be positive'') (\<lambda>_.
     rbind (require (ts \<le> server_now_ms) ''OKX price-limit ts'' ''is in the future'') (\<lambda>_.
     rbind (require (server_now_ms - ts \<le> int max_staleness_ms) ''OKX price-limit ts'' ''is stale'') (\<lambda>_.
     rbind (if pl_enabled row then
              rbind (parse_positive_price_limit D ''buyLmt'' (pl_buy_limit row)) (\<lambda>b.
              rbind (parse_positive_price_limit D ''sellLmt'' (pl_sell_limit row)) (\<lambda>s.
              Inr (Some b, Some s)))
            else
              rbind (require (pl_buy_limit row = [] \<and> pl_sell_limit row = []) expected_inst_id
                       ''disabled price-limit evidence must return empty limits'') (\<lambda>_.
              Inr (None, None))) (\<lambda>(buy, sell).
     Inr \<lparr> vp_inst_id = pl_inst_id row, vp_buy_limit = buy, vp_sell_limit = sell,
           vp_source_timestamp_ms = ts \<rparr>))))))))"

definition ensure_price :: "ValidatedSpotPriceLimit \<Rightarrow> OrderSide \<Rightarrow> decimal \<Rightarrow> string \<Rightarrow> unit res" where
  "ensure_price l side price context =
     rbind (require (price > 0) context ''price must be positive'') (\<lambda>_.
     case side of
       Buy \<Rightarrow> (case vp_buy_limit l of None \<Rightarrow> Inr ()
               | Some b \<Rightarrow> require (price \<le> b) context ''buy price exceeds fresh OKX buyLmt'')
     | Sell \<Rightarrow> (case vp_sell_limit l of None \<Rightarrow> Inr ()
                | Some s \<Rightarrow> require (price \<ge> s) context ''sell price is below fresh OKX sellLmt''))"

section \<open>USD conversion\<close>

definition usd_identity :: "string \<Rightarrow> ValidatedQuoteUsdRate res" where
  "usd_identity quote_ccy =
     rbind (require (quote_ccy = ''USD'') ''USD identity conversion''
              ''requires exact quote currency USD'') (\<lambda>_.
     Inr \<lparr> qr_quote_ccy = quote_ccy, qr_source = UsdIdentity, qr_usd_per_quote = 1,
           qr_source_timestamp_ms = None \<rparr>)"

definition usd_from_index_ticker ::
    "decimal_ops \<Rightarrow> string \<Rightarrow> OkxIndexTicker \<Rightarrow> ValidatedQuoteUsdRate res" where
  "usd_from_index_ticker D quote_ccy t =
     rbind (require (quote_ccy \<noteq> ''USD'') ''USD quote currency'' ''must use identity conversion'') (\<lambda>_.
     let expected = quote_ccy @ ''-USD'' in
     rbind (require (ix_inst_id t = expected) ''OKX index ticker'' ''returned another index'') (\<lambda>_.
     rbind (index_price D t) (\<lambda>p.
     rbind (index_timestamp_ms t) (\<lambda>ts.
     Inr \<lparr> qr_quote_ccy = quote_ccy, qr_source = UsdIndex expected, qr_usd_per_quote = p,
           qr_source_timestamp_ms = Some ts \<rparr>))))"

section \<open>The validated instrument\<close>

text \<open>\<open>ValidatedInstrumentType\<close> and \<open>ValidatedTradeMode\<close> have the single values SPOT and cash.\<close>

record ValidatedTradingInstrument =
  vi_instrument :: OkxInstrument
  vi_trade_quote_ccy :: string
  vi_quote_usd_source :: "ValidatedQuoteUsdSource option"

definition vi_inst_id :: "ValidatedTradingInstrument \<Rightarrow> string" where
  "vi_inst_id v = oi_inst_id (vi_instrument v)"

definition vi_base_ccy :: "ValidatedTradingInstrument \<Rightarrow> string" where
  "vi_base_ccy v = oi_base_ccy (vi_instrument v)"

definition vi_quote_ccy :: "ValidatedTradingInstrument \<Rightarrow> string" where
  "vi_quote_ccy v = oi_quote_ccy (vi_instrument v)"

definition ensure_quote_amount_within_usd_limit ::
    "decimal_ops \<Rightarrow> ValidatedTradingInstrument \<Rightarrow> decimal \<Rightarrow> ValidatedQuoteUsdRate \<Rightarrow>
      decimal option \<Rightarrow> string \<Rightarrow> string \<Rightarrow> unit res" where
  "ensure_quote_amount_within_usd_limit D v quote_amount rate maximum okx_field context =
     (case maximum of None \<Rightarrow> Inr ()
      | Some mx \<Rightarrow>
          rbind (require (quote_amount > 0) context ''must be positive'') (\<lambda>_.
          rbind (ok_or (Fail (Bad ''validated trading instrument''
                   ''omitted required USD conversion source'')) (vi_quote_usd_source v)) (\<lambda>expected.
          rbind (require (qr_quote_ccy rate = vi_quote_ccy v \<and> qr_source rate = expected) context
                   ''fresh USD conversion evidence contradicts validated quote currency'') (\<lambda>_.
          rbind (ok_or (Fail (Bad context ''USD conversion overflowed Decimal''))
                   (d_mul D quote_amount (qr_usd_per_quote rate))) (\<lambda>usd.
          require (usd \<le> mx) context (''USD amount exceeds OKX '' @ okx_field))))))"

definition vi_ensure_limit_quote_amount ::
    "decimal_ops \<Rightarrow> ValidatedTradingInstrument \<Rightarrow> decimal \<Rightarrow> ValidatedQuoteUsdRate \<Rightarrow> string \<Rightarrow> unit res" where
  "vi_ensure_limit_quote_amount D v quote_amount rate context =
     rbind (max_limit_amount D (vi_instrument v)) (\<lambda>m.
     ensure_quote_amount_within_usd_limit D v quote_amount rate m ''maxLmtAmt'' context)"

definition vi_ensure_market_buy_quote_amount ::
    "decimal_ops \<Rightarrow> ValidatedTradingInstrument \<Rightarrow> decimal \<Rightarrow> ValidatedQuoteUsdRate \<Rightarrow> string \<Rightarrow> unit res" where
  "vi_ensure_market_buy_quote_amount D v quote_amount rate context =
     rbind (max_market_amount D (vi_instrument v)) (\<lambda>m.
     ensure_quote_amount_within_usd_limit D v quote_amount rate m ''maxMktAmt'' context)"

text \<open>\<open>a? == b?\<close> inside a chain of \<open>&&\<close>: the second operand runs only if the first holds.\<close>

definition same_value :: "'a res \<Rightarrow> 'a res \<Rightarrow> bool res" where
  "same_value a b = rbind a (\<lambda>x. rbind b (\<lambda>y. Inr (x = y)))"

definition and_then :: "bool res \<Rightarrow> bool res \<Rightarrow> bool res" where
  "and_then a b = rbind a (\<lambda>x. if x then b else Inr False)"

definition validate_overlapping_metadata ::
    "decimal_ops \<Rightarrow> OkxInstrument \<Rightarrow> OkxInstrument \<Rightarrow> unit res" where
  "validate_overlapping_metadata D p a =
     rbind (and_then (Inr (oi_inst_id p = oi_inst_id a \<and> oi_inst_type p = oi_inst_type a \<and>
              oi_state p = oi_state a \<and> oi_base_ccy p = oi_base_ccy a \<and>
              oi_quote_ccy p = oi_quote_ccy a))
            (same_value (fee_group_id p) (fee_group_id a))) (\<lambda>identity.
     rbind (require identity (oi_inst_id p) ''instrument identity metadata disagrees'') (\<lambda>_.
     rbind (same_value (trade_quote_currency_set p) (trade_quote_currency_set a)) (\<lambda>quotes.
     rbind (require quotes (oi_inst_id p) ''tradeQuoteCcyList metadata disagrees'') (\<lambda>_.
     rbind (and_then (same_value (tick_size D p) (tick_size D a))
           (and_then (same_value (lot_size D p) (lot_size D a))
           (and_then (same_value (min_size D p) (min_size D a))
           (and_then (same_value (max_limit_size D p) (max_limit_size D a))
           (and_then (same_value (max_limit_amount D p) (max_limit_amount D a))
           (and_then (same_value (max_market_size_usdt D p) (max_market_size_usdt D a))
           (and_then (same_value (max_market_amount D p) (max_market_amount D a))
             (same_value (max_trigger_size D p) (max_trigger_size D a))))))))) (\<lambda>limits.
     rbind (require limits (oi_inst_id p) ''precision or order-limit metadata disagrees'') (\<lambda>_.
     rbind (same_value (price_limit_percentages D p) (price_limit_percentages D a)) (\<lambda>pct.
     rbind (require pct (oi_inst_id p) ''price-limit percentage metadata disagrees'') (\<lambda>_.
     rbind (same_value (websocket_inst_id_code p) (websocket_inst_id_code a)) (\<lambda>code.
     require code (oi_inst_id p) ''instIdCode metadata disagrees'')))))))))"

definition ensure_public_refresh_matches ::
    "decimal_ops \<Rightarrow> ValidatedTradingInstrument \<Rightarrow> OkxInstrument \<Rightarrow> unit res" where
  "ensure_public_refresh_matches D v current =
     rbind (ensure_live current) (\<lambda>_. validate_overlapping_metadata D (vi_instrument v) current)"

definition validate_instrument_row ::
    "decimal_ops \<Rightarrow> RequestedTradingInstrument \<Rightarrow> OkxInstrument \<Rightarrow> unit res" where
  "validate_instrument_row D requested i =
     rbind (require (oi_inst_id i = rq_instrument requested) (oi_inst_id i)
              ''is not the requested instrument'') (\<lambda>_.
     rbind (require (oi_inst_type i = inst_type_as_okx (rq_inst_type requested)) (oi_inst_id i)
              ''has another instType than requested'') (\<lambda>_.
     rbind (ensure_live i) (\<lambda>_. rbind (fee_group_id i) (\<lambda>_.
     rbind (ok_or (Fail (Bad ''validated OKX SPOT instrument'' ''must use BASE-QUOTE''))
              (split_once (CHR ''-'') (rq_instrument requested))) (\<lambda>(base, quote).
     rbind (require (oi_base_ccy i = base \<and> oi_quote_ccy i = quote) (oi_inst_id i)
              ''currencies contradict identifier'') (\<lambda>_.
     rbind (tick_size D i) (\<lambda>_. rbind (lot_size D i) (\<lambda>_. rbind (min_size D i) (\<lambda>_.
     rbind (validate_order_limits D i) (\<lambda>_. rbind (websocket_inst_id_code i) (\<lambda>_.
     Inr ())))))))))))"

definition validate_quote_usd_rate ::
    "decimal_ops \<Rightarrow> OkxInstrument \<Rightarrow> ValidatedQuoteUsdRate option \<Rightarrow>
      ValidatedQuoteUsdSource option res" where
  "validate_quote_usd_rate D i rate =
     rbind (has_usd_order_amount_limit D i) (\<lambda>has_limit.
     if \<not> has_limit then
       rbind (require (rate = None) (oi_inst_id i)
                ''USD conversion evidence was supplied without a USD-denominated limit'') (\<lambda>_. Inr None)
     else
       rbind (ok_or (Fail (Bad (oi_inst_id i)
                ''USD-denominated order limits require quote-to-USD evidence'')) rate) (\<lambda>r.
       rbind (require (qr_quote_ccy r = oi_quote_ccy i) (oi_inst_id i)
                ''USD conversion evidence was for another quote currency'') (\<lambda>_.
       let expected = (if oi_quote_ccy i = ''USD'' then UsdIdentity
                       else UsdIndex (oi_quote_ccy i @ ''-USD'')) in
       rbind (require (qr_source r = expected) (oi_inst_id i)
                ''USD conversion evidence source contradicted quote currency'') (\<lambda>_.
       Inr (Some expected)))))"

text \<open>The first matching row is parsed before the check for a second one.\<close>

definition available_balance :: "decimal_ops \<Rightarrow> OkxBalance list \<Rightarrow> string \<Rightarrow> decimal res" where
  "available_balance D balances currency =
     (case filter (\<lambda>d. bd_ccy d = currency) (concat (map ba_details balances)) of
        [] \<Rightarrow> Inr 0
      | d # ds \<Rightarrow>
          rbind (balance_available D d) (\<lambda>v.
          rbind (require (ds = []) ''OKX account balance returned duplicate rows for'' currency) (\<lambda>_.
          Inr v)))"

definition validate_sizing_and_balance_evidence ::
    "decimal_ops \<Rightarrow> OkxInstrument \<Rightarrow> decimal \<Rightarrow> OkxMaximumOrderSize \<Rightarrow> OkxMaximumAvailableSize \<Rightarrow>
      OkxBalance list \<Rightarrow> unit res" where
  "validate_sizing_and_balance_evidence D i price maximum available balances =
     rbind (require (price > 0) ''OKX sizing evidence price'' ''must be positive'') (\<lambda>_.
     rbind (require (mo_inst_id maximum = oi_inst_id i \<and> ma_inst_id available = oi_inst_id i)
              (oi_inst_id i) ''sizing evidence returned a contradictory instrument identity'') (\<lambda>_.
     rbind (ensure_cash_spot_margin_currency maximum (oi_base_ccy i)) (\<lambda>_.
     rbind (max_buy_base D maximum) (\<lambda>max_buy.
     rbind (max_sell_quote D maximum) (\<lambda>max_sell.
     rbind (available_buy_quote D available) (\<lambda>buy_quote.
     rbind (available_sell_base D available) (\<lambda>sell_base.
     rbind (available_balance D balances (oi_quote_ccy i)) (\<lambda>quote_available.
     rbind (available_balance D balances (oi_base_ccy i)) (\<lambda>base_available.
     rbind (require (buy_quote \<le> quote_available) (oi_inst_id i)
              ''availBuy exceeds cash available balance'') (\<lambda>_.
     rbind (require (sell_base \<le> base_available) (oi_inst_id i)
              ''availSell exceeds cash available balance'') (\<lambda>_.
     rbind (ok_or (Fail (Bad (oi_inst_id i) ''maxBuy times price overflowed Decimal''))
              (d_mul D max_buy price)) (\<lambda>max_buy_quote.
     rbind (require (max_buy_quote \<le> buy_quote) (oi_inst_id i) ''maxBuy contradicts availBuy'') (\<lambda>_.
     rbind (ok_or (Fail (Bad (oi_inst_id i) ''maxSell divided by price overflowed Decimal''))
              (d_div D max_sell price)) (\<lambda>max_sell_base.
     require (max_sell_base \<le> sell_base) (oi_inst_id i)
       ''maxSell contradicts availSell''))))))))))))))"

record TradingInstrumentExchangeEvidence =
  ev_public :: OkxInstrument
  ev_account :: OkxInstrument
  ev_account_config :: OkxAccountConfig
  ev_price :: decimal
  ev_maximum :: OkxMaximumOrderSize
  ev_available :: OkxMaximumAvailableSize
  ev_balances :: "OkxBalance list"
  ev_quote_usd_rate :: "ValidatedQuoteUsdRate option"

definition from_exchange_evidence ::
    "decimal_ops \<Rightarrow> RequestedTradingInstrument \<Rightarrow> TradingInstrumentExchangeEvidence \<Rightarrow>
      ValidatedTradingInstrument res" where
  "from_exchange_evidence D requested e =
     rbind (validate_requested_trading_instrument requested) (\<lambda>_.
     rbind (require (rq_inst_type requested = RequestedSpot \<and> rq_td_mode requested = RequestedCash)
              ''OKX runtime validation'' ''admits only a requested SPOT + cash tuple'') (\<lambda>_.
     rbind (ensure_spot_trading_enabled (ev_account_config e)) (\<lambda>_.
     rbind (validate_instrument_row D requested (ev_public e)) (\<lambda>_.
     rbind (validate_instrument_row D requested (ev_account e)) (\<lambda>_.
     rbind (validate_overlapping_metadata D (ev_public e) (ev_account e)) (\<lambda>_.
     let trade_quote = oi_quote_ccy (ev_public e) in
     rbind (ensure_trade_quote_currency (ev_public e) trade_quote) (\<lambda>_.
     rbind (ensure_trade_quote_currency (ev_account e) trade_quote) (\<lambda>_.
     rbind (validate_quote_usd_rate D (ev_public e) (ev_quote_usd_rate e)) (\<lambda>source.
     rbind (validate_sizing_and_balance_evidence D (ev_public e) (ev_price e) (ev_maximum e)
              (ev_available e) (ev_balances e)) (\<lambda>_.
     Inr \<lparr> vi_instrument = ev_public e, vi_trade_quote_ccy = trade_quote,
           vi_quote_usd_source = source \<rparr>))))))))))"

section \<open>Lemmas\<close>

lemma same_value_True: "same_value a b = Inr True \<longleftrightarrow> (\<exists>x. a = Inr x \<and> b = Inr x)"
  by (auto simp: same_value_def rbind_eq_Inr)

lemma and_then_True: "and_then a b = Inr True \<longleftrightarrow> a = Inr True \<and> b = Inr True"
  by (auto simp: and_then_def rbind_eq_Inr)

text \<open>What a validated instrument guarantees.\<close>

definition instrument_ok :: "decimal_ops \<Rightarrow> ValidatedTradingInstrument \<Rightarrow> bool" where
  "instrument_ok D v =
     (oi_inst_type (vi_instrument v) = ''SPOT'' \<and> oi_state (vi_instrument v) = ''live'' \<and>
      vi_inst_id v = vi_base_ccy v @ CHR ''-'' # vi_quote_ccy v \<and>
      vi_trade_quote_ccy v = vi_quote_ccy v \<and>
      (\<exists>t. tick_size D (vi_instrument v) = Inr t \<and> 0 < t) \<and>
      (\<exists>l. lot_size D (vi_instrument v) = Inr l \<and> 0 < l) \<and>
      (\<exists>m. min_size D (vi_instrument v) = Inr m \<and> 0 < m))"

lemma sizes_positive:
  "tick_size D i = Inr t \<Longrightarrow> 0 < t" "lot_size D i = Inr t \<Longrightarrow> 0 < t" "min_size D i = Inr t \<Longrightarrow> 0 < t"
  by (auto simp: tick_size_def lot_size_def min_size_def parse_positive_decimal_Inr)

lemma validate_instrument_row_Inr:
  assumes "validate_instrument_row D requested i = Inr ()"
  shows "oi_inst_id i = rq_instrument requested \<and>
    oi_inst_type i = inst_type_as_okx (rq_inst_type requested) \<and> oi_state i = ''live'' \<and>
    rq_instrument requested = oi_base_ccy i @ CHR ''-'' # oi_quote_ccy i \<and>
    (\<exists>t. tick_size D i = Inr t \<and> 0 < t) \<and> (\<exists>l. lot_size D i = Inr l \<and> 0 < l) \<and>
    (\<exists>m. min_size D i = Inr m \<and> 0 < m)"
  using assms
  by (auto simp: validate_instrument_row_def rbind_eq_Inr ensure_live_def
      dest!: split_once_Some intro: sizes_positive)

lemma sizing_within_balance:
  assumes "validate_sizing_and_balance_evidence D i price maximum available balances = Inr ()"
  shows "\<exists>q b. available_balance D balances (oi_quote_ccy i) = Inr q \<and>
    available_balance D balances (oi_base_ccy i) = Inr b \<and>
    (\<exists>x. available_buy_quote D available = Inr x \<and> x \<le> q) \<and>
    (\<exists>y. available_sell_base D available = Inr y \<and> y \<le> b)"
  using assms unfolding validate_sizing_and_balance_evidence_def rbind_eq_Inr
  by (elim exE conjE) auto

section \<open>Properties\<close>


definition sample_evidence :: TradingInstrumentExchangeEvidence where
  "sample_evidence =
     \<lparr> ev_public = sample_instrument, ev_account = sample_instrument,
       ev_account_config = \<lparr> cf_uid = ''1'', cf_main_uid = ''1'', cf_account_level = ''1'',
         cf_perm = ''trade'', cf_auto_loan = False, cf_enable_spot_borrow = False,
         cf_spot_borrow_auto_repay = False, cf_fee_type = ''0'', cf_kyc_level = ''2'' \<rparr>,
       ev_price = 1,
       ev_maximum = \<lparr> mo_inst_id = ''BTC-USDT'', mo_ccy = [], mo_max_buy = ''1'', mo_max_sell = ''1'' \<rparr>,
       ev_available = \<lparr> ma_inst_id = ''BTC-USDT'', ma_available_buy = ''1'', ma_available_sell = ''1'' \<rparr>,
       ev_balances = [\<lparr> ba_details =
         [\<lparr> bd_ccy = ''BTC'', bd_available_balance = ''1'', bd_cash_balance = ''1'', bd_frozen_balance = ''1'' \<rparr>,
          \<lparr> bd_ccy = ''USDT'', bd_available_balance = ''1'', bd_cash_balance = ''1'', bd_frozen_balance = ''1'' \<rparr>] \<rparr>],
       ev_quote_usd_rate = None \<rparr>"

definition sample_request :: RequestedTradingInstrument where
  "sample_request = \<lparr> rq_instrument = ''BTC-USDT'', rq_inst_type = RequestedSpot,
     rq_td_mode = RequestedCash \<rparr>"

lemma sample_trims:
  "trim ''BTC-USDT'' = ''BTC-USDT''" "trim ''trade'' = ''trade''" "trim ''1'' = ''1''"
  by (simp_all add: trim_def trim_start.simps trim_end_rev.simps whitespace_encodings_def byte_def)

lemma sample_decs:
  "read_decimal ''1'' = Some 1" "read_decimal ''7'' = Some 7"
  by (simp_all add: read_decimal_def read_unsigned_def ascii_digits_def digits_nat_def)

lemma sample_ints:
  "parse_u64 ''1'' = Some 1"
  by (simp add: parse_u64_def parse_unsigned_def parse_digits_def digits_value_def
    digit_value_def byte_def is_ascii_digit_def u64_max_def)

lemma sample_blanks:
  "\<not> blank ''7''" by (simp add: is_ascii_alphanumeric_def is_ascii_digit_def byte_def)

lemma sample_sizes:
  "tick_size exact_decimal sample_instrument = Inr 1"
  "lot_size exact_decimal sample_instrument = Inr 1"
  "min_size exact_decimal sample_instrument = Inr 1"
  "max_limit_size exact_decimal sample_instrument = Inr None"
  "max_limit_amount exact_decimal sample_instrument = Inr None"
  "max_market_size_usdt exact_decimal sample_instrument = Inr (Some 7)"
  "max_market_amount exact_decimal sample_instrument = Inr None"
  "max_trigger_size exact_decimal sample_instrument = Inr None"
  "price_limit_percentages exact_decimal sample_instrument = Inr (None, 1, 1)"
  "fee_group_id sample_instrument = Inr ''1''"
  "websocket_inst_id_code sample_instrument = Inr (Some 3)"
  "trade_quote_currency_set sample_instrument = Inr {''USDT''}"
  by (simp_all add: tick_size_def lot_size_def min_size_def max_limit_size_def
    max_limit_amount_def max_market_size_usdt_def max_market_amount_def max_trigger_size_def
    price_limit_percentages_def fee_group_id_def websocket_inst_id_code_def
    trade_quote_currency_set_def parse_positive_decimal_def parse_optional_positive_decimal_def
    validate_fee_group_id_def sample_trims sample_ints sample_decs sample_blanks sample_instrument_def is_ascii_digit_def
    byte_def is_okx_asset_code_def is_ascii_uppercase_def)

lemma sample_evidence_validated: "\<exists>v. from_exchange_evidence exact_decimal sample_request sample_evidence = Inr v"
proof -
  have req: "validate_requested_trading_instrument sample_request = Inr ()"
    by (simp add: validate_requested_trading_instrument_def sample_request_def Let_def sample_trims
        is_ascii_def byte_def is_ascii_control_def validate_okx_spot_symbol_def
        okx_spot_quote_asset_def is_okx_asset_code_def is_ascii_uppercase_def)
  have acct: "ensure_spot_trading_enabled (ev_account_config sample_evidence) = Inr ()"
    by (simp add: ensure_spot_trading_enabled_def sample_evidence_def account_level_parse_def
        has_trade_permission_def sample_trims eq_ignore_ascii_case_def no_borrowing_def spot_fee_type_def)
  have row: "validate_instrument_row exact_decimal sample_request sample_instrument = Inr ()"
    by (simp add: validate_instrument_row_def sample_sizes validate_order_limits_def)
      (simp add: sample_request_def sample_instrument_def inst_type_as_okx_def ensure_live_def)
  have over: "validate_overlapping_metadata exact_decimal sample_instrument sample_instrument = Inr ()"
    by (simp add: validate_overlapping_metadata_def and_then_def same_value_def sample_sizes)
  show ?thesis
    by (simp add: from_exchange_evidence_def req acct [unfolded sample_evidence_def, simplified]
        row over sample_sizes sample_evidence_def sample_request_def [symmetric] Let_def
        ensure_trade_quote_currency_def validate_quote_usd_rate_def has_usd_order_amount_limit_def
        validate_sizing_and_balance_evidence_def ensure_cash_spot_margin_currency_def
        max_buy_base_def max_sell_quote_def available_buy_quote_def available_sell_base_def
        parse_non_negative_decimal_def parse_decimal_def sample_decs available_balance_def
        balance_available_def)
      (simp add: sample_request_def sample_instrument_def)
qed


text \<open>
  A price that passes the check lies within the limit of evidence about the expected instrument
  that is not from the future and not staler than allowed: below the buy limit for a buy, above the
  sell limit for a sell, whenever OKX enabled the limit.
\<close>
theorem price_within_fresh_limit:
  assumes "price_limit_from_response D inst row now max_age = Inr l"
    and "ensure_price l side price c = Inr ()"
  shows "vp_inst_id l = inst \<and> vp_source_timestamp_ms l \<le> now \<and>
    now \<le> vp_source_timestamp_ms l + int max_age \<and> 0 < price \<and>
    (if pl_enabled row
     then \<exists>b s. d_parse D (pl_buy_limit row) = Some b \<and> d_parse D (pl_sell_limit row) = Some s \<and>
       0 < b \<and> 0 < s \<and> (case side of Buy \<Rightarrow> price \<le> b | Sell \<Rightarrow> s \<le> price)
     else vp_buy_limit l = None \<and> vp_sell_limit l = None)"
proof -
  have evidence: "vp_inst_id l = inst \<and> vp_source_timestamp_ms l \<le> now \<and>
      now \<le> vp_source_timestamp_ms l + int max_age \<and>
      (if pl_enabled row
       then \<exists>b s. d_parse D (pl_buy_limit row) = Some b \<and> d_parse D (pl_sell_limit row) = Some s \<and>
         0 < b \<and> 0 < s \<and> vp_buy_limit l = Some b \<and> vp_sell_limit l = Some s
       else vp_buy_limit l = None \<and> vp_sell_limit l = None)"
    using assms(1)
    by (cases "pl_enabled row")
      (auto simp: price_limit_from_response_def rbind_eq_Inr parse_positive_price_limit_def)
  then show ?thesis
    using assms(2)
    by (auto simp: ensure_price_def rbind_eq_Inr split: if_splits OrderSide.splits)
qed

theorem price_within_fresh_limit_witness:
  "\<exists>l. price_limit_from_response exact_decimal ''BTC-USDT''
      \<lparr> pl_inst_type = ''SPOT'', pl_inst_id = ''BTC-USDT'', pl_buy_limit = ''9'',
        pl_sell_limit = ''7'', pl_timestamp_ms = ''5'', pl_enabled = True \<rparr> 6 3 = Inr l \<and>
    ensure_price l Buy 8 ''entry'' = Inr () \<and> vp_source_timestamp_ms l \<le> 6"
proof -
  have trims: "trim ''9'' = ''9''" "trim ''7'' = ''7''"
    by (simp_all add: trim_def trim_start.simps trim_end_rev.simps whitespace_encodings_def byte_def)
  have decs: "read_decimal ''9'' = Some 9" "read_decimal ''7'' = Some 7"
    by (simp_all add: read_decimal_def read_unsigned_def ascii_digits_def digits_nat_def)
  have ints: "parse_i128 ''5'' = Some 5"
    by (simp add: parse_i128_def parse_signed_def parse_digits_def digits_value_def digit_value_def
        byte_def is_ascii_digit_def)
  obtain l where l: "price_limit_from_response exact_decimal ''BTC-USDT''
      \<lparr> pl_inst_type = ''SPOT'', pl_inst_id = ''BTC-USDT'', pl_buy_limit = ''9'',
        pl_sell_limit = ''7'', pl_timestamp_ms = ''5'', pl_enabled = True \<rparr> 6 3 = Inr l"
    and b: "vp_buy_limit l = Some 9"
    by (simp add: price_limit_from_response_def parse_positive_price_limit_def trims decs ints
        blank_def)
  have "ensure_price l Buy 8 ''entry'' = Inr ()" by (simp add: ensure_price_def b)
  with price_within_fresh_limit [OF l this] l show ?thesis by blast
qed

end
