(* ===== verification/Order_Id.thy ===== *)
theory Order_Id
  imports Rust_Strings
begin

unbundle bit_operations_syntax

text \<open>
  \<open>strategies/okx_ema_atr_maker_trend/order_id.rs\<close>: client order identifiers, by which the strategy
  recognises its own orders.  The clock reading and the value of the global sequence counter are
  arguments of \<open>client_order_id\<close>; \<open>fetch_add\<close> wraps, as \<open>+ 1\<close> on \<open>u64\<close> does.
\<close>

definition OKX_CLIENT_ORDER_ID_MAX_LEN :: nat where "OKX_CLIENT_ORDER_ID_MAX_LEN = 32"
definition ORDER_ID_PREFIX :: string where "ORDER_ID_PREFIX = ''ROX''"
definition STRATEGY_TAG_PREFIX_LEN :: nat where "STRATEGY_TAG_PREFIX_LEN = 4"
definition STRATEGY_TAG_HASH_LEN :: nat where "STRATEGY_TAG_HASH_LEN = 7"
definition STRATEGY_TAG_LEN :: nat where
  "STRATEGY_TAG_LEN = STRATEGY_TAG_PREFIX_LEN + STRATEGY_TAG_HASH_LEN"
definition LEGACY_STRATEGY_TAG_MAX_LEN :: nat where "LEGACY_STRATEGY_TAG_MAX_LEN = 8"
definition LEGACY_STRATEGY_TAG_FALLBACK :: string where "LEGACY_STRATEGY_TAG_FALLBACK = ''STRAT''"
definition MIN_SUFFIX_LEN :: nat where "MIN_SUFFIX_LEN = 5"
definition PURPOSE_CODE_LEN :: nat where "PURPOSE_CODE_LEN = 1"
definition MAX_SUFFIX_LEN :: nat where
  "MAX_SUFFIX_LEN =
     OKX_CLIENT_ORDER_ID_MAX_LEN - length ORDER_ID_PREFIX - STRATEGY_TAG_LEN - PURPOSE_CODE_LEN"
definition FNV_1A_32_OFFSET_BASIS :: u32 where "FNV_1A_32_OFFSET_BASIS = 0x811c9dc5"
definition FNV_1A_32_PRIME :: u32 where "FNV_1A_32_PRIME = 0x01000193"

lemmas id_constants =
  OKX_CLIENT_ORDER_ID_MAX_LEN_def ORDER_ID_PREFIX_def STRATEGY_TAG_PREFIX_LEN_def
  STRATEGY_TAG_HASH_LEN_def STRATEGY_TAG_LEN_def LEGACY_STRATEGY_TAG_MAX_LEN_def
  MIN_SUFFIX_LEN_def PURPOSE_CODE_LEN_def MAX_SUFFIX_LEN_def

datatype OrderPurpose = Entry | TakeProfit | StopLoss

definition as_code :: "OrderPurpose \<Rightarrow> string" where
  "as_code p = (case p of Entry \<Rightarrow> ''B'' | TakeProfit \<Rightarrow> ''T'' | StopLoss \<Rightarrow> ''S'')"

section \<open>Base 36\<close>

definition base36_digit :: "nat \<Rightarrow> char" where
  "base36_digit d = (if d \<le> 9 then char_of (48 + d) else char_of (65 + d - 10))"

text \<open>The digits as the loop pushes them, least significant first.\<close>

fun base36_push :: "nat \<Rightarrow> string" where
  "base36_push v = (if v = 0 then [] else base36_digit (v mod 36) # base36_push (v div 36))"

declare base36_push.simps [simp del]

definition base36 :: "nat \<Rightarrow> string" where
  "base36 v = (if v = 0 then ''0'' else rev (base36_push v))"

definition padded_base36 :: "nat \<Rightarrow> nat \<Rightarrow> string" where
  "padded_base36 v width =
     (let encoded = base36 v in
      if length encoded \<ge> width then encoded
      else replicate (width - length encoded) (CHR ''0'') @ encoded)"

definition fnv_1a_32 :: "string \<Rightarrow> u32" where
  "fnv_1a_32 bytes =
     foldl (\<lambda>hash b. (hash XOR word_of_nat (byte b)) * FNV_1A_32_PRIME) FNV_1A_32_OFFSET_BASIS bytes"

section \<open>Tags\<close>

definition alphanumeric_prefix :: "nat \<Rightarrow> string \<Rightarrow> string" where
  "alphanumeric_prefix n s = map to_ascii_uppercase (take n (filter is_ascii_alphanumeric s))"

definition strategy_tag_prefix :: "string \<Rightarrow> string" where
  "strategy_tag_prefix strategy_id =
     (let tag = alphanumeric_prefix STRATEGY_TAG_PREFIX_LEN strategy_id;
          tag = (if tag = [] then ''STR'' else tag)
      in tag @ replicate (STRATEGY_TAG_PREFIX_LEN - length tag) (CHR ''0''))"

definition strategy_tag :: "string \<Rightarrow> string" where
  "strategy_tag strategy_id =
     strategy_tag_prefix strategy_id @
     padded_base36 (unat (fnv_1a_32 strategy_id)) STRATEGY_TAG_HASH_LEN"

definition legacy_strategy_tag :: "string \<Rightarrow> string" where
  "legacy_strategy_tag strategy_id =
     (let tag = alphanumeric_prefix LEGACY_STRATEGY_TAG_MAX_LEN strategy_id in
      if tag = [] then LEGACY_STRATEGY_TAG_FALLBACK else tag)"

definition valid_strategy_tag :: "string \<Rightarrow> bool" where
  "valid_strategy_tag tag = (length tag = STRATEGY_TAG_LEN \<and> list_all is_ascii_alphanumeric tag)"

definition valid_legacy_strategy_tag :: "string \<Rightarrow> bool" where
  "valid_legacy_strategy_tag tag =
     (1 \<le> length tag \<and> length tag \<le> LEGACY_STRATEGY_TAG_MAX_LEN \<and>
      list_all is_ascii_alphanumeric tag)"

section \<open>Identifiers\<close>

text \<open>\<open>\{sequence:04\}\<close> of a number below 10000.\<close>

definition four_digits :: "nat \<Rightarrow> string" where
  "four_digits n =
     [base36_digit (n div 1000 mod 10), base36_digit (n div 100 mod 10),
      base36_digit (n div 10 mod 10), base36_digit (n mod 10)]"

text \<open>
  \<open>now_nanos\<close> is the signed Unix time in nanoseconds; the division truncates toward zero and a value
  outside \<open>u64\<close> becomes 0.
\<close>

definition order_time_ms :: "int \<Rightarrow> nat" where
  "order_time_ms now_nanos =
     (let ms = (if now_nanos \<ge> 0 then now_nanos div 1000000 else - (- now_nanos div 1000000))
      in if 0 \<le> ms \<and> ms \<le> int u64_max then nat ms else 0)"

definition client_order_id :: "int \<Rightarrow> u64 \<Rightarrow> string \<Rightarrow> OrderPurpose \<Rightarrow> string" where
  "client_order_id now_nanos sequence strategy_id purpose =
     ORDER_ID_PREFIX @ strategy_tag strategy_id @ as_code purpose @
     base36 (order_time_ms now_nanos) @ four_digits (unat sequence mod 10000)"

definition parse_purpose :: "char \<Rightarrow> OrderPurpose option" where
  "parse_purpose c =
     (if c = CHR ''B'' then Some Entry else if c = CHR ''T'' then Some TakeProfit
      else if c = CHR ''S'' then Some StopLoss else None)"

text \<open>
  The suffix of a Rust string starts at a character boundary; a first character outside ASCII matches
  no code, as its first byte matches none here.
\<close>

definition parse_order_suffix :: "string \<Rightarrow> nat \<Rightarrow> OrderPurpose option" where
  "parse_order_suffix suffix max_suffix_len =
     (case suffix of
        [] \<Rightarrow> None
      | c # generated \<Rightarrow>
          (case parse_purpose c of
             None \<Rightarrow> None
           | Some purpose \<Rightarrow>
               if \<not> (MIN_SUFFIX_LEN \<le> length generated \<and> length generated \<le> max_suffix_len) \<or>
                  \<not> list_all is_ascii_alphanumeric generated
               then None else Some purpose))"

definition parse_strategy_client_order_id :: "string \<Rightarrow> string \<Rightarrow> OrderPurpose option" where
  "parse_strategy_client_order_id order_id tag =
     (if \<not> valid_strategy_tag tag then None
      else case strip_prefix ORDER_ID_PREFIX order_id of
        None \<Rightarrow> None
      | Some r \<Rightarrow>
          (case strip_prefix tag r of
             None \<Rightarrow> None
           | Some suffix \<Rightarrow> parse_order_suffix suffix MAX_SUFFIX_LEN))"

definition parse_legacy_strategy_client_order_id :: "string \<Rightarrow> string \<Rightarrow> OrderPurpose option" where
  "parse_legacy_strategy_client_order_id order_id tag =
     (if \<not> valid_legacy_strategy_tag tag then None
      else
        let max_suffix_len = OKX_CLIENT_ORDER_ID_MAX_LEN - length ORDER_ID_PREFIX - length tag
              - PURPOSE_CODE_LEN in
        case strip_prefix ORDER_ID_PREFIX order_id of
          None \<Rightarrow> None
        | Some r \<Rightarrow>
            (case strip_prefix tag r of
               None \<Rightarrow> None
             | Some suffix \<Rightarrow> parse_order_suffix suffix max_suffix_len))"

section \<open>Lemmas\<close>

lemma base36_digit_alnum: "d < 36 \<Longrightarrow> is_ascii_alphanumeric (base36_digit d)"
  by (auto simp: base36_digit_def is_ascii_alphanumeric_def is_ascii_digit_def
      is_ascii_uppercase_def byte_def)

lemma base36_digit_inj:
  assumes "a < 36" and "b < 36" and "base36_digit a = base36_digit b"
  shows "a = b"
proof -
  have v: "byte (base36_digit d) = (if d \<le> 9 then 48 + d else 55 + d)" if "d < 36" for d
    using that by (auto simp: base36_digit_def byte_def)
  have "byte (base36_digit a) = byte (base36_digit b)" using assms(3) by simp
  then show ?thesis using v [OF assms(1)] v [OF assms(2)] by (auto split: if_splits)
qed

lemma base36_push_alnum: "list_all is_ascii_alphanumeric (base36_push v)"
  by (induction v rule: base36_push.induct) (subst base36_push.simps, simp add: base36_digit_alnum)

lemma base36_push_inj: "base36_push a = base36_push b \<Longrightarrow> a = b"
proof (induction a arbitrary: b rule: base36_push.induct)
  case (1 a)
  show ?case
  proof (cases "a = 0 \<or> b = 0")
    case True
    with "1.prems" show ?thesis
      by (auto simp: base36_push.simps [of a] base36_push.simps [of b] split: if_splits)
  next
    case False
    with "1.prems" have "base36_digit (a mod 36) = base36_digit (b mod 36)"
        and "base36_push (a div 36) = base36_push (b div 36)"
      by (auto simp: base36_push.simps [of a] base36_push.simps [of b])
    then have "a mod 36 = b mod 36" "a div 36 = b div 36"
      using base36_digit_inj [of "a mod 36" "b mod 36"] "1.IH" False by auto
    then show ?thesis by (metis div_mult_mod_eq)
  qed
qed

lemma base36_push_length: "v < 36 ^ n \<Longrightarrow> length (base36_push v) \<le> n"
proof (induction n arbitrary: v)
  case (Suc n)
  show ?case
  proof (cases "v = 0")
    case False
    have "v div 36 < 36 ^ n"
      using Suc.prems by (simp add: less_mult_imp_div_less mult.commute)
    with Suc.IH False show ?thesis by (simp add: base36_push.simps [of v])
  qed (simp add: base36_push.simps)
qed (simp add: base36_push.simps)

lemma base36_push_nonempty: "0 < v \<Longrightarrow> base36_push v \<noteq> []"
  by (simp add: base36_push.simps)

lemma base36_push_zero [simp]: "base36_push 0 = []"
  by (simp add: base36_push.simps)

lemma base36_push_not_zero: "0 < v \<Longrightarrow> base36_push v \<noteq> ''0''"
proof
  assume "0 < v" "base36_push v = ''0''"
  then have "base36_digit (v mod 36) = CHR ''0''" and "base36_push (v div 36) = []"
    by (auto simp: base36_push.simps [of v])
  moreover have "base36_digit 0 = CHR ''0''" by (simp add: base36_digit_def char_of_eq_iff)
  ultimately have "v mod 36 = 0" using base36_digit_inj [of "v mod 36" 0] by simp
  moreover have "v div 36 = 0"
    using \<open>base36_push (v div 36) = []\<close> base36_push_nonempty by blast
  ultimately have "v = 0" by (metis div_mult_mod_eq mult_zero_left add_0)
  then show False using \<open>0 < v\<close> by simp
qed

lemma base36_inj:
  assumes "base36 a = base36 b" shows "a = b"
proof -
  have zero: "rev (base36_push v) \<noteq> ''0''" "''0'' \<noteq> rev (base36_push v)" if "0 < v" for v
    using base36_push_not_zero [OF that] by (metis rev_singleton_conv)+
  from assms show ?thesis
    using zero [of a] zero [of b] base36_push_inj [of a b]
    by (cases "a = 0"; cases "b = 0") (simp_all add: base36_def)
qed

lemma base36_alnum: "list_all is_ascii_alphanumeric (base36 v)"
  using base36_push_alnum [of v]
  by (auto simp: base36_def is_ascii_alphanumeric_def is_ascii_digit_def byte_def)

lemma base36_length: "0 < n \<Longrightarrow> v < 36 ^ n \<Longrightarrow> 1 \<le> length (base36 v) \<and> length (base36 v) \<le> n"
  using base36_push_length [of v n] base36_push_nonempty [of v]
  by (auto simp: base36_def Suc_le_eq)

lemma order_time_bound: "order_time_ms t < 36 ^ 13"
  by (auto simp: order_time_ms_def Let_def u64_max_def split: if_splits)

lemma four_digits_alnum: "list_all is_ascii_alphanumeric (four_digits n)"
  by (simp add: four_digits_def base36_digit_alnum)

lemma four_digits_inj:
  assumes "four_digits a = four_digits b" and "a < 10000" and "b < 10000" shows "a = b"
proof -
  have digit: "x mod 10 = y mod 10" if "base36_digit (x mod 10) = base36_digit (y mod 10)" for x y
    using base36_digit_inj [of "x mod 10" "y mod 10"] that by simp
  have d: "a div 1000 mod 10 = b div 1000 mod 10" "a div 100 mod 10 = b div 100 mod 10"
      "a div 10 mod 10 = b div 10 mod 10" "a mod 10 = b mod 10"
    using assms(1) unfolding four_digits_def list.inject by (blast dest: digit)+
  have split: "n = n div 1000 mod 10 * 1000 + n div 100 mod 10 * 100 + n div 10 mod 10 * 10 + n mod 10"
    if "n < 10000" for n :: nat
  proof -
    have "n div 10 div 10 = n div 100" "n div 100 div 10 = n div 1000"
      by (simp_all flip: div_mult2_eq)
    moreover have "n div 1000 mod 10 = n div 1000" using that by simp
    ultimately show ?thesis
      using div_mult_mod_eq [of n 10] div_mult_mod_eq [of "n div 10" 10]
        div_mult_mod_eq [of "n div 100" 10] by linarith
  qed
  show ?thesis using d split [OF assms(2)] split [OF assms(3)] by simp
qed

lemma strategy_tag_prefix_shape:
  "length (strategy_tag_prefix s) = 4 \<and> list_all is_ascii_alphanumeric (strategy_tag_prefix s)"
proof -
  have up: "is_ascii_alphanumeric (to_ascii_uppercase c)" if "is_ascii_alphanumeric c" for c
    using to_ascii_uppercase_alnum [OF that] by (auto simp: is_ascii_alphanumeric_def)
  have pre: "list_all is_ascii_alphanumeric (alphanumeric_prefix 4 s)"
    using up by (auto simp: alphanumeric_prefix_def list_all_iff dest: in_set_takeD)
  have len: "length (alphanumeric_prefix 4 s) \<le> 4" by (simp add: alphanumeric_prefix_def)
  have lits: "list_all is_ascii_alphanumeric ''STR''" "is_ascii_alphanumeric (CHR ''0'')"
    by (simp_all add: is_ascii_alphanumeric_def is_ascii_digit_def is_ascii_uppercase_def byte_def)
  have zeros: "list_all is_ascii_alphanumeric (replicate n (CHR ''0''))" for n
    using lits(2) by (simp add: list_all_iff)
  show ?thesis
    unfolding strategy_tag_prefix_def Let_def STRATEGY_TAG_PREFIX_LEN_def
    using pre len lits(1) zeros by (simp add: list_all_append)
qed

lemma padded_base36_shape:
  assumes "v < 36 ^ 7"
  shows "length (padded_base36 v 7) = 7 \<and> list_all is_ascii_alphanumeric (padded_base36 v 7)"
  using base36_length [of 7 v] assms base36_alnum [of v]
  by (auto simp: padded_base36_def Let_def list_all_iff is_ascii_alphanumeric_def is_ascii_digit_def
      byte_def)

lemma strategy_tag_valid: "valid_strategy_tag (strategy_tag s)"
proof -
  have "unat (fnv_1a_32 s) < 2 ^ 32"
    using unsigned_less [of "fnv_1a_32 s", where ?'a = nat] by simp
  then have "unat (fnv_1a_32 s) < 36 ^ 7" by simp
  from padded_base36_shape [OF this] strategy_tag_prefix_shape [of s] show ?thesis
    by (simp add: valid_strategy_tag_def strategy_tag_def id_constants)
qed

lemma parse_strategy_prefix:
  assumes "parse_strategy_client_order_id c tag = Some p"
  shows "length tag = 11 \<and> (\<exists>g. c = ''ROX'' @ tag @ as_code p @ g \<and> 5 \<le> length g \<and>
    length g \<le> 17 \<and> list_all is_ascii_alphanumeric g)"
proof -
  from assms obtain suffix where tag: "length tag = 11" and c: "c = ''ROX'' @ tag @ suffix"
    and suf: "parse_order_suffix suffix 17 = Some p"
    by (auto simp: parse_strategy_client_order_id_def valid_strategy_tag_def id_constants
        strip_prefix_Some_iff split: if_splits option.splits)
  from suf obtain ch g where "suffix = ch # g" "parse_purpose ch = Some p"
      "5 \<le> length g" "length g \<le> 17" "list_all is_ascii_alphanumeric g"
    by (auto simp: parse_order_suffix_def MIN_SUFFIX_LEN_def split: list.splits option.splits if_splits)
  moreover from this have "as_code p = [ch]"
    by (auto simp: parse_purpose_def as_code_def split: if_splits)
  ultimately show ?thesis using tag c by auto
qed

lemma client_order_id_facts:
  "parse_strategy_client_order_id (client_order_id t q s p) (strategy_tag s) = Some p \<and>
   length (client_order_id t q s p) \<le> 32 \<and>
   list_all is_ascii_alphanumeric (client_order_id t q s p)"
proof -
  let ?g = "base36 (order_time_ms t) @ four_digits (unat q mod 10000)"
  have g: "1 \<le> length (base36 (order_time_ms t))" "length (base36 (order_time_ms t)) \<le> 13"
    using base36_length [of 13, OF _ order_time_bound] by auto
  then have len: "5 \<le> length ?g" "length ?g \<le> 17" by (simp_all add: four_digits_def)
  have alnum: "list_all is_ascii_alphanumeric ?g"
    using base36_alnum four_digits_alnum by simp
  have code: "\<exists>c. as_code p = [c] \<and> parse_purpose c = Some p \<and> is_ascii_alphanumeric c"
    by (cases p) (auto simp: as_code_def parse_purpose_def is_ascii_alphanumeric_def
        is_ascii_uppercase_def byte_def)
  then obtain c where c: "as_code p = [c]" "parse_purpose c = Some p" "is_ascii_alphanumeric c"
    by blast
  have tag: "length (strategy_tag s) = 11" "list_all is_ascii_alphanumeric (strategy_tag s)"
    using strategy_tag_valid [of s] by (auto simp: valid_strategy_tag_def id_constants)
  have suffix: "parse_order_suffix (c # ?g) MAX_SUFFIX_LEN = Some p"
    using len alnum c by (simp add: parse_order_suffix_def id_constants)
  have id: "client_order_id t q s p = ORDER_ID_PREFIX @ strategy_tag s @ c # ?g"
    by (simp add: client_order_id_def c)
  have rox: "list_all is_ascii_alphanumeric ORDER_ID_PREFIX"
    by (simp add: ORDER_ID_PREFIX_def is_ascii_alphanumeric_def is_ascii_uppercase_def byte_def)
  have "parse_strategy_client_order_id (client_order_id t q s p) (strategy_tag s) = Some p"
    using suffix strategy_tag_valid [of s] by (simp add: id parse_strategy_client_order_id_def)
  moreover have "length (client_order_id t q s p) \<le> 32"
    using tag len by (simp add: id ORDER_ID_PREFIX_def)
  moreover have "list_all is_ascii_alphanumeric (client_order_id t q s p)"
    using tag alnum c rox by (simp add: id)
  ultimately show ?thesis by blast
qed

section \<open>Properties\<close>

text \<open>
  C34: an identifier the strategy generates fits OKX's 32 characters, is alphanumeric, and is parsed
  back as an order of this strategy with the purpose it was made for, at any time and for any value of
  the sequence counter.
\<close>
theorem client_order_id_round_trip:
  "parse_strategy_client_order_id (client_order_id t q s p) (strategy_tag s) = Some p \<and>
   length (client_order_id t q s p) \<le> 32 \<and>
   list_all is_ascii_alphanumeric (client_order_id t q s p)"
  by (rule client_order_id_facts)

text \<open>
  one identifier belongs to one strategy tag and one purpose, and two identifiers of a strategy
  coincide only for the same millisecond and the same sequence number modulo 10000.
\<close>
theorem client_order_id_identity:
  "(parse_strategy_client_order_id c tag1 = Some p1 \<longrightarrow>
    parse_strategy_client_order_id c tag2 = Some p2 \<longrightarrow> tag1 = tag2 \<and> p1 = p2) \<and>
   (client_order_id t1 q1 s x1 = client_order_id t2 q2 s x2 \<longrightarrow>
    order_time_ms t1 = order_time_ms t2 \<and> unat q1 mod 10000 = unat q2 mod 10000 \<and> x1 = x2)"
proof (intro conjI impI)
  assume "parse_strategy_client_order_id c tag1 = Some p1"
    "parse_strategy_client_order_id c tag2 = Some p2"
  then have "tag1 = tag2 \<and> as_code p1 = as_code p2"
    using parse_strategy_prefix [of c tag1 p1] parse_strategy_prefix [of c tag2 p2]
    by (auto simp: as_code_def split: OrderPurpose.splits)
  then show "tag1 = tag2" "p1 = p2"
    by (auto simp: as_code_def split: OrderPurpose.splits)
next
  assume same: "client_order_id t1 q1 s x1 = client_order_id t2 q2 s x2"
  have code: "length (as_code x) = 1" for x by (cases x) (simp_all add: as_code_def)
  have "as_code x1 @ base36 (order_time_ms t1) @ four_digits (unat q1 mod 10000) =
      as_code x2 @ base36 (order_time_ms t2) @ four_digits (unat q2 mod 10000)"
    using same by (simp add: client_order_id_def)
  then have parts: "as_code x1 = as_code x2"
      "base36 (order_time_ms t1) @ four_digits (unat q1 mod 10000) =
       base36 (order_time_ms t2) @ four_digits (unat q2 mod 10000)"
    using code by (metis append_eq_append_conv)+
  have four: "length (four_digits n) = 4" for n by (simp add: four_digits_def)
  have "base36 (order_time_ms t1) = base36 (order_time_ms t2)"
      "four_digits (unat q1 mod 10000) = four_digits (unat q2 mod 10000)"
    using parts(2) four by (metis append_eq_append_conv)+
  then show "order_time_ms t1 = order_time_ms t2" "unat q1 mod 10000 = unat q2 mod 10000"
    by (auto intro: base36_inj four_digits_inj)
  show "x1 = x2" using parts(1) by (cases x1; cases x2) (simp_all add: as_code_def)
qed

theorem client_order_id_identity_witness:
  "parse_strategy_client_order_id ''ROXAAAA0000000BAB0001'' ''AAAA0000000'' = Some Entry \<and>
   parse_strategy_client_order_id ''ROXAAAA0000000BAB0001'' ''AAAA0000001'' \<noteq> Some Entry \<and>
   order_time_ms 5 = order_time_ms 5"
proof -
  have p: "parse_strategy_client_order_id ''ROXAAAA0000000BAB0001'' ''AAAA0000000'' = Some Entry"
    by code_simp
  show ?thesis
    using p client_order_id_identity [of "''ROXAAAA0000000BAB0001''" "''AAAA0000000''" Entry
        "''AAAA0000001''" Entry 5 7 "''A''" Entry 5 7 Entry]
    by simp
qed

end
