(* ===== verification/Signal.thy ===== *)
theory Signal
  imports Okx_Types "HOL-Library.Multiset"
begin

text \<open>
  \<open>strategies/okx_ema_atr_maker_trend/signal.rs\<close>: the EMA/ATR signal.  Indicators are \<open>f64\<close>; what
  reaches an order crosses into \<open>Decimal\<close> first.  \<open>update_from_bar\<close> returns its answer and the state
  it leaves, also when a \<open>Decimal\<close> operator panics in its middle.
\<close>

record Ema =
  em_period :: nat
  em_multiplier :: f64
  em_samples :: nat
  em_seed_sum :: f64
  em_value :: "f64 option"

record Atr =
  at_period :: nat
  at_samples :: nat
  at_seed_sum :: f64
  at_value :: "f64 option"
  at_previous_close :: "f64 option"

record SignalState =
  sg_entry_offset_atr_multiple :: decimal
  sg_min_entry_offset_bps :: decimal
  sg_max_entry_offset_bps :: decimal
  sg_ema_fast :: Ema
  sg_ema_slow :: Ema
  sg_atr :: Atr
  sg_round_trip_cost_rate :: "decimal option"
  sg_macro_trend_bullish :: bool
  sg_is_volatility_sufficient :: bool
  sg_current_atr_offset :: "decimal option"
  sg_last_close :: "f64 option"
  sg_last_atr :: "f64 option"

section \<open>Indicators\<close>

definition ema_new :: "nat \<Rightarrow> Ema" where
  "ema_new period =
     \<lparr> em_period = period,
       em_multiplier = f64_div (F_Fin 2) (f64_add (f64_of_nat period) (F_Fin 1)),
       em_samples = 0, em_seed_sum = f64_zero, em_value = None \<rparr>"

definition ema_update :: "Ema \<Rightarrow> f64 \<Rightarrow> Ema" where
  "ema_update e cl =
     (let e = e\<lparr> em_samples := em_samples e + 1 \<rparr> in
      if em_samples e < em_period e then e\<lparr> em_seed_sum := f64_add (em_seed_sum e) cl \<rparr>
      else if em_samples e = em_period e then
        (let e = e\<lparr> em_seed_sum := f64_add (em_seed_sum e) cl \<rparr> in
         e\<lparr> em_value := Some (f64_div (em_seed_sum e) (f64_of_nat (em_period e))) \<rparr>)
      else case em_value e of
        None \<Rightarrow> e
      | Some previous \<Rightarrow>
          e\<lparr> em_value :=
            Some (f64_add (f64_mul (f64_sub cl previous) (em_multiplier e)) previous) \<rparr>)"

definition atr_new :: "nat \<Rightarrow> Atr" where
  "atr_new period =
     \<lparr> at_period = period, at_samples = 0, at_seed_sum = f64_zero, at_value = None,
       at_previous_close = None \<rparr>"

definition true_range :: "f64 option \<Rightarrow> f64 \<Rightarrow> f64 \<Rightarrow> f64" where
  "true_range previous_close hi lo =
     (case previous_close of
        Some pc \<Rightarrow> f64_max (f64_max (f64_sub hi lo) (f64_abs (f64_sub hi pc)))
                     (f64_abs (f64_sub lo pc))
      | None \<Rightarrow> f64_sub hi lo)"

definition atr_update :: "Atr \<Rightarrow> f64 \<Rightarrow> f64 \<Rightarrow> f64 \<Rightarrow> Atr" where
  "atr_update a hi lo cl =
     (let tr = true_range (at_previous_close a) hi lo;
          a = a\<lparr> at_previous_close := Some cl, at_samples := at_samples a + 1 \<rparr> in
      if at_samples a < at_period a then a\<lparr> at_seed_sum := f64_add (at_seed_sum a) tr \<rparr>
      else if at_samples a = at_period a then
        (let a = a\<lparr> at_seed_sum := f64_add (at_seed_sum a) tr \<rparr> in
         a\<lparr> at_value := Some (f64_div (at_seed_sum a) (f64_of_nat (at_period a))) \<rparr>)
      else case at_value a of
        None \<Rightarrow> a
      | Some previous \<Rightarrow>
          a\<lparr> at_value := Some (f64_div
              (f64_add (f64_mul previous (f64_sub (f64_of_nat (at_period a)) (F_Fin 1))) tr)
              (f64_of_nat (at_period a))) \<rparr>)"

section \<open>Entry offset and fee threshold\<close>

definition usable :: "f64 \<Rightarrow> bool" where
  "usable v = (is_finite v \<and> \<not> f64_le v f64_zero \<and> is_normal v)"

definition entry_offset_distance ::
    "decimal_ops \<Rightarrow> f64 \<Rightarrow> f64 \<Rightarrow> decimal \<Rightarrow> decimal \<Rightarrow> decimal \<Rightarrow> decimal option res" where
  "entry_offset_distance D cl atr atr_multiple min_bps max_bps =
     (if \<not> usable cl \<or> \<not> usable atr then Inr None
      else case (d_from_f64 D cl, d_from_f64 D atr) of
        (Some c, Some a) \<Rightarrow>
          rbind (dec_mul D a atr_multiple) (\<lambda>raw_offset.
          rbind (dec_mul D c min_bps) (\<lambda>x. rbind (dec_div D x 10000) (\<lambda>floor_offset.
          rbind (dec_mul D c max_bps) (\<lambda>y. rbind (dec_div D y 10000) (\<lambda>ceiling_offset.
          if floor_offset \<le> 0 \<or> ceiling_offset < floor_offset then Inr None
          else Inr (Some (min (max raw_offset floor_offset) ceiling_offset)))))))
      | _ \<Rightarrow> Inr None)"

definition volatility_clears_fee_threshold :: "decimal_ops \<Rightarrow> f64 \<Rightarrow> f64 \<Rightarrow> decimal \<Rightarrow> bool res" where
  "volatility_clears_fee_threshold D cl atr cost_rate =
     (if \<not> usable cl \<or> \<not> usable atr then Inr False
      else case (d_from_f64 D cl, d_from_f64 D atr) of
        (Some c, Some a) \<Rightarrow>
          if cost_rate < 0 \<or> cost_rate \<ge> 1 then Inr False
          else
            rbind (dec_mul D (25 / 10) cost_rate) (\<lambda>minimum_volatility.
            rbind (dec_div D a c) (\<lambda>v. Inr (v \<ge> minimum_volatility)))
      | _ \<Rightarrow> Inr False)"

section \<open>The signal\<close>

definition signal_new ::
    "nat \<Rightarrow> nat \<Rightarrow> nat \<Rightarrow> decimal \<Rightarrow> decimal \<Rightarrow> decimal \<Rightarrow> SignalState" where
  "signal_new fast slow atr multiple min_bps max_bps =
     \<lparr> sg_entry_offset_atr_multiple = multiple, sg_min_entry_offset_bps = min_bps,
       sg_max_entry_offset_bps = max_bps, sg_ema_fast = ema_new fast, sg_ema_slow = ema_new slow,
       sg_atr = atr_new atr, sg_round_trip_cost_rate = None, sg_macro_trend_bullish = False,
       sg_is_volatility_sufficient = False, sg_current_atr_offset = None, sg_last_close = None,
       sg_last_atr = None \<rparr>"

definition clear_macro_signal :: "SignalState \<Rightarrow> SignalState" where
  "clear_macro_signal s =
     s\<lparr> sg_macro_trend_bullish := False, sg_is_volatility_sufficient := False,
        sg_current_atr_offset := None \<rparr>"

definition entry_allowed_without_offset :: "SignalState \<Rightarrow> bool" where
  "entry_allowed_without_offset s = (sg_macro_trend_bullish s \<and> sg_is_volatility_sufficient s)"

definition bar_unusable :: "MarketBar \<Rightarrow> bool" where
  "bar_unusable b =
     (\<not> is_finite (mb_close b) \<or> f64_le (mb_close b) f64_zero \<or> \<not> is_finite (mb_high b) \<or>
      \<not> is_finite (mb_low b) \<or> f64_lt (mb_high b) (mb_low b))"

definition update_from_bar ::
    "decimal_ops \<Rightarrow> SignalState \<Rightarrow> MarketBar \<Rightarrow> bool res \<times> SignalState" where
  "update_from_bar D s b =
     (if bar_unusable b then (Inr False, clear_macro_signal s)
      else
        let cl = mb_close b;
            s = s\<lparr> sg_ema_fast := ema_update (sg_ema_fast s) cl,
                   sg_ema_slow := ema_update (sg_ema_slow s) cl,
                   sg_atr := atr_update (sg_atr s) (mb_high b) (mb_low b) cl \<rparr> in
        case (em_value (sg_ema_fast s), em_value (sg_ema_slow s), at_value (sg_atr s)) of
          (Some fast, Some slow, Some atr) \<Rightarrow>
            let s = s\<lparr> sg_last_close := Some cl, sg_last_atr := Some atr,
                       sg_macro_trend_bullish := f64_lt slow fast \<and> f64_lt slow cl \<rparr> in
            (case (case sg_round_trip_cost_rate s of
                     None \<Rightarrow> Inr False
                   | Some rate \<Rightarrow> volatility_clears_fee_threshold D cl atr rate) of
               Inl e \<Rightarrow> (Inl e, s)
             | Inr sufficient \<Rightarrow>
                 let s = s\<lparr> sg_is_volatility_sufficient := sufficient \<rparr> in
                 (case (if entry_allowed_without_offset s
                        then entry_offset_distance D cl atr (sg_entry_offset_atr_multiple s)
                               (sg_min_entry_offset_bps s) (sg_max_entry_offset_bps s)
                        else Inr None) of
                    Inl e \<Rightarrow> (Inl e, s)
                  | Inr offset \<Rightarrow> (Inr True, s\<lparr> sg_current_atr_offset := offset \<rparr>)))
        | _ \<Rightarrow> (Inr False, clear_macro_signal s))"

definition set_round_trip_cost_rate :: "SignalState \<Rightarrow> decimal \<Rightarrow> unit res \<times> SignalState" where
  "set_round_trip_cost_rate s cost_rate =
     (if cost_rate \<ge> 0 \<and> cost_rate < 1
      then (Inr (), s\<lparr> sg_round_trip_cost_rate := Some cost_rate \<rparr>)
      else (Inl (Fail (Bad ''OkxEmaAtrMakerTrend round-trip cost rate''
        ''must be non-negative and below one'')), s))"

definition signal_ready :: "SignalState \<Rightarrow> bool" where
  "signal_ready s = (sg_last_close s \<noteq> None \<and> sg_last_atr s \<noteq> None)"

definition entry_allowed :: "SignalState \<Rightarrow> bool" where
  "entry_allowed s = (entry_allowed_without_offset s \<and> sg_current_atr_offset s \<noteq> None)"

definition entry_price_from_bid :: "decimal_ops \<Rightarrow> SignalState \<Rightarrow> decimal \<Rightarrow> decimal option res" where
  "entry_price_from_bid D s bid =
     (case sg_current_atr_offset s of
        None \<Rightarrow> Inr None
      | Some offset \<Rightarrow>
          rbind (require (offset > 0) ''OkxEmaAtrMakerTrend'' ''entry offset must be positive'') (\<lambda>_.
          rbind (dec_sub D bid offset) (\<lambda>price.
          Inr (if price > 0 then Some price else None))))"

text \<open>\<open>sort_by_key\<close> is stable, as \<open>sort_key\<close> is.\<close>

definition confirmed_bars_chronological :: "MarketBar list \<Rightarrow> MarketBar list" where
  "confirmed_bars_chronological bars = sort_key mb_ts_ms (filter mb_confirm bars)"

section \<open>Lemmas\<close>

definition ema_ok :: "Ema \<Rightarrow> bool" where
  "ema_ok e = (0 < em_period e \<and> (em_value e \<noteq> None \<longleftrightarrow> em_period e \<le> em_samples e))"

definition atr_ok :: "Atr \<Rightarrow> bool" where
  "atr_ok a = (0 < at_period a \<and> (at_value a \<noteq> None \<longleftrightarrow> at_period a \<le> at_samples a))"

lemma ema_update_ok:
  "ema_ok e \<Longrightarrow> ema_ok (ema_update e c) \<and> em_samples (ema_update e c) = Suc (em_samples e) \<and>
    em_period (ema_update e c) = em_period e"
  by (auto simp: ema_ok_def ema_update_def Let_def split: option.splits)

lemma atr_update_ok:
  "atr_ok a \<Longrightarrow> atr_ok (atr_update a h l c) \<and> at_samples (atr_update a h l c) = Suc (at_samples a) \<and>
    at_period (atr_update a h l c) = at_period a"
  by (auto simp: atr_ok_def atr_update_def Let_def split: option.splits)

lemma entry_offset_bounds:
  assumes "entry_offset_distance D c a m lo hi = Inr (Some x)"
  shows "0 < x \<and> (\<exists>cd floor_offset ceiling_offset. d_from_f64 D c = Some cd \<and>
    (\<exists>y. d_mul D cd lo = Some y \<and> d_div D y 10000 = Some floor_offset) \<and>
    (\<exists>y. d_mul D cd hi = Some y \<and> d_div D y 10000 = Some ceiling_offset) \<and>
    floor_offset \<le> x \<and> x \<le> ceiling_offset)"
  using assms
  by (auto simp: entry_offset_distance_def rbind_eq_Inr dec_mul_def dec_div_def
      split: if_splits option.splits)

definition signal_ok :: "SignalState \<Rightarrow> bool" where
  "signal_ok s =
     (ema_ok (sg_ema_fast s) \<and> ema_ok (sg_ema_slow s) \<and> atr_ok (sg_atr s) \<and>
      (\<forall>x. sg_current_atr_offset s = Some x \<longrightarrow> 0 < x) \<and>
      (\<forall>c. sg_round_trip_cost_rate s = Some c \<longrightarrow> 0 \<le> c \<and> c < 1) \<and>
      em_samples (sg_ema_slow s) = em_samples (sg_ema_fast s) \<and>
      at_samples (sg_atr s) = em_samples (sg_ema_fast s) \<and>
      (signal_ready s \<longleftrightarrow> em_period (sg_ema_fast s) \<le> em_samples (sg_ema_fast s) \<and>
         em_period (sg_ema_slow s) \<le> em_samples (sg_ema_fast s) \<and>
         at_period (sg_atr s) \<le> em_samples (sg_ema_fast s)))"

lemma signal_new_ok:
  "0 < fast \<Longrightarrow> 0 < slow \<Longrightarrow> 0 < atr \<Longrightarrow> signal_ok (signal_new fast slow atr m lo hi)"
  by (auto simp: signal_ok_def signal_new_def ema_ok_def atr_ok_def ema_new_def atr_new_def
      signal_ready_def)

lemma set_round_trip_cost_rate_ok: "signal_ok s \<Longrightarrow> signal_ok (snd (set_round_trip_cost_rate s c))"
  by (auto simp: signal_ok_def set_round_trip_cost_rate_def signal_ready_def)

lemma clear_macro_signal_ok: "signal_ok s \<Longrightarrow> signal_ok (clear_macro_signal s)"
  by (simp add: signal_ok_def clear_macro_signal_def signal_ready_def)

text \<open>The state once the indicators have seen the bar.\<close>

definition indicators_updated :: "SignalState \<Rightarrow> MarketBar \<Rightarrow> SignalState" where
  "indicators_updated s b =
     s\<lparr> sg_ema_fast := ema_update (sg_ema_fast s) (mb_close b),
        sg_ema_slow := ema_update (sg_ema_slow s) (mb_close b),
        sg_atr := atr_update (sg_atr s) (mb_high b) (mb_low b) (mb_close b) \<rparr>"

definition signal_periods :: "SignalState \<Rightarrow> nat \<times> nat \<times> nat" where
  "signal_periods s = (em_period (sg_ema_fast s), em_period (sg_ema_slow s), at_period (sg_atr s))"

definition signal_samples :: "SignalState \<Rightarrow> nat" where
  "signal_samples s = em_samples (sg_ema_fast s)"

text \<open>Updating from a usable bar changes the answers only, after the indicators.\<close>

lemma update_from_bar_shape:
  assumes "update_from_bar D s b = (r, s')" and "\<not> bar_unusable b"
  shows "sg_ema_fast s' = sg_ema_fast (indicators_updated s b) \<and>
    sg_ema_slow s' = sg_ema_slow (indicators_updated s b) \<and>
    sg_atr s' = sg_atr (indicators_updated s b) \<and>
    sg_round_trip_cost_rate s' = sg_round_trip_cost_rate s \<and>
    (if em_value (sg_ema_fast s') \<noteq> None \<and> em_value (sg_ema_slow s') \<noteq> None \<and>
        at_value (sg_atr s') \<noteq> None
     then signal_ready s' else sg_last_close s' = sg_last_close s \<and> sg_last_atr s' = sg_last_atr s) \<and>
    (\<forall>x. sg_current_atr_offset s' = Some x \<longrightarrow> sg_current_atr_offset s = Some x \<or> 0 < x)"
proof (cases "\<exists>f w a. em_value (sg_ema_fast (indicators_updated s b)) = Some f \<and>
    em_value (sg_ema_slow (indicators_updated s b)) = Some w \<and>
    at_value (sg_atr (indicators_updated s b)) = Some a")
  case True
  then obtain f w a where "em_value (ema_update (sg_ema_fast s) (mb_close b)) = Some f"
      "em_value (ema_update (sg_ema_slow s) (mb_close b)) = Some w"
      "at_value (atr_update (sg_atr s) (mb_high b) (mb_low b) (mb_close b)) = Some a"
    by (auto simp: indicators_updated_def)
  with assms show ?thesis
    by (auto simp: update_from_bar_def Let_def indicators_updated_def signal_ready_def
        split: sum.splits if_splits dest: entry_offset_bounds)
next
  case False
  have "update_from_bar D s b = (Inr False, clear_macro_signal (indicators_updated s b))"
    using False assms(2)
    by (auto simp: update_from_bar_def indicators_updated_def Let_def split: option.splits)
  with assms(1) False show ?thesis
    by (auto simp: clear_macro_signal_def indicators_updated_def)
qed

lemma update_from_bar_ok:
  assumes "update_from_bar D s b = (r, s')" and "signal_ok s"
  shows "signal_ok s' \<and> signal_periods s' = signal_periods s \<and>
    signal_samples s' = signal_samples s + (if bar_unusable b then 0 else 1)"
proof (cases "bar_unusable b")
  case True
  with assms(1) have "s' = clear_macro_signal s" by (simp add: update_from_bar_def)
  with True clear_macro_signal_ok [OF assms(2)] show ?thesis
    by (simp add: signal_periods_def signal_samples_def clear_macro_signal_def)
next
  case False
  note shape = update_from_bar_shape [OF assms(1) False]
  have ind: "ema_ok (sg_ema_fast s')" "ema_ok (sg_ema_slow s')" "atr_ok (sg_atr s')"
      "em_samples (sg_ema_fast s') = Suc (em_samples (sg_ema_fast s))"
      "em_samples (sg_ema_slow s') = Suc (em_samples (sg_ema_fast s))"
      "at_samples (sg_atr s') = Suc (em_samples (sg_ema_fast s))"
      "signal_periods s' = signal_periods s"
    using shape assms(2) ema_update_ok atr_update_ok
    by (auto simp: signal_ok_def indicators_updated_def signal_periods_def)
  have per: "em_period (sg_ema_fast s') = em_period (sg_ema_fast s)"
      "em_period (sg_ema_slow s') = em_period (sg_ema_slow s)"
      "at_period (sg_atr s') = at_period (sg_atr s)"
    using ind(7) by (auto simp: signal_periods_def)
  have ready: "signal_ready s' \<longleftrightarrow> em_period (sg_ema_fast s') \<le> em_samples (sg_ema_fast s') \<and>
      em_period (sg_ema_slow s') \<le> em_samples (sg_ema_fast s') \<and>
      at_period (sg_atr s') \<le> em_samples (sg_ema_fast s')"
  proof (cases "em_value (sg_ema_fast s') \<noteq> None \<and> em_value (sg_ema_slow s') \<noteq> None \<and>
      at_value (sg_atr s') \<noteq> None")
    case True
    with shape have "signal_ready s'" by (auto split: if_splits)
    with True ind show ?thesis by (simp add: ema_ok_def atr_ok_def)
  next
    case notall: False
    with shape have "signal_ready s' = signal_ready s"
      by (auto simp: signal_ready_def split: if_splits)
    moreover have "\<not> signal_ready s"
      using notall ind assms(2) by (auto simp: ema_ok_def atr_ok_def signal_ok_def per)
    ultimately show ?thesis using notall ind by (auto simp: ema_ok_def atr_ok_def)
  qed
  with shape ind assms(2) False show ?thesis
    by (auto simp: signal_ok_def signal_samples_def)
qed

text \<open>Any sequence of bars and cost rates, from a fresh signal.\<close>

inductive signal_reachable :: "decimal_ops \<Rightarrow> SignalState \<Rightarrow> bool" for D where
  sig_new: "0 < fast \<Longrightarrow> 0 < slow \<Longrightarrow> 0 < atr \<Longrightarrow>
    signal_reachable D (signal_new fast slow atr m lo hi)"
| sig_bar: "signal_reachable D s \<Longrightarrow> signal_reachable D (snd (update_from_bar D s b))"
| sig_rate: "signal_reachable D s \<Longrightarrow> signal_reachable D (snd (set_round_trip_cost_rate s c))"

lemma signal_reachable_ok: "signal_reachable D s \<Longrightarrow> signal_ok s"
  by (induction rule: signal_reachable.induct)
    (auto intro: signal_new_ok set_round_trip_cost_rate_ok
      dest: update_from_bar_ok [OF prod.collapse [symmetric]])

lemma run_bars_ok:
  "signal_ok s \<Longrightarrow>
    signal_ok (foldl (\<lambda>s b. snd (update_from_bar D s b)) s bars) \<and>
    signal_periods (foldl (\<lambda>s b. snd (update_from_bar D s b)) s bars) = signal_periods s \<and>
    signal_samples (foldl (\<lambda>s b. snd (update_from_bar D s b)) s bars) =
      signal_samples s + length (filter (\<lambda>b. \<not> bar_unusable b) bars)"
proof (induction bars arbitrary: s)
  case (Cons b bars)
  note step = update_from_bar_ok [OF prod.collapse [symmetric, of "update_from_bar D s b"] Cons.prems]
  show ?case using step Cons.IH [of "snd (update_from_bar D s b)"] by auto
qed simp

section \<open>Properties\<close>

text \<open>
  the signal becomes ready after exactly as many usable bars as its longest period needs; unusable
  bars do not count.
\<close>
theorem signal_warm_up:
  assumes "0 < fast" and "0 < slow" and "0 < atr"
  shows "signal_ready (foldl (\<lambda>s b. snd (update_from_bar D s b))
      (signal_new fast slow atr m lo hi) bars) \<longleftrightarrow>
    max fast (max slow atr) \<le> length (filter (\<lambda>b. \<not> bar_unusable b) bars)"
proof -
  have ok: "signal_ok (signal_new fast slow atr m lo hi)" using assms by (rule signal_new_ok)
  have "signal_periods (signal_new fast slow atr m lo hi) = (fast, slow, atr)"
      "signal_samples (signal_new fast slow atr m lo hi) = 0"
    by (simp_all add: signal_periods_def signal_samples_def signal_new_def ema_new_def atr_new_def)
  with run_bars_ok [OF ok, of D bars] show ?thesis
    by (auto simp: signal_ok_def signal_periods_def signal_samples_def)
qed

theorem signal_warm_up_witness:
  "\<not> signal_ready (foldl (\<lambda>s b. snd (update_from_bar exact_decimal s b))
      (signal_new 20 100 14 1 1 1) [])"
  using signal_warm_up [of 20 100 14 exact_decimal 1 1 1 "[]"] by simp

text \<open>
  in every reachable signal the entry offset is positive, so pricing an entry never reports a bad
  offset, and an entry price is positive: it is the bid less the offset.
\<close>
theorem entry_price_below_bid:
  assumes "signal_reachable D s" and "entry_price_from_bid D s bid = r"
  shows "(\<forall>e. r \<noteq> Inl (Fail e)) \<and>
    (\<forall>price. r = Inr (Some price) \<longrightarrow> 0 < price \<and>
       (\<exists>offset. 0 < offset \<and> sg_current_atr_offset s = Some offset \<and>
          d_sub D bid offset = Some price))"
  using signal_reachable_ok [OF assms(1)] assms(2)
  by (auto simp: entry_price_from_bid_def signal_ok_def rbind_eq_Inl rbind_eq_Inr dec_sub_def
      or_panic_def split: option.splits if_splits)

theorem entry_price_below_bid_witness:
  "\<exists>s. signal_reachable exact_decimal s \<and> (\<forall>e. entry_price_from_bid exact_decimal s 5 \<noteq> Inl (Fail e))"
proof -
  have "signal_reachable exact_decimal (signal_new 1 2 2 1 1 1)" by (rule sig_new) simp_all
  from entry_price_below_bid [OF this refl, of 5] this show ?thesis by blast
qed

text \<open>
  the bars used for the signal are the confirmed ones, all of them, in the order of their time
  stamps.
\<close>
theorem confirmed_bars_sorted:
  "sorted (map mb_ts_ms (confirmed_bars_chronological bars)) \<and>
   mset (confirmed_bars_chronological bars) = mset (filter mb_confirm bars)"
  by (simp add: confirmed_bars_chronological_def)

end
