(* ===== verification/Strategy_State.thy ===== *)
theory Strategy_State
  imports Inventory Strategy_Config Trading_Instrument Order_Id Signal "HOL-Library.List_Lexorder"
begin

text \<open>
  \<open>strategies/okx_ema_atr_maker_trend.rs\<close>: the data of the runner and the functions of the module
  that touch neither the runner nor the exchange client.

  A loop that only checks (\<open>for order in .. { bail! .. }\<close>) is \<open>try_each\<close>.  Hash sets of identifiers
  are only asked for membership, so they are sets.
\<close>

section \<open>Data\<close>

datatype StopLossPendingReason = LocalThreshold | ExitReconciliation

record TrackedOrder =
  to_client_order_id :: string
  to_last_fill_size :: decimal
  to_last_average_fill_price :: "decimal option"
  to_last_accounted_base_change :: decimal
  to_last_accounted_quote_change :: decimal
  to_cancel_requested :: bool

record TrackedAlgoOrder =
  ta_algo_id :: string
  ta_client_order_id :: string
  ta_sz :: decimal
  ta_trigger_price :: decimal
  ta_cancel_requested :: bool

record OpenPosition =
  op_quantity :: decimal
  op_average_price :: decimal
  op_stop_loss_trigger :: decimal

record TakeProfitOrderShape =
  tp_sz :: decimal
  tp_price :: decimal

datatype PositionEvidenceGap = MissingCostBasis | InventoryMismatch decimal

datatype PositionReconstruction =
    NoPosition | Reconstructed OpenPosition | NeedsMoreEvidence PositionEvidenceGap

datatype PositionEvidenceAttempt = InitialAttempt | FinalAttempt

datatype EntryAveragePriceStatus = NoEntryFill | MissingPrice | ReconstructedPrice decimal

record WarmupSummary =
  ws_confirmed_bar_count :: nat
  ws_applied_bars :: nat
  ws_last_bar_ts_ms :: "int option"

record ExchangeState =
  ex_instrument :: OkxInstrument
  ex_last_bar_ts_ms :: "int option"
  ex_entry_order :: "TrackedOrder option"
  ex_take_profit_order :: "TrackedOrder option"
  ex_stop_loss_order :: "TrackedAlgoOrder option"
  ex_stop_loss_exit_order :: "TrackedOrder option"
  ex_position :: "OpenPosition option"
  ex_stop_loss_pending :: "StopLossPendingReason option"

record OkxEmaAtrMakerTrendRunner =
  rn_instance_id :: string
  rn_configured_strategy_tags :: "string list"
  rn_instrument_id :: string
  rn_validated_instrument :: "ValidatedTradingInstrument option"
  rn_quantity :: decimal
  rn_operator_owned_base_balance :: decimal
  rn_max_entry_order_age_ms :: nat
  rn_max_quote_notional :: "decimal option"
  rn_take_profit_atr_multiple :: decimal
  rn_stop_loss_atr_multiple :: decimal
  rn_entry_fee_cost_rate :: "decimal option"
  rn_exit_fee_cost_rate :: "decimal option"
  rn_signal :: SignalState
  rn_exchange :: "ExchangeState option"

text \<open>The part of a strategy instance the runner reads; \<open>StrategyKind\<close> has a single value.\<close>

record StrategyInstanceConfig =
  si_id :: string
  si_enabled :: bool
  si_trading_instrument :: RequestedTradingInstrument
  si_bar :: string
  si_params :: OkxEmaAtrMakerTrendConfig

definition MAX_MAKER_FEE_RATE :: string where "MAX_MAKER_FEE_RATE = ''0.001''"
definition MAX_TAKER_FEE_RATE :: string where "MAX_TAKER_FEE_RATE = ''0.002''"
definition OKX_EMA_ATR_MAKER_TREND_BAR :: string where "OKX_EMA_ATR_MAKER_TREND_BAR = ''1m''"
definition HISTORICAL_WARMUP_BARS :: nat where "HISTORICAL_WARMUP_BARS = 120"

definition strategy_fail :: "string \<Rightarrow> 'a res" where
  "strategy_fail reason = Inl (Fail (Bad ''OkxEmaAtrMakerTrend'' reason))"

definition expect :: "bool \<Rightarrow> string \<Rightarrow> unit res" where
  "expect b reason = require b ''OkxEmaAtrMakerTrend'' reason"

definition some_or :: "string \<Rightarrow> 'a option \<Rightarrow> 'a res" where
  "some_or reason x = ok_or (Fail (Bad ''OkxEmaAtrMakerTrend'' reason)) x"

fun try_each :: "('a \<Rightarrow> unit res) \<Rightarrow> 'a list \<Rightarrow> unit res" where
  "try_each f [] = Inr ()"
| "try_each f (x # xs) = rbind (f x) (\<lambda>_. try_each f xs)"

lemma strategy_fail_not_Inr [simp]: "strategy_fail reason \<noteq> Inr x"
  by (simp add: strategy_fail_def)

lemma expect_eq_Inr [simp]: "expect b r = Inr u \<longleftrightarrow> b"
  by (simp add: expect_def)

lemma expect_simps [simp]: "expect True r = Inr ()" "expect False r = strategy_fail r"
  by (simp_all add: expect_def strategy_fail_def)

lemma some_or_eq_Inr [simp]: "some_or r x = Inr v \<longleftrightarrow> x = Some v"
  by (simp add: some_or_def)

lemma some_or_simps [simp]: "some_or r (Some v) = Inr v" "some_or r None = strategy_fail r"
  by (simp_all add: some_or_def strategy_fail_def)

lemma try_each_Inr: "try_each f xs = Inr u \<longleftrightarrow> (\<forall>x\<in>set xs. f x = Inr ())"
  by (induction xs) (auto simp: rbind_eq_Inr)

section \<open>Configuration\<close>

definition si_instrument_id :: "StrategyInstanceConfig \<Rightarrow> string" where
  "si_instrument_id i = rq_instrument (si_trading_instrument i)"

text \<open>\<open>sort\<close> then \<open>dedup\<close>; the list is only searched.\<close>

definition configured_strategy_tags_for_instrument ::
    "StrategyInstanceConfig list \<Rightarrow> string \<Rightarrow> string list" where
  "configured_strategy_tags_for_instrument instances instrument_id =
     remdups_adj (sort_key (map (of_char :: char \<Rightarrow> nat))
       (map (\<lambda>i. strategy_tag (si_id i))
          (filter (\<lambda>i. si_instrument_id i = instrument_id) instances)))"

section \<open>Tracked orders\<close>

definition half :: "decimal_ops \<Rightarrow> decimal \<Rightarrow> decimal res" where
  "half D v = dec_div D v 2"

definition decimal_distance :: "decimal_ops \<Rightarrow> decimal \<Rightarrow> decimal \<Rightarrow> decimal res" where
  "decimal_distance D v expected = (if v \<ge> expected then dec_sub D v expected else dec_sub D expected v)"

definition decimal_within_half_step :: "decimal_ops \<Rightarrow> decimal \<Rightarrow> decimal \<Rightarrow> decimal \<Rightarrow> bool res" where
  "decimal_within_half_step D v expected step =
     rbind (decimal_distance D v expected) (\<lambda>distance.
     rbind (half D step) (\<lambda>h. Inr (distance \<le> h)))"

definition live_matches :: "string \<Rightarrow> OrderPurpose \<Rightarrow> OrderSide \<Rightarrow> OkxOrder \<Rightarrow> bool" where
  "live_matches tag purpose side o1 =
     (is_live o1 \<and> parse_strategy_client_order_id (or_client_order_id o1) tag = Some purpose \<and>
      order_parsed_side o1 = Some side)"

definition find_live_strategy_order ::
    "decimal_ops \<Rightarrow> OkxOrder list \<Rightarrow> string \<Rightarrow> OrderPurpose \<Rightarrow> OrderSide \<Rightarrow> OkxInstrument \<Rightarrow>
      TrackedOrder option res" where
  "find_live_strategy_order D open_orders tag purpose side i =
     (case filter (live_matches tag purpose side) open_orders of
        [] \<Rightarrow> Inr None
      | o1 # rest \<Rightarrow>
          rbind (expect (rest = []) ''multiple live OKX strategy orders found'') (\<lambda>_.
          rbind (cumulative_spot_accounting D o1 (oi_base_ccy i) (oi_quote_ccy i)) (\<lambda>accounting.
          rbind (order_fill_size D o1) (\<lambda>filled.
          rbind (average_fill_price D o1) (\<lambda>avg.
          Inr (Some \<lparr> to_client_order_id = or_client_order_id o1, to_last_fill_size = filled,
                      to_last_average_fill_price = avg,
                      to_last_accounted_base_change = ac_base_change accounting,
                      to_last_accounted_quote_change = ac_quote_change accounting,
                      to_cancel_requested = False \<rparr>))))))"

definition entry_accounting_delta ::
    "decimal_ops \<Rightarrow> OkxSpotFillAccounting \<Rightarrow> TrackedOrder \<Rightarrow> (decimal \<times> decimal) res" where
  "entry_accounting_delta D accounting tracked =
     rbind (dec_sub D (ac_base_change accounting) (to_last_accounted_base_change tracked)) (\<lambda>base_delta.
     let quote_spent = - ac_quote_change accounting;
         previous_quote_spent = - to_last_accounted_quote_change tracked in
     rbind (dec_sub D quote_spent previous_quote_spent) (\<lambda>quote_spent_delta.
     rbind (expect (base_delta > 0) ''OKX entry net base fill delta must be positive'') (\<lambda>_.
     rbind (expect (quote_spent_delta > 0) ''OKX entry quote cost delta must be positive'') (\<lambda>_.
     rbind (dec_div D quote_spent_delta base_delta) (\<lambda>delta_price.
     rbind (expect (delta_price > 0)
              ''OKX fee-adjusted entry fill delta price must be positive'') (\<lambda>_.
     Inr (base_delta, delta_price)))))))"

definition exit_accounting_delta ::
    "decimal_ops \<Rightarrow> OkxSpotFillAccounting \<Rightarrow> TrackedOrder \<Rightarrow> decimal res" where
  "exit_accounting_delta D accounting tracked =
     rbind (dec_sub D (ac_base_change accounting) (to_last_accounted_base_change tracked)) (\<lambda>base_delta.
     rbind (expect (base_delta < 0) ''OKX exit net base fill delta must be negative'') (\<lambda>_.
     rbind (dec_sub D (ac_quote_change accounting) (to_last_accounted_quote_change tracked)) (\<lambda>quote_delta.
     rbind (expect (quote_delta > 0) ''OKX exit net quote proceeds delta must be positive'') (\<lambda>_.
     Inr (- base_delta)))))"

text \<open>
  Times are \<open>i64\<close>, the age \<open>u64\<close>.  The caller passes an order time that \<open>parse_timestamp_ms\<close> found
  positive, so the difference cannot leave the type.
\<close>

definition entry_order_is_expired :: "int \<Rightarrow> int \<Rightarrow> nat \<Rightarrow> bool res" where
  "entry_order_is_expired created_at_ms now_ms max_age_ms =
     rbind (expect (max_age_ms > 0) ''OKX entry maximum age must be positive'') (\<lambda>_.
     rbind (expect (now_ms \<ge> created_at_ms) ''OKX entry order cTime is later than local time'') (\<lambda>_.
     let age_ms = now_ms - created_at_ms in
     rbind (expect (int max_age_ms \<le> i64_max) ''OKX entry maximum age exceeds i64'') (\<lambda>_.
     Inr (age_ms \<ge> int max_age_ms))))"

text \<open>The signed nanosecond reading of the clock, truncated to milliseconds.\<close>

definition unix_time_ms_of :: "int \<Rightarrow> int res" where
  "unix_time_ms_of now_nanos =
     (let ms = (if now_nanos \<ge> 0 then now_nanos div 1000000 else - (- now_nanos div 1000000)) in
      rbind (expect (i64_min \<le> ms \<and> ms \<le> i64_max)
               ''current UTC timestamp milliseconds exceed i64'') (\<lambda>_. Inr ms))"

definition cumulative_fill_delta :: "decimal_ops \<Rightarrow> string \<Rightarrow> decimal \<Rightarrow> decimal \<Rightarrow> decimal res" where
  "cumulative_fill_delta D context fill_size last_fill_size =
     rbind (require (fill_size \<ge> 0) context ''cumulative fill size must be non-negative'') (\<lambda>_.
     rbind (require (last_fill_size \<ge> 0) context ''tracked fill size must be non-negative'') (\<lambda>_.
     rbind (require (fill_size \<ge> last_fill_size) context ''cumulative fill size decreased'') (\<lambda>_.
     dec_sub D fill_size last_fill_size)))"

section \<open>Stop-loss algos\<close>

definition tracked_stop_loss_algo :: "decimal_ops \<Rightarrow> OkxAlgoOrder \<Rightarrow> bool \<Rightarrow> TrackedAlgoOrder res" where
  "tracked_stop_loss_algo D a cancel_requested =
     rbind (expect (algo_is_live a) ''live OKX stop-loss algo has unexpected state'') (\<lambda>_.
     rbind (expect (algo_parsed_side a = Some Sell) ''live OKX stop-loss algo has unexpected side'') (\<lambda>_.
     rbind (expect (is_trigger_market_order a)
              ''live OKX stop-loss algo has unexpected type and orderPx'') (\<lambda>_.
     rbind (algo_requested_size D a) (\<lambda>sz.
     rbind (algo_trigger_price D a) (\<lambda>trigger.
     Inr \<lparr> ta_algo_id = ao_algo_id a, ta_client_order_id = ao_client_order_id a, ta_sz = sz,
           ta_trigger_price = trigger, ta_cancel_requested = cancel_requested \<rparr>)))))"

definition algo_live_matches :: "string \<Rightarrow> OkxAlgoOrder \<Rightarrow> bool" where
  "algo_live_matches tag a =
     (algo_is_live a \<and> parse_strategy_client_order_id (ao_client_order_id a) tag = Some StopLoss \<and>
      algo_parsed_side a = Some Sell)"

definition find_live_strategy_stop_loss_algo ::
    "decimal_ops \<Rightarrow> OkxAlgoOrder list \<Rightarrow> string \<Rightarrow> TrackedAlgoOrder option res" where
  "find_live_strategy_stop_loss_algo D open_algo_orders tag =
     (case filter (algo_live_matches tag) open_algo_orders of
        [] \<Rightarrow> Inr None
      | a # rest \<Rightarrow>
          rbind (expect (rest = []) ''multiple live OKX strategy stop-loss algos found'') (\<lambda>_.
          rbind (tracked_stop_loss_algo D a False) (\<lambda>t. Inr (Some t))))"

section \<open>Orders the strategy refuses to see\<close>

definition live_legacy_strategy_id :: "string \<Rightarrow> string \<Rightarrow> string \<Rightarrow> string list \<Rightarrow> bool" where
  "live_legacy_strategy_id oid tag legacy_tag configured_tags =
     (parse_strategy_client_order_id oid tag = None \<and>
      \<not> list_ex (\<lambda>t. parse_strategy_client_order_id oid t \<noteq> None) configured_tags \<and>
      parse_legacy_strategy_client_order_id oid legacy_tag \<noteq> None)"

definition reject_live_legacy_strategy_ids ::
    "OkxOrder list \<Rightarrow> OkxAlgoOrder list \<Rightarrow> string \<Rightarrow> string \<Rightarrow> string list \<Rightarrow> unit res" where
  "reject_live_legacy_strategy_ids open_orders open_algo_orders strategy_id tag configured_tags =
     (let legacy_tag = legacy_strategy_tag strategy_id in
      rbind (try_each (\<lambda>o1. expect (\<not> live_legacy_strategy_id (or_client_order_id o1) tag legacy_tag
                configured_tags) ''live OKX legacy strategy order id'')
               (filter is_live open_orders)) (\<lambda>_.
      try_each (\<lambda>a. expect (\<not> live_legacy_strategy_id (ao_client_order_id a) tag legacy_tag
                configured_tags) ''live OKX legacy strategy algo id'')
        (filter algo_is_live open_algo_orders)))"

definition own_prefix :: "string \<Rightarrow> string \<Rightarrow> bool" where
  "own_prefix tag oid = starts_with (ORDER_ID_PREFIX @ tag) oid"

definition purpose_side :: "OrderPurpose \<Rightarrow> OrderSide" where
  "purpose_side p = (case p of Entry \<Rightarrow> Buy | TakeProfit \<Rightarrow> Sell | StopLoss \<Rightarrow> Sell)"

definition purpose_kind :: "OrderPurpose \<Rightarrow> OrderKind" where
  "purpose_kind p = (case p of Entry \<Rightarrow> PostOnly | TakeProfit \<Rightarrow> Limit | StopLoss \<Rightarrow> Market)"

definition check_live_strategy_order :: "string \<Rightarrow> OkxOrder \<Rightarrow> unit res" where
  "check_live_strategy_order tag o1 =
     (if \<not> own_prefix tag (or_client_order_id o1) then Inr ()
      else
        rbind (some_or ''unknown live OKX strategy order id''
                 (parse_strategy_client_order_id (or_client_order_id o1) tag)) (\<lambda>purpose.
        rbind (expect (order_parsed_side o1 = Some (purpose_side purpose))
                 ''live OKX strategy order has unexpected side'') (\<lambda>_.
        expect (order_parsed_kind o1 = Some (purpose_kind purpose))
          ''live OKX strategy order has unexpected type'')))"

definition reject_unknown_live_strategy_orders :: "OkxOrder list \<Rightarrow> string \<Rightarrow> unit res" where
  "reject_unknown_live_strategy_orders open_orders tag =
     try_each (check_live_strategy_order tag) (filter is_live open_orders)"

definition check_live_strategy_algo :: "string \<Rightarrow> OkxAlgoOrder \<Rightarrow> unit res" where
  "check_live_strategy_algo tag a =
     (if \<not> own_prefix tag (ao_client_order_id a) then Inr ()
      else
        rbind (some_or ''unknown live OKX strategy algo id''
                 (parse_strategy_client_order_id (ao_client_order_id a) tag)) (\<lambda>purpose.
        rbind (expect (algo_is_live a) ''live OKX strategy algo has unexpected state'') (\<lambda>_.
        rbind (expect (purpose = StopLoss) ''live OKX algo has unexpected strategy purpose'') (\<lambda>_.
        rbind (expect (algo_parsed_side a = Some Sell)
                 ''live OKX stop-loss algo has unexpected side'') (\<lambda>_.
        expect (is_trigger_market_order a)
          ''live OKX stop-loss algo has unexpected type and orderPx'')))))"

definition reject_unknown_live_strategy_algo_orders :: "OkxAlgoOrder list \<Rightarrow> string \<Rightarrow> unit res" where
  "reject_unknown_live_strategy_algo_orders open_algo_orders tag =
     try_each (check_live_strategy_algo tag) open_algo_orders"

end
