(* ===== verification/Cancel_All_After.thy ===== *)
theory Cancel_All_After
  imports Okx_Types
begin

text \<open>
  \<open>app/cancel_all_after_heartbeat.rs\<close> with the timeout and the acknowledgement of \<open>okx/client.rs\<close>: the
  dead-man switch that cancels every order unless the runtime refreshes it in time.

  Times are milliseconds.  \<open>u64\<close> values are naturals; the only operation that can leave the type is
  written out.  The refresh task is a function of what happens in each turn of its loop: when the stop
  signal comes, how long the exchange takes to answer and what it answers.  \<open>tokio::time::interval\<close> with
  \<open>MissedTickBehavior::Delay\<close> fires a period after the last tick, or at once when that is past.
\<close>

section \<open>The timeout\<close>

record OkxCancelAllAfterTimeout =
  ct_seconds :: nat

definition OKX_CANCEL_ALL_AFTER_MIN_TIMEOUT_SECS :: nat where
  "OKX_CANCEL_ALL_AFTER_MIN_TIMEOUT_SECS = 10"

definition OKX_CANCEL_ALL_AFTER_MAX_TIMEOUT_SECS :: nat where
  "OKX_CANCEL_ALL_AFTER_MAX_TIMEOUT_SECS = 120"

definition OKX_CANCEL_ALL_AFTER_TAG :: string where
  "OKX_CANCEL_ALL_AFTER_TAG = ''okxrusttrading''"

definition caa_timeout_new :: "nat \<Rightarrow> OkxCancelAllAfterTimeout res" where
  "caa_timeout_new seconds =
     rbind (require (OKX_CANCEL_ALL_AFTER_MIN_TIMEOUT_SECS \<le> seconds \<and>
              seconds \<le> OKX_CANCEL_ALL_AFTER_MAX_TIMEOUT_SECS)
              ''OKX cancel-all-after timeout'' ''must be between the minimum and the maximum'') (\<lambda>_.
     Inr \<lparr> ct_seconds = seconds \<rparr>)"

definition caa_timeout_disarm :: OkxCancelAllAfterTimeout where
  "caa_timeout_disarm = \<lparr> ct_seconds = 0 \<rparr>"

definition caa_timeout_is_disarm :: "OkxCancelAllAfterTimeout \<Rightarrow> bool" where
  "caa_timeout_is_disarm t = (ct_seconds t = 0)"

text \<open>The acknowledgement checks of \<open>OkxRestClient::cancel_all_after\<close>.\<close>

record OkxCancelAllAfterAck =
  ca_trigger_time :: string
  ca_tag :: string
  ca_ts :: string

definition caa_acknowledgement ::
    "OkxCancelAllAfterTimeout \<Rightarrow> OkxCancelAllAfterAck list \<Rightarrow> OkxCancelAllAfterAck res" where
  "caa_acknowledgement timeout acks =
     rbind (require (length acks = 1) ''cancel-all-after'' ''acknowledgements returned'') (\<lambda>_.
     let ack = hd acks in
     rbind (if caa_timeout_is_disarm timeout
            then require (trim (ca_trigger_time ack) = ''0'') ''cancel-all-after disarm''
                   ''returned triggerTime; expected 0''
            else require (trim (ca_trigger_time ack) \<noteq> []) ''cancel-all-after''
                   ''acknowledgement omitted triggerTime'') (\<lambda>_.
     rbind (require (trim (ca_ts ack) \<noteq> []) ''cancel-all-after'' ''acknowledgement omitted ts'') (\<lambda>_.
     rbind (require (trim (ca_tag ack) = OKX_CANCEL_ALL_AFTER_TAG) ''cancel-all-after''
              ''acknowledgement returned tag'') (\<lambda>_.
     Inr ack))))"

section \<open>Timing\<close>

definition CANCEL_ALL_AFTER_REFRESH_MULTIPLIER :: nat where
  "CANCEL_ALL_AFTER_REFRESH_MULTIPLIER = 3"

definition MAX_CANCEL_ALL_AFTER_POLL_INTERVAL_MS :: nat where
  "MAX_CANCEL_ALL_AFTER_POLL_INTERVAL_MS =
     OKX_CANCEL_ALL_AFTER_MAX_TIMEOUT_SECS div CANCEL_ALL_AFTER_REFRESH_MULTIPLIER * 1000"

definition cancel_all_after_heartbeat_period :: "OkxCancelAllAfterTimeout \<Rightarrow> nat" where
  "cancel_all_after_heartbeat_period timeout =
     max (min (ct_seconds timeout * 1000) u64_max div CANCEL_ALL_AFTER_REFRESH_MULTIPLIER) 1"

definition cancel_all_after_heartbeat_refresh_deadline :: "OkxCancelAllAfterTimeout \<Rightarrow> nat" where
  "cancel_all_after_heartbeat_refresh_deadline timeout = cancel_all_after_heartbeat_period timeout"

definition cancel_all_after_timeout :: "nat \<Rightarrow> OkxCancelAllAfterTimeout res" where
  "cancel_all_after_timeout poll_interval_ms =
     (let poll_interval_secs = (poll_interval_ms + 999) div 1000;
          requested = poll_interval_secs * CANCEL_ALL_AFTER_REFRESH_MULTIPLIER in
      rbind (require (requested \<le> u64_max) ''runtime.poll_interval_ms''
               ''is too large for OKX cancel-all-after timeout'') (\<lambda>_.
      caa_timeout_new (max requested OKX_CANCEL_ALL_AFTER_MIN_TIMEOUT_SECS)))"

section \<open>The refresh task\<close>

record CancelAllAfterHeartbeatTiming =
  hb_period :: nat
  hb_refresh_deadline :: nat

definition heartbeat_timing :: "OkxCancelAllAfterTimeout \<Rightarrow> CancelAllAfterHeartbeatTiming" where
  "heartbeat_timing timeout =
     \<lparr> hb_period = cancel_all_after_heartbeat_period timeout,
       hb_refresh_deadline = cancel_all_after_heartbeat_refresh_deadline timeout \<rparr>"

datatype CancelAllAfterHeartbeatRefresh = Refreshed | Failed rt_error | Stopped

text \<open>
  A refresh in flight: the stop signal comes first, or the exchange answers after \<open>d\<close> milliseconds.
  A panic of the client is not modelled.
\<close>

datatype heartbeat_refresh = StopDuringRefresh | Answer nat "rt_error + unit"

definition refresh_cancel_all_after_or_stop ::
    "CancelAllAfterHeartbeatTiming \<Rightarrow> heartbeat_refresh \<Rightarrow> CancelAllAfterHeartbeatRefresh" where
  "refresh_cancel_all_after_or_stop timing r =
     (case r of
        StopDuringRefresh \<Rightarrow> Stopped
      | Answer d answer \<Rightarrow>
          if d > hb_refresh_deadline timing
          then Failed (Bad ''OKX Cancel-All-After heartbeat'' ''refresh exceeded its deadline'')
          else (case answer of Inr _ \<Rightarrow> Refreshed | Inl e \<Rightarrow> Failed e))"

definition answer_time :: "heartbeat_refresh \<Rightarrow> nat" where
  "answer_time r = (case r of StopDuringRefresh \<Rightarrow> 0 | Answer d _ \<Rightarrow> d)"

text \<open>One turn of the loop: the stop signal before the next tick, or the tick and its refresh.\<close>

datatype heartbeat_turn = StopBeforeTick | Tick heartbeat_refresh

datatype heartbeat_end = HeartbeatStopped | HeartbeatFailed rt_error | StillRunning

text \<open>The times at which the exchange acknowledged a refresh, and how the task ended.\<close>

fun run_cancel_all_after_heartbeat ::
    "CancelAllAfterHeartbeatTiming \<Rightarrow> nat \<Rightarrow> heartbeat_turn list \<Rightarrow> nat list \<times> heartbeat_end" where
  "run_cancel_all_after_heartbeat timing tick [] = ([], StillRunning)"
| "run_cancel_all_after_heartbeat timing tick (StopBeforeTick # _) = ([], HeartbeatStopped)"
| "run_cancel_all_after_heartbeat timing tick (Tick r # rest) =
     (case refresh_cancel_all_after_or_stop timing r of
        Stopped \<Rightarrow> ([], HeartbeatStopped)
      | Failed e \<Rightarrow> ([], HeartbeatFailed e)
      | Refreshed \<Rightarrow>
          let answered = tick + answer_time r;
              (acks, outcome) =
                run_cancel_all_after_heartbeat timing (max (tick + hb_period timing) answered) rest
          in (answered # acks, outcome))"

text \<open>The task starts at time 0 with its first tick already taken.\<close>

definition heartbeat_spawn :: "OkxCancelAllAfterTimeout \<Rightarrow> heartbeat_turn list \<Rightarrow> nat list \<times> heartbeat_end"
where
  "heartbeat_spawn timeout turns =
     run_cancel_all_after_heartbeat (heartbeat_timing timeout)
       (hb_period (heartbeat_timing timeout)) turns"

section \<open>Lemmas\<close>

fun gaps_at_most :: "nat \<Rightarrow> nat \<Rightarrow> nat list \<Rightarrow> bool" where
  "gaps_at_most g t [] = True"
| "gaps_at_most g t (x # xs) = (t \<le> x \<and> x \<le> t + g \<and> gaps_at_most g x xs)"

lemma heartbeat_gaps:
  assumes "hb_refresh_deadline timing \<le> hb_period timing"
    and "t \<le> tick" and "tick \<le> t + hb_period timing"
  shows "gaps_at_most (2 * hb_period timing) t (fst (run_cancel_all_after_heartbeat timing tick turns))"
  using assms
proof (induction timing tick turns arbitrary: t rule: run_cancel_all_after_heartbeat.induct)
  case (3 timing tick r rest)
  show ?case
  proof (cases "refresh_cancel_all_after_or_stop timing r")
    case Refreshed
    then have d: "answer_time r \<le> hb_refresh_deadline timing"
      by (auto simp: refresh_cancel_all_after_or_stop_def answer_time_def
          split: heartbeat_refresh.splits if_splits sum.splits)
    let ?a = "tick + answer_time r"
    have "gaps_at_most (2 * hb_period timing) ?a
        (fst (run_cancel_all_after_heartbeat timing (max (tick + hb_period timing) ?a) rest))"
      by (rule "3.IH" [OF Refreshed refl "3.prems"(1)]) (use d "3.prems" in auto)
    with Refreshed d "3.prems" show ?thesis by (auto simp: Let_def split: prod.split)
  qed simp_all
qed simp_all

lemma caa_timeout_cases:
  "cancel_all_after_timeout p = Inr t \<longleftrightarrow>
    (p + 999) div 1000 * 3 \<le> 120 \<and> t = \<lparr> ct_seconds = max ((p + 999) div 1000 * 3) 10 \<rparr>"
  by (auto simp: cancel_all_after_timeout_def caa_timeout_new_def rbind_eq_Inr Let_def u64_max_def
      CANCEL_ALL_AFTER_REFRESH_MULTIPLIER_def OKX_CANCEL_ALL_AFTER_MIN_TIMEOUT_SECS_def
      OKX_CANCEL_ALL_AFTER_MAX_TIMEOUT_SECS_def)

section \<open>Properties\<close>

text \<open>
  C21: an accepted poll interval gives a timeout the exchange accepts, with room for three polls, and
  the dead-man switch cannot fire while the refreshes succeed: whatever happens in each turn, two
  acknowledgements that follow each other, and the first one after the start, are at most two heartbeat
  periods apart, which is less than the timeout.
\<close>
theorem heartbeat_keeps_switch_open:
  assumes "cancel_all_after_timeout poll_interval_ms = Inr timeout"
  shows "10 \<le> ct_seconds timeout \<and> ct_seconds timeout \<le> 120 \<and>
    3 * poll_interval_ms \<le> 1000 * ct_seconds timeout \<and>
    poll_interval_ms \<le> MAX_CANCEL_ALL_AFTER_POLL_INTERVAL_MS \<and>
    2 * cancel_all_after_heartbeat_period timeout < 1000 * ct_seconds timeout \<and>
    gaps_at_most (2 * cancel_all_after_heartbeat_period timeout) 0 (fst (heartbeat_spawn timeout turns))"
proof -
  from assms have n: "(poll_interval_ms + 999) div 1000 * 3 \<le> 120"
      "ct_seconds timeout = max ((poll_interval_ms + 999) div 1000 * 3) 10"
    by (simp_all add: caa_timeout_cases)
  have poll: "poll_interval_ms \<le> 1000 * ((poll_interval_ms + 999) div 1000)"
    using div_mult_mod_eq [of "poll_interval_ms + 999" 1000] mod_less_divisor [of 1000 "poll_interval_ms + 999"]
    by linarith
  then have three: "3 * poll_interval_ms \<le> 1000 * ct_seconds timeout" using n(2) by linarith
  have max: "poll_interval_ms \<le> MAX_CANCEL_ALL_AFTER_POLL_INTERVAL_MS"
    using poll n(1) by (simp add: MAX_CANCEL_ALL_AFTER_POLL_INTERVAL_MS_def
        CANCEL_ALL_AFTER_REFRESH_MULTIPLIER_def OKX_CANCEL_ALL_AFTER_MAX_TIMEOUT_SECS_def)
  have range: "10 \<le> ct_seconds timeout" "ct_seconds timeout \<le> 120" using n by auto
  have "min (ct_seconds timeout * 1000) u64_max = ct_seconds timeout * 1000"
    using range by (simp add: u64_max_def)
  then have period: "cancel_all_after_heartbeat_period timeout = max (ct_seconds timeout * 1000 div 3) 1"
    by (simp add: cancel_all_after_heartbeat_period_def CANCEL_ALL_AFTER_REFRESH_MULTIPLIER_def)
  have "3 * (ct_seconds timeout * 1000 div 3) \<le> ct_seconds timeout * 1000" by (rule times_div_less_eq_dividend)
  then have half: "2 * cancel_all_after_heartbeat_period timeout < 1000 * ct_seconds timeout"
    unfolding period using range by linarith
  have "gaps_at_most (2 * hb_period (heartbeat_timing timeout)) 0
      (fst (heartbeat_spawn timeout turns))"
    unfolding heartbeat_spawn_def
    by (rule heartbeat_gaps)
      (simp_all add: heartbeat_timing_def cancel_all_after_heartbeat_refresh_deadline_def)
  then show ?thesis using range three max half by (simp add: heartbeat_timing_def)
qed

theorem heartbeat_keeps_switch_open_witness:
  "fst (heartbeat_spawn \<lparr> ct_seconds = 15 \<rparr> [Tick (Answer 40 (Inr ())), Tick (Answer 5000 (Inr ()))])
     = [5040, 15000] \<and>
   gaps_at_most 10000 0
     (fst (heartbeat_spawn \<lparr> ct_seconds = 15 \<rparr> [Tick (Answer 40 (Inr ())), Tick (Answer 5000 (Inr ()))]))"
proof -
  have t: "cancel_all_after_timeout 5000 = Inr \<lparr> ct_seconds = 15 \<rparr>" by (simp add: caa_timeout_cases)
  have p: "cancel_all_after_heartbeat_period \<lparr> ct_seconds = 15 \<rparr> = 5000"
    by (simp add: cancel_all_after_heartbeat_period_def u64_max_def CANCEL_ALL_AFTER_REFRESH_MULTIPLIER_def)
  from heartbeat_keeps_switch_open [OF t, of "[Tick (Answer 40 (Inr ())), Tick (Answer 5000 (Inr ()))]"]
  show ?thesis
    by (simp add: p heartbeat_spawn_def heartbeat_timing_def refresh_cancel_all_after_or_stop_def
        cancel_all_after_heartbeat_refresh_deadline_def answer_time_def)
qed

end
