(* ===== verification/Bot_Config.thy ===== *)
theory Bot_Config
  imports Strategy_State Cancel_All_After
begin

text \<open>
  The runtime's configuration: the data of \<open>config/types.rs\<close> with the defaults its deserializers fill
  in, and the whole validation of \<open>config/validation.rs\<close>.

  TOML is parsed by a library, so deserialization starts from the raw fields.  URLs are parsed by the
  \<open>url\<close> crate, a parameter \<open>P\<close> that gives the parts the code asks for.  Hash sets of identifiers are sets;
  a loop that checks each element is \<open>try_each\<close>.
\<close>

section \<open>Data\<close>

datatype RuntimeOrderIntent = DemoOkxSpotConfirmed | LiveOkxSpotConfirmed

datatype OkxApiDomain = Domain_Global | Domain_UsAu | Domain_Eea

datatype OkxAccountJurisdiction =
    Jurisdiction_Singapore | Jurisdiction_Eea | Jurisdiction_UnitedStates | Jurisdiction_Australia
  | Jurisdiction_Other

datatype OkxTradingService = Production | Demo

record OkxWebsocketConfig =
  wc_max_staleness_ms :: nat
  wc_reconnect_initial_backoff_ms :: nat
  wc_reconnect_max_backoff_ms :: nat

record OkxConfig =
  ok_api_key :: string
  ok_api_secret :: string
  ok_api_passphrase :: string
  ok_account_id :: string
  ok_api_domain :: OkxApiDomain
  ok_account_jurisdiction :: OkxAccountJurisdiction
  ok_trading_service :: OkxTradingService
  ok_base_url :: string
  ok_base_url_ws_public :: "string option"
  ok_base_url_ws_private :: "string option"
  ok_base_url_ws_business :: "string option"
  ok_proxy_url :: "string option"
  ok_request_timeout_ms :: nat
  ok_websocket :: OkxWebsocketConfig

record RawOkxConfig =
  ro_api_key :: string
  ro_api_secret :: string
  ro_api_passphrase :: string
  ro_account_id :: string
  ro_api_domain :: "OkxApiDomain option"
  ro_account_jurisdiction :: "OkxAccountJurisdiction option"
  ro_has_region :: bool
  ro_trading_service :: "OkxTradingService option"
  ro_base_url :: "string option"
  ro_base_url_ws_public :: "string option"
  ro_base_url_ws_private :: "string option"
  ro_base_url_ws_business :: "string option"
  ro_proxy_url :: "string option"
  ro_request_timeout_ms :: "nat option"
  ro_websocket :: "OkxWebsocketConfig option"

record RuntimeConfig =
  rc_trader_id :: string
  rc_poll_interval_ms :: nat
  rc_tick_timeout_ms :: nat
  rc_order_intent :: "RuntimeOrderIntent option"

record InstrumentConfig =
  ic_instrument_id :: string
  ic_base_currency :: string
  ic_quote_currency :: string
  ic_enabled :: bool

record BotConfig =
  bc_product_name :: string
  bc_runtime :: RuntimeConfig
  bc_okx :: "OkxConfig option"
  bc_instruments :: "InstrumentConfig list"
  bc_instances :: "StrategyInstanceConfig list"

section \<open>Defaults\<close>

definition default_websocket_config :: OkxWebsocketConfig where
  "default_websocket_config =
     \<lparr> wc_max_staleness_ms = 3000, wc_reconnect_initial_backoff_ms = 500,
       wc_reconnect_max_backoff_ms = 10000 \<rparr>"

record OkxEndpointDefaults =
  ed_base_url :: string
  ed_base_url_ws_public :: string
  ed_base_url_ws_private :: string
  ed_base_url_ws_business :: string

definition endpoints :: "string \<Rightarrow> string \<Rightarrow> OkxEndpointDefaults" where
  "endpoints rest ws =
     \<lparr> ed_base_url = ''https://'' @ rest, ed_base_url_ws_public = ''wss://'' @ ws @ '':8443/ws/v5/public'',
       ed_base_url_ws_private = ''wss://'' @ ws @ '':8443/ws/v5/private'',
       ed_base_url_ws_business = ''wss://'' @ ws @ '':8443/ws/v5/business'' \<rparr>"

definition okx_endpoint_default_routes ::
    "((OkxApiDomain \<times> OkxTradingService) \<times> OkxEndpointDefaults) list" where
  "okx_endpoint_default_routes =
     [((Domain_Global, Production), endpoints ''openapi.okx.com'' ''ws.okx.com''),
      ((Domain_Global, Demo), endpoints ''openapi.okx.com'' ''wspap.okx.com''),
      ((Domain_UsAu, Production), endpoints ''us.okx.com'' ''wsus.okx.com''),
      ((Domain_UsAu, Demo), endpoints ''us.okx.com'' ''wsuspap.okx.com''),
      ((Domain_Eea, Production), endpoints ''eea.okx.com'' ''wseea.okx.com''),
      ((Domain_Eea, Demo), endpoints ''eea.okx.com'' ''wseeapap.okx.com'')]"

text \<open>The \<open>expect\<close> of the lookup is a panic.\<close>

definition okx_endpoint_defaults :: "OkxApiDomain \<Rightarrow> OkxTradingService \<Rightarrow> OkxEndpointDefaults res" where
  "okx_endpoint_defaults domain service =
     ok_or Panic (map_of okx_endpoint_default_routes (domain, service))"

definition or_default :: "'a \<Rightarrow> 'a option \<Rightarrow> 'a" where
  "or_default d x = (case x of None \<Rightarrow> d | Some v \<Rightarrow> v)"

definition okx_config_deserialize :: "RawOkxConfig \<Rightarrow> OkxConfig res" where
  "okx_config_deserialize raw =
     rbind (require (\<not> ro_has_region raw) ''okx.region'' ''is ambiguous and unsupported'') (\<lambda>_.
     rbind (ok_or (Fail (Bad ''okx.api_domain'' ''is required'')) (ro_api_domain raw)) (\<lambda>domain.
     rbind (ok_or (Fail (Bad ''okx.account_jurisdiction'' ''is required''))
              (ro_account_jurisdiction raw)) (\<lambda>jurisdiction.
     let service = or_default Production (ro_trading_service raw) in
     rbind (okx_endpoint_defaults domain service) (\<lambda>defaults.
     Inr \<lparr> ok_api_key = ro_api_key raw, ok_api_secret = ro_api_secret raw,
           ok_api_passphrase = ro_api_passphrase raw, ok_account_id = ro_account_id raw,
           ok_api_domain = domain, ok_account_jurisdiction = jurisdiction,
           ok_trading_service = service,
           ok_base_url = or_default (ed_base_url defaults) (ro_base_url raw),
           ok_base_url_ws_public =
             Some (or_default (ed_base_url_ws_public defaults) (ro_base_url_ws_public raw)),
           ok_base_url_ws_private =
             Some (or_default (ed_base_url_ws_private defaults) (ro_base_url_ws_private raw)),
           ok_base_url_ws_business =
             Some (or_default (ed_base_url_ws_business defaults) (ro_base_url_ws_business raw)),
           ok_proxy_url = ro_proxy_url raw,
           ok_request_timeout_ms = or_default 60000 (ro_request_timeout_ms raw),
           ok_websocket = or_default default_websocket_config (ro_websocket raw) \<rparr>))))"

definition requested_instrument_id_new :: "string \<Rightarrow> string res" where
  "requested_instrument_id_new v =
     (let c = ''requested instrument'' in
      rbind (require (v \<noteq> []) c ''must not be empty'') (\<lambda>_.
      rbind (require (v = trim v) c ''must not contain leading or trailing whitespace'') (\<lambda>_.
      rbind (require (length v \<le> 64 \<and> list_all is_ascii v \<and> \<not> list_ex is_ascii_control v) c
               ''must be canonical printable ASCII of at most 64 bytes'') (\<lambda>_.
      rbind (ok_or (Fail (Bad c ''must use exact OKX BASE-QUOTE format''))
               (split_once (CHR ''-'') v)) (\<lambda>(base, quote).
      rbind (require (base \<noteq> [] \<and> quote \<noteq> [] \<and> CHR ''-'' \<notin> set quote \<and>
               list_all (\<lambda>ch. is_ascii_uppercase ch \<or> is_ascii_digit ch) (base @ quote)) c
               ''must use uppercase OKX BASE-QUOTE asset codes'') (\<lambda>_.
      Inr v))))))"

section \<open>Runtime and order intent\<close>

definition MIN_POLL_INTERVAL_MS :: nat where
  "MIN_POLL_INTERVAL_MS = 250"

definition validate_runtime :: "RuntimeConfig \<Rightarrow> unit res" where
  "validate_runtime r =
     rbind (require (rc_poll_interval_ms r \<ge> MIN_POLL_INTERVAL_MS) ''runtime.poll_interval_ms''
              ''must be at least the minimum'') (\<lambda>_.
     rbind (require (rc_tick_timeout_ms r > 0) ''runtime.tick_timeout_ms'' ''must be positive'') (\<lambda>_.
     rbind (require (rc_tick_timeout_ms r \<ge> rc_poll_interval_ms r) ''runtime.tick_timeout_ms''
              ''must be greater than or equal to runtime.poll_interval_ms'') (\<lambda>_.
     Inr ())))"

definition enabled_strategy_instances :: "BotConfig \<Rightarrow> StrategyInstanceConfig list" where
  "enabled_strategy_instances c = filter si_enabled (bc_instances c)"

definition has_enabled_strategy_instances :: "BotConfig \<Rightarrow> bool" where
  "has_enabled_strategy_instances c = (enabled_strategy_instances c \<noteq> [])"

definition validate_order_intent_matches_trading_service ::
    "RuntimeOrderIntent \<Rightarrow> OkxTradingService \<Rightarrow> unit res" where
  "validate_order_intent_matches_trading_service intent service =
     (case (service, intent) of
        (Demo, DemoOkxSpotConfirmed) \<Rightarrow> Inr ()
      | (Production, LiveOkxSpotConfirmed) \<Rightarrow> Inr ()
      | (Demo, LiveOkxSpotConfirmed) \<Rightarrow>
          Inl (Fail (Bad ''runtime.order_intent'' ''is not valid for OKX DEMO profiles''))
      | (Production, DemoOkxSpotConfirmed) \<Rightarrow>
          Inl (Fail (Bad ''runtime.order_intent'' ''is not valid for OKX PRODUCTION profiles'')))"

definition validate_strategy_order_intent ::
    "RuntimeOrderIntent option \<Rightarrow> OkxTradingService \<Rightarrow> unit res" where
  "validate_strategy_order_intent intent service =
     (case intent of
        None \<Rightarrow> Inl (Fail (Bad ''strategy-enabled OKX profiles'' ''require runtime.order_intent''))
      | Some i \<Rightarrow> validate_order_intent_matches_trading_service i service)"

definition validate_runtime_order_intent :: "BotConfig \<Rightarrow> OkxTradingService \<Rightarrow> unit res" where
  "validate_runtime_order_intent c service =
     (if has_enabled_strategy_instances c
      then validate_strategy_order_intent (rc_order_intent (bc_runtime c)) service
      else (case rc_order_intent (bc_runtime c) of
              Some i \<Rightarrow> validate_order_intent_matches_trading_service i service
            | None \<Rightarrow> Inr ()))"

section \<open>The dispatch budget\<close>

definition cancel_all_after_timeout_seconds :: "nat \<Rightarrow> nat res" where
  "cancel_all_after_timeout_seconds poll_interval_ms =
     (let poll_interval_secs = (poll_interval_ms + 999) div 1000 in
      rbind (ok_or (Fail (Bad ''runtime.poll_interval_ms''
               ''is too large for OKX cancel-all-after timeout''))
               (if poll_interval_secs * 3 \<le> u64_max then Some (poll_interval_secs * 3) else None))
        (\<lambda>product.
      let requested_timeout = max product 10 in
      rbind (require (requested_timeout \<le> 120) ''runtime.poll_interval_ms''
               ''is too large for OKX cancel-all-after refresh'') (\<lambda>_.
      Inr requested_timeout)))"

definition checked_mul_u64 :: "nat \<Rightarrow> nat \<Rightarrow> nat option" where
  "checked_mul_u64 a b = (if a * b \<le> u64_max then Some (a * b) else None)"

definition checked_aggregate_strategy_dispatch_budget_ms :: "nat \<Rightarrow> nat \<Rightarrow> nat option" where
  "checked_aggregate_strategy_dispatch_budget_ms enabled_strategy_count tick_timeout_ms =
     Option.bind (if enabled_strategy_count \<le> u64_max then Some enabled_strategy_count else None) (\<lambda>n.
     Option.bind (checked_mul_u64 n 2) (\<lambda>m. checked_mul_u64 m tick_timeout_ms))"

definition validate_aggregate_dispatch_budget :: "nat \<Rightarrow> nat \<Rightarrow> nat \<Rightarrow> unit res" where
  "validate_aggregate_dispatch_budget enabled_strategy_count poll_interval_ms tick_timeout_ms =
     rbind (cancel_all_after_timeout_seconds poll_interval_ms) (\<lambda>secs.
     rbind (ok_or (Fail (Bad ''OKX cancel-all-after timeout'' ''is too large for millisecond validation''))
              (checked_mul_u64 secs 1000)) (\<lambda>cancel_all_after_timeout_ms.
     rbind (ok_or (Fail (Bad ''aggregate strategy dispatch budget'' ''overflowed''))
              (checked_aggregate_strategy_dispatch_budget_ms enabled_strategy_count tick_timeout_ms))
       (\<lambda>aggregate_worst_case_ms.
     rbind (require (aggregate_worst_case_ms \<le> cancel_all_after_timeout_ms)
              ''aggregate strategy dispatch budget''
              ''exceeds the OKX Cancel-All-After safety window'') (\<lambda>_.
     Inr ()))))"

definition validate_strategy_cancel_all_after_timing :: "BotConfig \<Rightarrow> unit res" where
  "validate_strategy_cancel_all_after_timing c =
     (let n = length (enabled_strategy_instances c) in
      if n > 0
      then rbind (validate_aggregate_dispatch_budget n (rc_poll_interval_ms (bc_runtime c))
                    (rc_tick_timeout_ms (bc_runtime c))) (\<lambda>_. Inr ())
      else Inr ())"

section \<open>Instruments\<close>

definition validate_okx_asset_code :: "string \<Rightarrow> string \<Rightarrow> unit res" where
  "validate_okx_asset_code context v =
     rbind (require (v \<noteq> []) context ''must not be empty'') (\<lambda>_.
     rbind (require (v = trim v) context ''must not contain leading or trailing whitespace'') (\<lambda>_.
     rbind (require (is_okx_asset_code v) context ''must use an uppercase OKX asset code'') (\<lambda>_.
     Inr ())))"

fun contains_str :: "string \<Rightarrow> string \<Rightarrow> bool" where
  "contains_str [] pat = (pat = [])"
| "contains_str (c # s) pat = (starts_with pat (c # s) \<or> contains_str s pat)"

definition derivative_markers :: "string list" where
  "derivative_markers = [''SWAP'', ''FUTURES'', ''FUTURE'', ''OPTION'', ''MARGIN'', ''LEVERAGE'']"

definition reject_okx_derivative_marker :: "string \<Rightarrow> string \<Rightarrow> unit res" where
  "reject_okx_derivative_marker context v =
     (let normalized = map to_ascii_uppercase (trim v) in
      try_each (\<lambda>marker.
        require (\<not> (list_ex (\<lambda>part. part = marker) (split_on (CHR ''-'') normalized) \<or>
                    contains_str normalized marker))
          context ''contains prohibited OKX derivative or margin marker'')
        derivative_markers)"

definition validate_instrument :: "InstrumentConfig \<Rightarrow> unit res" where
  "validate_instrument i =
     rbind (validate_okx_spot_symbol ''instrument instrument_id'' (ic_instrument_id i)) (\<lambda>_.
     rbind (validate_okx_asset_code ''instrument base_currency'' (ic_base_currency i)) (\<lambda>_.
     rbind (validate_okx_asset_code ''instrument quote_currency'' (ic_quote_currency i)) (\<lambda>_.
     rbind (require (ic_base_currency i \<noteq> ic_quote_currency i) ''instrument base_currency''
              ''must not equal quote_currency'') (\<lambda>_.
     rbind (reject_okx_derivative_marker ''instrument base_currency'' (ic_base_currency i)) (\<lambda>_.
     rbind (reject_okx_derivative_marker ''instrument quote_currency'' (ic_quote_currency i)) (\<lambda>_.
     rbind (require (ic_instrument_id i = ic_base_currency i @ ''-'' @ ic_quote_currency i)
              ''instrument instrument_id''
              ''must exactly match configured base_currency and quote_currency'') (\<lambda>_.
     Inr ())))))))"

text \<open>The loops that insert into a set and stop at the first value already there.\<close>

fun all_fresh :: "string \<Rightarrow> string set \<Rightarrow> string list \<Rightarrow> unit res" where
  "all_fresh context seen [] = Inr ()"
| "all_fresh context seen (x # xs) =
     rbind (require (x \<notin> seen) context ''must be unique'') (\<lambda>_. all_fresh context (insert x seen) xs)"

definition validate_unique_enabled_instrument_ids :: "InstrumentConfig list \<Rightarrow> unit res" where
  "validate_unique_enabled_instrument_ids is =
     all_fresh ''enabled OKX spot instrument_ids'' {} (map ic_instrument_id (filter ic_enabled is))"

definition validate_crypto_instruments :: "BotConfig \<Rightarrow> unit res" where
  "validate_crypto_instruments c =
     rbind (require (bc_instruments c \<noteq> []) ''instruments''
              ''at least one OKX spot instrument must be configured'') (\<lambda>_.
     rbind (require (list_ex ic_enabled (bc_instruments c)) ''instruments''
              ''at least one OKX spot instrument must be enabled'') (\<lambda>_.
     rbind (try_each validate_instrument (bc_instruments c)) (\<lambda>_.
     rbind (validate_unique_enabled_instrument_ids (bc_instruments c)) (\<lambda>_.
     Inr ()))))"

definition enabled_instrument_ids :: "BotConfig \<Rightarrow> string set" where
  "enabled_instrument_ids c = set (map ic_instrument_id (filter ic_enabled (bc_instruments c)))"

section \<open>The OKX section\<close>

record parsed_url =
  pu_scheme :: string
  pu_host :: "string option"
  pu_username :: string
  pu_password :: "string option"

type_synonym url_parser = "string \<Rightarrow> parsed_url option"

definition to_ascii_lowercase :: "char \<Rightarrow> char" where
  "to_ascii_lowercase c = (if is_ascii_uppercase c then char_of (byte c + 32) else c)"

definition suffix_str :: "string \<Rightarrow> string \<Rightarrow> bool" where
  "suffix_str pat s = starts_with (rev pat) (rev s)"

text \<open>\<open>Url::parse(value).ok().and_then(|url| url.host_str().map(to_ascii_lowercase))\<close>.\<close>

definition url_host_lowercase :: "url_parser \<Rightarrow> string \<Rightarrow> string option" where
  "url_host_lowercase P v =
     Option.bind (P v) (\<lambda>url. map_option (map to_ascii_lowercase) (pu_host url))"

definition validate_url_with_allowed_schemes ::
    "url_parser \<Rightarrow> string \<Rightarrow> string \<Rightarrow> string list \<Rightarrow> unit res" where
  "validate_url_with_allowed_schemes P context v schemes =
     (let trimmed = trim v in
      rbind (require (trimmed = v) context ''must not contain leading or trailing whitespace'') (\<lambda>_.
      rbind (ok_or (Fail (Bad context ''must be a valid URL'')) (P trimmed)) (\<lambda>url.
      rbind (require (pu_scheme url \<in> set schemes) context ''must use another scheme'') (\<lambda>_.
      rbind (require (pu_host url \<noteq> None) context ''must include a host'') (\<lambda>_.
      rbind (require (pu_username url = [] \<and> pu_password url = None) context
               ''must not include credentials'') (\<lambda>_.
      Inr ()))))))"

definition validate_url_with_scheme :: "url_parser \<Rightarrow> string \<Rightarrow> string \<Rightarrow> string \<Rightarrow> unit res" where
  "validate_url_with_scheme P context v scheme = validate_url_with_allowed_schemes P context v [scheme]"

definition validate_optional_wss_url :: "url_parser \<Rightarrow> string \<Rightarrow> string option \<Rightarrow> unit res" where
  "validate_optional_wss_url P context v =
     (case v of None \<Rightarrow> Inr ()
      | Some u \<Rightarrow>
          rbind (require (\<not> blank u) context ''must not be empty'') (\<lambda>_.
          rbind (validate_url_with_scheme P context u ''wss'') (\<lambda>_. Inr ())))"

definition validate_optional_proxy_url :: "url_parser \<Rightarrow> string \<Rightarrow> string option \<Rightarrow> unit res" where
  "validate_optional_proxy_url P context v =
     (case v of None \<Rightarrow> Inr ()
      | Some u \<Rightarrow>
          rbind (require (\<not> blank u) context ''must not be empty'') (\<lambda>_.
          rbind (validate_url_with_allowed_schemes P context u [''http'', ''https'']) (\<lambda>_. Inr ())))"

definition known_okx_api_domain :: "string \<Rightarrow> OkxApiDomain option" where
  "known_okx_api_domain host =
     (if host \<in> {''openapi.okx.com'', ''www.okx.com'', ''ws.okx.com'', ''wspap.okx.com''}
      then Some Domain_Global
      else if host \<in> {''us.okx.com'', ''wsus.okx.com'', ''wsuspap.okx.com''} then Some Domain_UsAu
      else if host \<in> {''eea.okx.com'', ''wseea.okx.com'', ''wseeapap.okx.com''} then Some Domain_Eea
      else None)"

definition validate_okx_api_domain_url ::
    "url_parser \<Rightarrow> string \<Rightarrow> string \<Rightarrow> OkxApiDomain \<Rightarrow> unit res" where
  "validate_okx_api_domain_url P context v expected =
     rbind (ok_or (Fail (Bad ''validated OKX route'' ''must include a host''))
              (url_host_lowercase P v)) (\<lambda>host.
     rbind (require (host \<noteq> ''my.okx.com'') context ''must not use my.okx.com'') (\<lambda>_.
     case known_okx_api_domain host of
       None \<Rightarrow> Inr ()
     | Some actual \<Rightarrow>
         require (actual = expected) ''known OKX API host'' ''must match okx.api_domain''))"

definition validate_okx_api_domain_routing :: "url_parser \<Rightarrow> OkxConfig \<Rightarrow> unit res" where
  "validate_okx_api_domain_routing P okx =
     rbind (validate_okx_api_domain_url P ''OKX base_url'' (ok_base_url okx) (ok_api_domain okx)) (\<lambda>_.
     try_each (\<lambda>(context, v). case v of None \<Rightarrow> Inr ()
         | Some u \<Rightarrow> validate_okx_api_domain_url P context u (ok_api_domain okx))
       [(''OKX base_url_ws_public'', ok_base_url_ws_public okx),
        (''OKX base_url_ws_private'', ok_base_url_ws_private okx),
        (''OKX base_url_ws_business'', ok_base_url_ws_business okx)])"

definition okx_websocket_service :: "url_parser \<Rightarrow> string \<Rightarrow> OkxTradingService option" where
  "okx_websocket_service P v =
     Option.bind (url_host_lowercase P v) (\<lambda>host.
       if suffix_str ''pap.okx.com'' host then Some Demo
       else if host = ''okx.com'' \<or> suffix_str ''.okx.com'' host then Some Production
       else None)"

definition configured_ws_urls :: "OkxConfig \<Rightarrow> string list" where
  "configured_ws_urls okx =
     List.map_filter id
       [ok_base_url_ws_public okx, ok_base_url_ws_private okx, ok_base_url_ws_business okx]"

definition validate_okx_websocket_service_routing :: "url_parser \<Rightarrow> OkxConfig \<Rightarrow> unit res" where
  "validate_okx_websocket_service_routing P okx =
     (let urls = configured_ws_urls okx;
          has_demo_url = list_ex (\<lambda>u. okx_websocket_service P u = Some Demo) urls;
          has_production_url = list_ex (\<lambda>u. okx_websocket_service P u = Some Production) urls in
      rbind (require (\<not> (has_demo_url \<and> has_production_url)) ''OKX demo and production WS routing''
               ''must not be mixed'') (\<lambda>_.
      try_each (\<lambda>u. case okx_websocket_service P u of None \<Rightarrow> Inr ()
          | Some service \<Rightarrow>
              require (service = ok_trading_service okx) ''known OKX WebSocket host''
                ''must match okx.trading_service'') urls))"

definition okx_simulated_trading_from_routing :: "OkxConfig \<Rightarrow> bool" where
  "okx_simulated_trading_from_routing okx = (ok_trading_service okx = Demo)"

definition validate_okx_websocket_config :: "OkxWebsocketConfig \<Rightarrow> unit res" where
  "validate_okx_websocket_config c =
     rbind (require (wc_max_staleness_ms c > 0) ''OKX websocket.max_staleness_ms'' ''must be non-zero'') (\<lambda>_.
     rbind (require (wc_reconnect_initial_backoff_ms c > 0) ''OKX websocket.reconnect_initial_backoff_ms''
              ''must be non-zero'') (\<lambda>_.
     rbind (require (wc_reconnect_max_backoff_ms c \<ge> wc_reconnect_initial_backoff_ms c)
              ''OKX websocket.reconnect_max_backoff_ms''
              ''must be greater than or equal to reconnect_initial_backoff_ms'') (\<lambda>_.
     Inr ())))"

definition validate_okx_secret_field :: "string \<Rightarrow> string \<Rightarrow> unit res" where
  "validate_okx_secret_field context v =
     rbind (require (trim v \<noteq> []) context ''must not be empty'') (\<lambda>_.
     rbind (require (v = trim v) context ''must not contain leading or trailing whitespace'') (\<lambda>_.
     Inr ()))"

definition identifier_char :: "char \<Rightarrow> bool" where
  "identifier_char ch = (is_ascii_alphanumeric ch \<or> ch \<in> {CHR ''-'', CHR ''_'', CHR ''.''})"

definition validate_okx_account_id :: "string \<Rightarrow> unit res" where
  "validate_okx_account_id v =
     (let account_id = trim v; c = ''OKX account_id'' in
      rbind (require (account_id = v) c ''must not contain leading or trailing whitespace'') (\<lambda>_.
      rbind (require (starts_with ''OKX-'' account_id) c ''must use an OKX-prefixed identifier'') (\<lambda>_.
      rbind (require (list_all identifier_char account_id) c
               ''may contain only ASCII letters, digits and - _ .'') (\<lambda>_.
      Inr ()))))"

definition validate_okx_section :: "url_parser \<Rightarrow> OkxConfig \<Rightarrow> unit res" where
  "validate_okx_section P okx =
     rbind (validate_okx_secret_field ''OKX api_key'' (ok_api_key okx)) (\<lambda>_.
     rbind (validate_okx_secret_field ''OKX api_secret'' (ok_api_secret okx)) (\<lambda>_.
     rbind (validate_okx_secret_field ''OKX passphrase'' (ok_api_passphrase okx)) (\<lambda>_.
     rbind (require (\<not> blank (ok_account_id okx)) ''OKX account_id'' ''must not be empty'') (\<lambda>_.
     rbind (validate_okx_account_id (ok_account_id okx)) (\<lambda>_.
     rbind (require (\<not> blank (ok_base_url okx)) ''OKX base_url'' ''must not be empty'') (\<lambda>_.
     rbind (validate_url_with_scheme P ''OKX base_url'' (ok_base_url okx) ''https'') (\<lambda>_.
     rbind (validate_optional_wss_url P ''OKX base_url_ws_public'' (ok_base_url_ws_public okx)) (\<lambda>_.
     rbind (validate_optional_wss_url P ''OKX base_url_ws_private'' (ok_base_url_ws_private okx)) (\<lambda>_.
     rbind (validate_optional_wss_url P ''OKX base_url_ws_business'' (ok_base_url_ws_business okx)) (\<lambda>_.
     rbind (validate_okx_api_domain_routing P okx) (\<lambda>_.
     rbind (validate_okx_websocket_service_routing P okx) (\<lambda>_.
     rbind (validate_optional_proxy_url P ''OKX proxy_url'' (ok_proxy_url okx)) (\<lambda>_.
     rbind (validate_okx_websocket_config (ok_websocket okx)) (\<lambda>_.
     rbind (require (ok_request_timeout_ms okx > 0) ''OKX request_timeout_ms'' ''must be non-zero'') (\<lambda>_.
     Inr ())))))))))))))))"

definition validate_okx :: "url_parser \<Rightarrow> BotConfig \<Rightarrow> unit res" where
  "validate_okx P c =
     (case bc_okx c of None \<Rightarrow> Inr () | Some okx \<Rightarrow> validate_okx_section P okx)"

section \<open>Strategy instances\<close>

definition OKX_EMA_ATR_MAKER_TREND_QUALIFIED_INSTRUMENT :: string where
  "OKX_EMA_ATR_MAKER_TREND_QUALIFIED_INSTRUMENT = ''BTC-USDT''"

abbreviation instance_instrument_id :: "StrategyInstanceConfig \<Rightarrow> string" where
  "instance_instrument_id i \<equiv> rq_instrument (si_trading_instrument i)"

definition validate_strategy_instance_identity :: "StrategyInstanceConfig \<Rightarrow> unit res" where
  "validate_strategy_instance_identity i =
     rbind (require (trim (si_id i) \<noteq> []) ''strategy instance id'' ''must not be empty'') (\<lambda>_.
     rbind (require (trim (si_id i) = si_id i) ''strategy instance id''
              ''must not contain leading or trailing whitespace'') (\<lambda>_.
     rbind (require (list_all identifier_char (si_id i)) ''strategy instance id''
              ''may contain only ASCII letters, digits and - _ .'') (\<lambda>_.
     Inr ())))"

text \<open>The loop's state: the enabled identifiers and the ownership tags seen so far.\<close>

definition validate_strategy_instance_declaration ::
    "string set \<times> (string \<rightharpoonup> string) \<Rightarrow> StrategyInstanceConfig \<Rightarrow> (string set \<times> (string \<rightharpoonup> string)) res"
where
  "validate_strategy_instance_declaration = (\<lambda>(enabled_ids, tags) i.
     rbind (validate_strategy_instance_identity i) (\<lambda>_.
     rbind (validate_requested_trading_instrument (si_trading_instrument i)) (\<lambda>_.
     rbind (if si_enabled i
            then rbind (require (si_id i \<notin> enabled_ids) ''enabled strategy instance ids''
                          ''must be unique'') (\<lambda>_. Inr (insert (si_id i) enabled_ids))
            else Inr enabled_ids) (\<lambda>enabled_ids.
     let tag = strategy_tag (si_id i) in
     rbind (require (tags tag = None) ''OkxEmaAtrMakerTrend strategy ownership tags''
              ''must be unique'') (\<lambda>_.
     Inr (enabled_ids, tags(tag \<mapsto> si_id i)))))))"

definition validate_strategy_instance_declarations :: "StrategyInstanceConfig list \<Rightarrow> unit res" where
  "validate_strategy_instance_declarations instances =
     rbind (try_fold validate_strategy_instance_declaration ({}, Map.empty) instances) (\<lambda>_. Inr ())"

definition validate_strategy_instrument_selection ::
    "StrategyInstanceConfig \<Rightarrow> string set \<Rightarrow> unit res" where
  "validate_strategy_instrument_selection i enabled =
     (let instrument_id = instance_instrument_id i in
      rbind (sc_error (trim instrument_id \<noteq> []) ''instrument must not be empty when enabled'') (\<lambda>_.
      rbind (validate_okx_spot_symbol ''OkxEmaAtrMakerTrend instrument'' instrument_id) (\<lambda>_.
      rbind (sc_error (instrument_id \<in> enabled)
               ''instrument must reference an enabled configured OKX spot instrument'') (\<lambda>_.
      Inr ()))))"

definition validate_strategy_bar_selection :: "StrategyInstanceConfig \<Rightarrow> unit res" where
  "validate_strategy_bar_selection i =
     sc_error (si_bar i = OKX_EMA_ATR_MAKER_TREND_BAR) ''bar must be 1m for this strategy''"

definition validate_strategy_instrument_and_bar_selection ::
    "BotConfig \<Rightarrow> StrategyInstanceConfig \<Rightarrow> unit res" where
  "validate_strategy_instrument_and_bar_selection c i =
     rbind (validate_strategy_instrument_selection i (enabled_instrument_ids c)) (\<lambda>_.
     validate_strategy_bar_selection i)"

definition validate_quote_notional_by_instrument_key ::
    "StrategyInstanceConfig \<Rightarrow> string set \<Rightarrow> string \<Rightarrow> unit res" where
  "validate_quote_notional_by_instrument_key i enabled instrument_id =
     rbind (sc_error (instance_instrument_id i = instrument_id)
              ''max_quote_notional_by_instrument key must reference the selected instrument'') (\<lambda>_.
     rbind (sc_error (instrument_id \<in> enabled)
              ''max_quote_notional_by_instrument key must reference an enabled instrument'') (\<lambda>_.
     Inr ()))"

definition validate_quote_notional_by_instrument_keys ::
    "BotConfig \<Rightarrow> StrategyInstanceConfig \<Rightarrow> (string \<times> decimal) list \<Rightarrow> unit res" where
  "validate_quote_notional_by_instrument_keys c i caps =
     try_each (validate_quote_notional_by_instrument_key i (enabled_instrument_ids c)) (map fst caps)"

definition validate_okx_ema_atr_maker_trend_instance ::
    "BotConfig \<Rightarrow> StrategyInstanceConfig \<Rightarrow> unit res" where
  "validate_okx_ema_atr_maker_trend_instance c i =
     rbind (validate_parameters (si_params i)) (\<lambda>_.
     rbind (validate_strategy_instrument_and_bar_selection c i) (\<lambda>_.
     rbind (sc_error (instance_instrument_id i = OKX_EMA_ATR_MAKER_TREND_QUALIFIED_INSTRUMENT)
              ''qualification evidence applies only to BTC-USDT'') (\<lambda>_.
     rbind (validate_quote_notional_by_instrument_keys c i
              (sc_max_quote_notional_by_instrument (si_params i))) (\<lambda>_.
     Inr ()))))"

definition validate_strategy_instances :: "BotConfig \<Rightarrow> unit res" where
  "validate_strategy_instances c =
     rbind (validate_strategy_instance_declarations (bc_instances c)) (\<lambda>_.
     rbind (try_each (validate_okx_ema_atr_maker_trend_instance c) (enabled_strategy_instances c)) (\<lambda>_.
     Inr ()))"

section \<open>Quote notional caps\<close>

definition validate_live_quote_notional_denomination :: "StrategyInstanceConfig \<Rightarrow> unit res" where
  "validate_live_quote_notional_denomination i =
     (let cap = sc_max_quote_notional (si_params i);
          caps = sc_max_quote_notional_by_instrument (si_params i);
          instrument_id = instance_instrument_id i;
          has_cap = instrument_id \<in> set (map fst caps) in
      if cap = None \<and> caps = [] then Inr ()
      else
        rbind (okx_spot_quote_asset ''OkxEmaAtrMakerTrend instrument_id'' instrument_id) (\<lambda>quote.
        let selected_quotes = insert quote {} in
        rbind (if cap = None then sc_error has_cap ''must configure a cap for the selected instrument''
               else Inr ()) (\<lambda>_.
        if card selected_quotes \<le> 1 then Inr ()
        else
          rbind (sc_error (cap = None) ''mixed-quote profiles must use caps by instrument'') (\<lambda>_.
          rbind (sc_error has_cap ''mixed-quote profiles must configure a cap'') (\<lambda>_.
          Inr ())))))"

definition validate_live_strategy_quote_notional_denomination :: "BotConfig \<Rightarrow> unit res" where
  "validate_live_strategy_quote_notional_denomination c =
     try_each validate_live_quote_notional_denomination (enabled_strategy_instances c)"

section \<open>The whole validation\<close>

definition validate :: "url_parser \<Rightarrow> BotConfig \<Rightarrow> unit res" where
  "validate P c =
     rbind (require (bc_product_name c = ''okx-rust-trading'') ''product.name'' ''must be okx-rust-trading'')
       (\<lambda>_.
     rbind (ok_or (Fail (Bad ''runtime profile'' ''requires [okx]'')) (bc_okx c)) (\<lambda>okx.
     rbind (validate_runtime (bc_runtime c)) (\<lambda>_.
     rbind (validate_runtime_order_intent c (ok_trading_service okx)) (\<lambda>_.
     rbind (validate_strategy_cancel_all_after_timing c) (\<lambda>_.
     rbind (validate_crypto_instruments c) (\<lambda>_.
     rbind (validate_okx P c) (\<lambda>_.
     rbind (validate_strategy_instances c) (\<lambda>_.
     rbind (validate_live_strategy_quote_notional_denomination c) (\<lambda>_.
     Inr ())))))))))"

section \<open>Lemmas\<close>

text \<open>The validation and the runtime compute the same timeout.\<close>

lemma validation_timeout_is_runtime_timeout:
  "cancel_all_after_timeout_seconds poll = Inr secs \<longleftrightarrow>
   cancel_all_after_timeout poll = Inr \<lparr> ct_seconds = secs \<rparr>"
  by (auto simp: cancel_all_after_timeout_seconds_def caa_timeout_cases rbind_eq_Inr Let_def u64_max_def
      max_def split: if_splits)

lemma declarations_fresh:
  assumes "try_fold validate_strategy_instance_declaration (ids, tags) xs = Inr s'"
  shows "distinct (map (\<lambda>i. strategy_tag (si_id i)) xs) \<and>
    (\<forall>i\<in>set xs. tags (strategy_tag (si_id i)) = None) \<and>
    (\<forall>i\<in>set xs. validate_requested_trading_instrument (si_trading_instrument i) = Inr ())"
  using assms
proof (induction xs arbitrary: ids tags)
  case (Cons i xs)
  let ?t = "strategy_tag (si_id i)"
  from Cons.prems obtain ids' where
      here: "tags ?t = None" "validate_requested_trading_instrument (si_trading_instrument i) = Inr ()"
    and rest: "try_fold validate_strategy_instance_declaration (ids', tags(?t \<mapsto> si_id i)) xs = Inr s'"
    by (auto simp: validate_strategy_instance_declaration_def rbind_eq_Inr Let_def)
  from Cons.IH [OF rest] here show ?case by (auto split: if_splits)
qed simp

lemma validate_parts:
  assumes "validate P c = Inr ()"
  obtains okx where "bc_okx c = Some okx" "validate_runtime (bc_runtime c) = Inr ()"
    "validate_runtime_order_intent c (ok_trading_service okx) = Inr ()"
    "validate_strategy_cancel_all_after_timing c = Inr ()" "validate_crypto_instruments c = Inr ()"
    "validate_okx_section P okx = Inr ()" "validate_strategy_instances c = Inr ()"
  using assms by (auto simp: validate_def validate_okx_def rbind_eq_Inr)

lemma validated_enabled_instance:
  assumes "validate P c = Inr ()" and i: "i \<in> set (bc_instances c)" "si_enabled i"
  shows "instance_instrument_id i = ''BTC-USDT'' \<and> ''BTC-USDT'' \<in> enabled_instrument_ids c \<and>
       si_bar i = ''1m'' \<and> rq_inst_type (si_trading_instrument i) = RequestedSpot \<and>
       rq_td_mode (si_trading_instrument i) = RequestedCash \<and> validate_parameters (si_params i) = Inr ()"
proof -
  from assms(1) have "validate_strategy_instances c = Inr ()" by (rule validate_parts)
  then obtain s where decl: "try_fold validate_strategy_instance_declaration ({}, Map.empty)
        (bc_instances c) = Inr s"
    and each: "validate_okx_ema_atr_maker_trend_instance c i = Inr ()"
    using i by (auto simp: validate_strategy_instances_def validate_strategy_instance_declarations_def
        rbind_eq_Inr try_each_Inr enabled_strategy_instances_def)
  from each have "instance_instrument_id i = ''BTC-USDT''" "''BTC-USDT'' \<in> enabled_instrument_ids c"
        "si_bar i = ''1m''" "validate_parameters (si_params i) = Inr ()"
      by (auto simp: validate_okx_ema_atr_maker_trend_instance_def rbind_eq_Inr
          validate_strategy_instrument_and_bar_selection_def validate_strategy_instrument_selection_def
          validate_strategy_bar_selection_def OKX_EMA_ATR_MAKER_TREND_QUALIFIED_INSTRUMENT_def
          OKX_EMA_ATR_MAKER_TREND_BAR_def Let_def)
    moreover have "rq_inst_type (si_trading_instrument i) = RequestedSpot"
        "rq_td_mode (si_trading_instrument i) = RequestedCash"
      using declarations_fresh [OF decl] i(1) by (auto simp: validate_requested_trading_instrument_def rbind_eq_Inr Let_def
          split: if_splits)
    ultimately show ?thesis by blast
  qed

lemma aggregate_budget:
  assumes "validate_aggregate_dispatch_budget n poll tick = Inr ()"
  shows "\<exists>t. cancel_all_after_timeout poll = Inr t \<and> n * 2 * tick \<le> ct_seconds t * 1000"
proof -
  from assms obtain secs where "cancel_all_after_timeout_seconds poll = Inr secs"
      "n * 2 * tick \<le> secs * 1000"
    by (auto simp: validate_aggregate_dispatch_budget_def rbind_eq_Inr checked_mul_u64_def
        checked_aggregate_strategy_dispatch_budget_ms_def bind_eq_Some_conv split: if_splits)
  then show ?thesis by (auto simp: validation_timeout_is_runtime_timeout)
qed

section \<open>Properties\<close>


text \<open>
  C29: what a validated configuration may talk to.  Every configured URL has a host, none is the shared web
  domain, and a host known to belong to an API domain belongs to the configured one; a WebSocket host of
  the exchange belongs to the configured trading service; and when a strategy is enabled the order intent
  is the one of that service, so a live intent never reaches a demo stream nor a demo intent a live one.
\<close>
theorem validated_routing:
  assumes "validate P c = Inr ()" and "bc_okx c = Some okx"
  shows "(\<forall>u\<in>set (ok_base_url okx # configured_ws_urls okx). \<exists>host.
       url_host_lowercase P u = Some host \<and> host \<noteq> ''my.okx.com'' \<and>
       known_okx_api_domain host \<in> {None, Some (ok_api_domain okx)}) \<and>
    (\<forall>u\<in>set (configured_ws_urls okx).
       okx_websocket_service P u \<in> {None, Some (ok_trading_service okx)}) \<and>
    (has_enabled_strategy_instances c \<longrightarrow>
       (ok_trading_service okx = Demo \<and> rc_order_intent (bc_runtime c) = Some DemoOkxSpotConfirmed) \<or>
       (ok_trading_service okx = Production \<and> rc_order_intent (bc_runtime c) = Some LiveOkxSpotConfirmed))"
proof -
  from assms have okx: "validate_okx_section P okx = Inr ()"
    and intent: "validate_runtime_order_intent c (ok_trading_service okx) = Inr ()"
    by (auto elim!: validate_parts)
  have domain: "\<exists>host. url_host_lowercase P u = Some host \<and> host \<noteq> ''my.okx.com'' \<and>
       known_okx_api_domain host \<in> {None, Some d}"
    if "validate_okx_api_domain_url P ctxt u d = Inr ()" for ctxt u d
    using that by (cases "known_okx_api_domain (the (url_host_lowercase P u))")
      (auto simp: validate_okx_api_domain_url_def rbind_eq_Inr)
  from okx have routing: "validate_okx_api_domain_routing P okx = Inr ()"
    and service: "validate_okx_websocket_service_routing P okx = Inr ()"
    by (auto simp: validate_okx_section_def rbind_eq_Inr)
  have "\<exists>ctxt. validate_okx_api_domain_url P ctxt u (ok_api_domain okx) = Inr ()"
    if "u \<in> set (ok_base_url okx # configured_ws_urls okx)" for u
    using that routing
    by (auto simp: validate_okx_api_domain_routing_def rbind_eq_Inr configured_ws_urls_def
        List.map_filter_def split: if_splits option.splits)
  with domain have "\<forall>u\<in>set (ok_base_url okx # configured_ws_urls okx). \<exists>host.
       url_host_lowercase P u = Some host \<and> host \<noteq> ''my.okx.com'' \<and>
       known_okx_api_domain host \<in> {None, Some (ok_api_domain okx)}" by blast
  moreover have "\<forall>u\<in>set (configured_ws_urls okx).
       okx_websocket_service P u \<in> {None, Some (ok_trading_service okx)}"
    using service by (fastforce simp: validate_okx_websocket_service_routing_def rbind_eq_Inr Let_def
        try_each_Inr split: option.splits)
  moreover have "(ok_trading_service okx = Demo \<and> rc_order_intent (bc_runtime c) = Some DemoOkxSpotConfirmed) \<or>
       (ok_trading_service okx = Production \<and> rc_order_intent (bc_runtime c) = Some LiveOkxSpotConfirmed)"
    if "has_enabled_strategy_instances c"
    using intent that
    by (auto simp: validate_runtime_order_intent_def validate_strategy_order_intent_def
        validate_order_intent_matches_trading_service_def
        split: option.splits OkxTradingService.splits RuntimeOrderIntent.splits)
  ultimately show ?thesis by blast
qed


section \<open>A concrete configuration\<close>

text \<open>The demo profile with an enabled and a disabled instance; the URL parser knows its four URLs.\<close>

definition example_url :: "string \<Rightarrow> string \<Rightarrow> parsed_url" where
  "example_url scheme host =
     \<lparr> pu_scheme = scheme, pu_host = Some host, pu_username = [], pu_password = None \<rparr>"

definition example_urls :: url_parser where
  "example_urls = map_of
     [(''https://openapi.okx.com'', example_url ''https'' ''openapi.okx.com''),
      (''wss://wspap.okx.com:8443/ws/v5/public'', example_url ''wss'' ''wspap.okx.com''),
      (''wss://wspap.okx.com:8443/ws/v5/private'', example_url ''wss'' ''wspap.okx.com''),
      (''wss://wspap.okx.com:8443/ws/v5/business'', example_url ''wss'' ''wspap.okx.com'')]"

definition example_okx :: OkxConfig where
  "example_okx =
     \<lparr> ok_api_key = ''k'', ok_api_secret = ''s'', ok_api_passphrase = ''p'', ok_account_id = ''OKX-DEMO'',
       ok_api_domain = Domain_Global, ok_account_jurisdiction = Jurisdiction_Singapore,
       ok_trading_service = Demo, ok_base_url = ''https://openapi.okx.com'',
       ok_base_url_ws_public = Some ''wss://wspap.okx.com:8443/ws/v5/public'',
       ok_base_url_ws_private = Some ''wss://wspap.okx.com:8443/ws/v5/private'',
       ok_base_url_ws_business = Some ''wss://wspap.okx.com:8443/ws/v5/business'',
       ok_proxy_url = None, ok_request_timeout_ms = 60000, ok_websocket = default_websocket_config \<rparr>"

definition example_instance :: "string \<Rightarrow> bool \<Rightarrow> StrategyInstanceConfig" where
  "example_instance iid enabled =
     \<lparr> si_id = iid, si_enabled = enabled,
       si_trading_instrument = \<lparr> rq_instrument = ''BTC-USDT'', rq_inst_type = RequestedSpot,
         rq_td_mode = RequestedCash \<rparr>,
       si_bar = ''1m'', si_params = default_strategy_config \<rparr>"

definition example_config :: BotConfig where
  "example_config =
     \<lparr> bc_product_name = ''okx-rust-trading'',
       bc_runtime = \<lparr> rc_trader_id = ''t'', rc_poll_interval_ms = 1000, rc_tick_timeout_ms = 5000,
         rc_order_intent = Some DemoOkxSpotConfirmed \<rparr>,
       bc_okx = Some example_okx,
       bc_instruments = [\<lparr> ic_instrument_id = ''BTC-USDT'', ic_base_currency = ''BTC'',
         ic_quote_currency = ''USDT'', ic_enabled = True \<rparr>],
       bc_instances = [example_instance ''btc'' True, example_instance ''eth'' False] \<rparr>"


lemma trim_graphic:
  assumes "32 < byte c" "byte c < 127" "32 < byte d" "byte d < 127"
    and "s = c # u" and "rev s = d # v"
  shows "trim s = s"
proof -
  have "trim_start s = s"
    using assms by (simp add: trim_start.simps [of "c # u"] whitespace_encodings_def)
  moreover have "trim_end_rev (rev s) = rev s"
    using assms by (simp add: trim_end_rev.simps [of "d # v"] whitespace_encodings_def)
  ultimately show ?thesis by (simp add: trim_def)
qed

lemma example_tags: "strategy_tag ''btc'' \<noteq> strategy_tag ''eth''"
  by (simp add: strategy_tag_def strategy_tag_prefix_def alphanumeric_prefix_def Let_def
      STRATEGY_TAG_PREFIX_LEN_def is_ascii_alphanumeric_def is_ascii_digit_def is_ascii_uppercase_def
      is_ascii_lowercase_def byte_def to_ascii_uppercase_def)

lemma example_trims:
  "trim ''https://openapi.okx.com'' = ''https://openapi.okx.com''"
  "trim ''wss://wspap.okx.com:8443/ws/v5/public'' = ''wss://wspap.okx.com:8443/ws/v5/public''"
  "trim ''wss://wspap.okx.com:8443/ws/v5/private'' = ''wss://wspap.okx.com:8443/ws/v5/private''"
  "trim ''wss://wspap.okx.com:8443/ws/v5/business'' = ''wss://wspap.okx.com:8443/ws/v5/business''"
  "trim ''k'' = ''k''" "trim ''s'' = ''s''" "trim ''p'' = ''p''" "trim ''OKX-DEMO'' = ''OKX-DEMO''"
  "trim ''BTC-USDT'' = ''BTC-USDT''" "trim ''BTC'' = ''BTC''" "trim ''USDT'' = ''USDT''"
  "trim ''btc'' = ''btc''" "trim ''eth'' = ''eth''"
  by (rule trim_graphic, simp_all add: byte_def)+

lemma example_chars:
  "list_all identifier_char ''btc''" "list_all identifier_char ''eth''"
  "list_all identifier_char ''OKX-DEMO''" "is_okx_asset_code ''BTC''" "is_okx_asset_code ''USDT''"
  "list_all is_ascii ''BTC-USDT''" "\<not> list_ex is_ascii_control ''BTC-USDT''"
  by (simp_all add: identifier_char_def is_ascii_alphanumeric_def is_ascii_digit_def is_ascii_uppercase_def
      is_ascii_lowercase_def is_okx_asset_code_def byte_def is_ascii_def is_ascii_control_def)

lemma example_hosts:
  "map to_ascii_lowercase ''openapi.okx.com'' = ''openapi.okx.com''"
  "map to_ascii_lowercase ''wspap.okx.com'' = ''wspap.okx.com''"
  by (simp_all add: to_ascii_lowercase_def is_ascii_uppercase_def byte_def)

lemma example_hosts_lower:
  "url_host_lowercase example_urls ''https://openapi.okx.com'' = Some ''openapi.okx.com''"
  "url_host_lowercase example_urls ''wss://wspap.okx.com:8443/ws/v5/public'' = Some ''wspap.okx.com''"
  "url_host_lowercase example_urls ''wss://wspap.okx.com:8443/ws/v5/private'' = Some ''wspap.okx.com''"
  "url_host_lowercase example_urls ''wss://wspap.okx.com:8443/ws/v5/business'' = Some ''wspap.okx.com''"
  using example_hosts by (simp_all add: url_host_lowercase_def example_urls_def example_url_def)

lemma example_services:
  "okx_websocket_service example_urls ''wss://wspap.okx.com:8443/ws/v5/public'' = Some Demo"
  "okx_websocket_service example_urls ''wss://wspap.okx.com:8443/ws/v5/private'' = Some Demo"
  "okx_websocket_service example_urls ''wss://wspap.okx.com:8443/ws/v5/business'' = Some Demo"
  by (simp_all add: okx_websocket_service_def example_hosts_lower suffix_str_def starts_with_def)

lemma example_lookup:
  "example_urls ''https://openapi.okx.com'' = Some (example_url ''https'' ''openapi.okx.com'')"
  "example_urls ''wss://wspap.okx.com:8443/ws/v5/public'' = Some (example_url ''wss'' ''wspap.okx.com'')"
  "example_urls ''wss://wspap.okx.com:8443/ws/v5/private'' = Some (example_url ''wss'' ''wspap.okx.com'')"
  "example_urls ''wss://wspap.okx.com:8443/ws/v5/business'' = Some (example_url ''wss'' ''wspap.okx.com'')"
  by (simp_all add: example_urls_def)

lemma example_url_simps:
  "pu_scheme (example_url s h) = s" "pu_host (example_url s h) = Some h"
  "pu_username (example_url s h) = []" "pu_password (example_url s h) = None"
  by (simp_all add: example_url_def)

lemma example_section: "validate_okx_section example_urls example_okx = Inr ()"
  by (simp add: validate_okx_section_def example_okx_def validate_okx_secret_field_def example_trims
      blank_def validate_okx_account_id_def Let_def starts_with_def example_chars [simplified]
      validate_url_with_scheme_def validate_url_with_allowed_schemes_def example_lookup example_url_simps
      validate_optional_wss_url_def validate_optional_proxy_url_def validate_okx_websocket_config_def
      default_websocket_config_def validate_okx_api_domain_routing_def validate_okx_api_domain_url_def
      example_hosts_lower known_okx_api_domain_def validate_okx_websocket_service_routing_def
      configured_ws_urls_def List.map_filter_def example_services)

lemma example_symbol: "okx_spot_quote_asset ctxt ''BTC-USDT'' = Inr ''USDT''"
  by (simp add: okx_spot_quote_asset_def Let_def example_trims example_chars)

lemma example_instruments: "validate_crypto_instruments example_config = Inr ()"
  by (simp add: validate_crypto_instruments_def example_config_def validate_instrument_def
      validate_okx_spot_symbol_def example_symbol validate_okx_asset_code_def example_trims example_chars
      reject_okx_derivative_marker_def derivative_markers_def Let_def to_ascii_uppercase_def
      is_ascii_lowercase_def byte_def starts_with_def validate_unique_enabled_instrument_ids_def)

lemma example_request: "validate_requested_trading_instrument
    \<lparr> rq_instrument = ''BTC-USDT'', rq_inst_type = RequestedSpot, rq_td_mode = RequestedCash \<rparr> = Inr ()"
  by (simp add: validate_requested_trading_instrument_def Let_def example_trims example_chars [simplified]
      validate_okx_spot_symbol_def example_symbol)

lemma default_parameters_valid: "validate_parameters default_strategy_config = Inr ()"
  by (simp add: validate_parameters_def validate_periods_def validate_quote_sizing_def
      validate_entry_lifetime_def validate_entry_offsets_def validate_exit_multiples_def
      default_strategy_config_def)

lemma example_instances: "validate_strategy_instances example_config = Inr ()"
  by (simp add: validate_strategy_instances_def example_config_def example_instance_def
      validate_strategy_instance_declarations_def validate_strategy_instance_declaration_def
      validate_strategy_instance_identity_def example_trims example_chars [simplified] example_request Let_def
      example_tags [symmetric] enabled_strategy_instances_def enabled_instrument_ids_def
      validate_okx_ema_atr_maker_trend_instance_def default_parameters_valid
      validate_strategy_instrument_and_bar_selection_def validate_strategy_instrument_selection_def
      validate_okx_spot_symbol_def example_symbol validate_strategy_bar_selection_def
      OKX_EMA_ATR_MAKER_TREND_BAR_def OKX_EMA_ATR_MAKER_TREND_QUALIFIED_INSTRUMENT_def
      validate_quote_notional_by_instrument_keys_def)
    (simp add: default_strategy_config_def)

lemma example_enabled: "enabled_strategy_instances example_config = [example_instance ''btc'' True]"
  by (simp add: enabled_strategy_instances_def example_config_def example_instance_def)

lemma example_valid: "validate example_urls example_config = Inr ()"
proof -
  have "validate_runtime (bc_runtime example_config) = Inr ()"
    by (simp add: validate_runtime_def example_config_def MIN_POLL_INTERVAL_MS_def)
  moreover have "validate_runtime_order_intent example_config Demo = Inr ()"
    by (simp add: validate_runtime_order_intent_def has_enabled_strategy_instances_def example_enabled
        validate_strategy_order_intent_def example_config_def
        validate_order_intent_matches_trading_service_def)
  moreover have "validate_strategy_cancel_all_after_timing example_config = Inr ()"
    by (simp add: validate_strategy_cancel_all_after_timing_def example_enabled
        validate_aggregate_dispatch_budget_def cancel_all_after_timeout_seconds_def Let_def)
      (simp add: example_config_def u64_max_def checked_mul_u64_def
        checked_aggregate_strategy_dispatch_budget_ms_def)
  moreover have "validate_live_strategy_quote_notional_denomination example_config = Inr ()"
    by (simp add: validate_live_strategy_quote_notional_denomination_def example_enabled
        validate_live_quote_notional_denomination_def example_instance_def default_strategy_config_def)
  moreover have "bc_okx example_config = Some example_okx" "ok_trading_service example_okx = Demo"
      "bc_product_name example_config = ''okx-rust-trading''"
    by (simp_all add: example_config_def example_okx_def)
  ultimately show ?thesis
    by (simp add: validate_def validate_okx_def example_section example_instruments example_instances)
qed


theorem validated_routing_witness:
  "okx_websocket_service example_urls ''wss://wspap.okx.com:8443/ws/v5/private'' \<in> {None, Some Demo} \<and>
   rc_order_intent (bc_runtime example_config) = Some DemoOkxSpotConfirmed"
proof -
  have okx: "bc_okx example_config = Some example_okx" by (simp add: example_config_def)
  have "has_enabled_strategy_instances example_config"
    by (simp add: has_enabled_strategy_instances_def example_enabled)
  with validated_routing [OF example_valid okx] show ?thesis
    by (simp add: configured_ws_urls_def List.map_filter_def example_okx_def)
qed

end
