(* ===== verification/Config_Loading.thy ===== *)
theory Config_Loading
  imports Bot_Config
begin

text \<open>
  \<open>config/loader.rs\<close>: which profile is loaded, how the credentials it names are resolved, and what else a
  loaded configuration has passed.

  The host is a parameter: the environment variables, the files, the directory the program was built in and the
  TOML parser with the deserializers of \<open>Bot_Config\<close>.  A path is its text, on a Unix system.  The context a
  caller adds to an error names the file, for display only.
\<close>

section \<open>The host\<close>

record config_host =
  ch_env :: "string \<Rightarrow> string option"
  ch_read_to_string :: "string \<Rightarrow> string option"
  ch_exists :: "string \<Rightarrow> bool"
  ch_is_file :: "string \<Rightarrow> bool"
  ch_manifest_dir :: string
  ch_parse_toml :: "string \<Rightarrow> BotConfig option"

text \<open>
  \<open>Path::components\<close>: repeated separators and the component \<open>.\<close> are skipped, except a leading one.  A
  file name has an extension if it has a dot that is not its first character.
\<close>

definition path_components :: "string \<Rightarrow> string list" where
  "path_components p =
     (let parts = filter (\<lambda>s. s \<noteq> []) (split_on (CHR ''/'') p) in
      if starts_with ''/'' p then ''/'' # filter (\<lambda>s. s \<noteq> ''.'') parts
      else take 1 parts @ filter (\<lambda>s. s \<noteq> ''.'') (drop 1 parts))"

definition path_has_extension :: "string \<Rightarrow> bool" where
  "path_has_extension p =
     (case rev (path_components p) of
        [] \<Rightarrow> False
      | name # _ \<Rightarrow> name \<notin> {''/'', ''.'', ''..''} \<and> CHR ''.'' \<in> set (tl name))"

definition path_is_absolute :: "string \<Rightarrow> bool" where
  "path_is_absolute p = starts_with ''/'' p"

section \<open>Which profile\<close>

definition profile_path :: "string \<Rightarrow> string" where
  "profile_path name = ''config/'' @ name @ ''.toml''"

definition config_path :: string where
  "config_path = profile_path ''example''"

definition resolve_profile_selector :: "string \<Rightarrow> string res" where
  "resolve_profile_selector selector =
     (let v = trim selector in
      rbind (require (v \<noteq> []) ''runtime config profile selector'' ''must not be empty'') (\<lambda>_.
      rbind (require (\<not> (starts_with ''-'' v \<or> CHR ''='' \<in> set v)) ''field-level CLI overrides and mode flags''
               ''are prohibited; select one complete TOML profile'') (\<lambda>_.
      if length (path_components v) > 1 \<or> path_has_extension v then Inr v
      else
        rbind (require (list_all (\<lambda>ch. is_ascii_alphanumeric ch \<or> ch \<in> {CHR ''_'', CHR ''-''}) v)
                 ''profile names'' ''may contain only ASCII letters, digits, _ or -'') (\<lambda>_.
        Inr (profile_path v)))))"

definition selected_config_path :: "string option \<Rightarrow> string res" where
  "selected_config_path selector =
     (case selector of Some v \<Rightarrow> resolve_profile_selector v | None \<Rightarrow> Inr config_path)"

definition selected_config_path_from_args :: "string list \<Rightarrow> string res" where
  "selected_config_path_from_args args =
     (case args of
        [] \<Rightarrow> selected_config_path None
      | [selector] \<Rightarrow> selected_config_path (Some selector)
      | _ \<Rightarrow> Inl (Fail (Bad ''runtime config'' ''accepts at most one complete profile selector'')))"

definition readable_config_path :: "config_host \<Rightarrow> string \<Rightarrow> string" where
  "readable_config_path H path =
     (if path_is_absolute path \<or> ch_exists H path then path
      else
        let workspace_path = ch_manifest_dir H @ ''/../../'' @ path in
        if ch_is_file H workspace_path then workspace_path else path)"

section \<open>Placeholders\<close>

definition contains_placeholder :: "string \<Rightarrow> bool" where
  "contains_placeholder v = contains_str v ''${''"

definition exact_placeholder_name :: "string \<Rightarrow> string option" where
  "exact_placeholder_name v =
     Option.bind (strip_prefix ''${'' v) (\<lambda>rest.
     if rest \<noteq> [] \<and> last rest = CHR ''}'' \<and> butlast rest \<noteq> [] then Some (butlast rest) else None)"

definition reject_placeholder :: "string \<Rightarrow> string \<Rightarrow> unit res" where
  "reject_placeholder context v =
     require (\<not> contains_placeholder v) context ''must not contain environment placeholders''"

definition reject_optional_placeholder :: "string \<Rightarrow> string option \<Rightarrow> unit res" where
  "reject_optional_placeholder context v =
     (case v of None \<Rightarrow> Inr () | Some v \<Rightarrow> reject_placeholder context v)"

definition reject_okx_placeholders :: "OkxConfig \<Rightarrow> unit res" where
  "reject_okx_placeholders okx =
     rbind (reject_placeholder ''okx.base_url'' (ok_base_url okx)) (\<lambda>_.
     rbind (reject_optional_placeholder ''okx.base_url_ws_public'' (ok_base_url_ws_public okx)) (\<lambda>_.
     rbind (reject_optional_placeholder ''okx.base_url_ws_private'' (ok_base_url_ws_private okx)) (\<lambda>_.
     rbind (reject_optional_placeholder ''okx.base_url_ws_business'' (ok_base_url_ws_business okx)) (\<lambda>_.
     rbind (reject_optional_placeholder ''okx.proxy_url'' (ok_proxy_url okx)) (\<lambda>_.
     reject_placeholder ''okx.account_id'' (ok_account_id okx))))))"

definition reject_instrument_placeholders :: "InstrumentConfig \<Rightarrow> unit res" where
  "reject_instrument_placeholders i =
     rbind (reject_placeholder ''instrument_id'' (ic_instrument_id i)) (\<lambda>_.
     rbind (reject_placeholder ''base_currency'' (ic_base_currency i)) (\<lambda>_.
     reject_placeholder ''quote_currency'' (ic_quote_currency i)))"

definition reject_instance_placeholders :: "StrategyInstanceConfig \<Rightarrow> unit res" where
  "reject_instance_placeholders s =
     rbind (reject_placeholder ''id'' (si_id s)) (\<lambda>_.
     rbind (reject_placeholder ''instrument'' (rq_instrument (si_trading_instrument s))) (\<lambda>_.
     rbind (reject_placeholder ''bar'' (si_bar s)) (\<lambda>_.
     try_each (reject_placeholder ''max_quote_notional_by_instrument'')
       (map fst (sc_max_quote_notional_by_instrument (si_params s))))))"

definition reject_non_secret_placeholders :: "BotConfig \<Rightarrow> unit res" where
  "reject_non_secret_placeholders c =
     rbind (reject_placeholder ''product.name'' (bc_product_name c)) (\<lambda>_.
     rbind (reject_placeholder ''runtime.trader_id'' (rc_trader_id (bc_runtime c))) (\<lambda>_.
     rbind (case bc_okx c of None \<Rightarrow> Inr () | Some okx \<Rightarrow> reject_okx_placeholders okx) (\<lambda>_.
     rbind (try_each reject_instrument_placeholders (bc_instruments c)) (\<lambda>_.
     try_each reject_instance_placeholders (bc_instances c)))))"

section \<open>Credentials\<close>

definition OKX_SECRET_ENV_NAMES :: "string list" where
  "OKX_SECRET_ENV_NAMES = [''OKX_API_KEY'', ''OKX_API_SECRET'', ''OKX_API_PASSPHRASE'']"

definition newline :: "char \<Rightarrow> bool" where
  "newline ch = (byte ch = 10 \<or> byte ch = 13)"

definition trim_end_newlines :: "string \<Rightarrow> string" where
  "trim_end_newlines v = rev (dropWhile newline (rev v))"

definition validate_resolved_secret_value :: "string \<Rightarrow> string \<Rightarrow> unit res" where
  "validate_resolved_secret_value field v =
     rbind (require (v = trim v) field ''resolved secret must not contain leading or trailing whitespace'') (\<lambda>_.
     rbind (require (\<not> list_ex newline v) field ''resolved secret must be a single raw value'') (\<lambda>_.
     require (\<not> list_ex (\<lambda>name. starts_with (name @ ''='') (trim_start v) \<or>
         starts_with (''export '' @ name @ ''='') (trim_start v)) OKX_SECRET_ENV_NAMES)
       field ''resolved secret must contain only the raw secret value, not an environment assignment''))"

definition read_secret_file :: "config_host \<Rightarrow> string \<Rightarrow> string \<Rightarrow> string res" where
  "read_secret_file H field path =
     rbind (ok_or (Fail (Bad field ''failed reading secret file'')) (ch_read_to_string H path)) (\<lambda>text.
     let resolved = trim_end_newlines text in
     rbind (require (\<not> blank resolved) field ''secret file must not be empty'') (\<lambda>_.
     rbind (validate_resolved_secret_value field resolved) (\<lambda>_. Inr resolved)))"

definition resolve_direct_secret_value :: "config_host \<Rightarrow> string \<Rightarrow> string \<Rightarrow> string res" where
  "resolve_direct_secret_value H field v =
     (if path_is_absolute v \<and> ch_is_file H v then read_secret_file H field v
      else if starts_with ''/run/secrets/'' v then Inl (Fail (Bad field ''failed reading Docker secret file''))
      else
        rbind (require (\<not> blank v) field ''resolved secret must not be empty'') (\<lambda>_.
        rbind (validate_resolved_secret_value field v) (\<lambda>_. Inr v)))"

definition resolve_secret_value :: "config_host \<Rightarrow> (string \<Rightarrow> string option) \<Rightarrow> string \<Rightarrow> string \<Rightarrow> string res" where
  "resolve_secret_value H resolver field allowed_name =
     (case resolver allowed_name of
        Some resolved \<Rightarrow>
          rbind (require (\<not> blank resolved) field ''environment variable must not be empty'') (\<lambda>_.
          resolve_direct_secret_value H field resolved)
      | None \<Rightarrow>
          rbind (ok_or (Fail (Bad field ''placeholder requires an environment variable''))
                   (resolver (allowed_name @ ''_FILE''))) (\<lambda>path.
          rbind (require (\<not> blank path) field ''environment variable must not be empty'') (\<lambda>_.
          read_secret_file H field path)))"

definition resolve_okx_secret_field ::
    "config_host \<Rightarrow> (string \<Rightarrow> string option) \<Rightarrow> string \<Rightarrow> string \<Rightarrow> string \<Rightarrow> string res" where
  "resolve_okx_secret_field H resolver field v allowed_name =
     (if v = ''${'' @ allowed_name @ ''}'' then
        rbind (resolve_secret_value H resolver field allowed_name) (\<lambda>resolved.
        rbind (require (\<not> blank resolved) field ''resolved secret must not be empty'') (\<lambda>_.
        Inr resolved))
      else if exact_placeholder_name v \<noteq> None then Inl (Fail (Bad field ''uses unknown placeholder''))
      else if contains_placeholder v then Inl (Fail (Bad field ''placeholder syntax must be exact''))
      else Inr v)"

definition resolve_okx_secret_placeholders ::
    "config_host \<Rightarrow> (string \<Rightarrow> string option) \<Rightarrow> BotConfig \<Rightarrow> BotConfig res" where
  "resolve_okx_secret_placeholders H resolver c =
     (case bc_okx c of
        None \<Rightarrow> Inr c
      | Some okx \<Rightarrow>
          rbind (resolve_okx_secret_field H resolver ''okx.api_key'' (ok_api_key okx) ''OKX_API_KEY'') (\<lambda>key.
          rbind (resolve_okx_secret_field H resolver ''okx.api_secret'' (ok_api_secret okx) ''OKX_API_SECRET'') (\<lambda>secret.
          rbind (resolve_okx_secret_field H resolver ''okx.api_passphrase'' (ok_api_passphrase okx)
                   ''OKX_API_PASSPHRASE'') (\<lambda>passphrase.
          Inr (c\<lparr> bc_okx := Some (okx\<lparr> ok_api_key := key, ok_api_secret := secret,
                   ok_api_passphrase := passphrase \<rparr>) \<rparr>)))))"

section \<open>Loading\<close>

definition finalize_config_with_secret_resolver ::
    "config_host \<Rightarrow> url_parser \<Rightarrow> (string \<Rightarrow> string option) \<Rightarrow> BotConfig \<Rightarrow> BotConfig res" where
  "finalize_config_with_secret_resolver H P resolver c =
     rbind (resolve_okx_secret_placeholders H resolver c) (\<lambda>c.
     rbind (reject_non_secret_placeholders c) (\<lambda>_.
     rbind (validate P c) (\<lambda>_.
     Inr c)))"

definition load_config_from_str_with_secret_resolver ::
    "config_host \<Rightarrow> url_parser \<Rightarrow> (string \<Rightarrow> string option) \<Rightarrow> string \<Rightarrow> BotConfig res" where
  "load_config_from_str_with_secret_resolver H P resolver contents =
     rbind (ok_or (Fail (Bad ''TOML profile'' ''failed parsing'')) (ch_parse_toml H contents)) (\<lambda>c.
     finalize_config_with_secret_resolver H P resolver c)"

definition load_config_from_str :: "config_host \<Rightarrow> url_parser \<Rightarrow> string \<Rightarrow> BotConfig res" where
  "load_config_from_str H P contents = load_config_from_str_with_secret_resolver H P (ch_env H) contents"

definition load_config_path :: "config_host \<Rightarrow> url_parser \<Rightarrow> string \<Rightarrow> BotConfig res" where
  "load_config_path H P path =
     rbind (ok_or (Fail (Bad ''config file'' ''failed reading''))
              (ch_read_to_string H (readable_config_path H path))) (\<lambda>contents.
     load_config_from_str H P contents)"

definition load_config_path_with_secret_resolver ::
    "config_host \<Rightarrow> url_parser \<Rightarrow> (string \<Rightarrow> string option) \<Rightarrow> string \<Rightarrow> BotConfig res" where
  "load_config_path_with_secret_resolver H P resolver path =
     rbind (ok_or (Fail (Bad ''config file'' ''failed reading''))
              (ch_read_to_string H (readable_config_path H path))) (\<lambda>contents.
     load_config_from_str_with_secret_resolver H P resolver contents)"

definition load_selected_config :: "config_host \<Rightarrow> url_parser \<Rightarrow> string list \<Rightarrow> (string \<times> BotConfig) res" where
  "load_selected_config H P args =
     rbind (selected_config_path_from_args args) (\<lambda>path.
     rbind (load_config_path H P path) (\<lambda>c.
     Inr (path, c)))"

section \<open>What a loaded configuration is\<close>

text \<open>The texts of a configuration outside its credentials, and a value that is a secret by itself.\<close>

definition okx_texts :: "OkxConfig \<Rightarrow> string list" where
  "okx_texts okx =
     [ok_base_url okx, ok_account_id okx] @
     List.map_filter id [ok_base_url_ws_public okx, ok_base_url_ws_private okx, ok_base_url_ws_business okx,
       ok_proxy_url okx]"

definition config_texts :: "BotConfig \<Rightarrow> string set" where
  "config_texts c =
     {bc_product_name c, rc_trader_id (bc_runtime c)} \<union>
     (case bc_okx c of None \<Rightarrow> {} | Some okx \<Rightarrow> set (okx_texts okx)) \<union>
     (\<Union>i\<in>set (bc_instruments c). {ic_instrument_id i, ic_base_currency i, ic_quote_currency i}) \<union>
     (\<Union>s\<in>set (bc_instances c). {si_id s, rq_instrument (si_trading_instrument s), si_bar s} \<union>
        fst ` set (sc_max_quote_notional_by_instrument (si_params s)))"

definition raw_secret :: "string \<Rightarrow> bool" where
  "raw_secret v \<longleftrightarrow> \<not> blank v \<and> trim v = v \<and> \<not> list_ex newline v \<and>
     \<not> (\<exists>name\<in>set OKX_SECRET_ENV_NAMES. starts_with (name @ ''='') v \<or> starts_with (''export '' @ name @ ''='') v)"

text \<open>
  Where a credential comes from: written in the profile without a placeholder, or exactly the placeholder of its
  own variable, whose value is the secret or names the file of the secret.
\<close>

definition secret_of_file :: "config_host \<Rightarrow> string \<Rightarrow> string \<Rightarrow> bool" where
  "secret_of_file H path v \<longleftrightarrow> map_option trim_end_newlines (ch_read_to_string H path) = Some v"

definition secret_of_host :: "config_host \<Rightarrow> (string \<Rightarrow> string option) \<Rightarrow> string \<Rightarrow> string \<Rightarrow> bool" where
  "secret_of_host H resolver name v \<longleftrightarrow>
     (case resolver name of
        Some x \<Rightarrow>
          if path_is_absolute x \<and> ch_is_file H x then secret_of_file H x v
          else v = x \<and> \<not> starts_with ''/run/secrets/'' x
      | None \<Rightarrow> (case resolver (name @ ''_FILE'') of None \<Rightarrow> False | Some path \<Rightarrow> secret_of_file H path v))"

definition credential_ok ::
    "config_host \<Rightarrow> (string \<Rightarrow> string option) \<Rightarrow> string \<Rightarrow> string \<Rightarrow> string \<Rightarrow> bool" where
  "credential_ok H resolver name written v \<longleftrightarrow>
     (if written = ''${'' @ name @ ''}'' then raw_secret v \<and> secret_of_host H resolver name v
      else v = written \<and> \<not> contains_placeholder v)"

definition resolved_from :: "config_host \<Rightarrow> (string \<Rightarrow> string option) \<Rightarrow> BotConfig \<Rightarrow> BotConfig \<Rightarrow> bool" where
  "resolved_from H resolver w c \<longleftrightarrow>
     (case (bc_okx w, bc_okx c) of
        (Some x, Some y) \<Rightarrow>
          c = w\<lparr> bc_okx := Some y \<rparr> \<and>
          y = x\<lparr> ok_api_key := ok_api_key y, ok_api_secret := ok_api_secret y,
                ok_api_passphrase := ok_api_passphrase y \<rparr> \<and>
          credential_ok H resolver ''OKX_API_KEY'' (ok_api_key x) (ok_api_key y) \<and>
          credential_ok H resolver ''OKX_API_SECRET'' (ok_api_secret x) (ok_api_secret y) \<and>
          credential_ok H resolver ''OKX_API_PASSPHRASE'' (ok_api_passphrase x) (ok_api_passphrase y)
      | _ \<Rightarrow> False)"

section \<open>Lemmas\<close>

lemma trim_start_cases: "trim_start s = s \<or> length (trim_start s) < length s"
proof (induction s rule: trim_start.induct)
  case (1 s)
  show ?case
  proof (cases "strip_any whitespace_encodings s")
    case None
    then show ?thesis by (simp add: trim_start.simps [of s])
  next
    case (Some r)
    with 1 [OF Some] strip_any_shorter [OF Some whitespace_encodings_nonempty] show ?thesis
      by (auto simp: trim_start.simps [of s])
  qed
qed

lemma trim_end_rev_length: "length (trim_end_rev s) \<le> length s"
proof (induction s rule: trim_end_rev.induct)
  case (1 s)
  show ?case
  proof (cases "strip_any (map rev whitespace_encodings) s")
    case None
    then show ?thesis by (simp add: trim_end_rev.simps [of s])
  next
    case (Some r)
    with 1 [OF Some] strip_any_shorter [OF Some whitespace_rev_nonempty] show ?thesis
      by (simp add: trim_end_rev.simps [of s])
  qed
qed

lemma trim_start_trimmed: "trim s = s \<Longrightarrow> trim_start s = s"
proof -
  assume "trim s = s"
  then have "length s \<le> length (trim_start s)"
    using trim_end_rev_length [of "rev (trim_start s)"] by (metis length_rev trim_def)
  then show ?thesis using trim_start_cases [of s] by auto
qed

lemma raw_secretI:
  "validate_resolved_secret_value field v = Inr u \<Longrightarrow> \<not> blank v \<Longrightarrow> raw_secret v"
  by (auto simp: validate_resolved_secret_value_def rbind_eq_Inr require_eq_Inr raw_secret_def
    trim_start_trimmed [OF sym] list_ex_iff)

lemma read_secret_file_Inr:
  "read_secret_file H field path = Inr v \<Longrightarrow> raw_secret v \<and> secret_of_file H path v"
  by (auto simp: read_secret_file_def rbind_eq_Inr require_eq_Inr ok_or_eq_Inr Let_def secret_of_file_def
    intro: raw_secretI)

lemma resolve_secret_value_Inr:
  assumes "resolve_secret_value H resolver field name = Inr v"
  shows "raw_secret v \<and> secret_of_host H resolver name v"
proof (cases "resolver name")
  case None
  with assms show ?thesis
    by (auto simp: resolve_secret_value_def secret_of_host_def rbind_eq_Inr ok_or_eq_Inr require_eq_Inr
      dest: read_secret_file_Inr)
next
  case (Some x)
  with assms show ?thesis
    by (auto simp: resolve_secret_value_def secret_of_host_def resolve_direct_secret_value_def rbind_eq_Inr
      require_eq_Inr dest: read_secret_file_Inr intro: raw_secretI split: if_splits)
qed

lemma resolve_okx_secret_field_Inr:
  "resolve_okx_secret_field H resolver field w name = Inr v \<Longrightarrow> credential_ok H resolver name w v"
  by (auto simp: resolve_okx_secret_field_def credential_ok_def rbind_eq_Inr require_eq_Inr
    dest: resolve_secret_value_Inr split: if_splits)

lemma resolve_okx_secret_placeholders_Inr:
  assumes "resolve_okx_secret_placeholders H resolver w = Inr c" and "bc_okx c \<noteq> None"
  shows "resolved_from H resolver w c"
  using assms unfolding resolve_okx_secret_placeholders_def resolved_from_def
  by (auto simp: rbind_eq_Inr split: option.splits dest!: resolve_okx_secret_field_Inr)

lemma reject_placeholder_Inr: "reject_placeholder context v = Inr u \<longleftrightarrow> \<not> contains_placeholder v"
  by (simp add: reject_placeholder_def require_eq_Inr)

lemma reject_optional_placeholder_Inr:
  "reject_optional_placeholder context v = Inr u \<longleftrightarrow> (\<forall>x\<in>set_option v. \<not> contains_placeholder x)"
  by (cases v) (simp_all add: reject_optional_placeholder_def reject_placeholder_Inr)

lemma reject_okx_placeholders_Inr:
  "reject_okx_placeholders okx = Inr u \<Longrightarrow> \<forall>x\<in>set (okx_texts okx). \<not> contains_placeholder x"
  by (auto simp: reject_okx_placeholders_def rbind_eq_Inr reject_placeholder_Inr reject_optional_placeholder_Inr
    okx_texts_def List.map_filter_def split: if_splits)

lemma reject_non_secret_placeholders_Inr:
  assumes "reject_non_secret_placeholders c = Inr u"
  shows "\<forall>x\<in>config_texts c. \<not> contains_placeholder x"
  using assms
  by (auto simp: reject_non_secret_placeholders_def rbind_eq_Inr reject_placeholder_Inr config_texts_def try_each_Inr
    reject_instrument_placeholders_def reject_instance_placeholders_def split: option.splits
    dest!: reject_okx_placeholders_Inr)

section \<open>The property\<close>

text \<open>
  C30: what a profile that loads has become.  It is the file of the selected profile with nothing but its three
  credentials replaced; each of them is either written there without a placeholder or is the placeholder of
  exactly its own variable, and then it is the raw secret (no surrounding white space, no newline, no assignment)
  that the variable holds or that its file holds; no other text of it contains a placeholder; and it is valid.
\<close>
theorem loaded_configuration:
  assumes "load_selected_config H P args = Inr (path, c)"
  shows "selected_config_path_from_args args = Inr path \<and>
    (\<exists>contents w. ch_read_to_string H (readable_config_path H path) = Some contents \<and> ch_parse_toml H contents = Some w \<and>
       resolved_from H (ch_env H) w c) \<and>
    (\<forall>x\<in>config_texts c. \<not> contains_placeholder x) \<and> validate P c = Inr ()"
proof -
  from assms obtain contents w where path: "selected_config_path_from_args args = Inr path"
    and read: "ch_read_to_string H (readable_config_path H path) = Some contents" "ch_parse_toml H contents = Some w"
    and c: "resolve_okx_secret_placeholders H (ch_env H) w = Inr c" "reject_non_secret_placeholders c = Inr ()"
      "validate P c = Inr ()"
    by (auto simp: load_selected_config_def load_config_path_def load_config_from_str_def ok_or_eq_Inr
      load_config_from_str_with_secret_resolver_def finalize_config_with_secret_resolver_def rbind_eq_Inr)
  from c(3) have "bc_okx c \<noteq> None" by (auto simp: validate_def rbind_eq_Inr ok_or_eq_Inr)
  with path read c show ?thesis
    using resolve_okx_secret_placeholders_Inr reject_non_secret_placeholders_Inr by blast
qed

text \<open>The demo profile with its key in the environment and its secret in a file.\<close>

definition placeholder_profile :: BotConfig where
  "placeholder_profile =
     example_config\<lparr> bc_okx := Some (example_okx\<lparr> ok_api_key := ''${OKX_API_KEY}'', ok_api_secret := ''${OKX_API_SECRET}'' \<rparr>) \<rparr>"

definition example_host :: config_host where
  "example_host =
     \<lparr> ch_env = [''OKX_API_KEY'' \<mapsto> ''k'', ''OKX_API_SECRET_FILE'' \<mapsto> ''/run/secrets/okx''],
       ch_read_to_string = [''config/example.toml'' \<mapsto> ''profile'', ''/run/secrets/okx'' \<mapsto> ''s'' @ [CHR 0x0A]],
       ch_exists = (\<lambda>p. p = ''config/example.toml''), ch_is_file = (\<lambda>p. p = ''/run/secrets/okx''),
       ch_manifest_dir = ''/src'', ch_parse_toml = [''profile'' \<mapsto> placeholder_profile] \<rparr>"

lemma example_secret_values:
  "validate_resolved_secret_value field ''k'' = Inr ()" "validate_resolved_secret_value field ''s'' = Inr ()"
  by (simp_all add: validate_resolved_secret_value_def example_trims trim_start_trimmed OKX_SECRET_ENV_NAMES_def
    newline_def byte_def starts_with_def)

lemma example_secret_path: "trim ''/run/secrets/okx'' = ''/run/secrets/okx''"
  by (rule trim_graphic) (simp_all add: byte_def)

lemma example_credentials:
  "resolve_okx_secret_field example_host (ch_env example_host) field ''${OKX_API_KEY}'' ''OKX_API_KEY'' = Inr ''k''"
  "resolve_okx_secret_field example_host (ch_env example_host) field ''${OKX_API_SECRET}'' ''OKX_API_SECRET'' = Inr ''s''"
  "resolve_okx_secret_field example_host (ch_env example_host) field ''p'' ''OKX_API_PASSPHRASE'' = Inr ''p''"
  by (simp_all add: resolve_okx_secret_field_def resolve_secret_value_def resolve_direct_secret_value_def
    read_secret_file_def example_host_def path_is_absolute_def starts_with_def blank_def example_trims
    example_secret_values example_secret_path trim_end_newlines_def newline_def byte_def exact_placeholder_name_def contains_placeholder_def)

lemma example_placeholders: "reject_non_secret_placeholders example_config = Inr ()"
  by (simp add: reject_non_secret_placeholders_def example_config_def example_okx_def reject_okx_placeholders_def
    reject_optional_placeholder_def reject_placeholder_def reject_instrument_placeholders_def
    reject_instance_placeholders_def example_instance_def contains_placeholder_def starts_with_def
    default_strategy_config_def)

lemma example_loads: "load_selected_config example_host example_urls [] = Inr (''config/example.toml'', example_config)"
proof -
  have "resolve_okx_secret_placeholders example_host (ch_env example_host) placeholder_profile = Inr example_config"
    by (simp add: resolve_okx_secret_placeholders_def placeholder_profile_def example_okx_def example_credentials
      example_config_def)
  moreover have "readable_config_path example_host ''config/example.toml'' = ''config/example.toml''"
    by (simp add: readable_config_path_def example_host_def)
  moreover have "ch_read_to_string example_host ''config/example.toml'' = Some ''profile''"
    "ch_parse_toml example_host ''profile'' = Some placeholder_profile" by (simp_all add: example_host_def)
  ultimately show ?thesis
    by (simp add: load_selected_config_def selected_config_path_from_args_def selected_config_path_def config_path_def
      profile_path_def load_config_path_def load_config_from_str_def load_config_from_str_with_secret_resolver_def
      finalize_config_with_secret_resolver_def example_placeholders example_valid)
qed

theorem loaded_configuration_witness:
  "resolved_from example_host (ch_env example_host) placeholder_profile example_config \<and>
   config_texts example_config \<inter> {x. contains_placeholder x} = {}"
proof -
  have "readable_config_path example_host ''config/example.toml'' = ''config/example.toml''"
    by (simp add: readable_config_path_def example_host_def)
  moreover have "ch_read_to_string example_host ''config/example.toml'' = Some ''profile''"
    "ch_parse_toml example_host ''profile'' = Some placeholder_profile" by (simp_all add: example_host_def)
  ultimately show ?thesis using loaded_configuration [OF example_loads] by auto
qed

end
