(* ===== verification/Capability.thy ===== *)
theory Capability
  imports Trading_Instrument
begin

text \<open>
  \<open>okx/capability.rs\<close>: the requested capability, the diagnostic account level, and one generation of
  capability evidence that agrees.  An \<open>Instant\<close> is a number of nanoseconds; the reading of the clock that an
  operation makes is its argument \<open>now\<close>.
\<close>

section \<open>The request\<close>

text \<open>\<open>RequestedCapability\<close> is the requested trading instrument it wraps.\<close>

type_synonym RequestedCapability = RequestedTradingInstrument

definition requested_capability :: "RequestedTradingInstrument \<Rightarrow> RequestedCapability res" where
  "requested_capability requested =
     rbind (validate_requested_trading_instrument requested) (\<lambda>_. Inr requested)"

section \<open>The account level\<close>

record AccountLevelDiagnosticSnapshot =
  al_value :: AccountLevelDiagnostic
  al_observed_at :: nat

definition account_level_observe :: "nat \<Rightarrow> OkxAccountConfig \<Rightarrow> AccountLevelDiagnosticSnapshot res" where
  "account_level_observe now account =
     rbind (account_level_parse (cf_account_level account)) (\<lambda>v.
     Inr \<lparr> al_value = v, al_observed_at = now \<rparr>)"

definition account_level_ensure_fresh :: "nat \<Rightarrow> nat \<Rightarrow> AccountLevelDiagnosticSnapshot \<Rightarrow> unit res" where
  "account_level_ensure_fresh now maximum_age s =
     require (now - al_observed_at s \<le> maximum_age) ''OKX account-level diagnostic snapshot''
       ''became stale before capability validation completed''"

section \<open>A generation of evidence\<close>

text \<open>\<open>ValidatedProductContext\<close> has the single constructor \<open>CashSpot\<close>.\<close>

record ValidatedCapabilityGeneration =
  vg_requested :: RequestedCapability
  vg_instrument :: ValidatedTradingInstrument
  vg_account_level :: AccountLevelDiagnosticSnapshot
  vg_fee :: OkxTradeFeeRate

definition generation_cash_spot ::
    "decimal_ops \<Rightarrow> nat \<Rightarrow> RequestedCapability \<Rightarrow> ValidatedTradingInstrument \<Rightarrow> AccountLevelDiagnosticSnapshot \<Rightarrow>
      OkxTradeFeeRate \<Rightarrow> nat \<Rightarrow> ValidatedCapabilityGeneration res" where
  "generation_cash_spot D now requested instrument account_level fee maximum_age =
     rbind (account_level_ensure_fresh now maximum_age account_level) (\<lambda>_.
     rbind (require (rq_instrument requested = vi_inst_id instrument \<and>
              inst_type_as_okx (rq_inst_type requested) = ''SPOT'' \<and>
              trade_mode_as_okx (rq_td_mode requested) = ''cash'') ''validated cash-SPOT context''
              ''contradicts the requested capability identity'') (\<lambda>_.
     rbind (fee_ensure_spot fee (vi_inst_id instrument)) (\<lambda>_.
     rbind (fee_group_id (vi_instrument instrument)) (\<lambda>group.
     rbind (require (tf_group_id fee = group) (vi_inst_id instrument)
              ''fee group contradicts validated instrument groupId'') (\<lambda>_.
     rbind (normalized_maker_cost_rate D fee) (\<lambda>_.
     rbind (normalized_taker_cost_rate D fee) (\<lambda>_.
     Inr \<lparr> vg_requested = requested, vg_instrument = instrument, vg_account_level = account_level,
           vg_fee = fee \<rparr>)))))))"

lemma generation_cash_spot_Inr:
  assumes "generation_cash_spot D now requested instrument account_level fee maximum_age = Inr g"
  shows "vg_requested g = requested \<and> vg_instrument g = instrument \<and> vg_account_level g = account_level \<and>
    vg_fee g = fee \<and> vi_inst_id instrument = rq_instrument requested \<and>
    now - al_observed_at account_level \<le> maximum_age \<and>
    fee_group_id (vi_instrument instrument) = Inr (tf_group_id fee)"
  using assms by (auto simp: generation_cash_spot_def account_level_ensure_fresh_def res_simps)

end
