(* ===== verification/Hint_Cache.thy ===== *)
theory Hint_Cache
  imports Prelude "HOL-Library.AList"
begin

text \<open>
  What the hint caches of \<open>okx/websocket.rs\<close> and \<open>okx/websocket/private.rs\<close> share: stale hints are ignored
  and the oldest are evicted.

  A hash map is an association list with distinct keys.  Which of several equally old hints an eviction
  takes depends on the iteration order of the hash map: \<open>pick\<close> chooses among their keys.  \<open>hint_ops\<close> gives
  the two times of a hint: the one of the exchange, if it sent one, and the one it was received at.
\<close>

record 'v hint_ops =
  ho_source_ts_ms :: "'v \<Rightarrow> int option"
  ho_received_at :: "'v \<Rightarrow> nat"

type_synonym 'k picker = "'k list \<Rightarrow> nat"

definition should_ignore_hint :: "int option \<Rightarrow> int option \<Rightarrow> bool" where
  "should_ignore_hint current incoming =
     (case incoming of
        None \<Rightarrow> True
      | Some i \<Rightarrow> (case current of None \<Rightarrow> False | Some c \<Rightarrow> i < c))"

section \<open>Eviction\<close>

definition oldest_keys :: "('v \<Rightarrow> nat) \<Rightarrow> ('k \<times> 'v) list \<Rightarrow> 'k list" where
  "oldest_keys received hs =
     map fst (filter (\<lambda>(_, v). \<forall>(_, w)\<in>set hs. received v \<le> received w) hs)"

text \<open>\<open>iter().min_by_key(received_at)\<close>.\<close>

definition oldest_key :: "'k picker \<Rightarrow> ('v \<Rightarrow> nat) \<Rightarrow> ('k \<times> 'v) list \<Rightarrow> 'k option" where
  "oldest_key pick received hs =
     (let ks = oldest_keys received hs in
      if ks = [] then None else Some (ks ! (pick ks mod length ks)))"

definition or_else :: "'a option \<Rightarrow> 'a option \<Rightarrow> 'a option" where
  "or_else x y = (case x of None \<Rightarrow> y | Some v \<Rightarrow> Some v)"

lemma oldest_keys_nonempty: "hs \<noteq> [] \<Longrightarrow> oldest_keys received hs \<noteq> []"
proof -
  assume "hs \<noteq> []"
  then obtain k v where "(k, v) \<in> set hs" "\<forall>e\<in>set hs. received v \<le> received (snd e)"
    using arg_min_if_finite [of "set hs" "\<lambda>e. received (snd e)"]
    by (metis List.finite_set linorder_not_less prod.collapse set_empty)
  then have "k \<in> set (oldest_keys received hs)" by (force simp: oldest_keys_def)
  then show ?thesis by auto
qed

lemma oldest_key_mem:
  assumes "oldest_key pick received hs = Some k"
  shows "\<exists>v. (k, v) \<in> set hs \<and> (\<forall>(_, w)\<in>set hs. received v \<le> received w)"
proof -
  from assms have "k \<in> set (oldest_keys received hs)"
    by (auto simp: oldest_key_def Let_def split: if_splits intro!: nth_mem)
  then show ?thesis by (auto simp: oldest_keys_def)
qed

lemma oldest_key_None: "oldest_key pick received hs = None \<longleftrightarrow> hs = []"
  using oldest_keys_nonempty [of hs received] by (auto simp: oldest_key_def Let_def oldest_keys_def)

lemma oldest_key_Nil [simp]: "oldest_key pick received [] = None"
  by (simp add: oldest_key_None)

definition eviction_key ::
    "'k picker \<Rightarrow> ('v \<Rightarrow> nat) \<Rightarrow> 'k set \<Rightarrow> ('k \<times> 'v) list \<Rightarrow> 'k option" where
  "eviction_key pick received protected hs =
     or_else (oldest_key pick received (filter (\<lambda>(k, _). k \<notin> protected) hs)) (oldest_key pick received hs)"

lemma eviction_key_mem:
  assumes "eviction_key pick received protected hs = Some k"
  shows "k \<in> fst ` set hs"
  using assms by (force simp: eviction_key_def or_else_def split: option.splits dest: oldest_key_mem)

lemma AList_delete_shorter: "k \<in> fst ` set hs \<Longrightarrow> length (AList.delete k hs) < length hs"
  by (induction hs) (auto simp: AList.delete_eq le_imp_less_Suc)

text \<open>\<open>while hints.len() > max_len\<close>; each turn removes a key.\<close>

function evict_oldest_except ::
    "'k picker \<Rightarrow> nat \<Rightarrow> ('v \<Rightarrow> nat) \<Rightarrow> 'k set \<Rightarrow> ('k \<times> 'v) list \<Rightarrow> ('k \<times> 'v) list" where
  "evict_oldest_except pick max_len received protected hs =
     (if length hs > max_len then
        (case eviction_key pick received protected hs of
           None \<Rightarrow> hs
         | Some k \<Rightarrow> evict_oldest_except pick max_len received protected (AList.delete k hs))
      else hs)"
  by pat_completeness auto

termination
  by (relation "measure (\<lambda>(_, _, _, _, hs). length hs)")
    (auto dest!: eviction_key_mem intro: AList_delete_shorter)

declare evict_oldest_except.simps [simp del]

text \<open>The version without protected keys.\<close>

definition evict_oldest ::
    "'k picker \<Rightarrow> nat \<Rightarrow> ('v \<Rightarrow> nat) \<Rightarrow> ('k \<times> 'v) list \<Rightarrow> ('k \<times> 'v) list" where
  "evict_oldest pick max_len received hs = evict_oldest_except pick max_len received {} hs"

section \<open>Insertion\<close>

text \<open>The guard and the insertion every keyed cache makes; the result says whether the hint was taken.\<close>

definition insert_hint ::
    "'k picker \<Rightarrow> 'v hint_ops \<Rightarrow> nat \<Rightarrow> 'k set \<Rightarrow> 'k \<Rightarrow> 'v \<Rightarrow> ('k \<times> 'v) list \<Rightarrow> bool \<times> ('k \<times> 'v) list" where
  "insert_hint pick ops max_len protected k h hs =
     (if should_ignore_hint (Option.bind (map_of hs k) (ho_source_ts_ms ops)) (ho_source_ts_ms ops h)
      then (False, hs)
      else (True, evict_oldest_except pick max_len (ho_received_at ops) protected (AList.update k h hs)))"

text \<open>\<open>received_at.elapsed() <= max_staleness\<close> at time \<open>now\<close>; \<open>elapsed\<close> saturates at zero.\<close>

definition fresh :: "nat \<Rightarrow> nat \<Rightarrow> nat \<Rightarrow> bool" where
  "fresh now max_staleness received_at = (now - received_at \<le> max_staleness)"

definition fresh_hint :: "'v hint_ops \<Rightarrow> nat \<Rightarrow> nat \<Rightarrow> ('k \<times> 'v) list \<Rightarrow> 'k \<Rightarrow> 'v option" where
  "fresh_hint ops now max_staleness hs k =
     (case map_of hs k of None \<Rightarrow> None
      | Some h \<Rightarrow> if fresh now max_staleness (ho_received_at ops h) then Some h else None)"

section \<open>Lemmas\<close>

lemma distinct_delete: "distinct (map fst hs) \<Longrightarrow> distinct (map fst (AList.delete k hs))"
  by (simp add: distinct_delete)

text \<open>An eviction removes whole entries, as many as needed, and never changes one.\<close>

lemma delete_length:
  assumes "distinct (map fst hs)" and "k \<in> fst ` set hs"
  shows "Suc (length (AList.delete k hs)) = length hs"
  using assms
proof (induction hs)
  case Nil
  then show ?case by simp
next
  case (Cons e hs)
  show ?case
  proof (cases "fst e = k")
    case True
    with Cons.prems have "k \<notin> fst ` set hs" by auto
    with True show ?thesis by (cases e) simp
  qed (use Cons in \<open>cases e; auto\<close>)
qed

lemma evict_rule:
  assumes "distinct (map fst hs)" and "P hs"
    and "\<And>hs k. distinct (map fst hs) \<Longrightarrow> P hs \<Longrightarrow> length hs > n \<Longrightarrow>
      eviction_key pick received protected hs = Some k \<Longrightarrow> P (AList.delete k hs)"
  shows "P (evict_oldest_except pick n received protected hs)"
  using assms
proof (induction "length hs" arbitrary: hs rule: less_induct)
  case less
  show ?case
  proof (cases "length hs > n \<and> eviction_key pick received protected hs \<noteq> None")
    case True
    then obtain k where k: "eviction_key pick received protected hs = Some k" by auto
    from less.hyps [OF AList_delete_shorter [OF eviction_key_mem [OF k]] distinct_delete [OF less.prems(1)]
        less.prems(3) [OF less.prems(1,2) _ k]] less.prems(3) True k
    show ?thesis by (simp add: evict_oldest_except.simps [of _ _ _ _ hs])
  qed (use less.prems(2) in \<open>auto simp: evict_oldest_except.simps [of _ _ _ _ hs] split: option.split\<close>)
qed

lemma eviction_key_None: "eviction_key pick received protected hs = None \<longleftrightarrow> hs = []"
  by (auto simp: eviction_key_def or_else_def oldest_key_None split: option.splits)

lemma evict_length:
  assumes "distinct (map fst hs)"
  shows "length (evict_oldest_except pick n received protected hs) = min (length hs) n"
  using assms
proof (induction "length hs" arbitrary: hs rule: less_induct)
  case less
  show ?case
  proof (cases "length hs > n")
    case True
    then obtain k where k: "eviction_key pick received protected hs = Some k"
      using eviction_key_None [of pick received protected hs] by (cases "eviction_key pick received protected hs") auto
    from delete_length [OF less.prems eviction_key_mem [OF k]]
      less.hyps [OF AList_delete_shorter [OF eviction_key_mem [OF k]] distinct_delete [OF less.prems]] True k
    show ?thesis by (simp add: evict_oldest_except.simps [of _ _ _ _ hs])
  qed (simp add: evict_oldest_except.simps [of _ _ _ _ hs])
qed

lemma evict_distinct:
  "distinct (map fst hs) \<Longrightarrow> distinct (map fst (evict_oldest_except pick n received protected hs))"
  by (rule evict_rule [where P = "\<lambda>hs. distinct (map fst hs)"]) (auto intro: distinct_delete)

lemma evict_subset:
  "distinct (map fst hs) \<Longrightarrow> set (evict_oldest_except pick n received protected hs) \<subseteq> set hs"
  by (rule evict_rule [where P = "\<lambda>gs. set gs \<subseteq> set hs"]) (auto simp: AList.delete_eq)

lemma evict_small: "length hs \<le> n \<Longrightarrow> evict_oldest_except pick n received protected hs = hs"
  by (simp add: evict_oldest_except.simps)

text \<open>
  What goes is older than what stays, among the keys that are not protected; a protected one goes only
  when nothing else is left.
\<close>

lemma evict_oldest_first:
  assumes "distinct (map fst hs)"
    and "(k, v) \<in> set hs - set (evict_oldest_except pick n received protected hs)"
    and "(k', v') \<in> set (evict_oldest_except pick n received protected hs)"
  shows "if k' \<in> protected then k \<notin> protected \<or> received v \<le> received v'
    else k \<notin> protected \<and> received v \<le> received v'"
proof -
  let ?P = "\<lambda>gs. set gs \<subseteq> set hs \<and> (\<forall>k v k' v'. (k, v) \<in> set hs - set gs \<longrightarrow> (k', v') \<in> set gs \<longrightarrow>
    (if k' \<in> protected then k \<notin> protected \<or> received v \<le> received v'
     else k \<notin> protected \<and> received v \<le> received v'))"
  have "?P (evict_oldest_except pick n received protected hs)"
  proof (rule evict_rule [OF assms(1)])
    fix gs k0
    assume gs: "distinct (map fst gs)" "?P gs" "eviction_key pick received protected gs = Some k0"
    have gone: "if k' \<in> protected then k0 \<notin> protected \<or> received v \<le> received v'
      else k0 \<notin> protected \<and> received v \<le> received v'"
      if "(k0, v) \<in> set gs" "(k', v') \<in> set gs" for v k' v'
    proof (cases "oldest_key pick received (filter (\<lambda>(k, _). k \<notin> protected) gs)")
      case None
      with gs(3) have "oldest_key pick received gs = Some k0"
        by (simp add: eviction_key_def or_else_def)
      from oldest_key_mem [OF this] obtain w where "(k0, w) \<in> set gs"
        "\<forall>(_, x)\<in>set gs. received w \<le> received x" by auto
      moreover from this(1) that(1) gs(1) have "w = v" by (metis map_of_is_SomeI option.inject)
      moreover from None have "\<forall>(k, _)\<in>set gs. k \<in> protected" by (auto simp: oldest_key_None filter_empty_conv)
      ultimately show ?thesis using that by fastforce
    next
      case (Some k1)
      with gs(3) have "k1 = k0" by (simp add: eviction_key_def or_else_def)
      with oldest_key_mem [OF Some] obtain w where "(k0, w) \<in> set gs" "k0 \<notin> protected"
        "\<forall>(k, x)\<in>set gs. k \<notin> protected \<longrightarrow> received w \<le> received x" by fastforce
      moreover from this(1) that(1) gs(1) have "w = v" by (metis map_of_is_SomeI option.inject)
      ultimately show ?thesis using that by fastforce
    qed
    have "if k' \<in> protected then k \<notin> protected \<or> received v \<le> received v'
      else k \<notin> protected \<and> received v \<le> received v'"
      if "(k, v) \<in> set hs" "(k, v) \<notin> set (AList.delete k0 gs)" "(k', v') \<in> set (AList.delete k0 gs)" for k v k' v'
    proof (cases "(k, v) \<in> set gs")
      case True
      with that(2) have "k = k0" by (simp add: AList.delete_eq)
      moreover from that(3) have "(k', v') \<in> set gs" by (simp add: AList.delete_eq)
      ultimately show ?thesis using gone [of v k' v'] True by (auto split: if_splits)
    next
      case False
      from that(3) have "(k', v') \<in> set gs" by (simp add: AList.delete_eq)
      with gs(2) that(1) False show ?thesis by blast
    qed
    moreover have "set (AList.delete k0 gs) \<subseteq> set hs" using gs(2) by (auto simp: AList.delete_eq)
    ultimately show "?P (AList.delete k0 gs)" by blast
  qed simp
  with assms(2,3) show ?thesis by blast
qed

section \<open>The contract of the keyed caches\<close>

definition hints_ok :: "nat \<Rightarrow> ('k \<Rightarrow> 'h \<Rightarrow> bool) \<Rightarrow> ('k \<times> 'h) list \<Rightarrow> bool" where
  "hints_ok cap good hs \<longleftrightarrow> distinct (map fst hs) \<and> length hs \<le> cap \<and> (\<forall>(k, h)\<in>set hs. good k h)"

lemma hints_ok_Nil [simp]: "hints_ok cap good []"
  by (simp add: hints_ok_def)

lemma distinct_update: "distinct (map fst hs) \<Longrightarrow> distinct (map fst (AList.update k h hs))"
  by (rule AList.distinct_update)

lemma set_update_subset: "set (AList.update k h hs) \<subseteq> insert (k, h) (set hs)"
  by (induction hs) auto

lemma insert_hint_ok:
  assumes "insert_hint pick ops cap protected k h hs = (taken, hs')" and "hints_ok cap good hs"
    and "ho_source_ts_ms ops h \<noteq> None \<Longrightarrow> good k h"
  shows "hints_ok cap good hs'"
proof (cases "should_ignore_hint (Option.bind (map_of hs k) (ho_source_ts_ms ops)) (ho_source_ts_ms ops h)")
  case True
  with assms(1,2) show ?thesis by (simp add: insert_hint_def)
next
  case False
  let ?hs = "AList.update k h hs"
  have d: "distinct (map fst ?hs)" using assms(2) by (auto simp: hints_ok_def intro: distinct_update)
  from False assms(3) have "good k h" by (auto simp: should_ignore_hint_def split: option.splits)
  with assms(2) have "\<forall>(k, h)\<in>set ?hs. good k h" using set_update_subset [of k h hs] by (auto simp: hints_ok_def)
  moreover from False assms(1) have "hs' = evict_oldest_except pick cap (ho_received_at ops) protected ?hs"
    by (simp add: insert_hint_def)
  ultimately show ?thesis
    using evict_distinct [OF d, of pick cap "ho_received_at ops" protected]
      evict_subset [OF d, of pick cap "ho_received_at ops" protected]
      evict_length [OF d, of pick cap "ho_received_at ops" protected]
    by (auto simp: hints_ok_def)
qed

text \<open>A protected key stays while the protected keys fit.\<close>

lemma evict_protected:
  assumes d: "distinct (map fst hs)" and "k \<in> protected" "k \<in> fst ` set hs"
    and "finite protected" "card protected \<le> n"
  shows "k \<in> fst ` set (evict_oldest_except pick n received protected hs)"
proof (rule ccontr)
  let ?hs = "evict_oldest_except pick n received protected hs"
  assume gone: "k \<notin> fst ` set ?hs"
  from assms(3) obtain v where v: "(k, v) \<in> set hs - set ?hs" using gone by force
  have "fst ` set ?hs \<subseteq> protected"
  proof
    fix k' assume "k' \<in> fst ` set ?hs"
    then obtain v' where "(k', v') \<in> set ?hs" by auto
    from evict_oldest_first [OF d v this] assms(2) show "k' \<in> protected" by (auto split: if_splits)
  qed
  with assms(2) have "insert k (fst ` set ?hs) \<subseteq> protected" by simp
  from card_mono [OF assms(4) this] gone have "card (fst ` set ?hs) < card protected" by simp
  moreover have "card (fst ` set ?hs) = length ?hs"
    using evict_distinct [OF d] distinct_card [of "map fst ?hs"] by (metis length_map list.set_map)
  moreover have "length ?hs = length hs \<Longrightarrow> ?hs = hs"
    using evict_length [OF d] by (auto intro!: evict_small)
  ultimately show False using assms(5) evict_length [OF d, of pick n received protected] v by (auto simp: min_def split: if_splits)
qed

definition keyed_entry :: "('h \<Rightarrow> bool) \<Rightarrow> ('h \<Rightarrow> 'k) \<Rightarrow> 'h hint_ops \<Rightarrow> 'k \<Rightarrow> 'h \<Rightarrow> bool" where
  "keyed_entry good key ops k h \<longleftrightarrow> good h \<and> k = key h \<and> ho_source_ts_ms ops h \<noteq> None"

definition latest_hint ::
    "('h \<Rightarrow> bool) \<Rightarrow> ('h \<Rightarrow> 'k) \<Rightarrow> ('h \<Rightarrow> int option) \<Rightarrow> 'h list \<Rightarrow> 'k \<Rightarrow> 'h \<Rightarrow> bool" where
  "latest_hint good key source hs k h \<longleftrightarrow>
     (\<exists>xs ys t. hs = xs @ h # ys \<and> good h \<and> key h = k \<and> source h = Some t \<and>
        (\<forall>x\<in>set xs. good x \<and> key x = k \<longrightarrow> (\<forall>u. source x = Some u \<longrightarrow> u \<le> t)) \<and>
        (\<forall>y\<in>set ys. good y \<and> key y = k \<longrightarrow> (\<forall>u. source y = Some u \<longrightarrow> u < t)))"

text \<open>The latest hint of a sequence when one more arrives.\<close>

lemma latest_hint_Nil [simp]: "\<not> latest_hint good key source [] k h"
  by (simp add: latest_hint_def)

lemma latest_hint_snoc:
  "latest_hint good key source (hs @ [n]) k h \<longleftrightarrow>
    (h = n \<and> good n \<and> key n = k \<and> (\<exists>t. source n = Some t \<and>
       (\<forall>x\<in>set hs. good x \<and> key x = k \<longrightarrow> (\<forall>u. source x = Some u \<longrightarrow> u \<le> t)))) \<or>
    (latest_hint good key source hs k h \<and>
       (good n \<and> key n = k \<longrightarrow> (\<forall>u. source n = Some u \<longrightarrow> u < the (source h))))"
    (is "?L \<longleftrightarrow> ?new \<or> ?old")
proof
  assume ?L
  then obtain xs ys t where w: "hs @ [n] = xs @ h # ys" "good h" "key h = k" "source h = Some t"
    "\<forall>x\<in>set xs. good x \<and> key x = k \<longrightarrow> (\<forall>u. source x = Some u \<longrightarrow> u \<le> t)"
    "\<forall>y\<in>set ys. good y \<and> key y = k \<longrightarrow> (\<forall>u. source y = Some u \<longrightarrow> u < t)"
    unfolding latest_hint_def by blast
  show "?new \<or> ?old"
  proof (cases ys rule: rev_cases)
    case Nil
    with w show ?thesis by auto
  next
    case (snoc zs m)
    with w(1) have eq: "hs = xs @ h # zs" "m = n" by auto
    with w snoc have ?old unfolding latest_hint_def
      by (intro conjI exI [of _ xs] exI [of _ zs] exI [of _ t]) auto
    then show ?thesis by simp
  qed
next
  assume "?new \<or> ?old"
  then show ?L
  proof
    assume ?new
    then show ?L unfolding latest_hint_def by (intro exI [of _ hs] exI [of _ "[]"]) auto
  next
    assume old: ?old
    then obtain xs ys t where w: "hs = xs @ h # ys" "good h" "key h = k" "source h = Some t"
      "\<forall>x\<in>set xs. good x \<and> key x = k \<longrightarrow> (\<forall>u. source x = Some u \<longrightarrow> u \<le> t)"
      "\<forall>y\<in>set ys. good y \<and> key y = k \<longrightarrow> (\<forall>u. source y = Some u \<longrightarrow> u < t)"
      unfolding latest_hint_def by blast
    with old show ?L unfolding latest_hint_def
      by (intro exI [of _ xs] exI [of _ "ys @ [n]"] exI [of _ t]) auto
  qed
qed

lemma latest_hint_dominates:
  assumes "latest_hint good key source hs k h" "x \<in> set hs" "good x" "key x = k" "source x = Some u"
  shows "u \<le> the (source h)"
  using assms unfolding latest_hint_def by fastforce

lemma latest_hint_source: "latest_hint good key source hs k h \<Longrightarrow> \<exists>t. source h = Some t"
  unfolding latest_hint_def by blast

lemma latest_hint_exists:
  assumes "x \<in> set hs" "good x" "key x = k" "source x = Some u"
  shows "\<exists>h. latest_hint good key source hs k h"
  using assms
proof (induction hs arbitrary: x u rule: rev_induct)
  case (snoc n hs)
  show ?case
  proof (cases "\<exists>h. latest_hint good key source hs k h")
    case True
    then obtain h where h: "latest_hint good key source hs k h" by blast
    show ?thesis
    proof (cases "good n \<and> key n = k \<and> (\<exists>u. source n = Some u \<and> \<not> u < the (source h))")
      case True
      with latest_hint_dominates [OF h] have "latest_hint good key source (hs @ [n]) k n"
        unfolding latest_hint_snoc by fastforce
      then show ?thesis by blast
    next
      case False
      with h show ?thesis unfolding latest_hint_snoc by blast
    qed
  next
    case False
    with snoc.IH have "\<not> (\<exists>x\<in>set hs. good x \<and> key x = k \<and> (\<exists>u. source x = Some u))" by blast
    with snoc.prems have "latest_hint good key source (hs @ [n]) k n"
      unfolding latest_hint_snoc by fastforce
    then show ?thesis by blast
  qed
qed simp

text \<open>
  A keyed cache: \<open>update\<close> refuses a hint that fails its check and otherwise inserts it.  What follows for
  its clients: the entries are checked, keyed by themselves and bounded, and while the keys fit they are
  the latest accepted hints by the time of the exchange.
\<close>

locale hint_store =
  fixes entries :: "'s \<Rightarrow> ('k \<times> 'h) list"
    and update :: "'h \<Rightarrow> 's \<Rightarrow> 'e \<times> 's"
    and key :: "'h \<Rightarrow> 'k"
    and good :: "'h \<Rightarrow> bool"
    and ops :: "'h hint_ops"
    and cap :: nat
    and pick :: "'k picker"
    and protected :: "'s \<Rightarrow> 'k set"
  assumes update_entries: "entries (snd (update h s)) =
      (if good h then snd (insert_hint pick ops cap (protected s) (key h) h (entries s)) else entries s)"
begin

lemma update_ok: "hints_ok cap (keyed_entry good key ops) (entries s) \<Longrightarrow> hints_ok cap (keyed_entry good key ops) (entries (snd (update h s)))"
  using insert_hint_ok [of pick ops cap "protected s" "key h" h "entries s" _ _ "keyed_entry good key ops"]
  by (auto simp: update_entries keyed_entry_def prod.expand) (metis prod.collapse)

lemma update_lookup:
  assumes ok: "hints_ok cap (keyed_entry good key ops) (entries s)"
    and room: "card (insert (key h) (fst ` set (entries s))) \<le> cap"
  shows "map_of (entries (snd (update h s))) =
    (if good h \<and> \<not> should_ignore_hint (Option.bind (map_of (entries s) (key h)) (ho_source_ts_ms ops)) (ho_source_ts_ms ops h)
     then (map_of (entries s))(key h \<mapsto> h) else map_of (entries s))"
proof -
  let ?hs = "AList.update (key h) h (entries s)"
  have "distinct (map fst ?hs)" using ok by (auto simp: hints_ok_def intro: distinct_update)
  then have "length ?hs = card (fst ` set ?hs)" by (metis distinct_card length_map list.set_map)
  with room have "length ?hs \<le> cap" by (simp add: AList.dom_update)
  then show ?thesis by (simp add: update_entries insert_hint_def evict_small AList.update_conv')
qed

lemma latest_step:
  assumes look: "map_of es' = (if good n \<and> \<not> should_ignore_hint (Option.bind (map_of es (key n)) (ho_source_ts_ms ops))
      (ho_source_ts_ms ops n) then (map_of es)(key n \<mapsto> n) else map_of es)"
    and "good n" and IH: "\<And>k h. map_of es k = Some h \<longleftrightarrow> latest_hint good key (ho_source_ts_ms ops) hs k h"
  shows "map_of es' k = Some h \<longleftrightarrow> latest_hint good key (ho_source_ts_ms ops) (hs @ [n]) k h"
proof (cases "key n = k")
  case False
  with look IH show ?thesis by (auto simp: latest_hint_snoc)
next
  case True
  let ?src = "ho_source_ts_ms ops"
  show ?thesis
  proof (cases "?src n")
    case None
    with look IH True show ?thesis by (auto simp: latest_hint_snoc should_ignore_hint_def)
  next
    case (Some t)
    show ?thesis
    proof (cases "map_of es k")
      case (Some c)
      with IH have c: "latest_hint good key ?src hs k c" by simp
      from latest_hint_source [OF c] obtain u where u: "?src c = Some u" by blast
      have top: "(\<forall>x\<in>set hs. good x \<and> key x = k \<longrightarrow> (\<forall>u. ?src x = Some u \<longrightarrow> u \<le> t)) \<longleftrightarrow> u \<le> t"
      proof
        assume "\<forall>x\<in>set hs. good x \<and> key x = k \<longrightarrow> (\<forall>u. ?src x = Some u \<longrightarrow> u \<le> t)"
        moreover from c have "c \<in> set hs" "good c" "key c = k" by (auto simp: latest_hint_def)
        ultimately show "u \<le> t" using u by blast
      next
        assume "u \<le> t"
        with latest_hint_dominates [OF c] u
        show "\<forall>x\<in>set hs. good x \<and> key x = k \<longrightarrow> (\<forall>u. ?src x = Some u \<longrightarrow> u \<le> t)" by fastforce
      qed
      show ?thesis
      proof (cases "t < u")
        case True
        with look \<open>key n = k\<close> Some \<open>?src n = Some t\<close> u have "map_of es' k = Some c"
          by (simp add: should_ignore_hint_def)
        with top True u \<open>?src n = Some t\<close> IH [of k h] Some assms(2) \<open>key n = k\<close> show ?thesis
          by (auto simp: latest_hint_snoc)
      next
        case False
        with look \<open>key n = k\<close> Some \<open>?src n = Some t\<close> u assms(2) have "map_of es' k = Some n"
          by (simp add: should_ignore_hint_def)
        moreover have "latest_hint good key ?src hs k h \<Longrightarrow> h = c" using IH [of k h] Some by simp
        ultimately show ?thesis using top False u \<open>?src n = Some t\<close> assms(2) \<open>key n = k\<close>
          by (auto simp: latest_hint_snoc)
      qed
    next
      case None
      with look True Some assms(2) have "map_of es' k = Some n" by (simp add: should_ignore_hint_def)
      moreover have none: "\<not> latest_hint good key ?src hs k x" for x using None IH [of k x] by simp
      then have "\<forall>x\<in>set hs. good x \<and> key x = k \<longrightarrow> (\<forall>u. ?src x = Some u \<longrightarrow> u \<le> t)"
        using latest_hint_exists [of _ hs good key k ?src] by metis
      then have "latest_hint good key ?src (hs @ [n]) k h \<longleftrightarrow> h = n"
        using Some assms(2) True none [of h] unfolding latest_hint_snoc by simp
      ultimately show ?thesis by auto
    qed
  qed
qed

lemma updates_latest:
  assumes "entries s = []" and "card (key ` {h \<in> set hs. good h}) \<le> cap"
  shows "hints_ok cap (keyed_entry good key ops) (entries (fold (\<lambda>h s. snd (update h s)) hs s)) \<and>
    fst ` set (entries (fold (\<lambda>h s. snd (update h s)) hs s)) \<subseteq> key ` {h \<in> set hs. good h} \<and>
    (\<forall>k h. map_of (entries (fold (\<lambda>h s. snd (update h s)) hs s)) k = Some h \<longleftrightarrow>
      latest_hint good key (ho_source_ts_ms ops) hs k h)"
  using assms(2)
proof (induction hs rule: rev_induct)
  case Nil
  then show ?case using assms(1) by simp
next
  case (snoc n hs)
  let ?s = "fold (\<lambda>h s. snd (update h s)) hs s"
  let ?K = "key ` {h \<in> set hs. good h}"
  have "?K \<subseteq> key ` {h \<in> set (hs @ [n]). good h}" by auto
  from card_mono [OF _ this] snoc.prems have "card ?K \<le> cap" by simp
  note IH = snoc.IH [OF this]
  show ?case
  proof (cases "good n")
    case False
    then have "entries (snd (update n ?s)) = entries ?s" by (simp add: update_entries)
    with IH False show ?thesis by (auto simp: latest_hint_snoc)
  next
    case True
    have sub: "insert (key n) (fst ` set (entries ?s)) \<subseteq> key ` {h \<in> set (hs @ [n]). good h}" using IH True by auto
    from card_mono [OF _ sub] snoc.prems have room: "card (insert (key n) (fst ` set (entries ?s))) \<le> cap" by simp
    note look = update_lookup [OF conjunct1 [OF IH] room]
    have keys: "fst ` set (entries (snd (update n ?s))) \<subseteq> key ` {h \<in> set (hs @ [n]). good h}"
    proof -
      have "dom (map_of (entries (snd (update n ?s)))) \<subseteq> insert (key n) (dom (map_of (entries ?s)))"
        unfolding look by auto
      then show ?thesis using sub unfolding dom_map_of_conv_image_fst by blast
    qed
    have "map_of (entries (snd (update n ?s))) k = Some h \<longleftrightarrow>
        latest_hint good key (ho_source_ts_ms ops) (hs @ [n]) k h" for k h
      by (rule latest_step [OF look True]) (use IH in blast)
    with update_ok [OF conjunct1 [OF IH]] keys show ?thesis by simp
  qed
qed

end

end
