(* ===== verification/Latency_Metrics.thy ===== *)
theory Latency_Metrics
  imports Prelude "HOL-Library.Multiset"
begin

text \<open>
  \<open>okx/latency.rs\<close>: bounded latency samples per stage and the event counters.

  Microseconds and counts that saturate are naturals up to \<open>u64_max\<close>; the atomic counters are 64-bit
  words, since \<open>fetch_add\<close> wraps.  A poisoned mutex, which resets the samples, needs a panic while the
  lock is held and no code under the lock can panic, so it is left out.
\<close>

datatype OkxLatencyStage =
    FrameReceivedToParsed | ParsedToBookApplied | BookAppliedToFeaturesReady
  | FeaturesReadyToStrategyDispatch | StrategyDispatchToDecisionComplete
  | DecisionCompleteToCommandStart | CommandStartToAcknowledgement
  | AmbiguousCommandToRestReconciliation

definition all_latency_stages :: "OkxLatencyStage list" where
  "all_latency_stages =
     [FrameReceivedToParsed, ParsedToBookApplied, BookAppliedToFeaturesReady,
      FeaturesReadyToStrategyDispatch, StrategyDispatchToDecisionComplete,
      DecisionCompleteToCommandStart, CommandStartToAcknowledgement,
      AmbiguousCommandToRestReconciliation]"

definition LATENCY_SAMPLE_WINDOW :: nat where
  "LATENCY_SAMPLE_WINDOW = 4096"

record OkxLatencySummary =
  ls_count :: nat
  ls_min_micros :: nat
  ls_p50_micros :: nat
  ls_p95_micros :: nat
  ls_p99_micros :: nat
  ls_max_micros :: nat
  ls_sample_window :: nat

record LatencyStageSamples =
  lt_count :: nat
  lt_min_micros :: "nat option"
  lt_max_micros :: nat
  lt_recent_micros :: "nat list"

definition no_samples :: LatencyStageSamples where
  "no_samples = \<lparr> lt_count = 0, lt_min_micros = None, lt_max_micros = 0, lt_recent_micros = [] \<rparr>"

definition latency_sample_record :: "nat \<Rightarrow> LatencyStageSamples \<Rightarrow> LatencyStageSamples" where
  "latency_sample_record micros s =
     \<lparr> lt_count = min (lt_count s + 1) u64_max,
       lt_min_micros =
         Some (case lt_min_micros s of None \<Rightarrow> micros | Some current \<Rightarrow> min current micros),
       lt_max_micros = max (lt_max_micros s) micros,
       lt_recent_micros =
         (if length (lt_recent_micros s) = LATENCY_SAMPLE_WINDOW then tl (lt_recent_micros s)
          else lt_recent_micros s) @ [micros] \<rparr>"

text \<open>\<open>usize\<close> arithmetic; the saturation cannot be reached with at most 4096 samples.\<close>

definition percentile :: "nat list \<Rightarrow> nat \<Rightarrow> nat" where
  "percentile xs p =
     (let rank = (length xs * p + 99) div 100 in
      xs ! min (rank - 1) (length xs - 1))"

definition latency_summary :: "LatencyStageSamples \<Rightarrow> OkxLatencySummary" where
  "latency_summary s =
     (if lt_recent_micros s = []
      then \<lparr> ls_count = 0, ls_min_micros = 0, ls_p50_micros = 0, ls_p95_micros = 0,
             ls_p99_micros = 0, ls_max_micros = 0, ls_sample_window = 0 \<rparr>
      else
        let xs = sort (lt_recent_micros s) in
        \<lparr> ls_count = lt_count s,
          ls_min_micros = (case lt_min_micros s of None \<Rightarrow> 0 | Some m \<Rightarrow> m),
          ls_p50_micros = percentile xs 50, ls_p95_micros = percentile xs 95,
          ls_p99_micros = percentile xs 99, ls_max_micros = lt_max_micros s,
          ls_sample_window = length xs \<rparr>)"

section \<open>Counters\<close>

record LatencyCounters =
  lc_market_events_produced :: u64
  lc_market_events_dropped :: u64
  lc_market_events_coalesced :: u64
  lc_last_market_generation_dispatched :: u64
  lc_backpressure_incidents :: u64
  lc_stale_event_rejections :: u64
  lc_sequence_gap_invalidations :: u64
  lc_reconnects :: u64
  lc_command_fallbacks :: u64
  lc_ambiguous_command_reconciliations :: u64

record OkxLatencyMetrics =
  lm_samples :: "OkxLatencyStage \<Rightarrow> LatencyStageSamples"
  lm_counters :: LatencyCounters

definition latency_record :: "OkxLatencyStage \<Rightarrow> nat \<Rightarrow> OkxLatencyMetrics \<Rightarrow> OkxLatencyMetrics" where
  "latency_record stage duration_nanos m =
     m\<lparr> lm_samples := (lm_samples m)(stage :=
          latency_sample_record (min (duration_nanos div 1000) u64_max) (lm_samples m stage)) \<rparr>"

definition u64_saturating_succ :: "u64 \<Rightarrow> u64" where
  "u64_saturating_succ n = (if n = - 1 then - 1 else n + 1)"

definition u64_saturating_sub :: "u64 \<Rightarrow> u64 \<Rightarrow> u64" where
  "u64_saturating_sub a b = (if a \<ge> b then a - b else 0)"

definition record_market_event_produced :: "LatencyCounters \<Rightarrow> u64 \<times> LatencyCounters" where
  "record_market_event_produced c =
     (u64_saturating_succ (lc_market_events_produced c),
      c\<lparr> lc_market_events_produced := lc_market_events_produced c + 1 \<rparr>)"

definition record_market_event_dispatched :: "u64 \<Rightarrow> LatencyCounters \<Rightarrow> LatencyCounters" where
  "record_market_event_dispatched generation c =
     (let previous = lc_last_market_generation_dispatched c;
          c = c\<lparr> lc_last_market_generation_dispatched := generation \<rparr> in
      if generation > u64_saturating_succ previous
      then c\<lparr> lc_market_events_coalesced := lc_market_events_coalesced c +
                u64_saturating_sub (u64_saturating_sub generation previous) 1 \<rparr>
      else c)"

definition record_market_event_dropped :: "LatencyCounters \<Rightarrow> LatencyCounters" where
  "record_market_event_dropped c =
     c\<lparr> lc_market_events_dropped := lc_market_events_dropped c + 1 \<rparr>"

definition record_backpressure_incident :: "LatencyCounters \<Rightarrow> LatencyCounters" where
  "record_backpressure_incident c =
     c\<lparr> lc_backpressure_incidents := lc_backpressure_incidents c + 1 \<rparr>"

definition record_stale_event_rejection :: "LatencyCounters \<Rightarrow> LatencyCounters" where
  "record_stale_event_rejection c =
     c\<lparr> lc_stale_event_rejections := lc_stale_event_rejections c + 1 \<rparr>"

definition record_sequence_gap_invalidation :: "LatencyCounters \<Rightarrow> LatencyCounters" where
  "record_sequence_gap_invalidation c =
     c\<lparr> lc_sequence_gap_invalidations := lc_sequence_gap_invalidations c + 1 \<rparr>"

definition record_reconnect :: "LatencyCounters \<Rightarrow> LatencyCounters" where
  "record_reconnect c = c\<lparr> lc_reconnects := lc_reconnects c + 1 \<rparr>"

definition record_command_fallback :: "LatencyCounters \<Rightarrow> LatencyCounters" where
  "record_command_fallback c = c\<lparr> lc_command_fallbacks := lc_command_fallbacks c + 1 \<rparr>"

definition record_ambiguous_command_reconciliation :: "LatencyCounters \<Rightarrow> LatencyCounters" where
  "record_ambiguous_command_reconciliation c =
     c\<lparr> lc_ambiguous_command_reconciliations := lc_ambiguous_command_reconciliations c + 1 \<rparr>"

definition latency_snapshot ::
    "OkxLatencyMetrics \<Rightarrow> (OkxLatencyStage \<times> OkxLatencySummary) list \<times> LatencyCounters" where
  "latency_snapshot m =
     (map (\<lambda>stage. (stage, latency_summary (lm_samples m stage))) all_latency_stages, lm_counters m)"

section \<open>Lemmas\<close>

definition recorded :: "nat list \<Rightarrow> LatencyStageSamples" where
  "recorded ms = fold latency_sample_record ms no_samples"

lemma recorded_snoc [simp]: "recorded (ms @ [m]) = latency_sample_record m (recorded ms)"
  by (simp add: recorded_def)

lemma recorded_Nil [simp]: "recorded [] = no_samples"
  by (simp add: recorded_def)

lemma recorded_window:
  "lt_recent_micros (recorded ms) = drop (length ms - LATENCY_SAMPLE_WINDOW) ms"
proof (induction ms rule: rev_induct)
  case (snoc m ms)
  show ?case
  proof (cases "LATENCY_SAMPLE_WINDOW \<le> length ms")
    case True
    then have "tl (drop (length ms - LATENCY_SAMPLE_WINDOW) ms) =
        drop (Suc (length ms) - LATENCY_SAMPLE_WINDOW) ms"
      by (simp add: Suc_diff_le drop_Suc tl_drop)
    moreover have "Suc 0 - LATENCY_SAMPLE_WINDOW = 0" by (simp add: LATENCY_SAMPLE_WINDOW_def)
    ultimately show ?thesis using True snoc by (simp add: latency_sample_record_def)
  next
    case False
    with snoc show ?thesis by (simp add: latency_sample_record_def)
  qed
qed (simp add: no_samples_def)

lemma recorded_extrema:
  "lt_count (recorded ms) = min (length ms) u64_max \<and>
   lt_min_micros (recorded ms) = (if ms = [] then None else Some (Min (set ms))) \<and>
   lt_max_micros (recorded ms) = (if ms = [] then 0 else Max (set ms))"
  by (induction ms rule: rev_induct)
    (auto simp: latency_sample_record_def no_samples_def min.commute max.commute)

lemma sorted_below_nth:
  assumes "sorted xs" and "i < length xs"
  shows "i < length (filter (\<lambda>x. x \<le> xs ! i) xs)" and "length (filter (\<lambda>x. x < xs ! i) xs) \<le> i"
proof -
  have split: "xs = take (Suc i) xs @ drop (Suc i) xs" by simp
  have "filter (\<lambda>x. x \<le> xs ! i) (take (Suc i) xs) = take (Suc i) xs"
    using assms by (auto simp: filter_id_conv in_set_conv_nth intro!: sorted_nth_mono)
  then have "filter (\<lambda>x. x \<le> xs ! i) xs = take (Suc i) xs @ filter (\<lambda>x. x \<le> xs ! i) (drop (Suc i) xs)"
    by (metis split filter_append)
  then show "i < length (filter (\<lambda>x. x \<le> xs ! i) xs)" using assms(2) by simp
  have "filter (\<lambda>x. x < xs ! i) (drop i xs) = []"
    using assms by (auto simp: filter_empty_conv in_set_conv_nth not_less intro!: sorted_nth_mono)
  then have "filter (\<lambda>x. x < xs ! i) xs = filter (\<lambda>x. x < xs ! i) (take i xs)"
    by (metis append_Nil2 append_take_drop_id filter_append)
  then show "length (filter (\<lambda>x. x < xs ! i) xs) \<le> i"
    by (metis length_filter_le length_take min.cobounded2 le_trans)
qed

text \<open>The nearest-rank percentile.\<close>

lemma percentile_rank:
  assumes "sorted xs" and "xs \<noteq> []" and "0 < p" and "p \<le> 100"
  shows "percentile xs p \<in> set xs"
    and "length xs * p \<le> 100 * length (filter (\<lambda>x. x \<le> percentile xs p) xs)"
    and "100 * length (filter (\<lambda>x. x < percentile xs p) xs) < length xs * p"
proof -
  define rank where "rank = (length xs * p + 99) div 100"
  have pos: "0 < length xs * p" using assms by simp
  have "length xs * p \<le> length xs * 100" using assms(4) by simp
  moreover have "rank * 100 + (length xs * p + 99) mod 100 = length xs * p + 99"
    using div_mult_mod_eq [of "length xs * p + 99" 100] by (simp only: rank_def)
  moreover have "(length xs * p + 99) mod 100 < 100" by simp
  ultimately have rank: "100 * rank \<ge> length xs * p" "100 * rank < length xs * p + 100"
      "rank \<le> length xs" "0 < rank"
    using pos by linarith+
  have nth: "percentile xs p = xs ! (rank - 1)"
    using rank by (simp add: percentile_def rank_def [symmetric] Let_def)
  have i: "rank - 1 < length xs" using rank by linarith
  note below = sorted_below_nth [OF assms(1) i]
  show "percentile xs p \<in> set xs" using i by (simp add: nth)
  show "length xs * p \<le> 100 * length (filter (\<lambda>x. x \<le> percentile xs p) xs)"
    using below(1) rank by (simp add: nth)
  show "100 * length (filter (\<lambda>x. x < percentile xs p) xs) < length xs * p"
    using below(2) rank by (simp add: nth)
qed

section \<open>Properties\<close>

text \<open>
  after any sequence of samples the summary describes exactly the last 4096 of them: the count and
  the extrema are those of all samples, and each percentile is the nearest-rank percentile of the
  window, a sample of it with fewer than the stated share of the window below it and at least that share
  not above it, so no percentile lies outside the extrema.
\<close>
theorem latency_summary_percentiles:
  assumes "ms \<noteq> []"
  defines "window \<equiv> drop (length ms - LATENCY_SAMPLE_WINDOW) ms"
    and "s \<equiv> latency_summary (recorded ms)"
  shows "ls_count s = min (length ms) u64_max \<and> ls_sample_window s = length window \<and>
    length window \<le> LATENCY_SAMPLE_WINDOW \<and>
    ls_min_micros s = Min (set ms) \<and> ls_max_micros s = Max (set ms) \<and>
    list_all (\<lambda>(p, v). v \<in> set window \<and> ls_min_micros s \<le> v \<and> v \<le> ls_max_micros s \<and>
        100 * length (filter (\<lambda>x. x < v) window) < length window * p \<and>
        length window * p \<le> 100 * length (filter (\<lambda>x. x \<le> v) window))
      [(50, ls_p50_micros s), (95, ls_p95_micros s), (99, ls_p99_micros s)]"
proof -
  have "0 < length ms" using assms(1) by simp
  then have "\<not> length ms \<le> length ms - LATENCY_SAMPLE_WINDOW"
    unfolding LATENCY_SAMPLE_WINDOW_def by linarith
  then have w: "window \<noteq> []" by (simp add: window_def)
  have filter_sort: "length (filter P (sort window)) = length (filter P window)" for P
    by (metis size_mset mset_filter mset_sort)
  have sorted: "sort window \<noteq> []" using w by (metis length_0_conv length_sort)
  have sub: "v \<in> set window \<Longrightarrow> Min (set ms) \<le> v \<and> v \<le> Max (set ms)" for v
    by (auto simp: window_def dest: in_set_dropD)
  have rank: "v = percentile (sort window) p \<Longrightarrow> 0 < p \<Longrightarrow> p \<le> 100 \<Longrightarrow>
      v \<in> set window \<and> 100 * length (filter (\<lambda>x. x < v) window) < length window * p \<and>
      length window * p \<le> 100 * length (filter (\<lambda>x. x \<le> v) window)" for v p
    using percentile_rank [of "sort window" p] sorted by (simp add: filter_sort)
  have recent: "lt_recent_micros (recorded ms) = window" by (simp only: recorded_window window_def)
  have "s = \<lparr> ls_count = min (length ms) u64_max, ls_min_micros = Min (set ms),
      ls_p50_micros = percentile (sort window) 50, ls_p95_micros = percentile (sort window) 95,
      ls_p99_micros = percentile (sort window) 99, ls_max_micros = Max (set ms),
      ls_sample_window = length window \<rparr>"
    using w assms(1) recent by (simp add: s_def latency_summary_def recorded_extrema Let_def)
  with rank [OF refl, of 50] rank [OF refl, of 95] rank [OF refl, of 99] sub show ?thesis
    by (auto simp: window_def)
qed

theorem latency_summary_percentiles_witness:
  "\<exists>s. s = latency_summary (recorded [7, 1, 5]) \<and> ls_p50_micros s \<in> {7, 1, 5} \<and>
    ls_min_micros s = 1 \<and> ls_max_micros s = 7"
proof -
  let ?ms = "[7, 1, 5 :: nat]"
  have "?ms \<noteq> []" by simp
  note f = latency_summary_percentiles [OF this]
  have "drop (length ?ms - LATENCY_SAMPLE_WINDOW) ?ms = ?ms" by (simp add: LATENCY_SAMPLE_WINDOW_def)
  with f show ?thesis by (auto simp: list_all_iff simp del: drop_Cons_numeral)
qed

end
