(* ===== verification/Public_Protocol.thy ===== *)
theory Public_Protocol
  imports Rust_Strings Decimal_Ops
begin

text \<open>
  \<open>okx-public-protocol/src/lib.rs\<close>: validation of public order-book and trade payloads.

  \<open>serde_json\<close> is a parameter (\<open>json_ops\<close>): it turns the payload text into rows of the field types
  the source declares to it, or fails; \<open>j_message\<close> is the text of the error it reports for a payload,
  a function of the payload alone.  Everything the source adds to that (the level and timestamp
  deserialisers, the row count, the identity, duplicate and range checks) is modelled here.  The two
  \<open>expect\<close> calls are panics of the model, and shown unreachable.
\<close>

section \<open>Identifiers, actions, levels\<close>

datatype OkxSpotInstrumentId = SpotId (as_str: string)

datatype OkxLevel2Action = Snapshot | Update

record OkxLevel2Level =
  lv_price :: decimal
  lv_quantity :: decimal
  lv_order_count :: nat

record OkxLevel2Data =
  l2_asks :: "OkxLevel2Level list"
  l2_bids :: "OkxLevel2Level list"
  l2_ts :: int
  l2_sequence_id :: int
  l2_previous_sequence_id :: int

datatype OkxPublicProtocolError =
    UnsupportedAction string
  | UnsupportedChannel string
  | MalformedSpotInstrument string string
  | InstrumentMismatch OkxSpotInstrumentId OkxSpotInstrumentId
  | MixedInstrumentPayload OkxSpotInstrumentId OkxSpotInstrumentId
  | UnsupportedTradeSide string
  | MalformedPayload string
  | UnexpectedRowCount nat
  | DuplicatePrice decimal
  | InvalidField string

definition OKX_LEVEL2_BOOKS_CHANNEL :: string where
  "OKX_LEVEL2_BOOKS_CHANNEL = ''books''"

definition OKX_PUBLIC_TRADES_CHANNEL :: string where
  "OKX_PUBLIC_TRADES_CHANNEL = ''trades''"

definition OKX_LEVEL2_MAX_DEPTH :: nat where
  "OKX_LEVEL2_MAX_DEPTH = 400"

definition OKX_SPOT_INSTRUMENT_ID_MAX_LEN :: nat where
  "OKX_SPOT_INSTRUMENT_ID_MAX_LEN = 32"

definition valid_asset :: "string \<Rightarrow> bool" where
  "valid_asset a = list_all (\<lambda>c. is_ascii_uppercase c \<or> is_ascii_digit c) a"

text \<open>
  \<open>components.next().unwrap_or_default()\<close> twice, then a third \<open>next()\<close>: the pieces of the split with
  the empty string for a missing one.
\<close>

definition validate_spot_instrument_id :: "string \<Rightarrow> OkxPublicProtocolError + unit" where
  "validate_spot_instrument_id v =
     (let parts = split_on (CHR ''-'') v;
          base = (case parts of b # _ \<Rightarrow> b | [] \<Rightarrow> []);
          quote = (case parts of _ # q # _ \<Rightarrow> q | _ \<Rightarrow> []);
          malformed = MalformedSpotInstrument v
      in
      if v = [] then Inl (malformed ''identifier must not be empty'')
      else if length v > OKX_SPOT_INSTRUMENT_ID_MAX_LEN
        then Inl (malformed ''identifier exceeds the 32-byte maximum'')
      else if \<not> list_all is_ascii v
        then Inl (malformed ''identifier must contain ASCII characters only'')
      else if list_ex is_ascii_whitespace v
        then Inl (malformed ''identifier must not contain whitespace'')
      else if length parts > 2 \<or> base = [] \<or> quote = []
        then Inl (malformed
          ''identifier must contain exactly one separator and two non-empty assets'')
      else if \<not> valid_asset base \<or> \<not> valid_asset quote
        then Inl (malformed
          ''asset components must contain uppercase ASCII letters or digits only'')
      else if base = quote then Inl (malformed ''base and quote assets must differ'')
      else Inr ())"

definition spot_id_try_from :: "string \<Rightarrow> OkxPublicProtocolError + OkxSpotInstrumentId" where
  "spot_id_try_from v = rbind (validate_spot_instrument_id v) (\<lambda>_. Inr (SpotId v))"

definition action_parse :: "string \<Rightarrow> OkxPublicProtocolError + OkxLevel2Action" where
  "action_parse v =
     (if v = ''snapshot'' then Inr Snapshot
      else if v = ''update'' then Inr Update
      else Inl (UnsupportedAction v))"

text \<open>\<open>OkxLevel2Level::deserialize\<close>, from the string array serde delivers.\<close>

definition level_deserialize :: "decimal_ops \<Rightarrow> string list \<Rightarrow> string + OkxLevel2Level" where
  "level_deserialize D row =
     (case row of
        [p, q, dep, cnt] \<Rightarrow>
          rbind (ok_or ''OKX books price must be a Decimal'' (d_parse D p)) (\<lambda>price.
          rbind (ok_or ''OKX books quantity must be a Decimal'' (d_parse D q)) (\<lambda>quantity.
          rbind (ensure (\<not> price \<le> 0) ''OKX books price must be positive'') (\<lambda>_.
          rbind (ensure (\<not> quantity < 0) ''OKX books quantity must be non-negative'') (\<lambda>_.
          rbind (ensure (dep = ''0'') ''OKX books deprecated level field must be zero'') (\<lambda>_.
          rbind (ok_or ''OKX books order count must be an integer'' (parse_u64 cnt)) (\<lambda>order_count.
          rbind (ensure (\<not> (quantity = 0 \<and> order_count \<noteq> 0))
                   ''OKX books removal must have zero order count'') (\<lambda>_.
          rbind (ensure (\<not> (quantity > 0 \<and> order_count = 0))
                   ''OKX books live level must have positive order count'') (\<lambda>_.
          Inr \<lparr> lv_price = price, lv_quantity = quantity, lv_order_count = order_count \<rparr>))))))))
      | _ \<Rightarrow> Inl ''OKX books level must contain price, quantity, deprecated field, and order count'')"

definition positive_i64_string :: "string \<Rightarrow> string + int" where
  "positive_i64_string v =
     rbind (ok_or ''OKX books timestamp must be an integer string'' (parse_i64 v)) (\<lambda>n.
     rbind (ensure (\<not> n \<le> 0) ''OKX books timestamp must be positive'') (\<lambda>_. Inr n))"

section \<open>Payloads\<close>

record raw_books_row =
  rb_asks :: "string list list"
  rb_bids :: "string list list"
  rb_ts :: string
  rb_seq_id :: int
  rb_prev_seq_id :: int

record PublicTradeRow =
  rt_inst_id :: string
  rt_trade_id :: string
  rt_ts :: string
  rt_count :: "string option"
  rt_px :: string
  rt_sz :: string
  rt_side :: string

record PublicTradeArchiveFields =
  ra_inst_id :: string
  ra_trade_id :: string
  ra_ts :: string

record json_ops =
  j_books :: "string \<Rightarrow> raw_books_row list option"
  j_trades :: "string \<Rightarrow> PublicTradeRow list option"
  j_archive :: "string \<Rightarrow> PublicTradeArchiveFields option"
  j_message :: "string \<Rightarrow> string"

record ValidatedBooksMessage =
  bm_instrument_id :: OkxSpotInstrumentId
  bm_action :: OkxLevel2Action
  bm_data :: OkxLevel2Data

definition data_deserialize :: "decimal_ops \<Rightarrow> raw_books_row \<Rightarrow> string + OkxLevel2Data" where
  "data_deserialize D r =
     rbind (try_map (level_deserialize D) (rb_asks r)) (\<lambda>asks.
     rbind (try_map (level_deserialize D) (rb_bids r)) (\<lambda>bids.
     rbind (positive_i64_string (rb_ts r)) (\<lambda>ts.
     Inr \<lparr> l2_asks = asks, l2_bids = bids, l2_ts = ts, l2_sequence_id = rb_seq_id r,
           l2_previous_sequence_id = rb_prev_seq_id r \<rparr>)))"

text \<open>\<open>serde_json::from_str::<Vec<OkxLevel2Data>>\<close>: the parser, then the source's deserialisers.\<close>

definition books_from_json ::
    "decimal_ops \<Rightarrow> json_ops \<Rightarrow> string \<Rightarrow> OkxPublicProtocolError + OkxLevel2Data list" where
  "books_from_json D J payload =
     (case j_books J payload of
        None \<Rightarrow> Inl (MalformedPayload (j_message J payload))
      | Some rows \<Rightarrow>
          map_err (\<lambda>_. MalformedPayload (j_message J payload)) (try_map (data_deserialize D) rows))"

fun reject_duplicate_prices :: "decimal set \<Rightarrow> OkxLevel2Level list \<Rightarrow> OkxPublicProtocolError + unit" where
  "reject_duplicate_prices seen [] = Inr ()"
| "reject_duplicate_prices seen (l # ls) =
     (if lv_price l \<in> seen then Inl (DuplicatePrice (lv_price l))
      else reject_duplicate_prices (insert (lv_price l) seen) ls)"

definition reject_duplicate_book_levels :: "ValidatedBooksMessage \<Rightarrow> OkxPublicProtocolError + unit" where
  "reject_duplicate_book_levels m =
     rbind (reject_duplicate_prices {} (l2_asks (bm_data m))) (\<lambda>_.
     reject_duplicate_prices {} (l2_bids (bm_data m)))"

text \<open>The \<open>expect\<close> after the validation of a foreign identifier is a panic if it could fail.\<close>

definition expect_spot_id :: "string \<Rightarrow> OkxPublicProtocolError fault + OkxSpotInstrumentId" where
  "expect_spot_id v = map_err (\<lambda>_. Panic) (spot_id_try_from v)"

definition check_outer_instrument ::
    "OkxSpotInstrumentId \<Rightarrow> string \<Rightarrow> OkxPublicProtocolError fault + unit" where
  "check_outer_instrument expected received =
     (if received \<noteq> as_str expected then
        rbind (map_err Fail (validate_spot_instrument_id received)) (\<lambda>_.
        rbind (expect_spot_id received) (\<lambda>r.
        Inl (Fail (InstrumentMismatch expected r))))
      else Inr ())"

definition single_row :: "OkxLevel2Data list \<Rightarrow> OkxPublicProtocolError + OkxLevel2Data" where
  "single_row rows =
     (case rows of [row] \<Rightarrow> Inr row | _ \<Rightarrow> Inl (UnexpectedRowCount (length rows)))"

definition parse_books_message ::
    "decimal_ops \<Rightarrow> json_ops \<Rightarrow> OkxSpotInstrumentId \<Rightarrow> string \<Rightarrow> string \<Rightarrow> string \<Rightarrow> string \<Rightarrow>
      OkxPublicProtocolError fault + ValidatedBooksMessage" where
  "parse_books_message D J expected channel received act payload =
     rbind (ensure (channel = OKX_LEVEL2_BOOKS_CHANNEL) (Fail (UnsupportedChannel channel))) (\<lambda>_.
     rbind (check_outer_instrument expected received) (\<lambda>_.
     rbind (map_err Fail (action_parse act)) (\<lambda>action.
     rbind (map_err Fail (books_from_json D J payload)) (\<lambda>rows.
     rbind (map_err Fail (single_row rows)) (\<lambda>row.
     let m = \<lparr> bm_instrument_id = expected, bm_action = action, bm_data = row \<rparr> in
     rbind (map_err Fail (reject_duplicate_book_levels m)) (\<lambda>_. Inr m))))))"

section \<open>Trades\<close>

datatype OkxTradeSide = TradeBuy | TradeSell

record ValidatedPublicTrade =
  vt_instrument_id :: OkxSpotInstrumentId
  vt_terminal_trade_id :: nat
  vt_timestamp_ms :: int
  vt_aggregation_count :: nat
  vt_price :: decimal
  vt_quantity :: decimal
  vt_side :: OkxTradeSide

definition positive_u64 :: "string \<Rightarrow> string \<Rightarrow> OkxPublicProtocolError + nat" where
  "positive_u64 v field =
     (case parse_u64 v of
        Some n \<Rightarrow> if n > 0 then Inr n else Inl (InvalidField field)
      | None \<Rightarrow> Inl (InvalidField field))"

definition positive_i64 :: "string \<Rightarrow> string \<Rightarrow> OkxPublicProtocolError + int" where
  "positive_i64 v field =
     (case parse_i64 v of
        Some n \<Rightarrow> if n > 0 then Inr n else Inl (InvalidField field)
      | None \<Rightarrow> Inl (InvalidField field))"

definition positive_decimal :: "decimal_ops \<Rightarrow> string \<Rightarrow> string \<Rightarrow> OkxPublicProtocolError + decimal" where
  "positive_decimal D v field =
     (case d_parse D v of
        Some n \<Rightarrow> if n > 0 then Inr n else Inl (InvalidField field)
      | None \<Rightarrow> Inl (InvalidField field))"

definition trade_side_parse :: "string \<Rightarrow> OkxPublicProtocolError + OkxTradeSide" where
  "trade_side_parse s =
     (if s = ''buy'' then Inr TradeBuy
      else if s = ''sell'' then Inr TradeSell
      else Inl (UnsupportedTradeSide s))"

definition validated_public_trade ::
    "decimal_ops \<Rightarrow> OkxSpotInstrumentId \<Rightarrow> PublicTradeRow \<Rightarrow>
      OkxPublicProtocolError fault + ValidatedPublicTrade" where
  "validated_public_trade D expected row =
     rbind (if rt_inst_id row \<noteq> as_str expected then
              rbind (map_err Fail (validate_spot_instrument_id (rt_inst_id row))) (\<lambda>_.
              rbind (expect_spot_id (rt_inst_id row)) (\<lambda>r.
              Inl (Fail (MixedInstrumentPayload expected r))))
            else Inr ()) (\<lambda>_.
     rbind (map_err Fail (positive_u64 (rt_trade_id row) ''tradeId'')) (\<lambda>trade_id.
     rbind (map_err Fail (positive_i64 (rt_ts row) ''trade ts'')) (\<lambda>ts.
     rbind (case rt_count row of None \<Rightarrow> Inr 1
            | Some c \<Rightarrow> map_err Fail (positive_u64 c ''trade count'')) (\<lambda>count.
     rbind (map_err Fail (positive_decimal D (rt_px row) ''trade price'')) (\<lambda>price.
     rbind (map_err Fail (positive_decimal D (rt_sz row) ''trade quantity'')) (\<lambda>quantity.
     rbind (map_err Fail (trade_side_parse (rt_side row))) (\<lambda>side.
     Inr \<lparr> vt_instrument_id = expected, vt_terminal_trade_id = trade_id, vt_timestamp_ms = ts,
           vt_aggregation_count = count, vt_price = price, vt_quantity = quantity,
           vt_side = side \<rparr>)))))))"

definition parse_trade_message ::
    "decimal_ops \<Rightarrow> json_ops \<Rightarrow> OkxSpotInstrumentId \<Rightarrow> string \<Rightarrow> string \<Rightarrow> string \<Rightarrow>
      OkxPublicProtocolError fault + ValidatedPublicTrade list" where
  "parse_trade_message D J expected channel received payload =
     rbind (ensure (channel = OKX_PUBLIC_TRADES_CHANNEL) (Fail (UnsupportedChannel channel))) (\<lambda>_.
     rbind (check_outer_instrument expected received) (\<lambda>_.
     rbind (ok_or (Fail (MalformedPayload (j_message J payload))) (j_trades J payload)) (\<lambda>rows.
     try_map (validated_public_trade D expected) rows)))"

section \<open>Archive trades\<close>

record OkxPublicTrade =
  pt_inst_id :: OkxSpotInstrumentId
  pt_trade_id :: nat
  pt_timestamp_ms :: int
  pt_raw :: string

definition public_trade_deserialize :: "json_ops \<Rightarrow> string \<Rightarrow> string + OkxPublicTrade" where
  "public_trade_deserialize J raw =
     rbind (ok_or (j_message J raw) (j_archive J raw)) (\<lambda>fields.
     rbind (ok_or ''invalid tradeId'' (parse_u64 (ra_trade_id fields))) (\<lambda>trade_id.
     rbind (ok_or ''invalid ts'' (parse_i64 (ra_ts fields))) (\<lambda>ts.
     rbind (map_err (\<lambda>_. ''invalid instId'') (spot_id_try_from (ra_inst_id fields))) (\<lambda>inst.
     rbind (ensure (trade_id \<noteq> 0) ''OKX public trade tradeId must be positive'') (\<lambda>_.
     rbind (ensure (\<not> ts \<le> 0) ''OKX public trade ts must be positive'') (\<lambda>_.
     Inr \<lparr> pt_inst_id = inst, pt_trade_id = trade_id, pt_timestamp_ms = ts, pt_raw = raw \<rparr>))))))"

section \<open>Lemmas\<close>

lemma valid_asset_ascii:
  "valid_asset a \<Longrightarrow> list_all is_ascii a \<and> \<not> list_ex is_ascii_whitespace a \<and> CHR ''-'' \<notin> set a"
proof -
  assume a: "valid_asset a"
  have "is_ascii c \<and> \<not> is_ascii_whitespace c \<and> c \<noteq> CHR ''-''"
    if "is_ascii_uppercase c \<or> is_ascii_digit c" for c
    using that by (auto simp: is_ascii_def is_ascii_whitespace_def is_ascii_uppercase_def
        is_ascii_digit_def byte_def)
  with a show ?thesis
    by (fastforce simp: valid_asset_def list_all_iff list_ex_iff)
qed

text \<open>The grammar of a canonical instrument identity.\<close>

definition canonical_spot_id :: "string \<Rightarrow> bool" where
  "canonical_spot_id v =
     (\<exists>base quote. v = base @ CHR ''-'' # quote \<and> base \<noteq> [] \<and> quote \<noteq> [] \<and> base \<noteq> quote \<and>
        valid_asset base \<and> valid_asset quote \<and> length v \<le> OKX_SPOT_INSTRUMENT_ID_MAX_LEN)"

lemma validate_accepts_canonical:
  assumes "canonical_spot_id v" shows "validate_spot_instrument_id v = Inr ()"
proof -
  obtain b q where v: "v = b @ CHR ''-'' # q" and bq: "b \<noteq> []" "q \<noteq> []" "b \<noteq> q"
      "valid_asset b" "valid_asset q" and len: "length v \<le> OKX_SPOT_INSTRUMENT_ID_MAX_LEN"
    using assms by (auto simp: canonical_spot_id_def)
  note ab = valid_asset_ascii [OF bq(4)] and aq = valid_asset_ascii [OF bq(5)]
  have parts: "split_on (CHR ''-'') v = [b, q]"
    using ab aq by (simp add: v split_on_append split_on_no_sep)
  have "list_all is_ascii v" "\<not> list_ex is_ascii_whitespace v"
    using ab aq by (simp_all add: v is_ascii_def is_ascii_whitespace_def byte_def)
  with parts bq len show ?thesis
    by (simp add: validate_spot_instrument_id_def v)
qed

lemma validate_ok_canonical:
  assumes "validate_spot_instrument_id v = Inr ()" shows "canonical_spot_id v"
proof -
  let ?p = "split_on (CHR ''-'') v"
  obtain b q where parts: "?p = [b, q]" and bq: "b \<noteq> []" "q \<noteq> []" "b \<noteq> q"
      "valid_asset b" "valid_asset q" and len: "length v \<le> OKX_SPOT_INSTRUMENT_ID_MAX_LEN"
  proof (cases ?p)
    case (Cons b r)
    then show ?thesis
      using assms that
      by (cases r) (auto simp: validate_spot_instrument_id_def Let_def split: if_splits list.splits)
  qed simp
  with split_on_two [OF parts] show ?thesis by (auto simp: canonical_spot_id_def)
qed

lemma validate_iff_canonical: "validate_spot_instrument_id v = Inr () \<longleftrightarrow> canonical_spot_id v"
  using validate_accepts_canonical validate_ok_canonical by blast

lemma spot_id_try_from_Inr: "spot_id_try_from v = Inr i \<longleftrightarrow> canonical_spot_id v \<and> i = SpotId v"
  by (auto simp: spot_id_try_from_def rbind_eq_Inr validate_iff_canonical)

text \<open>A level that the deserialiser accepts is well formed.\<close>

definition level_wf :: "OkxLevel2Level \<Rightarrow> bool" where
  "level_wf l = (0 < lv_price l \<and> 0 \<le> lv_quantity l \<and> lv_order_count l \<le> u64_max \<and>
     (lv_quantity l = 0 \<longleftrightarrow> lv_order_count l = 0))"

lemma level_deserialize_wf: "level_deserialize D row = Inr l \<Longrightarrow> level_wf l"
  by (auto simp: level_deserialize_def level_wf_def res_simps parse_u64_bound split: list.splits)

definition data_wf :: "OkxLevel2Data \<Rightarrow> bool" where
  "data_wf d = ((\<forall>l\<in>set (l2_asks d). level_wf l) \<and> (\<forall>l\<in>set (l2_bids d). level_wf l) \<and> 0 < l2_ts d)"

lemma data_deserialize_wf: "data_deserialize D r = Inr d \<Longrightarrow> data_wf d"
  by (auto simp: data_deserialize_def data_wf_def positive_i64_string_def res_simps
      dest!: try_map_all [where P = level_wf, OF _ level_deserialize_wf])

lemma books_from_json_wf:
  assumes "books_from_json D J payload = Inr rows"
  shows "\<forall>d\<in>set rows. data_wf d"
proof -
  from assms obtain raws where "try_map (data_deserialize D) raws = Inr rows"
    by (auto simp: books_from_json_def split: option.splits)
  from try_map_all [where P = data_wf, OF this data_deserialize_wf] show ?thesis .
qed

lemma reject_duplicate_prices_ok:
  "reject_duplicate_prices seen ls = Inr () \<longleftrightarrow>
    distinct (map lv_price ls) \<and> set (map lv_price ls) \<inter> seen = {}"
  by (induction seen ls rule: reject_duplicate_prices.induct) auto

lemma expect_spot_id_after_validation:
  "validate_spot_instrument_id v = Inr () \<Longrightarrow> expect_spot_id v = Inr (SpotId v)"
  by (simp add: expect_spot_id_def spot_id_try_from_def)

lemma check_outer_instrument_no_panic: "check_outer_instrument e r \<noteq> Inl Panic"
  by (cases "validate_spot_instrument_id r")
    (auto simp: check_outer_instrument_def expect_spot_id_after_validation)

lemma map_err_Fail_no_panic [simp]: "map_err Fail m \<noteq> Inl Panic"
  by (cases m) auto

lemma check_outer_instrument_Inr:
  "check_outer_instrument e r = Inr u \<longleftrightarrow> r = as_str e"
  by (cases "validate_spot_instrument_id r")
    (auto simp: check_outer_instrument_def expect_spot_id_after_validation)

lemma validated_public_trade_no_panic: "validated_public_trade D e row \<noteq> Inl Panic"
proof -
  have "(case rt_count row of None \<Rightarrow> Inr 1
          | Some c \<Rightarrow> map_err Fail (positive_u64 c ''trade count'')) \<noteq> Inl Panic"
    by (simp split: option.split)
  moreover have "rbind (map_err Fail (validate_spot_instrument_id (rt_inst_id row))) (\<lambda>_.
      rbind (expect_spot_id (rt_inst_id row)) (\<lambda>r. Inl (Fail (MixedInstrumentPayload e r)))) \<noteq>
      (Inl Panic :: OkxPublicProtocolError fault + unit)"
    by (cases "validate_spot_instrument_id (rt_inst_id row)")
      (auto simp: expect_spot_id_after_validation)
  ultimately show ?thesis
    unfolding validated_public_trade_def by (auto simp: rbind_eq_Inl)
qed

lemma single_row_Inr: "single_row rows = Inr row \<longleftrightarrow> rows = [row]"
  by (auto simp: single_row_def split: list.splits)

lemma try_map_no_panic: "(\<And>x. f x \<noteq> Inl e) \<Longrightarrow> try_map f xs \<noteq> Inl e"
  by (induction xs) (auto simp: rbind_eq_Inl)

text \<open>What an accepted books message promises.\<close>

definition books_message_wf :: "ValidatedBooksMessage \<Rightarrow> bool" where
  "books_message_wf m =
     (data_wf (bm_data m) \<and>
      distinct (map lv_price (l2_asks (bm_data m))) \<and> distinct (map lv_price (l2_bids (bm_data m))))"

lemma parse_books_message_wf:
  assumes "parse_books_message D J e ch r act payload = Inr m"
  shows "bm_instrument_id m = e \<and> books_message_wf m \<and> ch = OKX_LEVEL2_BOOKS_CHANNEL \<and>
    r = as_str e \<and> action_parse act = Inr (bm_action m)"
proof -
  from assms obtain rows where json: "books_from_json D J payload = Inr rows"
    and outer: "ch = OKX_LEVEL2_BOOKS_CHANNEL" "r = as_str e" "action_parse act = Inr (bm_action m)"
    and single: "rows = [bm_data m]" "bm_instrument_id m = e"
    and dup: "reject_duplicate_book_levels m = Inr ()"
    by (auto simp: parse_books_message_def res_simps Let_def check_outer_instrument_Inr
        single_row_Inr)
  have "\<forall>d\<in>set rows. data_wf d" using json by (rule books_from_json_wf)
  with single outer dup show ?thesis
    by (auto simp: books_message_wf_def reject_duplicate_book_levels_def rbind_eq_Inr
        reject_duplicate_prices_ok)
qed

lemma trade_row_values:
  assumes "validated_public_trade D e row = Inr t"
  shows "vt_instrument_id t = e \<and> rt_inst_id row = as_str e \<and> 0 < vt_terminal_trade_id t \<and>
    0 < vt_timestamp_ms t \<and> 0 < vt_aggregation_count t \<and> 0 < vt_price t \<and> 0 < vt_quantity t"
proof -
  have "rbind (map_err Fail (validate_spot_instrument_id (rt_inst_id row))) (\<lambda>_.
      rbind (expect_spot_id (rt_inst_id row)) (\<lambda>r. Inl (Fail (MixedInstrumentPayload e r)))) \<noteq>
      (Inr () :: OkxPublicProtocolError fault + unit)"
    by (auto simp: rbind_eq_Inr)
  with assms show ?thesis
    by (auto simp: validated_public_trade_def res_simps positive_u64_def positive_i64_def
        positive_decimal_def split: option.splits if_splits)
qed

section \<open>Properties\<close>

text \<open>
  an identifier is accepted exactly when it is \<open>BASE-QUOTE\<close> with two different, non-empty assets
  of upper-case ASCII letters and digits and at most 32 bytes, and the accepted identity prints back
  as the identifier it was read from.
\<close>
theorem instrument_id_grammar:
  "spot_id_try_from v = Inr i \<longleftrightarrow>
    (\<exists>base quote. v = base @ CHR ''-'' # quote \<and> base \<noteq> [] \<and> quote \<noteq> [] \<and> base \<noteq> quote \<and>
       list_all (\<lambda>c. is_ascii_uppercase c \<or> is_ascii_digit c) (base @ quote) \<and>
       length v \<le> 32) \<and>
    as_str i = v"
  by (cases i) (auto simp: spot_id_try_from_Inr canonical_spot_id_def valid_asset_def
      OKX_SPOT_INSTRUMENT_ID_MAX_LEN_def)

text \<open>
  C35: a books payload is accepted only for the expected channel and instrument, and the accepted
  message carries that instrument, the action of the envelope, prices that are positive and distinct
  on each side, non-negative quantities that are zero exactly when the order count is, and a positive
  timestamp.
\<close>
theorem accepted_books_message:
  assumes "parse_books_message D J expected channel received act payload = Inr m"
  shows "channel = OKX_LEVEL2_BOOKS_CHANNEL \<and> received = as_str expected \<and>
    bm_instrument_id m = expected \<and> action_parse act = Inr (bm_action m) \<and>
    (\<forall>side\<in>{l2_asks (bm_data m), l2_bids (bm_data m)}.
       distinct (map lv_price side) \<and>
       (\<forall>l\<in>set side. 0 < lv_price l \<and> 0 \<le> lv_quantity l \<and>
          (lv_quantity l = 0 \<longleftrightarrow> lv_order_count l = 0))) \<and>
    0 < l2_ts (bm_data m)"
  using parse_books_message_wf [OF assms]
  by (auto simp: books_message_wf_def data_wf_def level_wf_def)

definition sample_json :: json_ops where
  "sample_json =
     \<lparr> j_books = (\<lambda>_. Some [\<lparr> rb_asks = [[''101'', ''1'', ''0'', ''1'']],
          rb_bids = [[''100'', ''2'', ''0'', ''1'']], rb_ts = ''1700000000000'', rb_seq_id = 100,
          rb_prev_seq_id = - 1 \<rparr>]),
       j_trades = (\<lambda>_. Some [\<lparr> rt_inst_id = ''BTC-USDT'', rt_trade_id = ''7'', rt_ts = ''9'',
          rt_count = Some ''3'', rt_px = ''101'', rt_sz = ''2'', rt_side = ''buy'' \<rparr>]),
       j_archive = (\<lambda>_. None), j_message = (\<lambda>_. ''bad payload'') \<rparr>"

theorem accepted_books_message_witness:
  "\<exists>m. parse_books_message exact_decimal sample_json (SpotId ''BTC-USDT'') ''books'' ''BTC-USDT''
      ''snapshot'' ''{}'' = Inr m \<and> 0 < l2_ts (bm_data m) \<and> bm_instrument_id m = SpotId ''BTC-USDT''"
proof -
  obtain m where m: "parse_books_message exact_decimal sample_json (SpotId ''BTC-USDT'') ''books''
      ''BTC-USDT'' ''snapshot'' ''{}'' = Inr m"
    by (simp add: parse_books_message_def OKX_LEVEL2_BOOKS_CHANNEL_def check_outer_instrument_def
        action_parse_def books_from_json_def sample_json_def data_deserialize_def
        level_deserialize_def read_decimal_def read_unsigned_def ascii_digits_def digits_nat_def
        parse_u64_def parse_unsigned_def parse_digits_def digits_value_def digit_value_def byte_def
        is_ascii_digit_def u64_max_def positive_i64_string_def parse_i64_def parse_signed_def
        i64_min_def i64_max_def single_row_def reject_duplicate_book_levels_def Let_def)
  with accepted_books_message [OF m] show ?thesis by blast
qed

text \<open>
  neither parser panics: the identifier behind each \<open>expect\<close> has just been validated.
\<close>
theorem public_protocol_never_panics:
  "parse_books_message D J expected channel received act payload \<noteq> Inl Panic \<and>
   parse_trade_message D J expected channel received payload \<noteq> Inl Panic"
proof
  show "parse_books_message D J expected channel received act payload \<noteq> Inl Panic"
    unfolding parse_books_message_def
    by (auto simp: rbind_eq_Inl check_outer_instrument_no_panic Let_def)
  have rows: "try_map (validated_public_trade D expected) rows \<noteq> Inl Panic" for rows
    by (rule try_map_no_panic) (rule validated_public_trade_no_panic)
  show "parse_trade_message D J expected channel received payload \<noteq> Inl Panic"
    unfolding parse_trade_message_def
    by (auto simp: rbind_eq_Inl check_outer_instrument_no_panic rows)
qed

text \<open>
  an accepted trade batch has one trade per row of the payload, each for the expected instrument
  with positive trade id, timestamp, aggregation count, price and quantity; one bad row rejects the
  whole batch.
\<close>
theorem accepted_trade_batch:
  assumes "parse_trade_message D J expected channel received payload = Inr trades"
  shows "channel = OKX_PUBLIC_TRADES_CHANNEL \<and> received = as_str expected \<and>
    (\<exists>rows. j_trades J payload = Some rows \<and> length trades = length rows \<and>
       (\<forall>row\<in>set rows. rt_inst_id row = as_str expected)) \<and>
    (\<forall>t\<in>set trades. vt_instrument_id t = expected \<and> 0 < vt_terminal_trade_id t \<and>
       0 < vt_timestamp_ms t \<and> 0 < vt_aggregation_count t \<and> 0 < vt_price t \<and> 0 < vt_quantity t)"
proof -
  from assms obtain rows where rows: "j_trades J payload = Some rows"
    and map: "try_map (validated_public_trade D expected) rows = Inr trades"
    and outer: "channel = OKX_PUBLIC_TRADES_CHANNEL" "received = as_str expected"
    by (auto simp: parse_trade_message_def res_simps check_outer_instrument_Inr)
  have "\<forall>t\<in>set trades. vt_instrument_id t = expected \<and> 0 < vt_terminal_trade_id t \<and>
      0 < vt_timestamp_ms t \<and> 0 < vt_aggregation_count t \<and> 0 < vt_price t \<and> 0 < vt_quantity t"
    by (rule try_map_all [OF map]) (simp add: trade_row_values)
  moreover have "\<forall>row\<in>set rows. rt_inst_id row = as_str expected"
    using try_map_sources [OF map] by (auto dest: trade_row_values)
  ultimately show ?thesis
    using rows outer try_map_length [OF map] by blast
qed

theorem accepted_trade_batch_witness:
  "\<exists>trades. parse_trade_message exact_decimal sample_json (SpotId ''BTC-USDT'') ''trades''
      ''BTC-USDT'' ''{}'' = Inr trades \<and> length trades = 1 \<and> (\<forall>t\<in>set trades. 0 < vt_price t)"
proof -
  have ints: "parse_u64 ''7'' = Some 7" "parse_u64 ''3'' = Some 3" "parse_i64 ''9'' = Some 9"
    by (simp_all add: parse_u64_def parse_unsigned_def parse_digits_def digits_value_def
        digit_value_def byte_def is_ascii_digit_def u64_max_def parse_i64_def parse_signed_def
        i64_min_def i64_max_def)
  have decs: "read_decimal ''101'' = Some 101" "read_decimal ''2'' = Some 2"
    by (simp_all add: read_decimal_def read_unsigned_def ascii_digits_def digits_nat_def)
  have "\<exists>trades. parse_trade_message exact_decimal sample_json (SpotId ''BTC-USDT'')
      ''trades'' ''BTC-USDT'' ''{}'' = Inr trades"
    by (simp add: parse_trade_message_def OKX_PUBLIC_TRADES_CHANNEL_def check_outer_instrument_def
        sample_json_def validated_public_trade_def positive_u64_def positive_i64_def
        positive_decimal_def trade_side_parse_def ints decs)
  then obtain trades where t: "parse_trade_message exact_decimal sample_json (SpotId ''BTC-USDT'')
      ''trades'' ''BTC-USDT'' ''{}'' = Inr trades" by blast
  with accepted_trade_batch [OF t] show ?thesis by (auto simp: sample_json_def)
qed

end
