(* ===== verification/Level2_Book.thy ===== *)
theory Level2_Book
  imports Ordered_Map Decimal_Ops Public_Protocol
begin

text \<open>
  \<open>okx-market-model/src/level2.rs\<close>: the live order book of the OKX \<open>books\<close> channel.

  A book starts invalid, becomes valid with a snapshot, follows increments by their sequence numbers
  and is invalidated by every error of its own instrument.  \<open>&mut self\<close> operations return the result
  and the book they leave.  \<open>Instant\<close> is a number of nanoseconds (the clock is monotonic and only
  differences matter).  \<open>observe_now\<close> is the caller's clock: the model takes its readings as a
  function from the number of the call within one \<open>apply_with_clock\<close>.  An overflow of a \<open>Decimal\<close>
  operator panics, which leaves the book as it is at that point, without invalidation.
\<close>

type_synonym instant = nat

definition FEATURE_ROLLING_WINDOW :: nat where
  "FEATURE_ROLLING_WINDOW = 32"

definition BASIS_POINTS_PER_UNIT :: nat where
  "BASIS_POINTS_PER_UNIT = 10000"

section \<open>Data\<close>

record OkxLevel2Update =
  lu2_instrument_id :: OkxSpotInstrumentId
  lu2_action :: OkxLevel2Action
  lu2_data :: OkxLevel2Data
  lu2_received_at :: instant
  lu2_parsed_at :: instant

definition from_validated :: "ValidatedBooksMessage \<Rightarrow> instant \<Rightarrow> instant \<Rightarrow> OkxLevel2Update" where
  "from_validated message received_at parsed_at =
     \<lparr> lu2_instrument_id = bm_instrument_id message, lu2_action = bm_action message,
       lu2_data = bm_data message, lu2_received_at = received_at, lu2_parsed_at = parsed_at \<rparr>"

record OkxNearBookDepth =
  nb_bid_quantity_l10 :: decimal
  nb_ask_quantity_l10 :: decimal
  nb_bid_notional_l10 :: decimal
  nb_ask_notional_l10 :: decimal

record OkxDepthMove =
  dm_bid_quantity :: decimal
  dm_ask_quantity :: decimal
  dm_bid_notional :: decimal
  dm_ask_notional :: decimal

record OkxDepthSlope =
  ds_bid_bps_per_base_unit :: decimal
  ds_ask_bps_per_base_unit :: decimal

record OkxLevel2FeatureSnapshot =
  fs_instrument_id :: OkxSpotInstrumentId
  fs_epoch :: u64
  fs_generation :: u64
  fs_sequence_id :: int
  fs_exchange_ts_ms :: int
  fs_received_at :: instant
  fs_parsed_at :: instant
  fs_book_applied_at :: instant
  fs_features_ready_at :: instant
  fs_bid_level_count :: nat
  fs_ask_level_count :: nat
  fs_best_bid :: decimal
  fs_best_ask :: decimal
  fs_mid :: decimal
  fs_spread :: decimal
  fs_classic_microprice :: decimal
  fs_multi_level_microprice :: decimal
  fs_microprice_displacement :: decimal
  fs_imbalance_l1 :: decimal
  fs_imbalance_l3 :: decimal
  fs_imbalance_l5 :: decimal
  fs_imbalance_l10 :: decimal
  fs_imbalance_l25 :: decimal
  fs_imbalance_l50 :: decimal
  fs_imbalance_l100 :: decimal
  fs_imbalance_l200 :: decimal
  fs_imbalance_l400 :: decimal
  fs_distance_weighted_imbalance :: decimal
  fs_notional_imbalance :: decimal
  fs_near_book_depth :: OkxNearBookDepth
  fs_depth_move_1bps :: OkxDepthMove
  fs_depth_move_2bps :: OkxDepthMove
  fs_depth_move_5bps :: OkxDepthMove
  fs_depth_move_10bps :: OkxDepthMove
  fs_depth_slope :: OkxDepthSlope
  fs_liquidity_vacuum :: decimal
  fs_imbalance_velocity_per_second :: decimal
  fs_imbalance_persistence :: decimal
  fs_short_horizon_book_volatility_bps :: decimal

record Level2BookLevel =
  l2l_quantity :: decimal
  l2l_order_count :: nat

type_synonym level2_side = "(decimal, Level2BookLevel) btree"

record RollingFeaturePoint =
  rp_mid :: decimal
  rp_imbalance_l10 :: decimal
  rp_received_at :: instant

record OkxLevel2Book =
  lb_instrument_id :: OkxSpotInstrumentId
  lb_bids :: level2_side
  lb_asks :: level2_side
  lb_valid :: bool
  lb_epoch :: u64
  lb_generation :: u64
  lb_sequence_id :: "int option"
  lb_features :: "OkxLevel2FeatureSnapshot option"
  lb_rolling :: "RollingFeaturePoint list"

datatype OkxLevel2ApplyOutcome = Features OkxLevel2FeatureSnapshot | Heartbeat

datatype OkxLevel2BookError =
    L2_InstrumentMismatch OkxSpotInstrumentId OkxSpotInstrumentId
  | UpdateBeforeSnapshot
  | SequenceGap int int int
  | RegressingSequence int int
  | L2_DuplicatePrice decimal
  | UnknownRemoval decimal
  | EmptySide
  | CrossedBook decimal decimal
  | DepthOverflow
  | ZeroDenominator string

datatype BookSide = Bid | Ask

section \<open>Sides\<close>

definition build_snapshot_step ::
    "level2_side \<Rightarrow> OkxLevel2Level \<Rightarrow> OkxLevel2BookError + level2_side" where
  "build_snapshot_step side u =
     (if lv_quantity u = 0 then Inr side
      else
        let (old, side) = bt_insert (lv_price u)
              \<lparr> l2l_quantity = lv_quantity u, l2l_order_count = lv_order_count u \<rparr> side in
        if old \<noteq> None then Inl (L2_DuplicatePrice (lv_price u)) else Inr side)"

definition build_snapshot_side :: "OkxLevel2Level list \<Rightarrow> OkxLevel2BookError + level2_side" where
  "build_snapshot_side updates = try_fold build_snapshot_step [] updates"

text \<open>
  A failing \<open>apply_side\<close> leaves its side half updated; its only caller invalidates the book then, which
  clears the side, so the model returns no side with the error.
\<close>

definition level2_apply_step ::
    "(decimal, unit) btree \<times> level2_side \<Rightarrow> OkxLevel2Level \<Rightarrow>
      OkxLevel2BookError + (decimal, unit) btree \<times> level2_side" where
  "level2_apply_step = (\<lambda>(seen, side) u.
     let (dup, seen) = bt_insert (lv_price u) () seen in
     if dup \<noteq> None then Inl (L2_DuplicatePrice (lv_price u))
     else if lv_quantity u = 0 then
       (let (old, side) = bt_remove (lv_price u) side in
        if old = None then Inl (UnknownRemoval (lv_price u)) else Inr (seen, side))
     else Inr (seen, snd (bt_insert (lv_price u)
            \<lparr> l2l_quantity = lv_quantity u, l2l_order_count = lv_order_count u \<rparr> side)))"

definition level2_apply_side ::
    "level2_side \<Rightarrow> OkxLevel2Level list \<Rightarrow> OkxLevel2BookError + level2_side" where
  "level2_apply_side side updates =
     rbind (try_fold level2_apply_step ([], side) updates) (\<lambda>(seen, side). Inr side)"

definition trim_price :: "level2_side \<Rightarrow> BookSide \<Rightarrow> decimal option" where
  "trim_price side book_side =
     (case book_side of
        Bid \<Rightarrow> map_option fst (bt_first side)
      | Ask \<Rightarrow> map_option fst (bt_last side))"

lemma trim_price_mem: "trim_price side bs = Some p \<Longrightarrow> p \<in> dom (bt_get side)"
  by (auto simp: trim_price_def split: BookSide.splits
      dest!: bt_first_mem bt_last_mem dest: bt_mem_dom)

function trim_to_depth :: "level2_side \<Rightarrow> BookSide \<Rightarrow> level2_side" where
  "trim_to_depth side book_side =
     (if length side > OKX_LEVEL2_MAX_DEPTH then
        (case trim_price side book_side of
           None \<Rightarrow> side
         | Some p \<Rightarrow> trim_to_depth (snd (bt_remove p side)) book_side)
      else side)"
  by pat_completeness auto
termination
proof (relation "measure (length \<circ> fst)")
  fix side :: level2_side and bs p
  assume "trim_price side bs = Some p"
  then show "((snd (bt_remove p side), bs), side, bs) \<in> measure (length \<circ> fst)"
    using bt_length_del [OF trim_price_mem] by (fastforce simp: bt_remove_def)
qed simp

declare trim_to_depth.simps [simp del]

definition validate_book :: "level2_side \<Rightarrow> level2_side \<Rightarrow> OkxLevel2BookError + unit" where
  "validate_book bids asks =
     rbind (ok_or EmptySide (map_option fst (bt_last bids))) (\<lambda>best_bid.
     rbind (ok_or EmptySide (map_option fst (bt_first asks))) (\<lambda>best_ask.
     ensure (\<not> best_bid \<ge> best_ask) (CrossedBook best_bid best_ask)))"

section \<open>Features\<close>

definition signed_ratio :: "decimal_ops \<Rightarrow> decimal \<Rightarrow> decimal \<Rightarrow> 'e fault + decimal" where
  "signed_ratio D bid ask =
     rbind (dec_add D bid ask) (\<lambda>total.
     if total \<le> 0 then Inr 0
     else rbind (dec_sub D bid ask) (\<lambda>d. dec_div D d total))"

definition positive_ratio :: "decimal_ops \<Rightarrow> decimal \<Rightarrow> decimal \<Rightarrow> 'e fault + decimal" where
  "positive_ratio D numerator denominator =
     (if numerator \<le> 0 \<or> denominator \<le> 0 then Inr 0 else dec_div D numerator denominator)"

definition side_depth ::
    "decimal_ops \<Rightarrow> (decimal \<times> Level2BookLevel) list \<Rightarrow> 'e fault + decimal \<times> decimal" where
  "side_depth D levels =
     try_fold (\<lambda>(quantity, notional) (price, level).
         rbind (dec_add D quantity (l2l_quantity level)) (\<lambda>q.
         rbind (dec_mul D price (l2l_quantity level)) (\<lambda>x.
         rbind (dec_add D notional x) (\<lambda>n. Inr (q, n)))))
       (0, 0) levels"

definition decimal_sign :: "decimal \<Rightarrow> int" where
  "decimal_sign v = (if v > 0 then 1 else if v < 0 then - 1 else 0)"

definition absolute_return_bps :: "decimal_ops \<Rightarrow> decimal \<Rightarrow> decimal \<Rightarrow> 'e fault + decimal" where
  "absolute_return_bps D previous current =
     (if previous \<le> 0 then Inr 0
      else
        rbind (dec_sub D current previous) (\<lambda>d.
        rbind (dec_div D \<bar>d\<bar> previous) (\<lambda>r.
        dec_mul D r (of_nat BASIS_POINTS_PER_UNIT))))"

text \<open>The sums over the levels of a side; \<open>sum_notional\<close> multiplies before it adds.\<close>

definition sum_quantity ::
    "decimal_ops \<Rightarrow> (decimal \<times> Level2BookLevel) list \<Rightarrow> 'e fault + decimal" where
  "sum_quantity D ls = dec_sum D (map (\<lambda>(_, l). l2l_quantity l) ls)"

definition sum_notional ::
    "decimal_ops \<Rightarrow> (decimal \<times> Level2BookLevel) list \<Rightarrow> 'e fault + decimal" where
  "sum_notional D ls =
     rbind (try_map (\<lambda>(p, l). dec_mul D p (l2l_quantity l)) ls) (dec_sum D)"

definition sum_distance_weighted ::
    "decimal_ops \<Rightarrow> (decimal \<times> Level2BookLevel) list \<Rightarrow> 'e fault + decimal" where
  "sum_distance_weighted D ls =
     rbind (try_map (\<lambda>(index, (_, l)). dec_div D (l2l_quantity l) (of_nat (index + 1)))
              (enumerate 0 ls)) (dec_sum D)"

definition imbalance :: "decimal_ops \<Rightarrow> OkxLevel2Book \<Rightarrow> nat \<Rightarrow> 'e fault + decimal" where
  "imbalance D b levels =
     rbind (sum_quantity D (take levels (rev (lb_bids b)))) (\<lambda>bid.
     rbind (sum_quantity D (take levels (lb_asks b))) (\<lambda>ask.
     signed_ratio D bid ask))"

definition distance_weighted_imbalance :: "decimal_ops \<Rightarrow> OkxLevel2Book \<Rightarrow> 'e fault + decimal" where
  "distance_weighted_imbalance D b =
     rbind (sum_distance_weighted D (take OKX_LEVEL2_MAX_DEPTH (rev (lb_bids b)))) (\<lambda>bid.
     rbind (sum_distance_weighted D (take OKX_LEVEL2_MAX_DEPTH (lb_asks b))) (\<lambda>ask.
     signed_ratio D bid ask))"

definition notional_imbalance :: "decimal_ops \<Rightarrow> OkxLevel2Book \<Rightarrow> nat \<Rightarrow> 'e fault + decimal" where
  "notional_imbalance D b levels =
     rbind (sum_notional D (take levels (rev (lb_bids b)))) (\<lambda>bid.
     rbind (sum_notional D (take levels (lb_asks b))) (\<lambda>ask.
     signed_ratio D bid ask))"

definition near_book_depth ::
    "decimal_ops \<Rightarrow> OkxLevel2Book \<Rightarrow> nat \<Rightarrow> 'e fault + OkxNearBookDepth" where
  "near_book_depth D b levels =
     rbind (side_depth D (take levels (rev (lb_bids b)))) (\<lambda>(bq, bn).
     rbind (side_depth D (take levels (lb_asks b))) (\<lambda>(aq, an).
     Inr \<lparr> nb_bid_quantity_l10 = bq, nb_ask_quantity_l10 = aq,
           nb_bid_notional_l10 = bn, nb_ask_notional_l10 = an \<rparr>))"

definition depth_to_move ::
    "decimal_ops \<Rightarrow> OkxLevel2Book \<Rightarrow> decimal \<Rightarrow> nat \<Rightarrow> 'e fault + OkxDepthMove" where
  "depth_to_move D b mid basis_points =
     rbind (dec_div D (of_nat basis_points) (of_nat BASIS_POINTS_PER_UNIT)) (\<lambda>fraction.
     rbind (dec_sub D 1 fraction) (\<lambda>below.
     rbind (dec_mul D mid below) (\<lambda>bid_floor.
     rbind (dec_add D 1 fraction) (\<lambda>above.
     rbind (dec_mul D mid above) (\<lambda>ask_ceiling.
     rbind (side_depth D (takeWhile (\<lambda>(p, _). p \<ge> bid_floor) (rev (lb_bids b)))) (\<lambda>(bq, bn).
     rbind (side_depth D (takeWhile (\<lambda>(p, _). p \<le> ask_ceiling) (lb_asks b))) (\<lambda>(aq, an).
     Inr \<lparr> dm_bid_quantity = bq, dm_ask_quantity = aq,
           dm_bid_notional = bn, dm_ask_notional = an \<rparr>)))))))"

text \<open>\<open>nth(n)\<close>, else the fallback entry, else \<open>mid\<close>.\<close>

definition edge_price ::
    "(decimal \<times> Level2BookLevel) list \<Rightarrow> nat \<Rightarrow> (decimal \<times> Level2BookLevel) option \<Rightarrow>
      decimal \<Rightarrow> decimal" where
  "edge_price ls n fallback mid =
     (if n < length ls then fst (ls ! n)
      else case fallback of Some (p, _) \<Rightarrow> p | None \<Rightarrow> mid)"

definition depth_slope ::
    "decimal_ops \<Rightarrow> OkxLevel2Book \<Rightarrow> decimal \<Rightarrow> nat \<Rightarrow> 'e fault + OkxDepthSlope" where
  "depth_slope D b mid levels =
     rbind (sum_quantity D (take levels (rev (lb_bids b)))) (\<lambda>bid_quantity.
     rbind (sum_quantity D (take levels (lb_asks b))) (\<lambda>ask_quantity.
     let bid_edge = edge_price (rev (lb_bids b)) (levels - 1) (bt_first (lb_bids b)) mid;
         ask_edge = edge_price (lb_asks b) (levels - 1) (bt_last (lb_asks b)) mid;
         scale = of_nat BASIS_POINTS_PER_UNIT
     in
     rbind (dec_sub D mid bid_edge) (\<lambda>bid_distance.
     rbind (dec_mul D bid_distance scale) (\<lambda>bid_numerator.
     rbind (dec_mul D mid bid_quantity) (\<lambda>bid_denominator.
     rbind (positive_ratio D bid_numerator bid_denominator) (\<lambda>bid_slope.
     rbind (dec_sub D ask_edge mid) (\<lambda>ask_distance.
     rbind (dec_mul D ask_distance scale) (\<lambda>ask_numerator.
     rbind (dec_mul D mid ask_quantity) (\<lambda>ask_denominator.
     rbind (positive_ratio D ask_numerator ask_denominator) (\<lambda>ask_slope.
     Inr \<lparr> ds_bid_bps_per_base_unit = bid_slope,
           ds_ask_bps_per_base_unit = ask_slope \<rparr>))))))))))"

definition liquidity_vacuum :: "decimal_ops \<Rightarrow> OkxLevel2Book \<Rightarrow> 'e fault + decimal" where
  "liquidity_vacuum D b =
     rbind (sum_notional D (take 5 (rev (lb_bids b)))) (\<lambda>near_bid.
     rbind (sum_notional D (take 5 (lb_asks b))) (\<lambda>near_ask.
     rbind (sum_notional D (take 50 (rev (lb_bids b)))) (\<lambda>deep_bid.
     rbind (sum_notional D (take 50 (lb_asks b))) (\<lambda>deep_ask.
     rbind (positive_ratio D near_bid deep_bid) (\<lambda>bid_share.
     rbind (positive_ratio D near_ask deep_ask) (\<lambda>ask_share.
     rbind (dec_sub D 1 (min bid_share ask_share)) (\<lambda>v.
     Inr (max 0 (min 1 v)))))))))"

section \<open>Rolling features\<close>

definition elapsed_micros :: "instant \<Rightarrow> instant \<Rightarrow> nat" where
  "elapsed_micros later earlier = min ((later - earlier) div 1000) u64_max"

definition imbalance_velocity ::
    "decimal_ops \<Rightarrow> RollingFeaturePoint list \<Rightarrow> decimal \<Rightarrow> instant \<Rightarrow> 'e fault + decimal" where
  "imbalance_velocity D points imbalance_l10 received_at =
     (if points = [] then Inr 0
      else
        let previous = last points; elapsed = elapsed_micros received_at (rp_received_at previous) in
        if elapsed = 0 then Inr 0
        else
          rbind (dec_sub D imbalance_l10 (rp_imbalance_l10 previous)) (\<lambda>d.
          rbind (dec_mul D d 1000000) (\<lambda>x.
          dec_div D x (of_nat elapsed))))"

definition imbalance_persistence ::
    "decimal_ops \<Rightarrow> RollingFeaturePoint list \<Rightarrow> decimal \<Rightarrow> 'e fault + decimal" where
  "imbalance_persistence D points imbalance_l10 =
     (let current_sign = decimal_sign imbalance_l10;
          (observed, matching) =
            foldl (\<lambda>(observed, matching) point.
                let sign = decimal_sign (rp_imbalance_l10 point) in
                if sign \<noteq> 0 then
                  (observed + 1, matching + (if sign = current_sign then 1 else 0))
                else (observed, matching))
              (0 :: nat, 0 :: nat) points;
          (observed, matching) =
            (if current_sign \<noteq> 0 then (observed + 1, matching + 1) else (observed, matching))
      in if observed = 0 then Inr 0 else dec_div D (of_nat matching) (of_nat observed))"

text \<open>The loop over the points and the closing \<open>if let\<close>: the current mid is one more point.\<close>

definition volatility_step ::
    "decimal_ops \<Rightarrow> decimal \<times> nat \<times> decimal option \<Rightarrow> decimal \<Rightarrow>
      'e fault + decimal \<times> nat \<times> decimal option" where
  "volatility_step D = (\<lambda>(vsum, count, previous_mid) mid.
     (case previous_mid of
        None \<Rightarrow> Inr (vsum, count, Some mid)
      | Some previous \<Rightarrow>
          rbind (absolute_return_bps D previous mid) (\<lambda>r.
          rbind (dec_add D vsum r) (\<lambda>s.
          Inr (s, count + 1, Some mid)))))"

definition book_volatility ::
    "decimal_ops \<Rightarrow> RollingFeaturePoint list \<Rightarrow> decimal \<Rightarrow> 'e fault + decimal" where
  "book_volatility D points mid =
     rbind (try_fold (volatility_step D) (0, 0, None) (map rp_mid points @ [mid]))
       (\<lambda>(vsum, count, _). if count = 0 then Inr 0 else dec_div D vsum (of_nat count))"

definition push_point ::
    "RollingFeaturePoint list \<Rightarrow> RollingFeaturePoint \<Rightarrow> RollingFeaturePoint list" where
  "push_point points p =
     (if length points = FEATURE_ROLLING_WINDOW then tl points else points) @ [p]"

definition rolling_features ::
    "decimal_ops \<Rightarrow> OkxLevel2Book \<Rightarrow> decimal \<Rightarrow> decimal \<Rightarrow> instant \<Rightarrow>
      ('e fault + decimal \<times> decimal \<times> decimal) \<times> OkxLevel2Book" where
  "rolling_features D b mid imbalance_l10 received_at =
     (let points = lb_rolling b in
      case rbind (imbalance_velocity D points imbalance_l10 received_at) (\<lambda>velocity.
           rbind (imbalance_persistence D points imbalance_l10) (\<lambda>persistence.
           rbind (book_volatility D points mid) (\<lambda>volatility.
           Inr (velocity, persistence, volatility)))) of
        Inl e \<Rightarrow> (Inl e, b)
      | Inr v \<Rightarrow>
          (Inr v, b\<lparr> lb_rolling := push_point points
                     \<lparr> rp_mid = mid, rp_imbalance_l10 = imbalance_l10,
                       rp_received_at = received_at \<rparr> \<rparr>))"

section \<open>The feature snapshot\<close>

text \<open>
  \<open>calculate_features\<close> in three parts: what it computes before \<open>rolling_features\<close> mutates the book,
  that mutation, and what the struct literal still computes after it.
\<close>

record feature_prelude =
  fp_best_bid :: decimal
  fp_best_ask :: decimal
  fp_spread :: decimal
  fp_mid :: decimal
  fp_classic :: decimal
  fp_imbalances :: "decimal list"
  fp_distance_weighted :: decimal
  fp_multi_level :: decimal
  fp_near :: OkxNearBookDepth
  fp_slope :: OkxDepthSlope
  fp_vacuum :: decimal

definition features_before ::
    "decimal_ops \<Rightarrow> OkxLevel2Book \<Rightarrow> OkxLevel2BookError fault + feature_prelude" where
  "features_before D b =
     rbind (ok_or (Fail EmptySide) (bt_last (lb_bids b))) (\<lambda>(best_bid, best_bid_level).
     rbind (ok_or (Fail EmptySide) (bt_first (lb_asks b))) (\<lambda>(best_ask, best_ask_level).
     rbind (dec_sub D best_ask best_bid) (\<lambda>spread.
     rbind (dec_add D best_ask best_bid) (\<lambda>total_price.
     rbind (dec_div D total_price 2) (\<lambda>mid.
     rbind (dec_add D (l2l_quantity best_bid_level) (l2l_quantity best_ask_level)) (\<lambda>top_quantity.
     rbind (ensure (\<not> top_quantity \<le> 0) (Fail (ZeroDenominator ''classic microprice''))) (\<lambda>_.
     rbind (dec_mul D best_ask (l2l_quantity best_bid_level)) (\<lambda>x.
     rbind (dec_mul D best_bid (l2l_quantity best_ask_level)) (\<lambda>y.
     rbind (dec_add D x y) (\<lambda>z.
     rbind (dec_div D z top_quantity) (\<lambda>classic.
     rbind (try_map (imbalance D b) [1, 3, 5, 10, 25, 50, 100, 200, 400]) (\<lambda>imbalances.
     rbind (distance_weighted_imbalance D b) (\<lambda>dwi.
     rbind (dec_mul D spread dwi) (\<lambda>t.
     rbind (dec_div D t 2) (\<lambda>h.
     rbind (dec_add D mid h) (\<lambda>multi.
     rbind (near_book_depth D b 10) (\<lambda>near.
     rbind (depth_slope D b mid 10) (\<lambda>slope.
     rbind (liquidity_vacuum D b) (\<lambda>vacuum.
     Inr \<lparr> fp_best_bid = best_bid, fp_best_ask = best_ask, fp_spread = spread, fp_mid = mid,
           fp_classic = classic, fp_imbalances = imbalances, fp_distance_weighted = dwi,
           fp_multi_level = multi, fp_near = near, fp_slope = slope,
           fp_vacuum = vacuum \<rparr>)))))))))))))))))))"

definition features_after ::
    "decimal_ops \<Rightarrow> OkxLevel2Book \<Rightarrow> OkxLevel2Update \<Rightarrow> instant \<Rightarrow> instant \<Rightarrow> feature_prelude \<Rightarrow>
      decimal \<times> decimal \<times> decimal \<Rightarrow> OkxLevel2BookError fault + OkxLevel2FeatureSnapshot" where
  "features_after D b u book_applied_at features_ready_at p = (\<lambda>(velocity, persistence, volatility).
     rbind (dec_sub D (fp_multi_level p) (fp_mid p)) (\<lambda>displacement.
     rbind (notional_imbalance D b OKX_LEVEL2_MAX_DEPTH) (\<lambda>notional.
     rbind (depth_to_move D b (fp_mid p) 1) (\<lambda>move1.
     rbind (depth_to_move D b (fp_mid p) 2) (\<lambda>move2.
     rbind (depth_to_move D b (fp_mid p) 5) (\<lambda>move5.
     rbind (depth_to_move D b (fp_mid p) 10) (\<lambda>move10.
     Inr \<lparr> fs_instrument_id = lb_instrument_id b, fs_epoch = lb_epoch b,
           fs_generation = lb_generation b, fs_sequence_id = l2_sequence_id (lu2_data u),
           fs_exchange_ts_ms = l2_ts (lu2_data u), fs_received_at = lu2_received_at u,
           fs_parsed_at = lu2_parsed_at u, fs_book_applied_at = book_applied_at,
           fs_features_ready_at = features_ready_at, fs_bid_level_count = length (lb_bids b),
           fs_ask_level_count = length (lb_asks b), fs_best_bid = fp_best_bid p,
           fs_best_ask = fp_best_ask p, fs_mid = fp_mid p, fs_spread = fp_spread p,
           fs_classic_microprice = fp_classic p, fs_multi_level_microprice = fp_multi_level p,
           fs_microprice_displacement = displacement,
           fs_imbalance_l1 = fp_imbalances p ! 0, fs_imbalance_l3 = fp_imbalances p ! 1,
           fs_imbalance_l5 = fp_imbalances p ! 2, fs_imbalance_l10 = fp_imbalances p ! 3,
           fs_imbalance_l25 = fp_imbalances p ! 4, fs_imbalance_l50 = fp_imbalances p ! 5,
           fs_imbalance_l100 = fp_imbalances p ! 6, fs_imbalance_l200 = fp_imbalances p ! 7,
           fs_imbalance_l400 = fp_imbalances p ! 8,
           fs_distance_weighted_imbalance = fp_distance_weighted p,
           fs_notional_imbalance = notional, fs_near_book_depth = fp_near p,
           fs_depth_move_1bps = move1, fs_depth_move_2bps = move2, fs_depth_move_5bps = move5,
           fs_depth_move_10bps = move10, fs_depth_slope = fp_slope p,
           fs_liquidity_vacuum = fp_vacuum p, fs_imbalance_velocity_per_second = velocity,
           fs_imbalance_persistence = persistence,
           fs_short_horizon_book_volatility_bps = volatility \<rparr>)))))))"

definition calculate_features ::
    "decimal_ops \<Rightarrow> OkxLevel2Book \<Rightarrow> OkxLevel2Update \<Rightarrow> instant \<Rightarrow> instant \<Rightarrow>
      (OkxLevel2BookError fault + OkxLevel2FeatureSnapshot) \<times> OkxLevel2Book" where
  "calculate_features D b u book_applied_at features_ready_at =
     (case features_before D b of
        Inl e \<Rightarrow> (Inl e, b)
      | Inr p \<Rightarrow>
          let (r, b) = rolling_features D b (fp_mid p) (fp_imbalances p ! 3) (lu2_received_at u) in
          (case r of
             Inl e \<Rightarrow> (Inl e, b)
           | Inr rolling \<Rightarrow> (features_after D b u book_applied_at features_ready_at p rolling, b)))"

section \<open>The book\<close>

definition level2_new :: "OkxSpotInstrumentId \<Rightarrow> OkxLevel2Book" where
  "level2_new i =
     \<lparr> lb_instrument_id = i, lb_bids = [], lb_asks = [], lb_valid = False, lb_epoch = 0,
       lb_generation = 0, lb_sequence_id = None, lb_features = None, lb_rolling = [] \<rparr>"

definition invalidate :: "OkxLevel2Book \<Rightarrow> OkxLevel2Book" where
  "invalidate b =
     b\<lparr> lb_bids := [], lb_asks := [], lb_valid := False, lb_sequence_id := None,
        lb_features := None, lb_rolling := [] \<rparr>"

definition features_of :: "OkxLevel2Book \<Rightarrow> OkxLevel2FeatureSnapshot option" where
  "features_of b = (if lb_valid b then lb_features b else None)"

definition finish_features ::
    "decimal_ops \<Rightarrow> (nat \<Rightarrow> instant) \<Rightarrow> OkxLevel2Book \<Rightarrow> OkxLevel2Update \<Rightarrow>
      (OkxLevel2BookError fault + OkxLevel2ApplyOutcome) \<times> OkxLevel2Book" where
  "finish_features D observe_now b u =
     (let (r, b) = calculate_features D b u (observe_now 0) (observe_now 1) in
      case r of
        Inl e \<Rightarrow> (Inl e, b)
      | Inr f \<Rightarrow> (Inr (Features f), b\<lparr> lb_features := Some f \<rparr>))"

text \<open>\<open>Err(error) => \{ self.invalidate(); Err(error) \}\<close>; a panic unwinds past it.\<close>

definition finish_or_invalidate ::
    "decimal_ops \<Rightarrow> (nat \<Rightarrow> instant) \<Rightarrow> OkxLevel2Book \<Rightarrow> OkxLevel2Update \<Rightarrow>
      (OkxLevel2BookError fault + OkxLevel2ApplyOutcome) \<times> OkxLevel2Book" where
  "finish_or_invalidate D observe_now b u =
     (let (r, b) = finish_features D observe_now b u in
      case r of
        Inr outcome \<Rightarrow> (Inr outcome, b)
      | Inl Panic \<Rightarrow> (Inl Panic, b)
      | Inl (Fail e) \<Rightarrow> (Inl (Fail e), invalidate b))"

definition snapshot_sides :: "OkxLevel2Data \<Rightarrow> OkxLevel2BookError + level2_side \<times> level2_side" where
  "snapshot_sides d =
     rbind (ensure (\<not> (length (l2_asks d) > OKX_LEVEL2_MAX_DEPTH \<or>
                       length (l2_bids d) > OKX_LEVEL2_MAX_DEPTH)) DepthOverflow) (\<lambda>_.
     rbind (build_snapshot_side (l2_bids d)) (\<lambda>bids.
     rbind (build_snapshot_side (l2_asks d)) (\<lambda>asks.
     rbind (validate_book bids asks) (\<lambda>_.
     Inr (bids, asks)))))"

definition apply_snapshot ::
    "decimal_ops \<Rightarrow> (nat \<Rightarrow> instant) \<Rightarrow> OkxLevel2Book \<Rightarrow> OkxLevel2Update \<Rightarrow>
      (OkxLevel2BookError fault + OkxLevel2ApplyOutcome) \<times> OkxLevel2Book" where
  "apply_snapshot D observe_now b u =
     (case snapshot_sides (lu2_data u) of
        Inl e \<Rightarrow> (Inl (Fail e), invalidate b)
      | Inr (bids, asks) \<Rightarrow>
          finish_or_invalidate D observe_now
            (b\<lparr> lb_bids := bids, lb_asks := asks, lb_valid := True,
                lb_epoch := sat_succ (lb_epoch b), lb_generation := sat_succ (lb_generation b),
                lb_sequence_id := Some (l2_sequence_id (lu2_data u)), lb_rolling := [] \<rparr>) u)"

definition increment_sides ::
    "OkxLevel2Book \<Rightarrow> OkxLevel2Data \<Rightarrow> OkxLevel2BookError + level2_side \<times> level2_side" where
  "increment_sides b d =
     rbind (level2_apply_side (lb_bids b) (l2_bids d)) (\<lambda>bids.
     rbind (level2_apply_side (lb_asks b) (l2_asks d)) (\<lambda>asks.
     let bids = trim_to_depth bids Bid; asks = trim_to_depth asks Ask in
     rbind (validate_book bids asks) (\<lambda>_.
     Inr (bids, asks))))"

definition apply_increment ::
    "decimal_ops \<Rightarrow> (nat \<Rightarrow> instant) \<Rightarrow> OkxLevel2Book \<Rightarrow> OkxLevel2Update \<Rightarrow>
      (OkxLevel2BookError fault + OkxLevel2ApplyOutcome) \<times> OkxLevel2Book" where
  "apply_increment D observe_now b u =
     (let d = lu2_data u in
      if \<not> lb_valid b then (Inl (Fail UpdateBeforeSnapshot), b)
      else case lb_sequence_id b of
        None \<Rightarrow> (Inl (Fail UpdateBeforeSnapshot), b)
      | Some current_sequence \<Rightarrow>
          if l2_asks d = [] \<and> l2_bids d = [] \<and> l2_sequence_id d = current_sequence \<and>
             l2_previous_sequence_id d = current_sequence
          then (Inr Heartbeat, b)
          else if l2_previous_sequence_id d \<noteq> current_sequence then
            (Inl (Fail (SequenceGap current_sequence (l2_previous_sequence_id d)
               (l2_sequence_id d))), invalidate b)
          else if l2_sequence_id d \<le> current_sequence then
            (Inl (Fail (RegressingSequence current_sequence (l2_sequence_id d))), invalidate b)
          else
            (case increment_sides b d of
               Inl e \<Rightarrow> (Inl (Fail e), invalidate b)
             | Inr (bids, asks) \<Rightarrow>
                 finish_or_invalidate D observe_now
                   (b\<lparr> lb_bids := bids, lb_asks := asks,
                       lb_generation := sat_succ (lb_generation b),
                       lb_sequence_id := Some (l2_sequence_id d) \<rparr>) u))"

definition apply_with_clock ::
    "decimal_ops \<Rightarrow> (nat \<Rightarrow> instant) \<Rightarrow> OkxLevel2Book \<Rightarrow> OkxLevel2Update \<Rightarrow>
      (OkxLevel2BookError fault + OkxLevel2ApplyOutcome) \<times> OkxLevel2Book" where
  "apply_with_clock D observe_now b u =
     (if lu2_instrument_id u \<noteq> lb_instrument_id b then
        (Inl (Fail (L2_InstrumentMismatch (lb_instrument_id b) (lu2_instrument_id u))), b)
      else case lu2_action u of
        Snapshot \<Rightarrow> apply_snapshot D observe_now b u
      | Update \<Rightarrow> apply_increment D observe_now b u)"

definition level2_apply ::
    "decimal_ops \<Rightarrow> OkxLevel2Book \<Rightarrow> OkxLevel2Update \<Rightarrow>
      (OkxLevel2BookError fault + OkxLevel2ApplyOutcome) \<times> OkxLevel2Book" where
  "level2_apply D b u = apply_with_clock D (\<lambda>_. lu2_parsed_at u) b u"

definition is_sequence_gap :: "OkxLevel2BookError \<Rightarrow> bool" where
  "is_sequence_gap e = (case e of SequenceGap _ _ _ \<Rightarrow> True | _ \<Rightarrow> False)"

definition is_stale_rejection :: "OkxLevel2BookError \<Rightarrow> bool" where
  "is_stale_rejection e = (case e of RegressingSequence _ _ \<Rightarrow> True | _ \<Rightarrow> False)"

section \<open>Lemmas on sides\<close>

definition level2_level_of :: "OkxLevel2Level \<Rightarrow> Level2BookLevel" where
  "level2_level_of u = \<lparr> l2l_quantity = lv_quantity u, l2l_order_count = lv_order_count u \<rparr>"

definition positive_side :: "level2_side \<Rightarrow> bool" where
  "positive_side s = (bt_ok s \<and> (\<forall>(p, l)\<in>set s. 0 < p \<and> 0 < l2l_quantity l))"

lemma positive_side_Nil [simp]: "positive_side []"
  by (simp add: positive_side_def)

lemma positive_side_get:
  "positive_side s \<longleftrightarrow>
    bt_ok s \<and> (\<forall>p l. bt_get s p = Some l \<longrightarrow> 0 < p \<and> 0 < l2l_quantity l)"
  by (auto simp: positive_side_def bt_get_iff_mem)

lemma positive_side_put:
  "positive_side s \<Longrightarrow> 0 < p \<Longrightarrow> 0 < l2l_quantity l \<Longrightarrow> positive_side (bt_put p l s)"
  by (auto simp: positive_side_get bt_ok_put bt_get_put)

lemma positive_side_del: "positive_side s \<Longrightarrow> positive_side (bt_del p s)"
  by (auto simp: positive_side_get bt_ok_del bt_get_del)

lemma build_snapshot_side_ok:
  assumes "build_snapshot_side us = Inr s" and "\<forall>u\<in>set us. level_wf u"
  shows "positive_side s"
proof (rule try_fold_invariant [OF assms(1) [unfolded build_snapshot_side_def]])
  fix s u s' assume "u \<in> set us" "positive_side s" "build_snapshot_step s u = Inr s'"
  then show "positive_side s'"
    using assms(2)
    by (auto simp: build_snapshot_step_def Let_def bt_insert_def level_wf_def
        intro!: positive_side_put split: if_splits dest!: bspec)
qed simp

lemma build_snapshot_side_length:
  "try_fold build_snapshot_step s us = Inr s' \<Longrightarrow> length s' \<le> length s + length us"
proof (induction us arbitrary: s)
  case (Cons u us)
  then obtain t where t: "build_snapshot_step s u = Inr t" "try_fold build_snapshot_step t us = Inr s'"
    by (auto simp: rbind_eq_Inr)
  have "length t \<le> Suc (length s)"
    using t(1) bt_length_put [of "lv_price u" _ s]
    by (auto simp: build_snapshot_step_def bt_insert_def Let_def split: if_splits)
  with Cons.IH [OF t(2)] show ?case by simp
qed simp

text \<open>
  An accepted run of increments: every price at most once, every removed price known, and the side
  changed at exactly the prices of the event.
\<close>

definition level2_effect ::
    "OkxLevel2Level list \<Rightarrow> (decimal \<rightharpoonup> Level2BookLevel) \<Rightarrow> decimal \<rightharpoonup> Level2BookLevel" where
  "level2_effect us m p =
     (case find (\<lambda>u. lv_price u = p) us of
        None \<Rightarrow> m p
      | Some u \<Rightarrow> if lv_quantity u = 0 then None else Some (level2_level_of u))"

lemma level2_apply_step_Inr:
  assumes "level2_apply_step (seen, s) u = Inr (seen', s')" and "bt_ok s" and "bt_ok seen"
  shows "bt_ok s' \<and> bt_ok seen' \<and> lv_price u \<notin> dom (bt_get seen) \<and>
    dom (bt_get seen') = insert (lv_price u) (dom (bt_get seen)) \<and>
    (lv_quantity u = 0 \<longrightarrow> lv_price u \<in> dom (bt_get s)) \<and>
    bt_get s' = level2_effect [u] (bt_get s)"
  using assms
  by (auto simp: level2_apply_step_def bt_insert_def bt_remove_def Let_def bt_ok_put bt_ok_del
      bt_get_put bt_get_del level2_effect_def level2_level_of_def fun_eq_iff split: if_splits)

lemma level2_apply_fold:
  assumes "try_fold level2_apply_step (seen, s) us = Inr (seen', s')" and "bt_ok s" and "bt_ok seen"
  shows "bt_ok s' \<and> distinct (map lv_price us) \<and>
    (\<forall>u\<in>set us. lv_price u \<notin> dom (bt_get seen) \<and>
       (lv_quantity u = 0 \<longrightarrow> lv_price u \<in> dom (bt_get s))) \<and>
    bt_get s' = level2_effect us (bt_get s)"
  using assms
proof (induction us arbitrary: seen s)
  case Nil
  then show ?case by (auto simp: level2_effect_def)
next
  case (Cons u us)
  then obtain seen1 s1 where step: "level2_apply_step (seen, s) u = Inr (seen1, s1)"
    and rest: "try_fold level2_apply_step (seen1, s1) us = Inr (seen', s')"
    by (auto simp: rbind_eq_Inr)
  note one = level2_apply_step_Inr [OF step Cons.prems(2,3)]
  have ih: "bt_ok s' \<and> distinct (map lv_price us) \<and>
      (\<forall>u\<in>set us. lv_price u \<notin> dom (bt_get seen1) \<and>
         (lv_quantity u = 0 \<longrightarrow> lv_price u \<in> dom (bt_get s1))) \<and>
      bt_get s' = level2_effect us (bt_get s1)"
    using Cons.IH [OF rest] one by blast
  have fresh: "lv_price u \<notin> lv_price ` set us" using ih one by auto
  have other: "bt_get s1 p = bt_get s p" if "p \<noteq> lv_price u" for p
    using one that by (simp add: level2_effect_def)
  have "bt_get s' = level2_effect (u # us) (bt_get s)"
  proof
    fix p
    show "bt_get s' p = level2_effect (u # us) (bt_get s) p"
    proof (cases "p = lv_price u")
      case True
      then have "find (\<lambda>w. lv_price w = p) us = None"
        using fresh by (auto simp: find_None_iff image_iff)
      with True ih one show ?thesis by (simp add: level2_effect_def)
    next
      case False
      with ih other show ?thesis by (auto simp: level2_effect_def split: option.splits)
    qed
  qed
  moreover have "\<forall>w\<in>set us. lv_quantity w = 0 \<longrightarrow> lv_price w \<in> dom (bt_get s)"
    using ih other fresh by (metis domIff image_eqI)
  ultimately show ?case using ih one fresh by auto
qed

lemma level2_apply_side_Inr:
  assumes "level2_apply_side s us = Inr s'" and "bt_ok s"
  shows "bt_ok s' \<and> distinct (map lv_price us) \<and>
    (\<forall>u\<in>set us. lv_quantity u = 0 \<longrightarrow> lv_price u \<in> dom (bt_get s)) \<and>
    bt_get s' = level2_effect us (bt_get s)"
  using assms level2_apply_fold [of "[]" s us]
  by (auto simp: level2_apply_side_def rbind_eq_Inr)

lemma level2_apply_side_positive:
  assumes "level2_apply_side s us = Inr s'" and "positive_side s" and "\<forall>u\<in>set us. level_wf u"
  shows "positive_side s'"
  using level2_apply_side_Inr [OF assms(1)] assms(2,3)
  by (force simp: positive_side_get level2_effect_def level2_level_of_def level_wf_def find_Some_iff
      split: option.splits if_splits)

text \<open>Trimming drops the levels farthest from the market: the lowest bids, the highest asks.\<close>

lemma bt_del_hd: "bt_del k ((k, v) # m) = m"
  by simp

lemma bt_del_last: "bt_ok (m @ [(k, v)]) \<Longrightarrow> bt_del k (m @ [(k, v)]) = m"
  by (induction m) (auto simp: bt_ok_Cons)

lemma trim_to_depth_Bid:
  "bt_ok s \<Longrightarrow> trim_to_depth s Bid = drop (length s - OKX_LEVEL2_MAX_DEPTH) s"
proof (induction "length s" arbitrary: s)
  case 0
  then show ?case by (simp add: trim_to_depth.simps)
next
  case (Suc n)
  then obtain k v m where s: "s = (k, v) # m" by (cases s) auto
  show ?case
  proof (cases "length s > OKX_LEVEL2_MAX_DEPTH")
    case True
    have "trim_to_depth s Bid = trim_to_depth m Bid"
      using True by (simp add: s trim_to_depth.simps [of "(k, v) # m"] trim_price_def bt_first_def
          bt_remove_def)
    also have "\<dots> = drop (length m - OKX_LEVEL2_MAX_DEPTH) m"
      using Suc.hyps Suc.prems by (auto simp: s bt_ok_Cons)
    finally show ?thesis using True by (simp add: s Suc_diff_le)
  next
    case False
    then show ?thesis by (simp add: trim_to_depth.simps)
  qed
qed

lemma trim_to_depth_Ask: "bt_ok s \<Longrightarrow> trim_to_depth s Ask = take OKX_LEVEL2_MAX_DEPTH s"
proof (induction "length s" arbitrary: s)
  case 0
  then show ?case by (simp add: trim_to_depth.simps)
next
  case (Suc n)
  then obtain k v m where s: "s = m @ [(k, v)]"
    by (cases s rule: rev_cases) auto
  show ?case
  proof (cases "length s > OKX_LEVEL2_MAX_DEPTH")
    case True
    have "trim_to_depth s Ask = trim_to_depth m Ask"
      using True Suc.prems bt_del_last [of m k v]
      by (simp add: s trim_to_depth.simps [of "m @ [(k, v)]"] trim_price_def bt_last_def
          bt_remove_def)
    also have "\<dots> = take OKX_LEVEL2_MAX_DEPTH m"
      using Suc.hyps Suc.prems by (auto simp: s bt_ok_def sorted_wrt_append)
    finally show ?thesis using True by (simp add: s)
  next
    case False
    then show ?thesis by (simp add: trim_to_depth.simps)
  qed
qed

lemma bt_ok_drop: "bt_ok s \<Longrightarrow> bt_ok (drop n s)"
  by (simp add: bt_ok_def sorted_wrt_drop flip: drop_map)

lemma bt_ok_take: "bt_ok s \<Longrightarrow> bt_ok (take n s)"
  by (simp add: bt_ok_def sorted_wrt_take flip: take_map)

lemma trim_to_depth_positive:
  assumes "positive_side s"
  shows "positive_side (trim_to_depth s side) \<and> length (trim_to_depth s side) \<le> OKX_LEVEL2_MAX_DEPTH \<and>
    set (trim_to_depth s side) \<subseteq> set s"
proof -
  have "bt_ok s" using assms by (simp add: positive_side_def)
  with assms show ?thesis
    by (cases side)
      (auto simp: positive_side_def trim_to_depth_Bid trim_to_depth_Ask bt_ok_drop bt_ok_take
        dest: in_set_dropD in_set_takeD)
qed

lemma validate_book_Inr:
  "validate_book bids asks = Inr u \<longleftrightarrow>
    (\<exists>b l a m. bt_last bids = Some (b, l) \<and> bt_first asks = Some (a, m) \<and> b < a)"
  by (auto simp: validate_book_def rbind_eq_Inr not_le)

end
