(* ===== verification/Event_Delivery.thy ===== *)
theory Event_Delivery
  imports Okx_Types Latency_Metrics Level2_Book
begin

text \<open>
  \<open>okx/websocket/runtime_event.rs\<close>: how the streams hand events to the runtime.

  Public and private events travel in bounded queues and are never dropped: a sender waits for room for a
  bounded time and then fails, so that its stream fails.  Level-2 features travel in a watch cell that
  keeps the latest.  What the runtime takes from a full queue while a sender waits is the environment's:
  \<open>ec_takes\<close> says it for each wait, nothing when the list has ended.
\<close>

datatype OkxPublicRuntimeEventKind =
    PublicConfirmedCandle string int | PublicInstrumentUpdated string

datatype OkxPrivateRuntimeEventKind =
    PrivateOrder string string | PrivateFill string string | PrivateAlgoOrder string | PrivateAccount

record 'e event_channel =
  ec_capacity :: nat
  ec_queue :: "'e list"
  ec_open :: bool
  ec_takes :: "nat list"

definition event_channel_new :: "nat \<Rightarrow> 'e event_channel" where
  "event_channel_new capacity = \<lparr> ec_capacity = capacity, ec_queue = [], ec_open = True, ec_takes = [] \<rparr>"

datatype delivery = Delivered | ChannelClosed | DeliveryTimedOut

text \<open>
  \<open>sender.send(event)\<close> under the delivery timeout.  The receiver takes from the front; when it takes
  nothing in time the send is given up and the queue is as it was.
\<close>

definition send_within_timeout :: "'e \<Rightarrow> 'e event_channel \<Rightarrow> delivery \<times> 'e event_channel" where
  "send_within_timeout e c =
     (if \<not> ec_open c then (ChannelClosed, c)
      else if length (ec_queue c) < ec_capacity c then (Delivered, c\<lparr> ec_queue := ec_queue c @ [e] \<rparr>)
      else
        (case ec_takes c of
           [] \<Rightarrow> (DeliveryTimedOut, c)
         | n # takes \<Rightarrow>
             let queue = drop n (ec_queue c) in
             if length queue < ec_capacity c
             then (Delivered, c\<lparr> ec_queue := queue @ [e], ec_takes := takes \<rparr>)
             else (DeliveryTimedOut, c\<lparr> ec_queue := queue, ec_takes := takes \<rparr>)))"

record OkxLevel2RuntimeEvent =
  l2e_event_generation :: u64
  l2e_features :: OkxLevel2FeatureSnapshot

record OkxRuntimeEventReporter =
  rr_public :: "OkxPublicRuntimeEventKind event_channel"
  rr_private :: "OkxPrivateRuntimeEventKind event_channel"
  rr_level2 :: "OkxLevel2RuntimeEvent option"
  rr_level2_open :: bool
  rr_latency :: OkxLatencyMetrics

definition reporter_channel :: "nat \<Rightarrow> nat \<Rightarrow> OkxLatencyMetrics \<Rightarrow> OkxRuntimeEventReporter" where
  "reporter_channel public_capacity private_capacity latency =
     \<lparr> rr_public = event_channel_new public_capacity, rr_private = event_channel_new private_capacity,
       rr_level2 = None, rr_level2_open = True, rr_latency = latency \<rparr>"

definition count_latency :: "(LatencyCounters \<Rightarrow> LatencyCounters) \<Rightarrow> OkxLatencyMetrics \<Rightarrow> OkxLatencyMetrics" where
  "count_latency f m = m\<lparr> lm_counters := f (lm_counters m) \<rparr>"

definition send_non_lossy ::
    "string \<Rightarrow> 'e \<Rightarrow> 'e event_channel \<Rightarrow> OkxLatencyMetrics \<Rightarrow> unit res \<times> 'e event_channel \<times> OkxLatencyMetrics" where
  "send_non_lossy context e c m =
     (case send_within_timeout e c of
        (Delivered, c') \<Rightarrow> (Inr (), c', m)
      | (ChannelClosed, c') \<Rightarrow> (Inl (Fail (Bad context ''bounded channel closed'')), c', m)
      | (DeliveryTimedOut, c') \<Rightarrow>
          (Inl (Fail (Bad context ''non-lossy event delivery failed'')), c',
           count_latency record_backpressure_incident m))"

definition report_public ::
    "OkxPublicRuntimeEventKind \<Rightarrow> OkxRuntimeEventReporter \<Rightarrow> unit res \<times> OkxRuntimeEventReporter" where
  "report_public e r =
     (case send_non_lossy ''public market event'' e (rr_public r) (rr_latency r) of
        (x, c, m) \<Rightarrow> (x, r\<lparr> rr_public := c, rr_latency := m \<rparr>))"

definition report_private ::
    "OkxPrivateRuntimeEventKind \<Rightarrow> OkxRuntimeEventReporter \<Rightarrow> unit res \<times> OkxRuntimeEventReporter" where
  "report_private e r =
     (case send_non_lossy ''private account/order event'' e (rr_private r) (rr_latency r) of
        (x, c, m) \<Rightarrow> (x, r\<lparr> rr_private := c, rr_latency := m \<rparr>))"

definition report_level2 :: "OkxLevel2FeatureSnapshot \<Rightarrow> OkxRuntimeEventReporter \<Rightarrow> OkxRuntimeEventReporter" where
  "report_level2 features r =
     (case record_market_event_produced (lm_counters (rr_latency r)) of
        (generation, counters) \<Rightarrow>
          let r = r\<lparr> rr_latency := (rr_latency r)\<lparr> lm_counters := counters \<rparr> \<rparr> in
          if rr_level2_open r
          then r\<lparr> rr_level2 := Some \<lparr> l2e_event_generation = generation, l2e_features = features \<rparr> \<rparr>
          else r\<lparr> rr_latency := count_latency record_market_event_dropped (rr_latency r) \<rparr>)"

text \<open>The reports of one message, one after the other until one fails.\<close>

fun report_each :: "('e \<Rightarrow> 'r \<Rightarrow> unit res \<times> 'r) \<Rightarrow> 'e list \<Rightarrow> 'r \<Rightarrow> unit res \<times> 'r" where
  "report_each f [] r = (Inr (), r)"
| "report_each f (e # es) r =
     (case f e r of (Inl x, r') \<Rightarrow> (Inl x, r') | (Inr _, r') \<Rightarrow> report_each f es r')"

section \<open>Lemmas\<close>

text \<open>
  What a queue has taken in is never lost and never reordered: the queue after a send is what the receiver
  left of the queue before it, with the event at its end exactly when it was delivered.
\<close>

lemma send_within_timeout_queue:
  assumes "send_within_timeout e c = (d, c')"
  shows "\<exists>n. ec_queue c' = drop n (ec_queue c) @ (if d = Delivered then [e] else []) \<and>
    ec_capacity c' = ec_capacity c \<and> ec_open c' = ec_open c \<and>
    (length (ec_queue c) \<le> ec_capacity c \<longrightarrow> length (ec_queue c') \<le> ec_capacity c)"
  using assms
  by (auto simp: send_within_timeout_def Let_def split: if_splits list.splits
      intro: exI [of _ 0] exI [of _ "length (ec_queue c)"] exI)

lemma report_private_queue:
  assumes "report_private e r = (x, r')"
  shows "\<exists>n. ec_queue (rr_private r') = drop n (ec_queue (rr_private r)) @ (if x = Inr () then [e] else []) \<and>
    rr_public r' = rr_public r \<and> rr_level2 r' = rr_level2 r"
  using assms
  by (auto simp: report_private_def send_non_lossy_def split: prod.splits delivery.splits
      dest!: send_within_timeout_queue)

lemma report_public_queue:
  assumes "report_public e r = (x, r')"
  shows "\<exists>n. ec_queue (rr_public r') = drop n (ec_queue (rr_public r)) @ (if x = Inr () then [e] else []) \<and>
    rr_private r' = rr_private r \<and> rr_level2 r' = rr_level2 r"
  using assms
  by (auto simp: report_public_def send_non_lossy_def split: prod.splits delivery.splits
      dest!: send_within_timeout_queue)

end
