(* ===== verification/Stream_Health.thy ===== *)
theory Stream_Health
  imports Okx_Types "HOL-Library.List_Lexorder"
begin

text \<open>
  \<open>okx/websocket/health.rs\<close> and \<open>app/websocket_health_tracker.rs\<close>: the health events of the WebSocket
  streams, their bounded delivery, the supervision of a stream task, and the tracker that decides when
  the streams are ready for trading.

  A duration is its number of nanoseconds.  Logging is left out, so an event that is dropped only
  leaves the queue as it is.
\<close>

section \<open>Events\<close>

datatype OkxWebsocketStreamKind = Public | Private | Business

datatype OkxWebsocketChannelClass =
    PublicMarketData | PublicCandles | PrivateTrading | PrivateAlgoOrders

datatype OkxWebsocketStreamIdentity =
    StreamIdentity (identity_kind: OkxWebsocketStreamKind)
      (identity_channel_class: OkxWebsocketChannelClass) (identity_instrument_count: nat)

datatype OkxWebsocketHealthEventKind =
    ConnectAttempt | Connected | LoginAckSucceeded | LoginFailed | SubscriptionAckSucceeded
  | SubscriptionAckFailed | ReconnectScheduled | StreamDisconnectedAfterSubscription
  | StreamFailedBeforeSubscription | StreamFailedAfterSubscription | StreamTaskPanicked
  | StreamTaskExitedUnexpectedly

record OkxWebsocketHealthEvent =
  he_kind :: OkxWebsocketHealthEventKind
  he_stream :: OkxWebsocketStreamIdentity
  he_reconnect_attempt :: "nat option"
  he_reconnect_backoff :: "nat option"

definition health_event_new ::
    "OkxWebsocketHealthEventKind \<Rightarrow> OkxWebsocketStreamIdentity \<Rightarrow> OkxWebsocketHealthEvent" where
  "health_event_new kind stream =
     \<lparr> he_kind = kind, he_stream = stream, he_reconnect_attempt = None, he_reconnect_backoff = None \<rparr>"

definition reconnect_scheduled ::
    "OkxWebsocketStreamIdentity \<Rightarrow> nat \<Rightarrow> nat \<Rightarrow> OkxWebsocketHealthEvent" where
  "reconnect_scheduled stream attempt backoff =
     \<lparr> he_kind = ReconnectScheduled, he_stream = stream, he_reconnect_attempt = Some attempt,
       he_reconnect_backoff = Some backoff \<rparr>"

definition stream_kind_as_str :: "OkxWebsocketStreamKind \<Rightarrow> string" where
  "stream_kind_as_str k =
     (case k of Public \<Rightarrow> ''public'' | Private \<Rightarrow> ''private'' | Business \<Rightarrow> ''business'')"

definition channel_class_as_str :: "OkxWebsocketChannelClass \<Rightarrow> string" where
  "channel_class_as_str c =
     (case c of PublicMarketData \<Rightarrow> ''public_market_data'' | PublicCandles \<Rightarrow> ''public_candles''
      | PrivateTrading \<Rightarrow> ''private_trading'' | PrivateAlgoOrders \<Rightarrow> ''private_algo_orders'')"

definition is_critical_websocket_health_event :: "OkxWebsocketHealthEventKind \<Rightarrow> bool" where
  "is_critical_websocket_health_event k =
     (k \<in> {LoginFailed, SubscriptionAckSucceeded, SubscriptionAckFailed,
           StreamDisconnectedAfterSubscription, StreamFailedBeforeSubscription,
           StreamFailedAfterSubscription, StreamTaskPanicked, StreamTaskExitedUnexpectedly})"

text \<open>The derived order of an identity: its fields in turn, each by the order of its variants.\<close>

definition stream_kind_index :: "OkxWebsocketStreamKind \<Rightarrow> nat" where
  "stream_kind_index k = (case k of Public \<Rightarrow> 0 | Private \<Rightarrow> 1 | Business \<Rightarrow> 2)"

definition channel_class_index :: "OkxWebsocketChannelClass \<Rightarrow> nat" where
  "channel_class_index c =
     (case c of PublicMarketData \<Rightarrow> 0 | PublicCandles \<Rightarrow> 1 | PrivateTrading \<Rightarrow> 2
      | PrivateAlgoOrders \<Rightarrow> 3)"

definition identity_key :: "OkxWebsocketStreamIdentity \<Rightarrow> nat list" where
  "identity_key s =
     [stream_kind_index (identity_kind s), channel_class_index (identity_channel_class s),
      identity_instrument_count s]"

lemma identity_key_inject [simp]: "identity_key s = identity_key t \<longleftrightarrow> s = t"
  by (cases s; cases t; rename_tac k c n l d m; case_tac k; case_tac l; case_tac c; case_tac d)
    (simp_all add: identity_key_def stream_kind_index_def channel_class_index_def)

instantiation OkxWebsocketStreamIdentity :: linorder
begin

definition less_eq_OkxWebsocketStreamIdentity ::
    "OkxWebsocketStreamIdentity \<Rightarrow> OkxWebsocketStreamIdentity \<Rightarrow> bool" where
  "less_eq_OkxWebsocketStreamIdentity s t = (identity_key s \<le> identity_key t)"

definition less_OkxWebsocketStreamIdentity ::
    "OkxWebsocketStreamIdentity \<Rightarrow> OkxWebsocketStreamIdentity \<Rightarrow> bool" where
  "less_OkxWebsocketStreamIdentity s t = (identity_key s < identity_key t)"

instance
  by standard
    (auto simp: less_eq_OkxWebsocketStreamIdentity_def less_OkxWebsocketStreamIdentity_def less_le
      intro: antisym)

end

section \<open>Bounded delivery\<close>

text \<open>
  A channel is its queue with its capacity; \<open>hc_open\<close> is false once the receiver is gone.
  \<open>report_critical\<close> waits for room for a bounded time: \<open>taken\<close> is what the receiver takes from the
  front of the queue in that time.
\<close>

record health_channel =
  hc_capacity :: nat
  hc_queue :: "OkxWebsocketHealthEvent list"
  hc_open :: bool

definition health_channel_new :: "nat \<Rightarrow> health_channel" where
  "health_channel_new capacity = \<lparr> hc_capacity = capacity, hc_queue = [], hc_open = True \<rparr>"

definition try_send_health :: "OkxWebsocketHealthEvent \<Rightarrow> health_channel \<Rightarrow> health_channel" where
  "try_send_health e ch =
     (if hc_open ch \<and> length (hc_queue ch) < hc_capacity ch
      then ch\<lparr> hc_queue := hc_queue ch @ [e] \<rparr> else ch)"

definition report_best_effort :: "OkxWebsocketHealthEvent \<Rightarrow> health_channel \<Rightarrow> health_channel" where
  "report_best_effort e ch = try_send_health e ch"

definition report_critical :: "nat \<Rightarrow> OkxWebsocketHealthEvent \<Rightarrow> health_channel \<Rightarrow> health_channel" where
  "report_critical taken e ch =
     try_send_health e
       (if length (hc_queue ch) < hc_capacity ch then ch
        else ch\<lparr> hc_queue := drop taken (hc_queue ch) \<rparr>)"

definition report_health_event :: "nat \<Rightarrow> OkxWebsocketHealthEvent \<Rightarrow> health_channel \<Rightarrow> health_channel" where
  "report_health_event taken e ch =
     (if is_critical_websocket_health_event (he_kind e) then report_critical taken e ch
      else report_best_effort e ch)"

text \<open>The supervisor's view of a finished stream task: \<open>Ok\<close>, or a join error.\<close>

datatype join_outcome = JoinCompleted | JoinPanicked | JoinCancelled

definition task_lifecycle_event_kind :: "join_outcome \<Rightarrow> OkxWebsocketHealthEventKind" where
  "task_lifecycle_event_kind outcome =
     (if outcome = JoinPanicked then StreamTaskPanicked else StreamTaskExitedUnexpectedly)"

definition supervise_websocket_task ::
    "join_outcome \<Rightarrow> bool \<Rightarrow> OkxWebsocketStreamIdentity \<Rightarrow> OkxWebsocketHealthEvent option" where
  "supervise_websocket_task outcome intentional_shutdown stream =
     (case outcome of
        JoinCompleted \<Rightarrow>
          if intentional_shutdown then None
          else Some (health_event_new StreamTaskExitedUnexpectedly stream)
      | _ \<Rightarrow>
          if intentional_shutdown \<and> outcome = JoinCancelled then None
          else Some (health_event_new (task_lifecycle_event_kind outcome) stream))"

section \<open>The tracker\<close>

record WebsocketHealthTracker =
  ht_expected_streams :: "OkxWebsocketStreamIdentity set"
  ht_mandatory_streams :: "OkxWebsocketStreamIdentity set"
  ht_ready_streams :: "OkxWebsocketStreamIdentity set"
  ht_ever_ready_streams :: "OkxWebsocketStreamIdentity set"
  ht_failed_before_ready_streams :: "OkxWebsocketStreamIdentity set"

definition health_tracker_new :: "OkxWebsocketStreamIdentity list \<Rightarrow> WebsocketHealthTracker" where
  "health_tracker_new streams =
     \<lparr> ht_expected_streams = set streams, ht_mandatory_streams = set streams,
       ht_ready_streams = {}, ht_ever_ready_streams = {}, ht_failed_before_ready_streams = {} \<rparr>"

definition record_ready :: "OkxWebsocketStreamIdentity \<Rightarrow> WebsocketHealthTracker \<Rightarrow> WebsocketHealthTracker"
where
  "record_ready stream t =
     t\<lparr> ht_ready_streams := insert stream (ht_ready_streams t),
        ht_ever_ready_streams := insert stream (ht_ever_ready_streams t),
        ht_failed_before_ready_streams := ht_failed_before_ready_streams t - {stream} \<rparr>"

definition record_unready :: "OkxWebsocketStreamIdentity \<Rightarrow> WebsocketHealthTracker \<Rightarrow> WebsocketHealthTracker"
where
  "record_unready stream t = t\<lparr> ht_ready_streams := ht_ready_streams t - {stream} \<rparr>"

definition record_failed :: "OkxWebsocketStreamIdentity \<Rightarrow> WebsocketHealthTracker \<Rightarrow> WebsocketHealthTracker"
where
  "record_failed stream t =
     (let t = record_unready stream t in
      if stream \<in> ht_ever_ready_streams t then t
      else t\<lparr> ht_failed_before_ready_streams := insert stream (ht_failed_before_ready_streams t) \<rparr>)"

definition record_health_event :: "OkxWebsocketHealthEvent \<Rightarrow> WebsocketHealthTracker \<Rightarrow> WebsocketHealthTracker"
where
  "record_health_event e t =
     (if he_stream e \<notin> ht_expected_streams t then t
      else case he_kind e of
        SubscriptionAckSucceeded \<Rightarrow> record_ready (he_stream e) t
      | LoginFailed \<Rightarrow> record_failed (he_stream e) t
      | SubscriptionAckFailed \<Rightarrow> record_failed (he_stream e) t
      | StreamFailedBeforeSubscription \<Rightarrow> record_failed (he_stream e) t
      | StreamTaskPanicked \<Rightarrow> record_failed (he_stream e) t
      | StreamTaskExitedUnexpectedly \<Rightarrow> record_failed (he_stream e) t
      | ConnectAttempt \<Rightarrow> record_unready (he_stream e) t
      | Connected \<Rightarrow> record_unready (he_stream e) t
      | LoginAckSucceeded \<Rightarrow> record_unready (he_stream e) t
      | ReconnectScheduled \<Rightarrow> record_unready (he_stream e) t
      | StreamDisconnectedAfterSubscription \<Rightarrow> record_unready (he_stream e) t
      | StreamFailedAfterSubscription \<Rightarrow> record_unready (he_stream e) t)"

text \<open>The message names how many mandatory streams failed and the first of them in their order.\<close>

definition failed_mandatory_streams :: "WebsocketHealthTracker \<Rightarrow> OkxWebsocketStreamIdentity list" where
  "failed_mandatory_streams t =
     filter (\<lambda>s. s \<in> ht_failed_before_ready_streams t \<and> s \<notin> ht_ready_streams t)
       (sorted_list_of_set (ht_mandatory_streams t))"

definition startup_readiness_error ::
    "WebsocketHealthTracker \<Rightarrow> (nat \<times> OkxWebsocketStreamIdentity) option" where
  "startup_readiness_error t =
     (case failed_mandatory_streams t of [] \<Rightarrow> None
      | first_failed # rest \<Rightarrow> Some (1 + length rest, first_failed))"

definition all_mandatory_streams_ready :: "WebsocketHealthTracker \<Rightarrow> bool" where
  "all_mandatory_streams_ready t = (ht_mandatory_streams t \<subseteq> ht_ready_streams t)"

definition websocket_task_lifecycle_error :: "OkxWebsocketHealthEvent \<Rightarrow> rt_error option" where
  "websocket_task_lifecycle_error e =
     (case he_kind e of
        StreamTaskPanicked \<Rightarrow> Some (Bad ''OKX WebSocket'' ''stream task panicked'')
      | StreamTaskExitedUnexpectedly \<Rightarrow>
          Some (Bad ''OKX WebSocket'' ''stream task exited unexpectedly'')
      | _ \<Rightarrow> None)"

section \<open>The tracker as a function of the events\<close>

definition track :: "OkxWebsocketStreamIdentity list \<Rightarrow> OkxWebsocketHealthEvent list \<Rightarrow> WebsocketHealthTracker"
where
  "track streams es = fold record_health_event es (health_tracker_new streams)"

definition failure_kind :: "OkxWebsocketHealthEventKind \<Rightarrow> bool" where
  "failure_kind k =
     (k \<in> {LoginFailed, SubscriptionAckFailed, StreamFailedBeforeSubscription, StreamTaskPanicked,
           StreamTaskExitedUnexpectedly})"

definition kinds_of :: "OkxWebsocketStreamIdentity \<Rightarrow> OkxWebsocketHealthEvent list \<Rightarrow> OkxWebsocketHealthEventKind list"
where
  "kinds_of s es = map he_kind (filter (\<lambda>e. he_stream e = s) es)"

text \<open>The stream is up: the last thing heard of it is that its subscription was acknowledged.\<close>

definition up_now :: "OkxWebsocketStreamIdentity \<Rightarrow> OkxWebsocketHealthEvent list \<Rightarrow> bool" where
  "up_now s es = (kinds_of s es \<noteq> [] \<and> last (kinds_of s es) = SubscriptionAckSucceeded)"

definition was_up :: "OkxWebsocketStreamIdentity \<Rightarrow> OkxWebsocketHealthEvent list \<Rightarrow> bool" where
  "was_up s es = (SubscriptionAckSucceeded \<in> set (kinds_of s es))"

definition failed_early :: "OkxWebsocketStreamIdentity \<Rightarrow> OkxWebsocketHealthEvent list \<Rightarrow> bool" where
  "failed_early s es = (\<not> was_up s es \<and> list_ex failure_kind (kinds_of s es))"

lemma kinds_of_snoc [simp]:
  "kinds_of s (es @ [e]) = kinds_of s es @ (if he_stream e = s then [he_kind e] else [])"
  by (simp add: kinds_of_def)

lemma track_snoc [simp]: "track streams (es @ [e]) = record_health_event e (track streams es)"
  by (simp add: track_def)

lemma track_fixed [simp]:
  "ht_expected_streams (track streams es) = set streams"
  "ht_mandatory_streams (track streams es) = set streams"
  by (induction es rule: rev_induct)
    (auto simp: track_def health_tracker_new_def record_health_event_def record_ready_def
      record_unready_def record_failed_def Let_def split: OkxWebsocketHealthEventKind.split)

lemma track_sets:
  "ht_ready_streams (track streams es) = {s \<in> set streams. up_now s es}"
  "ht_ever_ready_streams (track streams es) = {s \<in> set streams. was_up s es}"
  "ht_failed_before_ready_streams (track streams es) = {s \<in> set streams. failed_early s es}"
proof (induction es rule: rev_induct)
  case Nil
  {
    case 1 show ?case by (simp add: track_def health_tracker_new_def up_now_def kinds_of_def)
  next
    case 2 show ?case by (simp add: track_def health_tracker_new_def was_up_def kinds_of_def)
  next
    case 3 show ?case by (simp add: track_def health_tracker_new_def failed_early_def kinds_of_def)
  }
next
  case (snoc e es)
  note defs = record_health_event_def record_ready_def record_unready_def record_failed_def Let_def
    up_now_def was_up_def failed_early_def failure_kind_def
  {
    case 1 show ?case using snoc by (cases "he_kind e") (auto simp: defs)
  next
    case 2 show ?case using snoc by (cases "he_kind e") (auto simp: defs)
  next
    case 3 show ?case using snoc by (cases "he_kind e") (auto simp: defs)
  }
qed

section \<open>Properties\<close>

text \<open>
  C27: the incremental tracker agrees with its specification on the whole history of events.  The
  streams are ready exactly when the last event of each expected stream is a subscription
  acknowledgement; start-up is refused exactly when an expected stream failed and was never
  acknowledged, and the refusal counts exactly these streams.
\<close>
theorem health_tracker_matches_history:
  "(all_mandatory_streams_ready (track streams es) \<longleftrightarrow> list_all (\<lambda>s. up_now s es) streams) \<and>
   (startup_readiness_error (track streams es) = None \<longleftrightarrow>
      list_all (\<lambda>s. \<not> failed_early s es) streams) \<and>
   map_option fst (startup_readiness_error (track streams es)) \<in>
     {None, Some (card {s. s \<in> set streams \<and> failed_early s es})}"
proof -
  have up: "up_now s es \<Longrightarrow> \<not> failed_early s es" for s
    by (auto simp: up_now_def failed_early_def was_up_def dest: last_in_set)
  have f: "failed_mandatory_streams (track streams es) =
      filter (\<lambda>s. failed_early s es) (sorted_list_of_set (set streams))"
    unfolding failed_mandatory_streams_def track_fixed track_sets
    by (rule filter_cong) (use up in auto)
  have "length (failed_mandatory_streams (track streams es)) =
      card {s. s \<in> set streams \<and> failed_early s es}"
  proof -
    have "distinct (failed_mandatory_streams (track streams es))" by (simp add: f)
    from distinct_card [OF this] show ?thesis by (simp add: f Collect_conj_eq [symmetric] Int_def)
  qed
  moreover have "failed_mandatory_streams (track streams es) = [] \<longleftrightarrow>
      list_all (\<lambda>s. \<not> failed_early s es) streams"
    by (auto simp: f filter_empty_conv list_all_iff)
  ultimately show ?thesis
    by (auto simp: all_mandatory_streams_ready_def track_sets startup_readiness_error_def list_all_iff
        split: list.splits)
qed

end
