(* ===== verification/Stream_Config.thy ===== *)
theory Stream_Config
  imports Bot_Config Stream_Health Public_Protocol "HOL-Library.Char_ord"
begin

text \<open>
  The streams a validated configuration leads to: \<open>app/okx_stream_config.rs\<close> with the constructors it
  calls in \<open>okx/websocket.rs\<close> and \<open>okx/websocket/private.rs\<close>, the health identities the tracker is built
  from, and the reconnect policy.

  A duration is its number of milliseconds; \<open>Duration::saturating_mul\<close> saturates at the greatest
  duration, which is \<open>MAX_DURATION_MS\<close> here (\<open>u64::MAX\<close> seconds and a fraction).  A \<open>BTreeSet\<close> turned into
  a vector is \<open>sorted_list_of_set\<close> in the byte order of strings.  Credentials are three strings; that they
  are wiped from memory is not modelled.
\<close>

section \<open>Reconnecting\<close>

definition MAX_DURATION_MS :: nat where
  "MAX_DURATION_MS = u64_max * 1000 + 999"

record OkxWebsocketReconnectPolicy =
  rp_initial_backoff :: nat
  rp_max_backoff :: nat

definition default_reconnect_policy :: OkxWebsocketReconnectPolicy where
  "default_reconnect_policy = \<lparr> rp_initial_backoff = 500, rp_max_backoff = 10 * 1000 \<rparr>"

definition reconnect_policy_new :: "nat \<Rightarrow> nat \<Rightarrow> OkxWebsocketReconnectPolicy res" where
  "reconnect_policy_new initial_backoff max_backoff =
     rbind (require (initial_backoff \<noteq> 0) ''OKX WebSocket reconnect initial backoff''
              ''must be non-zero'') (\<lambda>_.
     rbind (require (max_backoff \<ge> initial_backoff) ''OKX WebSocket reconnect max backoff''
              ''must be greater than or equal to initial backoff'') (\<lambda>_.
     Inr \<lparr> rp_initial_backoff = initial_backoff, rp_max_backoff = max_backoff \<rparr>))"

definition next_backoff :: "OkxWebsocketReconnectPolicy \<Rightarrow> nat \<Rightarrow> nat" where
  "next_backoff p current = min (min (current * 2) MAX_DURATION_MS) (rp_max_backoff p)"

record OkxWebsocketStreamRunOutcome =
  so_subscribed :: bool
  so_error :: "rt_error option"

definition run_disconnected :: "bool \<Rightarrow> OkxWebsocketStreamRunOutcome" where
  "run_disconnected subscribed = \<lparr> so_subscribed = subscribed, so_error = None \<rparr>"

definition run_failed :: "bool \<Rightarrow> rt_error \<Rightarrow> OkxWebsocketStreamRunOutcome" where
  "run_failed subscribed e = \<lparr> so_subscribed = subscribed, so_error = Some e \<rparr>"

definition backoff_after_stream_run ::
    "OkxWebsocketReconnectPolicy \<Rightarrow> nat \<Rightarrow> OkxWebsocketStreamRunOutcome \<Rightarrow> nat" where
  "backoff_after_stream_run p current outcome =
     (if so_subscribed outcome then rp_initial_backoff p else next_backoff p current)"

section \<open>Market streams\<close>

definition OKX_PUBLIC_CANDLE_1S_CHANNEL :: string where "OKX_PUBLIC_CANDLE_1S_CHANNEL = ''candle1s''"
definition OKX_PUBLIC_CANDLE_1M_CHANNEL :: string where "OKX_PUBLIC_CANDLE_1M_CHANNEL = ''candle1m''"
definition OKX_PUBLIC_CANDLE_5M_CHANNEL :: string where "OKX_PUBLIC_CANDLE_5M_CHANNEL = ''candle5m''"
definition OKX_SPOT_INST_TYPE :: string where "OKX_SPOT_INST_TYPE = ''SPOT''"

definition okx_public_candle_channel_for_bar :: "string \<Rightarrow> string res" where
  "okx_public_candle_channel_for_bar bar =
     (if bar = ''1m'' then Inr OKX_PUBLIC_CANDLE_1M_CHANNEL
      else if bar = ''1s'' then Inr OKX_PUBLIC_CANDLE_1S_CHANNEL
      else if bar = ''5m'' then Inr OKX_PUBLIC_CANDLE_5M_CHANNEL
      else Inl (Fail (Bad ''OKX WebSocket candle bar'' ''is not supported by this runtime'')))"

definition okx_public_candle_bar_for_channel :: "string \<Rightarrow> string res" where
  "okx_public_candle_bar_for_channel channel =
     (if channel = OKX_PUBLIC_CANDLE_1M_CHANNEL then Inr ''1m''
      else if channel = OKX_PUBLIC_CANDLE_1S_CHANNEL then Inr ''1s''
      else if channel = OKX_PUBLIC_CANDLE_5M_CHANNEL then Inr ''5m''
      else Inl (Fail (Bad ''OKX WebSocket candle channel'' ''is not supported by this runtime'')))"

record OkxPublicMarketStreamConfig =
  pm_url :: string
  pm_instrument_ids :: "string list"
  pm_instrument_type :: string
  pm_subscribe_tickers :: bool
  pm_subscribe_instruments :: bool
  pm_candle_channels :: "string list"
  pm_level2_instrument_ids :: "string list"
  pm_reconnect_policy :: OkxWebsocketReconnectPolicy

definition require_spot_id :: "string \<Rightarrow> unit res" where
  "require_spot_id v =
     (case spot_id_try_from v of
        Inr _ \<Rightarrow> Inr ()
      | Inl _ \<Rightarrow> Inl (Fail (Bad ''OKX public WebSocket instrument id'' ''must be canonical SPOT'')))"

definition market_stream_with_level2 ::
    "string \<Rightarrow> string list \<Rightarrow> bool \<Rightarrow> bool \<Rightarrow> string list \<Rightarrow> string list \<Rightarrow>
      OkxWebsocketReconnectPolicy \<Rightarrow> OkxPublicMarketStreamConfig res" where
  "market_stream_with_level2 url instrument_ids tickers instruments channels level2 policy =
     rbind (require (\<not> blank url) ''OKX public WebSocket URL'' ''must not be empty'') (\<lambda>_.
     rbind (require (instrument_ids \<noteq> []) ''OKX public WebSocket stream''
              ''requires at least one instrument'') (\<lambda>_.
     rbind (try_each require_spot_id instrument_ids) (\<lambda>_.
     rbind (try_each (\<lambda>channel.
        rbind (require (\<not> blank channel \<and> channel = trim channel) ''OKX public WebSocket candle channel''
                 ''must be non-empty and trimmed'') (\<lambda>_.
        rbind (okx_public_candle_bar_for_channel channel) (\<lambda>_. Inr ()))) channels) (\<lambda>_.
     rbind (try_each (\<lambda>i.
        rbind (require_spot_id i) (\<lambda>_.
        require (i \<in> set instrument_ids) ''OKX Level-2 instrument''
          ''must also belong to the stream instrument set'')) level2) (\<lambda>_.
     rbind (require (tickers \<or> instruments \<or> channels \<noteq> [] \<or> level2 \<noteq> [])
              ''OKX WebSocket market stream''
              ''must subscribe to tickers, instruments, candles, or books'') (\<lambda>_.
     Inr \<lparr> pm_url = url, pm_instrument_ids = sorted_list_of_set (set instrument_ids),
           pm_instrument_type = OKX_SPOT_INST_TYPE, pm_subscribe_tickers = tickers,
           pm_subscribe_instruments = instruments,
           pm_candle_channels = sorted_list_of_set (set channels),
           pm_level2_instrument_ids = sorted_list_of_set (set level2),
           pm_reconnect_policy = policy \<rparr>))))))"

definition market_stream_with_reconnect_policy ::
    "string \<Rightarrow> string list \<Rightarrow> bool \<Rightarrow> bool \<Rightarrow> string list \<Rightarrow> OkxWebsocketReconnectPolicy \<Rightarrow>
      OkxPublicMarketStreamConfig res" where
  "market_stream_with_reconnect_policy url instrument_ids tickers instruments channels policy =
     market_stream_with_level2 url instrument_ids tickers instruments channels [] policy"

definition market_with_validated_instrument_type ::
    "string \<Rightarrow> OkxPublicMarketStreamConfig \<Rightarrow> OkxPublicMarketStreamConfig res" where
  "market_with_validated_instrument_type t c =
     rbind (require (t = OKX_SPOT_INST_TYPE) ''current OKX public WebSocket runtime''
              ''admits only validated SPOT instruments'') (\<lambda>_.
     Inr (c\<lparr> pm_instrument_type := t \<rparr>))"

definition market_health_identity :: "OkxPublicMarketStreamConfig \<Rightarrow> OkxWebsocketStreamIdentity" where
  "market_health_identity c =
     (if pm_subscribe_tickers c \<or> pm_subscribe_instruments c
      then StreamIdentity Public PublicMarketData (length (pm_instrument_ids c))
      else StreamIdentity Business PublicCandles (length (pm_instrument_ids c)))"

section \<open>Private streams\<close>

datatype OkxAlgoSubscriptionSelector = AlgoSpot | AlgoAny

datatype OkxPrivateFillsSubscription = FillsEnabled | FillsDisabled

datatype OkxPrivateStreamKind = TradingStream | BusinessStream

definition algo_selector_from_api_domain :: "OkxApiDomain \<Rightarrow> OkxAlgoSubscriptionSelector" where
  "algo_selector_from_api_domain d = (if d = Domain_Eea then AlgoSpot else AlgoAny)"

record OkxPrivateStreamCredentials =
  cr_api_key :: string
  cr_api_secret :: string
  cr_api_passphrase :: string

definition validate_websocket_login_credential :: "string \<Rightarrow> string \<Rightarrow> unit res" where
  "validate_websocket_login_credential context v =
     rbind (require (trim v \<noteq> []) context ''must not be empty'') (\<lambda>_.
     rbind (require (v = trim v) context ''must not contain leading or trailing whitespace'') (\<lambda>_.
     rbind (require (\<not> list_ex (\<lambda>c. byte c = 10 \<or> byte c = 13) v) context
              ''must not contain embedded newlines'') (\<lambda>_.
     Inr ())))"

definition stream_credentials_new :: "string \<Rightarrow> string \<Rightarrow> string \<Rightarrow> OkxPrivateStreamCredentials res" where
  "stream_credentials_new key secret passphrase =
     rbind (validate_websocket_login_credential ''OKX private WebSocket api_key'' key) (\<lambda>_.
     rbind (validate_websocket_login_credential ''OKX private WebSocket api_secret'' secret) (\<lambda>_.
     rbind (validate_websocket_login_credential ''OKX private WebSocket api_passphrase'' passphrase) (\<lambda>_.
     Inr \<lparr> cr_api_key = key, cr_api_secret = secret, cr_api_passphrase = passphrase \<rparr>)))"

record OkxPrivateStreamConfig =
  ps_url :: string
  ps_kind :: OkxPrivateStreamKind
  ps_instrument_ids :: "string list"
  ps_instrument_type :: string
  ps_algo_subscription_selector :: OkxAlgoSubscriptionSelector
  ps_fills_subscription :: OkxPrivateFillsSubscription
  ps_credentials :: OkxPrivateStreamCredentials
  ps_reconnect_policy :: OkxWebsocketReconnectPolicy

definition private_stream_with_reconnect_policy ::
    "string \<Rightarrow> OkxPrivateStreamKind \<Rightarrow> string list \<Rightarrow> OkxApiDomain \<Rightarrow> OkxPrivateStreamCredentials \<Rightarrow>
      OkxWebsocketReconnectPolicy \<Rightarrow> OkxPrivateStreamConfig res" where
  "private_stream_with_reconnect_policy url kind instrument_ids domain credentials policy =
     rbind (require (\<not> blank url) ''OKX private WebSocket URL'' ''must not be empty'') (\<lambda>_.
     rbind (require (instrument_ids \<noteq> []) ''OKX private WebSocket stream''
              ''requires at least one instrument'') (\<lambda>_.
     rbind (try_each (\<lambda>i. require (\<not> blank i \<and> i = trim i) ''OKX private WebSocket instrument id''
              ''must be non-empty and trimmed'') instrument_ids) (\<lambda>_.
     Inr \<lparr> ps_url = url, ps_kind = kind, ps_instrument_ids = sorted_list_of_set (set instrument_ids),
           ps_instrument_type = OKX_SPOT_INST_TYPE,
           ps_algo_subscription_selector = algo_selector_from_api_domain domain,
           ps_fills_subscription = (case kind of TradingStream \<Rightarrow> FillsEnabled | BusinessStream \<Rightarrow> FillsDisabled),
           ps_credentials = credentials, ps_reconnect_policy = policy \<rparr>)))"

definition private_with_validated_instrument_type ::
    "string \<Rightarrow> OkxPrivateStreamConfig \<Rightarrow> OkxPrivateStreamConfig res" where
  "private_with_validated_instrument_type t c =
     rbind (require (t = OKX_SPOT_INST_TYPE) ''current OKX private WebSocket runtime''
              ''admits only validated SPOT instruments'') (\<lambda>_.
     Inr (c\<lparr> ps_instrument_type := t \<rparr>))"

definition without_optional_fills :: "OkxPrivateStreamConfig \<Rightarrow> OkxPrivateStreamConfig" where
  "without_optional_fills c = c\<lparr> ps_fills_subscription := FillsDisabled \<rparr>"

definition private_health_identity :: "OkxPrivateStreamConfig \<Rightarrow> OkxWebsocketStreamIdentity" where
  "private_health_identity c =
     (case ps_kind c of
        TradingStream \<Rightarrow> StreamIdentity Private PrivateTrading (length (ps_instrument_ids c))
      | BusinessStream \<Rightarrow> StreamIdentity Business PrivateAlgoOrders (length (ps_instrument_ids c)))"

section \<open>From the configuration\<close>

definition required_okx_config :: "BotConfig \<Rightarrow> OkxConfig res" where
  "required_okx_config c =
     ok_or (Fail (Bad ''validated runtime profile'' ''is missing required [okx] config'')) (bc_okx c)"

definition websocket_reconnect_policy :: "BotConfig \<Rightarrow> OkxWebsocketReconnectPolicy res" where
  "websocket_reconnect_policy c =
     rbind (required_okx_config c) (\<lambda>okx.
     reconnect_policy_new (wc_reconnect_initial_backoff_ms (ok_websocket okx))
       (wc_reconnect_max_backoff_ms (ok_websocket okx)))"

text \<open>Values in the order they are first seen, without repetition: the hash set of the loop is \<open>seen\<close>.\<close>

fun first_seen :: "'a set \<Rightarrow> 'a list \<Rightarrow> 'a list" where
  "first_seen seen [] = []"
| "first_seen seen (x # xs) =
     (if x \<in> seen then first_seen seen xs else x # first_seen (insert x seen) xs)"

definition enabled_strategy_instrument_ids :: "BotConfig \<Rightarrow> string list" where
  "enabled_strategy_instrument_ids c =
     first_seen {} (map instance_instrument_id (enabled_strategy_instances c))"

definition enabled_strategy_trading_instruments :: "BotConfig \<Rightarrow> RequestedTradingInstrument list" where
  "enabled_strategy_trading_instruments c = map si_trading_instrument (enabled_strategy_instances c)"

text \<open>A bar without a channel is skipped.\<close>

definition enabled_strategy_candle_channels :: "BotConfig \<Rightarrow> string list" where
  "enabled_strategy_candle_channels c =
     first_seen {} (List.map_filter (\<lambda>i. case okx_public_candle_channel_for_bar (si_bar i) of
        Inr channel \<Rightarrow> Some channel | Inl _ \<Rightarrow> None) (enabled_strategy_instances c))"

definition some_url :: "string \<Rightarrow> string option \<Rightarrow> string res" where
  "some_url context u = ok_or (Fail (Bad context ''is required'')) u"

definition build_market_stream_configs :: "BotConfig \<Rightarrow> bool \<Rightarrow> OkxPublicMarketStreamConfig list res" where
  "build_market_stream_configs c has_enabled_strategies =
     (if \<not> has_enabled_strategies then Inr []
      else
        rbind (required_okx_config c) (\<lambda>okx.
        rbind (some_url ''OKX base_url_ws_public'' (ok_base_url_ws_public okx)) (\<lambda>public_url.
        rbind (some_url ''OKX base_url_ws_business'' (ok_base_url_ws_business okx)) (\<lambda>business_url.
        let instrument_ids = enabled_strategy_instrument_ids c in
        rbind (websocket_reconnect_policy c) (\<lambda>policy.
        rbind (market_stream_with_level2 public_url instrument_ids True True [] instrument_ids policy)
          (\<lambda>public_stream.
        let channels = enabled_strategy_candle_channels c in
        if channels \<noteq> []
        then rbind (market_stream_with_reconnect_policy business_url instrument_ids False False channels
                      policy) (\<lambda>candle_stream. Inr [public_stream, candle_stream])
        else Inr [public_stream]))))))"

definition build_private_stream_configs :: "BotConfig \<Rightarrow> bool \<Rightarrow> OkxPrivateStreamConfig list res" where
  "build_private_stream_configs c has_enabled_strategies =
     (if \<not> has_enabled_strategies then Inr []
      else
        rbind (required_okx_config c) (\<lambda>okx.
        let instrument_ids = enabled_strategy_instrument_ids c in
        rbind (stream_credentials_new (ok_api_key okx) (ok_api_secret okx) (ok_api_passphrase okx))
          (\<lambda>credentials.
        rbind (some_url ''OKX base_url_ws_private'' (ok_base_url_ws_private okx)) (\<lambda>private_url.
        rbind (some_url ''OKX base_url_ws_business'' (ok_base_url_ws_business okx)) (\<lambda>business_url.
        rbind (rbind (websocket_reconnect_policy c) (\<lambda>policy.
                 private_stream_with_reconnect_policy private_url TradingStream instrument_ids
                   (ok_api_domain okx) credentials policy)) (\<lambda>trading.
        let trading_stream = (case ok_trading_service okx of
              Production \<Rightarrow> trading | Demo \<Rightarrow> without_optional_fills trading) in
        rbind (rbind (websocket_reconnect_policy c) (\<lambda>policy.
                 private_stream_with_reconnect_policy business_url BusinessStream instrument_ids
                   (ok_api_domain okx) credentials policy)) (\<lambda>business_stream.
        Inr [trading_stream, business_stream])))))))"

section \<open>Lemmas\<close>

lemma reconnect_policy_new_Inr:
  "reconnect_policy_new i m = Inr p \<longleftrightarrow>
    i \<noteq> 0 \<and> i \<le> m \<and> p = \<lparr> rp_initial_backoff = i, rp_max_backoff = m \<rparr>"
  by (auto simp: reconnect_policy_new_def rbind_eq_Inr)

lemma next_backoff_bounds:
  "0 < rp_initial_backoff p \<Longrightarrow> rp_initial_backoff p \<le> rp_max_backoff p \<Longrightarrow>
   rp_max_backoff p \<le> MAX_DURATION_MS \<Longrightarrow> rp_initial_backoff p \<le> b \<Longrightarrow>
   rp_initial_backoff p \<le> next_backoff p b \<and> next_backoff p b \<le> rp_max_backoff p"
  by (auto simp: next_backoff_def)

text \<open>The backoff before each run of a stream whose earlier runs ended with the outcomes of the list.\<close>

definition backoff_after :: "OkxWebsocketReconnectPolicy \<Rightarrow> OkxWebsocketStreamRunOutcome list \<Rightarrow> nat" where
  "backoff_after p outcomes =
     foldl (backoff_after_stream_run p) (rp_initial_backoff p) outcomes"

lemma backoff_after_snoc:
  "backoff_after p (os @ [r]) = backoff_after_stream_run p (backoff_after p os) r"
  by (simp add: backoff_after_def)

lemma backoff_after_range:
  assumes "0 < rp_initial_backoff p" "rp_initial_backoff p \<le> rp_max_backoff p"
    "rp_max_backoff p \<le> MAX_DURATION_MS"
  shows "rp_initial_backoff p \<le> backoff_after p os \<and> backoff_after p os \<le> rp_max_backoff p"
proof (induction os rule: rev_induct)
  case Nil
  then show ?case using assms by (simp add: backoff_after_def)
next
  case (snoc r os)
  then show ?case using assms next_backoff_bounds [of p "backoff_after p os"]
    by (auto simp: backoff_after_snoc backoff_after_stream_run_def)
qed

lemma backoff_doubles:
  assumes "0 < rp_initial_backoff p" "rp_initial_backoff p \<le> rp_max_backoff p"
    "rp_max_backoff p \<le> MAX_DURATION_MS" and "backoff_after p os = rp_initial_backoff p"
    and "\<forall>r\<in>set rs. \<not> so_subscribed r"
  shows "backoff_after p (os @ rs) = min (rp_initial_backoff p * 2 ^ length rs) (rp_max_backoff p)"
  using assms(5)
proof (induction rs rule: rev_induct)
  case Nil
  then show ?case using assms by simp
next
  case (snoc r rs)
  then have "backoff_after p (os @ rs) = min (rp_initial_backoff p * 2 ^ length rs) (rp_max_backoff p)"
    by auto
  moreover have "backoff_after p (os @ rs @ [r]) = next_backoff p (backoff_after p (os @ rs))"
    using snoc.prems backoff_after_snoc [of p "os @ rs" r] by (simp add: backoff_after_stream_run_def)
  ultimately show ?case using assms(2,3) by (auto simp: next_backoff_def)
qed

section \<open>Properties\<close>

text \<open>
  reconnection.  Whatever the earlier runs of a stream did, the wait before the next one lies between
  the configured initial and maximal backoff; a run that had subscribed resets it, and each run that had
  not doubles it, up to the maximum.
\<close>
theorem reconnect_backoff:
  assumes "reconnect_policy_new i m = Inr p" and "m \<le> MAX_DURATION_MS"
  shows "0 < i \<and> i \<le> backoff_after p os \<and> backoff_after p os \<le> m \<and>
    (so_subscribed r \<longrightarrow> backoff_after p (os @ [r]) = i) \<and>
    (so_subscribed r \<and> (\<forall>q\<in>set rs. \<not> so_subscribed q) \<longrightarrow>
       backoff_after p (os @ r # rs) = min (i * 2 ^ length rs) m)"
proof -
  from assms have p: "0 < rp_initial_backoff p" "rp_initial_backoff p \<le> rp_max_backoff p"
      "rp_max_backoff p \<le> MAX_DURATION_MS" "rp_initial_backoff p = i" "rp_max_backoff p = m"
    by (simp_all add: reconnect_policy_new_Inr)
  have reset: "so_subscribed r \<Longrightarrow> backoff_after p (os @ [r]) = rp_initial_backoff p"
    by (simp add: backoff_after_snoc backoff_after_stream_run_def)
  with backoff_after_range [OF p(1-3), of os] backoff_doubles [OF p(1-3), of "os @ [r]" rs] p
  show ?thesis by simp
qed

theorem reconnect_backoff_witness:
  "backoff_after default_reconnect_policy
     (run_failed False (Bad [] []) # run_disconnected True # replicate 6 (run_disconnected False)) = 10000"
proof -
  have new: "reconnect_policy_new 500 10000 = Inr default_reconnect_policy"
    by (simp add: reconnect_policy_new_Inr default_reconnect_policy_def)
  have "(10000 :: nat) \<le> MAX_DURATION_MS" by (simp add: MAX_DURATION_MS_def u64_max_def)
  from reconnect_backoff [OF new this, of "[run_failed False (Bad [] [])]" "run_disconnected True"
      "replicate 6 (run_disconnected False)"]
  show ?thesis by (simp add: run_disconnected_def)
qed

section \<open>The streams of a validated configuration\<close>

lemma first_seen_constant:
  "\<forall>x\<in>set xs. x = a \<Longrightarrow> xs \<noteq> [] \<Longrightarrow> first_seen {} xs = [a]"
proof (cases xs)
  case (Cons b ys)
  have "\<forall>x\<in>set ys. x = a \<Longrightarrow> first_seen {a} ys = []" by (induction ys) auto
  then show "\<forall>x\<in>set xs. x = a \<Longrightarrow> first_seen {} xs = [a]" using Cons by simp
qed simp

lemma validated_instruments:
  assumes "validate P c = Inr ()" and "has_enabled_strategy_instances c"
  shows "enabled_strategy_instrument_ids c = [''BTC-USDT''] \<and>
    enabled_strategy_candle_channels c = [''candle1m'']"
proof -
  let ?is = "enabled_strategy_instances c"
  have each: "\<forall>i\<in>set ?is. instance_instrument_id i = ''BTC-USDT'' \<and> si_bar i = ''1m''"
    using validated_enabled_instance [OF assms(1)] by (auto simp: enabled_strategy_instances_def)
  have channels: "List.map_filter (\<lambda>i. case okx_public_candle_channel_for_bar (si_bar i) of
        Inr channel \<Rightarrow> Some channel | Inl _ \<Rightarrow> None) ?is = map (\<lambda>i. ''candle1m'') ?is"
    using each by (induction ?is) (auto simp: List.map_filter_def okx_public_candle_channel_for_bar_def
        OKX_PUBLIC_CANDLE_1M_CHANNEL_def)
  show ?thesis using each assms(2)
    by (simp add: enabled_strategy_instrument_ids_def enabled_strategy_candle_channels_def channels
        has_enabled_strategy_instances_def first_seen_constant)
qed

lemma btc_usdt_spot [simp]: "require_spot_id ''BTC-USDT'' = Inr ()"
  by (simp add: require_spot_id_def spot_id_try_from_def validate_spot_instrument_id_def Let_def
      OKX_SPOT_INSTRUMENT_ID_MAX_LEN_def is_ascii_def byte_def is_ascii_whitespace_def valid_asset_def
      is_ascii_uppercase_def is_ascii_digit_def)

lemma btc_usdt_trim: "trim ''BTC-USDT'' = ''BTC-USDT''" "trim ''candle1m'' = ''candle1m''"
  by (rule trim_graphic, simp_all add: byte_def)+

text \<open>The streams of the qualified instrument, with the URLs and the policy at hand.\<close>

definition btc_public_stream :: "string \<Rightarrow> OkxWebsocketReconnectPolicy \<Rightarrow> OkxPublicMarketStreamConfig" where
  "btc_public_stream url policy =
     \<lparr> pm_url = url, pm_instrument_ids = [''BTC-USDT''], pm_instrument_type = ''SPOT'',
       pm_subscribe_tickers = True, pm_subscribe_instruments = True, pm_candle_channels = [],
       pm_level2_instrument_ids = [''BTC-USDT''], pm_reconnect_policy = policy \<rparr>"

definition btc_candle_stream :: "string \<Rightarrow> OkxWebsocketReconnectPolicy \<Rightarrow> OkxPublicMarketStreamConfig" where
  "btc_candle_stream url policy =
     \<lparr> pm_url = url, pm_instrument_ids = [''BTC-USDT''], pm_instrument_type = ''SPOT'',
       pm_subscribe_tickers = False, pm_subscribe_instruments = False, pm_candle_channels = [''candle1m''],
       pm_level2_instrument_ids = [], pm_reconnect_policy = policy \<rparr>"

definition btc_private_stream ::
    "string \<Rightarrow> OkxPrivateStreamKind \<Rightarrow> OkxConfig \<Rightarrow> OkxPrivateFillsSubscription \<Rightarrow> OkxPrivateStreamCredentials \<Rightarrow>
      OkxWebsocketReconnectPolicy \<Rightarrow> OkxPrivateStreamConfig" where
  "btc_private_stream url kind okx fills k policy =
     \<lparr> ps_url = url, ps_kind = kind, ps_instrument_ids = [''BTC-USDT''], ps_instrument_type = ''SPOT'',
       ps_algo_subscription_selector = algo_selector_from_api_domain (ok_api_domain okx),
       ps_fills_subscription = fills, ps_credentials = k, ps_reconnect_policy = policy \<rparr>"

lemma btc_streams:
  assumes "bc_okx c = Some okx" and "websocket_reconnect_policy c = Inr policy"
    and "enabled_strategy_instrument_ids c = [''BTC-USDT'']"
    and "enabled_strategy_candle_channels c = [''candle1m'']"
    and "ok_base_url_ws_public okx = Some pub" and "ok_base_url_ws_private okx = Some priv"
    and "ok_base_url_ws_business okx = Some bus" and "\<not> blank pub" and "\<not> blank priv" and "\<not> blank bus"
  shows "build_market_stream_configs c True = Inr [btc_public_stream pub policy, btc_candle_stream bus policy]"
    and "build_private_stream_configs c True =
      rbind (stream_credentials_new (ok_api_key okx) (ok_api_secret okx) (ok_api_passphrase okx)) (\<lambda>k.
        Inr [btc_private_stream priv TradingStream okx
               (if ok_trading_service okx = Production then FillsEnabled else FillsDisabled) k policy,
             btc_private_stream bus BusinessStream okx FillsDisabled k policy])"
proof -
  have channel: "okx_public_candle_bar_for_channel ''candle1m'' = Inr ''1m''"
    by (simp add: okx_public_candle_bar_for_channel_def OKX_PUBLIC_CANDLE_1M_CHANNEL_def)
  show "build_market_stream_configs c True = Inr [btc_public_stream pub policy, btc_candle_stream bus policy]"
    using assms(8-10)
    by (simp add: build_market_stream_configs_def required_okx_config_def some_url_def assms(1-7)
        market_stream_with_level2_def market_stream_with_reconnect_policy_def channel blank_def
        btc_usdt_trim Let_def btc_public_stream_def btc_candle_stream_def OKX_SPOT_INST_TYPE_def)
  show "build_private_stream_configs c True =
      rbind (stream_credentials_new (ok_api_key okx) (ok_api_secret okx) (ok_api_passphrase okx)) (\<lambda>k.
        Inr [btc_private_stream priv TradingStream okx
               (if ok_trading_service okx = Production then FillsEnabled else FillsDisabled) k policy,
             btc_private_stream bus BusinessStream okx FillsDisabled k policy])"
    using assms(8-10)
    by (cases "ok_trading_service okx")
      (simp_all add: build_private_stream_configs_def required_okx_config_def some_url_def assms(1-7)
        private_stream_with_reconnect_policy_def Let_def blank_def btc_usdt_trim btc_private_stream_def
        without_optional_fills_def OKX_SPOT_INST_TYPE_def)
qed

lemma validated_okx_section:
  assumes "validate P c = Inr ()" and "bc_okx c = Some okx"
  shows "validate_okx_section P okx = Inr ()"
  using assms by (auto elim!: validate_parts)

text \<open>
  The streams of a validated configuration with an enabled strategy.  When its WebSocket URLs are
  given (deserialization always fills them in) the market streams are built, and the private streams are
  exactly when the credentials hold no line break, which the configuration's own validation does not
  check.  There are four streams, of the qualified instrument alone, no two with one health identity: ticker and
  instrument data with the order book, one-minute candles, trading, and algo orders; the trading stream
  subscribes to fills in production only.
\<close>
theorem validated_streams:
  assumes "validate P c = Inr ()" and "has_enabled_strategy_instances c" and "bc_okx c = Some okx"
    and "ok_base_url_ws_public okx \<noteq> None" and "ok_base_url_ws_private okx \<noteq> None"
    and "ok_base_url_ws_business okx \<noteq> None"
  shows "(\<exists>ms. build_market_stream_configs c True = Inr ms \<and>
      map market_health_identity ms = [StreamIdentity Public PublicMarketData 1, StreamIdentity Business PublicCandles 1] \<and>
      map pm_instrument_ids ms = [[''BTC-USDT''], [''BTC-USDT'']] \<and>
      map pm_level2_instrument_ids ms = [[''BTC-USDT''], []] \<and>
      map pm_candle_channels ms = [[], [''candle1m'']]) \<and>
    ((\<exists>ps. build_private_stream_configs c True = Inr ps) \<longleftrightarrow>
      list_all (\<lambda>x. byte x \<noteq> 10 \<and> byte x \<noteq> 13)
        (ok_api_key okx @ ok_api_secret okx @ ok_api_passphrase okx)) \<and>
    (\<forall>ps. build_private_stream_configs c True = Inr ps \<longrightarrow>
      map private_health_identity ps = [StreamIdentity Private PrivateTrading 1, StreamIdentity Business PrivateAlgoOrders 1] \<and>
      map ps_instrument_ids ps = [[''BTC-USDT''], [''BTC-USDT'']] \<and>
      map ps_fills_subscription ps =
        [if ok_trading_service okx = Production then FillsEnabled else FillsDisabled, FillsDisabled])"
proof -
  obtain pub priv bus where urls: "ok_base_url_ws_public okx = Some pub"
      "ok_base_url_ws_private okx = Some priv" "ok_base_url_ws_business okx = Some bus"
    using assms(4-6) by blast
  have okx: "validate_okx_section P okx = Inr ()" using assms by (simp add: validated_okx_section)
  have ids: "enabled_strategy_instrument_ids c = [''BTC-USDT'']"
      "enabled_strategy_candle_channels c = [''candle1m'']"
    using validated_instruments [OF assms(1,2)] by blast+
  have nonblank: "\<not> blank pub" "\<not> blank priv" "\<not> blank bus"
    using okx urls by (auto simp: validate_okx_section_def rbind_eq_Inr validate_optional_wss_url_def)
  obtain policy where policy: "websocket_reconnect_policy c = Inr policy"
    using okx assms(3) by (auto simp: websocket_reconnect_policy_def required_okx_config_def
        reconnect_policy_new_Inr validate_okx_section_def rbind_eq_Inr validate_okx_websocket_config_def)
  note streams = btc_streams [OF assms(3) policy ids urls nonblank]
  have market: "\<exists>ms. build_market_stream_configs c True = Inr ms \<and>
      map market_health_identity ms = [StreamIdentity Public PublicMarketData 1, StreamIdentity Business PublicCandles 1] \<and>
      map pm_instrument_ids ms = [[''BTC-USDT''], [''BTC-USDT'']] \<and>
      map pm_level2_instrument_ids ms = [[''BTC-USDT''], []] \<and>
      map pm_candle_channels ms = [[], [''candle1m'']]"
    by (simp add: streams(1) btc_public_stream_def btc_candle_stream_def market_health_identity_def)
  have creds: "(\<exists>k. stream_credentials_new (ok_api_key okx) (ok_api_secret okx) (ok_api_passphrase okx) = Inr k)
     \<longleftrightarrow> list_all (\<lambda>x. byte x \<noteq> 10 \<and> byte x \<noteq> 13) (ok_api_key okx @ ok_api_secret okx @ ok_api_passphrase okx)"
    using okx by (auto simp: stream_credentials_new_def validate_websocket_login_credential_def
        rbind_eq_Inr validate_okx_section_def validate_okx_secret_field_def list_all_iff list_ex_iff)
  have "(\<exists>ps. build_private_stream_configs c True = Inr ps) \<longleftrightarrow>
      list_all (\<lambda>x. byte x \<noteq> 10 \<and> byte x \<noteq> 13) (ok_api_key okx @ ok_api_secret okx @ ok_api_passphrase okx)"
    unfolding creds [symmetric] streams(2) by (auto simp: rbind_eq_Inr)
  moreover have "map private_health_identity ps = [StreamIdentity Private PrivateTrading 1, StreamIdentity Business PrivateAlgoOrders 1] \<and>
      map ps_instrument_ids ps = [[''BTC-USDT''], [''BTC-USDT'']] \<and>
      map ps_fills_subscription ps =
        [if ok_trading_service okx = Production then FillsEnabled else FillsDisabled, FillsDisabled]"
    if "build_private_stream_configs c True = Inr ps" for ps
    using that unfolding streams(2)
    by (auto simp: rbind_eq_Inr private_health_identity_def btc_private_stream_def)
  ultimately show ?thesis using market by blast
qed

theorem validated_streams_witness:
  "\<exists>ps. build_private_stream_configs example_config True = Inr ps \<and> length ps = 2 \<and>
     map ps_fills_subscription ps = [FillsDisabled, FillsDisabled]"
proof -
  have okx: "bc_okx example_config = Some example_okx" by (simp add: example_config_def)
  have enabled: "has_enabled_strategy_instances example_config"
    by (simp add: has_enabled_strategy_instances_def example_enabled)
  have urls: "ok_base_url_ws_public example_okx \<noteq> None" "ok_base_url_ws_private example_okx \<noteq> None"
      "ok_base_url_ws_business example_okx \<noteq> None" by (simp_all add: example_okx_def)
  have "list_all (\<lambda>x. byte x \<noteq> 10 \<and> byte x \<noteq> 13)
      (ok_api_key example_okx @ ok_api_secret example_okx @ ok_api_passphrase example_okx)"
    by (simp add: example_okx_def byte_def)
  with validated_streams [OF example_valid enabled okx urls] obtain ps where
      "build_private_stream_configs example_config True = Inr ps"
      "map ps_instrument_ids ps = [[''BTC-USDT''], [''BTC-USDT'']]"
      "map ps_fills_subscription ps =
        [if ok_trading_service example_okx = Production then FillsEnabled else FillsDisabled, FillsDisabled]"
    by blast
  moreover from this(2) have "length ps = 2" by (metis length_map length_Cons list.size(3) numeral_2_eq_2)
  moreover have "ok_trading_service example_okx \<noteq> Production" by (simp add: example_okx_def)
  ultimately show ?thesis by auto
qed

end
