(* ===== verification/Market_Cache.thy ===== *)
theory Market_Cache
  imports Hint_Cache Event_Delivery Stream_Config
begin

text \<open>
  The cache of the market streams (\<open>OkxMarketDataCache\<close> of \<open>okx/websocket.rs\<close>): the latest tickers, candle
  series and instrument parameters the exchange pushed, and the Level-2 books.

  The reporter and the cache hold the same latency metrics; \<open>md_latency\<close> is their value, put into the
  reporter before it reports.  The mutex can be poisoned in one place: a decimal operation of a Level-2
  book may panic while it is held; the next user of the cache then finds the default state.
\<close>

definition OKX_MARKET_CANDLE_CACHE_MAX_BARS :: nat where
  "OKX_MARKET_CANDLE_CACHE_MAX_BARS = 32"
definition OKX_MARKET_DATA_CACHE_MAX_HINTS_PER_KIND :: nat where
  "OKX_MARKET_DATA_CACHE_MAX_HINTS_PER_KIND = 1024"

record OkxMarketTickerHint =
  th_ticker :: OkxTicker
  th_source_ts_ms :: "int option"
  th_received_at :: nat

record OkxMarketCandleHint =
  ch_inst_id :: string
  ch_channel :: string
  ch_bar :: MarketBar
  ch_source_ts_ms :: "int option"
  ch_received_at :: nat

text \<open>A parameter change is its \<open>effTime\<close>.\<close>

record OkxWebsocketInstrumentUpdate =
  iu_inst_type :: string
  iu_inst_id :: string
  iu_group_id :: string
  iu_state :: string
  iu_tick_size :: string
  iu_lot_size :: string
  iu_min_size :: string
  iu_max_limit_size :: string
  iu_max_limit_amount :: string
  iu_max_market_size :: string
  iu_max_market_amount :: string
  iu_max_trigger_size :: string
  iu_continuous_trading_switch_time :: string
  iu_upcoming_changes :: "string list"

record OkxInstrumentUpdateHint =
  ih_instrument :: OkxWebsocketInstrumentUpdate
  ih_source_ts_ms :: "int option"
  ih_received_at :: nat

definition instrument_update_ensure_live :: "OkxWebsocketInstrumentUpdate \<Rightarrow> unit res" where
  "instrument_update_ensure_live i =
     require (iu_state i = ''live'') ''OKX WebSocket instrument'' ''state is not live''"

type_synonym candle_series = "(int, OkxMarketCandleHint) btree"

record OkxMarketDataState =
  md_tickers_by_inst_id :: "(string \<times> OkxMarketTickerHint) list"
  md_candles_by_inst_id_and_channel :: "((string \<times> string) \<times> candle_series) list"
  md_instruments_by_inst_id :: "(string \<times> OkxInstrumentUpdateHint) list"
  md_protected_instrument_ids :: "string set"
  md_level2_books_by_instrument :: "OkxSpotInstrumentId \<rightharpoonup> OkxLevel2Book"
  md_runtime_event_reporter :: "OkxRuntimeEventReporter option"
  md_latency :: OkxLatencyMetrics

definition latency_metrics_default :: OkxLatencyMetrics where
  "latency_metrics_default =
     \<lparr> lm_samples = (\<lambda>_. no_samples),
       lm_counters = \<lparr> lc_market_events_produced = 0, lc_market_events_dropped = 0,
         lc_market_events_coalesced = 0, lc_last_market_generation_dispatched = 0,
         lc_backpressure_incidents = 0, lc_stale_event_rejections = 0, lc_sequence_gap_invalidations = 0,
         lc_reconnects = 0, lc_command_fallbacks = 0, lc_ambiguous_command_reconciliations = 0 \<rparr> \<rparr>"

definition market_data_state_default :: OkxMarketDataState where
  "market_data_state_default =
     \<lparr> md_tickers_by_inst_id = [], md_candles_by_inst_id_and_channel = [], md_instruments_by_inst_id = [],
       md_protected_instrument_ids = {}, md_level2_books_by_instrument = Map.empty,
       md_runtime_event_reporter = None, md_latency = latency_metrics_default \<rparr>"

definition configure_runtime_observers ::
    "OkxRuntimeEventReporter \<Rightarrow> OkxLatencyMetrics \<Rightarrow> OkxMarketDataState \<Rightarrow> OkxMarketDataState" where
  "configure_runtime_observers r latency s = s\<lparr> md_runtime_event_reporter := Some r, md_latency := latency \<rparr>"

definition protect_instruments :: "string list \<Rightarrow> OkxMarketDataState \<Rightarrow> OkxMarketDataState" where
  "protect_instruments ids s =
     s\<lparr> md_protected_instrument_ids := md_protected_instrument_ids s \<union> set ids \<rparr>"

text \<open>An instrument that has a book keeps it; a failure leaves the books made before it.\<close>

fun configure_level2_instruments :: "string list \<Rightarrow> OkxMarketDataState \<Rightarrow> unit res \<times> OkxMarketDataState" where
  "configure_level2_instruments [] s = (Inr (), s)"
| "configure_level2_instruments (i # is) s =
     (case spot_id_try_from i of
        Inl _ \<Rightarrow> (Inl (Fail (Bad ''configured OKX Level-2 instrument'' ''is not canonical SPOT'')), s)
      | Inr k \<Rightarrow>
          configure_level2_instruments is
            (if md_level2_books_by_instrument s k \<noteq> None then s
             else s\<lparr> md_level2_books_by_instrument := (md_level2_books_by_instrument s)(k \<mapsto> level2_new k) \<rparr>))"

section \<open>Tickers\<close>

text \<open>The iteration orders of the three hash maps.\<close>

record market_pickers =
  mk_tickers :: "string picker"
  mk_candles :: "(string \<times> string) picker"
  mk_instruments :: "string picker"

definition ticker_hint_ops :: "OkxMarketTickerHint hint_ops" where
  "ticker_hint_ops = \<lparr> ho_source_ts_ms = th_source_ts_ms, ho_received_at = th_received_at \<rparr>"

definition insert_ticker_hint ::
    "market_pickers \<Rightarrow> OkxMarketTickerHint \<Rightarrow> OkxMarketDataState \<Rightarrow> bool \<times> OkxMarketDataState" where
  "insert_ticker_hint pick h s =
     (case insert_hint (mk_tickers pick) ticker_hint_ops OKX_MARKET_DATA_CACHE_MAX_HINTS_PER_KIND {}
             (tk_inst_id (th_ticker h)) h (md_tickers_by_inst_id s) of
        (taken, hs) \<Rightarrow> (taken, s\<lparr> md_tickers_by_inst_id := hs \<rparr>))"

definition update_ticker ::
    "decimal_ops \<Rightarrow> market_pickers \<Rightarrow> OkxMarketTickerHint \<Rightarrow> OkxMarketDataState \<Rightarrow> unit res \<times> OkxMarketDataState" where
  "update_ticker D pick h s =
     (case rbind (validate_prices D (th_ticker h)) (\<lambda>_.
           require (tk_inst_type (th_ticker h) = OKX_SPOT_INST_TYPE) ''OKX WebSocket ticker''
             ''has non-SPOT instType'') of
        Inl e \<Rightarrow> (Inl e, s)
      | Inr _ \<Rightarrow> (Inr (), snd (insert_ticker_hint pick h s)))"

definition fresh_ticker :: "nat \<Rightarrow> string \<Rightarrow> nat \<Rightarrow> OkxMarketDataState \<Rightarrow> OkxTicker option" where
  "fresh_ticker now inst_id max_staleness s =
     map_option th_ticker (fresh_hint ticker_hint_ops now max_staleness (md_tickers_by_inst_id s) inst_id)"

section \<open>Candles\<close>

text \<open>\<open>while bars.len() > OKX_MARKET_CANDLE_CACHE_MAX_BARS\<close>: the oldest bar goes.\<close>

function trim_series :: "candle_series \<Rightarrow> candle_series" where
  "trim_series bars =
     (if length bars > OKX_MARKET_CANDLE_CACHE_MAX_BARS then
        (case bt_first bars of
           None \<Rightarrow> bars
         | Some (first_ts_ms, _) \<Rightarrow> trim_series (snd (bt_remove first_ts_ms bars)))
      else bars)"
  by pat_completeness auto

termination
  by (relation "measure length")
    (auto simp: bt_remove_def bt_first_def split: list.splits)

declare trim_series.simps [simp del]

text \<open>The greatest \<open>received_at\<close>; \<open>now\<close> for an empty series.\<close>

definition latest_candle_series_received_at :: "nat \<Rightarrow> candle_series \<Rightarrow> nat" where
  "latest_candle_series_received_at now bars =
     (if bars = [] then now else Max (set (map (ch_received_at \<circ> snd) bars)))"

text \<open>The result is \<open>newly_confirmed\<close>.  The entry of a series is made before the hint is looked at.\<close>

definition insert_candle_hint ::
    "market_pickers \<Rightarrow> nat \<Rightarrow> OkxMarketCandleHint \<Rightarrow> OkxMarketDataState \<Rightarrow> bool \<times> OkxMarketDataState" where
  "insert_candle_hint pick now h s =
     (let key = (ch_inst_id h, ch_channel h);
          series = md_candles_by_inst_id_and_channel s;
          bars = (case map_of series key of None \<Rightarrow> [] | Some bars \<Rightarrow> bars);
          current = bt_get bars (mb_ts_ms (ch_bar h)) in
      if should_ignore_hint (Option.bind current ch_source_ts_ms) (ch_source_ts_ms h)
      then (False, s\<lparr> md_candles_by_inst_id_and_channel := AList.update key bars series \<rparr>)
      else
        (mb_confirm (ch_bar h) \<and> (case current of None \<Rightarrow> True | Some c \<Rightarrow> \<not> mb_confirm (ch_bar c)),
         s\<lparr> md_candles_by_inst_id_and_channel :=
              evict_oldest (mk_candles pick) OKX_MARKET_DATA_CACHE_MAX_HINTS_PER_KIND
                (latest_candle_series_received_at now)
                (AList.update key (trim_series (snd (bt_insert (mb_ts_ms (ch_bar h)) h bars))) series) \<rparr>))"

definition update_candle ::
    "market_pickers \<Rightarrow> nat \<Rightarrow> OkxMarketCandleHint \<Rightarrow> OkxMarketDataState \<Rightarrow> unit res \<times> OkxMarketDataState" where
  "update_candle pick now h s =
     (case rbind (require (\<not> blank (ch_inst_id h)) ''OKX WebSocket candle'' ''omitted instId'') (\<lambda>_.
           rbind (okx_public_candle_bar_for_channel (ch_channel h)) (\<lambda>_.
           market_bar_validate (ch_bar h) ''OKX WebSocket candle'')) of
        Inl e \<Rightarrow> (Inl e, s)
      | Inr _ \<Rightarrow> (Inr (), snd (insert_candle_hint pick now h s)))"

definition fresh_candles :: "nat \<Rightarrow> string \<Rightarrow> string \<Rightarrow> nat \<Rightarrow> OkxMarketDataState \<Rightarrow> MarketBar list" where
  "fresh_candles now inst_id channel max_staleness s =
     (case map_of (md_candles_by_inst_id_and_channel s) (inst_id, channel) of
        None \<Rightarrow> []
      | Some bars \<Rightarrow>
          map ch_bar (filter (\<lambda>h. fresh now max_staleness (ch_received_at h)) (map snd bars)))"

section \<open>Instruments\<close>

definition parse_positive_f64 :: "string \<Rightarrow> string \<Rightarrow> f64 res" where
  "parse_positive_f64 context v =
     rbind (ok_or (Fail (Bad context ''is invalid'')) (parse_f64 v)) (\<lambda>parsed.
     rbind (require (is_finite parsed \<and> f64_lt f64_zero parsed) context ''must be finite and positive'') (\<lambda>_.
     Inr parsed))"

definition parse_non_negative_f64 :: "string \<Rightarrow> string \<Rightarrow> f64 res" where
  "parse_non_negative_f64 context v =
     rbind (ok_or (Fail (Bad context ''is invalid'')) (parse_f64 v)) (\<lambda>parsed.
     rbind (require (is_finite parsed \<and> f64_le f64_zero parsed) context ''must be finite and non-negative'') (\<lambda>_.
     Inr parsed))"

definition validate_instrument_update :: "OkxWebsocketInstrumentUpdate \<Rightarrow> unit res" where
  "validate_instrument_update i =
     rbind (require (iu_inst_type i = OKX_SPOT_INST_TYPE) ''OKX WebSocket instrument''
              ''has non-SPOT instType'') (\<lambda>_.
     rbind (require (\<not> blank (iu_inst_id i) \<and> iu_inst_id i = trim (iu_inst_id i))
              ''OKX WebSocket instrument update'' ''omitted trimmed instId'') (\<lambda>_.
     rbind (require (\<not> blank (iu_state i) \<and> iu_state i = trim (iu_state i))
              ''OKX WebSocket instrument'' ''omitted trimmed state'') (\<lambda>_.
     rbind (parse_positive_f64 ''OKX WebSocket instrument tickSz'' (iu_tick_size i)) (\<lambda>_.
     rbind (parse_positive_f64 ''OKX WebSocket instrument lotSz'' (iu_lot_size i)) (\<lambda>_.
     rbind (parse_positive_f64 ''OKX WebSocket instrument minSz'' (iu_min_size i)) (\<lambda>_.
     rbind (try_map (\<lambda>(name, v).
         if \<not> blank v then rbind (parse_positive_f64 (''OKX WebSocket instrument '' @ name) v) (\<lambda>_. Inr ())
         else Inr ())
       [(''maxLmtSz'', iu_max_limit_size i), (''maxLmtAmt'', iu_max_limit_amount i),
        (''maxMktSz'', iu_max_market_size i), (''maxMktAmt'', iu_max_market_amount i),
        (''maxTriggerSz'', iu_max_trigger_size i)]) (\<lambda>_.
     Inr ())))))))"

datatype OkxInstrumentHintDisposition = Cached | RestRevalidationRequired | IgnoredStale

definition requires_rest_revalidation :: "OkxInstrumentHintDisposition \<Rightarrow> bool" where
  "requires_rest_revalidation d = (d = Cached \<or> d = RestRevalidationRequired)"

definition instrument_hint_ops :: "OkxInstrumentUpdateHint hint_ops" where
  "instrument_hint_ops = \<lparr> ho_source_ts_ms = ih_source_ts_ms, ho_received_at = ih_received_at \<rparr>"

definition insert_instrument_hint ::
    "market_pickers \<Rightarrow> OkxInstrumentUpdateHint \<Rightarrow> OkxMarketDataState \<Rightarrow>
      OkxInstrumentHintDisposition \<times> OkxMarketDataState" where
  "insert_instrument_hint pick h s =
     (if ih_source_ts_ms h = None then (RestRevalidationRequired, s)
      else
        (case insert_hint (mk_instruments pick) instrument_hint_ops OKX_MARKET_DATA_CACHE_MAX_HINTS_PER_KIND
                (md_protected_instrument_ids s) (iu_inst_id (ih_instrument h)) h (md_instruments_by_inst_id s) of
           (taken, hs) \<Rightarrow>
             (if taken then Cached else IgnoredStale, s\<lparr> md_instruments_by_inst_id := hs \<rparr>)))"

definition update_instrument ::
    "market_pickers \<Rightarrow> OkxInstrumentUpdateHint \<Rightarrow> OkxMarketDataState \<Rightarrow> unit res \<times> OkxMarketDataState" where
  "update_instrument pick h s =
     (case validate_instrument_update (ih_instrument h) of
        Inl e \<Rightarrow> (Inl e, s)
      | Inr _ \<Rightarrow> (Inr (), snd (insert_instrument_hint pick h s)))"

definition fresh_instrument ::
    "nat \<Rightarrow> string \<Rightarrow> nat \<Rightarrow> OkxMarketDataState \<Rightarrow> OkxWebsocketInstrumentUpdate option" where
  "fresh_instrument now inst_id max_staleness s =
     map_option ih_instrument
       (fresh_hint instrument_hint_ops now max_staleness (md_instruments_by_inst_id s) inst_id)"

section \<open>Level-2 books\<close>

definition fresh_level2_features ::
    "nat \<Rightarrow> string \<Rightarrow> nat \<Rightarrow> OkxMarketDataState \<Rightarrow> OkxLevel2FeatureSnapshot option" where
  "fresh_level2_features now instrument_id max_staleness s =
     (case spot_id_try_from instrument_id of
        Inl _ \<Rightarrow> None
      | Inr i \<Rightarrow>
          (case md_level2_books_by_instrument s i of
             None \<Rightarrow> None
           | Some b \<Rightarrow>
               (case features_of b of
                  None \<Rightarrow> None
                | Some f \<Rightarrow> if fresh now max_staleness (fs_received_at f) then Some f else None)))"

definition level2_latencies ::
    "nat \<Rightarrow> OkxLevel2ApplyOutcome \<Rightarrow> OkxLatencyMetrics \<Rightarrow> OkxLatencyMetrics" where
  "level2_latencies parsed_at out m =
     (case out of
        Heartbeat \<Rightarrow> m
      | Features f \<Rightarrow>
          latency_record BookAppliedToFeaturesReady (fs_features_ready_at f - fs_book_applied_at f)
            (latency_record ParsedToBookApplied (fs_book_applied_at f - parsed_at) m))"

definition level2_rejections :: "OkxLevel2BookError \<Rightarrow> OkxLatencyMetrics \<Rightarrow> OkxLatencyMetrics" where
  "level2_rejections e m =
     (let m = (if is_sequence_gap e then count_latency record_sequence_gap_invalidation m else m) in
      if is_stale_rejection e then count_latency record_stale_event_rejection m else m)"

text \<open>A panic of the book happens while the cache is locked.\<close>

definition apply_level2 ::
    "decimal_ops \<Rightarrow> (nat \<Rightarrow> nat) \<Rightarrow> OkxLevel2Update \<Rightarrow> OkxMarketDataState \<Rightarrow>
      OkxLevel2ApplyOutcome res \<times> OkxMarketDataState" where
  "apply_level2 D observe_now u s =
     (case md_level2_books_by_instrument s (lu2_instrument_id u) of
        None \<Rightarrow> (Inl (Fail (Bad ''OKX Level-2 update'' ''for unconfigured instrument'')), s)
      | Some b \<Rightarrow>
          (case apply_with_clock D observe_now b u of
             (r, b') \<Rightarrow>
               let s' = s\<lparr> md_level2_books_by_instrument :=
                     (md_level2_books_by_instrument s)(lu2_instrument_id u \<mapsto> b') \<rparr> in
               (case r of
                  Inr out \<Rightarrow> (Inr out, s'\<lparr> md_latency := level2_latencies (lu2_parsed_at u) out (md_latency s') \<rparr>)
                | Inl (Fail e) \<Rightarrow>
                    (Inl (Fail (Bad ''OKX Level-2 book'' ''rejected the update'')),
                     s'\<lparr> md_latency := level2_rejections e (md_latency s') \<rparr>)
                | Inl Panic \<Rightarrow> (Inl Panic, market_data_state_default))))"

definition invalidate_level2_for_reconnect :: "string list \<Rightarrow> OkxMarketDataState \<Rightarrow> OkxMarketDataState" where
  "invalidate_level2_for_reconnect ids s =
     s\<lparr> md_level2_books_by_instrument := (\<lambda>k.
          if \<exists>i\<in>set ids. spot_id_try_from i = Inr k
          then map_option invalidate (md_level2_books_by_instrument s k)
          else md_level2_books_by_instrument s k) \<rparr>"

section \<open>The contract\<close>

definition ticker_hint_check :: "decimal_ops \<Rightarrow> OkxMarketTickerHint \<Rightarrow> bool" where
  "ticker_hint_check D h \<longleftrightarrow>
     validate_prices D (th_ticker h) = Inr () \<and> tk_inst_type (th_ticker h) = OKX_SPOT_INST_TYPE"

interpretation ticker_hints: hint_store md_tickers_by_inst_id "update_ticker D pick" "\<lambda>h. tk_inst_id (th_ticker h)"
    "ticker_hint_check D" ticker_hint_ops OKX_MARKET_DATA_CACHE_MAX_HINTS_PER_KIND "mk_tickers pick" "\<lambda>_. {}"
    for D pick
  by unfold_locales
    (auto simp: update_ticker_def insert_ticker_hint_def ticker_hint_check_def rbind_eq_Inr
      split: sum.split prod.split dest!: rbind_eq_Inr [THEN iffD1])

interpretation instrument_hints: hint_store md_instruments_by_inst_id "update_instrument pick"
    "\<lambda>h. iu_inst_id (ih_instrument h)" "\<lambda>h. validate_instrument_update (ih_instrument h) = Inr ()"
    instrument_hint_ops OKX_MARKET_DATA_CACHE_MAX_HINTS_PER_KIND "mk_instruments pick"
    md_protected_instrument_ids for pick
  by unfold_locales
    (auto simp: update_instrument_def insert_instrument_hint_def insert_hint_def should_ignore_hint_def
      instrument_hint_ops_def split: sum.split prod.split)

end
