(* ===== verification/Number_Format.thy ===== *)
theory Number_Format
  imports Rust_Strings
begin

text \<open>
  The integer formatting of Rust's standard library that the runtime uses: \<open>{}\<close> of a signed or unsigned
  integer, \<open>{:0w}\<close> and \<open>{:0wx}\<close>.
\<close>

definition digit_char :: "nat \<Rightarrow> char" where
  "digit_char d = (if d \<le> 9 then char_of (48 + d) else char_of (87 + d))"

fun digits_rev :: "nat \<Rightarrow> nat \<Rightarrow> string" where
  "digits_rev b n = (if b < 2 \<or> n < b then [digit_char n] else digit_char (n mod b) # digits_rev b (n div b))"

declare digits_rev.simps [simp del]

definition show_base :: "nat \<Rightarrow> nat \<Rightarrow> string" where
  "show_base b n = rev (digits_rev b n)"

definition show_nat :: "nat \<Rightarrow> string" where
  "show_nat n = show_base 10 n"

definition show_int :: "int \<Rightarrow> string" where
  "show_int i = (if i < 0 then CHR ''-'' # show_nat (nat (- i)) else show_nat (nat i))"

definition zero_pad :: "nat \<Rightarrow> string \<Rightarrow> string" where
  "zero_pad w s = replicate (w - length s) CHR ''0'' @ s"

text \<open>The sign counts into the width and comes before the zeros.\<close>

definition show_padded :: "nat \<Rightarrow> int \<Rightarrow> string" where
  "show_padded w i =
     (if i < 0 then CHR ''-'' # zero_pad (w - 1) (show_nat (nat (- i))) else zero_pad w (show_nat (nat i)))"

definition show_hex_padded :: "nat \<Rightarrow> nat \<Rightarrow> string" where
  "show_hex_padded w n = zero_pad w (show_base 16 n)"

section \<open>Lemmas\<close>

text \<open>The value of a digit string, most significant digit last.\<close>

definition char_digit :: "char \<Rightarrow> nat" where
  "char_digit c = (if byte c \<le> 57 then byte c - 48 else byte c - 87)"

fun value_rev :: "nat \<Rightarrow> string \<Rightarrow> nat" where
  "value_rev b [] = 0"
| "value_rev b (c # cs) = char_digit c + b * value_rev b cs"

lemma byte_digit_char: "d < 36 \<Longrightarrow> byte (digit_char d) = (if d \<le> 9 then 48 + d else 87 + d)"
  by (auto simp: digit_char_def byte_def)

lemma char_digit_digit_char [simp]: "d < 36 \<Longrightarrow> char_digit (digit_char d) = d"
  by (auto simp: char_digit_def byte_digit_char)

lemma digit_char_alphanumeric: "d < 36 \<Longrightarrow> is_ascii_alphanumeric (digit_char d)"
  by (auto simp: digit_char_def is_ascii_alphanumeric_def is_ascii_digit_def is_ascii_uppercase_def
      is_ascii_lowercase_def byte_def)

lemma digit_char_digit: "d < 10 \<Longrightarrow> is_ascii_digit (digit_char d)"
  by (auto simp: digit_char_def is_ascii_digit_def byte_def)

lemma digits_rev_value:
  assumes "2 \<le> b" and "b \<le> 36"
  shows "value_rev b (digits_rev b n) = n"
  using assms
proof (induction b n rule: digits_rev.induct)
  case (1 b n)
  have "n mod b < 36" if "b \<le> n" using 1(2,3) that by (meson le_trans less_le_trans mod_less_divisor pos2)
  with 1 show ?case by (subst digits_rev.simps) (auto simp: not_less)
qed

lemma digits_rev_chars:
  assumes "2 \<le> b"
  shows "\<forall>c\<in>set (digits_rev b n). \<exists>d<b. c = digit_char d"
  using assms
proof (induction b n rule: digits_rev.induct)
  case (1 b n)
  have "n mod b < b" using 1(2) by simp
  then have "\<exists>d<b. digit_char (n mod b) = digit_char d" by blast
  with 1 show ?case by (subst digits_rev.simps) auto
qed

lemma digits_rev_length:
  assumes "2 \<le> b" and "n < b ^ k" and "0 < k"
  shows "length (digits_rev b n) \<le> k"
  using assms
proof (induction b n arbitrary: k rule: digits_rev.induct)
  case (1 b n)
  show ?case
  proof (cases "n < b")
    case True
    with 1 show ?thesis by (subst digits_rev.simps) auto
  next
    case False
    with 1 have "k \<noteq> 1" by auto
    with 1 obtain j where k: "k = Suc j" "0 < j" by (cases k) auto
    with 1 have "n div b < b ^ j" by (simp add: less_mult_imp_div_less mult.commute)
    with 1 False k show ?thesis by (subst digits_rev.simps) auto
  qed
qed

lemma zero_pad_length: "length s \<le> w \<Longrightarrow> length (zero_pad w s) = w"
  by (simp add: zero_pad_def)

lemma value_rev_zeros: "value_rev b (cs @ replicate k CHR ''0'') = value_rev b cs"
proof (induction cs)
  case Nil
  have "char_digit CHR ''0'' = 0" by (simp add: char_digit_def byte_def)
  then show ?case by (induction k) auto
qed auto

lemma show_hex_padded_value: "value_rev 16 (rev (show_hex_padded w n)) = n"
  by (simp add: show_hex_padded_def zero_pad_def show_base_def value_rev_zeros digits_rev_value)

lemma show_hex_padded_length: "n < 16 ^ w \<Longrightarrow> 0 < w \<Longrightarrow> length (show_hex_padded w n) = w"
  by (simp add: show_hex_padded_def zero_pad_length show_base_def digits_rev_length)

lemma show_hex_padded_alphanumeric: "list_all is_ascii_alphanumeric (show_hex_padded w n)"
  using digits_rev_chars [of 16 n]
  by (fastforce simp: show_hex_padded_def zero_pad_def show_base_def list_all_iff
      is_ascii_alphanumeric_def [of "CHR ''0''"] is_ascii_digit_def [of "CHR ''0''"] byte_def [of "CHR ''0''"]
      intro: digit_char_alphanumeric)

lemma show_nat_digits: "list_all is_ascii_digit (show_nat n)" "show_nat n \<noteq> []"
proof -
  show "list_all is_ascii_digit (show_nat n)"
    using digits_rev_chars [of 10 n]
    by (fastforce simp: show_nat_def show_base_def list_all_iff intro: digit_char_digit)
  show "show_nat n \<noteq> []"
    by (simp add: show_nat_def show_base_def digits_rev.simps [of 10 n])
qed

end
