(* ===== verification/Rate_Limit.thy ===== *)
theory Rate_Limit
  imports Number_Format Cancel_All_After
begin

text \<open>
  The part of \<open>okx/client.rs\<close> that decides when a request may be sent: the estimate of the exchange's clock,
  the expiry of a trade command, and the pacing of requests per rate-limit bucket.

  An \<open>Instant\<close> is a number of nanoseconds, the wall clock is the integer number of milliseconds the code
  computes with (\<open>i128\<close>, whose checked operations are written out).  The mutexes are sequential and never
  poisoned, since no code panics while it holds one.
\<close>

definition OKX_SERVER_TIME_TTL :: nat where "OKX_SERVER_TIME_TTL = 30000000000"
definition OKX_SERVER_TIME_REFRESH_MARGIN :: nat where "OKX_SERVER_TIME_REFRESH_MARGIN = 10000000000"
definition OKX_ORDER_EXPIRY_WINDOW_MS :: int where "OKX_ORDER_EXPIRY_WINDOW_MS = 2000"
definition OKX_RATE_LIMIT_COOLDOWN :: nat where "OKX_RATE_LIMIT_COOLDOWN = 2000000000"
definition OKX_RATE_LIMIT_WINDOW :: nat where "OKX_RATE_LIMIT_WINDOW = 2000000000"
definition OKX_RATE_LIMIT_PACING_SAFETY_MARGIN :: nat where "OKX_RATE_LIMIT_PACING_SAFETY_MARGIN = 50000000"
definition OKX_CANCEL_ALL_AFTER_RATE_LIMIT_WINDOW :: nat where "OKX_CANCEL_ALL_AFTER_RATE_LIMIT_WINDOW = 1000000000"
definition MILLIS_PER_SECOND :: int where "MILLIS_PER_SECOND = 1000"

definition i128_checked :: "int \<Rightarrow> int option" where
  "i128_checked i = (if - (2 ^ 127) \<le> i \<and> i < 2 ^ 127 then Some i else None)"

section \<open>The server clock\<close>

record ServerTimeSnapshot =
  ts_offset_millis :: int
  ts_measured_at :: nat

type_synonym ServerTimeClock = "ServerTimeSnapshot option"

definition clock_needs_refresh :: "nat \<Rightarrow> nat \<Rightarrow> ServerTimeClock \<Rightarrow> bool \<times> ServerTimeClock" where
  "clock_needs_refresh refresh_margin now c =
     (case c of
        None \<Rightarrow> (True, None)
      | Some s \<Rightarrow>
          let elapsed = now - ts_measured_at s in
          if elapsed > OKX_SERVER_TIME_TTL then (True, None)
          else (OKX_SERVER_TIME_TTL - elapsed \<le> refresh_margin, c))"

definition clock_unix_millis :: "nat \<Rightarrow> int \<Rightarrow> ServerTimeClock \<Rightarrow> int option res \<times> ServerTimeClock" where
  "clock_unix_millis now current_unix_millis c =
     (case c of
        None \<Rightarrow> (Inr None, None)
      | Some s \<Rightarrow>
          if now - ts_measured_at s > OKX_SERVER_TIME_TTL then (Inr None, None)
          else
            (rbind (ok_or (Fail (Bad ''OKX server time offset'' ''overflowed local timestamp''))
                      (i128_checked (current_unix_millis + ts_offset_millis s))) (\<lambda>t. Inr (Some t)), c))"

definition clock_record :: "int \<Rightarrow> int \<Rightarrow> nat \<Rightarrow> ServerTimeClock \<Rightarrow> unit res \<times> ServerTimeClock" where
  "clock_record server_millis local_millis now c =
     (case i128_checked (server_millis - local_millis) of
        None \<Rightarrow> (Inl (Fail (Bad ''OKX server time offset'' ''overflowed'')), c)
      | Some offset \<Rightarrow> (Inr (), Some \<lparr> ts_offset_millis = offset, ts_measured_at = now \<rparr>))"

text \<open>
  The calendar of \<open>OffsetDateTime::from_unix_timestamp\<close> is a parameter: year, month, day, hour, minute
  and second of a number of seconds, nothing outside its range.
\<close>

type_synonym calendar = "int \<Rightarrow> (int \<times> nat \<times> nat \<times> nat \<times> nat \<times> nat) option"

definition format_okx_timestamp :: "calendar \<Rightarrow> int \<Rightarrow> string res" where
  "format_okx_timestamp calendar unix_millis =
     (let seconds = unix_millis div MILLIS_PER_SECOND; millis = unix_millis mod MILLIS_PER_SECOND in
      rbind (require (- (2 ^ 63) \<le> seconds \<and> seconds < 2 ^ 63) ''OKX timestamp'' ''seconds out of range'') (\<lambda>_.
      rbind (ok_or (Fail (Bad ''OKX timestamp'' ''is outside supported range'')) (calendar seconds))
        (\<lambda>(year, month, day, hour, minute, second).
      Inr (show_padded 4 year @ ''-'' @ show_padded 2 (int month) @ ''-'' @ show_padded 2 (int day) @ ''T'' @
           show_padded 2 (int hour) @ '':'' @ show_padded 2 (int minute) @ '':'' @ show_padded 2 (int second) @
           ''.'' @ show_padded 3 millis @ ''Z''))))"

record PrivateRequestTiming =
  pt_timestamp :: string
  pt_unix_millis :: int

definition private_request_timing_new :: "calendar \<Rightarrow> int \<Rightarrow> PrivateRequestTiming res" where
  "private_request_timing_new calendar unix_millis =
     rbind (format_okx_timestamp calendar unix_millis) (\<lambda>t.
     Inr \<lparr> pt_timestamp = t, pt_unix_millis = unix_millis \<rparr>)"

text \<open>\<open>checked_div\<close> rounds towards zero.\<close>

definition websocket_login_timestamp_from_unix_millis :: "int \<Rightarrow> string res" where
  "websocket_login_timestamp_from_unix_millis unix_millis =
     (let seconds = (if unix_millis < 0 then - (- unix_millis div MILLIS_PER_SECOND)
                     else unix_millis div MILLIS_PER_SECOND) in
      rbind (require (seconds > 0) ''OKX WebSocket login timestamp'' ''must be positive'') (\<lambda>_.
      Inr (show_int seconds)))"

datatype PrivateRequestExpiry = NoRequestExpiry | TradeCommand

definition header_value :: "PrivateRequestExpiry \<Rightarrow> int \<Rightarrow> string option res" where
  "header_value expiry unix_millis =
     (case expiry of
        NoRequestExpiry \<Rightarrow> Inr None
      | TradeCommand \<Rightarrow>
          rbind (ok_or (Fail (Bad ''OKX trade command expTime'' ''overflowed signing timestamp''))
                   (i128_checked (unix_millis + OKX_ORDER_EXPIRY_WINDOW_MS))) (\<lambda>t. Inr (Some (show_int t))))"

section \<open>Buckets\<close>

record RateLimitBucket =
  rb_key :: string
  rb_limit :: nat
  rb_window :: nat

definition bucket_new :: "string \<Rightarrow> nat \<Rightarrow> RateLimitBucket" where
  "bucket_new key limit = \<lparr> rb_key = key, rb_limit = limit, rb_window = OKX_RATE_LIMIT_WINDOW \<rparr>"

definition bucket_with_window :: "string \<Rightarrow> nat \<Rightarrow> nat \<Rightarrow> RateLimitBucket" where
  "bucket_with_window key limit window = \<lparr> rb_key = key, rb_limit = limit, rb_window = window \<rparr>"

datatype RateLimitScope = Ip | IpInstrumentType | User | UserInstrumentType | UserInstrument | UserTag

record OkxRateLimitRule =
  rl_method :: string
  rl_path :: string
  rl_limit :: nat
  rl_scope :: RateLimitScope

definition rate_limit_rule :: "string \<Rightarrow> string \<Rightarrow> nat \<Rightarrow> RateLimitScope \<Rightarrow> OkxRateLimitRule" where
  "rate_limit_rule method path limit scope =
     \<lparr> rl_method = method, rl_path = path, rl_limit = limit, rl_scope = scope \<rparr>"

definition OKX_MARKET_RATE_LIMIT_RULES :: "OkxRateLimitRule list" where
  "OKX_MARKET_RATE_LIMIT_RULES =
     [rate_limit_rule ''GET'' ''/api/v5/public/time'' 10 Ip,
      rate_limit_rule ''GET'' ''/api/v5/public/instruments'' 20 IpInstrumentType,
      rate_limit_rule ''GET'' ''/api/v5/public/price-limit'' 20 Ip,
      rate_limit_rule ''GET'' ''/api/v5/public/market-data-history'' 5 Ip,
      rate_limit_rule ''GET'' ''/api/v5/market/candles'' 40 Ip,
      rate_limit_rule ''GET'' ''/api/v5/market/history-candles'' 20 Ip,
      rate_limit_rule ''GET'' ''/api/v5/market/history-trades'' 20 Ip,
      rate_limit_rule ''GET'' ''/api/v5/market/ticker'' 20 Ip,
      rate_limit_rule ''GET'' ''/api/v5/market/index-tickers'' 20 Ip,
      rate_limit_rule ''GET'' ''/api/v5/market/books'' 40 Ip]"

definition OKX_PRIVATE_RATE_LIMIT_RULES :: "OkxRateLimitRule list" where
  "OKX_PRIVATE_RATE_LIMIT_RULES =
     [rate_limit_rule ''GET'' ''/api/v5/account/instruments'' 20 UserInstrumentType,
      rate_limit_rule ''GET'' ''/api/v5/account/config'' 5 User,
      rate_limit_rule ''GET'' ''/api/v5/account/balance'' 10 User,
      rate_limit_rule ''GET'' ''/api/v5/account/trade-fee'' 5 User,
      rate_limit_rule ''GET'' ''/api/v5/account/max-size'' 20 User,
      rate_limit_rule ''GET'' ''/api/v5/account/max-avail-size'' 20 User,
      rate_limit_rule ''GET'' ''/api/v5/trade/order'' 60 UserInstrument,
      rate_limit_rule ''GET'' ''/api/v5/trade/order-algo'' 20 User,
      rate_limit_rule ''GET'' ''/api/v5/trade/orders-pending'' 60 User,
      rate_limit_rule ''GET'' ''/api/v5/trade/orders-history'' 40 User,
      rate_limit_rule ''GET'' ''/api/v5/trade/orders-history-archive'' 20 User,
      rate_limit_rule ''GET'' ''/api/v5/trade/fills'' 60 User,
      rate_limit_rule ''GET'' ''/api/v5/trade/fills-history'' 10 User,
      rate_limit_rule ''POST'' ''/api/v5/trade/order'' 60 UserInstrument,
      rate_limit_rule ''POST'' ''/api/v5/trade/cancel-order'' 60 UserInstrument,
      rate_limit_rule ''POST'' ''/api/v5/trade/amend-order'' 60 UserInstrument,
      rate_limit_rule ''POST'' ''/api/v5/trade/order-algo'' 20 UserInstrument,
      rate_limit_rule ''POST'' ''/api/v5/trade/cancel-algos'' 20 UserInstrument,
      rate_limit_rule ''POST'' ''/api/v5/trade/cancel-all-after'' 1 UserTag,
      rate_limit_rule ''GET'' ''/api/v5/trade/orders-algo-pending'' 20 User,
      rate_limit_rule ''GET'' ''/api/v5/trade/orders-algo-history'' 20 User]"

definition OKX_RATE_LIMIT_RULES :: "OkxRateLimitRule list" where
  "OKX_RATE_LIMIT_RULES = OKX_MARKET_RATE_LIMIT_RULES @ OKX_PRIVATE_RATE_LIMIT_RULES"

definition request_target :: "string \<Rightarrow> string option \<Rightarrow> string" where
  "request_target path query =
     (case query of None \<Rightarrow> path | Some q \<Rightarrow> if q \<noteq> [] then path @ ''?'' @ q else path)"

fun query_field :: "string \<Rightarrow> string list \<Rightarrow> string option" where
  "query_field name [] = None"
| "query_field name (f # fs) =
     (case split_once CHR ''='' f of
        Some (field_name, v) \<Rightarrow> if field_name = name then Some v else query_field name fs
      | None \<Rightarrow> query_field name fs)"

definition query_value :: "string option \<Rightarrow> string \<Rightarrow> string option" where
  "query_value query name = Option.bind query (\<lambda>q. query_field name (split_on CHR ''&'' q))"

definition required_rate_limit_value :: "string \<Rightarrow> string option \<Rightarrow> string res" where
  "required_rate_limit_value context v =
     rbind (ok_or (Fail (Bad context ''requires an OKX value'')) v) (\<lambda>s.
     rbind (require (\<not> blank s) context ''requires a non-empty OKX value'') (\<lambda>_. Inr s))"

definition bucket_key :: "string \<Rightarrow> string \<Rightarrow> string \<Rightarrow> string" where
  "bucket_key method path scope = method @ '' '' @ path @ ''|'' @ scope"

definition ip_scoped_bucket :: "string \<Rightarrow> string \<Rightarrow> nat \<Rightarrow> RateLimitBucket" where
  "ip_scoped_bucket method path limit = bucket_new (bucket_key method path ''ip'') limit"

definition user_scoped_bucket :: "string \<Rightarrow> string \<Rightarrow> nat \<Rightarrow> RateLimitBucket" where
  "user_scoped_bucket method path limit = bucket_new (bucket_key method path ''user'') limit"

definition user_tag_scoped_bucket :: "string \<Rightarrow> string \<Rightarrow> string \<Rightarrow> nat \<Rightarrow> RateLimitBucket" where
  "user_tag_scoped_bucket method path tag limit =
     bucket_with_window (bucket_key method path (''user+tag:'' @ tag)) limit OKX_CANCEL_ALL_AFTER_RATE_LIMIT_WINDOW"

definition user_instrument_type_scoped_bucket ::
    "string \<Rightarrow> string \<Rightarrow> string option \<Rightarrow> nat \<Rightarrow> RateLimitBucket res" where
  "user_instrument_type_scoped_bucket method path query limit =
     rbind (required_rate_limit_value ''OKX User ID + Instrument Type rate limit''
              (query_value query ''instType'')) (\<lambda>v.
     Inr (bucket_new (bucket_key method path (''user+instType:'' @ v)) limit))"

definition ip_instrument_type_scoped_bucket ::
    "string \<Rightarrow> string \<Rightarrow> string option \<Rightarrow> nat \<Rightarrow> RateLimitBucket res" where
  "ip_instrument_type_scoped_bucket method path query limit =
     rbind (required_rate_limit_value ''OKX IP + Instrument Type rate limit'' (query_value query ''instType'')) (\<lambda>v.
     Inr (bucket_new (bucket_key method path (''ip+instType:'' @ v)) limit))"

definition user_instrument_scoped_bucket ::
    "string \<Rightarrow> string \<Rightarrow> string option \<Rightarrow> string option \<Rightarrow> nat \<Rightarrow> RateLimitBucket res" where
  "user_instrument_scoped_bucket method path query body_inst_id limit =
     rbind (required_rate_limit_value ''OKX User ID + Instrument ID rate limit''
              (case body_inst_id of None \<Rightarrow> query_value query ''instId'' | Some i \<Rightarrow> Some i)) (\<lambda>v.
     Inr (bucket_new (bucket_key method path (''user+instId:'' @ v)) limit))"

definition okx_rate_limit_bucket ::
    "string \<Rightarrow> string \<Rightarrow> string option \<Rightarrow> string option \<Rightarrow> RateLimitBucket res" where
  "okx_rate_limit_bucket method path query body_inst_id =
     rbind (ok_or (Fail (Bad ''OKX rate limit rule'' ''is missing''))
              (List.find (\<lambda>r. rl_method r = method \<and> rl_path r = path) OKX_RATE_LIMIT_RULES)) (\<lambda>rule.
     (case rl_scope rule of
        Ip \<Rightarrow> Inr (ip_scoped_bucket method path (rl_limit rule))
      | IpInstrumentType \<Rightarrow> ip_instrument_type_scoped_bucket method path query (rl_limit rule)
      | User \<Rightarrow> Inr (user_scoped_bucket method path (rl_limit rule))
      | UserInstrumentType \<Rightarrow> user_instrument_type_scoped_bucket method path query (rl_limit rule)
      | UserInstrument \<Rightarrow> user_instrument_scoped_bucket method path query body_inst_id (rl_limit rule)
      | UserTag \<Rightarrow> Inr (user_tag_scoped_bucket method path OKX_CANCEL_ALL_AFTER_TAG (rl_limit rule))))"

section \<open>The pacer\<close>

record RateLimitPacer =
  rp_cooldowns :: "string \<rightharpoonup> nat"
  rp_requests :: "string \<rightharpoonup> nat list"

definition pacer_default :: RateLimitPacer where
  "pacer_default = \<lparr> rp_cooldowns = Map.empty, rp_requests = Map.empty \<rparr>"

definition record_rate_limit :: "RateLimitBucket \<Rightarrow> nat \<Rightarrow> RateLimitPacer \<Rightarrow> RateLimitPacer" where
  "record_rate_limit b now p = p\<lparr> rp_cooldowns := (rp_cooldowns p)(rb_key b \<mapsto> now + OKX_RATE_LIMIT_COOLDOWN) \<rparr>"

definition pacing_window :: "RateLimitBucket \<Rightarrow> nat" where
  "pacing_window b = rb_window b + OKX_RATE_LIMIT_PACING_SAFETY_MARGIN"

definition recorded_requests :: "string \<Rightarrow> RateLimitPacer \<Rightarrow> nat list" where
  "recorded_requests key p = (case rp_requests p key of None \<Rightarrow> [] | Some rs \<Rightarrow> rs)"

text \<open>How long the bucket is still cooling down; a cooldown that is over is forgotten.\<close>

definition cooling_down :: "RateLimitBucket \<Rightarrow> nat \<Rightarrow> RateLimitPacer \<Rightarrow> nat option" where
  "cooling_down b now p =
     (case rp_cooldowns p (rb_key b) of
        None \<Rightarrow> None
      | Some until \<Rightarrow> if until > now then Some (until - now) else None)"

definition reserve_or_wait ::
    "RateLimitBucket \<Rightarrow> nat \<Rightarrow> RateLimitPacer \<Rightarrow> nat option res \<times> RateLimitPacer" where
  "reserve_or_wait b now p =
     (if rb_limit b = 0 then (Inl (Fail (Bad ''OKX rate limit bucket'' ''must have a positive limit'')), p)
      else
        (case cooling_down b now p of
           Some d \<Rightarrow> (Inr (Some d), p)
         | None \<Rightarrow>
             let p = p\<lparr> rp_cooldowns := (rp_cooldowns p)(rb_key b := None) \<rparr>;
                 requests = dropWhile (\<lambda>r. now - r \<ge> pacing_window b) (recorded_requests (rb_key b) p) in
             if length requests < rb_limit b
             then (Inr None, p\<lparr> rp_requests := (rp_requests p)(rb_key b \<mapsto> requests @ [now]) \<rparr>)
             else
               (Inr (Some (hd requests + pacing_window b - now)),
                p\<lparr> rp_requests := (rp_requests p)(rb_key b \<mapsto> requests) \<rparr>)))"

text \<open>
  \<open>wait\<close>: sleeping and asking again.  \<open>elapse m\<close> is the time that passes before the \<open>m\<close>-th reading of the
  clock, on top of the time slept; the result is the time of the reservation.
\<close>

definition live_requests :: "RateLimitBucket \<Rightarrow> nat \<Rightarrow> RateLimitPacer \<Rightarrow> nat list" where
  "live_requests b now p = filter (\<lambda>r. now - r < pacing_window b) (recorded_requests (rb_key b) p)"

definition waits_left :: "RateLimitBucket \<Rightarrow> nat \<Rightarrow> RateLimitPacer \<Rightarrow> nat" where
  "waits_left b now p = length (live_requests b now p) + (if cooling_down b now p = None then 0 else 1)"

lemma filter_dropWhile_id: "filter (\<lambda>x. \<not> P x) (dropWhile P xs) = filter (\<lambda>x. \<not> P x) xs"
  by (induction xs) auto

lemma length_filter_mono: "(\<And>x. P x \<Longrightarrow> Q x) \<Longrightarrow> length (filter P xs) \<le> length (filter Q xs)"
  by (induction xs) (auto simp: le_Suc_eq)

lemma length_filter_less:
  assumes "\<And>x. P x \<Longrightarrow> Q x" and "y \<in> set xs" and "Q y" and "\<not> P y"
  shows "length (filter P xs) < length (filter Q xs)"
  using assms(2-4)
proof (induction xs)
  case Nil
  then show ?case by simp
next
  case (Cons x xs)
  show ?case
  proof (cases "x = y")
    case True
    with Cons.prems length_filter_mono [of P Q xs, OF assms(1)] show ?thesis by auto
  next
    case False
    with Cons assms(1) show ?thesis by auto
  qed
qed

lemma recorded_requests_cooldowns [simp]:
  "recorded_requests k (p\<lparr> rp_cooldowns := c \<rparr>) = recorded_requests k p"
  by (simp add: recorded_requests_def)

text \<open>What the bucket's queue is once expired requests are popped.\<close>

definition unexpired :: "RateLimitBucket \<Rightarrow> nat \<Rightarrow> RateLimitPacer \<Rightarrow> nat list" where
  "unexpired b now p = dropWhile (\<lambda>r. now - r \<ge> pacing_window b) (recorded_requests (rb_key b) p)"

lemma reserve_or_wait_cases:
  "reserve_or_wait b now p =
     (if rb_limit b = 0 then (Inl (Fail (Bad ''OKX rate limit bucket'' ''must have a positive limit'')), p)
      else if cooling_down b now p \<noteq> None then (Inr (cooling_down b now p), p)
      else if length (unexpired b now p) < rb_limit b
      then (Inr None, \<lparr> rp_cooldowns = (rp_cooldowns p)(rb_key b := None),
                        rp_requests = (rp_requests p)(rb_key b \<mapsto> unexpired b now p @ [now]) \<rparr>)
      else (Inr (Some (hd (unexpired b now p) + pacing_window b - now)),
            \<lparr> rp_cooldowns = (rp_cooldowns p)(rb_key b := None),
              rp_requests = (rp_requests p)(rb_key b \<mapsto> unexpired b now p) \<rparr>))"
  by (cases p) (auto simp: reserve_or_wait_def Let_def unexpired_def recorded_requests_def split: option.split)

lemma waits_decrease:
  assumes "reserve_or_wait b now p = (Inr (Some d), p')" and "now + d \<le> later"
  shows "waits_left b later p' < waits_left b now p"
proof (cases "cooling_down b now p")
  case (Some x)
  with assms(1) have d: "d = x" "p' = p" by (auto simp: reserve_or_wait_cases split: if_split_asm)
  with Some assms(2) have "cooling_down b later p = None"
    by (auto simp: cooling_down_def split: option.splits if_splits)
  moreover have "length (live_requests b later p) \<le> length (live_requests b now p)"
    using assms(2) unfolding live_requests_def by (intro length_filter_mono) auto
  ultimately show ?thesis using Some d by (simp add: waits_left_def)
next
  case None
  let ?rs = "unexpired b now p"
  from None assms(1) have full: "\<not> length ?rs < rb_limit b" "rb_limit b \<noteq> 0"
    and d: "d = hd ?rs + pacing_window b - now"
    and p': "recorded_requests (rb_key b) p' = ?rs" "rp_cooldowns p' (rb_key b) = None"
    by (auto simp: reserve_or_wait_cases recorded_requests_def split: if_split_asm)
  then have ne: "?rs \<noteq> []" by auto
  have h: "now - hd ?rs < pacing_window b"
    using hd_dropWhile [OF ne [unfolded unexpired_def]] by (simp add: unexpired_def)
  have "length (filter (\<lambda>r. later - r < pacing_window b) ?rs) < length (filter (\<lambda>r. now - r < pacing_window b) ?rs)"
    by (rule length_filter_less [of _ _ "hd ?rs"]) (use assms(2) d ne h in auto)
  also have "\<dots> = length (live_requests b now p)"
    unfolding live_requests_def unexpired_def using filter_dropWhile_id [of "\<lambda>r. now - r \<ge> pacing_window b"]
    by (simp add: not_le)
  finally show ?thesis using p' None by (simp add: waits_left_def live_requests_def cooling_down_def)
qed

function wait_from ::
    "(nat \<Rightarrow> nat) \<Rightarrow> RateLimitBucket \<Rightarrow> nat \<Rightarrow> nat \<Rightarrow> RateLimitPacer \<Rightarrow> unit res \<times> nat \<times> nat \<times> RateLimitPacer" where
  "wait_from elapse b m now p =
     (case reserve_or_wait b (now + elapse m) p of
        (Inl e, p') \<Rightarrow> (Inl e, m + 1, now + elapse m, p')
      | (Inr None, p') \<Rightarrow> (Inr (), m + 1, now + elapse m, p')
      | (Inr (Some remaining), p') \<Rightarrow> wait_from elapse b (m + 1) (now + elapse m + remaining) p')"
  by pat_completeness auto

termination
  by (relation "measure (\<lambda>(elapse, b, m, now, p). waits_left b (now + elapse m) p)")
    (auto intro: waits_decrease [OF sym])

declare wait_from.simps [simp del]

section \<open>What the pacer guarantees\<close>

text \<open>
  A history of the pacer: attempts to reserve and rate-limit answers of the exchange, in the order of their
  times.  The reservations granted are logged with their bucket.
\<close>

datatype pacer_step = Attempt RateLimitBucket nat | Limited RateLimitBucket nat

definition pacer_step_time :: "pacer_step \<Rightarrow> nat" where
  "pacer_step_time e = (case e of Attempt _ t \<Rightarrow> t | Limited _ t \<Rightarrow> t)"

definition pacer_step_bucket :: "pacer_step \<Rightarrow> RateLimitBucket" where
  "pacer_step_bucket e = (case e of Attempt b _ \<Rightarrow> b | Limited b _ \<Rightarrow> b)"

fun pacer_run :: "pacer_step list \<Rightarrow> RateLimitPacer \<Rightarrow> (RateLimitBucket \<times> nat) list \<times> RateLimitPacer" where
  "pacer_run [] p = ([], p)"
| "pacer_run (Limited b t # es) p = pacer_run es (record_rate_limit b t p)"
| "pacer_run (Attempt b t # es) p =
     (case reserve_or_wait b t p of
        (r, p') \<Rightarrow>
          (case pacer_run es p' of
             (gs, p'') \<Rightarrow> (if r = Inr None then (b, t) # gs else gs, p'')))"

definition grants_of :: "string \<Rightarrow> (RateLimitBucket \<times> nat) list \<Rightarrow> nat list" where
  "grants_of key gs = map snd (filter (\<lambda>(b, _). rb_key b = key) gs)"

definition spaced :: "nat \<Rightarrow> nat \<Rightarrow> nat list \<Rightarrow> bool" where
  "spaced limit window ts = (\<forall>i. i + limit < length ts \<longrightarrow> ts ! i + window \<le> ts ! (i + limit))"

text \<open>What holds of one bucket between steps: \<open>old\<close> are the grants already forgotten.\<close>

definition bucket_inv :: "RateLimitBucket \<Rightarrow> nat \<Rightarrow> nat list \<Rightarrow> RateLimitPacer \<Rightarrow> bool" where
  "bucket_inv b now gs p =
     (\<exists>old. gs = old @ recorded_requests (rb_key b) p \<and> (\<forall>t\<in>set old. t + pacing_window b \<le> now) \<and>
        (\<forall>t\<in>set gs. t \<le> now) \<and> length (recorded_requests (rb_key b) p) \<le> rb_limit b \<and>
        spaced (rb_limit b) (pacing_window b) gs)"

lemma bucket_inv_later: "bucket_inv b now gs p \<Longrightarrow> now \<le> later \<Longrightarrow> bucket_inv b later gs p"
  by (auto simp: bucket_inv_def intro: le_trans)

lemma spaced_snoc:
  assumes "spaced limit window ts" and "\<And>t. t \<in> set (take (length ts + 1 - limit) ts) \<Longrightarrow> t + window \<le> now"
    and "0 < limit"
  shows "spaced limit window (ts @ [now])"
  unfolding spaced_def
proof (intro allI impI)
  fix i assume i: "i + limit < length (ts @ [now])"
  show "(ts @ [now]) ! i + window \<le> (ts @ [now]) ! (i + limit)"
  proof (cases "i + limit = length ts")
    case True
    with assms(3) have "length ts + 1 - limit = Suc i" and "i < length ts" by auto
    then have "ts ! i \<in> set (take (length ts + 1 - limit) ts)" by (simp add: take_Suc_conv_app_nth)
    with assms(2) True assms(3) show ?thesis by (simp add: nth_append)
  next
    case False
    with i assms(1) show ?thesis by (auto simp: spaced_def nth_append)
  qed
qed

lemma recorded_other:
  assumes "reserve_or_wait b' now p = (r, p')" and "rb_key b' \<noteq> key"
  shows "recorded_requests key p' = recorded_requests key p \<and> rp_cooldowns p' key = rp_cooldowns p key"
  using assms by (auto simp: reserve_or_wait_cases recorded_requests_def split: if_split_asm)

lemma dropWhile_append_takeWhile: "xs = takeWhile P xs @ dropWhile P xs" by simp

lemma reserve_keeps_bucket:
  assumes inv: "bucket_inv b now gs p" and r: "reserve_or_wait b now p = (r, p')"
  shows "bucket_inv b now (if r = Inr None then gs @ [now] else gs) p'"
proof -
  let ?rs = "recorded_requests (rb_key b) p"
  let ?us = "unexpired b now p"
  obtain old where old: "gs = old @ ?rs" "\<forall>t\<in>set old. t + pacing_window b \<le> now" "\<forall>t\<in>set gs. t \<le> now"
    "length ?rs \<le> rb_limit b" "spaced (rb_limit b) (pacing_window b) gs"
    using inv by (auto simp: bucket_inv_def)
  define gone where "gone = old @ takeWhile (\<lambda>r. now - r \<ge> pacing_window b) ?rs"
  have gs: "gs = gone @ ?us" unfolding gone_def unexpired_def old(1) by simp
  have gone: "\<forall>t\<in>set gone. t + pacing_window b \<le> now"
  proof
    fix t assume t: "t \<in> set gone"
    show "t + pacing_window b \<le> now"
    proof (cases "t \<in> set old")
      case False
      with t have "pacing_window b \<le> now - t" by (auto simp: gone_def dest: set_takeWhileD)
      moreover have "t \<le> now" using t gs old(3) by auto
      ultimately show ?thesis by simp
    qed (use old(2) in auto)
  qed
  have us: "length ?us \<le> rb_limit b"
    using old(4) length_dropWhile_le [of "\<lambda>r. now - r \<ge> pacing_window b" ?rs] by (simp add: unexpired_def)
  show ?thesis
  proof (cases "r = Inr None")
    case True
    with r have lim: "length ?us < rb_limit b" "0 < rb_limit b"
      and p': "recorded_requests (rb_key b) p' = ?us @ [now]"
      by (auto simp: reserve_or_wait_cases recorded_requests_def split: if_split_asm)
    have "take (length gs + 1 - rb_limit b) gs = take (length gs + 1 - rb_limit b) gone"
      using lim gs by (simp add: le_diff_conv)
    then have "spaced (rb_limit b) (pacing_window b) (gs @ [now])"
      using old(5) gone lim(2) by (intro spaced_snoc) (auto dest: in_set_takeD)
    with True gs gone old(3) lim p' show ?thesis
      by (auto simp: bucket_inv_def intro!: exI [of _ gone])
  next
    case False
    with r have "recorded_requests (rb_key b) p' \<in> {?rs, ?us}"
      by (auto simp: reserve_or_wait_cases recorded_requests_def split: if_split_asm)
    then show ?thesis
    proof
      assume "recorded_requests (rb_key b) p' = ?rs"
      with False old show ?thesis by (auto simp: bucket_inv_def)
    next
      assume "recorded_requests (rb_key b) p' \<in> {?us}"
      with False gs gone old(3,5) us show ?thesis by (auto simp: bucket_inv_def intro!: exI [of _ gone])
    qed
  qed
qed

lemma grants_of_append [simp]: "grants_of key (gs @ hs) = grants_of key gs @ grants_of key hs"
  by (simp add: grants_of_def)

text \<open>All steps of the history come in the order of time and use one bucket per key.\<close>

definition history_ok :: "RateLimitBucket \<Rightarrow> pacer_step list \<Rightarrow> bool" where
  "history_ok b es =
     (sorted (map pacer_step_time es) \<and>
      (\<forall>e\<in>set es. rb_key (pacer_step_bucket e) = rb_key b \<longrightarrow> pacer_step_bucket e = b))"

lemma bucket_inv_cooldowns:
  "bucket_inv b now gs (record_rate_limit b' t p) = bucket_inv b now gs p"
  by (simp add: bucket_inv_def record_rate_limit_def)

lemma pacer_run_inv:
  assumes "bucket_inv b now gs p" and "history_ok b es" and "\<forall>e\<in>set es. now \<le> pacer_step_time e"
    and "pacer_run es p = (hs, p')"
  shows "\<exists>later. bucket_inv b later (gs @ grants_of (rb_key b) hs) p'"
  using assms
proof (induction es arbitrary: now gs p hs)
  case Nil
  then show ?case by (auto simp: grants_of_def)
next
  case (Cons e es)
  have ok: "history_ok b es" and later: "\<forall>e'\<in>set es. pacer_step_time e \<le> pacer_step_time e'"
    using Cons.prems(2) by (auto simp: history_ok_def)
  have inv: "bucket_inv b (pacer_step_time e) gs p"
    using bucket_inv_later [OF Cons.prems(1)] Cons.prems(3) by simp
  show ?case
  proof (cases e)
    case (Limited b' t)
    with Cons.IH [of "pacer_step_time e" gs "record_rate_limit b' t p"] inv ok later Cons.prems(4)
    show ?thesis by (simp add: bucket_inv_cooldowns)
  next
    case (Attempt b' t)
    obtain r q where r: "reserve_or_wait b' t p = (r, q)" by (cases "reserve_or_wait b' t p")
    obtain ks where ks: "pacer_run es q = (ks, p')" "hs = (if r = Inr None then (b', t) # ks else ks)"
      using Cons.prems(4) Attempt r by (auto split: prod.splits)
    show ?thesis
    proof (cases "rb_key b' = rb_key b")
      case True
      then have "b' = b" using Cons.prems(2) Attempt by (auto simp: history_ok_def pacer_step_bucket_def)
      with reserve_keeps_bucket [of b t gs p r q] inv r Attempt
      have "bucket_inv b t (if r = Inr None then gs @ [t] else gs) q" by (simp add: pacer_step_time_def)
      from Cons.IH [OF this ok _ ks(1)] later Attempt True ks(2) show ?thesis
        by (auto simp: pacer_step_time_def grants_of_def split: if_splits)
    next
      case False
      with recorded_other [OF r, of "rb_key b"] inv Attempt have "bucket_inv b t gs q"
        by (simp add: bucket_inv_def pacer_step_time_def)
      from Cons.IH [OF this ok _ ks(1)] later Attempt False ks(2) show ?thesis
        by (auto simp: pacer_step_time_def grants_of_def split: if_splits)
    qed
  qed
qed

lemma bucket_inv_default: "bucket_inv b now [] pacer_default"
  by (auto simp: bucket_inv_def pacer_default_def recorded_requests_def spaced_def)

text \<open>After a rate-limit answer the bucket is closed until the cooldown is over.\<close>

lemma pacer_run_cooldown:
  assumes "\<forall>e\<in>set es. now \<le> pacer_step_time e" and "sorted (map pacer_step_time es)"
    and "(\<exists>u. rp_cooldowns p (rb_key b) = Some u \<and> until \<le> u) \<or> until \<le> now"
    and "until \<le> now + OKX_RATE_LIMIT_COOLDOWN"
    and "pacer_run es p = (hs, p')"
  shows "\<forall>t\<in>set (grants_of (rb_key b) hs). until \<le> t"
  using assms
proof (induction es arbitrary: now p hs)
  case Nil
  then show ?case by (auto simp: grants_of_def)
next
  case (Cons e es)
  let ?t = "pacer_step_time e"
  have t: "now \<le> ?t" using Cons.prems(1) by simp
  have closed: "(\<exists>u. rp_cooldowns p (rb_key b) = Some u \<and> until \<le> u) \<or> until \<le> ?t"
    using Cons.prems(3) t by auto
  have later: "\<forall>e'\<in>set es. ?t \<le> pacer_step_time e'" "sorted (map pacer_step_time es)"
    "until \<le> ?t + OKX_RATE_LIMIT_COOLDOWN"
    using Cons.prems(2,4) t by auto
  show ?case
  proof (cases e)
    case (Limited b' s)
    have "(\<exists>u. rp_cooldowns (record_rate_limit b' s p) (rb_key b) = Some u \<and> until \<le> u) \<or> until \<le> ?t"
      using closed later(3) Limited by (auto simp: record_rate_limit_def pacer_step_time_def)
    from Cons.IH [OF later(1,2) this later(3)] Cons.prems(5) Limited show ?thesis by simp
  next
    case (Attempt b' s)
    obtain r q where r: "reserve_or_wait b' s p = (r, q)" by (cases "reserve_or_wait b' s p")
    obtain ks where ks: "pacer_run es q = (ks, p')" "hs = (if r = Inr None then (b', s) # ks else ks)"
      using Cons.prems(5) Attempt r by (auto split: prod.splits)
    have here: "until \<le> s" if "r = Inr None" "rb_key b' = rb_key b"
      using closed r that Attempt
      by (auto simp: reserve_or_wait_cases cooling_down_def pacer_step_time_def split: if_split_asm option.split_asm)
    have "(\<exists>u. rp_cooldowns q (rb_key b) = Some u \<and> until \<le> u) \<or> until \<le> ?t"
      using closed r Attempt recorded_other [OF r, of "rb_key b"]
      by (cases "rb_key b' = rb_key b")
        (auto simp: reserve_or_wait_cases cooling_down_def pacer_step_time_def split: if_split_asm option.split_asm)
    from Cons.IH [OF later(1,2) this later(3) ks(1)] here ks(2) show ?thesis
      by (auto simp: grants_of_def split: if_splits)
  qed
qed

text \<open>Waiting always ends with a reservation.\<close>

lemma wait_from_reserves:
  assumes "0 < rb_limit b"
  shows "\<exists>m' t q p'. wait_from elapse b m now p = (Inr (), m', t, p') \<and> now \<le> t \<and> m < m' \<and>
    reserve_or_wait b t q = (Inr None, p')"
  using assms
proof (induction elapse b m now p rule: wait_from.induct)
  case (1 elapse b m now p)
  obtain r p' where r: "reserve_or_wait b (now + elapse m) p = (r, p')" by fastforce
  show ?case
  proof (cases "\<exists>d. r = Inr (Some d)")
    case True
    then obtain d where d: "r = Inr (Some d)" by auto
    from "1.IH" [OF r [symmetric] d refl "1.prems"] obtain m' t q p'' where
      "wait_from elapse b (m + 1) (now + elapse m + d) p' = (Inr (), m', t, p'')" "now + elapse m + d \<le> t"
      "m + 1 < m'" "reserve_or_wait b t q = (Inr None, p'')" by blast
    with r d show ?thesis
      by (intro exI [of _ m'] exI [of _ t] exI [of _ q] exI [of _ p'']) (simp add: wait_from.simps [of elapse b m])
  next
    case False
    with r "1.prems" have "r = Inr None"
      by (auto simp: reserve_or_wait_cases split: if_split_asm)
    with r show ?thesis
      by (intro exI [of _ "m + 1"] exI [of _ "now + elapse m"] exI [of _ p] exI [of _ p'])
        (simp add: wait_from.simps [of elapse b m])
  qed
qed

text \<open>
  The buckets of the client: their limits are positive, so none is closed for good, and a key determines
  its bucket.
\<close>

lemmas bucket_defs =
  ip_scoped_bucket_def user_scoped_bucket_def bucket_new_def bucket_with_window_def user_tag_scoped_bucket_def
  ip_instrument_type_scoped_bucket_def user_instrument_type_scoped_bucket_def user_instrument_scoped_bucket_def
  bucket_key_def

lemmas rule_defs =
  OKX_RATE_LIMIT_RULES_def OKX_MARKET_RATE_LIMIT_RULES_def OKX_PRIVATE_RATE_LIMIT_RULES_def rate_limit_rule_def

definition rule_window :: "OkxRateLimitRule \<Rightarrow> nat" where
  "rule_window r = (if rl_scope r = UserTag then OKX_CANCEL_ALL_AFTER_RATE_LIMIT_WINDOW else OKX_RATE_LIMIT_WINDOW)"

lemma okx_rate_limit_bucket_rule:
  assumes "okx_rate_limit_bucket method path query body_inst_id = Inr b"
  obtains rule scope where "rule \<in> set OKX_RATE_LIMIT_RULES" and "rb_limit b = rl_limit rule"
    and "rb_window b = rule_window rule" and "rb_key b = rl_method rule @ '' '' @ rl_path rule @ ''|'' @ scope"
proof -
  from assms obtain rule where
    find: "List.find (\<lambda>r. rl_method r = method \<and> rl_path r = path) OKX_RATE_LIMIT_RULES = Some rule"
    by (auto simp: okx_rate_limit_bucket_def res_simps)
  then have rule: "rule \<in> set OKX_RATE_LIMIT_RULES" "rl_method rule = method" "rl_path rule = path"
    by (auto simp: find_Some_iff)
  have "\<exists>scope. rb_limit b = rl_limit rule \<and> rb_window b = rule_window rule \<and>
      rb_key b = method @ '' '' @ path @ ''|'' @ scope"
    using assms find
    by (cases "rl_scope rule")
      (auto simp: okx_rate_limit_bucket_def res_simps bucket_defs rule_window_def)
  with rule that show thesis by auto
qed

lemma okx_rate_limit_bucket_positive:
  assumes "okx_rate_limit_bucket method path query body_inst_id = Inr b"
  shows "0 < rb_limit b"
  using assms
proof (rule okx_rate_limit_bucket_rule)
  fix rule assume "rule \<in> set OKX_RATE_LIMIT_RULES" and "rb_limit b = rl_limit rule"
  then show ?thesis by (auto simp: rule_defs)
qed

definition rule_prefix :: "OkxRateLimitRule \<Rightarrow> string" where
  "rule_prefix r = rl_method r @ '' '' @ rl_path r"

lemma rule_prefixes: "distinct (map rule_prefix OKX_RATE_LIMIT_RULES)"
  "\<forall>r\<in>set OKX_RATE_LIMIT_RULES. CHR ''|'' \<notin> set (rule_prefix r)"
  by (simp_all add: rule_defs rule_prefix_def)

lemma rules_prefix_inj:
  assumes "r \<in> set OKX_RATE_LIMIT_RULES" and "r' \<in> set OKX_RATE_LIMIT_RULES" and "rule_prefix r = rule_prefix r'"
  shows "r = r'"
  using assms rule_prefixes(1) by (metis distinct_map inj_onD)

lemma takeWhile_bar: "CHR ''|'' \<notin> set s \<Longrightarrow> takeWhile (\<lambda>c. c \<noteq> CHR ''|'') (s @ ''|'' @ t) = s"
  by (induction s) auto

lemma okx_rate_limit_bucket_key:
  assumes "okx_rate_limit_bucket method path query inst = Inr b"
    and "okx_rate_limit_bucket method' path' query' inst' = Inr b'"
    and "rb_key b = rb_key b'"
  shows "b = b'"
proof -
  obtain r sc where r: "r \<in> set OKX_RATE_LIMIT_RULES" "rb_limit b = rl_limit r" "rb_window b = rule_window r"
    "rb_key b = rule_prefix r @ ''|'' @ sc"
    using okx_rate_limit_bucket_rule [OF assms(1)] by (metis append_assoc rule_prefix_def)
  obtain r' sc' where r': "r' \<in> set OKX_RATE_LIMIT_RULES" "rb_limit b' = rl_limit r'" "rb_window b' = rule_window r'"
    "rb_key b' = rule_prefix r' @ ''|'' @ sc'"
    using okx_rate_limit_bucket_rule [OF assms(2)] by (metis append_assoc rule_prefix_def)
  have "rule_prefix r = rule_prefix r'"
    using assms(3) r(4) r'(4) takeWhile_bar rule_prefixes(2) r(1) r'(1) by metis
  then have "r = r'" using rules_prefix_inj r(1) r'(1) by blast
  with r r' assms(3) show ?thesis by (cases b; cases b') simp
qed

end
