(* ===== verification/Rest_Base.thy ===== *)
theory Rest_Base
  imports Capability Market_Cache Rate_Limit
begin

text \<open>
  The foundation of the REST client of \<open>okx/client.rs\<close>: its errors, its state, its environment and the actions
  on them.

  The environment is what the code does not decide: what the exchange answers (\<open>re_http\<close>, an arbitrary function
  of everything sent so far), how time passes (\<open>re_elapse m\<close> nanoseconds before the \<open>m\<close>-th reading of the
  clock), the wall clock, what the WebSocket streams have left in the market cache, and what belongs to other
  libraries: JSON, percent-encoding, URLs, HMAC and the calendar.

  An action takes the client to its result and the client afterwards.  It always ends: a request has a time-out
  (no answer), waiting for a rate limit ends, and every loop of the client is bounded.  The caches are shared
  between the clones of a client; the model follows one task at a time, and the market cache may be anything
  at each moment it is read.  The private event cache is only read to log a difference, so it is left out.
\<close>

section \<open>Errors\<close>

record OkxEnvelopeTiming =
  en_in_time_microseconds :: "string option"
  en_out_time_microseconds :: "string option"

text \<open>
  The errors the code tells apart by downcasting.  The others are what the rest of the development has;
  a context is a layer around its cause, which \<open>chain\<close> and \<open>downcast_ref\<close> see through.
\<close>

datatype rest_error =
    Plain rt_error
  | OkxApiError string string
  | OkxOrderMutationApiError string string "OkxOrderAck list" OkxEnvelopeTiming
  | OkxAlgoMutationApiError string string "OkxAlgoOrderAck list" OkxEnvelopeTiming
  | StaleRestTimestampError string int int
  | InContext string rest_error

type_synonym 'a rest_res = "rest_error fault + 'a"

fun map_fault :: "('e \<Rightarrow> 'f) \<Rightarrow> 'e fault \<Rightarrow> 'f fault" where
  "map_fault g Panic = Panic"
| "map_fault g (Fail e) = Fail (g e)"

definition plain :: "'a res \<Rightarrow> 'a rest_res" where
  "plain m = map_err (map_fault Plain) m"

definition in_context :: "string \<Rightarrow> 'a rest_res \<Rightarrow> 'a rest_res" where
  "in_context context m = map_err (map_fault (InContext context)) m"

definition rest_bad :: "string \<Rightarrow> string \<Rightarrow> 'a rest_res" where
  "rest_bad context reason = Inl (Fail (Plain (Bad context reason)))"

fun has_okx_api_error_code :: "rest_error \<Rightarrow> string \<Rightarrow> bool" where
  "has_okx_api_error_code (Plain _) expected_code = False"
| "has_okx_api_error_code (OkxApiError code _) expected_code = (code = expected_code)"
| "has_okx_api_error_code (OkxOrderMutationApiError code _ _ _) expected_code = (code = expected_code)"
| "has_okx_api_error_code (OkxAlgoMutationApiError code _ _ _) expected_code = (code = expected_code)"
| "has_okx_api_error_code (StaleRestTimestampError _ _ _) expected_code = False"
| "has_okx_api_error_code (InContext _ e) expected_code = has_okx_api_error_code e expected_code"

fun is_stale_rest_timestamp :: "rest_error \<Rightarrow> bool" where
  "is_stale_rest_timestamp (StaleRestTimestampError _ _ _) = True"
| "is_stale_rest_timestamp (InContext _ e) = is_stale_rest_timestamp e"
| "is_stale_rest_timestamp _ = False"

section \<open>Request bodies\<close>

record PlaceOrderRequest =
  pq_inst_id :: string
  pq_td_mode :: string
  pq_side :: string
  pq_order_type :: string
  pq_sz :: string
  pq_price :: "string option"
  pq_target_currency :: "string option"
  pq_trade_quote_currency :: string
  pq_ban_amend :: "bool option"
  pq_slippage_pct :: "string option"
  pq_price_amend_type :: string
  pq_tag :: string
  pq_client_order_id :: string

record CancelOrderRequest =
  kq_inst_id :: string
  kq_client_order_id :: string

record AmendOrderRequest =
  aq_inst_id :: string
  aq_client_order_id :: string
  aq_new_size :: "string option"
  aq_new_price :: "string option"
  aq_price_amend_type :: string

record PlaceTriggerOrderRequest =
  tq_inst_id :: string
  tq_td_mode :: string
  tq_side :: string
  tq_order_type :: string
  tq_sz :: string
  tq_trigger_price :: string
  tq_trigger_price_type :: string
  tq_order_price :: string
  tq_trade_quote_currency :: string
  tq_tag :: string
  tq_client_order_id :: string

record CancelAlgoOrderRequest =
  cq_inst_id :: string
  cq_algo_id :: string

record CancelAllAfterRequest =
  xq_timeout_seconds :: string
  xq_tag :: string

datatype rest_body =
    PlaceOrderBody PlaceOrderRequest
  | CancelOrderBody CancelOrderRequest
  | AmendOrderBody AmendOrderRequest
  | PlaceTriggerBody PlaceTriggerOrderRequest
  | CancelAlgoBody CancelAlgoOrderRequest
  | CancelAllAfterBody CancelAllAfterRequest

text \<open>The cancelled algo orders are an array of one request.\<close>

definition rate_limit_inst_id :: "rest_body \<Rightarrow> string option" where
  "rate_limit_inst_id b =
     (case b of
        PlaceOrderBody q \<Rightarrow> Some (pq_inst_id q)
      | CancelOrderBody q \<Rightarrow> Some (kq_inst_id q)
      | AmendOrderBody q \<Rightarrow> Some (aq_inst_id q)
      | PlaceTriggerBody q \<Rightarrow> Some (tq_inst_id q)
      | CancelAlgoBody q \<Rightarrow> Some (cq_inst_id q)
      | CancelAllAfterBody _ \<Rightarrow> None)"

section \<open>Transport\<close>

text \<open>
  A request as it is sent.  The body is kept beside its serialization, so that the log says what was asked.
  A response whose chunk is \<open>None\<close> fails to be read there.
\<close>

record http_request =
  hq_method :: string
  hq_path :: string
  hq_query :: "string option"
  hq_headers :: "(string \<times> string) list"
  hq_body :: string
  hq_asked :: "rest_body option"

record http_response =
  hp_status :: nat
  hp_content_length :: "nat option"
  hp_chunks :: "string option list"

record OkxEnvelopeRaw =
  en_code :: string
  en_msg :: string
  en_data :: "string option"
  en_timing :: OkxEnvelopeTiming

record 'a mutation_envelope =
  em_code :: string
  em_msg :: string
  em_data :: "'a list"
  em_timing :: OkxEnvelopeTiming

text \<open>
  Deserialization: \<open>None\<close> where serde reports an error.  A candle row is the array of strings that
  \<open>MarketBar::deserialize\<close> gets.
\<close>

record rest_json =
  rj_envelope :: "string \<Rightarrow> OkxEnvelopeRaw option"
  rj_order_mutation :: "string \<Rightarrow> OkxOrderAck mutation_envelope option"
  rj_algo_mutation :: "string \<Rightarrow> OkxAlgoOrderAck mutation_envelope option"
  rj_orders :: "string \<Rightarrow> OkxOrder list option"
  rj_algo_orders :: "string \<Rightarrow> OkxAlgoOrder list option"
  rj_fills :: "string \<Rightarrow> OkxFill list option"
  rj_instruments :: "string \<Rightarrow> OkxInstrument list option"
  rj_balances :: "string \<Rightarrow> OkxBalance list option"
  rj_account_configs :: "string \<Rightarrow> OkxAccountConfig list option"
  rj_fees :: "string \<Rightarrow> OkxTradeFeeResponse list option"
  rj_maximum_sizes :: "string \<Rightarrow> OkxMaximumOrderSize list option"
  rj_available_sizes :: "string \<Rightarrow> OkxMaximumAvailableSize list option"
  rj_tickers :: "string \<Rightarrow> (OkxTicker \<times> string) list option"
  rj_index_tickers :: "string \<Rightarrow> OkxIndexTicker list option"
  rj_price_limits :: "string \<Rightarrow> OkxPriceLimit list option"
  rj_server_times :: "string \<Rightarrow> string list option"
  rj_cancel_all_after_acks :: "string \<Rightarrow> OkxCancelAllAfterAck list option"
  rj_candle_rows :: "string \<Rightarrow> string list list option"

text \<open>\<open>re_oldest_fallback\<close> is the choice a hash map makes between equally old entries.\<close>

record LiveCandleFallbackKey =
  lk_inst_id :: string
  lk_bar :: string
  lk_limit :: nat

record rest_env =
  re_decimal :: decimal_ops
  re_json :: rest_json
  re_serialize :: "rest_body \<Rightarrow> string option"
  re_urlencode :: "string \<Rightarrow> string"
  re_url_ok :: "string \<Rightarrow> string option \<Rightarrow> bool"
  re_hmac :: "string \<Rightarrow> string \<Rightarrow> string"
  re_calendar :: calendar
  re_elapse :: "nat \<Rightarrow> nat"
  re_unix_millis :: "nat \<Rightarrow> int"
  re_http :: "http_request list \<Rightarrow> http_response option"
  re_market_data :: "nat \<Rightarrow> OkxMarketDataState"
  re_oldest_fallback :: "LiveCandleFallbackKey picker"

section \<open>The client\<close>

record OkxGatewayLatencyWindow =
  gw_sample_count :: nat
  gw_slow_sample_count :: nat
  gw_total_gateway_latency_microseconds :: nat
  gw_max_gateway_latency_microseconds :: nat

definition gateway_latency_window_default :: OkxGatewayLatencyWindow where
  "gateway_latency_window_default =
     \<lparr> gw_sample_count = 0, gw_slow_sample_count = 0, gw_total_gateway_latency_microseconds = 0,
       gw_max_gateway_latency_microseconds = 0 \<rparr>"

record LiveCandleFallback =
  lf_candles :: "MarketBar list"
  lf_fetched_at :: nat

text \<open>
  \<open>ri_now\<close> and \<open>ri_moment\<close> are the time and the number of readings of the clock; \<open>ri_log\<close> holds the requests
  sent, latest first.
\<close>

record OkxRestClient =
  ri_api_key :: string
  ri_api_secret :: string
  ri_api_passphrase :: string
  ri_simulated_trading :: bool
  ri_server_time_clock :: ServerTimeClock
  ri_rate_limit_pacer :: RateLimitPacer
  ri_gateway_latency :: OkxGatewayLatencyWindow
  ri_market_data_max_staleness :: nat
  ri_live_candle_fallbacks :: "(LiveCandleFallbackKey \<times> LiveCandleFallback) list"
  ri_instrument_snapshots :: "string \<rightharpoonup> OkxInstrument"
  ri_safety_latches :: "string \<rightharpoonup> rest_error"
  ri_generations :: "string \<rightharpoonup> ValidatedCapabilityGeneration"
  ri_account_level :: "AccountLevelDiagnosticSnapshot option"
  ri_now :: nat
  ri_moment :: nat
  ri_log :: "http_request list"

definition rest_client_new :: "string \<Rightarrow> string \<Rightarrow> string \<Rightarrow> bool \<Rightarrow> nat \<Rightarrow> OkxRestClient" where
  "rest_client_new key secret passphrase simulated_trading max_staleness_ms =
     \<lparr> ri_api_key = key, ri_api_secret = secret, ri_api_passphrase = passphrase,
       ri_simulated_trading = simulated_trading, ri_server_time_clock = None, ri_rate_limit_pacer = pacer_default,
       ri_gateway_latency = gateway_latency_window_default,
       ri_market_data_max_staleness = max_staleness_ms * 1000000, ri_live_candle_fallbacks = [],
       ri_instrument_snapshots = Map.empty, ri_safety_latches = Map.empty, ri_generations = Map.empty,
       ri_account_level = None, ri_now = 0, ri_moment = 0, ri_log = [] \<rparr>"

section \<open>Actions\<close>

type_synonym 'a rest = "OkxRestClient \<Rightarrow> 'a rest_res \<times> OkxRestClient"

definition qlift :: "'a rest_res \<Rightarrow> 'a rest" where
  "qlift r = (\<lambda>c. (r, c))"

definition qret :: "'a \<Rightarrow> 'a rest" where
  "qret x = qlift (Inr x)"

definition qfail :: "rest_error \<Rightarrow> 'a rest" where
  "qfail e = qlift (Inl (Fail e))"

definition qplain :: "'a res \<Rightarrow> 'a rest" where
  "qplain r = qlift (plain r)"

definition qbind :: "'a rest \<Rightarrow> ('a \<Rightarrow> 'b rest) \<Rightarrow> 'b rest" where
  "qbind m f = (\<lambda>c. case m c of (Inl e, c') \<Rightarrow> (Inl e, c') | (Inr x, c') \<Rightarrow> f x c')"

definition qget :: "(OkxRestClient \<Rightarrow> 'a) \<Rightarrow> 'a rest" where
  "qget f = (\<lambda>c. (Inr (f c), c))"

definition qupd :: "(OkxRestClient \<Rightarrow> OkxRestClient) \<Rightarrow> unit rest" where
  "qupd f = (\<lambda>c. (Inr (), f c))"

text \<open>\<open>match m.await\<close>: an error is a value; a panic is not caught.\<close>

definition qtry :: "'a rest \<Rightarrow> (rest_error + 'a \<Rightarrow> 'b rest) \<Rightarrow> 'b rest" where
  "qtry m f = (\<lambda>c.
     case m c of
       (Inl Panic, c') \<Rightarrow> (Inl Panic, c')
     | (Inl (Fail e), c') \<Rightarrow> f (Inl e) c'
     | (Inr x, c') \<Rightarrow> f (Inr x) c')"

definition qcontext :: "string \<Rightarrow> 'a rest \<Rightarrow> 'a rest" where
  "qcontext context m = (\<lambda>c. case m c of (r, c') \<Rightarrow> (in_context context r, c'))"

text \<open>A reading of the monotonic clock, and of the wall clock.\<close>

definition advance :: "rest_env \<Rightarrow> OkxRestClient \<Rightarrow> OkxRestClient" where
  "advance E c = c\<lparr> ri_now := ri_now c + re_elapse E (ri_moment c), ri_moment := ri_moment c + 1 \<rparr>"

definition qnow :: "rest_env \<Rightarrow> nat rest" where
  "qnow E = (\<lambda>c. (Inr (ri_now (advance E c)), advance E c))"

definition qunix :: "rest_env \<Rightarrow> int rest" where
  "qunix E = (\<lambda>c. (Inr (re_unix_millis E (ri_moment c)), advance E c))"

definition qsleep :: "nat \<Rightarrow> unit rest" where
  "qsleep d = qupd (\<lambda>c. c\<lparr> ri_now := ri_now c + d \<rparr>)"

text \<open>The market cache as the streams have left it when it is read.\<close>

definition qmarket :: "rest_env \<Rightarrow> OkxMarketDataState rest" where
  "qmarket E = (\<lambda>c. (Inr (re_market_data E (ri_moment c)), c))"

definition qwait :: "rest_env \<Rightarrow> RateLimitBucket \<Rightarrow> unit rest" where
  "qwait E b = (\<lambda>c.
     case wait_from (re_elapse E) b (ri_moment c) (ri_now c) (ri_rate_limit_pacer c) of
       (r, m, t, p) \<Rightarrow> (plain r, c\<lparr> ri_moment := m, ri_now := t, ri_rate_limit_pacer := p \<rparr>))"

definition qrecord_rate_limit :: "rest_env \<Rightarrow> RateLimitBucket \<Rightarrow> unit rest" where
  "qrecord_rate_limit E b =
     qbind (qnow E) (\<lambda>now.
     qupd (\<lambda>c. c\<lparr> ri_rate_limit_pacer := record_rate_limit b now (ri_rate_limit_pacer c) \<rparr>))"

text \<open>Sending: the request is logged, and the exchange answers or does not.\<close>

definition qsend :: "rest_env \<Rightarrow> string \<Rightarrow> http_request \<Rightarrow> http_response rest" where
  "qsend E failure q = (\<lambda>c.
     let log = q # ri_log c in
     (ok_or (Fail (Plain (Bad failure ''failed''))) (re_http E log), c\<lparr> ri_log := log \<rparr>))"

section \<open>Reasoning about actions\<close>

lemma plain_simps [simp]:
  "plain (Inr x) = Inr x" "plain (Inl Panic) = Inl Panic" "plain (Inl (Fail e)) = Inl (Fail (Plain e))"
  by (simp_all add: plain_def)

lemma plain_eq_Inr [simp]: "plain m = Inr x \<longleftrightarrow> m = Inr x"
  by (simp add: plain_def)

lemma in_context_eq_Inr [simp]: "in_context s m = Inr x \<longleftrightarrow> m = Inr x"
  by (simp add: in_context_def)

lemma qbind_Inr: "qbind m f c = (Inr y, c'') \<longleftrightarrow> (\<exists>x c'. m c = (Inr x, c') \<and> f x c' = (Inr y, c''))"
  by (auto simp: qbind_def split: prod.splits sum.splits)

lemma qbind_eq:
  "qbind m f c = (r, c'') \<longleftrightarrow>
    (\<exists>e. m c = (Inl e, c'') \<and> r = Inl e) \<or> (\<exists>x c'. m c = (Inr x, c') \<and> f x c' = (r, c''))"
  by (auto simp: qbind_def split: prod.splits sum.splits)

lemma qtry_eq:
  "qtry m f c = (r, c'') \<longleftrightarrow>
    (m c = (Inl Panic, c'') \<and> r = Inl Panic) \<or> (\<exists>e c'. m c = (Inl (Fail e), c') \<and> f (Inl e) c' = (r, c'')) \<or>
    (\<exists>x c'. m c = (Inr x, c') \<and> f (Inr x) c' = (r, c''))"
  by (auto simp: qtry_def split: prod.splits sum.splits fault.splits)

lemma qsimps [simp]:
  "qlift r c = (r, c)" "qret x c = (Inr x, c)" "qfail e c = (Inl (Fail e), c)" "qplain q c = (plain q, c)"
  "qget f c = (Inr (f c), c)" "qupd g c = (Inr (), g c)" "qmarket E c = (Inr (re_market_data E (ri_moment c)), c)"
  by (simp_all add: qlift_def qret_def qfail_def qplain_def qget_def qupd_def qmarket_def)

lemma qcontext_Inr [simp]: "qcontext s m c = (Inr y, c') \<longleftrightarrow> m c = (Inr y, c')"
  by (auto simp: qcontext_def split: prod.splits)

text \<open>
  \<open>rest_keeps R m\<close>: whatever \<open>m\<close> returns, the client before and after are related.  For a reflexive and
  transitive \<open>R\<close> the rules follow the structure of an action.
\<close>

definition rest_keeps :: "(OkxRestClient \<Rightarrow> OkxRestClient \<Rightarrow> bool) \<Rightarrow> 'a rest \<Rightarrow> bool" where
  "rest_keeps R m = (\<forall>c. R c (snd (m c)))"

named_theorems keep_rules "rules of rest_keeps"

definition preorder_rel :: "(OkxRestClient \<Rightarrow> OkxRestClient \<Rightarrow> bool) \<Rightarrow> bool" where
  "preorder_rel R = ((\<forall>c. R c c) \<and> (\<forall>a b c. R a b \<longrightarrow> R b c \<longrightarrow> R a c))"

lemma rest_keepsD: "rest_keeps R m \<Longrightarrow> m c = (r, c') \<Longrightarrow> R c c'"
  by (metis rest_keeps_def snd_conv)

lemma rest_keeps_bind [keep_rules]:
  assumes "preorder_rel R" and "rest_keeps R m" and "\<And>x. rest_keeps R (f x)"
  shows "rest_keeps R (qbind m f)"
  unfolding rest_keeps_def
proof
  fix c
  obtain r c' where m: "m c = (r, c')" by force
  from rest_keepsD [OF assms(2) m] have "R c c'" .
  with m assms(1,3) show "R c (snd (qbind m f c))"
    by (cases r) (auto simp: qbind_def rest_keeps_def preorder_rel_def)
qed

lemma keeps_try [keep_rules]:
  assumes "preorder_rel R" and "rest_keeps R m" and "\<And>x. rest_keeps R (f x)"
  shows "rest_keeps R (qtry m f)"
  unfolding rest_keeps_def
proof
  fix c
  obtain r c' where m: "m c = (r, c')" by force
  from rest_keepsD [OF assms(2) m] have "R c c'" .
  with m assms(1,3) show "R c (snd (qtry m f c))"
    by (auto simp: qtry_def rest_keeps_def preorder_rel_def split: sum.split fault.split)
qed

lemma keeps_pure [keep_rules]:
  assumes "preorder_rel R"
  shows "rest_keeps R (qlift r)" "rest_keeps R (qret x)" "rest_keeps R (qfail e)" "rest_keeps R (qplain q)"
    "rest_keeps R (qget f)" "rest_keeps R (qmarket E)"
  using assms by (simp_all add: rest_keeps_def preorder_rel_def)

lemma keeps_context [keep_rules]: "rest_keeps R m \<Longrightarrow> rest_keeps R (qcontext s m)"
  by (auto simp: rest_keeps_def qcontext_def split: prod.split) (metis snd_conv)

lemma keeps_upd: "(\<And>c. R c (g c)) \<Longrightarrow> rest_keeps R (qupd g)"
  by (simp add: rest_keeps_def)

lemma rest_keeps_if [keep_rules]: "rest_keeps R a \<Longrightarrow> rest_keeps R b \<Longrightarrow> rest_keeps R (if p then a else b)"
  by simp

lemma keeps_sum [keep_rules]:
  "(\<And>e. rest_keeps R (f e)) \<Longrightarrow> (\<And>x. rest_keeps R (g x)) \<Longrightarrow>
    rest_keeps R (case s of Inl e \<Rightarrow> f e | Inr x \<Rightarrow> g x)"
  by (cases s) auto

lemma rest_keeps_option [keep_rules]:
  "rest_keeps R f \<Longrightarrow> (\<And>x. rest_keeps R (g x)) \<Longrightarrow> rest_keeps R (case s of None \<Rightarrow> f | Some x \<Rightarrow> g x)"
  by (cases s) auto

lemma rest_keeps_prod [keep_rules]:
  "(\<And>a b. rest_keeps R (f a b)) \<Longrightarrow> rest_keeps R (case p of (a, b) \<Rightarrow> f a b)"
  by (cases p) auto

end
