(* ===== verification/Preflight_Command.thy ===== *)
theory Preflight_Command
  imports Config_Loading Rest_Base
begin

text \<open>
  The command line of the economics preflight of \<open>app/economics_preflight.rs\<close>, and what is validated before its
  client is built.  The host's directories are parameters.  A path is its text, as in \<open>Config_Loading\<close>.
\<close>

section \<open>The command\<close>

definition SCHEMA :: string where "SCHEMA = ''okx-trading-runtime-economics-preflight-v1''"
definition PRODUCT :: string where "PRODUCT = ''okx-rust-trading''"
definition DEFAULT_REST_SAMPLES :: nat where "DEFAULT_REST_SAMPLES = 20"
definition MIN_REST_SAMPLES :: nat where "MIN_REST_SAMPLES = 3"
definition MAX_REST_SAMPLES :: nat where "MAX_REST_SAMPLES = 100"
definition DEFAULT_WEBSOCKET_SAMPLES :: nat where "DEFAULT_WEBSOCKET_SAMPLES = 3"
definition MIN_WEBSOCKET_SAMPLES :: nat where "MIN_WEBSOCKET_SAMPLES = 1"
definition MAX_WEBSOCKET_SAMPLES :: nat where "MAX_WEBSOCKET_SAMPLES = 10"
definition DEFAULT_REQUEST_TIMEOUT_MS :: nat where "DEFAULT_REQUEST_TIMEOUT_MS = 10000"
definition MIN_REQUEST_TIMEOUT_MS :: nat where "MIN_REQUEST_TIMEOUT_MS = 100"
definition MAX_REQUEST_TIMEOUT_MS :: nat where "MAX_REQUEST_TIMEOUT_MS = 60000"
definition TRADING_SESSION_LATENCY_NOTE :: string where
  "TRADING_SESSION_LATENCY_NOTE =
     ''WebSocket trading-session preparation latency is not order-command acknowledgement latency.''"

record EconomicsPreflightCommand =
  em_profile_selector :: string
  em_output :: string
  em_rest_samples :: nat
  em_websocket_samples :: nat
  em_request_timeout_ms :: nat
  em_acknowledge_read_only_production :: bool

text \<open>The options read so far.\<close>

record preflight_options =
  op_output :: "string option"
  op_rest_samples :: "nat option"
  op_websocket_samples :: "nat option"
  op_request_timeout_ms :: "nat option"
  op_acknowledged :: bool

definition preflight_bad :: "string \<Rightarrow> 'a res" where
  "preflight_bad reason = Inl (Fail (Bad ''economics-preflight'' reason))"

definition parse_once :: "'a option \<Rightarrow> 'a \<Rightarrow> 'a option res" where
  "parse_once slot v = rbind (require (slot = None) ''economics-preflight'' ''duplicate option'') (\<lambda>_. Inr (Some v))"

definition parse_preflight_integer :: "string \<Rightarrow> nat res" where
  "parse_preflight_integer v = ok_or (Fail (Bad ''economics-preflight'' ''option must be an integer'')) (parse_u64 v)"

fun parse_options :: "preflight_options \<Rightarrow> string list \<Rightarrow> preflight_options res" where
  "parse_options opts [] = Inr opts"
| "parse_options opts (name # args) =
     (if name = ''--acknowledge-read-only-production'' then
        rbind (require (\<not> op_acknowledged opts) ''economics-preflight'' ''duplicate option'') (\<lambda>_.
        parse_options (opts\<lparr> op_acknowledged := True \<rparr>) args)
      else if name \<notin> {''--output'', ''--rest-samples'', ''--websocket-samples'', ''--request-timeout-ms''} then
        preflight_bad ''unknown option''
      else
        (case args of
           [] \<Rightarrow> preflight_bad ''option requires a value''
         | v # rest \<Rightarrow>
             if name = ''--output'' then
               rbind (parse_once (op_output opts) v) (\<lambda>slot. parse_options (opts\<lparr> op_output := slot \<rparr>) rest)
             else
               rbind (parse_preflight_integer v) (\<lambda>n.
               if name = ''--rest-samples'' then
                 rbind (parse_once (op_rest_samples opts) n) (\<lambda>slot.
                 parse_options (opts\<lparr> op_rest_samples := slot \<rparr>) rest)
               else if name = ''--websocket-samples'' then
                 rbind (parse_once (op_websocket_samples opts) n) (\<lambda>slot.
                 parse_options (opts\<lparr> op_websocket_samples := slot \<rparr>) rest)
               else
                 rbind (parse_once (op_request_timeout_ms opts) n) (\<lambda>slot.
                 parse_options (opts\<lparr> op_request_timeout_ms := slot \<rparr>) rest))))"

definition option_in_range :: "nat \<Rightarrow> nat \<Rightarrow> nat \<Rightarrow> string \<Rightarrow> unit res" where
  "option_in_range low high n name = require (low \<le> n \<and> n \<le> high) ''economics-preflight'' (name @ '' is out of range'')"

definition unwrap_or :: "'a \<Rightarrow> 'a option \<Rightarrow> 'a" where
  "unwrap_or d x = (case x of None \<Rightarrow> d | Some v \<Rightarrow> v)"

definition preflight_parse :: "string list \<Rightarrow> EconomicsPreflightCommand res" where
  "preflight_parse args =
     (case args of
        [] \<Rightarrow> preflight_bad ''requires one complete profile selector''
      | selector # rest \<Rightarrow>
          rbind (require (\<not> starts_with ''-'' selector) ''economics-preflight'' ''profile selector must precede options'') (\<lambda>_.
          rbind (parse_options \<lparr> op_output = None, op_rest_samples = None, op_websocket_samples = None,
                   op_request_timeout_ms = None, op_acknowledged = False \<rparr> rest) (\<lambda>opts.
          rbind (ok_or (Fail (Bad ''economics-preflight'' ''requires --output'')) (op_output opts)) (\<lambda>output.
          rbind (require (path_is_absolute output) ''economics-preflight'' ''--output must be an absolute external path'') (\<lambda>_.
          let rest_samples = unwrap_or DEFAULT_REST_SAMPLES (op_rest_samples opts);
              websocket_samples = unwrap_or DEFAULT_WEBSOCKET_SAMPLES (op_websocket_samples opts);
              timeout_ms = unwrap_or DEFAULT_REQUEST_TIMEOUT_MS (op_request_timeout_ms opts) in
          rbind (option_in_range MIN_REST_SAMPLES MAX_REST_SAMPLES rest_samples ''--rest-samples'') (\<lambda>_.
          rbind (option_in_range MIN_WEBSOCKET_SAMPLES MAX_WEBSOCKET_SAMPLES websocket_samples ''--websocket-samples'') (\<lambda>_.
          rbind (option_in_range MIN_REQUEST_TIMEOUT_MS MAX_REQUEST_TIMEOUT_MS timeout_ms ''--request-timeout-ms'') (\<lambda>_.
          Inr \<lparr> em_profile_selector = selector, em_output = output, em_rest_samples = rest_samples,
                em_websocket_samples = websocket_samples, em_request_timeout_ms = timeout_ms,
                em_acknowledge_read_only_production = op_acknowledged opts \<rparr>))))))))"

section \<open>Paths and the host\<close>

text \<open>\<open>ph_metadata p\<close>: whether \<open>p\<close> exists, \<open>None\<close> if that cannot be told.\<close>

record preflight_host =
  ph_metadata :: "string \<Rightarrow> bool option"
  ph_canonicalize :: "string \<Rightarrow> string option"
  ph_is_dir :: "string \<Rightarrow> bool"
  ph_manifest_dir :: string
  ph_process_id :: nat
  ph_package_version :: string
  ph_system_time_ms :: int

fun join_components :: "string list \<Rightarrow> string" where
  "join_components [] = []"
| "join_components [c] = c"
| "join_components (c # cs) = (if c = ''/'' then c else c @ ''/'') @ join_components cs"

text \<open>\<open>Path::file_name\<close>, \<open>parent\<close>, \<open>extension\<close> and \<open>join\<close>.  A parent is its components, joined by single separators.\<close>

definition path_file_name :: "string \<Rightarrow> string option" where
  "path_file_name p =
     (case rev (path_components p) of
        [] \<Rightarrow> None
      | name # _ \<Rightarrow> if name \<in> {''/'', ''.'', ''..''} then None else Some name)"

definition path_parent :: "string \<Rightarrow> string option" where
  "path_parent p =
     (case rev (path_components p) of
        [] \<Rightarrow> None
      | name # rest \<Rightarrow> if name = ''/'' then None else Some (join_components (rev rest)))"

definition path_extension :: "string \<Rightarrow> string option" where
  "path_extension p =
     Option.bind (path_file_name p) (\<lambda>name.
     let after = takeWhile (\<lambda>c. c \<noteq> CHR ''.'') (rev name);
         before = drop (Suc (length after)) (rev name) in
     if CHR ''.'' \<in> set name \<and> before \<noteq> [] then Some (rev after) else None)"

definition path_join :: "string \<Rightarrow> string \<Rightarrow> string" where
  "path_join base name = (if base = [] \<or> last base = CHR ''/'' then base @ name else base @ ''/'' @ name)"

definition path_starts_with :: "string \<Rightarrow> string \<Rightarrow> bool" where
  "path_starts_with p base =
     (take (length (path_components base)) (path_components p) = path_components base)"

definition push_component :: "string list \<Rightarrow> string \<Rightarrow> string list" where
  "push_component cs c =
     (if c = ''.'' then cs
      else if c = ''..'' then (if cs = [''/''] then cs else butlast cs)
      else cs @ [c])"

definition normalize_path :: "string \<Rightarrow> string" where
  "normalize_path p = join_components (foldl push_component [] (path_components p))"

definition repository_root :: "preflight_host \<Rightarrow> string" where
  "repository_root H =
     (let root = ph_manifest_dir H @ ''/../..'' in unwrap_or (normalize_path root) (ph_canonicalize H root))"

definition validated_output_new :: "preflight_host \<Rightarrow> string \<Rightarrow> string res" where
  "validated_output_new H path =
     rbind (require (path_is_absolute path) ''preflight output path'' ''must be absolute'') (\<lambda>_.
     rbind (require (path_extension path = Some ''json'') ''preflight output path'' ''must use the .json extension'') (\<lambda>_.
     rbind (require (ph_metadata H path \<noteq> Some True) ''preflight output'' ''already exists; refusing to overwrite it'') (\<lambda>_.
     rbind (require (ph_metadata H path \<noteq> None) ''preflight output'' ''failed checking create-new state'') (\<lambda>_.
     rbind (ok_or (Fail (Bad ''preflight output'' ''must have a parent directory'')) (path_parent path)) (\<lambda>parent.
     rbind (ok_or (Fail (Bad ''preflight output parent'' ''failed resolving'')) (ph_canonicalize H parent)) (\<lambda>parent.
     rbind (require (ph_is_dir H parent) ''preflight output parent'' ''must be a directory'') (\<lambda>_.
     rbind (require (\<not> path_starts_with parent (repository_root H)) ''preflight output''
              ''must be outside the repository'') (\<lambda>_.
     rbind (ok_or (Fail (Bad ''preflight output'' ''must have a file name'')) (path_file_name path)) (\<lambda>file_name.
     Inr (path_join parent file_name))))))))))"

section \<open>Validation before anything is sent\<close>

record PreflightInstrument =
  pi_instrument_id :: string
  pi_base_currency :: string
  pi_quote_currency :: string

record ProfileArtifact =
  pa_selector :: string
  pa_region :: string
  pa_trading_service :: string
  pa_instrument_id :: string

record ValidatedPreflight =
  vf_output :: string
  vf_profile :: ProfileArtifact
  vf_instrument :: PreflightInstrument
  vf_timeout :: nat

definition preflight_instrument_from_config :: "InstrumentConfig \<Rightarrow> PreflightInstrument" where
  "preflight_instrument_from_config i =
     \<lparr> pi_instrument_id = ic_instrument_id i, pi_base_currency = ic_base_currency i,
       pi_quote_currency = ic_quote_currency i \<rparr>"

definition sanitized_profile_selector :: "string \<Rightarrow> string res" where
  "sanitized_profile_selector selector =
     ok_or (Fail (Bad ''economics-preflight'' ''profile selector must have a logical name'')) (path_file_name selector)"

definition api_domain_label :: "OkxApiDomain \<Rightarrow> string" where
  "api_domain_label d =
     (case d of Domain_Global \<Rightarrow> ''GLOBAL'' | Domain_UsAu \<Rightarrow> ''US_AU'' | Domain_Eea \<Rightarrow> ''EEA'')"

definition trading_service_label :: "OkxTradingService \<Rightarrow> string" where
  "trading_service_label s = (case s of Production \<Rightarrow> ''PRODUCTION'' | Demo \<Rightarrow> ''DEMO'')"

definition spot_fee_type_label :: "OkxSpotFeeType \<Rightarrow> string" where
  "spot_fee_type_label t =
     (case t of ReceivedCurrency \<Rightarrow> ''received_currency'' | QuoteCurrency \<Rightarrow> ''quote_currency'')"

definition validate_before_client_construction ::
    "preflight_host \<Rightarrow> EconomicsPreflightCommand \<Rightarrow> BotConfig \<Rightarrow> ValidatedPreflight res" where
  "validate_before_client_construction H command config =
     rbind (ok_or (Fail (Bad ''OKX config'' ''is required'')) (bc_okx config)) (\<lambda>okx.
     rbind (require (ok_trading_service okx = Production \<longrightarrow> em_acknowledge_read_only_production command)
              ''Production economics-preflight'' ''requires --acknowledge-read-only-production'') (\<lambda>_.
     let enabled_instruments = filter ic_enabled (bc_instruments config) in
     rbind (require (length enabled_instruments = 1) ''economics-preflight''
              ''requires exactly one enabled configured SPOT instrument'') (\<lambda>_.
     let instrument = preflight_instrument_from_config (hd enabled_instruments) in
     rbind (validated_output_new H (em_output command)) (\<lambda>output.
     rbind (sanitized_profile_selector (em_profile_selector command)) (\<lambda>selector.
     Inr \<lparr> vf_output = output,
           vf_profile = \<lparr> pa_selector = selector, pa_region = api_domain_label (ok_api_domain okx),
             pa_trading_service = trading_service_label (ok_trading_service okx),
             pa_instrument_id = pi_instrument_id instrument \<rparr>,
           vf_instrument = instrument, vf_timeout = em_request_timeout_ms command * 1000000 \<rparr>)))))"

end
