(* ===== verification/Economics_Preflight.thy ===== *)
theory Economics_Preflight
  imports Preflight_Command Rest_Base
begin

text \<open>
  The run of the economics preflight of \<open>app/economics_preflight.rs\<close>: sampling, the report and its file.

  The source is a parameter (the trait \<open>OkxEconomicsPreflightSource\<close>; \<open>Preflight_Probe\<close> has the client that
  implements it): an operation answers after some nanoseconds, or never, and leaves the source in some state,
  which for an operation that is cut off is the one it was cut off in.  The disk is a map from paths to
  contents, and each call on it may fail; JSON is a parameter.  The context a caller adds to an error is for
  display only, the delays between samples only take time, and validating a sample takes none.
\<close>

section \<open>Latencies\<close>

record LatencyDistribution =
  ld_attempts :: nat
  ld_successes :: nat
  ld_failures :: nat
  ld_minimum_microseconds :: nat
  ld_p50_microseconds :: nat
  ld_p95_microseconds :: nat
  ld_p99_microseconds :: nat
  ld_maximum_microseconds :: nat
  ld_bounded_sample_count :: nat

text \<open>\<open>n.div_ceil(100)\<close> is \<open>(n + 99) div 100\<close>.\<close>

definition nearest_rank :: "nat list \<Rightarrow> nat \<Rightarrow> nat" where
  "nearest_rank ranked pct =
     (let rank = (pct * length ranked + 99) div 100 in ranked ! min (rank - 1) (length ranked - 1))"

definition latency_from_samples :: "nat \<Rightarrow> nat \<Rightarrow> nat list \<Rightarrow> LatencyDistribution option" where
  "latency_from_samples attempts failures samples =
     (if samples = [] then None
      else
        let samples = sort samples in
        Some \<lparr> ld_attempts = attempts, ld_successes = length samples, ld_failures = failures,
               ld_minimum_microseconds = samples ! 0, ld_p50_microseconds = nearest_rank samples 50,
               ld_p95_microseconds = nearest_rank samples 95, ld_p99_microseconds = nearest_rank samples 99,
               ld_maximum_microseconds = samples ! (length samples - 1),
               ld_bounded_sample_count = length samples \<rparr>)"

definition duration_to_micros :: "nat \<Rightarrow> nat res" where
  "duration_to_micros ns =
     (let us = ns div 1000 in
      rbind (require (us \<le> u64_max) ''latency duration'' ''exceeded u64 microseconds'') (\<lambda>_. Inr us))"

section \<open>Sampling\<close>

text \<open>An answer is a result with the nanoseconds it took; \<open>None\<close> if it never comes.\<close>

type_synonym 'a answer = "('a rest_res \<times> nat) option"
type_synonym ('w, 'a) asking = "'w \<Rightarrow> 'a answer \<times> 'w"

definition within_limit :: "nat \<Rightarrow> 'a answer \<Rightarrow> 'a answer" where
  "within_limit limit a = (case a of None \<Rightarrow> None | Some (r, t) \<Rightarrow> if t \<le> limit then a else None)"

record 'a samples =
  sp_durations :: "nat list"
  sp_values :: "'a list"
  sp_failures :: nat

definition record_sample :: "('a \<Rightarrow> unit res) \<Rightarrow> 'a answer \<Rightarrow> 'a samples \<Rightarrow> 'a samples res" where
  "record_sample check_value a s =
     (case a of
        None \<Rightarrow> Inr (s\<lparr> sp_failures := sp_failures s + 1 \<rparr>)
      | Some (Inl Panic, _) \<Rightarrow> Inl Panic
      | Some (Inl (Fail _), _) \<Rightarrow> Inr (s\<lparr> sp_failures := sp_failures s + 1 \<rparr>)
      | Some (Inr v, t) \<Rightarrow>
          rbind (check_value v) (\<lambda>_.
          rbind (duration_to_micros t) (\<lambda>d.
          Inr (s\<lparr> sp_durations := sp_durations s @ [d], sp_values := sp_values s @ [v] \<rparr>))))"

primrec take_samples ::
    "nat \<Rightarrow> ('w, 'a) asking \<Rightarrow> ('a \<Rightarrow> unit res) \<Rightarrow> nat \<Rightarrow> 'a samples \<Rightarrow> 'w \<Rightarrow> 'a samples res \<times> 'w" where
  "take_samples timeout operation check_value 0 s w = (Inr s, w)"
| "take_samples timeout operation check_value (Suc n) s w =
     (case operation w of
        (a, w') \<Rightarrow>
          (case record_sample check_value (within_limit timeout a) s of
             Inl e \<Rightarrow> (Inl e, w')
           | Inr s' \<Rightarrow> take_samples timeout operation check_value n s' w'))"

definition collect_samples ::
    "string \<Rightarrow> nat \<Rightarrow> nat \<Rightarrow> nat \<Rightarrow> ('w, 'a) asking \<Rightarrow> ('a \<Rightarrow> unit res) \<Rightarrow> 'w \<Rightarrow>
      (LatencyDistribution \<times> 'a list) res \<times> 'w" where
  "collect_samples label attempts minimum_successes timeout operation check_value w =
     (case take_samples timeout operation check_value attempts
             \<lparr> sp_durations = [], sp_values = [], sp_failures = 0 \<rparr> w of
        (r, w') \<Rightarrow>
          (rbind r (\<lambda>s.
           rbind (require (length (sp_values s) \<ge> minimum_successes) label ''produced too few successful samples'') (\<lambda>_.
           rbind (ok_or (Fail (Bad label ''unexpectedly had no successful samples''))
                    (latency_from_samples attempts (sp_failures s) (sp_durations s))) (\<lambda>distribution.
           Inr (distribution, sp_values s)))), w'))"

section \<open>What a sample must be, and what samples must agree on\<close>

definition validate_fee_group_instrument :: "OkxInstrument \<Rightarrow> PreflightInstrument \<Rightarrow> unit res" where
  "validate_fee_group_instrument i expected =
     rbind (require (oi_inst_type i = ''SPOT'' \<and> oi_inst_id i = pi_instrument_id expected) (pi_instrument_id expected)
              ''metadata did not return exact SPOT'') (\<lambda>_.
     rbind (require (oi_base_ccy i = pi_base_currency expected \<and> oi_quote_ccy i = pi_quote_currency expected)
              (pi_instrument_id expected) ''currencies contradict configured operator currencies'') (\<lambda>_.
     rbind (ensure_live i) (\<lambda>_.
     rbind (ensure_trade_quote_currency i (pi_quote_currency expected)) (\<lambda>_.
     rbind (fee_group_id i) (\<lambda>_. Inr ())))))"

definition validate_fee :: "decimal_ops \<Rightarrow> OkxTradeFeeRate \<Rightarrow> string \<Rightarrow> string \<Rightarrow> unit res" where
  "validate_fee D fee instrument_id expected_group_id =
     rbind (fee_ensure_spot fee instrument_id) (\<lambda>_.
     rbind (require (tf_group_id fee = expected_group_id) ''OKX fee rate groupId'' ''does not match the instrument'') (\<lambda>_.
     rbind (require (\<not> blank (tf_level fee)) ''OKX fee level'' ''must not be empty'') (\<lambda>_.
     rbind (normalized_maker_cost_rate D fee) (\<lambda>_.
     rbind (normalized_taker_cost_rate D fee) (\<lambda>taker.
     require (taker \<ge> 0) ''OKX taker fee sign'' ''is unsupported'')))))"

definition validate_ticker :: "string \<Rightarrow> OkxTicker \<Rightarrow> unit res" where
  "validate_ticker instrument_id t = require (tk_inst_id t = instrument_id) instrument_id ''ticker is of another instrument''"

definition changed :: "string \<Rightarrow> 'a res" where
  "changed what = Inl (Fail (Bad what ''changed during economics preflight''))"

definition same_instrument_row :: "OkxInstrument \<Rightarrow> string \<Rightarrow> OkxInstrument \<Rightarrow> unit res" where
  "same_instrument_row first first_group_id row =
     (if oi_inst_type row = oi_inst_type first \<and> oi_inst_id row = oi_inst_id first \<and> oi_state row = oi_state first \<and>
         oi_base_ccy row = oi_base_ccy first \<and> oi_quote_ccy row = oi_quote_ccy first \<and>
         oi_trade_quote_currencies row = oi_trade_quote_currencies first
      then rbind (fee_group_id row) (\<lambda>g. if g = first_group_id then Inr () else changed ''OKX SPOT instrument'')
      else changed ''OKX SPOT instrument'')"

definition consistent_instrument_fee_group :: "OkxInstrument list \<Rightarrow> string res" where
  "consistent_instrument_fee_group rows =
     (case rows of
        [] \<Rightarrow> Inl (Fail (Bad ''SPOT instrument metadata'' ''is required''))
      | first # rest \<Rightarrow>
          rbind (fee_group_id first) (\<lambda>g.
          rbind (try_each (same_instrument_row first g) rest) (\<lambda>_. Inr g)))"

record AccountSafetyArtifact =
  as_spot_mode :: bool
  as_borrowing_disabled :: bool
  as_fee_type :: string

definition same_account :: "OkxAccountConfig \<Rightarrow> OkxSpotFeeType \<Rightarrow> OkxAccountConfig \<Rightarrow> unit res" where
  "same_account first first_fee_type row =
     (if cf_account_level row = cf_account_level first \<and> cf_auto_loan row = cf_auto_loan first \<and>
         cf_enable_spot_borrow row = cf_enable_spot_borrow first \<and>
         cf_spot_borrow_auto_repay row = cf_spot_borrow_auto_repay first
      then rbind (spot_fee_type row) (\<lambda>t. if t = first_fee_type then Inr () else changed ''OKX account safety configuration'')
      else changed ''OKX account safety configuration'')"

definition consistent_account_safety :: "OkxAccountConfig list \<Rightarrow> AccountSafetyArtifact res" where
  "consistent_account_safety rows =
     (case rows of
        [] \<Rightarrow> Inl (Fail (Bad ''account configuration'' ''is required''))
      | first # rest \<Rightarrow>
          rbind (spot_fee_type first) (\<lambda>t.
          rbind (try_each (same_account first t) rest) (\<lambda>_.
          Inr \<lparr> as_spot_mode = True, as_borrowing_disabled = True, as_fee_type = spot_fee_type_label t \<rparr>)))"

record FeeArtifact =
  fa_level :: string
  fa_raw_maker :: string
  fa_raw_taker :: string
  fa_normalized_maker_cost_rate :: string
  fa_normalized_taker_cost_rate :: string
  fa_maker_semantics :: string
  fa_maker_cost_bps :: string
  fa_taker_cost_bps :: string
  fa_maker_maker_round_trip_bps :: string
  fa_maker_taker_round_trip_bps :: string
  fa_taker_taker_round_trip_bps :: string

definition decimal_string :: "decimal_ops \<Rightarrow> decimal \<Rightarrow> string" where
  "decimal_string D v = d_show D v"

definition same_fee :: "OkxTradeFeeRate \<Rightarrow> OkxTradeFeeRate \<Rightarrow> unit res" where
  "same_fee first row =
     (if tf_inst_type row = tf_inst_type first \<and> tf_level row = tf_level first \<and> tf_group_id row = tf_group_id first \<and>
         tf_maker row = tf_maker first \<and> tf_taker row = tf_taker first
      then Inr () else changed ''OKX SPOT fee rate'')"

definition maker_semantics :: "decimal \<Rightarrow> string" where
  "maker_semantics maker = (if maker > 0 then ''commission'' else if maker < 0 then ''rebate'' else ''zero'')"

definition fee_artifact :: "decimal_ops \<Rightarrow> OkxTradeFeeRate list \<Rightarrow> FeeArtifact res" where
  "fee_artifact D rows =
     (case rows of
        [] \<Rightarrow> Inl (Fail (Bad ''SPOT fee rate'' ''is required''))
      | first # rest \<Rightarrow>
          rbind (try_each (same_fee first) rest) (\<lambda>_.
          rbind (normalized_maker_cost_rate D first) (\<lambda>maker.
          rbind (normalized_taker_cost_rate D first) (\<lambda>taker.
          rbind (require (taker \<ge> 0) ''OKX taker fee sign'' ''is unsupported'') (\<lambda>_.
          rbind (dec_mul D maker 10000) (\<lambda>maker_bps.
          rbind (dec_mul D taker 10000) (\<lambda>taker_bps.
          rbind (dec_add D maker maker) (\<lambda>mm. rbind (dec_mul D mm 10000) (\<lambda>mm_bps.
          rbind (dec_add D maker taker) (\<lambda>mt. rbind (dec_mul D mt 10000) (\<lambda>mt_bps.
          rbind (dec_add D taker taker) (\<lambda>tt. rbind (dec_mul D tt 10000) (\<lambda>tt_bps.
          Inr \<lparr> fa_level = tf_level first, fa_raw_maker = tf_maker first, fa_raw_taker = tf_taker first,
                fa_normalized_maker_cost_rate = decimal_string D maker,
                fa_normalized_taker_cost_rate = decimal_string D taker,
                fa_maker_semantics = maker_semantics maker,
                fa_maker_cost_bps = decimal_string D maker_bps, fa_taker_cost_bps = decimal_string D taker_bps,
                fa_maker_maker_round_trip_bps = decimal_string D mm_bps,
                fa_maker_taker_round_trip_bps = decimal_string D mt_bps,
                fa_taker_taker_round_trip_bps = decimal_string D tt_bps \<rparr>)))))))))))))"

section \<open>The report\<close>

record LatencyArtifact =
  la_server_time_round_trip :: LatencyDistribution
  la_account_config_round_trip :: LatencyDistribution
  la_spot_fee_round_trip :: LatencyDistribution
  la_instrument_metadata_round_trip :: LatencyDistribution
  la_ticker_round_trip :: LatencyDistribution
  la_public_websocket_connect_and_subscribe :: LatencyDistribution
  la_private_websocket_login_and_subscribe :: LatencyDistribution
  la_trading_command_session_prepare :: LatencyDistribution
  la_trading_command_session_prepare_note :: string

record SafetyAssertions =
  sf_strategies_constructed :: bool
  sf_orders_submitted :: bool
  sf_orders_amended :: bool
  sf_orders_cancelled :: bool
  sf_cancel_all_after_called :: bool
  sf_balances_read :: bool
  sf_positions_read :: bool
  sf_order_history_read :: bool

definition all_false :: SafetyAssertions where
  "all_false =
     \<lparr> sf_strategies_constructed = False, sf_orders_submitted = False, sf_orders_amended = False,
       sf_orders_cancelled = False, sf_cancel_all_after_called = False, sf_balances_read = False,
       sf_positions_read = False, sf_order_history_read = False \<rparr>"

record EconomicsPreflightArtifact =
  ea_schema :: string
  ea_generated_at_ms :: nat
  ea_product :: string
  ea_package_version :: string
  ea_profile :: ProfileArtifact
  ea_account_safety :: AccountSafetyArtifact
  ea_fees :: FeeArtifact
  ea_latency :: LatencyArtifact
  ea_safety_assertions :: SafetyAssertions

record 'w economics_source =
  es_server_time :: "('w, unit) asking"
  es_account_config :: "('w, OkxAccountConfig) asking"
  es_spot_trade_fee :: "string \<Rightarrow> string \<Rightarrow> ('w, OkxTradeFeeRate) asking"
  es_instrument :: "string \<Rightarrow> ('w, OkxInstrument) asking"
  es_ticker :: "string \<Rightarrow> ('w, OkxTicker) asking"
  es_probe_public_websocket :: "string \<Rightarrow> ('w, unit) asking"
  es_probe_private_websocket :: "string \<Rightarrow> ('w, unit) asking"
  es_probe_trading_session :: "('w, unit) asking"

definition generated_at_ms :: "preflight_host \<Rightarrow> nat res" where
  "generated_at_ms H =
     rbind (require (0 \<le> ph_system_time_ms H) ''system clock'' ''is before Unix epoch'') (\<lambda>_.
     rbind (require (ph_system_time_ms H \<le> int u64_max) ''generated timestamp'' ''exceeded u64 milliseconds'') (\<lambda>_.
     Inr (nat (ph_system_time_ms H))))"

text \<open>\<open>?\<close> over a source; warming the server time has no time-out, so it may never come to a result (\<open>None\<close>).\<close>

definition sample_then :: "('w \<Rightarrow> 'a res \<times> 'w) \<Rightarrow> ('a \<Rightarrow> 'w \<Rightarrow> 'b res \<times> 'w) \<Rightarrow> 'w \<Rightarrow> 'b res \<times> 'w" where
  "sample_then m f w = (case m w of (Inl e, w') \<Rightarrow> (Inl e, w') | (Inr x, w') \<Rightarrow> f x w')"

definition pure_res :: "'a res \<Rightarrow> 'w \<Rightarrow> 'a res \<times> 'w" where
  "pure_res r w = (r, w)"

definition accept :: "'a \<Rightarrow> unit res" where
  "accept v = Inr ()"

definition collect_measurements ::
    "decimal_ops \<Rightarrow> preflight_host \<Rightarrow> EconomicsPreflightCommand \<Rightarrow> ValidatedPreflight \<Rightarrow> 'w economics_source \<Rightarrow>
      'w \<Rightarrow> EconomicsPreflightArtifact res \<times> 'w" where
  "collect_measurements D H command validated S =
     (let instrument = vf_instrument validated; i = pi_instrument_id instrument;
          n = em_rest_samples command; k = em_websocket_samples command; limit = vf_timeout validated in
      sample_then (collect_samples ''account_config_round_trip'' n MIN_REST_SAMPLES limit (es_account_config S)
                  ensure_spot_economics_safe) (\<lambda>(account_config, account_rows).
      sample_then (pure_res (consistent_account_safety account_rows)) (\<lambda>account.
      sample_then (collect_samples ''instrument_metadata_round_trip'' n n limit (es_instrument S i)
                  (\<lambda>row. validate_fee_group_instrument row instrument)) (\<lambda>(instrument_metadata, instrument_rows).
      sample_then (pure_res (consistent_instrument_fee_group instrument_rows)) (\<lambda>group_id.
      sample_then (collect_samples ''spot_fee_round_trip'' n n limit (es_spot_trade_fee S i group_id)
                  (\<lambda>fee. validate_fee D fee i group_id)) (\<lambda>(spot_fee, fee_rows).
      sample_then (pure_res (fee_artifact D fee_rows)) (\<lambda>fees.
      sample_then (collect_samples ''ticker_round_trip'' n MIN_REST_SAMPLES limit (es_ticker S i)
                  (validate_ticker i)) (\<lambda>(ticker, _).
      sample_then (collect_samples ''server_time_round_trip'' n MIN_REST_SAMPLES limit (es_server_time S)
                  accept) (\<lambda>(server_time, _).
      sample_then (collect_samples ''public_websocket_connect_and_subscribe'' k k limit (es_probe_public_websocket S i)
                  accept) (\<lambda>(public_socket, _).
      sample_then (collect_samples ''private_websocket_login_and_subscribe'' k k limit (es_probe_private_websocket S i)
                  accept) (\<lambda>(private_socket, _).
      sample_then (collect_samples ''trading_command_session_prepare'' k k limit (es_probe_trading_session S)
                  accept) (\<lambda>(trading_session, _).
      sample_then (pure_res (generated_at_ms H)) (\<lambda>now.
      pure_res (Inr
        \<lparr> ea_schema = SCHEMA, ea_generated_at_ms = now, ea_product = PRODUCT,
          ea_package_version = ph_package_version H, ea_profile = vf_profile validated,
          ea_account_safety = account, ea_fees = fees,
          ea_latency =
            \<lparr> la_server_time_round_trip = server_time, la_account_config_round_trip = account_config,
              la_spot_fee_round_trip = spot_fee, la_instrument_metadata_round_trip = instrument_metadata,
              la_ticker_round_trip = ticker, la_public_websocket_connect_and_subscribe = public_socket,
              la_private_websocket_login_and_subscribe = private_socket,
              la_trading_command_session_prepare = trading_session,
              la_trading_command_session_prepare_note = TRADING_SESSION_LATENCY_NOTE \<rparr>,
          ea_safety_assertions = all_false \<rparr>))))))))))))))"

definition collect_artifact ::
    "decimal_ops \<Rightarrow> preflight_host \<Rightarrow> EconomicsPreflightCommand \<Rightarrow> ValidatedPreflight \<Rightarrow> 'w economics_source \<Rightarrow>
      'w \<Rightarrow> EconomicsPreflightArtifact res option \<times> 'w" where
  "collect_artifact D H command validated S w =
     (case es_server_time S w of
        (None, w') \<Rightarrow> (None, w')
      | (Some (Inl Panic, _), w') \<Rightarrow> (Some (Inl Panic), w')
      | (Some (Inl (Fail _), _), w') \<Rightarrow>
          (Some (Inl (Fail (Bad ''OKX server time'' ''failed warming for authenticated preflight measurements''))), w')
      | (Some (Inr _, _), w') \<Rightarrow> map_prod Some id (collect_measurements D H command validated S w'))"

section \<open>The report file\<close>

text \<open>
  How the calls on the disk go: whether a file can be created, how much of the bytes is written (all of them
  if \<open>None\<close>), and whether the others succeed.
\<close>

type_synonym disk = "string \<rightharpoonup> string"

record disk_calls =
  dc_create :: "string \<Rightarrow> bool"
  dc_partial_write :: "string option"
  dc_sync_file :: bool
  dc_link :: bool
  dc_remove_temporary :: bool
  dc_sync_directory :: bool
  dc_remove_target :: bool
  dc_remove_leftover :: bool

datatype created = Created disk | AlreadyExists | CreateFailed

definition protected_create_new :: "disk_calls \<Rightarrow> string \<Rightarrow> disk \<Rightarrow> created" where
  "protected_create_new C p d =
     (if d p \<noteq> None then AlreadyExists else if dc_create C p then Created (d(p \<mapsto> [])) else CreateFailed)"

definition remove_file :: "bool \<Rightarrow> string \<Rightarrow> disk \<Rightarrow> bool \<times> disk" where
  "remove_file ok p d = (if ok \<and> d p \<noteq> None then (True, d(p := None)) else (False, d))"

definition temporary_path :: "preflight_host \<Rightarrow> string \<Rightarrow> string \<Rightarrow> nat \<Rightarrow> string" where
  "temporary_path H parent file_name nonce =
     path_join parent (''.'' @ file_name @ ''.'' @ show_nat (ph_process_id H) @ ''.'' @ show_nat nonce @ ''.tmp'')"

fun allocate_temporary :: "preflight_host \<Rightarrow> disk_calls \<Rightarrow> string \<Rightarrow> string \<Rightarrow> disk \<Rightarrow> nat list \<Rightarrow> (string \<times> disk) res" where
  "allocate_temporary H C parent file_name d [] =
     Inl (Fail (Bad ''preflight temporary file'' ''failed allocating a unique one''))"
| "allocate_temporary H C parent file_name d (nonce # nonces) =
     (let p = temporary_path H parent file_name nonce in
      case protected_create_new C p d of
        Created d' \<Rightarrow> Inr (p, d')
      | AlreadyExists \<Rightarrow> allocate_temporary H C parent file_name d nonces
      | CreateFailed \<Rightarrow> Inl (Fail (Bad ''preflight temporary file'' ''failed creating'')))"

definition disk_failure :: "string \<Rightarrow> unit res" where
  "disk_failure reason = Inl (Fail (Bad ''economics preflight artifact'' reason))"

definition publish :: "disk_calls \<Rightarrow> string \<Rightarrow> string \<Rightarrow> string \<Rightarrow> disk \<Rightarrow> unit res \<times> disk" where
  "publish C temporary path bytes d =
     (case dc_partial_write C of
        Some part \<Rightarrow> (disk_failure ''failed writing'', d(temporary \<mapsto> part))
      | None \<Rightarrow>
          let d = d(temporary \<mapsto> bytes) in
          if \<not> dc_sync_file C then (disk_failure ''failed syncing'', d)
          else if \<not> dc_link C \<or> d path \<noteq> None then (disk_failure ''failed finalizing'', d)
          else
            let d = d(path \<mapsto> bytes) in
            (case remove_file (dc_remove_temporary C) temporary d of
               (False, d) \<Rightarrow> (disk_failure ''failed removing temporary link'', snd (remove_file (dc_remove_target C) path d))
             | (True, d) \<Rightarrow>
                 if \<not> dc_sync_directory C
                 then (disk_failure ''failed syncing directory'', snd (remove_file (dc_remove_target C) path d))
                 else (Inr (), d)))"

definition output_write ::
    "preflight_host \<Rightarrow> (EconomicsPreflightArtifact \<Rightarrow> string option) \<Rightarrow> disk_calls \<Rightarrow> string \<Rightarrow>
      EconomicsPreflightArtifact \<Rightarrow> disk \<Rightarrow> unit res \<times> disk" where
  "output_write H serialize C path artifact d =
     (case rbind (ok_or (Fail (Bad ''economics preflight artifact'' ''failed serializing'')) (serialize artifact)) (\<lambda>json.
           rbind (ok_or (Fail (Bad ''validated output'' ''lost its parent'')) (path_parent path)) (\<lambda>parent.
           rbind (ok_or (Fail (Bad ''validated output'' ''must have a file name'')) (path_file_name path)) (\<lambda>file_name.
           rbind (allocate_temporary H C parent file_name d [0..<100]) (\<lambda>(temporary, d').
           Inr (json @ [CHR 0x0A], temporary, d'))))) of
        Inl e \<Rightarrow> (Inl e, d)
      | Inr (bytes, temporary, d') \<Rightarrow>
          (case publish C temporary path bytes d' of
             (Inr u, d'') \<Rightarrow> (Inr u, d'')
           | (Inl e, d'') \<Rightarrow> (Inl e, snd (remove_file (dc_remove_leftover C) temporary d''))))"

text \<open>
  The whole command: building the client yields the source to ask, in its first state.
\<close>

definition preflight_run ::
    "decimal_ops \<Rightarrow> preflight_host \<Rightarrow> (EconomicsPreflightArtifact \<Rightarrow> string option) \<Rightarrow> disk_calls \<Rightarrow>
      (BotConfig \<Rightarrow> nat \<Rightarrow> ('w economics_source \<times> 'w) res) \<Rightarrow> EconomicsPreflightCommand \<Rightarrow> BotConfig \<Rightarrow>
      ValidatedPreflight \<Rightarrow> disk \<Rightarrow> unit res option \<times> disk" where
  "preflight_run D H serialize C client_new command config validated d =
     (case client_new config (vf_timeout validated) of
        Inl e \<Rightarrow> (Some (Inl e), d)
      | Inr (S, w) \<Rightarrow>
          (case collect_artifact D H command validated S w of
             (None, _) \<Rightarrow> (None, d)
           | (Some (Inl e), _) \<Rightarrow> (Some (Inl e), d)
           | (Some (Inr artifact), _) \<Rightarrow> map_prod Some id (output_write H serialize C (vf_output validated) artifact d)))"

end
