(* ===== verification/Preflight_Guarantees.thy ===== *)
theory Preflight_Guarantees
  imports Economics_Preflight Latency_Metrics Trading_Instrument
begin

text \<open>
  What a report of the economics preflight says, and what writing it does to the disk.
\<close>

section \<open>Percentiles\<close>

lemma nearest_rank_percentile: "nearest_rank xs p = percentile xs p"
  by (simp add: nearest_rank_def percentile_def mult.commute)

text \<open>
  The nearest-rank percentile: a duration with fewer than the stated share of all below it, and at least that
  share not above it.  \<open>describes n l ds\<close>: \<open>l\<close> is the distribution of the durations \<open>ds\<close> of \<open>n\<close> attempts.
\<close>

definition at_rank :: "nat list \<Rightarrow> nat \<Rightarrow> nat \<Rightarrow> bool" where
  "at_rank ds p v \<longleftrightarrow>
     v \<in> set ds \<and> 100 * length (filter (\<lambda>x. x < v) ds) < length ds * p \<and>
     length ds * p \<le> 100 * length (filter (\<lambda>x. x \<le> v) ds)"

definition describes :: "nat \<Rightarrow> LatencyDistribution \<Rightarrow> nat list \<Rightarrow> bool" where
  "describes n l ds \<longleftrightarrow>
     ds \<noteq> [] \<and> ld_attempts l = n \<and> ld_successes l = length ds \<and> ld_failures l = n - length ds \<and>
     ld_bounded_sample_count l = length ds \<and>
     ld_minimum_microseconds l = Min (set ds) \<and> ld_maximum_microseconds l = Max (set ds) \<and>
     at_rank ds 50 (ld_p50_microseconds l) \<and> at_rank ds 95 (ld_p95_microseconds l) \<and>
     at_rank ds 99 (ld_p99_microseconds l)"

lemma length_filter_sort: "length (filter P (sort xs)) = length (filter P xs)"
  by (metis mset_filter mset_sort size_mset)

lemma nearest_rank_sort: "ds \<noteq> [] \<Longrightarrow> 0 < p \<Longrightarrow> p \<le> 100 \<Longrightarrow> at_rank ds p (nearest_rank (sort ds) p)"
  using percentile_rank [OF sorted_sort, of ds p]
  by (simp add: at_rank_def nearest_rank_percentile length_filter_sort) (metis set_empty set_sort)

lemma sort_extremes:
  fixes ds :: "nat list"
  assumes "ds \<noteq> []"
  shows "sort ds ! 0 = Min (set ds)" and "sort ds ! (length ds - 1) = Max (set ds)"
proof -
  have len: "length (sort ds) = length ds" "0 < length ds" using assms by simp_all
  have mono: "sort ds ! i \<le> sort ds ! j" if "i \<le> j" "j < length ds" for i j
    using sorted_nth_mono [OF sorted_sort, of i j ds] that len by simp
  have nth: "x \<in> set ds \<longleftrightarrow> (\<exists>i<length ds. x = sort ds ! i)" for x
    using in_set_conv_nth [of x "sort ds"] len by auto
  show "sort ds ! 0 = Min (set ds)"
    by (rule Min_eqI [symmetric]) (use nth mono len in auto)
  show "sort ds ! (length ds - 1) = Max (set ds)"
    by (rule Max_eqI [symmetric]) (use len in \<open>auto simp: nth intro!: mono exI [of _ "length ds - 1"]\<close>)
qed

lemma latency_from_samples_describes:
  assumes "latency_from_samples n failures ds = Some l" and "failures + length ds = n"
  shows "describes n l ds"
  using assms nearest_rank_sort [of ds] sort_extremes [of ds]
  by (auto simp: latency_from_samples_def describes_def Let_def split: if_splits)

section \<open>Samples\<close>

text \<open>The answers a source gives one after the other, and the good ones among them.\<close>

primrec asked :: "('w, 'a) asking \<Rightarrow> nat \<Rightarrow> 'w \<Rightarrow> 'a answer list \<times> 'w" where
  "asked operation 0 w = ([], w)"
| "asked operation (Suc n) w =
     (let (a, w') = operation w; (as, w'') = asked operation n w' in (a # as, w''))"

definition good :: "nat \<Rightarrow> 'a answer \<Rightarrow> ('a \<times> nat) list" where
  "good limit a = (case within_limit limit a of Some (Inr v, t) \<Rightarrow> [(v, t)] | _ \<Rightarrow> [])"

definition in_time :: "nat \<Rightarrow> 'a answer list \<Rightarrow> ('a \<times> nat) list" where
  "in_time limit as = concat (map (good limit) as)"

text \<open>
  \<open>sampled n m limit check as l\<close>: of the \<open>n\<close> answers \<open>as\<close>, at least \<open>m\<close> were good and in time, every good
  one passed the check, and \<open>l\<close> is their distribution.
\<close>

definition sampled ::
    "nat \<Rightarrow> nat \<Rightarrow> nat \<Rightarrow> ('a \<Rightarrow> unit res) \<Rightarrow> 'a answer list \<Rightarrow> LatencyDistribution \<Rightarrow> bool" where
  "sampled n m limit check as l \<longleftrightarrow>
     length as = n \<and> m \<le> length (in_time limit as) \<and> (\<forall>v\<in>fst ` set (in_time limit as). check v = Inr ()) \<and>
     describes n l (map (\<lambda>(_, t). t div 1000) (in_time limit as))"

lemma in_time_simps [simp]: "in_time limit [] = []" "in_time limit (a # as) = good limit a @ in_time limit as"
  by (simp_all add: in_time_def)

lemma record_sample_Inr:
  assumes "record_sample check (within_limit limit a) s = Inr s'"
  shows "sp_durations s' = sp_durations s @ map (\<lambda>(_, t). t div 1000) (good limit a)"
    and "sp_values s' = sp_values s @ map fst (good limit a)"
    and "sp_failures s' + length (good limit a) = sp_failures s + 1"
    and "\<forall>v\<in>fst ` set (good limit a). check v = Inr ()"
  using assms
  by (auto simp: record_sample_def good_def duration_to_micros_def rbind_eq_Inr require_eq_Inr Let_def
    split: option.splits sum.splits fault.splits)

lemma take_samples_Inr:
  assumes "take_samples limit operation check n s w = (Inr s', w')"
  shows "\<exists>as. asked operation n w = (as, w') \<and> length as = n \<and>
    sp_durations s' = sp_durations s @ map (\<lambda>(_, t). t div 1000) (in_time limit as) \<and>
    sp_values s' = sp_values s @ map fst (in_time limit as) \<and>
    sp_failures s' + length (in_time limit as) = sp_failures s + n \<and>
    (\<forall>v\<in>fst ` set (in_time limit as). check v = Inr ())"
  using assms
proof (induction n arbitrary: s w)
  case 0
  then show ?case by simp
next
  case (Suc n)
  obtain a w1 where a: "operation w = (a, w1)" by force
  with Suc.prems obtain s1 where s1: "record_sample check (within_limit limit a) s = Inr s1"
    and rest: "take_samples limit operation check n s1 w1 = (Inr s', w')"
    by (auto split: sum.splits)
  from Suc.IH [OF rest] obtain as where as: "asked operation n w1 = (as, w')" "length as = n"
      "sp_durations s' = sp_durations s1 @ map (\<lambda>(_, t). t div 1000) (in_time limit as)"
      "sp_values s' = sp_values s1 @ map fst (in_time limit as)"
      "sp_failures s' + length (in_time limit as) = sp_failures s1 + n"
      "\<forall>v\<in>fst ` set (in_time limit as). check v = Inr ()" by blast
  have "asked operation (Suc n) w = (a # as, w')" using a as(1) by simp
  moreover note record_sample_Inr [OF s1]
  ultimately show ?case using as(2-) by (intro exI [of _ "a # as"]) auto
qed

lemma collect_samples_Inr:
  assumes "collect_samples label n m limit operation check w = (Inr (l, vs), w')"
  shows "\<exists>as. asked operation n w = (as, w') \<and> sampled n m limit check as l \<and> vs = map fst (in_time limit as)"
proof -
  from assms obtain s where s: "take_samples limit operation check n
      \<lparr> sp_durations = [], sp_values = [], sp_failures = 0 \<rparr> w = (Inr s, w')"
    and vs: "vs = sp_values s" "m \<le> length vs" "latency_from_samples n (sp_failures s) (sp_durations s) = Some l"
    by (auto simp: collect_samples_def rbind_eq_Inr require_eq_Inr split: prod.splits)
  from take_samples_Inr [OF s] obtain as where as: "asked operation n w = (as, w')" "length as = n"
      "sp_durations s = map (\<lambda>(_, t). t div 1000) (in_time limit as)" "sp_values s = map fst (in_time limit as)"
      "sp_failures s + length (in_time limit as) = n" "\<forall>v\<in>fst ` set (in_time limit as). check v = Inr ()" by auto
  then have "describes n l (map (\<lambda>(_, t). t div 1000) (in_time limit as))"
    using latency_from_samples_describes [OF vs(3)] by simp
  with as vs show ?thesis by (auto simp: sampled_def)
qed

section \<open>What a report says\<close>

definition values_of :: "nat \<Rightarrow> 'a answer list \<Rightarrow> 'a set" where
  "values_of limit as = fst ` set (in_time limit as)"

text \<open>Costs in basis points, as the decimal library computes them.\<close>

definition in_bps :: "decimal_ops \<Rightarrow> decimal \<Rightarrow> string \<Rightarrow> bool" where
  "in_bps D v s \<longleftrightarrow> (\<exists>x. d_mul D v 10000 = Some x \<and> s = d_show D x)"

definition sum_in_bps :: "decimal_ops \<Rightarrow> decimal \<Rightarrow> decimal \<Rightarrow> string \<Rightarrow> bool" where
  "sum_in_bps D v w s \<longleftrightarrow> (\<exists>x. d_add D v w = Some x \<and> in_bps D x s)"

definition fees_of :: "decimal_ops \<Rightarrow> OkxTradeFeeRate \<Rightarrow> FeeArtifact \<Rightarrow> bool" where
  "fees_of D fee f \<longleftrightarrow>
     (\<exists>maker taker. normalized_maker_cost_rate D fee = Inr maker \<and> normalized_taker_cost_rate D fee = Inr taker \<and>
        0 \<le> taker \<and> fa_level f = tf_level fee \<and> fa_raw_maker f = tf_maker fee \<and> fa_raw_taker f = tf_taker fee \<and>
        fa_normalized_maker_cost_rate f = d_show D maker \<and> fa_normalized_taker_cost_rate f = d_show D taker \<and>
        fa_maker_semantics f = maker_semantics maker \<and>
        in_bps D maker (fa_maker_cost_bps f) \<and> in_bps D taker (fa_taker_cost_bps f) \<and>
        sum_in_bps D maker maker (fa_maker_maker_round_trip_bps f) \<and>
        sum_in_bps D maker taker (fa_maker_taker_round_trip_bps f) \<and>
        sum_in_bps D taker taker (fa_taker_taker_round_trip_bps f))"

definition account_evidence :: "OkxAccountConfig set \<Rightarrow> AccountSafetyArtifact \<Rightarrow> bool" where
  "account_evidence rows a \<longleftrightarrow>
     (\<exists>t. (\<forall>row\<in>rows. spot_fee_type row = Inr t) \<and>
        a = \<lparr> as_spot_mode = True, as_borrowing_disabled = True, as_fee_type = spot_fee_type_label t \<rparr>)"

definition fee_evidence :: "decimal_ops \<Rightarrow> OkxTradeFeeRate set \<Rightarrow> FeeArtifact \<Rightarrow> bool" where
  "fee_evidence D rows f \<longleftrightarrow>
     (\<exists>fee\<in>rows. fees_of D fee f \<and>
        (\<forall>row\<in>rows. tf_level row = tf_level fee \<and> tf_maker row = tf_maker fee \<and> tf_taker row = tf_taker fee))"

lemma fee_artifact_Inr:
  assumes "fee_artifact D rows = Inr f"
  shows "fee_evidence D (set rows) f"
proof (cases rows)
  case Nil
  with assms show ?thesis by (simp add: fee_artifact_def)
next
  case (Cons fee rest)
  with assms have same: "\<forall>row\<in>set rest. same_fee fee row = Inr ()"
    by (auto simp: fee_artifact_def rbind_eq_Inr try_each_Inr)
  have "fees_of D fee f"
    using assms unfolding Cons fee_artifact_def fees_of_def in_bps_def sum_in_bps_def
    by (auto simp: rbind_eq_Inr require_eq_Inr decimal_string_def dec_mul_def dec_add_def)
  with same show ?thesis unfolding Cons by (auto simp: fee_evidence_def same_fee_def changed_def split: if_splits)
qed

lemma consistent_account_safety_Inr:
  "consistent_account_safety rows = Inr a \<Longrightarrow> account_evidence (set rows) a"
  by (cases rows) (auto simp: account_evidence_def consistent_account_safety_def rbind_eq_Inr try_each_Inr same_account_def changed_def
      split: if_splits)

lemma consistent_instrument_fee_group_Inr:
  "consistent_instrument_fee_group rows = Inr g \<Longrightarrow> \<forall>row\<in>set rows. fee_group_id row = Inr g"
  by (cases rows) (auto simp: consistent_instrument_fee_group_def rbind_eq_Inr try_each_Inr same_instrument_row_def
      changed_def split: if_splits)

text \<open>
  \<open>report_of\<close>: the report says what the source answered.  The source was asked for the server time and then
  for each kind of sample the commanded number of times, in this order; each distribution describes the
  answers to its question; every account configuration was safe and of the reported fee type, every
  instrument row that of the configured instrument, live and of the fee group the fees were asked for, and
  every fee the reported one.
\<close>

definition report_of ::
    "decimal_ops \<Rightarrow> EconomicsPreflightCommand \<Rightarrow> ValidatedPreflight \<Rightarrow> 'w economics_source \<Rightarrow> 'w \<Rightarrow>
      EconomicsPreflightArtifact \<Rightarrow> bool" where
  "report_of D command validated S w art \<longleftrightarrow>
     (let i = pi_instrument_id (vf_instrument validated); n = em_rest_samples command;
          k = em_websocket_samples command; limit = vf_timeout validated; l = ea_latency art in
      ea_profile art = vf_profile validated \<and> ea_safety_assertions art = all_false \<and>
      (\<exists>t w0 accounts w1 instruments w2 fees w3 tickers w4 times w5 publics w6 privates w7 sessions w8 g.
         es_server_time S w = (Some (Inr (), t), w0) \<and>
         asked (es_account_config S) n w0 = (accounts, w1) \<and>
         sampled n MIN_REST_SAMPLES limit ensure_spot_economics_safe accounts (la_account_config_round_trip l) \<and>
         account_evidence (values_of limit accounts) (ea_account_safety art) \<and>
         asked (es_instrument S i) n w1 = (instruments, w2) \<and>
         sampled n n limit (\<lambda>row. validate_fee_group_instrument row (vf_instrument validated)) instruments
           (la_instrument_metadata_round_trip l) \<and>
         (\<forall>row\<in>values_of limit instruments. fee_group_id row = Inr g) \<and>
         asked (es_spot_trade_fee S i g) n w2 = (fees, w3) \<and>
         sampled n n limit (\<lambda>fee. validate_fee D fee i g) fees (la_spot_fee_round_trip l) \<and>
         fee_evidence D (values_of limit fees) (ea_fees art) \<and>
         asked (es_ticker S i) n w3 = (tickers, w4) \<and>
         sampled n MIN_REST_SAMPLES limit (validate_ticker i) tickers (la_ticker_round_trip l) \<and>
         asked (es_server_time S) n w4 = (times, w5) \<and>
         sampled n MIN_REST_SAMPLES limit accept times (la_server_time_round_trip l) \<and>
         asked (es_probe_public_websocket S i) k w5 = (publics, w6) \<and>
         sampled k k limit accept publics (la_public_websocket_connect_and_subscribe l) \<and>
         asked (es_probe_private_websocket S i) k w6 = (privates, w7) \<and>
         sampled k k limit accept privates (la_private_websocket_login_and_subscribe l) \<and>
         asked (es_probe_trading_session S) k w7 = (sessions, w8) \<and>
         sampled k k limit accept sessions (la_trading_command_session_prepare l)))"

lemma sample_then_Inr: "sample_then m f w = (Inr y, w') \<longleftrightarrow> (\<exists>x w1. m w = (Inr x, w1) \<and> f x w1 = (Inr y, w'))"
  by (auto simp: sample_then_def split: prod.splits sum.splits)

lemma pure_res_Inr: "pure_res r w = (Inr y, w') \<longleftrightarrow> r = Inr y \<and> w' = w"
  by (auto simp: pure_res_def)

lemma collect_measurements_Inr:
  assumes run: "collect_measurements D H command validated S w0 = (Inr art, w')"
    and start: "es_server_time S w = (Some (Inr (), t), w0)"
  shows "report_of D command validated S w art"
proof -
  let ?i = "pi_instrument_id (vf_instrument validated)" and ?n = "em_rest_samples command"
  let ?k = "em_websocket_samples command" and ?limit = "vf_timeout validated"
  from run obtain l1 accounts w1 account l2 instruments w2 g l3 fees w3 f l4 tickers w4 l5 times w5 l6 publics w6
      l7 privates w7 l8 sessions w8 now
    where "collect_samples ''account_config_round_trip'' ?n MIN_REST_SAMPLES ?limit (es_account_config S)
        ensure_spot_economics_safe w0 = (Inr (l1, accounts), w1)"
      and account: "consistent_account_safety accounts = Inr account"
      and "collect_samples ''instrument_metadata_round_trip'' ?n ?n ?limit (es_instrument S ?i)
        (\<lambda>row. validate_fee_group_instrument row (vf_instrument validated)) w1 = (Inr (l2, instruments), w2)"
      and group: "consistent_instrument_fee_group instruments = Inr g"
      and "collect_samples ''spot_fee_round_trip'' ?n ?n ?limit (es_spot_trade_fee S ?i g)
        (\<lambda>fee. validate_fee D fee ?i g) w2 = (Inr (l3, fees), w3)"
      and fee: "fee_artifact D fees = Inr f"
      and "collect_samples ''ticker_round_trip'' ?n MIN_REST_SAMPLES ?limit (es_ticker S ?i) (validate_ticker ?i) w3 =
        (Inr (l4, tickers), w4)"
      and "collect_samples ''server_time_round_trip'' ?n MIN_REST_SAMPLES ?limit (es_server_time S) accept w4 =
        (Inr (l5, times), w5)"
      and "collect_samples ''public_websocket_connect_and_subscribe'' ?k ?k ?limit (es_probe_public_websocket S ?i)
        accept w5 = (Inr (l6, publics), w6)"
      and "collect_samples ''private_websocket_login_and_subscribe'' ?k ?k ?limit (es_probe_private_websocket S ?i)
        accept w6 = (Inr (l7, privates), w7)"
      and "collect_samples ''trading_command_session_prepare'' ?k ?k ?limit (es_probe_trading_session S)
        accept w7 = (Inr (l8, sessions), w8)"
      and art: "ea_profile art = vf_profile validated" "ea_safety_assertions art = all_false"
        "ea_account_safety art = account" "ea_fees art = f" "la_account_config_round_trip (ea_latency art) = l1"
        "la_instrument_metadata_round_trip (ea_latency art) = l2" "la_spot_fee_round_trip (ea_latency art) = l3"
        "la_ticker_round_trip (ea_latency art) = l4" "la_server_time_round_trip (ea_latency art) = l5"
        "la_public_websocket_connect_and_subscribe (ea_latency art) = l6"
        "la_private_websocket_login_and_subscribe (ea_latency art) = l7"
        "la_trading_command_session_prepare (ea_latency art) = l8"
    unfolding collect_measurements_def Let_def by (clarsimp simp: sample_then_Inr pure_res_Inr)
  note samples = this(1,3,5,7-11) [THEN collect_samples_Inr]
  from samples obtain as1 as2 as3 as4 as5 as6 as7 as8
    where sampled:
      "asked (es_account_config S) ?n w0 = (as1, w1)"
      "sampled ?n MIN_REST_SAMPLES ?limit ensure_spot_economics_safe as1 l1"
      "asked (es_instrument S ?i) ?n w1 = (as2, w2)"
      "sampled ?n ?n ?limit (\<lambda>row. validate_fee_group_instrument row (vf_instrument validated)) as2 l2"
      "asked (es_spot_trade_fee S ?i g) ?n w2 = (as3, w3)" "sampled ?n ?n ?limit (\<lambda>fee. validate_fee D fee ?i g) as3 l3"
      "asked (es_ticker S ?i) ?n w3 = (as4, w4)" "sampled ?n MIN_REST_SAMPLES ?limit (validate_ticker ?i) as4 l4"
      "asked (es_server_time S) ?n w4 = (as5, w5)" "sampled ?n MIN_REST_SAMPLES ?limit accept as5 l5"
      "asked (es_probe_public_websocket S ?i) ?k w5 = (as6, w6)" "sampled ?k ?k ?limit accept as6 l6"
      "asked (es_probe_private_websocket S ?i) ?k w6 = (as7, w7)" "sampled ?k ?k ?limit accept as7 l7"
      "asked (es_probe_trading_session S) ?k w7 = (as8, w8)" "sampled ?k ?k ?limit accept as8 l8"
      and rows: "accounts = map fst (in_time ?limit as1)" "instruments = map fst (in_time ?limit as2)"
        "fees = map fst (in_time ?limit as3)"
    by (elim exE conjE) (rule that)
  have seen: "set accounts = values_of ?limit as1" "set instruments = values_of ?limit as2" "set fees = values_of ?limit as3"
    by (simp_all add: rows values_of_def)
  note evidence = consistent_account_safety_Inr [OF account, unfolded seen]
    consistent_instrument_fee_group_Inr [OF group, unfolded seen] fee_artifact_Inr [OF fee, unfolded seen]
  show ?thesis
    unfolding report_of_def Let_def art
    by (intro conjI exI) (rule refl start sampled evidence)+
qed

section \<open>What writing does to the disk\<close>

definition keeps_files :: "disk \<Rightarrow> disk \<Rightarrow> bool" where
  "keeps_files d d' \<longleftrightarrow> (\<forall>p. d p \<noteq> None \<longrightarrow> d' p = d p)"

lemma allocate_temporary_Inr:
  "allocate_temporary H C parent file_name d nonces = Inr (p, d') \<Longrightarrow> d p = None \<and> d' = d(p \<mapsto> [])"
  by (induction nonces) (auto simp: Let_def protected_create_new_def split: if_splits)

lemma publish_keeps:
  assumes "d temporary = None" and publish: "publish C temporary path bytes (d(temporary \<mapsto> [])) = (r, d')"
  shows "keeps_files d d'" and "r = Inr u \<Longrightarrow> d path = None \<and> d' = d(path \<mapsto> bytes)"
proof -
  have "(r \<noteq> Inr u \<and> keeps_files d d') \<or> (d path = None \<and> d' = d(path \<mapsto> bytes))"
  proof (cases "dc_partial_write C = None \<and> dc_sync_file C \<and> dc_link C \<and> path \<noteq> temporary \<and> d path = None")
    case False
    with publish have "r \<noteq> Inr u \<and> (\<exists>v. d' = d(temporary \<mapsto> v))"
      by (auto simp: publish_def disk_failure_def Let_def split: option.splits if_splits)
    moreover have "keeps_files d (d(temporary \<mapsto> v))" for v using assms(1) by (simp add: keeps_files_def)
    ultimately show ?thesis by auto
  next
    case True
    let ?d = "d(temporary \<mapsto> bytes, path \<mapsto> bytes)"
    have removed: "?d(temporary := None) = d(path \<mapsto> bytes)"
      using assms(1) True by (auto simp: fun_upd_twist [of path temporary] fun_upd_idem)
    from True publish have "(r, d') =
        (case remove_file (dc_remove_temporary C) temporary ?d of
           (False, d) \<Rightarrow> (disk_failure ''failed removing temporary link'', snd (remove_file (dc_remove_target C) path d))
         | (True, d) \<Rightarrow>
             if \<not> dc_sync_directory C
             then (disk_failure ''failed syncing directory'', snd (remove_file (dc_remove_target C) path d))
             else (Inr (), d))"
      by (simp add: publish_def Let_def)
    with True assms(1) show ?thesis
      by (cases "dc_remove_temporary C"; cases "dc_sync_directory C"; cases "dc_remove_target C")
        (auto simp: remove_file_def removed disk_failure_def keeps_files_def)
  qed
  then show "keeps_files d d'" and "r = Inr u \<Longrightarrow> d path = None \<and> d' = d(path \<mapsto> bytes)"
    by (auto simp: keeps_files_def)
qed

lemma output_write_keeps:
  assumes "output_write H serialize C path art d = (r, d')"
  shows "keeps_files d d'"
    and "r = Inr u \<Longrightarrow> \<exists>json. serialize art = Some json \<and> d path = None \<and> d' = d(path \<mapsto> json @ [CHR 0x0A])"
proof -
  consider (unwritten) e where "r = Inl e" "d' = d"
    | (written) json temporary r' d'' where "serialize art = Some json" "d temporary = None"
        "publish C temporary path (json @ [CHR 0x0A]) (d(temporary \<mapsto> [])) = (r', d'')"
        "(r, d') = (case r' of Inr u \<Rightarrow> (Inr u, d'') | Inl e \<Rightarrow> (Inl e, snd (remove_file (dc_remove_leftover C) temporary d'')))"
    using assms
    by (auto simp: output_write_def rbind_eq_Inr rbind_eq_Inl dest!: allocate_temporary_Inr split: sum.splits prod.splits)
  then have "keeps_files d d' \<and> (r = Inr u \<longrightarrow>
      (\<exists>json. serialize art = Some json \<and> d path = None \<and> d' = d(path \<mapsto> json @ [CHR 0x0A])))"
  proof cases
    case written
    from publish_keeps [OF written(2,3)] written show ?thesis
      by (auto simp: keeps_files_def remove_file_def split: sum.splits)
  qed (simp add: keeps_files_def)
  then show "keeps_files d d'"
    and "r = Inr u \<Longrightarrow> \<exists>json. serialize art = Some json \<and> d path = None \<and> d' = d(path \<mapsto> json @ [CHR 0x0A])"
    by blast+
qed

section \<open>The property\<close>

text \<open>
  C32: the economics preflight reports what it was answered and overwrites nothing.  Whatever happens, every file
  that was on the disk is still there, unchanged.  If the command succeeds, the only change is one new file at
  the validated path, and it holds the report of the answers of the source that was built: each latency
  distribution describes exactly the answers to its question, enough of which were good, all samples passed
  their checks and agreed, and the fees are computed from the reported rates.
\<close>
theorem preflight_report:
  assumes "preflight_run D H serialize C client_new command config validated d = (r, d')"
  shows "keeps_files d d' \<and>
    (r = Some (Inr ()) \<longrightarrow>
      (\<exists>S w art json. client_new config (vf_timeout validated) = Inr (S, w) \<and> report_of D command validated S w art \<and>
         serialize art = Some json \<and> d (vf_output validated) = None \<and>
         d' = d(vf_output validated \<mapsto> json @ [CHR 0x0A])))"
proof -
  consider "r \<noteq> Some (Inr ())" "d' = d"
    | (written) S w art w' r' where "client_new config (vf_timeout validated) = Inr (S, w)"
        "collect_artifact D H command validated S w = (Some (Inr art), w')"
        "output_write H serialize C (vf_output validated) art d = (r', d')" "r = Some r'"
    using assms
    by (auto simp: preflight_run_def map_prod_def split: sum.splits prod.splits option.splits)
  then show ?thesis
  proof cases
    case written
    from written(2) obtain t w0 where "es_server_time S w = (Some (Inr (), t), w0)"
        "collect_measurements D H command validated S w0 = (Inr art, w')"
      by (auto simp: collect_artifact_def map_prod_def split: prod.splits option.splits sum.splits fault.splits)
    from collect_measurements_Inr [OF this(2,1)] written output_write_keeps [OF written(3)] show ?thesis by blast
  qed (simp add: keeps_files_def)
qed

section \<open>A command that succeeds\<close>

definition at_once :: "'a \<Rightarrow> (unit, 'a) asking" where
  "at_once v w = (Some (Inr v, 2000000), w)"

definition sample_source :: "unit economics_source" where
  "sample_source =
     \<lparr> es_server_time = at_once (), es_account_config = at_once (ev_account_config sample_evidence),
       es_spot_trade_fee = (\<lambda>_ _. at_once \<lparr> tf_inst_type = ''SPOT'', tf_level = ''1'', tf_group_id = ''1'',
         tf_maker = ''-1'', tf_taker = ''-1'', tf_ts = ''7'' \<rparr>),
       es_instrument = (\<lambda>_. at_once sample_instrument),
       es_ticker = (\<lambda>_. at_once \<lparr> tk_inst_type = ''SPOT'', tk_inst_id = ''BTC-USDT'', tk_bid_px = ''1'', tk_ask_px = ''1'',
         tk_last = ''1'' \<rparr>),
       es_probe_public_websocket = (\<lambda>_. at_once ()), es_probe_private_websocket = (\<lambda>_. at_once ()),
       es_probe_trading_session = at_once () \<rparr>"

definition sample_command :: EconomicsPreflightCommand where
  "sample_command =
     \<lparr> em_profile_selector = ''example'', em_output = ''/tmp/report.json'', em_rest_samples = 3, em_websocket_samples = 1,
       em_request_timeout_ms = 10000, em_acknowledge_read_only_production = False \<rparr>"

definition sample_host :: preflight_host where
  "sample_host =
     \<lparr> ph_metadata = (\<lambda>_. Some False), ph_canonicalize = Some, ph_is_dir = (\<lambda>_. True), ph_manifest_dir = ''/src'',
       ph_process_id = 7, ph_package_version = ''1'', ph_system_time_ms = 9 \<rparr>"

definition sample_validated :: ValidatedPreflight where
  "sample_validated =
     \<lparr> vf_output = ''/tmp/report.json'',
       vf_profile = \<lparr> pa_selector = ''example'', pa_region = ''GLOBAL'', pa_trading_service = ''DEMO'',
         pa_instrument_id = ''BTC-USDT'' \<rparr>,
       vf_instrument = \<lparr> pi_instrument_id = ''BTC-USDT'', pi_base_currency = ''BTC'', pi_quote_currency = ''USDT'' \<rparr>,
       vf_timeout = 10000000000 \<rparr>"

definition sample_disk_calls :: disk_calls where
  "sample_disk_calls =
     \<lparr> dc_create = (\<lambda>_. True), dc_partial_write = None, dc_sync_file = True, dc_link = True, dc_remove_temporary = True,
       dc_sync_directory = True, dc_remove_target = True, dc_remove_leftover = True \<rparr>"

lemma collect_at_once:
  assumes "check v = Inr ()" and "2000000 \<le> limit" and "0 < n" and "m \<le> n"
  shows "collect_samples label n m limit (at_once v) check w =
    (Inr (the (latency_from_samples n 0 (replicate n 2000)), replicate n v), w)"
proof -
  have take: "take_samples limit (at_once v) check n s w =
      (Inr (s\<lparr> sp_durations := sp_durations s @ replicate n 2000, sp_values := sp_values s @ replicate n v \<rparr>), w)" for n s
  proof (induction n arbitrary: s)
    case (Suc n)
    have "record_sample check (within_limit limit (Some (Inr v, 2000000))) s =
        Inr (s\<lparr> sp_durations := sp_durations s @ [2000], sp_values := sp_values s @ [v] \<rparr>)"
      using assms(1,2) by (simp add: record_sample_def within_limit_def duration_to_micros_def u64_max_def require_def)
    moreover have "at_once v w = (Some (Inr v, 2000000), w)" by (simp add: at_once_def)
    ultimately show ?case using Suc by (simp add: replicate_append_same [symmetric] del: replicate_Suc) (simp add: replicate_append_same)
  qed simp
  obtain l where "latency_from_samples n 0 (replicate n 2000) = Some l"
    using assms(3) by (auto simp: latency_from_samples_def Let_def)
  then show ?thesis using assms(3,4) unfolding collect_samples_def take by (simp add: require_def)
qed

lemma sample_checks:
  "ensure_spot_economics_safe (ev_account_config sample_evidence) = Inr ()"
  "validate_fee_group_instrument sample_instrument (vf_instrument sample_validated) = Inr ()"
  "validate_fee exact_decimal \<lparr> tf_inst_type = ''SPOT'', tf_level = ''1'', tf_group_id = ''1'', tf_maker = ''-1'',
     tf_taker = ''-1'', tf_ts = ''7'' \<rparr> ''BTC-USDT'' ''1'' = Inr ()"
  by (simp_all add: ensure_spot_economics_safe_def sample_evidence_def account_level_parse_def no_borrowing_def
    spot_fee_type_def validate_fee_group_instrument_def sample_validated_def sample_instrument_def
    ensure_live_def ensure_trade_quote_currency_def sample_sizes [unfolded sample_instrument_def] validate_fee_def
    fee_ensure_spot_def validate_fee_group_id_def sample_trims sample_ints is_ascii_digit_def byte_def blank_def
    normalized_maker_cost_rate_def normalized_taker_cost_rate_def normalized_cost_rate_def parse_decimal_def
    read_decimal_def read_unsigned_def ascii_digits_def digits_nat_def)

lemma sample_agreement:
  "\<exists>a. consistent_account_safety (replicate 3 (ev_account_config sample_evidence)) = Inr a"
  "consistent_instrument_fee_group (replicate 3 sample_instrument) = Inr ''1''"
  "\<exists>f. fee_artifact exact_decimal (replicate 3 \<lparr> tf_inst_type = ''SPOT'', tf_level = ''1'', tf_group_id = ''1'',
     tf_maker = ''-1'', tf_taker = ''-1'', tf_ts = ''7'' \<rparr>) = Inr f"
  by (simp_all add: numeral_3_eq_3 consistent_account_safety_def same_account_def spot_fee_type_def sample_evidence_def
    consistent_instrument_fee_group_def same_instrument_row_def sample_sizes fee_artifact_def same_fee_def
    normalized_maker_cost_rate_def normalized_taker_cost_rate_def normalized_cost_rate_def parse_decimal_def
    read_decimal_def read_unsigned_def ascii_digits_def digits_nat_def byte_def dec_mul_def dec_add_def)

lemma sample_limit: "vf_timeout sample_validated = 10000000000" "pi_instrument_id (vf_instrument sample_validated) = ''BTC-USDT''"
  by (simp_all add: sample_validated_def)

lemma sample_report: "\<exists>art. collect_artifact exact_decimal sample_host sample_command sample_validated sample_source () =
    (Some (Inr art), ())"
proof -
  have "\<exists>art. collect_measurements exact_decimal sample_host sample_command sample_validated sample_source () = (Inr art, ())"
    using sample_agreement
    by (auto simp: collect_measurements_def Let_def sample_then_def pure_res_def collect_at_once sample_checks
      sample_source_def sample_command_def sample_limit sample_host_def generated_at_ms_def u64_max_def
      MIN_REST_SAMPLES_def accept_def validate_ticker_def)
  then show ?thesis by (auto simp: collect_artifact_def sample_source_def at_once_def)
qed

lemma sample_writes:
  "output_write sample_host (\<lambda>_. Some ''{}'') sample_disk_calls ''/tmp/report.json'' art Map.empty =
    (Inr (), [''/tmp/report.json'' \<mapsto> ''{}'' @ [CHR 0x0A]])"
  by (simp add: output_write_def path_parent_def path_file_name_def path_components_def starts_with_def upt_conv_Cons
    protected_create_new_def temporary_path_def path_join_def publish_def sample_disk_calls_def remove_file_def
    Let_def)

theorem preflight_report_witness:
  "\<exists>art d'. preflight_run exact_decimal sample_host (\<lambda>_. Some ''{}'') sample_disk_calls (\<lambda>_ _. Inr (sample_source, ()))
       sample_command example_config sample_validated Map.empty = (Some (Inr ()), d') \<and>
     report_of exact_decimal sample_command sample_validated sample_source () art \<and>
     d' = [''/tmp/report.json'' \<mapsto> ''{}'' @ [CHR 0x0A]]"
proof -
  from sample_report have "preflight_run exact_decimal sample_host (\<lambda>_. Some ''{}'') sample_disk_calls
      (\<lambda>_ _. Inr (sample_source, ())) sample_command example_config sample_validated Map.empty =
    (Some (Inr ()), [''/tmp/report.json'' \<mapsto> ''{}'' @ [CHR 0x0A]])"
    using sample_writes by (auto simp: preflight_run_def sample_validated_def)
  from preflight_report [OF this] this show ?thesis by auto
qed

end
