(* ===== verification/Rest_Responses.thy ===== *)
theory Rest_Responses
  imports Rest_Base
begin

text \<open>
  The responses of the REST client of \<open>okx/client.rs\<close>: reading a bounded body, the envelopes, the gateway timing
  and the rate-limit answers.  What is only logged is left out.
\<close>

definition OKX_RATE_LIMIT_CODES :: "string list" where
  "OKX_RATE_LIMIT_CODES = [''50011'', ''50040'', ''50061'']"

definition OKX_GATEWAY_LATENCY_WARN_THRESHOLD_US :: int where
  "OKX_GATEWAY_LATENCY_WARN_THRESHOLD_US = 250000"

definition OKX_GATEWAY_LATENCY_SUMMARY_SAMPLE_WINDOW :: nat where
  "OKX_GATEWAY_LATENCY_SUMMARY_SAMPLE_WINDOW = 100"

definition OKX_REST_MAX_RESPONSE_BODY_BYTES :: nat where
  "OKX_REST_MAX_RESPONSE_BODY_BYTES = 1024 * 1024"

definition u64_max_nat :: nat where "u64_max_nat = 2 ^ 64 - 1"

definition u128_max_nat :: nat where "u128_max_nat = 2 ^ 128 - 1"

section \<open>The body\<close>

datatype OkxResponseBodySummary = Complete nat | DeclaredOverLimit nat nat | ReadOverLimit nat nat

datatype OkxResponseBodyReadError = Transport | OverLimit OkxResponseBodySummary

fun read_chunks :: "string \<Rightarrow> string option list \<Rightarrow> OkxResponseBodyReadError + string" where
  "read_chunks body [] = Inr body"
| "read_chunks body (None # cs) = Inl Transport"
| "read_chunks body (Some chunk # cs) =
     (let next_len = length body + length chunk in
      if next_len > OKX_REST_MAX_RESPONSE_BODY_BYTES
      then Inl (OverLimit (ReadOverLimit next_len OKX_REST_MAX_RESPONSE_BODY_BYTES))
      else read_chunks (body @ chunk) cs)"

definition read_okx_response_body :: "http_response \<Rightarrow> OkxResponseBodyReadError + string" where
  "read_okx_response_body r =
     (case hp_content_length r of
        Some declared_len \<Rightarrow>
          if declared_len > OKX_REST_MAX_RESPONSE_BODY_BYTES
          then Inl (OverLimit (DeclaredOverLimit declared_len OKX_REST_MAX_RESPONSE_BODY_BYTES))
          else read_chunks [] (hp_chunks r)
      | None \<Rightarrow> read_chunks [] (hp_chunks r))"

section \<open>Gateway timing\<close>

record OkxEnvelopeLatency =
  ey_in_time_microseconds :: int
  ey_out_time_microseconds :: int
  ey_gateway_latency_microseconds :: int

definition gateway_latency :: "OkxEnvelopeTiming \<Rightarrow> OkxEnvelopeLatency option" where
  "gateway_latency t =
     Option.bind (Option.bind (en_in_time_microseconds t) parse_i128) (\<lambda>i.
     Option.bind (Option.bind (en_out_time_microseconds t) parse_i128) (\<lambda>u.
     Option.bind (i128_checked (u - i)) (\<lambda>d.
     if d < 0 then None
     else Some \<lparr> ey_in_time_microseconds = i, ey_out_time_microseconds = u, ey_gateway_latency_microseconds = d \<rparr>)))"

definition okx_gateway_latency_exceeds_warn_threshold :: "OkxEnvelopeLatency \<Rightarrow> bool" where
  "okx_gateway_latency_exceeds_warn_threshold t =
     (ey_gateway_latency_microseconds t \<ge> OKX_GATEWAY_LATENCY_WARN_THRESHOLD_US)"

record OkxGatewayLatencySummary =
  ez_sample_count :: nat
  ez_slow_sample_count :: nat
  ez_average_gateway_latency_microseconds :: nat
  ez_max_gateway_latency_microseconds :: nat

definition gateway_latency_record ::
    "OkxEnvelopeLatency \<Rightarrow> OkxGatewayLatencyWindow \<Rightarrow> OkxGatewayLatencySummary option \<times> OkxGatewayLatencyWindow" where
  "gateway_latency_record t w =
     (if ey_gateway_latency_microseconds t < 0 \<or> nat (ey_gateway_latency_microseconds t) > u64_max_nat then (None, w)
      else
        (let us = nat (ey_gateway_latency_microseconds t);
             w = \<lparr> gw_sample_count = min u64_max_nat (gw_sample_count w + 1),
                   gw_slow_sample_count =
                     (if okx_gateway_latency_exceeds_warn_threshold t
                      then min u64_max_nat (gw_slow_sample_count w + 1) else gw_slow_sample_count w),
                   gw_total_gateway_latency_microseconds =
                     min u128_max_nat (gw_total_gateway_latency_microseconds w + us),
                   gw_max_gateway_latency_microseconds = max (gw_max_gateway_latency_microseconds w) us \<rparr>;
             average = gw_total_gateway_latency_microseconds w div gw_sample_count w in
         if gw_sample_count w < OKX_GATEWAY_LATENCY_SUMMARY_SAMPLE_WINDOW \<or> average > u64_max_nat then (None, w)
         else
           (Some \<lparr> ez_sample_count = gw_sample_count w, ez_slow_sample_count = gw_slow_sample_count w,
                   ez_average_gateway_latency_microseconds = average,
                   ez_max_gateway_latency_microseconds = gw_max_gateway_latency_microseconds w \<rparr>,
            gateway_latency_window_default)))"

definition record_gateway_timing :: "OkxEnvelopeTiming \<Rightarrow> unit rest" where
  "record_gateway_timing t =
     (case gateway_latency t of
        None \<Rightarrow> qret ()
      | Some l \<Rightarrow> qupd (\<lambda>c. c\<lparr> ri_gateway_latency := snd (gateway_latency_record l (ri_gateway_latency c)) \<rparr>))"

section \<open>Parsing a response\<close>

definition TOO_MANY_REQUESTS :: nat where "TOO_MANY_REQUESTS = 429"

definition is_success :: "nat \<Rightarrow> bool" where
  "is_success status = (200 \<le> status \<and> status < 300)"

definition is_okx_rate_limit_code :: "string \<Rightarrow> bool" where
  "is_okx_rate_limit_code code = (code \<in> set OKX_RATE_LIMIT_CODES)"

text \<open>
  What the four parsers begin with: a 429 closes the bucket, the body is read, and a response that cannot be
  read or came with a 429 is an error.
\<close>

definition response_body :: "rest_env \<Rightarrow> string \<Rightarrow> RateLimitBucket \<Rightarrow> http_response \<Rightarrow> string rest" where
  "response_body E context b r =
     qbind (if hp_status r = TOO_MANY_REQUESTS then qrecord_rate_limit E b else qret ()) (\<lambda>_.
     case read_okx_response_body r of
       Inl e \<Rightarrow>
         if hp_status r = TOO_MANY_REQUESTS then qlift (rest_bad ''OKX rate limit'' (rb_key b))
         else if \<not> is_success (hp_status r) then qlift (rest_bad ''OKX HTTP'' ''status is not success'')
         else qlift (in_context context (rest_bad ''OKX response body'' ''could not be read''))
     | Inr body \<Rightarrow>
         if hp_status r = TOO_MANY_REQUESTS then qlift (rest_bad ''OKX rate limit'' (rb_key b)) else qret body)"

text \<open>What every parser does with an envelope before its code is looked at.\<close>

definition accept_envelope :: "rest_env \<Rightarrow> RateLimitBucket \<Rightarrow> OkxEnvelopeTiming \<Rightarrow> string \<Rightarrow> unit rest" where
  "accept_envelope E b t code =
     qbind (record_gateway_timing t) (\<lambda>_.
     if is_okx_rate_limit_code code
     then qbind (qrecord_rate_limit E b) (\<lambda>_. qlift (rest_bad ''OKX API rate limit'' (rb_key b)))
     else qret ())"

definition unparsed :: "string \<Rightarrow> 'a option \<Rightarrow> 'a rest" where
  "unparsed context r = qlift (ok_or (Fail (Plain (Bad context ''failed parsing''))) r)"

definition raw_data :: "OkxEnvelopeRaw \<Rightarrow> string" where
  "raw_data e = (case en_data e of None \<Rightarrow> ''null'' | Some d \<Rightarrow> d)"

definition parse_response ::
    "rest_env \<Rightarrow> (string \<Rightarrow> 'a option) \<Rightarrow> RateLimitBucket \<Rightarrow> http_response \<Rightarrow> 'a rest" where
  "parse_response E parse b r =
     qbind (response_body E ''failed reading OKX response body'' b r) (\<lambda>body.
     qbind (qplain (require (is_success (hp_status r)) ''OKX HTTP'' ''status is not success'')) (\<lambda>_.
     qbind (unparsed ''OKX response body'' (rj_envelope (re_json E) body)) (\<lambda>e.
     qbind (accept_envelope E b (en_timing e) (en_code e)) (\<lambda>_.
     if en_code e \<noteq> ''0''
     then qfail (OkxApiError (en_code e)
                   (if starts_with ''501'' (en_code e) then ''response message omitted'' else en_msg e))
     else unparsed ''OKX response body'' (parse (raw_data e))))))"

definition parse_order_mutation_response ::
    "rest_env \<Rightarrow> RateLimitBucket \<Rightarrow> http_response \<Rightarrow> OkxOrderAck list rest" where
  "parse_order_mutation_response E b r =
     qbind (response_body E ''failed reading OKX order response body'' b r) (\<lambda>body.
     qbind (qplain (require (is_success (hp_status r)) ''OKX HTTP'' ''status is not success'')) (\<lambda>_.
     qbind (unparsed ''OKX order response body'' (rj_order_mutation (re_json E) body)) (\<lambda>e.
     qbind (accept_envelope E b (em_timing e) (em_code e)) (\<lambda>_.
     if em_code e \<noteq> ''0'' then qfail (OkxOrderMutationApiError (em_code e) (em_msg e) (em_data e) (em_timing e))
     else qret (em_data e)))))"

definition parse_algo_mutation_response ::
    "rest_env \<Rightarrow> RateLimitBucket \<Rightarrow> http_response \<Rightarrow> OkxAlgoOrderAck list rest" where
  "parse_algo_mutation_response E b r =
     qbind (response_body E ''failed reading OKX algo mutation response body'' b r) (\<lambda>body.
     qbind (qplain (require (is_success (hp_status r)) ''OKX HTTP'' ''status is not success'')) (\<lambda>_.
     qbind (unparsed ''OKX algo mutation response body'' (rj_algo_mutation (re_json E) body)) (\<lambda>e.
     qbind (accept_envelope E b (em_timing e) (em_code e)) (\<lambda>_.
     if em_code e \<noteq> ''0'' then qfail (OkxAlgoMutationApiError (em_code e) (em_msg e) (em_data e) (em_timing e))
     else qret (em_data e)))))"

text \<open>
  The sizing endpoints parse the envelope of a failed response too, for its code, and only then look at the
  status.
\<close>

definition parse_account_sizing_response ::
    "rest_env \<Rightarrow> (string \<Rightarrow> 'a option) \<Rightarrow> RateLimitBucket \<Rightarrow> http_response \<Rightarrow> 'a rest" where
  "parse_account_sizing_response E parse b r =
     qbind (response_body E ''failed reading OKX account sizing response body'' b r) (\<lambda>body.
     qbind (unparsed ''OKX account sizing response body'' (rj_envelope (re_json E) body)) (\<lambda>e.
     qbind (record_gateway_timing (en_timing e)) (\<lambda>_.
     qbind (qplain (require (is_success (hp_status r)) ''OKX account sizing HTTP'' (en_code e))) (\<lambda>_.
     qbind (if is_okx_rate_limit_code (en_code e)
            then qbind (qrecord_rate_limit E b) (\<lambda>_. qlift (rest_bad ''OKX API rate limit'' (rb_key b)))
            else qret ()) (\<lambda>_.
     if en_code e \<noteq> ''0'' then qfail (OkxApiError (en_code e) (en_msg e))
     else unparsed ''OKX account sizing response body'' (parse (raw_data e)))))))"

section \<open>Acknowledged rejections\<close>

definition order_ack_rejection :: "OkxOrderAck \<Rightarrow> rest_error" where
  "order_ack_rejection a =
     OkxOrderMutationApiError ''0'' [] [a] \<lparr> en_in_time_microseconds = None, en_out_time_microseconds = None \<rparr>"

section \<open>Lemmas\<close>

lemma read_chunks_bounded:
  assumes "read_chunks body cs = Inr s" and "length body \<le> OKX_REST_MAX_RESPONSE_BODY_BYTES"
  shows "length s \<le> OKX_REST_MAX_RESPONSE_BODY_BYTES \<and> s = body @ concat (map the cs) \<and> None \<notin> set cs"
  using assms by (induction body cs rule: read_chunks.induct) (auto simp: Let_def split: if_splits)

text \<open>A body that was read is the whole body, and at most a mebibyte.\<close>

lemma read_okx_response_body_Inr:
  assumes "read_okx_response_body r = Inr s"
  shows "length s \<le> OKX_REST_MAX_RESPONSE_BODY_BYTES \<and> s = concat (map the (hp_chunks r)) \<and> None \<notin> set (hp_chunks r)"
  using assms read_chunks_bounded [of "[]"] by (auto simp: read_okx_response_body_def split: option.splits if_splits)

lemma keeps_record_gateway_timing:
  "preorder_rel R \<Longrightarrow> (\<And>c w. R c (c\<lparr> ri_gateway_latency := w \<rparr>)) \<Longrightarrow> rest_keeps R (record_gateway_timing t)"
  unfolding record_gateway_timing_def by (auto intro!: keep_rules keeps_upd split: option.split)

lemma keeps_unparsed [keep_rules]: "preorder_rel R \<Longrightarrow> rest_keeps R (unparsed s r)"
  unfolding unparsed_def by (intro keep_rules)

text \<open>What the parsers may change: the pacer, the latency window, the time.\<close>

definition bookkeeping :: "(OkxRestClient \<Rightarrow> OkxRestClient \<Rightarrow> bool) \<Rightarrow> bool" where
  "bookkeeping R =
     (preorder_rel R \<and> (\<forall>c w. R c (c\<lparr> ri_gateway_latency := w \<rparr>)) \<and> (\<forall>c p. R c (c\<lparr> ri_rate_limit_pacer := p \<rparr>)) \<and>
      (\<forall>c t. R c (c\<lparr> ri_now := t \<rparr>)) \<and> (\<forall>c m. R c (c\<lparr> ri_moment := m \<rparr>)))"

lemma bookkeeping_preorder [keep_rules]: "bookkeeping R \<Longrightarrow> preorder_rel R"
  by (simp add: bookkeeping_def)

lemma bookkeeping_trans: "bookkeeping R \<Longrightarrow> R a b \<Longrightarrow> R b c \<Longrightarrow> R a c"
  unfolding bookkeeping_def preorder_rel_def by blast

lemma bookkeeping_advance: "bookkeeping R \<Longrightarrow> R c (advance E c)"
proof -
  assume R: "bookkeeping R"
  have "R c (c\<lparr> ri_now := ri_now c + re_elapse E (ri_moment c) \<rparr>)" using R by (simp add: bookkeeping_def)
  moreover have "R (c\<lparr> ri_now := ri_now c + re_elapse E (ri_moment c) \<rparr>) (advance E c)"
    using R by (simp add: bookkeeping_def advance_def)
  ultimately show ?thesis by (rule bookkeeping_trans [OF R])
qed

lemma keeps_clock [keep_rules]:
  assumes "bookkeeping R"
  shows "rest_keeps R (qnow E)" "rest_keeps R (qunix E)" "rest_keeps R (qsleep d)"
  using assms bookkeeping_advance [OF assms]
  by (auto simp: rest_keeps_def qnow_def qunix_def qsleep_def bookkeeping_def)

lemma keeps_wait [keep_rules]:
  assumes R: "bookkeeping R"
  shows "rest_keeps R (qwait E b)"
  unfolding rest_keeps_def
proof
  fix c :: OkxRestClient
  obtain r m t p where w: "wait_from (re_elapse E) b (ri_moment c) (ri_now c) (ri_rate_limit_pacer c) = (r, m, t, p)"
    by (cases "wait_from (re_elapse E) b (ri_moment c) (ri_now c) (ri_rate_limit_pacer c)")
  have "R c (c\<lparr> ri_moment := m \<rparr>)" "R (c\<lparr> ri_moment := m \<rparr>) (c\<lparr> ri_moment := m, ri_now := t \<rparr>)"
    "R (c\<lparr> ri_moment := m, ri_now := t \<rparr>) (c\<lparr> ri_moment := m, ri_now := t, ri_rate_limit_pacer := p \<rparr>)"
    using R by (simp_all add: bookkeeping_def)
  then have "R c (c\<lparr> ri_moment := m, ri_now := t, ri_rate_limit_pacer := p \<rparr>)"
    using bookkeeping_trans [OF R] by blast
  with w show "R c (snd (qwait E b c))" by (simp add: qwait_def)
qed

lemma keeps_record_rate_limit [keep_rules]: "bookkeeping R \<Longrightarrow> rest_keeps R (qrecord_rate_limit E b)"
  unfolding qrecord_rate_limit_def by (intro keep_rules keeps_upd) (auto simp: bookkeeping_def)

lemma keeps_timing [keep_rules]: "bookkeeping R \<Longrightarrow> rest_keeps R (record_gateway_timing t)"
  by (intro keeps_record_gateway_timing) (auto simp: bookkeeping_def)

lemma keeps_response_body [keep_rules]: "bookkeeping R \<Longrightarrow> rest_keeps R (response_body E s b r)"
  unfolding response_body_def by (intro keep_rules)

lemma keeps_accept_envelope [keep_rules]: "bookkeeping R \<Longrightarrow> rest_keeps R (accept_envelope E b t code)"
  unfolding accept_envelope_def by (intro keep_rules)

lemma keeps_parsers [keep_rules]:
  assumes "bookkeeping R"
  shows "rest_keeps R (parse_response E f b r)" "rest_keeps R (parse_order_mutation_response E b r)"
    "rest_keeps R (parse_algo_mutation_response E b r)" "rest_keeps R (parse_account_sizing_response E g b r)"
  using assms
  unfolding parse_response_def parse_order_mutation_response_def parse_algo_mutation_response_def
    parse_account_sizing_response_def
  by (intro keep_rules; assumption)+

end
