(* ===== verification/Rest_Client.thy ===== *)
theory Rest_Client
  imports Rest_Responses
begin

text \<open>
  How the REST client of \<open>okx/client.rs\<close> makes requests: the queries of \<open>okx/queries.rs\<close>, signing, the estimate
  of the server's time, and the public and private requests every operation is made of.
\<close>

definition OKX_API_KEY :: string where "OKX_API_KEY = ''OK-ACCESS-KEY''"
definition OKX_API_SIGN :: string where "OKX_API_SIGN = ''OK-ACCESS-SIGN''"
definition OKX_API_TIMESTAMP :: string where "OKX_API_TIMESTAMP = ''OK-ACCESS-TIMESTAMP''"
definition OKX_API_PASSPHRASE :: string where "OKX_API_PASSPHRASE = ''OK-ACCESS-PASSPHRASE''"
definition OKX_DOCUMENTED_SIMULATED_TRADING :: string where "OKX_DOCUMENTED_SIMULATED_TRADING = ''x-simulated-trading''"
definition OKX_ORDER_EXP_TIME :: string where "OKX_ORDER_EXP_TIME = ''expTime''"
definition OKX_SERVER_TIME_PATH :: string where "OKX_SERVER_TIME_PATH = ''/api/v5/public/time''"

section \<open>Queries\<close>

definition OKX_ORDER_HISTORY_PAGE_LIMIT :: nat where "OKX_ORDER_HISTORY_PAGE_LIMIT = 100"
definition OKX_OPEN_ORDERS_PAGE_LIMIT :: nat where "OKX_OPEN_ORDERS_PAGE_LIMIT = 100"
definition OKX_ORDER_FILLS_PAGE_LIMIT :: nat where "OKX_ORDER_FILLS_PAGE_LIMIT = 100"
definition OKX_OPEN_ALGO_ORDERS_PAGE_LIMIT :: nat where "OKX_OPEN_ALGO_ORDERS_PAGE_LIMIT = 100"
definition OKX_ALGO_HISTORY_PAGE_LIMIT :: nat where "OKX_ALGO_HISTORY_PAGE_LIMIT = 100"

fun okx_query :: "(string \<Rightarrow> string) \<Rightarrow> (string \<times> string) list \<Rightarrow> string" where
  "okx_query enc [] = []"
| "okx_query enc [(name, v)] = enc name @ ''='' @ enc v"
| "okx_query enc ((name, v) # p # ps) = enc name @ ''='' @ enc v @ ''&'' @ okx_query enc (p # ps)"

definition after_pair :: "string option \<Rightarrow> (string \<times> string) list" where
  "after_pair after = (case after of None \<Rightarrow> [] | Some a \<Rightarrow> [(''after'', a)])"

definition open_orders_query :: "(string \<Rightarrow> string) \<Rightarrow> string \<Rightarrow> string \<Rightarrow> string option \<Rightarrow> string" where
  "open_orders_query enc inst_type inst_id after =
     okx_query enc ([(''instType'', inst_type), (''instId'', inst_id),
                     (''limit'', show_nat OKX_OPEN_ORDERS_PAGE_LIMIT)] @ after_pair after)"

definition order_history_query :: "(string \<Rightarrow> string) \<Rightarrow> string \<Rightarrow> string \<Rightarrow> string option \<Rightarrow> string" where
  "order_history_query enc inst_type inst_id after =
     okx_query enc ([(''instType'', inst_type), (''instId'', inst_id),
                     (''limit'', show_nat OKX_ORDER_HISTORY_PAGE_LIMIT)] @ after_pair after)"

definition order_fills_query :: "(string \<Rightarrow> string) \<Rightarrow> string \<Rightarrow> string \<Rightarrow> string option \<Rightarrow> string" where
  "order_fills_query enc inst_type inst_id after =
     okx_query enc ([(''instType'', inst_type), (''instId'', inst_id),
                     (''limit'', show_nat OKX_ORDER_FILLS_PAGE_LIMIT)] @ after_pair after)"

definition open_algo_orders_query :: "(string \<Rightarrow> string) \<Rightarrow> string \<Rightarrow> string \<Rightarrow> string option \<Rightarrow> string" where
  "open_algo_orders_query enc inst_type inst_id after =
     okx_query enc ([(''instType'', inst_type), (''instId'', inst_id), (''ordType'', ''trigger''),
                     (''limit'', show_nat OKX_OPEN_ALGO_ORDERS_PAGE_LIMIT)] @ after_pair after)"

datatype AlgoHistoryFilter = HistoryState string | HistoryAlgoId string

definition algo_order_history_query ::
    "(string \<Rightarrow> string) \<Rightarrow> string \<Rightarrow> string \<Rightarrow> AlgoHistoryFilter \<Rightarrow> string option \<Rightarrow> string" where
  "algo_order_history_query enc inst_type inst_id history after =
     okx_query enc ([(''instType'', inst_type), (''instId'', inst_id), (''ordType'', ''trigger'')] @
                    (case history of
                       HistoryState state \<Rightarrow> [(''state'', state)]
                     | HistoryAlgoId algo_id \<Rightarrow> [(''algoId'', algo_id)]) @
                    [(''limit'', show_nat OKX_ALGO_HISTORY_PAGE_LIMIT)] @ after_pair after)"

section \<open>Server time\<close>

definition parse_unix_millis :: "string \<Rightarrow> string \<Rightarrow> int res" where
  "parse_unix_millis context v =
     rbind (require (\<not> blank v) context ''must not be empty'') (\<lambda>_.
     ok_or (Fail (Bad context ''must be Unix milliseconds'')) (parse_i128 v))"

text \<open>The age is a difference of positive numbers in order, so it does not overflow.\<close>

definition ensure_fresh_rest_timestamp :: "string \<Rightarrow> int \<Rightarrow> int \<Rightarrow> nat \<Rightarrow> unit rest_res" where
  "ensure_fresh_rest_timestamp context generated_at_ms server_now_ms max_staleness =
     rbind (plain (require (server_now_ms > 0) ''synchronized OKX server time'' ''must be positive'')) (\<lambda>_.
     rbind (plain (require (generated_at_ms > 0) context ''must be positive'')) (\<lambda>_.
     rbind (plain (require (generated_at_ms \<le> server_now_ms) context ''is in the future'')) (\<lambda>_.
     let age_ms = server_now_ms - generated_at_ms; max_staleness_ms = int (max_staleness div 1000000) in
     if age_ms > max_staleness_ms then Inl (Fail (StaleRestTimestampError context age_ms max_staleness_ms))
     else Inr ())))"

definition ensure_fresh_rest_ticker_timestamp :: "string \<Rightarrow> int \<Rightarrow> nat \<Rightarrow> unit rest_res" where
  "ensure_fresh_rest_ticker_timestamp timestamp server_now_ms max_staleness =
     rbind (plain (parse_unix_millis ''OKX REST ticker timestamp'' timestamp)) (\<lambda>generated_at_ms.
     ensure_fresh_rest_timestamp ''OKX REST ticker timestamp'' generated_at_ms server_now_ms max_staleness)"

definition server_unix_millis :: "rest_env \<Rightarrow> int option rest" where
  "server_unix_millis E =
     qbind (qnow E) (\<lambda>now. qbind (qunix E) (\<lambda>unix. \<lambda>c.
     case clock_unix_millis now unix (ri_server_time_clock c) of
       (r, k) \<Rightarrow> (plain r, c\<lparr> ri_server_time_clock := k \<rparr>)))"

definition server_time_cache_needs_refresh :: "rest_env \<Rightarrow> bool rest" where
  "server_time_cache_needs_refresh E =
     qbind (qnow E) (\<lambda>now. \<lambda>c.
     case clock_needs_refresh OKX_SERVER_TIME_REFRESH_MARGIN now (ri_server_time_clock c) of
       (r, k) \<Rightarrow> (Inr r, c\<lparr> ri_server_time_clock := k \<rparr>))"

definition record_server_time :: "rest_env \<Rightarrow> int \<Rightarrow> int \<Rightarrow> unit rest" where
  "record_server_time E server_millis local_millis =
     qbind (qnow E) (\<lambda>now. \<lambda>c.
     case clock_record server_millis local_millis now (ri_server_time_clock c) of
       (r, k) \<Rightarrow> (plain r, c\<lparr> ri_server_time_clock := k \<rparr>))"

text \<open>\<open>context(\<dots>)\<close> of an optional server time.\<close>

definition synchronized_server_time :: "rest_env \<Rightarrow> string \<Rightarrow> int rest" where
  "synchronized_server_time E context =
     qbind (server_unix_millis E) (\<lambda>t.
     qplain (ok_or (Fail (Bad context ''requires synchronized server time'')) t))"

section \<open>Public requests\<close>

definition rest_url :: "rest_env \<Rightarrow> string \<Rightarrow> string option \<Rightarrow> unit rest" where
  "rest_url E path query = qplain (require (re_url_ok E path query) ''OKX request URL'' ''failed building'')"

definition simulated_trading_header :: "OkxRestClient \<Rightarrow> (string \<times> string) list" where
  "simulated_trading_header c =
     (if ri_simulated_trading c then [(OKX_DOCUMENTED_SIMULATED_TRADING, ''1'')] else [])"

definition public_get ::
    "rest_env \<Rightarrow> (string \<Rightarrow> 'a option) \<Rightarrow> string \<Rightarrow> string option \<Rightarrow> 'a rest" where
  "public_get E parse path query =
     qbind (qplain (okx_rate_limit_bucket ''GET'' path query None)) (\<lambda>b.
     qbind (qwait E b) (\<lambda>_.
     qbind (rest_url E path query) (\<lambda>_.
     qbind (qget simulated_trading_header) (\<lambda>headers.
     qbind (qsend E ''OKX public request''
       \<lparr> hq_method = ''GET'', hq_path = path, hq_query = query, hq_headers = headers, hq_body = [],
         hq_asked = None \<rparr>) (\<lambda>r.
     parse_response E parse b r)))))"

definition refresh_server_time :: "rest_env \<Rightarrow> unit rest" where
  "refresh_server_time E =
     qbind (qunix E) (\<lambda>local_before_millis.
     qbind (qcontext ''failed syncing OKX server time''
              (public_get E (rj_server_times (re_json E)) OKX_SERVER_TIME_PATH None)) (\<lambda>server_times.
     qbind (qunix E) (\<lambda>local_after_millis.
     qbind (qplain (require (length server_times = 1) ''OKX server time'' ''returned a wrong number of rows'')) (\<lambda>_.
     qbind (qplain (require (local_after_millis \<ge> local_before_millis) ''local clock''
              ''moved backward while syncing OKX server time'')) (\<lambda>_.
     qbind (qplain (parse_unix_millis ''OKX server time'' (hd server_times))) (\<lambda>server_millis.
     record_server_time E server_millis
       (local_before_millis + (local_after_millis - local_before_millis) div 2)))))))"

definition refresh_server_time_if_expiring :: "rest_env \<Rightarrow> bool rest" where
  "refresh_server_time_if_expiring E =
     qbind (server_time_cache_needs_refresh E) (\<lambda>needed.
     if \<not> needed then qret False else qbind (refresh_server_time E) (\<lambda>_. qret True))"

section \<open>Private requests\<close>

text \<open>HMAC takes keys of every length; \<open>re_hmac\<close> is the Base64 text of the code.\<close>

definition sign :: "rest_env \<Rightarrow> string \<Rightarrow> string \<Rightarrow> string \<Rightarrow> string \<Rightarrow> string \<Rightarrow> string" where
  "sign E secret timestamp method target body = re_hmac E secret (timestamp @ method @ target @ body)"

definition private_request_timing :: "rest_env \<Rightarrow> PrivateRequestTiming rest" where
  "private_request_timing E =
     qbind (server_unix_millis E) (\<lambda>t.
     case t of
       Some unix_millis \<Rightarrow> qplain (private_request_timing_new (re_calendar E) unix_millis)
     | None \<Rightarrow>
         qbind (refresh_server_time E) (\<lambda>_.
         qbind (synchronized_server_time E ''OKX server time sync'') (\<lambda>unix_millis.
         qplain (private_request_timing_new (re_calendar E) unix_millis))))"

definition private_headers ::
    "rest_env \<Rightarrow> OkxRestClient \<Rightarrow> string \<Rightarrow> PrivateRequestTiming \<Rightarrow> string option \<Rightarrow> string \<Rightarrow> (string \<times> string) list" where
  "private_headers E c signature timing exp_time body =
     [(OKX_API_KEY, ri_api_key c), (OKX_API_SIGN, signature), (OKX_API_TIMESTAMP, pt_timestamp timing),
      (OKX_API_PASSPHRASE, ri_api_passphrase c)] @
     (case exp_time of None \<Rightarrow> [] | Some t \<Rightarrow> [(OKX_ORDER_EXP_TIME, t)]) @
     simulated_trading_header c @
     (if body \<noteq> [] then [(''content-type'', ''application/json'')] else [])"

definition reserve_private_request ::
    "rest_env \<Rightarrow> string \<Rightarrow> string \<Rightarrow> string option \<Rightarrow> rest_body option \<Rightarrow> RateLimitBucket rest" where
  "reserve_private_request E method path query body =
     qbind (qplain (okx_rate_limit_bucket method path query (Option.bind body rate_limit_inst_id))) (\<lambda>b.
     qbind (qwait E b) (\<lambda>_. qret b))"

definition send_private_request_after_reservation ::
    "rest_env \<Rightarrow> string \<Rightarrow> string \<Rightarrow> string option \<Rightarrow> rest_body option \<Rightarrow> PrivateRequestExpiry \<Rightarrow> RateLimitBucket \<Rightarrow>
      (http_response \<times> RateLimitBucket) rest" where
  "send_private_request_after_reservation E method path query body expiry b =
     qbind (qplain (case body of
              None \<Rightarrow> Inr []
            | Some v \<Rightarrow> ok_or (Fail (Bad ''OKX request'' ''failed serializing'')) (re_serialize E v))) (\<lambda>text.
     qbind (private_request_timing E) (\<lambda>timing.
     qbind (qget (\<lambda>c. sign E (ri_api_secret c) (pt_timestamp timing) method (request_target path query) text)) (\<lambda>signature.
     qbind (rest_url E path query) (\<lambda>_.
     qbind (qplain (header_value expiry (pt_unix_millis timing))) (\<lambda>exp_time.
     qbind (qget (\<lambda>c. private_headers E c signature timing exp_time text)) (\<lambda>headers.
     qbind (qsend E ''OKX private request''
       \<lparr> hq_method = method, hq_path = path, hq_query = query, hq_headers = headers, hq_body = text,
         hq_asked = body \<rparr>) (\<lambda>r.
     qret (r, b))))))))"

definition send_private_request ::
    "rest_env \<Rightarrow> string \<Rightarrow> string \<Rightarrow> string option \<Rightarrow> rest_body option \<Rightarrow> PrivateRequestExpiry \<Rightarrow>
      (http_response \<times> RateLimitBucket) rest" where
  "send_private_request E method path query body expiry =
     qbind (reserve_private_request E method path query body) (\<lambda>b.
     send_private_request_after_reservation E method path query body expiry b)"

definition private_request_with_expiry ::
    "rest_env \<Rightarrow> (string \<Rightarrow> 'a option) \<Rightarrow> string \<Rightarrow> string \<Rightarrow> string option \<Rightarrow> rest_body option \<Rightarrow>
      PrivateRequestExpiry \<Rightarrow> 'a rest" where
  "private_request_with_expiry E parse method path query body expiry =
     qbind (send_private_request E method path query body expiry) (\<lambda>(r, b). parse_response E parse b r)"

definition private_request ::
    "rest_env \<Rightarrow> (string \<Rightarrow> 'a option) \<Rightarrow> string \<Rightarrow> string \<Rightarrow> string option \<Rightarrow> rest_body option \<Rightarrow> 'a rest" where
  "private_request E parse method path query body =
     private_request_with_expiry E parse method path query body NoRequestExpiry"

definition private_account_sizing_request ::
    "rest_env \<Rightarrow> (string \<Rightarrow> 'a option) \<Rightarrow> string \<Rightarrow> string \<Rightarrow> string option \<Rightarrow> rest_body option \<Rightarrow> 'a rest" where
  "private_account_sizing_request E parse method path query body =
     qbind (send_private_request E method path query body NoRequestExpiry) (\<lambda>(r, b).
     parse_account_sizing_response E parse b r)"

definition private_order_mutation_request ::
    "rest_env \<Rightarrow> string \<Rightarrow> string \<Rightarrow> string option \<Rightarrow> rest_body option \<Rightarrow> PrivateRequestExpiry \<Rightarrow> OkxOrderAck list rest" where
  "private_order_mutation_request E method path query body expiry =
     qbind (send_private_request E method path query body expiry) (\<lambda>(r, b). parse_order_mutation_response E b r)"

definition private_order_mutation_request_after_reservation ::
    "rest_env \<Rightarrow> string \<Rightarrow> string \<Rightarrow> string option \<Rightarrow> rest_body option \<Rightarrow> PrivateRequestExpiry \<Rightarrow> RateLimitBucket \<Rightarrow>
      OkxOrderAck list rest" where
  "private_order_mutation_request_after_reservation E method path query body expiry b =
     qbind (send_private_request_after_reservation E method path query body expiry b) (\<lambda>(r, b).
     parse_order_mutation_response E b r)"

definition private_algo_mutation_request ::
    "rest_env \<Rightarrow> string \<Rightarrow> string \<Rightarrow> string option \<Rightarrow> rest_body option \<Rightarrow> PrivateRequestExpiry \<Rightarrow>
      OkxAlgoOrderAck list rest" where
  "private_algo_mutation_request E method path query body expiry =
     qbind (send_private_request E method path query body expiry) (\<lambda>(r, b). parse_algo_mutation_response E b r)"

definition private_regular_order_request :: "rest_env \<Rightarrow> string \<Rightarrow> rest_body \<Rightarrow> OkxOrderAck list rest" where
  "private_regular_order_request E path body =
     private_order_mutation_request E ''POST'' path None (Some body) TradeCommand"

definition private_regular_order_request_after_reservation ::
    "rest_env \<Rightarrow> string \<Rightarrow> rest_body \<Rightarrow> RateLimitBucket \<Rightarrow> OkxOrderAck list rest" where
  "private_regular_order_request_after_reservation E path body b =
     private_order_mutation_request_after_reservation E ''POST'' path None (Some body) TradeCommand b"

section \<open>Timing for the WebSocket\<close>

definition prepare_websocket_order_command_timing :: "rest_env \<Rightarrow> unit rest" where
  "prepare_websocket_order_command_timing E = qbind (private_request_timing E) (\<lambda>_. qret ())"

definition websocket_login_timestamp :: "rest_env \<Rightarrow> string rest" where
  "websocket_login_timestamp E =
     qbind (qcontext ''failed syncing OKX server time for WebSocket login'' (private_request_timing E)) (\<lambda>timing.
     qplain (websocket_login_timestamp_from_unix_millis (pt_unix_millis timing)))"

definition economics_preflight_server_time :: "rest_env \<Rightarrow> unit rest" where
  "economics_preflight_server_time E = refresh_server_time E"

section \<open>What a request may change\<close>

text \<open>
  \<open>networking P R\<close>: the relation allows what making requests changes, with requests satisfying \<open>P\<close> logged.
\<close>

definition networking :: "(http_request \<Rightarrow> bool) \<Rightarrow> (OkxRestClient \<Rightarrow> OkxRestClient \<Rightarrow> bool) \<Rightarrow> bool" where
  "networking P R =
     (bookkeeping R \<and> (\<forall>c k. R c (c\<lparr> ri_server_time_clock := k \<rparr>)) \<and>
      (\<forall>c q. P q \<longrightarrow> R c (c\<lparr> ri_log := q # ri_log c \<rparr>)))"

definition asks :: "rest_body option \<Rightarrow> http_request \<Rightarrow> bool" where
  "asks body q = (hq_asked q = body \<or> hq_asked q = None)"

lemma networking_bookkeeping [keep_rules]: "networking P R \<Longrightarrow> bookkeeping R"
  by (simp add: networking_def)

lemma networking_preorder: "networking P R \<Longrightarrow> preorder_rel R"
  by (simp add: networking_def bookkeeping_def)

lemma keeps_send:
  assumes "networking P R" and "P q"
  shows "rest_keeps R (qsend E s q)"
  using assms by (simp add: rest_keeps_def networking_def qsend_def Let_def)

lemma keeps_server_clock:
  assumes R: "networking P R"
  shows "rest_keeps R (server_unix_millis E)" "rest_keeps R (server_time_cache_needs_refresh E)"
    "rest_keeps R (record_server_time E a b)"
proof -
  have clock: "rest_keeps R (\<lambda>c. case f c of (r, k) \<Rightarrow> (g r, c\<lparr> ri_server_time_clock := k \<rparr>))" for f g
    using R by (auto simp: rest_keeps_def networking_def split: prod.split)
  note pre = networking_preorder [OF R] and book = networking_bookkeeping [OF R]
  show "rest_keeps R (server_unix_millis E)" "rest_keeps R (server_time_cache_needs_refresh E)"
    "rest_keeps R (record_server_time E a b)"
    unfolding server_unix_millis_def server_time_cache_needs_refresh_def record_server_time_def
    by (intro rest_keeps_bind [OF pre] keeps_clock [OF book] clock)+
qed

lemma keeps_synchronized: "networking P R \<Longrightarrow> rest_keeps R (synchronized_server_time E s)"
  unfolding synchronized_server_time_def
  by (intro rest_keeps_bind keeps_server_clock keeps_pure networking_preorder)

lemma keeps_public_get:
  assumes R: "networking P R" and "\<And>q. hq_asked q = None \<Longrightarrow> P q"
  shows "rest_keeps R (public_get E f path query)"
  unfolding public_get_def rest_url_def
  by (intro rest_keeps_bind [OF networking_preorder [OF R]] keeps_pure [OF networking_preorder [OF R]] keeps_send [OF R] assms(2)
      keeps_wait [OF networking_bookkeeping [OF R]] keeps_parsers [OF networking_bookkeeping [OF R]]) simp

lemma keeps_refresh_server_time:
  assumes R: "networking P R" and P: "\<And>q. hq_asked q = None \<Longrightarrow> P q"
  shows "rest_keeps R (refresh_server_time E)" "rest_keeps R (refresh_server_time_if_expiring E)"
    "rest_keeps R (private_request_timing E)"
proof -
  note rules = rest_keeps_bind [OF networking_preorder [OF R]] keeps_pure [OF networking_preorder [OF R]]
    keeps_clock [OF networking_bookkeeping [OF R]] keeps_server_clock [OF R] keeps_context rest_keeps_if
    keeps_public_get [OF R P] keeps_synchronized [OF R] rest_keeps_option
  show refresh: "rest_keeps R (refresh_server_time E)"
    unfolding refresh_server_time_def by (intro rules) simp
  show "rest_keeps R (refresh_server_time_if_expiring E)"
    unfolding refresh_server_time_if_expiring_def by (intro rules refresh)
  show "rest_keeps R (private_request_timing E)"
    unfolding private_request_timing_def by (intro rules refresh)
qed

lemma keeps_reserve: "networking P R \<Longrightarrow> rest_keeps R (reserve_private_request E method path query body)"
  unfolding reserve_private_request_def
  by (intro rest_keeps_bind keeps_pure keeps_wait networking_preorder networking_bookkeeping)

lemma keeps_send_private:
  assumes R: "networking P R" and P: "\<And>q. asks body q \<Longrightarrow> P q"
  shows "rest_keeps R (send_private_request_after_reservation E method path query body expiry b)"
    "rest_keeps R (send_private_request E method path query body expiry)"
proof -
  have none: "P q" if "hq_asked q = None" for q using that P by (simp add: asks_def)
  note rules = rest_keeps_bind [OF networking_preorder [OF R]] keeps_pure [OF networking_preorder [OF R]]
    keeps_refresh_server_time [OF R none] keeps_send [OF R P] keeps_reserve [OF R]
  show after: "rest_keeps R (send_private_request_after_reservation E method path query body expiry b)" for b
    unfolding send_private_request_after_reservation_def rest_url_def
    by (intro rules) (simp_all add: asks_def)
  show "rest_keeps R (send_private_request E method path query body expiry)"
    unfolding send_private_request_def by (intro rules after)
qed

lemma keeps_private_requests:
  assumes R: "networking P R" and P: "\<And>q. asks body q \<Longrightarrow> P q"
  shows "rest_keeps R (private_request E f method path query body)"
    "rest_keeps R (private_account_sizing_request E g method path query body)"
    "rest_keeps R (private_order_mutation_request E method path query body expiry)"
    "rest_keeps R (private_order_mutation_request_after_reservation E method path query body expiry b)"
    "rest_keeps R (private_algo_mutation_request E method path query body expiry)"
  unfolding private_request_def private_request_with_expiry_def private_account_sizing_request_def
    private_order_mutation_request_def private_order_mutation_request_after_reservation_def
    private_algo_mutation_request_def
  by (intro rest_keeps_bind [OF networking_preorder [OF R]] keeps_send_private [OF R P] rest_keeps_prod
      keeps_parsers [OF networking_bookkeeping [OF R]]; assumption)+

end
