(* ===== verification/Rest_Rows.thy ===== *)
theory Rest_Rows
  imports Rest_Client
begin

text \<open>
  The checks of \<open>okx/client.rs\<close> on what the exchange returns: rows of the requested instrument, acknowledgements,
  confirmed amendments, and the agreement of an instrument hint with the REST snapshot.
\<close>

definition OKX_REST_SPOT_INST_TYPE :: string where "OKX_REST_SPOT_INST_TYPE = ''SPOT''"

section \<open>Fields\<close>

definition rest_ensure_trimmed_non_empty :: "string \<Rightarrow> string \<Rightarrow> unit res" where
  "rest_ensure_trimmed_non_empty label v =
     rbind (require (\<not> blank v) label ''must not be empty'') (\<lambda>_.
     require (v = trim v) label ''must be trimmed'')"

definition parse_positive_decimal_field :: "decimal_ops \<Rightarrow> string \<Rightarrow> string \<Rightarrow> decimal res" where
  "parse_positive_decimal_field D label v =
     rbind (rest_ensure_trimmed_non_empty label v) (\<lambda>_.
     rbind (ok_or (Fail (Bad label ''must be a decimal value'')) (d_parse D v)) (\<lambda>x.
     rbind (require (x > 0) label ''must be positive'') (\<lambda>_. Inr x)))"

definition rest_ensure_spot_inst_type :: "string \<Rightarrow> string \<Rightarrow> string \<Rightarrow> unit res" where
  "rest_ensure_spot_inst_type inst_type inst_id context =
     require (inst_type = OKX_REST_SPOT_INST_TYPE) context (''returned another instType for '' @ inst_id)"

section \<open>Rows\<close>

definition ensure_order_matches_instrument :: "OkxOrder \<Rightarrow> string \<Rightarrow> string \<Rightarrow> unit res" where
  "ensure_order_matches_instrument order inst_id context =
     rbind (require (or_inst_id order = inst_id) context ''returned an order of another instrument'') (\<lambda>_.
     rbind (rest_ensure_spot_inst_type (or_inst_type order) (or_inst_id order) context) (\<lambda>_.
     order_ensure_documented_state order context))"

fun ensure_orders_match_instrument :: "OkxOrder list \<Rightarrow> string \<Rightarrow> string \<Rightarrow> unit res" where
  "ensure_orders_match_instrument [] inst_id context = Inr ()"
| "ensure_orders_match_instrument (order # orders) inst_id context =
     rbind (ensure_order_matches_instrument order inst_id context) (\<lambda>_.
     ensure_orders_match_instrument orders inst_id context)"

definition ensure_algo_order_matches_instrument :: "OkxAlgoOrder \<Rightarrow> string \<Rightarrow> string \<Rightarrow> unit res" where
  "ensure_algo_order_matches_instrument order inst_id context =
     rbind (require (ao_inst_id order = inst_id) context ''returned an algo of another instrument'') (\<lambda>_.
     rbind (rest_ensure_spot_inst_type (ao_inst_type order) (ao_inst_id order) context) (\<lambda>_.
     algo_ensure_documented_state order context))"

fun ensure_algo_orders_match_instrument :: "OkxAlgoOrder list \<Rightarrow> string \<Rightarrow> string \<Rightarrow> unit res" where
  "ensure_algo_orders_match_instrument [] inst_id context = Inr ()"
| "ensure_algo_orders_match_instrument (order # orders) inst_id context =
     rbind (ensure_algo_order_matches_instrument order inst_id context) (\<lambda>_.
     ensure_algo_orders_match_instrument orders inst_id context)"

fun ensure_fills_match_instrument :: "OkxFill list \<Rightarrow> string \<Rightarrow> string \<Rightarrow> unit res" where
  "ensure_fills_match_instrument [] inst_id context = Inr ()"
| "ensure_fills_match_instrument (fill # fills) inst_id context =
     rbind (require (fi_inst_id fill = inst_id) context ''returned a fill of another instrument'') (\<lambda>_.
     rbind (rest_ensure_spot_inst_type (fi_inst_type fill) (fi_inst_id fill) context) (\<lambda>_.
     ensure_fills_match_instrument fills inst_id context))"

section \<open>Instrument hints\<close>

definition parse_required_instrument_hint_decimal :: "decimal_ops \<Rightarrow> string \<Rightarrow> string \<Rightarrow> decimal res" where
  "parse_required_instrument_hint_decimal D context v = parse_positive_decimal_field D context v"

definition parse_optional_instrument_hint_decimal :: "decimal_ops \<Rightarrow> string \<Rightarrow> string \<Rightarrow> decimal option res" where
  "parse_optional_instrument_hint_decimal D context v =
     (let v = trim v in
      if v = [] then Inr None else rbind (parse_positive_decimal_field D context v) (\<lambda>x. Inr (Some x)))"

definition ensure_required_instrument_hint_decimal_matches ::
    "string \<Rightarrow> string \<Rightarrow> decimal \<Rightarrow> decimal \<Rightarrow> unit res" where
  "ensure_required_instrument_hint_decimal_matches inst_id field rest_snapshot websocket_hint =
     require (rest_snapshot = websocket_hint) inst_id (''hint changed '' @ field)"

definition ensure_optional_instrument_hint_decimal_matches ::
    "string \<Rightarrow> string \<Rightarrow> decimal option \<Rightarrow> decimal option \<Rightarrow> unit res" where
  "ensure_optional_instrument_hint_decimal_matches inst_id field rest_snapshot websocket_hint =
     (case websocket_hint of
        None \<Rightarrow> Inr ()
      | Some h \<Rightarrow> require (rest_snapshot = Some h) inst_id (''hint changed '' @ field))"

text \<open>One required and one optional field, in the order the arguments are evaluated.\<close>

definition required_hint_field :: "decimal_ops \<Rightarrow> string \<Rightarrow> string \<Rightarrow> decimal res \<Rightarrow> string \<Rightarrow> unit res" where
  "required_hint_field D inst_id field rest_snapshot hint =
     rbind rest_snapshot (\<lambda>r. rbind (parse_required_instrument_hint_decimal D field hint) (\<lambda>h.
     ensure_required_instrument_hint_decimal_matches inst_id field r h))"

definition optional_hint_field :: "decimal_ops \<Rightarrow> string \<Rightarrow> string \<Rightarrow> decimal option res \<Rightarrow> string \<Rightarrow> unit res" where
  "optional_hint_field D inst_id field rest_snapshot hint =
     rbind rest_snapshot (\<lambda>r. rbind (parse_optional_instrument_hint_decimal D field hint) (\<lambda>h.
     ensure_optional_instrument_hint_decimal_matches inst_id field r h))"

definition ensure_instrument_hint_matches_rest_snapshot ::
    "decimal_ops \<Rightarrow> OkxWebsocketInstrumentUpdate \<Rightarrow> OkxInstrument \<Rightarrow> unit res" where
  "ensure_instrument_hint_matches_rest_snapshot D hint i =
     rbind (require (iu_inst_id hint = oi_inst_id i) ''OKX WebSocket instrument hint'' ''returned another instrument'') (\<lambda>_.
     rbind (rest_ensure_spot_inst_type (iu_inst_type hint) (iu_inst_id hint) ''WebSocket instrument hint'') (\<lambda>_.
     rbind (fee_group_id i) (\<lambda>group.
     rbind (require (iu_group_id hint = group) (oi_inst_id i) ''groupId disagrees with REST snapshot'') (\<lambda>_.
     rbind (required_hint_field D (oi_inst_id i) ''tickSz'' (tick_size D i) (iu_tick_size hint)) (\<lambda>_.
     rbind (required_hint_field D (oi_inst_id i) ''lotSz'' (lot_size D i) (iu_lot_size hint)) (\<lambda>_.
     rbind (required_hint_field D (oi_inst_id i) ''minSz'' (min_size D i) (iu_min_size hint)) (\<lambda>_.
     rbind (optional_hint_field D (oi_inst_id i) ''maxLmtSz'' (max_limit_size D i) (iu_max_limit_size hint)) (\<lambda>_.
     rbind (optional_hint_field D (oi_inst_id i) ''maxLmtAmt'' (max_limit_amount D i) (iu_max_limit_amount hint)) (\<lambda>_.
     rbind (optional_hint_field D (oi_inst_id i) ''maxMktSz'' (max_market_size_usdt D i) (iu_max_market_size hint)) (\<lambda>_.
     rbind (optional_hint_field D (oi_inst_id i) ''maxMktAmt'' (max_market_amount D i) (iu_max_market_amount hint)) (\<lambda>_.
     optional_hint_field D (oi_inst_id i) ''maxTriggerSz'' (max_trigger_size D i) (iu_max_trigger_size hint))))))))))))"

section \<open>Amendments and submissions\<close>

record OkxOrderAmend =
  am_inst_id :: string
  am_side :: OrderSide
  am_client_order_id :: string
  am_new_size :: "string option"
  am_new_price :: "string option"

record OkxOrderSubmitReconciliation =
  sr_inst_id :: string
  sr_side :: OrderSide
  sr_kind :: OrderKind
  sr_size :: string
  sr_price :: "string option"
  sr_client_order_id :: string

definition optional_positive_field :: "decimal_ops \<Rightarrow> string \<Rightarrow> string option \<Rightarrow> unit res" where
  "optional_positive_field D label v =
     (case v of None \<Rightarrow> Inr () | Some s \<Rightarrow> rbind (parse_positive_decimal_field D label s) (\<lambda>_. Inr ()))"

definition validate_order_amend :: "decimal_ops \<Rightarrow> OkxOrderAmend \<Rightarrow> unit res" where
  "validate_order_amend D a =
     rbind (rest_ensure_trimmed_non_empty ''OKX amend instId'' (am_inst_id a)) (\<lambda>_.
     rbind (rest_ensure_trimmed_non_empty ''OKX amend clOrdId'' (am_client_order_id a)) (\<lambda>_.
     rbind (require (am_new_size a \<noteq> None \<or> am_new_price a \<noteq> None) ''OKX amend order''
              ''requires new_size or new_price'') (\<lambda>_.
     rbind (optional_positive_field D ''OKX amend newSz'' (am_new_size a)) (\<lambda>_.
     optional_positive_field D ''OKX amend newPx'' (am_new_price a)))))"

definition verify_reconciled_order_amend :: "decimal_ops \<Rightarrow> OkxOrder \<Rightarrow> OkxOrderAmend \<Rightarrow> unit res" where
  "verify_reconciled_order_amend D order a =
     (let context = ''amend reconciliation'' in
     rbind (ensure_order_matches_instrument order (am_inst_id a) context) (\<lambda>_.
     rbind (require (order_parsed_side order = Some (am_side a)) context ''returned another side'') (\<lambda>_.
     rbind (require (or_client_order_id order = am_client_order_id a) context ''returned another clOrdId'') (\<lambda>_.
     rbind (case am_new_size a of
              None \<Rightarrow> Inr ()
            | Some new_size \<Rightarrow>
                rbind (order_requested_size D order) (\<lambda>actual.
                rbind (parse_positive_decimal_field D ''OKX amend expected newSz'' new_size) (\<lambda>expected.
                require (actual = expected) context ''returned another sz''))) (\<lambda>_.
     (case am_new_price a of
        None \<Rightarrow> Inr ()
      | Some new_price \<Rightarrow>
          rbind (parse_positive_decimal_field D ''OKX amend reconciled px'' (or_price order)) (\<lambda>actual.
          rbind (parse_positive_decimal_field D ''OKX amend expected newPx'' new_price) (\<lambda>expected.
          require (actual = expected) context ''returned another px''))))))))"

section \<open>Acknowledgements\<close>

definition single_order_ack :: "OkxOrderAck list \<Rightarrow> string \<Rightarrow> string \<Rightarrow> OkxOrderAck res" where
  "single_order_ack acks cl_ord_id context =
     rbind (require (length acks = 1) context ''returned a wrong number of acknowledgements'') (\<lambda>_.
     let ack = hd acks in
     rbind (if blank (ak_client_order_id ack) \<and> ak_status_code ack \<noteq> ''0''
            then Inr (ack\<lparr> ak_client_order_id := cl_ord_id \<rparr>)
            else rbind (require (ak_client_order_id ack = cl_ord_id) context ''returned another clOrdId'')
                   (\<lambda>_. Inr ack)) (\<lambda>ack.
     rbind (if ak_status_code ack = ''0'' then require (\<not> blank (ak_order_id ack)) context ''omitted ordId''
            else Inr ()) (\<lambda>_.
     Inr ack)))"

datatype AlgoAckIdentity = AckClientOrderId string | AckAlgoId string

definition single_algo_ack :: "OkxAlgoOrderAck list \<Rightarrow> AlgoAckIdentity \<Rightarrow> string \<Rightarrow> OkxAlgoOrderAck res" where
  "single_algo_ack acks identity context =
     rbind (require (length acks = 1) context ''returned a wrong number of acknowledgements'') (\<lambda>_.
     let ack = hd acks in
     rbind (case identity of
              AckClientOrderId i \<Rightarrow>
                require (blank (aa_client_order_id ack) \<or> aa_client_order_id ack = i) context ''returned another algoClOrdId''
            | AckAlgoId i \<Rightarrow>
                require (blank (aa_algo_id ack) \<or> aa_algo_id ack = i) context ''returned another algoId'') (\<lambda>_.
     rbind (if aa_status_code ack = ''0'' then
              rbind (require (\<not> blank (aa_algo_id ack)) context ''omitted algoId'') (\<lambda>_.
              case identity of
                AckClientOrderId i \<Rightarrow> require (aa_client_order_id ack = i) context ''returned another algoClOrdId''
              | AckAlgoId i \<Rightarrow> require (aa_algo_id ack = i) context ''returned another algoId'')
            else Inr ()) (\<lambda>_.
     Inr ack)))"

definition reconciled_order_ack :: "OkxOrder \<Rightarrow> OkxOrderAck" where
  "reconciled_order_ack order =
     \<lparr> ak_order_id = or_order_id order, ak_client_order_id = or_client_order_id order, ak_status_code = ''0'',
       ak_status_message = [], ak_status_sub_code = [], ak_timestamp = or_updated_at_ms order \<rparr>"

definition reconciled_algo_ack :: "OkxAlgoOrder \<Rightarrow> OkxAlgoOrderAck" where
  "reconciled_algo_ack order =
     \<lparr> aa_algo_id = ao_algo_id order, aa_client_order_id = ao_client_order_id order, aa_status_code = ''0'',
       aa_status_message = [] \<rparr>"

definition spot_market_target_currency :: "OrderSide \<Rightarrow> OrderKind \<Rightarrow> string option" where
  "spot_market_target_currency side kind =
     (case kind of
        Market \<Rightarrow> (case side of Buy \<Rightarrow> Some ''quote_ccy'' | Sell \<Rightarrow> Some ''base_ccy'')
      | Limit \<Rightarrow> None
      | PostOnly \<Rightarrow> None)"

section \<open>Lemmas\<close>

lemma parse_positive_decimal_field_Inr:
  "parse_positive_decimal_field D label v = Inr x \<longleftrightarrow> \<not> blank v \<and> v = trim v \<and> d_parse D v = Some x \<and> 0 < x"
  by (auto simp: parse_positive_decimal_field_def rest_ensure_trimmed_non_empty_def res_simps)

lemma ensure_orders_match_instrument_Inr:
  "ensure_orders_match_instrument orders inst_id context = Inr () \<Longrightarrow>
    \<forall>o1\<in>set orders. ensure_order_matches_instrument o1 inst_id context = Inr ()"
  by (induction orders) (auto simp: rbind_eq_Inr)

lemma single_order_ack_Inr:
  assumes "single_order_ack acks i context = Inr a"
  shows "ak_client_order_id a = i \<and> length acks = 1 \<and> ak_status_code a = ak_status_code (hd acks) \<and>
    ak_order_id a = ak_order_id (hd acks) \<and>
    (ak_status_code a = ''0'' \<longrightarrow> a = hd acks \<and> \<not> blank (ak_order_id a))"
  using assms by (auto simp: single_order_ack_def Let_def rbind_eq_Inr split: if_splits)

end
