(* ===== verification/Rest_Instruments.thy ===== *)
theory Rest_Instruments
  imports Rest_Rows
begin

text \<open>
  The market-data side of the REST client of \<open>okx/client.rs\<close>: instruments and their safety latch, candles, tickers,
  USD conversion and price limits.

  A latch is set when the metadata of an instrument contradicts what was validated; from then on every
  operation that checks it refuses, until the process restarts.  The reason kept is the first one.
\<close>

definition OKX_STALE_MARKET_EVIDENCE_MAX_ATTEMPTS :: nat where "OKX_STALE_MARKET_EVIDENCE_MAX_ATTEMPTS = 3"
definition OKX_STALE_MARKET_EVIDENCE_RETRY_DELAY :: nat where "OKX_STALE_MARKET_EVIDENCE_RETRY_DELAY = 250000000"
definition OKX_STARTUP_TICKER_MAX_AGE :: nat where "OKX_STARTUP_TICKER_MAX_AGE = 5000000000"
definition OKX_INDEX_TICKER_MAX_AGE :: nat where "OKX_INDEX_TICKER_MAX_AGE = 5000000000"
definition OKX_LIVE_CANDLE_REST_FALLBACK_CACHE_MAX_KEYS :: nat where "OKX_LIVE_CANDLE_REST_FALLBACK_CACHE_MAX_KEYS = 64"

definition rest_query :: "rest_env \<Rightarrow> (string \<times> string) list \<Rightarrow> string option" where
  "rest_query E pairs = Some (okx_query (re_urlencode E) pairs)"

section \<open>The safety latch\<close>

definition latched_error :: "string \<Rightarrow> rest_error" where
  "latched_error inst_id = Plain (Bad ''OKX instrument metadata safety latch is set'' inst_id)"

definition ensure_instrument_metadata_safety_latch_clear :: "string \<Rightarrow> unit rest" where
  "ensure_instrument_metadata_safety_latch_clear inst_id =
     (\<lambda>c. (if ri_safety_latches c inst_id \<noteq> None then Inl (Fail (latched_error inst_id)) else Inr (), c))"

definition latch_instrument_metadata_failure :: "string \<Rightarrow> rest_error \<Rightarrow> 'a rest" where
  "latch_instrument_metadata_failure inst_id e =
     (\<lambda>c. (Inl (Fail (latched_error inst_id)),
           case ri_safety_latches c inst_id of
             Some _ \<Rightarrow> c
           | None \<Rightarrow> c\<lparr> ri_safety_latches := (ri_safety_latches c)(inst_id \<mapsto> e) \<rparr>))"

definition latch_on_error :: "string \<Rightarrow> 'a res \<Rightarrow> unit rest" where
  "latch_on_error inst_id check =
     qtry (qplain check) (\<lambda>r. case r of Inl e \<Rightarrow> latch_instrument_metadata_failure inst_id e | Inr _ \<Rightarrow> qret ())"

definition remember_instrument_snapshot :: "OkxInstrument \<Rightarrow> unit rest" where
  "remember_instrument_snapshot i =
     qupd (\<lambda>c. c\<lparr> ri_instrument_snapshots := (ri_instrument_snapshots c)(oi_inst_id i \<mapsto> i) \<rparr>)"

definition instrument_snapshot :: "string \<Rightarrow> OkxInstrument option rest" where
  "instrument_snapshot inst_id = qget (\<lambda>c. ri_instrument_snapshots c inst_id)"

definition cached_fresh_instrument :: "rest_env \<Rightarrow> string \<Rightarrow> OkxWebsocketInstrumentUpdate option rest" where
  "cached_fresh_instrument E inst_id =
     qbind (qnow E) (\<lambda>now. qbind (qmarket E) (\<lambda>s.
     qget (\<lambda>c. fresh_instrument now inst_id (ri_market_data_max_staleness c) s)))"

definition ensure_fresh_instrument_hint_matches_snapshot :: "rest_env \<Rightarrow> string \<Rightarrow> unit rest" where
  "ensure_fresh_instrument_hint_matches_snapshot E inst_id =
     qbind (ensure_instrument_metadata_safety_latch_clear inst_id) (\<lambda>_.
     qbind (cached_fresh_instrument E inst_id) (\<lambda>h.
     case h of
       None \<Rightarrow> qret ()
     | Some hint \<Rightarrow>
         qbind (latch_on_error inst_id (instrument_update_ensure_live hint)) (\<lambda>_.
         qbind (instrument_snapshot (iu_inst_id hint)) (\<lambda>s.
         case s of
           None \<Rightarrow> qret ()
         | Some snapshot \<Rightarrow>
             latch_on_error inst_id (ensure_instrument_hint_matches_rest_snapshot (re_decimal E) hint snapshot)))))"

definition ensure_fresh_instrument_hint_matches_rest_snapshot :: "rest_env \<Rightarrow> OkxInstrument \<Rightarrow> unit rest" where
  "ensure_fresh_instrument_hint_matches_rest_snapshot E snapshot =
     qbind (ensure_instrument_metadata_safety_latch_clear (oi_inst_id snapshot)) (\<lambda>_.
     qbind (cached_fresh_instrument E (oi_inst_id snapshot)) (\<lambda>h.
     case h of
       None \<Rightarrow> qret ()
     | Some hint \<Rightarrow>
         qbind (latch_on_error (oi_inst_id snapshot) (instrument_update_ensure_live hint)) (\<lambda>_.
         latch_on_error (oi_inst_id snapshot)
           (ensure_instrument_hint_matches_rest_snapshot (re_decimal E) hint snapshot))))"

section \<open>Validated instruments\<close>

definition validated_trading_instrument_if_present :: "string \<Rightarrow> ValidatedTradingInstrument option rest" where
  "validated_trading_instrument_if_present inst_id = qget (\<lambda>c. map_option vg_instrument (ri_generations c inst_id))"

definition validated_trading_instrument :: "string \<Rightarrow> ValidatedTradingInstrument rest" where
  "validated_trading_instrument inst_id =
     qbind (validated_trading_instrument_if_present inst_id) (\<lambda>v.
     qplain (ok_or (Fail (Bad ''OKX trading tuple'' ''was not validated before the requested operation'')) v))"

text \<open>The route of an order: trade mode and trade quote currency, in the build without tests.\<close>

definition validated_order_route :: "string \<Rightarrow> (string \<times> string) rest" where
  "validated_order_route inst_id =
     qtry (validated_trading_instrument inst_id) (\<lambda>r.
     case r of
       Inr v \<Rightarrow> qret (''cash'', vi_trade_quote_ccy v)
     | Inl _ \<Rightarrow> qlift (rest_bad ''OKX trading tuple'' ''was not validated before order mutation''))"

definition validated_instrument_type :: "string \<Rightarrow> string rest" where
  "validated_instrument_type inst_id =
     qtry (validated_trading_instrument inst_id) (\<lambda>r.
     case r of
       Inr _ \<Rightarrow> qret ''SPOT''
     | Inl _ \<Rightarrow> qlift (rest_bad ''OKX trading tuple'' ''was not validated before instrument-scoped access''))"

section \<open>Instruments\<close>

definition check_instrument_row :: "decimal_ops \<Rightarrow> string \<Rightarrow> string \<Rightarrow> OkxInstrument \<Rightarrow> unit res" where
  "check_instrument_row D requested_inst_type inst_id i =
     rbind (require (oi_inst_id i = inst_id) inst_id ''returned another instrument spec'') (\<lambda>_.
     rbind (require (oi_inst_type i = requested_inst_type) inst_id ''returned another instType'') (\<lambda>_.
     rbind (require (oi_base_ccy i @ ''-'' @ oi_quote_ccy i = inst_id) inst_id
              ''returned currencies that do not compose the requested identity'') (\<lambda>_.
     rbind (ensure_trade_quote_currency i (oi_quote_ccy i)) (\<lambda>_.
     rbind (fee_group_id i) (\<lambda>_. rbind (tick_size D i) (\<lambda>_. rbind (lot_size D i) (\<lambda>_. rbind (min_size D i) (\<lambda>_.
     rbind (ensure_live i) (\<lambda>_.
     validate_order_limits D i)))))))))"

definition accept_instrument ::
    "rest_env \<Rightarrow> string \<Rightarrow> string \<Rightarrow> ValidatedTradingInstrument option \<Rightarrow> OkxInstrument list \<Rightarrow> OkxInstrument rest" where
  "accept_instrument E requested_inst_type inst_id validated rows =
     qbind (qplain (require (length rows = 1) inst_id ''returned a wrong number of instrument specs'')) (\<lambda>_.
     qbind (qplain (check_instrument_row (re_decimal E) requested_inst_type inst_id (hd rows))) (\<lambda>_.
     qbind (ensure_fresh_instrument_hint_matches_rest_snapshot E (hd rows)) (\<lambda>_.
     qbind (case validated of
              None \<Rightarrow> qret ()
            | Some v \<Rightarrow> qplain (ensure_public_refresh_matches (re_decimal E) v (hd rows))) (\<lambda>_.
     qbind (remember_instrument_snapshot (hd rows)) (\<lambda>_.
     qret (hd rows))))))"

definition instrument_for_type :: "rest_env \<Rightarrow> string \<Rightarrow> string \<Rightarrow> OkxInstrument rest" where
  "instrument_for_type E requested_inst_type inst_id =
     qbind (ensure_instrument_metadata_safety_latch_clear inst_id) (\<lambda>_.
     qbind (validated_trading_instrument_if_present inst_id) (\<lambda>validated.
     qbind (public_get E (rj_instruments (re_json E)) ''/api/v5/public/instruments''
              (rest_query E [(''instType'', requested_inst_type), (''instId'', inst_id)])) (\<lambda>rows.
     qtry (accept_instrument E requested_inst_type inst_id validated rows) (\<lambda>r.
     case r of
       Inr i \<Rightarrow> qret i
     | Inl e \<Rightarrow> if validated \<noteq> None then latch_instrument_metadata_failure inst_id e else qfail e))))"

definition rest_instruments :: "rest_env \<Rightarrow> string \<Rightarrow> OkxInstrument rest" where
  "rest_instruments E inst_id = instrument_for_type E OKX_REST_SPOT_INST_TYPE inst_id"

definition requested_public_instrument :: "rest_env \<Rightarrow> RequestedTradingInstrument \<Rightarrow> OkxInstrument rest" where
  "requested_public_instrument E requested =
     instrument_for_type E (inst_type_as_okx (rq_inst_type requested)) (rq_instrument requested)"

section \<open>Candles\<close>

definition parse_candles :: "rest_env \<Rightarrow> string \<Rightarrow> MarketBar list option" where
  "parse_candles E data =
     Option.bind (rj_candle_rows (re_json E) data) (\<lambda>rows.
     case try_map market_bar_deserialize rows of Inl _ \<Rightarrow> None | Inr bars \<Rightarrow> Some bars)"

fun validate_candles :: "MarketBar list \<Rightarrow> unit res" where
  "validate_candles [] = Inr ()"
| "validate_candles (b # bs) = rbind (market_bar_validate b ''OKX REST candle'') (\<lambda>_. validate_candles bs)"

definition rest_candles :: "rest_env \<Rightarrow> string \<Rightarrow> string \<Rightarrow> nat \<Rightarrow> MarketBar list rest" where
  "rest_candles E inst_id bar limit =
     qbind (public_get E (parse_candles E)
              (if bar = ''1s'' then ''/api/v5/market/history-candles'' else ''/api/v5/market/candles'')
              (rest_query E [(''instId'', inst_id), (''bar'', bar), (''limit'', show_nat limit)])) (\<lambda>candles.
     qbind (qplain (validate_candles candles)) (\<lambda>_.
     qret (sort_key mb_ts_ms candles)))"

text \<open>Later bars of the same time replace earlier ones; the latest \<open>limit\<close> are returned in the order of time.\<close>

definition merge_live_candle_hints :: "MarketBar list \<Rightarrow> MarketBar list \<Rightarrow> nat \<Rightarrow> MarketBar list" where
  "merge_live_candle_hints rest_bars hints limit =
     (let by_ts = fold (\<lambda>b m. snd (bt_insert (mb_ts_ms b) b m)) (rest_bars @ hints) [] in
      map snd (drop (length by_ts - limit) by_ts))"

definition cached_fresh_candles :: "rest_env \<Rightarrow> string \<Rightarrow> string \<Rightarrow> MarketBar list rest" where
  "cached_fresh_candles E inst_id channel =
     qbind (qnow E) (\<lambda>now. qbind (qmarket E) (\<lambda>s.
     qget (\<lambda>c. fresh_candles now inst_id channel (ri_market_data_max_staleness c) s)))"

definition fresh_live_candles_from_cache :: "rest_env \<Rightarrow> string \<Rightarrow> string \<Rightarrow> nat \<Rightarrow> MarketBar list option rest" where
  "fresh_live_candles_from_cache E inst_id channel limit =
     qbind (cached_fresh_candles E inst_id channel) (\<lambda>hints.
     qret (if length hints \<ge> limit then Some (merge_live_candle_hints [] hints limit) else None))"

definition live_candle_fallback_key :: "string \<Rightarrow> string \<Rightarrow> nat \<Rightarrow> LiveCandleFallbackKey" where
  "live_candle_fallback_key inst_id bar limit = \<lparr> lk_inst_id = inst_id, lk_bar = bar, lk_limit = limit \<rparr>"

definition recent_live_candle_rest_fallback ::
    "rest_env \<Rightarrow> string \<Rightarrow> string \<Rightarrow> nat \<Rightarrow> MarketBar list option rest" where
  "recent_live_candle_rest_fallback E inst_id bar limit =
     (let key = live_candle_fallback_key inst_id bar limit in
      qbind (qget (\<lambda>c. map_of (ri_live_candle_fallbacks c) key)) (\<lambda>f.
      case f of
        None \<Rightarrow> qret None
      | Some fallback \<Rightarrow>
          qbind (qnow E) (\<lambda>now. qbind (qget ri_market_data_max_staleness) (\<lambda>max_staleness.
          if now - lf_fetched_at fallback \<le> max_staleness then qret (Some (lf_candles fallback))
          else
            qbind (qupd (\<lambda>c. c\<lparr> ri_live_candle_fallbacks := AList.delete key (ri_live_candle_fallbacks c) \<rparr>)) (\<lambda>_.
            qret None)))))"

fun prune_expired_live_candle_fallbacks ::
    "rest_env \<Rightarrow> nat \<Rightarrow> (LiveCandleFallbackKey \<times> LiveCandleFallback) list \<Rightarrow>
      (LiveCandleFallbackKey \<times> LiveCandleFallback) list rest" where
  "prune_expired_live_candle_fallbacks E max_age [] = qret []"
| "prune_expired_live_candle_fallbacks E max_age ((k, f) # fs) =
     qbind (qnow E) (\<lambda>now. qbind (prune_expired_live_candle_fallbacks E max_age fs) (\<lambda>kept.
     qret (if now - lf_fetched_at f \<le> max_age then (k, f) # kept else kept)))"

definition remember_live_candle_rest_fallback ::
    "rest_env \<Rightarrow> string \<Rightarrow> string \<Rightarrow> nat \<Rightarrow> MarketBar list \<Rightarrow> unit rest" where
  "remember_live_candle_rest_fallback E inst_id bar limit candles =
     qbind (qget ri_market_data_max_staleness) (\<lambda>max_age.
     qbind (qget ri_live_candle_fallbacks) (\<lambda>fallbacks.
     qbind (prune_expired_live_candle_fallbacks E max_age fallbacks) (\<lambda>kept.
     qbind (qnow E) (\<lambda>now.
     qupd (\<lambda>c. c\<lparr> ri_live_candle_fallbacks :=
       evict_oldest (re_oldest_fallback E) OKX_LIVE_CANDLE_REST_FALLBACK_CACHE_MAX_KEYS lf_fetched_at
         (AList.update (live_candle_fallback_key inst_id bar limit)
            \<lparr> lf_candles = candles, lf_fetched_at = now \<rparr> kept) \<rparr>)))))"

definition rest_live_candles :: "rest_env \<Rightarrow> string \<Rightarrow> string \<Rightarrow> nat \<Rightarrow> MarketBar list rest" where
  "rest_live_candles E inst_id bar limit =
     (case okx_public_candle_channel_for_bar bar of
        Inl _ \<Rightarrow> rest_candles E inst_id bar limit
      | Inr channel \<Rightarrow>
          qbind (fresh_live_candles_from_cache E inst_id channel limit) (\<lambda>cached.
          case cached of
            Some candles \<Rightarrow> qret candles
          | None \<Rightarrow>
              qbind (recent_live_candle_rest_fallback E inst_id bar limit) (\<lambda>recent.
              case recent of
                Some candles \<Rightarrow>
                  qbind (cached_fresh_candles E inst_id channel) (\<lambda>hints.
                  qret (merge_live_candle_hints candles hints limit))
              | None \<Rightarrow>
                  qbind (rest_candles E inst_id bar limit) (\<lambda>candles.
                  qbind (remember_live_candle_rest_fallback E inst_id bar limit candles) (\<lambda>_.
                  qbind (cached_fresh_candles E inst_id channel) (\<lambda>hints.
                  qret (merge_live_candle_hints candles hints limit)))))))"

section \<open>Tickers and conversion\<close>

definition ticker_with_max_age :: "rest_env \<Rightarrow> string \<Rightarrow> nat \<Rightarrow> OkxTicker rest" where
  "ticker_with_max_age E inst_id max_staleness =
     qbind (ensure_fresh_instrument_hint_matches_snapshot E inst_id) (\<lambda>_.
     qbind (qnow E) (\<lambda>now. qbind (qmarket E) (\<lambda>s.
     case fresh_ticker now inst_id max_staleness s of
       Some ticker \<Rightarrow> qret ticker
     | None \<Rightarrow>
         qbind (public_get E (rj_tickers (re_json E)) ''/api/v5/market/ticker'' (rest_query E [(''instId'', inst_id)])) (\<lambda>rows.
         qbind (qplain (require (length rows = 1) inst_id ''returned a wrong number of tickers'')) (\<lambda>_.
         let ticker = fst (hd rows) in
         qbind (qplain (require (tk_inst_id ticker = inst_id) inst_id ''returned another ticker'')) (\<lambda>_.
         qbind (qplain (rest_ensure_spot_inst_type (tk_inst_type ticker) (tk_inst_id ticker) ''ticker'')) (\<lambda>_.
         qbind (qplain (validate_prices (re_decimal E) ticker)) (\<lambda>_.
         qbind (synchronized_server_time E ''OKX REST ticker freshness'') (\<lambda>server_now_ms.
         qbind (qlift (ensure_fresh_rest_ticker_timestamp (snd (hd rows)) server_now_ms max_staleness)) (\<lambda>_.
         qret ticker)))))))))) "

definition rest_ticker :: "rest_env \<Rightarrow> string \<Rightarrow> OkxTicker rest" where
  "rest_ticker E inst_id = qbind (qget ri_market_data_max_staleness) (\<lambda>m. ticker_with_max_age E inst_id m)"

text \<open>\<open>for attempt in 1..=MAX\<close>: stale evidence is asked for again, a bounded number of times.\<close>

fun retry_stale :: "nat \<Rightarrow> 'a rest \<Rightarrow> 'a rest" where
  "retry_stale 0 m = qlift (Inl Panic)"
| "retry_stale (Suc n) m =
     qtry m (\<lambda>r.
     case r of
       Inr x \<Rightarrow> qret x
     | Inl e \<Rightarrow>
         if is_stale_rest_timestamp e \<and> 0 < n
         then qbind (qsleep OKX_STALE_MARKET_EVIDENCE_RETRY_DELAY) (\<lambda>_. retry_stale n m)
         else qfail e)"

definition startup_ticker :: "rest_env \<Rightarrow> string \<Rightarrow> OkxTicker rest" where
  "startup_ticker E inst_id =
     retry_stale OKX_STALE_MARKET_EVIDENCE_MAX_ATTEMPTS (ticker_with_max_age E inst_id OKX_STARTUP_TICKER_MAX_AGE)"

definition quote_usd_rate_from_index :: "rest_env \<Rightarrow> string \<Rightarrow> ValidatedQuoteUsdRate rest" where
  "quote_usd_rate_from_index E quote_ccy =
     (let index_inst_id = quote_ccy @ ''-USD'' in
      qbind (public_get E (rj_index_tickers (re_json E)) ''/api/v5/market/index-tickers''
               (rest_query E [(''instId'', index_inst_id)])) (\<lambda>rows.
      qbind (qplain (require (length rows = 1) index_inst_id ''returned a wrong number of index tickers'')) (\<lambda>_.
      qbind (qplain (usd_from_index_ticker (re_decimal E) quote_ccy (hd rows))) (\<lambda>rate.
      qbind (synchronized_server_time E ''OKX index ticker freshness'') (\<lambda>server_now_ms.
      qbind (qplain (ok_or (Fail (Bad ''OKX index ticker conversion'' ''omitted source timestamp''))
               (qr_source_timestamp_ms rate))) (\<lambda>ts.
      qbind (qlift (ensure_fresh_rest_timestamp ''OKX REST index ticker timestamp'' ts server_now_ms
               OKX_INDEX_TICKER_MAX_AGE)) (\<lambda>_.
      qret rate)))))))"

definition quote_usd_rate_for_quote :: "rest_env \<Rightarrow> string \<Rightarrow> ValidatedQuoteUsdRate rest" where
  "quote_usd_rate_for_quote E quote_ccy =
     (if quote_ccy = ''USD'' then qplain (usd_identity quote_ccy)
      else retry_stale OKX_STALE_MARKET_EVIDENCE_MAX_ATTEMPTS (quote_usd_rate_from_index E quote_ccy))"

definition rest_fresh_quote_usd_rate :: "rest_env \<Rightarrow> ValidatedTradingInstrument \<Rightarrow> ValidatedQuoteUsdRate rest" where
  "rest_fresh_quote_usd_rate E v =
     qbind (qplain (has_usd_order_amount_limit (re_decimal E) (vi_instrument v))) (\<lambda>limited.
     qbind (qplain (require limited ''fresh quote-to-USD evidence''
              ''was requested without a USD-denominated order limit'')) (\<lambda>_.
     quote_usd_rate_for_quote E (vi_quote_ccy v)))"

section \<open>Price limits\<close>

definition fresh_spot_price_limit :: "rest_env \<Rightarrow> string \<Rightarrow> ValidatedSpotPriceLimit rest" where
  "fresh_spot_price_limit E inst_id =
     qbind (validated_order_route inst_id) (\<lambda>_.
     qbind (ensure_fresh_instrument_hint_matches_snapshot E inst_id) (\<lambda>_.
     qbind (refresh_server_time_if_expiring E) (\<lambda>_.
     qbind (public_get E (rj_price_limits (re_json E)) ''/api/v5/public/price-limit''
              (rest_query E [(''instId'', inst_id)])) (\<lambda>rows.
     qbind (qplain (require (length rows = 1) inst_id ''returned a wrong number of price-limit rows'')) (\<lambda>_.
     qbind (synchronized_server_time E ''OKX price-limit freshness'') (\<lambda>server_now_ms.
     qbind (qget ri_market_data_max_staleness) (\<lambda>max_staleness.
     qplain (price_limit_from_response (re_decimal E) inst_id (hd rows) server_now_ms
       (max_staleness div 1000000)))))))))"

definition ensure_fresh_spot_order_price :: "rest_env \<Rightarrow> string \<Rightarrow> OrderSide \<Rightarrow> string \<Rightarrow> string \<Rightarrow> unit rest" where
  "ensure_fresh_spot_order_price E inst_id side price context =
     qbind (qplain (parse_positive_decimal_field (re_decimal E) context price)) (\<lambda>p.
     qbind (fresh_spot_price_limit E inst_id) (\<lambda>l.
     qplain (ensure_price l side p context)))"

end
