(* ===== verification/Rest_Account.thy ===== *)
theory Rest_Account
  imports Rest_Instruments
begin

text \<open>
  The account side of the REST client of \<open>okx/client.rs\<close>: balances, account configuration, fees and sizes, the
  cancel-all-after switch, and the validation of a trading instrument from one generation of agreeing evidence.
\<close>

definition OKX_TRADING_TUPLE_EVIDENCE_MAX_AGE :: nat where "OKX_TRADING_TUPLE_EVIDENCE_MAX_AGE = 30000000000"

section \<open>Balances\<close>

fun validate_balances :: "decimal_ops \<Rightarrow> OkxBalance list \<Rightarrow> unit res" where
  "validate_balances D [] = Inr ()"
| "validate_balances D (b # bs) = rbind (balance_validate D b) (\<lambda>_. validate_balances D bs)"

definition rest_balances :: "rest_env \<Rightarrow> OkxBalance list rest" where
  "rest_balances E =
     qbind (private_request E (rj_balances (re_json E)) ''GET'' ''/api/v5/account/balance'' None None) (\<lambda>balances.
     qbind (qcontext ''OKX account balance response is invalid''
              (qplain (validate_balances (re_decimal E) balances))) (\<lambda>_.
     qret balances))"

section \<open>The account level\<close>

definition revoke_capability_generations :: "unit rest" where
  "revoke_capability_generations = qupd (\<lambda>c. c\<lparr> ri_generations := Map.empty \<rparr>)"

definition revoking_on_error :: "'a rest \<Rightarrow> 'a rest" where
  "revoking_on_error m =
     qtry m (\<lambda>r. case r of Inl e \<Rightarrow> qbind revoke_capability_generations (\<lambda>_. qfail e) | Inr x \<Rightarrow> qret x)"

definition observe_account_level_diagnostic :: "rest_env \<Rightarrow> OkxAccountConfig \<Rightarrow> AccountLevelDiagnosticSnapshot rest" where
  "observe_account_level_diagnostic E config =
     qbind (qnow E) (\<lambda>now.
     qbind (qplain (account_level_observe now config)) (\<lambda>snapshot.
     qbind (qget ri_account_level) (\<lambda>observed.
     qbind (qupd (\<lambda>c. c\<lparr> ri_account_level := Some snapshot \<rparr>)) (\<lambda>_.
     if (case observed of None \<Rightarrow> False | Some current \<Rightarrow> al_value current \<noteq> al_value snapshot)
     then qbind revoke_capability_generations (\<lambda>_.
            qlift (rest_bad ''OKX account-level diagnostic'' ''changed; capability readiness was revoked''))
     else qret snapshot))))"

definition matching_observed_account_level_diagnostic :: "OkxAccountConfig \<Rightarrow> AccountLevelDiagnosticSnapshot rest" where
  "matching_observed_account_level_diagnostic config =
     qbind (qplain (account_level_parse (cf_account_level config))) (\<lambda>expected.
     qbind (qget ri_account_level) (\<lambda>observed.
     case observed of
       None \<Rightarrow> qlift (rest_bad ''OKX account-level diagnostic'' ''was not observed'')
     | Some snapshot \<Rightarrow>
         if al_value snapshot \<noteq> expected
         then qbind revoke_capability_generations (\<lambda>_.
                qlift (rest_bad ''OKX account-level diagnostic'' ''changed before capability validation''))
         else qret snapshot))"

definition rest_account_config :: "rest_env \<Rightarrow> OkxAccountConfig rest" where
  "rest_account_config E =
     revoking_on_error
       (qbind (private_request E (rj_account_configs (re_json E)) ''GET'' ''/api/v5/account/config'' None None) (\<lambda>rows.
        qbind (qplain (require (length rows = 1) ''OKX account configuration'' ''returned a wrong number of rows'')) (\<lambda>_.
        qbind (observe_account_level_diagnostic E (hd rows)) (\<lambda>_.
        qret (hd rows)))))"

section \<open>Fees\<close>

definition instrument_fee_group_id :: "string \<Rightarrow> string rest" where
  "instrument_fee_group_id inst_id =
     qbind (validated_trading_instrument_if_present inst_id) (\<lambda>validated.
     case validated of
       Some v \<Rightarrow> qplain (fee_group_id (vi_instrument v))
     | None \<Rightarrow>
         qbind (instrument_snapshot inst_id) (\<lambda>s.
         case s of
           Some snapshot \<Rightarrow> qplain (fee_group_id snapshot)
         | None \<Rightarrow> qlift (rest_bad inst_id ''fee group was not validated before the fee-rate request'')))"

definition instrument_type_for_fee_group :: "string \<Rightarrow> string \<Rightarrow> string rest" where
  "instrument_type_for_fee_group inst_id expected_group_id =
     qbind (validated_trading_instrument_if_present inst_id) (\<lambda>validated.
     case validated of
       Some v \<Rightarrow>
         qbind (qplain (fee_group_id (vi_instrument v))) (\<lambda>group.
         qbind (qplain (require (group = expected_group_id) inst_id ''fee group contradicts validated groupId'')) (\<lambda>_.
         qret ''SPOT''))
     | None \<Rightarrow>
         qbind (instrument_snapshot inst_id) (\<lambda>s.
         case s of
           Some snapshot \<Rightarrow>
             qbind (qplain (rest_ensure_spot_inst_type (oi_inst_type snapshot) inst_id
                      ''instrument fee-group authority'')) (\<lambda>_.
             qbind (qplain (fee_group_id snapshot)) (\<lambda>group.
             qbind (qplain (require (group = expected_group_id) inst_id ''fee group contradicts instrument groupId'')) (\<lambda>_.
             qret (oi_inst_type snapshot))))
         | None \<Rightarrow> qlift (rest_bad inst_id ''metadata was not validated before the fee-rate request'')))"

definition spot_trade_fee_for_group :: "rest_env \<Rightarrow> string \<Rightarrow> string \<Rightarrow> OkxTradeFeeRate rest" where
  "spot_trade_fee_for_group E inst_id expected_group_id =
     qbind (instrument_type_for_fee_group inst_id expected_group_id) (\<lambda>inst_type.
     qbind (private_request E (rj_fees (re_json E)) ''GET'' ''/api/v5/account/trade-fee''
              (rest_query E [(''instType'', inst_type), (''instId'', inst_id)]) None) (\<lambda>rows.
     qbind (qplain (require (length rows = 1) inst_id ''returned a wrong number of fee-rate rows'')) (\<lambda>_.
     qplain (into_spot_group_rate (re_decimal E) (hd rows) inst_id expected_group_id))))"

definition rest_spot_trade_fee :: "rest_env \<Rightarrow> string \<Rightarrow> OkxTradeFeeRate rest" where
  "rest_spot_trade_fee E inst_id =
     qbind (instrument_fee_group_id inst_id) (\<lambda>group. spot_trade_fee_for_group E inst_id group)"

section \<open>Sizes\<close>

definition maximum_order_size ::
    "rest_env \<Rightarrow> string \<Rightarrow> string \<Rightarrow> string \<Rightarrow> string \<Rightarrow> OkxMaximumOrderSize rest" where
  "maximum_order_size E inst_id td_mode price trade_quote_currency =
     qbind (qplain (parse_positive_decimal_field (re_decimal E) ''OKX maximum order size px'' price)) (\<lambda>_.
     qbind (qplain (require (\<not> blank trade_quote_currency) ''OKX maximum order size tradeQuoteCcy'' ''must not be empty'')) (\<lambda>_.
     qbind (private_account_sizing_request E (rj_maximum_sizes (re_json E)) ''GET'' ''/api/v5/account/max-size''
              (rest_query E [(''instId'', inst_id), (''tdMode'', td_mode), (''px'', price),
                             (''tradeQuoteCcy'', trade_quote_currency)]) None) (\<lambda>rows.
     qbind (qplain (require (length rows = 1) inst_id ''returned a wrong number of maximum order size rows'')) (\<lambda>_.
     qbind (qplain (require (mo_inst_id (hd rows) = inst_id) inst_id ''maximum order size returned another instId'')) (\<lambda>_.
     qbind (qplain (max_buy_base (re_decimal E) (hd rows))) (\<lambda>_.
     qbind (qplain (max_sell_quote (re_decimal E) (hd rows))) (\<lambda>_.
     qret (hd rows))))))))"

definition maximum_available_size :: "rest_env \<Rightarrow> string \<Rightarrow> string \<Rightarrow> string \<Rightarrow> OkxMaximumAvailableSize rest" where
  "maximum_available_size E inst_id td_mode trade_quote_currency =
     qbind (qplain (require (\<not> blank trade_quote_currency) ''OKX maximum available size tradeQuoteCcy''
              ''must not be empty'')) (\<lambda>_.
     qbind (private_account_sizing_request E (rj_available_sizes (re_json E)) ''GET'' ''/api/v5/account/max-avail-size''
              (rest_query E [(''instId'', inst_id), (''tdMode'', td_mode),
                             (''tradeQuoteCcy'', trade_quote_currency)]) None) (\<lambda>rows.
     qbind (qplain (require (length rows = 1) inst_id ''returned a wrong number of maximum available size rows'')) (\<lambda>_.
     qbind (qplain (require (ma_inst_id (hd rows) = inst_id) inst_id ''maximum available size returned another instId'')) (\<lambda>_.
     qbind (qplain (available_buy_quote (re_decimal E) (hd rows))) (\<lambda>_.
     qbind (qplain (available_sell_base (re_decimal E) (hd rows))) (\<lambda>_.
     qret (hd rows)))))))"

section \<open>Validating a trading instrument\<close>

definition requested_account_instrument :: "rest_env \<Rightarrow> RequestedTradingInstrument \<Rightarrow> OkxInstrument rest" where
  "requested_account_instrument E requested =
     (let inst_type = inst_type_as_okx (rq_inst_type requested); inst_id = rq_instrument requested;
          instruments = (\<lambda>pairs. qbind (private_request E (rj_instruments (re_json E)) ''GET''
            ''/api/v5/account/instruments'' (rest_query E pairs) None) (\<lambda>rows.
            qret (filter (\<lambda>row. oi_inst_id row = inst_id) rows))) in
      qbind (instruments [(''instType'', inst_type), (''instId'', inst_id)]) (\<lambda>exact.
      qbind (if exact = [] then instruments [(''instType'', inst_type)] else qret exact) (\<lambda>exact.
      qbind (qplain (require (length exact = 1) inst_id ''account instruments returned a wrong number of exact rows'')) (\<lambda>_.
      qret (hd exact)))))"

text \<open>What a second validation of an instrument must agree with.\<close>

definition same_capability ::
    "decimal_ops \<Rightarrow> ValidatedCapabilityGeneration \<Rightarrow> ValidatedCapabilityGeneration \<Rightarrow> unit res" where
  "same_capability D existing generation =
     (let v = vg_instrument existing; w = vg_instrument generation in
      rbind (and_then (Inr (vg_requested existing = vg_requested generation))
            (and_then (Inr (vi_trade_quote_ccy v = vi_trade_quote_ccy w))
            (and_then (same_value (fee_group_id (vi_instrument v)) (fee_group_id (vi_instrument w)))
              (same_value (websocket_inst_id_code (vi_instrument v)) (websocket_inst_id_code (vi_instrument w)))))) (\<lambda>same.
      rbind (require same (vi_inst_id w) ''validated trading tuple changed during startup'') (\<lambda>_.
      ensure_public_refresh_matches D v (vi_instrument w))))"

definition remember_validated_capability_generation :: "rest_env \<Rightarrow> ValidatedCapabilityGeneration \<Rightarrow> unit rest" where
  "remember_validated_capability_generation E g =
     (let inst_id = vi_inst_id (vg_instrument g) in
      qbind (qget ri_account_level) (\<lambda>diagnostic.
      qbind (qplain (ok_or (Fail (Bad ''OKX account-level diagnostic'' ''was not observed before capability caching''))
               diagnostic)) (\<lambda>current.
      qbind (qplain (require (al_value current = al_value (vg_account_level g)) ''OKX account-level diagnostic''
               ''changed before capability caching'')) (\<lambda>_.
      qbind (qget (\<lambda>c. ri_generations c inst_id)) (\<lambda>existing.
      qbind (case existing of None \<Rightarrow> qret () | Some x \<Rightarrow> qplain (same_capability (re_decimal E) x g)) (\<lambda>_.
      qupd (\<lambda>c. c\<lparr> ri_generations := (ri_generations c)(inst_id \<mapsto> g) \<rparr>)))))))"

definition validate_trading_instrument_generation ::
    "rest_env \<Rightarrow> RequestedTradingInstrument \<Rightarrow> OkxAccountConfig \<Rightarrow> ValidatedCapabilityGeneration rest" where
  "validate_trading_instrument_generation E requested account_config =
     (let D = re_decimal E; inst_id = rq_instrument requested; td_mode = trade_mode_as_okx (rq_td_mode requested) in
      qbind (qnow E) (\<lambda>evidence_started_at.
      qbind (qplain (requested_capability requested)) (\<lambda>capability.
      qbind (matching_observed_account_level_diagnostic account_config) (\<lambda>account_level.
      qbind (requested_public_instrument E requested) (\<lambda>public.
      qbind (requested_account_instrument E requested) (\<lambda>account.
      qbind (startup_ticker E inst_id) (\<lambda>ticker.
      qbind (qplain (last_decimal D ticker)) (\<lambda>price.
      qbind (qplain (has_usd_order_amount_limit D public)) (\<lambda>limited.
      qbind (if limited then qbind (quote_usd_rate_for_quote E (oi_quote_ccy public)) (\<lambda>r. qret (Some r))
             else qret None) (\<lambda>quote_usd_rate.
      qbind (maximum_order_size E inst_id td_mode (tk_last ticker) (oi_quote_ccy public)) (\<lambda>maximum.
      qbind (maximum_available_size E inst_id td_mode (oi_quote_ccy public)) (\<lambda>available.
      qbind (rest_balances E) (\<lambda>balances.
      qbind (qnow E) (\<lambda>now.
      qbind (qplain (require (now - evidence_started_at \<le> OKX_TRADING_TUPLE_EVIDENCE_MAX_AGE) inst_id
               ''evidence became stale before startup validation completed'')) (\<lambda>_.
      qbind (qplain (from_exchange_evidence D requested
               \<lparr> ev_public = public, ev_account = account, ev_account_config = account_config, ev_price = price,
                 ev_maximum = maximum, ev_available = available, ev_balances = balances,
                 ev_quote_usd_rate = quote_usd_rate \<rparr>)) (\<lambda>validated.
      qbind (qplain (fee_group_id (vi_instrument validated))) (\<lambda>group.
      qbind (spot_trade_fee_for_group E (vi_inst_id validated) group) (\<lambda>fee.
      qbind (qnow E) (\<lambda>now.
      qbind (qplain (generation_cash_spot D now capability validated account_level fee
               OKX_TRADING_TUPLE_EVIDENCE_MAX_AGE)) (\<lambda>g.
      qbind (remember_validated_capability_generation E g) (\<lambda>_.
      qret g)))))))))))))))))))))"

definition validate_trading_instrument ::
    "rest_env \<Rightarrow> RequestedTradingInstrument \<Rightarrow> OkxAccountConfig \<Rightarrow> ValidatedCapabilityGeneration rest" where
  "validate_trading_instrument E requested account_config =
     revoking_on_error (validate_trading_instrument_generation E requested account_config)"

section \<open>Cancel all after\<close>

definition rest_cancel_all_after :: "rest_env \<Rightarrow> OkxCancelAllAfterTimeout \<Rightarrow> OkxCancelAllAfterAck rest" where
  "rest_cancel_all_after E t =
     qbind (private_request E (rj_cancel_all_after_acks (re_json E)) ''POST'' ''/api/v5/trade/cancel-all-after'' None
              (Some (CancelAllAfterBody \<lparr> xq_timeout_seconds = show_nat (ct_seconds t),
                                           xq_tag = OKX_CANCEL_ALL_AFTER_TAG \<rparr>))) (\<lambda>acks.
     qplain (caa_acknowledgement t acks))"

end
