(* ===== verification/Rest_Pages.thy ===== *)
theory Rest_Pages
  imports Rest_Account
begin

text \<open>
  The listings of the REST client of \<open>okx/client.rs\<close>: open orders, order history, fills, open algo orders and algo
  history.  Each endpoint is read page by page, from the newest row on; a full page asks for the next one after
  its last row.  Rows are kept once, and a listing that is not complete after twenty pages is an error.

  The code has the loop five times; they differ in the request, the checks of a page and of a row, the identity
  of a row and the cursor, which are the fields of a source here.
\<close>

definition OKX_ORDER_HISTORY_MAX_PAGES :: nat where "OKX_ORDER_HISTORY_MAX_PAGES = 20"
definition OKX_OPEN_ORDERS_MAX_PAGES :: nat where "OKX_OPEN_ORDERS_MAX_PAGES = 20"
definition OKX_ORDER_FILLS_MAX_PAGES :: nat where "OKX_ORDER_FILLS_MAX_PAGES = 20"
definition OKX_OPEN_ALGO_ORDERS_MAX_PAGES :: nat where "OKX_OPEN_ALGO_ORDERS_MAX_PAGES = 20"
definition OKX_ALGO_HISTORY_MAX_PAGES :: nat where "OKX_ALGO_HISTORY_MAX_PAGES = 20"

definition OKX_ALGO_HISTORY_STATES :: "string list" where
  "OKX_ALGO_HISTORY_STATES = [''effective'', ''canceled'', ''order_failed'']"

section \<open>One endpoint\<close>

record 'a page_source =
  yp_context :: string
  yp_fetch :: "string option \<Rightarrow> 'a list rest"
  yp_page_ok :: "'a list \<Rightarrow> unit res"
  yp_row_ok :: "'a \<Rightarrow> unit res"
  yp_key :: "'a \<Rightarrow> string"
  yp_cursor :: "'a \<Rightarrow> string"
  yp_limit :: nat

text \<open>The rows collected so far and the identities that have been seen.\<close>

type_synonym 'a collected = "'a list \<times> string set"

fun add_rows :: "('a \<Rightarrow> unit res) \<Rightarrow> ('a \<Rightarrow> string) \<Rightarrow> 'a list \<Rightarrow> 'a collected \<Rightarrow> 'a collected res" where
  "add_rows ok key [] acc = Inr acc"
| "add_rows ok key (r # rs) (rows, seen) =
     rbind (ok r) (\<lambda>_.
     add_rows ok key rs (if key r \<in> seen then (rows, seen) else (rows @ [r], insert (key r) seen)))"

definition next_after :: "'a page_source \<Rightarrow> 'a list \<Rightarrow> string option" where
  "next_after S page = (if length page = yp_limit S then Some (yp_cursor S (last page)) else None)"

fun paginate :: "'a page_source \<Rightarrow> nat \<Rightarrow> string option \<Rightarrow> 'a collected \<Rightarrow> 'a collected rest" where
  "paginate S 0 after acc = qlift (rest_bad (yp_context S) ''pagination exceeded the maximum of pages'')"
| "paginate S (Suc n) after acc =
     qbind (yp_fetch S after) (\<lambda>page.
     qbind (qplain (yp_page_ok S page)) (\<lambda>_.
     if page = [] then qret acc
     else
       qbind (qplain (add_rows (yp_row_ok S) (yp_key S) page acc)) (\<lambda>acc.
       case next_after S page of
         None \<Rightarrow> qret acc
       | Some cursor \<Rightarrow>
           qbind (qplain (require (\<not> blank cursor) (yp_context S) ''page is missing pagination cursor'')) (\<lambda>_.
           qbind (qplain (require (after \<noteq> Some cursor) (yp_context S) ''pagination cursor repeated'')) (\<lambda>_.
           paginate S n (Some cursor) acc)))))"

definition row_identified :: "('a \<Rightarrow> string) \<Rightarrow> string \<Rightarrow> 'a \<Rightarrow> unit res" where
  "row_identified key context r = require (\<not> blank (key r)) context ''returned a row without identity''"

section \<open>Orders\<close>

definition open_orders_source :: "rest_env \<Rightarrow> string \<Rightarrow> string \<Rightarrow> OkxOrder page_source" where
  "open_orders_source E inst_type inst_id =
     \<lparr> yp_context = ''open orders'',
       yp_fetch = (\<lambda>after. private_request E (rj_orders (re_json E)) ''GET'' ''/api/v5/trade/orders-pending''
                     (Some (open_orders_query (re_urlencode E) inst_type inst_id after)) None),
       yp_page_ok = (\<lambda>page. ensure_orders_match_instrument page inst_id ''open orders''),
       yp_row_ok = row_identified or_order_id ''open orders'',
       yp_key = or_order_id, yp_cursor = or_order_id, yp_limit = OKX_OPEN_ORDERS_PAGE_LIMIT \<rparr>"

definition rest_open_orders :: "rest_env \<Rightarrow> string \<Rightarrow> OkxOrder list rest" where
  "rest_open_orders E inst_id =
     qbind (validated_instrument_type inst_id) (\<lambda>inst_type.
     qbind (paginate (open_orders_source E inst_type inst_id) OKX_OPEN_ORDERS_MAX_PAGES None ([], {})) (\<lambda>acc.
     qret (fst acc)))"

definition order_history_source :: "rest_env \<Rightarrow> string \<Rightarrow> string \<Rightarrow> string \<Rightarrow> string \<Rightarrow> OkxOrder page_source" where
  "order_history_source E inst_type inst_id path context =
     \<lparr> yp_context = context,
       yp_fetch = (\<lambda>after. private_request E (rj_orders (re_json E)) ''GET'' path
                     (Some (order_history_query (re_urlencode E) inst_type inst_id after)) None),
       yp_page_ok = (\<lambda>page. ensure_orders_match_instrument page inst_id context),
       yp_row_ok = row_identified or_order_id context,
       yp_key = or_order_id, yp_cursor = or_order_id, yp_limit = OKX_ORDER_HISTORY_PAGE_LIMIT \<rparr>"

definition append_order_history_endpoint ::
    "rest_env \<Rightarrow> string \<Rightarrow> string \<Rightarrow> string \<Rightarrow> OkxOrder collected \<Rightarrow> OkxOrder collected rest" where
  "append_order_history_endpoint E inst_id path context acc =
     qbind (validated_instrument_type inst_id) (\<lambda>inst_type.
     paginate (order_history_source E inst_type inst_id path context) OKX_ORDER_HISTORY_MAX_PAGES None acc)"

definition rest_order_history :: "rest_env \<Rightarrow> string \<Rightarrow> OkxOrder list rest" where
  "rest_order_history E inst_id =
     qbind (append_order_history_endpoint E inst_id ''/api/v5/trade/orders-history'' ''order history'' ([], {})) (\<lambda>acc.
     qbind (append_order_history_endpoint E inst_id ''/api/v5/trade/orders-history-archive''
              ''order history archive'' acc) (\<lambda>acc.
     qret (fst acc)))"

section \<open>Fills\<close>

definition order_fills_source :: "rest_env \<Rightarrow> string \<Rightarrow> string \<Rightarrow> string \<Rightarrow> string \<Rightarrow> OkxFill page_source" where
  "order_fills_source E inst_type inst_id path context =
     \<lparr> yp_context = context,
       yp_fetch = (\<lambda>after. private_request E (rj_fills (re_json E)) ''GET'' path
                     (Some (order_fills_query (re_urlencode E) inst_type inst_id after)) None),
       yp_page_ok = (\<lambda>page. ensure_fills_match_instrument page inst_id context),
       yp_row_ok = row_identified dedupe_key context,
       yp_key = dedupe_key, yp_cursor = fi_bill_id, yp_limit = OKX_ORDER_FILLS_PAGE_LIMIT \<rparr>"

definition append_order_fills_endpoint ::
    "rest_env \<Rightarrow> string \<Rightarrow> string \<Rightarrow> string \<Rightarrow> OkxFill collected \<Rightarrow> OkxFill collected rest" where
  "append_order_fills_endpoint E inst_id path context acc =
     qbind (validated_instrument_type inst_id) (\<lambda>inst_type.
     paginate (order_fills_source E inst_type inst_id path context) OKX_ORDER_FILLS_MAX_PAGES None acc)"

definition rest_order_fills :: "rest_env \<Rightarrow> string \<Rightarrow> OkxFill list rest" where
  "rest_order_fills E inst_id =
     qbind (append_order_fills_endpoint E inst_id ''/api/v5/trade/fills'' ''order fills'' ([], {})) (\<lambda>acc.
     qbind (append_order_fills_endpoint E inst_id ''/api/v5/trade/fills-history'' ''order fills history'' acc) (\<lambda>acc.
     qret (fst acc)))"

section \<open>Algo orders\<close>

definition open_algo_orders_source :: "rest_env \<Rightarrow> string \<Rightarrow> string \<Rightarrow> OkxAlgoOrder page_source" where
  "open_algo_orders_source E inst_type inst_id =
     \<lparr> yp_context = ''open algo orders'',
       yp_fetch = (\<lambda>after. private_request E (rj_algo_orders (re_json E)) ''GET'' ''/api/v5/trade/orders-algo-pending''
                     (Some (open_algo_orders_query (re_urlencode E) inst_type inst_id after)) None),
       yp_page_ok = (\<lambda>page. ensure_algo_orders_match_instrument page inst_id ''open algo orders''),
       yp_row_ok = row_identified ao_algo_id ''open algo orders'',
       yp_key = ao_algo_id, yp_cursor = ao_algo_id, yp_limit = OKX_OPEN_ALGO_ORDERS_PAGE_LIMIT \<rparr>"

definition rest_open_algo_orders :: "rest_env \<Rightarrow> string \<Rightarrow> OkxAlgoOrder list rest" where
  "rest_open_algo_orders E inst_id =
     qbind (validated_instrument_type inst_id) (\<lambda>inst_type.
     qbind (paginate (open_algo_orders_source E inst_type inst_id) OKX_OPEN_ALGO_ORDERS_MAX_PAGES None ([], {})) (\<lambda>acc.
     qret (fst acc)))"

text \<open>The history of algo orders does not look at the identity of a row.\<close>

definition algo_history_source :: "rest_env \<Rightarrow> string \<Rightarrow> string \<Rightarrow> string \<Rightarrow> OkxAlgoOrder page_source" where
  "algo_history_source E inst_type inst_id state =
     \<lparr> yp_context = ''algo order history'',
       yp_fetch = (\<lambda>after. private_request E (rj_algo_orders (re_json E)) ''GET'' ''/api/v5/trade/orders-algo-history''
                     (Some (algo_order_history_query (re_urlencode E) inst_type inst_id (HistoryState state) after)) None),
       yp_page_ok = (\<lambda>page. ensure_algo_orders_match_instrument page inst_id ''algo order history''),
       yp_row_ok = (\<lambda>_. Inr ()),
       yp_key = ao_algo_id, yp_cursor = ao_algo_id, yp_limit = OKX_ALGO_HISTORY_PAGE_LIMIT \<rparr>"

definition append_algo_order_history_state ::
    "rest_env \<Rightarrow> string \<Rightarrow> string \<Rightarrow> OkxAlgoOrder collected \<Rightarrow> OkxAlgoOrder collected rest" where
  "append_algo_order_history_state E inst_id state acc =
     qbind (validated_instrument_type inst_id) (\<lambda>inst_type.
     paginate (algo_history_source E inst_type inst_id state) OKX_ALGO_HISTORY_MAX_PAGES None acc)"

fun append_algo_order_history_states ::
    "rest_env \<Rightarrow> string \<Rightarrow> string list \<Rightarrow> OkxAlgoOrder collected \<Rightarrow> OkxAlgoOrder collected rest" where
  "append_algo_order_history_states E inst_id [] acc = qret acc"
| "append_algo_order_history_states E inst_id (state # states) acc =
     qbind (append_algo_order_history_state E inst_id state acc) (\<lambda>acc.
     append_algo_order_history_states E inst_id states acc)"

definition rest_algo_order_history :: "rest_env \<Rightarrow> string \<Rightarrow> OkxAlgoOrder list rest" where
  "rest_algo_order_history E inst_id =
     qbind (append_algo_order_history_states E inst_id OKX_ALGO_HISTORY_STATES ([], {})) (\<lambda>acc.
     qret (fst acc))"

section \<open>What a listing keeps\<close>

text \<open>\<open>collected_rows P key acc\<close>: the rows are distinct by identity, satisfy \<open>P\<close> and are what has been seen.\<close>

definition collected_rows :: "('a \<Rightarrow> bool) \<Rightarrow> ('a \<Rightarrow> string) \<Rightarrow> 'a collected \<Rightarrow> bool" where
  "collected_rows P key acc =
     (distinct (map key (fst acc)) \<and> snd acc = key ` set (fst acc) \<and> (\<forall>r\<in>set (fst acc). P r))"

lemma collected_rows_empty [simp]: "collected_rows P key ([], {})"
  by (simp add: collected_rows_def)

lemma add_rows_collected:
  assumes "add_rows ok key rs acc = Inr acc'" and "collected_rows P key acc" and "\<forall>r\<in>set rs. ok r = Inr () \<longrightarrow> P r"
  shows "collected_rows P key acc'"
  using assms
proof (induction ok key rs acc rule: add_rows.induct)
  case (2 ok key r rs rows seen)
  let ?next = "if key r \<in> seen then (rows, seen) else (rows @ [r], insert (key r) seen)"
  from "2.prems"(1) have ok: "ok r = Inr ()" and rest: "add_rows ok key rs ?next = Inr acc'"
    by (simp_all add: rbind_eq_Inr)
  have "collected_rows P key ?next" using "2.prems"(2,3) ok by (simp add: collected_rows_def)
  with "2.IH" [OF rest] "2.prems"(3) show ?case by simp
qed simp

lemma paginate_collected:
  assumes "paginate S n after acc c = (Inr acc', c')" and "collected_rows P (yp_key S) acc"
    and page: "\<And>page r. yp_page_ok S page = Inr () \<Longrightarrow> r \<in> set page \<Longrightarrow> yp_row_ok S r = Inr () \<Longrightarrow> P r"
  shows "collected_rows P (yp_key S) acc'"
  using assms(1,2)
proof (induction n arbitrary: after acc c)
  case 0
  then show ?case by (simp add: rest_bad_def)
next
  case (Suc n)
  from Suc.prems(1) obtain page c1 where ok: "yp_page_ok S page = Inr ()"
    and rest: "(if page = [] then qret acc else
       qbind (qplain (add_rows (yp_row_ok S) (yp_key S) page acc)) (\<lambda>acc.
       case next_after S page of
         None \<Rightarrow> qret acc
       | Some cursor \<Rightarrow>
           qbind (qplain (require (\<not> blank cursor) (yp_context S) ''page is missing pagination cursor'')) (\<lambda>_.
           qbind (qplain (require (after \<noteq> Some cursor) (yp_context S) ''pagination cursor repeated'')) (\<lambda>_.
           paginate S n (Some cursor) acc)))) c1 = (Inr acc', c')"
    by (auto simp: qbind_Inr)
  show ?case
  proof (cases "page = []")
    case False
    with rest obtain mid where mid: "add_rows (yp_row_ok S) (yp_key S) page acc = Inr mid"
      and then_do: "mid = acc' \<or> (\<exists>cursor c2. paginate S n (Some cursor) mid c2 = (Inr acc', c'))"
      by (fastforce simp: qbind_Inr split: option.splits)
    have "collected_rows P (yp_key S) mid"
      using add_rows_collected [OF mid Suc.prems(2)] page [OF ok] by blast
    with then_do Suc.IH show ?thesis by (cases mid) blast
  qed (use rest Suc.prems(2) in simp)
qed

section \<open>Complete listings\<close>

text \<open>What the exchange documents of a listing: at most \<open>limit\<close> rows, from the newest on or after a cursor.\<close>

definition server_page :: "nat \<Rightarrow> ('a \<Rightarrow> string) \<Rightarrow> 'a list \<Rightarrow> string option \<Rightarrow> 'a list" where
  "server_page limit cursor listing after =
     take limit (case after of None \<Rightarrow> listing | Some a \<Rightarrow> tl (dropWhile (\<lambda>r. cursor r \<noteq> a) listing))"

lemma add_rows_fresh:
  assumes "add_rows ok key rs (rows, seen) = Inr acc" and "distinct (map key rs)" and "key ` set rs \<inter> seen = {}"
  shows "acc = (rows @ rs, key ` set rs \<union> seen)"
  using assms
proof (induction rs arbitrary: rows seen)
  case (Cons r rs)
  then have "add_rows ok key rs (rows @ [r], insert (key r) seen) = Inr acc" by (auto simp: rbind_eq_Inr)
  from Cons.IH [OF this] Cons.prems(2,3) show ?case by auto
qed simp

lemma dropWhile_after:
  assumes "distinct (map cursor (pre @ x # rest))"
  shows "tl (dropWhile (\<lambda>r. cursor r \<noteq> cursor x) (pre @ x # rest)) = rest"
  using assms by (induction pre) auto

lemma server_page_after:
  assumes "distinct (map cursor (pre @ rest))" and "after = (if pre = [] then None else Some (cursor (last pre)))"
  shows "server_page limit cursor (pre @ rest) after = take limit rest"
proof (cases pre rule: rev_cases)
  case (snoc xs x)
  with assms dropWhile_after [of cursor xs x rest] show ?thesis by (simp add: server_page_def)
qed (simp add: server_page_def assms(2))

text \<open>
  If every page the exchange answers with is the page it documents, then a listing that is returned is the
  whole listing in its order, with fewer than \<open>n\<close> pages' rows: never a part of it.
\<close>

lemma paginate_complete:
  assumes fetch: "\<And>after c page c'. yp_fetch S after c = (Inr page, c') \<Longrightarrow>
      page = server_page (yp_limit S) (yp_key S) (pre @ rest) after"
    and cursor: "yp_cursor S = yp_key S" and limit: "0 < yp_limit S"
    and keys: "distinct (map (yp_key S) (pre @ rest))"
    and after: "after = (if pre = [] then None else Some (yp_key S (last pre)))"
    and result: "paginate S n after (pre, yp_key S ` set pre) c = (Inr acc, c')"
  shows "fst acc = pre @ rest \<and> length rest < n * yp_limit S"
  using fetch keys after result
proof (induction n arbitrary: pre rest after c)
  case 0
  then show ?case by (simp add: rest_bad_def)
next
  case (Suc n)
  let ?page = "take (yp_limit S) rest" and ?key = "yp_key S"
  from Suc.prems(4) obtain page c1 where "yp_fetch S after c = (Inr page, c1)" "yp_page_ok S page = Inr ()"
    and then_do: "(if page = [] then qret (pre, ?key ` set pre) else
       qbind (qplain (add_rows (yp_row_ok S) ?key page (pre, ?key ` set pre))) (\<lambda>acc.
       case next_after S page of
         None \<Rightarrow> qret acc
       | Some cursor \<Rightarrow>
           qbind (qplain (require (\<not> blank cursor) (yp_context S) ''page is missing pagination cursor'')) (\<lambda>_.
           qbind (qplain (require (after \<noteq> Some cursor) (yp_context S) ''pagination cursor repeated'')) (\<lambda>_.
           paginate S n (Some cursor) acc)))) c1 = (Inr acc, c')"
    by (auto simp: qbind_Inr)
  with Suc.prems(1) [of after c page c1] server_page_after [OF Suc.prems(2,3)] have page: "page = ?page" by simp
  show ?case
  proof (cases "rest = []")
    case True
    with then_do page limit show ?thesis by auto
  next
    case False
    with limit page have nonempty: "page \<noteq> []" by simp
    have fresh: "distinct (map ?key ?page)" "?key ` set ?page \<inter> ?key ` set pre = {}"
      using Suc.prems(2) by (auto simp: take_map [symmetric] dest!: in_set_takeD)
    from then_do nonempty page obtain mid where
      "add_rows (yp_row_ok S) ?key ?page (pre, ?key ` set pre) = Inr mid"
      and rest: "(case next_after S ?page of
         None \<Rightarrow> qret mid
       | Some cursor \<Rightarrow>
           qbind (qplain (require (\<not> blank cursor) (yp_context S) ''page is missing pagination cursor'')) (\<lambda>_.
           qbind (qplain (require (after \<noteq> Some cursor) (yp_context S) ''pagination cursor repeated'')) (\<lambda>_.
           paginate S n (Some cursor) mid))) c1 = (Inr acc, c')"
      by (auto simp: qbind_Inr)
    with add_rows_fresh [OF _ fresh] have mid: "mid = (pre @ ?page, ?key ` set (pre @ ?page))"
      by (auto simp: image_Un Un_commute)
    show ?thesis
    proof (cases "length ?page = yp_limit S")
      case full: True
      have whole: "(pre @ ?page) @ drop (yp_limit S) rest = pre @ rest" by simp
      from rest full cursor mid obtain c2 where *:
        "paginate S n (Some (?key (last ?page))) (pre @ ?page, ?key ` set (pre @ ?page)) c2 = (Inr acc, c')"
        by (auto simp: next_after_def qbind_Inr)
      have "fst acc = (pre @ ?page) @ drop (yp_limit S) rest \<and> length (drop (yp_limit S) rest) < n * yp_limit S"
        by (rule Suc.IH [OF _ _ _ *]) (unfold whole, use Suc.prems(1,2) nonempty page in auto)
      with full show ?thesis by auto
    next
      case False
      then have "?page = rest" "length rest < Suc n * yp_limit S" by (simp_all add: take_all)
      with False rest mid show ?thesis by (auto simp: next_after_def)
    qed
  qed
qed

section \<open>The interface of a listing\<close>

text \<open>
  What a source promises: its check of a page accepts exactly the pages of rows that match.  A listing that
  asks for the rows after an identity is moreover complete.
\<close>

locale listing =
  fixes S :: "'a page_source" and matches :: "'a \<Rightarrow> bool"
  assumes page_ok: "yp_page_ok S page = Inr () \<longleftrightarrow> (\<forall>r\<in>set page. matches r)"
begin

lemma rows:
  assumes "paginate S n after acc c = (Inr acc', c')"
    and "collected_rows (\<lambda>r. matches r \<and> yp_row_ok S r = Inr ()) (yp_key S) acc"
  shows "collected_rows (\<lambda>r. matches r \<and> yp_row_ok S r = Inr ()) (yp_key S) acc'"
  using paginate_collected [OF assms] page_ok by blast

end

locale cursor_listing = listing +
  assumes cursor: "yp_cursor S = yp_key S" and limit: "0 < yp_limit S"
begin

lemma complete:
  assumes "\<And>after c page c'. yp_fetch S after c = (Inr page, c') \<Longrightarrow>
      page = server_page (yp_limit S) (yp_key S) rows after"
    and "distinct (map (yp_key S) rows)" and "paginate S n None ([], {}) c = (Inr acc, c')"
  shows "fst acc = rows \<and> length rows < n * yp_limit S"
  using paginate_complete [of S "[]" rows None n c acc c'] assms cursor limit by auto

end

lemma ensure_orders_match_instrument_iff:
  "ensure_orders_match_instrument rs i s = Inr () \<longleftrightarrow> (\<forall>r\<in>set rs. ensure_order_matches_instrument r i s = Inr ())"
  by (induction rs) (auto simp: rbind_eq_Inr)

lemma ensure_algo_orders_match_instrument_iff:
  "ensure_algo_orders_match_instrument rs i s = Inr () \<longleftrightarrow>
    (\<forall>r\<in>set rs. ensure_algo_order_matches_instrument r i s = Inr ())"
  by (induction rs) (auto simp: rbind_eq_Inr)

definition fill_matches_instrument :: "string \<Rightarrow> OkxFill \<Rightarrow> bool" where
  "fill_matches_instrument i r = (fi_inst_id r = i \<and> fi_inst_type r = OKX_REST_SPOT_INST_TYPE)"

lemma ensure_fills_match_instrument_iff:
  "ensure_fills_match_instrument rs i s = Inr () \<longleftrightarrow> (\<forall>r\<in>set rs. fill_matches_instrument i r)"
  by (induction rs) (auto simp: rbind_eq_Inr require_def rest_ensure_spot_inst_type_def fill_matches_instrument_def)

lemmas page_limit_defs = OKX_OPEN_ORDERS_PAGE_LIMIT_def OKX_ORDER_HISTORY_PAGE_LIMIT_def
  OKX_ORDER_FILLS_PAGE_LIMIT_def OKX_OPEN_ALGO_ORDERS_PAGE_LIMIT_def OKX_ALGO_HISTORY_PAGE_LIMIT_def

interpretation open_orders: cursor_listing "open_orders_source E inst_type inst_id"
    "\<lambda>r. ensure_order_matches_instrument r inst_id ''open orders'' = Inr ()" for E inst_type inst_id
  by unfold_locales (simp_all add: open_orders_source_def ensure_orders_match_instrument_iff page_limit_defs)

interpretation order_history: cursor_listing "order_history_source E inst_type inst_id path context"
    "\<lambda>r. ensure_order_matches_instrument r inst_id context = Inr ()" for E inst_type inst_id path "context"
  by unfold_locales (simp_all add: order_history_source_def ensure_orders_match_instrument_iff page_limit_defs)

interpretation order_fills: listing "order_fills_source E inst_type inst_id path context"
    "fill_matches_instrument inst_id" for E inst_type inst_id path "context"
  by unfold_locales (simp add: order_fills_source_def ensure_fills_match_instrument_iff)

interpretation open_algo_orders: cursor_listing "open_algo_orders_source E inst_type inst_id"
    "\<lambda>r. ensure_algo_order_matches_instrument r inst_id ''open algo orders'' = Inr ()" for E inst_type inst_id
  by unfold_locales (simp_all add: open_algo_orders_source_def ensure_algo_orders_match_instrument_iff page_limit_defs)

interpretation algo_history: cursor_listing "algo_history_source E inst_type inst_id state"
    "\<lambda>r. ensure_algo_order_matches_instrument r inst_id ''algo order history'' = Inr ()" for E inst_type inst_id state
  by unfold_locales (simp_all add: algo_history_source_def ensure_algo_orders_match_instrument_iff page_limit_defs)

section \<open>Listings ask for nothing\<close>

lemma keeps_paginate:
  assumes "preorder_rel R" and "\<And>after. rest_keeps R (yp_fetch S after)"
  shows "rest_keeps R (paginate S n after acc)"
  using assms by (induction n arbitrary: after acc) (auto intro!: keep_rules)

lemma keeps_routes:
  assumes "preorder_rel R"
  shows "rest_keeps R (validated_instrument_type i)" "rest_keeps R (validated_order_route i)"
    "rest_keeps R (validated_trading_instrument i)"
  unfolding validated_instrument_type_def validated_order_route_def validated_trading_instrument_def
    validated_trading_instrument_if_present_def
  by (intro keep_rules assms)+

lemma keeps_listings:
  assumes R: "networking P R" and P: "\<And>q. hq_asked q = None \<Longrightarrow> P q"
  shows "rest_keeps R (rest_open_orders E i)" "rest_keeps R (append_order_history_endpoint E i path s acc)"
    "rest_keeps R (append_order_fills_endpoint E i path s acc')" "rest_keeps R (rest_open_algo_orders E i)"
    "rest_keeps R (append_algo_order_history_state E i s acc'')"
proof -
  have none: "P q" if "asks None q" for q using that P by (simp add: asks_def)
  note request = keeps_private_requests(1) [OF R none]
  have fetch: "rest_keeps R (yp_fetch (open_orders_source E t i) after)"
    "rest_keeps R (yp_fetch (order_history_source E t i path s) after)"
    "rest_keeps R (yp_fetch (order_fills_source E t i path s) after)"
    "rest_keeps R (yp_fetch (open_algo_orders_source E t i) after)"
    "rest_keeps R (yp_fetch (algo_history_source E t i s) after)" for t after
    by (simp_all add: open_orders_source_def order_history_source_def order_fills_source_def
        open_algo_orders_source_def algo_history_source_def request)
  note rules = rest_keeps_bind keeps_pure keeps_paginate keeps_routes networking_preorder [OF R] fetch
  show "rest_keeps R (rest_open_orders E i)" "rest_keeps R (append_order_history_endpoint E i path s acc)"
    "rest_keeps R (append_order_fills_endpoint E i path s acc')" "rest_keeps R (rest_open_algo_orders E i)"
    "rest_keeps R (append_algo_order_history_state E i s acc'')"
    unfolding rest_open_orders_def append_order_history_endpoint_def append_order_fills_endpoint_def
      rest_open_algo_orders_def append_algo_order_history_state_def
    by (intro rules)+
qed

end
