(* ===== verification/Rest_Orders.thy ===== *)
theory Rest_Orders
  imports Rest_Pages
begin

text \<open>
  The orders of the REST client of \<open>okx/client.rs\<close>: placing, amending and cancelling orders and trigger orders, and
  how a request that failed is reconciled with what the exchange reports.

  A submission whose outcome is unknown is looked up by its client order id and never sent again.
\<close>

definition OKX_DUPLICATE_ALGO_CLIENT_ORDER_ID_CODES :: "string list" where
  "OKX_DUPLICATE_ALGO_CLIENT_ORDER_ID_CODES = [''51065'']"

definition OKX_SPOT_MARKET_BAN_AMEND :: bool where "OKX_SPOT_MARKET_BAN_AMEND = True"
definition OKX_SPOT_MARKET_SLIPPAGE_PCT :: string where "OKX_SPOT_MARKET_SLIPPAGE_PCT = ''0''"
definition REST_PRICE_AMEND_TYPE_REJECT :: string where "REST_PRICE_AMEND_TYPE_REJECT = ''0''"

definition is_okx_duplicate_algo_client_order_id_code :: "string \<Rightarrow> bool" where
  "is_okx_duplicate_algo_client_order_id_code code = (code \<in> set OKX_DUPLICATE_ALGO_CLIENT_ORDER_ID_CODES)"

text \<open>\<open>match m.await { Ok(x) => f x, Err(e) => h e }\<close>.\<close>

definition qmatch :: "'a rest \<Rightarrow> ('a \<Rightarrow> 'b rest) \<Rightarrow> (rest_error \<Rightarrow> 'b rest) \<Rightarrow> 'b rest" where
  "qmatch m f h = qtry m (\<lambda>r. case r of Inl e \<Rightarrow> h e | Inr x \<Rightarrow> f x)"

section \<open>Looking up\<close>

definition rest_order :: "rest_env \<Rightarrow> string \<Rightarrow> string \<Rightarrow> OkxOrder option rest" where
  "rest_order E inst_id cl_ord_id =
     qmatch
       (private_request E (rj_orders (re_json E)) ''GET'' ''/api/v5/trade/order''
          (rest_query E [(''instId'', inst_id), (''clOrdId'', cl_ord_id)]) None)
       (\<lambda>orders.
          if orders = [] then qret None
          else
            qbind (qplain (require (length orders = 1) cl_ord_id ''returned a wrong number of orders'')) (\<lambda>_.
            qbind (qplain (ensure_order_matches_instrument (hd orders) inst_id ''order lookup'')) (\<lambda>_.
            qbind (qplain (require (or_client_order_id (hd orders) = cl_ord_id) cl_ord_id ''returned another clOrdId'')) (\<lambda>_.
            qret (Some (hd orders))))))
       (\<lambda>e. if has_okx_api_error_code e ''51603'' then qret None else qfail e)"

definition algo_order_by_client_order_id :: "rest_env \<Rightarrow> string \<Rightarrow> string \<Rightarrow> OkxAlgoOrder option rest" where
  "algo_order_by_client_order_id E inst_id cl_ord_id =
     qbind (private_request E (rj_algo_orders (re_json E)) ''GET'' ''/api/v5/trade/order-algo''
              (rest_query E [(''algoClOrdId'', cl_ord_id)]) None) (\<lambda>orders.
     if orders = [] then qret None
     else
       qbind (qplain (require (length orders = 1) cl_ord_id ''returned a wrong number of algo orders'')) (\<lambda>_.
       qbind (qplain (ensure_algo_order_matches_instrument (hd orders) inst_id ''algo order lookup'')) (\<lambda>_.
       qbind (qplain (require (ao_client_order_id (hd orders) = cl_ord_id) cl_ord_id ''returned another algoClOrdId'')) (\<lambda>_.
       qret (Some (hd orders))))))"

definition algo_order_history_by_id :: "rest_env \<Rightarrow> string \<Rightarrow> string \<Rightarrow> OkxAlgoOrder option rest" where
  "algo_order_history_by_id E inst_id algo_id =
     qbind (validated_instrument_type inst_id) (\<lambda>inst_type.
     qbind (private_request E (rj_algo_orders (re_json E)) ''GET'' ''/api/v5/trade/orders-algo-history''
              (Some (algo_order_history_query (re_urlencode E) inst_type inst_id (HistoryAlgoId algo_id) None)) None) (\<lambda>orders.
     qbind (qplain (ensure_algo_orders_match_instrument orders inst_id ''algo order history'')) (\<lambda>_.
     if orders = [] then qret None
     else
       qbind (qplain (require (length orders = 1) algo_id ''returned a wrong number of algo history rows'')) (\<lambda>_.
       qbind (qplain (require (ao_algo_id (hd orders) = algo_id) algo_id ''returned another algo history row'')) (\<lambda>_.
       qret (Some (hd orders)))))))"

section \<open>Reconciliation\<close>

text \<open>A lookup that does not confirm the request is an error around the cause.\<close>

definition unconfirmed :: "rest_error \<Rightarrow> string \<Rightarrow> 'a rest" where
  "unconfirmed cause reason = qfail (InContext reason cause)"

definition reconcile_submitted_price :: "decimal_ops \<Rightarrow> OkxOrder \<Rightarrow> string option \<Rightarrow> bool res" where
  "reconcile_submitted_price D order price =
     (case price of
        None \<Rightarrow> Inr True
      | Some expected_price \<Rightarrow>
          rbind (parse_positive_decimal_field D ''OKX submit reconciled px'' (or_price order)) (\<lambda>actual.
          rbind (parse_positive_decimal_field D ''OKX submit expected px'' expected_price) (\<lambda>expected.
          Inr (actual = expected))))"

definition reconcile_submitted_order ::
    "decimal_ops \<Rightarrow> OkxOrderSubmitReconciliation \<Rightarrow> rest_error \<Rightarrow> OkxOrder \<Rightarrow> OkxOrderAck rest" where
  "reconcile_submitted_order D requested submit_err order =
     (if order_parsed_side order \<noteq> Some (sr_side requested)
      then unconfirmed submit_err ''submit failed and reconciliation lookup returned another side''
      else if order_parsed_kind order \<noteq> Some (sr_kind requested)
      then unconfirmed submit_err ''submit failed and reconciliation lookup returned another ordType''
      else
        qbind (qplain (order_requested_size D order)) (\<lambda>actual_size.
        qbind (qplain (parse_positive_decimal_field D ''OKX submit expected sz'' (sr_size requested))) (\<lambda>expected_size.
        if actual_size \<noteq> expected_size
        then unconfirmed submit_err ''submit failed and reconciliation lookup returned another sz''
        else
          qbind (qplain (reconcile_submitted_price D order (sr_price requested))) (\<lambda>same_price.
          if \<not> same_price then unconfirmed submit_err ''submit failed and reconciliation lookup returned another px''
          else qret (reconciled_order_ack order)))))"

definition reconcile_order_submit_failure ::
    "rest_env \<Rightarrow> OkxOrderSubmitReconciliation \<Rightarrow> rest_error \<Rightarrow> OkxOrderAck rest" where
  "reconcile_order_submit_failure E requested submit_err =
     qmatch (rest_order E (sr_inst_id requested) (sr_client_order_id requested))
       (\<lambda>found.
          case found of
            None \<Rightarrow> unconfirmed submit_err ''submit failed and reconciliation lookup did not find the order''
          | Some order \<Rightarrow> reconcile_submitted_order (re_decimal E) requested submit_err order)
       (\<lambda>_. unconfirmed submit_err ''submit failed and reconciliation lookup failed'')"

definition reconcile_order_amend_failure :: "rest_env \<Rightarrow> OkxOrderAmend \<Rightarrow> rest_error \<Rightarrow> OkxOrderAck rest" where
  "reconcile_order_amend_failure E a amend_err =
     qmatch (rest_order E (am_inst_id a) (am_client_order_id a))
       (\<lambda>found.
          case found of
            None \<Rightarrow> unconfirmed amend_err ''amend failed and reconciliation lookup did not find the order''
          | Some order \<Rightarrow>
              qmatch (qplain (verify_reconciled_order_amend (re_decimal E) order a))
                (\<lambda>_. qret (reconciled_order_ack order))
                (\<lambda>_. unconfirmed amend_err
                       ''amend failed and reconciliation lookup did not confirm the requested amendment''))
       (\<lambda>_. unconfirmed amend_err ''amend failed and reconciliation lookup failed'')"

definition reconcile_submitted_algo ::
    "decimal_ops \<Rightarrow> OrderSide \<Rightarrow> string \<Rightarrow> string \<Rightarrow> rest_error \<Rightarrow> OkxAlgoOrder \<Rightarrow> OkxAlgoOrderAck rest" where
  "reconcile_submitted_algo D side sz trigger_price submit_err order =
     (if \<not> algo_is_live order
      then unconfirmed submit_err ''submit failed and reconciliation lookup returned no live protection''
      else if algo_parsed_side order \<noteq> Some side
      then unconfirmed submit_err ''submit failed and reconciliation lookup returned another side''
      else if \<not> is_trigger_market_order order
      then unconfirmed submit_err ''submit failed and reconciliation lookup returned no trigger market order''
      else
        qbind (qplain (ok_or (Fail (Bad ''OKX requested algo size'' ''was invalid'')) (d_parse D sz))) (\<lambda>requested_size.
        qbind (qplain (ok_or (Fail (Bad ''OKX requested algo triggerPx'' ''was invalid'')) (d_parse D trigger_price))) (\<lambda>requested_trigger.
        qbind (qplain (algo_requested_size D order)) (\<lambda>reconciled_size.
        if reconciled_size \<noteq> requested_size
        then unconfirmed submit_err ''submit failed and reconciliation lookup returned another sz''
        else
          qbind (qplain (algo_trigger_price D order)) (\<lambda>reconciled_trigger.
          if reconciled_trigger \<noteq> requested_trigger
          then unconfirmed submit_err ''submit failed and reconciliation lookup returned another triggerPx''
          else qret (reconciled_algo_ack order))))))"

definition reconcile_algo_submit_failure ::
    "rest_env \<Rightarrow> string \<Rightarrow> OrderSide \<Rightarrow> string \<Rightarrow> string \<Rightarrow> string \<Rightarrow> rest_error \<Rightarrow> OkxAlgoOrderAck rest" where
  "reconcile_algo_submit_failure E inst_id side sz trigger_price cl_ord_id submit_err =
     qmatch (algo_order_by_client_order_id E inst_id cl_ord_id)
       (\<lambda>found.
          case found of
            None \<Rightarrow> unconfirmed submit_err ''submit failed and reconciliation lookup did not find the algo order''
          | Some order \<Rightarrow> reconcile_submitted_algo (re_decimal E) side sz trigger_price submit_err order)
       (\<lambda>_. unconfirmed submit_err ''submit failed and reconciliation lookup failed'')"

definition order_cancel_target_is_terminal_or_missing :: "rest_env \<Rightarrow> string \<Rightarrow> string \<Rightarrow> bool rest" where
  "order_cancel_target_is_terminal_or_missing E inst_id cl_ord_id =
     qbind (rest_order E inst_id cl_ord_id) (\<lambda>found.
     qret (case found of None \<Rightarrow> True | Some order \<Rightarrow> is_terminal order))"

definition algo_cancel_target_is_terminal_or_missing :: "rest_env \<Rightarrow> string \<Rightarrow> string \<Rightarrow> bool rest" where
  "algo_cancel_target_is_terminal_or_missing E inst_id algo_id =
     qbind (rest_open_algo_orders E inst_id) (\<lambda>open_orders.
     if \<exists>order\<in>set open_orders. ao_algo_id order = algo_id \<and> algo_is_live order then qret False
     else
       qbind (algo_order_history_by_id E inst_id algo_id) (\<lambda>found.
       qret (case found of
               None \<Rightarrow> True
             | Some order \<Rightarrow> algo_is_effective order \<or> algo_is_terminal_without_execution order)))"

section \<open>Placing\<close>

definition place_order_request ::
    "string \<Rightarrow> string \<Rightarrow> OrderSide \<Rightarrow> OrderKind \<Rightarrow> string \<Rightarrow> string option \<Rightarrow> string \<Rightarrow> string \<Rightarrow> PlaceOrderRequest" where
  "place_order_request inst_id td_mode side kind sz price trade_quote_currency cl_ord_id =
     \<lparr> pq_inst_id = inst_id, pq_td_mode = td_mode, pq_side = side_as_okx side, pq_order_type = kind_as_okx kind,
       pq_sz = sz, pq_price = price, pq_target_currency = spot_market_target_currency side kind,
       pq_trade_quote_currency = trade_quote_currency,
       pq_ban_amend = (if kind = Market then Some OKX_SPOT_MARKET_BAN_AMEND else None),
       pq_slippage_pct = (if kind = Market then Some OKX_SPOT_MARKET_SLIPPAGE_PCT else None),
       pq_price_amend_type = REST_PRICE_AMEND_TYPE_REJECT, pq_tag = OKX_CANCEL_ALL_AFTER_TAG,
       pq_client_order_id = cl_ord_id \<rparr>"

definition settle_submission ::
    "rest_env \<Rightarrow> OkxOrderSubmitReconciliation \<Rightarrow> OkxOrderAck list rest \<Rightarrow> OkxOrderAck rest" where
  "settle_submission E requested submit =
     qmatch submit
       (\<lambda>acks.
          qmatch (qplain (single_order_ack acks (sr_client_order_id requested) ''order''))
            (\<lambda>ack.
               if ak_status_code ack = ''0'' then qret ack
               else reconcile_order_submit_failure E requested (order_ack_rejection ack))
            (reconcile_order_submit_failure E requested))
       (reconcile_order_submit_failure E requested)"

definition rest_place_order ::
    "rest_env \<Rightarrow> string \<Rightarrow> OrderSide \<Rightarrow> OrderKind \<Rightarrow> string \<Rightarrow> string option \<Rightarrow> string \<Rightarrow> OkxOrderAck rest" where
  "rest_place_order E inst_id side kind sz price cl_ord_id =
     qbind (validated_order_route inst_id) (\<lambda>(td_mode, trade_quote_currency).
     let request = PlaceOrderBody (place_order_request inst_id td_mode side kind sz price trade_quote_currency cl_ord_id);
         requested = \<lparr> sr_inst_id = inst_id, sr_side = side, sr_kind = kind, sr_size = sz, sr_price = price,
                       sr_client_order_id = cl_ord_id \<rparr> in
     if kind = Market then
       qbind (ensure_fresh_instrument_hint_matches_snapshot E inst_id) (\<lambda>_.
       settle_submission E requested (private_regular_order_request E ''/api/v5/trade/order'' request))
     else
       qbind (qplain (ok_or (Fail (Bad ''OKX limit/post-only order'' ''requires px'')) price)) (\<lambda>px.
       qbind (reserve_private_request E ''POST'' ''/api/v5/trade/order'' None (Some request)) (\<lambda>b.
       qbind (ensure_fresh_instrument_hint_matches_snapshot E inst_id) (\<lambda>_.
       qbind (ensure_fresh_spot_order_price E inst_id side px ''OKX order px'') (\<lambda>_.
       settle_submission E requested
         (private_regular_order_request_after_reservation E ''/api/v5/trade/order'' request b))))))"

section \<open>Cancelling\<close>

definition rest_cancel_order :: "rest_env \<Rightarrow> string \<Rightarrow> string \<Rightarrow> unit rest" where
  "rest_cancel_order E inst_id cl_ord_id =
     qbind (validated_order_route inst_id) (\<lambda>_.
     qmatch
       (private_order_mutation_request E ''POST'' ''/api/v5/trade/cancel-order'' None
          (Some (CancelOrderBody \<lparr> kq_inst_id = inst_id, kq_client_order_id = cl_ord_id \<rparr>)) NoRequestExpiry)
       (\<lambda>acks.
          qbind (qplain (single_order_ack acks cl_ord_id ''cancel'')) (\<lambda>ack.
          if ak_status_code ack = ''0'' then qret ()
          else
            qbind (order_cancel_target_is_terminal_or_missing E inst_id cl_ord_id) (\<lambda>resolved.
            if resolved then qret () else qfail (order_ack_rejection ack))))
       (\<lambda>e.
          if has_okx_api_error_code e ''1'' then
            qbind (qcontext ''cancel returned an aggregate API error and REST reconciliation failed''
                     (order_cancel_target_is_terminal_or_missing E inst_id cl_ord_id)) (\<lambda>resolved.
            if resolved then qret ()
            else qfail (InContext ''cancel returned an aggregate API error while REST still reports the order live'' e))
          else qfail e))"

section \<open>Amending\<close>

definition confirm_amendment :: "rest_env \<Rightarrow> OkxOrderAmend \<Rightarrow> OkxOrderAck rest" where
  "confirm_amendment E a =
     qmatch (rest_order E (am_inst_id a) (am_client_order_id a))
       (\<lambda>found.
          case found of
            None \<Rightarrow> qlift (rest_bad (am_client_order_id a)
                      ''amend was accepted but confirmation lookup did not find the order'')
          | Some order \<Rightarrow>
              qmatch (qplain (verify_reconciled_order_amend (re_decimal E) order a))
                (\<lambda>_. qret (reconciled_order_ack order))
                (\<lambda>_. qlift (rest_bad (am_client_order_id a)
                       ''amend was accepted but confirmation lookup did not confirm the requested amendment'')))
       (\<lambda>e. qfail (InContext ''amend was accepted but confirmation lookup failed'' e))"

definition settle_amendment :: "rest_env \<Rightarrow> OkxOrderAmend \<Rightarrow> OkxOrderAck list rest \<Rightarrow> OkxOrderAck rest" where
  "settle_amendment E a submit =
     qmatch submit
       (\<lambda>acks.
          qbind (qplain (single_order_ack acks (am_client_order_id a) ''amend'')) (\<lambda>ack.
          if ak_status_code ack \<noteq> ''0'' then reconcile_order_amend_failure E a (order_ack_rejection ack)
          else confirm_amendment E a))
       (reconcile_order_amend_failure E a)"

definition rest_amend_order :: "rest_env \<Rightarrow> OkxOrderAmend \<Rightarrow> OkxOrderAck rest" where
  "rest_amend_order E a =
     qbind (validated_order_route (am_inst_id a)) (\<lambda>_.
     qbind (qplain (validate_order_amend (re_decimal E) a)) (\<lambda>_.
     let request = AmendOrderBody \<lparr> aq_inst_id = am_inst_id a, aq_client_order_id = am_client_order_id a,
                     aq_new_size = am_new_size a, aq_new_price = am_new_price a,
                     aq_price_amend_type = REST_PRICE_AMEND_TYPE_REJECT \<rparr> in
     case am_new_price a of
       Some new_price \<Rightarrow>
         qbind (reserve_private_request E ''POST'' ''/api/v5/trade/amend-order'' None (Some request)) (\<lambda>b.
         qbind (ensure_fresh_instrument_hint_matches_snapshot E (am_inst_id a)) (\<lambda>_.
         qbind (ensure_fresh_spot_order_price E (am_inst_id a) (am_side a) new_price ''OKX amend newPx'') (\<lambda>_.
         settle_amendment E a
           (private_order_mutation_request_after_reservation E ''POST'' ''/api/v5/trade/amend-order'' None
              (Some request) TradeCommand b))))
     | None \<Rightarrow>
         qbind (ensure_fresh_instrument_hint_matches_snapshot E (am_inst_id a)) (\<lambda>_.
         settle_amendment E a
           (private_order_mutation_request E ''POST'' ''/api/v5/trade/amend-order'' None (Some request) TradeCommand))))"

section \<open>Trigger orders\<close>

definition place_trigger_request ::
    "string \<Rightarrow> string \<Rightarrow> OrderSide \<Rightarrow> string \<Rightarrow> string \<Rightarrow> string \<Rightarrow> string \<Rightarrow> PlaceTriggerOrderRequest" where
  "place_trigger_request inst_id td_mode side sz trigger_price trade_quote_currency cl_ord_id =
     \<lparr> tq_inst_id = inst_id, tq_td_mode = td_mode, tq_side = side_as_okx side, tq_order_type = ''trigger'',
       tq_sz = sz, tq_trigger_price = trigger_price, tq_trigger_price_type = ''last'', tq_order_price = ''-1'',
       tq_trade_quote_currency = trade_quote_currency, tq_tag = OKX_CANCEL_ALL_AFTER_TAG,
       tq_client_order_id = cl_ord_id \<rparr>"

definition rest_place_trigger_order ::
    "rest_env \<Rightarrow> string \<Rightarrow> OrderSide \<Rightarrow> string \<Rightarrow> string \<Rightarrow> string \<Rightarrow> OkxAlgoOrderAck rest" where
  "rest_place_trigger_order E inst_id side sz trigger_price cl_ord_id =
     qbind (validated_order_route inst_id) (\<lambda>(td_mode, trade_quote_currency).
     qbind (ensure_fresh_instrument_hint_matches_snapshot E inst_id) (\<lambda>_.
     qmatch
       (private_algo_mutation_request E ''POST'' ''/api/v5/trade/order-algo'' None
          (Some (PlaceTriggerBody (place_trigger_request inst_id td_mode side sz trigger_price trade_quote_currency cl_ord_id)))
          NoRequestExpiry)
       (\<lambda>acks.
          qbind (qplain (single_algo_ack acks (AckClientOrderId cl_ord_id) ''algo order'')) (\<lambda>ack.
          if aa_status_code ack = ''0'' then qret ack
          else
            let e = Plain (Bad ''OKX algo order rejected'' (aa_status_code ack)) in
            if is_okx_duplicate_algo_client_order_id_code (aa_status_code ack)
            then reconcile_algo_submit_failure E inst_id side sz trigger_price cl_ord_id e
            else qfail e))
       (reconcile_algo_submit_failure E inst_id side sz trigger_price cl_ord_id)))"

definition rest_cancel_algo_order :: "rest_env \<Rightarrow> string \<Rightarrow> string \<Rightarrow> unit rest" where
  "rest_cancel_algo_order E inst_id algo_id =
     qbind (validated_order_route inst_id) (\<lambda>_.
     qmatch
       (private_algo_mutation_request E ''POST'' ''/api/v5/trade/cancel-algos'' None
          (Some (CancelAlgoBody \<lparr> cq_inst_id = inst_id, cq_algo_id = algo_id \<rparr>)) NoRequestExpiry)
       (\<lambda>acks.
          qbind (qplain (single_algo_ack acks (AckAlgoId algo_id) ''cancel algo'')) (\<lambda>ack.
          if aa_status_code ack = ''0'' then qret ()
          else
            qbind (algo_cancel_target_is_terminal_or_missing E inst_id algo_id) (\<lambda>resolved.
            if resolved then qret ()
            else qlift (rest_bad ''OKX cancel algo rejected'' (aa_status_code ack)))))
       (\<lambda>e.
          if has_okx_api_error_code e ''1'' then
            qmatch (algo_cancel_target_is_terminal_or_missing E inst_id algo_id)
              (\<lambda>resolved.
                 if resolved then qret ()
                 else qfail (InContext ''cancel returned an aggregate API error while REST still reports the algo order live'' e))
              (\<lambda>_. qfail (InContext ''cancel returned an aggregate API error and REST reconciliation failed'' e))
          else qfail e))"

section \<open>Preparing WebSocket commands\<close>

definition websocket_expiry :: "rest_env \<Rightarrow> string \<Rightarrow> string rest" where
  "websocket_expiry E context =
     qbind (private_request_timing E) (\<lambda>timing.
     qbind (qplain (header_value TradeCommand (pt_unix_millis timing))) (\<lambda>exp_time.
     qplain (ok_or (Fail (Bad context ''expTime was not generated'')) exp_time)))"

definition prepare_websocket_place_order ::
    "rest_env \<Rightarrow> string \<Rightarrow> OrderSide \<Rightarrow> OrderKind \<Rightarrow> string option \<Rightarrow> string rest" where
  "prepare_websocket_place_order E inst_id side kind price =
     qbind (qplain (require (kind = Limit \<or> kind = PostOnly) ''OKX WebSocket place preparation''
              ''supports only limit or post-only orders'')) (\<lambda>_.
     qbind (qplain (ok_or (Fail (Bad ''OKX WebSocket limit/post-only order'' ''requires px'')) price)) (\<lambda>px.
     qbind (qplain (okx_rate_limit_bucket ''POST'' ''/api/v5/trade/order'' None (Some inst_id))) (\<lambda>b.
     qbind (qwait E b) (\<lambda>_.
     qbind (ensure_fresh_instrument_hint_matches_snapshot E inst_id) (\<lambda>_.
     qbind (ensure_fresh_spot_order_price E inst_id side px ''OKX WebSocket order px'') (\<lambda>_.
     websocket_expiry E ''OKX WebSocket order''))))))"

definition prepare_websocket_cancel_order :: "rest_env \<Rightarrow> string \<Rightarrow> unit rest" where
  "prepare_websocket_cancel_order E inst_id =
     qbind (qplain (okx_rate_limit_bucket ''POST'' ''/api/v5/trade/cancel-order'' None (Some inst_id))) (\<lambda>b.
     qwait E b)"

definition prepare_websocket_amend_order ::
    "rest_env \<Rightarrow> string \<Rightarrow> OrderSide \<Rightarrow> string option \<Rightarrow> string rest" where
  "prepare_websocket_amend_order E inst_id side new_price =
     qbind (qplain (okx_rate_limit_bucket ''POST'' ''/api/v5/trade/amend-order'' None (Some inst_id))) (\<lambda>b.
     qbind (qwait E b) (\<lambda>_.
     qbind (ensure_fresh_instrument_hint_matches_snapshot E inst_id) (\<lambda>_.
     qbind (case new_price of
              None \<Rightarrow> qret ()
            | Some px \<Rightarrow> ensure_fresh_spot_order_price E inst_id side px ''OKX WebSocket amend newPx'') (\<lambda>_.
     websocket_expiry E ''OKX WebSocket amend''))))"

section \<open>A silent exchange\<close>

text \<open>An environment in which nothing is answered, for the concrete instances of the properties.\<close>

definition silent_rest_json :: rest_json where
  "silent_rest_json =
     \<lparr> rj_envelope = (\<lambda>_. None), rj_order_mutation = (\<lambda>_. None), rj_algo_mutation = (\<lambda>_. None),
       rj_orders = (\<lambda>_. None), rj_algo_orders = (\<lambda>_. None), rj_fills = (\<lambda>_. None), rj_instruments = (\<lambda>_. None),
       rj_balances = (\<lambda>_. None), rj_account_configs = (\<lambda>_. None), rj_fees = (\<lambda>_. None),
       rj_maximum_sizes = (\<lambda>_. None), rj_available_sizes = (\<lambda>_. None), rj_tickers = (\<lambda>_. None),
       rj_index_tickers = (\<lambda>_. None), rj_price_limits = (\<lambda>_. None), rj_server_times = (\<lambda>_. None),
       rj_cancel_all_after_acks = (\<lambda>_. None), rj_candle_rows = (\<lambda>_. None) \<rparr>"

definition silent_rest_env :: rest_env where
  "silent_rest_env =
     \<lparr> re_decimal = exact_decimal, re_json = silent_rest_json, re_serialize = (\<lambda>_. Some ''{}''), re_urlencode = id,
       re_url_ok = (\<lambda>_ _. True), re_hmac = (\<lambda>_ _. []), re_calendar = (\<lambda>_. None), re_elapse = (\<lambda>_. 1),
       re_unix_millis = int, re_http = (\<lambda>_. None), re_market_data = (\<lambda>_. market_data_state_default),
       re_oldest_fallback = (\<lambda>_. 0) \<rparr>"

end
