(* ===== verification/Socket_Protocol.thy ===== *)
theory Socket_Protocol
  imports Stream_Config
begin

text \<open>
  The control protocol of the OKX WebSockets: \<open>protocol_error.rs\<close>, \<open>notice.rs\<close>, \<open>subscription.rs\<close> and
  \<open>auth.rs\<close> of \<open>okx/websocket/\<close>.

  \<open>serde_json\<close> is a parameter (\<open>socket_json\<close>): it turns a payload into the message struct the source
  declares, or reports its error.  A JSON request is represented by its struct.  The HMAC is a parameter.
\<close>

section \<open>Protocol errors\<close>

record OkxWebsocketSubscriptionAck =
  sa_channel :: string
  sa_inst_id :: "string option"
  sa_inst_type :: "string option"

datatype OkxWebsocketProtocolError =
    MalformedJson string string
  | MissingSubscribeArg string
  | MissingDataArg string
  | UnexpectedSubscriptionAck string OkxWebsocketSubscriptionAck
  | SubscriptionErrorEvent string string string "OkxWebsocketSubscriptionAck option"
  | ServiceUpgradeNotice string string
  | UnsupportedNotice string string
  | MalformedNotice string
  | DataBeforeSubscriptionAck string OkxWebsocketSubscriptionAck
  | NonAckTextBeforeSubscriptionAck string
  | ClosedBeforeLoginAck string
  | ClosedBeforeSubscriptionAck string
  | LoginRejected string string string
  | TimedOutWaitingForLoginAck string
  | TimedOutWaitingForSubscriptionAck string

definition ack_display :: "OkxWebsocketSubscriptionAck \<Rightarrow> string" where
  "ack_display a =
     ''channel='' @ sa_channel a @
     (case sa_inst_id a of None \<Rightarrow> [] | Some i \<Rightarrow> '', instId='' @ i) @
     (case sa_inst_type a of None \<Rightarrow> [] | Some t \<Rightarrow> '', instType='' @ t)"

definition protocol_error_display :: "OkxWebsocketProtocolError \<Rightarrow> string" where
  "protocol_error_display e =
     (case e of
        MalformedJson c p \<Rightarrow> ''failed parsing OKX '' @ c @ '' WebSocket protocol JSON: '' @ p
      | MissingSubscribeArg c \<Rightarrow> ''OKX '' @ c @ '' WebSocket subscribe acknowledgement omitted arg''
      | MissingDataArg c \<Rightarrow>
          ''OKX '' @ c @ '' WebSocket data frame omitted arg during subscription ACK wait''
      | UnexpectedSubscriptionAck c a \<Rightarrow>
          ''OKX '' @ c @ '' WebSocket acknowledged unexpected subscription '' @ ack_display a
      | SubscriptionErrorEvent c code msg a \<Rightarrow>
          ''OKX '' @ c @ '' WebSocket error '' @ code @ '': '' @ msg @
          (case a of None \<Rightarrow> [] | Some a \<Rightarrow> ''; arg '' @ ack_display a)
      | ServiceUpgradeNotice c code \<Rightarrow>
          ''OKX '' @ c @ '' WebSocket service upgrade notice '' @ code @ '' requires reconnect''
      | UnsupportedNotice c code \<Rightarrow> ''OKX '' @ c @ '' WebSocket received unsupported notice code '' @ code
      | MalformedNotice c \<Rightarrow> ''OKX '' @ c @ '' WebSocket notice omitted its required code''
      | DataBeforeSubscriptionAck c a \<Rightarrow>
          ''OKX '' @ c @ '' WebSocket received data before subscription ACK for '' @ ack_display a
      | NonAckTextBeforeSubscriptionAck c \<Rightarrow>
          ''OKX '' @ c @ '' WebSocket received non-ACK text before subscription ACK''
      | ClosedBeforeLoginAck c \<Rightarrow> ''OKX '' @ c @ '' WebSocket stream closed before login ACK''
      | ClosedBeforeSubscriptionAck c \<Rightarrow> ''OKX '' @ c @ '' WebSocket stream closed before subscription ACK''
      | LoginRejected c code msg \<Rightarrow> ''OKX '' @ c @ '' WebSocket login failed '' @ code @ '': '' @ msg
      | TimedOutWaitingForLoginAck c \<Rightarrow> ''timed out waiting for OKX '' @ c @ '' WebSocket login ACK''
      | TimedOutWaitingForSubscriptionAck c \<Rightarrow>
          ''timed out waiting for OKX '' @ c @ '' WebSocket subscription ACK'')"

text \<open>The conversion into \<open>anyhow::Error\<close> keeps the message.\<close>

definition of_protocol :: "OkxWebsocketProtocolError \<Rightarrow> rt_error fault" where
  "of_protocol e = Fail (Bad ''OKX WebSocket protocol'' (protocol_error_display e))"

section \<open>Notices\<close>

definition OKX_WEBSOCKET_NOTICE_EVENT :: string where "OKX_WEBSOCKET_NOTICE_EVENT = ''notice''"
definition OKX_WEBSOCKET_SERVICE_UPGRADE_NOTICE_CODE :: string where
  "OKX_WEBSOCKET_SERVICE_UPGRADE_NOTICE_CODE = ''64008''"

definition reject_websocket_notice ::
    "string option \<Rightarrow> string option \<Rightarrow> string \<Rightarrow> OkxWebsocketProtocolError + unit" where
  "reject_websocket_notice event code context =
     (if event \<noteq> Some OKX_WEBSOCKET_NOTICE_EVENT then Inr ()
      else
        (case code of
           None \<Rightarrow> Inl (MalformedNotice context)
         | Some c \<Rightarrow>
             if c = OKX_WEBSOCKET_SERVICE_UPGRADE_NOTICE_CODE then Inl (ServiceUpgradeNotice context c)
             else if c \<noteq> [] then Inl (UnsupportedNotice context c)
             else Inl (MalformedNotice context)))"

section \<open>Messages\<close>

record OkxWebsocketControlMessage =
  cm_event :: "string option"
  cm_code :: "string option"
  cm_msg :: "string option"

text \<open>Of \<open>data\<close> only its presence is used.\<close>

record OkxWebsocketSubscriptionMessage =
  sm_event :: "string option"
  sm_code :: "string option"
  sm_msg :: "string option"
  sm_arg :: "OkxWebsocketSubscriptionAck option"
  sm_has_data :: bool

record socket_json =
  sj_control :: "string \<Rightarrow> string + OkxWebsocketControlMessage"
  sj_subscription :: "string \<Rightarrow> string + OkxWebsocketSubscriptionMessage"

definition unwrap_or_default :: "string option \<Rightarrow> string" where
  "unwrap_or_default x = (case x of None \<Rightarrow> [] | Some v \<Rightarrow> v)"

section \<open>Login\<close>

definition OKX_WEBSOCKET_LOGIN_PATH :: string where "OKX_WEBSOCKET_LOGIN_PATH = ''/users/self/verify''"

definition parse_login_ack :: "socket_json \<Rightarrow> string \<Rightarrow> string \<Rightarrow> OkxWebsocketProtocolError + bool" where
  "parse_login_ack J payload context =
     rbind (map_err (MalformedJson context) (sj_control J payload)) (\<lambda>m.
     rbind (reject_websocket_notice (cm_event m) (cm_code m) context) (\<lambda>_.
     let rejected = LoginRejected context (unwrap_or_default (cm_code m)) (unwrap_or_default (cm_msg m)) in
     if cm_event m = Some ''error'' then Inl rejected
     else if cm_event m \<noteq> Some ''login'' then Inr False
     else if cm_code m \<noteq> Some ''0'' then Inl rejected
     else Inr True))"

record OkxWebsocketLoginArg =
  lg_api_key :: string
  lg_passphrase :: string
  lg_timestamp :: string
  lg_sign :: string

text \<open>\<open>hmac secret message\<close> is the base64 text of the HMAC-SHA256.\<close>

definition okx_websocket_login_signature :: "(string \<Rightarrow> string \<Rightarrow> string) \<Rightarrow> string \<Rightarrow> string \<Rightarrow> string" where
  "okx_websocket_login_signature hmac timestamp api_secret =
     hmac api_secret (timestamp @ ''GET'' @ OKX_WEBSOCKET_LOGIN_PATH)"

definition login_request_at ::
    "(string \<Rightarrow> string \<Rightarrow> string) \<Rightarrow> OkxPrivateStreamCredentials \<Rightarrow> string \<Rightarrow> OkxWebsocketLoginArg res" where
  "login_request_at hmac c timestamp =
     rbind (require (\<not> blank timestamp \<and> timestamp = trim timestamp) ''OKX WebSocket login timestamp''
              ''must be non-empty and trimmed'') (\<lambda>_.
     rbind (require (list_all is_ascii_digit timestamp) ''OKX WebSocket login timestamp''
              ''must be Unix seconds'') (\<lambda>_.
     Inr \<lparr> lg_api_key = cr_api_key c, lg_passphrase = cr_api_passphrase c, lg_timestamp = timestamp,
           lg_sign = okx_websocket_login_signature hmac timestamp (cr_api_secret c) \<rparr>))"

section \<open>Subscriptions\<close>

definition OKX_WEBSOCKET_SUBSCRIBE_EVENT :: string where "OKX_WEBSOCKET_SUBSCRIBE_EVENT = ''subscribe''"
definition OKX_WEBSOCKET_ERROR_EVENT :: string where "OKX_WEBSOCKET_ERROR_EVENT = ''error''"
definition OKX_WEBSOCKET_CHANNEL_CONN_COUNT_EVENT :: string where
  "OKX_WEBSOCKET_CHANNEL_CONN_COUNT_EVENT = ''channel-conn-count''"

datatype OkxWebsocketSubscriptionEvent =
    Acknowledged OkxWebsocketSubscriptionAck
  | Control
  | Data OkxWebsocketSubscriptionAck
  | Error string string "OkxWebsocketSubscriptionAck option"
  | Other

definition parse_subscription_event ::
    "socket_json \<Rightarrow> string \<Rightarrow> string \<Rightarrow> OkxWebsocketProtocolError + OkxWebsocketSubscriptionEvent" where
  "parse_subscription_event J payload context =
     rbind (map_err (MalformedJson context) (sj_subscription J payload)) (\<lambda>m.
     rbind (reject_websocket_notice (sm_event m) (sm_code m) context) (\<lambda>_.
     if sm_event m = Some OKX_WEBSOCKET_SUBSCRIBE_EVENT then
       rbind (ok_or (MissingSubscribeArg context) (sm_arg m)) (\<lambda>a. Inr (Acknowledged a))
     else if sm_event m = Some OKX_WEBSOCKET_ERROR_EVENT then
       Inr (Error (unwrap_or_default (sm_code m)) (unwrap_or_default (sm_msg m)) (sm_arg m))
     else if sm_event m = Some OKX_WEBSOCKET_CHANNEL_CONN_COUNT_EVENT then Inr Control
     else if sm_event m = None \<and> sm_has_data m then
       rbind (ok_or (MissingDataArg context) (sm_arg m)) (\<lambda>a. Inr (Data a))
     else Inr Other))"

text \<open>The result says whether nothing is pending any more.\<close>

definition acknowledge_subscription ::
    "OkxWebsocketSubscriptionAck set \<Rightarrow> OkxWebsocketSubscriptionAck \<Rightarrow> string \<Rightarrow>
      (OkxWebsocketProtocolError + bool) \<times> OkxWebsocketSubscriptionAck set" where
  "acknowledge_subscription pending a context =
     (if a \<notin> pending then (Inl (UnexpectedSubscriptionAck context a), pending)
      else (Inr (pending - {a} = {}), pending - {a}))"

end
