(* ===== verification/Socket_Session.thy ===== *)
theory Socket_Session
  imports Socket_Protocol
begin

text \<open>
  Reading a WebSocket and running a session on it: \<open>next_websocket_message_with_keepalive_and_timing\<close> and
  \<open>wait_for_idle_pong\<close> of \<open>okx/websocket.rs\<close>, and what the market and the private streams share, since
  their loops differ only in what they do with a text: \<open>read_loop\<close> is the shape of all of them, \<open>ack_step\<close>
  the turn of the loops that wait for the subscription acknowledgements, \<open>finish_run\<close> the end of a run.

  A socket is the list of what happens to it: a message arrives, the read fails, the stream ends, nothing
  comes for the time the reader is prepared to wait (\<open>Silence\<close>), or the deadline of the enclosing
  \<open>timeout\<close> passes (\<open>Deadline\<close>, passed over where there is none; a deadline passes between messages).
  \<open>Ping ok\<close> and \<open>Silence ok\<close> carry whether the reply, or the idle ping, could be sent.  A list that ends
  leaves the reader waiting, which is the result \<open>None\<close>.
\<close>

section \<open>Reading with keep-alive\<close>

definition OKX_WEBSOCKET_TEXT_PONG :: string where "OKX_WEBSOCKET_TEXT_PONG = ''pong''"

datatype ws_message = Text string | Ping bool | Pong | Close | Binary

datatype socket_event = Message ws_message | ReadFailed | Ended | Silence bool | Deadline

datatype socket_read = Got "ws_message option res" | Expired

definition socket_error :: "string \<Rightarrow> string \<Rightarrow> rt_error fault" where
  "socket_error context reason = Fail (Bad (''OKX '' @ context @ '' WebSocket'') reason)"

fun wait_for_idle_pong ::
    "bool \<Rightarrow> string \<Rightarrow> socket_event list \<Rightarrow> (socket_read \<times> socket_event list) option" where
  "wait_for_idle_pong bounded context [] = None"
| "wait_for_idle_pong bounded context (e # es) =
     (case e of
        Message (Text p) \<Rightarrow> Some (Got (Inr (Some (Text p))), es)
      | Message (Ping ok) \<Rightarrow>
          if ok then wait_for_idle_pong bounded context es
          else Some (Got (Inl (socket_error context ''failed replying to ping'')), es)
      | Message Pong \<Rightarrow> Some (Got (Inr (Some Pong)), es)
      | Message Close \<Rightarrow> Some (Got (Inl (socket_error context ''stream closed before idle pong'')), es)
      | Message Binary \<Rightarrow>
          Some (Got (Inl (socket_error context ''returned non-pong message after idle ping'')), es)
      | ReadFailed \<Rightarrow> Some (Got (Inl (socket_error context ''failed reading idle pong'')), es)
      | Ended \<Rightarrow> Some (Got (Inl (socket_error context ''stream closed before idle pong'')), es)
      | Silence _ \<Rightarrow> Some (Got (Inl (socket_error context ''timed out waiting for idle pong'')), es)
      | Deadline \<Rightarrow> if bounded then Some (Expired, es) else wait_for_idle_pong bounded context es)"

fun next_websocket_message ::
    "bool \<Rightarrow> string \<Rightarrow> socket_event list \<Rightarrow> (socket_read \<times> socket_event list) option" where
  "next_websocket_message bounded context [] = None"
| "next_websocket_message bounded context (e # es) =
     (case e of
        Message m \<Rightarrow> Some (Got (Inr (Some m)), es)
      | ReadFailed \<Rightarrow> Some (Got (Inl (socket_error context ''failed reading message'')), es)
      | Ended \<Rightarrow> Some (Got (Inr None), es)
      | Silence ok \<Rightarrow>
          if ok then wait_for_idle_pong bounded context es
          else Some (Got (Inl (socket_error context ''failed sending idle ping'')), es)
      | Deadline \<Rightarrow> if bounded then Some (Expired, es) else next_websocket_message bounded context es)"

lemma idle_pong_consumes: "wait_for_idle_pong b c es = Some (r, es') \<Longrightarrow> length es' < length es"
  by (induction b c es rule: wait_for_idle_pong.induct)
    (auto split: socket_event.splits ws_message.splits if_splits intro: less_SucI)

lemma next_message_consumes: "next_websocket_message b c es = Some (r, es') \<Longrightarrow> length es' < length es"
  by (induction b c es rule: next_websocket_message.induct)
    (auto dest: idle_pong_consumes split: socket_event.splits if_splits intro: less_SucI)

lemma idle_pong_errors: "wait_for_idle_pong b c es = Some (Got (Inl e), es') \<Longrightarrow> \<exists>x. e = socket_error c x"
  by (induction b c es rule: wait_for_idle_pong.induct)
    (auto split: socket_event.splits ws_message.splits if_splits)

lemma idle_pong_expires: "wait_for_idle_pong b c es = Some (Expired, es') \<Longrightarrow> b"
  by (induction b c es rule: wait_for_idle_pong.induct)
    (auto split: socket_event.splits ws_message.splits if_splits)

lemma next_message_errors:
  assumes "next_websocket_message b c es = Some (r, es')"
  shows "r = Got (Inl e) \<Longrightarrow> \<exists>x. e = socket_error c x" and "r = Expired \<Longrightarrow> b"
  using assms
  by (induction b c es rule: next_websocket_message.induct)
    (auto dest: idle_pong_errors idle_pong_expires split: socket_event.splits if_splits)

text \<open>What is read was there to be read, and an end of the stream is not passed over.\<close>

lemma idle_pong_suffix: "wait_for_idle_pong b c es = Some (r, es') \<Longrightarrow> set es' \<subseteq> set es"
  by (induction b c es rule: wait_for_idle_pong.induct)
    (auto split: socket_event.splits ws_message.splits if_splits)

lemma next_message_suffix: "next_websocket_message b c es = Some (r, es') \<Longrightarrow> set es' \<subseteq> set es"
  by (induction b c es rule: next_websocket_message.induct)
    (auto dest!: idle_pong_suffix [THEN subsetD] split: socket_event.splits if_splits)

lemma idle_pong_mem:
  "wait_for_idle_pong b c es = Some (Got (Inr (Some m)), es') \<Longrightarrow> Message m \<in> set es"
  by (induction b c es rule: wait_for_idle_pong.induct)
    (auto split: socket_event.splits ws_message.splits if_splits)

lemma next_message_mem:
  "next_websocket_message b c es = Some (Got (Inr (Some m)), es') \<Longrightarrow> Message m \<in> set es"
  by (induction b c es rule: next_websocket_message.induct)
    (auto dest: idle_pong_mem split: socket_event.splits if_splits)

lemma idle_pong_ends:
  "Ended \<in> set es \<Longrightarrow> \<exists>r es'. wait_for_idle_pong b c es = Some (r, es') \<and>
    (Ended \<in> set es' \<or> (\<exists>x. r = Got (Inl (socket_error c x))))"
  by (induction b c es rule: wait_for_idle_pong.induct)
    (auto split: socket_event.splits ws_message.splits)

lemma next_message_ends:
  "Ended \<in> set es \<Longrightarrow> \<exists>r es'. next_websocket_message b c es = Some (r, es') \<and>
    (Ended \<in> set es' \<or> r = Got (Inr None) \<or> (\<exists>x. r = Got (Inl (socket_error c x))))"
proof (induction b c es rule: next_websocket_message.induct)
  case (2 b c e es)
  show ?case
  proof (cases e)
    case (Silence ok)
    with 2(2) show ?thesis using idle_pong_ends [of es b c] by auto
  qed (use 2 in auto)
qed simp

section \<open>The loop over the messages\<close>

text \<open>
  \<open>h\<close> handles a text other than a pong: it fails, goes on (\<open>Inr None\<close>) or finishes.  \<open>at_end\<close> and \<open>at_close\<close>
  are the results when the stream ends and when a close frame comes.
\<close>

datatype 'r loop_end = Finished "'r res" | TimedOut

function read_loop ::
    "bool \<Rightarrow> string \<Rightarrow> (string \<Rightarrow> 's \<Rightarrow> 'r option res \<times> 's) \<Rightarrow> 'r res \<Rightarrow> 'r res \<Rightarrow> 's \<Rightarrow> socket_event list \<Rightarrow>
      'r loop_end option \<times> 's \<times> socket_event list" where
  "read_loop bounded context h at_end at_close s es =
     (case next_websocket_message bounded context es of
        None \<Rightarrow> (None, s, [])
      | Some (Expired, es') \<Rightarrow> (Some TimedOut, s, es')
      | Some (Got (Inl e), es') \<Rightarrow> (Some (Finished (Inl e)), s, es')
      | Some (Got (Inr None), es') \<Rightarrow> (Some (Finished at_end), s, es')
      | Some (Got (Inr (Some m)), es') \<Rightarrow>
          (case m of
             Text p \<Rightarrow>
               if p = OKX_WEBSOCKET_TEXT_PONG then read_loop bounded context h at_end at_close s es'
               else
                 (case h p s of
                    (Inl e, s') \<Rightarrow> (Some (Finished (Inl e)), s', es')
                  | (Inr (Some r), s') \<Rightarrow> (Some (Finished (Inr r)), s', es')
                  | (Inr None, s') \<Rightarrow> read_loop bounded context h at_end at_close s' es')
           | Ping ok \<Rightarrow>
               if ok then read_loop bounded context h at_end at_close s es'
               else (Some (Finished (Inl (socket_error context ''failed replying to ping''))), s, es')
           | Close \<Rightarrow> (Some (Finished at_close), s, es')
           | Pong \<Rightarrow> read_loop bounded context h at_end at_close s es'
           | Binary \<Rightarrow> read_loop bounded context h at_end at_close s es'))"
  by pat_completeness auto

termination
  by (relation "measure (\<lambda>(_, _, _, _, _, _, es). length es)") (auto dest: next_message_consumes)

declare read_loop.simps [simp del]

text \<open>
  The rule of the loop: \<open>P\<close> holds of the state while the loop reads, \<open>Q\<close> of the result and the state it
  stops with.  The texts it handles are messages of the socket.
\<close>

lemma read_loop_rule:
  assumes "P s"
    and on_text: "\<And>p s s' e. P s \<Longrightarrow> Message (Text p) \<in> set es \<Longrightarrow> h p s = (Inl e, s') \<Longrightarrow> Q (Some (Finished (Inl e))) s'"
      "\<And>p s s'. P s \<Longrightarrow> Message (Text p) \<in> set es \<Longrightarrow> h p s = (Inr None, s') \<Longrightarrow> P s'"
      "\<And>p s s' r. P s \<Longrightarrow> Message (Text p) \<in> set es \<Longrightarrow> h p s = (Inr (Some r), s') \<Longrightarrow> Q (Some (Finished (Inr r))) s'"
    and stop: "\<And>s. P s \<Longrightarrow> Q None s" "\<And>s. P s \<Longrightarrow> b \<Longrightarrow> Q (Some TimedOut) s"
      "\<And>s x. P s \<Longrightarrow> Q (Some (Finished (Inl (socket_error c x)))) s" "\<And>s. P s \<Longrightarrow> Q (Some (Finished at_end)) s"
      "\<And>s. P s \<Longrightarrow> Q (Some (Finished at_close)) s"
  shows "case read_loop b c h at_end at_close s es of (r, s', _) \<Rightarrow> Q r s'"
proof -
  have "case read_loop b c h at_end at_close s fs of (r, s', _) \<Rightarrow> Q r s'" if "P s" "set fs \<subseteq> set es" for s fs
    using that
  proof (induction "length fs" arbitrary: s fs rule: less_induct)
    case less
    consider "next_websocket_message b c fs = None"
      | r fs' where "next_websocket_message b c fs = Some (r, fs')" by force
    then show ?case
    proof cases
      case 1
      then show ?thesis
        using stop(1) [OF less.prems(1)] by (simp add: read_loop.simps [of b c h at_end at_close s fs])
    next
      case (2 r fs')
      have sub: "set fs' \<subseteq> set es" using next_message_suffix [OF 2] less.prems(2) by simp
      note IH = less.hyps [OF next_message_consumes [OF 2] _ sub]
      note unfold = read_loop.simps [of b c h at_end at_close s fs] 2
      consider (timeout) "r = Expired" | (failed) e where "r = Got (Inl e)" | (ended) "r = Got (Inr None)"
        | (message) m where "r = Got (Inr (Some m))"
        by (cases r) (auto, metis old.sum.exhaust option.exhaust)
      then show ?thesis
      proof cases
        case message
        show ?thesis
        proof (cases m)
          case (Text p)
          have mem: "Message (Text p) \<in> set es"
            using next_message_mem [OF 2 [unfolded message Text]] less.prems(2) by blast
          have again: "case read_loop b c h at_end at_close s' fs' of (r, s', _) \<Rightarrow> Q r s'"
            if "h p s = (Inr None, s')" for s'
            by (rule IH [OF on_text(2) [OF less.prems(1) mem that]])
          obtain y s' where "h p s = (y, s')" by force
          then show ?thesis
            using unfold message Text IH [OF less.prems(1)] on_text(1,3) [OF less.prems(1) mem] again
            by (cases y) (auto split: option.split)
        qed (use unfold message IH [OF less.prems(1)] stop(3,5) [OF less.prems(1)] in simp_all)
      qed (use unfold next_message_errors [OF 2] stop(2-4) [OF less.prems(1)] in auto)
    qed
  qed
  then show ?thesis using assms(1) by simp
qed

text \<open>A socket that ends makes the loop stop, with the failure of the reading, the result of the end, or earlier.\<close>

lemma read_loop_ends:
  assumes "Ended \<in> set es"
  shows "\<exists>r s' es'. read_loop b c h at_end at_close s es = (Some r, s', es') \<and>
    (Ended \<in> set es' \<or> r = Finished at_end \<or> (\<exists>e. r = Finished (Inl e)))"
  using assms
proof (induction "length es" arbitrary: s es rule: less_induct)
  case less
  from next_message_ends [OF less.prems, of b c] obtain r es'
    where read: "next_websocket_message b c es = Some (r, es')"
      and more: "Ended \<in> set es' \<or> r = Got (Inr None) \<or> (\<exists>x. r = Got (Inl (socket_error c x)))" by blast
  note IH = less.hyps [OF next_message_consumes [OF read]]
  note unfold = read_loop.simps [of b c h at_end at_close s es] read
  consider (timeout) "r = Expired" | (failed) e where "r = Got (Inl e)" | (ended) "r = Got (Inr None)"
    | (message) m where "r = Got (Inr (Some m))" "Ended \<in> set es'"
    using more by (cases r) (auto, metis old.sum.exhaust option.exhaust)
  then show ?case
  proof cases
    case message
    show ?thesis
    proof (cases m)
      case (Text p)
      obtain y s' where "h p s = (y, s')" by force
      then show ?thesis using unfold message Text IH [of s] IH [of s']
        by (cases y) (auto split: option.split)
    next
      case (Ping x)
      then show ?thesis using unfold message IH [of s] by (cases x) auto
    qed (use unfold message IH [of s] in auto)
  qed (use unfold more in auto)
qed

text \<open>In particular what the texts preserve the loop preserves.\<close>

lemma read_loop_invariant:
  assumes "P s" and "\<And>p s. P s \<Longrightarrow> P (snd (h p s))"
  shows "P (fst (snd (read_loop b c h at_end at_close s es)))"
proof -
  have keeps: "P s'" if "P s" "h p s = (r, s')" for p s r s' using assms(2) [OF that(1), of p] that(2) by simp
  have "case read_loop b c h at_end at_close s es of (r, s', _) \<Rightarrow> P s'"
    by (rule read_loop_rule [where P = P and Q = "\<lambda>_. P"]) (use assms(1) keeps in auto)
  then show ?thesis by (simp split: prod.splits)
qed

section \<open>Waiting for the subscription acknowledgements\<close>

text \<open>
  \<open>optional code arg\<close> says that an error answer stands for an acknowledgement, \<open>deliver\<close> applies a data
  message.
\<close>

record 's ack_wait =
  aw_pending :: "OkxWebsocketSubscriptionAck set"
  aw_acknowledged :: "OkxWebsocketSubscriptionAck set"
  aw_state :: 's

definition take_ack ::
    "string \<Rightarrow> OkxWebsocketSubscriptionAck \<Rightarrow> 's ack_wait \<Rightarrow> unit option res \<times> 's ack_wait" where
  "take_ack context a w =
     (case acknowledge_subscription (aw_pending w) a context of
        (Inl e, _) \<Rightarrow> (Inl (of_protocol e), w)
      | (Inr finished, pending) \<Rightarrow>
          (Inr (if finished then Some () else None),
           w\<lparr> aw_pending := pending, aw_acknowledged := insert a (aw_acknowledged w) \<rparr>))"

definition ack_step ::
    "socket_json \<Rightarrow> string \<Rightarrow> (string \<Rightarrow> OkxWebsocketSubscriptionAck option \<Rightarrow> bool) \<Rightarrow>
      (string \<Rightarrow> 's \<Rightarrow> unit res \<times> 's) \<Rightarrow> string \<Rightarrow> 's ack_wait \<Rightarrow> unit option res \<times> 's ack_wait" where
  "ack_step J context optional deliver payload w =
     (case parse_subscription_event J payload context of
        Inl e \<Rightarrow> (Inl (of_protocol e), w)
      | Inr (Acknowledged a) \<Rightarrow> take_ack context a w
      | Inr Control \<Rightarrow> (Inr None, w)
      | Inr (Data a) \<Rightarrow>
          if a \<notin> aw_acknowledged w then (Inl (of_protocol (DataBeforeSubscriptionAck context a)), w)
          else
            (case deliver payload (aw_state w) of
               (r, s) \<Rightarrow> (rbind r (\<lambda>_. Inr None), w\<lparr> aw_state := s \<rparr>))
      | Inr (Error code msg arg) \<Rightarrow>
          (case arg of
             Some a \<Rightarrow>
               if optional code arg then take_ack context a w
               else (Inl (of_protocol (SubscriptionErrorEvent context code msg arg)), w)
           | None \<Rightarrow> (Inl (of_protocol (SubscriptionErrorEvent context code msg arg)), w))
      | Inr Other \<Rightarrow> (Inl (of_protocol (NonAckTextBeforeSubscriptionAck context)), w))"

text \<open>\<open>reading\<close> is the context the reading of the socket reports with.\<close>

definition wait_for_subscription_acks ::
    "socket_json \<Rightarrow> string \<Rightarrow> string \<Rightarrow> (string \<Rightarrow> OkxWebsocketSubscriptionAck option \<Rightarrow> bool) \<Rightarrow>
      (string \<Rightarrow> 's \<Rightarrow> unit res \<times> 's) \<Rightarrow> OkxWebsocketSubscriptionAck set \<Rightarrow> 's \<Rightarrow> socket_event list \<Rightarrow>
      unit res option \<times> 's \<times> socket_event list" where
  "wait_for_subscription_acks J reading context optional deliver pending s es =
     (if pending = {} then (Some (Inr ()), s, es)
      else
        let gone = Inl (of_protocol (ClosedBeforeSubscriptionAck context)) in
        (case read_loop True reading (ack_step J context optional deliver) gone gone
                \<lparr> aw_pending = pending, aw_acknowledged = {}, aw_state = s \<rparr> es of
           (None, w, es') \<Rightarrow> (None, aw_state w, es')
         | (Some TimedOut, w, es') \<Rightarrow>
             (Some (Inl (of_protocol (TimedOutWaitingForSubscriptionAck context))), aw_state w, es')
         | (Some (Finished r), w, es') \<Rightarrow> (Some r, aw_state w, es')))"

section \<open>Sessions\<close>

text \<open>
  The state of a run: what the messages are applied to, the health events reported so far, the rest of the
  socket and whether the stream has been subscribed.  A stage of a run ends with a result or is still
  waiting.
\<close>

record 's session =
  ss_state :: 's
  ss_health :: "OkxWebsocketHealthEvent list"
  ss_events :: "socket_event list"
  ss_subscribed :: bool

type_synonym ('s, 'a) stage = "'s session \<Rightarrow> 'a res option \<times> 's session"

definition sbind :: "('s, 'a) stage \<Rightarrow> ('a \<Rightarrow> ('s, 'b) stage) \<Rightarrow> ('s, 'b) stage" where
  "sbind m f s =
     (case m s of
        (None, s') \<Rightarrow> (None, s') | (Some (Inl e), s') \<Rightarrow> (Some (Inl e), s') | (Some (Inr x), s') \<Rightarrow> f x s')"

definition slift :: "'a res \<Rightarrow> ('s, 'a) stage" where
  "slift r s = (Some r, s)"

definition sdo :: "('s \<Rightarrow> 'a res \<times> 's) \<Rightarrow> ('s, 'a) stage" where
  "sdo f s = (case f (ss_state s) of (r, x) \<Rightarrow> (Some r, s\<lparr> ss_state := x \<rparr>))"

definition sreport :: "OkxWebsocketStreamIdentity \<Rightarrow> OkxWebsocketHealthEventKind \<Rightarrow> ('s, unit) stage" where
  "sreport stream kind s = (Some (Inr ()), s\<lparr> ss_health := ss_health s @ [health_event_new kind stream] \<rparr>)"

definition smark_subscribed :: "('s, unit) stage" where
  "smark_subscribed s = (Some (Inr ()), s\<lparr> ss_subscribed := True \<rparr>)"

definition ssocket ::
    "('s \<Rightarrow> socket_event list \<Rightarrow> 'a res option \<times> 's \<times> socket_event list) \<Rightarrow> ('s, 'a) stage" where
  "ssocket f s =
     (case f (ss_state s) (ss_events s) of
        (r, x, es) \<Rightarrow> (r, s\<lparr> ss_state := x, ss_events := es \<rparr>))"

text \<open>A stage whose failure is announced: \<open>if let Err(error)\<close> with a report and the error returned.\<close>

definition sannounce ::
    "OkxWebsocketStreamIdentity \<Rightarrow> OkxWebsocketHealthEventKind \<Rightarrow> ('s, 'a) stage \<Rightarrow> ('s, 'a) stage" where
  "sannounce stream kind m s =
     (case m s of
        (Some (Inl (Fail e)), s') \<Rightarrow>
          (Some (Inl (Fail e)), s'\<lparr> ss_health := ss_health s' @ [health_event_new kind stream] \<rparr>)
      | r \<Rightarrow> r)"

text \<open>The messages of a subscribed stream: a text is applied, the end of the stream is the end of the run.\<close>

definition stream_messages ::
    "string \<Rightarrow> (string \<Rightarrow> 's \<Rightarrow> unit res \<times> 's) \<Rightarrow> 's \<Rightarrow> socket_event list \<Rightarrow>
      unit res option \<times> 's \<times> socket_event list" where
  "stream_messages context deliver s es =
     (case read_loop False context
             (\<lambda>p s. case deliver p s of (r, s') \<Rightarrow> (rbind r (\<lambda>_. Inr None), s')) (Inr ()) (Inr ()) s es of
        (None, s', es') \<Rightarrow> (None, s', es')
      | (Some TimedOut, s', es') \<Rightarrow> (None, s', es')
      | (Some (Finished r), s', es') \<Rightarrow> (Some r, s', es'))"

section \<open>The end of a run and the next one\<close>

datatype stream_run = StillRunning | TaskPanicked | RunEnded OkxWebsocketStreamRunOutcome

definition stream_outcome_kind :: "OkxWebsocketStreamRunOutcome \<Rightarrow> OkxWebsocketHealthEventKind option" where
  "stream_outcome_kind out =
     (case (so_subscribed out, so_error out) of
        (True, None) \<Rightarrow> Some StreamDisconnectedAfterSubscription
      | (True, Some _) \<Rightarrow> Some StreamFailedAfterSubscription
      | (False, Some _) \<Rightarrow> Some StreamFailedBeforeSubscription
      | (False, None) \<Rightarrow> None)"

definition report_stream_outcome ::
    "OkxWebsocketStreamIdentity \<Rightarrow> OkxWebsocketStreamRunOutcome \<Rightarrow> OkxWebsocketHealthEvent list" where
  "report_stream_outcome stream out =
     (case stream_outcome_kind out of None \<Rightarrow> [] | Some k \<Rightarrow> [health_event_new k stream])"

definition end_run ::
    "OkxWebsocketStreamIdentity \<Rightarrow> 's session \<Rightarrow> OkxWebsocketStreamRunOutcome \<Rightarrow> stream_run \<times> 's session" where
  "end_run stream s out =
     (RunEnded out, s\<lparr> ss_health := ss_health s @ report_stream_outcome stream out \<rparr>)"

definition finish_run ::
    "OkxWebsocketStreamIdentity \<Rightarrow> unit res option \<times> 's session \<Rightarrow> stream_run \<times> 's session" where
  "finish_run stream = (\<lambda>(r, s).
     case r of
       None \<Rightarrow> (StillRunning, s)
     | Some (Inr _) \<Rightarrow> end_run stream s (run_disconnected (ss_subscribed s))
     | Some (Inl (Fail e)) \<Rightarrow> end_run stream s (run_failed (ss_subscribed s) e)
     | Some (Inl Panic) \<Rightarrow> (TaskPanicked, s))"

text \<open>
  The reconnecting loop over the connections the environment offers: \<open>once\<close> is a run, \<open>after\<close> what the loop
  does to the shared state when it has ended.  The backoff of a run is slept and then updated.
\<close>

fun reconnecting ::
    "OkxWebsocketReconnectPolicy \<Rightarrow> OkxWebsocketStreamIdentity \<Rightarrow> ('c \<Rightarrow> 's session \<Rightarrow> stream_run \<times> 's session) \<Rightarrow>
      ('s \<Rightarrow> 's) \<Rightarrow> nat \<Rightarrow> nat \<Rightarrow> 'c list \<Rightarrow> 's session \<Rightarrow> stream_run \<times> 's session" where
  "reconnecting policy stream once after attempt backoff [] s = (StillRunning, s)"
| "reconnecting policy stream once after attempt backoff (c # cs) s =
     (case once c (s\<lparr> ss_subscribed := False \<rparr>) of
        (RunEnded out, s') \<Rightarrow>
          let attempt' = min (attempt + 1) u64_max in
          reconnecting policy stream once after attempt' (backoff_after_stream_run policy backoff out) cs
            (s'\<lparr> ss_state := after (ss_state s'), ss_subscribed := False,
                ss_health := ss_health s' @ [reconnect_scheduled stream attempt' backoff] \<rparr>)
      | r \<Rightarrow> r)"

end
