(* ===== verification/Order_Commands.thy ===== *)
theory Order_Commands
  imports Socket_Session
begin

text \<open>
  \<open>okx/websocket/trading.rs\<close>: the order commands of the WebSocket session and their acknowledgements.

  A command is the record that is serialized; its fields are strings and one integer, so serializing it
  cannot fail.  Parsing is a parameter (\<open>order_json\<close>): the \<open>op\<close> of a text frame read as a JSON value, and
  the response read from that value or from the text itself.
\<close>

definition OKX_WEBSOCKET_ORDER_OP :: string where "OKX_WEBSOCKET_ORDER_OP = ''order''"
definition OKX_WEBSOCKET_AMEND_ORDER_OP :: string where "OKX_WEBSOCKET_AMEND_ORDER_OP = ''amend-order''"
definition OKX_WEBSOCKET_CANCEL_ORDER_OP :: string where "OKX_WEBSOCKET_CANCEL_ORDER_OP = ''cancel-order''"
definition OKX_WEBSOCKET_REQUEST_ID_MAX_LEN :: nat where "OKX_WEBSOCKET_REQUEST_ID_MAX_LEN = 32"
definition WEBSOCKET_CLIENT_ORDER_ID_MAX_LEN :: nat where "WEBSOCKET_CLIENT_ORDER_ID_MAX_LEN = 32"
definition OKX_ORDER_TAG_MAX_LEN :: nat where "OKX_ORDER_TAG_MAX_LEN = 16"
definition OKX_WEBSOCKET_ACK_TRACKER_MAX_IDS :: nat where "OKX_WEBSOCKET_ACK_TRACKER_MAX_IDS = 256"
definition OKX_PRICE_AMEND_TYPE_REJECT :: string where "OKX_PRICE_AMEND_TYPE_REJECT = ''0''"

section \<open>Data\<close>

datatype OkxWebsocketOrderOperation = PlaceOrderOp | AmendOrderOp | CancelOrderOp

definition operation_as_okx :: "OkxWebsocketOrderOperation \<Rightarrow> string" where
  "operation_as_okx p =
     (case p of
        PlaceOrderOp \<Rightarrow> OKX_WEBSOCKET_ORDER_OP
      | AmendOrderOp \<Rightarrow> OKX_WEBSOCKET_AMEND_ORDER_OP
      | CancelOrderOp \<Rightarrow> OKX_WEBSOCKET_CANCEL_ORDER_OP)"

record OkxWebsocketPlaceOrder =
  wp_id :: string
  wp_inst_id_code :: nat
  wp_exp_time :: string
  wp_side :: OrderSide
  wp_kind :: OrderKind
  wp_size :: string
  wp_price :: "string option"
  wp_td_mode :: string
  wp_trade_quote_currency :: string
  wp_client_order_id :: string
  wp_tag :: string

record OkxWebsocketAmendOrder =
  wa_id :: string
  wa_inst_id_code :: nat
  wa_exp_time :: string
  wa_client_order_id :: string
  wa_request_id :: string
  wa_new_size :: "string option"
  wa_new_price :: "string option"

record OkxWebsocketCancelOrder =
  wk_id :: string
  wk_inst_id_code :: nat
  wk_client_order_id :: string

record OkxWebsocketExpectedOrderAck =
  xa_id :: string
  xa_operation :: OkxWebsocketOrderOperation
  xa_client_order_id :: string
  xa_request_id :: "string option"

record OkxWebsocketOrderAckRow =
  wr_order_id :: string
  wr_client_order_id :: string
  wr_request_id :: string
  wr_status_code :: string
  wr_status_message :: string
  wr_status_sub_code :: string

record OkxWebsocketOrderCommandResponse =
  wn_id :: string
  wn_op :: string
  wn_code :: string
  wn_msg :: string
  wn_data :: "OkxWebsocketOrderAckRow list"
  wn_in_time :: string
  wn_out_time :: string

record order_json =
  oj_op :: "string \<Rightarrow> string option option"
  oj_value_response :: "string \<Rightarrow> OkxWebsocketOrderCommandResponse option"
  oj_response :: "string \<Rightarrow> OkxWebsocketOrderCommandResponse option"

section \<open>Checks\<close>

definition ensure_trimmed_non_empty :: "string \<Rightarrow> string \<Rightarrow> unit res" where
  "ensure_trimmed_non_empty label v =
     rbind (require (\<not> blank v) label ''must not be empty'') (\<lambda>_.
     require (v = trim v) label ''must be trimmed'')"

definition ensure_ascii_alphanumeric :: "string \<Rightarrow> string \<Rightarrow> unit res" where
  "ensure_ascii_alphanumeric label v =
     require (list_all is_ascii_alphanumeric v) label ''must be ASCII alphanumeric''"

definition ensure_inst_id_code :: "nat \<Rightarrow> unit res" where
  "ensure_inst_id_code code = require (code > 0) ''OKX WebSocket instIdCode'' ''must be positive''"

definition ensure_request_id :: "string \<Rightarrow> string \<Rightarrow> unit res" where
  "ensure_request_id v label =
     rbind (ensure_trimmed_non_empty label v) (\<lambda>_.
     rbind (ensure_ascii_alphanumeric label v) (\<lambda>_.
     require (length v \<le> OKX_WEBSOCKET_REQUEST_ID_MAX_LEN) label ''is too long''))"

definition ensure_client_order_id :: "string \<Rightarrow> unit res" where
  "ensure_client_order_id v =
     rbind (ensure_trimmed_non_empty ''OKX WebSocket clOrdId'' v) (\<lambda>_.
     rbind (ensure_ascii_alphanumeric ''OKX WebSocket clOrdId'' v) (\<lambda>_.
     require (length v \<le> WEBSOCKET_CLIENT_ORDER_ID_MAX_LEN) ''OKX WebSocket clOrdId'' ''is too long''))"

definition ensure_order_tag :: "string \<Rightarrow> unit res" where
  "ensure_order_tag v =
     rbind (ensure_trimmed_non_empty ''OKX WebSocket order tag'' v) (\<lambda>_.
     require (length v \<le> OKX_ORDER_TAG_MAX_LEN) ''OKX WebSocket order tag'' ''is too long'')"

definition ensure_order_exp_time :: "string \<Rightarrow> unit res" where
  "ensure_order_exp_time v =
     rbind (ensure_trimmed_non_empty ''OKX WebSocket order expTime'' v) (\<lambda>_.
     require (list_all is_ascii_digit v) ''OKX WebSocket order expTime''
       ''must be an unsigned millisecond timestamp'')"

section \<open>Commands\<close>

record OkxWebsocketPlaceOrderArg =
  pg_inst_id_code :: nat
  pg_td_mode :: string
  pg_side :: string
  pg_order_type :: string
  pg_sz :: string
  pg_price :: string
  pg_price_amend_type :: string
  pg_trade_quote_currency :: string
  pg_tag :: string
  pg_client_order_id :: string

record OkxWebsocketAmendOrderArg =
  ag_inst_id_code :: nat
  ag_client_order_id :: string
  ag_request_id :: string
  ag_new_size :: "string option"
  ag_new_price :: "string option"
  ag_price_amend_type :: string

record OkxWebsocketCancelOrderArg =
  kg_inst_id_code :: nat
  kg_client_order_id :: string

datatype order_command_arg =
    PlaceArg OkxWebsocketPlaceOrderArg | AmendArg OkxWebsocketAmendOrderArg | CancelArg OkxWebsocketCancelOrderArg

datatype OkxWebsocketCommandExpiry = NoExpiry | ExpTime string

record OkxWebsocketCommand =
  wc_id :: string
  wc_op :: string
  wc_exp_time :: "string option"
  wc_arg :: order_command_arg

definition command_json ::
    "string \<Rightarrow> string \<Rightarrow> OkxWebsocketCommandExpiry \<Rightarrow> order_command_arg \<Rightarrow> OkxWebsocketCommand" where
  "command_json rid op expiry arg =
     \<lparr> wc_id = rid, wc_op = op,
       wc_exp_time = (case expiry of NoExpiry \<Rightarrow> None | ExpTime t \<Rightarrow> Some t), wc_arg = arg \<rparr>"

definition place_order_command_json :: "OkxWebsocketPlaceOrder \<Rightarrow> OkxWebsocketCommand res" where
  "place_order_command_json q =
     rbind (ensure_request_id (wp_id q) ''OKX WebSocket order id'') (\<lambda>_.
     rbind (ensure_inst_id_code (wp_inst_id_code q)) (\<lambda>_.
     rbind (ensure_order_exp_time (wp_exp_time q)) (\<lambda>_.
     rbind (ensure_client_order_id (wp_client_order_id q)) (\<lambda>_.
     rbind (ensure_trimmed_non_empty ''OKX WebSocket order size'' (wp_size q)) (\<lambda>_.
     rbind (ensure_trimmed_non_empty ''OKX WebSocket order tradeQuoteCcy'' (wp_trade_quote_currency q)) (\<lambda>_.
     rbind (require (wp_td_mode q = ''cash'') ''OKX WebSocket order tdMode'' ''must be validated cash'') (\<lambda>_.
     rbind (ensure_order_tag (wp_tag q)) (\<lambda>_.
     rbind (require (wp_kind q = Limit \<or> wp_kind q = PostOnly) ''OKX WebSocket place order''
              ''supports only limit or post-only orders'') (\<lambda>_.
     rbind (ok_or (Fail (Bad ''OKX WebSocket limit/post-only order'' ''requires px'')) (wp_price q)) (\<lambda>price.
     rbind (ensure_trimmed_non_empty ''OKX WebSocket order price'' price) (\<lambda>_.
     Inr (command_json (wp_id q) (operation_as_okx PlaceOrderOp) (ExpTime (wp_exp_time q))
            (PlaceArg
              \<lparr> pg_inst_id_code = wp_inst_id_code q, pg_td_mode = wp_td_mode q,
                pg_side = side_as_okx (wp_side q), pg_order_type = kind_as_okx (wp_kind q),
                pg_sz = wp_size q, pg_price = price, pg_price_amend_type = OKX_PRICE_AMEND_TYPE_REJECT,
                pg_trade_quote_currency = wp_trade_quote_currency q, pg_tag = wp_tag q,
                pg_client_order_id = wp_client_order_id q \<rparr>)))))))))))))"

definition ensure_some :: "string \<Rightarrow> string option \<Rightarrow> unit res" where
  "ensure_some label v = (case v of None \<Rightarrow> Inr () | Some s \<Rightarrow> ensure_trimmed_non_empty label s)"

definition amend_order_command_json :: "OkxWebsocketAmendOrder \<Rightarrow> OkxWebsocketCommand res" where
  "amend_order_command_json q =
     rbind (ensure_request_id (wa_id q) ''OKX WebSocket amend order id'') (\<lambda>_.
     rbind (ensure_request_id (wa_request_id q) ''OKX WebSocket amend request id'') (\<lambda>_.
     rbind (ensure_inst_id_code (wa_inst_id_code q)) (\<lambda>_.
     rbind (ensure_order_exp_time (wa_exp_time q)) (\<lambda>_.
     rbind (ensure_client_order_id (wa_client_order_id q)) (\<lambda>_.
     rbind (require (wa_new_size q \<noteq> None \<or> wa_new_price q \<noteq> None) ''OKX WebSocket amend order''
              ''requires newSz or newPx'') (\<lambda>_.
     rbind (ensure_some ''OKX WebSocket amend newSz'' (wa_new_size q)) (\<lambda>_.
     rbind (ensure_some ''OKX WebSocket amend newPx'' (wa_new_price q)) (\<lambda>_.
     Inr (command_json (wa_id q) (operation_as_okx AmendOrderOp) (ExpTime (wa_exp_time q))
            (AmendArg
              \<lparr> ag_inst_id_code = wa_inst_id_code q, ag_client_order_id = wa_client_order_id q,
                ag_request_id = wa_request_id q, ag_new_size = wa_new_size q, ag_new_price = wa_new_price q,
                ag_price_amend_type = OKX_PRICE_AMEND_TYPE_REJECT \<rparr>))))))))))"

definition cancel_order_command_json :: "OkxWebsocketCancelOrder \<Rightarrow> OkxWebsocketCommand res" where
  "cancel_order_command_json q =
     rbind (ensure_request_id (wk_id q) ''OKX WebSocket cancel order id'') (\<lambda>_.
     rbind (ensure_inst_id_code (wk_inst_id_code q)) (\<lambda>_.
     rbind (ensure_client_order_id (wk_client_order_id q)) (\<lambda>_.
     Inr (command_json (wk_id q) (operation_as_okx CancelOrderOp) NoExpiry
            (CancelArg
              \<lparr> kg_inst_id_code = wk_inst_id_code q, kg_client_order_id = wk_client_order_id q \<rparr>)))))"

section \<open>Acknowledgements\<close>

definition parse_command_response :: "order_json \<Rightarrow> string \<Rightarrow> OkxWebsocketOrderCommandResponse option res" where
  "parse_command_response J payload =
     rbind (ok_or (Fail (Bad ''OKX WebSocket trading command'' ''failed parsing text frame'')) (oj_op J payload)) (\<lambda>op.
     if op \<notin> {Some OKX_WEBSOCKET_ORDER_OP, Some OKX_WEBSOCKET_AMEND_ORDER_OP, Some OKX_WEBSOCKET_CANCEL_ORDER_OP}
     then Inr None
     else rbind (ok_or (Fail (Bad ''OKX WebSocket trading command'' ''failed parsing acknowledgement''))
                  (oj_value_response J payload)) (\<lambda>r. Inr (Some r)))"

definition parse_order_command_ack ::
    "order_json \<Rightarrow> string \<Rightarrow> OkxWebsocketExpectedOrderAck \<Rightarrow> OkxOrderAck res" where
  "parse_order_command_ack J payload x =
     (let context = ''OKX WebSocket acknowledgement'' in
     rbind (ensure_request_id (xa_id x) ''OKX WebSocket expected acknowledgement id'') (\<lambda>_.
     rbind (ensure_client_order_id (xa_client_order_id x)) (\<lambda>_.
     rbind (ok_or (Fail (Bad context ''failed parsing'')) (oj_response J payload)) (\<lambda>r.
     rbind (require (wn_id r = xa_id x) context ''id did not match requested'') (\<lambda>_.
     rbind (require (wn_op r = operation_as_okx (xa_operation x)) context ''op did not match expected'') (\<lambda>_.
     rbind (require (wn_code r = ''0'' \<or> wn_data r \<noteq> []) context ''rejected'') (\<lambda>_.
     rbind (require (length (wn_data r) = 1) context ''returned a wrong number of rows'') (\<lambda>_.
     let row = hd (wn_data r) in
     rbind (case xa_request_id x of
              None \<Rightarrow> Inr ()
            | Some rid \<Rightarrow> require (wr_request_id row = rid) context ''returned another reqId'') (\<lambda>_.
     rbind (if blank (wr_client_order_id row)
            then Inr (row\<lparr> wr_client_order_id := xa_client_order_id x \<rparr>)
            else rbind (require (wr_client_order_id row = xa_client_order_id x) context
                   ''returned another clOrdId'') (\<lambda>_. Inr row)) (\<lambda>row.
     rbind (require (wr_status_code row = ''0'') context ''rejected'') (\<lambda>_.
     rbind (require (wn_code r = ''0'') context ''rejected'') (\<lambda>_.
     rbind (require (\<not> blank (wr_order_id row)) context ''omitted ordId'') (\<lambda>_.
     Inr \<lparr> ak_order_id = wr_order_id row, ak_client_order_id = wr_client_order_id row,
           ak_status_code = wr_status_code row, ak_status_message = wr_status_message row,
           ak_status_sub_code = wr_status_sub_code row, ak_timestamp = [] \<rparr>)))))))))))))"

section \<open>The acknowledgement tracker\<close>

datatype OkxWebsocketAckRecord = FirstSeen | Duplicate

record OkxWebsocketAckTracker =
  at_seen_request_ids :: "string set"
  at_insertion_order :: "string list"

definition ack_tracker_default :: OkxWebsocketAckTracker where
  "ack_tracker_default = \<lparr> at_seen_request_ids = {}, at_insertion_order = [] \<rparr>"

text \<open>\<open>while self.insertion_order.len() > OKX_WEBSOCKET_ACK_TRACKER_MAX_IDS\<close>.\<close>

fun evict_request_ids :: "string set \<Rightarrow> string list \<Rightarrow> OkxWebsocketAckTracker" where
  "evict_request_ids seen [] = \<lparr> at_seen_request_ids = seen, at_insertion_order = [] \<rparr>"
| "evict_request_ids seen (rid # ids) =
     (if length (rid # ids) > OKX_WEBSOCKET_ACK_TRACKER_MAX_IDS then evict_request_ids (seen - {rid}) ids
      else \<lparr> at_seen_request_ids = seen, at_insertion_order = rid # ids \<rparr>)"

definition ack_tracker_record ::
    "string \<Rightarrow> OkxWebsocketAckTracker \<Rightarrow> OkxWebsocketAckRecord res \<times> OkxWebsocketAckTracker" where
  "ack_tracker_record request_id t =
     (case ensure_request_id request_id ''OKX WebSocket acknowledgement id'' of
        Inl e \<Rightarrow> (Inl e, t)
      | Inr _ \<Rightarrow>
          if request_id \<in> at_seen_request_ids t then (Inr Duplicate, t)
          else (Inr FirstSeen,
                evict_request_ids (insert request_id (at_seen_request_ids t)) (at_insertion_order t @ [request_id])))"

section \<open>Lemmas\<close>

definition ack_tracker_ok :: "OkxWebsocketAckTracker \<Rightarrow> bool" where
  "ack_tracker_ok t =
     (distinct (at_insertion_order t) \<and> at_seen_request_ids t = set (at_insertion_order t) \<and>
      length (at_insertion_order t) \<le> OKX_WEBSOCKET_ACK_TRACKER_MAX_IDS)"

lemma ack_tracker_default_ok: "ack_tracker_ok ack_tracker_default"
  by (simp add: ack_tracker_ok_def ack_tracker_default_def)

lemma evict_request_ids_window:
  assumes "distinct ids"
  shows "evict_request_ids (set ids) ids =
    (let kept = drop (length ids - OKX_WEBSOCKET_ACK_TRACKER_MAX_IDS) ids in
     \<lparr> at_seen_request_ids = set kept, at_insertion_order = kept \<rparr>)"
  using assms
proof (induction ids)
  case Nil
  then show ?case by simp
next
  case (Cons i ids)
  then have "set (i # ids) - {i} = set ids" by auto
  with Cons show ?case by (auto simp: Let_def Suc_diff_le not_less)
qed

text \<open>The window of the latest identifiers, which is what the tracker remembers.\<close>

definition window_push :: "string \<Rightarrow> string list \<Rightarrow> string list" where
  "window_push rid w =
     (if rid \<in> set w then w
      else drop (length w + 1 - OKX_WEBSOCKET_ACK_TRACKER_MAX_IDS) (w @ [rid]))"

lemma window_push_ok:
  assumes "distinct w" and "length w \<le> OKX_WEBSOCKET_ACK_TRACKER_MAX_IDS"
  shows "distinct (window_push rid w) \<and> length (window_push rid w) \<le> OKX_WEBSOCKET_ACK_TRACKER_MAX_IDS"
  using assms by (auto simp: window_push_def OKX_WEBSOCKET_ACK_TRACKER_MAX_IDS_def dest: in_set_dropD)

lemma ack_tracker_record_window:
  assumes ok: "ack_tracker_ok t" and valid: "ensure_request_id rid ''OKX WebSocket acknowledgement id'' = Inr ()"
  shows "ack_tracker_record rid t =
    (Inr (if rid \<in> set (at_insertion_order t) then Duplicate else FirstSeen),
     let w = window_push rid (at_insertion_order t) in
     \<lparr> at_seen_request_ids = set w, at_insertion_order = w \<rparr>)"
proof (cases "rid \<in> set (at_insertion_order t)")
  case True
  with ok valid show ?thesis
    by (cases t) (auto simp: ack_tracker_record_def ack_tracker_ok_def window_push_def)
next
  case False
  then have "distinct (at_insertion_order t @ [rid])" using ok by (simp add: ack_tracker_ok_def)
  from evict_request_ids_window [OF this] False ok valid show ?thesis
    by (auto simp: ack_tracker_record_def ack_tracker_ok_def window_push_def)
qed

lemma ack_tracker_record_ok:
  assumes "ack_tracker_ok t"
  shows "ack_tracker_ok (snd (ack_tracker_record rid t))"
proof (cases "ensure_request_id rid ''OKX WebSocket acknowledgement id''")
  case (Inr u)
  with assms window_push_ok [of "at_insertion_order t" rid] show ?thesis
    by (simp add: ack_tracker_record_window ack_tracker_ok_def Let_def)
qed (use assms in \<open>simp add: ack_tracker_record_def\<close>)

lemma parse_order_command_ack_Inr:
  assumes "parse_order_command_ack J payload x = Inr ack"
  shows "ak_client_order_id ack = xa_client_order_id x \<and> ak_status_code ack = ''0'' \<and> \<not> blank (ak_order_id ack) \<and>
    (\<exists>r row. oj_response J payload = Some r \<and> wn_id r = xa_id x \<and> wn_code r = ''0'' \<and> wn_data r = [row] \<and>
       wn_op r = operation_as_okx (xa_operation x) \<and> wr_order_id row = ak_order_id ack \<and>
       (\<forall>rid. xa_request_id x = Some rid \<longrightarrow> wr_request_id row = rid))"
  using assms
  by (auto simp: parse_order_command_ack_def Let_def res_simps length_Suc_conv split: if_splits option.splits)

lemmas command_checks =
  ensure_request_id_def ensure_client_order_id_def ensure_order_tag_def ensure_order_exp_time_def
  ensure_trimmed_non_empty_def ensure_ascii_alphanumeric_def ensure_inst_id_code_def ensure_some_def

end
