(* ===== verification/Order_Session.thy ===== *)
theory Order_Session
  imports Order_Commands Stream_Config
begin

text \<open>
  \<open>okx/websocket/trading_session.rs\<close>: the logged-in session that sends one order command at a time and
  waits for its acknowledgement.

  The socket is what happens on it, with the time at which it happens: frames and failures of reading, and
  \<open>Deadline\<close> where the time-out of the wait in progress fires.  \<open>Silence\<close> means nothing here, since this
  session measures idleness itself when a command comes.  \<open>os_sends\<close> says how each sending of the session
  (a command or an idle ping) goes.  A list that has ended leaves the session waiting, which is \<open>None\<close>.
\<close>

definition DEFAULT_ACK_TIMEOUT :: nat where "DEFAULT_ACK_TIMEOUT = 5000000000"
definition DEFAULT_IDLE_PING_AFTER :: nat where "DEFAULT_IDLE_PING_AFTER = 25000000000"

section \<open>Configuration\<close>

record OkxWebsocketTradingCommandConfig =
  oc_url :: string
  oc_credentials :: OkxPrivateStreamCredentials
  oc_ack_timeout :: nat

text \<open>\<open>OkxWebsocketTradingCommandCredentials\<close> has the three fields of the stream credentials.\<close>

definition trading_command_credentials_new :: "string \<Rightarrow> string \<Rightarrow> string \<Rightarrow> OkxPrivateStreamCredentials res" where
  "trading_command_credentials_new key secret passphrase =
     rbind (validate_websocket_login_credential ''OKX WebSocket trading command api_key'' key) (\<lambda>_.
     rbind (validate_websocket_login_credential ''OKX WebSocket trading command api_secret'' secret) (\<lambda>_.
     rbind (validate_websocket_login_credential ''OKX WebSocket trading command api_passphrase'' passphrase) (\<lambda>_.
     Inr \<lparr> cr_api_key = key, cr_api_secret = secret, cr_api_passphrase = passphrase \<rparr>)))"

definition with_ack_timeout ::
    "string \<Rightarrow> OkxPrivateStreamCredentials \<Rightarrow> nat \<Rightarrow> OkxWebsocketTradingCommandConfig res" where
  "with_ack_timeout url credentials ack_timeout =
     rbind (require (\<not> blank url) ''OKX WebSocket trading command URL'' ''must not be empty'') (\<lambda>_.
     rbind (require (ack_timeout \<noteq> 0) ''OKX WebSocket trading command acknowledgement timeout'' ''must be non-zero'') (\<lambda>_.
     Inr \<lparr> oc_url = url, oc_credentials = credentials, oc_ack_timeout = ack_timeout \<rparr>))"

section \<open>Reading\<close>

type_synonym timed_events = "(nat \<times> socket_event) list"

definition command_error :: "string \<Rightarrow> rt_error fault" where
  "command_error reason = Fail (Bad ''OKX WebSocket trading command'' reason)"

text \<open>
  The loop the three waits share: a frame is handled with the time it was received, a ping is answered, and
  the wait ends with its result or with the time-out.  \<open>gone\<close> is the error of a close frame.
\<close>

definition frame_error :: "rt_error fault \<Rightarrow> ws_message \<Rightarrow> rt_error fault option" where
  "frame_error gone m =
     (case m of
        Close \<Rightarrow> Some gone
      | Ping ok \<Rightarrow> if ok then None else Some (command_error ''failed replying to ping'')
      | _ \<Rightarrow> None)"

fun read_frames ::
    "rt_error fault \<Rightarrow> rt_error fault \<Rightarrow> (nat \<Rightarrow> ws_message \<Rightarrow> 's \<Rightarrow> 'r option res \<times> 's) \<Rightarrow> 's \<Rightarrow> timed_events \<Rightarrow>
      'r loop_end option \<times> 's \<times> timed_events" where
  "read_frames ended gone handle s [] = (None, s, [])"
| "read_frames ended gone handle s ((t, e) # es) =
     (case e of
        Deadline \<Rightarrow> (Some TimedOut, s, es)
      | Silence _ \<Rightarrow> read_frames ended gone handle s es
      | Ended \<Rightarrow> (Some (Finished (Inl ended)), s, es)
      | ReadFailed \<Rightarrow> (Some (Finished (Inl (command_error ''failed reading message''))), s, es)
      | Message m \<Rightarrow>
          (case handle t m s of
             (Inl e, s') \<Rightarrow> (Some (Finished (Inl e)), s', es)
           | (Inr (Some r), s') \<Rightarrow> (Some (Finished (Inr r)), s', es)
           | (Inr None, s') \<Rightarrow>
               (case frame_error gone m of
                  Some e \<Rightarrow> (Some (Finished (Inl e)), s', es)
                | None \<Rightarrow> read_frames ended gone handle s' es)))"

definition wait_for_login_ack :: "socket_json \<Rightarrow> timed_events \<Rightarrow> unit res option \<times> timed_events" where
  "wait_for_login_ack J es =
     (case read_frames (command_error ''stream closed before login'')
             (of_protocol (ClosedBeforeLoginAck ''trading command''))
             (\<lambda>_ m s. case m of
                Text p \<Rightarrow>
                  (case parse_login_ack J p ''trading command'' of
                     Inl e \<Rightarrow> (Inl (of_protocol e), s)
                   | Inr done \<Rightarrow> (Inr (if done then Some () else None), s))
              | _ \<Rightarrow> (Inr None, s)) () es of
        (None, _, es') \<Rightarrow> (None, es')
      | (Some TimedOut, _, es') \<Rightarrow> (Some (Inl (of_protocol (TimedOutWaitingForLoginAck ''trading command''))), es')
      | (Some (Finished r), _, es') \<Rightarrow> (Some r, es'))"

section \<open>The session\<close>

record OkxWebsocketTradingCommandSession =
  os_events :: timed_events
  os_sends :: "bool list"
  os_sent :: "OkxWebsocketCommand list"
  os_ack_tracker :: OkxWebsocketAckTracker
  os_ack_timeout :: nat
  os_idle_ping_after :: nat
  os_last_received_at :: nat

text \<open>\<open>os_sent\<close> holds the commands whose sending succeeded, latest first.\<close>

datatype OkxWebsocketCommandError = NotSent "rt_error fault" | Ambiguous "rt_error fault"

text \<open>A connection the environment offers: how connecting and sending the login go, and its socket.\<close>

record order_connection =
  on_connect :: "unit res"
  on_send_login :: "unit res"
  on_events :: timed_events
  on_sends :: "bool list"
  on_connected_at :: nat

definition session_connect ::
    "socket_json \<Rightarrow> (string \<Rightarrow> string \<Rightarrow> string) \<Rightarrow> OkxWebsocketTradingCommandConfig \<Rightarrow> string \<Rightarrow> order_connection \<Rightarrow>
      OkxWebsocketTradingCommandSession res option" where
  "session_connect J hmac c login_timestamp conn =
     (case rbind (on_connect conn) (\<lambda>_.
             rbind (login_request_at hmac (oc_credentials c) login_timestamp) (\<lambda>_. on_send_login conn)) of
        Inl e \<Rightarrow> Some (Inl e)
      | Inr _ \<Rightarrow>
          (case wait_for_login_ack J (on_events conn) of
             (None, _) \<Rightarrow> None
           | (Some (Inl e), _) \<Rightarrow> Some (Inl e)
           | (Some (Inr _), es) \<Rightarrow>
               Some (Inr \<lparr> os_events = es, os_sends = on_sends conn, os_sent = [],
                           os_ack_tracker = ack_tracker_default, os_ack_timeout = oc_ack_timeout c,
                           os_idle_ping_after = DEFAULT_IDLE_PING_AFTER,
                           os_last_received_at = on_connected_at conn \<rparr>)))"

definition take_send :: "OkxWebsocketTradingCommandSession \<Rightarrow> (bool \<times> OkxWebsocketTradingCommandSession) option" where
  "take_send s = (case os_sends s of [] \<Rightarrow> None | ok # sends \<Rightarrow> Some (ok, s\<lparr> os_sends := sends \<rparr>))"

definition received :: "nat \<Rightarrow> OkxWebsocketTradingCommandSession \<Rightarrow> OkxWebsocketTradingCommandSession" where
  "received t s = s\<lparr> os_last_received_at := t \<rparr>"

definition pong_step ::
    "nat \<Rightarrow> ws_message \<Rightarrow> OkxWebsocketTradingCommandSession \<Rightarrow> unit option res \<times> OkxWebsocketTradingCommandSession" where
  "pong_step t m s = (Inr (if m = Text OKX_WEBSOCKET_TEXT_PONG \<or> m = Pong then Some () else None), received t s)"

text \<open>Reading on the session's own socket; the events left over are its socket afterwards.\<close>

definition on_socket ::
    "string \<Rightarrow> (nat \<Rightarrow> ws_message \<Rightarrow> OkxWebsocketTradingCommandSession \<Rightarrow>
        'r option res \<times> OkxWebsocketTradingCommandSession) \<Rightarrow>
      OkxWebsocketTradingCommandSession \<Rightarrow> 'r loop_end option \<times> OkxWebsocketTradingCommandSession" where
  "on_socket gone handle s =
     (case read_frames (command_error ''stream closed before acknowledgement'') (command_error gone) handle s (os_events s) of
        (r, s', es) \<Rightarrow> (r, s'\<lparr> os_events := es \<rparr>))"

definition wait_for_text_pong ::
    "OkxWebsocketTradingCommandSession \<Rightarrow> unit loop_end option \<times> OkxWebsocketTradingCommandSession" where
  "wait_for_text_pong = on_socket ''stream closed before idle pong'' pong_step"

definition ensure_idle_connection ::
    "nat \<Rightarrow> OkxWebsocketTradingCommandSession \<Rightarrow> unit res option \<times> OkxWebsocketTradingCommandSession" where
  "ensure_idle_connection now s =
     (if now - os_last_received_at s < os_idle_ping_after s then (Some (Inr ()), s)
      else
        (case take_send s of
           None \<Rightarrow> (None, s)
         | Some (False, s') \<Rightarrow> (Some (Inl (command_error ''failed sending idle ping'')), s')
         | Some (True, s') \<Rightarrow>
             (case wait_for_text_pong s' of
                (None, s'') \<Rightarrow> (None, s'')
              | (Some TimedOut, s'') \<Rightarrow> (Some (Inl (command_error ''timed out waiting for idle pong'')), s'')
              | (Some (Finished r), s'') \<Rightarrow> (Some r, s''))))"

definition handle_text_ack ::
    "order_json \<Rightarrow> OkxWebsocketExpectedOrderAck \<Rightarrow> string \<Rightarrow> OkxWebsocketTradingCommandSession \<Rightarrow>
      OkxOrderAck option res \<times> OkxWebsocketTradingCommandSession" where
  "handle_text_ack J x payload s =
     (case parse_command_response J payload of
        Inl e \<Rightarrow> (Inl e, s)
      | Inr None \<Rightarrow> (Inr None, s)
      | Inr (Some response) \<Rightarrow>
          (case ack_tracker_record (wn_id response) (os_ack_tracker s) of
             (Inl e, t) \<Rightarrow> (Inl e, s\<lparr> os_ack_tracker := t \<rparr>)
           | (Inr seen, t) \<Rightarrow>
               (if wn_id response \<noteq> xa_id x \<or> seen = Duplicate then Inr None
                else rbind (parse_order_command_ack J payload x) (\<lambda>ack. Inr (Some ack)),
                s\<lparr> os_ack_tracker := t \<rparr>)))"

definition command_ack_step ::
    "order_json \<Rightarrow> OkxWebsocketExpectedOrderAck \<Rightarrow> nat \<Rightarrow> ws_message \<Rightarrow> OkxWebsocketTradingCommandSession \<Rightarrow>
      OkxOrderAck option res \<times> OkxWebsocketTradingCommandSession" where
  "command_ack_step J x t m s =
     (case m of
        Text p \<Rightarrow> if p = OKX_WEBSOCKET_TEXT_PONG then (Inr None, received t s)
                  else handle_text_ack J x p (received t s)
      | _ \<Rightarrow> (Inr None, received t s))"

definition read_ack ::
    "order_json \<Rightarrow> OkxWebsocketExpectedOrderAck \<Rightarrow> OkxWebsocketTradingCommandSession \<Rightarrow>
      OkxOrderAck loop_end option \<times> OkxWebsocketTradingCommandSession" where
  "read_ack J x = on_socket ''stream closed before acknowledgement'' (command_ack_step J x)"

definition send_command ::
    "order_json \<Rightarrow> nat \<Rightarrow> OkxWebsocketCommand \<Rightarrow> OkxWebsocketExpectedOrderAck \<Rightarrow> OkxWebsocketTradingCommandSession \<Rightarrow>
      (OkxWebsocketCommandError + OkxOrderAck) option \<times> OkxWebsocketTradingCommandSession" where
  "send_command J now command x s =
     (case ensure_idle_connection now s of
        (None, s) \<Rightarrow> (None, s)
      | (Some (Inl e), s) \<Rightarrow> (Some (Inl (NotSent e)), s)
      | (Some (Inr _), s) \<Rightarrow>
          (case take_send s of
             None \<Rightarrow> (None, s)
           | Some (False, s) \<Rightarrow> (Some (Inl (NotSent (command_error ''failed sending command''))), s)
           | Some (True, s) \<Rightarrow>
               (case read_ack J x (s\<lparr> os_sent := command # os_sent s \<rparr>) of
                  (None, s) \<Rightarrow> (None, s)
                | (Some TimedOut, s) \<Rightarrow>
                    (Some (Inl (Ambiguous (command_error ''timed out waiting for acknowledgement''))), s)
                | (Some (Finished r), s) \<Rightarrow> (Some (map_err Ambiguous r), s))))"

definition send_prepared ::
    "order_json \<Rightarrow> nat \<Rightarrow> OkxWebsocketCommand res \<Rightarrow> OkxWebsocketExpectedOrderAck \<Rightarrow> OkxWebsocketTradingCommandSession \<Rightarrow>
      (OkxWebsocketCommandError + OkxOrderAck) option \<times> OkxWebsocketTradingCommandSession" where
  "send_prepared J now command x s =
     (case command of Inl e \<Rightarrow> (Some (Inl (NotSent e)), s) | Inr c \<Rightarrow> send_command J now c x s)"

definition session_place_order ::
    "order_json \<Rightarrow> nat \<Rightarrow> OkxWebsocketPlaceOrder \<Rightarrow> OkxWebsocketTradingCommandSession \<Rightarrow>
      (OkxWebsocketCommandError + OkxOrderAck) option \<times> OkxWebsocketTradingCommandSession" where
  "session_place_order J now q =
     send_prepared J now (place_order_command_json q)
       \<lparr> xa_id = wp_id q, xa_operation = PlaceOrderOp, xa_client_order_id = wp_client_order_id q,
         xa_request_id = None \<rparr>"

definition session_amend_order ::
    "order_json \<Rightarrow> nat \<Rightarrow> OkxWebsocketAmendOrder \<Rightarrow> OkxWebsocketTradingCommandSession \<Rightarrow>
      (OkxWebsocketCommandError + OkxOrderAck) option \<times> OkxWebsocketTradingCommandSession" where
  "session_amend_order J now q =
     send_prepared J now (amend_order_command_json q)
       \<lparr> xa_id = wa_id q, xa_operation = AmendOrderOp, xa_client_order_id = wa_client_order_id q,
         xa_request_id = Some (wa_request_id q) \<rparr>"

definition session_cancel_order ::
    "order_json \<Rightarrow> nat \<Rightarrow> OkxWebsocketCancelOrder \<Rightarrow> OkxWebsocketTradingCommandSession \<Rightarrow>
      (OkxWebsocketCommandError + OkxOrderAck) option \<times> OkxWebsocketTradingCommandSession" where
  "session_cancel_order J now q =
     send_prepared J now (cancel_order_command_json q)
       \<lparr> xa_id = wk_id q, xa_operation = CancelOrderOp, xa_client_order_id = wk_client_order_id q,
         xa_request_id = None \<rparr>"

section \<open>Lemmas\<close>

lemma take_send_Some:
  assumes "take_send s = Some (ok, s')"
  shows "os_sends s = ok # os_sends s' \<and> os_sent s' = os_sent s \<and> os_events s' = os_events s \<and>
    os_ack_tracker s' = os_ack_tracker s \<and> os_ack_timeout s' = os_ack_timeout s"
  using assms by (auto simp: take_send_def split: list.splits)

text \<open>What a wait keeps, if handling a frame keeps it.\<close>

lemma read_frames_keeps:
  assumes "read_frames ended gone handle s es = (r, s', es')" and "P s"
    and step: "\<And>t m s. P s \<Longrightarrow> P (snd (handle t m s))"
  shows "P s'"
  using assms(1,2)
proof (induction es arbitrary: s)
  case Nil
  then show ?case by simp
next
  case (Cons e es)
  obtain t e' where e: "e = (t, e')" by (cases e)
  show ?case
  proof (cases e')
    case (Message m)
    obtain x u where h: "handle t m s = (x, u)" by (cases "handle t m s")
    with Cons.prems(2) step [of s t m] have "P u" by simp
    with Cons Message h e show ?thesis by (auto split: sum.splits option.splits)
  qed (use Cons e in auto)
qed

lemma on_socket_keeps:
  assumes "on_socket gone handle s = (r, s')" and "P s"
    and "\<And>t m s. P s \<Longrightarrow> P (snd (handle t m s))" and "\<And>s es. P s \<Longrightarrow> P (s\<lparr> os_events := es \<rparr>)"
  shows "P s'"
  using assms(1) read_frames_keeps [of _ _ handle s "os_events s" _ _ _ P] assms(2,3,4)
  by (auto simp: on_socket_def split: prod.splits)

text \<open>The result of a wait comes from a frame of the socket.\<close>

lemma read_frames_result:
  assumes "read_frames ended gone handle s es = (Some (Finished (Inr r)), s', es')"
  shows "\<exists>t m u. (t, Message m) \<in> set es \<and> fst (handle t m u) = Inr (Some r)"
  using assms
proof (induction es arbitrary: s)
  case Nil
  then show ?case by simp
next
  case (Cons e es)
  obtain t e' where e: "e = (t, e')" by (cases e)
  have later: ?case if "\<exists>t m u. (t, Message m) \<in> set es \<and> fst (handle t m u) = Inr (Some r)"
    using that by auto
  show ?case
  proof (cases e')
    case (Message m)
    obtain x u where h: "handle t m s = (x, u)" by (cases "handle t m s")
    show ?thesis
    proof (cases "x = Inr (Some r)")
      case True
      with h Message e show ?thesis by (metis fst_conv list.set_intros(1))
    next
      case False
      with Cons.prems Message h e have "read_frames ended gone handle u es = (Some (Finished (Inr r)), s', es')"
        by (auto split: sum.splits option.splits)
      from later [OF Cons.IH [OF this]] show ?thesis .
    qed
  qed (use Cons.prems e later [OF Cons.IH] in auto)
qed

text \<open>A wait leaves fewer deadlines only by using one, and it ends when one is left.\<close>

definition deadlines :: "timed_events \<Rightarrow> nat" where
  "deadlines es = length (filter (\<lambda>(_, e). e = Deadline) es)"

lemma read_frames_deadlines:
  assumes "read_frames ended gone handle s es = (r, s', es')"
  shows "deadlines es \<le> deadlines es' + 1 \<and> (r = None \<longrightarrow> deadlines es = 0)"
  using assms
proof (induction es arbitrary: s)
  case Nil
  then show ?case by (simp add: deadlines_def)
next
  case (Cons e es)
  obtain t e' where e: "e = (t, e')" by (cases e)
  show ?case
  proof (cases e')
    case (Message m)
    with Cons e show ?thesis
      by (auto simp: deadlines_def split: sum.splits option.splits prod.splits)
  qed (use Cons e in \<open>auto simp: deadlines_def\<close>)
qed

lemma on_socket_deadlines:
  assumes "on_socket gone handle s = (r, s')"
  shows "deadlines (os_events s) \<le> deadlines (os_events s') + 1 \<and> (r = None \<longrightarrow> deadlines (os_events s) = 0)"
  using assms read_frames_deadlines [of _ _ handle s "os_events s"]
  by (fastforce simp: on_socket_def split: prod.splits)

lemma pong_step_keeps:
  "os_sent (snd (pong_step t m s)) = os_sent s" "os_sends (snd (pong_step t m s)) = os_sends s"
  "os_ack_tracker (snd (pong_step t m s)) = os_ack_tracker s"
  by (simp_all add: pong_step_def received_def)

lemma handle_text_ack_keeps:
  "os_sent (snd (handle_text_ack J x p s)) = os_sent s" "os_sends (snd (handle_text_ack J x p s)) = os_sends s"
  "ack_tracker_ok (os_ack_tracker s) \<Longrightarrow> ack_tracker_ok (os_ack_tracker (snd (handle_text_ack J x p s)))"
  using ack_tracker_record_ok [of "os_ack_tracker s"]
  by (auto simp: handle_text_ack_def split: sum.splits option.splits prod.splits, metis snd_conv, metis snd_conv)

lemma command_ack_step_keeps:
  "os_sent (snd (command_ack_step J x t m s)) = os_sent s"
  "os_sends (snd (command_ack_step J x t m s)) = os_sends s"
  "ack_tracker_ok (os_ack_tracker s) \<Longrightarrow> ack_tracker_ok (os_ack_tracker (snd (command_ack_step J x t m s)))"
  by (auto simp: command_ack_step_def received_def handle_text_ack_keeps split: ws_message.splits)

lemma wait_for_text_pong_keeps:
  assumes "wait_for_text_pong s = (r, s')"
  shows "os_sent s' = os_sent s \<and> os_sends s' = os_sends s \<and> os_ack_tracker s' = os_ack_tracker s"
  using on_socket_keeps [OF assms [unfolded wait_for_text_pong_def],
      of "\<lambda>u. os_sent u = os_sent s \<and> os_sends u = os_sends s \<and> os_ack_tracker u = os_ack_tracker s"]
  by (simp add: pong_step_keeps)

lemma read_ack_keeps:
  assumes "read_ack J x s = (r, s')"
  shows "os_sent s' = os_sent s \<and> os_sends s' = os_sends s \<and>
    (ack_tracker_ok (os_ack_tracker s) \<longrightarrow> ack_tracker_ok (os_ack_tracker s'))"
  using on_socket_keeps [OF assms [unfolded read_ack_def],
      of "\<lambda>u. os_sent u = os_sent s \<and> os_sends u = os_sends s \<and>
        (ack_tracker_ok (os_ack_tracker s) \<longrightarrow> ack_tracker_ok (os_ack_tracker u))"]
  by (simp add: command_ack_step_keeps)

lemma ensure_idle_connection_keeps:
  assumes "ensure_idle_connection now s = (r, s')"
  shows "os_sent s' = os_sent s \<and> os_ack_tracker s' = os_ack_tracker s \<and>
    length (os_sends s) \<le> length (os_sends s') + 1 \<and> deadlines (os_events s) \<le> deadlines (os_events s') + 1 \<and>
    (r = None \<longrightarrow> os_sends s = [] \<or> deadlines (os_events s) = 0)"
proof -
  have wait: "os_sent u' = os_sent u \<and> os_sends u' = os_sends u \<and> os_ack_tracker u' = os_ack_tracker u \<and>
      deadlines (os_events u) \<le> deadlines (os_events u') + 1 \<and> (q = None \<longrightarrow> deadlines (os_events u) = 0)"
    if "wait_for_text_pong u = (q, u')" for u q u'
    using wait_for_text_pong_keeps [OF that] on_socket_deadlines [OF that [unfolded wait_for_text_pong_def]]
    by auto
  show ?thesis
    using assms
    by (auto simp: ensure_idle_connection_def take_send_def split: if_splits option.splits list.splits
        bool.splits prod.splits loop_end.splits dest!: wait)
qed

lemma handle_text_ack_result:
  assumes "handle_text_ack J x p s = (Inr (Some k), s')"
  shows "parse_order_command_ack J p x = Inr k"
  using assms
  by (auto simp: handle_text_ack_def rbind_eq_Inr split: sum.split_asm option.split_asm prod.split_asm if_split_asm)

lemma command_ack_step_result:
  assumes "fst (command_ack_step J x t m s) = Inr (Some k)"
  shows "\<exists>p. parse_order_command_ack J p x = Inr k"
proof (cases m)
  case (Text p)
  obtain s' where "command_ack_step J x t m s = (Inr (Some k), s')" using assms by (metis prod.collapse)
  with Text show ?thesis
    by (auto simp: command_ack_step_def split: if_split_asm intro: handle_text_ack_result)
qed (use assms in \<open>auto simp: command_ack_step_def\<close>)

text \<open>
  A command is either acknowledged, or known not to have been sent, or sent with an unknown fate; the log
  says which.
\<close>

lemma send_command_outcome:
  assumes "send_command J now c x s = (r, s')"
  shows "(case r of
      Some (Inl (NotSent e)) \<Rightarrow> os_sent s' = os_sent s
    | Some (Inl (Ambiguous e)) \<Rightarrow> os_sent s' = c # os_sent s
    | Some (Inr ack) \<Rightarrow> os_sent s' = c # os_sent s \<and> (\<exists>p. parse_order_command_ack J p x = Inr ack)
    | None \<Rightarrow> os_sent s' \<in> {os_sent s, c # os_sent s}) \<and>
    (ack_tracker_ok (os_ack_tracker s) \<longrightarrow> ack_tracker_ok (os_ack_tracker s'))"
proof -
  obtain q u where idle: "ensure_idle_connection now s = (q, u)" by (cases "ensure_idle_connection now s")
  note kept = ensure_idle_connection_keeps [OF idle]
  show ?thesis
  proof (cases "q = Some (Inr ()) \<and> (\<exists>v. take_send u = Some (True, v))")
    case False
    with assms idle kept show ?thesis
      by (auto simp: send_command_def split: option.splits sum.splits prod.splits bool.splits
          dest!: take_send_Some)
  next
    case True
    then obtain v where v: "q = Some (Inr ())" "take_send u = Some (True, v)" by auto
    let ?w = "v\<lparr> os_sent := c # os_sent v \<rparr>"
    obtain a z where ack: "read_ack J x ?w = (a, z)" by (cases "read_ack J x ?w")
    have eq: "r = (case a of None \<Rightarrow> None
        | Some TimedOut \<Rightarrow> Some (Inl (Ambiguous (command_error ''timed out waiting for acknowledgement'')))
        | Some (Finished y) \<Rightarrow> Some (map_err Ambiguous y))" "s' = z"
      using assms idle v ack by (auto simp: send_command_def split: option.splits loop_end.splits)
    have log: "os_sent z = c # os_sent s" "ack_tracker_ok (os_ack_tracker s) \<longrightarrow> ack_tracker_ok (os_ack_tracker z)"
      using read_ack_keeps [OF ack] take_send_Some [OF v(2)] kept by auto
    have sound: "\<exists>p. parse_order_command_ack J p x = Inr k" if "a = Some (Finished (Inr k))" for k
    proof -
      have "\<exists>t m u. (t, Message m) \<in> set (os_events ?w) \<and> fst (command_ack_step J x t m u) = Inr (Some k)"
        using ack that
        by (auto simp: read_ack_def on_socket_def split: prod.splits dest!: read_frames_result)
      then show ?thesis using command_ack_step_result by blast
    qed
    from log sound eq show ?thesis
      by (auto split: option.splits loop_end.splits sum.splits simp: map_err_def)
  qed
qed

lemma send_command_ends:
  assumes "send_command J now c x s = (r, s')"
    and "2 \<le> length (os_sends s)" and "2 \<le> deadlines (os_events s)"
  shows "r \<noteq> None"
proof -
  obtain q u where idle: "ensure_idle_connection now s = (q, u)" by (cases "ensure_idle_connection now s")
  note kept = ensure_idle_connection_keeps [OF idle]
  have left: "q \<noteq> None" "os_sends u \<noteq> []" "deadlines (os_events u) \<noteq> 0"
    using kept assms(2,3) by auto
  then obtain ok v where v: "take_send u = Some (ok, v)"
    by (cases "os_sends u") (auto simp: take_send_def)
  have "fst (read_ack J x (v\<lparr> os_sent := c # os_sent v \<rparr>)) \<noteq> None"
    using on_socket_deadlines [of "''stream closed before acknowledgement''" "command_ack_step J x" "v\<lparr> os_sent := c # os_sent v \<rparr>"]
      take_send_Some [OF v] left
    by (cases "read_ack J x (v\<lparr> os_sent := c # os_sent v \<rparr>)") (auto simp: read_ack_def)
  then show ?thesis
    using assms(1) idle left v
    by (auto simp: send_command_def split: option.splits sum.splits prod.splits bool.splits loop_end.splits)
qed

end
