(* ===== verification/Trading_Client.thy ===== *)
theory Trading_Client
  imports Rest_Orders Order_Session Number_Format Bot_Config
begin

text \<open>
  \<open>okx/trading_client.rs\<close>: the client the strategies and the runtime trade with.  Orders go over the WebSocket
  session where they can and over REST otherwise; what the session leaves unknown is settled through REST.

  An action takes the trading client to its result and the client afterwards; no result (\<open>None\<close>) is a session
  that waits for ever.  The connections the session may get are the environment's.
\<close>

definition OKX_WEBSOCKET_PLACE_ORDER_REQUEST_PREFIX :: char where
  "OKX_WEBSOCKET_PLACE_ORDER_REQUEST_PREFIX = CHR ''p''"
definition OKX_WEBSOCKET_CANCEL_ORDER_REQUEST_PREFIX :: char where
  "OKX_WEBSOCKET_CANCEL_ORDER_REQUEST_PREFIX = CHR ''c''"
definition OKX_WEBSOCKET_AMEND_ORDER_REQUEST_PREFIX :: char where
  "OKX_WEBSOCKET_AMEND_ORDER_REQUEST_PREFIX = CHR ''a''"
definition OKX_WEBSOCKET_REQUEST_NONCE_MASK :: u64 where
  "OKX_WEBSOCKET_REQUEST_NONCE_MASK = 0x0fffffffffffffff"
definition OKX_WEBSOCKET_COMMAND_TICK_TIMEOUT_DIVISOR :: nat where
  "OKX_WEBSOCKET_COMMAND_TICK_TIMEOUT_DIVISOR = 3"
definition OKX_WEBSOCKET_COMMAND_MIN_ACK_TIMEOUT :: nat where
  "OKX_WEBSOCKET_COMMAND_MIN_ACK_TIMEOUT = 1000000"

section \<open>Request identifiers\<close>

definition fnv1a64 :: "string \<Rightarrow> u64" where
  "fnv1a64 bytes =
     foldl (\<lambda>hash byte. (hash XOR of_nat (of_char byte)) * 0x00000100000001b3) 0xcbf29ce484222325 bytes"

definition websocket_request_id :: "char \<Rightarrow> u64 \<Rightarrow> string \<Rightarrow> string" where
  "websocket_request_id prefix nonce cl_ord_id =
     prefix # show_hex_padded 15 (unat (nonce AND OKX_WEBSOCKET_REQUEST_NONCE_MASK)) @
     show_hex_padded 16 (unat (fnv1a64 cl_ord_id))"

section \<open>Configuration\<close>

definition websocket_order_command_ack_timeout :: "nat \<Rightarrow> nat" where
  "websocket_order_command_ack_timeout tick_timeout_ms =
     (let tick_budget = tick_timeout_ms * 1000000 div OKX_WEBSOCKET_COMMAND_TICK_TIMEOUT_DIVISOR in
      min (max tick_budget OKX_WEBSOCKET_COMMAND_MIN_ACK_TIMEOUT) DEFAULT_ACK_TIMEOUT)"

definition websocket_order_command_config :: "BotConfig \<Rightarrow> OkxWebsocketTradingCommandConfig option res" where
  "websocket_order_command_config config =
     rbind (ok_or (Fail (Bad ''OKX config'' ''is required'')) (bc_okx config)) (\<lambda>okx.
     rbind (ok_or (Fail (Bad ''OKX base_url_ws_private'' ''is required for WebSocket order commands''))
              (ok_base_url_ws_private okx)) (\<lambda>url.
     rbind (trading_command_credentials_new (ok_api_key okx) (ok_api_secret okx) (ok_api_passphrase okx)) (\<lambda>credentials.
     rbind (with_ack_timeout url credentials
              (websocket_order_command_ack_timeout (rc_tick_timeout_ms (bc_runtime config)))) (\<lambda>c.
     Inr (Some c)))))"

section \<open>State\<close>

record OkxWebsocketOrderCommands =
  cw_config :: OkxWebsocketTradingCommandConfig
  cw_session :: "OkxWebsocketTradingCommandSession option"
  cw_available :: bool
  cw_prepare_attempted :: bool

datatype OkxWebsocketOrderCommandError =
  Unavailable rest_error | PreparationRejected rest_error | AmbiguousCommand rest_error

record OkxRegularOrderCommand =
  rg_inst_id :: string
  rg_side :: OrderSide
  rg_kind :: OrderKind
  rg_size :: string
  rg_price :: "string option"
  rg_client_order_id :: string

text \<open>
  \<open>tr_sent\<close> holds what the sessions that are gone have sent, latest first, and \<open>tr_connections\<close> is the number of
  connections tried; neither is looked at.
\<close>

record OkxTradingClient =
  tr_rest :: OkxRestClient
  tr_commands :: "OkxWebsocketOrderCommands option"
  tr_inst_id_codes :: "string \<rightharpoonup> nat"
  tr_request_nonce :: u64
  tr_latency :: OkxLatencyMetrics
  tr_pending_order_decision_at :: "nat option"
  tr_sent :: "OkxWebsocketCommand list"
  tr_connections :: nat

record trade_env =
  te_rest :: rest_env
  te_socket_json :: socket_json
  te_order_json :: order_json
  te_connection :: "nat \<Rightarrow> order_connection"

definition trading_client_new ::
    "OkxRestClient \<Rightarrow> OkxWebsocketTradingCommandConfig option \<Rightarrow> OkxTradingClient" where
  "trading_client_new c config =
     \<lparr> tr_rest = c,
       tr_commands = map_option (\<lambda>config. \<lparr> cw_config = config, cw_session = None, cw_available = False,
         cw_prepare_attempted = False \<rparr>) config,
       tr_inst_id_codes = Map.empty, tr_request_nonce = 1, tr_latency = latency_metrics_default,
       tr_pending_order_decision_at = None, tr_sent = [], tr_connections = 0 \<rparr>"

section \<open>Actions\<close>

type_synonym ('e, 'a) trade = "OkxTradingClient \<Rightarrow> ('e fault + 'a) option \<times> OkxTradingClient"

definition tlift :: "'e fault + 'a \<Rightarrow> ('e, 'a) trade" where
  "tlift r = (\<lambda>s. (Some r, s))"

definition tret :: "'a \<Rightarrow> ('e, 'a) trade" where
  "tret x = tlift (Inr x)"

definition tfail :: "'e \<Rightarrow> ('e, 'a) trade" where
  "tfail e = tlift (Inl (Fail e))"

definition tbind :: "('e, 'a) trade \<Rightarrow> ('a \<Rightarrow> ('e, 'b) trade) \<Rightarrow> ('e, 'b) trade" where
  "tbind m f = (\<lambda>s.
     case m s of
       (None, s') \<Rightarrow> (None, s')
     | (Some (Inl e), s') \<Rightarrow> (Some (Inl e), s')
     | (Some (Inr x), s') \<Rightarrow> f x s')"

text \<open>\<open>match m.await\<close>, with other errors outside than inside.\<close>

definition tmatch :: "('e, 'a) trade \<Rightarrow> ('e + 'a \<Rightarrow> ('f, 'b) trade) \<Rightarrow> ('f, 'b) trade" where
  "tmatch m f = (\<lambda>s.
     case m s of
       (None, s') \<Rightarrow> (None, s')
     | (Some (Inl Panic), s') \<Rightarrow> (Some (Inl Panic), s')
     | (Some (Inl (Fail e)), s') \<Rightarrow> f (Inl e) s'
     | (Some (Inr x), s') \<Rightarrow> f (Inr x) s')"

definition tmap_err :: "('e \<Rightarrow> 'f) \<Rightarrow> ('e, 'a) trade \<Rightarrow> ('f, 'a) trade" where
  "tmap_err g m = tmatch m (\<lambda>r. case r of Inl e \<Rightarrow> tfail (g e) | Inr x \<Rightarrow> tret x)"

definition tget :: "(OkxTradingClient \<Rightarrow> 'a) \<Rightarrow> ('e, 'a) trade" where
  "tget f = (\<lambda>s. (Some (Inr (f s)), s))"

definition tupd :: "(OkxTradingClient \<Rightarrow> OkxTradingClient) \<Rightarrow> ('e, unit) trade" where
  "tupd f = (\<lambda>s. (Some (Inr ()), f s))"

definition trest :: "'a rest \<Rightarrow> (rest_error, 'a) trade" where
  "trest m = (\<lambda>s. case m (tr_rest s) of (r, c) \<Rightarrow> (Some r, s\<lparr> tr_rest := c \<rparr>))"

definition tplain :: "'a res \<Rightarrow> (rest_error, 'a) trade" where
  "tplain r = tlift (plain r)"

definition tnow :: "trade_env \<Rightarrow> ('e, nat) trade" where
  "tnow T = (\<lambda>s. (Some (Inr (ri_now (advance (te_rest T) (tr_rest s)))), s\<lparr> tr_rest := advance (te_rest T) (tr_rest s) \<rparr>))"

definition update_commands ::
    "(OkxWebsocketOrderCommands \<Rightarrow> OkxWebsocketOrderCommands) \<Rightarrow> OkxTradingClient \<Rightarrow> OkxTradingClient" where
  "update_commands f s = s\<lparr> tr_commands := map_option f (tr_commands s) \<rparr>"

definition order_session :: "OkxTradingClient \<Rightarrow> OkxWebsocketTradingCommandSession option" where
  "order_session s = Option.bind (tr_commands s) cw_session"

definition set_session ::
    "OkxWebsocketTradingCommandSession option \<Rightarrow> bool \<Rightarrow> OkxTradingClient \<Rightarrow> OkxTradingClient" where
  "set_session session available s =
     update_commands (\<lambda>w. w\<lparr> cw_session := session, cw_available := available \<rparr>)
       (s\<lparr> tr_sent := (case order_session s of None \<Rightarrow> [] | Some old \<Rightarrow> os_sent old) @ tr_sent s \<rparr>)"

section \<open>Latency\<close>

definition record_order_decision :: "nat \<Rightarrow> OkxTradingClient \<Rightarrow> OkxTradingClient" where
  "record_order_decision decided_at s = s\<lparr> tr_pending_order_decision_at := Some decided_at \<rparr>"

definition record_command_start :: "nat \<Rightarrow> OkxTradingClient \<Rightarrow> OkxTradingClient" where
  "record_command_start started_at s =
     (case tr_pending_order_decision_at s of
        None \<Rightarrow> s
      | Some decided_at \<Rightarrow>
          s\<lparr> tr_pending_order_decision_at := None,
             tr_latency := latency_record DecisionCompleteToCommandStart (started_at - decided_at) (tr_latency s) \<rparr>)"

definition record_elapsed :: "trade_env \<Rightarrow> OkxLatencyStage \<Rightarrow> nat \<Rightarrow> ('e, unit) trade" where
  "record_elapsed T stage started_at =
     tbind (tnow T) (\<lambda>now.
     tupd (\<lambda>s. s\<lparr> tr_latency := latency_record stage (now - started_at) (tr_latency s) \<rparr>))"

definition count_command :: "(LatencyCounters \<Rightarrow> LatencyCounters) \<Rightarrow> ('e, unit) trade" where
  "count_command f = tupd (\<lambda>s. s\<lparr> tr_latency := (tr_latency s)\<lparr> lm_counters := f (lm_counters (tr_latency s)) \<rparr> \<rparr>)"

text \<open>\<open>let result = m.await; record_elapsed(\<dots>); result\<close>.\<close>

definition timed :: "trade_env \<Rightarrow> OkxLatencyStage \<Rightarrow> nat \<Rightarrow> ('e, 'a) trade \<Rightarrow> ('e, 'a) trade" where
  "timed T stage started_at m =
     tmatch m (\<lambda>r.
     tbind (record_elapsed T stage started_at) (\<lambda>_.
     case r of Inl e \<Rightarrow> tfail e | Inr x \<Rightarrow> tret x))"

definition command_started :: "trade_env \<Rightarrow> ('e, nat) trade" where
  "command_started T =
     tbind (tnow T) (\<lambda>started_at. tbind (tupd (record_command_start started_at)) (\<lambda>_. tret started_at))"

section \<open>The session\<close>

definition connect_websocket_order_commands :: "trade_env \<Rightarrow> (rest_error, unit) trade" where
  "connect_websocket_order_commands T =
     tbind (trest (qcontext ''failed obtaining OKX server-time-backed WebSocket login timestamp''
              (websocket_login_timestamp (te_rest T)))) (\<lambda>login_timestamp s.
     case tr_commands s of
       None \<Rightarrow> (Some (Inr ()), s)
     | Some w \<Rightarrow>
         (case session_connect (te_socket_json T) (re_hmac (te_rest T)) (cw_config w) login_timestamp
                 (te_connection T (tr_connections s)) of
            None \<Rightarrow> (None, s\<lparr> tr_connections := tr_connections s + 1 \<rparr>)
          | Some (Inl e) \<Rightarrow> (Some (plain (Inl e)), s\<lparr> tr_connections := tr_connections s + 1 \<rparr>)
          | Some (Inr session) \<Rightarrow>
              (Some (Inr ()), set_session (Some session) True (s\<lparr> tr_connections := tr_connections s + 1 \<rparr>))))"

definition mark_websocket_order_commands_unavailable :: "OkxTradingClient \<Rightarrow> OkxTradingClient" where
  "mark_websocket_order_commands_unavailable s = set_session None False s"

definition prepare_websocket_order_commands :: "trade_env \<Rightarrow> (rest_error, unit) trade" where
  "prepare_websocket_order_commands T =
     tbind (trest (prepare_websocket_order_command_timing (te_rest T))) (\<lambda>_. connect_websocket_order_commands T)"

definition prepare_order_command_path :: "trade_env \<Rightarrow> (rest_error, unit) trade" where
  "prepare_order_command_path T =
     tbind (tget tr_commands) (\<lambda>commands.
     if commands = None then tret ()
     else
       tbind (tupd (update_commands (\<lambda>w. w\<lparr> cw_prepare_attempted := True \<rparr>))) (\<lambda>_.
       tmatch (prepare_websocket_order_commands T) (\<lambda>r.
       case r of
         Inr _ \<Rightarrow> tret ()
       | Inl e \<Rightarrow> tbind (tupd mark_websocket_order_commands_unavailable) (\<lambda>_. tfail e))))"

definition unavailable :: "string \<Rightarrow> OkxWebsocketOrderCommandError" where
  "unavailable reason = Unavailable (Plain (Bad ''OKX WebSocket order command'' reason))"

definition ensure_websocket_order_session_available ::
    "trade_env \<Rightarrow> (OkxWebsocketOrderCommandError, unit) trade" where
  "ensure_websocket_order_session_available T =
     tbind (tget (\<lambda>s. map_option (\<lambda>w. (cw_available w, cw_prepare_attempted w)) (tr_commands s))) (\<lambda>w.
     case w of
       Some (True, _) \<Rightarrow> tret ()
     | Some (False, True) \<Rightarrow>
         tmatch (connect_websocket_order_commands T) (\<lambda>r.
         case r of
           Inr _ \<Rightarrow> tret ()
         | Inl e \<Rightarrow>
             tbind (tupd mark_websocket_order_commands_unavailable) (\<lambda>_.
             tfail (Unavailable (InContext ''failed reconnecting OKX WebSocket order command session; using REST fallback'' e))))
     | _ \<Rightarrow> tfail (unavailable ''path is not prepared; using REST fallback''))"

definition websocket_order_session :: "(OkxWebsocketOrderCommandError, unit) trade" where
  "websocket_order_session =
     tbind (tget order_session) (\<lambda>session.
     if session = None
     then tbind (tupd (update_commands (\<lambda>w. w\<lparr> cw_available := False \<rparr>))) (\<lambda>_.
            tfail (unavailable ''session is not connected; using REST fallback''))
     else tret ())"

definition trading_inst_id_code :: "string \<Rightarrow> (OkxWebsocketOrderCommandError, nat) trade" where
  "trading_inst_id_code inst_id =
     tbind (tget (\<lambda>s. tr_inst_id_codes s inst_id)) (\<lambda>code.
     case code of
       Some code \<Rightarrow> tret code
     | None \<Rightarrow>
         tbind (tmap_err Unavailable (trest (validated_trading_instrument inst_id))) (\<lambda>v.
         tbind (tmap_err Unavailable (tplain (websocket_inst_id_code (vi_instrument v)))) (\<lambda>code.
         case code of
           None \<Rightarrow> tfail (unavailable ''omitted instIdCode required for WebSocket order commands'')
         | Some code \<Rightarrow>
             tbind (tupd (\<lambda>s. s\<lparr> tr_inst_id_codes := (tr_inst_id_codes s)(inst_id \<mapsto> code) \<rparr>)) (\<lambda>_. tret code))))"

definition next_websocket_request_id :: "char \<Rightarrow> string \<Rightarrow> ('e, string) trade" where
  "next_websocket_request_id prefix cl_ord_id = (\<lambda>s.
     (Some (Inr (websocket_request_id prefix (tr_request_nonce s AND OKX_WEBSOCKET_REQUEST_NONCE_MASK) cl_ord_id)),
      s\<lparr> tr_request_nonce := tr_request_nonce s + 1 \<rparr>))"

definition map_websocket_command_error :: "OkxWebsocketCommandError \<Rightarrow> OkxWebsocketOrderCommandError fault" where
  "map_websocket_command_error e =
     (case e of
        NotSent f \<Rightarrow> map_fault (\<lambda>x. Unavailable (Plain x)) f
      | Ambiguous f \<Rightarrow> map_fault (\<lambda>x. AmbiguousCommand (Plain x)) f)"

text \<open>A command on the connected session; any error of the session gives the session up.\<close>

definition run_session_command ::
    "trade_env \<Rightarrow> (nat \<Rightarrow> OkxWebsocketTradingCommandSession \<Rightarrow>
        (OkxWebsocketCommandError + OkxOrderAck) option \<times> OkxWebsocketTradingCommandSession) \<Rightarrow>
      (OkxWebsocketOrderCommandError, OkxOrderAck) trade" where
  "run_session_command T command =
     tbind (tnow T) (\<lambda>now s.
     case order_session s of
       None \<Rightarrow> tfail (unavailable ''session was unavailable after connection setup'') s
     | Some session \<Rightarrow>
         (case command now session of
            (r, session') \<Rightarrow>
              let s' = update_commands (\<lambda>w. w\<lparr> cw_session := Some session' \<rparr>) s in
              (case r of
                 None \<Rightarrow> (None, s')
               | Some (Inr ack) \<Rightarrow> (Some (Inr ack), s')
               | Some (Inl e) \<Rightarrow> (Some (Inl (map_websocket_command_error e)), set_session None False s'))))"

section \<open>Commands over the WebSocket\<close>

definition place_order_with_websocket ::
    "trade_env \<Rightarrow> OkxRegularOrderCommand \<Rightarrow> (OkxWebsocketOrderCommandError, OkxOrderAck) trade" where
  "place_order_with_websocket T q =
     tbind (ensure_websocket_order_session_available T) (\<lambda>_.
     tbind (trading_inst_id_code (rg_inst_id q)) (\<lambda>code.
     tbind (tmap_err PreparationRejected (trest (prepare_websocket_place_order (te_rest T) (rg_inst_id q) (rg_side q)
              (rg_kind q) (rg_price q)))) (\<lambda>exp_time.
     tbind (tmap_err PreparationRejected (trest (validated_order_route (rg_inst_id q)))) (\<lambda>(td_mode, trade_quote_currency).
     tbind websocket_order_session (\<lambda>_.
     tbind (next_websocket_request_id OKX_WEBSOCKET_PLACE_ORDER_REQUEST_PREFIX (rg_client_order_id q)) (\<lambda>request_id.
     run_session_command T (\<lambda>now. session_place_order (te_order_json T) now
       \<lparr> wp_id = request_id, wp_inst_id_code = code, wp_exp_time = exp_time, wp_side = rg_side q, wp_kind = rg_kind q,
         wp_size = rg_size q, wp_price = rg_price q, wp_td_mode = td_mode,
         wp_trade_quote_currency = trade_quote_currency, wp_client_order_id = rg_client_order_id q,
         wp_tag = OKX_CANCEL_ALL_AFTER_TAG \<rparr>)))))))"

definition amend_order_with_websocket ::
    "trade_env \<Rightarrow> OkxOrderAmend \<Rightarrow> (OkxWebsocketOrderCommandError, OkxOrderAck) trade" where
  "amend_order_with_websocket T a =
     tbind (ensure_websocket_order_session_available T) (\<lambda>_.
     tbind (trading_inst_id_code (am_inst_id a)) (\<lambda>code.
     tbind (tmap_err PreparationRejected (trest (prepare_websocket_amend_order (te_rest T) (am_inst_id a) (am_side a)
              (am_new_price a)))) (\<lambda>exp_time.
     tbind websocket_order_session (\<lambda>_.
     tbind (next_websocket_request_id OKX_WEBSOCKET_AMEND_ORDER_REQUEST_PREFIX (am_client_order_id a)) (\<lambda>request_id.
     run_session_command T (\<lambda>now. session_amend_order (te_order_json T) now
       \<lparr> wa_id = request_id, wa_inst_id_code = code, wa_exp_time = exp_time,
         wa_client_order_id = am_client_order_id a, wa_request_id = request_id, wa_new_size = am_new_size a,
         wa_new_price = am_new_price a \<rparr>))))))"

definition cancel_order_with_websocket ::
    "trade_env \<Rightarrow> string \<Rightarrow> string \<Rightarrow> (OkxWebsocketOrderCommandError, unit) trade" where
  "cancel_order_with_websocket T inst_id cl_ord_id =
     tbind (ensure_websocket_order_session_available T) (\<lambda>_.
     tbind (trading_inst_id_code inst_id) (\<lambda>code.
     tbind (tmap_err Unavailable (trest (prepare_websocket_cancel_order (te_rest T) inst_id))) (\<lambda>_.
     tbind websocket_order_session (\<lambda>_.
     tbind (next_websocket_request_id OKX_WEBSOCKET_CANCEL_ORDER_REQUEST_PREFIX cl_ord_id) (\<lambda>request_id.
     tbind (run_session_command T (\<lambda>now. session_cancel_order (te_order_json T) now
       \<lparr> wk_id = request_id, wk_inst_id_code = code, wk_client_order_id = cl_ord_id \<rparr>)) (\<lambda>_.
     tret ()))))))"

section \<open>Orders\<close>

text \<open>
  What becomes of a command over the WebSocket: where nothing was sent the REST request is made instead, a
  rejected preparation is final, and a command whose fate is unknown is reconciled.
\<close>

definition settle_command ::
    "trade_env \<Rightarrow> nat \<Rightarrow> (OkxWebsocketOrderCommandError, 'a) trade \<Rightarrow> 'a rest \<Rightarrow> (rest_error \<Rightarrow> 'a rest) \<Rightarrow>
      (rest_error, 'a) trade" where
  "settle_command T started_at command fallback reconcile =
     tmatch command (\<lambda>r.
     case r of
       Inr x \<Rightarrow> timed T CommandStartToAcknowledgement started_at (tret x)
     | Inl (Unavailable _) \<Rightarrow>
         tbind (count_command record_command_fallback) (\<lambda>_.
         timed T CommandStartToAcknowledgement started_at (trest fallback))
     | Inl (PreparationRejected e) \<Rightarrow>
         timed T CommandStartToAcknowledgement started_at
           (tfail (InContext ''preparation failed before command submission; refusing REST fallback'' e))
     | Inl (AmbiguousCommand e) \<Rightarrow>
         tbind (count_command record_ambiguous_command_reconciliation) (\<lambda>_.
         tbind (tnow T) (\<lambda>reconciliation_started_at.
         timed T CommandStartToAcknowledgement started_at
           (timed T AmbiguousCommandToRestReconciliation reconciliation_started_at (trest (reconcile e))))))"

definition trading_place_order ::
    "trade_env \<Rightarrow> string \<Rightarrow> OrderSide \<Rightarrow> OrderKind \<Rightarrow> string \<Rightarrow> string option \<Rightarrow> string \<Rightarrow> (rest_error, OkxOrderAck) trade" where
  "trading_place_order T inst_id side kind sz price cl_ord_id =
     tbind (command_started T) (\<lambda>started_at.
     tbind (tget tr_commands) (\<lambda>commands.
     let by_rest = rest_place_order (te_rest T) inst_id side kind sz price cl_ord_id in
     if commands = None \<or> kind = Market then timed T CommandStartToAcknowledgement started_at (trest by_rest)
     else
       settle_command T started_at
         (place_order_with_websocket T
            \<lparr> rg_inst_id = inst_id, rg_side = side, rg_kind = kind, rg_size = sz, rg_price = price,
              rg_client_order_id = cl_ord_id \<rparr>)
         by_rest
         (reconcile_order_submit_failure (te_rest T)
            \<lparr> sr_inst_id = inst_id, sr_side = side, sr_kind = kind, sr_size = sz, sr_price = price,
              sr_client_order_id = cl_ord_id \<rparr>)))"

definition trading_cancel_order :: "trade_env \<Rightarrow> string \<Rightarrow> string \<Rightarrow> (rest_error, unit) trade" where
  "trading_cancel_order T inst_id cl_ord_id =
     tbind (command_started T) (\<lambda>started_at.
     tbind (tget tr_commands) (\<lambda>commands.
     let by_rest = rest_cancel_order (te_rest T) inst_id cl_ord_id in
     if commands = None then timed T CommandStartToAcknowledgement started_at (trest by_rest)
     else settle_command T started_at (cancel_order_with_websocket T inst_id cl_ord_id) by_rest (\<lambda>_. by_rest)))"

definition trading_amend_order :: "trade_env \<Rightarrow> OkxOrderAmend \<Rightarrow> (rest_error, OkxOrderAck) trade" where
  "trading_amend_order T a =
     tbind (tplain (validate_order_amend (re_decimal (te_rest T)) a)) (\<lambda>_.
     tbind (command_started T) (\<lambda>started_at.
     tbind (tget tr_commands) (\<lambda>commands.
     let by_rest = rest_amend_order (te_rest T) a in
     if commands = None then timed T CommandStartToAcknowledgement started_at (trest by_rest)
     else
       settle_command T started_at (amend_order_with_websocket T a) by_rest
         (reconcile_order_amend_failure (te_rest T) a))))"

definition trading_place_trigger_order ::
    "trade_env \<Rightarrow> string \<Rightarrow> OrderSide \<Rightarrow> string \<Rightarrow> string \<Rightarrow> string \<Rightarrow> (rest_error, OkxAlgoOrderAck) trade" where
  "trading_place_trigger_order T inst_id side sz trigger_price cl_ord_id =
     tbind (command_started T) (\<lambda>started_at.
     timed T CommandStartToAcknowledgement started_at
       (trest (rest_place_trigger_order (te_rest T) inst_id side sz trigger_price cl_ord_id)))"

definition trading_cancel_algo_order :: "trade_env \<Rightarrow> string \<Rightarrow> string \<Rightarrow> (rest_error, unit) trade" where
  "trading_cancel_algo_order T inst_id algo_id =
     tbind (command_started T) (\<lambda>started_at.
     timed T CommandStartToAcknowledgement started_at (trest (rest_cancel_algo_order (te_rest T) inst_id algo_id)))"

section \<open>Instruments\<close>

definition remember_inst_id_code :: "string \<Rightarrow> OkxInstrument \<Rightarrow> (rest_error, unit) trade" where
  "remember_inst_id_code inst_id i =
     tbind (tget tr_commands) (\<lambda>commands.
     if commands = None then tret ()
     else
       tbind (tplain (websocket_inst_id_code i)) (\<lambda>code.
       case code of
         None \<Rightarrow> tret ()
       | Some code \<Rightarrow> tupd (\<lambda>s. s\<lparr> tr_inst_id_codes := (tr_inst_id_codes s)(inst_id \<mapsto> code) \<rparr>)))"

definition trading_instruments :: "trade_env \<Rightarrow> string \<Rightarrow> (rest_error, OkxInstrument) trade" where
  "trading_instruments T inst_id =
     tbind (tmatch (trest (validated_trading_instrument inst_id)) (\<lambda>r.
            case r of
              Inr v \<Rightarrow> trest (instrument_for_type (te_rest T) ''SPOT'' inst_id)
            | Inl _ \<Rightarrow> tlift (rest_bad inst_id ''was not validated before metadata refresh''))) (\<lambda>i.
     tbind (remember_inst_id_code (oi_inst_id i) i) (\<lambda>_.
     tret i))"

definition trading_validate_trading_instrument ::
    "trade_env \<Rightarrow> RequestedTradingInstrument \<Rightarrow> OkxAccountConfig \<Rightarrow> (rest_error, ValidatedCapabilityGeneration) trade" where
  "trading_validate_trading_instrument T requested account_config =
     tbind (trest (validate_trading_instrument (te_rest T) requested account_config)) (\<lambda>g.
     tbind (remember_inst_id_code (vi_inst_id (vg_instrument g)) (vi_instrument (vg_instrument g))) (\<lambda>_.
     tret g))"

definition trading_cancel_all_after :: "trade_env \<Rightarrow> OkxCancelAllAfterTimeout \<Rightarrow> (rest_error, OkxCancelAllAfterAck) trade" where
  "trading_cancel_all_after T t = trest (rest_cancel_all_after (te_rest T) t)"

definition trading_disarm_cancel_all_after :: "trade_env \<Rightarrow> (rest_error, OkxCancelAllAfterAck) trade" where
  "trading_disarm_cancel_all_after T = trest (rest_cancel_all_after (te_rest T) caa_timeout_disarm)"

end
