(* ===== verification/Preflight_Probe.thy ===== *)
theory Preflight_Probe
  imports Trading_Client Bot_Config
begin

text \<open>
  What the economics preflight asks of the exchange: the probes of \<open>okx/websocket/economics_preflight.rs\<close> and the
  client of \<open>okx/economics_preflight.rs\<close>.

  A connection the environment offers says how connecting goes (its time-out included), how each sending goes
  and what happens on its socket.  A probe sends no ping of its own, so \<open>Silence\<close> means nothing; \<open>Deadline\<close> is
  the time-out of the wait in progress.  A list that has ended leaves the probe waiting, which is \<open>None\<close>.
\<close>

section \<open>Probing a WebSocket\<close>

definition PUBLIC_TICKERS_CHANNEL :: string where "PUBLIC_TICKERS_CHANNEL = ''tickers''"
definition PRIVATE_ORDERS_CHANNEL :: string where "PRIVATE_ORDERS_CHANNEL = ''orders''"
definition SPOT_INSTRUMENT_TYPE :: string where "SPOT_INSTRUMENT_TYPE = ''SPOT''"

text \<open>\<open>OkxEconomicsWebsocketCredentials\<close> has the three fields of the stream credentials.\<close>

definition economics_credentials_new :: "string \<Rightarrow> string \<Rightarrow> string \<Rightarrow> OkxPrivateStreamCredentials res" where
  "economics_credentials_new key secret passphrase =
     rbind (validate_websocket_login_credential ''OKX economics preflight WebSocket api_key'' key) (\<lambda>_.
     rbind (validate_websocket_login_credential ''OKX economics preflight WebSocket api_secret'' secret) (\<lambda>_.
     rbind (validate_websocket_login_credential ''OKX economics preflight WebSocket api_passphrase'' passphrase) (\<lambda>_.
     Inr \<lparr> cr_api_key = key, cr_api_secret = secret, cr_api_passphrase = passphrase \<rparr>)))"

datatype probe_request =
    LoginRequest OkxWebsocketLoginArg
  | SubscribeRequest OkxWebsocketSubscriptionAck
  | CloseFrame

text \<open>\<open>pr_sent\<close> holds what was given to the socket to be sent, latest first.\<close>

record probe_stream =
  pr_connected :: "unit res"
  pr_sends :: "bool list"
  pr_events :: "socket_event list"
  pr_sent :: "probe_request list"

type_synonym probe = "probe_stream \<Rightarrow> unit res option \<times> probe_stream"

definition probe_error :: "string \<Rightarrow> string \<Rightarrow> rt_error fault" where
  "probe_error context reason = Fail (Bad (''OKX economics preflight '' @ context @ '' WebSocket'') reason)"

definition probe_then :: "probe \<Rightarrow> probe \<Rightarrow> probe" where
  "probe_then a b s = (case a s of (Some (Inr _), s') \<Rightarrow> b s' | stop \<Rightarrow> stop)"

definition probe_res :: "unit res \<Rightarrow> probe" where
  "probe_res r s = (Some r, s)"

definition probe_connect :: probe where
  "probe_connect s = (Some (pr_connected s), s)"

definition probe_send :: "string \<Rightarrow> string \<Rightarrow> probe_request \<Rightarrow> probe" where
  "probe_send context failure q s =
     (case pr_sends s of
        [] \<Rightarrow> (None, s)
      | ok # rest \<Rightarrow>
          (Some (if ok then Inr () else Inl (probe_error context failure)),
           s\<lparr> pr_sends := rest, pr_sent := q # pr_sent s \<rparr>))"

text \<open>
  The loop the three waits share: \<open>on_text\<close> handles a text with what is still pending, a ping is answered, and
  \<open>at_close\<close> is the result when a close frame comes.
\<close>

fun probe_read ::
    "string \<Rightarrow> ('p \<Rightarrow> string \<Rightarrow> unit option res \<times> 'p) \<Rightarrow> unit res \<Rightarrow> 'p \<Rightarrow> socket_event list \<Rightarrow>
      unit loop_end option \<times> socket_event list" where
  "probe_read context on_text at_close p [] = (None, [])"
| "probe_read context on_text at_close p (e # es) =
     (case e of
        Deadline \<Rightarrow> (Some TimedOut, es)
      | Silence _ \<Rightarrow> probe_read context on_text at_close p es
      | Ended \<Rightarrow> (Some (Finished (Inl (probe_error context ''ended without a clean close''))), es)
      | ReadFailed \<Rightarrow> (Some (Finished (Inl (probe_error context ''failed reading''))), es)
      | Message m \<Rightarrow>
          (case m of
             Text payload \<Rightarrow>
               (case on_text p payload of
                  (Inl err, _) \<Rightarrow> (Some (Finished (Inl err)), es)
                | (Inr (Some _), _) \<Rightarrow> (Some (Finished (Inr ())), es)
                | (Inr None, p') \<Rightarrow> probe_read context on_text at_close p' es)
           | Ping ok \<Rightarrow>
               if ok then probe_read context on_text at_close p es
               else (Some (Finished (Inl (probe_error context ''failed replying to ping''))), es)
           | Close \<Rightarrow> (Some (Finished at_close), es)
           | Pong \<Rightarrow> probe_read context on_text at_close p es
           | Binary \<Rightarrow> probe_read context on_text at_close p es))"

definition probe_wait ::
    "string \<Rightarrow> string \<Rightarrow> ('p \<Rightarrow> string \<Rightarrow> unit option res \<times> 'p) \<Rightarrow> unit res \<Rightarrow> 'p \<Rightarrow> probe" where
  "probe_wait context expired on_text at_close p s =
     (case probe_read context on_text at_close p (pr_events s) of
        (None, es) \<Rightarrow> (None, s\<lparr> pr_events := es \<rparr>)
      | (Some TimedOut, es) \<Rightarrow> (Some (Inl (probe_error context expired)), s\<lparr> pr_events := es \<rparr>)
      | (Some (Finished r), es) \<Rightarrow> (Some r, s\<lparr> pr_events := es \<rparr>))"

definition login_text :: "socket_json \<Rightarrow> string \<Rightarrow> unit \<Rightarrow> string \<Rightarrow> unit option res \<times> unit" where
  "login_text J context p payload =
     (case parse_login_ack J payload context of
        Inl e \<Rightarrow> (Inl (of_protocol e), p)
      | Inr done \<Rightarrow> (Inr (if done then Some () else None), p))"

definition probe_login ::
    "socket_json \<Rightarrow> (string \<Rightarrow> string \<Rightarrow> string) \<Rightarrow> OkxPrivateStreamCredentials \<Rightarrow> string \<Rightarrow> string \<Rightarrow> probe" where
  "probe_login J hmac credentials login_timestamp context =
     (case login_request_at hmac credentials login_timestamp of
        Inl e \<Rightarrow> probe_res (Inl e)
      | Inr q \<Rightarrow>
          probe_then (probe_send context ''failed sending login'' (LoginRequest q))
            (probe_wait context ''timed out waiting for login acknowledgement'' (login_text J context)
               (Inl (probe_error context ''closed before login acknowledgement'')) ()))"

definition subscription_text ::
    "socket_json \<Rightarrow> string \<Rightarrow> OkxWebsocketSubscriptionAck set \<Rightarrow> string \<Rightarrow>
      unit option res \<times> OkxWebsocketSubscriptionAck set" where
  "subscription_text J context pending payload =
     (case parse_subscription_event J payload context of
        Inl e \<Rightarrow> (Inl (of_protocol e), pending)
      | Inr (Acknowledged ack) \<Rightarrow>
          (case acknowledge_subscription pending ack context of
             (Inl e, pending') \<Rightarrow> (Inl (of_protocol e), pending')
           | (Inr done, pending') \<Rightarrow> (Inr (if done then Some () else None), pending'))
      | Inr Control \<Rightarrow> (Inr None, pending)
      | Inr Other \<Rightarrow> (Inr None, pending)
      | Inr (Data _) \<Rightarrow> (Inl (probe_error context ''sent data before subscription readiness''), pending)
      | Inr (Error _ _ _) \<Rightarrow> (Inl (probe_error context ''subscription rejected''), pending))"

definition wait_for_subscription_ack :: "socket_json \<Rightarrow> OkxWebsocketSubscriptionAck \<Rightarrow> string \<Rightarrow> probe" where
  "wait_for_subscription_ack J expected context =
     probe_wait context ''timed out waiting for subscription acknowledgement'' (subscription_text J context)
       (Inl (probe_error context ''closed before subscription acknowledgement'')) {expected}"

definition close_cleanly :: "string \<Rightarrow> probe" where
  "close_cleanly context =
     probe_then (probe_send context ''failed initiating close'' CloseFrame)
       (probe_wait context ''timed out closing'' (\<lambda>p _. (Inr None, p)) (Inr ()) ())"

definition validate_probe_inputs :: "string \<Rightarrow> string \<Rightarrow> nat \<Rightarrow> unit res" where
  "validate_probe_inputs url instrument_id timeout =
     rbind (require (\<not> blank url) ''OKX WebSocket URL'' ''must not be empty'') (\<lambda>_.
     rbind (map_err (\<lambda>_. Fail (Bad ''OKX economics preflight WebSocket instrument'' ''must be canonical SPOT''))
              (spot_id_try_from instrument_id)) (\<lambda>_.
     require (timeout \<noteq> 0) ''OKX WebSocket timeout'' ''must be non-zero''))"

definition probe_public_websocket :: "socket_json \<Rightarrow> string \<Rightarrow> string \<Rightarrow> nat \<Rightarrow> probe" where
  "probe_public_websocket J url instrument_id timeout =
     (let arg = \<lparr> sa_channel = PUBLIC_TICKERS_CHANNEL, sa_inst_id = Some instrument_id, sa_inst_type = None \<rparr> in
      probe_then (probe_res (validate_probe_inputs url instrument_id timeout))
     (probe_then probe_connect
     (probe_then (probe_send ''public'' ''failed sending public subscription'' (SubscribeRequest arg))
     (probe_then (wait_for_subscription_ack J arg ''economics preflight public'')
        (close_cleanly ''public'')))))"

definition probe_private_websocket ::
    "socket_json \<Rightarrow> (string \<Rightarrow> string \<Rightarrow> string) \<Rightarrow> string \<Rightarrow> OkxPrivateStreamCredentials \<Rightarrow> string \<Rightarrow> string \<Rightarrow> nat \<Rightarrow>
      probe" where
  "probe_private_websocket J hmac url credentials login_timestamp instrument_id timeout =
     (let arg = \<lparr> sa_channel = PRIVATE_ORDERS_CHANNEL, sa_inst_id = Some instrument_id,
                  sa_inst_type = Some SPOT_INSTRUMENT_TYPE \<rparr> in
      probe_then (probe_res (validate_probe_inputs url instrument_id timeout))
     (probe_then probe_connect
     (probe_then (probe_login J hmac credentials login_timestamp ''private'')
     (probe_then (probe_send ''private'' ''failed sending private subscription'' (SubscribeRequest arg))
     (probe_then (wait_for_subscription_ack J arg ''economics preflight private'')
        (close_cleanly ''private''))))))"

definition probe_trading_session ::
    "socket_json \<Rightarrow> (string \<Rightarrow> string \<Rightarrow> string) \<Rightarrow> string \<Rightarrow> OkxPrivateStreamCredentials \<Rightarrow> string \<Rightarrow> nat \<Rightarrow> probe" where
  "probe_trading_session J hmac url credentials login_timestamp timeout =
     probe_then (probe_res (require (\<not> blank url) ''OKX WebSocket URL'' ''must not be empty''))
    (probe_then (probe_res (require (timeout \<noteq> 0) ''OKX WebSocket timeout'' ''must be non-zero''))
    (probe_then probe_connect
    (probe_then (probe_login J hmac credentials login_timestamp ''trading-session'')
       (close_cleanly ''trading-session''))))"

section \<open>The client\<close>

text \<open>
  \<open>ec_world\<close> is the REST client with the connections to come; each probe takes one and puts what it sent there
  into \<open>ew_probed\<close>.  Building the HTTP client checks the proxy and the base URL (\<open>reqwest\<close>, \<open>url\<close>).
\<close>

record OkxEconomicsPreflightClient =
  ec_public_websocket_url :: string
  ec_private_websocket_url :: string
  ec_websocket_credentials :: OkxPrivateStreamCredentials
  ec_timeout :: nat

record economics_world =
  ew_rest :: OkxRestClient
  ew_connections :: "probe_stream list"
  ew_probed :: "probe_request list list"

definition economics_client_new ::
    "(OkxConfig \<Rightarrow> unit res) \<Rightarrow> BotConfig \<Rightarrow> nat \<Rightarrow> (OkxEconomicsPreflightClient \<times> OkxRestClient) res" where
  "economics_client_new build_http config timeout =
     rbind (ok_or (Fail (Bad ''OKX config'' ''is required'')) (bc_okx config)) (\<lambda>okx.
     rbind (ok_or (Fail (Bad ''OKX public WebSocket URL'' ''is required'')) (ok_base_url_ws_public okx)) (\<lambda>public_url.
     rbind (ok_or (Fail (Bad ''OKX private WebSocket URL'' ''is required'')) (ok_base_url_ws_private okx)) (\<lambda>private_url.
     rbind (economics_credentials_new (ok_api_key okx) (ok_api_secret okx) (ok_api_passphrase okx)) (\<lambda>credentials.
     rbind (build_http okx) (\<lambda>_.
     Inr (\<lparr> ec_public_websocket_url = public_url, ec_private_websocket_url = private_url,
            ec_websocket_credentials = credentials, ec_timeout = timeout \<rparr>,
          rest_client_new (ok_api_key okx) (ok_api_secret okx) (ok_api_passphrase okx)
            (okx_simulated_trading_from_routing okx) (wc_max_staleness_ms (ok_websocket okx))))))))"

type_synonym 'a economics = "economics_world \<Rightarrow> 'a rest_res option \<times> economics_world"

definition over_rest :: "'a rest \<Rightarrow> 'a economics" where
  "over_rest m w = (case m (ew_rest w) of (r, c) \<Rightarrow> (Some r, w\<lparr> ew_rest := c \<rparr>))"

definition over_probe :: "probe \<Rightarrow> unit economics" where
  "over_probe m w =
     (case ew_connections w of
        [] \<Rightarrow> (None, w)
      | s # ss \<Rightarrow>
          (case m (s\<lparr> pr_sent := [] \<rparr>) of
             (r, s') \<Rightarrow> (map_option plain r, w\<lparr> ew_connections := ss, ew_probed := pr_sent s' # ew_probed w \<rparr>)))"

definition economics_then :: "'a economics \<Rightarrow> ('a \<Rightarrow> 'b economics) \<Rightarrow> 'b economics" where
  "economics_then m f w =
     (case m w of
        (None, w') \<Rightarrow> (None, w')
      | (Some (Inl e), w') \<Rightarrow> (Some (Inl e), w')
      | (Some (Inr x), w') \<Rightarrow> f x w')"

definition economics_server_time :: "rest_env \<Rightarrow> unit economics" where
  "economics_server_time E = over_rest (economics_preflight_server_time E)"

definition economics_account_config :: "rest_env \<Rightarrow> OkxAccountConfig economics" where
  "economics_account_config E = over_rest (rest_account_config E)"

definition economics_spot_trade_fee :: "rest_env \<Rightarrow> string \<Rightarrow> string \<Rightarrow> OkxTradeFeeRate economics" where
  "economics_spot_trade_fee E instrument_id group_id = over_rest (spot_trade_fee_for_group E instrument_id group_id)"

definition economics_instrument :: "rest_env \<Rightarrow> string \<Rightarrow> OkxInstrument economics" where
  "economics_instrument E instrument_id = over_rest (rest_instruments E instrument_id)"

definition economics_ticker :: "rest_env \<Rightarrow> string \<Rightarrow> OkxTicker economics" where
  "economics_ticker E instrument_id = over_rest (rest_ticker E instrument_id)"

definition economics_probe_public :: "socket_json \<Rightarrow> OkxEconomicsPreflightClient \<Rightarrow> string \<Rightarrow> unit economics" where
  "economics_probe_public J C instrument_id =
     over_probe (probe_public_websocket J (ec_public_websocket_url C) instrument_id (ec_timeout C))"

definition economics_probe_private ::
    "rest_env \<Rightarrow> socket_json \<Rightarrow> OkxEconomicsPreflightClient \<Rightarrow> string \<Rightarrow> unit economics" where
  "economics_probe_private E J C instrument_id =
     economics_then (over_rest (websocket_login_timestamp E)) (\<lambda>login_timestamp.
     over_probe (probe_private_websocket J (re_hmac E) (ec_private_websocket_url C) (ec_websocket_credentials C)
       login_timestamp instrument_id (ec_timeout C)))"

definition economics_probe_trading ::
    "rest_env \<Rightarrow> socket_json \<Rightarrow> OkxEconomicsPreflightClient \<Rightarrow> unit economics" where
  "economics_probe_trading E J C =
     economics_then (over_rest (websocket_login_timestamp E)) (\<lambda>login_timestamp.
     over_probe (probe_trading_session J (re_hmac E) (ec_private_websocket_url C) (ec_websocket_credentials C)
       login_timestamp (ec_timeout C)))"

end
