(* ===== verification/Pair_Selection.thy ===== *)
theory Pair_Selection
  imports Rest_Account Bot_Config
begin

text \<open>
  \<open>okx/zero_fee_pair_selection.rs\<close>: the client offered for selecting a pair, and the endpoints of
  \<open>okx/client.rs\<close> it uses.  Deserialization is a parameter, as in \<open>Rest_Base\<close>; so is building the HTTP client.
  Its server time and its account configuration are those of the REST client.
\<close>

record OkxSelectionInstrumentChange =
  sc_param :: string
  sc_new_value :: string
  sc_effective_time :: string

record OkxSelectionInstrument =
  sl_inst_type :: string
  sl_inst_id :: string
  sl_base_ccy :: string
  sl_quote_ccy :: string
  sl_trade_quote_currencies :: "string list"
  sl_group_id :: string
  sl_state :: string
  sl_rule_type :: string
  sl_open_type :: string
  sl_tick_size :: string
  sl_lot_size :: string
  sl_min_size :: string
  sl_upcoming_changes :: "OkxSelectionInstrumentChange list"

record OkxSelectionTicker =
  st_inst_type :: string
  st_inst_id :: string
  st_bid_px :: string
  st_ask_px :: string
  st_bid_size :: string
  st_ask_size :: string
  st_last :: string
  st_base_volume_24h :: string
  st_quote_volume_24h :: string
  st_ts :: string

record OkxSelectionOrderBook =
  sb_asks :: "string list list"
  sb_bids :: "string list list"
  sb_ts :: string

record selection_json =
  sj_instruments :: "string \<Rightarrow> OkxSelectionInstrument list option"
  sj_tickers :: "string \<Rightarrow> OkxSelectionTicker list option"
  sj_order_books :: "string \<Rightarrow> OkxSelectionOrderBook list option"

definition pair_selection_client_new :: "(OkxConfig \<Rightarrow> unit res) \<Rightarrow> BotConfig \<Rightarrow> OkxRestClient res" where
  "pair_selection_client_new build_http config =
     rbind (ok_or (Fail (Bad ''OKX config'' ''is required'')) (bc_okx config)) (\<lambda>okx.
     rbind (build_http okx) (\<lambda>_.
     Inr (rest_client_new (ok_api_key okx) (ok_api_secret okx) (ok_api_passphrase okx)
            (okx_simulated_trading_from_routing okx) (wc_max_staleness_ms (ok_websocket okx)))))"

definition selection_account_spot_instruments :: "rest_env \<Rightarrow> selection_json \<Rightarrow> OkxSelectionInstrument list rest" where
  "selection_account_spot_instruments E J =
     private_request E (sj_instruments J) ''GET'' ''/api/v5/account/instruments''
       (rest_query E [(''instType'', OKX_REST_SPOT_INST_TYPE)]) None"

definition selection_ticker :: "rest_env \<Rightarrow> selection_json \<Rightarrow> string \<Rightarrow> OkxSelectionTicker rest" where
  "selection_ticker E J inst_id =
     qbind (public_get E (sj_tickers J) ''/api/v5/market/ticker'' (rest_query E [(''instId'', inst_id)])) (\<lambda>tickers.
     qbind (qplain (require (length tickers = 1) inst_id ''returned a wrong number of selection tickers'')) (\<lambda>_.
     qbind (qplain (require (st_inst_id (hd tickers) = inst_id) inst_id ''returned another selection ticker'')) (\<lambda>_.
     qret (hd tickers))))"

definition selection_order_book :: "rest_env \<Rightarrow> selection_json \<Rightarrow> string \<Rightarrow> nat \<Rightarrow> OkxSelectionOrderBook rest" where
  "selection_order_book E J inst_id depth =
     qbind (qplain (require (1 \<le> depth \<and> depth \<le> 400) ''OKX selection order-book depth'' ''must be between 1 and 400'')) (\<lambda>_.
     qbind (public_get E (sj_order_books J) ''/api/v5/market/books''
              (rest_query E [(''instId'', inst_id), (''sz'', show_nat depth)])) (\<lambda>books.
     qbind (qplain (require (length books = 1) inst_id ''returned a wrong number of selection order books'')) (\<lambda>_.
     qret (hd books))))"

end
