(* ===== verification/Rest_Frames.thy ===== *)
theory Rest_Frames
  imports Trading_Client
begin

text \<open>
  What the operations of the REST client may change.  A frame is a relation between a client before and after
  that allows the bookkeeping of requests satisfying \<open>P\<close>, setting latches that are clear, and the caches of
  market data.  Every operation stays within every frame that allows what it asks for.
\<close>

locale rest_frame =
  fixes P :: "http_request \<Rightarrow> bool" and R :: "OkxRestClient \<Rightarrow> OkxRestClient \<Rightarrow> bool"
  assumes networking: "networking P R"
    and quiet: "hq_asked q = None \<Longrightarrow> P q"
    and latch: "ri_safety_latches c i = None \<Longrightarrow> R c (c\<lparr> ri_safety_latches := (ri_safety_latches c)(i \<mapsto> e) \<rparr>)"
    and snapshots: "R c (c\<lparr> ri_instrument_snapshots := s \<rparr>)"
    and fallbacks: "R c (c\<lparr> ri_live_candle_fallbacks := f \<rparr>)"
begin

lemmas pre = networking_preorder [OF networking]
lemmas book = networking_bookkeeping [OF networking]

lemma unasked: "asks None q \<Longrightarrow> P q"
  using quiet by (simp add: asks_def)

lemmas shape = rest_keeps_bind [OF pre] keeps_try [OF pre] keeps_pure [OF pre] keeps_context rest_keeps_if keeps_sum
  rest_keeps_option rest_keeps_prod keeps_clock [OF book] keeps_wait [OF book]

lemma gets:
  "rest_keeps R (public_get E f path query)" "rest_keeps R (private_request E f method path query None)"
  "rest_keeps R (private_account_sizing_request E f method path query None)"
  by (rule keeps_public_get [OF networking] keeps_private_requests [OF networking]; simp add: quiet unasked)+

lemma server_times:
  "rest_keeps R (refresh_server_time E)" "rest_keeps R (refresh_server_time_if_expiring E)"
  "rest_keeps R (private_request_timing E)"
  by (rule keeps_refresh_server_time [OF networking]; simp add: quiet)+

lemma listings:
  "rest_keeps R (rest_open_orders E i)" "rest_keeps R (append_order_history_endpoint E i path s acc)"
  "rest_keeps R (append_order_fills_endpoint E i path s acc')" "rest_keeps R (rest_open_algo_orders E i)"
  "rest_keeps R (append_algo_order_history_state E i s acc'')"
  by (rule keeps_listings [OF networking]; simp add: quiet)+

lemmas requests = gets server_times listings keeps_server_clock [OF networking] keeps_synchronized [OF networking]
  keeps_reserve [OF networking] keeps_routes [OF pre]

lemma mutation_requests:
  assumes "\<And>q. asks body q \<Longrightarrow> P q"
  shows "rest_keeps R (private_request E f method path query body)"
    "rest_keeps R (private_order_mutation_request E method path query body expiry)"
    "rest_keeps R (private_order_mutation_request_after_reservation E method path query body expiry b)"
    "rest_keeps R (private_algo_mutation_request E method path query body expiry)"
  by (rule keeps_private_requests [OF networking]; simp add: assms)+

lemma qmatch: "rest_keeps R m \<Longrightarrow> (\<And>x. rest_keeps R (f x)) \<Longrightarrow> (\<And>e. rest_keeps R (h e)) \<Longrightarrow> rest_keeps R (qmatch m f h)"
  unfolding qmatch_def by (intro shape)

lemma settled: "rest_keeps R (unconfirmed e s)"
  unfolding unconfirmed_def by (intro shape)

section \<open>Market data\<close>

lemma latches:
  "rest_keeps R (ensure_instrument_metadata_safety_latch_clear i)" "rest_keeps R (latch_instrument_metadata_failure i e)"
  "rest_keeps R (latch_on_error i check)"
proof -
  show "rest_keeps R (ensure_instrument_metadata_safety_latch_clear i)"
    using pre by (simp add: rest_keeps_def ensure_instrument_metadata_safety_latch_clear_def preorder_rel_def)
  show failure: "rest_keeps R (latch_instrument_metadata_failure i e)" for i :: string and e
    using pre latch by (auto simp: rest_keeps_def latch_instrument_metadata_failure_def preorder_rel_def split: option.split)
  show "rest_keeps R (latch_on_error i check)"
    unfolding latch_on_error_def by (intro shape failure)
qed

lemma caches:
  "rest_keeps R (instrument_snapshot i)" "rest_keeps R (remember_instrument_snapshot spec)"
  "rest_keeps R (validated_trading_instrument_if_present i)" "rest_keeps R (cached_fresh_instrument E i)"
  "rest_keeps R (cached_fresh_candles E i ch)"
  unfolding instrument_snapshot_def remember_instrument_snapshot_def validated_trading_instrument_if_present_def
    cached_fresh_instrument_def cached_fresh_candles_def
  by (intro shape keeps_upd snapshots)+

lemma hints:
  "rest_keeps R (ensure_fresh_instrument_hint_matches_snapshot E i)"
  "rest_keeps R (ensure_fresh_instrument_hint_matches_rest_snapshot E spec)"
  unfolding ensure_fresh_instrument_hint_matches_snapshot_def ensure_fresh_instrument_hint_matches_rest_snapshot_def
  by (intro shape latches caches)+

lemma instruments: "rest_keeps R (instrument_for_type E t i)"
  unfolding instrument_for_type_def accept_instrument_def by (intro shape latches caches hints requests)

lemma candles: "rest_keeps R (rest_candles E i bar n)"
  unfolding rest_candles_def by (intro shape requests)

lemma pruning: "rest_keeps R (prune_expired_live_candle_fallbacks E a fs)"
proof (induction E a fs rule: prune_expired_live_candle_fallbacks.induct)
  case (1 E a)
  show ?case unfolding prune_expired_live_candle_fallbacks.simps by (intro shape)
next
  case (2 E a k f fs)
  show ?case unfolding prune_expired_live_candle_fallbacks.simps by (intro shape "2.IH")
qed

lemma live_candles: "rest_keeps R (rest_live_candles E i bar n)"
  unfolding rest_live_candles_def fresh_live_candles_from_cache_def recent_live_candle_rest_fallback_def
    remember_live_candle_rest_fallback_def Let_def
  by (intro shape caches candles pruning keeps_upd fallbacks)

lemma retried: "rest_keeps R m \<Longrightarrow> rest_keeps R (retry_stale n m)"
proof (induction n)
  case (Suc n)
  show ?case unfolding retry_stale.simps by (intro shape Suc)
qed (simp add: rest_keeps_def pre [unfolded preorder_rel_def])

lemma tickers:
  "rest_keeps R (ticker_with_max_age E i a)" "rest_keeps R (startup_ticker E i)" "rest_keeps R (rest_ticker E i)"
proof -
  show ticker: "rest_keeps R (ticker_with_max_age E i a)" for i a
    unfolding ticker_with_max_age_def Let_def by (intro shape hints requests)
  show "rest_keeps R (startup_ticker E i)" "rest_keeps R (rest_ticker E i)"
    unfolding startup_ticker_def rest_ticker_def by (intro shape retried ticker)+
qed

lemma quote_rates: "rest_keeps R (quote_usd_rate_for_quote E ccy)" "rest_keeps R (rest_fresh_quote_usd_rate E v)"
proof -
  show rate: "rest_keeps R (quote_usd_rate_for_quote E ccy)" for ccy
    unfolding quote_usd_rate_for_quote_def quote_usd_rate_from_index_def Let_def
    by (intro shape retried requests)
  show "rest_keeps R (rest_fresh_quote_usd_rate E v)"
    unfolding rest_fresh_quote_usd_rate_def by (intro shape rate)
qed

lemma prices: "rest_keeps R (ensure_fresh_spot_order_price E i side p s)"
  unfolding ensure_fresh_spot_order_price_def fresh_spot_price_limit_def by (intro shape hints requests)

section \<open>The account\<close>

lemma account_reads:
  "rest_keeps R (rest_balances E)" "rest_keeps R (spot_trade_fee_for_group E i g)" "rest_keeps R (rest_spot_trade_fee E i)"
  "rest_keeps R (maximum_order_size E i td px q)" "rest_keeps R (maximum_available_size E i td q)"
  "rest_keeps R (requested_account_instrument E rq)"
proof -
  show fee: "rest_keeps R (spot_trade_fee_for_group E i g)" for i g
    unfolding spot_trade_fee_for_group_def instrument_type_for_fee_group_def by (intro shape caches requests)
  show "rest_keeps R (rest_balances E)" "rest_keeps R (rest_spot_trade_fee E i)"
    "rest_keeps R (maximum_order_size E i td px q)" "rest_keeps R (maximum_available_size E i td q)"
    "rest_keeps R (requested_account_instrument E rq)"
    unfolding rest_balances_def rest_spot_trade_fee_def instrument_fee_group_id_def maximum_order_size_def
      maximum_available_size_def requested_account_instrument_def Let_def
    by (intro shape caches requests fee)+
qed

section \<open>Orders\<close>

lemma lookups:
  "rest_keeps R (rest_order E i x)" "rest_keeps R (algo_order_by_client_order_id E i x)"
  "rest_keeps R (algo_order_history_by_id E i x)"
  unfolding rest_order_def algo_order_by_client_order_id_def algo_order_history_by_id_def
  by (intro shape qmatch requests)+

lemma reconciled:
  "rest_keeps R (reconcile_order_submit_failure E q e)" "rest_keeps R (reconcile_order_amend_failure E a e)"
  "rest_keeps R (confirm_amendment E a)" "rest_keeps R (reconcile_algo_submit_failure E i side sz px x e)"
  "rest_keeps R (order_cancel_target_is_terminal_or_missing E i x)"
  "rest_keeps R (algo_cancel_target_is_terminal_or_missing E i x)"
  unfolding reconcile_order_submit_failure_def reconcile_submitted_order_def reconcile_order_amend_failure_def
    confirm_amendment_def reconcile_algo_submit_failure_def reconcile_submitted_algo_def
    order_cancel_target_is_terminal_or_missing_def algo_cancel_target_is_terminal_or_missing_def
  by (intro shape qmatch settled lookups requests)+

lemma settlements:
  "rest_keeps R m \<Longrightarrow> rest_keeps R (settle_submission E q m)" "rest_keeps R m \<Longrightarrow> rest_keeps R (settle_amendment E a m)"
  unfolding settle_submission_def settle_amendment_def
  by (intro shape qmatch reconciled; assumption)+

lemma place_order:
  assumes "\<And>td q req. asks (Some (PlaceOrderBody (place_order_request i td side kind sz px q x))) req \<Longrightarrow> P req"
  shows "rest_keeps R (rest_place_order E i side kind sz px x)"
  unfolding rest_place_order_def private_regular_order_request_def private_regular_order_request_after_reservation_def Let_def
  by (intro shape settlements hints prices requests mutation_requests assms)

lemma amend_order:
  assumes "\<And>b req. aq_inst_id b = am_inst_id a \<Longrightarrow> asks (Some (AmendOrderBody b)) req \<Longrightarrow> P req"
  shows "rest_keeps R (rest_amend_order E a)"
  unfolding rest_amend_order_def Let_def
  by (intro shape settlements hints prices requests mutation_requests assms) simp_all

lemma cancel_order:
  assumes "\<And>b req. asks (Some (CancelOrderBody b)) req \<Longrightarrow> P req"
  shows "rest_keeps R (rest_cancel_order E i x)"
  unfolding rest_cancel_order_def
  by (intro shape qmatch reconciled requests mutation_requests assms)

lemma place_trigger_order:
  assumes "\<And>td q req. asks (Some (PlaceTriggerBody (place_trigger_request i td side sz px q x))) req \<Longrightarrow> P req"
  shows "rest_keeps R (rest_place_trigger_order E i side sz px x)"
  unfolding rest_place_trigger_order_def Let_def
  by (intro shape qmatch hints reconciled requests mutation_requests assms)

lemma cancel_algo_order:
  assumes "\<And>b req. asks (Some (CancelAlgoBody b)) req \<Longrightarrow> P req"
  shows "rest_keeps R (rest_cancel_algo_order E i x)"
  unfolding rest_cancel_algo_order_def
  by (intro shape qmatch reconciled requests mutation_requests assms)

lemma cancel_all_after:
  assumes "\<And>b req. asks (Some (CancelAllAfterBody b)) req \<Longrightarrow> P req"
  shows "rest_keeps R (rest_cancel_all_after E t)"
  unfolding rest_cancel_all_after_def by (intro shape mutation_requests assms)

section \<open>WebSocket commands\<close>

lemma websocket_preparations:
  "rest_keeps R (prepare_websocket_place_order E i side kind px)" "rest_keeps R (prepare_websocket_amend_order E i side px)"
  "rest_keeps R (prepare_websocket_cancel_order E i)" "rest_keeps R (prepare_websocket_order_command_timing E)"
  "rest_keeps R (websocket_login_timestamp E)"
  unfolding prepare_websocket_place_order_def prepare_websocket_amend_order_def prepare_websocket_cancel_order_def
    prepare_websocket_order_command_timing_def websocket_login_timestamp_def websocket_expiry_def
  by (intro shape hints prices requests)+

end

end
