(* ===== verification/Rest_Guarantees.thy ===== *)
theory Rest_Guarantees
  imports Rest_Frames
begin

text \<open>
  The properties of the REST client: what its operations may send, when they may, and what their results mean.
\<close>

section \<open>Runs of the client\<close>

text \<open>The orders, amendments and switches asked for, latest first; every other request only reads.\<close>

definition mutations :: "http_request list \<Rightarrow> rest_body list" where
  "mutations requests = List.map_filter hq_asked requests"

lemma mutations_simps [simp]:
  "mutations [] = []" "mutations (q # requests) = (case hq_asked q of None \<Rightarrow> mutations requests | Some b \<Rightarrow> b # mutations requests)"
  by (simp_all add: mutations_def List.map_filter_def split: option.split)

datatype rest_operation =
    GetInstrument string
  | GetCandles string string nat
  | GetLiveCandles string string nat
  | GetTicker string
  | GetQuoteRate ValidatedTradingInstrument
  | GetBalances
  | GetFee string
  | GetOpenOrders string
  | GetOrderHistory string
  | GetFills string
  | GetOpenAlgoOrders string
  | GetAlgoHistory string
  | GetOrder string string
  | SendOrder string OrderSide OrderKind string "string option" string
  | SendCancel string string
  | SendAmendment OkxOrderAmend
  | SendTrigger string OrderSide string string string
  | SendAlgoCancel string string
  | SendSwitch OkxCancelAllAfterTimeout
  | GetAccountConfig
  | ValidateInstrument RequestedTradingInstrument OkxAccountConfig
  | RefreshTime

definition perform :: "rest_env \<Rightarrow> rest_operation \<Rightarrow> OkxRestClient \<Rightarrow> OkxRestClient" where
  "perform E operation c =
     (case operation of
        GetInstrument i \<Rightarrow> snd (rest_instruments E i c)
      | GetCandles i bar n \<Rightarrow> snd (rest_candles E i bar n c)
      | GetLiveCandles i bar n \<Rightarrow> snd (rest_live_candles E i bar n c)
      | GetTicker i \<Rightarrow> snd (rest_ticker E i c)
      | GetQuoteRate v \<Rightarrow> snd (rest_fresh_quote_usd_rate E v c)
      | GetBalances \<Rightarrow> snd (rest_balances E c)
      | GetFee i \<Rightarrow> snd (rest_spot_trade_fee E i c)
      | GetOpenOrders i \<Rightarrow> snd (rest_open_orders E i c)
      | GetOrderHistory i \<Rightarrow> snd (rest_order_history E i c)
      | GetFills i \<Rightarrow> snd (rest_order_fills E i c)
      | GetOpenAlgoOrders i \<Rightarrow> snd (rest_open_algo_orders E i c)
      | GetAlgoHistory i \<Rightarrow> snd (rest_algo_order_history E i c)
      | GetOrder i x \<Rightarrow> snd (rest_order E i x c)
      | SendOrder i side kind sz px x \<Rightarrow> snd (rest_place_order E i side kind sz px x c)
      | SendCancel i x \<Rightarrow> snd (rest_cancel_order E i x c)
      | SendAmendment a \<Rightarrow> snd (rest_amend_order E a c)
      | SendTrigger i side sz px x \<Rightarrow> snd (rest_place_trigger_order E i side sz px x c)
      | SendAlgoCancel i x \<Rightarrow> snd (rest_cancel_algo_order E i x c)
      | SendSwitch t \<Rightarrow> snd (rest_cancel_all_after E t c)
      | GetAccountConfig \<Rightarrow> snd (rest_account_config E c)
      | ValidateInstrument rq cfg \<Rightarrow> snd (validate_trading_instrument E rq cfg c)
      | RefreshTime \<Rightarrow> snd (refresh_server_time_if_expiring E c))"

definition perform_all :: "rest_env \<Rightarrow> rest_operation list \<Rightarrow> OkxRestClient \<Rightarrow> OkxRestClient" where
  "perform_all E operations c = foldl (\<lambda>c x. perform E x c) c operations"

lemma perform_all_preserves:
  assumes "preorder_rel R" and "\<And>x c. R c (perform E x c)"
  shows "R c (perform_all E operations c)"
proof (induction operations rule: rev_induct)
  case (snoc x xs)
  have "R (perform_all E xs c) (perform_all E (xs @ [x]) c)" using assms(2) by (simp add: perform_all_def)
  with snoc assms(1) show ?case unfolding preorder_rel_def by blast
qed (use assms in \<open>simp add: perform_all_def preorder_rel_def\<close>)

text \<open>What is left of an operation once the frame of the orders and of the account is known.\<close>

context rest_frame begin

lemma histories:
  "rest_keeps R (rest_order_history E i)" "rest_keeps R (rest_order_fills E i)" "rest_keeps R (rest_algo_order_history E i)"
proof -
  have states: "rest_keeps R (append_algo_order_history_states E i states acc)" for states acc
  proof (induction states arbitrary: acc)
    case (Cons state states)
    show ?case unfolding append_algo_order_history_states.simps by (intro shape listings Cons)
  qed (simp add: rest_keeps_def pre [unfolded preorder_rel_def])
  show "rest_keeps R (rest_order_history E i)" "rest_keeps R (rest_order_fills E i)" "rest_keeps R (rest_algo_order_history E i)"
    unfolding rest_order_history_def rest_order_fills_def rest_algo_order_history_def
    by (intro shape listings states)+
qed

lemma perform:
  assumes place: "\<And>i side kind sz px x. rest_keeps R (rest_place_order E i side kind sz px x)"
    and cancel: "\<And>i x. rest_keeps R (rest_cancel_order E i x)" and amend: "\<And>a. rest_keeps R (rest_amend_order E a)"
    and trigger: "\<And>i side sz px x. rest_keeps R (rest_place_trigger_order E i side sz px x)"
    and cancel_algo: "\<And>i x. rest_keeps R (rest_cancel_algo_order E i x)"
    and switch: "\<And>t. rest_keeps R (rest_cancel_all_after E t)"
    and config: "rest_keeps R (rest_account_config E)"
    and validate: "\<And>rq cfg. rest_keeps R (validate_trading_instrument E rq cfg)"
  shows "R c (perform E x c)"
proof -
  note kept = assms instruments candles live_candles tickers quote_rates account_reads listings histories lookups server_times
  show ?thesis
    using kept unfolding perform_def rest_instruments_def
    by (cases x) (simp_all add: rest_keeps_def)
qed

end

section \<open>The safety latch\<close>

text \<open>A request that opens or changes an exposure in an instrument.\<close>

definition enters :: "string \<Rightarrow> rest_body \<Rightarrow> bool" where
  "enters i b =
     (case b of
        PlaceOrderBody q \<Rightarrow> pq_inst_id q = i
      | AmendOrderBody q \<Rightarrow> aq_inst_id q = i
      | PlaceTriggerBody q \<Rightarrow> tq_inst_id q = i
      | _ \<Rightarrow> False)"

definition enters_request :: "string \<Rightarrow> http_request \<Rightarrow> bool" where
  "enters_request i q = (case hq_asked q of None \<Rightarrow> False | Some b \<Rightarrow> enters i b)"

definition untraded :: "string \<Rightarrow> OkxRestClient \<Rightarrow> OkxRestClient \<Rightarrow> bool" where
  "untraded i c c' =
     (ri_safety_latches c i \<noteq> None \<longrightarrow>
        ri_safety_latches c' i = ri_safety_latches c i \<and>
        (\<exists>new. ri_log c' = new @ ri_log c \<and> (\<forall>q\<in>set new. \<not> enters_request i q)))"

lemma untraded_preorder: "preorder_rel (untraded i)"
  unfolding preorder_rel_def
proof (intro conjI allI impI)
  fix a b c :: OkxRestClient
  show "untraded i a a" by (simp add: untraded_def)
  assume ab: "untraded i a b" and bc: "untraded i b c"
  show "untraded i a c"
    unfolding untraded_def
  proof
    assume latched: "ri_safety_latches a i \<noteq> None"
    with ab obtain n1 where 1: "ri_safety_latches b i = ri_safety_latches a i" "ri_log b = n1 @ ri_log a"
      "\<forall>q\<in>set n1. \<not> enters_request i q" by (auto simp: untraded_def)
    with bc latched obtain n2 where "ri_safety_latches c i = ri_safety_latches b i" "ri_log c = n2 @ ri_log b"
      "\<forall>q\<in>set n2. \<not> enters_request i q" by (auto simp: untraded_def)
    with 1 have "ri_log c = (n2 @ n1) @ ri_log a" "\<forall>q\<in>set (n2 @ n1). \<not> enters_request i q"
      "ri_safety_latches c i = ri_safety_latches a i" by auto
    then show "ri_safety_latches c i = ri_safety_latches a i \<and>
        (\<exists>new. ri_log c = new @ ri_log a \<and> (\<forall>q\<in>set new. \<not> enters_request i q))" by blast
  qed
qed

interpretation untraded: rest_frame "\<lambda>q. \<not> enters_request i q" "untraded i" for i
proof unfold_locales
  show "networking (\<lambda>q. \<not> enters_request i q) (untraded i)"
    using untraded_preorder by (auto simp: networking_def bookkeeping_def untraded_def)
qed (auto simp: untraded_def enters_request_def)

lemma latch_gate: "rest_keeps (untraded i) (qbind (ensure_fresh_instrument_hint_matches_snapshot E i) f)"
  unfolding rest_keeps_def
proof
  fix c :: OkxRestClient
  show "untraded i c (snd (qbind (ensure_fresh_instrument_hint_matches_snapshot E i) f c))"
    by (cases "ri_safety_latches c i")
      (simp_all add: untraded_def qbind_def ensure_fresh_instrument_hint_matches_snapshot_def
        ensure_instrument_metadata_safety_latch_clear_def)
qed

text \<open>The commands over the WebSocket are prepared by the client, and the latch refuses the preparation.\<close>

lemma latched_gate_fails:
  "ri_safety_latches c i \<noteq> None \<Longrightarrow> isl (fst (qbind (ensure_fresh_instrument_hint_matches_snapshot E i) f c))"
  by (auto simp: qbind_def ensure_fresh_instrument_hint_matches_snapshot_def
    ensure_instrument_metadata_safety_latch_clear_def)

lemma waiting_gate_fails:
  assumes "ri_safety_latches c i \<noteq> None"
  shows "isl (fst (qbind (qwait E b) (\<lambda>_. qbind (ensure_fresh_instrument_hint_matches_snapshot E i) f) c))"
proof -
  obtain r c' where run: "qwait E b c = (r, c')" by fastforce
  then have "ri_safety_latches c' = ri_safety_latches c" by (auto simp: qwait_def split: prod.splits)
  with assms run show ?thesis
    by (cases r) (auto simp: qbind_def [of "qwait E b"] intro!: latched_gate_fails)
qed

lemma checked_fails: "(\<And>x. isl (fst (f x c))) \<Longrightarrow> isl (fst (qbind (qplain r) f c))"
  by (cases r) (simp_all add: qbind_def qplain_def qlift_def plain_def)

lemma latched_preparations_fail:
  assumes "ri_safety_latches c i \<noteq> None"
  shows "isl (fst (prepare_websocket_place_order E i side kind px c))"
    and "isl (fst (prepare_websocket_amend_order E i side npx c))"
  unfolding prepare_websocket_place_order_def prepare_websocket_amend_order_def
  by (intro checked_fails waiting_gate_fails [OF assms])+

lemmas enters_simps = asks_def enters_request_def enters_def place_order_request_def place_trigger_request_def

lemma untraded_place_order: "rest_keeps (untraded i) (rest_place_order E j side kind sz px x)"
proof (cases "i = j")
  case True
  then show ?thesis
    unfolding rest_place_order_def Let_def by (auto intro!: latch_gate untraded.shape untraded.requests)
next
  case False
  then show ?thesis by (intro untraded.place_order) (auto simp: enters_simps)
qed

lemma untraded_amend_order: "rest_keeps (untraded i) (rest_amend_order E a)"
proof (cases "i = am_inst_id a")
  case True
  then show ?thesis
    unfolding rest_amend_order_def Let_def by (auto intro!: latch_gate untraded.shape untraded.requests)
next
  case False
  then show ?thesis by (intro untraded.amend_order) (auto simp: enters_simps)
qed

lemma untraded_place_trigger_order: "rest_keeps (untraded i) (rest_place_trigger_order E j side sz px x)"
proof (cases "i = j")
  case True
  then show ?thesis
    unfolding rest_place_trigger_order_def by (auto intro!: latch_gate untraded.shape untraded.requests)
next
  case False
  then show ?thesis by (intro untraded.place_trigger_order) (auto simp: enters_simps)
qed

context rest_frame begin

text \<open>The account operations, in a frame that leaves their own fields free.\<close>

lemma account_operations:
  assumes "\<And>c g. R c (c\<lparr> ri_generations := g \<rparr>)" and "\<And>c l. R c (c\<lparr> ri_account_level := l \<rparr>)"
  shows "rest_keeps R (rest_account_config E)" "rest_keeps R (validate_trading_instrument E rq cfg)"
proof -
  have upd: "rest_keeps R (qupd (\<lambda>c. c\<lparr> ri_account_level := l \<rparr>))" "rest_keeps R revoke_capability_generations"
    "rest_keeps R (qupd (\<lambda>c. c\<lparr> ri_generations := (ri_generations c)(i \<mapsto> g) \<rparr>))" for l i g
    unfolding revoke_capability_generations_def by (intro keeps_upd assms)+
  show "rest_keeps R (rest_account_config E)"
    unfolding rest_account_config_def revoking_on_error_def observe_account_level_diagnostic_def
    by (intro shape requests upd)
  have diagnostic: "rest_keeps R (matching_observed_account_level_diagnostic cfg)" for cfg
    unfolding matching_observed_account_level_diagnostic_def by (intro shape upd)
  have remember: "rest_keeps R (remember_validated_capability_generation E g)" for g
    unfolding remember_validated_capability_generation_def Let_def by (intro shape upd)
  show "rest_keeps R (validate_trading_instrument E rq cfg)"
    unfolding validate_trading_instrument_def revoking_on_error_def validate_trading_instrument_generation_def
      requested_public_instrument_def Let_def
    by (intro shape upd diagnostic remember instruments tickers quote_rates account_reads)
qed

end



section \<open>Capabilities\<close>

text \<open>What is remembered of an instrument is its own, and was validated under the account level last observed.\<close>

definition capability_ok :: "OkxRestClient \<Rightarrow> string \<Rightarrow> ValidatedCapabilityGeneration \<Rightarrow> bool" where
  "capability_ok c i g =
     (vi_inst_id (vg_instrument g) = i \<and> rq_instrument (vg_requested g) = i \<and>
      fee_group_id (vi_instrument (vg_instrument g)) = Inr (tf_group_id (vg_fee g)) \<and>
      map_option al_value (ri_account_level c) = Some (al_value (vg_account_level g)))"

definition capabilities_ok :: "OkxRestClient \<Rightarrow> bool" where
  "capabilities_ok c = (\<forall>i g. ri_generations c i = Some g \<longrightarrow> capability_ok c i g)"

definition capabilities_stay :: "OkxRestClient \<Rightarrow> OkxRestClient \<Rightarrow> bool" where
  "capabilities_stay c c' = (capabilities_ok c \<longrightarrow> capabilities_ok c')"

lemma capabilities_preorder: "preorder_rel capabilities_stay"
  by (simp add: preorder_rel_def capabilities_stay_def)

lemma capabilities_same:
  "ri_generations c' = ri_generations c \<Longrightarrow> ri_account_level c' = ri_account_level c \<Longrightarrow> capabilities_stay c c'"
  by (simp add: capabilities_stay_def capabilities_ok_def capability_ok_def split: option.split)

interpretation capabilities: rest_frame "\<lambda>_. True" capabilities_stay
proof unfold_locales
  show "networking (\<lambda>_. True) capabilities_stay"
    using capabilities_preorder by (simp add: networking_def bookkeeping_def capabilities_same)
qed (simp_all add: capabilities_same)

lemma keeps_qplain_bind:
  assumes "preorder_rel R" and "\<And>x. r = Inr x \<Longrightarrow> rest_keeps R (f x)"
  shows "rest_keeps R (qbind (qplain r) f)"
  using assms by (cases r) (auto simp: rest_keeps_def qbind_def preorder_rel_def plain_def map_err_def)

lemma capabilities_revoke: "rest_keeps capabilities_stay revoke_capability_generations"
  unfolding revoke_capability_generations_def
  by (intro keeps_upd) (simp add: capabilities_stay_def capabilities_ok_def)

lemma capabilities_observe: "rest_keeps capabilities_stay (observe_account_level_diagnostic E cfg)"
proof -
  have step: "rest_keeps capabilities_stay (
      qbind (qget ri_account_level) (\<lambda>observed.
      qbind (qupd (\<lambda>c. c\<lparr> ri_account_level := Some snapshot \<rparr>)) (\<lambda>_.
      if (case observed of None \<Rightarrow> False | Some current \<Rightarrow> al_value current \<noteq> al_value snapshot)
      then qbind revoke_capability_generations (\<lambda>_.
             qlift (rest_bad ''OKX account-level diagnostic'' ''changed; capability readiness was revoked''))
      else qret snapshot)))" for snapshot
    by (auto simp: rest_keeps_def qbind_def revoke_capability_generations_def rest_bad_def capabilities_stay_def
        capabilities_ok_def capability_ok_def split: option.splits)
  then show ?thesis
    unfolding observe_account_level_diagnostic_def by (intro capabilities.shape(1,8,11) step capabilities.shape)
qed

lemma capabilities_config: "rest_keeps capabilities_stay (rest_account_config E)"
  unfolding rest_account_config_def revoking_on_error_def
  by (intro capabilities.shape capabilities.requests capabilities_observe capabilities_revoke)

lemma capabilities_remember:
  assumes "rq_instrument (vg_requested g) = vi_inst_id (vg_instrument g)"
    and "fee_group_id (vi_instrument (vg_instrument g)) = Inr (tf_group_id (vg_fee g))"
  shows "rest_keeps capabilities_stay (remember_validated_capability_generation E g)"
  unfolding rest_keeps_def
proof
  fix c :: OkxRestClient
  let ?i = "vi_inst_id (vg_instrument g)"
  obtain r c' where run: "remember_validated_capability_generation E g c = (r, c')" by force
  then have "c' = c \<or> c' = c\<lparr> ri_generations := (ri_generations c)(?i \<mapsto> g) \<rparr> \<and>
    map_option al_value (ri_account_level c) = Some (al_value (vg_account_level g))"
    by (auto simp: remember_validated_capability_generation_def Let_def qbind_eq ok_or_def require_def
        split: option.split_asm if_split_asm)
  with run show "capabilities_stay c (snd (remember_validated_capability_generation E g c))"
    using assms by (auto simp: capabilities_stay_def capabilities_ok_def capability_ok_def split: if_splits)
qed

lemma capabilities_validate: "rest_keeps capabilities_stay (validate_trading_instrument E rq cfg)"
proof -
  have diagnostic: "rest_keeps capabilities_stay (matching_observed_account_level_diagnostic cfg)" for cfg
    unfolding matching_observed_account_level_diagnostic_def by (intro capabilities.shape capabilities_revoke)
  have remember: "rest_keeps capabilities_stay
      (qbind (qplain (generation_cash_spot D now capability v level fee age)) (\<lambda>g.
       qbind (remember_validated_capability_generation E g) (\<lambda>_. qret g)))" for D now capability v level fee age
    by (intro keeps_qplain_bind [OF capabilities_preorder] capabilities.shape capabilities_remember)
      (auto dest!: generation_cash_spot_Inr)
  show ?thesis
    unfolding validate_trading_instrument_def revoking_on_error_def validate_trading_instrument_generation_def
      requested_public_instrument_def Let_def
    by (intro remember capabilities.shape capabilities_revoke diagnostic capabilities.instruments capabilities.tickers
        capabilities.quote_rates capabilities.account_reads)
qed

lemma unvalidated_route:
  "ri_generations c i = None \<Longrightarrow>
    validated_order_route i c = (rest_bad ''OKX trading tuple'' ''was not validated before order mutation'', c)"
  by (simp add: validated_order_route_def validated_trading_instrument_def validated_trading_instrument_if_present_def
      qbind_def qtry_def)

lemma unvalidated_refused:
  assumes "ri_generations c i = None"
  shows "qbind (validated_order_route i) f c = (rest_bad ''OKX trading tuple'' ''was not validated before order mutation'', c)"
  using unvalidated_route [OF assms] by (simp add: qbind_def rest_bad_def)

text \<open>What the client does with an instrument it holds no capability of.\<close>

definition refused :: "OkxRestClient \<Rightarrow> 'a rest_res \<times> OkxRestClient \<Rightarrow> bool" where
  "refused c out = (out = (rest_bad ''OKX trading tuple'' ''was not validated before order mutation'', c))"

definition refuses_orders :: "rest_env \<Rightarrow> OkxRestClient \<Rightarrow> string \<Rightarrow> bool" where
  "refuses_orders E c i =
     ((\<forall>side kind sz px x. refused c (rest_place_order E i side kind sz px x c)) \<and>
      (\<forall>a. refused c (rest_amend_order E (a\<lparr> am_inst_id := i \<rparr>) c)) \<and>
      (\<forall>x. refused c (rest_cancel_order E i x c)) \<and>
      (\<forall>side sz px x. refused c (rest_place_trigger_order E i side sz px x c)) \<and>
      (\<forall>x. refused c (rest_cancel_algo_order E i x c)))"

lemma unvalidated_refuses_orders: "ri_generations c i = None \<Longrightarrow> refuses_orders E c i"
  by (simp add: refuses_orders_def refused_def rest_place_order_def rest_amend_order_def rest_cancel_order_def
      rest_place_trigger_order_def rest_cancel_algo_order_def unvalidated_refused)

lemma account_config_revokes:
  assumes "rest_account_config E c = (Inl (Fail e), c')"
  shows "ri_generations c' = Map.empty"
  using assms unfolding rest_account_config_def revoking_on_error_def
  by (auto simp: qtry_eq qbind_eq revoke_capability_generations_def)

text \<open>
  C15: the capabilities of the client are those of its account.  After every run of operations, what is
  remembered of an instrument belongs to that instrument, agrees with its fee group and was validated under
  the account level observed last; an instrument of which nothing is remembered is refused every order,
  without a request; and a reading of the account configuration that fails, or finds another account level,
  forgets all instruments.
\<close>
theorem capabilities_match_account:
  "let c = perform_all E operations (rest_client_new key secret passphrase simulated staleness) in
   (\<forall>i. case ri_generations c i of
          None \<Rightarrow> refuses_orders E c i
        | Some g \<Rightarrow> capability_ok c i g) \<and>
   (case rest_account_config E c of
      (Inl (Fail e), c') \<Rightarrow> (\<forall>i. refuses_orders E c' i)
    | (_, c') \<Rightarrow> capabilities_ok c')"
proof -
  let ?start = "rest_client_new key secret passphrase simulated staleness"
  let ?c = "perform_all E operations ?start"
  have account: "rest_keeps capabilities_stay (rest_cancel_all_after E t)" "rest_keeps capabilities_stay (rest_cancel_order E i x)"
    "rest_keeps capabilities_stay (rest_cancel_algo_order E i x)" "rest_keeps capabilities_stay (rest_amend_order E a)"
    "rest_keeps capabilities_stay (rest_place_order E i side kind sz px x)"
    "rest_keeps capabilities_stay (rest_place_trigger_order E i side sz tp x)" for tp t i x a side kind sz px
    by (simp_all add: capabilities.cancel_all_after capabilities.cancel_order capabilities.cancel_algo_order
        capabilities.amend_order capabilities.place_order capabilities.place_trigger_order)
  have "capabilities_stay ?start ?c"
    by (rule perform_all_preserves [OF capabilities_preorder], rule capabilities.perform)
      (intro account capabilities_config capabilities_validate)+
  then have ok: "capabilities_ok ?c"
    by (simp add: capabilities_stay_def capabilities_ok_def rest_client_new_def)
  obtain r c' where config: "rest_account_config E ?c = (r, c')" by force
  have ok': "capabilities_ok c'"
    using rest_keepsD [OF capabilities_config config] ok by (simp add: capabilities_stay_def)
  have "ri_generations c' = Map.empty" if "r = Inl (Fail e)" for e
    using account_config_revokes config that by blast
  then have "case (r, c') of (Inl (Fail e), c') \<Rightarrow> (\<forall>i. refuses_orders E c' i) | (_, c') \<Rightarrow> capabilities_ok c'"
    using ok' unvalidated_refuses_orders by (auto split: sum.split fault.split)
  moreover have "case ri_generations ?c i of None \<Rightarrow> refuses_orders E ?c i | Some g \<Rightarrow> capability_ok ?c i g" for i
    using ok unvalidated_refuses_orders by (cases "ri_generations ?c i") (auto simp: capabilities_ok_def)
  ultimately show ?thesis unfolding Let_def config by blast
qed

end
