(* ===== verification/Rest_Outcomes.thy ===== *)
theory Rest_Outcomes
  imports Rest_Orders
begin

text \<open>
  What the results of the REST client mean: where an answer came from, what a listing leaves out, and what an
  order that was placed, amended or cancelled rests on.
\<close>

section \<open>Answers\<close>

text \<open>The last request, its answer and the body that was read.\<close>

definition answered :: "rest_env \<Rightarrow> OkxRestClient \<Rightarrow> http_request \<Rightarrow> string \<Rightarrow> bool" where
  "answered E c q body =
     (\<exists>requests r. ri_log c = q # requests \<and> re_http E (ri_log c) = Some r \<and> is_success (hp_status r) \<and>
        read_okx_response_body r = Inr body)"

lemma same_log: "bookkeeping (\<lambda>c c'. ri_log c' = ri_log c)"
  by (auto simp: bookkeeping_def preorder_rel_def)

lemma send_private_request_after_reservation_Inr:
  assumes "send_private_request_after_reservation E method path query body expiry b c = (Inr (r, b'), c')"
  shows "\<exists>q requests. ri_log c' = q # requests \<and> hq_method q = method \<and> hq_path q = path \<and> hq_query q = query \<and>
    hq_asked q = body \<and> re_http E (ri_log c') = Some r"
  using assms
  by (auto simp: send_private_request_after_reservation_def qbind_Inr qsend_def Let_def ok_or_def split: option.splits)

lemma send_private_request_Inr:
  assumes "send_private_request E method path query body expiry c = (Inr (r, b), c')"
  shows "\<exists>q requests. ri_log c' = q # requests \<and> hq_method q = method \<and> hq_path q = path \<and> hq_query q = query \<and>
    hq_asked q = body \<and> re_http E (ri_log c') = Some r"
  using assms send_private_request_after_reservation_Inr by (fastforce simp: send_private_request_def qbind_Inr)

lemma response_body_Inr:
  "response_body E s b r c = (Inr body, c') \<Longrightarrow> read_okx_response_body r = Inr body"
  by (auto simp: response_body_def qbind_Inr rest_bad_def in_context_def map_err_def split: sum.splits if_splits)

lemma parse_response_Inr:
  assumes "parse_response E f b r c = (Inr x, c')"
  shows "ri_log c' = ri_log c \<and> is_success (hp_status r) \<and>
    (\<exists>body e. read_okx_response_body r = Inr body \<and> rj_envelope (re_json E) body = Some e \<and> en_code e = ''0'' \<and>
       f (raw_data e) = Some x)"
  using assms rest_keepsD [OF keeps_parsers(1) [OF same_log] assms]
  by (auto simp: parse_response_def qbind_Inr unparsed_def ok_or_def require_def dest!: response_body_Inr
      split: if_splits option.splits)

lemma parse_order_mutation_response_Inr:
  assumes "parse_order_mutation_response E b r c = (Inr acks, c')"
  shows "ri_log c' = ri_log c \<and> is_success (hp_status r) \<and>
    (\<exists>body e. read_okx_response_body r = Inr body \<and> rj_order_mutation (re_json E) body = Some e \<and> em_code e = ''0'' \<and>
       em_data e = acks)"
  using assms rest_keepsD [OF keeps_parsers(2) [OF same_log] assms]
  by (auto simp: parse_order_mutation_response_def qbind_Inr unparsed_def ok_or_def require_def dest!: response_body_Inr
      split: if_splits option.splits)

lemma private_request_Inr:
  assumes "private_request E f method path query body c = (Inr x, c')"
  shows "\<exists>q answer e. answered E c' q answer \<and> hq_path q = path \<and> hq_query q = query \<and> hq_asked q = body \<and>
    rj_envelope (re_json E) answer = Some e \<and> en_code e = ''0'' \<and> f (raw_data e) = Some x"
proof -
  from assms obtain r b c1 where sent: "send_private_request E method path query body NoRequestExpiry c = (Inr (r, b), c1)"
    and parsed: "parse_response E f b r c1 = (Inr x, c')"
    by (auto simp: private_request_def private_request_with_expiry_def qbind_Inr)
  from send_private_request_Inr [OF sent] parse_response_Inr [OF parsed] show ?thesis
    unfolding answered_def by metis
qed

lemma order_mutation_Inr:
  assumes "private_order_mutation_request E method path query body expiry c = (Inr acks, c') \<or>
    private_order_mutation_request_after_reservation E method path query body expiry b c = (Inr acks, c')"
  shows "\<exists>q answer e. answered E c' q answer \<and> hq_path q = path \<and> hq_asked q = body \<and>
    rj_order_mutation (re_json E) answer = Some e \<and> em_code e = ''0'' \<and> em_data e = acks"
proof -
  from assms obtain r b' c0 c1 where
    sent: "send_private_request E method path query body expiry c = (Inr (r, b'), c1) \<or>
      send_private_request_after_reservation E method path query body expiry b c = (Inr (r, b'), c1)"
    and parsed: "parse_order_mutation_response E b' r c1 = (Inr acks, c')"
    by (auto simp: private_order_mutation_request_def private_order_mutation_request_after_reservation_def qbind_Inr)
  from sent have "\<exists>q requests. ri_log c1 = q # requests \<and> hq_path q = path \<and> hq_asked q = body \<and> re_http E (ri_log c1) = Some r"
    by (elim disjE) (fastforce dest: send_private_request_Inr send_private_request_after_reservation_Inr)+
  with parse_order_mutation_response_Inr [OF parsed] show ?thesis
    unfolding answered_def by metis
qed

section \<open>Complete listings\<close>

text \<open>
  What OKX documents of the pending orders: an answer to a request for the orders after a cursor is that page
  of the listing, newest first.
\<close>

definition serves_open_orders :: "rest_env \<Rightarrow> string \<Rightarrow> OkxOrder list \<Rightarrow> bool" where
  "serves_open_orders E inst_id rows =
     (\<forall>c q answer after e page.
        answered E c q answer \<longrightarrow> hq_path q = ''/api/v5/trade/orders-pending'' \<longrightarrow>
        hq_query q = Some (open_orders_query (re_urlencode E) ''SPOT'' inst_id after) \<longrightarrow>
        rj_envelope (re_json E) answer = Some e \<longrightarrow> rj_orders (re_json E) (raw_data e) = Some page \<longrightarrow>
        page = server_page OKX_OPEN_ORDERS_PAGE_LIMIT or_order_id rows after)"

definition serves_open_algo_orders :: "rest_env \<Rightarrow> string \<Rightarrow> OkxAlgoOrder list \<Rightarrow> bool" where
  "serves_open_algo_orders E inst_id rows =
     (\<forall>c q answer after e page.
        answered E c q answer \<longrightarrow> hq_path q = ''/api/v5/trade/orders-algo-pending'' \<longrightarrow>
        hq_query q = Some (open_algo_orders_query (re_urlencode E) ''SPOT'' inst_id after) \<longrightarrow>
        rj_envelope (re_json E) answer = Some e \<longrightarrow> rj_algo_orders (re_json E) (raw_data e) = Some page \<longrightarrow>
        page = server_page OKX_OPEN_ALGO_ORDERS_PAGE_LIMIT ao_algo_id rows after)"

lemma validated_instrument_type_Inr: "validated_instrument_type i c = (Inr t, c') \<Longrightarrow> t = ''SPOT''"
  by (auto simp: validated_instrument_type_def qtry_eq rest_bad_def)

lemma open_orders_fetched:
  assumes "serves_open_orders E i rows" and "yp_fetch (open_orders_source E ''SPOT'' i) after c = (Inr page, c')"
  shows "page = server_page OKX_OPEN_ORDERS_PAGE_LIMIT or_order_id rows after"
proof -
  from private_request_Inr [OF assms(2) [unfolded open_orders_source_def page_source.simps]] obtain q answer e where
    "answered E c' q answer" "hq_path q = ''/api/v5/trade/orders-pending''"
    "hq_query q = Some (open_orders_query (re_urlencode E) ''SPOT'' i after)"
    "rj_envelope (re_json E) answer = Some e" "rj_orders (re_json E) (raw_data e) = Some page" by blast
  with assms(1) show ?thesis unfolding serves_open_orders_def by blast
qed

lemma open_algo_orders_fetched:
  assumes "serves_open_algo_orders E i rows" and "yp_fetch (open_algo_orders_source E ''SPOT'' i) after c = (Inr page, c')"
  shows "page = server_page OKX_OPEN_ALGO_ORDERS_PAGE_LIMIT ao_algo_id rows after"
proof -
  from private_request_Inr [OF assms(2) [unfolded open_algo_orders_source_def page_source.simps]] obtain q answer e where
    "answered E c' q answer" "hq_path q = ''/api/v5/trade/orders-algo-pending''"
    "hq_query q = Some (open_algo_orders_query (re_urlencode E) ''SPOT'' i after)"
    "rj_envelope (re_json E) answer = Some e" "rj_algo_orders (re_json E) (raw_data e) = Some page" by blast
  with assms(1) show ?thesis unfolding serves_open_algo_orders_def by blast
qed


text \<open>An exchange with one open order, whose answer repeats the query it got.\<close>

definition one_order_env :: rest_env where
  "one_order_env = silent_rest_env\<lparr>
     re_http := (\<lambda>requests. case requests of [] \<Rightarrow> None | q # _ \<Rightarrow>
       Some \<lparr> hp_status = 200, hp_content_length = None, hp_chunks = [hq_query q] \<rparr>),
     re_json := silent_rest_json\<lparr>
       rj_envelope := (\<lambda>answer. Some \<lparr> en_code = ''0'', en_msg = [], en_data = Some answer,
         en_timing = \<lparr> en_in_time_microseconds = None, en_out_time_microseconds = None \<rparr> \<rparr>),
       rj_orders := (\<lambda>d. Some (if d = open_orders_query id ''SPOT'' ''BTC-USDT'' None then [sample_order] else [])),
       rj_algo_orders := (\<lambda>_. Some []) \<rparr> \<rparr>"

lemma one_order_answer:
  assumes "answered one_order_env c q answer" and "hq_query q = Some s"
  shows "answer = s"
  using assms by (auto simp: answered_def one_order_env_def dest!: read_okx_response_body_Inr)

lemma one_order_served: "serves_open_orders one_order_env ''BTC-USDT'' [sample_order]"
  unfolding serves_open_orders_def
proof (intro allI impI)
  fix c q answer after e page
  let ?query = "open_orders_query id ''SPOT'' ''BTC-USDT''"
  assume "answered one_order_env c q answer"
    and "hq_query q = Some (open_orders_query (re_urlencode one_order_env) ''SPOT'' ''BTC-USDT'' after)"
    and e: "rj_envelope (re_json one_order_env) answer = Some e"
    and page: "rj_orders (re_json one_order_env) (raw_data e) = Some page"
  then have "answer = open_orders_query (re_urlencode one_order_env) ''SPOT'' ''BTC-USDT'' after"
    using one_order_answer by blast
  then have "answer = ?query after" by (simp add: one_order_env_def silent_rest_env_def)
  moreover have "raw_data e = answer" using e by (auto simp: one_order_env_def raw_data_def)
  ultimately have "page = (if ?query after = ?query None then [sample_order] else [])"
    using page by (simp add: one_order_env_def)
  then show "page = server_page OKX_OPEN_ORDERS_PAGE_LIMIT or_order_id [sample_order] after"
    by (cases after) (simp_all add: open_orders_query_def after_pair_def server_page_def OKX_OPEN_ORDERS_PAGE_LIMIT_def)
qed


section \<open>Orders\<close>

text \<open>The exchange acknowledged this very order in its answer to the last request.\<close>

definition acknowledged :: "rest_env \<Rightarrow> string \<Rightarrow> rest_body \<Rightarrow> string \<Rightarrow> OkxRestClient \<Rightarrow> OkxOrderAck \<Rightarrow> bool" where
  "acknowledged E path body x c ack =
     (ak_status_code ack = ''0'' \<and> ak_client_order_id ack = x \<and> \<not> blank (ak_order_id ack) \<and>
      (\<exists>q answer e. answered E c q answer \<and> hq_path q = path \<and> hq_asked q = Some body \<and>
         rj_order_mutation (re_json E) answer = Some e \<and> em_code e = ''0'' \<and> em_data e = [ack]))"

text \<open>The exchange reported this order in its answer to the last request, a lookup of the client order id.\<close>

definition looked_up :: "rest_env \<Rightarrow> string \<Rightarrow> string \<Rightarrow> OkxRestClient \<Rightarrow> OkxOrder \<Rightarrow> bool" where
  "looked_up E i x c order =
     (or_inst_id order = i \<and> or_client_order_id order = x \<and>
      (\<exists>q answer e. answered E c q answer \<and> hq_path q = ''/api/v5/trade/order'' \<and>
         hq_query q = rest_query E [(''instId'', i), (''clOrdId'', x)] \<and>
         rj_envelope (re_json E) answer = Some e \<and> rj_orders (re_json E) (raw_data e) = Some [order]))"

text \<open>The order of the lookup is the order that was asked for.\<close>

definition same_order :: "decimal_ops \<Rightarrow> OrderSide \<Rightarrow> OrderKind \<Rightarrow> string \<Rightarrow> string option \<Rightarrow> OkxOrder \<Rightarrow> bool" where
  "same_order D side kind sz px order =
     (order_parsed_side order = Some side \<and> order_parsed_kind order = Some kind \<and>
      (\<exists>v. order_requested_size D order = Inr v \<and> d_parse D sz = Some v) \<and>
      (case px of None \<Rightarrow> True | Some p \<Rightarrow> \<exists>v. d_parse D (or_price order) = Some v \<and> d_parse D p = Some v))"

definition amended_order :: "decimal_ops \<Rightarrow> OkxOrderAmend \<Rightarrow> OkxOrder \<Rightarrow> bool" where
  "amended_order D a order =
     (order_parsed_side order = Some (am_side a) \<and>
      (case am_new_size a of None \<Rightarrow> True
       | Some sz \<Rightarrow> \<exists>v. order_requested_size D order = Inr v \<and> d_parse D sz = Some v) \<and>
      (case am_new_price a of None \<Rightarrow> True
       | Some p \<Rightarrow> \<exists>v. d_parse D (or_price order) = Some v \<and> d_parse D p = Some v))"

lemma qmatch_Inr:
  "qmatch m f h c = (Inr y, c'') \<longleftrightarrow>
    (\<exists>x c'. m c = (Inr x, c') \<and> f x c' = (Inr y, c'')) \<or> (\<exists>e c'. m c = (Inl (Fail e), c') \<and> h e c' = (Inr y, c''))"
  by (auto simp: qmatch_def qtry_eq)

lemma rest_order_Some:
  assumes "rest_order E i x c = (Inr (Some order), c')"
  shows "looked_up E i x c' order"
proof -
  from assms obtain orders c1 where
    "private_request E (rj_orders (re_json E)) ''GET'' ''/api/v5/trade/order''
       (rest_query E [(''instId'', i), (''clOrdId'', x)]) None c = (Inr orders, c1)"
    and rest: "length orders = 1" "hd orders = order" "c1 = c'" "or_client_order_id order = x" "or_inst_id order = i"
    by (auto simp: rest_order_def qmatch_Inr qbind_Inr require_def ensure_order_matches_instrument_def rbind_eq_Inr
        split: if_splits)
  moreover have "orders = [order]" using rest by (cases orders) auto
  ultimately show ?thesis using private_request_Inr unfolding looked_up_def by metis
qed

lemma reconcile_order_submit_failure_Inr:
  assumes "reconcile_order_submit_failure E requested e c = (Inr ack, c')"
  shows "\<exists>order. looked_up E (sr_inst_id requested) (sr_client_order_id requested) c' order \<and>
    same_order (re_decimal E) (sr_side requested) (sr_kind requested) (sr_size requested) (sr_price requested) order \<and>
    ack = reconciled_order_ack order"
proof -
  from assms obtain order c1 where
    found: "rest_order E (sr_inst_id requested) (sr_client_order_id requested) c = (Inr (Some order), c1)"
    and ok: "reconcile_submitted_order (re_decimal E) requested e order c1 = (Inr ack, c')"
    by (auto simp: reconcile_order_submit_failure_def qmatch_Inr unconfirmed_def split: option.splits)
  from ok have "c1 = c'" "ack = reconciled_order_ack order"
    "same_order (re_decimal E) (sr_side requested) (sr_kind requested) (sr_size requested) (sr_price requested) order"
    by (auto simp: reconcile_submitted_order_def unconfirmed_def qbind_Inr reconcile_submitted_price_def same_order_def
        rbind_eq_Inr parse_positive_decimal_field_Inr split: if_splits option.splits)
  with rest_order_Some [OF found] show ?thesis by blast
qed

lemma verify_reconciled_order_amend_Inr:
  "verify_reconciled_order_amend D order a = Inr () \<Longrightarrow> amended_order D a order"
  by (auto simp: verify_reconciled_order_amend_def Let_def rbind_eq_Inr require_def amended_order_def
      parse_positive_decimal_field_Inr split: option.splits if_splits)

lemma amendment_Inr:
  assumes "reconcile_order_amend_failure E a e c = (Inr ack, c') \<or> confirm_amendment E a c = (Inr ack, c')"
  shows "\<exists>order. looked_up E (am_inst_id a) (am_client_order_id a) c' order \<and> amended_order (re_decimal E) a order \<and>
    ack = reconciled_order_ack order"
proof -
  from assms obtain order where
    found: "rest_order E (am_inst_id a) (am_client_order_id a) c = (Inr (Some order), c')"
    and "verify_reconciled_order_amend (re_decimal E) order a = Inr ()" "ack = reconciled_order_ack order"
    by (auto simp: reconcile_order_amend_failure_def confirm_amendment_def qmatch_Inr unconfirmed_def rest_bad_def
        split: option.splits)
  with rest_order_Some [OF found] verify_reconciled_order_amend_Inr show ?thesis by blast
qed

lemma acknowledgedI:
  assumes "private_order_mutation_request E method path query (Some body) expiry c = (Inr acks, c') \<or>
      private_order_mutation_request_after_reservation E method path query (Some body) expiry b c = (Inr acks, c')"
    and "single_order_ack acks x s = Inr ack" and "ak_status_code ack = ''0''"
  shows "acknowledged E path body x c' ack"
proof -
  from single_order_ack_Inr [OF assms(2)] assms(3) have "acks = [ack]" "ak_client_order_id ack = x" "\<not> blank (ak_order_id ack)"
    by (cases acks; auto)+
  with order_mutation_Inr [OF assms(1)] assms(3) show ?thesis unfolding acknowledged_def by metis
qed

lemma settle_submission_Inr:
  assumes "settle_submission E requested m c = (Inr ack, c')"
  shows "(\<exists>acks. m c = (Inr acks, c') \<and> single_order_ack acks (sr_client_order_id requested) ''order'' = Inr ack \<and>
      ak_status_code ack = ''0'') \<or>
    (\<exists>order. looked_up E (sr_inst_id requested) (sr_client_order_id requested) c' order \<and>
      same_order (re_decimal E) (sr_side requested) (sr_kind requested) (sr_size requested) (sr_price requested) order \<and>
      ack = reconciled_order_ack order)"
  using assms reconcile_order_submit_failure_Inr
  by (fastforce simp: settle_submission_def qmatch_Inr split: if_splits)

text \<open>What a lookup that finds no order rests on.\<close>

definition reported_missing :: "rest_env \<Rightarrow> string \<Rightarrow> string \<Rightarrow> OkxRestClient \<Rightarrow> bool" where
  "reported_missing E i x c' = (\<exists>c. rest_order E i x c = (Inr None, c'))"

lemma cancel_target_resolved:
  assumes "order_cancel_target_is_terminal_or_missing E i x c = (Inr True, c')"
  shows "reported_missing E i x c' \<or> (\<exists>order. looked_up E i x c' order \<and> is_terminal order)"
proof -
  from assms obtain found where found: "rest_order E i x c = (Inr found, c')"
    and "case found of None \<Rightarrow> True | Some order \<Rightarrow> is_terminal order"
    by (auto simp: order_cancel_target_is_terminal_or_missing_def qbind_Inr)
  then show ?thesis
    by (cases found) (auto simp: reported_missing_def dest: rest_order_Some)
qed

lemma place_order_Inr:
  assumes "rest_place_order E i side kind sz px x c = (Inr ack, c')"
  shows "(\<exists>td q. acknowledged E ''/api/v5/trade/order'' (PlaceOrderBody (place_order_request i td side kind sz px q x)) x c' ack) \<or>
    (\<exists>order. looked_up E i x c' order \<and> same_order (re_decimal E) side kind sz px order \<and> ack = reconciled_order_ack order)"
proof -
  from assms obtain td q c1 m where m: "settle_submission E \<lparr> sr_inst_id = i, sr_side = side, sr_kind = kind, sr_size = sz,
        sr_price = px, sr_client_order_id = x \<rparr> m c1 = (Inr ack, c')"
    and sent: "m = private_regular_order_request E ''/api/v5/trade/order'' (PlaceOrderBody (place_order_request i td side kind sz px q x)) \<or>
      (\<exists>b. m = private_regular_order_request_after_reservation E ''/api/v5/trade/order''
         (PlaceOrderBody (place_order_request i td side kind sz px q x)) b)"
    by (fastforce simp: rest_place_order_def qbind_Inr Let_def split: if_splits prod.splits)
  from settle_submission_Inr [OF m] show ?thesis
  proof (elim disjE exE conjE)
    fix acks assume acks: "m c1 = (Inr acks, c')" "ak_status_code ack = ''0''"
      and single: "single_order_ack acks (sr_client_order_id \<lparr> sr_inst_id = i, sr_side = side, sr_kind = kind, sr_size = sz,
        sr_price = px, sr_client_order_id = x \<rparr>) ''order'' = Inr ack"
    from sent have "acknowledged E ''/api/v5/trade/order'' (PlaceOrderBody (place_order_request i td side kind sz px q x)) x c' ack"
      using acks acknowledgedI [OF disjI1 single [simplified]] acknowledgedI [OF disjI2 single [simplified]]
      by (auto simp: private_regular_order_request_def private_regular_order_request_after_reservation_def)
    then show ?thesis by blast
  qed auto
qed

lemma amend_order_Inr:
  assumes "rest_amend_order E a c = (Inr ack, c')"
  shows "\<exists>order. looked_up E (am_inst_id a) (am_client_order_id a) c' order \<and> amended_order (re_decimal E) a order \<and>
    ack = reconciled_order_ack order"
proof -
  from assms obtain m c1 where "settle_amendment E a m c1 = (Inr ack, c')"
    by (fastforce simp: rest_amend_order_def qbind_Inr Let_def split: option.splits)
  then obtain e c2 where "reconcile_order_amend_failure E a e c2 = (Inr ack, c') \<or> confirm_amendment E a c2 = (Inr ack, c')"
    by (fastforce simp: settle_amendment_def qmatch_Inr qbind_Inr split: if_splits)
  then show ?thesis by (rule amendment_Inr)
qed

lemma cancel_order_Inr:
  assumes "rest_cancel_order E i x c = (Inr u, c')"
  shows "(\<exists>ack. acknowledged E ''/api/v5/trade/cancel-order''
        (CancelOrderBody \<lparr> kq_inst_id = i, kq_client_order_id = x \<rparr>) x c' ack) \<or>
    reported_missing E i x c' \<or> (\<exists>order. looked_up E i x c' order \<and> is_terminal order)"
  using assms
  by (fastforce simp: rest_cancel_order_def qbind_Inr qmatch_Inr split: if_splits
      dest: cancel_target_resolved intro: acknowledgedI)


end
