(* ===== verification/Server_Time_Refresher.thy ===== *)
theory Server_Time_Refresher
  imports Rest_Client
begin

text \<open>
  The background task of \<open>okx/trading_client.rs\<close> that refreshes the estimate of the server's time before it
  expires, and how it tells the runtime of a refresh that failed.

  What happens to the task is a list of turns: a refresh that is answered after some time, the stop signal
  during or between refreshes, and the runtime receiving a failure.  Times are nanoseconds.
\<close>

section \<open>Reporting\<close>

text \<open>The channel between the task and the runtime holds one failure, until the receiver is gone.\<close>

record failure_channel =
  fc_waiting :: "rest_error option"
  fc_receiver_gone :: bool

definition failure_channel_new :: failure_channel where
  "failure_channel_new = \<lparr> fc_waiting = None, fc_receiver_gone = False \<rparr>"

definition report_server_time_refresh_failure ::
    "failure_channel option \<Rightarrow> rest_error \<Rightarrow> failure_channel option" where
  "report_server_time_refresh_failure failures e =
     map_option (\<lambda>ch. if fc_receiver_gone ch \<or> fc_waiting ch \<noteq> None then ch else ch\<lparr> fc_waiting := Some e \<rparr>) failures"

section \<open>One refresh\<close>

datatype refresh_attempt = StopSignalFirst | RefreshAnswered nat "rest_error + bool"

definition refresh_deadline_error :: rest_error where
  "refresh_deadline_error = Plain (Bad ''OKX server time proactive refresh'' ''exceeded its deadline'')"

text \<open>The failure of a refresh, if it failed, and whether the task goes on.\<close>

definition refresh_failure :: "nat \<Rightarrow> refresh_attempt \<Rightarrow> rest_error option" where
  "refresh_failure deadline attempt =
     (case attempt of
        StopSignalFirst \<Rightarrow> None
      | RefreshAnswered d answer \<Rightarrow>
          if d > deadline then Some refresh_deadline_error
          else (case answer of Inl e \<Rightarrow> Some e | Inr _ \<Rightarrow> None))"

definition refresh_server_time_until_stop ::
    "nat \<Rightarrow> refresh_attempt \<Rightarrow> failure_channel option \<Rightarrow> bool \<times> failure_channel option" where
  "refresh_server_time_until_stop deadline attempt failures =
     (attempt \<noteq> StopSignalFirst,
      case refresh_failure deadline attempt of
        None \<Rightarrow> failures
      | Some e \<Rightarrow> report_server_time_refresh_failure failures e)"

section \<open>The task\<close>

datatype refresher_turn = StopBetween | RefreshTick refresh_attempt | FailureReceived | ReceiverGone

text \<open>What the runtime has received, latest last, and whether the task still runs.\<close>

record refresher =
  rf_running :: bool
  rf_failures :: "failure_channel option"
  rf_received :: "rest_error list"

definition refresher_refresh :: "nat \<Rightarrow> refresh_attempt \<Rightarrow> refresher \<Rightarrow> refresher" where
  "refresher_refresh deadline attempt r =
     (case refresh_server_time_until_stop deadline attempt (rf_failures r) of
        (goes_on, failures) \<Rightarrow> r\<lparr> rf_running := goes_on, rf_failures := failures \<rparr>)"

definition refresher_step :: "nat \<Rightarrow> refresher_turn \<Rightarrow> refresher \<Rightarrow> refresher" where
  "refresher_step deadline turn r =
     (case turn of
        StopBetween \<Rightarrow> r\<lparr> rf_running := False \<rparr>
      | RefreshTick attempt \<Rightarrow> if rf_running r then refresher_refresh deadline attempt r else r
      | FailureReceived \<Rightarrow>
          (case Option.bind (rf_failures r) fc_waiting of
             None \<Rightarrow> r
           | Some e \<Rightarrow> r\<lparr> rf_failures := map_option (\<lambda>ch. ch\<lparr> fc_waiting := None \<rparr>) (rf_failures r),
                         rf_received := rf_received r @ [e] \<rparr>)
      | ReceiverGone \<Rightarrow> r\<lparr> rf_failures := map_option (\<lambda>ch. ch\<lparr> fc_receiver_gone := True \<rparr>) (rf_failures r) \<rparr>)"

text \<open>
  \<open>spawn_with_failure_reporting\<close>: the deadline of a refresh is its period; the first one comes at once and the
  first tick of the interval is taken before the loop.
\<close>

definition server_time_refresher :: "refresh_attempt \<Rightarrow> refresher_turn list \<Rightarrow> refresher" where
  "server_time_refresher first turns =
     foldl (\<lambda>r turn. refresher_step OKX_SERVER_TIME_REFRESH_MARGIN turn r)
       (refresher_refresh OKX_SERVER_TIME_REFRESH_MARGIN first
          \<lparr> rf_running = True, rf_failures = Some failure_channel_new, rf_received = [] \<rparr>) turns"

section \<open>Every failure is seen\<close>

text \<open>The failures of the refreshes that are made, in their order.\<close>

definition attempt_failures :: "refresh_attempt \<Rightarrow> rest_error list" where
  "attempt_failures attempt =
     (case refresh_failure OKX_SERVER_TIME_REFRESH_MARGIN attempt of None \<Rightarrow> [] | Some e \<Rightarrow> [e])"

fun failures_of :: "bool \<Rightarrow> refresher_turn list \<Rightarrow> rest_error list" where
  "failures_of running [] = []"
| "failures_of running (RefreshTick attempt # turns) =
     (if running then attempt_failures attempt @ failures_of (attempt \<noteq> StopSignalFirst) turns
      else failures_of running turns)"
| "failures_of running (StopBetween # turns) = failures_of False turns"
| "failures_of running (t # turns) = failures_of running turns"

definition told :: "refresher \<Rightarrow> rest_error list" where
  "told r = rf_received r @ (case Option.bind (rf_failures r) fc_waiting of None \<Rightarrow> [] | Some e \<Rightarrow> [e])"

end
