(* ===== verification/Order_Guarantees.thy ===== *)
theory Order_Guarantees
  imports Order_Session Rate_Limit
begin

text \<open>
  The properties of the order commands of the WebSocket session and of the request pacing.
\<close>

section \<open>Commands\<close>

text \<open>How a command ended, against the log of what the session has sent.\<close>

definition command_outcome ::
    "OkxWebsocketCommand res \<Rightarrow> OkxWebsocketExpectedOrderAck \<Rightarrow> order_json \<Rightarrow> OkxWebsocketTradingCommandSession \<Rightarrow>
      (OkxWebsocketCommandError + OkxOrderAck) option \<times> OkxWebsocketTradingCommandSession \<Rightarrow> bool" where
  "command_outcome command x J s out =
     (let sent = (\<lambda>s'. \<exists>c. command = Inr c \<and> os_sent s' = c # os_sent s) in
      case out of
        (Some (Inr ack), s') \<Rightarrow>
          sent s' \<and> ak_client_order_id ack = xa_client_order_id x \<and> ak_status_code ack = ''0'' \<and>
          (\<exists>payload response row. oj_response J payload = Some response \<and> wn_id response = xa_id x \<and>
             wn_op response = operation_as_okx (xa_operation x) \<and> wn_code response = ''0'' \<and>
             wn_data response = [row] \<and> wr_order_id row = ak_order_id ack)
      | (Some (Inl (NotSent e)), s') \<Rightarrow> os_sent s' = os_sent s
      | (Some (Inl (Ambiguous e)), s') \<Rightarrow> sent s'
      | (None, s') \<Rightarrow> sent s' \<or> os_sent s' = os_sent s)"

lemma send_prepared_outcome: "command_outcome command x J s (send_prepared J now command x s)"
proof (cases command)
  case (Inl e)
  then show ?thesis by (simp add: command_outcome_def send_prepared_def Let_def)
next
  case (Inr c)
  obtain r s' where r: "send_command J now c x s = (r, s')" by force
  from send_command_outcome [OF r] show ?thesis
  proof (cases r)
    case (Some y)
    with send_command_outcome [OF r] show ?thesis
    proof (cases y)
      case ack: (Inr ack)
      with Some send_command_outcome [OF r] obtain p where
        "os_sent s' = c # os_sent s" "parse_order_command_ack J p x = Inr ack" by auto
      with parse_order_command_ack_Inr [of J p x ack] Inr Some ack r show ?thesis
        by (auto simp: command_outcome_def send_prepared_def Let_def)
    next
      case (Inl e)
      with Some send_command_outcome [OF r] Inr r show ?thesis
        by (cases e) (auto simp: command_outcome_def send_prepared_def Let_def)
    qed
  qed (use Inr r in \<open>auto simp: command_outcome_def send_prepared_def Let_def\<close>)
qed



definition silent_order_session :: OkxWebsocketTradingCommandSession where
  "silent_order_session =
     \<lparr> os_events = [(1, Deadline), (2, Message Pong), (3, Deadline)], os_sends = [True, True], os_sent = [],
       os_ack_tracker = ack_tracker_default, os_ack_timeout = DEFAULT_ACK_TIMEOUT,
       os_idle_ping_after = DEFAULT_IDLE_PING_AFTER, os_last_received_at = 0 \<rparr>"

definition unreadable_order_json :: order_json where
  "unreadable_order_json = \<lparr> oj_op = (\<lambda>_. None), oj_value_response = (\<lambda>_. None), oj_response = (\<lambda>_. None) \<rparr>"


section \<open>The acknowledgement tracker\<close>

text \<open>The specification: the window of the latest identifiers, each once, in the order they were first seen.\<close>

definition window_of :: "string list \<Rightarrow> string list" where
  "window_of rids =
     foldl (\<lambda>w rid. if ensure_request_id rid ''OKX WebSocket acknowledgement id'' = Inr () then window_push rid w else w)
       [] rids"

definition tracked :: "string list \<Rightarrow> OkxWebsocketAckTracker" where
  "tracked rids = foldl (\<lambda>t rid. snd (ack_tracker_record rid t)) ack_tracker_default rids"

lemma tracked_window:
  "ack_tracker_ok (tracked rids) \<and> at_insertion_order (tracked rids) = window_of rids"
proof (induction rids rule: rev_induct)
  case Nil
  show ?case by (simp add: tracked_def window_of_def ack_tracker_default_ok) (simp add: ack_tracker_default_def)
next
  case (snoc rid rids)
  have ok: "ack_tracker_ok (tracked (rids @ [rid]))"
    using snoc ack_tracker_record_ok [of "tracked rids" rid] by (simp add: tracked_def)
  show ?case
  proof (cases "ensure_request_id rid ''OKX WebSocket acknowledgement id'' = Inr ()")
    case True
    with snoc ok ack_tracker_record_window [of "tracked rids" rid] show ?thesis
      by (simp add: tracked_def window_of_def Let_def)
  next
    case False
    then obtain e where "ensure_request_id rid ''OKX WebSocket acknowledgement id'' = Inl e"
      by (cases "ensure_request_id rid ''OKX WebSocket acknowledgement id''") auto
    with snoc ok show ?thesis by (simp add: tracked_def window_of_def ack_tracker_record_def)
  qed
qed

text \<open>
  The acknowledgement tracker implements the window of the latest 256 request identifiers.  After any
  sequence of identifiers, valid or not, its queue is the window, its set holds exactly the queue, the window
  has at most 256 entries, none twice, and the answer for the next valid identifier is \<open>Duplicate\<close> exactly
  when the window holds it.
\<close>
theorem ack_tracker_is_window:
  "at_insertion_order (tracked rids) = window_of rids \<and> at_seen_request_ids (tracked rids) = set (window_of rids) \<and>
   distinct (window_of rids) \<and> length (window_of rids) \<le> 256 \<and>
   fst (ack_tracker_record rid (tracked rids)) =
     rbind (ensure_request_id rid ''OKX WebSocket acknowledgement id'')
       (\<lambda>_. Inr (if rid \<in> set (window_of rids) then Duplicate else FirstSeen))"
proof -
  have w: "ack_tracker_ok (tracked rids)" "at_insertion_order (tracked rids) = window_of rids"
    using tracked_window by auto
  then have "fst (ack_tracker_record rid (tracked rids)) =
     rbind (ensure_request_id rid ''OKX WebSocket acknowledgement id'')
       (\<lambda>_. Inr (if rid \<in> set (window_of rids) then Duplicate else FirstSeen))"
    using ack_tracker_record_window [OF w(1), of rid]
    by (cases "ensure_request_id rid ''OKX WebSocket acknowledgement id''") (simp_all add: ack_tracker_record_def)
  with w show ?thesis by (auto simp: ack_tracker_ok_def OKX_WEBSOCKET_ACK_TRACKER_MAX_IDS_def)
qed

section \<open>Pacing\<close>

text \<open>A history all of whose buckets are the client's own, in the order of time.\<close>

definition client_history :: "pacer_step list \<Rightarrow> bool" where
  "client_history es =
     (sorted (map pacer_step_time es) \<and>
      list_all (\<lambda>e. \<exists>method path query inst.
        okx_rate_limit_bucket method path query inst = Inr (pacer_step_bucket e)) es)"

lemma client_history_ok:
  assumes "client_history es" and "okx_rate_limit_bucket method path query inst = Inr b"
  shows "history_ok b es"
  using assms okx_rate_limit_bucket_key by (fastforce simp: client_history_def history_ok_def list_all_iff)

lemma pacer_run_append:
  "pacer_run (es @ fs) p =
    (case pacer_run es p of (gs, q) \<Rightarrow> case pacer_run fs q of (hs, r) \<Rightarrow> (gs @ hs, r))"
  by (induction es p rule: pacer_run.induct) (auto split: prod.splits)

text \<open>
  C38: the client keeps within the exchange's rate limits.  In any history of requests and rate-limit answers,
  among the requests of one bucket any \<open>limit + 1\<close> consecutive ones span at least the bucket's window and
  the safety margin of 50 ms, and after a rate-limit answer no request of the bucket is let through for two
  seconds.
\<close>
theorem rate_limits_respected:
  assumes "client_history (es @ Limited b t # fs)" and "okx_rate_limit_bucket method path query inst = Inr b"
    and "pacer_run es pacer_default = (gs, p)"
    and "pacer_run fs (record_rate_limit b t p) = (hs, q)"
  shows "spaced (rb_limit b) (rb_window b + 50000000) (grants_of (rb_key b) (gs @ hs)) \<and>
    (\<forall>u\<in>set (grants_of (rb_key b) hs). t + 2000000000 \<le> u)"
proof
  have run: "pacer_run (es @ Limited b t # fs) pacer_default = (gs @ hs, q)"
    using assms(3,4) by (simp add: pacer_run_append)
  from pacer_run_inv [OF bucket_inv_default [of b 0] client_history_ok [OF assms(1,2)] _ run]
  show "spaced (rb_limit b) (rb_window b + 50000000) (grants_of (rb_key b) (gs @ hs))"
    by (auto simp: bucket_inv_def pacing_window_def OKX_RATE_LIMIT_PACING_SAFETY_MARGIN_def)
  have later: "\<forall>e\<in>set fs. t \<le> pacer_step_time e" "sorted (map pacer_step_time fs)"
    using assms(1) by (auto simp: client_history_def sorted_append pacer_step_time_def)
  show "\<forall>u\<in>set (grants_of (rb_key b) hs). t + 2000000000 \<le> u"
    by (rule pacer_run_cooldown [OF later _ _ assms(4)])
      (auto simp: record_rate_limit_def OKX_RATE_LIMIT_COOLDOWN_def)
qed

definition cancel_all_after_bucket :: RateLimitBucket where
  "cancel_all_after_bucket = user_tag_scoped_bucket ''POST'' ''/api/v5/trade/cancel-all-after'' OKX_CANCEL_ALL_AFTER_TAG 1"

lemma cancel_all_after_bucket_found:
  "okx_rate_limit_bucket ''POST'' ''/api/v5/trade/cancel-all-after'' None None = Inr cancel_all_after_bucket"
  by (simp add: okx_rate_limit_bucket_def rule_defs cancel_all_after_bucket_def)

text \<open>Two requests within the window, a rate-limit answer, and requests during and after the cooldown.\<close>

theorem rate_limits_respected_witness:
  "\<exists>gs p hs q.
     pacer_run [Attempt cancel_all_after_bucket 0, Attempt cancel_all_after_bucket 1000000000] pacer_default = (gs, p) \<and>
     pacer_run [Attempt cancel_all_after_bucket 3000000000, Attempt cancel_all_after_bucket 4000000000]
       (record_rate_limit cancel_all_after_bucket 2000000000 p) = (hs, q) \<and>
     grants_of (rb_key cancel_all_after_bucket) (gs @ hs) = [0, 4000000000] \<and>
     spaced 1 1050000000 (grants_of (rb_key cancel_all_after_bucket) (gs @ hs))"
proof -
  let ?b = cancel_all_after_bucket
  let ?es = "[Attempt ?b 0, Attempt ?b 1000000000]"
  let ?fs = "[Attempt ?b 3000000000, Attempt ?b 4000000000]"
  note defs = cancel_all_after_bucket_def user_tag_scoped_bucket_def bucket_with_window_def
    reserve_or_wait_def cooling_down_def recorded_requests_def pacer_default_def pacing_window_def Let_def
    OKX_CANCEL_ALL_AFTER_RATE_LIMIT_WINDOW_def OKX_RATE_LIMIT_PACING_SAFETY_MARGIN_def
    OKX_RATE_LIMIT_COOLDOWN_def record_rate_limit_def grants_of_def
  obtain gs p where r1: "pacer_run ?es pacer_default = (gs, p)" by force
  obtain hs q where r2: "pacer_run ?fs (record_rate_limit ?b 2000000000 p) = (hs, q)" by force
  have "client_history (?es @ Limited ?b 2000000000 # ?fs)"
    using cancel_all_after_bucket_found
    by (auto simp: client_history_def pacer_step_time_def pacer_step_bucket_def)
  from rate_limits_respected [OF this cancel_all_after_bucket_found r1 r2]
  have "spaced 1 1050000000 (grants_of (rb_key ?b) (gs @ hs))" by (simp add: defs)
  moreover have "gs = [(?b, 0)]" "p = \<lparr> rp_cooldowns = Map.empty, rp_requests = [rb_key ?b \<mapsto> [0]] \<rparr>"
    using r1 by (auto simp: defs)
  then have "grants_of (rb_key ?b) (gs @ hs) = [0, 4000000000]" using r2 by (auto simp: defs)
  ultimately show ?thesis using r1 r2 by auto
qed

text \<open>
  Waiting for a rate limit ends.  However the clock runs between the attempts and whatever the pacer
  holds, the wait for a bucket of the client ends with a reservation made at its last reading of the clock.
\<close>
theorem rate_limit_wait_ends:
  assumes "okx_rate_limit_bucket method path query inst = Inr b"
  shows "\<exists>m' t q p'. wait_from elapse b m now p = (Inr (), m', t, p') \<and> now \<le> t \<and>
    reserve_or_wait b t q = (Inr None, p')"
  using wait_from_reserves [OF okx_rate_limit_bucket_positive [OF assms]] by blast

theorem rate_limit_wait_ends_witness:
  "\<exists>m' t q p'. wait_from (\<lambda>_. 5) cancel_all_after_bucket 0 900
      (record_rate_limit cancel_all_after_bucket 100 pacer_default) = (Inr (), m', t, p') \<and> 900 \<le> t \<and>
      reserve_or_wait cancel_all_after_bucket t q = (Inr None, p')"
  by (rule rate_limit_wait_ends [OF cancel_all_after_bucket_found])

end
