(* ===== verification/Trading_Guarantees.thy ===== *)
theory Trading_Guarantees
  imports Rest_Guarantees Rest_Outcomes Server_Time_Refresher Order_Guarantees "HOL-Library.Sublist"
begin

text \<open>
  The properties of the trading client: an order goes out at most once over the two ways it may take, the request
  identifiers of the WebSocket, and the reports of the server-time refresher.
\<close>

section \<open>What a REST action asks for\<close>

text \<open>\<open>rest_emits B n m\<close>: \<open>m\<close> asks for at most \<open>n\<close> mutations, all satisfying \<open>B\<close>.\<close>

definition rest_emits :: "(rest_body \<Rightarrow> bool) \<Rightarrow> nat \<Rightarrow> 'a rest \<Rightarrow> bool" where
  "rest_emits B n m =
     (\<forall>c. \<exists>new. mutations (ri_log (snd (m c))) = new @ mutations (ri_log c) \<and> length new \<le> n \<and> (\<forall>b\<in>set new. B b))"

definition same_mutations :: "OkxRestClient \<Rightarrow> OkxRestClient \<Rightarrow> bool" where
  "same_mutations c c' = (mutations (ri_log c') = mutations (ri_log c))"

lemma same_mutations_preorder: "preorder_rel same_mutations"
  by (simp add: preorder_rel_def same_mutations_def)

interpretation quiet: rest_frame "\<lambda>q. hq_asked q = None" same_mutations
  by unfold_locales (auto simp: networking_def bookkeeping_def preorder_rel_def same_mutations_def)

lemma quiet_emits: "rest_keeps same_mutations m \<Longrightarrow> rest_emits B n m"
  by (auto simp: rest_emits_def rest_keeps_def same_mutations_def intro!: exI [of _ "[]"])

lemma quiet_then_emits:
  assumes "rest_keeps same_mutations m" and "\<And>x. rest_emits B n (f x)"
  shows "rest_emits B n (qbind m f)"
  unfolding rest_emits_def
proof
  fix c
  obtain r c1 where m: "m c = (r, c1)" by force
  from rest_keepsD [OF assms(1) m] assms(2)
  show "\<exists>new. mutations (ri_log (snd (qbind m f c))) = new @ mutations (ri_log c) \<and> length new \<le> n \<and> (\<forall>b\<in>set new. B b)"
    using m by (cases r) (simp_all add: qbind_def same_mutations_def rest_emits_def, metis)
qed

lemma emits_then_quiet:
  assumes "rest_emits B n m" and "\<And>x. rest_keeps same_mutations (f x)"
  shows "rest_emits B n (qbind m f)" "(\<And>e. rest_keeps same_mutations (h e)) \<Longrightarrow> rest_emits B n (qmatch m f h)"
proof -
  have after: "\<exists>new. mutations (ri_log c') = new @ mutations (ri_log c) \<and> length new \<le> n \<and> (\<forall>b\<in>set new. B b)"
    if "m c = (r, c1)" "c1 = c' \<or> (\<exists>x. c' = snd (f x c1)) \<or> (\<exists>k. rest_keeps same_mutations k \<and> c' = snd (k c1))" for c r c1 c'
    using that assms unfolding rest_emits_def rest_keeps_def same_mutations_def by (metis snd_conv)
  show "rest_emits B n (qbind m f)"
    unfolding rest_emits_def
  proof
    fix c
    obtain r c1 where m: "m c = (r, c1)" by force
    show "\<exists>new. mutations (ri_log (snd (qbind m f c))) = new @ mutations (ri_log c) \<and> length new \<le> n \<and> (\<forall>b\<in>set new. B b)"
      by (rule after [OF m]) (cases r; auto simp: qbind_def m)
  qed
  show "rest_emits B n (qmatch m f h)" if h: "\<And>e. rest_keeps same_mutations (h e)"
    unfolding rest_emits_def
  proof
    fix c
    obtain r c1 where m: "m c = (r, c1)" by force
    show "\<exists>new. mutations (ri_log (snd (qmatch m f h c))) = new @ mutations (ri_log c) \<and> length new \<le> n \<and> (\<forall>b\<in>set new. B b)"
      by (rule after [OF m]) (use h in \<open>auto simp: qmatch_def qtry_def m split: sum.split fault.split\<close>)
  qed
qed

lemma send_emits: "B body \<Longrightarrow> rest_emits B 1 (qsend E s \<lparr> hq_method = a, hq_path = p, hq_query = q, hq_headers = h, hq_body = t,
    hq_asked = Some body \<rparr>)"
  by (auto simp: rest_emits_def qsend_def Let_def intro!: exI [of _ "[body]"])

lemma mutation_emits:
  assumes "B body"
  shows "rest_emits B 1 (private_order_mutation_request E method path query (Some body) expiry)"
    "rest_emits B 1 (private_order_mutation_request_after_reservation E method path query (Some body) expiry b)"
proof -
  have sent: "rest_emits B 1 (send_private_request_after_reservation E method path query (Some body) expiry b)" for b
    unfolding send_private_request_after_reservation_def rest_url_def
    by (intro quiet_then_emits emits_then_quiet send_emits assms quiet.shape quiet.requests)
  have parsed: "rest_keeps same_mutations (parse_order_mutation_response E b r)" for b r
    by (rule keeps_parsers [OF quiet.book])
  show "rest_emits B 1 (private_order_mutation_request_after_reservation E method path query (Some body) expiry b)"
    unfolding private_order_mutation_request_after_reservation_def
    by (intro emits_then_quiet(1) sent quiet.shape parsed)
  show "rest_emits B 1 (private_order_mutation_request E method path query (Some body) expiry)"
    unfolding private_order_mutation_request_def send_private_request_def
    by (intro emits_then_quiet(1) quiet_then_emits sent quiet.shape quiet.requests parsed)
qed

lemma settlement_emits:
  assumes "rest_emits B 1 m"
  shows "rest_emits B 1 (settle_submission E q m)" "rest_emits B 1 (settle_amendment E a m)"
  unfolding settle_submission_def settle_amendment_def
  by (intro emits_then_quiet assms quiet.shape quiet.qmatch quiet.reconciled)+

definition is_order :: "string \<Rightarrow> OrderSide \<Rightarrow> OrderKind \<Rightarrow> string \<Rightarrow> string option \<Rightarrow> string \<Rightarrow> rest_body \<Rightarrow> bool" where
  "is_order i side kind sz px x b = (\<exists>td q. b = PlaceOrderBody (place_order_request i td side kind sz px q x))"

definition is_amendment :: "OkxOrderAmend \<Rightarrow> rest_body \<Rightarrow> bool" where
  "is_amendment a b =
     (b = AmendOrderBody \<lparr> aq_inst_id = am_inst_id a, aq_client_order_id = am_client_order_id a,
            aq_new_size = am_new_size a, aq_new_price = am_new_price a, aq_price_amend_type = ''0'' \<rparr>)"

lemma emits_if: "rest_emits B n a \<Longrightarrow> rest_emits B n b \<Longrightarrow> rest_emits B n (if p then a else b)"
  by simp

lemma emits_prod: "(\<And>a b. rest_emits B n (f a b)) \<Longrightarrow> rest_emits B n (case p of (a, b) \<Rightarrow> f a b)"
  by (cases p) simp

lemma emits_option: "rest_emits B n f \<Longrightarrow> (\<And>x. rest_emits B n (g x)) \<Longrightarrow> rest_emits B n (case s of None \<Rightarrow> f | Some x \<Rightarrow> g x)"
  by (cases s) auto

lemma place_order_emits: "rest_emits (is_order i side kind sz px x) 1 (rest_place_order E i side kind sz px x)"
proof -
  have order: "is_order i side kind sz px x (PlaceOrderBody (place_order_request i td side kind sz px q x))" for td q
    by (auto simp: is_order_def)
  show ?thesis
    unfolding rest_place_order_def private_regular_order_request_def private_regular_order_request_after_reservation_def Let_def
    by (intro quiet_then_emits emits_if emits_prod settlement_emits mutation_emits order quiet.shape quiet.requests
        quiet.hints quiet.prices)
qed

lemma amend_order_emits: "rest_emits (is_amendment a) 1 (rest_amend_order E a)"
  unfolding rest_amend_order_def Let_def
  by (intro quiet_then_emits emits_option settlement_emits mutation_emits quiet.shape quiet.requests quiet.hints quiet.prices)
    (simp_all add: is_amendment_def REST_PRICE_AMEND_TYPE_REJECT_def)

section \<open>What the trading client sends\<close>

text \<open>The commands sent over all sessions, latest first.\<close>

definition wire :: "OkxTradingClient \<Rightarrow> OkxWebsocketCommand list" where
  "wire s = (case order_session s of None \<Rightarrow> [] | Some x \<Rightarrow> os_sent x) @ tr_sent s"

text \<open>
  \<open>emitted W B n s s'\<close>: between \<open>s\<close> and \<open>s'\<close> at most \<open>n\<close> messages went out, WebSocket commands satisfying \<open>W\<close>
  and REST mutations satisfying \<open>B\<close>.
\<close>

definition emitted ::
    "(OkxWebsocketCommand \<Rightarrow> bool) \<Rightarrow> (rest_body \<Rightarrow> bool) \<Rightarrow> nat \<Rightarrow> OkxTradingClient \<Rightarrow> OkxTradingClient \<Rightarrow> bool" where
  "emitted W B n s s' =
     (\<exists>commands bodies. wire s' = commands @ wire s \<and>
        mutations (ri_log (tr_rest s')) = bodies @ mutations (ri_log (tr_rest s)) \<and>
        length commands + length bodies \<le> n \<and> (\<forall>w\<in>set commands. W w) \<and> (\<forall>b\<in>set bodies. B b))"

definition trade_emits ::
    "(OkxWebsocketCommand \<Rightarrow> bool) \<Rightarrow> (rest_body \<Rightarrow> bool) \<Rightarrow> nat \<Rightarrow> ('e, 'a) trade \<Rightarrow> bool" where
  "trade_emits W B n m = (\<forall>s. emitted W B n s (snd (m s)))"

lemma emitted_refl: "wire s' = wire s \<Longrightarrow> tr_rest s' = tr_rest s \<Longrightarrow> emitted W B n s s'"
  by (simp add: emitted_def)

lemma emitted_trans:
  assumes "emitted W B a s t" and "emitted W B b t u"
  shows "emitted W B (a + b) s u"
proof -
  from assms obtain w1 r1 w2 r2 where
    "wire t = w1 @ wire s" "mutations (ri_log (tr_rest t)) = r1 @ mutations (ri_log (tr_rest s))"
    "length w1 + length r1 \<le> a" "\<forall>w\<in>set w1. W w" "\<forall>b\<in>set r1. B b"
    "wire u = w2 @ wire t" "mutations (ri_log (tr_rest u)) = r2 @ mutations (ri_log (tr_rest t))"
    "length w2 + length r2 \<le> b" "\<forall>w\<in>set w2. W w" "\<forall>b\<in>set r2. B b"
    unfolding emitted_def by blast
  then show ?thesis
    unfolding emitted_def by (intro exI [of _ "w2 @ w1"] exI [of _ "r2 @ r1"]) auto
qed

lemma emitted_mono: "emitted W B a s t \<Longrightarrow> a \<le> b \<Longrightarrow> emitted W B b s t"
  unfolding emitted_def using le_trans by blast

lemma trade_emitsD: "trade_emits W B n m \<Longrightarrow> m s = (r, s') \<Longrightarrow> emitted W B n s s'"
  by (metis trade_emits_def snd_conv)

lemma trade_pure:
  "trade_emits W B n (tlift r)" "trade_emits W B n (tret x)" "trade_emits W B n (tfail e)" "trade_emits W B n (tget g)"
  "trade_emits W B n (tplain q)"
  by (simp_all add: trade_emits_def tlift_def tret_def tfail_def tget_def tplain_def emitted_refl)

lemma trade_bind:
  assumes "trade_emits W B 0 m" and "\<And>x. trade_emits W B n (f x)"
  shows "trade_emits W B n (tbind m f)"
  unfolding trade_emits_def
proof
  fix s
  obtain r t where m: "m s = (r, t)" by force
  have "emitted W B (0 + n) s (snd (f x t))" for x
    using trade_emitsD [OF assms(1) m] assms(2) by (intro emitted_trans) (auto simp: trade_emits_def)
  moreover have "emitted W B n s t" using trade_emitsD [OF assms(1) m] by (rule emitted_mono) simp
  ultimately show "emitted W B n s (snd (tbind m f s))"
    using m by (auto simp: tbind_def split: option.split sum.split)
qed

lemma trade_match:
  assumes "trade_emits W B a m" and "\<And>x. trade_emits W B b (f x)"
  shows "trade_emits W B (a + b) (tmatch m f)"
  unfolding trade_emits_def
proof
  fix s
  obtain r t where m: "m s = (r, t)" by force
  have "emitted W B (a + b) s (snd (f x t))" for x
    using trade_emitsD [OF assms(1) m] assms(2) by (intro emitted_trans) (auto simp: trade_emits_def)
  moreover have "emitted W B (a + b) s t" using trade_emitsD [OF assms(1) m] by (rule emitted_mono) simp
  ultimately show "emitted W B (a + b) s (snd (tmatch m f s))"
    using m by (auto simp: tmatch_def split: option.split sum.split fault.split)
qed

lemma trade_match_quiet:
  "trade_emits W B 0 m \<Longrightarrow> (\<And>x. trade_emits W B n (f x)) \<Longrightarrow> trade_emits W B n (tmatch m f)"
  "trade_emits W B n m \<Longrightarrow> (\<And>x. trade_emits W B 0 (f x)) \<Longrightarrow> trade_emits W B n (tmatch m f)"
  using trade_match [of W B 0 m n f] trade_match [of W B n m 0 f] by simp_all

lemma trade_cases:
  "trade_emits W B n a \<Longrightarrow> trade_emits W B n b \<Longrightarrow> trade_emits W B n (if p then a else b)"
  "(\<And>e. trade_emits W B n (f e)) \<Longrightarrow> (\<And>x. trade_emits W B n (g x)) \<Longrightarrow>
    trade_emits W B n (case v of Inl e \<Rightarrow> f e | Inr x \<Rightarrow> g x)"
  "trade_emits W B n u \<Longrightarrow> (\<And>x. trade_emits W B n (h x)) \<Longrightarrow>
    trade_emits W B n (case z of None \<Rightarrow> u | Some x \<Rightarrow> h x)"
  "(\<And>a b. trade_emits W B n (k a b)) \<Longrightarrow> trade_emits W B n (case y of (a, b) \<Rightarrow> k a b)"
  by (auto split: sum.split option.split prod.split)

lemma trade_rest: "rest_emits B n m \<Longrightarrow> trade_emits W B n (trest m)"
  unfolding trade_emits_def rest_emits_def emitted_def
  by (auto simp: trest_def wire_def order_session_def split: prod.split) (metis snd_conv)

lemma trade_rest_quiet: "rest_keeps same_mutations m \<Longrightarrow> trade_emits W B n (trest m)"
  by (intro trade_rest quiet_emits)

lemma trade_clock: "trade_emits W B n (tnow T)"
  by (simp add: trade_emits_def tnow_def emitted_def wire_def order_session_def advance_def)

lemma trade_upd: "(\<And>s. wire (g s) = wire s \<and> tr_rest (g s) = tr_rest s) \<Longrightarrow> trade_emits W B n (tupd g)"
  by (simp add: trade_emits_def tupd_def emitted_refl)

lemma wire_simps [simp]:
  "wire (s\<lparr> tr_rest := c \<rparr>) = wire s" "wire (s\<lparr> tr_latency := l \<rparr>) = wire s" "wire (s\<lparr> tr_inst_id_codes := i \<rparr>) = wire s"
  "wire (s\<lparr> tr_request_nonce := n \<rparr>) = wire s" "wire (s\<lparr> tr_connections := k \<rparr>) = wire s"
  "wire (s\<lparr> tr_pending_order_decision_at := d \<rparr>) = wire s"
  by (simp_all add: wire_def order_session_def)

lemma wire_update_commands [simp]:
  "(\<And>w. cw_session (f w) = cw_session w) \<Longrightarrow> wire (update_commands f s) = wire s"
  by (cases "tr_commands s") (simp_all add: wire_def order_session_def update_commands_def)

lemma wire_set_session:
  "wire (set_session session available s) =
    (case tr_commands s of None \<Rightarrow> [] | Some _ \<Rightarrow> case session of None \<Rightarrow> [] | Some x \<Rightarrow> os_sent x) @ wire s"
  by (cases "tr_commands s") (simp_all add: wire_def set_session_def update_commands_def order_session_def)

lemma rest_update_commands [simp]:
  "tr_rest (update_commands f s) = tr_rest s" "tr_rest (set_session session available s) = tr_rest s"
  by (simp_all add: update_commands_def set_session_def)

lemma wire_gave_up [simp]: "wire (mark_websocket_order_commands_unavailable s) = wire s"
  "tr_rest (mark_websocket_order_commands_unavailable s) = tr_rest s"
  by (simp_all add: mark_websocket_order_commands_unavailable_def wire_set_session split: option.split)

lemma wire_command_start [simp]: "wire (record_command_start t s) = wire s" "tr_rest (record_command_start t s) = tr_rest s"
  by (simp_all add: record_command_start_def split: option.split)

lemma trade_latency:
  "trade_emits W B n (record_elapsed T stage t)" "trade_emits W B n (count_command f)" "trade_emits W B n (command_started T)"
  unfolding record_elapsed_def count_command_def command_started_def
  by (intro trade_bind trade_clock trade_upd trade_pure; simp)+

lemma trade_timed: "trade_emits W B n m \<Longrightarrow> trade_emits W B n (timed T stage t m)"
  unfolding timed_def by (intro trade_match_quiet(2) trade_bind trade_latency trade_cases trade_pure)

section \<open>Preparing a command sends nothing\<close>

lemma session_connect_sent: "session_connect J hmac w t conn = Some (Inr x) \<Longrightarrow> os_sent x = []"
  by (auto simp: session_connect_def split: sum.splits option.splits prod.splits)

lemma trade_connect: "trade_emits W B n (connect_websocket_order_commands T)"
proof -
  have "emitted W B n s (snd ((case tr_commands s of
       None \<Rightarrow> (Some (Inr ()), s)
     | Some w \<Rightarrow>
         (case session_connect (te_socket_json T) (re_hmac (te_rest T)) (cw_config w) t
                 (te_connection T (tr_connections s)) of
            None \<Rightarrow> (None, s\<lparr> tr_connections := tr_connections s + 1 \<rparr>)
          | Some (Inl e) \<Rightarrow> (Some (plain (Inl e)), s\<lparr> tr_connections := tr_connections s + 1 \<rparr>)
          | Some (Inr session) \<Rightarrow>
              (Some (Inr ()), set_session (Some session) True (s\<lparr> tr_connections := tr_connections s + 1 \<rparr>))))
      :: (rest_error fault + unit) option \<times> OkxTradingClient))" for s t
    by (auto intro!: emitted_refl simp: wire_set_session dest!: session_connect_sent split: option.split sum.split)
  then show ?thesis
    unfolding connect_websocket_order_commands_def
    by (intro trade_bind trade_rest_quiet quiet.shape quiet.websocket_preparations) (simp add: trade_emits_def)
qed

lemma trade_ensure_session: "trade_emits W B n (ensure_websocket_order_session_available T)"
proof -
  have down: "trade_emits W B n (tupd mark_websocket_order_commands_unavailable)" for n
    by (intro trade_upd) simp
  have reconnect: "trade_emits W B n (tmatch (connect_websocket_order_commands T) (\<lambda>r.
      case r of
        Inr _ \<Rightarrow> tret ()
      | Inl e \<Rightarrow> tbind (tupd mark_websocket_order_commands_unavailable) (\<lambda>_. tfail (g e))))" for g
    by (intro trade_match_quiet(1) trade_connect trade_cases trade_pure trade_bind down)
  then show ?thesis
    unfolding ensure_websocket_order_session_available_def
    by (intro trade_bind trade_pure) (auto split: option.split prod.split bool.split intro: trade_pure)
qed

lemma trade_map_err: "trade_emits W B n m \<Longrightarrow> trade_emits W B n (tmap_err g m)"
  unfolding tmap_err_def by (intro trade_match_quiet(2) trade_cases trade_pure)

lemma trade_inst_id_code: "trade_emits W B n (trading_inst_id_code i)"
  unfolding trading_inst_id_code_def
  by (intro trade_bind trade_cases trade_pure trade_map_err trade_rest_quiet quiet.requests trade_upd; simp)

lemma trade_session_check: "trade_emits W B n websocket_order_session"
  unfolding websocket_order_session_def by (intro trade_bind trade_cases trade_pure trade_upd; simp)

lemma trade_request_id: "trade_emits W B n (next_websocket_request_id p x)"
  by (simp add: trade_emits_def next_websocket_request_id_def emitted_refl)

lemmas trade_quiet = trade_ensure_session trade_map_err trade_inst_id_code trade_session_check trade_request_id trade_pure
  trade_rest_quiet quiet.websocket_preparations quiet.requests

section \<open>A command and what follows it\<close>

text \<open>An error that is not ambiguous means that nothing was sent.\<close>

definition command_emits ::
    "(OkxWebsocketCommand \<Rightarrow> bool) \<Rightarrow> (rest_body \<Rightarrow> bool) \<Rightarrow> (OkxWebsocketOrderCommandError, 'a) trade \<Rightarrow> bool" where
  "command_emits W B m =
     (\<forall>s. case m s of
        (Some (Inl (Fail (Unavailable e))), s') \<Rightarrow> emitted W B 0 s s'
      | (Some (Inl (Fail (PreparationRejected e))), s') \<Rightarrow> emitted W B 0 s s'
      | (_, s') \<Rightarrow> emitted W B 1 s s')"

lemma command_bind:
  assumes "trade_emits W B 0 m" and "\<And>x. command_emits W B (f x)"
  shows "command_emits W B (tbind m f)"
  unfolding command_emits_def
proof
  fix s
  obtain r t where m: "m s = (r, t)" by force
  note first = trade_emitsD [OF assms(1) m]
  have first': "emitted W B 1 s t" using first by (rule emitted_mono) simp
  have later: "emitted W B n s u" if "emitted W B n t u" for n u
    using emitted_trans [OF first that] by simp
  show "case tbind m f s of
      (Some (Inl (Fail (Unavailable e))), s') \<Rightarrow> emitted W B 0 s s'
    | (Some (Inl (Fail (PreparationRejected e))), s') \<Rightarrow> emitted W B 0 s s'
    | (_, s') \<Rightarrow> emitted W B 1 s s'"
  proof (cases "\<exists>x. r = Some (Inr x)")
    case True
    then obtain x where x: "r = Some (Inr x)" by blast
    from assms(2) [of x] have "case f x t of
        (Some (Inl (Fail (Unavailable e))), s') \<Rightarrow> emitted W B 0 t s'
      | (Some (Inl (Fail (PreparationRejected e))), s') \<Rightarrow> emitted W B 0 t s'
      | (_, s') \<Rightarrow> emitted W B 1 t s'" by (simp add: command_emits_def)
    with m x later show ?thesis
      by (auto simp: tbind_def split: prod.splits option.splits sum.splits fault.splits OkxWebsocketOrderCommandError.splits)
  next
    case False
    with m first first' show ?thesis
      by (auto simp: tbind_def split: option.split sum.split fault.split OkxWebsocketOrderCommandError.split)
  qed
qed

lemma command_prod: "(\<And>a b. command_emits W B (k a b)) \<Longrightarrow> command_emits W B (case y of (a, b) \<Rightarrow> k a b)"
  by (cases y) simp

lemma wire_session:
  "order_session s = Some x \<Longrightarrow> wire (update_commands (\<lambda>w. w\<lparr> cw_session := Some y \<rparr>) s) = os_sent y @ tr_sent s"
  "order_session s = Some x \<Longrightarrow> wire s = os_sent x @ tr_sent s"
  by (cases "tr_commands s"; simp add: wire_def order_session_def update_commands_def)+

lemma map_fault_Fail: "Rest_Base.map_fault g f = Fail y \<longleftrightarrow> (\<exists>e. f = Fail e \<and> y = g e)"
  by (cases f) auto

lemma run_session_command_emits:
  assumes "\<And>c. command = Inr c \<Longrightarrow> W c"
  shows "command_emits W B (run_session_command T (\<lambda>now. send_prepared J now command x))"
  unfolding run_session_command_def
proof (rule command_bind [OF trade_clock])
  fix now
  show "command_emits W B (\<lambda>s.
     case order_session s of
       None \<Rightarrow> tfail (unavailable ''session was unavailable after connection setup'') s
     | Some session \<Rightarrow>
         (case send_prepared J now command x session of
            (r, session') \<Rightarrow>
              let s' = update_commands (\<lambda>w. w\<lparr> cw_session := Some session' \<rparr>) s in
              (case r of
                 None \<Rightarrow> (None, s')
               | Some (Inr ack) \<Rightarrow> (Some (Inr ack), s')
               | Some (Inl e) \<Rightarrow> (Some (Inl (map_websocket_command_error e)), set_session None False s'))))"
    unfolding command_emits_def
  proof
    fix s
    show "case (case order_session s of
       None \<Rightarrow> tfail (unavailable ''session was unavailable after connection setup'') s
     | Some session \<Rightarrow>
         (case send_prepared J now command x session of
            (r, session') \<Rightarrow>
              let s' = update_commands (\<lambda>w. w\<lparr> cw_session := Some session' \<rparr>) s in
              (case r of
                 None \<Rightarrow> (None, s')
               | Some (Inr ack) \<Rightarrow> (Some (Inr ack), s')
               | Some (Inl e) \<Rightarrow> (Some (Inl (map_websocket_command_error e)), set_session None False s')))) of
        (Some (Inl (Fail (Unavailable e))), s') \<Rightarrow> emitted W B 0 s s'
      | (Some (Inl (Fail (PreparationRejected e))), s') \<Rightarrow> emitted W B 0 s s'
      | (_, s') \<Rightarrow> emitted W B 1 s s'"
    proof (cases "order_session s")
      case None
      then show ?thesis by (simp add: tfail_def tlift_def unavailable_def emitted_refl)
    next
      case (Some session)
      obtain r y where run: "send_prepared J now command x session = (r, y)" by force
      let ?t = "update_commands (\<lambda>w. w\<lparr> cw_session := Some y \<rparr>) s"
      have wire: "wire ?t = os_sent y @ tr_sent s" "wire s = os_sent session @ tr_sent s"
        "wire (set_session None False ?t) = os_sent y @ tr_sent s"
        using Some by (simp_all add: wire_session wire_set_session split: option.split)
      have none: "emitted W B n s ?t" "emitted W B n s (set_session None False ?t)" if "os_sent y = os_sent session" for n
        using that wire by (simp_all add: emitted_refl)
      have sent: "emitted W B 1 s ?t" "emitted W B 1 s (set_session None False ?t)"
        if "command = Inr c" "os_sent y = c # os_sent session" for c
        using that wire assms by (auto simp: emitted_def intro!: exI [of _ "[c]"])
      from send_prepared_outcome [of command x J session now] Some run none sent show ?thesis
        by (auto simp: command_outcome_def Let_def map_websocket_command_error_def map_fault_Fail
            split: option.splits sum.splits OkxWebsocketCommandError.splits fault.splits)
    qed
  qed
qed

definition command_places :: "OrderSide \<Rightarrow> OrderKind \<Rightarrow> string \<Rightarrow> string option \<Rightarrow> string \<Rightarrow> OkxWebsocketCommand \<Rightarrow> bool" where
  "command_places side kind sz px x w =
     (\<exists>arg. wc_arg w = PlaceArg arg \<and> pg_side arg = side_as_okx side \<and> pg_order_type arg = kind_as_okx kind \<and>
        pg_sz arg = sz \<and> Some (pg_price arg) = px \<and> pg_client_order_id arg = x)"

definition command_amends :: "OkxOrderAmend \<Rightarrow> OkxWebsocketCommand \<Rightarrow> bool" where
  "command_amends a w =
     (\<exists>arg. wc_arg w = AmendArg arg \<and> ag_client_order_id arg = am_client_order_id a \<and>
        ag_new_size arg = am_new_size a \<and> ag_new_price arg = am_new_price a)"

lemma place_command_emits:
  "command_emits (command_places (rg_side q) (rg_kind q) (rg_size q) (rg_price q) (rg_client_order_id q)) B
     (place_order_with_websocket T q)"
  unfolding place_order_with_websocket_def session_place_order_def
  by (intro command_bind command_prod run_session_command_emits trade_quiet)
    (auto simp: place_order_command_json_def rbind_eq_Inr command_places_def command_json_def ok_or_def split: option.splits)

lemma amend_command_emits: "command_emits (command_amends a) B (amend_order_with_websocket T a)"
  unfolding amend_order_with_websocket_def session_amend_order_def
  by (intro command_bind command_prod run_session_command_emits trade_quiet)
    (auto simp: amend_order_command_json_def rbind_eq_Inr command_amends_def command_json_def)

lemma settle_command_emits:
  assumes command: "command_emits W B m" and fallback: "rest_emits B 1 f"
    and reconcile: "\<And>e. rest_keeps same_mutations (h e)"
  shows "trade_emits W B 1 (settle_command T t m f h)"
  unfolding trade_emits_def
proof
  fix s
  let ?settle = "\<lambda>r.
     case r of
       Inr x \<Rightarrow> timed T CommandStartToAcknowledgement t (tret x)
     | Inl (Unavailable _) \<Rightarrow>
         tbind (count_command record_command_fallback) (\<lambda>_.
         timed T CommandStartToAcknowledgement t (trest f))
     | Inl (PreparationRejected e) \<Rightarrow>
         timed T CommandStartToAcknowledgement t
           (tfail (InContext ''preparation failed before command submission; refusing REST fallback'' e))
     | Inl (AmbiguousCommand e) \<Rightarrow>
         tbind (count_command record_ambiguous_command_reconciliation) (\<lambda>_.
         tbind (tnow T) (\<lambda>reconciliation_started_at.
         timed T CommandStartToAcknowledgement t
           (timed T AmbiguousCommandToRestReconciliation reconciliation_started_at (trest (h e)))))"
  obtain r u where m: "m s = (r, u)" by force
  have quiet: "trade_emits W B 0 (?settle (Inr x))" "trade_emits W B 0 (?settle (Inl (AmbiguousCommand e)))"
    "trade_emits W B 0 (?settle (Inl (PreparationRejected e)))" for x e
    by (simp_all, (intro trade_timed trade_bind trade_latency trade_clock trade_pure trade_rest_quiet reconcile)+)
  have sends: "trade_emits W B 1 (?settle (Inl (Unavailable e)))" for e
    by (simp del: One_nat_def) (intro trade_timed trade_bind trade_latency trade_rest fallback)
  have then_quiet: "emitted W B 1 s (snd (k u))" if "trade_emits W B 0 k" "emitted W B 1 s u" for k :: "(rest_error, 'a) trade"
    using emitted_trans [OF that(2)] that(1) by (fastforce simp: trade_emits_def)
  have then_send: "emitted W B 1 s (snd (k u))" if "trade_emits W B 1 k" "emitted W B 0 s u" for k :: "(rest_error, 'a) trade"
    using emitted_trans [OF that(2)] that(1) by (fastforce simp: trade_emits_def)
  have weaken: "emitted W B 0 s u \<Longrightarrow> emitted W B 1 s u" by (erule emitted_mono) simp
  have after: "case (r, u) of
      (Some (Inl (Fail (Unavailable e))), s') \<Rightarrow> emitted W B 0 s s'
    | (Some (Inl (Fail (PreparationRejected e))), s') \<Rightarrow> emitted W B 0 s s'
    | (_, s') \<Rightarrow> emitted W B 1 s s'"
    using command [unfolded command_emits_def, THEN spec, of s] unfolding m .
  have eq: "settle_command T t m f h s = (case r of
      None \<Rightarrow> (None, u) | Some (Inl Panic) \<Rightarrow> (Some (Inl Panic), u)
    | Some (Inl (Fail e)) \<Rightarrow> ?settle (Inl e) u | Some (Inr x) \<Rightarrow> ?settle (Inr x) u)"
    unfolding settle_command_def tmatch_def m by (simp split: option.split sum.split fault.split)
  consider (none) "r = None \<or> r = Some (Inl Panic)" | (ok) x where "r = Some (Inr x)"
    | (unavailable) e where "r = Some (Inl (Fail (Unavailable e)))"
    | (rejected) e where "r = Some (Inl (Fail (PreparationRejected e)))"
    | (ambiguous) e where "r = Some (Inl (Fail (AmbiguousCommand e)))"
    by (metis OkxWebsocketOrderCommandError.exhaust fault.exhaust option.exhaust sum.exhaust)
  then show "emitted W B 1 s (snd (settle_command T t m f h s))"
  proof cases
    case none
    with after eq show ?thesis by auto
  next
    case ok
    with after then_quiet [OF quiet(1)] show ?thesis by (simp add: eq)
  next
    case unavailable
    with after then_send [OF sends] show ?thesis by (simp add: eq)
  next
    case rejected
    with after weaken then_quiet [OF quiet(3)] show ?thesis by (simp add: eq)
  next
    case ambiguous
    with after then_quiet [OF quiet(2)] show ?thesis by (simp add: eq)
  qed
qed


section \<open>Request identifiers\<close>

lemma alphanumeric_graphic: "is_ascii_alphanumeric c \<Longrightarrow> 32 < byte c \<and> byte c < 127"
  by (auto simp: is_ascii_alphanumeric_def is_ascii_digit_def is_ascii_uppercase_def is_ascii_lowercase_def)

lemma trim_alphanumeric:
  assumes "list_all is_ascii_alphanumeric s"
  shows "trim s = s"
proof (cases s)
  case (Cons c u)
  then obtain d v where rev: "rev s = d # v" by (cases "rev s") auto
  then have "d \<in> set s" by (metis list.set_intros(1) set_rev)
  with assms Cons alphanumeric_graphic show ?thesis
    by (intro trim_graphic [OF _ _ _ _ Cons rev]) (auto simp: list_all_iff)
qed simp

lemma nonce_small: "unat (n AND OKX_WEBSOCKET_REQUEST_NONCE_MASK) = unat n mod 2 ^ 60"
proof -
  have "OKX_WEBSOCKET_REQUEST_NONCE_MASK = (mask 60 :: u64)"
    by (simp add: OKX_WEBSOCKET_REQUEST_NONCE_MASK_def mask_eq_exp_minus_1)
  then have "n AND OKX_WEBSOCKET_REQUEST_NONCE_MASK = take_bit 60 n" by (simp only: take_bit_eq_mask)
  moreover have "unat (take_bit 60 n) = take_bit 60 (unat n)" by (rule unsigned_take_bit_eq)
  ultimately show ?thesis by (simp only: take_bit_eq_mod)
qed

lemma request_id_shape:
  assumes "is_ascii_alphanumeric p"
  shows "list_all is_ascii_alphanumeric (websocket_request_id p n x)" "length (websocket_request_id p n x) = 32"
proof -
  have "unat (n AND OKX_WEBSOCKET_REQUEST_NONCE_MASK) < 16 ^ 15" by (simp add: nonce_small)
  moreover have "unat (fnv1a64 x) < 16 ^ 16" using unsigned_less [of "fnv1a64 x"] by simp
  ultimately show "length (websocket_request_id p n x) = 32"
    by (simp add: websocket_request_id_def show_hex_padded_length)
  show "list_all is_ascii_alphanumeric (websocket_request_id p n x)"
    using assms by (simp add: websocket_request_id_def show_hex_padded_alphanumeric)
qed

lemma request_id_accepted:
  assumes "is_ascii_alphanumeric p"
  shows "ensure_request_id (websocket_request_id p n x) label = Inr ()"
  using request_id_shape [OF assms, of n x] trim_alphanumeric [OF request_id_shape(1) [OF assms]]
  by (auto simp: ensure_request_id_def ensure_trimmed_non_empty_def ensure_ascii_alphanumeric_def blank_def res_simps
      OKX_WEBSOCKET_REQUEST_ID_MAX_LEN_def)

lemma request_id_inject:
  assumes "websocket_request_id p n x = websocket_request_id p' n' x'"
  shows "unat n mod 2 ^ 60 = unat n' mod 2 ^ 60"
proof -
  have short: "unat (n AND OKX_WEBSOCKET_REQUEST_NONCE_MASK) < 16 ^ 15" for n by (simp add: nonce_small)
  have "show_hex_padded 15 (unat (n AND OKX_WEBSOCKET_REQUEST_NONCE_MASK)) =
      show_hex_padded 15 (unat (n' AND OKX_WEBSOCKET_REQUEST_NONCE_MASK))"
    using assms show_hex_padded_length [OF short, of n] show_hex_padded_length [OF short, of n']
    by (auto simp: websocket_request_id_def append_eq_append_conv)
  then show ?thesis by (metis nonce_small show_hex_padded_value)
qed

lemma offsets_distinct:
  assumes "(a + j) mod m = (a + k) mod m" and "j < m" and "k < m"
  shows "j = (k::nat)"
proof -
  have "m dvd k - j" if "j \<le> k"
    using assms(1) that mod_eq_dvd_iff_nat [of "a + j" "a + k" m] by simp
  moreover have "m dvd j - k" if "k \<le> j"
    using assms(1) that mod_eq_dvd_iff_nat [of "a + k" "a + j" m] by simp
  ultimately show ?thesis
    using assms(2,3) by (cases "j \<le> k") (auto dest!: dvd_imp_le)
qed

lemma nonces_distinct:
  fixes n :: u64
  assumes "unat (n + of_nat j) mod 2 ^ 60 = unat (n + of_nat k) mod 2 ^ 60" and "j < 2 ^ 60" and "k < 2 ^ 60"
  shows "j = k"
proof -
  have "unat (n + of_nat j) mod 2 ^ 60 = (unat n + j) mod 2 ^ 60" for j
  proof -
    have "unat (n + of_nat j) = (unat n + j mod 2 ^ 64) mod 2 ^ 64" by (simp add: unat_word_ariths unat_of_nat)
    then show ?thesis by (simp add: mod_mod_cancel mod_add_right_eq)
  qed
  with assms show ?thesis using offsets_distinct [of "unat n" j "2 ^ 60" k] by simp
qed

definition request_prefix :: "OkxWebsocketOrderOperation \<Rightarrow> char" where
  "request_prefix op =
     (case op of
        PlaceOrderOp \<Rightarrow> OKX_WEBSOCKET_PLACE_ORDER_REQUEST_PREFIX
      | AmendOrderOp \<Rightarrow> OKX_WEBSOCKET_AMEND_ORDER_REQUEST_PREFIX
      | CancelOrderOp \<Rightarrow> OKX_WEBSOCKET_CANCEL_ORDER_REQUEST_PREFIX)"

lemma request_prefix_alphanumeric: "is_ascii_alphanumeric (request_prefix op)"
  by (cases op) (simp_all add: request_prefix_def OKX_WEBSOCKET_PLACE_ORDER_REQUEST_PREFIX_def
      OKX_WEBSOCKET_AMEND_ORDER_REQUEST_PREFIX_def OKX_WEBSOCKET_CANCEL_ORDER_REQUEST_PREFIX_def
      is_ascii_alphanumeric_def is_ascii_digit_def is_ascii_uppercase_def is_ascii_lowercase_def byte_def)

text \<open>The identifiers of commands that follow each other: their operations and client order ids.\<close>

fun issued_request_ids :: "(OkxWebsocketOrderOperation \<times> string) list \<Rightarrow> OkxTradingClient \<Rightarrow> string list" where
  "issued_request_ids [] s = []"
| "issued_request_ids ((op, x) # commands) s =
     (case next_websocket_request_id (request_prefix op) x s :: (rest_error fault + string) option \<times> OkxTradingClient of
        (Some (Inr rid), s') \<Rightarrow> rid # issued_request_ids commands s'
      | _ \<Rightarrow> [])"

lemma issued_request_ids_nth:
  "length (issued_request_ids commands s) = length commands \<and>
   (\<forall>k<length commands. \<exists>op x. issued_request_ids commands s ! k =
      websocket_request_id (request_prefix op) ((tr_request_nonce s + of_nat k) AND OKX_WEBSOCKET_REQUEST_NONCE_MASK) x)"
proof (induction commands arbitrary: s)
  case (Cons c commands)
  obtain op x where c: "c = (op, x)" by (cases c)
  let ?s = "s\<lparr> tr_request_nonce := tr_request_nonce s + 1 \<rparr>"
  have step: "issued_request_ids (c # commands) s =
      websocket_request_id (request_prefix op) (tr_request_nonce s AND OKX_WEBSOCKET_REQUEST_NONCE_MASK) x #
      issued_request_ids commands ?s"
    by (simp add: c next_websocket_request_id_def)
  have "\<exists>op x. issued_request_ids (c # commands) s ! k =
      websocket_request_id (request_prefix op) ((tr_request_nonce s + of_nat k) AND OKX_WEBSOCKET_REQUEST_NONCE_MASK) x"
    if k: "k < length (c # commands)" for k
  proof (cases k)
    case 0
    then show ?thesis unfolding step by auto
  next
    case (Suc m)
    with Cons [of ?s] k show ?thesis unfolding step by (simp add: ac_simps)
  qed
  with Cons [of ?s] step show ?case by auto
qed simp

text \<open>
  C39: the request identifiers of the WebSocket commands are what the session and the exchange need them to be:
  each is accepted as a request identifier (32 ASCII letters and digits), and any \<open>2 ^ 60\<close> commands that follow
  each other have different ones, whatever their operations and client order ids, although the hash in them may
  collide and the counter wraps around.
\<close>
theorem request_ids_distinct:
  "length (issued_request_ids commands s) = length commands \<and>
   list_all (\<lambda>rid. ensure_request_id rid label = Inr () \<and> length rid = 32) (issued_request_ids commands s) \<and>
   distinct (take (2 ^ 60) (issued_request_ids commands s))"
proof -
  let ?ids = "issued_request_ids commands s" and ?n = "tr_request_nonce s"
  note nth = issued_request_ids_nth [of commands s]
  have "ensure_request_id rid label = Inr () \<and> length rid = 32" if "rid \<in> set ?ids" for rid
  proof -
    from that nth obtain op n x where "rid = websocket_request_id (request_prefix op) n x"
      by (metis in_set_conv_nth)
    then show ?thesis
      using request_id_accepted [OF request_prefix_alphanumeric] request_id_shape(2) [OF request_prefix_alphanumeric] by simp
  qed
  moreover have "distinct (take (2 ^ 60) ?ids)"
    unfolding distinct_conv_nth
  proof (intro allI impI)
    fix j k assume jk: "j < length (take (2 ^ 60) ?ids)" "k < length (take (2 ^ 60) ?ids)" "j \<noteq> k"
    show "take (2 ^ 60) ?ids ! j \<noteq> take (2 ^ 60) ?ids ! k"
    proof
      assume "take (2 ^ 60) ?ids ! j = take (2 ^ 60) ?ids ! k"
      with jk have "?ids ! j = ?ids ! k" by simp
      with jk nth obtain op x op' x' where
        "websocket_request_id (request_prefix op) ((?n + of_nat j) AND OKX_WEBSOCKET_REQUEST_NONCE_MASK) x =
         websocket_request_id (request_prefix op') ((?n + of_nat k) AND OKX_WEBSOCKET_REQUEST_NONCE_MASK) x'"
        by (metis length_take min_less_iff_conj)
      from request_id_inject [OF this] have "unat (?n + of_nat j) mod 2 ^ 60 = unat (?n + of_nat k) mod 2 ^ 60"
        by (simp add: nonce_small)
      with jk nonces_distinct [of ?n j k] show False by simp
    qed
  qed
  ultimately show ?thesis using nth by (simp add: list_all_iff)
qed

section \<open>The server-time refresher\<close>

lemma told_report:
  assumes "report_server_time_refresh_failure failures e = failures'" and "failures = Some ch" and "\<not> fc_receiver_gone ch"
  shows "\<exists>ch'. failures' = Some ch' \<and> \<not> fc_receiver_gone ch' \<and>
    fc_waiting ch' = (case fc_waiting ch of None \<Rightarrow> Some e | Some x \<Rightarrow> Some x)"
  using assms by (auto simp: report_server_time_refresh_failure_def split: option.splits)

definition listening :: "refresher \<Rightarrow> bool" where
  "listening r = (\<exists>ch. rf_failures r = Some ch \<and> \<not> fc_receiver_gone ch)"

text \<open>What the runtime has been told, against the failures so far.\<close>

definition told_of :: "rest_error list \<Rightarrow> refresher \<Rightarrow> bool" where
  "told_of failures r = (listening r \<and> subseq (told r) failures \<and> take 1 (told r) = take 1 failures)"

lemma told_refresh:
  assumes "told_of failures r"
  shows "told_of (failures @ attempt_failures attempt) (refresher_refresh OKX_SERVER_TIME_REFRESH_MARGIN attempt r)"
proof -
  from assms obtain ch where ch: "rf_failures r = Some ch" "\<not> fc_receiver_gone ch" by (auto simp: told_of_def listening_def)
  show ?thesis
  proof (cases "refresh_failure OKX_SERVER_TIME_REFRESH_MARGIN attempt")
    case None
    with assms show ?thesis
      by (simp add: refresher_refresh_def refresh_server_time_until_stop_def attempt_failures_def told_of_def listening_def told_def)
  next
    case (Some e)
    let ?r = "refresher_refresh OKX_SERVER_TIME_REFRESH_MARGIN attempt r"
    have "told ?r = told r \<and> told r \<noteq> [] \<or> told ?r = told r @ [e]"
      using ch Some by (auto simp: refresher_refresh_def refresh_server_time_until_stop_def told_def
          report_server_time_refresh_failure_def split: option.splits)
    moreover have "listening ?r"
      using ch Some by (auto simp: refresher_refresh_def refresh_server_time_until_stop_def listening_def
          report_server_time_refresh_failure_def)
    moreover have "subseq (told r) (failures @ [e])" "subseq (told r @ [e]) (failures @ [e])"
      using assms list_emb_append_mono [of "(=)" "told r" failures "[]" "[e]"]
        list_emb_append_mono [of "(=)" "told r" failures "[e]" "[e]"] by (simp_all add: told_of_def)
    ultimately show ?thesis
      using assms Some by (cases failures; cases "told r") (auto simp: told_of_def attempt_failures_def)
  qed
qed

lemma told_steps:
  assumes "told_of failures r" and "ReceiverGone \<notin> set turns"
  shows "told_of (failures @ failures_of (rf_running r) turns)
    (foldl (\<lambda>r turn. refresher_step OKX_SERVER_TIME_REFRESH_MARGIN turn r) r turns)"
  using assms
proof (induction turns arbitrary: r failures)
  case (Cons turn turns)
  show ?case
  proof (cases turn)
    case (RefreshTick attempt)
    show ?thesis
    proof (cases "rf_running r")
      case True
      then have "refresher_step OKX_SERVER_TIME_REFRESH_MARGIN turn r = refresher_refresh OKX_SERVER_TIME_REFRESH_MARGIN attempt r"
        "rf_running (refresher_refresh OKX_SERVER_TIME_REFRESH_MARGIN attempt r) = (attempt \<noteq> StopSignalFirst)"
        using RefreshTick by (simp_all add: refresher_step_def refresher_refresh_def refresh_server_time_until_stop_def)
      with True RefreshTick Cons.IH [OF told_refresh [OF Cons.prems(1), of attempt]] Cons.prems(2) show ?thesis
        by simp
    next
      case False
      then have "refresher_step OKX_SERVER_TIME_REFRESH_MARGIN turn r = r" using RefreshTick by (simp add: refresher_step_def)
      with False RefreshTick Cons.IH [OF Cons.prems(1)] Cons.prems(2) show ?thesis by simp
    qed
  next
    case StopBetween
    have "told_of failures (r\<lparr> rf_running := False \<rparr>)"
      using Cons.prems(1) by (simp add: told_of_def listening_def told_def)
    moreover have "refresher_step OKX_SERVER_TIME_REFRESH_MARGIN turn r = r\<lparr> rf_running := False \<rparr>"
      using StopBetween by (simp add: refresher_step_def)
    ultimately show ?thesis
      using StopBetween Cons.IH [of failures "r\<lparr> rf_running := False \<rparr>"] Cons.prems(2) by simp
  next
    case FailureReceived
    let ?r = "refresher_step OKX_SERVER_TIME_REFRESH_MARGIN FailureReceived r"
    have "told_of failures ?r" "rf_running ?r = rf_running r"
      using Cons.prems(1) by (auto simp: refresher_step_def told_of_def listening_def told_def split: option.splits)
    with FailureReceived Cons.IH [of failures ?r] Cons.prems(2) show ?thesis by simp
  qed (use Cons.prems(2) in simp)
qed simp

text \<open>
  C40: a failure of the background refresh reaches the runtime.  While the runtime listens, what it has been told
  (received or waiting for it) are failures of refreshes in their order, beginning with the first, so that it is
  told something exactly if a refresh failed; and a failure is left out only while an earlier one is still
  waiting, so that the runtime that has received what was waiting learns of the next one.
\<close>
theorem refresh_failures_reach_runtime:
  assumes "ReceiverGone \<notin> set turns"
  shows "let r = server_time_refresher first turns;
      failures = attempt_failures first @ failures_of (first \<noteq> StopSignalFirst) turns in
    subseq (told r) failures \<and> take 1 (told r) = take 1 failures \<and> listening r \<and>
    (case rf_failures (refresher_step OKX_SERVER_TIME_REFRESH_MARGIN (RefreshTick (RefreshAnswered 0 (Inl e))) (r\<lparr> rf_running := True \<rparr>)) of
       None \<Rightarrow> False | Some ch \<Rightarrow> fc_waiting ch = Some (case Option.bind (rf_failures r) fc_waiting of None \<Rightarrow> e | Some x \<Rightarrow> x))"
proof -
  let ?start = "\<lparr> rf_running = True, rf_failures = Some failure_channel_new, rf_received = [] \<rparr>"
  let ?first = "refresher_refresh OKX_SERVER_TIME_REFRESH_MARGIN first ?start"
  have "told_of [] ?start" by (simp add: told_of_def listening_def told_def failure_channel_new_def)
  from told_steps [OF told_refresh [OF this] assms, of first]
  have told: "told_of (attempt_failures first @ failures_of (rf_running ?first) turns) (server_time_refresher first turns)"
    by (simp add: server_time_refresher_def)
  moreover have "rf_running ?first = (first \<noteq> StopSignalFirst)"
    by (simp add: refresher_refresh_def refresh_server_time_until_stop_def)
  ultimately show ?thesis
    by (auto simp: Let_def told_of_def listening_def refresher_step_def refresher_refresh_def refresh_failure_def
        refresh_server_time_until_stop_def report_server_time_refresh_failure_def split: option.splits)
qed

theorem refresh_failures_reach_runtime_witness:
  "let r = server_time_refresher (RefreshAnswered 1 (Inr True)) [RefreshTick (RefreshAnswered 20000000000 (Inr False)), FailureReceived];
      failures = attempt_failures (RefreshAnswered 1 (Inr True)) @
        failures_of (RefreshAnswered 1 (Inr True) \<noteq> StopSignalFirst) [RefreshTick (RefreshAnswered 20000000000 (Inr False)), FailureReceived] in
    subseq (told r) failures \<and> take 1 (told r) = take 1 failures \<and> listening r \<and>
    (case rf_failures (refresher_step OKX_SERVER_TIME_REFRESH_MARGIN (RefreshTick (RefreshAnswered 0 (Inl refresh_deadline_error))) (r\<lparr> rf_running := True \<rparr>)) of
       None \<Rightarrow> False | Some ch \<Rightarrow> fc_waiting ch = Some (case Option.bind (rf_failures r) fc_waiting of None \<Rightarrow> refresh_deadline_error | Some x \<Rightarrow> x))"
  by (rule refresh_failures_reach_runtime) simp

end
