(* ===== verification/Preflight_Reads.thy ===== *)
theory Preflight_Reads
  imports Preflight_Probe Pair_Selection Trading_Guarantees
begin

text \<open>
  The client of the economics preflight and the one for pair selection only read: they ask for no mutation over
  REST, and over its WebSockets the first sends nothing but a login, one subscription and the close.
\<close>

section \<open>What a probe sends\<close>

text \<open>
  \<open>probe_sends m qs\<close>: \<open>m\<close> sends the requests \<open>qs\<close> in this order and possibly stops on the way; if it succeeds it
  has sent them all.
\<close>

definition probe_sends :: "probe \<Rightarrow> probe_request list \<Rightarrow> bool" where
  "probe_sends m qs \<longleftrightarrow>
     (\<forall>s. \<exists>xs. prefix xs qs \<and> pr_sent (snd (m s)) = rev xs @ pr_sent s \<and> (fst (m s) = Some (Inr ()) \<longrightarrow> xs = qs))"

lemma probe_sends_then:
  assumes "probe_sends a as" and "probe_sends b bs"
  shows "probe_sends (probe_then a b) (as @ bs)"
  unfolding probe_sends_def
proof
  fix s
  obtain r s' where a: "a s = (r, s')" by force
  from assms(1) a obtain xs where xs: "prefix xs as" "pr_sent s' = rev xs @ pr_sent s" "r = Some (Inr ()) \<longrightarrow> xs = as"
    unfolding probe_sends_def by (metis fst_conv snd_conv)
  from assms(2) obtain ys where ys: "prefix ys bs" "pr_sent (snd (b s')) = rev ys @ pr_sent s'"
      "fst (b s') = Some (Inr ()) \<longrightarrow> ys = bs"
    unfolding probe_sends_def by blast
  show "\<exists>zs. prefix zs (as @ bs) \<and> pr_sent (snd (probe_then a b s)) = rev zs @ pr_sent s \<and>
      (fst (probe_then a b s) = Some (Inr ()) \<longrightarrow> zs = as @ bs)"
  proof (cases "r = Some (Inr ())")
    case True
    with a xs ys show ?thesis by (intro exI [of _ "as @ ys"]) (simp add: probe_then_def)
  next
    case False
    then have "probe_then a b s = (r, s')" using a by (auto simp: probe_then_def split: option.splits sum.splits)
    with xs False show ?thesis by (intro exI [of _ xs]) simp
  qed
qed

lemma probe_sends_basic:
  "probe_sends (probe_res r) []" "probe_sends probe_connect []" "probe_sends (probe_send context failure q) [q]"
  "probe_sends (probe_wait context expired on_text at_close p) []"
  by (auto simp: probe_sends_def probe_res_def probe_connect_def probe_send_def probe_wait_def
    split: list.splits prod.splits option.splits loop_end.splits)

lemma probe_sends_wait:
  "probe_sends (wait_for_subscription_ack J a context) []" "probe_sends (close_cleanly context) [CloseFrame]"
  using probe_sends_then [OF probe_sends_basic(3) probe_sends_basic(4)]
  by (simp_all add: wait_for_subscription_ack_def close_cleanly_def probe_sends_basic)

lemma probe_login_sends: "\<exists>l. probe_sends (probe_login J hmac c t context) [LoginRequest l]"
proof (cases "login_request_at hmac c t")
  case (Inl e)
  then show ?thesis by (simp add: probe_login_def probe_sends_def probe_res_def)
next
  case (Inr q)
  then show ?thesis
    using probe_sends_then [OF probe_sends_basic(3) probe_sends_basic(4)] by (intro exI [of _ q]) (simp add: probe_login_def)
qed

definition ticker_subscription :: "string \<Rightarrow> probe_request" where
  "ticker_subscription i =
     SubscribeRequest \<lparr> sa_channel = PUBLIC_TICKERS_CHANNEL, sa_inst_id = Some i, sa_inst_type = None \<rparr>"

definition order_subscription :: "string \<Rightarrow> probe_request" where
  "order_subscription i =
     SubscribeRequest \<lparr> sa_channel = PRIVATE_ORDERS_CHANNEL, sa_inst_id = Some i, sa_inst_type = Some SPOT_INSTRUMENT_TYPE \<rparr>"

lemma probes_send:
  "probe_sends (probe_public_websocket J url i t) [ticker_subscription i, CloseFrame]"
  "\<exists>l. probe_sends (probe_private_websocket J hmac url c ts i t) [LoginRequest l, order_subscription i, CloseFrame]"
  "\<exists>l. probe_sends (probe_trading_session J hmac url c ts t) [LoginRequest l, CloseFrame]"
proof -
  note rules = probe_sends_basic probe_sends_wait
  show "probe_sends (probe_public_websocket J url i t) [ticker_subscription i, CloseFrame]"
    using probe_sends_then [OF rules(1) probe_sends_then [OF rules(2) probe_sends_then [OF rules(3)
        probe_sends_then [OF rules(5,6)]]]]
    by (simp add: probe_public_websocket_def Let_def ticker_subscription_def)
  obtain l where l: "probe_sends (probe_login J hmac c ts ''private'') [LoginRequest l]" using probe_login_sends by blast
  show "\<exists>l. probe_sends (probe_private_websocket J hmac url c ts i t) [LoginRequest l, order_subscription i, CloseFrame]"
    using probe_sends_then [OF rules(1) probe_sends_then [OF rules(2) probe_sends_then [OF l probe_sends_then [OF rules(3)
        probe_sends_then [OF rules(5,6)]]]]]
    by (intro exI [of _ l]) (simp add: probe_private_websocket_def Let_def order_subscription_def)
  obtain l where l: "probe_sends (probe_login J hmac c ts ''trading-session'') [LoginRequest l]" using probe_login_sends by blast
  show "\<exists>l. probe_sends (probe_trading_session J hmac url c ts t) [LoginRequest l, CloseFrame]"
    using probe_sends_then [OF rules(1) probe_sends_then [OF rules(1) probe_sends_then [OF rules(2)
        probe_sends_then [OF l rules(6)]]]]
    by (intro exI [of _ l]) (simp add: probe_trading_session_def)
qed

section \<open>What a successful probe has seen\<close>

text \<open>
  A wait that succeeds on a text has read that text, and only texts before it that changed nothing; one that
  succeeds on a close frame has read that.
\<close>

lemma probe_read_text:
  assumes "probe_read context on_text (Inl e) p es = (Some (Finished (Inr ())), es')"
    and "\<And>payload p'. on_text p payload = (Inr None, p') \<Longrightarrow> p' = p"
  shows "\<exists>before payload. es = before @ Message (Text payload) # es' \<and> (\<exists>x. fst (on_text p payload) = Inr (Some x)) \<and>
    (\<forall>other. Message (Text other) \<in> set before \<longrightarrow> fst (on_text p other) = Inr None)"
  using assms(1)
proof (induction es)
  case Nil
  then show ?case by simp
next
  case (Cons ev es)
  have later: ?case if "probe_read context on_text (Inl e) p es = (Some (Finished (Inr ())), es')"
      "\<And>other. ev = Message (Text other) \<Longrightarrow> fst (on_text p other) = Inr None"
  proof -
    from Cons.IH [OF that(1)] obtain before payload where "es = before @ Message (Text payload) # es'"
      "\<exists>x. fst (on_text p payload) = Inr (Some x)"
      "\<forall>other. Message (Text other) \<in> set before \<longrightarrow> fst (on_text p other) = Inr None" by blast
    with that(2) show ?thesis by (intro exI [of _ "ev # before"] exI [of _ payload]) auto
  qed
  show ?case
  proof (cases "\<exists>payload x p'. ev = Message (Text payload) \<and> on_text p payload = (Inr (Some x), p')")
    case True
    then obtain payload x p' where ev: "ev = Message (Text payload)" "on_text p payload = (Inr (Some x), p')" by blast
    with Cons.prems show ?thesis by (intro exI [of _ "[]"] exI [of _ payload]) auto
  next
    case False
    with Cons.prems show ?thesis
      by (intro later) (auto split: socket_event.splits ws_message.splits prod.splits sum.splits option.splits if_splits
        dest: assms(2))
  qed
qed

lemma probe_read_close:
  "probe_read context (\<lambda>p _. (Inr None, p)) (Inr ()) p es = (Some (Finished (Inr ())), es') \<Longrightarrow> \<exists>before. es = before @ Message Close # es'"
proof (induction es)
  case (Cons ev es)
  show ?case
  proof (cases "ev = Message Close")
    case True
    with Cons.prems show ?thesis by (intro exI [of _ "[]"]) simp
  next
    case False
    with Cons.prems have "probe_read context (\<lambda>p _. (Inr None, p)) (Inr ()) p es = (Some (Finished (Inr ())), es')"
      by (auto split: socket_event.splits ws_message.splits if_splits)
    from Cons.IH [OF this] obtain before where "es = before @ Message Close # es'" ..
    then show ?thesis by (intro exI [of _ "ev # before"]) simp
  qed
qed simp

lemma probe_then_Inr:
  "probe_then a b s = (Some (Inr ()), s'') \<longleftrightarrow> (\<exists>s'. a s = (Some (Inr ()), s') \<and> b s' = (Some (Inr ()), s''))"
  by (auto simp: probe_then_def split: prod.splits option.splits sum.splits)

lemma probe_send_Inr: "probe_send context failure q s = (Some (Inr ()), s') \<Longrightarrow> pr_events s' = pr_events s"
  by (auto simp: probe_send_def split: list.splits)

lemma probe_wait_Inr:
  "probe_wait context expired on_text at_close p s = (Some (Inr ()), s') \<Longrightarrow>
    probe_read context on_text at_close p (pr_events s) = (Some (Finished (Inr ())), pr_events s')"
  by (auto simp: probe_wait_def split: prod.splits option.splits loop_end.splits)

lemma probe_login_Inr:
  assumes "probe_login J hmac c ts context s = (Some (Inr ()), s')"
  shows "\<exists>before p. pr_events s = before @ Message (Text p) # pr_events s' \<and> parse_login_ack J p context = Inr True"
proof -
  from assms obtain q s1 where "probe_send context ''failed sending login'' (LoginRequest q) s = (Some (Inr ()), s1)"
      and wait: "probe_wait context ''timed out waiting for login acknowledgement'' (login_text J context)
        (Inl (probe_error context ''closed before login acknowledgement'')) () s1 = (Some (Inr ()), s')"
    by (auto simp: probe_login_def probe_res_def probe_then_Inr split: sum.splits)
  then have "pr_events s1 = pr_events s" using probe_send_Inr by blast
  moreover have "\<exists>before p. pr_events s1 = before @ Message (Text p) # pr_events s' \<and>
      (\<exists>x. fst (login_text J context () p) = Inr (Some x)) \<and>
      (\<forall>other. Message (Text other) \<in> set before \<longrightarrow> fst (login_text J context () other) = Inr None)"
    by (rule probe_read_text [OF probe_wait_Inr [OF wait]]) simp
  moreover have "parse_login_ack J p context = Inr True" if "fst (login_text J context () p) = Inr (Some x)" for p x
    using that by (auto simp: login_text_def split: sum.splits if_splits)
  ultimately show ?thesis by metis
qed

lemma subscription_ack_Inr:
  assumes "wait_for_subscription_ack J a context s = (Some (Inr ()), s')"
  shows "\<exists>before p. pr_events s = before @ Message (Text p) # pr_events s' \<and>
    parse_subscription_event J p context = Inr (Acknowledged a) \<and>
    (\<forall>other arg. Message (Text other) \<in> set before \<longrightarrow> parse_subscription_event J other context \<noteq> Inr (Data arg))"
proof -
  have ended: "parse_subscription_event J p context = Inr (Acknowledged a)"
    if "fst (subscription_text J context {a} p) = Inr (Some x)" for p x
    using that
    by (auto simp: subscription_text_def acknowledge_subscription_def
      split: sum.splits OkxWebsocketSubscriptionEvent.splits if_splits)
  have quiet: "parse_subscription_event J other context \<noteq> Inr (Data arg)"
    if "fst (subscription_text J context {a} other) = Inr None" for other arg
    using that by (auto simp: subscription_text_def)
  have kept: "p' = {a}" if "subscription_text J context {a} payload = (Inr None, p')" for payload p'
    using that by (auto simp: subscription_text_def acknowledge_subscription_def
      split: sum.splits OkxWebsocketSubscriptionEvent.splits if_splits)
  have "\<exists>before p. pr_events s = before @ Message (Text p) # pr_events s' \<and>
      (\<exists>x. fst (subscription_text J context {a} p) = Inr (Some x)) \<and>
      (\<forall>other. Message (Text other) \<in> set before \<longrightarrow> fst (subscription_text J context {a} other) = Inr None)"
    by (rule probe_read_text [OF probe_wait_Inr [OF assms [unfolded wait_for_subscription_ack_def]]]) (rule kept)
  with ended quiet show ?thesis by blast
qed

lemma close_cleanly_Inr:
  assumes "close_cleanly context s = (Some (Inr ()), s')"
  shows "\<exists>before. pr_events s = before @ Message Close # pr_events s'"
proof -
  from assms obtain s1 where "probe_send context ''failed initiating close'' CloseFrame s = (Some (Inr ()), s1)"
      and "probe_wait context ''timed out closing'' (\<lambda>p _. (Inr None, p)) (Inr ()) () s1 = (Some (Inr ()), s')"
    by (auto simp: close_cleanly_def probe_then_Inr)
  then show ?thesis using probe_send_Inr probe_read_close [OF probe_wait_Inr] by metis
qed

text \<open>
  \<open>handshake_seen J i es\<close>: the events \<open>es\<close> acknowledge the login, then the orders subscription of \<open>i\<close> and no other data
  before it, and then the close.
\<close>

definition handshake_seen :: "socket_json \<Rightarrow> string \<Rightarrow> socket_event list \<Rightarrow> bool" where
  "handshake_seen J i es \<longleftrightarrow>
     (\<exists>e1 p1 e2 p2 e3 rest. es = e1 @ Message (Text p1) # e2 @ Message (Text p2) # e3 @ Message Close # rest \<and>
        parse_login_ack J p1 ''private'' = Inr True \<and>
        (\<exists>a. parse_subscription_event J p2 ''economics preflight private'' = Inr (Acknowledged a) \<and>
           SubscribeRequest a = order_subscription i) \<and>
        (\<forall>other arg. Message (Text other) \<in> set e2 \<longrightarrow>
           parse_subscription_event J other ''economics preflight private'' \<noteq> Inr (Data arg)))"

lemma private_probe_seen:
  assumes "probe_private_websocket J hmac url c ts i t s = (Some (Inr ()), s')"
  shows "handshake_seen J i (pr_events s)"
proof -
  let ?a = "\<lparr> sa_channel = PRIVATE_ORDERS_CHANNEL, sa_inst_id = Some i, sa_inst_type = Some SPOT_INSTRUMENT_TYPE \<rparr>"
  from assms obtain s2 s3 s4 where login: "probe_login J hmac c ts ''private'' s = (Some (Inr ()), s2)"
      and sent: "probe_send ''private'' ''failed sending private subscription'' (SubscribeRequest ?a) s2 = (Some (Inr ()), s3)"
      and ack: "wait_for_subscription_ack J ?a ''economics preflight private'' s3 = (Some (Inr ()), s4)"
      and closed: "close_cleanly ''private'' s4 = (Some (Inr ()), s')"
    by (auto simp: probe_private_websocket_def Let_def probe_then_Inr probe_res_def probe_connect_def)
  from probe_login_Inr [OF login] obtain e1 p1 where e1: "pr_events s = e1 @ Message (Text p1) # pr_events s2"
      "parse_login_ack J p1 ''private'' = Inr True" by blast
  from subscription_ack_Inr [OF ack] obtain e2 p2 where e2: "pr_events s3 = e2 @ Message (Text p2) # pr_events s4"
      "parse_subscription_event J p2 ''economics preflight private'' = Inr (Acknowledged ?a)"
      "\<forall>other arg. Message (Text other) \<in> set e2 \<longrightarrow>
         parse_subscription_event J other ''economics preflight private'' \<noteq> Inr (Data arg)" by blast
  from close_cleanly_Inr [OF closed] obtain e3 where e3: "pr_events s4 = e3 @ Message Close # pr_events s'" by blast
  show ?thesis
    unfolding handshake_seen_def
    by (rule exI [of _ e1], rule exI [of _ p1], rule exI [of _ e2], rule exI [of _ p2], rule exI [of _ e3],
      rule exI [of _ "pr_events s'"]) (use e1 e2 e3 probe_send_Inr [OF sent] in \<open>auto simp: order_subscription_def\<close>)
qed

section \<open>What the client asks for\<close>

text \<open>The requests of a handshake, as they are logged: latest first, possibly stopped on the way.\<close>

definition handshake :: "probe_request list \<Rightarrow> bool" where
  "handshake sent \<longleftrightarrow>
     (\<exists>l i. prefix (rev sent) [ticker_subscription i, CloseFrame] \<or>
        prefix (rev sent) [LoginRequest l, order_subscription i, CloseFrame] \<or>
        prefix (rev sent) [LoginRequest l, CloseFrame])"

datatype economics_query =
    AskServerTime
  | AskAccountConfig
  | AskSpotTradeFee string string
  | AskInstrument string
  | AskTicker string
  | ProbePublic string
  | ProbePrivate string
  | ProbeTrading
  | SelectInstruments
  | SelectTicker string
  | SelectOrderBook string nat

definition economics_step ::
    "rest_env \<Rightarrow> socket_json \<Rightarrow> selection_json \<Rightarrow> OkxEconomicsPreflightClient \<Rightarrow> economics_query \<Rightarrow>
      economics_world \<Rightarrow> economics_world" where
  "economics_step E J S C q w =
     (case q of
        AskServerTime \<Rightarrow> snd (economics_server_time E w)
      | AskAccountConfig \<Rightarrow> snd (economics_account_config E w)
      | AskSpotTradeFee i g \<Rightarrow> snd (economics_spot_trade_fee E i g w)
      | AskInstrument i \<Rightarrow> snd (economics_instrument E i w)
      | AskTicker i \<Rightarrow> snd (economics_ticker E i w)
      | ProbePublic i \<Rightarrow> snd (economics_probe_public J C i w)
      | ProbePrivate i \<Rightarrow> snd (economics_probe_private E J C i w)
      | ProbeTrading \<Rightarrow> snd (economics_probe_trading E J C w)
      | SelectInstruments \<Rightarrow> snd (over_rest (selection_account_spot_instruments E S) w)
      | SelectTicker i \<Rightarrow> snd (over_rest (selection_ticker E S i) w)
      | SelectOrderBook i depth \<Rightarrow> snd (over_rest (selection_order_book E S i depth) w))"

text \<open>\<open>only_reads w w'\<close>: from \<open>w\<close> to \<open>w'\<close> no mutation was asked for and only handshakes were added.\<close>

definition only_reads :: "economics_world \<Rightarrow> economics_world \<Rightarrow> bool" where
  "only_reads w w' \<longleftrightarrow>
     mutations (ri_log (ew_rest w')) = mutations (ri_log (ew_rest w)) \<and>
     (\<exists>new. ew_probed w' = new @ ew_probed w \<and> list_all handshake new)"

lemma only_reads_trans: "only_reads a b \<Longrightarrow> only_reads b c \<Longrightarrow> only_reads a c"
  by (auto simp: only_reads_def)

lemma over_rest_reads: "rest_keeps same_mutations m \<Longrightarrow> only_reads w (snd (over_rest m w))"
  by (auto simp: only_reads_def over_rest_def same_mutations_def rest_keeps_def split: prod.split) (metis snd_conv)

lemma over_probe_reads:
  assumes "\<And>s. pr_sent s = [] \<Longrightarrow> handshake (pr_sent (snd (m s)))"
  shows "only_reads w (snd (over_probe m w))"
proof (cases "ew_connections w")
  case Nil
  then show ?thesis by (simp add: only_reads_def over_probe_def)
next
  case (Cons s ss)
  with assms [of "s\<lparr> pr_sent := [] \<rparr>"] show ?thesis
    by (auto simp: only_reads_def over_probe_def split: prod.split)
qed

lemma probe_handshake:
  "pr_sent s = [] \<Longrightarrow> handshake (pr_sent (snd (probe_public_websocket J url i t s)))"
  "pr_sent s = [] \<Longrightarrow> handshake (pr_sent (snd (probe_private_websocket J hmac url c ts i t s)))"
  "pr_sent s = [] \<Longrightarrow> handshake (pr_sent (snd (probe_trading_session J hmac url c ts t s)))"
  using probes_send(1) [of J url i t] probes_send(2) [of J hmac url c ts i t] probes_send(3) [of J hmac url c ts t]
  unfolding probe_sends_def handshake_def by (metis append_Nil2 rev_rev_ident)+

lemma economics_then_reads:
  assumes "\<And>w. only_reads w (snd (m w))" and "\<And>x w. only_reads w (snd (f x w))"
  shows "only_reads w (snd (economics_then m f w))"
proof -
  obtain r w' where m: "m w = (r, w')" by force
  with assms(1) [of w] have "only_reads w w'" by simp
  with m assms(2) show ?thesis
    by (auto simp: economics_then_def split: option.split sum.split intro: only_reads_trans)
qed

lemma quiet_account_config: "rest_keeps same_mutations (rest_account_config E)"
  by (rule quiet.account_operations) (simp_all add: same_mutations_def)

lemma quiet_reads:
  "rest_keeps same_mutations (economics_preflight_server_time E)" "rest_keeps same_mutations (rest_account_config E)"
  "rest_keeps same_mutations (spot_trade_fee_for_group E i g)" "rest_keeps same_mutations (rest_instruments E i)"
  "rest_keeps same_mutations (rest_ticker E i)" "rest_keeps same_mutations (websocket_login_timestamp E)"
  unfolding economics_preflight_server_time_def rest_instruments_def
  by (intro quiet.server_times quiet_account_config quiet.account_reads quiet.instruments quiet.tickers
    quiet.websocket_preparations)+

lemma quiet_selection:
  "rest_keeps same_mutations (selection_account_spot_instruments E S)"
  "rest_keeps same_mutations (selection_ticker E S i)" "rest_keeps same_mutations (selection_order_book E S i depth)"
  unfolding selection_account_spot_instruments_def selection_ticker_def selection_order_book_def
  by (intro quiet.shape quiet.requests)+

text \<open>
  C33: the diagnostic clients trade nothing.  Whatever the economics preflight and the pair selection ask, in
  whatever order and whatever the answers, they ask the exchange for no order, amendment, cancellation or timer over REST, and over the WebSockets
  only handshakes are sent: a login where one is needed, the subscription of one instrument's tickers or orders, and
  the close.
\<close>
theorem preflight_only_reads: "only_reads w (fold (economics_step E J S C) qs w)"
proof (induction qs arbitrary: w)
  case Nil
  show ?case by (simp add: only_reads_def)
next
  case (Cons q qs)
  have "only_reads w (economics_step E J S C q w)"
    by (cases q)
      (auto simp: economics_step_def economics_server_time_def economics_account_config_def economics_spot_trade_fee_def
        economics_instrument_def economics_ticker_def economics_probe_public_def economics_probe_private_def
        economics_probe_trading_def
        intro!: over_rest_reads over_probe_reads economics_then_reads probe_handshake quiet_reads quiet_selection)
  with Cons.IH show ?case by (auto intro: only_reads_trans)
qed

end
