(* ===== verification/Replay_Book.thy ===== *)
theory Replay_Book
  imports Ordered_Map Decimal_Ops Public_Protocol
begin

text \<open>
  \<open>okx-market-model/src/replay_book.rs\<close>: the order book that replays recorded events.

  A side is a \<open>BTreeMap\<close> from price to level.  An operation on \<open>&mut self\<close> returns the new book beside
  its result, so that what an error leaves behind is part of the statement.  The counters of
  \<open>ApplyOutcome\<close> are bounded by the number of levels of one event, far below \<open>u64::MAX\<close>: they are
  \<open>nat\<close>.  The feature getters use the panicking \<open>Decimal\<close> operators.
\<close>

section \<open>Data\<close>

datatype BookAction = BookSnapshot | BookUpdate

record LevelUpdate =
  lu_price :: decimal
  lu_quantity :: decimal
  lu_order_count :: nat

record SequencedBookEvent =
  sev_instrument_id :: OkxSpotInstrumentId
  sev_action :: BookAction
  sev_asks :: "LevelUpdate list"
  sev_bids :: "LevelUpdate list"
  sev_sequence_epoch :: u64
  sev_sequence_id :: int

record HistoricalBookEvent =
  hev_instrument_id :: OkxSpotInstrumentId
  hev_action :: BookAction
  hev_asks :: "LevelUpdate list"
  hev_bids :: "LevelUpdate list"
  hev_research_epoch :: u64

record BookLevel =
  bl_quantity :: decimal
  bl_order_count :: nat

type_synonym side = "(decimal, BookLevel) btree"

record OrderBook =
  ob_instrument_id :: OkxSpotInstrumentId
  ob_bids :: side
  ob_asks :: side
  ob_trusted :: bool
  ob_has_snapshot :: bool
  ob_sequence_epoch :: "u64 option"
  ob_sequence_id :: "int option"

record ApplyOutcome =
  ao_invalid_levels :: nat
  ao_unknown_removals :: nat
  ao_duplicate_levels :: nat
  ao_non_monotonic_snapshot_sides :: nat
  ao_update_before_snapshot :: nat
  ao_depth_overflow :: nat
  ao_empty_sides :: nat
  ao_crossed :: nat

definition default_outcome :: ApplyOutcome where
  "default_outcome =
     \<lparr> ao_invalid_levels = 0, ao_unknown_removals = 0, ao_duplicate_levels = 0,
       ao_non_monotonic_snapshot_sides = 0, ao_update_before_snapshot = 0, ao_depth_overflow = 0,
       ao_empty_sides = 0, ao_crossed = 0 \<rparr>"

record TopLevel =
  tl_price :: decimal
  tl_quantity :: decimal

datatype OkxReplayBookError =
  Replay_InstrumentMismatch OkxSpotInstrumentId OkxSpotInstrumentId

section \<open>Operations\<close>

definition book_new :: "OkxSpotInstrumentId \<Rightarrow> OrderBook" where
  "book_new i =
     \<lparr> ob_instrument_id = i, ob_bids = [], ob_asks = [], ob_trusted = False,
       ob_has_snapshot = False, ob_sequence_epoch = None, ob_sequence_id = None \<rparr>"

definition book_reset :: "OrderBook \<Rightarrow> OrderBook" where
  "book_reset b =
     b\<lparr> ob_bids := [], ob_asks := [], ob_trusted := False, ob_has_snapshot := False,
        ob_sequence_epoch := None, ob_sequence_id := None \<rparr>"

definition mark_untrusted :: "OrderBook \<Rightarrow> OrderBook" where
  "mark_untrusted b = b\<lparr> ob_trusted := False \<rparr>"

definition best_bid :: "OrderBook \<Rightarrow> TopLevel option" where
  "best_bid b =
     map_option (\<lambda>(p, l). \<lparr> tl_price = p, tl_quantity = bl_quantity l \<rparr>) (bt_last (ob_bids b))"

definition best_ask :: "OrderBook \<Rightarrow> TopLevel option" where
  "best_ask b =
     map_option (\<lambda>(p, l). \<lparr> tl_price = p, tl_quantity = bl_quantity l \<rparr>) (bt_first (ob_asks b))"

text \<open>One step of the loop of \<open>apply_side\<close>; the set holds the prices already seen in this event.\<close>

definition apply_side_step ::
    "decimal set \<times> side \<times> ApplyOutcome \<Rightarrow> LevelUpdate \<Rightarrow> decimal set \<times> side \<times> ApplyOutcome" where
  "apply_side_step = (\<lambda>(seen, side, outcome) u.
     if lu_price u \<in> seen then
       (seen, side, outcome\<lparr> ao_duplicate_levels := ao_duplicate_levels outcome + 1 \<rparr>)
     else
       let seen = insert (lu_price u) seen in
       if lu_price u \<le> 0 \<or> lu_quantity u < 0 then
         (seen, side, outcome\<lparr> ao_invalid_levels := ao_invalid_levels outcome + 1 \<rparr>)
       else if lu_quantity u = 0 then
         (let (old, side) = bt_remove (lu_price u) side in
          (seen, side,
            if old = None then outcome\<lparr> ao_unknown_removals := ao_unknown_removals outcome + 1 \<rparr>
            else outcome))
       else
         (seen,
          snd (bt_insert (lu_price u)
            \<lparr> bl_quantity = lu_quantity u, bl_order_count = lu_order_count u \<rparr> side),
          outcome))"

definition apply_side :: "side \<Rightarrow> LevelUpdate list \<Rightarrow> ApplyOutcome \<Rightarrow> side \<times> ApplyOutcome" where
  "apply_side side updates outcome = snd (foldl apply_side_step ({}, side, outcome) updates)"

fun strictly_increasing :: "LevelUpdate list \<Rightarrow> bool" where
  "strictly_increasing (a # b # ls) = (lu_price a < lu_price b \<and> strictly_increasing (b # ls))"
| "strictly_increasing _ = True"

fun strictly_decreasing :: "LevelUpdate list \<Rightarrow> bool" where
  "strictly_decreasing (a # b # ls) = (lu_price a > lu_price b \<and> strictly_decreasing (b # ls))"
| "strictly_decreasing _ = True"

definition ensure_instrument ::
    "OrderBook \<Rightarrow> OkxSpotInstrumentId \<Rightarrow> OkxReplayBookError + unit" where
  "ensure_instrument b received =
     ensure (received = ob_instrument_id b)
       (Replay_InstrumentMismatch (ob_instrument_id b) received)"

definition apply_levels ::
    "OrderBook \<Rightarrow> BookAction \<Rightarrow> LevelUpdate list \<Rightarrow> LevelUpdate list \<Rightarrow> OrderBook \<times> ApplyOutcome" where
  "apply_levels b action asks bids =
     (let outcome = default_outcome;
          (b, outcome) =
            (if action = BookSnapshot then
               (b\<lparr> ob_bids := [], ob_asks := [], ob_trusted := True, ob_has_snapshot := True \<rparr>,
                outcome\<lparr> ao_non_monotonic_snapshot_sides :=
                  ao_non_monotonic_snapshot_sides outcome
                  + (if strictly_increasing asks then 0 else 1)
                  + (if strictly_decreasing bids then 0 else 1) \<rparr>)
             else if \<not> ob_has_snapshot b then
               (b\<lparr> ob_trusted := False \<rparr>,
                outcome\<lparr> ao_update_before_snapshot := ao_update_before_snapshot outcome + 1 \<rparr>)
             else (b, outcome));
          (new_asks, outcome) = apply_side (ob_asks b) asks outcome;
          (new_bids, outcome) = apply_side (ob_bids b) bids outcome
      in (b\<lparr> ob_asks := new_asks, ob_bids := new_bids \<rparr>, outcome))"

definition finish_apply :: "OrderBook \<Rightarrow> ApplyOutcome \<Rightarrow> OrderBook \<times> ApplyOutcome" where
  "finish_apply b outcome =
     (let outcome =
            (if length (ob_bids b) > 400 \<or> length (ob_asks b) > 400
             then outcome\<lparr> ao_depth_overflow := ao_depth_overflow outcome + 1 \<rparr> else outcome);
          b = (if ao_invalid_levels outcome > 0 \<or> ao_duplicate_levels outcome > 0 \<or>
                  ao_non_monotonic_snapshot_sides outcome > 0 \<or>
                  ao_update_before_snapshot outcome > 0 \<or> ao_depth_overflow outcome > 0
               then b\<lparr> ob_trusted := False \<rparr> else b)
      in
      if ob_bids b = [] \<or> ob_asks b = [] then
        (b\<lparr> ob_trusted := False \<rparr>, outcome\<lparr> ao_empty_sides := ao_empty_sides outcome + 1 \<rparr>)
      else if (case (best_bid b, best_ask b) of
                 (Some bid, Some ask) \<Rightarrow> tl_price bid \<ge> tl_price ask
               | _ \<Rightarrow> False) then
        (b\<lparr> ob_trusted := False \<rparr>, outcome\<lparr> ao_crossed := ao_crossed outcome + 1 \<rparr>)
      else (b, outcome))"

definition book_apply ::
    "OrderBook \<Rightarrow> SequencedBookEvent \<Rightarrow> (OkxReplayBookError + ApplyOutcome) \<times> OrderBook" where
  "book_apply b ev =
     (case ensure_instrument b (sev_instrument_id ev) of
        Inl e \<Rightarrow> (Inl e, b)
      | Inr _ \<Rightarrow>
          let (b, outcome) = apply_levels b (sev_action ev) (sev_asks ev) (sev_bids ev);
              b = b\<lparr> ob_sequence_epoch := Some (sev_sequence_epoch ev),
                     ob_sequence_id := Some (sev_sequence_id ev) \<rparr>;
              (b, outcome) = finish_apply b outcome
          in (Inr outcome, b))"

definition apply_historical ::
    "OrderBook \<Rightarrow> HistoricalBookEvent \<Rightarrow> (OkxReplayBookError + ApplyOutcome) \<times> OrderBook" where
  "apply_historical b ev =
     (case ensure_instrument b (hev_instrument_id ev) of
        Inl e \<Rightarrow> (Inl e, b)
      | Inr _ \<Rightarrow>
          let (b, outcome) = apply_levels b (hev_action ev) (hev_asks ev) (hev_bids ev);
              b = b\<lparr> ob_sequence_epoch := Some (hev_research_epoch ev), ob_sequence_id := None \<rparr>;
              (b, outcome) = finish_apply b outcome
          in (Inr outcome, b))"

section \<open>Features\<close>

definition asks_ascending :: "OrderBook \<Rightarrow> TopLevel list" where
  "asks_ascending b = map (\<lambda>(p, l). \<lparr> tl_price = p, tl_quantity = bl_quantity l \<rparr>) (ob_asks b)"

definition bids_descending :: "OrderBook \<Rightarrow> TopLevel list" where
  "bids_descending b =
     map (\<lambda>(p, l). \<lparr> tl_price = p, tl_quantity = bl_quantity l \<rparr>) (rev (ob_bids b))"

definition spread :: "decimal_ops \<Rightarrow> OrderBook \<Rightarrow> 'e fault + decimal option" where
  "spread D b =
     (case (best_ask b, best_bid b) of
        (Some ask, Some bid) \<Rightarrow>
          rbind (dec_sub D (tl_price ask) (tl_price bid)) (\<lambda>s. Inr (Some s))
      | _ \<Rightarrow> Inr None)"

definition midpoint :: "decimal_ops \<Rightarrow> OrderBook \<Rightarrow> 'e fault + decimal option" where
  "midpoint D b =
     (case (best_ask b, best_bid b) of
        (Some ask, Some bid) \<Rightarrow>
          rbind (dec_add D (tl_price ask) (tl_price bid)) (\<lambda>s.
          rbind (dec_div D s 2) (\<lambda>m. Inr (Some m)))
      | _ \<Rightarrow> Inr None)"

text \<open>\<open>(ask.price * bid.quantity + bid.price * ask.quantity) / quantity\<close>\<close>

definition level_microprice ::
    "decimal_ops \<Rightarrow> decimal \<Rightarrow> decimal \<Rightarrow> decimal \<Rightarrow> decimal \<Rightarrow> decimal \<Rightarrow> 'e fault + decimal" where
  "level_microprice D ask_price ask_quantity bid_price bid_quantity quantity =
     rbind (dec_mul D ask_price bid_quantity) (\<lambda>x.
     rbind (dec_mul D bid_price ask_quantity) (\<lambda>y.
     rbind (dec_add D x y) (\<lambda>z.
     dec_div D z quantity)))"

definition microprice :: "decimal_ops \<Rightarrow> OrderBook \<Rightarrow> 'e fault + decimal option" where
  "microprice D b =
     (case (best_bid b, best_ask b) of
        (Some bid, Some ask) \<Rightarrow>
          rbind (dec_add D (tl_quantity bid) (tl_quantity ask)) (\<lambda>quantity.
          if quantity > 0 then
            rbind (level_microprice D (tl_price ask) (tl_quantity ask) (tl_price bid)
                     (tl_quantity bid) quantity) (\<lambda>m. Inr (Some m))
          else Inr None)
      | _ \<Rightarrow> Inr None)"

definition depth_imbalance :: "decimal_ops \<Rightarrow> OrderBook \<Rightarrow> nat \<Rightarrow> 'e fault + decimal option" where
  "depth_imbalance D b levels =
     rbind (dec_sum D (map tl_quantity (take levels (bids_descending b)))) (\<lambda>bid.
     rbind (dec_sum D (map tl_quantity (take levels (asks_ascending b)))) (\<lambda>ask.
     rbind (dec_add D bid ask) (\<lambda>total.
     if levels > 0 \<and> total > 0 then
       rbind (dec_sub D bid ask) (\<lambda>d. rbind (dec_div D d total) (\<lambda>q. Inr (Some q)))
     else Inr None)))"

definition top_imbalance :: "decimal_ops \<Rightarrow> OrderBook \<Rightarrow> 'e fault + decimal option" where
  "top_imbalance D b = depth_imbalance D b 1"

definition total_depth :: "decimal_ops \<Rightarrow> OrderBook \<Rightarrow> nat \<Rightarrow> 'e fault + decimal" where
  "total_depth D b levels =
     dec_sum D (map tl_quantity (take levels (bids_descending b) @ take levels (asks_ascending b)))"

definition weighted_microprice_step ::
    "decimal_ops \<Rightarrow> decimal \<times> decimal \<Rightarrow> nat \<times> TopLevel \<times> TopLevel \<Rightarrow>
      'e fault + decimal \<times> decimal" where
  "weighted_microprice_step D = (\<lambda>(weighted_price, weight_sum) (index, bid, ask).
     rbind (dec_add D (tl_quantity bid) (tl_quantity ask)) (\<lambda>quantity.
     if quantity \<le> 0 then Inr (weighted_price, weight_sum)
     else
       rbind (dec_div D 1 (of_nat (index + 1))) (\<lambda>rank_weight.
       rbind (level_microprice D (tl_price ask) (tl_quantity ask) (tl_price bid) (tl_quantity bid)
                quantity) (\<lambda>micro.
       rbind (dec_mul D micro rank_weight) (\<lambda>w.
       rbind (dec_add D weighted_price w) (\<lambda>weighted_price.
       rbind (dec_add D weight_sum rank_weight) (\<lambda>weight_sum.
       Inr (weighted_price, weight_sum))))))))"

definition weighted_microprice ::
    "decimal_ops \<Rightarrow> OrderBook \<Rightarrow> nat \<Rightarrow> 'e fault + decimal option" where
  "weighted_microprice D b levels =
     rbind (try_fold (weighted_microprice_step D) (0, 0)
              (enumerate 0
                (zip (take levels (bids_descending b)) (take levels (asks_ascending b)))))
       (\<lambda>(weighted_price, weight_sum).
     if weight_sum > 0 then
       rbind (dec_div D weighted_price weight_sum) (\<lambda>q. Inr (Some q))
     else Inr None)"

definition multi_level_microprice ::
    "decimal_ops \<Rightarrow> OrderBook \<Rightarrow> nat \<Rightarrow> 'e fault + decimal option" where
  "multi_level_microprice D b levels =
     rbind (midpoint D b) (\<lambda>m.
     case m of None \<Rightarrow> Inr None | Some mid \<Rightarrow>
     rbind (spread D b) (\<lambda>s.
     case s of None \<Rightarrow> Inr None | Some spr \<Rightarrow>
     rbind (depth_imbalance D b levels) (\<lambda>i.
     case i of None \<Rightarrow> Inr None | Some imb \<Rightarrow>
     rbind (dec_mul D spr imb) (\<lambda>x.
     rbind (dec_div D x 2) (\<lambda>y.
     rbind (dec_add D mid y) (\<lambda>z. Inr (Some z)))))))"

definition bid_quantity_at :: "OrderBook \<Rightarrow> decimal \<Rightarrow> decimal" where
  "bid_quantity_at b price = (case bt_get (ob_bids b) price of None \<Rightarrow> 0 | Some l \<Rightarrow> bl_quantity l)"

definition ask_quantity_at :: "OrderBook \<Rightarrow> decimal \<Rightarrow> decimal" where
  "ask_quantity_at b price = (case bt_get (ob_asks b) price of None \<Rightarrow> 0 | Some l \<Rightarrow> bl_quantity l)"

definition bid_level_count :: "OrderBook \<Rightarrow> nat" where
  "bid_level_count b = length (ob_bids b)"

definition ask_level_count :: "OrderBook \<Rightarrow> nat" where
  "ask_level_count b = length (ob_asks b)"

section \<open>What a run of updates does to a side\<close>

text \<open>
  The specification of \<open>apply_side\<close> on maps: the first update of the event for a price decides; it is
  ignored when invalid, removes the level when its quantity is zero, and replaces it otherwise.
\<close>

definition level_of :: "LevelUpdate \<Rightarrow> BookLevel" where
  "level_of u = \<lparr> bl_quantity = lu_quantity u, bl_order_count = lu_order_count u \<rparr>"

definition side_effect ::
    "LevelUpdate list \<Rightarrow> (decimal \<rightharpoonup> BookLevel) \<Rightarrow> decimal \<rightharpoonup> BookLevel" where
  "side_effect us m p =
     (case find (\<lambda>u. lu_price u = p) us of
        None \<Rightarrow> m p
      | Some u \<Rightarrow>
          if p \<le> 0 \<or> lu_quantity u < 0 then m p
          else if lu_quantity u = 0 then None
          else Some (level_of u))"

definition side_ok :: "side \<Rightarrow> bool" where
  "side_ok s = (bt_ok s \<and> (\<forall>(p, l)\<in>set s. 0 < p \<and> 0 < bl_quantity l))"

lemma side_ok_Nil [simp]: "side_ok []"
  by (simp add: side_ok_def)

lemma side_ok_bt [intro]: "side_ok s \<Longrightarrow> bt_ok s"
  by (simp add: side_ok_def)

lemma side_ok_iff:
  "side_ok s \<longleftrightarrow> bt_ok s \<and> (\<forall>p l. bt_get s p = Some l \<longrightarrow> 0 < p \<and> 0 < bl_quantity l)"
  by (auto simp: side_ok_def bt_get_iff_mem)

lemma apply_side_step_get:
  assumes "apply_side_step (seen, s, out) u = (seen', s', out')" and "bt_ok s"
  shows "bt_ok s' \<and> seen' = insert (lu_price u) seen \<and>
    bt_get s' = (\<lambda>p. if p \<in> seen then bt_get s p else side_effect [u] (bt_get s) p)"
  using assms(1) bt.ok_insert [OF assms(2)] bt.ok_remove [OF assms(2)]
    bt.get_insert [OF assms(2)] bt.get_remove [OF assms(2)] assms(2)
  by (auto simp: apply_side_step_def Let_def side_effect_def level_of_def fun_eq_iff
      split: if_splits prod.splits dest: sym [of _ "bt_remove _ _"])
    (metis snd_conv)+

lemma apply_side_fold_get:
  assumes "foldl apply_side_step (seen, s, out) us = (seen', s', out')" and "bt_ok s"
  shows "bt_ok s' \<and>
    bt_get s' = (\<lambda>p. if p \<in> seen then bt_get s p else side_effect us (bt_get s) p)"
  using assms
proof (induction us arbitrary: seen s out)
  case Nil
  then show ?case by (auto simp: side_effect_def)
next
  case (Cons u us)
  obtain seen1 s1 out1 where step: "apply_side_step (seen, s, out) u = (seen1, s1, out1)"
    using prod_cases3 by blast
  note one = apply_side_step_get [OF step Cons.prems(2)]
  have "foldl apply_side_step (seen1, s1, out1) us = (seen', s', out')"
    using Cons.prems(1) by (simp add: step)
  then have "bt_ok s' \<and>
      bt_get s' = (\<lambda>p. if p \<in> seen1 then bt_get s1 p else side_effect us (bt_get s1) p)"
    using Cons.IH one by blast
  with one show ?case
    by (auto simp: side_effect_def fun_eq_iff split: option.splits)
qed

lemma apply_side_bt_ok: "bt_ok s \<Longrightarrow> bt_ok (fst (apply_side s us out))"
  unfolding apply_side_def
  by (cases "foldl apply_side_step ({}, s, out) us") (auto dest: apply_side_fold_get)

lemma apply_side_get:
  "bt_ok s \<Longrightarrow> bt_get (fst (apply_side s us out)) = side_effect us (bt_get s)"
  unfolding apply_side_def
  by (cases "foldl apply_side_step ({}, s, out) us") (auto dest: apply_side_fold_get)

lemma apply_side_ok: "side_ok s \<Longrightarrow> side_ok (fst (apply_side s us out))"
  by (auto simp: side_ok_iff apply_side_bt_ok apply_side_get side_effect_def level_of_def
      split: option.splits if_splits)

section \<open>Events one by one\<close>

lemma apply_levels_fields:
  assumes "apply_levels b action asks bids = (b', out)"
  shows "ob_instrument_id b' = ob_instrument_id b"
    and "ob_has_snapshot b' = (action = BookSnapshot \<or> ob_has_snapshot b)"
    and "ob_trusted b' = (action = BookSnapshot \<or> ob_trusted b \<and> ob_has_snapshot b)"
    and "bt_ok (ob_asks b) \<Longrightarrow>
      bt_get (ob_asks b') =
        side_effect asks (if action = BookSnapshot then Map.empty else bt_get (ob_asks b))"
    and "bt_ok (ob_bids b) \<Longrightarrow>
      bt_get (ob_bids b') =
        side_effect bids (if action = BookSnapshot then Map.empty else bt_get (ob_bids b))"
    and "side_ok (ob_asks b) \<Longrightarrow> side_ok (ob_asks b')"
    and "side_ok (ob_bids b) \<Longrightarrow> side_ok (ob_bids b')"
  using assms
  by (cases "action = BookSnapshot"; cases "ob_has_snapshot b";
      auto simp: apply_levels_def Let_def case_prod_beta apply_side_get apply_side_ok)+

text \<open>Only the counters of levels and of the kind of event change before the closing checks.\<close>

lemma apply_side_counters:
  "ao_non_monotonic_snapshot_sides (snd (apply_side s us out)) =
     ao_non_monotonic_snapshot_sides out \<and>
   ao_update_before_snapshot (snd (apply_side s us out)) = ao_update_before_snapshot out \<and>
   ao_depth_overflow (snd (apply_side s us out)) = ao_depth_overflow out \<and>
   ao_empty_sides (snd (apply_side s us out)) = ao_empty_sides out \<and>
   ao_crossed (snd (apply_side s us out)) = ao_crossed out"
proof -
  have "\<forall>seen s out. let o' = snd (snd (foldl apply_side_step (seen, s, out) us)) in
      ao_non_monotonic_snapshot_sides o' = ao_non_monotonic_snapshot_sides out \<and>
      ao_update_before_snapshot o' = ao_update_before_snapshot out \<and>
      ao_depth_overflow o' = ao_depth_overflow out \<and>
      ao_empty_sides o' = ao_empty_sides out \<and> ao_crossed o' = ao_crossed out"
    by (induction us) (auto simp: apply_side_step_def Let_def split: prod.splits)
  then show ?thesis by (simp add: apply_side_def Let_def)
qed

lemma apply_levels_counters:
  assumes "apply_levels b action asks bids = (b', out)"
  shows "ao_non_monotonic_snapshot_sides out =
      (if action = BookSnapshot
       then (if strictly_increasing asks then 0 else 1) + (if strictly_decreasing bids then 0 else 1)
       else 0) \<and>
    ao_depth_overflow out = 0 \<and> ao_empty_sides out = 0 \<and> ao_crossed out = 0"
  using assms
  by (auto simp: apply_levels_def Let_def case_prod_beta apply_side_counters default_outcome_def
      split: if_splits)

lemma apply_levels_snapshot:
  "(fst (apply_levels b BookSnapshot asks bids))\<lparr> ob_sequence_epoch := e, ob_sequence_id := q \<rparr> =
     (fst (apply_levels (book_new (ob_instrument_id b)) BookSnapshot asks bids))
       \<lparr> ob_sequence_epoch := e, ob_sequence_id := q \<rparr>"
  "snd (apply_levels b BookSnapshot asks bids) =
     snd (apply_levels (book_new (ob_instrument_id b)) BookSnapshot asks bids)"
  by (cases b, simp add: apply_levels_def Let_def case_prod_beta book_new_def)+

lemma finish_apply_fields:
  assumes "finish_apply b out = (b', out')"
  shows "ob_instrument_id b' = ob_instrument_id b" and "ob_bids b' = ob_bids b"
    and "ob_asks b' = ob_asks b" and "ob_has_snapshot b' = ob_has_snapshot b"
    and "ob_sequence_epoch b' = ob_sequence_epoch b" and "ob_sequence_id b' = ob_sequence_id b"
    and "ob_trusted b' \<Longrightarrow> ob_trusted b \<and> ob_bids b \<noteq> [] \<and> ob_asks b \<noteq> [] \<and>
      length (ob_bids b) \<le> 400 \<and> length (ob_asks b) \<le> 400 \<and>
      (\<exists>bid ask. best_bid b = Some bid \<and> best_ask b = Some ask \<and> tl_price bid < tl_price ask)"
  using assms
  by (auto simp: finish_apply_def Let_def best_bid_def best_ask_def not_le
      split: if_splits option.splits)

lemma book_apply_accepted:
  assumes "sev_instrument_id ev = ob_instrument_id b"
  shows "book_apply b ev =
    (let r = apply_levels b (sev_action ev) (sev_asks ev) (sev_bids ev);
         f = finish_apply ((fst r)\<lparr> ob_sequence_epoch := Some (sev_sequence_epoch ev),
               ob_sequence_id := Some (sev_sequence_id ev) \<rparr>) (snd r)
     in (Inr (snd f), fst f))"
  using assms by (simp add: book_apply_def ensure_instrument_def Let_def case_prod_beta)

lemma book_apply_snapshot:
  assumes "sev_action ev = BookSnapshot" and "sev_instrument_id ev = ob_instrument_id b"
  shows "book_apply b ev = book_apply (book_new (ob_instrument_id b)) ev"
proof -
  have "sev_instrument_id ev = ob_instrument_id (book_new (ob_instrument_id b))"
    using assms(2) by (simp add: book_new_def)
  from book_apply_accepted [OF assms(2)] book_apply_accepted [OF this] show ?thesis
    by (simp only: Let_def assms(1) apply_levels_snapshot(1) [where b = b]
        apply_levels_snapshot(2) [where b = b])
qed

text \<open>What holds of every book: ordered positive sides, and what \<open>trusted\<close> promises on top.\<close>

definition book_ok :: "OrderBook \<Rightarrow> bool" where
  "book_ok b =
     (side_ok (ob_bids b) \<and> side_ok (ob_asks b) \<and>
      (ob_trusted b \<longrightarrow>
         ob_has_snapshot b \<and> ob_bids b \<noteq> [] \<and> ob_asks b \<noteq> [] \<and>
         length (ob_bids b) \<le> 400 \<and> length (ob_asks b) \<le> 400 \<and>
         (\<exists>bid ask. best_bid b = Some bid \<and> best_ask b = Some ask \<and> tl_price bid < tl_price ask)))"

lemma book_new_ok: "book_ok (book_new i)"
  by (simp add: book_ok_def book_new_def)

lemma book_reset_ok: "book_ok (book_reset b)"
  by (simp add: book_ok_def book_reset_def)

lemma mark_untrusted_ok: "book_ok b \<Longrightarrow> book_ok (mark_untrusted b)"
  by (simp add: book_ok_def mark_untrusted_def)

text \<open>Both kinds of event run the same levels and the same closing checks.\<close>

lemma applied_book_ok:
  assumes "book_ok b" and "apply_levels b action asks bids = (b1, out)"
    and "finish_apply (b1\<lparr> ob_sequence_epoch := e, ob_sequence_id := q \<rparr>) out = (b2, out2)"
  shows "book_ok b2"
proof -
  note lv = apply_levels_fields [OF assms(2)] and fin = finish_apply_fields [OF assms(3)]
  have sides: "side_ok (ob_bids b2)" "side_ok (ob_asks b2)"
    using assms(1) lv(6,7) fin(2,3) by (auto simp: book_ok_def)
  moreover have "best_bid b2 = best_bid (b1\<lparr> ob_sequence_epoch := e, ob_sequence_id := q \<rparr>)"
      "best_ask b2 = best_ask (b1\<lparr> ob_sequence_epoch := e, ob_sequence_id := q \<rparr>)"
    by (simp_all add: best_bid_def best_ask_def fin(2,3))
  ultimately show ?thesis
    using lv(2,3) fin by (auto simp: book_ok_def)
qed

lemma book_apply_ok: "book_ok b \<Longrightarrow> book_apply b ev = (r, b') \<Longrightarrow> book_ok b'"
  by (auto simp: book_apply_def Let_def intro: applied_book_ok split: sum.splits prod.splits)

lemma apply_historical_ok: "book_ok b \<Longrightarrow> apply_historical b ev = (r, b') \<Longrightarrow> book_ok b'"
  by (auto simp: apply_historical_def Let_def intro: applied_book_ok split: sum.splits prod.splits)

text \<open>The books a replay can reach, by any sequence of the public operations.\<close>

inductive replay_reachable :: "OkxSpotInstrumentId \<Rightarrow> OrderBook \<Rightarrow> bool" for i where
  reach_new: "replay_reachable i (book_new i)"
| reach_reset: "replay_reachable i b \<Longrightarrow> replay_reachable i (book_reset b)"
| reach_untrusted: "replay_reachable i b \<Longrightarrow> replay_reachable i (mark_untrusted b)"
| reach_apply: "replay_reachable i b \<Longrightarrow> replay_reachable i (snd (book_apply b ev))"
| reach_historical: "replay_reachable i b \<Longrightarrow> replay_reachable i (snd (apply_historical b ev))"

lemma replay_reachable_ok: "replay_reachable i b \<Longrightarrow> book_ok b"
  by (induction rule: replay_reachable.induct)
    (auto intro: book_new_ok book_reset_ok mark_untrusted_ok
      intro: book_apply_ok [OF _ prod.collapse [symmetric]]
        apply_historical_ok [OF _ prod.collapse [symmetric]])

section \<open>Properties\<close>

text \<open>
  C20: in every book a replay can reach, both sides are strictly ordered maps of positive prices to
  positive quantities; a trusted book moreover has had a snapshot, is not empty, holds at most 400
  levels a side and is not crossed.
\<close>
theorem replay_trusted_book:
  assumes "replay_reachable i b"
  shows "(\<forall>s\<in>{ob_bids b, ob_asks b}. sorted_wrt (<) (map fst s) \<and>
      (\<forall>(p, l)\<in>set s. 0 < p \<and> 0 < bl_quantity l)) \<and>
    (ob_trusted b \<longrightarrow> ob_has_snapshot b \<and> length (ob_bids b) \<in> {1..400} \<and>
       length (ob_asks b) \<in> {1..400} \<and>
       (\<exists>bid ask. best_bid b = Some bid \<and> best_ask b = Some ask \<and> tl_price bid < tl_price ask))"
  using replay_reachable_ok [OF assms]
  by (auto simp: book_ok_def side_ok_def bt_ok_def Suc_le_eq)

definition sample_replay_event :: SequencedBookEvent where
  "sample_replay_event =
     \<lparr> sev_instrument_id = SpotId ''BTC-USDT'', sev_action = BookSnapshot,
       sev_asks = [\<lparr> lu_price = 101, lu_quantity = 1, lu_order_count = 1 \<rparr>],
       sev_bids = [\<lparr> lu_price = 100, lu_quantity = 2, lu_order_count = 1 \<rparr>],
       sev_sequence_epoch = 1, sev_sequence_id = 10 \<rparr>"

definition sample_replay_book :: OrderBook where
  "sample_replay_book = snd (book_apply (book_new (SpotId ''BTC-USDT'')) sample_replay_event)"

lemma sample_replay_apply:
  "book_apply (book_new (SpotId ''BTC-USDT'')) sample_replay_event =
     (Inr default_outcome, sample_replay_book) \<and>
   ob_trusted sample_replay_book \<and> ob_instrument_id sample_replay_book = SpotId ''BTC-USDT'' \<and>
   ob_bids sample_replay_book = [(100, \<lparr> bl_quantity = 2, bl_order_count = 1 \<rparr>)] \<and>
   ob_asks sample_replay_book = [(101, \<lparr> bl_quantity = 1, bl_order_count = 1 \<rparr>)]"
  by (simp add: sample_replay_book_def sample_replay_event_def book_apply_def book_new_def
      ensure_instrument_def apply_levels_def apply_side_def apply_side_step_def Let_def
      bt_insert_def finish_apply_def best_bid_def best_ask_def bt_last_def bt_first_def
      default_outcome_def)

theorem replay_trusted_book_witness:
  "ob_trusted sample_replay_book \<and> ob_has_snapshot sample_replay_book \<and>
   length (ob_bids sample_replay_book) \<in> {1..400}"
proof -
  have "replay_reachable (SpotId ''BTC-USDT'') sample_replay_book"
    unfolding sample_replay_book_def by (intro reach_apply reach_new)
  from replay_trusted_book [OF this] sample_replay_apply show ?thesis by blast
qed

text \<open>
  Applying the updates of one side implements the map specification: the first update of the event
  for a price decides its level, invalid updates and duplicates leave it alone, a zero quantity
  removes it.
\<close>
theorem apply_side_refines_map:
  assumes "bt_ok s"
  shows "bt_ok (fst (apply_side s us out)) \<and>
    bt_get (fst (apply_side s us out)) =
      (\<lambda>p. case find (\<lambda>u. lu_price u = p) us of
         None \<Rightarrow> bt_get s p
       | Some u \<Rightarrow>
           if p \<le> 0 \<or> lu_quantity u < 0 then bt_get s p
           else if lu_quantity u = 0 then None
           else Some \<lparr> bl_quantity = lu_quantity u, bl_order_count = lu_order_count u \<rparr>)"
  using apply_side_bt_ok [OF assms] apply_side_get [OF assms, of us out]
  unfolding side_effect_def [abs_def] level_of_def by simp

theorem apply_side_refines_map_witness:
  "bt_ok ([(100, \<lparr> bl_quantity = 2, bl_order_count = 1 \<rparr>)] :: side) \<and>
   bt_get (fst (apply_side [(100, \<lparr> bl_quantity = 2, bl_order_count = 1 \<rparr>)]
     [\<lparr> lu_price = 100, lu_quantity = 0, lu_order_count = 0 \<rparr>] default_outcome)) 100 = None"
proof -
  have ok: "bt_ok ([(100, \<lparr> bl_quantity = 2, bl_order_count = 1 \<rparr>)] :: side)"
    by (simp add: bt_ok_def)
  with apply_side_refines_map [OF ok, of "[\<lparr> lu_price = 100, lu_quantity = 0, lu_order_count = 0 \<rparr>]"
      default_outcome]
  show ?thesis by simp
qed

text \<open>
  An untrusted book becomes trusted only through a snapshot, and only one whose outcome reports no
  invalid, duplicate or unordered level, no overflow, no empty side and no crossing.
\<close>
theorem replay_trust_needs_clean_snapshot:
  assumes "book_apply b ev = (Inr out, b')" and "\<not> ob_trusted b" and "ob_trusted b'"
  shows "sev_action ev = BookSnapshot \<and> strictly_increasing (sev_asks ev) \<and>
    strictly_decreasing (sev_bids ev) \<and> ao_invalid_levels out = 0 \<and> ao_duplicate_levels out = 0 \<and>
    ao_depth_overflow out = 0 \<and> ao_empty_sides out = 0 \<and> ao_crossed out = 0"
proof -
  obtain b1 out1 where lv: "apply_levels b (sev_action ev) (sev_asks ev) (sev_bids ev) = (b1, out1)"
    by fastforce
  with assms(1) have fin: "finish_apply (b1\<lparr> ob_sequence_epoch := Some (sev_sequence_epoch ev),
      ob_sequence_id := Some (sev_sequence_id ev) \<rparr>) out1 = (b', out)"
    by (auto simp: book_apply_def split: sum.splits prod.splits)
  have snap: "sev_action ev = BookSnapshot"
    using apply_levels_fields(3) [OF lv] finish_apply_fields(7) [OF fin assms(3)] assms(2) by auto
  have "ao_non_monotonic_snapshot_sides out1 =
      (if strictly_increasing (sev_asks ev) then 0 else 1) +
      (if strictly_decreasing (sev_bids ev) then 0 else 1) \<and>
      ao_depth_overflow out1 = 0 \<and> ao_empty_sides out1 = 0 \<and> ao_crossed out1 = 0"
    using apply_levels_counters [OF lv] snap by simp
  with fin assms(3) snap show ?thesis
    by (auto simp: finish_apply_def Let_def split: if_splits option.splits)
qed

theorem replay_trust_needs_clean_snapshot_witness:
  "ob_trusted sample_replay_book \<and> strictly_increasing (sev_asks sample_replay_event)"
  using sample_replay_apply replay_trust_needs_clean_snapshot
    [of "book_new (SpotId ''BTC-USDT'')" sample_replay_event default_outcome sample_replay_book]
  by (simp add: book_new_def)

text \<open>
  an event of another instrument is refused and leaves the book as it was; an event of the own
  instrument is never refused, and a snapshot forgets everything the book held before it.
\<close>
theorem replay_instrument_and_snapshot:
  "(if sev_instrument_id ev \<noteq> ob_instrument_id b
    then book_apply b ev =
      (Inl (Replay_InstrumentMismatch (ob_instrument_id b) (sev_instrument_id ev)), b)
    else \<exists>out. fst (book_apply b ev) = Inr out) \<and>
   book_apply b (ev\<lparr> sev_instrument_id := ob_instrument_id b, sev_action := BookSnapshot \<rparr>) =
     book_apply (book_new (ob_instrument_id b))
       (ev\<lparr> sev_instrument_id := ob_instrument_id b, sev_action := BookSnapshot \<rparr>)"
  using book_apply_snapshot [of "ev\<lparr> sev_instrument_id := ob_instrument_id b,
      sev_action := BookSnapshot \<rparr>" b]
  by (simp add: book_apply_def ensure_instrument_def ensure_def Let_def case_prod_beta)

end
