(* ===== verification/Strategy_Evidence.thy ===== *)
theory Strategy_Evidence
  imports Strategy_State
begin

text \<open>
  The evidence the strategy reconstructs its position from: which orders and fills count as its own,
  what each contributes, and the net quantity and average price they add up to
  (the second half of \<open>strategies/okx_ema_atr_maker_trend.rs\<close>).
\<close>

record StrategyFillEvidence =
  se_purpose :: OrderPurpose
  se_side :: OrderSide
  se_accounting :: "OkxSpotFillAccounting option"

section \<open>Order evidence\<close>

text \<open>The vector of orders with the set of identifiers already in it.\<close>

definition append_strategy_order_evidence ::
    "string \<Rightarrow> OkxOrder list \<times> string set \<Rightarrow> OkxOrder \<Rightarrow> OkxOrder list \<times> string set" where
  "append_strategy_order_evidence tag acc o1 =
     (if parse_strategy_client_order_id (or_client_order_id o1) tag = None then acc
      else if or_client_order_id o1 \<in> snd acc then acc
      else (fst acc @ [o1], insert (or_client_order_id o1) (snd acc)))"

definition strategy_order_evidence_from_orders :: "OkxOrder list \<Rightarrow> string \<Rightarrow> OkxOrder list" where
  "strategy_order_evidence_from_orders orders tag =
     fst (foldl (append_strategy_order_evidence tag) ([], {}) orders)"

definition strategy_order_evidence_ids :: "OkxOrder list \<Rightarrow> string set" where
  "strategy_order_evidence_ids orders = set (map or_client_order_id orders)"

section \<open>Fill evidence\<close>

definition ensure_expected_fill_side :: "OrderPurpose \<Rightarrow> OrderSide \<Rightarrow> unit res" where
  "ensure_expected_fill_side purpose side =
     expect (side = purpose_side purpose) ''strategy-tagged OKX order has unexpected side''"

record FillScan =
  fs_evidence :: "StrategyFillEvidence list"
  fs_seen_fill_ids :: "string set"
  fs_fill_client_order_ids :: "string set"

definition scan_fill ::
    "decimal_ops \<Rightarrow> string \<Rightarrow> OkxInstrument \<Rightarrow> FillScan \<Rightarrow> OkxFill \<Rightarrow> FillScan res" where
  "scan_fill D tag i s f =
     (case parse_strategy_client_order_id (fi_client_order_id f) tag of
        None \<Rightarrow> Inr s
      | Some purpose \<Rightarrow>
          let fill_id = dedupe_key f in
          rbind (expect (fill_id \<noteq> []) ''strategy-tagged OKX fill has no stable identity'') (\<lambda>_.
          if fill_id \<in> fs_seen_fill_ids s then Inr s
          else
            let s = s\<lparr> fs_seen_fill_ids := insert fill_id (fs_seen_fill_ids s) \<rparr> in
            rbind (some_or ''strategy-tagged OKX fill has unexpected side'' (fill_parsed_side f)) (\<lambda>side.
            rbind (ensure_expected_fill_side purpose side) (\<lambda>_.
            rbind (spot_accounting D f (oi_base_ccy i) (oi_quote_ccy i)) (\<lambda>accounting.
            Inr (s\<lparr> fs_fill_client_order_ids :=
                      insert (fi_client_order_id f) (fs_fill_client_order_ids s),
                    fs_evidence := fs_evidence s @
                      [\<lparr> se_purpose = purpose, se_side = side, se_accounting = Some accounting \<rparr>] \<rparr>))))))"

definition scan_order ::
    "decimal_ops \<Rightarrow> string \<Rightarrow> OkxInstrument \<Rightarrow> string set \<Rightarrow> StrategyFillEvidence list \<Rightarrow> OkxOrder \<Rightarrow>
      StrategyFillEvidence list res" where
  "scan_order D tag i fill_ids evidence o1 =
     (case parse_strategy_client_order_id (or_client_order_id o1) tag of
        None \<Rightarrow> Inr evidence
      | Some purpose \<Rightarrow>
          if or_client_order_id o1 \<in> fill_ids then Inr evidence
          else
            rbind (order_fill_size D o1) (\<lambda>fill_size.
            if fill_size \<le> 0 then Inr evidence
            else
              rbind (some_or ''strategy-tagged OKX order has unexpected side'' (order_parsed_side o1)) (\<lambda>side.
              rbind (ensure_expected_fill_side purpose side) (\<lambda>_.
              rbind (average_fill_price D o1) (\<lambda>avg.
              rbind (if avg \<noteq> None
                     then rbind (cumulative_spot_accounting D o1 (oi_base_ccy i) (oi_quote_ccy i))
                            (\<lambda>a. Inr (Some a))
                     else Inr None) (\<lambda>accounting.
              Inr (evidence @
                [\<lparr> se_purpose = purpose, se_side = side, se_accounting = accounting \<rparr>])))))))"

definition strategy_fill_evidence ::
    "decimal_ops \<Rightarrow> OkxOrder list \<Rightarrow> OkxFill list \<Rightarrow> string \<Rightarrow> OkxInstrument \<Rightarrow>
      StrategyFillEvidence list res" where
  "strategy_fill_evidence D orders fills tag i =
     rbind (try_fold (scan_fill D tag i)
              \<lparr> fs_evidence = [], fs_seen_fill_ids = {}, fs_fill_client_order_ids = {} \<rparr> fills) (\<lambda>s.
     try_fold (scan_order D tag i (fs_fill_client_order_ids s)) (fs_evidence s) orders)"

section \<open>Position and average price\<close>

text \<open>The loop over the entry buys; a fill without accounting ends it.\<close>

fun entry_totals ::
    "decimal_ops \<Rightarrow> decimal \<times> decimal \<Rightarrow> StrategyFillEvidence list \<Rightarrow> (decimal \<times> decimal) option res" where
  "entry_totals D acc [] = Inr (Some acc)"
| "entry_totals D acc (e # es) =
     (case se_accounting e of
        None \<Rightarrow> Inr None
      | Some a \<Rightarrow>
          rbind (dec_add D (fst acc) (ac_base_change a)) (\<lambda>quantity.
          rbind (dec_sub D (snd acc) (ac_quote_change a)) (\<lambda>quote_cost.
          entry_totals D (quantity, quote_cost) es)))"

definition strategy_entry_average_price ::
    "decimal_ops \<Rightarrow> StrategyFillEvidence list \<Rightarrow> EntryAveragePriceStatus res" where
  "strategy_entry_average_price D evidence =
     rbind (entry_totals D (0, 0)
              (filter (\<lambda>e. se_purpose e = Entry \<and> se_side e = Buy) evidence)) (\<lambda>totals.
     case totals of
       None \<Rightarrow> Inr MissingPrice
     | Some (quantity, quote_cost) \<Rightarrow>
         if quantity \<le> 0 then Inr NoEntryFill
         else
           rbind (expect (quote_cost > 0) ''OKX strategy entry quote cost must be positive'') (\<lambda>_.
           rbind (dec_div D quote_cost quantity) (\<lambda>average_price.
           rbind (expect (average_price > 0) ''OKX strategy entry average price must be positive'') (\<lambda>_.
           Inr (ReconstructedPrice average_price)))))"

definition net_filled_step :: "decimal_ops \<Rightarrow> decimal \<Rightarrow> StrategyFillEvidence \<Rightarrow> decimal res" where
  "net_filled_step D quantity e =
     rbind (some_or ''strategy-tagged OKX fill is missing fee-adjusted accounting''
              (se_accounting e)) (\<lambda>a.
     if se_side e = purpose_side (se_purpose e) then dec_add D quantity (ac_base_change a)
     else strategy_fail ''strategy-tagged OKX fill has unexpected side'')"

definition strategy_net_filled_position ::
    "decimal_ops \<Rightarrow> StrategyFillEvidence list \<Rightarrow> decimal res" where
  "strategy_net_filled_position D evidence =
     rbind (try_fold (net_filled_step D) 0 evidence) (\<lambda>quantity. Inr (max quantity 0))"

end
