(* ===== verification/Strategy_Monad.thy ===== *)
theory Strategy_Monad
  imports Strategy_Evidence
begin

text \<open>
  How the runner's asynchronous methods are modelled.

  A method is an action: a function from a context to a result and a context.  The context holds the
  runner (\<open>self\<close>), the process-wide order sequence counter, and the trace of everything asked of the
  outside world, latest first.  The exchange client and the clock are parameters (the record
  \<open>OkxClient\<close>, one answer function per trait method): an answer is an arbitrary function of the trace,
  whose head is the request being answered, so nothing is assumed about what the exchange returns or
  about how it changes between calls.

  \<open>?\<close> is \<open>mbind\<close>: an error keeps the context as it was when the error arose, since the runner's fields
  are updated in place.  A \<open>Panic\<close> is never caught; as an answer it also stands for a tick future that is
  dropped at that \<open>await\<close>, after which the runtime continues with
  \<open>reconcile_after_interrupted_tick\<close> on the runner as it was left.  Logging is not modelled.
\<close>

section \<open>Requests\<close>

datatype request =
    RecordOrderDecision
  | ReadClock
  | GetInstrument string
  | GetCandles string string nat
  | GetLiveCandles string string nat
  | GetTicker string
  | GetFreshQuoteUsdRate ValidatedTradingInstrument
  | GetBalances
  | GetSpotTradeFee string
  | GetOpenOrders string
  | GetOrderHistory string
  | GetOrderFills string
  | GetOpenAlgoOrders string
  | GetAlgoOrderHistory string
  | GetOrder string string
  | PlaceOrder string OrderSide OrderKind string "string option" string
  | CancelOrder string string
  | AmendOrder string OrderSide string "string option" "string option"
  | PlaceTriggerOrder string OrderSide string string string
  | CancelAlgoOrder string string

type_synonym trace = "request list"

record OkxClient =
  cl_decimal :: decimal_ops
  cl_clock :: "trace \<Rightarrow> int"
  cl_instruments :: "trace \<Rightarrow> OkxInstrument res"
  cl_candles :: "trace \<Rightarrow> MarketBar list res"
  cl_live_candles :: "trace \<Rightarrow> MarketBar list res"
  cl_ticker :: "trace \<Rightarrow> OkxTicker res"
  cl_fresh_quote_usd_rate :: "trace \<Rightarrow> ValidatedQuoteUsdRate res"
  cl_balances :: "trace \<Rightarrow> OkxBalance list res"
  cl_spot_trade_fee :: "trace \<Rightarrow> OkxTradeFeeRate res"
  cl_open_orders :: "trace \<Rightarrow> OkxOrder list res"
  cl_order_history :: "trace \<Rightarrow> OkxOrder list res"
  cl_order_fills :: "trace \<Rightarrow> OkxFill list res"
  cl_open_algo_orders :: "trace \<Rightarrow> OkxAlgoOrder list res"
  cl_algo_order_history :: "trace \<Rightarrow> OkxAlgoOrder list res"
  cl_order :: "trace \<Rightarrow> OkxOrder option res"
  cl_place_order :: "trace \<Rightarrow> OkxOrderAck res"
  cl_cancel_order :: "trace \<Rightarrow> unit res"
  cl_amend_order :: "trace \<Rightarrow> OkxOrderAck res"
  cl_place_trigger_order :: "trace \<Rightarrow> OkxAlgoOrderAck res"
  cl_cancel_algo_order :: "trace \<Rightarrow> unit res"

section \<open>Actions\<close>

record run_context =
  cx_runner :: OkxEmaAtrMakerTrendRunner
  cx_trace :: trace
  cx_sequence :: u64

type_synonym 'a act = "run_context \<Rightarrow> 'a res \<times> run_context"

definition mret :: "'a \<Rightarrow> 'a act" where
  "mret x c = (Inr x, c)"

definition mbind :: "'a act \<Rightarrow> ('a \<Rightarrow> 'b act) \<Rightarrow> 'b act" where
  "mbind m f c = (case m c of (Inl e, c') \<Rightarrow> (Inl e, c') | (Inr x, c') \<Rightarrow> f x c')"

definition mdo :: "'a act \<Rightarrow> 'b act \<Rightarrow> 'b act" where
  "mdo m n = mbind m (\<lambda>_. n)"

definition lift :: "'a res \<Rightarrow> 'a act" where
  "lift r c = (r, c)"

definition asks :: "(OkxEmaAtrMakerTrendRunner \<Rightarrow> 'a) \<Rightarrow> 'a act" where
  "asks f c = (Inr (f (cx_runner c)), c)"

text \<open>A method on \<open>&self\<close> that asks nothing of the client.\<close>

definition self_result :: "(OkxEmaAtrMakerTrendRunner \<Rightarrow> 'a res) \<Rightarrow> 'a act" where
  "self_result f c = (f (cx_runner c), c)"

definition modifies :: "(OkxEmaAtrMakerTrendRunner \<Rightarrow> OkxEmaAtrMakerTrendRunner) \<Rightarrow> unit act" where
  "modifies f c = (Inr (), c\<lparr> cx_runner := f (cx_runner c) \<rparr>)"

definition request :: "request \<Rightarrow> (trace \<Rightarrow> 'a res) \<Rightarrow> 'a act" where
  "request q answer c = (answer (q # cx_trace c), c\<lparr> cx_trace := q # cx_trace c \<rparr>)"

definition mwhen :: "bool \<Rightarrow> unit act \<Rightarrow> unit act" where
  "mwhen b m = (if b then m else mret ())"

fun mfold :: "('s \<Rightarrow> 'a \<Rightarrow> 's act) \<Rightarrow> 's \<Rightarrow> 'a list \<Rightarrow> 's act" where
  "mfold f s [] = mret s"
| "mfold f s (x # xs) = mbind (f s x) (\<lambda>s'. mfold f s' xs)"

section \<open>The exchange state\<close>

text \<open>\<open>self.exchange()?\<close>, \<open>self.exchange_mut()?\<close> and \<open>self.exchange().ok().and_then(..)\<close>.\<close>

definition exchange_of :: "OkxEmaAtrMakerTrendRunner \<Rightarrow> ExchangeState res" where
  "exchange_of r = some_or ''exchange state is not initialized'' (rn_exchange r)"

definition exchange :: "ExchangeState act" where
  "exchange = mbind (asks exchange_of) lift"

definition exchange_mut :: "(ExchangeState \<Rightarrow> ExchangeState) \<Rightarrow> unit act" where
  "exchange_mut f =
     mbind exchange (\<lambda>s. modifies (\<lambda>r. r\<lparr> rn_exchange := Some (f s) \<rparr>))"

definition exchange_opt :: "(ExchangeState \<Rightarrow> 'a option) \<Rightarrow> 'a option act" where
  "exchange_opt f = asks (\<lambda>r. Option.bind (rn_exchange r) f)"

definition clear_position_state :: "unit act" where
  "clear_position_state =
     modifies (\<lambda>r. r\<lparr> rn_exchange := map_option (\<lambda>s. s\<lparr> ex_position := None,
       ex_entry_order := None, ex_take_profit_order := None, ex_stop_loss_order := None,
       ex_stop_loss_exit_order := None, ex_stop_loss_pending := None \<rparr>) (rn_exchange r) \<rparr>)"

section \<open>Calls\<close>

definition instrument_call :: "(string \<Rightarrow> request) \<Rightarrow> (trace \<Rightarrow> 'a res) \<Rightarrow> 'a act" where
  "instrument_call q answer = mbind (asks rn_instrument_id) (\<lambda>i. request (q i) answer)"

definition unix_time_ms :: "OkxClient \<Rightarrow> int act" where
  "unix_time_ms E =
     mbind (request ReadClock (\<lambda>t. Inr (cl_clock E t))) (\<lambda>now. lift (unix_time_ms_of now))"

definition record_order_decision :: "unit act" where
  "record_order_decision = request RecordOrderDecision (\<lambda>_. Inr ())"

text \<open>The clock is read, then \<open>ORDER_ID_SEQUENCE.fetch_add(1)\<close> returns the old counter.\<close>

definition next_client_order_id :: "OkxClient \<Rightarrow> OrderPurpose \<Rightarrow> string act" where
  "next_client_order_id E purpose =
     mbind (asks rn_instance_id) (\<lambda>strategy_id.
     mbind (request ReadClock (\<lambda>t. Inr (cl_clock E t))) (\<lambda>now.
     (\<lambda>c. (Inr (client_order_id now (cx_sequence c) strategy_id purpose),
           c\<lparr> cx_sequence := cx_sequence c + 1 \<rparr>))))"

definition get_order :: "OkxClient \<Rightarrow> string \<Rightarrow> OkxOrder option act" where
  "get_order E cid = instrument_call (\<lambda>i. GetOrder i cid) (cl_order E)"

definition cancel_order :: "OkxClient \<Rightarrow> string \<Rightarrow> unit act" where
  "cancel_order E cid = instrument_call (\<lambda>i. CancelOrder i cid) (cl_cancel_order E)"

definition get_ticker :: "OkxClient \<Rightarrow> OkxTicker act" where
  "get_ticker E = instrument_call GetTicker (cl_ticker E)"

text \<open>\<open>cancel_if_live\<close> logs a client error and returns \<open>false\<close>.\<close>

definition catches :: "unit act \<Rightarrow> bool act" where
  "catches m c =
     (case m c of (Inr _, c') \<Rightarrow> (Inr True, c') | (Inl (Fail _), c') \<Rightarrow> (Inr False, c')
      | (Inl Panic, c') \<Rightarrow> (Inl Panic, c'))"

definition cancel_if_live :: "OkxClient \<Rightarrow> string \<Rightarrow> bool act" where
  "cancel_if_live E cid = mdo record_order_decision (catches (cancel_order E cid))"

end
