(* ===== verification/Strategy_Position.thy ===== *)
theory Strategy_Position
  imports Strategy_Monad
begin

text \<open>
  \<open>strategies/okx_ema_atr_maker_trend.rs\<close>: the arithmetic of the runner on its position, that is the
  methods on \<open>&self\<close> that compute prices and shapes and compare orders with the position, and the entry
  sizing of \<open>entry_submission.rs\<close>.
\<close>

section \<open>Prices\<close>

definition signal_atr_decimal :: "decimal_ops \<Rightarrow> OkxEmaAtrMakerTrendRunner \<Rightarrow> decimal res" where
  "signal_atr_decimal D r =
     rbind (some_or ''ATR is not initialized'' (sg_last_atr (rn_signal r))) (\<lambda>atr.
     rbind (expect (is_finite atr \<and> f64_lt f64_zero atr \<and> is_normal atr)
              ''ATR must be finite, positive, and normal before Decimal order math'') (\<lambda>_.
     some_or ''OKX ATR cannot be represented as Decimal'' (d_from_f64 D atr)))"

definition stop_loss_trigger :: "decimal_ops \<Rightarrow> OkxEmaAtrMakerTrendRunner \<Rightarrow> decimal \<Rightarrow> decimal res" where
  "stop_loss_trigger D r average_price =
     rbind (expect (average_price > 0) ''average price must be positive'') (\<lambda>_.
     rbind (signal_atr_decimal D r) (\<lambda>atr.
     rbind (dec_mul D (rn_stop_loss_atr_multiple r) atr) (\<lambda>distance.
     rbind (dec_sub D average_price distance) (\<lambda>trigger.
     rbind (expect (trigger > 0) ''stop-loss trigger must be positive'') (\<lambda>_.
     Inr trigger)))))"

definition checked_exit_fee :: "OkxEmaAtrMakerTrendRunner \<Rightarrow> decimal res" where
  "checked_exit_fee r =
     rbind (some_or ''exit fee rate is not initialized'' (rn_exit_fee_cost_rate r)) (\<lambda>fee.
     rbind (expect (0 \<le> fee \<and> fee < 1)
              ''exit fee cost rate must be non-negative and below one'') (\<lambda>_. Inr fee))"

definition take_profit_price :: "decimal_ops \<Rightarrow> OkxEmaAtrMakerTrendRunner \<Rightarrow> decimal \<Rightarrow> decimal res" where
  "take_profit_price D r average_price =
     rbind (expect (average_price > 0) ''average price must be positive'') (\<lambda>_.
     rbind (signal_atr_decimal D r) (\<lambda>atr.
     rbind (dec_mul D (rn_take_profit_atr_multiple r) atr) (\<lambda>distance.
     rbind (dec_add D average_price distance) (\<lambda>atr_price.
     rbind (checked_exit_fee r) (\<lambda>fee.
     rbind (dec_sub D 1 fee) (\<lambda>keep.
     rbind (dec_div D average_price keep) (\<lambda>fee_break_even_price.
     let price = max atr_price fee_break_even_price in
     rbind (expect (price > 0) ''take-profit price must be positive'') (\<lambda>_.
     Inr price))))))))"

definition ensure_take_profit_clears_exit_fee ::
    "decimal_ops \<Rightarrow> OkxEmaAtrMakerTrendRunner \<Rightarrow> decimal \<Rightarrow> decimal \<Rightarrow> unit res" where
  "ensure_take_profit_clears_exit_fee D r average_price price =
     rbind (expect (average_price > 0) ''average price must be positive'') (\<lambda>_.
     rbind (expect (price > 0) ''take-profit price must be positive'') (\<lambda>_.
     rbind (checked_exit_fee r) (\<lambda>fee.
     rbind (dec_sub D 1 fee) (\<lambda>keep.
     rbind (dec_mul D price keep) (\<lambda>net_quote_proceeds.
     expect (net_quote_proceeds \<ge> average_price)
       ''take-profit price does not recover fee-adjusted average cost'')))))"

definition take_profit_order_shape ::
    "decimal_ops \<Rightarrow> OkxEmaAtrMakerTrendRunner \<Rightarrow> decimal \<Rightarrow> decimal \<Rightarrow> TakeProfitOrderShape res" where
  "take_profit_order_shape D r quantity average_price =
     rbind (exchange_of r) (\<lambda>s.
     rbind (take_profit_price D r average_price) (\<lambda>raw.
     rbind (tick_size D (ex_instrument s)) (\<lambda>tick.
     rbind (quantize_decimal_up D raw tick) (\<lambda>price.
     rbind (ensure_take_profit_clears_exit_fee D r average_price price) (\<lambda>_.
     rbind (lot_size D (ex_instrument s)) (\<lambda>lot.
     rbind (quantize_decimal_down D quantity lot) (\<lambda>sz.
     Inr \<lparr> tp_sz = sz, tp_price = price \<rparr>)))))))"

section \<open>Does an order still fit the position?\<close>

definition take_profit_order_matches_position ::
    "decimal_ops \<Rightarrow> OkxEmaAtrMakerTrendRunner \<Rightarrow> OkxOrder \<Rightarrow> OpenPosition \<Rightarrow> bool res" where
  "take_profit_order_matches_position D r o1 position =
     rbind (exchange_of r) (\<lambda>s.
     rbind (lot_size D (ex_instrument s)) (\<lambda>lot.
     rbind (tick_size D (ex_instrument s)) (\<lambda>tick.
     rbind (take_profit_order_shape D r (op_quantity position) (op_average_price position)) (\<lambda>expected.
     rbind (order_requested_size D o1) (\<lambda>requested_size.
     rbind (decimal_within_half_step D requested_size (tp_sz expected) lot) (\<lambda>same_size.
     if \<not> same_size then Inr False
     else if blank (or_price o1) then Inr False
     else
       rbind (some_or ''OKX take-profit order has invalid px'' (d_parse D (or_price o1))) (\<lambda>requested_price.
       rbind (ensure_take_profit_clears_exit_fee D r (op_average_price position) requested_price) (\<lambda>_.
       decimal_within_half_step D requested_price (tp_price expected) tick))))))))"

definition stop_loss_order_matches_position ::
    "decimal_ops \<Rightarrow> OkxEmaAtrMakerTrendRunner \<Rightarrow> TrackedAlgoOrder \<Rightarrow> OpenPosition \<Rightarrow> bool res" where
  "stop_loss_order_matches_position D r a position =
     rbind (exchange_of r) (\<lambda>s.
     rbind (lot_size D (ex_instrument s)) (\<lambda>lot.
     rbind (tick_size D (ex_instrument s)) (\<lambda>tick.
     rbind (quantize_decimal_down D (op_quantity position) lot) (\<lambda>expected_size.
     rbind (quantize_decimal_down D (op_stop_loss_trigger position) tick) (\<lambda>expected_trigger.
     rbind (decimal_within_half_step D (ta_sz a) expected_size lot) (\<lambda>same_size.
     if \<not> same_size then Inr False
     else decimal_within_half_step D (ta_trigger_price a) expected_trigger tick))))))"

section \<open>Fills on the position\<close>

definition next_open_position ::
    "decimal_ops \<Rightarrow> OkxEmaAtrMakerTrendRunner \<Rightarrow> decimal \<Rightarrow> decimal \<Rightarrow> (bool \<times> OpenPosition) res" where
  "next_open_position D r quantity average_price =
     rbind (exchange_of r) (\<lambda>s.
     rbind (case ex_position s of
              Some p \<Rightarrow>
                rbind (dec_add D (op_quantity p) quantity) (\<lambda>new_quantity.
                rbind (dec_mul D (op_average_price p) (op_quantity p)) (\<lambda>old_cost.
                rbind (dec_mul D average_price quantity) (\<lambda>added_cost.
                rbind (dec_add D old_cost added_cost) (\<lambda>cost.
                rbind (dec_div D cost new_quantity) (\<lambda>new_average.
                rbind (stop_loss_trigger D r new_average) (\<lambda>trigger.
                Inr \<lparr> op_quantity = new_quantity, op_average_price = new_average,
                      op_stop_loss_trigger = trigger \<rparr>))))))
            | None \<Rightarrow>
                rbind (stop_loss_trigger D r average_price) (\<lambda>trigger.
                Inr \<lparr> op_quantity = quantity, op_average_price = average_price,
                      op_stop_loss_trigger = trigger \<rparr>)) (\<lambda>position.
     Inr (ex_position s \<noteq> None, position)))"

text \<open>\<open>checked_sub(..).filter(> 0).unwrap_or(0)\<close>.\<close>

definition reduced_quantity :: "decimal_ops \<Rightarrow> decimal \<Rightarrow> decimal \<Rightarrow> decimal" where
  "reduced_quantity D quantity fill_delta =
     (case d_sub D quantity fill_delta of
        Some remaining \<Rightarrow> if remaining > 0 then remaining else 0
      | None \<Rightarrow> 0)"

definition apply_position_reducing_fill :: "OkxClient \<Rightarrow> decimal \<Rightarrow> bool act" where
  "apply_position_reducing_fill E fill_delta =
     mbind exchange (\<lambda>s.
     mbind (lift (min_size (cl_decimal E) (ex_instrument s))) (\<lambda>min_sz.
     case ex_position s of
       None \<Rightarrow> mret False
     | Some p \<Rightarrow>
         let q = reduced_quantity (cl_decimal E) (op_quantity p) fill_delta in
         mdo (exchange_mut (\<lambda>s. s\<lparr> ex_position :=
                (if q < min_sz then None else Some (p\<lparr> op_quantity := q \<rparr>)) \<rparr>))
           (mret True)))"

section \<open>The strategy's share of the balance\<close>

definition add_detail_total :: "decimal_ops \<Rightarrow> decimal \<Rightarrow> OkxBalanceDetail \<Rightarrow> decimal res" where
  "add_detail_total D sum_so_far d = rbind (balance_total D d) (\<lambda>t. dec_add D sum_so_far t)"

definition reconstruct_strategy_balance ::
    "decimal_ops \<Rightarrow> OkxEmaAtrMakerTrendRunner \<Rightarrow> OkxBalance list \<Rightarrow> StrategyBalance res" where
  "reconstruct_strategy_balance D r balances =
     rbind (exchange_of r) (\<lambda>s.
     let base_ccy = oi_base_ccy (ex_instrument s) in
     rbind (try_fold (add_detail_total D) 0
              (filter (\<lambda>d. bd_ccy d = base_ccy) (concat (map ba_details balances)))) (\<lambda>total.
     rbind (lot_size D (ex_instrument s)) (\<lambda>lot.
     rbind (min_size D (ex_instrument s)) (\<lambda>min_sz.
     strategy_balance_after_operator_baseline D total (rn_operator_owned_base_balance r) lot min_sz
       base_ccy))))"

section \<open>Entry sizing\<close>

definition entry_quantity :: "decimal_ops \<Rightarrow> OkxEmaAtrMakerTrendRunner \<Rightarrow> decimal \<Rightarrow> decimal res" where
  "entry_quantity D r price =
     rbind (expect (price > 0) ''entry price must be positive'') (\<lambda>_.
     rbind (some_or ''entry fee rate is not initialized'' (rn_entry_fee_cost_rate r)) (\<lambda>fee.
     rbind (expect (0 \<le> fee \<and> fee < 1)
              ''entry fee cost rate must be non-negative and below one'') (\<lambda>_.
     rbind (case rn_max_quote_notional r of
              None \<Rightarrow> Inr (rn_quantity r)
            | Some cap \<Rightarrow>
                rbind (dec_add D 1 fee) (\<lambda>factor.
                rbind (dec_mul D price factor) (\<lambda>unit_cost.
                rbind (dec_div D cap unit_cost) (\<lambda>affordable.
                Inr (min (rn_quantity r) affordable))))) (\<lambda>quantity.
     rbind (expect (quantity > 0) ''entry quantity must be positive'') (\<lambda>_.
     Inr quantity)))))"

definition ensure_entry_notional_within_cap ::
    "decimal_ops \<Rightarrow> OkxEmaAtrMakerTrendRunner \<Rightarrow> decimal \<Rightarrow> decimal \<Rightarrow> unit res" where
  "ensure_entry_notional_within_cap D r sz price =
     (case rn_max_quote_notional r of
        None \<Rightarrow> Inr ()
      | Some cap \<Rightarrow>
          rbind (some_or ''entry fee rate is not initialized'' (rn_entry_fee_cost_rate r)) (\<lambda>fee.
          rbind (some_or ''capped entry notional overflowed Decimal'' (d_mul D sz price)) (\<lambda>gross.
          rbind (dec_add D 1 fee) (\<lambda>factor.
          rbind (some_or ''capped entry notional overflowed Decimal'' (d_mul D gross factor)) (\<lambda>notional.
          expect (notional \<le> cap) ''entry notional exceeds max_quote_notional'')))))"

definition entry_preconditions_met :: "OkxEmaAtrMakerTrendRunner \<Rightarrow> bool res" where
  "entry_preconditions_met r =
     rbind (exchange_of r) (\<lambda>s.
     Inr (entry_allowed (rn_signal r) \<and> ex_entry_order s = None \<and> ex_position s = None \<and>
          ex_take_profit_order s = None \<and> ex_stop_loss_exit_order s = None \<and>
          ex_stop_loss_pending s = None))"

end
