(* ===== verification/Strategy_Orders.thy ===== *)
theory Strategy_Orders
  imports Strategy_Position
begin

text \<open>
  \<open>strategies/okx_ema_atr_maker_trend.rs\<close>: the asynchronous operations on single orders.  They place,
  amend and cancel the take-profit order, the stop-loss trigger and the market exit, and refresh the
  tracked orders from the exchange.  An early return of a method is a branch that ends in \<open>mret ()\<close>; a
  method of several stages is split where the code has its blank lines.
\<close>

section \<open>Placing\<close>

definition place_order ::
    "OkxClient \<Rightarrow> OrderSide \<Rightarrow> OrderKind \<Rightarrow> string \<Rightarrow> string option \<Rightarrow> string \<Rightarrow> OkxOrderAck act" where
  "place_order E side kind sz price cid =
     instrument_call (\<lambda>i. PlaceOrder i side kind sz price cid) (cl_place_order E)"

definition new_tracked_order :: "string \<Rightarrow> TrackedOrder" where
  "new_tracked_order cid =
     \<lparr> to_client_order_id = cid, to_last_fill_size = 0, to_last_average_fill_price = None,
       to_last_accounted_base_change = 0, to_last_accounted_quote_change = 0,
       to_cancel_requested = False \<rparr>"

definition validated_instrument_for_order ::
    "OkxEmaAtrMakerTrendRunner \<Rightarrow> ValidatedTradingInstrument res" where
  "validated_instrument_for_order r =
     some_or ''missing validated instrument context'' (rn_validated_instrument r)"

definition ensure_order_quote_amount :: "OkxClient \<Rightarrow> decimal \<Rightarrow> string \<Rightarrow> unit act" where
  "ensure_order_quote_amount E quote_amount ctx =
     mbind (self_result validated_instrument_for_order) (\<lambda>v.
     mbind (lift (max_limit_amount (cl_decimal E) (vi_instrument v))) (\<lambda>limit.
     if limit = None then mret ()
     else
       mbind (request (GetFreshQuoteUsdRate v) (cl_fresh_quote_usd_rate E)) (\<lambda>rate.
       lift (vi_ensure_limit_quote_amount (cl_decimal E) v quote_amount rate ctx))))"

definition place_take_profit :: "OkxClient \<Rightarrow> decimal \<Rightarrow> decimal \<Rightarrow> unit act" where
  "place_take_profit E quantity average_price =
     (let D = cl_decimal E in
      mbind (self_result (\<lambda>r. take_profit_order_shape D r quantity average_price)) (\<lambda>target.
      mbind exchange (\<lambda>s.
      mbind (lift (min_size D (ex_instrument s))) (\<lambda>min_sz.
      mdo (lift (expect (tp_sz target \<ge> min_sz) ''take-profit size is below OKX minSz''))
      (mdo (lift (ensure_limit_size D (ex_instrument s) (tp_sz target) ''take-profit size''))
      (mbind (lift (some_or ''take-profit quote notional overflowed Decimal''
                (d_mul D (tp_sz target) (tp_price target)))) (\<lambda>quote_notional.
      mdo (ensure_order_quote_amount E quote_notional ''take-profit quote notional'')
      (mbind (next_client_order_id E TakeProfit) (\<lambda>cid.
      mdo record_order_decision
      (mdo (place_order E Sell Limit (decimal_to_okx D (tp_sz target))
             (Some (decimal_to_okx D (tp_price target))) cid)
      (exchange_mut (\<lambda>s. s\<lparr> ex_take_profit_order := Some (new_tracked_order cid) \<rparr>))))))))))))"

definition ensure_take_profit_order :: "OkxClient \<Rightarrow> unit act" where
  "ensure_take_profit_order E =
     mbind (asks rn_exchange) (\<lambda>x.
     case x of None \<Rightarrow> mret ()
     | Some s \<Rightarrow>
         (case ex_position s of None \<Rightarrow> mret ()
          | Some p \<Rightarrow>
              if ex_take_profit_order s \<noteq> None \<or> ex_stop_loss_exit_order s \<noteq> None \<or>
                 ex_stop_loss_pending s \<noteq> None
              then mret ()
              else place_take_profit E (op_quantity p) (op_average_price p)))"

definition place_stop_loss_order :: "OkxClient \<Rightarrow> OpenPosition \<Rightarrow> unit act" where
  "place_stop_loss_order E p =
     (let D = cl_decimal E in
      mbind exchange (\<lambda>s.
      mbind (lift (lot_size D (ex_instrument s))) (\<lambda>lot.
      mbind (lift (quantize_decimal_down D (op_quantity p) lot)) (\<lambda>sz.
      mbind (lift (min_size D (ex_instrument s))) (\<lambda>min_sz.
      mdo (lift (expect (sz \<ge> min_sz) ''stop size is below OKX minSz''))
      (mdo (lift (ensure_trigger_size D (ex_instrument s) sz ''stop size''))
      (mbind (lift (tick_size D (ex_instrument s))) (\<lambda>tick.
      mbind (lift (quantize_decimal_down D (op_stop_loss_trigger p) tick)) (\<lambda>trigger.
      mbind (next_client_order_id E StopLoss) (\<lambda>cid.
      mdo record_order_decision
      (mbind (instrument_call (\<lambda>i. PlaceTriggerOrder i Sell (decimal_to_okx D sz)
                (decimal_to_okx D trigger) cid) (cl_place_trigger_order E)) (\<lambda>ack.
      exchange_mut (\<lambda>s. s\<lparr> ex_stop_loss_order := Some
        \<lparr> ta_algo_id = aa_algo_id ack, ta_client_order_id = cid, ta_sz = sz,
          ta_trigger_price = trigger, ta_cancel_requested = False \<rparr> \<rparr>)))))))))))))"

section \<open>Cancelling and amending\<close>

text \<open>\<open>if let Some(order) = ..as_mut() && order.client_order_id == id { .. }\<close>.\<close>

definition update_if :: "string \<Rightarrow> (TrackedOrder \<Rightarrow> TrackedOrder) \<Rightarrow> TrackedOrder option \<Rightarrow> TrackedOrder option"
where
  "update_if cid f = map_option (\<lambda>t. if to_client_order_id t = cid then f t else t)"

definition mark_cancel_requested :: "TrackedOrder \<Rightarrow> TrackedOrder" where
  "mark_cancel_requested t = t\<lparr> to_cancel_requested := True \<rparr>"

definition mark_take_profit_cancel_requested :: "string \<Rightarrow> unit act" where
  "mark_take_profit_cancel_requested cid =
     exchange_mut (\<lambda>s. s\<lparr> ex_take_profit_order :=
       update_if cid mark_cancel_requested (ex_take_profit_order s) \<rparr>)"

definition cancel_stop_loss_order :: "OkxClient \<Rightarrow> unit act" where
  "cancel_stop_loss_order E =
     mbind (exchange_opt ex_stop_loss_order) (\<lambda>x.
     case x of None \<Rightarrow> mret ()
     | Some a \<Rightarrow>
         if ta_cancel_requested a then mret ()
         else
           mdo record_order_decision
           (mdo (instrument_call (\<lambda>i. CancelAlgoOrder i (ta_algo_id a)) (cl_cancel_algo_order E))
           (exchange_mut (\<lambda>s. s\<lparr> ex_stop_loss_order :=
              map_option (\<lambda>b. if ta_algo_id b = ta_algo_id a then b\<lparr> ta_cancel_requested := True \<rparr> else b)
                (ex_stop_loss_order s) \<rparr>))))"

definition ensure_stop_loss_order :: "OkxClient \<Rightarrow> unit act" where
  "ensure_stop_loss_order E =
     mbind (asks rn_exchange) (\<lambda>x.
     case x of None \<Rightarrow> mret ()
     | Some s \<Rightarrow>
         (case ex_position s of None \<Rightarrow> mret ()
          | Some p \<Rightarrow>
              if ex_stop_loss_pending s \<noteq> None \<or> ex_stop_loss_exit_order s \<noteq> None then mret ()
              else
                (case ex_stop_loss_order s of
                   Some a \<Rightarrow>
                     if ta_cancel_requested a then mret ()
                     else
                       mbind (self_result (\<lambda>r. stop_loss_order_matches_position (cl_decimal E) r a p)) (\<lambda>same.
                       if same then mret () else cancel_stop_loss_order E)
                 | None \<Rightarrow> place_stop_loss_order E p)))"

definition cancel_take_profit_order :: "OkxClient \<Rightarrow> unit act" where
  "cancel_take_profit_order E =
     mbind (exchange_opt ex_take_profit_order) (\<lambda>x.
     case x of None \<Rightarrow> mret ()
     | Some t \<Rightarrow>
         if to_cancel_requested t then mret ()
         else
           mdo record_order_decision
           (mdo (cancel_order E (to_client_order_id t))
           (mark_take_profit_cancel_requested (to_client_order_id t))))"

definition cancel_stop_loss_exit_order :: "OkxClient \<Rightarrow> unit act" where
  "cancel_stop_loss_exit_order E =
     mbind (exchange_opt ex_stop_loss_exit_order) (\<lambda>x.
     case x of None \<Rightarrow> mret ()
     | Some t \<Rightarrow>
         if to_cancel_requested t then mret ()
         else
           mdo record_order_decision
           (mdo (cancel_order E (to_client_order_id t))
           (exchange_mut (\<lambda>s. s\<lparr> ex_stop_loss_exit_order :=
              update_if (to_client_order_id t) mark_cancel_requested (ex_stop_loss_exit_order s) \<rparr>))))"

definition cancel_tracked_entry_order :: "OkxClient \<Rightarrow> string \<Rightarrow> unit act" where
  "cancel_tracked_entry_order E cid =
     mbind exchange (\<lambda>s.
     case ex_entry_order s of None \<Rightarrow> mret ()
     | Some t \<Rightarrow>
         if to_client_order_id t \<noteq> cid \<or> to_cancel_requested t then mret ()
         else
           mdo record_order_decision
           (mdo (cancel_order E cid)
           (exchange_mut (\<lambda>s. s\<lparr> ex_entry_order :=
              update_if cid mark_cancel_requested (ex_entry_order s) \<rparr>))))"

definition submit_take_profit_amend :: "OkxClient \<Rightarrow> ExchangeState \<Rightarrow> OpenPosition \<Rightarrow> TrackedOrder \<Rightarrow> unit act" where
  "submit_take_profit_amend E s p t =
     (let D = cl_decimal E in
      mbind (self_result (\<lambda>r. take_profit_order_shape D r (op_quantity p) (op_average_price p))) (\<lambda>target.
      mdo (lift (ensure_limit_size D (ex_instrument s) (tp_sz target) ''take-profit size''))
      (mbind (lift (some_or ''take-profit quote notional overflowed Decimal''
                (d_mul D (tp_sz target) (tp_price target)))) (\<lambda>quote_notional.
      mdo (ensure_order_quote_amount E quote_notional ''take-profit quote notional'')
      (mdo record_order_decision
      (mbind (instrument_call (\<lambda>i. AmendOrder i Sell (to_client_order_id t)
                (Some (decimal_to_okx D (tp_sz target))) (Some (decimal_to_okx D (tp_price target))))
                (cl_amend_order E)) (\<lambda>_. mret ())))))))"

definition amend_take_profit_order :: "OkxClient \<Rightarrow> unit act" where
  "amend_take_profit_order E =
     mbind (asks rn_exchange) (\<lambda>x.
     case x of None \<Rightarrow> mret ()
     | Some s \<Rightarrow>
         (case (ex_position s, ex_take_profit_order s) of
            (Some p, Some t) \<Rightarrow>
              if to_cancel_requested t then mret ()
              else if to_last_fill_size t > 0 then cancel_take_profit_order E
              else submit_take_profit_amend E s p t
          | _ \<Rightarrow> mret ()))"

section \<open>The take-profit order\<close>

definition track_fill :: "decimal \<Rightarrow> OkxSpotFillAccounting \<Rightarrow> TrackedOrder \<Rightarrow> TrackedOrder" where
  "track_fill fill_size accounting t =
     t\<lparr> to_last_fill_size := fill_size, to_last_accounted_base_change := ac_base_change accounting,
        to_last_accounted_quote_change := ac_quote_change accounting \<rparr>"

definition update_take_profit_tracking :: "string \<Rightarrow> decimal \<Rightarrow> OkxSpotFillAccounting \<Rightarrow> unit act" where
  "update_take_profit_tracking cid fill_size accounting =
     exchange_mut (\<lambda>s. s\<lparr> ex_take_profit_order :=
       update_if cid (track_fill fill_size accounting) (ex_take_profit_order s) \<rparr>)"

definition take_profit_missing :: "OkxClient \<Rightarrow> unit act" where
  "take_profit_missing E =
     mdo (exchange_mut (\<lambda>s. s\<lparr> ex_take_profit_order := None \<rparr>))
     (mbind exchange (\<lambda>s. mwhen (ex_position s \<noteq> None) (ensure_take_profit_order E)))"

definition apply_take_profit_fill ::
    "OkxClient \<Rightarrow> TrackedOrder \<Rightarrow> decimal \<Rightarrow> OkxSpotFillAccounting \<Rightarrow> unit act" where
  "apply_take_profit_fill E t fill_size accounting =
     mbind (lift (exit_accounting_delta (cl_decimal E) accounting t)) (\<lambda>base_reduction.
     mbind (apply_position_reducing_fill E base_reduction) (\<lambda>position_changed.
     mdo (update_take_profit_tracking (to_client_order_id t) fill_size accounting)
     (mwhen position_changed (mdo (cancel_stop_loss_order E) (ensure_stop_loss_order E)))))"

definition take_profit_live ::
    "OkxClient \<Rightarrow> TrackedOrder \<Rightarrow> OkxOrder \<Rightarrow> decimal \<Rightarrow> OkxSpotFillAccounting \<Rightarrow> unit act" where
  "take_profit_live E t o1 fill_size accounting =
     (if to_cancel_requested t
      then update_take_profit_tracking (to_client_order_id t) fill_size accounting
      else
        mbind exchange (\<lambda>s.
        case ex_position s of
          None \<Rightarrow> cancel_take_profit_order E
        | Some p \<Rightarrow>
            mbind (self_result (\<lambda>r. take_profit_order_matches_position (cl_decimal E) r o1 p)) (\<lambda>same.
            if \<not> same then amend_take_profit_order E
            else update_take_profit_tracking (to_client_order_id t) fill_size accounting)))"

definition take_profit_closed :: "OkxClient \<Rightarrow> OkxOrder \<Rightarrow> decimal \<Rightarrow> unit act" where
  "take_profit_closed E o1 fill_delta =
     mdo (mwhen (is_terminal o1) (exchange_mut (\<lambda>s. s\<lparr> ex_take_profit_order := None \<rparr>)))
     (mbind exchange (\<lambda>s.
      if ex_position s = None
      then mdo (cancel_stop_loss_order E) clear_position_state
      else mwhen (is_terminal_without_fill o1 \<or> fill_delta > 0)
             (mdo (ensure_take_profit_order E) (ensure_stop_loss_order E))))"

definition refresh_take_profit_order :: "OkxClient \<Rightarrow> unit act" where
  "refresh_take_profit_order E =
     (let D = cl_decimal E in
      mbind (exchange_opt ex_take_profit_order) (\<lambda>x.
      case x of None \<Rightarrow> mret ()
      | Some t \<Rightarrow>
          mbind (get_order E (to_client_order_id t)) (\<lambda>answer.
          case answer of None \<Rightarrow> take_profit_missing E
          | Some o1 \<Rightarrow>
              mbind (lift (order_fill_size D o1)) (\<lambda>fill_size.
              mbind (lift (cumulative_fill_delta D ''OKX take-profit order'' fill_size
                        (to_last_fill_size t))) (\<lambda>fill_delta.
              mbind exchange (\<lambda>s.
              mbind (lift (cumulative_spot_accounting D o1 (oi_base_ccy (ex_instrument s))
                        (oi_quote_ccy (ex_instrument s)))) (\<lambda>accounting.
              mdo (mwhen (fill_delta > 0) (apply_take_profit_fill E t fill_size accounting))
              (if is_live o1 then take_profit_live E t o1 fill_size accounting
               else take_profit_closed E o1 fill_delta))))))))"

end
