(* ===== verification/Strategy_Refresh.thy ===== *)
theory Strategy_Refresh
  imports Strategy_Orders
begin

text \<open>
  \<open>strategies/okx_ema_atr_maker_trend.rs\<close>: refreshing the entry order, the stop-loss trigger and the
  market exit, the stop-loss evaluation, and the entry submission of \<open>entry_submission.rs\<close>.
\<close>

section \<open>The entry order\<close>

definition open_position :: "OkxClient \<Rightarrow> bool \<Rightarrow> OpenPosition \<Rightarrow> unit act" where
  "open_position E had_position p =
     mdo (exchange_mut (\<lambda>s. s\<lparr> ex_position := Some p \<rparr>))
     (mdo (ensure_stop_loss_order E)
     (mdo (mwhen had_position (refresh_take_profit_order E))
     (ensure_take_profit_order E)))"

definition update_entry_tracking ::
    "string \<Rightarrow> decimal \<Rightarrow> decimal option \<Rightarrow> OkxSpotFillAccounting \<Rightarrow> bool \<Rightarrow> unit act" where
  "update_entry_tracking cid fill_size average accounting cancel_requested =
     exchange_mut (\<lambda>s. s\<lparr> ex_entry_order := update_if cid (\<lambda>t. (track_fill fill_size accounting t)
       \<lparr> to_last_average_fill_price := average, to_cancel_requested := cancel_requested \<rparr>)
       (ex_entry_order s) \<rparr>)"

definition apply_entry_fill ::
    "OkxClient \<Rightarrow> TrackedOrder \<Rightarrow> OkxOrder \<Rightarrow> decimal \<Rightarrow> decimal option \<Rightarrow> unit act" where
  "apply_entry_fill E t o1 fill_size average =
     (let D = cl_decimal E in
      mbind exchange (\<lambda>s.
      mbind (lift (cumulative_spot_accounting D o1 (oi_base_ccy (ex_instrument s))
                (oi_quote_ccy (ex_instrument s)))) (\<lambda>accounting.
      mbind (lift (entry_accounting_delta D accounting t)) (\<lambda>delta.
      mbind (self_result (\<lambda>r. next_open_position D r (fst delta) (snd delta))) (\<lambda>opened.
      mdo (update_entry_tracking (to_client_order_id t) fill_size average accounting
             (to_cancel_requested t))
      (open_position E (fst opened) (snd opened)))))))"

definition entry_order_live :: "OkxClient \<Rightarrow> TrackedOrder \<Rightarrow> OkxOrder \<Rightarrow> decimal \<Rightarrow> unit act" where
  "entry_order_live E t o1 fill_size =
     mbind (lift (order_created_at_ms o1)) (\<lambda>created.
     mbind (unix_time_ms E) (\<lambda>now.
     mbind (self_result (\<lambda>r. entry_order_is_expired created now (rn_max_entry_order_age_ms r))) (\<lambda>expired.
     mbind (asks (\<lambda>r. entry_allowed (rn_signal r))) (\<lambda>allowed.
     mwhen (fill_size > 0 \<or> \<not> allowed \<or> expired)
       (cancel_tracked_entry_order E (to_client_order_id t))))))"

definition entry_order_closed :: "OkxOrder \<Rightarrow> decimal \<Rightarrow> unit act" where
  "entry_order_closed o1 fill_size =
     mwhen (fill_size > 0 \<or> is_terminal_without_fill o1 \<or> is_terminal o1)
       (exchange_mut (\<lambda>s. s\<lparr> ex_entry_order := None \<rparr>))"

definition refresh_entry_order :: "OkxClient \<Rightarrow> unit act" where
  "refresh_entry_order E =
     (let D = cl_decimal E in
      mbind (exchange_opt ex_entry_order) (\<lambda>x.
      case x of None \<Rightarrow> mret ()
      | Some t \<Rightarrow>
          mbind (get_order E (to_client_order_id t)) (\<lambda>answer.
          case answer of None \<Rightarrow> mret ()
          | Some o1 \<Rightarrow>
              mbind (lift (order_fill_size D o1)) (\<lambda>fill_size.
              mbind (lift (cumulative_fill_delta D ''OKX entry order'' fill_size
                        (to_last_fill_size t))) (\<lambda>fill_delta.
              mbind (lift (average_fill_price D o1)) (\<lambda>average.
              mdo (mwhen (fill_delta > 0) (apply_entry_fill E t o1 fill_size average))
              (if is_live o1 then entry_order_live E t o1 fill_size
               else entry_order_closed o1 fill_size)))))))"

section \<open>The position and the balance\<close>

definition reconcile_position_quantity_from_balance :: "OkxClient \<Rightarrow> OpenPosition option act" where
  "reconcile_position_quantity_from_balance E =
     mbind exchange (\<lambda>s.
     case ex_position s of
       None \<Rightarrow> mret None
     | Some p \<Rightarrow>
         mbind (request GetBalances (cl_balances E)) (\<lambda>balances.
         mbind (self_result (\<lambda>r. reconstruct_strategy_balance (cl_decimal E) r balances)) (\<lambda>b.
         let quantity = min (sb_tradeable_quantity b) (op_quantity p) in
         if quantity \<le> 0 then mdo clear_position_state (mret None)
         else
           let p' = p\<lparr> op_quantity := quantity \<rparr> in
           mdo (exchange_mut (\<lambda>s. s\<lparr> ex_position := Some p' \<rparr>)) (mret (Some p')))))"

section \<open>The stop-loss trigger\<close>

definition get_last_price :: "OkxClient \<Rightarrow> decimal act" where
  "get_last_price E = mbind (get_ticker E) (\<lambda>t. lift (last_decimal (cl_decimal E) t))"

definition reconcile_triggered_stop_loss_order :: "OkxClient \<Rightarrow> unit act" where
  "reconcile_triggered_stop_loss_order E =
     mbind (exchange_opt ex_take_profit_order) (\<lambda>x.
     mdo (case x of
            None \<Rightarrow> mret ()
          | Some t \<Rightarrow>
              mbind (cancel_if_live E (to_client_order_id t)) (\<lambda>cancelled.
              mwhen cancelled (mark_take_profit_cancel_requested (to_client_order_id t))))
     (mbind (reconcile_position_quantity_from_balance E) (\<lambda>remaining.
     if remaining \<noteq> None
     then exchange_mut (\<lambda>s. s\<lparr> ex_stop_loss_order := None,
            ex_stop_loss_pending := Some ExitReconciliation \<rparr>)
     else clear_position_state)))"

definition stop_loss_algo_open :: "OkxClient \<Rightarrow> TrackedAlgoOrder \<Rightarrow> OkxAlgoOrder \<Rightarrow> unit act" where
  "stop_loss_algo_open E t a =
     mbind (lift (tracked_stop_loss_algo (cl_decimal E) a (ta_cancel_requested t))) (\<lambda>tracked.
     mdo (exchange_mut (\<lambda>s. s\<lparr> ex_stop_loss_order := Some tracked \<rparr>))
     (mbind exchange (\<lambda>s.
      case ex_position s of
        None \<Rightarrow> mret ()
      | Some p \<Rightarrow>
          mwhen (ex_stop_loss_pending s = Some LocalThreshold \<and> ex_stop_loss_exit_order s = None \<and>
                 ex_take_profit_order s = None)
            (mbind (get_last_price E) (\<lambda>last_price.
             mwhen (last_price > op_stop_loss_trigger p)
               (mdo (exchange_mut (\<lambda>s. s\<lparr> ex_stop_loss_pending := None \<rparr>))
               (ensure_take_profit_order E)))))))"

text \<open>The algo's row in the history; the result says whether the refresh is done.\<close>

definition stop_loss_algo_history :: "OkxClient \<Rightarrow> TrackedAlgoOrder \<Rightarrow> OkxAlgoOrder list \<Rightarrow> bool act" where
  "stop_loss_algo_history E t algo_history =
     (case find (\<lambda>a. ao_algo_id a = ta_algo_id t \<or> ao_client_order_id a = ta_client_order_id t)
             algo_history of
        None \<Rightarrow> mret False
      | Some a \<Rightarrow>
          mdo (lift (expect (algo_parsed_side a = Some Sell)
                 ''historical OKX stop-loss algo has unexpected side''))
          (if algo_is_effective a
           then mdo (get_last_price E) (mdo (reconcile_triggered_stop_loss_order E) (mret True))
           else
             mdo (mwhen (algo_is_terminal_without_execution a)
                    (exchange_mut (\<lambda>s. s\<lparr> ex_stop_loss_order := None \<rparr>)))
             (mret False)))"

definition stop_loss_algo_gone :: "OkxClient \<Rightarrow> TrackedAlgoOrder \<Rightarrow> unit act" where
  "stop_loss_algo_gone E t =
     mbind exchange (\<lambda>s.
     case ex_position s of
       None \<Rightarrow> exchange_mut (\<lambda>s. s\<lparr> ex_stop_loss_order := None \<rparr>)
     | Some p \<Rightarrow>
         mbind (instrument_call GetAlgoOrderHistory (cl_algo_order_history E)) (\<lambda>algo_history.
         mbind (stop_loss_algo_history E t algo_history) (\<lambda>finished.
         if finished then mret ()
         else
           mbind exchange (\<lambda>s.
           mbind (get_last_price E) (\<lambda>last_price.
           if ex_stop_loss_pending s \<noteq> None \<or> last_price \<le> op_stop_loss_trigger p
           then reconcile_triggered_stop_loss_order E
           else exchange_mut (\<lambda>s. s\<lparr> ex_stop_loss_order := None \<rparr>))))))"

definition refresh_stop_loss_order :: "OkxClient \<Rightarrow> unit act" where
  "refresh_stop_loss_order E =
     mbind (exchange_opt ex_stop_loss_order) (\<lambda>x.
     case x of None \<Rightarrow> mret ()
     | Some t \<Rightarrow>
         mbind (instrument_call GetOpenAlgoOrders (cl_open_algo_orders E)) (\<lambda>open_algo_orders.
         case find (\<lambda>a. ao_algo_id a = ta_algo_id t) open_algo_orders of
           Some a \<Rightarrow> stop_loss_algo_open E t a
         | None \<Rightarrow> stop_loss_algo_gone E t))"

section \<open>The market exit\<close>

definition update_stop_loss_exit_tracking :: "string \<Rightarrow> decimal \<Rightarrow> OkxSpotFillAccounting \<Rightarrow> unit act" where
  "update_stop_loss_exit_tracking cid fill_size accounting =
     exchange_mut (\<lambda>s. s\<lparr> ex_stop_loss_exit_order :=
       update_if cid (track_fill fill_size accounting) (ex_stop_loss_exit_order s) \<rparr>)"

definition stop_loss_exit_missing :: "OkxClient \<Rightarrow> unit act" where
  "stop_loss_exit_missing E =
     mdo (exchange_mut (\<lambda>s. s\<lparr> ex_stop_loss_exit_order := None \<rparr>))
     (mbind (reconcile_position_quantity_from_balance E) (\<lambda>remaining.
      mwhen (remaining \<noteq> None)
        (exchange_mut (\<lambda>s. s\<lparr> ex_stop_loss_pending := Some ExitReconciliation \<rparr>))))"

definition stop_loss_exit_closed :: "OkxOrder \<Rightarrow> unit act" where
  "stop_loss_exit_closed o1 =
     mdo (exchange_mut (\<lambda>s. s\<lparr> ex_stop_loss_exit_order := None \<rparr>))
     (mbind exchange (\<lambda>s.
      if ex_position s = None then clear_position_state
      else mwhen (is_terminal_without_fill o1 \<or> is_terminal o1)
             (exchange_mut (\<lambda>s. s\<lparr> ex_stop_loss_pending := Some ExitReconciliation \<rparr>))))"

definition refresh_stop_loss_exit_order :: "OkxClient \<Rightarrow> unit act" where
  "refresh_stop_loss_exit_order E =
     (let D = cl_decimal E in
      mbind (exchange_opt ex_stop_loss_exit_order) (\<lambda>x.
      case x of None \<Rightarrow> mret ()
      | Some t \<Rightarrow>
          mbind (get_order E (to_client_order_id t)) (\<lambda>answer.
          case answer of None \<Rightarrow> stop_loss_exit_missing E
          | Some o1 \<Rightarrow>
              mbind (lift (order_fill_size D o1)) (\<lambda>fill_size.
              mbind (lift (cumulative_fill_delta D ''OKX stop-loss market exit'' fill_size
                        (to_last_fill_size t))) (\<lambda>fill_delta.
              mbind exchange (\<lambda>s.
              mbind (lift (cumulative_spot_accounting D o1 (oi_base_ccy (ex_instrument s))
                        (oi_quote_ccy (ex_instrument s)))) (\<lambda>accounting.
              mdo (mwhen (fill_delta > 0)
                     (mbind (lift (exit_accounting_delta D accounting t)) (\<lambda>base_reduction.
                      mbind (apply_position_reducing_fill E base_reduction) (\<lambda>_. mret ()))))
              (if is_live o1
               then update_stop_loss_exit_tracking (to_client_order_id t) fill_size accounting
               else stop_loss_exit_closed o1))))))))"

section \<open>Stop-loss evaluation\<close>

text \<open>The take-profit order has to be out of the way first; the result says whether it is.\<close>

definition retire_take_profit :: "OkxClient \<Rightarrow> StopLossPendingReason option \<Rightarrow> bool act" where
  "retire_take_profit E pending =
     (let D = cl_decimal E in
      mbind (exchange_opt ex_take_profit_order) (\<lambda>x.
      case x of None \<Rightarrow> mret True
      | Some t \<Rightarrow>
          let cid = to_client_order_id t in
          mbind (get_order E cid) (\<lambda>answer.
          case answer of
            None \<Rightarrow>
              mbind (cancel_if_live E cid) (\<lambda>cancelled.
              mdo (mwhen cancelled (mark_take_profit_cancel_requested cid)) (mret False))
          | Some o1 \<Rightarrow>
              if is_live o1 then
                mdo (mwhen (\<not> to_cancel_requested t)
                       (mdo record_order_decision
                       (mdo (cancel_order E cid) (mark_take_profit_cancel_requested cid))))
                (mret False)
              else
                mbind (lift (order_fill_size D o1)) (\<lambda>fill_size.
                mbind (lift (cumulative_fill_delta D ''OKX take-profit order'' fill_size
                          (to_last_fill_size t))) (\<lambda>fill_delta.
                mdo (mwhen (fill_delta > 0 \<and> pending = None)
                       (mbind exchange (\<lambda>s.
                        mbind (lift (cumulative_spot_accounting D o1 (oi_base_ccy (ex_instrument s))
                                  (oi_quote_ccy (ex_instrument s)))) (\<lambda>accounting.
                        mbind (lift (exit_accounting_delta D accounting t)) (\<lambda>base_reduction.
                        mbind (apply_position_reducing_fill E base_reduction) (\<lambda>_. mret ()))))))
                (mdo (exchange_mut (\<lambda>s. s\<lparr> ex_take_profit_order := None \<rparr>))
                (mbind exchange (\<lambda>s. mret (ex_position s \<noteq> None)))))))))"

definition submit_stop_loss_exit :: "OkxClient \<Rightarrow> decimal option \<Rightarrow> OpenPosition \<Rightarrow> unit act" where
  "submit_stop_loss_exit E reference p =
     (let D = cl_decimal E in
      mbind exchange (\<lambda>s.
      mbind (lift (lot_size D (ex_instrument s))) (\<lambda>lot.
      mbind (lift (quantize_decimal_down D (op_quantity p) lot)) (\<lambda>sz.
      mbind (lift (min_size D (ex_instrument s))) (\<lambda>min_sz.
      mdo (lift (expect (sz \<ge> min_sz) ''stop size is below OKX minSz''))
      (mbind (case reference of
                Some price \<Rightarrow> mret price
              | None \<Rightarrow> mbind (get_ticker E) (\<lambda>t. lift (ask_decimal D t))) (\<lambda>reference_price.
      mdo (lift (ensure_spot_market_sell_size D (ex_instrument s) sz reference_price ''stop market size''))
      (mbind (next_client_order_id E StopLoss) (\<lambda>cid.
      mdo record_order_decision
      (mdo (place_order E Sell Market (decimal_to_okx D sz) None cid)
      (exchange_mut (\<lambda>s. s\<lparr> ex_stop_loss_pending := Some ExitReconciliation,
         ex_stop_loss_exit_order := Some (new_tracked_order cid) \<rparr>))))))))))))"

definition market_exit :: "OkxClient \<Rightarrow> StopLossPendingReason option \<Rightarrow> decimal option \<Rightarrow> unit act" where
  "market_exit E pending reference =
     mbind exchange (\<lambda>s.
     if ex_stop_loss_order s \<noteq> None \<or> ex_stop_loss_exit_order s \<noteq> None then mret ()
     else
       mbind (if pending \<noteq> None
              then mbind (reconcile_position_quantity_from_balance E) (\<lambda>p. mret (p \<noteq> None))
              else mret True) (\<lambda>remains.
       if \<not> remains then mret ()
       else
         mbind exchange (\<lambda>s.
         case ex_position s of None \<Rightarrow> mret ()
         | Some p \<Rightarrow> submit_stop_loss_exit E reference p)))"

definition stop_loss_prices ::
    "OkxClient \<Rightarrow> StopLossPendingReason option \<Rightarrow> OpenPosition \<Rightarrow> (decimal \<times> decimal option) act" where
  "stop_loss_prices E pending p =
     (if pending \<noteq> None then mret (op_stop_loss_trigger p, None)
      else
        mbind (get_ticker E) (\<lambda>t.
        mbind (lift (last_decimal (cl_decimal E) t)) (\<lambda>last_price.
        mbind (lift (ask_decimal (cl_decimal E) t)) (\<lambda>ask.
        mret (last_price, Some ask)))))"

definition evaluate_stop_loss :: "OkxClient \<Rightarrow> unit act" where
  "evaluate_stop_loss E =
     mbind (exchange_opt ex_position) (\<lambda>x.
     case x of None \<Rightarrow> mret ()
     | Some p \<Rightarrow>
         mbind (exchange_opt ex_stop_loss_pending) (\<lambda>pending.
         mbind (stop_loss_prices E pending p) (\<lambda>prices.
         if pending = None \<and> fst prices > op_stop_loss_trigger p then mret ()
         else
           mdo (mwhen (pending = None)
                  (exchange_mut (\<lambda>s. s\<lparr> ex_stop_loss_pending := Some LocalThreshold \<rparr>)))
           (mbind (retire_take_profit E pending) (\<lambda>retired.
            if \<not> retired then mret () else market_exit E pending (snd prices))))))"

section \<open>Entry submission\<close>

definition submit_entry :: "OkxClient \<Rightarrow> decimal \<Rightarrow> unit act" where
  "submit_entry E raw_price =
     (let D = cl_decimal E in
      mbind exchange (\<lambda>s.
      mbind (lift (tick_size D (ex_instrument s))) (\<lambda>tick.
      mbind (lift (quantize_decimal_down D raw_price tick)) (\<lambda>price.
      mbind (self_result (\<lambda>r. entry_quantity D r price)) (\<lambda>quantity.
      mbind (lift (lot_size D (ex_instrument s))) (\<lambda>lot.
      mbind (lift (quantize_decimal_down D quantity lot)) (\<lambda>sz.
      mbind (lift (min_size D (ex_instrument s))) (\<lambda>min_sz.
      mdo (lift (expect (sz \<ge> min_sz) ''entry size is below OKX minSz''))
      (mbind (self_result (\<lambda>r. some_or ''entry fee rate is not initialized''
                (rn_entry_fee_cost_rate r))) (\<lambda>fee.
      mbind (lift (dec_sub D 1 fee)) (\<lambda>keep.
      mbind (lift (dec_mul D sz keep)) (\<lambda>net_size.
      mbind (lift (quantize_decimal_down D net_size lot)) (\<lambda>net_protectable_size.
      mdo (lift (expect (net_protectable_size \<ge> min_sz)
             ''entry size after the maker fee is below OKX minSz''))
      (mdo (lift (ensure_limit_size D (ex_instrument s) sz ''entry size''))
      (mdo (self_result (\<lambda>r. ensure_entry_notional_within_cap D r sz price))
      (mbind (lift (some_or ''entry quote notional overflowed Decimal'' (d_mul D sz price)))
        (\<lambda>quote_notional.
      mdo (ensure_order_quote_amount E quote_notional ''entry quote notional'')
      (mbind (next_client_order_id E Entry) (\<lambda>cid.
      mdo record_order_decision
      (mdo (place_order E Buy PostOnly (decimal_to_okx D sz) (Some (decimal_to_okx D price)) cid)
      (exchange_mut (\<lambda>s. s\<lparr> ex_entry_order := Some (new_tracked_order cid) \<rparr>))))))))))))))))))))))"

definition evaluate_entry :: "OkxClient \<Rightarrow> unit act" where
  "evaluate_entry E =
     mbind (self_result entry_preconditions_met) (\<lambda>allowed.
     if \<not> allowed then mret ()
     else
       mbind (get_ticker E) (\<lambda>t.
       mbind (lift (bid_decimal (cl_decimal E) t)) (\<lambda>bid.
       mbind (self_result (\<lambda>r. entry_price_from_bid (cl_decimal E) (rn_signal r) bid)) (\<lambda>raw.
       case raw of None \<Rightarrow> mret () | Some raw_price \<Rightarrow> submit_entry E raw_price))))"

end
