(* ===== verification/Strategy_Reconstruct.thy ===== *)
theory Strategy_Reconstruct
  imports Strategy_Refresh
begin

text \<open>
  \<open>strategies/okx_ema_atr_maker_trend.rs\<close>: reconstructing orders and position from the exchange
  (\<open>reconstruct_exchange_state\<close> and its helpers).
\<close>

section \<open>Evidence from the exchange\<close>

definition append_one_targeted ::
    "OkxClient \<Rightarrow> string \<Rightarrow> OkxOrder list \<times> string set \<Rightarrow> string \<Rightarrow> (OkxOrder list \<times> string set) act" where
  "append_one_targeted E tag acc cid =
     (if cid \<in> snd acc \<or> parse_strategy_client_order_id cid tag = None then mret acc
      else
        mbind (get_order E cid) (\<lambda>answer.
        case answer of None \<Rightarrow> mret acc
        | Some o1 \<Rightarrow> mret (append_strategy_order_evidence tag acc o1)))"

definition tracked_order_ids :: "ExchangeState \<Rightarrow> string list" where
  "tracked_order_ids s =
     List.map_filter (map_option to_client_order_id)
       [ex_entry_order s, ex_take_profit_order s, ex_stop_loss_exit_order s]"

definition append_targeted_strategy_order_evidence ::
    "OkxClient \<Rightarrow> string \<Rightarrow> OkxOrder list \<Rightarrow> OkxOrder list act" where
  "append_targeted_strategy_order_evidence E tag evidence =
     mbind (asks rn_exchange) (\<lambda>x.
     case x of None \<Rightarrow> mret evidence
     | Some s \<Rightarrow>
         mbind (mfold (append_one_targeted E tag) (evidence, strategy_order_evidence_ids evidence)
                  (tracked_order_ids s)) (\<lambda>acc. mret (fst acc)))"

definition append_broad_history_fallback_evidence ::
    "OkxClient \<Rightarrow> string \<Rightarrow> OkxOrder list \<Rightarrow> (OkxOrder list \<times> OkxFill list) act" where
  "append_broad_history_fallback_evidence E tag evidence =
     mbind (instrument_call GetOrderHistory (cl_order_history E)) (\<lambda>order_history.
     let acc = foldl (append_strategy_order_evidence tag)
                 (evidence, strategy_order_evidence_ids evidence) order_history in
     mbind (instrument_call GetOrderFills (cl_order_fills E)) (\<lambda>fills. mret (fst acc, fills)))"

section \<open>From evidence to a position\<close>

definition reconstruct_position_from_evidence ::
    "decimal_ops \<Rightarrow> OkxEmaAtrMakerTrendRunner \<Rightarrow> StrategyBalance \<Rightarrow> StrategyFillEvidence list \<Rightarrow>
      PositionEvidenceAttempt \<Rightarrow> PositionReconstruction res" where
  "reconstruct_position_from_evidence D r balance evidence attempt =
     rbind (strategy_net_filled_position D evidence) (\<lambda>owned.
     rbind (exchange_of r) (\<lambda>s.
     rbind (lot_size D (ex_instrument s)) (\<lambda>lot.
     rbind (decimal_distance D (sb_total balance) owned) (\<lambda>inventory_distance.
     if sb_tradeable_quantity balance \<le> 0 then
       (if inventory_distance \<ge> lot then Inr (NeedsMoreEvidence (InventoryMismatch owned))
        else Inr NoPosition)
     else
       rbind (strategy_entry_average_price D evidence) (\<lambda>status.
       case status of
         NoEntryFill \<Rightarrow> Inr (NeedsMoreEvidence MissingCostBasis)
       | MissingPrice \<Rightarrow>
           (case attempt of InitialAttempt \<Rightarrow> Inr (NeedsMoreEvidence MissingCostBasis)
            | FinalAttempt \<Rightarrow> strategy_fail ''OKX entry fill is missing avgPx'')
       | ReconstructedPrice average_price \<Rightarrow>
           if inventory_distance \<ge> lot then Inr (NeedsMoreEvidence (InventoryMismatch owned))
           else
             rbind (stop_loss_trigger D r average_price) (\<lambda>trigger.
             Inr (Reconstructed
               \<lparr> op_quantity = sb_tradeable_quantity balance, op_average_price = average_price,
                 op_stop_loss_trigger = trigger \<rparr>)))))))"

definition finalize_reconstructed_position ::
    "OkxEmaAtrMakerTrendRunner \<Rightarrow> StrategyBalance \<Rightarrow> PositionReconstruction \<Rightarrow> OpenPosition option res"
where
  "finalize_reconstructed_position r balance rec =
     (case rec of
        NoPosition \<Rightarrow> Inr None
      | Reconstructed p \<Rightarrow> Inr (Some p)
      | NeedsMoreEvidence MissingCostBasis \<Rightarrow>
          strategy_fail ''cannot reconstruct OKX strategy position cost basis''
      | NeedsMoreEvidence (InventoryMismatch owned) \<Rightarrow>
          rbind (exchange_of r) (\<lambda>_.
          if sb_total balance > owned
          then strategy_fail ''reconstructed balance exceeds strategy-tagged net filled quantity''
          else strategy_fail ''strategy-tagged net filled quantity exceeds reconstructed balance''))"

definition validate_reconstructed_live_protection ::
    "decimal_ops \<Rightarrow> OkxEmaAtrMakerTrendRunner \<Rightarrow> OkxOrder list \<Rightarrow> TrackedAlgoOrder option \<Rightarrow>
      OpenPosition option \<Rightarrow> string \<Rightarrow> unit res" where
  "validate_reconstructed_live_protection D r open_orders stop_loss_order position tag =
     (case position of
        None \<Rightarrow> Inr ()
      | Some p \<Rightarrow>
          rbind (case find (live_matches tag TakeProfit Sell) open_orders of
                   None \<Rightarrow> Inr ()
                 | Some o1 \<Rightarrow>
                     rbind (take_profit_order_matches_position D r o1 p) (\<lambda>same.
                     expect same ''live OKX take-profit order does not match position'')) (\<lambda>_.
          case stop_loss_order of
            None \<Rightarrow> Inr ()
          | Some a \<Rightarrow>
              rbind (stop_loss_order_matches_position D r a p) (\<lambda>same.
              expect same ''live OKX stop-loss algo does not match position'')))"

section \<open>The reconstruction\<close>

text \<open>What the open orders say the strategy has live on the exchange.\<close>

record LiveOrders =
  lo_entry :: "TrackedOrder option"
  lo_take_profit :: "TrackedOrder option"
  lo_stop_loss_exit :: "TrackedOrder option"
  lo_stop_loss :: "TrackedAlgoOrder option"

definition classify_live_orders ::
    "decimal_ops \<Rightarrow> OkxEmaAtrMakerTrendRunner \<Rightarrow> OkxOrder list \<Rightarrow> OkxAlgoOrder list \<Rightarrow> LiveOrders res" where
  "classify_live_orders D r open_orders open_algo_orders =
     (let tag = strategy_tag (rn_instance_id r) in
      rbind (reject_live_legacy_strategy_ids open_orders open_algo_orders (rn_instance_id r) tag
               (rn_configured_strategy_tags r)) (\<lambda>_.
      rbind (exchange_of r) (\<lambda>s.
      rbind (find_live_strategy_order D open_orders tag Entry Buy (ex_instrument s)) (\<lambda>entry.
      rbind (find_live_strategy_order D open_orders tag TakeProfit Sell (ex_instrument s)) (\<lambda>tp.
      rbind (find_live_strategy_order D open_orders tag StopLoss Sell (ex_instrument s)) (\<lambda>exit_order.
      rbind (find_live_strategy_stop_loss_algo D open_algo_orders tag) (\<lambda>stop.
      rbind (reject_unknown_live_strategy_orders open_orders tag) (\<lambda>_.
      rbind (reject_unknown_live_strategy_algo_orders open_algo_orders tag) (\<lambda>_.
      Inr \<lparr> lo_entry = entry, lo_take_profit = tp, lo_stop_loss_exit = exit_order,
            lo_stop_loss = stop \<rparr>)))))))))"

definition gather_position ::
    "OkxClient \<Rightarrow> string \<Rightarrow> StrategyBalance \<Rightarrow> OkxOrder list \<Rightarrow> OpenPosition option act" where
  "gather_position E tag balance open_orders =
     (let D = cl_decimal E in
      mbind exchange (\<lambda>s.
      mbind (lift (lot_size D (ex_instrument s))) (\<lambda>lot.
      mbind (if sb_total balance \<ge> lot
             then append_targeted_strategy_order_evidence E tag
                    (strategy_order_evidence_from_orders open_orders tag)
             else mret (strategy_order_evidence_from_orders open_orders tag)) (\<lambda>orders.
      mbind (lift (strategy_fill_evidence D orders [] tag (ex_instrument s))) (\<lambda>evidence.
      mbind (self_result (\<lambda>r. reconstruct_position_from_evidence D r balance evidence InitialAttempt))
        (\<lambda>first.
      mbind (case first of
               NeedsMoreEvidence _ \<Rightarrow>
                 mbind (append_broad_history_fallback_evidence E tag orders) (\<lambda>broad.
                 mbind (lift (strategy_fill_evidence D (fst broad) (snd broad) tag (ex_instrument s)))
                   (\<lambda>evidence.
                 self_result (\<lambda>r. reconstruct_position_from_evidence D r balance evidence FinalAttempt)))
             | _ \<Rightarrow> mret first) (\<lambda>final.
      self_result (\<lambda>r. finalize_reconstructed_position r balance final))))))))"

definition accept_reconstruction :: "LiveOrders \<Rightarrow> OpenPosition option \<Rightarrow> ExchangeState \<Rightarrow> ExchangeState" where
  "accept_reconstruction live position s =
     s\<lparr> ex_entry_order := lo_entry live, ex_take_profit_order := lo_take_profit live,
        ex_stop_loss_order := lo_stop_loss live, ex_stop_loss_exit_order := lo_stop_loss_exit live,
        ex_position := position,
        ex_stop_loss_pending :=
          (if lo_stop_loss_exit live \<noteq> None then Some ExitReconciliation else None) \<rparr>"

definition reconstruct_exchange_state :: "OkxClient \<Rightarrow> unit act" where
  "reconstruct_exchange_state E =
     (let D = cl_decimal E in
      mbind (asks (\<lambda>r. strategy_tag (rn_instance_id r))) (\<lambda>tag.
      mbind (instrument_call GetOpenOrders (cl_open_orders E)) (\<lambda>open_orders.
      mbind (instrument_call GetOpenAlgoOrders (cl_open_algo_orders E)) (\<lambda>open_algo_orders.
      mbind (self_result (\<lambda>r. classify_live_orders D r open_orders open_algo_orders)) (\<lambda>live.
      mbind (request GetBalances (cl_balances E)) (\<lambda>balances.
      mbind (self_result (\<lambda>r. reconstruct_strategy_balance D r balances)) (\<lambda>balance.
      mbind (gather_position E tag balance open_orders) (\<lambda>position.
      mdo (lift (expect (\<not> (position = None \<and> lo_take_profit live \<noteq> None))
             ''live strategy take-profit order exists but no strategy-owned balance was reconstructed''))
      (mdo (lift (expect (\<not> (position = None \<and> lo_stop_loss live \<noteq> None))
             ''live strategy stop-loss algo exists but no strategy-owned balance was reconstructed''))
      (mdo (lift (expect (\<not> (position = None \<and> lo_stop_loss_exit live \<noteq> None))
             ''live strategy market exit exists but no strategy-owned balance was reconstructed''))
      (mdo (self_result (\<lambda>r. validate_reconstructed_live_protection D r open_orders
              (lo_stop_loss live) position tag))
      (exchange_mut (accept_reconstruction live position)))))))))))))"

end
