(* ===== verification/Strategy_Runner.thy ===== *)
theory Strategy_Runner
  imports Strategy_Reconstruct
begin

text \<open>
  \<open>strategies/okx_ema_atr_maker_trend.rs\<close> and \<open>shutdown.rs\<close>: construction of the runner, its event
  handlers and the shutdown.
\<close>

section \<open>Construction\<close>

text \<open>The map lookup is \<open>map_of\<close>; \<open>from_validated_instance\<close> is the only constructor outside tests.\<close>

definition from_instance_with_context ::
    "decimal_ops \<Rightarrow> StrategyInstanceConfig list \<Rightarrow> StrategyInstanceConfig \<Rightarrow>
      ValidatedTradingInstrument option \<Rightarrow> OkxEmaAtrMakerTrendRunner res" where
  "from_instance_with_context D instances i v =
     (let p = si_params i; instrument_id = si_instrument_id i;
          cap = (case map_of (sc_max_quote_notional_by_instrument p) instrument_id of
                   Some m \<Rightarrow> Some m | None \<Rightarrow> sc_max_quote_notional p) in
      rbind (some_or ''MAX_MAKER_FEE_RATE must be a decimal'' (d_parse D MAX_MAKER_FEE_RATE)) (\<lambda>maker.
      rbind (some_or ''MAX_TAKER_FEE_RATE must be a decimal'' (d_parse D MAX_TAKER_FEE_RATE)) (\<lambda>taker.
      Inr \<lparr> rn_instance_id = si_id i,
            rn_configured_strategy_tags =
              configured_strategy_tags_for_instrument instances instrument_id,
            rn_instrument_id = instrument_id, rn_validated_instrument = v,
            rn_quantity = sc_quantity p,
            rn_operator_owned_base_balance = sc_operator_owned_base_balance p,
            rn_max_entry_order_age_ms = sc_max_entry_order_age_ms p, rn_max_quote_notional = cap,
            rn_take_profit_atr_multiple = sc_take_profit_atr_multiple p,
            rn_stop_loss_atr_multiple = sc_stop_loss_atr_multiple p,
            rn_entry_fee_cost_rate = Some maker, rn_exit_fee_cost_rate = Some taker,
            rn_signal = signal_new (sc_fast_ema_period p) (sc_slow_ema_period p) (sc_atr_period p)
              (sc_entry_offset_atr_multiple p) (sc_min_entry_offset_bps p) (sc_max_entry_offset_bps p),
            rn_exchange = None \<rparr>)))"

definition from_validated_instance ::
    "decimal_ops \<Rightarrow> StrategyInstanceConfig list \<Rightarrow> StrategyInstanceConfig \<Rightarrow>
      ValidatedTradingInstrument \<Rightarrow> OkxEmaAtrMakerTrendRunner res" where
  "from_validated_instance D instances i v =
     rbind (expect (si_instrument_id i = vi_inst_id v)
              ''requested instrument differs from the validated context'') (\<lambda>_.
     from_instance_with_context D instances i (Some v))"

section \<open>Signal updates\<close>

definition update_signal :: "OkxClient \<Rightarrow> MarketBar \<Rightarrow> bool act" where
  "update_signal E b c =
     (let r = cx_runner c; u = update_from_bar (cl_decimal E) (rn_signal r) b in
      (fst u, c\<lparr> cx_runner := r\<lparr> rn_signal := snd u \<rparr> \<rparr>))"

definition store_cost_rate :: "decimal \<Rightarrow> unit act" where
  "store_cost_rate rate c =
     (let r = cx_runner c; u = set_round_trip_cost_rate (rn_signal r) rate in
      (fst u, c\<lparr> cx_runner := r\<lparr> rn_signal := snd u \<rparr> \<rparr>))"

definition configure_fee_schedule :: "OkxClient \<Rightarrow> OkxTradeFeeRate \<Rightarrow> unit act" where
  "configure_fee_schedule E fee =
     (let D = cl_decimal E in
      mdo (self_result (\<lambda>r. fee_ensure_spot fee (rn_instrument_id r)))
      (mbind (lift (normalized_maker_cost_rate D fee)) (\<lambda>maker_raw.
      mbind (lift (normalized_taker_cost_rate D fee)) (\<lambda>taker_raw.
      let maker = max maker_raw 0; taker = max taker_raw 0 in
      mdo (lift (expect (maker < 1 \<and> taker < 1) ''OKX SPOT fee costs must be below one''))
      (mbind (lift (dec_add D maker taker)) (\<lambda>round_trip.
      mdo (store_cost_rate round_trip)
      (modifies (\<lambda>r. r\<lparr> rn_entry_fee_cost_rate := Some maker, rn_exit_fee_cost_rate := Some taker \<rparr>))))))))"

definition warmup_bar :: "OkxClient \<Rightarrow> nat \<times> int option \<Rightarrow> MarketBar \<Rightarrow> (nat \<times> int option) act" where
  "warmup_bar E acc b =
     mbind (update_signal E b) (\<lambda>applied.
     mret ((if applied then fst acc + 1 else fst acc), Some (mb_ts_ms b)))"

definition apply_startup_warmup :: "OkxClient \<Rightarrow> WarmupSummary act" where
  "apply_startup_warmup E =
     mbind (instrument_call (\<lambda>i. GetCandles i OKX_EMA_ATR_MAKER_TREND_BAR HISTORICAL_WARMUP_BARS)
              (cl_candles E)) (\<lambda>bars.
     let confirmed = confirmed_bars_chronological bars in
     mbind (mfold (warmup_bar E) (0, None) confirmed) (\<lambda>acc.
     mdo (self_result (\<lambda>r. expect (signal_ready (rn_signal r))
            ''requires initialized EMA/ATR before live startup''))
     (mret \<lparr> ws_confirmed_bar_count = length confirmed, ws_applied_bars = fst acc,
             ws_last_bar_ts_ms = snd acc \<rparr>)))"

definition refresh_one_bar :: "OkxClient \<Rightarrow> MarketBar \<Rightarrow> unit act" where
  "refresh_one_bar E b =
     mbind exchange (\<lambda>s.
     if (case ex_last_bar_ts_ms s of None \<Rightarrow> False | Some l \<Rightarrow> mb_ts_ms b \<le> l) then mret ()
     else
       mdo (exchange_mut (\<lambda>s. s\<lparr> ex_last_bar_ts_ms := Some (mb_ts_ms b) \<rparr>))
       (mbind (update_signal E b) (\<lambda>_. mret ())))"

definition refresh_bars :: "OkxClient \<Rightarrow> unit act" where
  "refresh_bars E =
     mbind (instrument_call (\<lambda>i. GetLiveCandles i OKX_EMA_ATR_MAKER_TREND_BAR 3) (cl_live_candles E))
       (\<lambda>bars. mfold (\<lambda>_ b. refresh_one_bar E b) () (confirmed_bars_chronological bars))"

section \<open>Start-up\<close>

definition prepare_startup_exchange_state :: "OkxClient \<Rightarrow> WarmupSummary act" where
  "prepare_startup_exchange_state E =
     mbind (self_result validated_instrument_for_order) (\<lambda>v.
     mbind (instrument_call GetSpotTradeFee (cl_spot_trade_fee E)) (\<lambda>fee.
     mdo (configure_fee_schedule E fee)
     (mbind (apply_startup_warmup E) (\<lambda>warmup.
     mdo (modifies (\<lambda>r. r\<lparr> rn_exchange := Some
            \<lparr> ex_instrument = vi_instrument v, ex_last_bar_ts_ms = ws_last_bar_ts_ms warmup,
              ex_entry_order = None, ex_take_profit_order = None, ex_stop_loss_order = None,
              ex_stop_loss_exit_order = None, ex_position = None, ex_stop_loss_pending = None \<rparr> \<rparr>))
     (mret warmup)))))"

definition ensure_position_protection :: "OkxClient \<Rightarrow> unit act" where
  "ensure_position_protection E = mdo (ensure_take_profit_order E) (ensure_stop_loss_order E)"

definition protect_reconstructed_startup_state :: "OkxClient \<Rightarrow> unit act" where
  "protect_reconstructed_startup_state E =
     mdo (reconstruct_exchange_state E) (ensure_position_protection E)"

definition initialize :: "OkxClient \<Rightarrow> unit act" where
  "initialize E =
     mdo (prepare_startup_exchange_state E) (protect_reconstructed_startup_state E)"

definition ensure_initialized :: "OkxClient \<Rightarrow> unit act" where
  "ensure_initialized E = mbind (asks rn_exchange) (\<lambda>x. mwhen (x = None) (initialize E))"

section \<open>Event handlers\<close>

definition refresh_tracked_orders :: "OkxClient \<Rightarrow> unit act" where
  "refresh_tracked_orders E =
     mdo (refresh_entry_order E) (mdo (refresh_take_profit_order E)
     (mdo (refresh_stop_loss_order E) (refresh_stop_loss_exit_order E)))"

definition enforce_tick_exit_protection :: "OkxClient \<Rightarrow> unit act" where
  "enforce_tick_exit_protection E =
     mdo (ensure_stop_loss_order E) (mdo (evaluate_stop_loss E) (ensure_position_protection E))"

definition on_confirmed_candle :: "OkxClient \<Rightarrow> unit act" where
  "on_confirmed_candle E =
     mdo (ensure_initialized E) (mdo (refresh_bars E) (mdo (refresh_tracked_orders E)
     (mdo (enforce_tick_exit_protection E) (evaluate_entry E))))"

definition tick :: "OkxClient \<Rightarrow> unit act" where
  "tick E = on_confirmed_candle E"

definition on_private_event :: "OkxClient \<Rightarrow> unit act" where
  "on_private_event E =
     mdo (ensure_initialized E) (mdo (refresh_tracked_orders E) (enforce_tick_exit_protection E))"

definition on_reconcile_timer :: "OkxClient \<Rightarrow> unit act" where
  "on_reconcile_timer E =
     mdo (ensure_initialized E) (mdo (refresh_bars E) (mdo (refresh_tracked_orders E)
     (enforce_tick_exit_protection E)))"

definition on_instrument_update :: "OkxClient \<Rightarrow> unit act" where
  "on_instrument_update E =
     mdo (ensure_initialized E)
     (mbind (instrument_call GetInstrument (cl_instruments E)) (\<lambda>current.
     mbind (self_result validated_instrument_for_order) (\<lambda>v.
     mdo (lift (ensure_public_refresh_matches (cl_decimal E) v current))
     (mdo (exchange_mut (\<lambda>s. s\<lparr> ex_instrument := vi_instrument v \<rparr>))
     (mdo (reconstruct_exchange_state E) (ensure_position_protection E))))))"

definition reconcile_after_interrupted_tick :: "OkxClient \<Rightarrow> unit act" where
  "reconcile_after_interrupted_tick E =
     mbind (asks rn_exchange) (\<lambda>x.
     if x = None then initialize E
     else
       mdo (reconstruct_exchange_state E) (mdo (refresh_tracked_orders E)
       (mdo (evaluate_stop_loss E) (ensure_position_protection E))))"

section \<open>Shutdown\<close>

definition regular_order_is_live :: "OkxClient \<Rightarrow> string \<Rightarrow> bool act" where
  "regular_order_is_live E cid =
     mbind (get_order E cid) (\<lambda>answer.
     mret (case answer of None \<Rightarrow> False | Some o1 \<Rightarrow> is_live o1))"

definition cancel_shutdown_entry_order :: "OkxClient \<Rightarrow> unit act" where
  "cancel_shutdown_entry_order E =
     mbind exchange (\<lambda>s.
     case ex_entry_order s of None \<Rightarrow> mret ()
     | Some t \<Rightarrow>
         let cid = to_client_order_id t in
         mdo (cancel_tracked_entry_order E cid)
         (mdo (refresh_entry_order E)
         (mbind (regular_order_is_live E cid) (\<lambda>live.
         mdo (lift (expect (\<not> live) ''shutdown left live OKX entry order''))
         (mbind exchange (\<lambda>s.
          if ex_position s \<noteq> None then mret ()
          else
            mwhen (case ex_entry_order s of None \<Rightarrow> False | Some u \<Rightarrow> to_client_order_id u = cid)
              (exchange_mut (\<lambda>s. s\<lparr> ex_entry_order := None \<rparr>))))))))"

definition shutdown_take_profit :: "OkxClient \<Rightarrow> unit act" where
  "shutdown_take_profit E =
     mbind exchange (\<lambda>s.
     case ex_take_profit_order s of None \<Rightarrow> mret ()
     | Some t \<Rightarrow>
         mdo (cancel_take_profit_order E)
         (mbind (regular_order_is_live E (to_client_order_id t)) (\<lambda>live.
         mdo (lift (expect (\<not> live) ''shutdown left live OKX take-profit order''))
         (exchange_mut (\<lambda>s. s\<lparr> ex_take_profit_order := None \<rparr>)))))"

definition shutdown_stop_loss :: "OkxClient \<Rightarrow> unit act" where
  "shutdown_stop_loss E =
     mbind exchange (\<lambda>s.
     case ex_stop_loss_order s of None \<Rightarrow> mret ()
     | Some a \<Rightarrow>
         mdo (cancel_stop_loss_order E)
         (mdo (refresh_stop_loss_order E)
         (mbind exchange (\<lambda>s.
          lift (expect (ex_stop_loss_order s = None) ''shutdown left live OKX stop-loss algo'')))))"

definition shutdown_stop_loss_exit :: "OkxClient \<Rightarrow> unit act" where
  "shutdown_stop_loss_exit E =
     mbind exchange (\<lambda>s.
     case ex_stop_loss_exit_order s of None \<Rightarrow> mret ()
     | Some t \<Rightarrow>
         mdo (cancel_stop_loss_exit_order E)
         (mbind (regular_order_is_live E (to_client_order_id t)) (\<lambda>live.
         mdo (lift (expect (\<not> live) ''shutdown left live OKX stop-loss exit order''))
         (exchange_mut (\<lambda>s. s\<lparr> ex_stop_loss_exit_order := None \<rparr>)))))"

definition shutdown_without_position :: "OkxClient \<Rightarrow> unit act" where
  "shutdown_without_position E =
     mdo (shutdown_take_profit E) (mdo (shutdown_stop_loss E)
     (mdo (shutdown_stop_loss_exit E) clear_position_state))"

definition still_pending_without_exit :: "ExchangeState \<Rightarrow> bool" where
  "still_pending_without_exit s =
     (ex_position s \<noteq> None \<and> ex_stop_loss_order s = None \<and> ex_stop_loss_exit_order s = None)"

definition shutdown_pending_take_profit :: "OkxClient \<Rightarrow> TrackedOrder \<Rightarrow> unit act" where
  "shutdown_pending_take_profit E t =
     mbind (regular_order_is_live E (to_client_order_id t)) (\<lambda>live.
     if live
     then mdo (cancel_take_profit_order E)
            (lift (strategy_fail ''shutdown found pending OKX stop-loss while take-profit is live''))
     else refresh_take_profit_order E)"

definition reconcile_shutdown_pending_stop_loss :: "OkxClient \<Rightarrow> unit act" where
  "reconcile_shutdown_pending_stop_loss E =
     mbind (asks rn_exchange) (\<lambda>x.
     case x of None \<Rightarrow> mret ()
     | Some s \<Rightarrow>
         if \<not> still_pending_without_exit s \<or> ex_stop_loss_pending s = None then mret ()
         else
           mdo (case ex_take_profit_order s of None \<Rightarrow> mret ()
                | Some t \<Rightarrow> shutdown_pending_take_profit E t)
           (mbind exchange (\<lambda>s.
            if \<not> still_pending_without_exit s then mret () else evaluate_stop_loss E)))"

definition shutdown_with_position :: "OkxClient \<Rightarrow> unit act" where
  "shutdown_with_position E =
     mdo (refresh_take_profit_order E) (mdo (refresh_stop_loss_order E)
     (mdo (refresh_stop_loss_exit_order E) (mdo (evaluate_stop_loss E)
     (mdo (reconcile_shutdown_pending_stop_loss E)
     (mbind exchange (\<lambda>s.
      if ex_position s = None then shutdown_without_position E
      else
        mdo (ensure_take_profit_order E) (mdo (ensure_stop_loss_order E)
        (mbind exchange (\<lambda>s.
         mdo (lift (expect (ex_stop_loss_order s \<noteq> None \<or> ex_stop_loss_exit_order s \<noteq> None)
                ''shutdown found an open position without stop-loss protection''))
         (lift (expect (ex_take_profit_order s \<noteq> None \<or> ex_stop_loss_exit_order s \<noteq> None)
                ''shutdown found an open position without take-profit or active exit protection'')))))))))))"

definition reconcile_shutdown_position :: "OkxClient \<Rightarrow> unit act" where
  "reconcile_shutdown_position E =
     mbind exchange (\<lambda>s.
     if ex_position s = None then shutdown_without_position E else shutdown_with_position E)"

definition shutdown :: "OkxClient \<Rightarrow> unit act" where
  "shutdown E =
     mdo (ensure_initialized E) (mdo (refresh_tracked_orders E)
     (mdo (cancel_shutdown_entry_order E) (mdo (reconcile_shutdown_position E)
     (mbind exchange (\<lambda>_. mret ())))))"

end
