(* ===== verification/Strategy_Dispatch.thy ===== *)
theory Strategy_Dispatch
  imports Strategy_Runner
begin

text \<open>
  \<open>app/strategy_tick_failure.rs\<close> and \<open>app/strategy_tick_execution.rs\<close>: delivering an event to the
  strategies it concerns, counting consecutive failures, and reconciling after a tick that ran out of
  time.

  A tick whose result is \<open>Inl Panic\<close> is one whose future was dropped at the time-out (see
  \<open>Strategy_Monad\<close>); a real panic aborts the process, after which nothing happens.  The error the
  runtime stops with is only displayed, so it is a \<open>rt_error\<close>.
\<close>

section \<open>Consecutive failures\<close>

definition MAX_CONSECUTIVE_STRATEGY_TICK_FAILURES :: nat where
  "MAX_CONSECUTIVE_STRATEGY_TICK_FAILURES = 3"

datatype StrategyTickFailure = Retry nat | Stop nat

text \<open>The tracker is its vector of counters.\<close>

type_synonym StrategyTickFailureTracker = "nat list"

definition tracker_new :: "nat \<Rightarrow> StrategyTickFailureTracker" where
  "tracker_new strategy_count = replicate strategy_count 0"

definition untracked :: "'a res" where
  "untracked = Inl (Fail (Bad ''strategy index'' ''is not tracked by the tick failure tracker''))"

definition record_success ::
    "StrategyTickFailureTracker \<Rightarrow> nat \<Rightarrow> unit res \<times> StrategyTickFailureTracker" where
  "record_success t i = (if i < length t then (Inr (), t[i := 0]) else (untracked, t))"

definition record_failure ::
    "StrategyTickFailureTracker \<Rightarrow> nat \<Rightarrow> StrategyTickFailure res \<times> StrategyTickFailureTracker" where
  "record_failure t i =
     (if i < length t then
        let n = t ! i + 1 in
        (Inr (if n \<ge> MAX_CONSECUTIVE_STRATEGY_TICK_FAILURES then Stop n else Retry n), t[i := n])
      else (untracked, t))"

definition has_failures :: "StrategyTickFailureTracker \<Rightarrow> bool" where
  "has_failures t = list_ex (\<lambda>n. n > 0) t"

definition record_strategy_tick_failure ::
    "StrategyTickFailureTracker \<Rightarrow> nat \<Rightarrow> rt_error \<Rightarrow> rt_error option res \<times> StrategyTickFailureTracker" where
  "record_strategy_tick_failure t i err =
     (case record_failure t i of
        (Inl e, t') \<Rightarrow> (Inl e, t')
      | (Inr (Retry n), t') \<Rightarrow> (Inr None, t')
      | (Inr (Stop n), t') \<Rightarrow> (Inr (Some (Bad ''consecutive ticks failed; stopping runtime'' [])), t'))"

section \<open>Dispatch\<close>

datatype StrategyDispatch =
    ConfirmedCandle string | PrivateEvent "string option" | InstrumentUpdated string
  | ReconcileTimer | StreamStateChanged

definition dispatch_matches_strategy :: "StrategyDispatch \<Rightarrow> OkxEmaAtrMakerTrendRunner \<Rightarrow> bool" where
  "dispatch_matches_strategy d r =
     (case d of
        ConfirmedCandle i \<Rightarrow> rn_instrument_id r = i
      | InstrumentUpdated i \<Rightarrow> rn_instrument_id r = i
      | PrivateEvent (Some i) \<Rightarrow> rn_instrument_id r = i
      | PrivateEvent None \<Rightarrow> True
      | ReconcileTimer \<Rightarrow> True
      | StreamStateChanged \<Rightarrow> True)"

definition dispatch_work :: "StrategyDispatch \<Rightarrow> OkxClient \<Rightarrow> unit act" where
  "dispatch_work d E =
     (case d of
        ConfirmedCandle _ \<Rightarrow> on_confirmed_candle E
      | PrivateEvent _ \<Rightarrow> on_private_event E
      | InstrumentUpdated _ \<Rightarrow> on_instrument_update E
      | ReconcileTimer \<Rightarrow> on_reconcile_timer E
      | StreamStateChanged \<Rightarrow> reconcile_after_interrupted_tick E)"

text \<open>\<open>reconcile_after_interrupted_strategy_tick\<close>: an error or a second time-out ends the runtime.\<close>

definition reconcile_after_interrupted_strategy_tick :: "OkxClient \<Rightarrow> run_context \<Rightarrow> unit res \<times> run_context"
where
  "reconcile_after_interrupted_strategy_tick E c =
     (case reconcile_after_interrupted_tick E c of
        (Inr _, c') \<Rightarrow> (Inr (), c')
      | (Inl (Fail e), c') \<Rightarrow> (Inl (Fail (Bad ''REST reconciliation failed'' [])), c')
      | (Inl Panic, c') \<Rightarrow> (Inl (Fail (Bad ''bounded REST reconciliation also timed out'' [])), c'))"

definition handle_strategy_tick_timeout ::
    "OkxClient \<Rightarrow> nat \<Rightarrow> StrategyTickFailureTracker \<times> run_context \<Rightarrow>
      rt_error option res \<times> StrategyTickFailureTracker \<times> run_context" where
  "handle_strategy_tick_timeout E i st =
     (case record_strategy_tick_failure (fst st) i (Bad ''strategy_tick_timeout'' []) of
        (Inl e, t) \<Rightarrow> (Inl e, t, snd st)
      | (Inr (Some e), t) \<Rightarrow> (Inr (Some e), t, snd st)
      | (Inr None, t) \<Rightarrow>
          (case reconcile_after_interrupted_strategy_tick E (snd st) of
             (Inl e, c) \<Rightarrow> (Inl e, t, c)
           | (Inr _, c) \<Rightarrow> (Inr None, t, c)))"

definition tick_strategy_with_timeout ::
    "OkxClient \<Rightarrow> nat \<Rightarrow> StrategyDispatch \<Rightarrow> StrategyTickFailureTracker \<times> run_context \<Rightarrow>
      rt_error option res \<times> StrategyTickFailureTracker \<times> run_context" where
  "tick_strategy_with_timeout E i d st =
     (case dispatch_work d E (snd st) of
        (Inr _, c) \<Rightarrow>
          (case record_success (fst st) i of
             (Inl e, t) \<Rightarrow> (Inl e, t, c) | (Inr _, t) \<Rightarrow> (Inr None, t, c))
      | (Inl (Fail e), c) \<Rightarrow>
          (case record_strategy_tick_failure (fst st) i e of (r, t) \<Rightarrow> (r, t, c))
      | (Inl Panic, c) \<Rightarrow> handle_strategy_tick_timeout E i (fst st, c))"

text \<open>
  The strategies share the client and the identifier sequence: the trace and the counter are threaded
  through the runners in order.  An error or a stop ends the loop.
\<close>

record runtime =
  rt_strategies :: "OkxEmaAtrMakerTrendRunner list"
  rt_trace :: trace
  rt_sequence :: u64
  rt_tick_failures :: StrategyTickFailureTracker

fun execute_from :: "OkxClient \<Rightarrow> StrategyDispatch \<Rightarrow> nat list \<Rightarrow> runtime \<Rightarrow> rt_error option res \<times> runtime" where
  "execute_from E d [] w = (Inr None, w)"
| "execute_from E d (i # rest) w =
     (if \<not> dispatch_matches_strategy d (rt_strategies w ! i) then execute_from E d rest w
      else
        let c = \<lparr> cx_runner = rt_strategies w ! i, cx_trace = rt_trace w, cx_sequence = rt_sequence w \<rparr> in
        (case tick_strategy_with_timeout E i d (rt_tick_failures w, c) of
           (r, t, c') \<Rightarrow>
             let w' = \<lparr> rt_strategies = (rt_strategies w)[i := cx_runner c'], rt_trace = cx_trace c',
                        rt_sequence = cx_sequence c', rt_tick_failures = t \<rparr> in
             (case r of Inr None \<Rightarrow> execute_from E d rest w' | _ \<Rightarrow> (r, w'))))"

definition execute_strategy_dispatch ::
    "OkxClient \<Rightarrow> StrategyDispatch \<Rightarrow> runtime \<Rightarrow> rt_error option res \<times> runtime" where
  "execute_strategy_dispatch E d w = execute_from E d [0..<length (rt_strategies w)] w"

section \<open>Properties\<close>

text \<open>The result of a failure after \<open>k\<close> earlier ones in a row.\<close>

primrec fail_times :: "nat \<Rightarrow> nat \<Rightarrow> StrategyTickFailureTracker \<Rightarrow> StrategyTickFailureTracker" where
  "fail_times 0 i t = t"
| "fail_times (Suc k) i t = snd (record_failure (fail_times k i t) i)"

lemma fail_times_nth:
  "i < length t \<Longrightarrow> length (fail_times k i t) = length t \<and> fail_times k i t ! i = t ! i + k \<and>
    (\<forall>j. j \<noteq> i \<longrightarrow> j < length t \<longrightarrow> fail_times k i t ! j = t ! j)"
  by (induction k) (auto simp: record_failure_def Let_def nth_list_update)

text \<open>
  The runtime stops at the third consecutive failure of one strategy and not before: whatever the
  counters, after a success the next two failures are retried and the third stops, and the counters of
  the other strategies are left alone.
\<close>
theorem third_failure_stops:
  assumes "i < length t"
  shows "(case fst (record_strategy_tick_failure (fail_times k i (snd (record_success t i))) i e) of
      Inr r \<Rightarrow> r \<noteq> None \<longleftrightarrow> 2 \<le> k | Inl _ \<Rightarrow> False) \<and>
    list_all (\<lambda>j. fail_times k i (snd (record_success t i)) ! j = (if j = i then k else t ! j))
      [0..<length t]"
proof -
  have "length (snd (record_success t i)) = length t" "snd (record_success t i) ! i = 0"
      "\<forall>j. j \<noteq> i \<longrightarrow> snd (record_success t i) ! j = t ! j"
    using assms by (auto simp: record_success_def)
  with fail_times_nth [of i "snd (record_success t i)" k] assms show ?thesis
    by (auto simp: record_strategy_tick_failure_def record_failure_def Let_def
        MAX_CONSECUTIVE_STRATEGY_TICK_FAILURES_def list_all_iff)
qed

theorem third_failure_stops_witness:
  "fst (record_strategy_tick_failure (fail_times 2 1 (snd (record_success [0, 5, 1] 1))) 1 (Bad [] []))
    \<noteq> Inr None"
proof -
  have "1 < length [0, 5, 1 :: nat]" by simp
  from third_failure_stops [OF this, of 2 "Bad [] []"] show ?thesis by (auto split: sum.splits)
qed

end
