(* ===== verification/Runtime_Engine.thy ===== *)
theory Runtime_Engine
  imports Strategy_Dispatch Stream_Config Event_Delivery
begin

text \<open>
  \<open>app/live.rs\<close> with \<open>app/okx_startup_preflight.rs\<close>: the trading engine that owns the strategies, the
  dead-man switch, the streams and the event loop.

  The outside world is the record \<open>engine_env\<close>: the strategies' client, and the answers to the calls the
  engine makes itself.  The event loop is a fold over the branches \<open>select!\<close> took, one \<open>loop_input\<close> per
  turn, in any order: \<open>biased\<close> only removes orders.  A branch that is not enabled (its channel or timer is
  absent, or its guard is false) is never taken, so its input is passed over.  An input list that ends
  leaves the engine waiting.

  Not modelled: logging and latency recording (of which only the counter that triggers the report is
  state), the Level-2 shadow observation, which only logs, and the code of test builds.
\<close>

section \<open>Data\<close>

datatype RuntimeExitReason =
    OperatorShutdown | CancelAllAfterHeartbeatFailure | StrategyFailure | FatalRuntimeError

datatype RuntimeLoopDecision = Continue | ShutDown | Fatal RuntimeExitReason rt_error

text \<open>
  The heartbeat and the server-time refresher are running or not; the receiving ends of their failure
  channels are there or not.  \<open>eg_world\<close> holds the strategies, what they asked of the exchange, and the
  failure counters, which the loop creates.
\<close>

record TradingEngine =
  eg_config :: BotConfig
  eg_world :: runtime
  eg_cancel_all_after_timeout :: "OkxCancelAllAfterTimeout option"
  eg_cancel_all_after_armed :: bool
  eg_cancel_all_after_arm_attempted :: bool
  eg_heartbeat_running :: bool
  eg_heartbeat_failures :: bool
  eg_refresher_running :: bool
  eg_refresh_failures :: bool
  eg_market_stream_configs :: "OkxPublicMarketStreamConfig list"
  eg_market_streams :: "OkxPublicMarketStreamConfig list"
  eg_private_stream_configs :: "OkxPrivateStreamConfig list"
  eg_private_streams :: "OkxPrivateStreamConfig list"
  eg_health_tracker :: WebsocketHealthTracker
  eg_reconcile_requested :: bool
  eg_pending_confirmed_candles :: "(string, OkxPublicRuntimeEventKind) btree"
  eg_latency_report_ticks :: u64

record engine_env =
  ev_client :: OkxClient
  ev_client_from_config :: "BotConfig \<Rightarrow> unit res"
  ev_preflight_account_config :: "OkxAccountConfig res"
  ev_validate_trading_instrument ::
    "RequestedTradingInstrument \<Rightarrow> OkxAccountConfig \<Rightarrow> (ValidatedTradingInstrument \<times> OkxTradeFeeRate) res"
  ev_cancel_all_after :: "OkxCancelAllAfterTimeout \<Rightarrow> OkxCancelAllAfterAck list res"
  ev_startup_account_config :: "nat \<Rightarrow> OkxAccountConfig res"
  ev_stop_server_time_refresher :: "unit res"
  ev_stop_heartbeat :: "unit res"

section \<open>Construction\<close>

text \<open>\<open>ORDER_ID_SEQUENCE\<close> starts at one.\<close>

definition empty_runtime :: runtime where
  "empty_runtime = \<lparr> rt_strategies = [], rt_trace = [], rt_sequence = 1, rt_tick_failures = [] \<rparr>"

definition has_enabled_strategies :: "BotConfig \<Rightarrow> bool" where
  "has_enabled_strategies c = list_ex si_enabled (bc_instances c)"

definition build_trading_engine :: "engine_env \<Rightarrow> BotConfig \<Rightarrow> TradingEngine res" where
  "build_trading_engine V c =
     rbind (ev_client_from_config V c) (\<lambda>_.
     rbind (if \<not> has_enabled_strategies c then Inr None
            else rbind (cancel_all_after_timeout (rc_poll_interval_ms (bc_runtime c))) (\<lambda>t. Inr (Some t)))
       (\<lambda>timeout.
     Inr \<lparr> eg_config = c, eg_world = empty_runtime, eg_cancel_all_after_timeout = timeout,
           eg_cancel_all_after_armed = False, eg_cancel_all_after_arm_attempted = False,
           eg_heartbeat_running = False, eg_heartbeat_failures = False, eg_refresher_running = False,
           eg_refresh_failures = False, eg_market_stream_configs = [], eg_market_streams = [],
           eg_private_stream_configs = [], eg_private_streams = [],
           eg_health_tracker = health_tracker_new [], eg_reconcile_requested = False,
           eg_pending_confirmed_candles = [], eg_latency_report_ticks = 0 \<rparr>))"

fun build_validated_strategies ::
    "decimal_ops \<Rightarrow> StrategyInstanceConfig list \<Rightarrow> (string \<times> ValidatedTradingInstrument) list \<Rightarrow>
      StrategyInstanceConfig list \<Rightarrow> OkxEmaAtrMakerTrendRunner list res" where
  "build_validated_strategies D instances validated [] = Inr []"
| "build_validated_strategies D instances validated (i # rest) =
     rbind (ok_or (Fail (Bad ''strategy'' ''is missing validated trading context''))
              (map_of validated (instance_instrument_id i))) (\<lambda>v.
     rbind (from_validated_instance D instances i v) (\<lambda>r.
     rbind (build_validated_strategies D instances validated rest) (\<lambda>rs.
     Inr (r # rs))))"

section \<open>The account preflight\<close>

definition validate_strategy_account_config :: "BotConfig \<Rightarrow> OkxAccountConfig \<Rightarrow> unit res" where
  "validate_strategy_account_config c a =
     rbind (ensure_spot_trading_enabled a) (\<lambda>_.
     rbind (ok_or (Fail (Bad ''strategy-enabled account validation'' ''requires OKX configuration''))
              (bc_okx c)) (\<lambda>okx.
     if ok_trading_service okx = Production
     then rbind (validated_live_kyc_level a) (\<lambda>_. Inr ()) else Inr ()))"

text \<open>
  One requested instrument: skipped when one of the same identifier has been validated.  The hash map of
  validated instruments is an association list, latest first.
\<close>

definition preflight_instrument ::
    "engine_env \<Rightarrow> OkxAccountConfig \<Rightarrow> decimal \<Rightarrow> decimal \<Rightarrow> (string \<times> ValidatedTradingInstrument) list \<Rightarrow>
      RequestedTradingInstrument \<Rightarrow> (string \<times> ValidatedTradingInstrument) list res" where
  "preflight_instrument V a max_maker max_taker validated requested =
     (if map_of validated (rq_instrument requested) \<noteq> None then Inr validated
      else
        rbind (ev_validate_trading_instrument V requested a) (\<lambda>(v, fee).
        let D = cl_decimal (ev_client V) in
        rbind (ensure_commissions_at_most D fee (vi_inst_id v) max_maker max_taker) (\<lambda>_.
        rbind (round_trip_commission_rate D fee) (\<lambda>_.
        Inr ((vi_inst_id v, v) # validated)))))"

definition preflight_strategy_enabled_account ::
    "engine_env \<Rightarrow> BotConfig \<Rightarrow> (string \<times> ValidatedTradingInstrument) list res" where
  "preflight_strategy_enabled_account V c =
     (let D = cl_decimal (ev_client V) in
      rbind (ev_preflight_account_config V) (\<lambda>a.
      rbind (ensure_spot_trading_enabled a) (\<lambda>_.
      rbind (ok_or (Fail (Bad ''strategy-enabled startup'' ''requires an OKX configuration'')) (bc_okx c))
        (\<lambda>okx.
      rbind (if ok_trading_service okx = Production
             then rbind (validated_live_kyc_level a) (\<lambda>_. Inr ()) else Inr ()) (\<lambda>_.
      rbind (some_or ''MAX_MAKER_FEE_RATE must be a decimal'' (d_parse D MAX_MAKER_FEE_RATE)) (\<lambda>max_maker.
      rbind (some_or ''MAX_TAKER_FEE_RATE must be a decimal'' (d_parse D MAX_TAKER_FEE_RATE)) (\<lambda>max_taker.
      rbind (expect (max_maker > 0 \<and> max_taker > 0)
               ''maximum maker and taker fee rates must be positive'') (\<lambda>_.
      try_fold (preflight_instrument V a max_maker max_taker) []
        (enabled_strategy_trading_instruments c)))))))))"

section \<open>Actions of the engine\<close>

type_synonym 'a eact = "TradingEngine \<Rightarrow> 'a res \<times> TradingEngine"

definition ebind :: "'a eact \<Rightarrow> ('a \<Rightarrow> 'b eact) \<Rightarrow> 'b eact" where
  "ebind m f e = (case m e of (Inl x, e') \<Rightarrow> (Inl x, e') | (Inr x, e') \<Rightarrow> f x e')"

definition elift :: "'a res \<Rightarrow> 'a eact" where
  "elift r e = (r, e)"

definition eupd :: "(TradingEngine \<Rightarrow> TradingEngine) \<Rightarrow> unit eact" where
  "eupd f e = (Inr (), f e)"

text \<open>A method of strategy \<open>i\<close>, run on the shared trace and identifier sequence.\<close>

definition with_strategy :: "nat \<Rightarrow> 'a act \<Rightarrow> 'a eact" where
  "with_strategy i m e =
     (let w = eg_world e in
      case m \<lparr> cx_runner = rt_strategies w ! i, cx_trace = rt_trace w, cx_sequence = rt_sequence w \<rparr> of
        (r, c) \<Rightarrow>
          (r, e\<lparr> eg_world := w\<lparr> rt_strategies := (rt_strategies w)[i := cx_runner c],
                rt_trace := cx_trace c, rt_sequence := cx_sequence c \<rparr> \<rparr>))"

section \<open>The dead-man switch and the background tasks\<close>

definition client_cancel_all_after :: "engine_env \<Rightarrow> OkxCancelAllAfterTimeout \<Rightarrow> OkxCancelAllAfterAck res" where
  "client_cancel_all_after V t = rbind (ev_cancel_all_after V t) (caa_acknowledgement t)"

definition refresh_cancel_all_after :: "engine_env \<Rightarrow> OkxCancelAllAfterTimeout \<Rightarrow> unit eact" where
  "refresh_cancel_all_after V t =
     ebind (eupd (\<lambda>e. e\<lparr> eg_cancel_all_after_arm_attempted := True \<rparr>)) (\<lambda>_.
     ebind (elift (client_cancel_all_after V t)) (\<lambda>_.
     eupd (\<lambda>e. e\<lparr> eg_cancel_all_after_armed := True \<rparr>)))"

definition clear_armed :: "TradingEngine \<Rightarrow> TradingEngine" where
  "clear_armed e = e\<lparr> eg_cancel_all_after_armed := False, eg_cancel_all_after_arm_attempted := False \<rparr>"

definition disarm_cancel_all_after :: "engine_env \<Rightarrow> unit eact" where
  "disarm_cancel_all_after V e =
     (if eg_cancel_all_after_timeout e = None then (Inr (), clear_armed e)
      else ebind (elift (client_cancel_all_after V caa_timeout_disarm)) (\<lambda>_. eupd clear_armed) e)"

definition start_cancel_all_after_heartbeat :: "unit eact" where
  "start_cancel_all_after_heartbeat e =
     ebind (elift (require (\<not> eg_heartbeat_running e) ''OKX Cancel-All-After heartbeat'' ''is already running''))
       (\<lambda>_. eupd (\<lambda>e. e\<lparr> eg_heartbeat_running := True, eg_heartbeat_failures := True \<rparr>)) e"

definition start_server_time_refresher :: "unit eact" where
  "start_server_time_refresher e =
     ebind (elift (require (\<not> eg_refresher_running e) ''OKX server time refresher'' ''is already running''))
       (\<lambda>_. eupd (\<lambda>e. e\<lparr> eg_refresher_running := True, eg_refresh_failures := True \<rparr>)) e"

definition heartbeat_gone :: "TradingEngine \<Rightarrow> TradingEngine" where
  "heartbeat_gone e = e\<lparr> eg_heartbeat_running := False, eg_heartbeat_failures := False \<rparr>"

definition refresher_gone :: "TradingEngine \<Rightarrow> TradingEngine" where
  "refresher_gone e = e\<lparr> eg_refresher_running := False, eg_refresh_failures := False \<rparr>"

text \<open>\<open>stop().await?\<close>: when the task does not stop cleanly the fields keep their values.\<close>

definition stop_cancel_all_after_heartbeat :: "engine_env \<Rightarrow> bool eact" where
  "stop_cancel_all_after_heartbeat V e =
     ebind (elift (if eg_heartbeat_running e then rbind (ev_stop_heartbeat V) (\<lambda>_. Inr True) else Inr False))
       (\<lambda>stopped. ebind (eupd heartbeat_gone) (\<lambda>_. elift (Inr stopped))) e"

definition stop_server_time_refresher :: "engine_env \<Rightarrow> bool eact" where
  "stop_server_time_refresher V e =
     ebind (elift (if eg_refresher_running e then rbind (ev_stop_server_time_refresher V) (\<lambda>_. Inr True)
                   else Inr False))
       (\<lambda>stopped. ebind (eupd refresher_gone) (\<lambda>_. elift (Inr stopped))) e"

definition abort_cancel_all_after_heartbeat :: "TradingEngine \<Rightarrow> TradingEngine" where
  "abort_cancel_all_after_heartbeat e = (if eg_heartbeat_running e then heartbeat_gone e else e)"

definition abort_server_time_refresher :: "TradingEngine \<Rightarrow> TradingEngine" where
  "abort_server_time_refresher e = (if eg_refresher_running e then refresher_gone e else e)"

section \<open>Start-up\<close>

definition engine_health_tracker ::
    "OkxPublicMarketStreamConfig list \<Rightarrow> OkxPrivateStreamConfig list \<Rightarrow> WebsocketHealthTracker" where
  "engine_health_tracker ms ps =
     health_tracker_new (map market_health_identity ms @ map private_health_identity ps)"

text \<open>
  The instrument type of a validated instrument is always \<open>SPOT\<close>.  Preparing the order command path only
  logs when it fails.
\<close>

definition order_path_steps ::
    "engine_env \<Rightarrow> BotConfig \<Rightarrow> OkxCancelAllAfterTimeout option \<Rightarrow> unit eact" where
  "order_path_steps V c configured_timeout =
     (let D = cl_decimal (ev_client V) in
      ebind (elift (preflight_strategy_enabled_account V c)) (\<lambda>validated.
      ebind (elift (require (validated \<noteq> []) ''strategy-enabled startup''
               ''produced no validated instrument contexts'')) (\<lambda>_.
      ebind (elift (build_validated_strategies D (bc_instances c) validated (enabled_strategy_instances c)))
        (\<lambda>strategies.
      ebind (eupd (\<lambda>e. e\<lparr> eg_world := (eg_world e)\<lparr> rt_strategies := strategies \<rparr> \<rparr>)) (\<lambda>_.
      ebind (elift (rbind (build_market_stream_configs c (strategies \<noteq> []))
               (try_map (market_with_validated_instrument_type ''SPOT'')))) (\<lambda>market.
      ebind (eupd (\<lambda>e. e\<lparr> eg_market_stream_configs := market \<rparr>)) (\<lambda>_.
      ebind (elift (rbind (build_private_stream_configs c (strategies \<noteq> []))
               (try_map (private_with_validated_instrument_type ''SPOT'')))) (\<lambda>pstreams.
      ebind (eupd (\<lambda>e. e\<lparr> eg_private_stream_configs := pstreams,
               eg_health_tracker := engine_health_tracker market pstreams \<rparr>)) (\<lambda>_.
      ebind (elift (ok_or (Fail (Bad ''strategy-enabled startup'' ''is missing OKX Cancel-All-After timeout''))
               configured_timeout)) (\<lambda>timeout.
      ebind (refresh_cancel_all_after V timeout) (\<lambda>_.
      ebind start_cancel_all_after_heartbeat (\<lambda>_.
      start_server_time_refresher))))))))))))"

definition start_strategy_enabled_order_path :: "engine_env \<Rightarrow> unit eact" where
  "start_strategy_enabled_order_path V e =
     order_path_steps V (eg_config e) (eg_cancel_all_after_timeout e) e"

definition start_market_streams :: "TradingEngine \<Rightarrow> TradingEngine" where
  "start_market_streams e =
     e\<lparr> eg_market_stream_configs := [], eg_market_streams := eg_market_streams e @ eg_market_stream_configs e \<rparr>"

definition start_private_streams :: "TradingEngine \<Rightarrow> TradingEngine" where
  "start_private_streams e =
     e\<lparr> eg_private_stream_configs := [], eg_private_streams := eg_private_streams e @ eg_private_stream_configs e \<rparr>"

definition initialize_strategy :: "engine_env \<Rightarrow> nat \<Rightarrow> unit eact" where
  "initialize_strategy V i e =
     ebind (elift (ev_startup_account_config V i)) (\<lambda>a.
     ebind (elift (validate_strategy_account_config (eg_config e) a)) (\<lambda>_.
     with_strategy i (Strategy_Runner.initialize (ev_client V)))) e"

fun initialize_strategies :: "engine_env \<Rightarrow> nat list \<Rightarrow> unit eact" where
  "initialize_strategies V [] = elift (Inr ())"
| "initialize_strategies V (i # is) = ebind (initialize_strategy V i) (\<lambda>_. initialize_strategies V is)"

definition startup :: "engine_env \<Rightarrow> unit eact" where
  "startup V e =
     ebind (elift (required_okx_config (eg_config e))) (\<lambda>_.
     ebind (if eg_cancel_all_after_timeout e = None then elift (Inr ())
            else start_strategy_enabled_order_path V) (\<lambda>_.
     ebind (eupd start_market_streams) (\<lambda>_.
     ebind (eupd start_private_streams) (\<lambda>_.
     (\<lambda>e'. initialize_strategies V [0..<length (rt_strategies (eg_world e'))] e'))))) e"

section \<open>Dispatch\<close>

definition websocket_strategy_dispatch_ready :: "TradingEngine \<Rightarrow> bool" where
  "websocket_strategy_dispatch_ready e =
     (all_mandatory_streams_ready (eg_health_tracker e) \<and> \<not> eg_reconcile_requested e)"

type_synonym decision = "RuntimeLoopDecision res \<times> TradingEngine"

definition fatal_runtime_error :: "rt_error \<Rightarrow> RuntimeLoopDecision res" where
  "fatal_runtime_error err = Inr (Fatal FatalRuntimeError err)"

definition strategy_dispatch_decision :: "engine_env \<Rightarrow> StrategyDispatch \<Rightarrow> TradingEngine \<Rightarrow> decision" where
  "strategy_dispatch_decision V d e =
     (if \<not> websocket_strategy_dispatch_ready e then (Inr Continue, e)
      else
        (case execute_strategy_dispatch (ev_client V) d (eg_world e) of
           (r, w) \<Rightarrow>
             ((case r of
                 Inr None \<Rightarrow> Inr Continue
               | Inr (Some err) \<Rightarrow> Inr (Fatal StrategyFailure err)
               | Inl (Fail err) \<Rightarrow> fatal_runtime_error err
               | Inl Panic \<Rightarrow> Inl Panic), e\<lparr> eg_world := w \<rparr>)))"

definition websocket_reconciliation_decision :: "engine_env \<Rightarrow> TradingEngine \<Rightarrow> decision" where
  "websocket_reconciliation_decision V e =
     (case strategy_dispatch_decision V StreamStateChanged (e\<lparr> eg_reconcile_requested := False \<rparr>) of
        (Inl x, e') \<Rightarrow> (Inl x, e')
      | (Inr d, e') \<Rightarrow>
          (Inr d, if d = Continue \<and> has_failures (rt_tick_failures (eg_world e'))
                  then e'\<lparr> eg_reconcile_requested := True \<rparr> else e'))"

definition reconciliation_due :: "TradingEngine \<Rightarrow> bool" where
  "reconciliation_due e =
     (eg_reconcile_requested e \<and> all_mandatory_streams_ready (eg_health_tracker e))"

section \<open>Stream health\<close>

definition requests_reconciliation :: "OkxWebsocketHealthEventKind \<Rightarrow> bool" where
  "requests_reconciliation k =
     (k \<in> {SubscriptionAckSucceeded, StreamDisconnectedAfterSubscription, StreamFailedAfterSubscription})"

definition handle_websocket_health_event :: "OkxWebsocketHealthEvent \<Rightarrow> TradingEngine \<Rightarrow> TradingEngine" where
  "handle_websocket_health_event h e =
     e\<lparr> eg_reconcile_requested := eg_reconcile_requested e \<or> requests_reconciliation (he_kind h),
        eg_health_tracker := record_health_event h (eg_health_tracker e) \<rparr>"

definition WEBSOCKET_HEALTH_CHANNEL_CAPACITY :: nat where
  "WEBSOCKET_HEALTH_CHANNEL_CAPACITY = 64"

text \<open>The events already queued are handled with the first one, at most a channel's worth of them.\<close>

definition process_websocket_health_events ::
    "OkxWebsocketHealthEvent \<Rightarrow> OkxWebsocketHealthEvent list \<Rightarrow> TradingEngine \<Rightarrow>
      rt_error option \<times> TradingEngine" where
  "process_websocket_health_events first queued e =
     (let events = first # take WEBSOCKET_HEALTH_CHANNEL_CAPACITY queued;
          e' = fold handle_websocket_health_event events e
      in
      ((case List.map_filter websocket_task_lifecycle_error events of
          err # _ \<Rightarrow> Some err
        | [] \<Rightarrow>
            (case startup_readiness_error (eg_health_tracker e') of
               None \<Rightarrow> None
             | Some _ \<Rightarrow> Some (Bad ''mandatory OKX WebSocket streams'' ''failed before becoming ready''))),
       e'))"

definition websocket_health_decision ::
    "engine_env \<Rightarrow> OkxWebsocketHealthEvent option \<Rightarrow> OkxWebsocketHealthEvent list \<Rightarrow> TradingEngine \<Rightarrow> decision"
where
  "websocket_health_decision V health queued e =
     (case health of
        None \<Rightarrow> (fatal_runtime_error (Bad ''OKX WebSocket health channel'' ''closed unexpectedly''), e)
      | Some h \<Rightarrow>
          (case process_websocket_health_events h queued e of
             (Some err, e') \<Rightarrow> (fatal_runtime_error err, e')
           | (None, e') \<Rightarrow>
               if reconciliation_due e' then websocket_reconciliation_decision V e'
               else (Inr Continue, e')))"

section \<open>Timers and failures of background tasks\<close>

definition reconciliation_timer_decision :: "engine_env \<Rightarrow> TradingEngine \<Rightarrow> decision" where
  "reconciliation_timer_decision V e0 =
     (let e = e0\<lparr> eg_latency_report_ticks := sat_succ (eg_latency_report_ticks e0) \<rparr> in
      if reconciliation_due e then websocket_reconciliation_decision V e
      else strategy_dispatch_decision V ReconcileTimer e)"

definition server_time_refresh_failure_decision ::
    "engine_env \<Rightarrow> rt_error option \<Rightarrow> TradingEngine \<Rightarrow> decision" where
  "server_time_refresh_failure_decision V failure e =
     (case failure of
        None \<Rightarrow> (fatal_runtime_error (Bad ''OKX server-time refresh failure channel''
                   ''closed unexpectedly''), e)
      | Some _ \<Rightarrow> strategy_dispatch_decision V StreamStateChanged e)"

text \<open>A heartbeat that stops without a report is an error of the loop itself.\<close>

definition cancel_all_after_heartbeat_failure_decision :: "rt_error option \<Rightarrow> RuntimeLoopDecision res" where
  "cancel_all_after_heartbeat_failure_decision failure =
     rbind (ok_or (Fail (Bad ''OKX Cancel-All-After heartbeat'' ''stopped without reporting a failure'')) failure)
       (\<lambda>err. Inr (Fatal CancelAllAfterHeartbeatFailure err))"

definition account_level_diagnostic_observation_decision ::
    "OkxAccountConfig res \<Rightarrow> TradingEngine \<Rightarrow> RuntimeLoopDecision res" where
  "account_level_diagnostic_observation_decision observation e =
     (case observation of
        Inr a \<Rightarrow>
          (case validate_strategy_account_config (eg_config e) a of
             Inr _ \<Rightarrow> Inr Continue
           | Inl (Fail err) \<Rightarrow> fatal_runtime_error err
           | Inl Panic \<Rightarrow> Inl Panic)
      | Inl (Fail err) \<Rightarrow> fatal_runtime_error err
      | Inl Panic \<Rightarrow> Inl Panic)"

section \<open>Runtime events\<close>

text \<open>Another kind of event among the pending ones is an \<open>unreachable!\<close>.\<close>

definition defer_confirmed_candle :: "OkxPublicRuntimeEventKind \<Rightarrow> unit eact" where
  "defer_confirmed_candle k e =
     (case k of
        PublicInstrumentUpdated _ \<Rightarrow> (Inr (), e)
      | PublicConfirmedCandle i ts \<Rightarrow>
          if \<not> list_ex (\<lambda>r. rn_instrument_id r = i) (rt_strategies (eg_world e)) then (Inr (), e)
          else
            (let m = eg_pending_confirmed_candles e;
                 put = e\<lparr> eg_pending_confirmed_candles := bt_put i k m \<rparr> in
             case bt_get m i of
               None \<Rightarrow> (Inr (), put)
             | Some (PublicConfirmedCandle _ pending_ts) \<Rightarrow>
                 (Inr (), if ts \<ge> pending_ts then put else e)
             | Some (PublicInstrumentUpdated _) \<Rightarrow> (Inl Panic, e)))"

definition take_ready_confirmed_candle ::
    "TradingEngine \<Rightarrow> OkxPublicRuntimeEventKind option \<times> TradingEngine" where
  "take_ready_confirmed_candle e =
     (if websocket_strategy_dispatch_ready e then
        (case bt_first (eg_pending_confirmed_candles e) of
           None \<Rightarrow> (None, e)
         | Some (i, k) \<Rightarrow>
             (Some k, e\<lparr> eg_pending_confirmed_candles := bt_del i (eg_pending_confirmed_candles e) \<rparr>))
      else (None, e))"

definition public_dispatch :: "OkxPublicRuntimeEventKind \<Rightarrow> StrategyDispatch" where
  "public_dispatch k =
     (case k of PublicConfirmedCandle i _ \<Rightarrow> ConfirmedCandle i | PublicInstrumentUpdated i \<Rightarrow> InstrumentUpdated i)"

definition public_runtime_event_decision ::
    "engine_env \<Rightarrow> OkxPublicRuntimeEventKind option \<Rightarrow> TradingEngine \<Rightarrow> decision" where
  "public_runtime_event_decision V event e =
     (case event of
        None \<Rightarrow> (fatal_runtime_error (Bad ''OKX public runtime event channel'' ''closed unexpectedly''), e)
      | Some k \<Rightarrow>
          if (case k of PublicConfirmedCandle _ _ \<Rightarrow> True | _ \<Rightarrow> False) \<and> \<not> websocket_strategy_dispatch_ready e
          then ebind (defer_confirmed_candle k) (\<lambda>_. elift (Inr Continue)) e
          else strategy_dispatch_decision V (public_dispatch k) e)"

definition pending_confirmed_candle_decision :: "engine_env \<Rightarrow> TradingEngine \<Rightarrow> decision" where
  "pending_confirmed_candle_decision V e =
     (case take_ready_confirmed_candle e of
        (None, e') \<Rightarrow> (Inl (Fail (Bad ''ready confirmed-candle dispatch''
                         ''was selected without a pending event'')), e')
      | (Some k, e') \<Rightarrow> public_runtime_event_decision V (Some k) e')"

definition private_event_instrument :: "OkxPrivateRuntimeEventKind \<Rightarrow> string option" where
  "private_event_instrument k =
     (case k of PrivateOrder i _ \<Rightarrow> Some i | PrivateFill i _ \<Rightarrow> Some i | PrivateAlgoOrder i \<Rightarrow> Some i
      | PrivateAccount \<Rightarrow> None)"

definition private_runtime_event_decision ::
    "engine_env \<Rightarrow> OkxPrivateRuntimeEventKind option \<Rightarrow> TradingEngine \<Rightarrow> decision" where
  "private_runtime_event_decision V event e =
     (case event of
        None \<Rightarrow> (fatal_runtime_error (Bad ''OKX private runtime event channel'' ''closed unexpectedly''), e)
      | Some k \<Rightarrow> strategy_dispatch_decision V (PrivateEvent (private_event_instrument k)) e)"

definition level2_runtime_event_decision :: "unit option \<Rightarrow> RuntimeLoopDecision res" where
  "level2_runtime_event_decision changed =
     rbind (ok_or (Fail (Bad ''OKX Level-2 runtime event channel'' ''closed unexpectedly'')) changed)
       (\<lambda>_. Inr Continue)"

section \<open>Leaving the loop\<close>

fun shutdown_strategies :: "engine_env \<Rightarrow> nat list \<Rightarrow> rt_error option \<Rightarrow> rt_error option eact" where
  "shutdown_strategies V [] err e = (Inr err, e)"
| "shutdown_strategies V (i # is) err e =
     (case with_strategy i (Strategy_Runner.shutdown (ev_client V)) e of
        (Inr _, e') \<Rightarrow> shutdown_strategies V is err e'
      | (Inl (Fail x), e') \<Rightarrow> shutdown_strategies V is (if err = None then Some x else err) e'
      | (Inl Panic, e') \<Rightarrow> (Inl Panic, e'))"

text \<open>A failing step is remembered when it is the first to fail, and the shutdown goes on.\<close>

definition keep_first_error :: "'a eact \<Rightarrow> rt_error option \<Rightarrow> rt_error option eact" where
  "keep_first_error m err e =
     (case m e of
        (Inr _, e') \<Rightarrow> (Inr err, e')
      | (Inl (Fail x), e') \<Rightarrow> (Inr (if err = None then Some x else err), e')
      | (Inl Panic, e') \<Rightarrow> (Inl Panic, e'))"

definition shutdown_for_operator :: "engine_env \<Rightarrow> unit eact" where
  "shutdown_for_operator V e =
     ebind (shutdown_strategies V [0..<length (rt_strategies (eg_world e))] None) (\<lambda>err.
     ebind (keep_first_error (stop_server_time_refresher V) err) (\<lambda>err.
     ebind (keep_first_error (stop_cancel_all_after_heartbeat V) err) (\<lambda>err.
     ebind (if err = None then keep_first_error (disarm_cancel_all_after V) err else elift (Inr err)) (\<lambda>err.
     elift (ensure (err = None)
       (Fail (Bad ''OKX strategy shutdown cleanup'' ''finished with ambiguous state'')))))))  e"

definition exit_reason_as_str :: "RuntimeExitReason \<Rightarrow> string" where
  "exit_reason_as_str r =
     (case r of OperatorShutdown \<Rightarrow> ''operator_shutdown''
      | CancelAllAfterHeartbeatFailure \<Rightarrow> ''cancel_all_after_heartbeat_failure''
      | StrategyFailure \<Rightarrow> ''strategy_failure'' | FatalRuntimeError \<Rightarrow> ''fatal_runtime_error'')"

definition cancel_all_after_may_be_armed :: "TradingEngine \<Rightarrow> bool" where
  "cancel_all_after_may_be_armed e = (eg_cancel_all_after_armed e \<or> eg_cancel_all_after_arm_attempted e)"

definition fail_closed_for_fatal_error :: "RuntimeExitReason \<Rightarrow> rt_error \<Rightarrow> unit eact" where
  "fail_closed_for_fatal_error reason err e =
     (let e' = abort_cancel_all_after_heartbeat (abort_server_time_refresher e) in
      (Inl (Fail (if cancel_all_after_may_be_armed e'
                  then Bad (exit_reason_as_str reason) ''OKX Cancel-All-After left armed or possibly armed''
                  else Bad (exit_reason_as_str reason) ''fatal runtime exit'')), e'))"

end
