(* ===== verification/Runtime_Loop.thy ===== *)
theory Runtime_Loop
  imports Runtime_Engine
begin

text \<open>
  The event loop of \<open>app/live.rs\<close> (\<open>run\<close>, \<open>run_loop\<close>) as a fold over the branches taken, and what it
  guarantees: when strategies may act, when a reconciliation is owed, which candle waits, and what state
  the exchange's dead-man switch is left in.
\<close>

section \<open>The loop\<close>

text \<open>
  One constructor per branch of the \<open>select!\<close>.  \<open>None\<close> is a closed channel; the second argument of
  \<open>HealthInput\<close> is what else is queued on the health channel.
\<close>

datatype loop_input =
    HeartbeatFailureInput "rt_error option"
  | ServerTimeFailureInput "rt_error option"
  | CtrlC
  | StartObservationInput
  | ObservationCompletedInput "OkxAccountConfig res"
  | PrivateInput "OkxPrivateRuntimeEventKind option"
  | ReconciliationTick
  | HealthInput "OkxWebsocketHealthEvent option" "OkxWebsocketHealthEvent list"
  | PendingCandleReady
  | PublicInput "OkxPublicRuntimeEventKind option"
  | Level2Changed "unit option"

text \<open>The engine with the loop's locals: the two failure receivers, the diagnostic timer and its observation.\<close>

record loop_state =
  ls_engine :: TradingEngine
  ls_heartbeat_failures :: bool
  ls_server_time_failures :: bool
  ls_diagnostics :: bool
  ls_observing :: bool

definition pending_confirmed_candle_ready :: "TradingEngine \<Rightarrow> bool" where
  "pending_confirmed_candle_ready e =
     (websocket_strategy_dispatch_ready e \<and> eg_pending_confirmed_candles e \<noteq> [])"

definition branch_enabled :: "loop_input \<Rightarrow> loop_state \<Rightarrow> bool" where
  "branch_enabled i s =
     (case i of
        HeartbeatFailureInput _ \<Rightarrow> ls_heartbeat_failures s
      | ServerTimeFailureInput _ \<Rightarrow> ls_server_time_failures s
      | StartObservationInput \<Rightarrow> ls_diagnostics s \<and> \<not> ls_observing s
      | ObservationCompletedInput _ \<Rightarrow> ls_observing s
      | PendingCandleReady \<Rightarrow> pending_confirmed_candle_ready (ls_engine s)
      | _ \<Rightarrow> True)"

definition engine_decision :: "engine_env \<Rightarrow> loop_input \<Rightarrow> TradingEngine \<Rightarrow> decision" where
  "engine_decision V i e =
     (case i of
        HeartbeatFailureInput f \<Rightarrow> (cancel_all_after_heartbeat_failure_decision f, e)
      | ServerTimeFailureInput f \<Rightarrow> server_time_refresh_failure_decision V f e
      | CtrlC \<Rightarrow> (Inr ShutDown, e)
      | StartObservationInput \<Rightarrow> (Inr Continue, e)
      | ObservationCompletedInput r \<Rightarrow> (account_level_diagnostic_observation_decision r e, e)
      | PrivateInput k \<Rightarrow> private_runtime_event_decision V k e
      | ReconciliationTick \<Rightarrow> reconciliation_timer_decision V e
      | HealthInput h queued \<Rightarrow> websocket_health_decision V h queued e
      | PendingCandleReady \<Rightarrow> pending_confirmed_candle_decision V e
      | PublicInput k \<Rightarrow> public_runtime_event_decision V k e
      | Level2Changed c \<Rightarrow> (level2_runtime_event_decision c, e))"

definition observing_after :: "loop_input \<Rightarrow> bool \<Rightarrow> bool" where
  "observing_after i b =
     (case i of StartObservationInput \<Rightarrow> True | ObservationCompletedInput _ \<Rightarrow> False | _ \<Rightarrow> b)"

definition loop_turn :: "engine_env \<Rightarrow> loop_input \<Rightarrow> loop_state \<Rightarrow> RuntimeLoopDecision res \<times> loop_state" where
  "loop_turn V i s =
     (case engine_decision V i (ls_engine s) of
        (d, e) \<Rightarrow> (d, s\<lparr> ls_engine := e, ls_observing := observing_after i (ls_observing s) \<rparr>))"

text \<open>The result is \<open>None\<close> while the loop waits for its next event.\<close>

fun run_loop_from :: "engine_env \<Rightarrow> loop_input list \<Rightarrow> loop_state \<Rightarrow> unit res option \<times> TradingEngine" where
  "run_loop_from V [] s = (None, ls_engine s)"
| "run_loop_from V (i # rest) s =
     (if \<not> branch_enabled i s then run_loop_from V rest s
      else
        (case loop_turn V i s of
           (Inl x, s') \<Rightarrow> (Some (Inl x), ls_engine s')
         | (Inr Continue, s') \<Rightarrow> run_loop_from V rest s'
         | (Inr ShutDown, s') \<Rightarrow> apfst Some (shutdown_for_operator V (ls_engine s'))
         | (Inr (Fatal reason err), s') \<Rightarrow>
             apfst Some (fail_closed_for_fatal_error reason err (ls_engine s'))))"

definition loop_start :: "TradingEngine \<Rightarrow> loop_state" where
  "loop_start e =
     (let n = length (rt_strategies (eg_world e)) in
      \<lparr> ls_engine = e\<lparr> eg_world := (eg_world e)\<lparr> rt_tick_failures := tracker_new n \<rparr>,
                        eg_heartbeat_failures := False, eg_refresh_failures := False \<rparr>,
        ls_heartbeat_failures = eg_heartbeat_failures e, ls_server_time_failures = eg_refresh_failures e,
        ls_diagnostics = (n \<noteq> 0), ls_observing = False \<rparr>)"

definition run_loop :: "engine_env \<Rightarrow> loop_input list \<Rightarrow> TradingEngine \<Rightarrow> unit res option \<times> TradingEngine" where
  "run_loop V is e = run_loop_from V is (loop_start e)"

definition run_engine :: "engine_env \<Rightarrow> loop_input list \<Rightarrow> TradingEngine \<Rightarrow> unit res option \<times> TradingEngine" where
  "run_engine V is e =
     (case startup V e of
        (Inr _, e') \<Rightarrow> run_loop V is e'
      | (Inl (Fail err), e') \<Rightarrow> apfst Some (fail_closed_for_fatal_error FatalRuntimeError err e')
      | (Inl Panic, e') \<Rightarrow> (Some (Inl Panic), e'))"

section \<open>What a decision leaves alone\<close>

definition control :: "TradingEngine \<Rightarrow> BotConfig \<times> OkxCancelAllAfterTimeout option \<times> bool \<times> bool \<times> bool" where
  "control e =
     (eg_config e, eg_cancel_all_after_timeout e, eg_cancel_all_after_armed e,
      eg_cancel_all_after_arm_attempted e, eg_heartbeat_running e)"

lemma control_updates [simp]:
  "control (e\<lparr> eg_world := w \<rparr>) = control e" "control (e\<lparr> eg_reconcile_requested := b \<rparr>) = control e"
  "control (e\<lparr> eg_pending_confirmed_candles := m \<rparr>) = control e"
  "control (e\<lparr> eg_latency_report_ticks := n \<rparr>) = control e"
  "control (handle_websocket_health_event h e) = control e"
  by (simp_all add: control_def handle_websocket_health_event_def)

text \<open>
  \<open>dispatched V e e'\<close>: the engine's world is as it was, or one dispatch happened with every mandatory stream
  ready, and it was the reconciliation when one was owed.
\<close>

definition dispatched :: "engine_env \<Rightarrow> TradingEngine \<Rightarrow> TradingEngine \<Rightarrow> bool" where
  "dispatched V e e' =
     (eg_world e' = eg_world e \<or>
      all_mandatory_streams_ready (eg_health_tracker e') \<and>
      (\<exists>d. eg_world e' = snd (execute_strategy_dispatch (ev_client V) d (eg_world e)) \<and>
        (eg_reconcile_requested e \<longrightarrow> d = StreamStateChanged)))"

lemma dispatch_decision_facts:
  assumes "strategy_dispatch_decision V d e = (r, e')"
  shows "control e' = control e \<and> eg_health_tracker e' = eg_health_tracker e \<and>
    eg_reconcile_requested e' = eg_reconcile_requested e \<and>
    eg_pending_confirmed_candles e' = eg_pending_confirmed_candles e \<and>
    (if websocket_strategy_dispatch_ready e
     then eg_world e' = snd (execute_strategy_dispatch (ev_client V) d (eg_world e)) \<and>
       (r = Inr Continue \<longleftrightarrow> fst (execute_strategy_dispatch (ev_client V) d (eg_world e)) = Inr None)
     else e' = e \<and> r = Inr Continue)"
  using assms by (auto simp: strategy_dispatch_decision_def fatal_runtime_error_def
      split: if_splits prod.splits sum.splits option.splits fault.splits)

lemma dispatch_decision_dispatched:
  assumes "strategy_dispatch_decision V d e = (r, e')"
  shows "dispatched V e e'"
  using dispatch_decision_facts [OF assms]
  by (auto simp: dispatched_def websocket_strategy_dispatch_ready_def split: if_splits)

lemma reconciliation_facts:
  assumes "websocket_reconciliation_decision V e = (r, e')" and "reconciliation_due e"
  shows "control e' = control e \<and> dispatched V e e' \<and>
    eg_pending_confirmed_candles e' = eg_pending_confirmed_candles e \<and>
    eg_world e' = snd (execute_strategy_dispatch (ev_client V) StreamStateChanged (eg_world e)) \<and>
    (r = Inr Continue \<longrightarrow> \<not> eg_reconcile_requested e' \<longrightarrow>
      fst (execute_strategy_dispatch (ev_client V) StreamStateChanged (eg_world e)) = Inr None \<and>
      \<not> has_failures (rt_tick_failures (eg_world e')))"
proof -
  let ?e = "e\<lparr> eg_reconcile_requested := False \<rparr>"
  obtain q f where d: "strategy_dispatch_decision V StreamStateChanged ?e = (q, f)" by fastforce
  have ready: "websocket_strategy_dispatch_ready ?e"
    using assms(2) by (simp add: reconciliation_due_def websocket_strategy_dispatch_ready_def)
  from dispatch_decision_facts [OF d] ready
  have f: "control f = control e" "eg_health_tracker f = eg_health_tracker e"
      "\<not> eg_reconcile_requested f" "eg_pending_confirmed_candles f = eg_pending_confirmed_candles e"
      "eg_world f = snd (execute_strategy_dispatch (ev_client V) StreamStateChanged (eg_world e))"
      "q = Inr Continue \<longleftrightarrow> fst (execute_strategy_dispatch (ev_client V) StreamStateChanged (eg_world e)) = Inr None"
    by simp_all
  from assms(1) have r: "r = q"
      "e' = (if q = Inr Continue \<and> has_failures (rt_tick_failures (eg_world f))
             then f\<lparr> eg_reconcile_requested := True \<rparr> else f)"
    by (auto simp: websocket_reconciliation_decision_def d split: sum.splits if_splits)
  have "all_mandatory_streams_ready (eg_health_tracker e)"
    using assms(2) by (simp add: reconciliation_due_def)
  with r f show ?thesis by (auto simp: dispatched_def)
qed

definition health_owed :: "loop_input \<Rightarrow> bool" where
  "health_owed i =
     (case i of
        HealthInput (Some h) queued \<Rightarrow>
          list_ex (\<lambda>h. requests_reconciliation (he_kind h)) (h # take WEBSOCKET_HEALTH_CHANNEL_CAPACITY queued)
      | _ \<Rightarrow> False)"

lemma health_fold:
  "eg_world (fold handle_websocket_health_event hs e) = eg_world e \<and>
   control (fold handle_websocket_health_event hs e) = control e \<and>
   eg_pending_confirmed_candles (fold handle_websocket_health_event hs e) = eg_pending_confirmed_candles e \<and>
   (eg_reconcile_requested (fold handle_websocket_health_event hs e) \<longleftrightarrow>
     eg_reconcile_requested e \<or> list_ex (\<lambda>h. requests_reconciliation (he_kind h)) hs)"
  by (induction hs arbitrary: e) (auto simp: handle_websocket_health_event_def control_def)

lemma dispatched_same: "eg_world e' = eg_world e \<Longrightarrow> dispatched V e e'"
  by (simp add: dispatched_def)

lemma dispatched_after:
  "dispatched V e1 e' \<Longrightarrow> eg_world e1 = eg_world e \<Longrightarrow>
   (eg_reconcile_requested e \<Longrightarrow> eg_reconcile_requested e1) \<Longrightarrow> dispatched V e e'"
  by (auto simp: dispatched_def)

lemma defer_facts:
  assumes "defer_confirmed_candle k e = (r, e')"
  shows "control e' = control e \<and> eg_world e' = eg_world e \<and>
    eg_reconcile_requested e' = eg_reconcile_requested e \<and> eg_health_tracker e' = eg_health_tracker e"
  using assms by (auto simp: defer_confirmed_candle_def Let_def
      split: OkxPublicRuntimeEventKind.splits option.splits if_splits)

lemma public_decision_facts:
  assumes "public_runtime_event_decision V k e = (r, e')"
  shows "control e' = control e \<and> dispatched V e e' \<and>
    eg_reconcile_requested e' = eg_reconcile_requested e"
proof (cases k)
  case None
  then show ?thesis using assms by (auto simp: public_runtime_event_decision_def dispatched_same)
next
  case (Some q)
  obtain x f where d: "defer_confirmed_candle q e = (x, f)" by fastforce
  from assms Some d consider "e' = f" | "strategy_dispatch_decision V (public_dispatch q) e = (r, e')"
    by (auto simp: public_runtime_event_decision_def ebind_def elift_def split: if_splits sum.splits)
  then show ?thesis
    using defer_facts [OF d] dispatch_decision_facts dispatch_decision_dispatched dispatched_same
    by cases metis+
qed

lemma take_ready_facts:
  assumes "take_ready_confirmed_candle e = (k, e')"
  shows "control e' = control e \<and> eg_world e' = eg_world e \<and>
    eg_reconcile_requested e' = eg_reconcile_requested e \<and> eg_health_tracker e' = eg_health_tracker e"
  using assms by (auto simp: take_ready_confirmed_candle_def split: if_splits option.splits)

text \<open>What a turn does to the flag that a reconciliation is owed.\<close>

definition reconciled :: "engine_env \<Rightarrow> TradingEngine \<Rightarrow> TradingEngine \<Rightarrow> bool" where
  "reconciled V e e' =
     (eg_world e' = snd (execute_strategy_dispatch (ev_client V) StreamStateChanged (eg_world e)) \<and>
      fst (execute_strategy_dispatch (ev_client V) StreamStateChanged (eg_world e)) = Inr None \<and>
      \<not> has_failures (rt_tick_failures (eg_world e')))"

lemma health_decision_facts:
  assumes "websocket_health_decision V h queued e = (r, e')"
  shows "control e' = control e \<and> dispatched V e e' \<and>
    ((eg_reconcile_requested e \<or> health_owed (HealthInput h queued)) \<longrightarrow> r = Inr Continue \<longrightarrow>
      eg_reconcile_requested e' \<or> reconciled V e e')"
proof (cases h)
  case None
  then show ?thesis using assms
    by (auto simp: websocket_health_decision_def fatal_runtime_error_def dispatched_same)
next
  case (Some h1)
  obtain x f where p: "process_websocket_health_events h1 queued e = (x, f)" by fastforce
  let ?hs = "h1 # take WEBSOCKET_HEALTH_CHANNEL_CAPACITY queued"
  have "f = fold handle_websocket_health_event ?hs e"
    using p by (auto simp: process_websocket_health_events_def Let_def)
  with health_fold [of ?hs e] Some have f: "eg_world f = eg_world e" "control f = control e"
      "eg_reconcile_requested f \<longleftrightarrow> eg_reconcile_requested e \<or> health_owed (HealthInput h queued)"
    by (simp_all add: health_owed_def)
  show ?thesis
  proof (cases "x = None \<and> reconciliation_due f")
    case True
    then have "websocket_reconciliation_decision V f = (r, e')"
      using assms Some p by (auto simp: websocket_health_decision_def)
    from reconciliation_facts [OF this] True f dispatched_after [of V f e' e] show ?thesis
      by (auto simp: reconciled_def)
  next
    case False
    then have "e' = f \<and> (x = None \<or> r \<noteq> Inr Continue)"
      using assms Some p
      by (auto simp: websocket_health_decision_def fatal_runtime_error_def split: option.splits)
    with f show ?thesis by (auto simp: dispatched_same)
  qed
qed

lemma engine_decision_facts:
  assumes "engine_decision V i e = (r, e')"
  shows "control e' = control e \<and> dispatched V e e' \<and>
    ((eg_reconcile_requested e \<or> health_owed i) \<longrightarrow> r = Inr Continue \<longrightarrow>
      eg_reconcile_requested e' \<or> reconciled V e e')"
proof (cases i)
  case (PrivateInput k)
  show ?thesis
  proof (cases k)
    case None
    then show ?thesis using assms PrivateInput
      by (auto simp: engine_decision_def private_runtime_event_decision_def fatal_runtime_error_def dispatched_same)
  next
    case (Some q)
    then have "strategy_dispatch_decision V (PrivateEvent (private_event_instrument q)) e = (r, e')"
      using assms PrivateInput by (simp add: engine_decision_def private_runtime_event_decision_def)
    from dispatch_decision_facts [OF this] dispatch_decision_dispatched [OF this] PrivateInput
    show ?thesis by (simp add: health_owed_def)
  qed
next
  case (ServerTimeFailureInput f)
  show ?thesis
  proof (cases f)
    case None
    then show ?thesis using assms ServerTimeFailureInput
      by (auto simp: engine_decision_def server_time_refresh_failure_decision_def fatal_runtime_error_def dispatched_same)
  next
    case (Some q)
    then have "strategy_dispatch_decision V StreamStateChanged e = (r, e')"
      using assms ServerTimeFailureInput
      by (simp add: engine_decision_def server_time_refresh_failure_decision_def)
    from dispatch_decision_facts [OF this] dispatch_decision_dispatched [OF this] ServerTimeFailureInput
    show ?thesis by (simp add: health_owed_def)
  qed
next
  case ReconciliationTick
  let ?e = "e\<lparr> eg_latency_report_ticks := sat_succ (eg_latency_report_ticks e) \<rparr>"
  show ?thesis
  proof (cases "reconciliation_due ?e")
    case True
    then have "websocket_reconciliation_decision V ?e = (r, e')"
      using assms ReconciliationTick
      by (simp add: engine_decision_def reconciliation_timer_decision_def Let_def)
    from reconciliation_facts [OF this True] dispatched_after [of V ?e e' e] show ?thesis
      by (auto simp: reconciled_def)
  next
    case False
    then have "strategy_dispatch_decision V ReconcileTimer ?e = (r, e')"
      using assms ReconciliationTick
      by (simp add: engine_decision_def reconciliation_timer_decision_def Let_def)
    from dispatch_decision_facts [OF this] dispatch_decision_dispatched [OF this]
      dispatched_after [of V ?e e' e] ReconciliationTick
    show ?thesis by (simp add: health_owed_def)
  qed
next
  case (HealthInput h queued)
  with assms have "websocket_health_decision V h queued e = (r, e')" by (simp add: engine_decision_def)
  from health_decision_facts [OF this] HealthInput show ?thesis by simp
next
  case PendingCandleReady
  obtain k f where t: "take_ready_confirmed_candle e = (k, f)" by fastforce
  show ?thesis
  proof (cases k)
    case None
    then show ?thesis using assms PendingCandleReady t take_ready_facts [OF t]
      by (auto simp: engine_decision_def pending_confirmed_candle_decision_def dispatched_same)
  next
    case (Some q)
    then have "public_runtime_event_decision V (Some q) f = (r, e')"
      using assms PendingCandleReady t
      by (simp add: engine_decision_def pending_confirmed_candle_decision_def)
    from public_decision_facts [OF this] take_ready_facts [OF t] dispatched_after [of V f e' e]
      PendingCandleReady
    show ?thesis by (simp add: health_owed_def)
  qed
next
  case (PublicInput k)
  with assms have "public_runtime_event_decision V k e = (r, e')" by (simp add: engine_decision_def)
  from public_decision_facts [OF this] PublicInput show ?thesis by (simp add: health_owed_def)
qed (use assms in \<open>auto simp: engine_decision_def health_owed_def dispatched_same\<close>)

section \<open>Deferred candles\<close>

definition traded :: "TradingEngine \<Rightarrow> string \<Rightarrow> bool" where
  "traded e i = list_ex (\<lambda>r. rn_instrument_id r = i) (rt_strategies (eg_world e))"

fun defer_candles :: "(string \<times> int) list \<Rightarrow> unit eact" where
  "defer_candles [] = elift (Inr ())"
| "defer_candles ((i, ts) # cs) =
     ebind (defer_confirmed_candle (PublicConfirmedCandle i ts)) (\<lambda>_. defer_candles cs)"

text \<open>The candle that should wait for an instrument after the candles of the list.\<close>

definition waiting :: "TradingEngine \<Rightarrow> (string \<times> int) list \<Rightarrow> string \<Rightarrow> OkxPublicRuntimeEventKind option" where
  "waiting e cs i =
     (let ts = map snd (filter (\<lambda>c. fst c = i) cs) in
      if traded e i \<and> ts \<noteq> [] then Some (PublicConfirmedCandle i (Max (set ts))) else None)"

lemma waiting_snoc:
  "waiting e (cs @ [(i, ts)]) =
     (if traded e i
      then (waiting e cs)(i \<mapsto> PublicConfirmedCandle i
        (case waiting e cs i of Some (PublicConfirmedCandle _ t) \<Rightarrow> max t ts | _ \<Rightarrow> ts))
      else waiting e cs)"
proof
  fix j
  let ?ts = "map snd (filter (\<lambda>c. fst c = j) cs)"
  have "Max (insert ts (set ?ts)) = max (Max (set ?ts)) ts" if "?ts \<noteq> []"
    using that by (subst Max_insert) (auto simp only: finite_set set_empty max.commute)
  then show "waiting e (cs @ [(i, ts)]) j =
     (if traded e i
      then (waiting e cs)(i \<mapsto> PublicConfirmedCandle i
        (case waiting e cs i of Some (PublicConfirmedCandle _ t) \<Rightarrow> max t ts | _ \<Rightarrow> ts))
      else waiting e cs) j"
    by (auto simp: waiting_def Let_def)
qed

definition pending_ok :: "TradingEngine \<Rightarrow> (string \<times> int) list \<Rightarrow> TradingEngine \<Rightarrow> bool" where
  "pending_ok e0 cs e =
     (bt_ok (eg_pending_confirmed_candles e) \<and> eg_world e = eg_world e0 \<and>
      bt_get (eg_pending_confirmed_candles e) = waiting e0 cs)"

lemma defer_one:
  assumes "pending_ok e0 cs e"
  shows "\<exists>e'. defer_confirmed_candle (PublicConfirmedCandle i ts) e = (Inr (), e') \<and>
    pending_ok e0 (cs @ [(i, ts)]) e'"
proof -
  let ?m = "eg_pending_confirmed_candles e"
  let ?put = "e\<lparr> eg_pending_confirmed_candles := bt_put i (PublicConfirmedCandle i ts) ?m \<rparr>"
  have ok: "bt_ok ?m" "eg_world e = eg_world e0" "bt_get ?m = waiting e0 cs"
    using assms by (simp_all add: pending_ok_def)
  show ?thesis
  proof (cases "traded e0 i")
    case False
    then show ?thesis using assms ok
      by (simp add: defer_confirmed_candle_def traded_def pending_ok_def waiting_snoc)
  next
    case True
    then have t: "list_ex (\<lambda>r. rn_instrument_id r = i) (rt_strategies (eg_world e))"
      using ok(2) by (simp add: traded_def)
    have put: "pending_ok e0 (cs @ [(i, ts)]) ?put"
      if "waiting e0 (cs @ [(i, ts)]) = (waiting e0 cs)(i \<mapsto> PublicConfirmedCandle i ts)"
      using ok that by (simp add: pending_ok_def bt_ok_put bt_get_put)
    show ?thesis
    proof (cases "waiting e0 cs i")
      case None
      then show ?thesis using t ok put True by (simp add: defer_confirmed_candle_def waiting_snoc)
    next
      case (Some k)
      then obtain p where k: "k = PublicConfirmedCandle i p"
        by (auto simp: waiting_def Let_def split: if_splits)
      show ?thesis
      proof (cases "ts \<ge> p")
        case True
        then show ?thesis using t ok put Some k \<open>traded e0 i\<close>
          by (simp add: defer_confirmed_candle_def waiting_snoc max_def)
      next
        case False
        then have "waiting e0 (cs @ [(i, ts)]) = waiting e0 cs"
          using Some k \<open>traded e0 i\<close> by (auto simp: waiting_snoc max_def)
        then show ?thesis using t ok Some k False
          by (simp add: defer_confirmed_candle_def pending_ok_def)
      qed
    qed
  qed
qed

lemma defer_candles_waiting:
  "pending_ok e0 hs e \<Longrightarrow> \<exists>e'. defer_candles cs e = (Inr (), e') \<and> pending_ok e0 (hs @ cs) e'"
proof (induction cs arbitrary: hs e)
  case (Cons c cs)
  obtain i ts where c: "c = (i, ts)" by fastforce
  from defer_one [OF Cons.prems] obtain f where f:
    "defer_confirmed_candle (PublicConfirmedCandle i ts) e = (Inr (), f)" "pending_ok e0 (hs @ [(i, ts)]) f"
    by blast
  from Cons.IH [OF f(2)] obtain e' where "defer_candles cs f = (Inr (), e')" "pending_ok e0 (hs @ c # cs) e'"
    by (auto simp: c)
  moreover have "defer_candles (c # cs) e = defer_candles cs f"
    using f(1) by (simp only: c defer_candles.simps ebind_def prod.case sum.case)
  ultimately show ?case by auto
qed (simp add: elift_def)

lemma take_ready_least:
  assumes "pending_ok e0 cs e" and "websocket_strategy_dispatch_ready e"
    and "eg_pending_confirmed_candles e \<noteq> []"
  shows "\<exists>i ts e'. take_ready_confirmed_candle e = (Some (PublicConfirmedCandle i ts), e') \<and>
    (\<forall>j\<in>dom (waiting e0 cs). i \<le> j) \<and> bt_get (eg_pending_confirmed_candles e') = (waiting e0 cs)(i := None)"
proof -
  let ?m = "eg_pending_confirmed_candles e"
  have ok: "bt_ok ?m" "bt_get ?m = waiting e0 cs" using assms(1) by (simp_all add: pending_ok_def)
  obtain i k where first: "bt_first ?m = Some (i, k)"
    using assms(3) by (cases ?m) (auto simp: bt_first_def)
  from bt_first_least [OF ok(1) first] ok(2) have least: "waiting e0 cs i = Some k" "\<forall>j\<in>dom (waiting e0 cs). i \<le> j"
    by simp_all
  from least(1) obtain ts where "k = PublicConfirmedCandle i ts"
    by (auto simp: waiting_def Let_def split: if_splits)
  with assms(2) first least(2) ok show ?thesis
    by (simp add: take_ready_confirmed_candle_def bt_get_del)
qed

end
