(* ===== verification/Strategy_Safety.thy ===== *)
theory Strategy_Safety
  imports Strategy_Runner
begin

text \<open>
  What the strategy may ask of the exchange, and the invariant of its tracked state.

  \<open>yields J m Q\<close> is the logic used: the action keeps the invariant \<open>J\<close> of the context whatever the
  client answers, also when it fails, and a value it returns satisfies \<open>Q\<close>.  The locale
  \<open>exit_discipline\<close> holds what the operations on exits rely on (an invariant that survives every
  permitted request and every coherent change of the tracked state); \<open>trading_discipline\<close> adds the
  entry.  Both are proved once for all operations and interpreted on several invariants.
\<close>

section \<open>The logic\<close>

named_theorems yields_rules "structural rules for the actions of the strategy"

definition yields :: "(run_context \<Rightarrow> bool) \<Rightarrow> 'a act \<Rightarrow> ('a \<Rightarrow> bool) \<Rightarrow> bool" where
  "yields J m Q = (\<forall>c. J c \<longrightarrow> J (snd (m c)) \<and> (\<forall>x. fst (m c) = Inr x \<longrightarrow> Q x))"

definition keeps :: "(run_context \<Rightarrow> bool) \<Rightarrow> 'a act \<Rightarrow> bool" where
  "keeps J m = yields J m (\<lambda>_. True)"

lemma keepsD: "keeps J m \<Longrightarrow> J c \<Longrightarrow> J (snd (m c))"
  by (simp add: keeps_def yields_def)

lemma yields_keeps: "yields J m Q \<Longrightarrow> keeps J m"
  by (simp add: keeps_def yields_def)

lemma mbind_eq:
  "mbind m f c = (case fst (m c) of Inl e \<Rightarrow> (Inl e, snd (m c)) | Inr x \<Rightarrow> f x (snd (m c)))"
  by (simp add: mbind_def split: prod.split sum.split)

lemma keeps_bind_yields:
  "yields J m Q \<Longrightarrow> (\<And>x. Q x \<Longrightarrow> yields J (f x) R) \<Longrightarrow> yields J (mbind m f) R"
  by (auto simp: yields_def mbind_eq split: sum.splits)

lemma keeps_bind [yields_rules]:
  "yields J m Q \<Longrightarrow> (\<And>x. Q x \<Longrightarrow> keeps J (f x)) \<Longrightarrow> keeps J (mbind m f)"
  unfolding keeps_def by (rule keeps_bind_yields)

lemma keeps_do [yields_rules]: "keeps J m \<Longrightarrow> keeps J n \<Longrightarrow> keeps J (mdo m n)"
  unfolding keeps_def mdo_def by (rule keeps_bind_yields)

lemma yields_do [yields_rules]: "keeps J m \<Longrightarrow> yields J n R \<Longrightarrow> yields J (mdo m n) R"
  unfolding keeps_def mdo_def by (rule keeps_bind_yields)

lemma yields_ret [yields_rules]: "yields J (mret x) (\<lambda>y. y = x)"
  by (simp add: yields_def mret_def)

lemma keeps_ret [yields_rules]: "keeps J (mret x)"
  by (simp add: keeps_def yields_def mret_def)

lemma yields_lift [yields_rules]: "yields J (lift r) (\<lambda>x. r = Inr x)"
  by (simp add: yields_def lift_def)

lemma keeps_lift [yields_rules]: "keeps J (lift r)"
  by (simp add: keeps_def yields_def lift_def)

lemma keeps_self_result [yields_rules]: "keeps J (self_result f)"
  by (simp add: keeps_def yields_def self_result_def)

lemma yields_self_result [yields_rules]: "yields J (self_result f) (\<lambda>x. \<exists>r. f r = Inr x)"
  by (auto simp: yields_def self_result_def)

lemma keeps_asks [yields_rules]: "keeps J (asks f)"
  by (simp add: keeps_def yields_def asks_def)

lemma keeps_when [yields_rules]: "(b \<Longrightarrow> keeps J m) \<Longrightarrow> keeps J (mwhen b m)"
  by (simp add: mwhen_def keeps_ret)

lemma keeps_if [yields_rules]:
  "(b \<Longrightarrow> keeps J m) \<Longrightarrow> (\<not> b \<Longrightarrow> keeps J n) \<Longrightarrow> keeps J (if b then m else n)"
  by simp

lemma yields_if [yields_rules]:
  "(b \<Longrightarrow> yields J m Q) \<Longrightarrow> (\<not> b \<Longrightarrow> yields J n Q) \<Longrightarrow> yields J (if b then m else n) Q"
  by simp

lemma keeps_option [yields_rules]:
  "(x = None \<Longrightarrow> keeps J m) \<Longrightarrow> (\<And>v. x = Some v \<Longrightarrow> keeps J (f v)) \<Longrightarrow>
    keeps J (case x of None \<Rightarrow> m | Some v \<Rightarrow> f v)"
  by (simp split: option.split)

lemma keeps_prod [yields_rules]:
  "(\<And>a b. p = (a, b) \<Longrightarrow> keeps J (f a b)) \<Longrightarrow> keeps J (case p of (a, b) \<Rightarrow> f a b)"
  by (simp split: prod.split)

lemma keeps_Let [yields_rules]: "keeps J (f a) \<Longrightarrow> keeps J (let x = a in f x)"
  by simp

lemma keeps_fold [yields_rules]: "(\<And>s x. keeps J (f s x)) \<Longrightarrow> keeps J (mfold f s xs)"
  by (induction xs arbitrary: s)
    (auto simp: keeps_ret intro!: keeps_bind [where Q = "\<lambda>_. True"] simp flip: keeps_def)

lemma keeps_any: "keeps J m \<Longrightarrow> yields J m (\<lambda>_. True)"
  by (simp add: keeps_def)

section \<open>What may be asked\<close>

definition on_instrument :: "string \<Rightarrow> request \<Rightarrow> bool" where
  "on_instrument i q =
     (case q of
        GetInstrument j \<Rightarrow> j = i | GetCandles j _ _ \<Rightarrow> j = i | GetLiveCandles j _ _ \<Rightarrow> j = i
      | GetTicker j \<Rightarrow> j = i | GetSpotTradeFee j \<Rightarrow> j = i | GetOpenOrders j \<Rightarrow> j = i
      | GetOrderHistory j \<Rightarrow> j = i | GetOrderFills j \<Rightarrow> j = i | GetOpenAlgoOrders j \<Rightarrow> j = i
      | GetAlgoOrderHistory j \<Rightarrow> j = i | GetOrder j _ \<Rightarrow> j = i | PlaceOrder j _ _ _ _ _ \<Rightarrow> j = i
      | CancelOrder j _ \<Rightarrow> j = i | AmendOrder j _ _ _ _ \<Rightarrow> j = i
      | PlaceTriggerOrder j _ _ _ _ \<Rightarrow> j = i | CancelAlgoOrder j _ \<Rightarrow> j = i | _ \<Rightarrow> True)"

definition owned_id :: "string \<Rightarrow> OrderPurpose \<Rightarrow> string \<Rightarrow> bool" where
  "owned_id tag purpose cid = (parse_strategy_client_order_id cid tag = Some purpose)"

text \<open>The exits: sells only, of the right kind for the purpose in the identifier.\<close>

definition exit_request :: "string \<Rightarrow> request \<Rightarrow> bool" where
  "exit_request tag q =
     (case q of
        PlaceOrder _ side kind _ price cid \<Rightarrow>
          side = Sell \<and>
          (kind = Limit \<and> price \<noteq> None \<and> owned_id tag TakeProfit cid \<or>
           kind = Market \<and> price = None \<and> owned_id tag StopLoss cid)
      | PlaceTriggerOrder _ side _ _ cid \<Rightarrow> side = Sell \<and> owned_id tag StopLoss cid
      | AmendOrder _ side cid _ _ \<Rightarrow> side = Sell \<and> owned_id tag TakeProfit cid
      | CancelOrder _ cid \<Rightarrow> parse_strategy_client_order_id cid tag \<noteq> None
      | _ \<Rightarrow> True)"

definition entry_request :: "string \<Rightarrow> request \<Rightarrow> bool" where
  "entry_request tag q =
     (case q of
        PlaceOrder _ side kind _ price cid \<Rightarrow>
          side = Buy \<and> kind = PostOnly \<and> price \<noteq> None \<and> owned_id tag Entry cid
      | _ \<Rightarrow> False)"

section \<open>Coherent tracked state\<close>

definition tracked_ok :: "string \<Rightarrow> OrderPurpose \<Rightarrow> TrackedOrder option \<Rightarrow> bool" where
  "tracked_ok tag purpose x =
     (case x of None \<Rightarrow> True
      | Some t \<Rightarrow> owned_id tag purpose (to_client_order_id t) \<and> 0 \<le> to_last_fill_size t)"

definition position_ok :: "OpenPosition option \<Rightarrow> bool" where
  "position_ok x =
     (case x of None \<Rightarrow> True | Some p \<Rightarrow> 0 < op_average_price p \<and> 0 < op_stop_loss_trigger p)"

definition coherent :: "string \<Rightarrow> ExchangeState \<Rightarrow> bool" where
  "coherent tag s =
     (tracked_ok tag Entry (ex_entry_order s) \<and> tracked_ok tag TakeProfit (ex_take_profit_order s) \<and>
      tracked_ok tag StopLoss (ex_stop_loss_exit_order s) \<and> position_ok (ex_position s) \<and>
      (ex_stop_loss_exit_order s \<noteq> None \<longrightarrow> ex_stop_loss_pending s = Some ExitReconciliation))"

definition coherent_runner :: "OkxEmaAtrMakerTrendRunner \<Rightarrow> bool" where
  "coherent_runner r =
     (case rn_exchange r of None \<Rightarrow> True | Some s \<Rightarrow> coherent (strategy_tag (rn_instance_id r)) s)"

lemma tracked_ok_simps [simp]:
  "tracked_ok tag purpose None"
  "tracked_ok tag purpose (Some t) \<longleftrightarrow>
     owned_id tag purpose (to_client_order_id t) \<and> 0 \<le> to_last_fill_size t"
  by (simp_all add: tracked_ok_def)

lemma position_ok_simps [simp]:
  "position_ok None"
  "position_ok (Some p) \<longleftrightarrow> 0 < op_average_price p \<and> 0 < op_stop_loss_trigger p"
  by (simp_all add: position_ok_def)

lemma tracked_ok_update [simp]:
  assumes "tracked_ok tag purpose x" and "\<And>t. to_client_order_id (f t) = to_client_order_id t"
    and "\<And>t. 0 \<le> to_last_fill_size t \<Longrightarrow> 0 \<le> to_last_fill_size (f t)"
  shows "tracked_ok tag purpose (update_if cid f x)"
  using assms by (cases x) (auto simp: update_if_def)

lemma update_if_None [simp]: "update_if cid f x = None \<longleftrightarrow> x = None"
  by (simp add: update_if_def)

lemma update_if_Some: "(\<exists>y. update_if cid f x = Some y) \<longleftrightarrow> (\<exists>y. x = Some y)"
  by (cases x) (simp_all add: update_if_def)

lemma new_tracked_order_simps [simp]:
  "to_client_order_id (new_tracked_order cid) = cid" "to_last_fill_size (new_tracked_order cid) = 0"
  by (simp_all add: new_tracked_order_def)

lemma mark_cancel_requested_simps [simp]:
  "to_client_order_id (mark_cancel_requested t) = to_client_order_id t"
  "to_last_fill_size (mark_cancel_requested t) = to_last_fill_size t"
  by (simp_all add: mark_cancel_requested_def)

lemma track_fill_simps [simp]:
  "to_client_order_id (track_fill z a t) = to_client_order_id t"
  "to_last_fill_size (track_fill z a t) = z"
  by (simp_all add: track_fill_def)

lemma order_fill_size_nonneg: "order_fill_size D o1 = Inr z \<Longrightarrow> 0 \<le> z"
  by (auto simp: order_fill_size_def parse_non_negative_decimal_def rbind_eq_Inr)

lemma stop_loss_trigger_positive:
  "stop_loss_trigger D r a = Inr t \<Longrightarrow> 0 < a \<and> 0 < t"
  by (auto simp: stop_loss_trigger_def rbind_eq_Inr)

lemma next_open_position_ok:
  "next_open_position D r q a = Inr x \<Longrightarrow> position_ok (Some (snd x))"
  by (auto simp: next_open_position_def rbind_eq_Inr split: option.splits
      dest!: stop_loss_trigger_positive)

lemma find_live_strategy_order_ok:
  "find_live_strategy_order D os tag purpose side i = Inr x \<Longrightarrow> tracked_ok tag purpose x"
  by (auto simp: find_live_strategy_order_def rbind_eq_Inr owned_id_def live_matches_def
      filter_eq_Cons_iff split: list.splits dest: order_fill_size_nonneg)

definition reconstruction_ok :: "PositionReconstruction \<Rightarrow> bool" where
  "reconstruction_ok x = (\<forall>p. x = Reconstructed p \<longrightarrow> position_ok (Some p))"

lemma reconstructed_position_facts:
  assumes "reconstruct_position_from_evidence D r b e a = Inr (Reconstructed p)"
  shows "\<exists>owned s lot distance average trigger. strategy_net_filled_position D e = Inr owned \<and>
    exchange_of r = Inr s \<and> lot_size D (ex_instrument s) = Inr lot \<and>
    decimal_distance D (sb_total b) owned = Inr distance \<and> distance < lot \<and>
    0 < sb_tradeable_quantity b \<and>
    strategy_entry_average_price D e = Inr (ReconstructedPrice average) \<and>
    stop_loss_trigger D r average = Inr trigger \<and>
    p = \<lparr> op_quantity = sb_tradeable_quantity b, op_average_price = average,
          op_stop_loss_trigger = trigger \<rparr>"
proof -
  from assms obtain owned s lot distance where read: "strategy_net_filled_position D e = Inr owned"
      "exchange_of r = Inr s" "lot_size D (ex_instrument s) = Inr lot"
      "decimal_distance D (sb_total b) owned = Inr distance"
    by (auto simp: reconstruct_position_from_evidence_def rbind_eq_Inr)
  have pos: "\<not> sb_tradeable_quantity b \<le> 0"
    using assms read by (auto simp: reconstruct_position_from_evidence_def split: if_splits)
  then obtain status where status: "strategy_entry_average_price D e = Inr status"
    using assms read by (auto simp: reconstruct_position_from_evidence_def rbind_eq_Inr)
  show ?thesis
  proof (cases status)
    case NoEntryFill
    with assms read pos status show ?thesis by (simp add: reconstruct_position_from_evidence_def)
  next
    case MissingPrice
    with assms read pos status show ?thesis
      by (cases a) (simp_all add: reconstruct_position_from_evidence_def)
  next
    case (ReconstructedPrice average)
    with assms read pos status show ?thesis
      by (auto simp: reconstruct_position_from_evidence_def rbind_eq_Inr split: if_splits)
  qed
qed

lemma reconstruct_position_ok:
  assumes "reconstruct_position_from_evidence D r b e a = Inr x"
  shows "reconstruction_ok x"
proof (cases x)
  case (Reconstructed p)
  with reconstructed_position_facts [of D r b e a p] assms show ?thesis
    by (auto simp: reconstruction_ok_def dest: stop_loss_trigger_positive)
qed (simp_all add: reconstruction_ok_def)

lemma finalize_position_ok:
  "finalize_reconstructed_position r b x = Inr p \<Longrightarrow> reconstruction_ok x \<Longrightarrow> position_ok p"
  by (auto simp: finalize_reconstructed_position_def reconstruction_ok_def rbind_eq_Inr
      split: PositionReconstruction.splits PositionEvidenceGap.splits if_splits)

definition live_ok :: "string \<Rightarrow> LiveOrders \<Rightarrow> bool" where
  "live_ok tag l =
     (tracked_ok tag Entry (lo_entry l) \<and> tracked_ok tag TakeProfit (lo_take_profit l) \<and>
      tracked_ok tag StopLoss (lo_stop_loss_exit l))"

lemma classify_live_orders_ok:
  "classify_live_orders D r os as = Inr l \<Longrightarrow> live_ok (strategy_tag (rn_instance_id r)) l"
  by (auto simp: classify_live_orders_def Let_def rbind_eq_Inr live_ok_def
      dest: find_live_strategy_order_ok)

lemma accept_reconstruction_ok:
  "live_ok tag l \<Longrightarrow> position_ok p \<Longrightarrow> coherent tag (accept_reconstruction l p s)"
  by (simp add: live_ok_def coherent_def accept_reconstruction_def)

section \<open>The disciplines\<close>

locale exit_discipline =
  fixes J :: "run_context \<Rightarrow> bool" and iid :: string and inst :: string
  assumes identity: "J c \<Longrightarrow> rn_instance_id (cx_runner c) = iid \<and> rn_instrument_id (cx_runner c) = inst"
    and held: "J c \<Longrightarrow> coherent_runner (cx_runner c)"
    and asked: "J c \<Longrightarrow> on_instrument inst q \<Longrightarrow> exit_request (strategy_tag iid) q \<Longrightarrow>
      J (c\<lparr> cx_trace := q # cx_trace c \<rparr>)"
    and counted: "J c \<Longrightarrow> J (c\<lparr> cx_sequence := n \<rparr>)"
    and stored: "J c \<Longrightarrow> coherent (strategy_tag iid) s \<Longrightarrow>
      J (c\<lparr> cx_runner := (cx_runner c)\<lparr> rn_exchange := Some s \<rparr> \<rparr>)"
    and signalled: "J c \<Longrightarrow> J (c\<lparr> cx_runner := (cx_runner c)\<lparr> rn_signal := g \<rparr> \<rparr>)"
    and priced: "J c \<Longrightarrow> J (c\<lparr> cx_runner := (cx_runner c)
      \<lparr> rn_entry_fee_cost_rate := a, rn_exit_fee_cost_rate := b \<rparr> \<rparr>)"
begin

subsection \<open>Primitives\<close>

lemma held_state: "J c \<Longrightarrow> rn_exchange (cx_runner c) = Some s \<Longrightarrow> coherent (strategy_tag iid) s"
  using held identity by (fastforce simp: coherent_runner_def)

lemma yields_exchange [yields_rules]: "yields J exchange (coherent (strategy_tag iid))"
  by (auto simp: yields_def exchange_def mbind_eq asks_def lift_def exchange_of_def held_state)

lemma yields_asks_exchange [yields_rules]:
  "yields J (asks rn_exchange) (\<lambda>x. \<forall>s. x = Some s \<longrightarrow> coherent (strategy_tag iid) s)"
  by (auto simp: yields_def asks_def held_state)

lemma yields_exchange_opt [yields_rules]:
  "yields J (exchange_opt f) (\<lambda>x. \<forall>v. x = Some v \<longrightarrow> (\<exists>s. coherent (strategy_tag iid) s \<and> f s = Some v))"
  by (auto simp: yields_def exchange_opt_def asks_def bind_eq_Some_conv intro: held_state)

lemma keeps_exchange_mut [yields_rules]:
  "(\<And>s. coherent (strategy_tag iid) s \<Longrightarrow> coherent (strategy_tag iid) (f s)) \<Longrightarrow>
    keeps J (exchange_mut f)"
  by (auto simp: keeps_def yields_def exchange_mut_def exchange_def mbind_eq asks_def lift_def
      exchange_of_def modifies_def held_state stored some_or_def ok_or_def split: option.splits)

lemma keeps_request [yields_rules]:
  "on_instrument inst q \<Longrightarrow> exit_request (strategy_tag iid) q \<Longrightarrow> keeps J (request q answer)"
  by (simp add: keeps_def yields_def request_def asked)

lemma yields_request [yields_rules]:
  "on_instrument inst q \<Longrightarrow> exit_request (strategy_tag iid) q \<Longrightarrow>
    yields J (request q answer) (\<lambda>x. \<exists>t. answer t = Inr x)"
  by (auto simp: yields_def request_def asked)

lemma yields_instrument_call [yields_rules]:
  "on_instrument inst (q inst) \<Longrightarrow> exit_request (strategy_tag iid) (q inst) \<Longrightarrow>
    yields J (instrument_call q answer) (\<lambda>x. \<exists>t. answer t = Inr x)"
  using identity by (auto simp: yields_def instrument_call_def request_def asked mbind_eq asks_def)

lemma keeps_instrument_call [yields_rules]:
  "on_instrument inst (q inst) \<Longrightarrow> exit_request (strategy_tag iid) (q inst) \<Longrightarrow>
    keeps J (instrument_call q answer)"
  by (rule yields_keeps [OF yields_instrument_call])

lemma yields_next_client_order_id [yields_rules]:
  "yields J (next_client_order_id E purpose) (owned_id (strategy_tag iid) purpose)"
  using identity
  by (auto simp: yields_def next_client_order_id_def mbind_eq asks_def request_def asked counted
      on_instrument_def exit_request_def owned_id_def client_order_id_facts)

lemma keeps_clear_position_state [yields_rules]: "keeps J clear_position_state"
proof -
  have "J (snd (clear_position_state c))" if J: "J c" for c
  proof (cases "rn_exchange (cx_runner c)")
    case None
    then have "snd (clear_position_state c) = c"
      by (simp add: clear_position_state_def modifies_def)
    with J show ?thesis by simp
  next
    case (Some s)
    with J show ?thesis
      by (auto simp: clear_position_state_def modifies_def coherent_def intro!: stored)
  qed
  then show ?thesis by (simp add: keeps_def yields_def)
qed

lemma keeps_record [yields_rules]: "keeps J record_order_decision"
  by (simp add: record_order_decision_def keeps_request on_instrument_def exit_request_def)

lemma keeps_catches [yields_rules]: "keeps J m \<Longrightarrow> yields J (catches m) (\<lambda>_. True)"
  by (auto simp: keeps_def yields_def catches_def split: prod.splits sum.splits fault.splits)

subsection \<open>Operations\<close>

lemmas discipline_simps = on_instrument_def exit_request_def coherent_def

lemma keeps_cancel_order [yields_rules]:
  "parse_strategy_client_order_id cid (strategy_tag iid) \<noteq> None \<Longrightarrow> keeps J (cancel_order E cid)"
  by (auto simp: cancel_order_def on_instrument_def exit_request_def intro: keeps_instrument_call)

lemma yields_get_order [yields_rules]: "yields J (get_order E cid) (\<lambda>_. True)"
  unfolding get_order_def
  by (rule keeps_any, rule keeps_instrument_call; simp add: on_instrument_def exit_request_def)

lemma yields_get_ticker [yields_rules]: "yields J (get_ticker E) (\<lambda>_. True)"
  unfolding get_ticker_def
  by (rule keeps_any, rule keeps_instrument_call; simp add: on_instrument_def exit_request_def)

lemma yields_get_last_price [yields_rules]: "yields J (get_last_price E) (\<lambda>_. True)"
  unfolding get_last_price_def by (rule keeps_any yields_rules)+

lemma keeps_get_last_price [yields_rules]: "keeps J (get_last_price E)"
  by (rule yields_keeps [OF yields_get_last_price])

lemma yields_cancel_if_live [yields_rules]:
  "parse_strategy_client_order_id cid (strategy_tag iid) \<noteq> None \<Longrightarrow>
    yields J (cancel_if_live E cid) (\<lambda>_. True)"
  unfolding cancel_if_live_def by (rule yields_rules)+

lemma keeps_place_order [yields_rules]:
  "exit_request (strategy_tag iid) (PlaceOrder inst side kind sz price cid) \<Longrightarrow>
    keeps J (place_order E side kind sz price cid)"
  by (auto simp: place_order_def on_instrument_def intro: keeps_instrument_call)

lemma keeps_ensure_order_quote_amount [yields_rules]: "keeps J (ensure_order_quote_amount E a ctx)"
  unfolding ensure_order_quote_amount_def
  by (rule yields_rules | (auto simp: on_instrument_def exit_request_def; fail)[1])+

lemma keeps_place_take_profit [yields_rules]: "keeps J (place_take_profit E q a)"
  unfolding place_take_profit_def Let_def
  by (rule yields_rules | (auto simp: discipline_simps; fail)[1])+

lemma keeps_ensure_take_profit_order [yields_rules]: "keeps J (ensure_take_profit_order E)"
  unfolding ensure_take_profit_order_def by (rule yields_rules)+

lemma keeps_place_stop_loss_order [yields_rules]: "keeps J (place_stop_loss_order E p)"
  unfolding place_stop_loss_order_def Let_def
  by (rule yields_rules | (auto simp: discipline_simps; fail)[1])+

lemma keeps_mark_take_profit [yields_rules]: "keeps J (mark_take_profit_cancel_requested cid)"
  unfolding mark_take_profit_cancel_requested_def
  by (rule yields_rules | (auto simp: discipline_simps; fail)[1])+

lemma keeps_cancel_stop_loss_order [yields_rules]: "keeps J (cancel_stop_loss_order E)"
  unfolding cancel_stop_loss_order_def
  by (rule yields_rules | (auto simp: discipline_simps; fail)[1])+

lemma keeps_ensure_stop_loss_order [yields_rules]: "keeps J (ensure_stop_loss_order E)"
  unfolding ensure_stop_loss_order_def by (rule yields_rules)+

lemma keeps_cancel_take_profit_order [yields_rules]: "keeps J (cancel_take_profit_order E)"
  unfolding cancel_take_profit_order_def
  by (rule yields_rules | (auto simp: discipline_simps owned_id_def; fail)[1])+

lemma keeps_cancel_stop_loss_exit_order [yields_rules]: "keeps J (cancel_stop_loss_exit_order E)"
  unfolding cancel_stop_loss_exit_order_def
  by (rule yields_rules | (auto simp: discipline_simps owned_id_def; fail)[1])+

lemma keeps_cancel_tracked_entry_order [yields_rules]: "keeps J (cancel_tracked_entry_order E cid)"
  unfolding cancel_tracked_entry_order_def
  by (rule yields_rules | (auto simp: discipline_simps owned_id_def; fail)[1])+

lemma keeps_amend_take_profit_order [yields_rules]: "keeps J (amend_take_profit_order E)"
  unfolding amend_take_profit_order_def submit_take_profit_amend_def Let_def
  by (rule yields_rules | (auto simp: discipline_simps; fail)[1])+

lemma keeps_update_take_profit_tracking [yields_rules]:
  "0 \<le> z \<Longrightarrow> keeps J (update_take_profit_tracking cid z a)"
  unfolding update_take_profit_tracking_def
  by (rule yields_rules | (auto simp: discipline_simps; fail)[1])+

lemma yields_apply_position_reducing_fill [yields_rules]:
  "yields J (apply_position_reducing_fill E d) (\<lambda>_. True)"
  unfolding apply_position_reducing_fill_def Let_def
  by (rule keeps_any yields_rules | (auto simp: discipline_simps; fail)[1])+

lemma keeps_take_profit_missing [yields_rules]: "keeps J (take_profit_missing E)"
  unfolding take_profit_missing_def
  by (rule yields_rules | (auto simp: discipline_simps; fail)[1])+

lemma keeps_apply_take_profit_fill [yields_rules]:
  "0 \<le> z \<Longrightarrow> keeps J (apply_take_profit_fill E t z a)"
  unfolding apply_take_profit_fill_def
  by (rule yields_rules | (auto simp: discipline_simps; fail)[1])+

lemma keeps_take_profit_live [yields_rules]: "0 \<le> z \<Longrightarrow> keeps J (take_profit_live E t o1 z a)"
  unfolding take_profit_live_def
  by (rule yields_rules | (auto simp: discipline_simps; fail)[1])+

lemma keeps_take_profit_closed [yields_rules]: "keeps J (take_profit_closed E o1 d)"
  unfolding take_profit_closed_def
  by (rule yields_rules | (auto simp: discipline_simps; fail)[1])+

lemma keeps_refresh_take_profit_order [yields_rules]: "keeps J (refresh_take_profit_order E)"
  unfolding refresh_take_profit_order_def Let_def
  by (rule yields_rules | (auto intro: order_fill_size_nonneg; fail)[1])+

lemma keeps_open_position [yields_rules]:
  "position_ok (Some p) \<Longrightarrow> keeps J (open_position E h p)"
  unfolding open_position_def
  by (rule yields_rules | (auto simp: discipline_simps; fail)[1])+

lemma keeps_update_entry_tracking [yields_rules]:
  "0 \<le> z \<Longrightarrow> keeps J (update_entry_tracking cid z v a b)"
  unfolding update_entry_tracking_def
  by (rule yields_rules | (auto simp: discipline_simps; fail)[1])+

lemma keeps_apply_entry_fill [yields_rules]:
  "0 \<le> z \<Longrightarrow> keeps J (apply_entry_fill E t o1 z v)"
  unfolding apply_entry_fill_def Let_def
  by (rule yields_rules | (auto dest: next_open_position_ok; fail)[1])+

lemma keeps_entry_order_live [yields_rules]:
  "keeps J (entry_order_live E t o1 z)"
  unfolding entry_order_live_def unix_time_ms_def
  by (rule keeps_any yields_rules keeps_bind_yields | (auto simp: discipline_simps; fail)[1])+

lemma keeps_entry_order_closed [yields_rules]: "keeps J (entry_order_closed o1 z)"
  unfolding entry_order_closed_def
  by (rule yields_rules | (auto simp: discipline_simps; fail)[1])+

lemma keeps_refresh_entry_order [yields_rules]: "keeps J (refresh_entry_order E)"
  unfolding refresh_entry_order_def Let_def
  by (rule yields_rules | (auto intro: order_fill_size_nonneg; fail)[1])+

lemma yields_reconcile_position [yields_rules]:
  "yields J (reconcile_position_quantity_from_balance E) (\<lambda>_. True)"
  unfolding reconcile_position_quantity_from_balance_def Let_def
  by (rule keeps_any yields_rules | (auto simp: discipline_simps; fail)[1])+

lemma keeps_reconcile_triggered [yields_rules]: "keeps J (reconcile_triggered_stop_loss_order E)"
  unfolding reconcile_triggered_stop_loss_order_def
  by (rule yields_rules | (auto simp: discipline_simps owned_id_def; fail)[1])+

text \<open>Asking for a price leaves the state alone, so the pending mark is cleared on the state just read.\<close>

lemma keeps_price_recovery:
  assumes M: "keeps J M"
  shows "keeps J (mbind exchange (\<lambda>s. case ex_position s of None \<Rightarrow> mret () | Some p \<Rightarrow>
    mwhen (Q s \<and> ex_stop_loss_exit_order s = None \<and> R s) (mbind (get_last_price E) (\<lambda>l.
      mwhen (P l p) (mdo (exchange_mut (\<lambda>s. s\<lparr> ex_stop_loss_pending := None \<rparr>)) M)))))"
    (is "keeps J ?m")
proof -
  have "J (snd (?m c))" if J: "J c" for c
  proof (cases "rn_exchange (cx_runner c)")
    case None
    then show ?thesis
      using J by (simp add: mbind_eq exchange_def asks_def lift_def exchange_of_def strategy_fail_def)
  next
    case (Some s)
    then have read: "exchange c = (Inr s, c)"
      by (simp add: mbind_eq exchange_def asks_def lift_def exchange_of_def)
    let ?c1 = "snd (get_last_price E c)"
    have c1: "J ?c1" using keepsD [OF keeps_get_last_price J] .
    have same: "rn_exchange (cx_runner ?c1) = Some s"
      using Some by (auto simp: get_last_price_def get_ticker_def instrument_call_def mbind_eq asks_def
          request_def lift_def split: sum.splits)
    have "J (snd (exchange_mut (\<lambda>s. s\<lparr> ex_stop_loss_pending := None \<rparr>) ?c1))"
      if "ex_stop_loss_exit_order s = None"
      using that same c1 held_state [OF c1 same]
      by (auto simp: exchange_mut_def exchange_def mbind_eq asks_def lift_def exchange_of_def
          modifies_def coherent_def intro!: stored)
    then show ?thesis
      using J c1 keepsD [OF M]
      by (auto simp: mbind_eq read mdo_def mwhen_def mret_def split: option.splits sum.splits)
  qed
  then show ?thesis by (simp add: keeps_def yields_def)
qed

lemma keeps_stop_loss_algo_open [yields_rules]: "keeps J (stop_loss_algo_open E t a)"
proof -
  note rec = keeps_price_recovery [OF keeps_ensure_take_profit_order, where R = "\<lambda>s. ex_take_profit_order s = None"
      and Q = "\<lambda>s. ex_stop_loss_pending s = Some LocalThreshold"
      and P = "\<lambda>l p. l > op_stop_loss_trigger p"]
  show ?thesis
    unfolding stop_loss_algo_open_def
    by (rule rec yields_rules | (auto simp: discipline_simps; fail)[1])+
qed

lemma yields_stop_loss_algo_history [yields_rules]:
  "yields J (stop_loss_algo_history E t h) (\<lambda>_. True)"
  unfolding stop_loss_algo_history_def
  by (rule keeps_any yields_rules | (auto simp: discipline_simps; fail)[1])+

lemma keeps_stop_loss_algo_gone [yields_rules]: "keeps J (stop_loss_algo_gone E t)"
  unfolding stop_loss_algo_gone_def
  by (rule yields_rules | (auto simp: discipline_simps; fail)[1])+

lemma keeps_refresh_stop_loss_order [yields_rules]: "keeps J (refresh_stop_loss_order E)"
  unfolding refresh_stop_loss_order_def
  by (rule yields_rules | (auto simp: discipline_simps; fail)[1])+

lemma keeps_update_stop_loss_exit_tracking [yields_rules]:
  "0 \<le> z \<Longrightarrow> keeps J (update_stop_loss_exit_tracking cid z a)"
  unfolding update_stop_loss_exit_tracking_def
  by (rule yields_rules | (auto simp: discipline_simps; fail)[1])+

lemma keeps_stop_loss_exit_missing [yields_rules]: "keeps J (stop_loss_exit_missing E)"
  unfolding stop_loss_exit_missing_def
  by (rule yields_rules | (auto simp: discipline_simps; fail)[1])+

lemma keeps_stop_loss_exit_closed [yields_rules]: "keeps J (stop_loss_exit_closed o1)"
  unfolding stop_loss_exit_closed_def
  by (rule yields_rules | (auto simp: discipline_simps; fail)[1])+

lemma keeps_refresh_stop_loss_exit_order [yields_rules]: "keeps J (refresh_stop_loss_exit_order E)"
  unfolding refresh_stop_loss_exit_order_def Let_def
  by (rule yields_rules | (auto intro: order_fill_size_nonneg; fail)[1])+

lemma yields_retire_take_profit [yields_rules]:
  "yields J (retire_take_profit E pending) (\<lambda>_. True)"
  unfolding retire_take_profit_def Let_def
  by (rule keeps_any yields_rules | (auto simp: discipline_simps owned_id_def; fail)[1])+

lemma keeps_submit_stop_loss_exit [yields_rules]: "keeps J (submit_stop_loss_exit E price p)"
proof -
  have reference: "yields J (case price of Some price \<Rightarrow> mret price
      | None \<Rightarrow> mbind (get_ticker E) (\<lambda>t. lift (ask_decimal (cl_decimal E) t))) (\<lambda>_. True)"
    by (rule keeps_any yields_rules)+
  show ?thesis
    unfolding submit_stop_loss_exit_def Let_def
    by (rule reference yields_rules | (auto simp: discipline_simps; fail)[1])+
qed

lemma keeps_market_exit [yields_rules]: "keeps J (market_exit E pending price)"
  unfolding market_exit_def
  by (rule keeps_any yields_rules)+

lemma exchange_mut_at:
  assumes "J c" and "\<And>s. rn_exchange (cx_runner c) = Some s \<Longrightarrow> coherent (strategy_tag iid) s \<Longrightarrow>
    coherent (strategy_tag iid) (f s)"
  shows "J (snd (exchange_mut f c))"
  using assms held_state [OF assms(1)]
  by (auto simp: exchange_mut_def exchange_def mbind_eq asks_def lift_def exchange_of_def
      modifies_def some_or_def ok_or_def stored split: option.splits)

text \<open>No market exit is tracked while no stop loss is pending, so the first threshold may mark it.\<close>

lemma keeps_evaluate_stop_loss [yields_rules]: "keeps J (evaluate_stop_loss E)"
proof -
  have "J (snd (evaluate_stop_loss E c))" if J: "J c" for c
  proof (cases "rn_exchange (cx_runner c)")
    case None
    with J show ?thesis by (simp add: evaluate_stop_loss_def mbind_eq exchange_opt_def asks_def mret_def)
  next
    case (Some s)
    let ?prices = "stop_loss_prices E (ex_stop_loss_pending s)"
    have prices: "keeps J (?prices p)" for p
      unfolding stop_loss_prices_def by (rule keeps_any yields_rules)+
    have same: "rn_exchange (cx_runner (snd (?prices p c))) = Some s" for p
      using Some by (auto simp: stop_loss_prices_def get_ticker_def instrument_call_def mbind_eq
          asks_def request_def lift_def mret_def split: sum.splits)
    have mark: "J (snd (mwhen (ex_stop_loss_pending s = None) (exchange_mut
        (\<lambda>s. s\<lparr> ex_stop_loss_pending := Some LocalThreshold \<rparr>)) (snd (?prices p c))))" for p
    proof (cases "ex_stop_loss_pending s")
      case none: None
      then show ?thesis
        using same exchange_mut_at [OF keepsD [OF prices J]] by (auto simp: mwhen_def coherent_def)
    next
      case (Some w)
      then show ?thesis using keepsD [OF prices J] by (simp add: mwhen_def mret_def)
    qed
    have rest: "keeps J (mbind (retire_take_profit E (ex_stop_loss_pending s)) (\<lambda>retired.
        if \<not> retired then mret () else market_exit E (ex_stop_loss_pending s) price))" for price
      by (rule yields_rules)+
    show ?thesis
    proof (cases "ex_position s")
      case None
      with Some J show ?thesis
        by (simp add: evaluate_stop_loss_def mbind_eq exchange_opt_def asks_def mret_def)
    next
      case (Some p)
      have reads: "exchange_opt ex_position c = (Inr (Some p), c)"
          "exchange_opt ex_stop_loss_pending c = (Inr (ex_stop_loss_pending s), c)"
        using Some \<open>rn_exchange (cx_runner c) = Some s\<close> by (simp_all add: exchange_opt_def asks_def)
      obtain v c1 where pr: "?prices p c = (v, c1)" by fastforce
      have c1: "J c1" using keepsD [OF prices J, of p] pr by simp
      obtain w c2 where mk: "mwhen (ex_stop_loss_pending s = None) (exchange_mut
          (\<lambda>s. s\<lparr> ex_stop_loss_pending := Some LocalThreshold \<rparr>)) c1 = (w, c2)" by fastforce
      have c2: "J c2" using mark [of p] pr mk by simp
      show ?thesis
        unfolding evaluate_stop_loss_def
        using J c1 c2 keepsD [OF rest c2]
        by (simp add: mbind_def reads pr mk mdo_def mret_def split: sum.splits)
    qed
  qed
  then show ?thesis by (simp add: keeps_def yields_def)
qed

subsection \<open>Reconstruction and handlers\<close>

lemma yields_append_targeted [yields_rules]:
  "yields J (append_targeted_strategy_order_evidence E tag evidence) (\<lambda>_. True)"
  unfolding append_targeted_strategy_order_evidence_def append_one_targeted_def
  by (rule keeps_any yields_rules)+

lemma yields_append_broad [yields_rules]:
  "yields J (append_broad_history_fallback_evidence E tag evidence) (\<lambda>_. True)"
  unfolding append_broad_history_fallback_evidence_def Let_def
  by (rule keeps_any yields_rules | (auto simp: discipline_simps; fail)[1])+

lemma yields_reconstruct_position:
  "yields J (self_result (\<lambda>r. reconstruct_position_from_evidence D r b e a)) reconstruction_ok"
  by (auto simp: yields_def self_result_def dest: reconstruct_position_ok)

lemma yields_finalize_position:
  "reconstruction_ok x \<Longrightarrow>
    yields J (self_result (\<lambda>r. finalize_reconstructed_position r b x)) position_ok"
  by (auto simp: yields_def self_result_def dest: finalize_position_ok)

lemma yields_gather_position [yields_rules]:
  "yields J (gather_position E tag balance open_orders) position_ok"
proof -
  have fallback: "yields J (case first of
      NeedsMoreEvidence _ \<Rightarrow>
        mbind (append_broad_history_fallback_evidence E tag orders) (\<lambda>broad.
        mbind (lift (strategy_fill_evidence D (fst broad) (snd broad) tag i)) (\<lambda>evidence.
        self_result (\<lambda>r. reconstruct_position_from_evidence D r balance evidence FinalAttempt)))
    | _ \<Rightarrow> mret first) reconstruction_ok" if "reconstruction_ok first" for first orders D i
  proof (cases first)
    case (NeedsMoreEvidence gap)
    show ?thesis
      unfolding NeedsMoreEvidence
      by simp (rule keeps_bind_yields yields_rules yields_reconstruct_position)+
  qed (use that in \<open>simp_all add: yields_def mret_def\<close>)
  show ?thesis
    unfolding gather_position_def Let_def
    by (rule keeps_bind_yields yields_exchange yields_lift yields_if yields_append_targeted
        yields_reconstruct_position fallback yields_finalize_position
        | (rule keeps_any, rule keeps_ret) | assumption)+
qed

lemma yields_classify_live_orders:
  "yields J (self_result (\<lambda>r. classify_live_orders D r os as)) (live_ok (strategy_tag iid))"
  using identity by (fastforce simp: yields_def self_result_def dest: classify_live_orders_ok)

lemma keeps_reconstruct_exchange_state [yields_rules]: "keeps J (reconstruct_exchange_state E)"
  unfolding reconstruct_exchange_state_def Let_def
  by (rule yields_classify_live_orders yields_rules keeps_any [OF keeps_asks]
      | (auto simp: discipline_simps; fail)[1] | (rule accept_reconstruction_ok; assumption))+

lemma yields_update_signal [yields_rules]: "yields J (update_signal E b) (\<lambda>_. True)"
  by (simp add: yields_def update_signal_def Let_def signalled)

lemma keeps_store_cost_rate [yields_rules]: "keeps J (store_cost_rate rate)"
  by (simp add: keeps_def yields_def store_cost_rate_def Let_def signalled)

lemma keeps_configure_fee_schedule [yields_rules]: "keeps J (configure_fee_schedule E fee)"
proof -
  have store: "keeps J (modifies (\<lambda>r. r\<lparr> rn_entry_fee_cost_rate := a, rn_exit_fee_cost_rate := b \<rparr>))"
    for a b by (simp add: keeps_def yields_def modifies_def priced)
  show ?thesis
    unfolding configure_fee_schedule_def Let_def by (rule store yields_rules)+
qed

lemma keeps_apply_startup_warmup: "keeps J (apply_startup_warmup E)"
  unfolding apply_startup_warmup_def warmup_bar_def Let_def
  by (rule keeps_any [OF keeps_fold] yields_rules | (auto simp: discipline_simps; fail)[1])+

lemma keeps_prepare_startup [yields_rules]: "keeps J (prepare_startup_exchange_state E)"
proof -
  have store: "keeps J (modifies (\<lambda>r. r\<lparr> rn_exchange := Some
      \<lparr> ex_instrument = i, ex_last_bar_ts_ms = t, ex_entry_order = None,
        ex_take_profit_order = None, ex_stop_loss_order = None, ex_stop_loss_exit_order = None,
        ex_position = None, ex_stop_loss_pending = None \<rparr> \<rparr>))" for i t
    by (simp add: keeps_def yields_def modifies_def stored coherent_def)
  show ?thesis
    unfolding prepare_startup_exchange_state_def
    by (rule store keeps_any [OF keeps_apply_startup_warmup] yields_rules
        | (auto simp: discipline_simps; fail)[1])+
qed

lemma keeps_ensure_position_protection [yields_rules]: "keeps J (ensure_position_protection E)"
  unfolding ensure_position_protection_def by (rule yields_rules)+

lemma keeps_initialize [yields_rules]: "keeps J (initialize E)"
  unfolding initialize_def protect_reconstructed_startup_state_def by (rule yields_rules)+

lemma keeps_ensure_initialized [yields_rules]: "keeps J (ensure_initialized E)"
  unfolding ensure_initialized_def by (rule yields_rules)+

lemma keeps_refresh_bars [yields_rules]: "keeps J (refresh_bars E)"
  unfolding refresh_bars_def refresh_one_bar_def
  by (rule yields_rules | (auto simp: discipline_simps; fail)[1])+

lemma keeps_refresh_tracked_orders [yields_rules]: "keeps J (refresh_tracked_orders E)"
  unfolding refresh_tracked_orders_def by (rule yields_rules)+

lemma keeps_enforce_tick_exit_protection [yields_rules]: "keeps J (enforce_tick_exit_protection E)"
  unfolding enforce_tick_exit_protection_def by (rule yields_rules)+

lemma keeps_on_private_event: "keeps J (on_private_event E)"
  unfolding on_private_event_def by (rule yields_rules)+

lemma keeps_on_reconcile_timer: "keeps J (on_reconcile_timer E)"
  unfolding on_reconcile_timer_def by (rule yields_rules)+

lemma keeps_on_instrument_update: "keeps J (on_instrument_update E)"
  unfolding on_instrument_update_def
  by (rule yields_rules | (auto simp: discipline_simps; fail)[1])+

lemma keeps_reconcile_after_interrupted_tick: "keeps J (reconcile_after_interrupted_tick E)"
  unfolding reconcile_after_interrupted_tick_def by (rule yields_rules)+

lemma yields_regular_order_is_live [yields_rules]: "yields J (regular_order_is_live E cid) (\<lambda>_. True)"
  unfolding regular_order_is_live_def by (rule keeps_any yields_rules)+

lemma keeps_cancel_shutdown_entry_order [yields_rules]: "keeps J (cancel_shutdown_entry_order E)"
  unfolding cancel_shutdown_entry_order_def Let_def
  by (rule yields_rules | (auto simp: discipline_simps; fail)[1])+

lemma keeps_shutdown_without_position [yields_rules]: "keeps J (shutdown_without_position E)"
  unfolding shutdown_without_position_def shutdown_take_profit_def shutdown_stop_loss_def
    shutdown_stop_loss_exit_def
  by (rule yields_rules | (auto simp: discipline_simps; fail)[1])+

lemma keeps_reconcile_shutdown_pending [yields_rules]: "keeps J (reconcile_shutdown_pending_stop_loss E)"
  unfolding reconcile_shutdown_pending_stop_loss_def shutdown_pending_take_profit_def
  by (rule yields_rules)+

lemma keeps_shutdown_with_position [yields_rules]: "keeps J (shutdown_with_position E)"
  unfolding shutdown_with_position_def by (rule yields_rules)+

lemma keeps_shutdown: "keeps J (shutdown E)"
  unfolding shutdown_def reconcile_shutdown_position_def by (rule yields_rules)+

lemmas keeps_handlers = keeps_initialize keeps_on_private_event keeps_on_reconcile_timer
  keeps_on_instrument_update keeps_reconcile_after_interrupted_tick keeps_shutdown

end

locale trading_discipline = exit_discipline +
  assumes entered: "J c \<Longrightarrow> on_instrument inst q \<Longrightarrow> entry_request (strategy_tag iid) q \<Longrightarrow>
    J (c\<lparr> cx_trace := q # cx_trace c \<rparr>)"
begin

lemma keeps_place_entry [yields_rules]:
  "owned_id (strategy_tag iid) Entry cid \<Longrightarrow>
    keeps J (place_order E Buy PostOnly sz (Some price) cid)"
  using identity
  by (auto simp: keeps_def yields_def place_order_def instrument_call_def mbind_eq asks_def
      request_def on_instrument_def entry_request_def intro!: entered)

lemma keeps_submit_entry [yields_rules]: "keeps J (submit_entry E raw)"
  unfolding submit_entry_def Let_def
  by (rule yields_rules | (auto simp: discipline_simps; fail)[1])+

lemma keeps_evaluate_entry [yields_rules]: "keeps J (evaluate_entry E)"
  unfolding evaluate_entry_def by (rule yields_rules)+

lemma keeps_on_confirmed_candle: "keeps J (on_confirmed_candle E)"
  unfolding on_confirmed_candle_def by (rule yields_rules)+

end

end
