(* ===== verification/Strategy_Sample.thy ===== *)
theory Strategy_Sample
  imports Strategy_Dispatch
begin

text \<open>
  A concrete instance, exchange client and account on which the witnesses evaluate: two candles warm
  the signal up, and the order history holds one filled entry of the strategy.
\<close>

definition sample_config :: OkxEmaAtrMakerTrendConfig where
  "sample_config = default_strategy_config
     \<lparr> sc_fast_ema_period := 1, sc_slow_ema_period := 2, sc_atr_period := 2, sc_quantity := 2 \<rparr>"

definition sample_instance :: StrategyInstanceConfig where
  "sample_instance =
     \<lparr> si_id = ''btc'', si_enabled = True,
       si_trading_instrument = \<lparr> rq_instrument = ''BTC-USDT'', rq_inst_type = RequestedSpot,
         rq_td_mode = RequestedCash \<rparr>,
       si_bar = ''1m'', si_params = sample_config \<rparr>"

definition sample_validated :: ValidatedTradingInstrument where
  "sample_validated =
     \<lparr> vi_instrument = sample_instrument, vi_trade_quote_ccy = ''USDT'', vi_quote_usd_source = None \<rparr>"

definition sample_bar :: "int \<Rightarrow> MarketBar" where
  "sample_bar t =
     \<lparr> mb_ts_ms = t, mb_open = F_Fin 100, mb_high = F_Fin 104, mb_low = F_Fin 100,
       mb_close = F_Fin 100, mb_confirm = True \<rparr>"

definition sample_entry :: OkxOrder where
  "sample_entry =
     \<lparr> or_inst_type = ''SPOT'', or_inst_id = ''BTC-USDT'', or_order_id = ''1'',
       or_client_order_id = client_order_id 1000000 1 ''btc'' Entry, or_side = ''buy'',
       or_order_type = ''post_only'', or_price = ''100'', or_state = ''filled'',
       or_average_price = ''100'', or_accumulated_fill_size = ''2'', or_fee = ''0'',
       or_fee_currency = ''BTC'', or_rebate = [], or_rebate_currency = [], or_sz = ''2'',
       or_created_at_ms = ''1'', or_updated_at_ms = ''1'' \<rparr>"

definition sample_fee :: OkxTradeFeeRate where
  "sample_fee =
     \<lparr> tf_inst_type = ''SPOT'', tf_level = ''1'', tf_group_id = ''1'', tf_maker = ''-0.001'',
       tf_taker = ''-0.002'', tf_ts = ''1'' \<rparr>"

definition sample_failure :: "'a res" where
  "sample_failure = Inl (Fail (Bad ''unavailable'' []))"

text \<open>The account holds \<open>base\<close> units of the base currency; \<open>history\<close> is the order history.\<close>

definition sample_client :: "string \<Rightarrow> OkxOrder list \<Rightarrow> OkxClient" where
  "sample_client base history =
     \<lparr> cl_decimal = exact_decimal, cl_clock = (\<lambda>_. 5000000),
       cl_instruments = (\<lambda>_. Inr sample_instrument),
       cl_candles = (\<lambda>_. Inr [sample_bar 1, sample_bar 2]),
       cl_live_candles = (\<lambda>_. Inr []),
       cl_ticker = (\<lambda>_. sample_failure), cl_fresh_quote_usd_rate = (\<lambda>_. sample_failure),
       cl_balances = (\<lambda>_. Inr [\<lparr> ba_details =
         [\<lparr> bd_ccy = ''BTC'', bd_available_balance = base, bd_cash_balance = base,
            bd_frozen_balance = ''0'' \<rparr>] \<rparr>]),
       cl_spot_trade_fee = (\<lambda>_. Inr sample_fee),
       cl_open_orders = (\<lambda>_. Inr []), cl_order_history = (\<lambda>_. Inr history),
       cl_order_fills = (\<lambda>_. Inr []), cl_open_algo_orders = (\<lambda>_. Inr []),
       cl_algo_order_history = (\<lambda>_. Inr []), cl_order = (\<lambda>_. Inr None),
       cl_place_order = (\<lambda>_. Inr
         \<lparr> ak_order_id = ''2'', ak_client_order_id = [], ak_status_code = ''0'',
           ak_status_message = [], ak_status_sub_code = [], ak_timestamp = ''1'' \<rparr>),
       cl_cancel_order = (\<lambda>_. Inr ()), cl_amend_order = (\<lambda>_. sample_failure),
       cl_place_trigger_order = (\<lambda>_. Inr
         \<lparr> aa_algo_id = ''3'', aa_client_order_id = [], aa_status_code = ''0'',
           aa_status_message = [] \<rparr>),
       cl_cancel_algo_order = (\<lambda>_. Inr ()) \<rparr>"

definition sample_runner :: OkxEmaAtrMakerTrendRunner where
  "sample_runner =
     (case from_validated_instance exact_decimal [sample_instance] sample_instance sample_validated of
        Inr r \<Rightarrow> r)"

definition sample_start :: run_context where
  "sample_start = \<lparr> cx_runner = sample_runner, cx_trace = [], cx_sequence = 1 \<rparr>"

section \<open>The start-up of the sample\<close>

lemma sample_rates: "d_parse exact_decimal MAX_MAKER_FEE_RATE = Some (1 / 1000)"
      "d_parse exact_decimal MAX_TAKER_FEE_RATE = Some (2 / 1000)"
    unfolding MAX_MAKER_FEE_RATE_def MAX_TAKER_FEE_RATE_def by (simp, code_simp)+

lemma sample_runner_eq:
  "from_validated_instance exact_decimal [sample_instance] sample_instance sample_validated = Inr
    sample_runner"
proof -
  have "si_instrument_id sample_instance = vi_inst_id sample_validated"
    by (simp add: si_instrument_id_def vi_inst_id_def sample_instance_def sample_validated_def
        sample_instrument_def)
  with sample_rates show ?thesis
    by (simp add: sample_runner_def from_validated_instance_def from_instance_with_context_def
      Let_def)
qed

lemma sample_bars: "confirmed_bars_chronological [sample_bar 1, sample_bar 2] = [sample_bar 1,
  sample_bar 2]"
  by (simp add: confirmed_bars_chronological_def sample_bar_def)

lemma runner_fields:
  assumes "from_validated_instance D xs i v = Inr r"
  shows "rn_signal r = (let p = si_params i in signal_new (sc_fast_ema_period p)
    (sc_slow_ema_period p) (sc_atr_period p)
              (sc_entry_offset_atr_multiple p) (sc_min_entry_offset_bps p)
                (sc_max_entry_offset_bps p))"
   "rn_validated_instrument r = Some v" "rn_instrument_id r = vi_inst_id v" "rn_instance_id r =
     si_id i"
   "rn_take_profit_atr_multiple r = sc_take_profit_atr_multiple (si_params i)"
   "rn_stop_loss_atr_multiple r = sc_stop_loss_atr_multiple (si_params i)"
   "rn_operator_owned_base_balance r = sc_operator_owned_base_balance (si_params i)"
   "rn_configured_strategy_tags r = configured_strategy_tags_for_instrument xs (vi_inst_id v)"
  using assms by (auto simp: from_validated_instance_def from_instance_with_context_def Let_def
    rbind_eq_Inr)

lemma sample_fields [simp]:
  "rn_signal sample_runner = signal_new 1 2 2 (sc_entry_offset_atr_multiple default_strategy_config)
     (sc_min_entry_offset_bps default_strategy_config) (sc_max_entry_offset_bps
       default_strategy_config)"
   "rn_validated_instrument sample_runner = Some sample_validated" "rn_instrument_id sample_runner
     = ''BTC-USDT''"
   "rn_instance_id sample_runner = ''btc''"
   "rn_take_profit_atr_multiple sample_runner = sc_take_profit_atr_multiple default_strategy_config"
   "rn_stop_loss_atr_multiple sample_runner = sc_stop_loss_atr_multiple default_strategy_config"
   "rn_operator_owned_base_balance sample_runner = sc_operator_owned_base_balance
     default_strategy_config"
   "rn_configured_strategy_tags sample_runner = configured_strategy_tags_for_instrument
     [sample_instance] ''BTC-USDT''"
  using runner_fields [OF sample_runner_eq]
  by (simp_all add: sample_instance_def sample_config_def vi_inst_id_def sample_validated_def
    sample_instrument_def)

lemmas run_simps = mret_def mbind_def mdo_def lift_def self_result_def asks_def modifies_def
  request_def instrument_call_def



lemma sample_decimals: "read_decimal ''-0.001'' = Some (- 1/1000)" "read_decimal ''-0.002'' = Some
  (- 1/500)"
  by code_simp+
lemma sample_group: "validate_fee_group_id x ''1'' = Inr ()"
  by (simp add: validate_fee_group_id_def sample_trims sample_ints is_ascii_digit_def byte_def)

lemma sample_costs: "normalized_maker_cost_rate exact_decimal sample_fee = Inr (1/1000)"
 "normalized_taker_cost_rate exact_decimal sample_fee = Inr (2/1000)"
 "fee_ensure_spot sample_fee i = Inr ()"
  by (simp_all add: sample_fee_def normalized_maker_cost_rate_def normalized_taker_cost_rate_def
    fee_ensure_spot_def
    normalized_cost_rate_def parse_decimal_def sample_decimals sample_group)

lemma sample_configure: "configure_fee_schedule (sample_client b h) sample_fee c =
  (Inr (), c\<lparr>cx_runner := (cx_runner c)\<lparr>rn_signal := (rn_signal (cx_runner
    c))\<lparr> sg_round_trip_cost_rate := Some (3/1000)\<rparr>,
    rn_entry_fee_cost_rate := Some (1/1000), rn_exit_fee_cost_rate := Some
      (2/1000)\<rparr>\<rparr>)"
  by (simp add: configure_fee_schedule_def Let_def run_simps sample_client_def sample_costs
    dec_add_def
    store_cost_rate_def set_round_trip_cost_rate_def )



lemma sample_signal:
  obtains sg sg' where
    "update_from_bar exact_decimal ((signal_new 1 2 2 m lo hi)\<lparr> sg_round_trip_cost_rate :=
      Some (3/1000)\<rparr>) (sample_bar 1) =
      (Inr False, sg)"
    "update_from_bar exact_decimal sg (sample_bar 2) = (Inr True, sg')" "signal_ready sg'"
    "sg_last_atr sg' = Some (F_Fin 4)"
proof -
  have "\<exists>sg sg'. update_from_bar exact_decimal ((signal_new 1 2 2 m lo hi)
      \<lparr> sg_round_trip_cost_rate := Some (3/1000)\<rparr>) (sample_bar 1) = (Inr False, sg)
        \<and>
    update_from_bar exact_decimal sg (sample_bar 2) = (Inr True, sg') \<and> signal_ready sg' \<and>
    sg_last_atr sg' = Some (F_Fin 4)"
  by (simp add: sample_bar_def update_from_bar_def Let_def clear_macro_signal_def f64_max_def
    usable_def is_normal_def
    bar_unusable_def ema_update_def atr_update_def signal_new_def ema_new_def atr_new_def
      f64_of_nat_def f64_sub_def
   true_range_def numeral_2_eq_2 entry_allowed_without_offset_def
     volatility_clears_fee_threshold_def signal_ready_def
    dec_mul_def dec_div_def pow2_def)
  then show ?thesis using that by blast
qed

lemma mbind_run: "m c = (Inr x, c') \<Longrightarrow> mbind m f c = f x c'"
  by (simp add: mbind_def)

lemma mdo_run: "m c = (Inr x, c') \<Longrightarrow> mdo m n c = n c'"
  by (simp add: mdo_def mbind_def)

lemma warmup_bar_step:
  "update_from_bar (cl_decimal E) (rn_signal (cx_runner c)) b = (Inr k, sg) \<Longrightarrow>
    warmup_bar E acc b c = (Inr ((if k then fst acc + 1 else fst acc), Some (mb_ts_ms b)),
      c\<lparr> cx_runner := (cx_runner c)\<lparr> rn_signal := sg \<rparr> \<rparr>)"
  by (simp add: warmup_bar_def update_signal_def run_simps)

lemma sample_client_simps [simp]:
  "cl_decimal (sample_client b h) = exact_decimal"
  "cl_spot_trade_fee (sample_client b h) t = Inr sample_fee"
  "cl_candles (sample_client b h) t = Inr [sample_bar 1, sample_bar 2]"
  "cl_open_orders (sample_client b h) t = Inr []"
  "cl_open_algo_orders (sample_client b h) t = Inr []"
  "cl_order_history (sample_client b h) t = Inr h"
  "cl_order_fills (sample_client b h) t = Inr []"
  "cl_order (sample_client b h) t = Inr None"
  "cl_balances (sample_client b h) t = Inr [\<lparr> ba_details =
     [\<lparr> bd_ccy = ''BTC'', bd_available_balance = b, bd_cash_balance = b,
        bd_frozen_balance = ''0'' \<rparr>] \<rparr>]"
  "cl_place_order (sample_client b h) t = Inr
     \<lparr> ak_order_id = ''2'', ak_client_order_id = [], ak_status_code = ''0'',
       ak_status_message = [], ak_status_sub_code = [], ak_timestamp = ''1'' \<rparr>"
  "cl_place_trigger_order (sample_client b h) t = Inr
     \<lparr> aa_algo_id = ''3'', aa_client_order_id = [], aa_status_code = ''0'',
       aa_status_message = [] \<rparr>"
  by (simp_all add: sample_client_def sample_fee_def)

definition sample_exchange :: ExchangeState where
  "sample_exchange =
     \<lparr> ex_instrument = sample_instrument, ex_last_bar_ts_ms = Some 2,
       ex_entry_order = None, ex_take_profit_order = None, ex_stop_loss_order = None,
       ex_stop_loss_exit_order = None, ex_position = None, ex_stop_loss_pending = None \<rparr>"


lemma sample_warmup:
  assumes "rn_signal (cx_runner c) = (signal_new 1 2 2 m lo hi)\<lparr> sg_round_trip_cost_rate :=
    Some (3/1000)\<rparr>"
  shows "\<exists>sg. mfold (warmup_bar (sample_client b h)) (0, None) [sample_bar 1, sample_bar
    2] c =
    (Inr (1, Some 2), c\<lparr> cx_runner := (cx_runner c)\<lparr> rn_signal := sg \<rparr>
      \<rparr>) \<and> signal_ready sg \<and>
    sg_last_atr sg = Some (F_Fin 4)"
proof -
  obtain sg sg' where u: "update_from_bar exact_decimal (rn_signal (cx_runner c)) (sample_bar 1) =
    (Inr False, sg)"
    "update_from_bar exact_decimal sg (sample_bar 2) = (Inr True, sg')" "signal_ready sg'"
    "sg_last_atr sg' = Some (F_Fin 4)"
    unfolding assms using sample_signal by blast
  let ?E = "sample_client b h"
  have "update_from_bar (cl_decimal ?E) (rn_signal (cx_runner c)) (sample_bar 1) = (Inr False, sg)"
    using u by simp
  note one = warmup_bar_step [OF this, of "(0, None)"]
  have "update_from_bar (cl_decimal ?E) (rn_signal (cx_runner (c\<lparr> cx_runner := (cx_runner
    c)\<lparr> rn_signal := sg \<rparr> \<rparr>)))
      (sample_bar 2) = (Inr True, sg')"
    using u by simp
  note two = warmup_bar_step [OF this, of "(0, Some 1)"]
  have "mb_ts_ms (sample_bar t) = t" for t by (simp add: sample_bar_def)
  then show ?thesis using u(3, 4) one two by (intro exI [of _ sg']) (simp add: mbind_run mret_def)
qed

lemma sample_prepare:
  obtains w c where "prepare_startup_exchange_state (sample_client b h) sample_start = (Inr w, c)"
    "rn_exchange (cx_runner c) = Some sample_exchange" "sg_last_atr (rn_signal (cx_runner c)) =
      Some (F_Fin 4)"
    "rn_instance_id (cx_runner c) = ''btc''" "rn_exit_fee_cost_rate (cx_runner c) = Some (2/1000)"
    "rn_validated_instrument (cx_runner c) = Some sample_validated"
    "rn_operator_owned_base_balance (cx_runner c) = 0" "rn_take_profit_atr_multiple (cx_runner c)
      = 2"
    "rn_stop_loss_atr_multiple (cx_runner c) = 3 / 2"
proof -
  define c1 where "c1 = sample_start\<lparr> cx_trace := [GetCandles ''BTC-USDT''
    OKX_EMA_ATR_MAKER_TREND_BAR
          HISTORICAL_WARMUP_BARS, GetSpotTradeFee ''BTC-USDT''],
     cx_runner := sample_runner\<lparr> rn_signal := (rn_signal sample_runner)\<lparr>
       sg_round_trip_cost_rate := Some (3 / 1000) \<rparr>,
         rn_entry_fee_cost_rate := Some (1 / 1000), rn_exit_fee_cost_rate := Some (2 / 1000)
           \<rparr> \<rparr>"
  have "rn_signal (cx_runner c1) = (signal_new 1 2 2 (sc_entry_offset_atr_multiple
    default_strategy_config)
     (sc_min_entry_offset_bps default_strategy_config) (sc_max_entry_offset_bps
       default_strategy_config))
      \<lparr> sg_round_trip_cost_rate := Some (3/1000)\<rparr>" by (simp add: c1_def)
  from sample_warmup [OF this] obtain sg where w: "mfold (warmup_bar (sample_client b h)) (0,
    None) [sample_bar 1, sample_bar 2] c1 =
    (Inr (1, Some 2), c1\<lparr> cx_runner := (cx_runner c1)\<lparr> rn_signal := sg \<rparr>
      \<rparr>)" "signal_ready sg"
    "sg_last_atr sg = Some (F_Fin 4)" by blast
  define c2 where "c2 = c1\<lparr> cx_runner := (cx_runner c1)\<lparr> rn_signal := sg,
    rn_exchange := Some sample_exchange \<rparr> \<rparr>"
  have f: "configure_fee_schedule (sample_client b h) sample_fee (sample_start\<lparr>cx_trace :=
    [GetSpotTradeFee ''BTC-USDT'']\<rparr>) =
    (Inr (), c1\<lparr>cx_trace := [GetSpotTradeFee ''BTC-USDT'']\<rparr>)"
    by (simp add: sample_configure c1_def sample_start_def)

  have g: "instrument_call GetSpotTradeFee (cl_spot_trade_fee (sample_client b h)) sample_start =
    (Inr sample_fee, sample_start\<lparr>cx_trace := [GetSpotTradeFee ''BTC-USDT'']\<rparr>)"
    by (simp add: run_simps sample_start_def)
  have k: "instrument_call (\<lambda>i. GetCandles i OKX_EMA_ATR_MAKER_TREND_BAR
    HISTORICAL_WARMUP_BARS)
     (cl_candles (sample_client b h)) (c1\<lparr>cx_trace := [GetSpotTradeFee
       ''BTC-USDT'']\<rparr>) =
    (Inr [sample_bar 1, sample_bar 2], c1)"
    by (simp add: run_simps c1_def sample_start_def)
  have a: "apply_startup_warmup (sample_client b h) (c1\<lparr>cx_trace := [GetSpotTradeFee
    ''BTC-USDT'']\<rparr>) =
     (Inr \<lparr> ws_confirmed_bar_count = 2, ws_applied_bars = 1, ws_last_bar_ts_ms = Some 2
       \<rparr>, c1\<lparr> cx_runner := (cx_runner c1)\<lparr> rn_signal := sg \<rparr> \<rparr>)"
    using w(2) by (simp add: apply_startup_warmup_def mbind_run k sample_bars w(1) [simplified])
      (simp add: run_simps)
  have v: "self_result validated_instrument_for_order sample_start = (Inr sample_validated,
    sample_start)"
    by (simp add: run_simps validated_instrument_for_order_def sample_start_def)
  have "prepare_startup_exchange_state (sample_client b h) sample_start =
   (Inr \<lparr> ws_confirmed_bar_count = 2, ws_applied_bars = 1, ws_last_bar_ts_ms = Some 2
     \<rparr>, c2)"
   by (simp add: prepare_startup_exchange_state_def mbind_run v g f a [simplified] mdo_run)
    (simp add: c2_def run_simps sample_exchange_def sample_validated_def)
  from that [OF this] w(3) show ?thesis
    by (simp add: c2_def c1_def sample_instance_def sample_config_def default_strategy_config_def)
qed

definition sample_position :: OpenPosition where
  "sample_position = \<lparr> op_quantity = 2, op_average_price = 100, op_stop_loss_trigger = 94
    \<rparr>"

lemma sample_numbers: "read_decimal ''2'' = Some 2" "read_decimal ''100'' = Some 100"
  "read_decimal ''0'' = Some 0"
  by (simp_all add: read_decimal_def read_unsigned_def ascii_digits_def digits_nat_def)

lemma sample_nonblank: "\<not> blank ''2''" "\<not> blank ''100''" "\<not> blank ''0''" "\<not>
  blank ''BTC''" "\<not> blank ''USDT''"
  by code_simp+

lemma sample_currencies: "oi_base_ccy sample_instrument = ''BTC''" "oi_quote_ccy sample_instrument
  = ''USDT''"
  by (simp_all add: sample_instrument_def)

lemma sample_purpose: "parse_strategy_client_order_id (or_client_order_id sample_entry)
  (strategy_tag ''btc'') = Some Entry"
  using client_order_id_facts by (simp add: sample_entry_def)

lemma sample_accounting:
  "cumulative_spot_accounting exact_decimal sample_entry ''BTC'' ''USDT'' =
    Inr \<lparr> ac_base_change = 2, ac_quote_change = - 200 \<rparr>"
  "order_fill_size exact_decimal sample_entry = Inr 2"
  "average_fill_price exact_decimal sample_entry = Inr (Some 100)" "order_parsed_side sample_entry
    = Some Buy"
  by (simp_all add: cumulative_spot_accounting_def order_fill_size_def average_fill_price_def
    sample_entry_def
   parse_non_negative_decimal_def parse_decimal_def sample_numbers sample_nonblank
     spot_fill_accounting_def order_parsed_side_def parse_side_def
   dec_mul_def apply_spot_currency_adjustment_def dec_add_def ensure_spot_accounting_direction_def
     apply_spot_rebate_def Let_def)

lemma sample_evidence_gathered:
  "strategy_fill_evidence exact_decimal [sample_entry] [] (strategy_tag ''btc'') sample_instrument =
    Inr [\<lparr> se_purpose = Entry, se_side = Buy, se_accounting = Some \<lparr> ac_base_change
      = 2, ac_quote_change = - 200 \<rparr> \<rparr>]"
  by (simp add: strategy_fill_evidence_def scan_order_def sample_purpose sample_accounting
    ensure_expected_fill_side_def
    purpose_side_def sample_currencies)

lemma sample_reconstruction:
  assumes "rn_exchange r = Some sample_exchange" "sg_last_atr (rn_signal r) = Some (F_Fin 4)"
    "rn_stop_loss_atr_multiple r = 3 / 2"
  shows "reconstruct_position_from_evidence exact_decimal r \<lparr> sb_total = 2,
    sb_tradeable_quantity = 2 \<rparr> [] a = Inr (NeedsMoreEvidence MissingCostBasis)"
   "reconstruct_position_from_evidence exact_decimal r \<lparr> sb_total = 2,
     sb_tradeable_quantity = 2 \<rparr>
     [\<lparr> se_purpose = Entry, se_side = Buy, se_accounting = Some \<lparr> ac_base_change =
       2, ac_quote_change = - 200 \<rparr> \<rparr>] a =
    Inr (Reconstructed sample_position)"
  using assms
  by (simp_all add: reconstruct_position_from_evidence_def strategy_net_filled_position_def
    exchange_of_def sample_exchange_def
    sample_sizes decimal_distance_def dec_sub_def strategy_entry_average_price_def
      net_filled_step_def purpose_side_def
    dec_add_def dec_div_def dec_mul_def stop_loss_trigger_def signal_atr_decimal_def is_normal_def
      pow2_def sample_position_def)

lemma sample_balance:
  assumes "rn_exchange r = Some sample_exchange" "rn_operator_owned_base_balance r = 0"
  shows "reconstruct_strategy_balance exact_decimal r [\<lparr> ba_details =
     [\<lparr> bd_ccy = ''BTC'', bd_available_balance = ''2'', bd_cash_balance = ''2'',
        bd_frozen_balance = ''0'' \<rparr>] \<rparr>] = Inr \<lparr> sb_total = 2,
          sb_tradeable_quantity = 2 \<rparr>"
  using assms by (simp add: reconstruct_strategy_balance_def exchange_of_def sample_exchange_def
    sample_currencies Let_def
   add_detail_total_def balance_total_def sample_numbers sample_nonblank
     parse_non_negative_decimal_def parse_decimal_def dec_add_def sample_sizes
   strategy_balance_after_operator_baseline_def dec_sub_def quantize_decimal_down_def dec_div_def
     dec_mul_def)


lemma sample_reconstruct:
  assumes "rn_exchange (cx_runner c) = Some sample_exchange" "sg_last_atr (rn_signal (cx_runner
    c)) = Some (F_Fin 4)"
    "rn_stop_loss_atr_multiple (cx_runner c) = 3 / 2" "rn_operator_owned_base_balance (cx_runner
      c) = 0"
    "rn_instance_id (cx_runner c) = ''btc''"
  shows "\<exists>t. reconstruct_exchange_state (sample_client ''2'' [sample_entry]) c = (Inr (),
    c\<lparr> cx_runner := (cx_runner c)\<lparr> rn_exchange := Some (sample_exchange\<lparr>
      ex_position := Some sample_position \<rparr>) \<rparr>,
       cx_trace := t \<rparr>)"
proof -
  have live: "classify_live_orders exact_decimal (cx_runner c) [] [] =
    Inr \<lparr> lo_entry = None, lo_take_profit = None, lo_stop_loss_exit = None, lo_stop_loss =
      None \<rparr>"
    using assms(1) by (simp add: classify_live_orders_def Let_def
      reject_live_legacy_strategy_ids_def exchange_of_def
      find_live_strategy_order_def find_live_strategy_stop_loss_algo_def
        reject_unknown_live_strategy_orders_def
      reject_unknown_live_strategy_algo_orders_def)

  note x = sample_reconstruction [OF assms(1-3)]
  have gather: "\<exists>t. gather_position (sample_client ''2'' [sample_entry]) (strategy_tag
    ''btc'') \<lparr> sb_total = 2, sb_tradeable_quantity = 2 \<rparr> [] d =
     (Inr (Some sample_position), d\<lparr>cx_trace := t\<rparr>)" if d: "cx_runner d = cx_runner
       c" for d
  proof -
    have e: "exchange d = (Inr sample_exchange, d)" using assms(1) d by (simp add: exchange_def
      run_simps exchange_of_def)
    have i: "ex_instrument sample_exchange = sample_instrument" by (simp add: sample_exchange_def)
    have t: "append_targeted_strategy_order_evidence (sample_client ''2'' [sample_entry])
      (strategy_tag ''btc'') [] d = (Inr [], d)"
      using assms(1) d by (simp add: append_targeted_strategy_order_evidence_def run_simps
        tracked_order_ids_def sample_exchange_def map_filter_def)
    have no: "strategy_order_evidence_from_orders [] tag = []" for tag by (simp add:
      strategy_order_evidence_from_orders_def)
    have none: "strategy_fill_evidence exact_decimal [] [] tag i = Inr []" for tag i by (simp add:
      strategy_fill_evidence_def)
    obtain u where b: "append_broad_history_fallback_evidence (sample_client ''2'' [sample_entry])
      (strategy_tag ''btc'') [] d =
        (Inr ([sample_entry], []), d\<lparr>cx_trace := u\<rparr>)"
      by (simp add: append_broad_history_fallback_evidence_def run_simps
        append_strategy_order_evidence_def sample_purpose
        strategy_order_evidence_ids_def Let_def)
    show ?thesis using d
      by (intro exI [of _ u])
        (simp add: gather_position_def Let_def mbind_run e i sample_sizes no t none lift_def
          self_result_def x b sample_evidence_gathered,
         simp add: finalize_reconstructed_position_def mbind_def lift_def self_result_def x
          sample_evidence_gathered b mret_def)
  qed
  let ?E = "sample_client ''2'' [sample_entry]"
  define d where "d = c\<lparr> cx_trace := [GetBalances, GetOpenAlgoOrders (rn_instrument_id
    (cx_runner c)),
    GetOpenOrders (rn_instrument_id (cx_runner c))] @ cx_trace c \<rparr>"
  have same: "cx_runner d = cx_runner c" by (simp add: d_def)
  obtain t where g: "gather_position ?E (strategy_tag ''btc'') \<lparr> sb_total = 2,
    sb_tradeable_quantity = 2 \<rparr> [] d =
     (Inr (Some sample_position), d\<lparr>cx_trace := t\<rparr>)" using gather [OF same] by blast
  show ?thesis
    using assms g by (intro exI [of _ t]) (simp add: reconstruct_exchange_state_def Let_def
      run_simps live sample_balance
      d_def validate_reconstructed_live_protection_def exchange_mut_def exchange_def
        exchange_of_def accept_reconstruction_def
      sample_exchange_def)
qed

lemma sample_place_take_profit:
  assumes "rn_exchange (cx_runner c) = Some s" "ex_instrument s = sample_instrument"
    "sg_last_atr (rn_signal (cx_runner c)) = Some (F_Fin 4)"
    "rn_take_profit_atr_multiple (cx_runner c) = 2" "rn_exit_fee_cost_rate (cx_runner c) = Some
      (2/1000)"
    "rn_validated_instrument (cx_runner c) = Some sample_validated"
  shows "\<exists>c' a. place_take_profit (sample_client b h) 2 100 c = (Inr (), c') \<and>
    cx_runner c' = (cx_runner c)\<lparr> rn_exchange := Some (s\<lparr> ex_take_profit_order :=
      Some a \<rparr>) \<rparr>"
proof -
  have shape: "take_profit_order_shape exact_decimal (cx_runner c) 2 100 = Inr \<lparr> tp_sz = 2,
    tp_price = 108 \<rparr>"
    using assms by (simp add: take_profit_order_shape_def exchange_of_def sample_sizes
      take_profit_price_def signal_atr_decimal_def
      is_normal_def pow2_def dec_mul_def dec_add_def dec_sub_def dec_div_def checked_exit_fee_def
        quantize_decimal_up_def
      quantize_decimal_down_def ensure_take_profit_clears_exit_fee_def)
  show ?thesis
    using assms by (simp add: place_take_profit_def Let_def run_simps shape exchange_def
      exchange_of_def sample_sizes
      ensure_limit_size_def ensure_order_quote_amount_def validated_instrument_for_order_def
        sample_validated_def
      next_client_order_id_def record_order_decision_def place_order_def exchange_mut_def
        ensure_max_size_def)
     (rule exI, rule refl)
qed

lemma sample_place_stop_loss:
  assumes "rn_exchange (cx_runner c) = Some s" "ex_instrument s = sample_instrument"
  shows "\<exists>c' a. place_stop_loss_order (sample_client b h) sample_position c = (Inr (), c')
    \<and>
    cx_runner c' = (cx_runner c)\<lparr> rn_exchange := Some (s\<lparr> ex_stop_loss_order := Some
      a \<rparr>) \<rparr>"
  using assms by (simp add: place_stop_loss_order_def Let_def run_simps exchange_def
    exchange_of_def sample_sizes sample_position_def
      ensure_trigger_size_def ensure_max_size_def quantize_decimal_down_def dec_div_def dec_mul_def
      next_client_order_id_def record_order_decision_def exchange_mut_def)
    (rule exI, rule refl)

text \<open>The start-up reconstructs the position and places both exits.\<close>

lemma sample_initialize:
  obtains c s where "initialize (sample_client ''2'' [sample_entry]) sample_start = (Inr (), c)"
    "rn_exchange (cx_runner c) = Some s" "ex_position s = Some sample_position"
      "ex_take_profit_order s \<noteq> None"
    "ex_stop_loss_order s \<noteq> None"
proof -
  let ?E = "sample_client ''2'' [sample_entry]"
  obtain w c1 where c1: "prepare_startup_exchange_state ?E sample_start = (Inr w, c1)"
    "rn_exchange (cx_runner c1) = Some sample_exchange" "sg_last_atr (rn_signal (cx_runner c1)) =
      Some (F_Fin 4)"
    "rn_instance_id (cx_runner c1) = ''btc''" "rn_exit_fee_cost_rate (cx_runner c1) = Some (2/1000)"
    "rn_validated_instrument (cx_runner c1) = Some sample_validated"
    "rn_operator_owned_base_balance (cx_runner c1) = 0" "rn_take_profit_atr_multiple (cx_runner
      c1) = 2"
    "rn_stop_loss_atr_multiple (cx_runner c1) = 3 / 2" by (rule sample_prepare)
  define s where "s = sample_exchange\<lparr> ex_position := Some sample_position \<rparr>"
  from sample_reconstruct [OF c1(2,3,9,7,4)] obtain c2 where c2: "reconstruct_exchange_state ?E c1
    = (Inr (), c2)"
     "cx_runner c2 = (cx_runner c1)\<lparr> rn_exchange := Some s \<rparr>" by (auto simp: s_def)
  have i: "ex_instrument s = sample_instrument" by (simp add: s_def sample_exchange_def)
  obtain c3 a where c3: "place_take_profit ?E 2 100 c2 = (Inr (), c3)"
    "cx_runner c3 = (cx_runner c2)\<lparr> rn_exchange := Some (s\<lparr> ex_take_profit_order :=
      Some a \<rparr>) \<rparr>"
    using sample_place_take_profit [of c2 s "''2''" "[sample_entry]"] c1 c2 i by auto
  obtain c4 b where c4: "place_stop_loss_order ?E sample_position c3 = (Inr (), c4)"
    "cx_runner c4 = (cx_runner c3)\<lparr> rn_exchange := Some (s\<lparr> ex_take_profit_order :=
      Some a, ex_stop_loss_order := Some b \<rparr>) \<rparr>"
    using sample_place_stop_loss [of c3 "s\<lparr> ex_take_profit_order := Some a \<rparr>"
      "''2''" "[sample_entry]"] c3 i by auto
  have p: "op_quantity sample_position = 2" "op_average_price sample_position = 100" by (simp_all
    add: sample_position_def)
  have "ensure_take_profit_order ?E c2 = (Inr (), c3)"
    using c2 c3 by (simp add: ensure_take_profit_order_def asks_def mbind_def s_def
      sample_exchange_def p)
  moreover have "ensure_stop_loss_order ?E c3 = (Inr (), c4)"
    using c2 c3 c4 by (simp add: ensure_stop_loss_order_def asks_def mbind_def s_def
      sample_exchange_def)
  ultimately have "initialize ?E sample_start = (Inr (), c4)"
    using c1(1) c2(1) by (simp add: initialize_def protect_reconstructed_startup_state_def
      ensure_position_protection_def mdo_run)
  from that [OF this] c4 show ?thesis by (simp add: s_def)
qed

end
