(* ===== verification/Strategy_Policy.thy ===== *)
theory Strategy_Policy
  imports Strategy_Safety Strategy_Sample
begin

text \<open>
  The disciplines interpreted: every request a run of the strategy makes is permitted, only a confirmed
  candle leads to an entry, and the tracked state stays coherent, for every behaviour of the exchange.
\<close>

section \<open>Runs\<close>

text \<open>
  A run starts from a runner of \<open>from_validated_instance\<close>; each step may see a different client, so the
  exchange is unconstrained.
\<close>

inductive strategy_run :: "StrategyInstanceConfig \<Rightarrow> ValidatedTradingInstrument \<Rightarrow> run_context \<Rightarrow> bool"
  for i v where
  run_start: "from_validated_instance D instances i v = Inr r \<Longrightarrow>
    strategy_run i v \<lparr> cx_runner = r, cx_trace = [], cx_sequence = n \<rparr>"
| run_initialize: "strategy_run i v c \<Longrightarrow> strategy_run i v (snd (initialize E c))"
| run_dispatch: "strategy_run i v c \<Longrightarrow> strategy_run i v (snd (dispatch_work d E c))"
| run_shutdown: "strategy_run i v c \<Longrightarrow> strategy_run i v (snd (shutdown E c))"

definition permitted_request :: "string \<Rightarrow> string \<Rightarrow> request \<Rightarrow> bool" where
  "permitted_request iid inst q =
     (on_instrument inst q \<and> (exit_request (strategy_tag iid) q \<or> entry_request (strategy_tag iid) q))"

definition is_buy :: "request \<Rightarrow> bool" where
  "is_buy q =
     (case q of PlaceOrder _ side _ _ _ _ \<Rightarrow> side = Buy | AmendOrder _ side _ _ _ \<Rightarrow> side = Buy
      | PlaceTriggerOrder _ side _ _ _ \<Rightarrow> side = Buy | _ \<Rightarrow> False)"

lemma exit_request_not_buy: "exit_request tag q \<Longrightarrow> \<not> is_buy q"
  by (auto simp: exit_request_def is_buy_def split: request.splits)

section \<open>Interpretations\<close>

definition policy :: "string \<Rightarrow> string \<Rightarrow> run_context \<Rightarrow> bool" where
  "policy iid inst c =
     (rn_instance_id (cx_runner c) = iid \<and> rn_instrument_id (cx_runner c) = inst \<and>
      coherent_runner (cx_runner c) \<and> list_all (permitted_request iid inst) (cx_trace c))"

definition no_new_entry :: "string \<Rightarrow> string \<Rightarrow> request list \<Rightarrow> run_context \<Rightarrow> bool" where
  "no_new_entry iid inst buys c =
     (rn_instance_id (cx_runner c) = iid \<and> rn_instrument_id (cx_runner c) = inst \<and>
      coherent_runner (cx_runner c) \<and> filter is_buy (cx_trace c) = buys)"

interpretation policy: trading_discipline "policy iid inst" iid inst for iid inst
  by unfold_locales (auto simp: policy_def coherent_runner_def permitted_request_def split: option.splits)

interpretation exits: exit_discipline "no_new_entry iid inst buys" iid inst for iid inst buys
  by unfold_locales
    (auto simp: no_new_entry_def coherent_runner_def exit_request_not_buy split: option.splits)

lemma policy_dispatch: "keeps (policy iid inst) (dispatch_work d E)"
  by (cases d) (simp_all add: dispatch_work_def policy.keeps_handlers policy.keeps_on_confirmed_candle)

lemma exits_dispatch: "\<forall>i. d \<noteq> ConfirmedCandle i \<Longrightarrow> keeps (no_new_entry iid inst buys) (dispatch_work d E)"
  by (cases d) (simp_all add: dispatch_work_def exits.keeps_handlers)

lemma start_policy:
  assumes "from_validated_instance D instances i v = Inr r"
  shows "rn_instance_id r = si_id i \<and> rn_instrument_id r = vi_inst_id v \<and> rn_exchange r = None"
  using assms
  by (auto simp: from_validated_instance_def from_instance_with_context_def Let_def rbind_eq_Inr)

lemma run_policy: "strategy_run i v c \<Longrightarrow> policy (si_id i) (vi_inst_id v) c"
proof (induction rule: strategy_run.induct)
  case (run_start D instances r n)
  with start_policy [OF run_start] show ?case by (simp add: policy_def coherent_runner_def)
next
  case (run_initialize c E)
  then show ?case using keepsD [OF policy.keeps_initialize] by blast
next
  case (run_dispatch c d E)
  then show ?case using keepsD [OF policy_dispatch] by blast
next
  case (run_shutdown c E)
  then show ?case using keepsD [OF policy.keeps_shutdown] by blast
qed

section \<open>A concrete run\<close>

lemma sample_run:
  obtains c s where "strategy_run sample_instance sample_validated c"
    "rn_exchange (cx_runner c) = Some s" "ex_position s = Some sample_position"
    "ex_take_profit_order s \<noteq> None"
proof -
  obtain c s where c: "initialize (sample_client ''2'' [sample_entry]) sample_start = (Inr (), c)"
    "rn_exchange (cx_runner c) = Some s" "ex_position s = Some sample_position"
    "ex_take_profit_order s \<noteq> None" by (rule sample_initialize)
  have "strategy_run sample_instance sample_validated sample_start"
    unfolding sample_start_def by (rule run_start) (rule sample_runner_eq)
  from run_initialize [OF this, of "sample_client ''2'' [sample_entry]"] c that show ?thesis by auto
qed

section \<open>Properties\<close>

text \<open>
  C6: in every run, whatever the exchange answers and however often it fails, the strategy touches its
  own instrument only; it buys only by post-only limit orders under an entry identifier of its own tag;
  every other order is a sell (a limit order under a take-profit identifier, a market order or a stop
  trigger under a stop-loss identifier), it amends only its take-profits, and it cancels only orders
  whose identifier carries its own tag.
\<close>
theorem strategy_order_policy:
  assumes "strategy_run i v c"
  shows "list_all (permitted_request (si_id i) (vi_inst_id v)) (cx_trace c)"
  using run_policy [OF assms] by (simp add: policy_def)

theorem strategy_order_policy_witness:
  "\<exists>c. strategy_run sample_instance sample_validated c \<and>
    list_all (permitted_request ''btc'' ''BTC-USDT'') (cx_trace c)"
proof -
  from sample_run obtain c where "strategy_run sample_instance sample_validated c" by (rule sample_run)
  from strategy_order_policy [OF this] this show ?thesis
    by (auto simp: sample_instance_def vi_inst_id_def sample_validated_def sample_instrument_def)
qed

text \<open>
  C7: only a confirmed candle opens a position.  Start-up, private events, the reconcile timer,
  instrument updates, the reconciliation after an interrupted tick and the shutdown submit or amend no
  buy order, in any state a run can reach and against any exchange.
\<close>
theorem entries_only_on_candles:
  assumes "strategy_run i v c"
  shows "list_all (\<lambda>act. filter is_buy (cx_trace (snd (act E c))) = filter is_buy (cx_trace c))
    [initialize, on_private_event, on_reconcile_timer, on_instrument_update,
     reconcile_after_interrupted_tick, shutdown]"
proof -
  from run_policy [OF assms]
  have "no_new_entry (si_id i) (vi_inst_id v) (filter is_buy (cx_trace c)) c"
    by (simp add: policy_def no_new_entry_def)
  from keepsD [OF exits.keeps_initialize this] keepsD [OF exits.keeps_on_private_event this]
    keepsD [OF exits.keeps_on_reconcile_timer this] keepsD [OF exits.keeps_on_instrument_update this]
    keepsD [OF exits.keeps_reconcile_after_interrupted_tick this] keepsD [OF exits.keeps_shutdown this]
  show ?thesis by (simp add: no_new_entry_def)
qed

theorem entries_only_on_candles_witness:
  "\<exists>c. strategy_run sample_instance sample_validated c \<and>
    (\<exists>E. filter is_buy (cx_trace (snd (shutdown E c))) = filter is_buy (cx_trace c))"
proof -
  from sample_run obtain c where "strategy_run sample_instance sample_validated c" by (rule sample_run)
  from entries_only_on_candles [OF this] this show ?thesis by auto
qed

text \<open>
  C10: the tracked state of every run is coherent: each tracked order carries an identifier of the
  strategy's own tag and of its role and a non-negative fill, an open position has a positive average
  price and stop-loss trigger, and while a market exit is tracked the stop loss is pending its
  reconciliation.
\<close>
theorem tracked_state_coherent:
  assumes "strategy_run i v c" and "rn_exchange (cx_runner c) = Some s"
  shows "tracked_ok (strategy_tag (si_id i)) Entry (ex_entry_order s) \<and>
    tracked_ok (strategy_tag (si_id i)) TakeProfit (ex_take_profit_order s) \<and>
    tracked_ok (strategy_tag (si_id i)) StopLoss (ex_stop_loss_exit_order s) \<and>
    position_ok (ex_position s) \<and>
    (ex_stop_loss_exit_order s \<noteq> None \<longrightarrow> ex_stop_loss_pending s = Some ExitReconciliation)"
  using run_policy [OF assms(1)] assms(2)
  by (auto simp: policy_def coherent_runner_def coherent_def)

theorem tracked_state_coherent_witness:
  "\<exists>c s. strategy_run sample_instance sample_validated c \<and> rn_exchange (cx_runner c) = Some s \<and>
    ex_position s = Some sample_position \<and> ex_take_profit_order s \<noteq> None \<and>
    tracked_ok (strategy_tag ''btc'') TakeProfit (ex_take_profit_order s)"
proof -
  obtain c s where c: "strategy_run sample_instance sample_validated c"
    "rn_exchange (cx_runner c) = Some s" "ex_position s = Some sample_position"
    "ex_take_profit_order s \<noteq> None" by (rule sample_run)
  from tracked_state_coherent [OF c(1, 2)] c show ?thesis by (auto simp: sample_instance_def)
qed

end
