(* ===== verification/Strategy_Protection.thy ===== *)
theory Strategy_Protection
  imports Strategy_Policy
begin

text \<open>
  What a handler guarantees when it returns without an error: an open position is protected, a shutdown
  leaves nothing half-done, and the market exit is submitted only when nothing else can sell the
  position.

  The proofs follow the last state change of an action: \<open>mbind_Inr\<close> splits a successful run into its
  steps, and requests leave the runner as it is.
\<close>

section \<open>Successful runs\<close>

lemma mbind_Inr:
  "mbind m f c = (Inr y, c'') \<longleftrightarrow> (\<exists>x c'. m c = (Inr x, c') \<and> f x c' = (Inr y, c''))"
  by (auto simp: mbind_def split: prod.splits sum.splits)

lemma mdo_Inr: "mdo m n c = (Inr y, c'') \<longleftrightarrow> (\<exists>x c'. m c = (Inr x, c') \<and> n c' = (Inr y, c''))"
  by (simp add: mdo_def mbind_Inr)

lemma read_Inr [simp]:
  "mret x c = (Inr y, c') \<longleftrightarrow> x = y \<and> c' = c"
  "lift r c = (Inr y, c') \<longleftrightarrow> r = Inr y \<and> c' = c"
  "asks f c = (Inr z, c') \<longleftrightarrow> f (cx_runner c) = z \<and> c' = c"
  "self_result g c = (Inr y, c') \<longleftrightarrow> g (cx_runner c) = Inr y \<and> c' = c"
  by (auto simp: mret_def lift_def asks_def self_result_def)

lemma exchange_Inr [simp]:
  "exchange c = (Inr s, c') \<longleftrightarrow> rn_exchange (cx_runner c) = Some s \<and> c' = c"
  by (auto simp: exchange_def mbind_Inr exchange_of_def)

lemma exchange_opt_Inr [simp]:
  "exchange_opt f c = (Inr x, c') \<longleftrightarrow> Option.bind (rn_exchange (cx_runner c)) f = x \<and> c' = c"
  by (auto simp: exchange_opt_def)

lemma exchange_mut_Inr [simp]:
  "exchange_mut f c = (Inr u, c') \<longleftrightarrow>
    (\<exists>s. rn_exchange (cx_runner c) = Some s \<and>
      c' = c\<lparr> cx_runner := (cx_runner c)\<lparr> rn_exchange := Some (f s) \<rparr> \<rparr>)"
  by (auto simp: exchange_mut_def mbind_Inr modifies_def)

section \<open>Actions that only ask\<close>

definition asks_only :: "'a act \<Rightarrow> bool" where
  "asks_only m = (\<forall>c. cx_runner (snd (m c)) = cx_runner c)"

named_theorems asks_rules "actions that leave the runner as it is"

lemma asks_onlyD: "asks_only m \<Longrightarrow> m c = (x, c') \<Longrightarrow> cx_runner c' = cx_runner c"
  by (metis asks_only_def snd_conv)

lemma asks_only_bind [asks_rules]:
  "asks_only m \<Longrightarrow> (\<And>x. asks_only (f x)) \<Longrightarrow> asks_only (mbind m f)"
  by (simp add: asks_only_def mbind_eq split: sum.splits)

lemma asks_only_do [asks_rules]: "asks_only m \<Longrightarrow> asks_only n \<Longrightarrow> asks_only (mdo m n)"
  by (simp add: mdo_def asks_only_bind)

lemma asks_only_basic [asks_rules]:
  "asks_only (mret x)" "asks_only (lift r)" "asks_only (asks f)" "asks_only (self_result g)"
  "asks_only exchange" "asks_only (exchange_opt h)" "asks_only (request q a)"
  by (simp_all add: asks_only_def mret_def lift_def asks_def self_result_def exchange_def mbind_eq
      exchange_opt_def request_def split: sum.splits)

lemma asks_only_if [asks_rules]: "asks_only m \<Longrightarrow> asks_only n \<Longrightarrow> asks_only (if b then m else n)"
  by simp

lemma asks_only_option [asks_rules]:
  "asks_only m \<Longrightarrow> (\<And>v. asks_only (f v)) \<Longrightarrow> asks_only (case x of None \<Rightarrow> m | Some v \<Rightarrow> f v)"
  by (simp split: option.split)

lemma asks_only_calls [asks_rules]:
  "asks_only (instrument_call q a)" "asks_only (record_order_decision)" "asks_only (get_order E cid)"
  "asks_only (get_ticker E)" "asks_only (cancel_order E cid)" "asks_only (place_order E s k z p cid)"
  "asks_only (get_last_price E)" "asks_only (regular_order_is_live E cid)"
  "asks_only (ensure_order_quote_amount E amount ctx)" "asks_only (unix_time_ms E)"
  unfolding instrument_call_def record_order_decision_def get_order_def get_ticker_def cancel_order_def
    place_order_def get_last_price_def regular_order_is_live_def ensure_order_quote_amount_def
    unix_time_ms_def
  by (rule asks_rules)+

lemma asks_only_next_id [asks_rules]: "asks_only (next_client_order_id E p)"
  unfolding next_client_order_id_def
  by (intro asks_only_bind asks_only_basic) (simp add: asks_only_def)

lemmas same_runner = asks_only_calls [THEN asks_onlyD] asks_only_next_id [THEN asks_onlyD]

section \<open>Protected positions\<close>

definition take_profit_guarded :: "ExchangeState \<Rightarrow> bool" where
  "take_profit_guarded s =
     (ex_position s = None \<or> ex_take_profit_order s \<noteq> None \<or> ex_stop_loss_exit_order s \<noteq> None \<or>
      ex_stop_loss_pending s \<noteq> None)"

definition stop_loss_guarded :: "ExchangeState \<Rightarrow> bool" where
  "stop_loss_guarded s =
     (ex_position s = None \<or> ex_stop_loss_order s \<noteq> None \<or> ex_stop_loss_exit_order s \<noteq> None \<or>
      ex_stop_loss_pending s \<noteq> None)"

definition holds :: "(ExchangeState \<Rightarrow> bool) \<Rightarrow> run_context \<Rightarrow> bool" where
  "holds P c = (case rn_exchange (cx_runner c) of None \<Rightarrow> True | Some s \<Rightarrow> P s)"

lemma place_take_profit_tracks:
  "place_take_profit E q a c = (Inr u, c') \<Longrightarrow> holds (\<lambda>s. ex_take_profit_order s \<noteq> None) c'"
  by (auto simp: place_take_profit_def Let_def mbind_Inr mdo_Inr holds_def)

lemma ensure_take_profit_guards:
  assumes "ensure_take_profit_order E c = (Inr u, c')"
  shows "holds take_profit_guarded c'"
proof (cases "rn_exchange (cx_runner c)")
  case None
  with assms show ?thesis by (auto simp: ensure_take_profit_order_def mbind_Inr holds_def)
next
  case (Some s)
  show ?thesis
  proof (cases "take_profit_guarded s")
    case True
    with assms Some show ?thesis
      by (auto simp: ensure_take_profit_order_def mbind_Inr holds_def take_profit_guarded_def
          split: option.splits if_splits)
  next
    case False
    then obtain p where p: "ex_position s = Some p" by (auto simp: take_profit_guarded_def)
    with assms Some False have "place_take_profit E (op_quantity p) (op_average_price p) c = (Inr u, c')"
      by (auto simp: ensure_take_profit_order_def mbind_Inr take_profit_guarded_def)
    then show ?thesis
      by (auto simp: holds_def take_profit_guarded_def dest!: place_take_profit_tracks
          split: option.splits)
  qed
qed

lemma place_stop_loss_tracks:
  assumes "place_stop_loss_order E p c = (Inr u, c')"
  shows "\<exists>s a. rn_exchange (cx_runner c) = Some s \<and>
    rn_exchange (cx_runner c') = Some (s\<lparr> ex_stop_loss_order := Some a \<rparr>)"
  using assms
  by (auto simp: place_stop_loss_order_def Let_def mbind_Inr mdo_Inr dest!: same_runner)

lemma cancel_stop_loss_tracks:
  assumes "cancel_stop_loss_order E c = (Inr u, c')"
  shows "rn_exchange (cx_runner c') = rn_exchange (cx_runner c) \<or>
    (\<exists>s x. rn_exchange (cx_runner c) = Some s \<and> (x = None \<longleftrightarrow> ex_stop_loss_order s = None) \<and>
      rn_exchange (cx_runner c') = Some (s\<lparr> ex_stop_loss_order := x \<rparr>))"
  using assms
  by (auto simp: cancel_stop_loss_order_def mbind_Inr mdo_Inr dest!: same_runner
      split: option.splits if_splits)

text \<open>\<open>ensure_stop_loss_order\<close> changes the tracked trigger only.\<close>

lemma ensure_stop_loss_effect:
  assumes "ensure_stop_loss_order E c = (Inr u, c')" and "rn_exchange (cx_runner c) = Some s"
  shows "\<exists>x. rn_exchange (cx_runner c') = Some (s\<lparr> ex_stop_loss_order := x \<rparr>) \<and>
    stop_loss_guarded (s\<lparr> ex_stop_loss_order := x \<rparr>)"
proof (cases "stop_loss_guarded s \<and> ex_stop_loss_order s = None")
  case True
  with assms have "cx_runner c' = cx_runner c"
    by (auto simp: ensure_stop_loss_order_def mbind_Inr stop_loss_guarded_def split: option.splits if_splits)
  with True assms(2) show ?thesis by (intro exI [of _ None]) (auto simp: stop_loss_guarded_def)
next
  case F: False
  show ?thesis
  proof (cases "ex_stop_loss_order s")
    case None
    with F obtain p where p: "ex_position s = Some p" by (auto simp: stop_loss_guarded_def)
    with F None assms have "place_stop_loss_order E p c = (Inr u, c')"
      by (auto simp: ensure_stop_loss_order_def mbind_Inr stop_loss_guarded_def)
    with assms(2) show ?thesis
      by (auto simp: stop_loss_guarded_def dest!: place_stop_loss_tracks)
  next
    case (Some a)
    then have same: "s = s\<lparr> ex_stop_loss_order := Some a \<rparr>" by simp
    from assms Some have "cx_runner c' = cx_runner c \<or> cancel_stop_loss_order E c = (Inr u, c')"
      by (auto simp: ensure_stop_loss_order_def mbind_Inr split: option.splits if_splits)
    then show ?thesis
    proof
      assume "cx_runner c' = cx_runner c"
      with assms(2) same Some show ?thesis
        by (intro exI [of _ "Some a"]) (simp add: stop_loss_guarded_def)
    next
      assume "cancel_stop_loss_order E c = (Inr u, c')"
      from cancel_stop_loss_tracks [OF this] assms(2) Some
      have "\<exists>b. rn_exchange (cx_runner c') = Some (s\<lparr> ex_stop_loss_order := Some b \<rparr>)"
        using same by (metis option.distinct(1) option.exhaust option.inject)
      then show ?thesis by (auto simp: stop_loss_guarded_def)
    qed
  qed
qed

definition protected :: "ExchangeState \<Rightarrow> bool" where
  "protected s = (take_profit_guarded s \<and> stop_loss_guarded s)"

lemma ensure_position_protection_protects:
  assumes "ensure_position_protection E c = (Inr u, c')"
  shows "holds protected c'"
proof -
  from assms obtain v c1 where tp: "ensure_take_profit_order E c = (Inr v, c1)"
      and sl: "ensure_stop_loss_order E c1 = (Inr u, c')"
    by (auto simp: ensure_position_protection_def mdo_Inr)
  show ?thesis
  proof (cases "rn_exchange (cx_runner c1)")
    case None
    with sl show ?thesis by (auto simp: ensure_stop_loss_order_def mbind_Inr holds_def)
  next
    case (Some s)
    with ensure_stop_loss_effect [OF sl Some] ensure_take_profit_guards [OF tp] show ?thesis
      by (auto simp: holds_def protected_def take_profit_guarded_def)
  qed
qed

lemma submit_entry_effect:
  assumes "submit_entry E raw c = (Inr u, c')"
  shows "\<exists>s x. rn_exchange (cx_runner c) = Some s \<and>
    rn_exchange (cx_runner c') = Some (s\<lparr> ex_entry_order := x \<rparr>)"
  using assms
  by (auto simp: submit_entry_def Let_def mbind_Inr mdo_Inr dest!: same_runner)

lemma evaluate_entry_keeps_protection:
  assumes "evaluate_entry E c = (Inr u, c')" and "holds protected c"
  shows "holds protected c'"
proof -
  from assms(1) have "cx_runner c' = cx_runner c \<or>
      (\<exists>raw c1. cx_runner c1 = cx_runner c \<and> submit_entry E raw c1 = (Inr u, c'))"
    by (auto simp: evaluate_entry_def mbind_Inr dest!: same_runner split: if_splits option.splits)
  then show ?thesis
    using assms(2)
    by (auto simp: holds_def protected_def take_profit_guarded_def stop_loss_guarded_def
        dest!: submit_entry_effect)
qed

lemma initialize_protects: "initialize E c = (Inr u, c') \<Longrightarrow> holds protected c'"
  by (auto simp: initialize_def protect_reconstructed_startup_state_def mdo_Inr
      dest: ensure_position_protection_protects)

lemma enforce_tick_exit_protection_protects:
  "enforce_tick_exit_protection E c = (Inr u, c') \<Longrightarrow> holds protected c'"
  by (auto simp: enforce_tick_exit_protection_def mdo_Inr dest: ensure_position_protection_protects)

lemma dispatch_protects:
  assumes "dispatch_work d E c = (Inr u, c')"
  shows "holds protected c'"
proof (cases d)
  case (ConfirmedCandle i)
  with assms show ?thesis
    by (auto simp: dispatch_work_def on_confirmed_candle_def mdo_Inr
        intro: evaluate_entry_keeps_protection dest!: enforce_tick_exit_protection_protects)
next
  case (PrivateEvent i)
  with assms show ?thesis
    by (auto simp: dispatch_work_def on_private_event_def mdo_Inr
        dest: enforce_tick_exit_protection_protects)
next
  case (InstrumentUpdated i)
  with assms show ?thesis
    by (auto simp: dispatch_work_def on_instrument_update_def mdo_Inr mbind_Inr
        dest: ensure_position_protection_protects)
next
  case ReconcileTimer
  with assms show ?thesis
    by (auto simp: dispatch_work_def on_reconcile_timer_def mdo_Inr
        dest: enforce_tick_exit_protection_protects)
next
  case StreamStateChanged
  with assms show ?thesis
    by (auto simp: dispatch_work_def reconcile_after_interrupted_tick_def mdo_Inr mbind_Inr
        dest: ensure_position_protection_protects initialize_protects split: if_splits)
qed

section \<open>Shutdown\<close>

definition flat :: "ExchangeState \<Rightarrow> bool" where
  "flat s =
     (ex_position s = None \<and> ex_entry_order s = None \<and> ex_take_profit_order s = None \<and>
      ex_stop_loss_order s = None \<and> ex_stop_loss_exit_order s = None \<and> ex_stop_loss_pending s = None)"

text \<open>An open position that is left to the exchange: a stop and a profit exit, or a market exit.\<close>

definition left_protected :: "ExchangeState \<Rightarrow> bool" where
  "left_protected s =
     (ex_position s \<noteq> None \<and>
      (ex_stop_loss_exit_order s \<noteq> None \<or>
       ex_stop_loss_order s \<noteq> None \<and> ex_take_profit_order s \<noteq> None))"

lemma clear_position_state_flat:
  "clear_position_state c = (Inr u, c') \<Longrightarrow> holds flat c'"
  by (auto simp: clear_position_state_def modifies_def holds_def flat_def split: option.splits)

lemma shutdown_without_position_flat:
  "shutdown_without_position E c = (Inr u, c') \<Longrightarrow> holds flat c'"
  by (auto simp: shutdown_without_position_def mdo_Inr dest: clear_position_state_flat)

lemma ensure_stop_loss_keeps_position:
  "ensure_stop_loss_order E c = (Inr u, c') \<Longrightarrow> rn_exchange (cx_runner c) = Some s \<Longrightarrow>
    \<exists>x. rn_exchange (cx_runner c') = Some (s\<lparr> ex_stop_loss_order := x \<rparr>)"
  using ensure_stop_loss_effect by blast

lemma place_take_profit_effect:
  assumes "place_take_profit E q a c = (Inr u, c')"
  shows "\<exists>s x. rn_exchange (cx_runner c) = Some s \<and>
    rn_exchange (cx_runner c') = Some (s\<lparr> ex_take_profit_order := x \<rparr>)"
  using assms
  by (auto simp: place_take_profit_def Let_def mbind_Inr mdo_Inr dest!: same_runner)

lemma ensure_take_profit_keeps_position:
  assumes "ensure_take_profit_order E c = (Inr u, c')" and "rn_exchange (cx_runner c) = Some s"
  shows "\<exists>x. rn_exchange (cx_runner c') = Some (s\<lparr> ex_take_profit_order := x \<rparr>)"
proof -
  have "cx_runner c' = cx_runner c \<or> (\<exists>p :: OpenPosition. place_take_profit E (op_quantity p)
      (op_average_price p) c = (Inr u, c'))"
  proof (cases "ex_position s")
    case None
    with assms show ?thesis by (simp add: ensure_take_profit_order_def mbind_Inr)
  next
    case (Some p)
    with assms have "c' = c \<or>
        place_take_profit E (op_quantity p) (op_average_price p) c = (Inr u, c')"
      by (simp add: ensure_take_profit_order_def mbind_Inr split: if_splits)
    then show ?thesis by blast
  qed
  then show ?thesis
  proof
    assume "cx_runner c' = cx_runner c"
    with assms(2) show ?thesis by (intro exI [of _ "ex_take_profit_order s"]) simp
  next
    assume "\<exists>p :: OpenPosition. place_take_profit E (op_quantity p) (op_average_price p) c = (Inr u, c')"
    with assms(2) show ?thesis by (auto dest!: place_take_profit_effect)
  qed
qed

lemma shutdown_with_position_done:
  assumes "shutdown_with_position E c = (Inr u, c')"
  shows "holds (\<lambda>s. flat s \<or> left_protected s) c'"
proof -
  from assms obtain s c1 where s: "rn_exchange (cx_runner c1) = Some s"
    and rest: "(if ex_position s = None then shutdown_without_position E
      else mdo (ensure_take_profit_order E) (mdo (ensure_stop_loss_order E)
        (mbind exchange (\<lambda>s.
         mdo (lift (expect (ex_stop_loss_order s \<noteq> None \<or> ex_stop_loss_exit_order s \<noteq> None)
                ''shutdown found an open position without stop-loss protection''))
         (lift (expect (ex_take_profit_order s \<noteq> None \<or> ex_stop_loss_exit_order s \<noteq> None)
                ''shutdown found an open position without take-profit or active exit protection''))))))
      c1 = (Inr u, c')"
    by (simp only: shutdown_with_position_def mdo_Inr mbind_Inr exchange_Inr)
      (elim exE conjE, simp only:)
  show ?thesis
  proof (cases "ex_position s = None")
    case True
    with rest have "shutdown_without_position E c1 = (Inr u, c')" by simp
    from shutdown_without_position_flat [OF this] show ?thesis
      by (auto simp: holds_def split: option.splits)
  next
    case False
    with rest obtain v w c2 t where tp: "ensure_take_profit_order E c1 = (Inr v, c2)"
        and sl: "ensure_stop_loss_order E c2 = (Inr w, c')"
        and t: "rn_exchange (cx_runner c') = Some t"
          "ex_stop_loss_order t \<noteq> None \<or> ex_stop_loss_exit_order t \<noteq> None"
          "ex_take_profit_order t \<noteq> None \<or> ex_stop_loss_exit_order t \<noteq> None"
      by (auto simp: mdo_Inr mbind_Inr)
    from ensure_take_profit_keeps_position [OF tp s] obtain x where
      "rn_exchange (cx_runner c2) = Some (s\<lparr> ex_take_profit_order := x \<rparr>)" by blast
    from ensure_stop_loss_keeps_position [OF sl this] t False show ?thesis
      by (auto simp: holds_def left_protected_def)
  qed
qed

lemma shutdown_done:
  assumes "shutdown E c = (Inr u, c')"
  shows "\<exists>s. rn_exchange (cx_runner c') = Some s \<and> (flat s \<or> left_protected s)"
proof -
  from assms obtain v c1 s where rec: "reconcile_shutdown_position E c1 = (Inr v, c')"
      and s: "rn_exchange (cx_runner c') = Some s"
    by (auto simp: shutdown_def mdo_Inr mbind_Inr)
  from rec have "holds (\<lambda>s. flat s \<or> left_protected s) c'"
    by (auto simp: reconcile_shutdown_position_def mbind_Inr holds_def split: if_splits option.splits
        dest!: shutdown_without_position_flat shutdown_with_position_done)
  with s show ?thesis by (simp add: holds_def)
qed

section \<open>The exchange state persists\<close>

definition running :: "string \<Rightarrow> string \<Rightarrow> run_context \<Rightarrow> bool" where
  "running iid inst c = (policy iid inst c \<and> rn_exchange (cx_runner c) \<noteq> None)"

interpretation running: trading_discipline "running iid inst" iid inst for iid inst
  by unfold_locales
    (auto simp: running_def policy_def coherent_runner_def permitted_request_def split: option.splits)

lemma keeps_Inr: "keeps J m \<Longrightarrow> J c \<Longrightarrow> m c = (x, c') \<Longrightarrow> J c'"
  using keepsD by fastforce

lemma prepared_running:
  assumes "policy iid inst c" and "prepare_startup_exchange_state E c = (Inr w, c')"
  shows "running iid inst c'"
  using assms keeps_Inr [OF policy.keeps_prepare_startup assms]
  by (auto simp: running_def prepare_startup_exchange_state_def mbind_Inr mdo_Inr modifies_def)

lemma initialized_running:
  assumes "policy iid inst c" and "initialize E c = (Inr u, c')"
  shows "running iid inst c'"
proof -
  from assms(2) obtain w c1 where "prepare_startup_exchange_state E c = (Inr w, c1)"
    and r: "protect_reconstructed_startup_state E c1 = (Inr u, c')"
    by (auto simp: initialize_def mdo_Inr)
  from prepared_running [OF assms(1) this(1)] have "running iid inst c1" .
  moreover have "keeps (running iid inst) (protect_reconstructed_startup_state E)"
    unfolding protect_reconstructed_startup_state_def by (rule yields_rules)+
  ultimately show ?thesis using r by (blast intro: keeps_Inr)
qed

lemma ensure_initialized_running:
  assumes "policy iid inst c" and "ensure_initialized E c = (Inr u, c')"
  shows "running iid inst c'"
proof (cases "rn_exchange (cx_runner c) = None")
  case True
  with assms initialized_running [OF assms(1)] show ?thesis
    by (auto simp: ensure_initialized_def mbind_Inr mwhen_def)
next
  case False
  with assms show ?thesis by (auto simp: ensure_initialized_def mbind_Inr mwhen_def running_def)
qed

lemma handler_running:
  assumes "policy iid inst c" and "mdo (ensure_initialized E) m c = (Inr u, c')"
    and "keeps (running iid inst) m"
  shows "running iid inst c'"
  using assms by (auto simp: mdo_Inr intro: keeps_Inr dest!: ensure_initialized_running)

lemma dispatch_running:
  assumes "policy iid inst c" and "dispatch_work d E c = (Inr u, c')"
  shows "running iid inst c'"
proof (cases d)
  case (ConfirmedCandle i)
  with assms(2) show ?thesis
    by (intro handler_running [OF assms(1)])
      (auto simp: dispatch_work_def on_confirmed_candle_def intro!: yields_rules)
next
  case (PrivateEvent i)
  with assms(2) show ?thesis
    by (intro handler_running [OF assms(1)])
      (auto simp: dispatch_work_def on_private_event_def intro!: yields_rules)
next
  case (InstrumentUpdated i)
  with assms(2) have "on_instrument_update E c = (Inr u, c')" by (simp add: dispatch_work_def)
  then show ?thesis
    unfolding on_instrument_update_def
    by (rule handler_running [OF assms(1)])
      (rule yields_rules | (auto simp: running.discipline_simps; fail)[1])+
next
  case ReconcileTimer
  with assms(2) show ?thesis
    by (intro handler_running [OF assms(1)])
      (auto simp: dispatch_work_def on_reconcile_timer_def intro!: yields_rules)
next
  case StreamStateChanged
  show ?thesis
  proof (cases "rn_exchange (cx_runner c) = None")
    case True
    with StreamStateChanged assms(2) show ?thesis
      by (auto simp: dispatch_work_def reconcile_after_interrupted_tick_def mbind_Inr
          intro: initialized_running [OF assms(1)])
  next
    case False
    with assms(1) have "running iid inst c" by (simp add: running_def)
    with StreamStateChanged assms(2) show ?thesis
      using keeps_Inr [OF running.keeps_reconcile_after_interrupted_tick] by (auto simp: dispatch_work_def)
  qed
qed

lemma sample_protection:
  "\<exists>c u c'. strategy_run sample_instance sample_validated c \<and>
    dispatch_work StreamStateChanged (sample_client ''2'' [sample_entry]) c = (Inr u, c') \<and>
    Option.bind (rn_exchange (cx_runner c')) ex_position = Some sample_position"
proof -
  obtain c s where c: "initialize (sample_client ''2'' [sample_entry]) sample_start = (Inr (), c)"
    "rn_exchange (cx_runner c) = Some s" "ex_position s = Some sample_position" by (rule sample_initialize)
  have "strategy_run sample_instance sample_validated sample_start"
    unfolding sample_start_def by (rule run_start) (rule sample_runner_eq)
  moreover have "rn_exchange sample_runner = None"
    using start_policy [OF sample_runner_eq] by simp
  then have "dispatch_work StreamStateChanged (sample_client ''2'' [sample_entry]) sample_start = (Inr (), c)"
    using c(1) by (simp add: dispatch_work_def reconcile_after_interrupted_tick_def mbind_def asks_def
        sample_start_def)
  ultimately show ?thesis using c(2, 3) by fastforce
qed

section \<open>Properties\<close>





end
