(* ===== verification/Runtime_Safety.thy ===== *)
theory Runtime_Safety
  imports Runtime_Loop Strategy_Protection
begin

text \<open>
  What the running engine guarantees, for every behaviour of the exchange and every order of events: which
  requests it makes, when strategies may act, which reconciliation is owed, which candle waits, and how the
  exchange's dead-man switch is left.
\<close>

section \<open>Worlds that keep the trading policy\<close>

definition may_request :: "(request \<Rightarrow> bool) \<Rightarrow> string \<Rightarrow> string \<Rightarrow> bool" where
  "may_request allowed iid inst = (\<forall>q. permitted_request iid inst q \<longrightarrow> allowed q)"

definition allowed_context :: "(request \<Rightarrow> bool) \<Rightarrow> string \<Rightarrow> string \<Rightarrow> run_context \<Rightarrow> bool" where
  "allowed_context allowed iid inst c =
     (rn_instance_id (cx_runner c) = iid \<and> rn_instrument_id (cx_runner c) = inst \<and>
      coherent_runner (cx_runner c) \<and> may_request allowed iid inst \<and> list_all allowed (cx_trace c))"

interpretation allowed: trading_discipline "allowed_context allowed iid inst" iid inst for allowed iid inst
  by unfold_locales (auto simp: allowed_context_def coherent_runner_def permitted_request_def may_request_def
      split: option.splits)

lemma allowed_dispatch: "keeps (allowed_context allowed iid inst) (dispatch_work d E)"
  by (cases d) (simp_all add: dispatch_work_def allowed.keeps_handlers allowed.keeps_on_confirmed_candle)

definition allowed_runner :: "(request \<Rightarrow> bool) \<Rightarrow> OkxEmaAtrMakerTrendRunner \<Rightarrow> bool" where
  "allowed_runner allowed r =
     (coherent_runner r \<and> may_request allowed (rn_instance_id r) (rn_instrument_id r))"

definition allowed_world :: "(request \<Rightarrow> bool) \<Rightarrow> runtime \<Rightarrow> bool" where
  "allowed_world allowed w =
     (list_all (allowed_runner allowed) (rt_strategies w) \<and> list_all allowed (rt_trace w))"

text \<open>Putting a strategy back after an action that keeps the policy.\<close>

lemma allowed_put_back:
  assumes "allowed_world allowed w" and "i < length (rt_strategies w)"
    and "\<And>iid inst. keeps (allowed_context allowed iid inst) m"
    and "m \<lparr> cx_runner = rt_strategies w ! i, cx_trace = rt_trace w, cx_sequence = rt_sequence w \<rparr> = (r, c)"
  shows "list_all (allowed_runner allowed) ((rt_strategies w)[i := cx_runner c]) \<and> list_all allowed (cx_trace c)"
proof -
  let ?r = "rt_strategies w ! i"
  have "allowed_runner allowed ?r" using assms(1,2) by (simp add: allowed_world_def list_all_length)
  then have "allowed_context allowed (rn_instance_id ?r) (rn_instrument_id ?r)
      \<lparr> cx_runner = ?r, cx_trace = rt_trace w, cx_sequence = rt_sequence w \<rparr>"
    using assms(1) by (simp add: allowed_context_def allowed_runner_def allowed_world_def)
  from keepsD [OF assms(3) this] assms(4)
  have "allowed_context allowed (rn_instance_id ?r) (rn_instrument_id ?r) c" by simp
  then have "allowed_runner allowed (cx_runner c)" "list_all allowed (cx_trace c)"
    by (auto simp: allowed_context_def allowed_runner_def)
  then show ?thesis using assms(1,2)
    by (auto simp: allowed_world_def list_all_iff dest!: set_update_subset_insert [THEN subsetD])
qed

text \<open>The context after a tick comes from the strategy's own actions, one after the other.\<close>

lemma tick_context:
  assumes "keeps J (dispatch_work d E)" and "keeps J (reconcile_after_interrupted_tick E)" and "J c"
    and "tick_strategy_with_timeout E i d (t, c) = (r, t', c')"
  shows "J c'"
proof -
  obtain x c1 where w: "dispatch_work d E c = (x, c1)" by fastforce
  obtain y c2 where q: "reconcile_after_interrupted_tick E c1 = (y, c2)" by fastforce
  have J: "J c1" "J c2" using keepsD [OF assms(1,3)] keepsD [OF assms(2), of c1] w q by auto
  obtain a t1 where s: "record_success t i = (a, t1)" by fastforce
  have f: "\<exists>b t2. record_strategy_tick_failure t i e = (b, t2)" for e by fastforce
  have rec: "\<exists>z. reconcile_after_interrupted_strategy_tick E c1 = (z, c2)"
    using q by (cases y; cases "projl y") (auto simp: reconcile_after_interrupted_strategy_tick_def)
  have "c' = c1 \<or> c' = c2"
  proof (cases x)
    case (Inr u)
    then show ?thesis using assms(4) w s by (cases a) (auto simp: tick_strategy_with_timeout_def)
  next
    case (Inl e)
    show ?thesis
    proof (cases e)
      case (Fail err)
      obtain b t2 where "record_strategy_tick_failure t i err = (b, t2)" using f by blast
      then show ?thesis using assms(4) w Inl Fail by (auto simp: tick_strategy_with_timeout_def)
    next
      case Panic
      obtain b t2 where b: "record_strategy_tick_failure t i (Bad ''strategy_tick_timeout'' []) = (b, t2)"
        using f by blast
      obtain z where z: "reconcile_after_interrupted_strategy_tick E c1 = (z, c2)" using rec by blast
      have "handle_strategy_tick_timeout E i (t, c1) = (r, t', c')"
        using assms(4) w Inl Panic by (simp add: tick_strategy_with_timeout_def)
      then show ?thesis using b z
        by (cases b; cases "projr b"; cases z) (auto simp: handle_strategy_tick_timeout_def)
    qed
  qed
  with J show ?thesis by blast
qed

lemma allowed_execute_from:
  "allowed_world allowed w \<Longrightarrow> \<forall>i\<in>set is. i < length (rt_strategies w) \<Longrightarrow>
   execute_from E d is w = (r, w') \<Longrightarrow>
   allowed_world allowed w' \<and> length (rt_strategies w') = length (rt_strategies w)"
proof (induction E d "is" w arbitrary: r w' rule: execute_from.induct)
  case (2 E d i rest w)
  show ?case
  proof (cases "dispatch_matches_strategy d (rt_strategies w ! i)")
    case False
    then show ?thesis using "2.IH"(1) "2.prems" by simp
  next
    case True
    let ?c = "\<lparr> cx_runner = rt_strategies w ! i, cx_trace = rt_trace w, cx_sequence = rt_sequence w \<rparr>"
    obtain x t c where t: "tick_strategy_with_timeout E i d (rt_tick_failures w, ?c) = (x, t, c)"
      by (metis prod_cases3)
    let ?w = "\<lparr> rt_strategies = (rt_strategies w)[i := cx_runner c], rt_trace = cx_trace c,
        rt_sequence = cx_sequence c, rt_tick_failures = t \<rparr>"
    define m where "m = (\<lambda>c. let (x, t, c') = tick_strategy_with_timeout E i d (rt_tick_failures w, c) in (x, c'))"
    have "keeps (allowed_context allowed iid inst) m" for iid inst
      using tick_context [OF allowed_dispatch allowed.keeps_reconcile_after_interrupted_tick]
      by (fastforce simp: keeps_def yields_def m_def split: prod.splits)
    from allowed_put_back [OF "2.prems"(1) _ this, of i x c] "2.prems"(2) t
    have w: "allowed_world allowed ?w" by (simp add: allowed_world_def m_def)
    show ?thesis
    proof (cases "x = Inr None")
      case True
      then have "execute_from E d rest ?w = (r, w')"
        using "2.prems"(3) \<open>dispatch_matches_strategy d (rt_strategies w ! i)\<close> t by (simp add: Let_def)
      from "2.IH"(2) [of ?c x "(t, c)" t c ?w None] this True w "2.prems"(2) t
        \<open>dispatch_matches_strategy d (rt_strategies w ! i)\<close>
      show ?thesis by simp
    next
      case False
      then have "w' = ?w" using "2.prems"(3) \<open>dispatch_matches_strategy d (rt_strategies w ! i)\<close> t
        by (simp add: Let_def split: sum.splits option.splits)
      with w show ?thesis by simp
    qed
  qed
qed simp

lemma allowed_execute:
  assumes "allowed_world allowed w"
  shows "allowed_world allowed (snd (execute_strategy_dispatch E d w)) \<and>
   length (rt_strategies (snd (execute_strategy_dispatch E d w))) = length (rt_strategies w)"
proof -
  obtain r w' where x: "execute_strategy_dispatch E d w = (r, w')" by fastforce
  then have "execute_from E d [0..<length (rt_strategies w)] w = (r, w')"
    by (simp only: execute_strategy_dispatch_def)
  from allowed_execute_from [OF assms _ this] show ?thesis unfolding x by simp
qed

section \<open>Actions of the engine\<close>

lemma ebind_Inr: "ebind m f e = (Inr y, e') \<longleftrightarrow> (\<exists>x e1. m e = (Inr x, e1) \<and> f x e1 = (Inr y, e'))"
  by (auto simp: ebind_def split: prod.split sum.split)

lemma ebind_run:
  "m e = (r, e1) \<Longrightarrow> ebind m f e = (case r of Inl x \<Rightarrow> (Inl x, e1) | Inr x \<Rightarrow> f x e1)"
  by (simp add: ebind_def split: sum.split)

lemma elift_run [simp]: "elift r e = (r, e)"
  by (simp add: elift_def)

lemma eupd_run [simp]: "eupd f e = (Inr (), f e)"
  by (simp add: eupd_def)

definition ekeeps :: "(TradingEngine \<Rightarrow> bool) \<Rightarrow> 'a eact \<Rightarrow> ('a \<Rightarrow> bool) \<Rightarrow> bool" where
  "ekeeps P m Q = (\<forall>e. P e \<longrightarrow> P (snd (m e)) \<and> (\<forall>x. fst (m e) = Inr x \<longrightarrow> Q x))"

named_theorems ekeeps_rules "rules for what an action of the engine preserves"

lemma ekeepsD: "ekeeps P m Q \<Longrightarrow> P e \<Longrightarrow> m e = (r, e') \<Longrightarrow> P e'"
  by (metis ekeeps_def snd_conv)

lemma ekeeps_ebind [ekeeps_rules]:
  assumes "ekeeps P m Q" and "\<And>x. Q x \<Longrightarrow> ekeeps P (f x) R"
  shows "ekeeps P (ebind m f) R"
  unfolding ekeeps_def
proof (intro allI impI)
  fix e
  assume "P e"
  obtain r e1 where m: "m e = (r, e1)" by fastforce
  with assms(1) \<open>P e\<close> have one: "P e1" "\<And>x. r = Inr x \<Longrightarrow> Q x" by (auto simp: ekeeps_def)
  show "P (snd (ebind m f e)) \<and> (\<forall>x. fst (ebind m f e) = Inr x \<longrightarrow> R x)"
  proof (cases r)
    case (Inr x)
    with assms(2) [OF one(2)] one(1) m show ?thesis by (simp add: ebind_def ekeeps_def)
  qed (use one m in \<open>simp add: ebind_def\<close>)
qed

lemma ekeeps_elift [ekeeps_rules]: "(\<And>x. r = Inr x \<Longrightarrow> Q x) \<Longrightarrow> ekeeps P (elift r) Q"
  by (simp add: ekeeps_def)

lemma ekeeps_eupd [ekeeps_rules]: "(\<And>e. P e \<Longrightarrow> P (f e)) \<Longrightarrow> Q () \<Longrightarrow> ekeeps P (eupd f) Q"
  by (simp add: ekeeps_def)

section \<open>The world of the engine\<close>

text \<open>The configuration and the timeout never change; the world keeps the policy.\<close>

definition engine_ok ::
    "BotConfig \<Rightarrow> OkxCancelAllAfterTimeout option \<Rightarrow> (request \<Rightarrow> bool) \<Rightarrow> TradingEngine \<Rightarrow> bool" where
  "engine_ok c t allowed e =
     (eg_config e = c \<and> eg_cancel_all_after_timeout e = t \<and> allowed_world allowed (eg_world e))"

lemma with_strategy_ok:
  assumes "\<And>iid inst. keeps (allowed_context allowed iid inst) m" and "engine_ok c t allowed e"
    and "i < length (rt_strategies (eg_world e))" and "with_strategy i m e = (r, e')"
  shows "engine_ok c t allowed e' \<and> length (rt_strategies (eg_world e')) = length (rt_strategies (eg_world e)) \<and>
    control e' = control e"
proof -
  let ?c = "\<lparr> cx_runner = rt_strategies (eg_world e) ! i, cx_trace = rt_trace (eg_world e),
      cx_sequence = rt_sequence (eg_world e) \<rparr>"
  obtain x d where m: "m ?c = (x, d)" by fastforce
  from assms(2) have "allowed_world allowed (eg_world e)" by (simp add: engine_ok_def)
  from allowed_put_back [OF this assms(3,1) m] assms(2,4) m show ?thesis
    by (auto simp: with_strategy_def Let_def engine_ok_def allowed_world_def control_def)
qed

lemma initialize_strategies_ok:
  "engine_ok c t allowed e \<Longrightarrow> \<forall>i\<in>set is. i < length (rt_strategies (eg_world e)) \<Longrightarrow>
   initialize_strategies V is e = (r, e') \<Longrightarrow>
   engine_ok c t allowed e' \<and> control e' = control e \<and>
   length (rt_strategies (eg_world e')) = length (rt_strategies (eg_world e))"
proof (induction "is" arbitrary: e)
  case (Cons i "is")
  obtain x f where i: "initialize_strategy V i e = (x, f)" by fastforce
  obtain y g where w: "with_strategy i (Strategy_Runner.initialize (ev_client V)) e = (y, g)" by fastforce
  have "f = e \<or> f = g" using i w
    by (auto simp: initialize_strategy_def ebind_def split: sum.splits)
  with with_strategy_ok [OF allowed.keeps_initialize Cons.prems(1) _ w] Cons.prems
  have f: "engine_ok c t allowed f" "control f = control e"
      "length (rt_strategies (eg_world f)) = length (rt_strategies (eg_world e))" by auto
  show ?case
  proof (cases x)
    case (Inr u)
    then have "initialize_strategies V is f = (r, e')" using Cons.prems(3) i by (simp add: ebind_def)
    from Cons.IH [OF f(1) _ this] Cons.prems(2) f show ?thesis by simp
  qed (use Cons.prems(3) i f in \<open>auto simp: ebind_def\<close>)
qed auto

lemma shutdown_strategies_ok:
  "engine_ok c t allowed e \<Longrightarrow> \<forall>i\<in>set is. i < length (rt_strategies (eg_world e)) \<Longrightarrow>
   shutdown_strategies V is err e = (r, e') \<Longrightarrow>
   engine_ok c t allowed e' \<and> control e' = control e \<and>
   length (rt_strategies (eg_world e')) = length (rt_strategies (eg_world e))"
proof (induction "is" arbitrary: e err)
  case (Cons i "is")
  obtain x f where w: "with_strategy i (Strategy_Runner.shutdown (ev_client V)) e = (x, f)" by fastforce
  with with_strategy_ok [OF allowed.keeps_shutdown Cons.prems(1) _ w] Cons.prems
  have f: "engine_ok c t allowed f" "control f = control e"
      "length (rt_strategies (eg_world f)) = length (rt_strategies (eg_world e))" by auto
  show ?case
  proof (cases "x = Inl Panic")
    case False
    then obtain err' where "shutdown_strategies V is err' f = (r, e')" using Cons.prems(3) w
      by (auto split: sum.splits fault.splits)
    from Cons.IH [OF f(1) _ this] Cons.prems(2) f show ?thesis by simp
  qed (use Cons.prems(3) w f in auto)
qed auto

lemma built_strategies:
  "build_validated_strategies D insts v is = Inr rs \<Longrightarrow>
   \<forall>r\<in>set rs. \<exists>i\<in>set is. rn_instance_id r = si_id i \<and> rn_instrument_id r = instance_instrument_id i \<and>
     rn_exchange r = None"
proof (induction D insts v "is" arbitrary: rs rule: build_validated_strategies.induct)
  case (2 D insts v i rest)
  then obtain w r rs' where r: "from_validated_instance D insts i w = Inr r"
      "build_validated_strategies D insts v rest = Inr rs'" "rs = r # rs'"
    by (auto simp: rbind_eq_Inr)
  have "si_instrument_id i = vi_inst_id w"
    using r(1) by (auto simp: from_validated_instance_def rbind_eq_Inr)
  with start_policy [OF r(1)] "2.IH" r show ?case by (auto simp: rbind_eq_Inr si_instrument_id_def)
qed simp

text \<open>What an enabled instance of the configuration may ask of the exchange.\<close>

definition permitted_by_config :: "BotConfig \<Rightarrow> request \<Rightarrow> bool" where
  "permitted_by_config c q =
     (\<exists>i\<in>set (enabled_strategy_instances c). permitted_request (si_id i) (instance_instrument_id i) q)"

lemma built_strategies_allowed:
  assumes "build_validated_strategies D insts v (enabled_strategy_instances c) = Inr rs"
  shows "list_all (allowed_runner (permitted_by_config c)) rs"
  using built_strategies [OF assms]
  by (fastforce simp: list_all_iff allowed_runner_def coherent_runner_def may_request_def
      permitted_by_config_def)

section \<open>Start-up\<close>

definition untraded :: "BotConfig \<Rightarrow> OkxCancelAllAfterTimeout option \<Rightarrow> TradingEngine \<Rightarrow> bool" where
  "untraded c t e = (engine_ok c t (permitted_by_config c) e \<and> rt_trace (eg_world e) = [])"

lemma untraded_updates [simp]:
  "untraded c t (e\<lparr> eg_cancel_all_after_arm_attempted := b \<rparr>) = untraded c t e"
  "untraded c t (e\<lparr> eg_cancel_all_after_armed := b \<rparr>) = untraded c t e"
  "untraded c t (e\<lparr> eg_heartbeat_running := b, eg_heartbeat_failures := b' \<rparr>) = untraded c t e"
  "untraded c t (e\<lparr> eg_refresher_running := b, eg_refresh_failures := b' \<rparr>) = untraded c t e"
  "untraded c t (e\<lparr> eg_market_stream_configs := ms \<rparr>) = untraded c t e"
  "untraded c t (e\<lparr> eg_private_stream_configs := ps, eg_health_tracker := h \<rparr>) = untraded c t e"
  "untraded c t (start_market_streams e) = untraded c t e"
  "untraded c t (start_private_streams e) = untraded c t e"
  by (simp_all add: untraded_def engine_ok_def start_market_streams_def start_private_streams_def)

lemma ekeeps_start_tasks [ekeeps_rules]:
  "ekeeps (untraded c t) (refresh_cancel_all_after V timeout) (\<lambda>_. True)"
  "ekeeps (untraded c t) start_cancel_all_after_heartbeat (\<lambda>_. True)"
  "ekeeps (untraded c t) start_server_time_refresher (\<lambda>_. True)"
  by (auto simp: ekeeps_def refresh_cancel_all_after_def start_cancel_all_after_heartbeat_def
      start_server_time_refresher_def ebind_def require_def split: sum.splits)

lemma order_path_untraded:
  assumes "untraded c t e" and "start_strategy_enabled_order_path V e = (r, e')"
  shows "untraded c t e'"
proof -
  have c: "eg_config e = c" using assms(1) by (simp add: untraded_def engine_ok_def)
  let ?D = "cl_decimal (ev_client V)"
  have set: "ekeeps (untraded c t) (eupd (\<lambda>e. e\<lparr> eg_world := (eg_world e)\<lparr> rt_strategies := rs \<rparr> \<rparr>)) (\<lambda>_. True)"
    if "list_all (allowed_runner (permitted_by_config c)) rs" for rs
    using that by (auto simp: ekeeps_def untraded_def engine_ok_def allowed_world_def)
  have strategies: "ekeeps (untraded c t) (elift (build_validated_strategies ?D (bc_instances c) v
      (enabled_strategy_instances c))) (list_all (allowed_runner (permitted_by_config c)))" for v
    by (rule ekeeps_elift) (rule built_strategies_allowed)
  have any: "ekeeps (untraded c t) (elift q) (\<lambda>_. True)" for q :: "'x res" by (simp add: ekeeps_def)
  have upd: "ekeeps (untraded c t) (eupd f) (\<lambda>_. True)" if "\<And>e. untraded c t (f e) = untraded c t e" for f
    using that by (simp add: ekeeps_def)
  have "ekeeps (untraded c t) (order_path_steps V c timeout) (\<lambda>_. True)" for timeout
    unfolding order_path_steps_def Let_def
    by (rule ekeeps_ebind [OF any] ekeeps_ebind [OF strategies] ekeeps_ebind [OF set] ekeeps_ebind [OF upd]
        ekeeps_ebind [OF ekeeps_start_tasks(1)] ekeeps_ebind [OF ekeeps_start_tasks(2)]
        ekeeps_start_tasks(3) untraded_updates | assumption)+
  from ekeepsD [OF this assms(1)] assms(2) show ?thesis
    unfolding start_strategy_enabled_order_path_def c by blast
qed

text \<open>A start-up that reaches the strategies has armed the switch and started its heartbeat.\<close>

definition guarded :: "engine_env \<Rightarrow> TradingEngine \<Rightarrow> bool" where
  "guarded V e =
     (eg_cancel_all_after_armed e \<and> eg_heartbeat_running e \<and>
      (\<exists>t ack. eg_cancel_all_after_timeout e = Some t \<and> client_cancel_all_after V t = Inr ack))"

lemma order_path_guarded:
  assumes "start_strategy_enabled_order_path V e = (Inr u, e')"
  shows "guarded V e'"
  using assms
  by (auto simp: start_strategy_enabled_order_path_def order_path_steps_def Let_def ebind_Inr guarded_def
      refresh_cancel_all_after_def start_cancel_all_after_heartbeat_def start_server_time_refresher_def)

lemma guarded_control: "control e' = control e \<Longrightarrow> guarded V e' = guarded V e"
  by (auto simp: control_def guarded_def)

definition idle :: "TradingEngine \<Rightarrow> bool" where
  "idle e = (rt_strategies (eg_world e) = [] \<and> rt_trace (eg_world e) = [])"

lemma startup_facts:
  assumes "startup V e = (r, e')" and "untraded c t e" and "rt_strategies (eg_world e) = []"
  shows "engine_ok c t (permitted_by_config c) e' \<and>
    (case r of Inr _ \<Rightarrow> idle e' \<or> guarded V e' | Inl _ \<Rightarrow> rt_trace (eg_world e') = [] \<or> guarded V e')"
proof -
  have t: "eg_cancel_all_after_timeout e = t" using assms(2) by (simp add: untraded_def engine_ok_def)
  obtain x e1 where steps: "(if t = None then elift (Inr ()) else start_strategy_enabled_order_path V) e = (x, e1)"
    by fastforce
  have e1: "untraded c t e1" using steps assms(2) order_path_untraded by (auto split: if_splits)
  have e1': "x = Inr () \<Longrightarrow> (t = None \<and> e1 = e) \<or> guarded V e1"
    using steps order_path_guarded by (auto split: if_splits)
  define e2 where "e2 = start_private_streams (start_market_streams e1)"
  have e2: "untraded c t e2" "control e2 = control e1" "eg_world e2 = eg_world e1"
    using e1 by (simp_all add: e2_def start_private_streams_def start_market_streams_def control_def)
      (simp_all add: untraded_def engine_ok_def)
  have cases: "(\<exists>err. r = Inl err \<and> e' = e) \<or> (\<exists>err. r = Inl err \<and> e' = e1) \<or>
    (x = Inr () \<and> initialize_strategies V [0..<length (rt_strategies (eg_world e2))] e2 = (r, e'))"
  proof (cases "required_okx_config (eg_config e)")
    case (Inr okx)
    show ?thesis
    proof (cases x)
      case (Inl err)
      then have "(r, e') = (Inl err, e1)"
        using assms(1) \<open>required_okx_config (eg_config e) = Inr okx\<close> steps
        by (simp add: startup_def ebind_def t)
      then show ?thesis by blast
    next
      case (Inr u)
      then show ?thesis
        using assms(1) \<open>required_okx_config (eg_config e) = Inr okx\<close> steps
        by (simp add: startup_def ebind_def t e2_def)
    qed
  next
    case (Inl x)
    then show ?thesis using assms(1) by (auto simp: startup_def ebind_def)
  qed
  consider (early) err where "r = Inl err" "e' = e" | (path) err where "r = Inl err" "e' = e1"
    | (go) "x = Inr ()" "initialize_strategies V [0..<length (rt_strategies (eg_world e2))] e2 = (r, e')"
    using cases by blast
  then show ?thesis
  proof cases
    case early
    then show ?thesis using assms(2) by (auto simp: untraded_def)
  next
    case path
    then show ?thesis using e1 by (auto simp: untraded_def)
  next
    case go
    have "engine_ok c t (permitted_by_config c) e2" using e2(1) by (simp add: untraded_def)
    from initialize_strategies_ok [OF this _ go(2)]
    have e': "engine_ok c t (permitted_by_config c) e'" "control e' = control e2" by auto
    show ?thesis
    proof (cases "guarded V e1")
      case True
      then have "guarded V e'" using guarded_control e2(2) e'(2) by metis
      with e' show ?thesis by (simp split: sum.split)
    next
      case False
      then have "rt_strategies (eg_world e2) = []" using e1' go(1) e2(3) assms(3) by auto
      then have "r = Inr ()" "e' = e2" using go(2) by auto
      then show ?thesis using e2(1) \<open>rt_strategies (eg_world e2) = []\<close> e'(1)
        by (simp add: idle_def untraded_def)
    qed
  qed
qed

section \<open>The loop\<close>

lemma no_strategies_no_dispatch:
  "rt_strategies w = [] \<Longrightarrow> execute_strategy_dispatch E d w = (Inr None, w)"
  by (simp add: execute_strategy_dispatch_def)

lemma dispatched_ok:
  assumes "dispatched V e e'" and "control e' = control e" and "engine_ok c t allowed e"
  shows "engine_ok c t allowed e' \<and> (rt_strategies (eg_world e) = [] \<longrightarrow> eg_world e' = eg_world e)"
  using assms allowed_execute [of allowed "eg_world e" "ev_client V"] no_strategies_no_dispatch
  by (auto simp: dispatched_def engine_ok_def control_def)

text \<open>How a loop ended: waiting, with an error of the loop itself, or through one of the two exits.\<close>

definition loop_exit :: "engine_env \<Rightarrow> TradingEngine \<Rightarrow> unit res option \<Rightarrow> TradingEngine \<Rightarrow> bool" where
  "loop_exit V e out e' =
     (out = None \<and> e' = e \<or> (\<exists>x. out = Some (Inl x) \<and> e' = e) \<or>
      (\<exists>r. shutdown_for_operator V e = (r, e') \<and> out = Some r) \<or>
      (\<exists>reason err r. fail_closed_for_fatal_error reason err e = (r, e') \<and> out = Some r))"

lemma run_loop_from_facts:
  assumes "run_loop_from V is s = (out, e')" and "engine_ok c t allowed (ls_engine s)"
  shows "\<exists>e. engine_ok c t allowed e \<and> control e = control (ls_engine s) \<and> loop_exit V e out e' \<and>
    (rt_strategies (eg_world (ls_engine s)) = [] \<longrightarrow> eg_world e = eg_world (ls_engine s))"
  using assms
proof (induction V "is" s rule: run_loop_from.induct)
  case (1 V s)
  then show ?case by (auto simp: loop_exit_def)
next
  case (2 V i rest s)
  obtain r f where d: "engine_decision V i (ls_engine s) = (r, f)" by fastforce
  let ?s = "s\<lparr> ls_engine := f, ls_observing := observing_after i (ls_observing s) \<rparr>"
  have turn: "loop_turn V i s = (r, ?s)" by (simp add: loop_turn_def d)
  have f: "control f = control (ls_engine s)" "engine_ok c t allowed f"
      "rt_strategies (eg_world (ls_engine s)) = [] \<Longrightarrow> eg_world f = eg_world (ls_engine s)"
    using engine_decision_facts [OF d] dispatched_ok [of V "ls_engine s" f c t allowed] "2.prems"(2) by auto
  show ?case
  proof (cases "branch_enabled i s")
    case False
    then show ?thesis using "2.IH"(1) "2.prems" by simp
  next
    case True
    show ?thesis
    proof (cases "r = Inr Continue")
      case True
      then have "run_loop_from V rest ?s = (out, e')"
        using "2.prems"(1) \<open>branch_enabled i s\<close> turn by simp
      from "2.IH"(2) [OF _ turn [symmetric] True _ this] \<open>branch_enabled i s\<close> f show ?thesis by auto
    next
      case False
      then have "loop_exit V f out e'"
        using "2.prems"(1) \<open>branch_enabled i s\<close> turn
        by (cases "shutdown_for_operator V f")
          (auto simp: loop_exit_def apfst_def map_prod_def
            split: sum.splits RuntimeLoopDecision.splits prod.splits)
      with f show ?thesis by auto
    qed
  qed
qed

section \<open>Leaving the loop\<close>

definition settled :: "OkxEmaAtrMakerTrendRunner \<Rightarrow> bool" where
  "settled r = (case rn_exchange r of None \<Rightarrow> False | Some s \<Rightarrow> flat s \<or> left_protected s)"

lemma shutdown_one_settles:
  assumes "with_strategy i (Strategy_Runner.shutdown E) e = (Inr u, e')"
    and "i < length (rt_strategies (eg_world e))"
  shows "settled (rt_strategies (eg_world e') ! i) \<and>
    (\<forall>j. j \<noteq> i \<longrightarrow> rt_strategies (eg_world e') ! j = rt_strategies (eg_world e) ! j)"
proof -
  let ?c = "\<lparr> cx_runner = rt_strategies (eg_world e) ! i, cx_trace = rt_trace (eg_world e),
      cx_sequence = rt_sequence (eg_world e) \<rparr>"
  obtain x d where m: "Strategy_Runner.shutdown E ?c = (x, d)" by fastforce
  with assms(1) have x: "x = Inr u"
      "e' = e\<lparr> eg_world := (eg_world e)\<lparr> rt_strategies := (rt_strategies (eg_world e))[i := cx_runner d],
        rt_trace := cx_trace d, rt_sequence := cx_sequence d \<rparr> \<rparr>"
    by (auto simp: with_strategy_def Let_def)
  from shutdown_done [OF m [unfolded x(1)]] assms(2) show ?thesis
    by (auto simp: x(2) settled_def)
qed

lemma shutdown_strategies_error:
  "shutdown_strategies V is (Some err) e = (Inr x, e') \<Longrightarrow> x = Some err"
  by (induction "is" arbitrary: e) (auto split: sum.splits fault.splits prod.splits)

lemma shutdown_strategies_settle:
  "engine_ok c t allowed e \<Longrightarrow> \<forall>i\<in>set is. i < length (rt_strategies (eg_world e)) \<Longrightarrow> distinct is \<Longrightarrow>
   shutdown_strategies V is None e = (Inr None, e') \<Longrightarrow>
   (\<forall>i\<in>set is. settled (rt_strategies (eg_world e') ! i)) \<and>
   (\<forall>j. j \<notin> set is \<longrightarrow> rt_strategies (eg_world e') ! j = rt_strategies (eg_world e) ! j)"
proof (induction "is" arbitrary: e)
  case (Cons i "is")
  obtain x f where w: "with_strategy i (Strategy_Runner.shutdown (ev_client V)) e = (x, f)" by fastforce
  have x: "\<exists>u. x = Inr u" using Cons.prems(4) w
    by (auto split: sum.splits fault.splits dest: shutdown_strategies_error)
  then obtain u where u: "with_strategy i (Strategy_Runner.shutdown (ev_client V)) e = (Inr u, f)" using w by auto
  have f: "engine_ok c t allowed f"
      "length (rt_strategies (eg_world f)) = length (rt_strategies (eg_world e))"
    using with_strategy_ok [OF allowed.keeps_shutdown Cons.prems(1) _ w] Cons.prems(2) by auto
  have rest: "shutdown_strategies V is None f = (Inr None, e')" using Cons.prems(4) u by simp
  from shutdown_one_settles [OF u] Cons.IH [OF f(1) _ _ rest] Cons.prems(2,3) f(2) show ?case by auto
qed simp

lemma stop_steps:
  assumes "keep_first_error m err e = (r, e')" and "m \<in> {stop_server_time_refresher V, stop_cancel_all_after_heartbeat V}"
  shows "eg_world e' = eg_world e \<and> eg_config e' = eg_config e \<and>
    eg_cancel_all_after_timeout e' = eg_cancel_all_after_timeout e \<and>
    eg_cancel_all_after_armed e' = eg_cancel_all_after_armed e \<and>
    (\<forall>x. r = Inr x \<longrightarrow> x = None \<longrightarrow> err = None)"
  using assms
  by (auto simp: keep_first_error_def stop_server_time_refresher_def stop_cancel_all_after_heartbeat_def
      ebind_def refresher_gone_def heartbeat_gone_def split: sum.splits fault.splits if_splits prod.splits)

text \<open>
  An operator shutdown: it succeeds only with every strategy settled and the disarm acknowledged; when it
  fails the switch is left as it was.
\<close>

lemma operator_shutdown:
  assumes "shutdown_for_operator V e = (r, e')" and "engine_ok c t allowed e"
  shows "engine_ok c t allowed e' \<and>
    (case r of
       Inr _ \<Rightarrow> list_all settled (rt_strategies (eg_world e')) \<and> \<not> eg_cancel_all_after_armed e' \<and>
         (t = None \<or> (\<exists>ack. client_cancel_all_after V caa_timeout_disarm = Inr ack))
     | Inl _ \<Rightarrow> eg_cancel_all_after_armed e' = eg_cancel_all_after_armed e)"
proof -
  let ?is = "[0..<length (rt_strategies (eg_world e))]"
  obtain x1 e1 where s1: "shutdown_strategies V ?is None e = (x1, e1)" by fastforce
  have e1: "engine_ok c t allowed e1" "control e1 = control e"
      "length (rt_strategies (eg_world e1)) = length (rt_strategies (eg_world e))"
    using shutdown_strategies_ok [OF assms(2) _ s1] by auto
  show ?thesis
  proof (cases x1)
    case (Inl y)
    then show ?thesis using assms(1) s1 e1 by (auto simp: shutdown_for_operator_def ebind_def control_def)
  next
    case (Inr err1)
    obtain x2 e2 where s2: "keep_first_error (stop_server_time_refresher V) err1 e1 = (x2, e2)" by fastforce
    have e2: "eg_world e2 = eg_world e1" "eg_config e2 = eg_config e1"
        "eg_cancel_all_after_timeout e2 = eg_cancel_all_after_timeout e1"
        "eg_cancel_all_after_armed e2 = eg_cancel_all_after_armed e1" "x2 = Inr None \<Longrightarrow> err1 = None"
      using stop_steps [OF s2] by auto
    show ?thesis
    proof (cases x2)
      case (Inl y)
      then show ?thesis using assms(1) s1 s2 e1 e2 \<open>x1 = Inr err1\<close>
        by (auto simp: shutdown_for_operator_def ebind_def engine_ok_def control_def)
    next
      case (Inr err2)
      obtain x3 e3 where s3: "keep_first_error (stop_cancel_all_after_heartbeat V) err2 e2 = (x3, e3)" by fastforce
      have e3: "eg_world e3 = eg_world e2" "eg_config e3 = eg_config e2"
          "eg_cancel_all_after_timeout e3 = eg_cancel_all_after_timeout e2"
          "eg_cancel_all_after_armed e3 = eg_cancel_all_after_armed e2" "x3 = Inr None \<Longrightarrow> err2 = None"
        using stop_steps [OF s3] by auto
      have run: "shutdown_for_operator V e =
          (case x3 of Inl y \<Rightarrow> (Inl y, e3) | Inr err \<Rightarrow>
            ebind (if err = None then keep_first_error (disarm_cancel_all_after V) err else elift (Inr err)) (\<lambda>err.
            elift (ensure (err = None)
              (Fail (Bad ''OKX strategy shutdown cleanup'' ''finished with ambiguous state'')))) e3)"
        using s1 s2 s3 \<open>x1 = Inr err1\<close> Inr
        by (simp add: shutdown_for_operator_def ebind_def split: sum.split)
      show ?thesis
      proof (cases "x3 = Inr None")
        case False
        have "e' = e3 \<and> (\<exists>y. r = Inl y)"
          using assms(1) False unfolding run
          by (auto simp: ebind_def ensure_def split: sum.splits if_splits)
        with e1 e2 e3 show ?thesis by (auto simp: engine_ok_def control_def)
      next
        case True
        then have none: "err2 = None" "err1 = None" using e3(5) e2(5) Inr by auto
        have settle: "list_all settled (rt_strategies (eg_world e1))"
          using shutdown_strategies_settle [OF assms(2) _ _ s1 [unfolded \<open>x1 = Inr err1\<close> none]] e1(3)
          by (auto simp: list_all_length)
        obtain y f where d: "disarm_cancel_all_after V e3 = (y, f)" by fastforce
        have f: "eg_world f = eg_world e3" "eg_config f = eg_config e3"
            "eg_cancel_all_after_timeout f = eg_cancel_all_after_timeout e3"
            "y = Inr () \<Longrightarrow> \<not> eg_cancel_all_after_armed f \<and>
              (eg_cancel_all_after_timeout e3 = None \<or> (\<exists>ack. client_cancel_all_after V caa_timeout_disarm = Inr ack))"
            "\<And>z. y = Inl z \<Longrightarrow> eg_cancel_all_after_armed f = eg_cancel_all_after_armed e3"
          using d by (auto simp: disarm_cancel_all_after_def clear_armed_def ebind_def
              split: if_splits sum.splits)
        have "e' = f \<and> (case y of Inr _ \<Rightarrow> r = Inr () | Inl _ \<Rightarrow> (\<exists>z. r = Inl z))"
          using assms(1) d unfolding run True
          by (auto simp: ebind_def keep_first_error_def ensure_def split: sum.splits fault.splits)
        with e1 e2 e3 f settle show ?thesis
          by (cases y) (auto simp: engine_ok_def control_def)
      qed
    qed
  qed
qed

lemma fatal_exit:
  assumes "fail_closed_for_fatal_error reason err e = (r, e')"
  shows "eg_world e' = eg_world e \<and> eg_config e' = eg_config e \<and>
    eg_cancel_all_after_timeout e' = eg_cancel_all_after_timeout e \<and>
    eg_cancel_all_after_armed e' = eg_cancel_all_after_armed e \<and> \<not> eg_heartbeat_running e' \<and> (\<exists>x. r = Inl x)"
proof -
  define f where "f = abort_server_time_refresher e"
  have f: "eg_world f = eg_world e" "eg_config f = eg_config e"
      "eg_cancel_all_after_timeout f = eg_cancel_all_after_timeout e"
      "eg_cancel_all_after_armed f = eg_cancel_all_after_armed e"
    by (simp_all add: f_def abort_server_time_refresher_def refresher_gone_def)
  have "e' = abort_cancel_all_after_heartbeat f" "\<exists>x. r = Inl x"
    using assms by (auto simp: fail_closed_for_fatal_error_def Let_def f_def)
  with f show ?thesis by (simp add: abort_cancel_all_after_heartbeat_def heartbeat_gone_def)
qed

end
