(* ===== verification/Runtime_Sample.thy ===== *)
theory Runtime_Sample
  imports Runtime_Safety
begin

text \<open>
  A concrete engine: the demo configuration with one enabled strategy on a sample exchange that accepts
  every call.  It starts up, arms the switch, initializes the strategy on a flat account, and can be shut
  down; it also reconciles on request.
\<close>

section \<open>The flat sample\<close>

lemma sample_live_orders:
  assumes "rn_exchange r = Some sample_exchange"
  shows "classify_live_orders exact_decimal r [] [] =
    Inr \<lparr> lo_entry = None, lo_take_profit = None, lo_stop_loss_exit = None, lo_stop_loss = None \<rparr>"
  using assms by (simp add: classify_live_orders_def Let_def reject_live_legacy_strategy_ids_def exchange_of_def
      find_live_strategy_order_def find_live_strategy_stop_loss_algo_def
      reject_unknown_live_strategy_orders_def reject_unknown_live_strategy_algo_orders_def)

lemma sample_flat_balance:
  assumes "rn_exchange r = Some sample_exchange" "rn_operator_owned_base_balance r = 0"
  shows "reconstruct_strategy_balance exact_decimal r [\<lparr> ba_details =
     [\<lparr> bd_ccy = ''BTC'', bd_available_balance = ''0'', bd_cash_balance = ''0'', bd_frozen_balance = ''0'' \<rparr>] \<rparr>] =
     Inr \<lparr> sb_total = 0, sb_tradeable_quantity = 0 \<rparr>"
  using assms by (simp add: reconstruct_strategy_balance_def exchange_of_def sample_exchange_def
    sample_currencies Let_def add_detail_total_def balance_total_def sample_numbers sample_nonblank
    parse_non_negative_decimal_def parse_decimal_def dec_add_def sample_sizes
    strategy_balance_after_operator_baseline_def dec_sub_def quantize_decimal_down_def dec_div_def dec_mul_def)

lemma sample_flat_position:
  assumes "rn_exchange r = Some sample_exchange"
  shows "reconstruct_position_from_evidence exact_decimal r \<lparr> sb_total = 0, sb_tradeable_quantity = 0 \<rparr> [] a =
     Inr NoPosition"
  using assms by (simp add: reconstruct_position_from_evidence_def strategy_net_filled_position_def
      exchange_of_def sample_exchange_def sample_sizes decimal_distance_def dec_sub_def)

lemma sample_flat_gather:
  assumes "rn_exchange (cx_runner c) = Some sample_exchange"
  shows "gather_position (sample_client ''0'' []) tag \<lparr> sb_total = 0, sb_tradeable_quantity = 0 \<rparr> [] c =
    (Inr None, c)"
proof -
  have e: "exchange c = (Inr sample_exchange, c)"
    using assms by (simp add: exchange_def run_simps exchange_of_def)
  have i: "ex_instrument sample_exchange = sample_instrument" by (simp add: sample_exchange_def)
  have no: "strategy_order_evidence_from_orders [] tag = []"
    by (simp add: strategy_order_evidence_from_orders_def)
  have none: "strategy_fill_evidence exact_decimal [] [] tag i = Inr []" for i
    by (simp add: strategy_fill_evidence_def)
  show ?thesis
    by (simp add: gather_position_def Let_def mbind_run e i sample_sizes no none lift_def self_result_def
        sample_flat_position [OF assms] mret_def finalize_reconstructed_position_def)
qed

lemma sample_flat_reconstruct:
  assumes "rn_exchange (cx_runner c) = Some sample_exchange" "rn_operator_owned_base_balance (cx_runner c) = 0"
  shows "\<exists>c'. reconstruct_exchange_state (sample_client ''0'' []) c = (Inr (), c') \<and>
    cx_runner c' = cx_runner c \<and> cx_trace c' \<noteq> []"
proof -
  define d where "d = c\<lparr> cx_trace := [GetBalances, GetOpenAlgoOrders (rn_instrument_id (cx_runner c)),
    GetOpenOrders (rn_instrument_id (cx_runner c))] @ cx_trace c \<rparr>"
  have d: "cx_runner d = cx_runner c" by (simp add: d_def)
  have g: "gather_position (sample_client ''0'' []) tag \<lparr> sb_total = 0, sb_tradeable_quantity = 0 \<rparr> [] d =
      (Inr None, d)" for tag by (rule sample_flat_gather) (simp add: d assms)
  have same: "accept_reconstruction \<lparr> lo_entry = None, lo_take_profit = None, lo_stop_loss_exit = None,
      lo_stop_loss = None \<rparr> None sample_exchange = sample_exchange"
    by (simp add: accept_reconstruction_def sample_exchange_def)
  have r: "(cx_runner c)\<lparr> rn_exchange := Some sample_exchange \<rparr> = cx_runner c" using assms(1) by simp
  show ?thesis
    using assms g same r
    by (simp add: reconstruct_exchange_state_def Let_def run_simps sample_live_orders sample_flat_balance
        d_def validate_reconstructed_live_protection_def exchange_mut_def exchange_def exchange_of_def)
qed

lemma sample_flat_protection:
  assumes "rn_exchange (cx_runner c) = Some sample_exchange"
  shows "ensure_position_protection E c = (Inr (), c)"
  using assms by (simp add: ensure_position_protection_def ensure_take_profit_order_def
      ensure_stop_loss_order_def run_simps sample_exchange_def)

lemma sample_flat_initialize:
  obtains c where "initialize (sample_client ''0'' []) sample_start = (Inr (), c)"
    "rn_exchange (cx_runner c) = Some sample_exchange" "rn_operator_owned_base_balance (cx_runner c) = 0"
    "cx_trace c \<noteq> []"
proof -
  let ?E = "sample_client ''0'' []"
  obtain w c1 where c1: "prepare_startup_exchange_state ?E sample_start = (Inr w, c1)"
    "rn_exchange (cx_runner c1) = Some sample_exchange" "sg_last_atr (rn_signal (cx_runner c1)) = Some (F_Fin 4)"
    "rn_instance_id (cx_runner c1) = ''btc''" "rn_exit_fee_cost_rate (cx_runner c1) = Some (2/1000)"
    "rn_validated_instrument (cx_runner c1) = Some sample_validated"
    "rn_operator_owned_base_balance (cx_runner c1) = 0" "rn_take_profit_atr_multiple (cx_runner c1) = 2"
    "rn_stop_loss_atr_multiple (cx_runner c1) = 3 / 2" by (rule sample_prepare)
  from sample_flat_reconstruct [OF c1(2,7)] obtain c2 where c2:
    "reconstruct_exchange_state ?E c1 = (Inr (), c2)" "cx_runner c2 = cx_runner c1" "cx_trace c2 \<noteq> []" by blast
  have "ensure_position_protection ?E c2 = (Inr (), c2)" using c1(2) c2(2) by (simp add: sample_flat_protection)
  then have "initialize ?E sample_start = (Inr (), c2)"
    using c1(1) c2(1) by (simp add: initialize_def protect_reconstructed_startup_state_def mdo_run)
  with that c1 c2 show ?thesis by simp
qed

lemma sample_flat_shutdown:
  assumes "rn_exchange (cx_runner c) = Some sample_exchange"
  shows "\<exists>c'. shutdown (sample_client ''0'' []) c = (Inr (), c')"
  using assms by (simp add: sample_exchange_def shutdown_def ensure_initialized_def run_simps mwhen_def
      refresh_tracked_orders_def refresh_entry_order_def refresh_take_profit_order_def
      refresh_stop_loss_order_def refresh_stop_loss_exit_order_def exchange_opt_def get_order_def
      exchange_mut_def exchange_def exchange_of_def cancel_shutdown_entry_order_def
      reconcile_shutdown_position_def shutdown_without_position_def shutdown_take_profit_def
      shutdown_stop_loss_def shutdown_stop_loss_exit_def clear_position_state_def Let_def)

section \<open>The sample engine\<close>

definition engine_config :: BotConfig where
  "engine_config = example_config\<lparr> bc_instances := [sample_instance] \<rparr>"

definition sample_account :: OkxAccountConfig where
  "sample_account = ev_account_config sample_evidence"

definition engine_sample :: engine_env where
  "engine_sample =
     \<lparr> ev_client = sample_client ''0'' [], ev_client_from_config = (\<lambda>_. Inr ()),
       ev_preflight_account_config = Inr sample_account,
       ev_validate_trading_instrument = (\<lambda>_ _. Inr (sample_validated, sample_fee)),
       ev_cancel_all_after = (\<lambda>t. Inr [\<lparr> ca_trigger_time = (if caa_timeout_is_disarm t then ''0'' else ''9''),
         ca_tag = OKX_CANCEL_ALL_AFTER_TAG, ca_ts = ''1'' \<rparr>]),
       ev_startup_account_config = (\<lambda>_. Inr sample_account),
       ev_stop_server_time_refresher = Inr (), ev_stop_heartbeat = Inr () \<rparr>"

lemma engine_sample_simps [simp]:
  "ev_client engine_sample = sample_client ''0'' []"
  "ev_client_from_config engine_sample c = Inr ()"
  "ev_preflight_account_config engine_sample = Inr sample_account"
  "ev_validate_trading_instrument engine_sample r a = Inr (sample_validated, sample_fee)"
  "ev_startup_account_config engine_sample i = Inr sample_account"
  "ev_stop_server_time_refresher engine_sample = Inr ()" "ev_stop_heartbeat engine_sample = Inr ()"
  by (simp_all add: engine_sample_def)

lemma engine_config_simps [simp]:
  "bc_okx engine_config = Some example_okx" "bc_instances engine_config = [sample_instance]"
  "rc_poll_interval_ms (bc_runtime engine_config) = 1000"
  "ok_trading_service example_okx = Demo"
  by (simp_all add: engine_config_def example_config_def example_okx_def)

lemma sample_instance_simps [simp]:
  "si_enabled sample_instance" "instance_instrument_id sample_instance = ''BTC-USDT''"
  "si_bar sample_instance = ''1m''" "vi_inst_id sample_validated = ''BTC-USDT''"
  by (simp_all add: sample_instance_def vi_inst_id_def sample_validated_def sample_instrument_def)

lemma engine_enabled:
  "enabled_strategy_instances engine_config = [sample_instance]" "has_enabled_strategies engine_config"
  by (simp_all add: enabled_strategy_instances_def has_enabled_strategies_def)

lemma engine_caa: "\<exists>ack. client_cancel_all_after engine_sample t = Inr ack"
proof -
  have "trim ''0'' = ''0''" "trim ''9'' = ''9''" "trim ''1'' = ''1''"
      "trim OKX_CANCEL_ALL_AFTER_TAG = OKX_CANCEL_ALL_AFTER_TAG"
    unfolding OKX_CANCEL_ALL_AFTER_TAG_def by (rule trim_graphic, simp_all add: byte_def)+
  then show ?thesis
    by (simp add: client_cancel_all_after_def engine_sample_def caa_acknowledgement_def Let_def)
qed

lemma engine_account: "ensure_spot_trading_enabled sample_account = Inr ()"
  by (simp add: ensure_spot_trading_enabled_def sample_account_def sample_evidence_def account_level_parse_def
      has_trade_permission_def sample_trims eq_ignore_ascii_case_def no_borrowing_def spot_fee_type_def)

lemma engine_fees:
  "ensure_commissions_at_most exact_decimal sample_fee i (1 / 1000) (2 / 1000) = Inr ()"
  "round_trip_commission_rate exact_decimal sample_fee = Inr (3 / 1000)"
  by (simp_all add: ensure_commissions_at_most_def round_trip_commission_rate_def sample_fee_def
      commission_rate_def normalized_cost_rate_def parse_decimal_def sample_decimals dec_add_def)

lemma engine_preflight:
  "preflight_strategy_enabled_account engine_sample engine_config = Inr [(''BTC-USDT'', sample_validated)]"
  by (simp add: preflight_strategy_enabled_account_def Let_def engine_account sample_rates [simplified]
      enabled_strategy_trading_instruments_def engine_enabled preflight_instrument_def engine_fees [simplified])

lemma engine_strategies:
  "build_validated_strategies exact_decimal [sample_instance] [(''BTC-USDT'', sample_validated)] [sample_instance] =
    Inr [sample_runner]"
  by (simp add: sample_runner_eq)

lemma engine_policy: "\<exists>policy. websocket_reconnect_policy engine_config = Inr policy"
  by (simp add: websocket_reconnect_policy_def required_okx_config_def reconnect_policy_new_Inr
      example_okx_def default_websocket_config_def)

lemma engine_credentials:
  "\<exists>k. stream_credentials_new (ok_api_key example_okx) (ok_api_secret example_okx) (ok_api_passphrase example_okx) =
    Inr k"
  by (simp add: stream_credentials_new_def validate_websocket_login_credential_def example_okx_def
      example_trims byte_def)

lemma engine_streams:
  obtains ms ps where "build_market_stream_configs engine_config True = Inr ms"
    "try_map (market_with_validated_instrument_type ''SPOT'') ms = Inr ms"
    "build_private_stream_configs engine_config True = Inr ps"
    "try_map (private_with_validated_instrument_type ''SPOT'') ps = Inr ps"
proof -
  obtain policy where policy: "websocket_reconnect_policy engine_config = Inr policy" using engine_policy by blast
  obtain k where k: "stream_credentials_new (ok_api_key example_okx) (ok_api_secret example_okx)
      (ok_api_passphrase example_okx) = Inr k" using engine_credentials by blast
  have ids: "enabled_strategy_instrument_ids engine_config = [''BTC-USDT'']"
      "enabled_strategy_candle_channels engine_config = [''candle1m'']"
    by (simp_all add: enabled_strategy_instrument_ids_def enabled_strategy_candle_channels_def engine_enabled
        List.map_filter_def okx_public_candle_channel_for_bar_def OKX_PUBLIC_CANDLE_1M_CHANNEL_def)
  have urls: "ok_base_url_ws_public example_okx = Some ''wss://wspap.okx.com:8443/ws/v5/public''"
      "ok_base_url_ws_private example_okx = Some ''wss://wspap.okx.com:8443/ws/v5/private''"
      "ok_base_url_ws_business example_okx = Some ''wss://wspap.okx.com:8443/ws/v5/business''"
    by (simp_all add: example_okx_def)
  have nonblank: "\<not> blank ''wss://wspap.okx.com:8443/ws/v5/public''"
      "\<not> blank ''wss://wspap.okx.com:8443/ws/v5/private''" "\<not> blank ''wss://wspap.okx.com:8443/ws/v5/business''"
    by (simp_all add: blank_def example_trims)
  from btc_streams [OF engine_config_simps(1) policy ids urls nonblank] k that show thesis
    by (simp add: market_with_validated_instrument_type_def private_with_validated_instrument_type_def
        OKX_SPOT_INST_TYPE_def btc_public_stream_def btc_candle_stream_def btc_private_stream_def)
qed

lemma engine_builds:
  obtains e where "build_trading_engine engine_sample engine_config = Inr e" "eg_config e = engine_config"
    "eg_world e = empty_runtime" "eg_cancel_all_after_timeout e = Some \<lparr> ct_seconds = 10 \<rparr>"
    "\<not> eg_heartbeat_running e" "\<not> eg_refresher_running e"
proof -
  have "cancel_all_after_timeout 1000 = Inr \<lparr> ct_seconds = 10 \<rparr>" by (simp add: caa_timeout_cases)
  with that show thesis by (simp add: build_trading_engine_def engine_enabled)
qed

section \<open>Its start-up and its shutdown\<close>

lemma engine_order_path:
  assumes "eg_config e = engine_config" "eg_cancel_all_after_timeout e = Some t"
    "\<not> eg_heartbeat_running e" "\<not> eg_refresher_running e"
  shows "\<exists>e'. start_strategy_enabled_order_path engine_sample e = (Inr (), e') \<and>
    eg_world e' = (eg_world e)\<lparr> rt_strategies := [sample_runner] \<rparr> \<and> eg_config e' = engine_config"
proof -
  obtain ms ps where streams: "build_market_stream_configs engine_config True = Inr ms"
    "try_map (market_with_validated_instrument_type ''SPOT'') ms = Inr ms"
    "build_private_stream_configs engine_config True = Inr ps"
    "try_map (private_with_validated_instrument_type ''SPOT'') ps = Inr ps" by (rule engine_streams)
  obtain ack where ack: "client_cancel_all_after engine_sample t = Inr ack" using engine_caa by blast
  show ?thesis using assms
    by (simp add: start_strategy_enabled_order_path_def order_path_steps_def Let_def ebind_def
        engine_preflight engine_enabled engine_strategies [simplified] sample_runner_eq streams
        refresh_cancel_all_after_def ack start_cancel_all_after_heartbeat_def start_server_time_refresher_def)
qed

lemma engine_starts:
  assumes "build_trading_engine engine_sample engine_config = Inr e0"
  obtains e r where "startup engine_sample e0 = (Inr (), e)" "rt_strategies (eg_world e) = [r]"
    "rn_exchange r = Some sample_exchange" "rt_trace (eg_world e) \<noteq> []"
    "eg_cancel_all_after_timeout e = Some \<lparr> ct_seconds = 10 \<rparr>"
proof -
  obtain e1 where e1: "build_trading_engine engine_sample engine_config = Inr e1" "eg_config e1 = engine_config"
    "eg_world e1 = empty_runtime" "eg_cancel_all_after_timeout e1 = Some \<lparr> ct_seconds = 10 \<rparr>"
    "\<not> eg_heartbeat_running e1" "\<not> eg_refresher_running e1" by (rule engine_builds)
  with assms have e0: "e0 = e1" by simp
  from engine_order_path [OF e1(2,4-6)] obtain e2 where e2:
    "start_strategy_enabled_order_path engine_sample e1 = (Inr (), e2)"
    "eg_world e2 = empty_runtime\<lparr> rt_strategies := [sample_runner] \<rparr>" "eg_config e2 = engine_config"
    using e1(3) by auto
  define e3 where "e3 = start_private_streams (start_market_streams e2)"
  have e3: "eg_world e3 = empty_runtime\<lparr> rt_strategies := [sample_runner] \<rparr>" "eg_config e3 = engine_config"
    using e2 by (simp_all add: e3_def start_private_streams_def start_market_streams_def)
  obtain c where c: "initialize (sample_client ''0'' []) sample_start = (Inr (), c)"
    "rn_exchange (cx_runner c) = Some sample_exchange" "cx_trace c \<noteq> []" by (rule sample_flat_initialize)
  define e where "e = e3\<lparr> eg_world := (eg_world e3)\<lparr> rt_strategies := [cx_runner c],
      rt_trace := cx_trace c, rt_sequence := cx_sequence c \<rparr> \<rparr>"
  have "validate_strategy_account_config engine_config sample_account = Inr ()"
    by (simp add: validate_strategy_account_config_def engine_account)
  then have "initialize_strategy engine_sample 0 e3 = (Inr (), e)"
    using c(1) by (simp add: initialize_strategy_def ebind_def e3 with_strategy_def Let_def e_def
        empty_runtime_def sample_start_def)
  then have "initialize_strategies engine_sample [0..<length (rt_strategies (eg_world e3))] e3 = (Inr (), e)"
    by (simp add: e3 ebind_def)
  then have start: "startup engine_sample e0 = (Inr (), e)"
    using e1(4) e2(1) by (simp add: startup_def ebind_def e0 e1(2) required_okx_config_def e3_def)
  have "eg_cancel_all_after_timeout e = Some \<lparr> ct_seconds = 10 \<rparr>"
    using e2(1) order_path_untraded [of engine_config "Some \<lparr> ct_seconds = 10 \<rparr>" e1 engine_sample "Inr ()" e2] e1
    by (simp add: e_def e3_def start_private_streams_def start_market_streams_def untraded_def engine_ok_def
        empty_runtime_def allowed_world_def)
  with that [OF start] c show thesis by (simp add: e_def)
qed

lemma engine_sample_run:
  obtains e0 e where "build_trading_engine engine_sample engine_config = Inr e0"
    "run_engine engine_sample [] e0 = (None, e)" "rt_trace (eg_world e) \<noteq> []"
proof -
  obtain e0 where e0: "build_trading_engine engine_sample engine_config = Inr e0" by (rule engine_builds)
  obtain e where e: "startup engine_sample e0 = (Inr (), e)" "rt_trace (eg_world e) \<noteq> []"
    using engine_starts [OF e0] by metis
  then have "run_engine engine_sample [] e0 = (None, ls_engine (loop_start e))"
    by (simp add: run_engine_def run_loop_def)
  with e0 e(2) that show thesis by (simp add: loop_start_def Let_def)
qed

lemma engine_sample_shutdown:
  obtains e0 e where "build_trading_engine engine_sample engine_config = Inr e0"
    "run_engine engine_sample [CtrlC] e0 = (Some (Inr ()), e)" "length (rt_strategies (eg_world e)) = 1"
proof -
  obtain e0 where e0: "build_trading_engine engine_sample engine_config = Inr e0" by (rule engine_builds)
  obtain e r where e: "startup engine_sample e0 = (Inr (), e)" "rt_strategies (eg_world e) = [r]"
    "rn_exchange r = Some sample_exchange" "eg_cancel_all_after_timeout e = Some \<lparr> ct_seconds = 10 \<rparr>"
    using engine_starts [OF e0] by metis
  define f where "f = ls_engine (loop_start e)"
  have f: "rt_strategies (eg_world f) = [r]" "eg_cancel_all_after_timeout f = Some \<lparr> ct_seconds = 10 \<rparr>"
    using e by (simp_all add: f_def loop_start_def Let_def)
  obtain ack where ack: "client_cancel_all_after engine_sample caa_timeout_disarm = Inr ack" using engine_caa by blast
  let ?c = "\<lparr> cx_runner = r, cx_trace = rt_trace (eg_world f), cx_sequence = rt_sequence (eg_world f) \<rparr>"
  obtain c where c: "shutdown (sample_client ''0'' []) ?c = (Inr (), c)" using sample_flat_shutdown [of ?c] e(3) by auto
  have "\<exists>g. shutdown_for_operator engine_sample f = (Inr (), g) \<and> length (rt_strategies (eg_world g)) = 1"
    using c f
    by (simp add: shutdown_for_operator_def ebind_def with_strategy_def Let_def keep_first_error_def
        stop_server_time_refresher_def stop_cancel_all_after_heartbeat_def refresher_gone_def heartbeat_gone_def
        disarm_cancel_all_after_def clear_armed_def ack)
  then obtain g where g: "shutdown_for_operator engine_sample f = (Inr (), g)"
    "length (rt_strategies (eg_world g)) = 1" by blast
  have "run_engine engine_sample [CtrlC] e0 = (Some (Inr ()), g)"
    using e(1) g(1) by (simp add: run_engine_def run_loop_def branch_enabled_def loop_turn_def engine_decision_def
        f_def apfst_def map_prod_def)
  with that [OF e0] g(2) show thesis by blast
qed

section \<open>A reconciliation\<close>

definition reconcile_engine :: TradingEngine where
  "reconcile_engine =
     \<lparr> eg_config = engine_config,
       eg_world = \<lparr> rt_strategies = [sample_runner], rt_trace = [], rt_sequence = 1, rt_tick_failures = [0] \<rparr>,
       eg_cancel_all_after_timeout = Some \<lparr> ct_seconds = 10 \<rparr>, eg_cancel_all_after_armed = True,
       eg_cancel_all_after_arm_attempted = True, eg_heartbeat_running = True, eg_heartbeat_failures = False,
       eg_refresher_running = True, eg_refresh_failures = False, eg_market_stream_configs = [],
       eg_market_streams = [], eg_private_stream_configs = [], eg_private_streams = [],
       eg_health_tracker = health_tracker_new [StreamIdentity Public PublicMarketData 1],
       eg_reconcile_requested = False, eg_pending_confirmed_candles = [], eg_latency_report_ticks = 0 \<rparr>"

definition subscribed_input :: loop_input where
  "subscribed_input =
     HealthInput (Some (health_event_new SubscriptionAckSucceeded (StreamIdentity Public PublicMarketData 1))) []"

text \<open>The acknowledged subscription makes the stream ready and the strategy is reconciled at once.\<close>

lemma reconcile_engine_turn:
  obtains e where "engine_decision engine_sample subscribed_input reconcile_engine = (Inr Continue, e)"
    "rt_trace (eg_world e) \<noteq> []" "\<not> eg_reconcile_requested e"
    "all_mandatory_streams_ready (eg_health_tracker e)"
proof -
  obtain c where c: "initialize (sample_client ''0'' []) sample_start = (Inr (), c)"
    "rn_exchange (cx_runner c) = Some sample_exchange" "cx_trace c \<noteq> []" by (rule sample_flat_initialize)
  have none: "rn_exchange sample_runner = None" using start_policy [OF sample_runner_eq] by simp
  have work: "dispatch_work StreamStateChanged (sample_client ''0'' []) sample_start = (Inr (), c)"
    using c(1) none by (simp add: dispatch_work_def reconcile_after_interrupted_tick_def mbind_def asks_def
        sample_start_def)
  have "execute_strategy_dispatch (sample_client ''0'' []) StreamStateChanged (eg_world reconcile_engine) =
      (Inr None, \<lparr> rt_strategies = [cx_runner c], rt_trace = cx_trace c, rt_sequence = cx_sequence c,
        rt_tick_failures = [0] \<rparr>)"
    using work by (simp add: execute_strategy_dispatch_def reconcile_engine_def dispatch_matches_strategy_def
        tick_strategy_with_timeout_def record_success_def sample_start_def Let_def)
  moreover have "startup_readiness_error (eg_health_tracker reconcile_engine
        \<lparr> ht_ready_streams := {StreamIdentity Public PublicMarketData 1},
          ht_ever_ready_streams := {StreamIdentity Public PublicMarketData 1} \<rparr>) = None"
    by (simp add: reconcile_engine_def startup_readiness_error_def failed_mandatory_streams_def
        health_tracker_new_def)
  ultimately have "\<exists>e. engine_decision engine_sample subscribed_input reconcile_engine = (Inr Continue, e) \<and>
      rt_trace (eg_world e) \<noteq> [] \<and> \<not> eg_reconcile_requested e \<and>
      all_mandatory_streams_ready (eg_health_tracker e)"
    using c(3)
    by (simp add: engine_decision_def subscribed_input_def websocket_health_decision_def
        process_websocket_health_events_def Let_def handle_websocket_health_event_def health_event_new_def
        websocket_task_lifecycle_error_def List.map_filter_def requests_reconciliation_def
        record_health_event_def record_ready_def reconcile_engine_def health_tracker_new_def
        reconciliation_due_def all_mandatory_streams_ready_def websocket_reconciliation_decision_def
        strategy_dispatch_decision_def websocket_strategy_dispatch_ready_def has_failures_def)
  then show thesis using that by blast
qed

end
