(* ===== verification/Runtime_Guarantees.thy ===== *)
theory Runtime_Guarantees
  imports Runtime_Sample
begin

text \<open>
  The guarantees of a whole run of the trading engine, from its construction through start-up and the event
  loop to its exit, with a concrete run that starts a strategy on the sample exchange.
\<close>

section \<open>A whole run\<close>

lemma built_engine:
  assumes "build_trading_engine V c = Inr e"
  shows "untraded c (eg_cancel_all_after_timeout e) e \<and> rt_strategies (eg_world e) = [] \<and>
    (case eg_cancel_all_after_timeout e of
       None \<Rightarrow> \<not> has_enabled_strategies c
     | Some t \<Rightarrow> cancel_all_after_timeout (rc_poll_interval_ms (bc_runtime c)) = Inr t)"
  using assms
  by (auto simp: build_trading_engine_def rbind_eq_Inr untraded_def engine_ok_def empty_runtime_def
      allowed_world_def split: if_splits)

lemma loop_start_facts:
  "control (ls_engine (loop_start e)) = control e"
  "engine_ok c t allowed (ls_engine (loop_start e)) = engine_ok c t allowed e"
  "guarded V (ls_engine (loop_start e)) = guarded V e" "idle (ls_engine (loop_start e)) = idle e"
  by (auto simp: loop_start_def Let_def control_def engine_ok_def allowed_world_def guarded_def idle_def)

text \<open>The state the loop or the start-up ended in, before the exit.\<close>

lemma engine_run:
  assumes "build_trading_engine V c = Inr e0" and "run_engine V is e0 = (out, e)"
  obtains f where "engine_ok c (eg_cancel_all_after_timeout e0) (permitted_by_config c) f"
    "rt_trace (eg_world f) = [] \<and> rt_strategies (eg_world f) = [] \<or>
     rt_trace (eg_world f) = [] \<and> out \<noteq> None \<and> out \<noteq> Some (Inr ()) \<and> eg_world e = eg_world f \<or> guarded V f"
    "loop_exit V f out e"
proof -
  let ?t = "eg_cancel_all_after_timeout e0"
  obtain r e1 where s: "startup V e0 = (r, e1)" by fastforce
  from startup_facts [OF s] built_engine [OF assms(1)]
  have e1: "engine_ok c ?t (permitted_by_config c) e1"
      "case r of Inr _ \<Rightarrow> idle e1 \<or> guarded V e1 | Inl _ \<Rightarrow> rt_trace (eg_world e1) = [] \<or> guarded V e1"
    by blast+
  show thesis
  proof (cases r)
    case (Inl err)
    obtain x g where c: "fail_closed_for_fatal_error FatalRuntimeError (case err of Fail y \<Rightarrow> y) e1 = (x, g)"
      by fastforce
    have exit: "loop_exit V e1 out e" "out \<noteq> None" "out \<noteq> Some (Inr ())" "eg_world e = eg_world e1"
      using assms(2) s Inl c fatal_exit [OF c]
      by (auto simp: run_engine_def loop_exit_def apfst_def map_prod_def split: fault.splits)
    show thesis using e1 Inl exit by (intro that [of e1]) auto
  next
    case (Inr u)
    let ?s = "loop_start e1"
    have run: "run_loop_from V is ?s = (out, e)"
      using assms(2) s Inr by (simp add: run_engine_def run_loop_def)
    have ok: "engine_ok c ?t (permitted_by_config c) (ls_engine ?s)"
      using e1(1) by (simp only: loop_start_facts)
    from run_loop_from_facts [OF run ok] obtain f where f: "engine_ok c ?t (permitted_by_config c) f"
        "control f = control (ls_engine ?s)" "loop_exit V f out e"
        "rt_strategies (eg_world (ls_engine ?s)) = [] \<longrightarrow> eg_world f = eg_world (ls_engine ?s)"
      by blast
    have "idle e1 \<or> guarded V e1" using e1(2) Inr by simp
    then have "idle f \<or> guarded V f"
    proof
      assume "idle e1"
      then have "idle (ls_engine ?s)" by (simp add: loop_start_facts)
      with f(4) show ?thesis by (simp add: idle_def)
    next
      assume "guarded V e1"
      with guarded_control [OF f(2)] show ?thesis by (simp add: loop_start_facts)
    qed
    with f that [of f] show thesis by (auto simp: idle_def)
  qed
qed

lemma exit_world:
  assumes "loop_exit V f out e" and "engine_ok c t (permitted_by_config c) f"
  shows "engine_ok c t (permitted_by_config c) e \<and> (out \<noteq> Some (Inr ()) \<longrightarrow>
      eg_cancel_all_after_armed e = eg_cancel_all_after_armed f) \<and>
    (out = None \<longrightarrow> e = f) \<and> (out = Some (Inr ()) \<longrightarrow> shutdown_for_operator V f = (Inr (), e))"
proof -
  consider "out = None" "e = f" | x where "out = Some (Inl x)" "e = f"
    | r where "shutdown_for_operator V f = (r, e)" "out = Some r"
    | reason err r where "fail_closed_for_fatal_error reason err f = (r, e)" "out = Some r"
    using assms(1) by (auto simp: loop_exit_def)
  then show ?thesis
  proof cases
    case 3
    with operator_shutdown [OF 3(1) assms(2)] show ?thesis by (cases r) auto
  next
    case 4
    from fatal_exit [OF 4(1)] 4(2) assms(2) show ?thesis by (auto simp: engine_ok_def)
  qed (use assms(2) in auto)
qed

lemma no_strategies_shutdown:
  "rt_strategies (eg_world f) = [] \<Longrightarrow> shutdown_for_operator V f = (r, e) \<Longrightarrow> eg_world e = eg_world f"
  by (auto simp: shutdown_for_operator_def keep_first_error_def stop_server_time_refresher_def
      stop_cancel_all_after_heartbeat_def disarm_cancel_all_after_def clear_armed_def ebind_def
      refresher_gone_def heartbeat_gone_def split: sum.splits fault.splits if_splits prod.splits)

lemma untraded_exit:
  assumes "loop_exit V f out e" and "rt_strategies (eg_world f) = []"
  shows "eg_world e = eg_world f"
  using assms fatal_exit no_strategies_shutdown by (auto simp: loop_exit_def)

section \<open>Properties\<close>

text \<open>
  C1: the requests of a whole run.  For any configuration, any behaviour of the exchange and any order of
  events, everything the engine's strategies ever ask of the exchange is permitted to an enabled instance:
  it concerns that instance's instrument, buys are post-only limit orders under an entry identifier of its
  tag, other orders are exits under its identifiers, and only orders of its tag are cancelled.
\<close>
theorem engine_order_policy:
  assumes "build_trading_engine V c = Inr e0" and "run_engine V is e0 = (out, e)"
  shows "list_all (\<lambda>q. \<exists>i\<in>set (enabled_strategy_instances c).
    permitted_request (si_id i) (instance_instrument_id i) q) (rt_trace (eg_world e))"
proof -
  from assms obtain f where f: "engine_ok c (eg_cancel_all_after_timeout e0) (permitted_by_config c) f"
      "loop_exit V f out e" by (rule engine_run)
  from exit_world [OF f(2,1)] show ?thesis
    by (simp add: engine_ok_def allowed_world_def permitted_by_config_def [abs_def])
qed

text \<open>
  C2: trading happens under the dead-man switch only.  Whenever the strategies have asked anything of the
  exchange, the exchange has acknowledged the switch armed with the timeout of the configured poll
  interval, it is still armed unless the engine has returned from a clean shutdown, whatever error or
  fatal exit ended it, and while the engine is running its heartbeat is.
\<close>
theorem armed_while_trading:
  assumes "build_trading_engine V c = Inr e0" and "run_engine V is e0 = (out, e)"
    and "rt_trace (eg_world e) \<noteq> []"
  shows "\<exists>t ack. cancel_all_after_timeout (rc_poll_interval_ms (bc_runtime c)) = Inr t \<and>
    client_cancel_all_after V t = Inr ack \<and>
    (out = Some (Inr ()) \<or> eg_cancel_all_after_armed e) \<and> (out = None \<longrightarrow> eg_heartbeat_running e)"
proof -
  from assms(1,2) obtain f where f: "engine_ok c (eg_cancel_all_after_timeout e0) (permitted_by_config c) f"
      "rt_trace (eg_world f) = [] \<and> rt_strategies (eg_world f) = [] \<or>
       rt_trace (eg_world f) = [] \<and> out \<noteq> None \<and> out \<noteq> Some (Inr ()) \<and> eg_world e = eg_world f \<or> guarded V f"
      "loop_exit V f out e" by (rule engine_run)
  have "guarded V f" using f(2) assms(3) untraded_exit [OF f(3)] by auto
  then obtain t ack where t: "eg_cancel_all_after_armed f" "eg_heartbeat_running f"
      "eg_cancel_all_after_timeout f = Some t" "client_cancel_all_after V t = Inr ack"
    by (auto simp: guarded_def)
  have "eg_cancel_all_after_timeout e0 = Some t" using f(1) t(3) by (simp add: engine_ok_def)
  with built_engine [OF assms(1)]
  have "cancel_all_after_timeout (rc_poll_interval_ms (bc_runtime c)) = Inr t" by simp
  with t exit_world [OF f(3,1)] show ?thesis by auto
qed


theorem engine_order_policy_witness:
  "\<exists>e. run_engine engine_sample [] (projr (build_trading_engine engine_sample engine_config)) = (None, e) \<and>
    rt_trace (eg_world e) \<noteq> [] \<and>
    list_all (\<lambda>q. permitted_request ''btc'' ''BTC-USDT'' q) (rt_trace (eg_world e))"
proof -
  obtain e0 e where run: "build_trading_engine engine_sample engine_config = Inr e0"
    "run_engine engine_sample [] e0 = (None, e)" "rt_trace (eg_world e) \<noteq> []" by (rule engine_sample_run)
  have "si_id sample_instance = ''btc''" by (simp add: sample_instance_def)
  with engine_order_policy [OF run(1,2)] run show ?thesis by (simp add: engine_enabled)
qed

theorem armed_while_trading_witness:
  "\<exists>e. run_engine engine_sample [] (projr (build_trading_engine engine_sample engine_config)) = (None, e) \<and>
    eg_cancel_all_after_armed e \<and> eg_heartbeat_running e"
proof -
  obtain e0 e where run: "build_trading_engine engine_sample engine_config = Inr e0"
    "run_engine engine_sample [] e0 = (None, e)" "rt_trace (eg_world e) \<noteq> []" by (rule engine_sample_run)
  from armed_while_trading [OF this] run show ?thesis by auto
qed


text \<open>
  C11: when strategies may act.  In any turn of the loop the world of the strategies changes only by one
  dispatch, made while every mandatory stream is ready, and while a reconciliation is owed that dispatch is
  the reconciliation itself; no turn touches the switch, its heartbeat or the configuration.
\<close>
theorem dispatch_gated:
  assumes "engine_decision V i e = (r, e')"
  shows "(eg_world e' = eg_world e \<or>
      all_mandatory_streams_ready (eg_health_tracker e') \<and>
      (\<exists>d. eg_world e' = snd (execute_strategy_dispatch (ev_client V) d (eg_world e)) \<and>
        (eg_reconcile_requested e \<longrightarrow> d = StreamStateChanged))) \<and>
    eg_cancel_all_after_armed e' = eg_cancel_all_after_armed e \<and>
    eg_heartbeat_running e' = eg_heartbeat_running e \<and> eg_config e' = eg_config e"
  using engine_decision_facts [OF assms] by (auto simp: dispatched_def control_def)

theorem dispatch_gated_witness:
  "\<exists>e. engine_decision engine_sample subscribed_input reconcile_engine = (Inr Continue, e) \<and>
    eg_world e \<noteq> eg_world reconcile_engine \<and> all_mandatory_streams_ready (eg_health_tracker e)"
proof -
  obtain e where e: "engine_decision engine_sample subscribed_input reconcile_engine = (Inr Continue, e)"
    "rt_trace (eg_world e) \<noteq> []" by (rule reconcile_engine_turn)
  then have "eg_world e \<noteq> eg_world reconcile_engine" by (auto simp: reconcile_engine_def)
  with dispatch_gated [OF e(1)] e(1) show ?thesis by blast
qed

text \<open>
  C12: a reconciliation stays owed until it has been done cleanly.  If one was owed before a turn, or the
  turn heard that a stream was subscribed, disconnected or failed after subscription, and the loop goes on,
  then either one is still owed, or the turn reconciled every strategy without an error and no strategy
  has a failure left to its count.
\<close>
theorem reconciliation_owed:
  assumes "engine_decision V i e = (Inr Continue, e')" and "eg_reconcile_requested e \<or> health_owed i"
    and "\<not> eg_reconcile_requested e'"
  shows "execute_strategy_dispatch (ev_client V) StreamStateChanged (eg_world e) = (Inr None, eg_world e') \<and>
    list_all (\<lambda>n. n = 0) (rt_tick_failures (eg_world e'))"
proof -
  from engine_decision_facts [OF assms(1)] assms(2,3) have "reconciled V e e'" by auto
  then show ?thesis
    by (cases "execute_strategy_dispatch (ev_client V) StreamStateChanged (eg_world e)")
      (auto simp: reconciled_def has_failures_def list_all_iff list_ex_iff)
qed

theorem reconciliation_owed_witness:
  "\<exists>e. engine_decision engine_sample subscribed_input reconcile_engine = (Inr Continue, e) \<and>
    execute_strategy_dispatch (sample_client ''0'' []) StreamStateChanged (eg_world reconcile_engine) =
      (Inr None, eg_world e) \<and> rt_trace (eg_world e) \<noteq> []"
proof -
  obtain e where e: "engine_decision engine_sample subscribed_input reconcile_engine = (Inr Continue, e)"
    "rt_trace (eg_world e) \<noteq> []" "\<not> eg_reconcile_requested e" by (rule reconcile_engine_turn)
  have "health_owed subscribed_input"
    by (simp add: health_owed_def subscribed_input_def health_event_new_def requests_reconciliation_def)
  with reconciliation_owed [OF e(1) _ e(3)] e(1,2) show ?thesis by auto
qed

text \<open>
  Deferred candles.  Deferring any confirmed candles never reaches the \<open>unreachable!\<close>; afterwards the
  latest one waits for each instrument that a strategy trades and a candle came for, and nothing else; and
  when dispatch is possible again the candle of the least such instrument is taken, and only that one.
\<close>
theorem deferred_candles:
  assumes "eg_pending_confirmed_candles e = []"
  shows "\<exists>e'. defer_candles cs e = (Inr (), e') \<and>
    (\<forall>i. bt_get (eg_pending_confirmed_candles e') i =
      (let ts = map snd (filter (\<lambda>c. fst c = i) cs) in
       if traded e i \<and> ts \<noteq> [] then Some (PublicConfirmedCandle i (Max (set ts))) else None)) \<and>
    (websocket_strategy_dispatch_ready e' \<longrightarrow> eg_pending_confirmed_candles e' \<noteq> [] \<longrightarrow>
      (\<exists>i ts e2. take_ready_confirmed_candle e' = (Some (PublicConfirmedCandle i ts), e2) \<and>
        (\<forall>j\<in>dom (bt_get (eg_pending_confirmed_candles e')). i \<le> j) \<and>
        bt_get (eg_pending_confirmed_candles e2) = (bt_get (eg_pending_confirmed_candles e'))(i := None)))"
proof -
  have "pending_ok e [] e" using assms by (simp add: pending_ok_def waiting_def fun_eq_iff)
  from defer_candles_waiting [OF this, of cs] obtain e' where e':
    "defer_candles cs e = (Inr (), e')" "pending_ok e cs e'" by auto
  moreover from e'(2) have "bt_get (eg_pending_confirmed_candles e') = waiting e cs"
    by (simp add: pending_ok_def)
  ultimately show ?thesis using take_ready_least [OF e'(2)] by (auto simp: waiting_def)
qed

theorem deferred_candles_witness:
  "\<exists>e. defer_candles [(''BTC-USDT'', 7), (''BTC-USDT'', 9), (''ETH-USDT'', 1), (''BTC-USDT'', 8)] reconcile_engine =
      (Inr (), e) \<and>
    bt_get (eg_pending_confirmed_candles e) ''BTC-USDT'' = Some (PublicConfirmedCandle ''BTC-USDT'' 9) \<and>
    bt_get (eg_pending_confirmed_candles e) ''ETH-USDT'' = None"
proof -
  have none: "eg_pending_confirmed_candles reconcile_engine = []" by (simp add: reconcile_engine_def)
  have t: "traded reconcile_engine ''BTC-USDT''" "\<not> traded reconcile_engine ''ETH-USDT''"
    by (simp_all add: traded_def reconcile_engine_def)
  from deferred_candles [OF none, of "[(''BTC-USDT'', 7), (''BTC-USDT'', 9), (''ETH-USDT'', 1), (''BTC-USDT'', 8)]"]
  obtain e where "defer_candles [(''BTC-USDT'', 7), (''BTC-USDT'', 9), (''ETH-USDT'', 1), (''BTC-USDT'', 8)] reconcile_engine =
      (Inr (), e)"
    "\<And>i. bt_get (eg_pending_confirmed_candles e) i =
      (let ts = map snd (filter (\<lambda>c. fst c = i) [(''BTC-USDT'', 7), (''BTC-USDT'', 9), (''ETH-USDT'', 1), (''BTC-USDT'', 8)]) in
       if traded reconcile_engine i \<and> ts \<noteq> [] then Some (PublicConfirmedCandle i (Max (set ts))) else None)"
    by blast
  with t show ?thesis by simp
qed

end
