(* ===== verification/Private_Cache.thy ===== *)
theory Private_Cache
  imports Hint_Cache Event_Delivery Stream_Config
begin

text \<open>
  The cache of the private streams (\<open>OkxPrivateEventCache\<close> of \<open>okx/websocket/private.rs\<close>): the latest
  orders, fills, algo orders and balances the exchange pushed, each validated before it is kept, each map
  bounded, together with the reporter that tells the runtime what changed.

  The mutex is not modelled: nothing panics while it is held, so that it is never poisoned.
\<close>

definition OKX_PRIVATE_EVENT_CACHE_MAX_HINTS_PER_KIND :: nat where
  "OKX_PRIVATE_EVENT_CACHE_MAX_HINTS_PER_KIND = 1024"

record OkxPrivateOrderHint =
  oh_order :: OkxOrder
  oh_source_ts_ms :: "int option"
  oh_received_at :: nat

record OkxPrivateFillHint =
  fh_fill :: OkxFill
  fh_source_ts_ms :: "int option"
  fh_received_at :: nat

record OkxPrivateAlgoOrderHint =
  gh_algo_order :: OkxAlgoOrder
  gh_source_ts_ms :: "int option"
  gh_received_at :: nat

record OkxPrivateAccountHint =
  ah_balance :: OkxBalance
  ah_source_ts_ms :: "int option"
  ah_received_at :: nat

record OkxPrivateEventState =
  pe_orders_by_client_id :: "((string \<times> string) \<times> OkxPrivateOrderHint) list"
  pe_fills_by_dedupe_key :: "(string \<times> OkxPrivateFillHint) list"
  pe_algo_orders_by_id :: "((string \<times> string) \<times> OkxPrivateAlgoOrderHint) list"
  pe_account :: "OkxPrivateAccountHint option"
  pe_runtime_event_reporter :: "OkxRuntimeEventReporter option"

definition private_event_state_default :: OkxPrivateEventState where
  "private_event_state_default =
     \<lparr> pe_orders_by_client_id = [], pe_fills_by_dedupe_key = [], pe_algo_orders_by_id = [], pe_account = None,
       pe_runtime_event_reporter = None \<rparr>"

definition configure_runtime_observer ::
    "OkxRuntimeEventReporter \<Rightarrow> OkxPrivateEventState \<Rightarrow> OkxPrivateEventState" where
  "configure_runtime_observer r s = s\<lparr> pe_runtime_event_reporter := Some r \<rparr>"

definition order_hint_ops :: "OkxPrivateOrderHint hint_ops" where
  "order_hint_ops = \<lparr> ho_source_ts_ms = oh_source_ts_ms, ho_received_at = oh_received_at \<rparr>"

definition fill_hint_ops :: "OkxPrivateFillHint hint_ops" where
  "fill_hint_ops = \<lparr> ho_source_ts_ms = fh_source_ts_ms, ho_received_at = fh_received_at \<rparr>"

definition algo_hint_ops :: "OkxPrivateAlgoOrderHint hint_ops" where
  "algo_hint_ops = \<lparr> ho_source_ts_ms = gh_source_ts_ms, ho_received_at = gh_received_at \<rparr>"

text \<open>The iteration orders of the three hash maps.\<close>

record private_pickers =
  pk_orders :: "(string \<times> string) picker"
  pk_fills :: "string picker"
  pk_algo_orders :: "(string \<times> string) picker"

section \<open>Validation\<close>

definition ensure_spot_inst_type :: "string \<Rightarrow> string \<Rightarrow> unit res" where
  "ensure_spot_inst_type inst_type context =
     require (blank inst_type \<or> inst_type = OKX_SPOT_INST_TYPE) (''OKX private WebSocket '' @ context)
       ''has non-SPOT instType''"

text \<open>The first two parts of the split and the absence of a third one.\<close>

definition ensure_spot_instrument_id :: "string \<Rightarrow> string \<Rightarrow> unit res" where
  "ensure_spot_instrument_id inst_id context =
     (let parts = split_on (CHR ''-'') inst_id;
          base = (case parts of b # _ \<Rightarrow> b | [] \<Rightarrow> []);
          quote = (case parts of _ # q # _ \<Rightarrow> q | _ \<Rightarrow> []) in
      rbind (require (length parts \<le> 2 \<and> base \<noteq> [] \<and> quote \<noteq> []) (''OKX private WebSocket '' @ context)
               ''must use SPOT BASE-QUOTE instrument format'') (\<lambda>_.
      require (is_okx_asset_code base \<and> is_okx_asset_code quote) (''OKX private WebSocket '' @ context)
        ''must use uppercase SPOT asset codes''))"

definition ensure_positive_decimal :: "decimal_ops \<Rightarrow> string \<Rightarrow> string \<Rightarrow> unit res" where
  "ensure_positive_decimal D context v =
     rbind (ok_or (Fail (Bad context ''must be a decimal'')) (d_parse D v)) (\<lambda>parsed.
     require (parsed > 0) context ''must be positive'')"

definition ensure_optional_positive_decimal :: "decimal_ops \<Rightarrow> string \<Rightarrow> string \<Rightarrow> unit res" where
  "ensure_optional_positive_decimal D context v =
     (if \<not> blank v then ensure_positive_decimal D context v else Inr ())"

definition order_hint_check :: "decimal_ops \<Rightarrow> OkxOrder \<Rightarrow> unit res" where
  "order_hint_check D r =
     rbind (ensure_spot_inst_type (or_inst_type r) ''order'') (\<lambda>_.
     rbind (ensure_spot_instrument_id (or_inst_id r) ''order'') (\<lambda>_.
     rbind (require (\<not> blank (or_inst_id r)) ''OKX private WebSocket order'' ''omitted instId'') (\<lambda>_.
     rbind (require (\<not> blank (or_client_order_id r)) ''OKX private WebSocket order'' ''omitted clOrdId'') (\<lambda>_.
     rbind (order_ensure_documented_state r ''private WebSocket order'') (\<lambda>_.
     rbind (order_fill_size D r) (\<lambda>_.
     rbind (average_fill_price D r) (\<lambda>_.
     rbind (order_requested_size D r) (\<lambda>_. Inr ()))))))))"

definition fill_hint_check :: "decimal_ops \<Rightarrow> OkxFill \<Rightarrow> unit res" where
  "fill_hint_check D r =
     rbind (ensure_spot_inst_type (fi_inst_type r) ''fill'') (\<lambda>_.
     rbind (ensure_spot_instrument_id (fi_inst_id r) ''fill'') (\<lambda>_.
     rbind (require (\<not> blank (fi_inst_id r)) ''OKX private WebSocket fill'' ''omitted instId'') (\<lambda>_.
     rbind (fill_fill_size D r) (\<lambda>_.
     rbind (fill_fill_price D r) (\<lambda>_.
     require (\<not> blank (dedupe_key r)) ''OKX private WebSocket fill'' ''omitted dedupe fields'')))))"

definition algo_hint_check :: "decimal_ops \<Rightarrow> OkxAlgoOrder \<Rightarrow> unit res" where
  "algo_hint_check D r =
     rbind (ensure_spot_inst_type (ao_inst_type r) ''algo order'') (\<lambda>_.
     rbind (ensure_spot_instrument_id (ao_inst_id r) ''algo order'') (\<lambda>_.
     rbind (require (\<not> blank (ao_inst_id r)) ''OKX private WebSocket algo order'' ''omitted instId'') (\<lambda>_.
     rbind (require (\<not> blank (ao_algo_id r)) ''OKX private WebSocket algo order'' ''omitted algoId'') (\<lambda>_.
     rbind (algo_ensure_documented_state r ''private WebSocket algo order'') (\<lambda>_.
     rbind (ensure_optional_positive_decimal D ''OKX private WebSocket algo order triggerPx''
              (ao_trigger_price r)) (\<lambda>_.
     rbind (ensure_optional_positive_decimal D ''OKX private WebSocket algo order sz'' (ao_sz r)) (\<lambda>_.
     if \<not> blank (ao_order_price r) \<and> ao_order_price r \<noteq> ''-1''
     then ensure_positive_decimal D ''OKX private WebSocket algo order ordPx'' (ao_order_price r)
     else Inr ())))))))"

fun account_details_check :: "decimal_ops \<Rightarrow> OkxBalanceDetail list \<Rightarrow> unit res" where
  "account_details_check D [] = Inr ()"
| "account_details_check D (d # ds) =
     rbind (require (\<not> blank (bd_ccy d)) ''OKX private WebSocket account update'' ''omitted ccy'') (\<lambda>_.
     rbind (balance_available D d) (\<lambda>_.
     rbind (balance_total D d) (\<lambda>_.
     rbind (balance_frozen D d) (\<lambda>_. account_details_check D ds))))"

section \<open>Updates\<close>

text \<open>The result says whether the hint was taken.\<close>

definition update_order ::
    "decimal_ops \<Rightarrow> private_pickers \<Rightarrow> OkxPrivateOrderHint \<Rightarrow> OkxPrivateEventState \<Rightarrow>
      bool res \<times> OkxPrivateEventState" where
  "update_order D pick h s =
     (case order_hint_check D (oh_order h) of
        Inl e \<Rightarrow> (Inl e, s)
      | Inr _ \<Rightarrow>
          let key = (or_inst_id (oh_order h), or_client_order_id (oh_order h)) in
          (case insert_hint (pk_orders pick) order_hint_ops OKX_PRIVATE_EVENT_CACHE_MAX_HINTS_PER_KIND {} key h
                  (pe_orders_by_client_id s) of
             (taken, hs) \<Rightarrow> (Inr taken, s\<lparr> pe_orders_by_client_id := hs \<rparr>)))"

definition update_fill ::
    "decimal_ops \<Rightarrow> private_pickers \<Rightarrow> OkxPrivateFillHint \<Rightarrow> OkxPrivateEventState \<Rightarrow>
      bool res \<times> OkxPrivateEventState" where
  "update_fill D pick h s =
     (case fill_hint_check D (fh_fill h) of
        Inl e \<Rightarrow> (Inl e, s)
      | Inr _ \<Rightarrow>
          (case insert_hint (pk_fills pick) fill_hint_ops OKX_PRIVATE_EVENT_CACHE_MAX_HINTS_PER_KIND {}
                  (dedupe_key (fh_fill h)) h (pe_fills_by_dedupe_key s) of
             (taken, hs) \<Rightarrow> (Inr taken, s\<lparr> pe_fills_by_dedupe_key := hs \<rparr>)))"

definition update_algo_order ::
    "decimal_ops \<Rightarrow> private_pickers \<Rightarrow> OkxPrivateAlgoOrderHint \<Rightarrow> OkxPrivateEventState \<Rightarrow>
      bool res \<times> OkxPrivateEventState" where
  "update_algo_order D pick h s =
     (case algo_hint_check D (gh_algo_order h) of
        Inl e \<Rightarrow> (Inl e, s)
      | Inr _ \<Rightarrow>
          let key = (ao_inst_id (gh_algo_order h), ao_algo_id (gh_algo_order h)) in
          (case insert_hint (pk_algo_orders pick) algo_hint_ops OKX_PRIVATE_EVENT_CACHE_MAX_HINTS_PER_KIND {} key h
                  (pe_algo_orders_by_id s) of
             (taken, hs) \<Rightarrow> (Inr taken, s\<lparr> pe_algo_orders_by_id := hs \<rparr>)))"

definition update_account ::
    "decimal_ops \<Rightarrow> OkxPrivateAccountHint \<Rightarrow> OkxPrivateEventState \<Rightarrow> bool res \<times> OkxPrivateEventState" where
  "update_account D h s =
     (if ba_details (ah_balance h) = [] then (Inr False, s)
      else
        (case account_details_check D (ba_details (ah_balance h)) of
           Inl e \<Rightarrow> (Inl e, s)
         | Inr _ \<Rightarrow>
             if should_ignore_hint (Option.bind (pe_account s) ah_source_ts_ms) (ah_source_ts_ms h)
             then (Inr False, s)
             else (Inr True, s\<lparr> pe_account := Some h \<rparr>)))"

section \<open>Fresh hints\<close>

definition fresh_order ::
    "nat \<Rightarrow> string \<Rightarrow> string \<Rightarrow> nat \<Rightarrow> OkxPrivateEventState \<Rightarrow> OkxPrivateOrderHint option" where
  "fresh_order now inst_id cl_ord_id max_staleness s =
     fresh_hint order_hint_ops now max_staleness (pe_orders_by_client_id s) (inst_id, cl_ord_id)"

definition fresh_fills :: "nat \<Rightarrow> string \<Rightarrow> nat \<Rightarrow> OkxPrivateEventState \<Rightarrow> OkxPrivateFillHint list" where
  "fresh_fills now inst_id max_staleness s =
     filter (\<lambda>h. fi_inst_id (fh_fill h) = inst_id \<and> fresh now max_staleness (fh_received_at h))
       (map snd (pe_fills_by_dedupe_key s))"

definition fresh_algo_orders ::
    "nat \<Rightarrow> string \<Rightarrow> nat \<Rightarrow> OkxPrivateEventState \<Rightarrow> OkxPrivateAlgoOrderHint list" where
  "fresh_algo_orders now inst_id max_staleness s =
     filter (\<lambda>h. ao_inst_id (gh_algo_order h) = inst_id \<and> fresh now max_staleness (gh_received_at h))
       (map snd (pe_algo_orders_by_id s))"

definition fresh_account :: "nat \<Rightarrow> nat \<Rightarrow> OkxPrivateEventState \<Rightarrow> OkxPrivateAccountHint option" where
  "fresh_account now max_staleness s =
     (case pe_account s of None \<Rightarrow> None
      | Some h \<Rightarrow> if fresh now max_staleness (ah_received_at h) then Some h else None)"

section \<open>The contract\<close>

interpretation order_hints: hint_store pe_orders_by_client_id "update_order D pick"
    "\<lambda>h. (or_inst_id (oh_order h), or_client_order_id (oh_order h))"
    "\<lambda>h. order_hint_check D (oh_order h) = Inr ()" order_hint_ops
    OKX_PRIVATE_EVENT_CACHE_MAX_HINTS_PER_KIND "pk_orders pick" "\<lambda>_. {}" for D pick
  by unfold_locales (auto simp: update_order_def Let_def split: sum.split prod.split)

interpretation fill_hints: hint_store pe_fills_by_dedupe_key "update_fill D pick" "\<lambda>h. dedupe_key (fh_fill h)"
    "\<lambda>h. fill_hint_check D (fh_fill h) = Inr ()" fill_hint_ops
    OKX_PRIVATE_EVENT_CACHE_MAX_HINTS_PER_KIND "pk_fills pick" "\<lambda>_. {}" for D pick
  by unfold_locales (auto simp: update_fill_def split: sum.split prod.split)

interpretation algo_hints: hint_store pe_algo_orders_by_id "update_algo_order D pick"
    "\<lambda>h. (ao_inst_id (gh_algo_order h), ao_algo_id (gh_algo_order h))"
    "\<lambda>h. algo_hint_check D (gh_algo_order h) = Inr ()" algo_hint_ops
    OKX_PRIVATE_EVENT_CACHE_MAX_HINTS_PER_KIND "pk_algo_orders pick" "\<lambda>_. {}" for D pick
  by unfold_locales (auto simp: update_algo_order_def Let_def split: sum.split prod.split)

text \<open>The invariant of the private cache.\<close>

definition private_cache_ok :: "decimal_ops \<Rightarrow> OkxPrivateEventState \<Rightarrow> bool" where
  "private_cache_ok D s \<longleftrightarrow>
     hints_ok OKX_PRIVATE_EVENT_CACHE_MAX_HINTS_PER_KIND
       (keyed_entry (\<lambda>h. order_hint_check D (oh_order h) = Inr ())
         (\<lambda>h. (or_inst_id (oh_order h), or_client_order_id (oh_order h))) order_hint_ops)
       (pe_orders_by_client_id s) \<and>
     hints_ok OKX_PRIVATE_EVENT_CACHE_MAX_HINTS_PER_KIND
       (keyed_entry (\<lambda>h. fill_hint_check D (fh_fill h) = Inr ()) (\<lambda>h. dedupe_key (fh_fill h)) fill_hint_ops)
       (pe_fills_by_dedupe_key s) \<and>
     hints_ok OKX_PRIVATE_EVENT_CACHE_MAX_HINTS_PER_KIND
       (keyed_entry (\<lambda>h. algo_hint_check D (gh_algo_order h) = Inr ())
         (\<lambda>h. (ao_inst_id (gh_algo_order h), ao_algo_id (gh_algo_order h))) algo_hint_ops)
       (pe_algo_orders_by_id s) \<and>
     (\<forall>h. pe_account s = Some h \<longrightarrow>
        ba_details (ah_balance h) \<noteq> [] \<and> account_details_check D (ba_details (ah_balance h)) = Inr () \<and>
        ah_source_ts_ms h \<noteq> None)"

lemma private_cache_default_ok: "private_cache_ok D private_event_state_default"
  by (simp add: private_cache_ok_def private_event_state_default_def)

lemma update_frames:
  "pe_fills_by_dedupe_key (snd (update_order D pick o1 s)) = pe_fills_by_dedupe_key s"
  "pe_algo_orders_by_id (snd (update_order D pick o1 s)) = pe_algo_orders_by_id s"
  "pe_account (snd (update_order D pick o1 s)) = pe_account s"
  "pe_orders_by_client_id (snd (update_fill D pick f s)) = pe_orders_by_client_id s"
  "pe_algo_orders_by_id (snd (update_fill D pick f s)) = pe_algo_orders_by_id s"
  "pe_account (snd (update_fill D pick f s)) = pe_account s"
  "pe_orders_by_client_id (snd (update_algo_order D pick a s)) = pe_orders_by_client_id s"
  "pe_fills_by_dedupe_key (snd (update_algo_order D pick a s)) = pe_fills_by_dedupe_key s"
  "pe_account (snd (update_algo_order D pick a s)) = pe_account s"
  by (auto simp: update_order_def update_fill_def update_algo_order_def Let_def split: sum.split prod.split)

lemma private_updates_ok:
  assumes "private_cache_ok D s"
  shows "private_cache_ok D (snd (update_order D pick o1 s))" "private_cache_ok D (snd (update_fill D pick f s))"
    "private_cache_ok D (snd (update_algo_order D pick a s))" "private_cache_ok D (snd (update_account D h s))"
  using assms order_hints.update_ok [of D s pick o1] fill_hints.update_ok [of D s pick f]
    algo_hints.update_ok [of D s pick a]
  by (auto simp: private_cache_ok_def update_frames)
    (auto simp: update_account_def should_ignore_hint_def split: sum.splits if_splits option.splits)

end
