(* ===== verification/Private_Stream.thy ===== *)
theory Private_Stream
  imports Private_Cache Socket_Session
begin

text \<open>
  The private streams (\<open>okx/websocket/private.rs\<close>): what a session subscribes to, the messages it accepts
  and applies to the cache, the login and the acknowledgements it waits for, a run and the reconnecting.

  \<open>serde_json\<close> is a parameter (\<open>private_json\<close>); the raw \<open>data\<close> of a message is a text.  A connection is
  what the environment does to one run: whether the connection and each send succeed, the login timestamp
  the server time clock gives and what happens on the socket.  The times the socket is waited on
  (\<open>OkxPrivateStreamTiming\<close>) are the environment's, as \<open>Silence\<close> and \<open>Deadline\<close>.
\<close>

definition OKX_PRIVATE_ORDERS_CHANNEL :: string where "OKX_PRIVATE_ORDERS_CHANNEL = ''orders''"
definition OKX_PRIVATE_FILLS_CHANNEL :: string where "OKX_PRIVATE_FILLS_CHANNEL = ''fills''"
definition OKX_PRIVATE_ACCOUNT_CHANNEL :: string where "OKX_PRIVATE_ACCOUNT_CHANNEL = ''account''"
definition OKX_BUSINESS_ALGO_ORDERS_CHANNEL :: string where "OKX_BUSINESS_ALGO_ORDERS_CHANNEL = ''orders-algo''"

definition algo_selector_as_okx :: "OkxAlgoSubscriptionSelector \<Rightarrow> string" where
  "algo_selector_as_okx s = (case s of AlgoSpot \<Rightarrow> OKX_SPOT_INST_TYPE | AlgoAny \<Rightarrow> ''ANY'')"

definition private_kind_label :: "OkxPrivateStreamKind \<Rightarrow> string" where
  "private_kind_label k = (case k of TradingStream \<Rightarrow> ''private'' | BusinessStream \<Rightarrow> ''business'')"

section \<open>Subscriptions\<close>

definition subscription_ack :: "string \<Rightarrow> string option \<Rightarrow> string option \<Rightarrow> OkxWebsocketSubscriptionAck" where
  "subscription_ack channel inst_id inst_type =
     \<lparr> sa_channel = channel, sa_inst_id = inst_id, sa_inst_type = inst_type \<rparr>"

definition private_stream_subscription_acks ::
    "OkxPrivateStreamConfig \<Rightarrow> OkxWebsocketSubscriptionAck set" where
  "private_stream_subscription_acks c =
     (case ps_kind c of
        TradingStream \<Rightarrow>
          insert (subscription_ack OKX_PRIVATE_ACCOUNT_CHANNEL None None)
            (\<Union>i\<in>set (ps_instrument_ids c).
               {subscription_ack OKX_PRIVATE_ORDERS_CHANNEL (Some i) (Some (ps_instrument_type c))} \<union>
               (if ps_fills_subscription c = FillsEnabled
                then {subscription_ack OKX_PRIVATE_FILLS_CHANNEL (Some i) None} else {}))
      | BusinessStream \<Rightarrow>
          (\<lambda>i. subscription_ack OKX_BUSINESS_ALGO_ORDERS_CHANNEL (Some i)
                 (Some (algo_selector_as_okx (ps_algo_subscription_selector c)))) `
            set (ps_instrument_ids c))"

record OkxWebsocketSubscribeArg =
  sg_channel :: string
  sg_inst_type :: "string option"
  sg_inst_id :: "string option"

definition subscribe_arg_account :: OkxWebsocketSubscribeArg where
  "subscribe_arg_account =
     \<lparr> sg_channel = OKX_PRIVATE_ACCOUNT_CHANNEL, sg_inst_type = None, sg_inst_id = None \<rparr>"

definition subscribe_arg_typed :: "string \<Rightarrow> string \<Rightarrow> string \<Rightarrow> OkxWebsocketSubscribeArg" where
  "subscribe_arg_typed channel inst_id inst_type =
     \<lparr> sg_channel = channel, sg_inst_type = Some inst_type, sg_inst_id = Some inst_id \<rparr>"

definition subscribe_arg_instrument :: "string \<Rightarrow> string \<Rightarrow> OkxWebsocketSubscribeArg" where
  "subscribe_arg_instrument channel inst_id =
     \<lparr> sg_channel = channel, sg_inst_type = None, sg_inst_id = Some inst_id \<rparr>"

text \<open>The arguments of the subscribe request, in their order.\<close>

definition private_stream_subscription :: "OkxPrivateStreamConfig \<Rightarrow> OkxWebsocketSubscribeArg list res" where
  "private_stream_subscription c =
     rbind (require (ps_instrument_ids c \<noteq> []) ''OKX private WebSocket subscription''
              ''requires at least one instrument'') (\<lambda>_.
     rbind (require (ps_instrument_type c = OKX_SPOT_INST_TYPE) ''current OKX private WebSocket subscription''
              ''admits only validated SPOT'') (\<lambda>_.
     Inr (case ps_kind c of
        TradingStream \<Rightarrow>
          subscribe_arg_account #
          concat (map (\<lambda>i.
              subscribe_arg_typed OKX_PRIVATE_ORDERS_CHANNEL i (ps_instrument_type c) #
              (if ps_fills_subscription c = FillsEnabled
               then [subscribe_arg_instrument OKX_PRIVATE_FILLS_CHANNEL i] else []))
            (ps_instrument_ids c))
      | BusinessStream \<Rightarrow>
          map (\<lambda>i. subscribe_arg_typed OKX_BUSINESS_ALGO_ORDERS_CHANNEL i
                     (algo_selector_as_okx (ps_algo_subscription_selector c))) (ps_instrument_ids c))))"

section \<open>Messages\<close>

record OkxWebsocketPrivateArg =
  pa_channel :: string
  pa_inst_type :: "string option"
  pa_inst_id :: "string option"

record OkxWebsocketPrivateMessage =
  pv_event :: "string option"
  pv_code :: "string option"
  pv_msg :: "string option"
  pv_arg :: "OkxWebsocketPrivateArg option"
  pv_data :: "string option"

record OkxWebsocketAccountData =
  wd_details :: "OkxBalanceDetail list"
  wd_updated_at_ms :: string

record private_json =
  pj_message :: "string \<Rightarrow> OkxWebsocketPrivateMessage option"
  pj_orders :: "string \<Rightarrow> OkxOrder list option"
  pj_fills :: "string \<Rightarrow> OkxFill list option"
  pj_accounts :: "string \<Rightarrow> OkxWebsocketAccountData list option"
  pj_algo_orders :: "string \<Rightarrow> OkxAlgoOrder list option"

definition parse_websocket_data :: "(string \<Rightarrow> 'a list option) \<Rightarrow> string \<Rightarrow> string \<Rightarrow> 'a list res" where
  "parse_websocket_data parse data context = ok_or (Fail (Bad context ''invalid JSON'')) (parse data)"

datatype OkxPrivateEventHint =
    OrderHint OkxPrivateOrderHint
  | FillHint OkxPrivateFillHint
  | AlgoOrderHint OkxPrivateAlgoOrderHint
  | AccountHint OkxPrivateAccountHint

record OkxPrivateEventAuthority =
  ea_instrument_ids :: "string set"
  ea_instrument_type :: string
  ea_algo_subscription_selector :: OkxAlgoSubscriptionSelector
  ea_stream_kind :: OkxPrivateStreamKind

definition event_authority_from :: "OkxPrivateStreamConfig \<Rightarrow> OkxPrivateEventAuthority" where
  "event_authority_from c =
     \<lparr> ea_instrument_ids = set (ps_instrument_ids c), ea_instrument_type = ps_instrument_type c,
       ea_algo_subscription_selector = ps_algo_subscription_selector c, ea_stream_kind = ps_kind c \<rparr>"

definition authority_context :: "OkxPrivateEventAuthority \<Rightarrow> string" where
  "authority_context a = private_kind_label (ea_stream_kind a)"

definition ensure_algo_order_matches ::
    "OkxPrivateEventAuthority \<Rightarrow> OkxWebsocketPrivateArg \<Rightarrow> OkxAlgoOrder \<Rightarrow> unit res" where
  "ensure_algo_order_matches a arg r =
     rbind (require (ea_instrument_type a = OKX_SPOT_INST_TYPE) ''current OKX private algo-order authority''
              ''admits only validated SPOT'') (\<lambda>_.
     rbind (require (pa_inst_type arg = Some (algo_selector_as_okx (ea_algo_subscription_selector a)))
              ''OKX private algo-order push selector'' ''did not match expected'') (\<lambda>_.
     rbind (require (pa_inst_id arg = Some (ao_inst_id r)) ''OKX private algo-order row''
              ''did not match exact arg instrument'') (\<lambda>_.
     rbind (require (ao_inst_id r \<in> ea_instrument_ids a) ''OKX private algo-order push''
              ''returned unconfigured instrument'') (\<lambda>_.
     rbind (require (ao_inst_type r = OKX_SPOT_INST_TYPE) ''OKX private algo-order''
              ''has non-SPOT instType'') (\<lambda>_.
     rbind (require (blank (ao_td_mode r) \<or> ao_td_mode r = ''cash'') ''OKX private algo-order''
              ''has unsupported tdMode'') (\<lambda>_.
     ensure_spot_instrument_id (ao_inst_id r) ''algo order''))))))"

definition private_optional_ts_ms :: "string \<Rightarrow> string \<Rightarrow> int option res" where
  "private_optional_ts_ms context v =
     (if blank v then Inr None
      else
        rbind (ok_or (Fail (Bad context ''is invalid'')) (parse_i64 v)) (\<lambda>t.
        rbind (require (t > 0) context ''must be positive'') (\<lambda>_. Inr (Some t))))"

definition private_order_source_ts_ms :: "OkxOrder \<Rightarrow> int option res" where
  "private_order_source_ts_ms r =
     (if \<not> blank (or_updated_at_ms r) then private_optional_ts_ms ''OKX private order uTime'' (or_updated_at_ms r)
      else private_optional_ts_ms ''OKX private order cTime'' (or_created_at_ms r))"

definition private_algo_order_source_ts_ms :: "OkxAlgoOrder \<Rightarrow> int option res" where
  "private_algo_order_source_ts_ms r =
     (if \<not> blank (ao_updated_at_ms r)
      then private_optional_ts_ms ''OKX private algo order uTime'' (ao_updated_at_ms r)
      else private_optional_ts_ms ''OKX private algo order cTime'' (ao_created_at_ms r))"

definition ensure_arg_matches_instrument :: "OkxWebsocketPrivateArg \<Rightarrow> string \<Rightarrow> unit res" where
  "ensure_arg_matches_instrument arg inst_id =
     rbind (require (pa_inst_id arg = None \<or> pa_inst_id arg = Some inst_id) ''OKX private WebSocket row''
              ''did not match arg instrument'') (\<lambda>_.
     rbind (ensure_spot_instrument_id inst_id ''arg'') (\<lambda>_.
     case pa_inst_type arg of None \<Rightarrow> Inr () | Some t \<Rightarrow> ensure_spot_inst_type t ''arg''))"

text \<open>One row of each channel.\<close>

definition order_row :: "OkxWebsocketPrivateArg \<Rightarrow> nat \<Rightarrow> OkxOrder \<Rightarrow> OkxPrivateEventHint res" where
  "order_row arg received_at r =
     rbind (ensure_arg_matches_instrument arg (or_inst_id r)) (\<lambda>_.
     rbind (private_order_source_ts_ms r) (\<lambda>ts.
     Inr (OrderHint \<lparr> oh_order = r, oh_source_ts_ms = ts, oh_received_at = received_at \<rparr>)))"

definition fill_row :: "OkxWebsocketPrivateArg \<Rightarrow> nat \<Rightarrow> OkxFill \<Rightarrow> OkxPrivateEventHint res" where
  "fill_row arg received_at r =
     rbind (ensure_arg_matches_instrument arg (fi_inst_id r)) (\<lambda>_.
     rbind (private_optional_ts_ms ''OKX private fill ts'' (fi_event_time_ms r)) (\<lambda>ts.
     Inr (FillHint \<lparr> fh_fill = r, fh_source_ts_ms = ts, fh_received_at = received_at \<rparr>)))"

definition account_row :: "nat \<Rightarrow> OkxWebsocketAccountData \<Rightarrow> OkxPrivateEventHint res" where
  "account_row received_at r =
     rbind (private_optional_ts_ms ''OKX private account uTime'' (wd_updated_at_ms r)) (\<lambda>ts.
     Inr (AccountHint \<lparr> ah_balance = \<lparr> ba_details = wd_details r \<rparr>, ah_source_ts_ms = ts,
                        ah_received_at = received_at \<rparr>))"

definition algo_row ::
    "OkxPrivateEventAuthority \<Rightarrow> OkxWebsocketPrivateArg \<Rightarrow> nat \<Rightarrow> OkxAlgoOrder \<Rightarrow> OkxPrivateEventHint res" where
  "algo_row a arg received_at r =
     rbind (ensure_algo_order_matches a arg r) (\<lambda>_.
     rbind (private_algo_order_source_ts_ms r) (\<lambda>ts.
     Inr (AlgoOrderHint \<lparr> gh_algo_order = r, gh_source_ts_ms = ts, gh_received_at = received_at \<rparr>)))"

definition is_optional_fills_error :: "string \<Rightarrow> string option \<Rightarrow> bool" where
  "is_optional_fills_error code channel = (code = ''64003'' \<and> channel = Some OKX_PRIVATE_FILLS_CHANNEL)"

text \<open>The \<open>match\<close> on the channel.\<close>

definition private_channel_hints ::
    "private_json \<Rightarrow> OkxPrivateEventAuthority \<Rightarrow> OkxWebsocketPrivateArg \<Rightarrow> string \<Rightarrow> nat \<Rightarrow>
      OkxPrivateEventHint list res" where
  "private_channel_hints J a arg rows received_at =
     (if pa_channel arg = OKX_PRIVATE_ORDERS_CHANNEL then
        rbind (parse_websocket_data (pj_orders J) rows ''OKX private order update'')
          (try_map (order_row arg received_at))
      else if pa_channel arg = OKX_PRIVATE_FILLS_CHANNEL then
        rbind (parse_websocket_data (pj_fills J) rows ''OKX private fill update'')
          (try_map (fill_row arg received_at))
      else if pa_channel arg = OKX_PRIVATE_ACCOUNT_CHANNEL then
        rbind (parse_websocket_data (pj_accounts J) rows ''OKX private account update'')
          (try_map (account_row received_at))
      else if pa_channel arg = OKX_BUSINESS_ALGO_ORDERS_CHANNEL then
        rbind (parse_websocket_data (pj_algo_orders J) rows ''OKX private algo order update'')
          (try_map (algo_row a arg received_at))
      else Inl (Fail (Bad ''OKX private WebSocket channel'' ''is not supported'')))"

definition parse_private_event_message_with_authority ::
    "private_json \<Rightarrow> OkxPrivateEventAuthority \<Rightarrow> string \<Rightarrow> nat \<Rightarrow> OkxPrivateEventHint list res" where
  "parse_private_event_message_with_authority J a payload received_at =
     rbind (ok_or (Fail (Bad ''OKX private WebSocket message'' ''invalid JSON'')) (pj_message J payload)) (\<lambda>m.
     rbind (map_err of_protocol (reject_websocket_notice (pv_event m) (pv_code m) (authority_context a))) (\<lambda>_.
     if pv_event m = Some ''error'' then
       (if is_optional_fills_error (unwrap_or_default (pv_code m)) (map_option pa_channel (pv_arg m))
        then Inr []
        else Inl (Fail (Bad (''OKX private WebSocket error '' @ unwrap_or_default (pv_code m))
                          (unwrap_or_default (pv_msg m)))))
     else if pv_event m \<noteq> None then Inr []
     else
       (case pv_data m of
          None \<Rightarrow> Inr []
        | Some rows \<Rightarrow>
            rbind (ok_or (Fail (Bad ''OKX private WebSocket data'' ''omitted arg'')) (pv_arg m)) (\<lambda>arg.
            private_channel_hints J a arg rows received_at))))"

section \<open>Applying a message\<close>

definition hint_event :: "OkxPrivateEventHint \<Rightarrow> OkxPrivateRuntimeEventKind" where
  "hint_event h =
     (case h of
        OrderHint x \<Rightarrow> PrivateOrder (or_inst_id (oh_order x)) (or_client_order_id (oh_order x))
      | FillHint x \<Rightarrow> PrivateFill (fi_inst_id (fh_fill x)) (fi_client_order_id (fh_fill x))
      | AlgoOrderHint x \<Rightarrow> PrivateAlgoOrder (ao_inst_id (gh_algo_order x))
      | AccountHint _ \<Rightarrow> PrivateAccount)"

definition update_private_hint ::
    "decimal_ops \<Rightarrow> private_pickers \<Rightarrow> OkxPrivateEventHint \<Rightarrow> OkxPrivateEventState \<Rightarrow>
      bool res \<times> OkxPrivateEventState" where
  "update_private_hint D pick h s =
     (case h of
        OrderHint x \<Rightarrow> update_order D pick x s
      | FillHint x \<Rightarrow> update_fill D pick x s
      | AlgoOrderHint x \<Rightarrow> update_algo_order D pick x s
      | AccountHint x \<Rightarrow> update_account D x s)"

text \<open>The events of the hints that were taken; a failure leaves the updates made before it.\<close>

fun apply_private_hints ::
    "decimal_ops \<Rightarrow> private_pickers \<Rightarrow> OkxPrivateEventHint list \<Rightarrow> OkxPrivateEventState \<Rightarrow>
      OkxPrivateRuntimeEventKind list res \<times> OkxPrivateEventState" where
  "apply_private_hints D pick [] s = (Inr [], s)"
| "apply_private_hints D pick (h # hs) s =
     (case update_private_hint D pick h s of
        (Inl e, s') \<Rightarrow> (Inl e, s')
      | (Inr taken, s') \<Rightarrow>
          (case apply_private_hints D pick hs s' of
             (Inl e, s'') \<Rightarrow> (Inl e, s'')
           | (Inr es, s'') \<Rightarrow> (Inr ((if taken then [hint_event h] else []) @ es), s'')))"

definition apply_private_event_message_inner ::
    "decimal_ops \<Rightarrow> private_pickers \<Rightarrow> private_json \<Rightarrow> OkxPrivateEventAuthority \<Rightarrow> string \<Rightarrow> nat \<Rightarrow>
      OkxPrivateEventState \<Rightarrow> (nat \<times> OkxPrivateRuntimeEventKind list) res \<times> OkxPrivateEventState" where
  "apply_private_event_message_inner D pick J a payload received_at s =
     (case parse_private_event_message_with_authority J a payload received_at of
        Inl e \<Rightarrow> (Inl e, s)
      | Inr hints \<Rightarrow>
          (case apply_private_hints D pick hints s of
             (Inl e, s') \<Rightarrow> (Inl e, s')
           | (Inr es, s') \<Rightarrow> (Inr (length hints, es), s')))"

definition apply_private_event_message_and_report ::
    "decimal_ops \<Rightarrow> private_pickers \<Rightarrow> private_json \<Rightarrow> OkxPrivateEventAuthority \<Rightarrow> string \<Rightarrow> nat \<Rightarrow>
      OkxPrivateEventState \<Rightarrow> nat res \<times> OkxPrivateEventState" where
  "apply_private_event_message_and_report D pick J a payload received_at s =
     (case apply_private_event_message_inner D pick J a payload received_at s of
        (Inl e, s') \<Rightarrow> (Inl e, s')
      | (Inr (n, es), s') \<Rightarrow>
          (case pe_runtime_event_reporter s' of
             None \<Rightarrow> (Inr n, s')
           | Some reporter \<Rightarrow>
               (case report_each report_private es reporter of
                  (r, reporter') \<Rightarrow>
                    (rbind r (\<lambda>_. Inr n), s'\<lparr> pe_runtime_event_reporter := Some reporter' \<rparr>))))"

section \<open>A run\<close>

record private_connection =
  pn_connect :: "unit res"
  pn_login_timestamp :: "string res"
  pn_send_login :: "unit res"
  pn_send_subscription :: "unit res"
  pn_events :: "socket_event list"

text \<open>The parameters; \<open>pw_clock n\<close> is the time the \<open>n\<close>-th message is received at.\<close>

record private_env =
  pw_decimal :: decimal_ops
  pw_pickers :: private_pickers
  pw_json :: private_json
  pw_socket_json :: socket_json
  pw_hmac :: "string \<Rightarrow> string \<Rightarrow> string"
  pw_clock :: "nat \<Rightarrow> nat"

text \<open>The state of a stream: the cache and the number of messages handled.\<close>

record private_stream_state =
  px_cache :: OkxPrivateEventState
  px_messages :: nat

definition deliver_private ::
    "private_env \<Rightarrow> OkxPrivateEventAuthority \<Rightarrow> string \<Rightarrow> private_stream_state \<Rightarrow> unit res \<times> private_stream_state" where
  "deliver_private E a payload s =
     (case apply_private_event_message_and_report (pw_decimal E) (pw_pickers E) (pw_json E) a payload
             (pw_clock E (px_messages s)) (px_cache s) of
        (r, cache) \<Rightarrow> (rbind r (\<lambda>_. Inr ()), \<lparr> px_cache = cache, px_messages = px_messages s + 1 \<rparr>))"

definition wait_for_private_login ::
    "socket_json \<Rightarrow> string \<Rightarrow> 's \<Rightarrow> socket_event list \<Rightarrow> unit res option \<times> 's \<times> socket_event list" where
  "wait_for_private_login J context s es =
     (let gone = Inl (of_protocol (ClosedBeforeLoginAck context)) in
      (case read_loop True context
              (\<lambda>p s. case parse_login_ack J p context of
                 Inl e \<Rightarrow> (Inl (of_protocol e), s)
               | Inr acknowledged \<Rightarrow> (Inr (if acknowledged then Some () else None), s))
              gone gone s es of
         (None, s', es') \<Rightarrow> (None, s', es')
       | (Some TimedOut, s', es') \<Rightarrow> (Some (Inl (of_protocol (TimedOutWaitingForLoginAck context))), s', es')
       | (Some (Finished r), s', es') \<Rightarrow> (Some r, s', es')))"

definition wait_for_private_subscription_acks ::
    "private_env \<Rightarrow> OkxPrivateStreamConfig \<Rightarrow> OkxPrivateEventAuthority \<Rightarrow> private_stream_state \<Rightarrow>
      socket_event list \<Rightarrow> unit res option \<times> private_stream_state \<times> socket_event list" where
  "wait_for_private_subscription_acks E c a =
     wait_for_subscription_acks (pw_socket_json E) (private_kind_label (ps_kind c))
       (private_kind_label (ps_kind c))
       (\<lambda>code arg. is_optional_fills_error code (map_option sa_channel arg)) (deliver_private E a)
       (private_stream_subscription_acks c)"

definition private_session ::
    "private_env \<Rightarrow> OkxPrivateStreamConfig \<Rightarrow> private_connection \<Rightarrow> (private_stream_state, unit) stage" where
  "private_session E c conn =
     (let label = private_kind_label (ps_kind c);
          stream = private_health_identity c;
          a = event_authority_from c in
      sbind (sreport stream ConnectAttempt) (\<lambda>_.
      sbind (slift (pn_connect conn)) (\<lambda>_.
      sbind (sreport stream Connected) (\<lambda>_.
      sbind (slift (pn_login_timestamp conn)) (\<lambda>timestamp.
      sbind (slift (login_request_at (pw_hmac E) (ps_credentials c) timestamp)) (\<lambda>_.
      sbind (slift (pn_send_login conn)) (\<lambda>_.
      sbind (sannounce stream LoginFailed
               (ssocket (wait_for_private_login (pw_socket_json E) label))) (\<lambda>_.
      sbind (sreport stream LoginAckSucceeded) (\<lambda>_.
      sbind (slift (private_stream_subscription c)) (\<lambda>_.
      sbind (slift (pn_send_subscription conn)) (\<lambda>_.
      sbind (sannounce stream SubscriptionAckFailed
               (ssocket (wait_for_private_subscription_acks E c a))) (\<lambda>_.
      sbind smark_subscribed (\<lambda>_.
      sbind (sreport stream SubscriptionAckSucceeded) (\<lambda>_.
      ssocket (stream_messages label (deliver_private E a))))))))))))))))"

definition run_private_stream_once ::
    "private_env \<Rightarrow> OkxPrivateStreamConfig \<Rightarrow> private_connection \<Rightarrow> private_stream_state session \<Rightarrow>
      stream_run \<times> private_stream_state session" where
  "run_private_stream_once E c conn s =
     finish_run (private_health_identity c) (private_session E c conn (s\<lparr> ss_events := pn_events conn \<rparr>))"

definition run_private_stream ::
    "private_env \<Rightarrow> OkxPrivateStreamConfig \<Rightarrow> private_connection list \<Rightarrow> private_stream_state session \<Rightarrow>
      stream_run \<times> private_stream_state session" where
  "run_private_stream E c conns s =
     reconnecting (ps_reconnect_policy c) (private_health_identity c) (run_private_stream_once E c) (\<lambda>x. x) 0
       (rp_initial_backoff (ps_reconnect_policy c)) conns s"

end
