(* ===== verification/Market_Stream.thy ===== *)
theory Market_Stream
  imports Market_Cache Socket_Session Private_Stream
begin

text \<open>
  The market streams (\<open>okx/websocket.rs\<close>): what a session subscribes to, the messages it accepts and
  applies to the cache, a run and the reconnecting.

  \<open>serde_json\<close> is a parameter (\<open>market_json\<close>, and \<open>json_ops\<close> for the books); the raw \<open>data\<close> of a message
  is a text.
\<close>

definition OKX_PUBLIC_TICKERS_CHANNEL :: string where "OKX_PUBLIC_TICKERS_CHANNEL = ''tickers''"
definition OKX_PUBLIC_INSTRUMENTS_CHANNEL :: string where "OKX_PUBLIC_INSTRUMENTS_CHANNEL = ''instruments''"

section \<open>Subscriptions\<close>

definition public_market_subscription_acks ::
    "OkxPublicMarketStreamConfig \<Rightarrow> OkxWebsocketSubscriptionAck set" where
  "public_market_subscription_acks c =
     (if pm_subscribe_instruments c
      then {subscription_ack OKX_PUBLIC_INSTRUMENTS_CHANNEL None (Some (pm_instrument_type c))} else {}) \<union>
     (\<Union>i\<in>set (pm_instrument_ids c).
        (if pm_subscribe_tickers c then {subscription_ack OKX_PUBLIC_TICKERS_CHANNEL (Some i) None} else {}) \<union>
        (\<lambda>channel. subscription_ack channel (Some i) None) ` set (pm_candle_channels c)) \<union>
     (\<lambda>i. subscription_ack OKX_LEVEL2_BOOKS_CHANNEL (Some i) None) ` set (pm_level2_instrument_ids c)"

definition public_ticker_subscription :: "string list \<Rightarrow> OkxWebsocketSubscribeArg list res" where
  "public_ticker_subscription ids =
     rbind (require (ids \<noteq> []) ''OKX public WebSocket ticker subscription''
              ''requires at least one instrument'') (\<lambda>_.
     Inr (map (subscribe_arg_instrument OKX_PUBLIC_TICKERS_CHANNEL) ids))"

text \<open>The arguments of the subscribe request, in their order.\<close>

definition public_market_subscription ::
    "string list \<Rightarrow> string \<Rightarrow> bool \<Rightarrow> bool \<Rightarrow> string list \<Rightarrow> string list \<Rightarrow> OkxWebsocketSubscribeArg list res" where
  "public_market_subscription ids inst_type tickers instruments channels level2 =
     rbind (require (ids \<noteq> []) ''OKX public WebSocket market subscription''
              ''requires at least one instrument'') (\<lambda>_.
     rbind (require (inst_type = OKX_SPOT_INST_TYPE) ''current OKX public WebSocket subscription''
              ''admits only validated SPOT'') (\<lambda>_.
     rbind (require (tickers \<or> instruments \<or> channels \<noteq> [] \<or> level2 \<noteq> [])
              ''OKX public WebSocket market subscription''
              ''requires tickers, instruments, candles, or books'') (\<lambda>_.
     Inr ((if instruments
           then [\<lparr> sg_channel = OKX_PUBLIC_INSTRUMENTS_CHANNEL, sg_inst_type = Some inst_type,
                   sg_inst_id = None \<rparr>] else []) @
          concat (map (\<lambda>i.
              (if tickers then [subscribe_arg_instrument OKX_PUBLIC_TICKERS_CHANNEL i] else []) @
              map (\<lambda>channel. subscribe_arg_instrument channel i) channels) ids) @
          map (subscribe_arg_instrument OKX_LEVEL2_BOOKS_CHANNEL) level2))))"

section \<open>Messages\<close>

record OkxWebsocketPublicMessage =
  pb_event :: "string option"
  pb_code :: "string option"
  pb_msg :: "string option"
  pb_action :: "string option"
  pb_arg :: "OkxWebsocketSubscriptionAck option"
  pb_data :: "string option"

record OkxWebsocketTickerData =
  td_inst_type :: string
  td_inst_id :: string
  td_bid_px :: string
  td_ask_px :: string
  td_last :: string
  td_ts :: string

record market_json =
  mj_message :: "string \<Rightarrow> OkxWebsocketPublicMessage option"
  mj_tickers :: "string \<Rightarrow> OkxWebsocketTickerData list option"
  mj_candles :: "string \<Rightarrow> string list list option"
  mj_instruments :: "string \<Rightarrow> OkxWebsocketInstrumentUpdate list option"
  mj_books :: json_ops

datatype OkxMarketDataHint =
    TickerHint OkxMarketTickerHint
  | CandleHint OkxMarketCandleHint
  | InstrumentHint OkxInstrumentUpdateHint
  | Level2Hint OkxLevel2Update

definition parse_required_i64 :: "string \<Rightarrow> string \<Rightarrow> int res" where
  "parse_required_i64 context v = ok_or (Fail (Bad context ''is invalid'')) (parse_i64 v)"

definition public_optional_ts_ms :: "string \<Rightarrow> string \<Rightarrow> int option res" where
  "public_optional_ts_ms context v =
     (if blank v then Inr None
      else
        rbind (parse_required_i64 context v) (\<lambda>t.
        rbind (require (t > 0) context ''must be positive'') (\<lambda>_. Inr (Some t))))"

definition parse_candle_data :: "string list \<Rightarrow> MarketBar res" where
  "parse_candle_data values =
     rbind (require (length values \<ge> 9) ''OKX WebSocket candle payload'' ''must contain at least 9 fields'') (\<lambda>_.
     rbind (parse_required_i64 ''OKX WebSocket candle ts'' (values ! 0)) (\<lambda>ts.
     rbind (require (ts > 0) ''OKX WebSocket candle ts'' ''must be positive'') (\<lambda>_.
     rbind (parse_positive_f64 ''OKX WebSocket candle open'' (values ! 1)) (\<lambda>open_px.
     rbind (parse_positive_f64 ''OKX WebSocket candle high'' (values ! 2)) (\<lambda>hi.
     rbind (parse_positive_f64 ''OKX WebSocket candle low'' (values ! 3)) (\<lambda>lo.
     rbind (parse_positive_f64 ''OKX WebSocket candle close'' (values ! 4)) (\<lambda>cl.
     rbind (try_map (\<lambda>(name, v). parse_non_negative_f64 (''OKX WebSocket candle '' @ name) v)
              [(''volume'', values ! 5), (''volumeCcy'', values ! 6), (''volumeCcyQuote'', values ! 7)]) (\<lambda>_.
     rbind (require (values ! 8 = ''0'' \<or> values ! 8 = ''1'') ''OKX WebSocket candle confirm flag''
              ''must be 0 or 1'') (\<lambda>_.
     let bar = \<lparr> mb_ts_ms = ts, mb_open = open_px, mb_high = hi, mb_low = lo, mb_close = cl,
                 mb_confirm = (values ! 8 = ''1'') \<rparr> in
     rbind (market_bar_validate bar ''OKX WebSocket candle'') (\<lambda>_. Inr bar))))))))))"

text \<open>The greatest of the times given.\<close>

fun later_effective_time :: "int option \<Rightarrow> string list \<Rightarrow> int option res" where
  "later_effective_time acc [] = Inr acc"
| "later_effective_time acc (c # cs) =
     rbind (public_optional_ts_ms ''OKX WebSocket instrument upcChg effTime'' c) (\<lambda>t.
     later_effective_time
       (case t of None \<Rightarrow> acc
        | Some effective_time \<Rightarrow>
            Some (case acc of None \<Rightarrow> effective_time | Some current \<Rightarrow> max current effective_time)) cs)"

definition instrument_update_source_ts_ms :: "OkxWebsocketInstrumentUpdate \<Rightarrow> int option res" where
  "instrument_update_source_ts_ms i =
     rbind (public_optional_ts_ms ''OKX WebSocket instrument contTdSwTime'' (iu_continuous_trading_switch_time i))
       (\<lambda>t. later_effective_time t (iu_upcoming_changes i))"

text \<open>One row of each channel.\<close>

definition ticker_row ::
    "decimal_ops \<Rightarrow> OkxWebsocketSubscriptionAck \<Rightarrow> nat \<Rightarrow> OkxWebsocketTickerData \<Rightarrow> OkxMarketDataHint res" where
  "ticker_row D arg received_at r =
     rbind (require (sa_inst_id arg = None \<or> sa_inst_id arg = Some (td_inst_id r))
              ''OKX public WebSocket ticker'' ''did not match arg instrument'') (\<lambda>_.
     let ticker = \<lparr> tk_inst_type = td_inst_type r, tk_inst_id = td_inst_id r, tk_bid_px = td_bid_px r,
                    tk_ask_px = td_ask_px r, tk_last = td_last r \<rparr> in
     rbind (validate_prices D ticker) (\<lambda>_.
     rbind (require (tk_inst_type ticker = OKX_SPOT_INST_TYPE) ''OKX WebSocket ticker''
              ''has non-SPOT instType'') (\<lambda>_.
     rbind (public_optional_ts_ms ''OKX WebSocket ticker ts'' (td_ts r)) (\<lambda>ts.
     Inr (TickerHint \<lparr> th_ticker = ticker, th_source_ts_ms = ts, th_received_at = received_at \<rparr>)))))"

definition candle_row :: "string \<Rightarrow> string \<Rightarrow> nat \<Rightarrow> string list \<Rightarrow> OkxMarketDataHint res" where
  "candle_row inst_id channel received_at r =
     rbind (parse_candle_data r) (\<lambda>bar.
     Inr (CandleHint \<lparr> ch_inst_id = inst_id, ch_channel = channel, ch_bar = bar,
                       ch_source_ts_ms = Some (mb_ts_ms bar), ch_received_at = received_at \<rparr>))"

definition instrument_row :: "string \<Rightarrow> nat \<Rightarrow> OkxWebsocketInstrumentUpdate \<Rightarrow> OkxMarketDataHint res" where
  "instrument_row inst_type received_at r =
     rbind (require (iu_inst_type r = inst_type) ''OKX public WebSocket instrument''
              ''did not match arg instType'') (\<lambda>_.
     rbind (instrument_update_source_ts_ms r) (\<lambda>ts.
     rbind (validate_instrument_update r) (\<lambda>_.
     Inr (InstrumentHint \<lparr> ih_instrument = r, ih_source_ts_ms = ts, ih_received_at = received_at \<rparr>))))"

definition books_rows ::
    "decimal_ops \<Rightarrow> market_json \<Rightarrow> OkxWebsocketPublicMessage \<Rightarrow> OkxWebsocketSubscriptionAck \<Rightarrow> string \<Rightarrow> nat \<Rightarrow>
      nat \<Rightarrow> OkxMarketDataHint list res" where
  "books_rows D J m arg rows received_at parsed_at =
     rbind (ok_or (Fail (Bad ''OKX books data'' ''omitted arg instId'')) (sa_inst_id arg)) (\<lambda>inst_id.
     rbind (map_err (\<lambda>_. Fail (Bad ''OKX books data instrument'' ''is not canonical SPOT''))
              (spot_id_try_from inst_id)) (\<lambda>expected.
     rbind (ok_or (Fail (Bad ''OKX books data'' ''omitted action'')) (pb_action m)) (\<lambda>action.
     rbind (map_err (\<lambda>e. case e of Panic \<Rightarrow> Panic | Fail _ \<Rightarrow> Fail (Bad ''OKX books data'' ''is malformed''))
              (parse_books_message D (mj_books J) expected OKX_LEVEL2_BOOKS_CHANNEL inst_id action rows)) (\<lambda>message.
     Inr [Level2Hint (from_validated message received_at parsed_at)]))))"

text \<open>The \<open>match\<close> on the channel.\<close>

definition public_channel_hints ::
    "decimal_ops \<Rightarrow> market_json \<Rightarrow> OkxWebsocketPublicMessage \<Rightarrow> OkxWebsocketSubscriptionAck \<Rightarrow> string \<Rightarrow> nat \<Rightarrow>
      nat \<Rightarrow> OkxMarketDataHint list res" where
  "public_channel_hints D J m arg rows received_at parsed_at =
     (if sa_channel arg = OKX_PUBLIC_TICKERS_CHANNEL then
        rbind (parse_websocket_data (mj_tickers J) rows ''OKX public ticker update'')
          (try_map (ticker_row D arg received_at))
      else if \<not> isl (okx_public_candle_bar_for_channel (sa_channel arg)) then
        rbind (ok_or (Fail (Bad ''OKX public WebSocket candle data'' ''omitted arg instId''))
                 (sa_inst_id arg)) (\<lambda>inst_id.
        rbind (require (\<not> blank inst_id) ''OKX WebSocket candle'' ''omitted instId'') (\<lambda>_.
        rbind (parse_websocket_data (mj_candles J) rows ''OKX public candle update'')
          (try_map (candle_row inst_id (sa_channel arg) received_at))))
      else if sa_channel arg = OKX_PUBLIC_INSTRUMENTS_CHANNEL then
        rbind (ok_or (Fail (Bad ''OKX public WebSocket instrument data'' ''omitted arg instType''))
                 (sa_inst_type arg)) (\<lambda>inst_type.
        rbind (require (inst_type = OKX_SPOT_INST_TYPE) ''OKX public WebSocket instruments arg''
                 ''has non-SPOT instType'') (\<lambda>_.
        rbind (parse_websocket_data (mj_instruments J) rows ''OKX public instrument update'')
          (try_map (instrument_row inst_type received_at))))
      else if sa_channel arg = OKX_LEVEL2_BOOKS_CHANNEL then
        books_rows D J m arg rows received_at parsed_at
      else Inl (Fail (Bad ''OKX public WebSocket channel'' ''is not supported'')))"

definition parse_public_market_data_message ::
    "decimal_ops \<Rightarrow> market_json \<Rightarrow> string \<Rightarrow> nat \<Rightarrow> nat \<Rightarrow> OkxMarketDataHint list res" where
  "parse_public_market_data_message D J payload received_at parsed_at =
     rbind (ok_or (Fail (Bad ''OKX public WebSocket message'' ''invalid JSON'')) (mj_message J payload)) (\<lambda>m.
     rbind (map_err of_protocol (reject_websocket_notice (pb_event m) (pb_code m) ''public'')) (\<lambda>_.
     if pb_event m = Some ''error'' then
       Inl (Fail (Bad (''OKX public WebSocket error '' @ unwrap_or_default (pb_code m))
                   (unwrap_or_default (pb_msg m))))
     else if pb_event m \<noteq> None then Inr []
     else
       (case pb_data m of
          None \<Rightarrow> Inr []
        | Some rows \<Rightarrow>
            rbind (ok_or (Fail (Bad ''OKX public WebSocket data'' ''omitted arg'')) (pb_arg m)) (\<lambda>arg.
            public_channel_hints D J m arg rows received_at parsed_at))))"

section \<open>Applying a message\<close>

text \<open>What a message leads to: events for the runtime and features.\<close>

record AppliedPublicMarketData =
  ap_public_events :: "OkxPublicRuntimeEventKind list"
  ap_level2_features :: "OkxLevel2FeatureSnapshot list"

definition applied :: "OkxPublicRuntimeEventKind list \<Rightarrow> OkxLevel2FeatureSnapshot list \<Rightarrow> AppliedPublicMarketData" where
  "applied events features = \<lparr> ap_public_events = events, ap_level2_features = features \<rparr>"

text \<open>The parameters; \<open>mw_clock n k\<close> is the \<open>k\<close>-th reading of the clock while the \<open>n\<close>-th message is handled.\<close>

record market_env =
  mw_decimal :: decimal_ops
  mw_pickers :: market_pickers
  mw_json :: market_json
  mw_socket_json :: socket_json
  mw_clock :: "nat \<Rightarrow> nat \<Rightarrow> nat"

definition apply_market_hint ::
    "market_env \<Rightarrow> nat \<Rightarrow> string list \<Rightarrow> OkxMarketDataHint \<Rightarrow> OkxMarketDataState \<Rightarrow>
      AppliedPublicMarketData res \<times> OkxMarketDataState" where
  "apply_market_hint E n level2_ids h s =
     (case h of
        TickerHint x \<Rightarrow> (Inr (applied [] []), snd (insert_ticker_hint (mw_pickers E) x s))
      | CandleHint x \<Rightarrow>
          (case insert_candle_hint (mw_pickers E) (mw_clock E n 1) x s of
             (newly_confirmed, s') \<Rightarrow>
               (Inr (applied (if newly_confirmed \<and> mb_confirm (ch_bar x)
                              then [PublicConfirmedCandle (ch_inst_id x) (mb_ts_ms (ch_bar x))] else []) []), s'))
      | InstrumentHint x \<Rightarrow>
          (case insert_instrument_hint (mw_pickers E) x s of
             (d, s') \<Rightarrow>
               (Inr (applied (if requires_rest_revalidation d
                              then [PublicInstrumentUpdated (iu_inst_id (ih_instrument x))] else []) []), s'))
      | Level2Hint u \<Rightarrow>
          if as_str (lu2_instrument_id u) \<notin> set level2_ids then
            (Inl (Fail (Bad ''OKX Level-2 update'' ''was not requested by this stream'')), s)
          else
            let s = s\<lparr> md_latency := latency_record FrameReceivedToParsed (lu2_parsed_at u - lu2_received_at u)
                        (md_latency s) \<rparr> in
            (case apply_level2 (mw_decimal E) (\<lambda>k. mw_clock E n (k + 2)) u s of
               (Inl e, s') \<Rightarrow> (Inl e, s')
             | (Inr (Features f), s') \<Rightarrow> (Inr (applied [] [f]), s')
             | (Inr Heartbeat, s') \<Rightarrow> (Inr (applied [] []), s')))"

fun apply_market_hints ::
    "market_env \<Rightarrow> nat \<Rightarrow> string list \<Rightarrow> OkxMarketDataHint list \<Rightarrow> OkxMarketDataState \<Rightarrow>
      AppliedPublicMarketData res \<times> OkxMarketDataState" where
  "apply_market_hints E n level2_ids [] s = (Inr (applied [] []), s)"
| "apply_market_hints E n level2_ids (h # hs) s =
     (case apply_market_hint E n level2_ids h s of
        (Inl e, s') \<Rightarrow> (Inl e, s')
      | (Inr x, s') \<Rightarrow>
          (case apply_market_hints E n level2_ids hs s' of
             (Inl e, s'') \<Rightarrow> (Inl e, s'')
           | (Inr y, s'') \<Rightarrow>
               (Inr (applied (ap_public_events x @ ap_public_events y)
                       (ap_level2_features x @ ap_level2_features y)), s'')))"

definition apply_public_market_data_message_inner ::
    "market_env \<Rightarrow> nat \<Rightarrow> string \<Rightarrow> string list \<Rightarrow> OkxMarketDataState \<Rightarrow>
      (nat \<times> AppliedPublicMarketData) res \<times> OkxMarketDataState" where
  "apply_public_market_data_message_inner E n payload level2_ids s =
     (case parse_public_market_data_message (mw_decimal E) (mw_json E) payload (mw_clock E n 0) (mw_clock E n 1) of
        Inl e \<Rightarrow> (Inl e, s)
      | Inr hints \<Rightarrow>
          (case apply_market_hints E n level2_ids hints s of
             (Inl e, s') \<Rightarrow> (Inl e, s')
           | (Inr x, s') \<Rightarrow> (Inr (length hints, x), s')))"

text \<open>The features are reported when all events were delivered.\<close>

definition report_market_data ::
    "AppliedPublicMarketData \<Rightarrow> OkxRuntimeEventReporter \<Rightarrow> unit res \<times> OkxRuntimeEventReporter" where
  "report_market_data x r =
     (case report_each report_public (ap_public_events x) r of
        (Inl e, r') \<Rightarrow> (Inl e, r')
      | (Inr _, r') \<Rightarrow> (Inr (), fold report_level2 (ap_level2_features x) r'))"

definition apply_public_market_data_message_and_report ::
    "market_env \<Rightarrow> nat \<Rightarrow> string \<Rightarrow> string list \<Rightarrow> OkxMarketDataState \<Rightarrow> nat res \<times> OkxMarketDataState" where
  "apply_public_market_data_message_and_report E n payload level2_ids s =
     (case apply_public_market_data_message_inner E n payload level2_ids s of
        (Inl e, s') \<Rightarrow> (Inl e, s')
      | (Inr (messages, x), s') \<Rightarrow>
          (case md_runtime_event_reporter s' of
             None \<Rightarrow> (Inr messages, s')
           | Some reporter \<Rightarrow>
               (case report_market_data x (reporter\<lparr> rr_latency := md_latency s' \<rparr>) of
                  (r, reporter') \<Rightarrow>
                    (rbind r (\<lambda>_. Inr messages),
                     s'\<lparr> md_runtime_event_reporter := Some reporter', md_latency := rr_latency reporter' \<rparr>))))"

section \<open>A run\<close>

record market_connection =
  mn_connect :: "unit res"
  mn_send_subscription :: "unit res"
  mn_events :: "socket_event list"

record market_stream_state =
  mx_cache :: OkxMarketDataState
  mx_messages :: nat

definition deliver_market ::
    "market_env \<Rightarrow> string list \<Rightarrow> string \<Rightarrow> market_stream_state \<Rightarrow> unit res \<times> market_stream_state" where
  "deliver_market E level2_ids payload s =
     (case apply_public_market_data_message_and_report E (mx_messages s) payload level2_ids (mx_cache s) of
        (r, cache) \<Rightarrow> (rbind r (\<lambda>_. Inr ()), \<lparr> mx_cache = cache, mx_messages = mx_messages s + 1 \<rparr>))"

definition wait_for_public_subscription_acks ::
    "market_env \<Rightarrow> OkxPublicMarketStreamConfig \<Rightarrow> market_stream_state \<Rightarrow> socket_event list \<Rightarrow>
      unit res option \<times> market_stream_state \<times> socket_event list" where
  "wait_for_public_subscription_acks E c =
     wait_for_subscription_acks (mw_socket_json E) ''public market data'' ''public'' (\<lambda>_ _. False)
       (deliver_market E (pm_level2_instrument_ids c)) (public_market_subscription_acks c)"

definition on_cache :: "(OkxMarketDataState \<Rightarrow> 'a res \<times> OkxMarketDataState) \<Rightarrow> (market_stream_state, 'a) stage" where
  "on_cache f = sdo (\<lambda>x. case f (mx_cache x) of (r, cache) \<Rightarrow> (r, x\<lparr> mx_cache := cache \<rparr>))"

definition market_session ::
    "market_env \<Rightarrow> OkxPublicMarketStreamConfig \<Rightarrow> market_connection \<Rightarrow> (market_stream_state, unit) stage" where
  "market_session E c conn =
     (let stream = market_health_identity c in
      sbind (on_cache (configure_level2_instruments (pm_level2_instrument_ids c))) (\<lambda>_.
      sbind (on_cache (\<lambda>s. (Inr (), if pm_subscribe_instruments c
               then protect_instruments (pm_instrument_ids c) s else s))) (\<lambda>_.
      sbind (sreport stream ConnectAttempt) (\<lambda>_.
      sbind (slift (mn_connect conn)) (\<lambda>_.
      sbind (sreport stream Connected) (\<lambda>_.
      sbind (slift (public_market_subscription (pm_instrument_ids c) (pm_instrument_type c)
               (pm_subscribe_tickers c) (pm_subscribe_instruments c) (pm_candle_channels c)
               (pm_level2_instrument_ids c))) (\<lambda>_.
      sbind (slift (mn_send_subscription conn)) (\<lambda>_.
      sbind (sannounce stream SubscriptionAckFailed (ssocket (wait_for_public_subscription_acks E c))) (\<lambda>_.
      sbind smark_subscribed (\<lambda>_.
      sbind (sreport stream SubscriptionAckSucceeded) (\<lambda>_.
      ssocket (stream_messages ''public market data'' (deliver_market E (pm_level2_instrument_ids c))))))))))))))"

definition run_public_market_stream_once ::
    "market_env \<Rightarrow> OkxPublicMarketStreamConfig \<Rightarrow> market_connection \<Rightarrow> market_stream_state session \<Rightarrow>
      stream_run \<times> market_stream_state session" where
  "run_public_market_stream_once E c conn s =
     finish_run (market_health_identity c) (market_session E c conn (s\<lparr> ss_events := mn_events conn \<rparr>))"

definition after_market_run :: "OkxPublicMarketStreamConfig \<Rightarrow> OkxMarketDataState \<Rightarrow> OkxMarketDataState" where
  "after_market_run c s =
     (if pm_level2_instrument_ids c = [] then s
      else
        let s = invalidate_level2_for_reconnect (pm_level2_instrument_ids c) s in
        s\<lparr> md_latency := count_latency record_reconnect (md_latency s) \<rparr>)"

definition run_public_market_stream ::
    "market_env \<Rightarrow> OkxPublicMarketStreamConfig \<Rightarrow> market_connection list \<Rightarrow> market_stream_state session \<Rightarrow>
      stream_run \<times> market_stream_state session" where
  "run_public_market_stream E c conns s =
     reconnecting (pm_reconnect_policy c) (market_health_identity c) (run_public_market_stream_once E c)
       (\<lambda>x. x\<lparr> mx_cache := after_market_run c (mx_cache x) \<rparr>) 0
       (rp_initial_backoff (pm_reconnect_policy c)) conns s"

end
