(* ===== verification/Stream_Stages.thy ===== *)
theory Stream_Stages
  imports Socket_Session
begin

text \<open>
  How a session is verified: each stage of it (\<open>Socket_Session\<close>) is put into one of four classes, and the
  classes compose along \<open>sbind\<close>.

  A \<open>quiet\<close> stage reports only events of its own stream and never that it is subscribed; a \<open>subscribes\<close>
  session reports that as its last event exactly when it is, and is so only with the evidence it needs; a
  stage \<open>keeps\<close> a property of the state; a stage \<open>halts\<close> on a socket that ends.  The locale \<open>stream_runner\<close>
  is what the reconnecting loop needs of a run, and the health events mean to the tracker.
\<close>

named_theorems stage_intros
named_theorems keeps_intros
named_theorems halts_intros

section \<open>Quiet stages\<close>

definition reported ::
    "OkxWebsocketStreamIdentity \<Rightarrow> 's session \<Rightarrow> OkxWebsocketHealthEventKind list \<Rightarrow> 's session \<Rightarrow> bool" where
  "reported stream s ks s' \<longleftrightarrow> ss_health s' = ss_health s @ map (\<lambda>k. health_event_new k stream) ks"

lemma reported_refl: "reported stream s [] s"
  by (simp add: reported_def)

lemma reported_trans: "reported stream s ks s' \<Longrightarrow> reported stream s' ls s'' \<Longrightarrow> reported stream s (ks @ ls) s''"
  by (simp add: reported_def)

definition quiet :: "OkxWebsocketStreamIdentity \<Rightarrow> ('s, 'a) stage \<Rightarrow> bool" where
  "quiet stream m \<longleftrightarrow> (\<forall>s r s'. m s = (r, s') \<longrightarrow>
     ss_subscribed s' = ss_subscribed s \<and> set (ss_events s') \<subseteq> set (ss_events s) \<and>
     (\<exists>ks. reported stream s ks s' \<and> SubscriptionAckSucceeded \<notin> set ks))"

lemma quietD:
  assumes "quiet stream m" "m s = (r, s')"
  obtains ks where "ss_subscribed s' = ss_subscribed s" "set (ss_events s') \<subseteq> set (ss_events s)"
    "reported stream s ks s'" "SubscriptionAckSucceeded \<notin> set ks"
  using assms unfolding quiet_def by blast

lemma quiet_slift [stage_intros]: "quiet stream (slift r)"
  unfolding quiet_def slift_def by (auto intro: exI [of _ "[]"] reported_refl)

lemma quiet_sdo [stage_intros]: "quiet stream (sdo f)"
  unfolding quiet_def sdo_def reported_def by (auto intro!: exI [of _ "[]"] split: prod.splits)

lemma quiet_sreport [stage_intros]: "k \<noteq> SubscriptionAckSucceeded \<Longrightarrow> quiet stream (sreport stream k)"
  unfolding quiet_def sreport_def reported_def by (auto intro!: exI [of _ "[k]"])

lemma quiet_ssocket [stage_intros]:
  "(\<And>s es r s' es'. f s es = (r, s', es') \<Longrightarrow> set es' \<subseteq> set es) \<Longrightarrow> quiet stream (ssocket f)"
  unfolding quiet_def ssocket_def reported_def
  by (fastforce intro!: exI [of _ "[]"] split: prod.splits)

lemma quiet_sannounce [stage_intros]:
  assumes "k \<noteq> SubscriptionAckSucceeded" and m: "quiet stream m"
  shows "quiet stream (sannounce stream k m)"
  unfolding quiet_def
proof (intro allI impI)
  fix s r s'
  assume run: "sannounce stream k m s = (r, s')"
  obtain q t where ms: "m s = (q, t)" by force
  from quietD [OF m ms] obtain ks where ks: "ss_subscribed t = ss_subscribed s"
    "set (ss_events t) \<subseteq> set (ss_events s)" "reported stream s ks t" "SubscriptionAckSucceeded \<notin> set ks" .
  show "ss_subscribed s' = ss_subscribed s \<and> set (ss_events s') \<subseteq> set (ss_events s) \<and>
    (\<exists>ks. reported stream s ks s' \<and> SubscriptionAckSucceeded \<notin> set ks)"
  proof (cases "s' = t")
    case True
    with ks show ?thesis by blast
  next
    case False
    with run ms have "s' = t\<lparr> ss_health := ss_health t @ [health_event_new k stream] \<rparr>"
      by (auto simp: sannounce_def split: option.splits sum.splits fault.splits)
    with ks assms(1) show ?thesis by (auto simp: reported_def intro!: exI [of _ "ks @ [k]"])
  qed
qed

section \<open>Subscribing\<close>

definition subscribes ::
    "OkxWebsocketStreamIdentity \<Rightarrow> (socket_event set \<Rightarrow> bool) \<Rightarrow> ('s, 'a) stage \<Rightarrow> bool" where
  "subscribes stream A m \<longleftrightarrow> (\<forall>s r s'. m s = (r, s') \<longrightarrow> \<not> ss_subscribed s \<longrightarrow>
     (\<exists>ks. reported stream s ks s' \<and> (ss_subscribed s' \<longleftrightarrow> ks \<noteq> [] \<and> last ks = SubscriptionAckSucceeded)) \<and>
     (ss_subscribed s' \<longrightarrow> A (set (ss_events s))))"

lemma sbind_cases:
  assumes "sbind m f s = (r, s')"
  obtains (stops) q where "m s = (q, s')" "\<nexists>x. q = Some (Inr x)"
    | (continues) x t where "m s = (Some (Inr x), t)" "f x t = (r, s')"
  using assms by (auto simp: sbind_def split: prod.splits option.splits sum.splits)

text \<open>The last quiet stage before the subscription may be where the evidence is gathered.\<close>

lemma subscribes_bind:
  assumes "quiet stream m" and f: "\<And>x. subscribes stream B (f x)"
    and evidence: "\<And>s x s'. m s = (Some (Inr x), s') \<Longrightarrow> B (set (ss_events s')) \<Longrightarrow> A (set (ss_events s))"
  shows "subscribes stream A (sbind m f)"
  unfolding subscribes_def
proof (intro allI impI)
  fix s r s'
  assume run: "sbind m f s = (r, s')" and un: "\<not> ss_subscribed s"
  from run show "(\<exists>ks. reported stream s ks s' \<and>
      (ss_subscribed s' \<longleftrightarrow> ks \<noteq> [] \<and> last ks = SubscriptionAckSucceeded)) \<and>
    (ss_subscribed s' \<longrightarrow> A (set (ss_events s)))"
  proof (cases rule: sbind_cases)
    case (stops q)
    with quietD [OF assms(1) stops(1)] un show ?thesis by (metis last_in_set)
  next
    case (continues x t)
    from quietD [OF assms(1) continues(1)] un obtain ks where ks: "\<not> ss_subscribed t"
      "reported stream s ks t" "SubscriptionAckSucceeded \<notin> set ks" by metis
    from f [of x] continues(2) ks(1) obtain ls where ls: "reported stream t ls s'"
      "ss_subscribed s' \<longleftrightarrow> ls \<noteq> [] \<and> last ls = SubscriptionAckSucceeded"
      "ss_subscribed s' \<longrightarrow> B (set (ss_events t))" unfolding subscribes_def by blast
    have "ss_subscribed s' \<longleftrightarrow> ks @ ls \<noteq> [] \<and> last (ks @ ls) = SubscriptionAckSucceeded"
      using ls(2) ks(3) by (metis append_Nil2 append_is_Nil_conv last_appendR last_in_set)
    with reported_trans [OF ks(2) ls(1)] ls(3) evidence [OF continues(1)] show ?thesis by blast
  qed
qed

lemma subscribes_quiet_bind:
  fixes m :: "('s, 'a) stage"
  shows "quiet stream m \<Longrightarrow> (\<And>x. subscribes stream A (f x)) \<Longrightarrow> mono A \<Longrightarrow> subscribes stream A (sbind m f)"
proof (rule subscribes_bind [where B = A])
  fix s s' :: "'s session" and x
  assume q: "quiet stream m" "mono A" "m s = (Some (Inr x), s')" "A (set (ss_events s'))"
  from quietD [OF q(1,3)] monoD [OF q(2)] q(4) show "A (set (ss_events s))" by (metis le_boolE)
qed

lemma subscribes_mark:
  "subscribes stream (\<lambda>_. True)
     (sbind smark_subscribed (\<lambda>_. sbind (sreport stream SubscriptionAckSucceeded) (\<lambda>_. ssocket f)))"
  unfolding subscribes_def reported_def
  by (auto simp: sbind_def smark_subscribed_def sreport_def ssocket_def split: prod.splits
      intro!: exI [of _ "[SubscriptionAckSucceeded]"])

section \<open>Properties of the state\<close>

definition keeps :: "('s \<Rightarrow> bool) \<Rightarrow> ('s, 'a) stage \<Rightarrow> bool" where
  "keeps P m \<longleftrightarrow> (\<forall>s r s'. m s = (r, s') \<longrightarrow> P (ss_state s) \<longrightarrow> P (ss_state s'))"

lemma stage_keepsD: "keeps P m \<Longrightarrow> m s = (r, s') \<Longrightarrow> P (ss_state s) \<Longrightarrow> P (ss_state s')"
  unfolding keeps_def by blast

lemma keeps_sbind [keeps_intros]:
  "keeps P m \<Longrightarrow> (\<And>x. keeps P (f x)) \<Longrightarrow> keeps P (sbind m f)"
  unfolding keeps_def [of P "sbind m f"] by (auto elim!: sbind_cases dest: stage_keepsD)

lemma keeps_simple [keeps_intros]:
  "keeps P (slift r)" "keeps P (sreport stream k)" "keeps P smark_subscribed"
  by (auto simp: keeps_def slift_def sreport_def smark_subscribed_def)

lemma keeps_sdo [keeps_intros]: "(\<And>x. P x \<Longrightarrow> P (snd (f x))) \<Longrightarrow> keeps P (sdo f)"
  unfolding keeps_def sdo_def by (metis (no_types, lifting) prod.case_eq_if prod.inject select_convs(1)
      session.surjective session.update_convs(1))

lemma keeps_sannounce [keeps_intros]: "keeps P m \<Longrightarrow> keeps P (sannounce stream k m)"
  unfolding keeps_def sannounce_def
  by (auto split: prod.splits option.splits sum.splits fault.splits)

lemma keeps_ssocket [keeps_intros]: "(\<And>x es. P x \<Longrightarrow> P (fst (snd (f x es)))) \<Longrightarrow> keeps P (ssocket f)"
  unfolding keeps_def ssocket_def by (auto split: prod.splits) (metis fst_conv snd_conv)

section \<open>Ending\<close>

definition halts :: "('s, 'a) stage \<Rightarrow> bool" where
  "halts m \<longleftrightarrow> (\<forall>s. Ended \<in> set (ss_events s) \<longrightarrow>
     (\<exists>r s'. m s = (Some r, s') \<and> (Ended \<in> set (ss_events s') \<or> (\<exists>e. r = Inl e))))"

definition stops :: "('s, 'a) stage \<Rightarrow> bool" where
  "stops m \<longleftrightarrow> (\<forall>s. Ended \<in> set (ss_events s) \<longrightarrow> (\<exists>r s'. m s = (Some r, s')))"

lemma stops_sbind [halts_intros]:
  fixes m :: "('s, 'a) stage"
  assumes "halts m" and "\<And>x. stops (f x)"
  shows "stops (sbind m f)"
  unfolding stops_def
proof (intro allI impI)
  fix s :: "'s session"
  assume "Ended \<in> set (ss_events s)"
  with assms(1) obtain r s' where "m s = (Some r, s')" "Ended \<in> set (ss_events s') \<or> (\<exists>e. r = Inl e)"
    unfolding halts_def by blast
  with assms(2) show "\<exists>r s'. sbind m f s = (Some r, s')"
    unfolding stops_def sbind_def by (cases r) auto
qed

lemma halts_simple [halts_intros]:
  "halts (slift r)" "halts (sreport stream k)" "halts smark_subscribed" "halts (sdo f)"
  by (auto simp: halts_def slift_def sreport_def smark_subscribed_def sdo_def split: prod.splits)

lemma halts_sannounce [halts_intros]:
  fixes m :: "('s, 'a) stage"
  assumes "halts m" shows "halts (sannounce stream k m)"
  unfolding halts_def
proof (intro allI impI)
  fix s :: "'s session"
  assume "Ended \<in> set (ss_events s)"
  with assms obtain r s' where "m s = (Some r, s')" "Ended \<in> set (ss_events s') \<or> (\<exists>e. r = Inl e)"
    unfolding halts_def by blast
  then show "\<exists>r s'. sannounce stream k m s = (Some r, s') \<and> (Ended \<in> set (ss_events s') \<or> (\<exists>e. r = Inl e))"
    by (auto simp: sannounce_def split: sum.split fault.split)
qed

section \<open>Waiting on the socket\<close>

lemma read_loop_suffix:
  "read_loop b c h at_end at_close s es = (r, s', es') \<Longrightarrow> set es' \<subseteq> set es"
proof (induction "length es" arbitrary: s es rule: less_induct)
  case less
  show ?case
  proof (cases "next_websocket_message b c es")
    case None
    with less.prems show ?thesis by (simp add: read_loop.simps [of b c h at_end at_close s es])
  next
    case (Some q)
    obtain x fs where q: "q = (x, fs)" by force
    have sub: "set fs \<subseteq> set es" using next_message_suffix Some q by simp
    have "read_loop b c h at_end at_close t fs = (r, s', es') \<Longrightarrow> set es' \<subseteq> set es" for t
      using less.hyps [OF next_message_consumes] Some q sub by blast
    with sub show ?thesis using less.prems Some q
      by (auto simp: read_loop.simps [of b c h at_end at_close s es]
          split: socket_read.splits sum.splits option.splits ws_message.splits if_splits prod.splits)
  qed
qed

definition acknowledged_by ::
    "socket_json \<Rightarrow> string \<Rightarrow> (string \<Rightarrow> OkxWebsocketSubscriptionAck option \<Rightarrow> bool) \<Rightarrow> socket_event set \<Rightarrow>
      OkxWebsocketSubscriptionAck \<Rightarrow> bool" where
  "acknowledged_by J context optional es a \<longleftrightarrow> (\<exists>p. Message (Text p) \<in> es \<and>
     (parse_subscription_event J p context = Inr (Acknowledged a) \<or>
      (\<exists>code msg. parse_subscription_event J p context = Inr (Error code msg (Some a)) \<and> optional code (Some a))))"

lemma mono_acknowledged: "mono (\<lambda>es. \<forall>a\<in>pending. acknowledged_by J context optional es a)"
  unfolding mono_def le_bool_def acknowledged_by_def by blast

lemma take_ack_result:
  "take_ack context a w = (r, w') \<Longrightarrow>
    (\<exists>e. r = Inl e \<and> w' = w) \<or>
    (a \<in> aw_pending w \<and> aw_pending w' = aw_pending w - {a} \<and> aw_acknowledged w' = insert a (aw_acknowledged w) \<and>
     aw_state w' = aw_state w \<and> r = Inr (if aw_pending w' = {} then Some () else None))"
  by (auto simp: take_ack_def acknowledge_subscription_def split: if_splits)

text \<open>A turn acknowledges a pending channel, applies data of an acknowledged one, or changes nothing.\<close>

lemma ack_step_result:
  assumes "ack_step J context optional deliver p w = (r, w')"
  shows "(w' = w \<and> (\<forall>u. r \<noteq> Inr (Some u))) \<or>
    (\<exists>a. acknowledged_by J context optional {Message (Text p)} a \<and> a \<in> aw_pending w \<and>
       aw_pending w' = aw_pending w - {a} \<and> aw_acknowledged w' = insert a (aw_acknowledged w) \<and>
       aw_state w' = aw_state w \<and> r = Inr (if aw_pending w' = {} then Some () else None)) \<or>
    (\<exists>a. parse_subscription_event J p context = Inr (Data a) \<and> a \<in> aw_acknowledged w \<and>
       w' = w\<lparr> aw_state := snd (deliver p (aw_state w)) \<rparr> \<and> (\<forall>u. r \<noteq> Inr (Some u)))"
proof (cases "parse_subscription_event J p context")
  case (Inr ev)
  show ?thesis
  proof (cases ev)
    case (Data a)
    with Inr assms show ?thesis
      by (auto simp: ack_step_def rbind_eq_Inr split: if_splits prod.splits)
  qed (use Inr assms in \<open>auto simp: ack_step_def acknowledged_by_def split: option.splits if_splits dest!: take_ack_result\<close>)
qed (use assms in \<open>auto simp: ack_step_def\<close>)

lemma wait_acks_suffix:
  "wait_for_subscription_acks J reading context optional deliver pending s es = (r, s', es') \<Longrightarrow> set es' \<subseteq> set es"
  by (auto simp: wait_for_subscription_acks_def Let_def split: if_splits prod.splits option.splits loop_end.splits
      dest!: read_loop_suffix)

lemma wait_acks_complete:
  assumes "wait_for_subscription_acks J reading context optional deliver pending s es = (Some (Inr u), s', es')"
  shows "\<forall>a\<in>pending. acknowledged_by J context optional (set es) a"
proof (cases "pending = {}")
  case False
  let ?A = "acknowledged_by J context optional (set es)"
  let ?gone = "Inl (of_protocol (ClosedBeforeSubscriptionAck context)) :: unit res"
  have up: "?A a" if "acknowledged_by J context optional {Message (Text p)} a" "Message (Text p) \<in> set es" for p a
    using that unfolding acknowledged_by_def by auto
  have "case read_loop True reading (ack_step J context optional deliver) ?gone ?gone
      \<lparr> aw_pending = pending, aw_acknowledged = {}, aw_state = s \<rparr> es of
    (r, w, _) \<Rightarrow> (\<exists>u. r = Some (Finished (Inr u))) \<longrightarrow> (\<forall>a\<in>pending. ?A a)"
    by (rule read_loop_rule [where P = "\<lambda>w. \<forall>a\<in>pending - aw_pending w. ?A a"])
      (auto dest!: ack_step_result dest: up split: if_splits, (use up in blast)+)
  with assms False show ?thesis
    by (auto simp: wait_for_subscription_acks_def Let_def split: prod.splits option.splits loop_end.splits)
qed simp

text \<open>What is applied meanwhile is the data of requested channels.\<close>

lemma wait_acks_data:
  assumes "wait_for_subscription_acks J reading context optional deliver pending s es = (r, s', es')"
  shows "\<exists>ps. s' = fold (\<lambda>p x. snd (deliver p x)) ps s \<and>
    (\<forall>p\<in>set ps. \<exists>a\<in>pending. parse_subscription_event J p context = Inr (Data a) \<and>
       acknowledged_by J context optional (set es) a)"
proof (cases "pending = {}")
  case True
  with assms show ?thesis by (auto simp: wait_for_subscription_acks_def intro!: exI [of _ "[]"])
next
  case False
  let ?A = "acknowledged_by J context optional (set es)"
  let ?D = "\<lambda>x. \<exists>ps. x = fold (\<lambda>p x. snd (deliver p x)) ps s \<and>
    (\<forall>p\<in>set ps. \<exists>a\<in>pending. parse_subscription_event J p context = Inr (Data a) \<and> ?A a)"
  let ?P = "\<lambda>w. aw_pending w \<subseteq> pending \<and> aw_acknowledged w \<subseteq> pending \<and> (\<forall>a\<in>aw_acknowledged w. ?A a) \<and> ?D (aw_state w)"
  let ?gone = "Inl (of_protocol (ClosedBeforeSubscriptionAck context)) :: unit res"
  have up: "?A a" if "acknowledged_by J context optional {Message (Text p)} a" "Message (Text p) \<in> set es" for p a
    using that unfolding acknowledged_by_def by auto
  have more: "?D (snd (deliver p x))"
    if "?D x" "parse_subscription_event J p context = Inr (Data a)" "a \<in> pending" "?A a" for p x a
  proof -
    from that(1) obtain ps where "x = fold (\<lambda>p x. snd (deliver p x)) ps s"
      "\<forall>p\<in>set ps. \<exists>a\<in>pending. parse_subscription_event J p context = Inr (Data a) \<and> ?A a" by blast
    with that(2-4) show ?thesis by (intro exI [of _ "ps @ [p]"]) auto
  qed
  have step: "?P w'" if "?P w" "Message (Text p) \<in> set es" "ack_step J context optional deliver p w = (q, w')"
    for w w' p q
    using ack_step_result [OF that(3)]
  proof (elim disjE exE conjE)
    fix a
    assume "acknowledged_by J context optional {Message (Text p)} a" "a \<in> aw_pending w"
      "aw_pending w' = aw_pending w - {a}" "aw_acknowledged w' = insert a (aw_acknowledged w)"
      "aw_state w' = aw_state w"
    with that(1) up [OF _ that(2)] show ?thesis by (simp add: subset_iff)
  next
    fix a
    assume d: "parse_subscription_event J p context = Inr (Data a)" "a \<in> aw_acknowledged w"
      "w' = w\<lparr> aw_state := snd (deliver p (aw_state w)) \<rparr>"
    with that(1) have "?D (aw_state w')" using more [OF _ d(1)] by auto
    with that(1) d(3) show ?thesis by simp
  qed (use that in simp)
  have start: "?P \<lparr> aw_pending = pending, aw_acknowledged = {}, aw_state = s \<rparr>"
    by (auto intro: exI [of _ "[]"])
  have "case read_loop True reading (ack_step J context optional deliver) ?gone ?gone
      \<lparr> aw_pending = pending, aw_acknowledged = {}, aw_state = s \<rparr> es of (r, w, _) \<Rightarrow> ?P w"
    by (rule read_loop_rule [where P = ?P and Q = "\<lambda>_. ?P", OF start]) (assumption | erule (2) step)+
  then have "?D (aw_state (fst (snd (read_loop True reading (ack_step J context optional deliver) ?gone ?gone
      \<lparr> aw_pending = pending, aw_acknowledged = {}, aw_state = s \<rparr> es))))"
    by (simp split: prod.splits)
  moreover have "s' = aw_state (fst (snd (read_loop True reading (ack_step J context optional deliver) ?gone ?gone
      \<lparr> aw_pending = pending, aw_acknowledged = {}, aw_state = s \<rparr> es)))"
    using assms False
    by (auto simp: wait_for_subscription_acks_def Let_def split: prod.splits option.splits loop_end.splits)
  ultimately show ?thesis by simp
qed

lemma wait_acks_keeps:
  assumes "P s" and "\<And>p x. P x \<Longrightarrow> P (snd (deliver p x))"
  shows "P (fst (snd (wait_for_subscription_acks J reading context optional deliver pending s es)))"
proof -
  obtain r s' es' where wait: "wait_for_subscription_acks J reading context optional deliver pending s es = (r, s', es')"
    by (cases "wait_for_subscription_acks J reading context optional deliver pending s es")
  from wait_acks_data [OF wait] obtain ps where "s' = fold (\<lambda>p x. snd (deliver p x)) ps s" by blast
  moreover have "P (fold (\<lambda>p x. snd (deliver p x)) ps s)" using assms by (induction ps arbitrary: s) auto
  ultimately show ?thesis by (simp add: wait)
qed

lemma halts_wait_acks [halts_intros]:
  "halts (ssocket (wait_for_subscription_acks J reading context optional deliver pending))"
  unfolding halts_def
proof (intro allI impI)
  fix s :: "'a session"
  assume ended: "Ended \<in> set (ss_events s)"
  let ?gone = "Inl (of_protocol (ClosedBeforeSubscriptionAck context)) :: unit res"
  from read_loop_ends [OF ended, of True reading "ack_step J context optional deliver" ?gone ?gone
      "\<lparr> aw_pending = pending, aw_acknowledged = {}, aw_state = ss_state s \<rparr>"] ended
  show "\<exists>r s'. ssocket (wait_for_subscription_acks J reading context optional deliver pending) s = (Some r, s') \<and>
    (Ended \<in> set (ss_events s') \<or> (\<exists>e. r = Inl e))"
    by (cases "pending = {}") (auto simp: ssocket_def wait_for_subscription_acks_def Let_def
        split: prod.splits option.splits loop_end.splits)
qed

lemma stream_messages_keeps:
  assumes "P s" and "\<And>p x. P x \<Longrightarrow> P (snd (deliver p x))"
  shows "P (fst (snd (stream_messages context deliver s es)))"
proof -
  let ?h = "\<lambda>p s. case deliver p s of (r, s') \<Rightarrow> (rbind r (\<lambda>_. Inr None), s')"
  have "P (fst (snd (read_loop False context ?h (Inr ()) (Inr () :: unit res) s es)))"
    by (rule read_loop_invariant) (use assms in \<open>auto split: prod.splits\<close>, metis snd_conv)
  then show ?thesis by (auto simp: stream_messages_def split: prod.splits option.splits loop_end.splits)
qed

lemma stops_stream_messages [halts_intros]:
  "stops (ssocket (stream_messages context deliver))"
  unfolding stops_def
proof (intro allI impI)
  fix s :: "'a session"
  let ?h = "\<lambda>p s. case deliver p s of (r, s') \<Rightarrow> (rbind r (\<lambda>_. Inr None), s')"
  assume "Ended \<in> set (ss_events s)"
  from read_loop_ends [OF this, of False "context" ?h "Inr ()" "Inr () :: unit res" "ss_state s"]
  obtain x s' es' where run: "read_loop False context ?h (Inr ()) (Inr () :: unit res) (ss_state s) (ss_events s) =
    (Some x, s', es')" by blast
  have "case read_loop False context ?h (Inr ()) (Inr () :: unit res) (ss_state s) (ss_events s) of
    (r, s', _) \<Rightarrow> r \<noteq> Some TimedOut"
    by (rule read_loop_rule [where P = "\<lambda>_. True"]) auto
  with run have "x \<noteq> TimedOut" by simp
  then show "\<exists>r s'. ssocket (stream_messages context deliver) s = (Some r, s')"
    using run by (cases x) (auto simp: ssocket_def stream_messages_def)
qed

section \<open>The reconnecting loop\<close>

text \<open>A session before its first run.\<close>

definition session_start :: "'s \<Rightarrow> 's session" where
  "session_start x = \<lparr> ss_state = x, ss_health = [], ss_events = [], ss_subscribed = False \<rparr>"

definition own_events :: "OkxWebsocketStreamIdentity \<Rightarrow> 's session \<Rightarrow> bool" where
  "own_events stream s \<longleftrightarrow> (\<forall>e\<in>set (ss_health s). he_stream e = stream)"

lemma own_kinds: "own_events stream s \<Longrightarrow> kinds_of stream (ss_health s) = map he_kind (ss_health s)"
  by (auto simp: own_events_def kinds_of_def filter_id_conv)

locale stream_runner =
  fixes once :: "'c \<Rightarrow> 's session \<Rightarrow> stream_run \<times> 's session"
    and stream :: OkxWebsocketStreamIdentity
    and evidence :: "'c \<Rightarrow> bool"
  assumes once_reports: "once c s = (r, s') \<Longrightarrow> \<not> ss_subscribed s \<Longrightarrow> \<exists>ks. reported stream s ks s' \<and>
      ((\<forall>out. r \<noteq> RunEnded out) \<longrightarrow> (ss_subscribed s' \<longleftrightarrow> ks \<noteq> [] \<and> last ks = SubscriptionAckSucceeded) \<and>
        (ss_subscribed s' \<longrightarrow> evidence c))"
begin

text \<open>The tracker's view of a stream is that it is subscribed, and it is only with the evidence.\<close>

lemma reconnecting_up:
  assumes "reconnecting policy stream once after attempt backoff cs s = (r, s')"
    and "own_events stream s" and "\<not> up_now stream (ss_health s)" and "\<not> ss_subscribed s"
  shows "own_events stream s' \<and> (up_now stream (ss_health s') \<longleftrightarrow> ss_subscribed s') \<and>
    (ss_subscribed s' \<longrightarrow> (\<exists>c\<in>set cs. evidence c))"
  using assms
proof (induction cs arbitrary: attempt backoff s)
  case Nil
  then show ?case by simp
next
  case (Cons c cs)
  obtain q t where once: "once c (s\<lparr> ss_subscribed := False \<rparr>) = (q, t)" by force
  from once_reports [OF once] obtain ks where ks: "reported stream s ks t"
    and up: "(\<forall>out. q \<noteq> RunEnded out) \<Longrightarrow>
      (ss_subscribed t \<longleftrightarrow> ks \<noteq> [] \<and> last ks = SubscriptionAckSucceeded) \<and> (ss_subscribed t \<longrightarrow> evidence c)"
    by (auto simp: reported_def)
  have own: "own_events stream t" using ks Cons.prems(2) by (auto simp: reported_def own_events_def health_event_new_def)
  show ?case
  proof (cases "\<exists>out. q = RunEnded out")
    case True
    then obtain out where out: "q = RunEnded out" by blast
    let ?attempt = "min (attempt + 1) u64_max"
    let ?t = "t\<lparr> ss_state := after (ss_state t), ss_subscribed := False,
      ss_health := ss_health t @ [reconnect_scheduled stream ?attempt backoff] \<rparr>"
    have "own_events stream ?t" using own by (auto simp: own_events_def reconnect_scheduled_def)
    moreover have "\<not> up_now stream (ss_health ?t)" by (simp add: up_now_def reconnect_scheduled_def)
    ultimately show ?thesis using Cons.IH [of ?attempt "backoff_after_stream_run policy backoff out" ?t]
      Cons.prems(1) once out by (auto simp: Let_def)
  next
    case False
    with Cons.prems(1) once have eq: "r = q" "s' = t" by (auto split: stream_run.splits)
    have "up_now stream (ss_health t) \<longleftrightarrow> ss_subscribed t"
      using up own_kinds [OF own] ks own_kinds [OF Cons.prems(2)] False Cons.prems(3)
      by (cases ks rule: rev_cases) (auto simp: up_now_def reported_def health_event_new_def)
    with own up False eq show ?thesis by auto
  qed
qed

end

lemma subscribes_once:
  assumes "subscribes stream A m" and "finish_run stream (m (s\<lparr> ss_events := es \<rparr>)) = (r, s')" and "\<not> ss_subscribed s"
  shows "\<exists>ks. reported stream s ks s' \<and>
    ((\<forall>out. r \<noteq> RunEnded out) \<longrightarrow> (ss_subscribed s' \<longleftrightarrow> ks \<noteq> [] \<and> last ks = SubscriptionAckSucceeded) \<and>
      (ss_subscribed s' \<longrightarrow> A (set es)))"
proof -
  obtain q t where m: "m (s\<lparr> ss_events := es \<rparr>) = (q, t)" by force
  from assms(1,3) m obtain ks where ks: "reported stream s ks t"
    "ss_subscribed t \<longleftrightarrow> ks \<noteq> [] \<and> last ks = SubscriptionAckSucceeded" "ss_subscribed t \<longrightarrow> A (set es)"
  proof -
    from assms(1) m assms(3) have "(\<exists>ks. reported (stream) (s\<lparr> ss_events := es \<rparr>) ks t \<and>
        (ss_subscribed t \<longleftrightarrow> ks \<noteq> [] \<and> last ks = SubscriptionAckSucceeded)) \<and> (ss_subscribed t \<longrightarrow> A (set es))"
      unfolding subscribes_def by (metis session.select_convs(3,4) session.surjective session.update_convs(3))
    with that show ?thesis by (auto simp: reported_def)
  qed
  have ended: "\<exists>ls. reported stream s ls (snd (end_run stream t out))" for out
    using ks(1) by (cases "stream_outcome_kind out")
      (auto simp: end_run_def report_stream_outcome_def reported_def intro: exI [of _ ks] exI [of _ "ks @ [k]" for k])
  show ?thesis
  proof (cases "\<exists>out. r = RunEnded out")
    case True
    then obtain out where "s' = snd (end_run stream t out)"
      using assms(2) m by (auto simp: finish_run_def end_run_def split: option.splits sum.splits fault.splits)
    with ended True show ?thesis by blast
  next
    case False
    then have "s' = t"
      using assms(2) m by (auto simp: finish_run_def end_run_def split: option.splits sum.splits fault.splits)
    with ks show ?thesis by blast
  qed
qed

lemma keeps_finish:
  "keeps P m \<Longrightarrow> P (ss_state s) \<Longrightarrow> P (ss_state (snd (finish_run stream (m s))))"
  unfolding keeps_def
  by (cases "m s") (auto simp: finish_run_def end_run_def split: option.split sum.split fault.split)

lemma reconnecting_keeps:
  assumes once: "\<And>c s. P (ss_state s) \<Longrightarrow> P (ss_state (snd (once c s)))" and "\<And>x. P x \<Longrightarrow> P (after x)"
    and "P (ss_state s)"
  shows "P (ss_state (snd (reconnecting policy stream once after attempt backoff cs s)))"
  using assms(3)
proof (induction cs arbitrary: attempt backoff s)
  case (Cons c cs)
  from once [of "s\<lparr> ss_subscribed := False \<rparr>" c] Cons.prems
  have "P (ss_state (snd (once c (s\<lparr> ss_subscribed := False \<rparr>))))" by simp
  moreover obtain r t where run: "once c (s\<lparr> ss_subscribed := False \<rparr>) = (r, t)" by force
  ultimately have "P (ss_state t)" by simp
  then show ?case using run Cons.IH assms(2) by (cases r) (simp_all add: Let_def)
qed simp

end
