(* ===== verification/Level2_Correct.thy ===== *)
theory Level2_Correct
  imports Level2_Book
begin

text \<open>
  Correctness of the live book: the invariant of every reachable book, what each outcome of an apply
  means for the state, and the refinement of the sequence automaton of the \<open>books\<close> channel.
\<close>

section \<open>Errors of the features\<close>

text \<open>Computing features panics or reports an empty side or a zero denominator, nothing else.\<close>

lemma feature_parts_fail [fail_rules]:
  "fails_only P (signed_ratio D x y)" "fails_only P (positive_ratio D x y)"
  "fails_only P (side_depth D ls)" "fails_only P (sum_quantity D ls)"
  "fails_only P (sum_notional D ls)" "fails_only P (sum_distance_weighted D ls)"
  by (auto simp: signed_ratio_def positive_ratio_def side_depth_def sum_quantity_def
      sum_notional_def sum_distance_weighted_def intro!: fail_rules)

lemma features_parts_fail [fail_rules]:
  "fails_only P (imbalance D b n)" "fails_only P (distance_weighted_imbalance D b)"
  "fails_only P (notional_imbalance D b n)" "fails_only P (near_book_depth D b n)"
  "fails_only P (depth_to_move D b mid n)" "fails_only P (depth_slope D b mid n)"
  "fails_only P (liquidity_vacuum D b)"
  unfolding imbalance_def distance_weighted_imbalance_def notional_imbalance_def
    near_book_depth_def depth_to_move_def depth_slope_def liquidity_vacuum_def
  by (intro fail_rules)+

lemma volatility_step_fail [fail_rules]: "fails_only P (volatility_step D s mid)"
proof (cases s)
  case (fields v c previous)
  then show ?thesis
    by (auto simp: volatility_step_def absolute_return_bps_def intro!: fail_rules)
qed

lemma rolling_parts_fail [fail_rules]:
  "fails_only P (imbalance_velocity D ps x t)" "fails_only P (imbalance_persistence D ps x)"
  "fails_only P (book_volatility D ps x)"
  unfolding imbalance_velocity_def imbalance_persistence_def book_volatility_def
  by (intro fail_rules)+

definition feature_error :: "OkxLevel2BookError \<Rightarrow> bool" where
  "feature_error e = (e = EmptySide \<or> (\<exists>what. e = ZeroDenominator what))"

lemma features_before_fail: "fails_only feature_error (features_before D b)"
  unfolding features_before_def by (intro fail_rules) (auto simp: feature_error_def)

lemma features_after_fail: "fails_only feature_error (features_after D b u t1 t2 p r)"
  unfolding features_after_def by (intro fail_rules)

lemma rolling_features_fail: "fails_only feature_error (fst (rolling_features D b mid imb recv))"
proof -
  have "fails_only feature_error
      (rbind (imbalance_velocity D (lb_rolling b) imb recv) (\<lambda>v.
       rbind (imbalance_persistence D (lb_rolling b) imb) (\<lambda>p.
       rbind (book_volatility D (lb_rolling b) mid) (\<lambda>w. Inr (v, p, w)))))"
    by (intro fail_rules)
  then show ?thesis by (auto simp: rolling_features_def Let_def fails_only_def split: sum.splits)
qed

lemma calculate_features_fail:
  "fails_only feature_error (fst (calculate_features D b u t1 t2))"
  using features_before_fail [of D b] features_after_fail [of D _ u t1 t2]
    rolling_features_fail [of D b]
  by (auto simp: calculate_features_def fails_only_def split: sum.splits prod.splits)
    (metis fst_conv)

section \<open>Outcomes\<close>

text \<open>The rolling window and the stored features are all that computing features changes.\<close>

definition same_book :: "OkxLevel2Book \<Rightarrow> OkxLevel2Book \<Rightarrow> bool" where
  "same_book b b' =
     (\<exists>points. b' = b\<lparr> lb_rolling := points \<rparr> \<and>
        (length (lb_rolling b) \<le> FEATURE_ROLLING_WINDOW \<longrightarrow> length points \<le> FEATURE_ROLLING_WINDOW))"

lemma push_point_length:
  "length ps \<le> FEATURE_ROLLING_WINDOW \<Longrightarrow> length (push_point ps p) \<le> FEATURE_ROLLING_WINDOW"
  by (auto simp: push_point_def FEATURE_ROLLING_WINDOW_def)

lemma rolling_features_same: "same_book b (snd (rolling_features D b mid imb recv))"
  by (cases b)
    (auto simp: same_book_def rolling_features_def Let_def push_point_length split: sum.split)

lemma same_book_refl: "same_book b b"
  by (cases b) (auto simp: same_book_def intro!: exI [of _ "lb_rolling b"])

lemma calculate_features_same: "same_book b (snd (calculate_features D b u t1 t2))"
  using rolling_features_same [of b D]
  by (auto simp: calculate_features_def Let_def same_book_refl case_prod_beta split: sum.split)

lemma features_after_fields:
  assumes "features_after D b u t1 t2 p r = Inr f"
  shows "fs_instrument_id f = lb_instrument_id b \<and> fs_epoch f = lb_epoch b \<and>
    fs_generation f = lb_generation b \<and> fs_sequence_id f = l2_sequence_id (lu2_data u) \<and>
    fs_best_bid f = fp_best_bid p \<and> fs_best_ask f = fp_best_ask p \<and>
    fs_bid_level_count f = length (lb_bids b) \<and> fs_ask_level_count f = length (lb_asks b)"
proof (cases r)
  case (fields v q w)
  with assms show ?thesis
    by (auto simp: features_after_def rbind_eq_Inr)
qed

lemma features_before_best:
  assumes "features_before D b = Inr p"
  shows "map_option fst (bt_last (lb_bids b)) = Some (fp_best_bid p) \<and>
    map_option fst (bt_first (lb_asks b)) = Some (fp_best_ask p)"
  using assms by (auto simp: features_before_def rbind_eq_Inr split: prod.splits)

lemma calculate_features_Inr:
  assumes "calculate_features D b u t1 t2 = (Inr f, b')"
  shows "fs_instrument_id f = lb_instrument_id b \<and> fs_epoch f = lb_epoch b \<and>
    fs_generation f = lb_generation b \<and> fs_sequence_id f = l2_sequence_id (lu2_data u) \<and>
    map_option fst (bt_last (lb_bids b)) = Some (fs_best_bid f) \<and>
    map_option fst (bt_first (lb_asks b)) = Some (fs_best_ask f) \<and>
    fs_bid_level_count f = length (lb_bids b) \<and> fs_ask_level_count f = length (lb_asks b)"
proof -
  obtain p r b1 where p: "features_before D b = Inr p"
    and r: "rolling_features D b (fp_mid p) (fp_imbalances p ! 3) (lu2_received_at u) =
        (Inr r :: OkxLevel2BookError fault + _, b1)"
    and f: "features_after D b1 u t1 t2 p r = Inr f"
    using assms unfolding calculate_features_def
    by (cases "features_before D b") (simp_all split: sum.splits prod.splits)
  have "same_book b b1" using rolling_features_same r by (metis snd_conv)
  then show ?thesis
    using features_after_fields [OF f] features_before_best [OF p] by (auto simp: same_book_def)
qed

text \<open>What the snapshot of a successful apply says of the book it leaves.\<close>

definition features_describe :: "OkxLevel2FeatureSnapshot \<Rightarrow> OkxLevel2Book \<Rightarrow> bool" where
  "features_describe f b =
     (lb_features b = Some f \<and> fs_instrument_id f = lb_instrument_id b \<and> fs_epoch f = lb_epoch b \<and>
      fs_generation f = lb_generation b \<and> lb_sequence_id b = Some (fs_sequence_id f) \<and>
      map_option fst (bt_last (lb_bids b)) = Some (fs_best_bid f) \<and>
      map_option fst (bt_first (lb_asks b)) = Some (fs_best_ask f) \<and>
      fs_bid_level_count f = length (lb_bids b) \<and> fs_ask_level_count f = length (lb_asks b))"

lemma finish_or_invalidate_cases:
  assumes "finish_or_invalidate D clock b u = (r, b')"
    and "lb_sequence_id b = Some (l2_sequence_id (lu2_data u))"
  obtains (features) f b1 where "r = Inr (Features f)" and "same_book b b1"
      and "b' = b1\<lparr> lb_features := Some f \<rparr>" and "features_describe f b'"
  | (panic) "r = Inl Panic" and "same_book b b'"
  | (error) e where "r = Inl (Fail e)" and "b' = invalidate b" and "feature_error e"
proof -
  obtain q b1 where calc: "calculate_features D b u (clock 0) (clock 1) = (q, b1)" by fastforce
  have same: "same_book b b1" using calculate_features_same calc by (metis snd_conv)
  show thesis
  proof (cases q)
    case (Inr f)
    with calc same assms show thesis
      using calculate_features_Inr [of D b u "clock 0" "clock 1" f b1]
      by (intro features) (auto simp: finish_or_invalidate_def finish_features_def
          features_describe_def same_book_def)
  next
    case (Inl e)
    show thesis
    proof (cases e)
      case Panic
      with Inl calc same assms(1) show thesis
        by (intro panic) (auto simp: finish_or_invalidate_def finish_features_def)
    next
      case (Fail e')
      then have "feature_error e'"
        using calculate_features_fail [of D b u "clock 0" "clock 1"] calc Inl
        by (auto dest: fails_onlyD)
      with Fail Inl calc same assms(1) show thesis
        by (intro error) (auto simp: finish_or_invalidate_def finish_features_def same_book_def
            invalidate_def)
    qed
  qed
qed

section \<open>The sequence automaton\<close>

text \<open>
  What the channel's contract says about sequence numbers: waiting for a snapshot (\<open>None\<close>) or at a
  position.  \<open>feed_step s action prev seq result s'\<close>.
\<close>

datatype feed_result = Applied | Alive | Foreign | Waiting | Rejected

inductive feed_step ::
    "int option \<Rightarrow> OkxLevel2Action \<Rightarrow> int \<Rightarrow> int \<Rightarrow> feed_result \<Rightarrow> int option \<Rightarrow> bool" where
  feed_foreign: "feed_step s a p q Foreign s"
| feed_waiting: "feed_step None Update p q Waiting None"
| feed_snapshot: "feed_step s Snapshot p q Applied (Some q)"
| feed_snapshot_rejected: "feed_step s Snapshot p q Rejected None"
| feed_alive: "feed_step (Some c) Update c c Alive (Some c)"
| feed_increment: "c < q \<Longrightarrow> feed_step (Some c) Update c q Applied (Some q)"
| feed_increment_rejected: "feed_step (Some c) Update p q Rejected None"

inductive_cases feed_step_Update: "feed_step s Update p q r s'"

fun feed_result_of :: "OkxLevel2BookError fault + OkxLevel2ApplyOutcome \<Rightarrow> feed_result" where
  "feed_result_of (Inr (Features _)) = Applied"
| "feed_result_of (Inr Heartbeat) = Alive"
| "feed_result_of (Inl (Fail (L2_InstrumentMismatch _ _))) = Foreign"
| "feed_result_of (Inl (Fail UpdateBeforeSnapshot)) = Waiting"
| "feed_result_of (Inl _) = Rejected"

definition feed_position :: "OkxLevel2Book \<Rightarrow> int option" where
  "feed_position b = (if lb_valid b then lb_sequence_id b else None)"

text \<open>No error of a valid book's own instrument is one of the two that keep the book.\<close>

lemma side_errors_reject:
  "snapshot_sides d = Inl e \<Longrightarrow> feed_result_of (Inl (Fail e)) = Rejected"
  "increment_sides b d = Inl e \<Longrightarrow> feed_result_of (Inl (Fail e)) = Rejected"
proof -
  have build: "try_fold build_snapshot_step s us = Inl e \<Longrightarrow> \<exists>p. e = L2_DuplicatePrice p"
    for s us e
    by (induction us arbitrary: s)
      (auto simp: rbind_eq_Inl build_snapshot_step_def Let_def bt_insert_def split: if_splits)
  have side: "try_fold level2_apply_step x us = Inl e \<Longrightarrow>
      \<exists>p. e = L2_DuplicatePrice p \<or> e = UnknownRemoval p" for x us e
    by (induction us arbitrary: x)
      (auto simp: rbind_eq_Inl level2_apply_step_def Let_def bt_insert_def bt_remove_def
        split: if_splits)
  have val: "validate_book x y = Inl e \<Longrightarrow> e = EmptySide \<or> (\<exists>p q. e = CrossedBook p q)" for x y e
    by (auto simp: validate_book_def rbind_eq_Inl)
  show "snapshot_sides d = Inl e \<Longrightarrow> feed_result_of (Inl (Fail e)) = Rejected"
    by (auto simp: snapshot_sides_def rbind_eq_Inl build_snapshot_side_def dest!: build val)
  show "increment_sides b d = Inl e \<Longrightarrow> feed_result_of (Inl (Fail e)) = Rejected"
    by (auto simp: increment_sides_def rbind_eq_Inl level2_apply_side_def Let_def
        dest!: side val)
qed

section \<open>The invariant\<close>

definition level2_ok :: "OkxLevel2Book \<Rightarrow> bool" where
  "level2_ok b =
     (positive_side (lb_bids b) \<and> positive_side (lb_asks b) \<and>
      length (lb_bids b) \<le> OKX_LEVEL2_MAX_DEPTH \<and> length (lb_asks b) \<le> OKX_LEVEL2_MAX_DEPTH \<and>
      length (lb_rolling b) \<le> FEATURE_ROLLING_WINDOW \<and>
      (lb_valid b \<longrightarrow> validate_book (lb_bids b) (lb_asks b) = Inr () \<and> lb_sequence_id b \<noteq> None) \<and>
      (\<not> lb_valid b \<longrightarrow> lb_bids b = [] \<and> lb_asks b = [] \<and> lb_sequence_id b = None \<and>
         lb_features b = None \<and> lb_rolling b = []))"

lemma level2_new_ok: "level2_ok (level2_new i)"
  by (simp add: level2_ok_def level2_new_def)

lemma invalidate_ok: "level2_ok (invalidate b)"
  by (simp add: level2_ok_def invalidate_def)

lemma same_book_ok: "same_book b b' \<Longrightarrow> lb_valid b \<Longrightarrow> level2_ok b \<Longrightarrow> level2_ok b'"
  by (auto simp: same_book_def level2_ok_def)

lemma finish_or_invalidate_ok:
  assumes "finish_or_invalidate D clock b u = (r, b')" and "level2_ok b" and "lb_valid b"
    and "lb_sequence_id b = Some (l2_sequence_id (lu2_data u))"
  shows "level2_ok b'"
  using assms(1,4)
proof (cases rule: finish_or_invalidate_cases)
  case (features f b1)
  then have "level2_ok b1" "lb_valid b1"
    using assms(2,3) same_book_ok by (auto simp: same_book_def)
  with features show ?thesis by (simp add: level2_ok_def)
qed (use assms(2,3) in \<open>auto intro: same_book_ok invalidate_ok\<close>)

lemma snapshot_sides_Inr:
  assumes "snapshot_sides d = Inr (bids, asks)" and "data_wf d"
  shows "positive_side bids \<and> positive_side asks \<and> length bids \<le> OKX_LEVEL2_MAX_DEPTH \<and>
    length asks \<le> OKX_LEVEL2_MAX_DEPTH \<and> validate_book bids asks = Inr ()"
proof -
  from assms(1) have b: "build_snapshot_side (l2_bids d) = Inr bids"
      "build_snapshot_side (l2_asks d) = Inr asks"
    and len: "length (l2_bids d) \<le> OKX_LEVEL2_MAX_DEPTH" "length (l2_asks d) \<le> OKX_LEVEL2_MAX_DEPTH"
    and v: "validate_book bids asks = Inr ()"
    by (auto simp: snapshot_sides_def rbind_eq_Inr)
  moreover have "length bids \<le> length (l2_bids d)" "length asks \<le> length (l2_asks d)"
    using build_snapshot_side_length [of "[]" "l2_bids d" bids]
      build_snapshot_side_length [of "[]" "l2_asks d" asks] b
    by (simp_all add: build_snapshot_side_def)
  ultimately show ?thesis
    using assms(2) build_snapshot_side_ok by (auto simp: data_wf_def)
qed

lemma increment_sides_Inr:
  assumes "increment_sides b d = Inr (bids, asks)" and "data_wf d"
    and "positive_side (lb_bids b)" and "positive_side (lb_asks b)"
  shows "positive_side bids \<and> positive_side asks \<and> length bids \<le> OKX_LEVEL2_MAX_DEPTH \<and>
    length asks \<le> OKX_LEVEL2_MAX_DEPTH \<and> validate_book bids asks = Inr ()"
proof -
  from assms(1) obtain s t where "level2_apply_side (lb_bids b) (l2_bids d) = Inr s"
      "level2_apply_side (lb_asks b) (l2_asks d) = Inr t"
    and sides: "bids = trim_to_depth s Bid" "asks = trim_to_depth t Ask"
    and v: "validate_book bids asks = Inr ()"
    by (auto simp: increment_sides_def rbind_eq_Inr Let_def)
  with assms have "positive_side s" "positive_side t"
    using level2_apply_side_positive by (auto simp: data_wf_def)
  with sides v show ?thesis using trim_to_depth_positive by simp
qed

text \<open>A built side holds the non-zero levels of the snapshot.\<close>

lemma build_snapshot_fold_get:
  assumes "try_fold build_snapshot_step s us = Inr s'" and "bt_ok s"
  shows "bt_ok s' \<and> (\<forall>p l. bt_get s' p = Some l \<longleftrightarrow> bt_get s p = Some l \<or>
    (\<exists>v\<in>set us. lv_quantity v \<noteq> 0 \<and> lv_price v = p \<and> level2_level_of v = l))"
  using assms
proof (induction us arbitrary: s)
  case (Cons u us)
  then obtain t where t: "build_snapshot_step s u = Inr t" "try_fold build_snapshot_step t us = Inr s'"
    by (auto simp: rbind_eq_Inr)
  have "bt_ok t" and "\<forall>p l. bt_get t p = Some l \<longleftrightarrow> bt_get s p = Some l \<or>
      (lv_quantity u \<noteq> 0 \<and> lv_price u = p \<and> level2_level_of u = l)"
    using t(1) Cons.prems(2)
    by (auto simp: build_snapshot_step_def Let_def bt_insert_def bt_ok_put bt_get_put
        level2_level_of_def split: if_splits)
  with Cons.IH [OF t(2)] show ?case by auto
qed simp

lemma build_snapshot_side_get:
  assumes "build_snapshot_side us = Inr s"
  shows "\<forall>p l. bt_get s p = Some l \<longleftrightarrow>
    (\<exists>v\<in>set us. lv_quantity v \<noteq> 0 \<and> lv_price v = p \<and> level2_level_of v = l)"
  using build_snapshot_fold_get [OF assms [unfolded build_snapshot_side_def]] by simp

text \<open>The book right after an accepted snapshot or increment, before its features are computed.\<close>

definition snapshot_book ::
    "OkxLevel2Book \<Rightarrow> OkxLevel2Data \<Rightarrow> level2_side \<Rightarrow> level2_side \<Rightarrow> OkxLevel2Book" where
  "snapshot_book b d bids asks =
     b\<lparr> lb_bids := bids, lb_asks := asks, lb_valid := True, lb_epoch := sat_succ (lb_epoch b),
        lb_generation := sat_succ (lb_generation b), lb_sequence_id := Some (l2_sequence_id d),
        lb_rolling := [] \<rparr>"

definition increment_book ::
    "OkxLevel2Book \<Rightarrow> OkxLevel2Data \<Rightarrow> level2_side \<Rightarrow> level2_side \<Rightarrow> OkxLevel2Book" where
  "increment_book b d bids asks =
     b\<lparr> lb_bids := bids, lb_asks := asks, lb_generation := sat_succ (lb_generation b),
        lb_sequence_id := Some (l2_sequence_id d) \<rparr>"

text \<open>Every apply falls under one of these cases.\<close>

lemma apply_with_clock_cases:
  assumes "apply_with_clock D clock b u = (r, b')" and "level2_ok b" and "data_wf (lu2_data u)"
  obtains (foreign) "lu2_instrument_id u \<noteq> lb_instrument_id b" and "b' = b"
      and "r = Inl (Fail (L2_InstrumentMismatch (lb_instrument_id b) (lu2_instrument_id u)))"
  | (waiting) "lu2_action u = Update" and "\<not> lb_valid b" and "b' = b"
      and "r = Inl (Fail UpdateBeforeSnapshot)"
  | (heartbeat) c where "lu2_action u = Update" and "lb_valid b" and "lb_sequence_id b = Some c"
      and "l2_previous_sequence_id (lu2_data u) = c" and "l2_sequence_id (lu2_data u) = c"
      and "l2_asks (lu2_data u) = []" and "l2_bids (lu2_data u) = []"
      and "b' = b" and "r = Inr Heartbeat"
  | (rejected) e where "lu2_action u = Update \<Longrightarrow> lb_valid b" and "b' = invalidate b"
      and "r = Inl (Fail e)" and "feed_result_of r = Rejected"
  | (snapshot) bids asks where "lu2_action u = Snapshot"
      and "snapshot_sides (lu2_data u) = Inr (bids, asks)"
      and "finish_or_invalidate D clock (snapshot_book b (lu2_data u) bids asks) u = (r, b')"
      and "level2_ok (snapshot_book b (lu2_data u) bids asks)"
  | (increment) bids asks c where "lu2_action u = Update" and "lb_valid b"
      and "lb_sequence_id b = Some c" and "l2_previous_sequence_id (lu2_data u) = c"
      and "c < l2_sequence_id (lu2_data u)"
      and "increment_sides b (lu2_data u) = Inr (bids, asks)"
      and "finish_or_invalidate D clock (increment_book b (lu2_data u) bids asks) u = (r, b')"
      and "level2_ok (increment_book b (lu2_data u) bids asks)"
proof (cases "lu2_instrument_id u = lb_instrument_id b")
  case False
  with assms(1) show thesis by (intro foreign) (auto simp: apply_with_clock_def)
next
  case own: True
  show thesis
  proof (cases "lu2_action u")
    case Snapshot
    with own assms(1) have "apply_snapshot D clock b u = (r, b')"
      by (simp add: apply_with_clock_def)
    moreover have "level2_ok (snapshot_book b (lu2_data u) bids asks)"
      if "snapshot_sides (lu2_data u) = Inr (bids, asks)" for bids asks
      using snapshot_sides_Inr [OF that assms(3)] by (simp add: level2_ok_def snapshot_book_def)
    ultimately show thesis
      using side_errors_reject(1)
      by (cases "snapshot_sides (lu2_data u)")
        (auto simp: apply_snapshot_def snapshot_book_def Snapshot intro: snapshot rejected)
  next
    case Update
    with own assms(1) have inc: "apply_increment D clock b u = (r, b')"
      by (simp add: apply_with_clock_def)
    show thesis
    proof (cases "lb_valid b")
      case False
      with inc Update show thesis by (intro waiting) (auto simp: apply_increment_def)
    next
      case valid: True
      with assms(2) obtain c where c: "lb_sequence_id b = Some c" by (auto simp: level2_ok_def)
      show thesis
      proof (cases "increment_sides b (lu2_data u)")
        case (Inl e)
        with inc valid c Update show thesis
          using side_errors_reject(2)
          by (auto simp: apply_increment_def Let_def split: if_splits intro: heartbeat rejected)
      next
        case (Inr sides)
        obtain bids asks where sides: "increment_sides b (lu2_data u) = Inr (bids, asks)"
          using Inr by (cases sides) simp
        have "level2_ok (increment_book b (lu2_data u) bids asks)"
          using increment_sides_Inr [OF sides assms(3)] assms(2) valid
          by (simp add: level2_ok_def increment_book_def)
        with sides inc valid c Update show thesis
          by (auto simp: apply_increment_def increment_book_def Let_def split: if_splits
              intro: heartbeat rejected increment)
      qed
    qed
  qed
qed

lemma apply_with_clock_ok:
  assumes "apply_with_clock D clock b u = (r, b')" and "level2_ok b" and "data_wf (lu2_data u)"
  shows "level2_ok b'"
  using assms
proof (cases rule: apply_with_clock_cases)
  case (snapshot bids asks)
  then show ?thesis
    by (auto intro: finish_or_invalidate_ok simp: snapshot_book_def)
next
  case (increment bids asks c)
  then show ?thesis
    by (auto intro: finish_or_invalidate_ok simp: increment_book_def)
qed (use assms(2) in \<open>auto intro: invalidate_ok\<close>)

text \<open>The books that validated messages of any content and order can produce.\<close>

inductive level2_reachable :: "decimal_ops \<Rightarrow> OkxSpotInstrumentId \<Rightarrow> OkxLevel2Book \<Rightarrow> bool" for D i where
  l2_reach_new: "level2_reachable D i (level2_new i)"
| l2_reach_invalidate: "level2_reachable D i b \<Longrightarrow> level2_reachable D i (invalidate b)"
| l2_reach_apply: "level2_reachable D i b \<Longrightarrow> data_wf (lu2_data u) \<Longrightarrow>
    level2_reachable D i (snd (apply_with_clock D clock b u))"

lemma level2_reachable_ok: "level2_reachable D i b \<Longrightarrow> level2_ok b"
  by (induction rule: level2_reachable.induct)
    (auto intro: level2_new_ok invalidate_ok apply_with_clock_ok [OF prod.collapse [symmetric]])

lemma feed_position_ok: "level2_ok b \<Longrightarrow> feed_position b = lb_sequence_id b"
  by (auto simp: feed_position_def level2_ok_def)

lemma feature_error_rejects: "feature_error e \<Longrightarrow> feed_result_of (Inl (Fail e)) = Rejected"
  by (auto simp: feature_error_def)

lemma apply_refines_feed:
  assumes "apply_with_clock D clock b u = (r, b')" and "level2_ok b" and "data_wf (lu2_data u)"
    and "r \<noteq> Inl Panic"
  shows "feed_step (feed_position b) (lu2_action u) (l2_previous_sequence_id (lu2_data u))
    (l2_sequence_id (lu2_data u)) (feed_result_of r) (feed_position b')"
  using assms(1-3)
proof (cases rule: apply_with_clock_cases)
  case foreign
  then show ?thesis by (simp add: feed_foreign)
next
  case waiting
  then show ?thesis by (simp add: feed_position_def feed_waiting)
next
  case (heartbeat c)
  then show ?thesis by (simp add: feed_position_def feed_alive)
next
  case (rejected e)
  have none: "feed_position b' = None" by (simp add: rejected feed_position_def invalidate_def)
  show ?thesis
  proof (cases "lu2_action u")
    case Snapshot
    with rejected none show ?thesis by (simp add: feed_snapshot_rejected)
  next
    case Update
    with rejected assms(2) obtain c where "feed_position b = Some c"
      by (auto simp: feed_position_def level2_ok_def)
    with Update rejected none show ?thesis by (simp add: feed_increment_rejected)
  qed
next
  case (snapshot bids asks)
  then have "lb_sequence_id (snapshot_book b (lu2_data u) bids asks) =
      Some (l2_sequence_id (lu2_data u))"
    by (simp add: snapshot_book_def)
  with snapshot(3) show ?thesis
  proof (cases rule: finish_or_invalidate_cases)
    case (features f b1)
    then show ?thesis
      by (auto simp: snapshot same_book_def snapshot_book_def feed_position_def feed_snapshot)
  next
    case (error e)
    then show ?thesis
      by (simp add: snapshot feature_error_rejects feed_position_def invalidate_def
          feed_snapshot_rejected)
  qed (use assms(4) in simp)
next
  case (increment bids asks c)
  then have "lb_sequence_id (increment_book b (lu2_data u) bids asks) =
      Some (l2_sequence_id (lu2_data u))"
    by (simp add: increment_book_def)
  with increment(7) show ?thesis
  proof (cases rule: finish_or_invalidate_cases)
    case (features f b1)
    then show ?thesis
      using increment
      by (auto simp: same_book_def increment_book_def feed_position_def feed_increment)
  next
    case (error e)
    then show ?thesis
      using increment by (simp add: feature_error_rejects feed_position_def invalidate_def
          feed_increment_rejected)
  qed (use assms(4) in simp)
qed

section \<open>Following a feed between snapshots\<close>

text \<open>
  What a consumer of a sequenced feed relies on: while it sees no snapshot its position only moves
  forward, and once it is lost it stays lost.  The book is an instance.
\<close>

locale sequenced_feed =
  fixes advance :: "'b \<Rightarrow> 'u \<Rightarrow> 'b"
    and good :: "'b \<Rightarrow> bool"
    and admissible :: "'b \<Rightarrow> 'u \<Rightarrow> bool"
    and position :: "'b \<Rightarrow> int option"
  assumes good_advance: "good b \<Longrightarrow> admissible b u \<Longrightarrow> good (advance b u)"
    and forward: "good b \<Longrightarrow> admissible b u \<Longrightarrow> position b = Some c \<Longrightarrow>
      position (advance b u) = Some d \<Longrightarrow> c \<le> d"
    and lost: "good b \<Longrightarrow> admissible b u \<Longrightarrow> position b = None \<Longrightarrow> position (advance b u) = None"
begin

inductive follows :: "'b \<Rightarrow> 'b \<Rightarrow> bool" where
  follows_refl: "follows b b"
| follows_step: "follows b b' \<Longrightarrow> admissible b' u \<Longrightarrow> follows b (advance b' u)"

lemma follows_good: "follows b b' \<Longrightarrow> good b \<Longrightarrow> good b'"
  by (induction rule: follows.induct) (auto intro: good_advance)

lemma follows_lost: "follows b b' \<Longrightarrow> good b \<Longrightarrow> position b = None \<Longrightarrow> position b' = None"
  by (induction rule: follows.induct) (auto intro: lost follows_good)

lemma follows_forward:
  assumes "follows b b'" and "good b" and "position b' = Some d"
  shows "\<exists>c. position b = Some c \<and> c \<le> d"
  using assms
proof (induction arbitrary: d rule: follows.induct)
  case (follows_step b b' u)
  have good': "good b'" using follows_step follows_good by blast
  show ?case
  proof (cases "position b'")
    case None
    then show ?thesis using lost [OF good' follows_step(2) None] follows_step.prems(2) by simp
  next
    case (Some e)
    then have "e \<le> d" using forward good' follows_step by blast
    with follows_step.IH [OF follows_step.prems(1) Some] show ?thesis by fastforce
  qed
qed auto

end

definition increment_admissible ::
    "decimal_ops \<Rightarrow> OkxLevel2Book \<Rightarrow> OkxLevel2Update \<Rightarrow> bool" where
  "increment_admissible D b u =
     (lu2_action u = Update \<and> data_wf (lu2_data u) \<and> fst (level2_apply D b u) \<noteq> Inl Panic)"

interpretation level2_feed:
  sequenced_feed "\<lambda>b u. snd (level2_apply D b u)" level2_ok "increment_admissible D" feed_position
proof
  fix b u
  assume "level2_ok b" "increment_admissible D b u"
  then have ok: "level2_ok (snd (level2_apply D b u))"
    and step: "feed_step (feed_position b) Update (l2_previous_sequence_id (lu2_data u))
        (l2_sequence_id (lu2_data u)) (feed_result_of (fst (level2_apply D b u)))
        (feed_position (snd (level2_apply D b u)))"
    using apply_with_clock_ok [of D _ b u] apply_refines_feed [of D _ b u]
    by (auto simp: increment_admissible_def level2_apply_def
        intro: apply_with_clock_ok [OF prod.collapse [symmetric]])
  then show "level2_ok (snd (level2_apply D b u))" by simp
  show "c \<le> d" if "feed_position b = Some c" "feed_position (snd (level2_apply D b u)) = Some d"
    for c d
    using step that by (auto elim: feed_step_Update)
  show "feed_position (snd (level2_apply D b u)) = None" if "feed_position b = None"
    using step that by (auto elim: feed_step_Update)
qed

section \<open>A concrete run\<close>

lemmas level2_eval =
  level2_apply_def apply_with_clock_def level2_new_def apply_snapshot_def apply_increment_def
  snapshot_sides_def increment_sides_def OKX_LEVEL2_MAX_DEPTH_def build_snapshot_side_def
  build_snapshot_step_def level2_apply_side_def level2_apply_step_def trim_to_depth.simps
  bt_insert_def bt_remove_def Let_def validate_book_def bt_last_def bt_first_def
  finish_or_invalidate_def finish_features_def calculate_features_def features_before_def
  dec_ops_defs dec_sum_def imbalance_def sum_quantity_def signed_ratio_def
  distance_weighted_imbalance_def sum_distance_weighted_def near_book_depth_def side_depth_def
  depth_slope_def edge_price_def positive_ratio_def liquidity_vacuum_def sum_notional_def
  BASIS_POINTS_PER_UNIT_def rolling_features_def imbalance_velocity_def
  imbalance_persistence_def decimal_sign_def book_volatility_def volatility_step_def
  absolute_return_bps_def elapsed_micros_def u64_max_def push_point_def
  FEATURE_ROLLING_WINDOW_def features_after_def notional_imbalance_def depth_to_move_def

definition sample_update ::
    "OkxLevel2Action \<Rightarrow> int \<Rightarrow> int \<Rightarrow> OkxLevel2Level list \<Rightarrow> OkxLevel2Level list \<Rightarrow> OkxLevel2Update" where
  "sample_update action prev seq asks bids =
     \<lparr> lu2_instrument_id = SpotId ''BTC-USDT'', lu2_action = action,
       lu2_data = \<lparr> l2_asks = asks, l2_bids = bids, l2_ts = 5, l2_sequence_id = seq,
         l2_previous_sequence_id = prev \<rparr>,
       lu2_received_at = 1000, lu2_parsed_at = 1000 \<rparr>"

definition sample_level :: "decimal \<Rightarrow> decimal \<Rightarrow> OkxLevel2Level" where
  "sample_level p q =
     \<lparr> lv_price = p, lv_quantity = q, lv_order_count = (if q = 0 then 0 else 1) \<rparr>"

definition sample_snapshot :: OkxLevel2Update where
  "sample_snapshot = sample_update Snapshot (- 1) 10 [sample_level 101 1] [sample_level 99 1]"

definition sample_increment :: OkxLevel2Update where
  "sample_increment = sample_update Update 10 11 [] [sample_level 100 1]"

definition sample_level2_book :: OkxLevel2Book where
  "sample_level2_book =
     snd (level2_apply exact_decimal (level2_new (SpotId ''BTC-USDT'')) sample_snapshot)"

lemma sample_data_wf: "data_wf (lu2_data sample_snapshot)" "data_wf (lu2_data sample_increment)"
  by (simp_all add: sample_snapshot_def sample_increment_def sample_update_def sample_level_def
      data_wf_def level_wf_def u64_max_def)

lemma sample_level2_book_fields:
  "lb_instrument_id sample_level2_book = SpotId ''BTC-USDT''"
  "lb_bids sample_level2_book = [(99, \<lparr> l2l_quantity = 1, l2l_order_count = 1 \<rparr>)]"
  "lb_asks sample_level2_book = [(101, \<lparr> l2l_quantity = 1, l2l_order_count = 1 \<rparr>)]"
  "lb_valid sample_level2_book" "lb_sequence_id sample_level2_book = Some 10"
  "lb_rolling sample_level2_book =
     [\<lparr> rp_mid = 100, rp_imbalance_l10 = 0, rp_received_at = 1000 \<rparr>]"
  by (simp_all add: sample_level2_book_def sample_snapshot_def sample_update_def sample_level_def
      level2_eval)

lemma sample_level2_reachable:
  "level2_reachable exact_decimal (SpotId ''BTC-USDT'') sample_level2_book"
  unfolding sample_level2_book_def level2_apply_def
  by (intro l2_reach_apply l2_reach_new sample_data_wf)

lemma sample_increment_applied:
  obtains f b where "level2_apply exact_decimal sample_level2_book sample_increment =
      (Inr (Features f), b)"
proof -
  have "\<exists>f. fst (level2_apply exact_decimal sample_level2_book sample_increment) =
      Inr (Features f)"
    by (simp add: sample_level2_book_fields sample_increment_def sample_update_def
        sample_level_def level2_eval)
  then obtain f where "level2_apply exact_decimal sample_level2_book sample_increment =
      (Inr (Features f), snd (level2_apply exact_decimal sample_level2_book sample_increment))"
    by (metis prod.collapse)
  then show thesis by (rule that)
qed

section \<open>Properties\<close>

text \<open>
  C18: every book reachable through validated messages is either invalid and empty (no levels, no
  sequence number, no features, no rolling points) or a proper book: strictly ordered sides of
  positive prices and quantities, 1 to 400 levels each, best bid below best ask, at a known sequence
  number; the rolling window never exceeds 32 points.
\<close>
theorem level2_book_invariant:
  assumes "level2_reachable D i b"
  shows "(if lb_valid b
     then sorted_wrt (<) (map fst (lb_bids b)) \<and> sorted_wrt (<) (map fst (lb_asks b)) \<and>
       (\<forall>(p, l)\<in>set (lb_bids b) \<union> set (lb_asks b). 0 < p \<and> 0 < l2l_quantity l) \<and>
       length (lb_bids b) \<in> {1..400} \<and> length (lb_asks b) \<in> {1..400} \<and>
       fst (last (lb_bids b)) < fst (hd (lb_asks b)) \<and> lb_sequence_id b \<noteq> None
     else lb_bids b = [] \<and> lb_asks b = [] \<and> lb_sequence_id b = None \<and> lb_features b = None \<and>
       lb_rolling b = []) \<and>
    length (lb_rolling b) \<le> 32"
proof -
  have ok: "level2_ok b" using assms by (rule level2_reachable_ok)
  have "fst (last (lb_bids b)) < fst (hd (lb_asks b)) \<and> lb_bids b \<noteq> [] \<and> lb_asks b \<noteq> []"
    if "lb_valid b"
    using ok that
    by (auto simp: level2_ok_def validate_book_Inr bt_last_def bt_first_def
        split: if_splits list.splits)
  with ok show ?thesis
    by (auto simp: level2_ok_def positive_side_def bt_ok_def OKX_LEVEL2_MAX_DEPTH_def
        FEATURE_ROLLING_WINDOW_def Suc_le_eq)
qed

theorem level2_book_invariant_witness:
  "lb_valid sample_level2_book \<and> length (lb_bids sample_level2_book) \<in> {1..400} \<and>
   fst (last (lb_bids sample_level2_book)) < fst (hd (lb_asks sample_level2_book))"
  using level2_book_invariant [OF sample_level2_reachable] sample_level2_book_fields(4)
  by (simp split: if_splits)

text \<open>
  C16: the book implements the channel's sequence automaton: whatever validated message arrives, unless
  arithmetic panics, its validity and sequence number move as the automaton allows for the message's
  action and sequence numbers, with the result the caller is told.
\<close>
theorem level2_refines_feed:
  assumes "level2_reachable D i b" and "data_wf (lu2_data u)"
    and "apply_with_clock D clock b u = (r, b')" and "r \<noteq> Inl Panic"
  shows "feed_step (feed_position b) (lu2_action u) (l2_previous_sequence_id (lu2_data u))
    (l2_sequence_id (lu2_data u)) (feed_result_of r) (feed_position b')"
  using apply_refines_feed [OF assms(3) level2_reachable_ok [OF assms(1)] assms(2,4)] .

theorem level2_refines_feed_witness:
  "\<exists>b'. feed_step (Some 10) Update 10 11 Applied (feed_position b')"
proof -
  obtain f b where run: "level2_apply exact_decimal sample_level2_book sample_increment =
      (Inr (Features f), b)"
    by (rule sample_increment_applied)
  have "feed_step (feed_position sample_level2_book) (lu2_action sample_increment)
      (l2_previous_sequence_id (lu2_data sample_increment))
      (l2_sequence_id (lu2_data sample_increment)) (feed_result_of (Inr (Features f)))
      (feed_position b)"
    by (rule level2_refines_feed [OF sample_level2_reachable sample_data_wf(2)
          run [unfolded level2_apply_def]]) simp
  then have "feed_step (Some 10) Update 10 11 Applied (feed_position b)"
    by (simp add: feed_position_def [of sample_level2_book] sample_level2_book_fields
        sample_increment_def sample_update_def)
  then show ?thesis by blast
qed

text \<open>
  An error either leaves the book untouched (a message of another instrument, an increment while
  waiting for a snapshot) or leaves it invalid, empty and without features: no error leaves a
  half-applied book behind.
\<close>
theorem level2_errors_invalidate:
  assumes "level2_reachable D i b" and "data_wf (lu2_data u)"
    and "apply_with_clock D clock b u = (Inl (Fail e), b')"
  shows "(if e = L2_InstrumentMismatch (lb_instrument_id b) (lu2_instrument_id u) \<or>
        e = UpdateBeforeSnapshot
     then b' = b
     else \<not> lb_valid b' \<and> lb_bids b' = [] \<and> lb_asks b' = [] \<and> lb_sequence_id b' = None \<and>
       lb_rolling b' = [] \<and> features_of b' = None)"
  using assms(3) level2_reachable_ok [OF assms(1)] assms(2)
proof (cases rule: apply_with_clock_cases)
  case (snapshot bids asks)
  from snapshot(3) show ?thesis
    by (cases rule: finish_or_invalidate_cases)
      (auto simp: snapshot_book_def invalidate_def features_of_def feature_error_def)
next
  case (increment bids asks c)
  from increment(7) show ?thesis
    by (cases rule: finish_or_invalidate_cases)
      (use increment in \<open>auto simp: increment_book_def invalidate_def features_of_def
        feature_error_def\<close>)
qed (auto simp: invalidate_def features_of_def)

theorem level2_errors_invalidate_witness:
  "\<not> lb_valid (snd (level2_apply exact_decimal sample_level2_book
      (sample_update Update 7 11 [] [sample_level 100 1])))"
proof -
  have wf: "data_wf (lu2_data (sample_update Update 7 11 [] [sample_level 100 1]))"
    by (simp add: sample_update_def sample_level_def data_wf_def level_wf_def u64_max_def)
  have run: "apply_with_clock exact_decimal (\<lambda>_. 1000) sample_level2_book
      (sample_update Update 7 11 [] [sample_level 100 1]) =
      (Inl (Fail (SequenceGap 10 7 11)), invalidate sample_level2_book)"
    by (simp add: apply_with_clock_def apply_increment_def Let_def sample_update_def
        sample_level2_book_fields)
  from level2_errors_invalidate [OF sample_level2_reachable wf run] run show ?thesis
    by (simp add: level2_apply_def sample_update_def)
qed

text \<open>
  C19: an applied increment continues the sequence and changes exactly the levels it names: each price
  at most once, removals only of known prices, and both sides then cut to the 400 levels nearest the
  market; the features it returns describe the book it leaves.
\<close>
theorem level2_increment_levels:
  assumes "level2_reachable D i b" and "data_wf (lu2_data u)" and "lu2_action u = Update"
    and "apply_with_clock D clock b u = (Inr (Features f), b')"
  shows "lb_valid b \<and> lb_sequence_id b = Some (l2_previous_sequence_id (lu2_data u)) \<and>
    l2_previous_sequence_id (lu2_data u) < l2_sequence_id (lu2_data u) \<and>
    distinct (map lv_price (l2_bids (lu2_data u))) \<and> distinct (map lv_price (l2_asks (lu2_data u))) \<and>
    (\<exists>bids asks. bt_ok bids \<and> bt_ok asks \<and>
       bt_get bids = level2_effect (l2_bids (lu2_data u)) (bt_get (lb_bids b)) \<and>
       bt_get asks = level2_effect (l2_asks (lu2_data u)) (bt_get (lb_asks b)) \<and>
       lb_bids b' = drop (length bids - 400) bids \<and> lb_asks b' = take 400 asks) \<and>
    lb_generation b' = sat_succ (lb_generation b) \<and> lb_epoch b' = lb_epoch b \<and>
    features_describe f b'"
  using assms(4) level2_reachable_ok [OF assms(1)] assms(2)
proof (cases rule: apply_with_clock_cases)
  case (increment bids asks c)
  obtain s t where st: "level2_apply_side (lb_bids b) (l2_bids (lu2_data u)) = Inr s"
      "level2_apply_side (lb_asks b) (l2_asks (lu2_data u)) = Inr t"
    and sides: "bids = trim_to_depth s Bid" "asks = trim_to_depth t Ask"
    using increment(6) by (auto simp: increment_sides_def rbind_eq_Inr Let_def)
  have "bt_ok (lb_bids b)" "bt_ok (lb_asks b)"
    using level2_reachable_ok [OF assms(1)] by (auto simp: level2_ok_def positive_side_def)
  note eff = level2_apply_side_Inr [OF st(1) this(1)] level2_apply_side_Inr [OF st(2) this(2)]
  have trimmed: "bids = drop (length s - 400) s" "asks = take 400 t"
    using eff sides by (simp_all add: trim_to_depth_Bid trim_to_depth_Ask OKX_LEVEL2_MAX_DEPTH_def)
  obtain b1 where "same_book (increment_book b (lu2_data u) bids asks) b1"
      and "b' = b1\<lparr> lb_features := Some f \<rparr>" and "features_describe f b'"
    using increment(7) by (cases rule: finish_or_invalidate_cases) (auto simp: increment_book_def)
  then have "lb_bids b' = bids" "lb_asks b' = asks" "lb_epoch b' = lb_epoch b"
      "lb_generation b' = sat_succ (lb_generation b)" "features_describe f b'"
    by (auto simp: same_book_def increment_book_def)
  with increment(2-5) eff trimmed show ?thesis by blast
qed (use assms(3) in simp_all)

theorem level2_increment_levels_witness:
  "\<exists>f b. level2_apply exact_decimal sample_level2_book sample_increment = (Inr (Features f), b) \<and>
    lb_generation b = sat_succ (lb_generation sample_level2_book) \<and> features_describe f b"
proof -
  obtain f b where run: "level2_apply exact_decimal sample_level2_book sample_increment =
      (Inr (Features f), b)"
    by (rule sample_increment_applied)
  moreover have "lu2_action sample_increment = Update"
    by (simp add: sample_increment_def sample_update_def)
  ultimately show ?thesis
    using level2_increment_levels [OF sample_level2_reachable sample_data_wf(2) _
        run [unfolded level2_apply_def]] by blast
qed

text \<open>
  An accepted snapshot starts a new epoch and its book holds exactly the snapshot's non-zero
  levels, whatever the book held before.
\<close>
theorem level2_snapshot_levels:
  assumes "level2_reachable D i b" and "data_wf (lu2_data u)" and "lu2_action u = Snapshot"
    and "apply_with_clock D clock b u = (Inr (Features f), b')"
  shows "(\<forall>p l. bt_get (lb_bids b') p = Some l \<longleftrightarrow>
      (\<exists>v\<in>set (l2_bids (lu2_data u)). lv_quantity v \<noteq> 0 \<and> lv_price v = p \<and> level2_level_of v = l)) \<and>
    (\<forall>p l. bt_get (lb_asks b') p = Some l \<longleftrightarrow>
      (\<exists>v\<in>set (l2_asks (lu2_data u)). lv_quantity v \<noteq> 0 \<and> lv_price v = p \<and> level2_level_of v = l)) \<and>
    lb_valid b' \<and> lb_epoch b' = sat_succ (lb_epoch b) \<and> length (lb_rolling b') \<le> 32 \<and>
    features_describe f b'"
  using assms(4) level2_reachable_ok [OF assms(1)] assms(2)
proof (cases rule: apply_with_clock_cases)
  case (snapshot bids asks)
  have built: "build_snapshot_side (l2_bids (lu2_data u)) = Inr bids"
      "build_snapshot_side (l2_asks (lu2_data u)) = Inr asks"
    using snapshot(2) by (auto simp: snapshot_sides_def rbind_eq_Inr)
  obtain b1 where "same_book (snapshot_book b (lu2_data u) bids asks) b1"
      and "b' = b1\<lparr> lb_features := Some f \<rparr>" and "features_describe f b'"
    using snapshot(3) by (cases rule: finish_or_invalidate_cases) (auto simp: snapshot_book_def)
  then have "lb_bids b' = bids" "lb_asks b' = asks" "lb_epoch b' = sat_succ (lb_epoch b)"
      "lb_valid b'" "features_describe f b'" "length (lb_rolling b') \<le> 32"
    by (auto simp: same_book_def snapshot_book_def FEATURE_ROLLING_WINDOW_def)
  with build_snapshot_side_get [OF built(1)] build_snapshot_side_get [OF built(2)]
  show ?thesis by simp
qed (use assms(3) in simp_all)

theorem level2_snapshot_levels_witness:
  "bt_get (lb_bids sample_level2_book) 99 = Some \<lparr> l2l_quantity = 1, l2l_order_count = 1 \<rparr> \<and>
   lb_epoch sample_level2_book = 1"
proof -
  have "\<exists>f. fst (level2_apply exact_decimal (level2_new (SpotId ''BTC-USDT'')) sample_snapshot) =
      Inr (Features f)"
    by (simp add: sample_snapshot_def sample_update_def sample_level_def level2_eval)
  then obtain f where run: "level2_apply exact_decimal (level2_new (SpotId ''BTC-USDT''))
      sample_snapshot = (Inr (Features f), sample_level2_book)"
    unfolding sample_level2_book_def by (metis prod.collapse)
  have act: "lu2_action sample_snapshot = Snapshot"
    by (simp add: sample_snapshot_def sample_update_def)
  note snap = level2_snapshot_levels [OF l2_reach_new sample_data_wf(1) act
      run [unfolded level2_apply_def]]
  have "sample_level 99 1 \<in> set (l2_bids (lu2_data sample_snapshot))"
    by (simp add: sample_snapshot_def sample_update_def)
  moreover have "lv_quantity (sample_level 99 1) \<noteq> 0" "lv_price (sample_level 99 1) = 99"
      "level2_level_of (sample_level 99 1) = \<lparr> l2l_quantity = 1, l2l_order_count = 1 \<rparr>"
    by (simp_all add: sample_level_def level2_level_of_def)
  ultimately have "bt_get (lb_bids sample_level2_book) 99 =
      Some \<lparr> l2l_quantity = 1, l2l_order_count = 1 \<rparr>"
    using snap by blast
  with snap show ?thesis by (simp add: level2_new_def sat_succ_def)
qed

text \<open>
  as long as no snapshot arrives, a followed book's sequence number never goes back, and a book
  that lost its position does not regain one.
\<close>
theorem level2_position_forward:
  assumes "level2_reachable D i b" and "level2_feed.follows D b b'"
    and "feed_position b' = Some d"
  shows "\<exists>c. feed_position b = Some c \<and> c \<le> d"
  using level2_feed.follows_forward [OF assms(2) level2_reachable_ok [OF assms(1)] assms(3)] .

theorem level2_position_forward_witness:
  "\<exists>c d. feed_position sample_level2_book = Some c \<and>
    feed_position (snd (level2_apply exact_decimal sample_level2_book sample_increment)) = Some d \<and>
    c \<le> d"
proof -
  have adm: "increment_admissible exact_decimal sample_level2_book sample_increment"
    using sample_data_wf(2) sample_increment_applied
    by (metis fst_conv increment_admissible_def Inr_not_Inl sample_increment_def
        sample_update_def OkxLevel2Update.select_convs(2))
  have "feed_position (snd (level2_apply exact_decimal sample_level2_book sample_increment)) =
      Some 11"
    by (simp add: sample_level2_book_fields sample_increment_def sample_update_def
        sample_level_def level2_eval feed_position_def)
  with level2_position_forward [OF sample_level2_reachable
      level2_feed.follows_step [OF level2_feed.follows_refl adm]]
  show ?thesis by blast
qed

end
