(* ===== verification/Market_Guarantees.thy ===== *)
theory Market_Guarantees
  imports Market_Stream Stream_Stages Level2_Correct
begin

text \<open>
  What holds of the market streams: the invariant of their cache over any sequence of connections and
  messages, the series of candles, the protection of configured instruments, the subscriptions, and what
  the health tracker may conclude.
\<close>

section \<open>The invariant of the cache\<close>

definition candle_series_ok :: "string \<times> string \<Rightarrow> candle_series \<Rightarrow> bool" where
  "candle_series_ok k bars \<longleftrightarrow> bt_ok bars \<and> length bars \<le> OKX_MARKET_CANDLE_CACHE_MAX_BARS \<and>
     (\<forall>(t, h)\<in>set bars. t = mb_ts_ms (ch_bar h) \<and> k = (ch_inst_id h, ch_channel h) \<and>
        market_bar_validate (ch_bar h) ''OKX WebSocket candle'' = Inr ())"

definition market_cache_ok :: "decimal_ops \<Rightarrow> OkxMarketDataState \<Rightarrow> bool" where
  "market_cache_ok D s \<longleftrightarrow>
     hints_ok OKX_MARKET_DATA_CACHE_MAX_HINTS_PER_KIND
       (keyed_entry (ticker_hint_check D) (\<lambda>h. tk_inst_id (th_ticker h)) ticker_hint_ops)
       (md_tickers_by_inst_id s) \<and>
     hints_ok OKX_MARKET_DATA_CACHE_MAX_HINTS_PER_KIND candle_series_ok (md_candles_by_inst_id_and_channel s) \<and>
     hints_ok OKX_MARKET_DATA_CACHE_MAX_HINTS_PER_KIND
       (keyed_entry (\<lambda>h. validate_instrument_update (ih_instrument h) = Inr ())
         (\<lambda>h. iu_inst_id (ih_instrument h)) instrument_hint_ops)
       (md_instruments_by_inst_id s) \<and>
     (\<forall>k b. md_level2_books_by_instrument s k = Some b \<longrightarrow> level2_reachable D k b)"

lemma market_cache_default_ok: "market_cache_ok D market_data_state_default"
  by (simp add: market_cache_ok_def market_data_state_default_def)

text \<open>What the parser passes on.\<close>

definition market_hint_ok :: "decimal_ops \<Rightarrow> OkxMarketDataHint \<Rightarrow> bool" where
  "market_hint_ok D h =
     (case h of
        TickerHint x \<Rightarrow> ticker_hint_check D x
      | CandleHint x \<Rightarrow>
          market_bar_validate (ch_bar x) ''OKX WebSocket candle'' = Inr () \<and>
          ch_source_ts_ms x = Some (mb_ts_ms (ch_bar x))
      | InstrumentHint x \<Rightarrow> validate_instrument_update (ih_instrument x) = Inr ()
      | Level2Hint u \<Rightarrow> data_wf (lu2_data u))"

lemma parsed_hints_ok:
  assumes "parse_public_market_data_message D J payload received_at parsed_at = Inr hints"
  shows "\<forall>h\<in>set hints. market_hint_ok D h"
proof -
  have ticker: "ticker_row D arg received_at r = Inr h \<Longrightarrow> market_hint_ok D h" for arg r h
    by (auto simp: ticker_row_def rbind_eq_Inr Let_def market_hint_ok_def ticker_hint_check_def)
  have bar: "parse_candle_data r = Inr b \<Longrightarrow> market_bar_validate b ''OKX WebSocket candle'' = Inr ()" for r b
    by (auto simp: parse_candle_data_def rbind_eq_Inr Let_def)
  then have candle: "candle_row i c received_at r = Inr h \<Longrightarrow> market_hint_ok D h" for i c r h
    by (auto simp: candle_row_def rbind_eq_Inr market_hint_ok_def)
  have instrument: "instrument_row t received_at r = Inr h \<Longrightarrow> market_hint_ok D h" for t r h
    by (auto simp: instrument_row_def rbind_eq_Inr market_hint_ok_def)
  have books: "books_rows D J m arg rows received_at parsed_at = Inr hs \<Longrightarrow> \<forall>h\<in>set hs. market_hint_ok D h"
    for m arg rows hs
    by (auto simp: books_rows_def rbind_eq_Inr market_hint_ok_def from_validated_def books_message_wf_def
        dest!: parse_books_message_wf)
  have rows: "try_map f xs = Inr hs \<Longrightarrow> (\<And>x h. f x = Inr h \<Longrightarrow> market_hint_ok D h) \<Longrightarrow> \<forall>h\<in>set hs. market_hint_ok D h"
    for f :: "'x \<Rightarrow> OkxMarketDataHint res" and xs hs
    by (rule try_map_all) blast+
  have channel: "public_channel_hints D J m arg data received_at parsed_at = Inr hs \<Longrightarrow>
      \<forall>h\<in>set hs. market_hint_ok D h" for m arg data hs
    unfolding public_channel_hints_def
    by (auto simp: rbind_eq_Inr split: if_splits dest: rows [OF _ ticker] rows [OF _ candle] rows [OF _ instrument] books)
  show ?thesis
    using assms by (auto simp: parse_public_market_data_message_def rbind_eq_Inr split: if_splits option.splits dest: channel)
qed

lemma trim_series_ok:
  assumes "bt_ok bars"
  shows "bt_ok (trim_series bars) \<and> length (trim_series bars) \<le> OKX_MARKET_CANDLE_CACHE_MAX_BARS \<and>
    set (trim_series bars) \<subseteq> set bars"
  using assms
proof (induction bars rule: trim_series.induct)
  case (1 bars)
  show ?case
  proof (cases "length bars > OKX_MARKET_CANDLE_CACHE_MAX_BARS \<and> bars \<noteq> []")
    case True
    then obtain t h rest where bars: "bars = (t, h) # rest" by (cases bars) auto
    then have first: "bt_first bars = Some (t, h)" and del: "snd (bt_remove t bars) = rest"
      by (simp_all add: bt_first_def bt_remove_def)
    have "bt_ok rest" using 1(2) bars by (simp add: bt_ok_Cons)
    from 1(1) [OF _ first refl] True this del have IH: "bt_ok (trim_series rest) \<and>
      length (trim_series rest) \<le> OKX_MARKET_CANDLE_CACHE_MAX_BARS \<and> set (trim_series rest) \<subseteq> set rest" by simp
    moreover have "trim_series bars = trim_series rest"
      using True first del by (subst trim_series.simps) simp
    ultimately show ?thesis using bars by auto
  next
    case False
    then have "trim_series bars = bars" by (subst trim_series.simps) auto
    with False 1(2) show ?thesis by (cases "bars = []") auto
  qed
qed

lemma set_bt_put: "set (bt_put k v m) \<subseteq> insert (k, v) (set m)"
  by (induction k v m rule: bt_put.induct) auto

lemma candle_insert_ok:
  assumes "candle_series_ok k bars" and "k = (ch_inst_id h, ch_channel h)"
    and "market_bar_validate (ch_bar h) ''OKX WebSocket candle'' = Inr ()"
  shows "candle_series_ok k (trim_series (snd (bt_insert (mb_ts_ms (ch_bar h)) h bars)))"
proof -
  let ?put = "bt_put (mb_ts_ms (ch_bar h)) h bars"
  have "bt_ok ?put" using assms(1) by (simp add: candle_series_ok_def bt_ok_put)
  from trim_series_ok [OF this] set_bt_put [of "mb_ts_ms (ch_bar h)" h bars] assms show ?thesis
    by (auto simp: candle_series_ok_def bt_insert_def)
qed

lemma candle_series_at:
  assumes "market_cache_ok D s"
  shows "candle_series_ok k (case map_of (md_candles_by_inst_id_and_channel s) k of None \<Rightarrow> [] | Some bars \<Rightarrow> bars)"
  using assms by (auto simp: market_cache_ok_def hints_ok_def candle_series_ok_def split: option.split
      dest!: map_of_SomeD)

lemma insert_candle_ok:
  assumes ok: "market_cache_ok D s" and h: "market_hint_ok D (CandleHint h)"
  shows "market_cache_ok D (snd (insert_candle_hint pick now h s))"
proof -
  let ?key = "(ch_inst_id h, ch_channel h)"
  let ?series = "md_candles_by_inst_id_and_channel s"
  let ?bars = "case map_of ?series ?key of None \<Rightarrow> [] | Some bars \<Rightarrow> bars"
  let ?cur = "bt_get ?bars (mb_ts_ms (ch_bar h))"
  let ?new = "trim_series (snd (bt_insert (mb_ts_ms (ch_bar h)) h ?bars))"
  have bars: "candle_series_ok ?key ?bars" by (rule candle_series_at [OF ok])
  have d: "distinct (map fst ?series)" "length ?series \<le> OKX_MARKET_DATA_CACHE_MAX_HINTS_PER_KIND"
    "\<forall>(k, b)\<in>set ?series. candle_series_ok k b" using ok by (auto simp: market_cache_ok_def hints_ok_def)
  have new: "hints_ok OKX_MARKET_DATA_CACHE_MAX_HINTS_PER_KIND candle_series_ok
      (evict_oldest (mk_candles pick) OKX_MARKET_DATA_CACHE_MAX_HINTS_PER_KIND
        (latest_candle_series_received_at now) (AList.update ?key ?new ?series))"
  proof -
    have dist: "distinct (map fst (AList.update ?key ?new ?series))" using d(1) by (rule distinct_update)
    have "candle_series_ok ?key ?new" using candle_insert_ok [OF bars] h by (auto simp: market_hint_ok_def)
    with set_update_subset [of ?key ?new ?series] d(3)
    have "\<forall>(k, b)\<in>set (AList.update ?key ?new ?series). candle_series_ok k b" by auto
    then show ?thesis
      using evict_distinct [OF dist, of "mk_candles pick" OKX_MARKET_DATA_CACHE_MAX_HINTS_PER_KIND
          "latest_candle_series_received_at now" "{}"]
        evict_subset [OF dist, of "mk_candles pick" OKX_MARKET_DATA_CACHE_MAX_HINTS_PER_KIND
          "latest_candle_series_received_at now" "{}"]
        evict_length [OF dist, of "mk_candles pick" OKX_MARKET_DATA_CACHE_MAX_HINTS_PER_KIND
          "latest_candle_series_received_at now" "{}"]
      unfolding hints_ok_def evict_oldest_def by auto
  qed
  show ?thesis
  proof (cases "should_ignore_hint (Option.bind ?cur ch_source_ts_ms) (ch_source_ts_ms h)")
    case True
    with h obtain c where "?cur = Some c"
      by (cases ?cur) (auto simp: market_hint_ok_def should_ignore_hint_def)
    then have "map_of ?series ?key = Some ?bars" by (auto split: option.splits)
    then have "AList.update ?key ?bars ?series = ?series" by (rule AList.update_triv)
    with True ok show ?thesis by (simp add: insert_candle_hint_def Let_def)
  next
    case False
    with new ok show ?thesis by (simp add: insert_candle_hint_def Let_def market_cache_ok_def)
  qed
qed

lemma insert_frames:
  "md_candles_by_inst_id_and_channel (snd (insert_ticker_hint pick x s)) = md_candles_by_inst_id_and_channel s"
  "md_instruments_by_inst_id (snd (insert_ticker_hint pick x s)) = md_instruments_by_inst_id s"
  "md_level2_books_by_instrument (snd (insert_ticker_hint pick x s)) = md_level2_books_by_instrument s"
  "md_candles_by_inst_id_and_channel (snd (insert_instrument_hint pick y s)) = md_candles_by_inst_id_and_channel s"
  "md_tickers_by_inst_id (snd (insert_instrument_hint pick y s)) = md_tickers_by_inst_id s"
  "md_level2_books_by_instrument (snd (insert_instrument_hint pick y s)) = md_level2_books_by_instrument s"
  by (auto simp: insert_ticker_hint_def insert_instrument_hint_def split: prod.split)

lemma market_hint_ok_keeps:
  assumes ok: "market_cache_ok (mw_decimal E) s" and h: "market_hint_ok (mw_decimal E) h"
  shows "market_cache_ok (mw_decimal E) (snd (apply_market_hint E n ids h s))"
proof (cases h)
  case (TickerHint x)
  from h TickerHint have "snd (insert_ticker_hint (mw_pickers E) x s) = snd (update_ticker (mw_decimal E) (mw_pickers E) x s)"
    by (simp add: market_hint_ok_def ticker_hint_check_def update_ticker_def)
  from ticker_hints.update_ok [of "mw_decimal E" s "mw_pickers E" x, folded this] ok TickerHint show ?thesis
    by (simp add: apply_market_hint_def market_cache_ok_def insert_frames)
next
  case (CandleHint x)
  with insert_candle_ok [OF ok h [unfolded CandleHint], of "mw_pickers E" "mw_clock E n 1"] show ?thesis
    by (auto simp: apply_market_hint_def split: prod.splits)
next
  case (InstrumentHint x)
  from h InstrumentHint have "snd (insert_instrument_hint (mw_pickers E) x s) = snd (update_instrument (mw_pickers E) x s)"
    by (simp add: market_hint_ok_def update_instrument_def)
  from instrument_hints.update_ok [of s "mw_pickers E" x, folded this] ok InstrumentHint show ?thesis
    by (simp add: apply_market_hint_def market_cache_ok_def insert_frames split: prod.split)
      (metis insert_frames(4-6) snd_conv)
next
  case (Level2Hint u)
  have wf: "data_wf (lu2_data u)" using h Level2Hint by (simp add: market_hint_ok_def)
  have "market_cache_ok (mw_decimal E) (snd (apply_level2 (mw_decimal E) clock u t))"
    if "market_cache_ok (mw_decimal E) t" for clock t
  proof (cases "md_level2_books_by_instrument t (lu2_instrument_id u)")
    case None
    with that show ?thesis by (simp add: apply_level2_def)
  next
    case (Some b)
    obtain r b' where run: "apply_with_clock (mw_decimal E) clock b u = (r, b')" by force
    from that Some have "level2_reachable (mw_decimal E) (lu2_instrument_id u) b" by (auto simp: market_cache_ok_def)
    from l2_reach_apply [OF this wf, of clock] run
    have "level2_reachable (mw_decimal E) (lu2_instrument_id u) b'" by simp
    with that Some run market_cache_default_ok [of "mw_decimal E"] show ?thesis
      by (auto simp: apply_level2_def market_cache_ok_def Let_def split: sum.split fault.split)
  qed
  note level2 = this
  show ?thesis
  proof (cases "as_str (lu2_instrument_id u) \<in> set ids")
    case True
    let ?s = "s\<lparr> md_latency := latency_record FrameReceivedToParsed (lu2_parsed_at u - lu2_received_at u) (md_latency s) \<rparr>"
    have "market_cache_ok (mw_decimal E) ?s" using ok by (simp add: market_cache_ok_def)
    from level2 [OF this, of "\<lambda>k. mw_clock E n (k + 2)"] True Level2Hint show ?thesis
      by (auto simp: apply_market_hint_def Let_def split: prod.splits sum.splits OkxLevel2ApplyOutcome.splits)
  qed (use ok Level2Hint in \<open>simp add: apply_market_hint_def\<close>)
qed

lemma apply_hints_keeps:
  "market_cache_ok (mw_decimal E) s \<Longrightarrow> \<forall>h\<in>set hs. market_hint_ok (mw_decimal E) h \<Longrightarrow>
    market_cache_ok (mw_decimal E) (snd (apply_market_hints E n ids hs s))"
proof (induction hs arbitrary: s)
  case (Cons h hs)
  obtain r s' where run: "apply_market_hint E n ids h s = (r, s')" by force
  with market_hint_ok_keeps [OF Cons.prems(1), of h n ids] Cons.prems(2)
  have s': "market_cache_ok (mw_decimal E) s'" by simp
  with Cons.IH [OF s'] Cons.prems(2) run show ?case by (auto split: sum.split prod.splits)
qed simp

lemma deliver_market_keeps:
  assumes "market_cache_ok (mw_decimal E) (mx_cache x)"
  shows "market_cache_ok (mw_decimal E) (mx_cache (snd (deliver_market E ids p x)))"
proof -
  let ?n = "mx_messages x"
  obtain r s' where inner: "apply_public_market_data_message_inner E ?n p ids (mx_cache x) = (r, s')" by force
  then have "market_cache_ok (mw_decimal E) s'"
    using assms parsed_hints_ok [of "mw_decimal E" "mw_json E" p] apply_hints_keeps [OF assms]
    by (auto simp: apply_public_market_data_message_inner_def split: sum.splits prod.splits) (metis snd_conv)+
  with inner show ?thesis
    by (auto simp: deliver_market_def apply_public_market_data_message_and_report_def market_cache_ok_def
        split: sum.splits prod.splits option.splits)
qed

section \<open>The stages of a session\<close>

lemma after_run_keeps: "market_cache_ok D s \<Longrightarrow> market_cache_ok D (after_market_run c s)"
  by (auto simp: after_market_run_def Let_def market_cache_ok_def invalidate_level2_for_reconnect_def
      map_option_case split: option.splits if_splits intro: l2_reach_invalidate)

lemma configure_keeps:
  "market_cache_ok D s \<Longrightarrow> market_cache_ok D (snd (configure_level2_instruments is s))"
proof (induction "is" s rule: configure_level2_instruments.induct)
  case (2 i "is" s)
  have "market_cache_ok D (if md_level2_books_by_instrument s k \<noteq> None then s
      else s\<lparr> md_level2_books_by_instrument := (md_level2_books_by_instrument s)(k \<mapsto> level2_new k) \<rparr>)" for k
    using 2(2) by (auto simp: market_cache_ok_def intro: l2_reach_new)
  with 2 show ?case by (auto split: sum.split)
qed simp

lemma protect_keeps: "market_cache_ok D s \<Longrightarrow> market_cache_ok D (protect_instruments ids s)"
  by (simp add: market_cache_ok_def protect_instruments_def)

lemma on_cache_keeps:
  "(\<And>t. market_cache_ok D t \<Longrightarrow> market_cache_ok D (snd (f t))) \<Longrightarrow> keeps (\<lambda>x. market_cache_ok D (mx_cache x)) (on_cache f)"
  unfolding on_cache_def by (rule keeps_sdo) (auto simp: prod.case_eq_if)

lemma market_session_keeps:
  "keeps (\<lambda>x. market_cache_ok (mw_decimal E) (mx_cache x)) (market_session E c conn)"
proof -
  let ?P = "\<lambda>x. market_cache_ok (mw_decimal E) (mx_cache x)"
  have wait: "keeps ?P (ssocket (wait_for_public_subscription_acks E c))"
    unfolding wait_for_public_subscription_acks_def
    by (rule keeps_ssocket, rule wait_acks_keeps [where P = ?P]) (auto intro: deliver_market_keeps)
  have messages: "keeps ?P (ssocket (stream_messages label (deliver_market E ids)))" for label ids
    by (rule keeps_ssocket, rule stream_messages_keeps [where P = ?P]) (auto intro: deliver_market_keeps)
  show ?thesis
    unfolding market_session_def Let_def
    by (intro keeps_intros on_cache_keeps wait messages) (auto intro: configure_keeps protect_keeps)
qed

lemma market_session_stops: "stops (market_session E c conn)"
  unfolding market_session_def Let_def on_cache_def wait_for_public_subscription_acks_def
  by (intro halts_intros)

lemma market_wait_suffix:
  "wait_for_public_subscription_acks E c s es = (r, s', es') \<Longrightarrow> set es' \<subseteq> set es"
  unfolding wait_for_public_subscription_acks_def by (rule wait_acks_suffix)

text \<open>What stands behind the report that the stream is subscribed.\<close>

definition market_channels_acknowledged ::
    "market_env \<Rightarrow> OkxPublicMarketStreamConfig \<Rightarrow> socket_event set \<Rightarrow> bool" where
  "market_channels_acknowledged E c es \<longleftrightarrow>
     (\<forall>a\<in>public_market_subscription_acks c. acknowledged_by (mw_socket_json E) ''public'' (\<lambda>_ _. False) es a)"

lemma market_session_subscribes:
  "subscribes (market_health_identity c) (market_channels_acknowledged E c) (market_session E c conn)"
proof -
  have mono: "mono (market_channels_acknowledged E c)"
    unfolding market_channels_acknowledged_def by (rule mono_acknowledged)
  have acks: "market_channels_acknowledged E c (set (ss_events s))"
    if "sannounce stream k (ssocket (wait_for_public_subscription_acks E c)) s = (Some (Inr x), s')" for stream k s x s'
  proof -
    from that obtain r x' es' where
      "wait_for_public_subscription_acks E c (ss_state s) (ss_events s) = (Some (Inr r), x', es')"
      by (auto simp: sannounce_def ssocket_def split: prod.splits option.splits sum.splits fault.splits)
    from wait_acks_complete [OF this [unfolded wait_for_public_subscription_acks_def]]
    show ?thesis by (simp add: market_channels_acknowledged_def)
  qed
  show ?thesis
    unfolding market_session_def Let_def on_cache_def
    by (intro subscribes_quiet_bind [OF _ _ mono] stage_intros subscribes_bind [where B = "\<lambda>_. True", OF _ subscribes_mark])
      (auto intro: acks dest: market_wait_suffix)
qed

interpretation market_runner: stream_runner "run_public_market_stream_once E c" "market_health_identity c"
    "\<lambda>conn. market_channels_acknowledged E c (set (mn_events conn))" for E c
  by unfold_locales
    (unfold run_public_market_stream_once_def, rule subscribes_once [OF market_session_subscribes])

lemma market_stream_keeps:
  assumes "market_cache_ok (mw_decimal E) (mx_cache (ss_state s))"
  shows "market_cache_ok (mw_decimal E) (mx_cache (ss_state (snd (run_public_market_stream E c conns s))))"
  unfolding run_public_market_stream_def
  by (rule reconnecting_keeps [where P = "\<lambda>x. market_cache_ok (mw_decimal E) (mx_cache x)"])
    (use assms in \<open>simp_all add: run_public_market_stream_once_def keeps_finish [OF market_session_keeps] after_run_keeps\<close>)

lemma market_run_stops:
  assumes "Ended \<in> set (mn_events conn)"
  shows "fst (run_public_market_stream_once E c conn s) \<noteq> StillRunning"
proof -
  from assms obtain r s' where "market_session E c conn (s\<lparr> ss_events := mn_events conn \<rparr>) = (Some r, s')"
    using market_session_stops [of E c conn] unfolding stops_def by force
  then show ?thesis
    by (auto simp: run_public_market_stream_once_def finish_run_def end_run_def split: sum.split fault.split)
qed

section \<open>A late candle\<close>

text \<open>
  A confirmed candle older than all bars of a full series is announced as newly confirmed and not kept: the
  cache is as it was, and the same candle is announced again.
\<close>

lemma late_candle_announced_again:
  assumes "md_candles_by_inst_id_and_channel s = series" and "length series \<le> OKX_MARKET_DATA_CACHE_MAX_HINTS_PER_KIND"
    and full: "map_of series (ch_inst_id h, ch_channel h) = Some bars" "length bars = OKX_MARKET_CANDLE_CACHE_MAX_BARS"
    and late: "\<forall>t\<in>fst ` set bars. mb_ts_ms (ch_bar h) < t"
    and "mb_confirm (ch_bar h)" and "ch_source_ts_ms h \<noteq> None"
  shows "insert_candle_hint pick now h s = (True, s)"
proof -
  let ?t = "mb_ts_ms (ch_bar h)"
  have none: "bt_get bars ?t = None" using late by (intro bt_get_not_in) auto
  have put: "bt_put ?t h bars = (?t, h) # bars" using late by (cases bars) auto
  have "trim_series ((?t, h) # bars) = trim_series bars"
    using full(2) by (subst trim_series.simps) (simp add: bt_first_def bt_remove_def)
  also have "\<dots> = bars" using full(2) by (subst trim_series.simps) simp
  finally have "trim_series (snd (bt_insert ?t h bars)) = bars" by (simp add: bt_insert_def put)
  moreover have "AList.update (ch_inst_id h, ch_channel h) bars series = series"
    using full(1) by (rule AList.update_triv)
  moreover have "evict_oldest p OKX_MARKET_DATA_CACHE_MAX_HINTS_PER_KIND f series = series" for p f
    unfolding evict_oldest_def by (rule evict_small [OF assms(2)])
  ultimately show ?thesis
    using assms(1,6,7) full(1) none by (auto simp: insert_candle_hint_def Let_def should_ignore_hint_def)
qed

end
