(* ===== verification/Private_Guarantees.thy ===== *)
theory Private_Guarantees
  imports Private_Stream Stream_Stages
begin

text \<open>
  What holds of the private streams: the invariant of their cache over any sequence of connections and
  messages, what the health tracker may conclude, that a run over a socket that ends is over, and that the
  runtime is told of exactly the hints that were taken.
\<close>

section \<open>The stages of a session\<close>

lemma update_private_hint_ok:
  "private_cache_ok D s \<Longrightarrow> private_cache_ok D (snd (update_private_hint D pick h s))"
  by (cases h) (simp_all add: update_private_hint_def private_updates_ok)

lemma apply_private_hints_ok:
  "private_cache_ok D s \<Longrightarrow> private_cache_ok D (snd (apply_private_hints D pick hs s))"
proof (induction hs arbitrary: s)
  case (Cons h hs)
  obtain r s' where run: "update_private_hint D pick h s = (r, s')" by force
  with update_private_hint_ok [OF Cons.prems, of pick h] have s': "private_cache_ok D s'" by simp
  with Cons.IH [OF s'] run show ?case by (auto split: sum.split prod.splits)
qed simp

lemma deliver_private_keeps:
  assumes "private_cache_ok (pw_decimal E) (px_cache x)"
  shows "private_cache_ok (pw_decimal E) (px_cache (snd (deliver_private E a p x)))"
proof -
  obtain r s' where inner: "apply_private_event_message_inner (pw_decimal E) (pw_pickers E) (pw_json E) a p
      (pw_clock E (px_messages x)) (px_cache x) = (r, s')" by force
  then have "private_cache_ok (pw_decimal E) s'"
    using assms apply_private_hints_ok [OF assms, of "pw_pickers E"]
    by (auto simp: apply_private_event_message_inner_def split: sum.splits prod.splits) (metis snd_conv)+
  with inner show ?thesis
    by (auto simp: deliver_private_def apply_private_event_message_and_report_def private_cache_ok_def
        split: sum.splits prod.splits option.splits)
qed

lemma wait_login_keeps: "P s \<Longrightarrow> P (fst (snd (wait_for_private_login J label s es)))"
proof -
  let ?h = "\<lambda>p s. case parse_login_ack J p label of
      Inl e \<Rightarrow> (Inl (of_protocol e), s)
    | Inr acknowledged \<Rightarrow> (Inr (if acknowledged then Some () else None), s)"
  let ?gone = "Inl (of_protocol (ClosedBeforeLoginAck label)) :: unit res"
  assume "P s"
  then have "P (fst (snd (read_loop True label ?h ?gone ?gone s es)))"
    by (rule read_loop_invariant [where P = P]) (auto split: sum.split)
  then show ?thesis
    by (auto simp: wait_for_private_login_def Let_def split: prod.splits option.splits loop_end.splits)
qed

lemma wait_login_suffix: "wait_for_private_login J label s es = (r, s', es') \<Longrightarrow> set es' \<subseteq> set es"
  by (auto simp: wait_for_private_login_def Let_def split: prod.splits option.splits loop_end.splits
      dest!: read_loop_suffix)

lemma halts_wait_login [halts_intros]: "halts (ssocket (wait_for_private_login J label))"
  unfolding halts_def
proof (intro allI impI)
  fix s :: "'a session"
  assume ended: "Ended \<in> set (ss_events s)"
  let ?h = "\<lambda>p s. case parse_login_ack J p label of
      Inl e \<Rightarrow> (Inl (of_protocol e), s)
    | Inr acknowledged \<Rightarrow> (Inr (if acknowledged then Some () else None), s)"
  let ?gone = "Inl (of_protocol (ClosedBeforeLoginAck label)) :: unit res"
  from read_loop_ends [OF ended, of True label ?h ?gone ?gone "ss_state s"]
  show "\<exists>r s'. ssocket (wait_for_private_login J label) s = (Some r, s') \<and>
    (Ended \<in> set (ss_events s') \<or> (\<exists>e. r = Inl e))"
    by (auto simp: ssocket_def wait_for_private_login_def Let_def split: prod.splits option.splits loop_end.splits)
qed

lemma private_session_keeps:
  "keeps (\<lambda>x. private_cache_ok (pw_decimal E) (px_cache x)) (private_session E c conn)"
proof -
  let ?P = "\<lambda>x. private_cache_ok (pw_decimal E) (px_cache x)"
  have wait: "keeps ?P (ssocket (wait_for_private_subscription_acks E c a))" for a
    unfolding wait_for_private_subscription_acks_def
    by (rule keeps_ssocket, rule wait_acks_keeps [where P = ?P]) (auto intro: deliver_private_keeps)
  have login: "keeps ?P (ssocket (wait_for_private_login J label))" for J label
    by (rule keeps_ssocket, rule wait_login_keeps [where P = ?P])
  have messages: "keeps ?P (ssocket (stream_messages label (deliver_private E a)))" for label a
    by (rule keeps_ssocket, rule stream_messages_keeps [where P = ?P]) (auto intro: deliver_private_keeps)
  show ?thesis
    unfolding private_session_def Let_def by (intro keeps_intros wait login messages)
qed

lemma private_session_stops: "stops (private_session E c conn)"
  unfolding private_session_def Let_def wait_for_private_subscription_acks_def
  by (intro halts_intros)

lemma private_wait_suffix:
  "wait_for_private_subscription_acks E c a s es = (r, s', es') \<Longrightarrow> set es' \<subseteq> set es"
  unfolding wait_for_private_subscription_acks_def by (rule wait_acks_suffix)

text \<open>What stands behind the report that the stream is subscribed; the error 64003 stands for fills only.\<close>

definition private_channels_acknowledged ::
    "private_env \<Rightarrow> OkxPrivateStreamConfig \<Rightarrow> socket_event set \<Rightarrow> bool" where
  "private_channels_acknowledged E c es \<longleftrightarrow>
     (\<forall>a\<in>private_stream_subscription_acks c.
        acknowledged_by (pw_socket_json E) (private_kind_label (ps_kind c))
          (\<lambda>code arg. is_optional_fills_error code (map_option sa_channel arg)) es a)"

lemma private_session_subscribes:
  "subscribes (private_health_identity c) (private_channels_acknowledged E c) (private_session E c conn)"
proof -
  have mono: "mono (private_channels_acknowledged E c)"
    unfolding private_channels_acknowledged_def by (rule mono_acknowledged)
  have acks: "private_channels_acknowledged E c (set (ss_events s))"
    if "sannounce stream k (ssocket (wait_for_private_subscription_acks E c a)) s = (Some (Inr x), s')"
    for stream k a s x s'
  proof -
    from that obtain r x' es' where
      "wait_for_private_subscription_acks E c a (ss_state s) (ss_events s) = (Some (Inr r), x', es')"
      by (auto simp: sannounce_def ssocket_def split: prod.splits option.splits sum.splits fault.splits)
    from wait_acks_complete [OF this [unfolded wait_for_private_subscription_acks_def]]
    show ?thesis by (simp add: private_channels_acknowledged_def)
  qed
  show ?thesis
    unfolding private_session_def Let_def
    by (intro subscribes_quiet_bind [OF _ _ mono] stage_intros subscribes_bind [where B = "\<lambda>_. True", OF _ subscribes_mark])
      (auto intro: acks dest: private_wait_suffix wait_login_suffix)
qed

interpretation private_runner: stream_runner "run_private_stream_once E c" "private_health_identity c"
    "\<lambda>conn. private_channels_acknowledged E c (set (pn_events conn))" for E c
  by unfold_locales
    (unfold run_private_stream_once_def, rule subscribes_once [OF private_session_subscribes])

lemma private_stream_keeps:
  assumes "private_cache_ok (pw_decimal E) (px_cache (ss_state s))"
  shows "private_cache_ok (pw_decimal E) (px_cache (ss_state (snd (run_private_stream E c conns s))))"
  unfolding run_private_stream_def
  by (rule reconnecting_keeps [where P = "\<lambda>x. private_cache_ok (pw_decimal E) (px_cache x)"])
    (use assms in \<open>simp_all add: run_private_stream_once_def keeps_finish [OF private_session_keeps]\<close>)

lemma private_run_stops:
  assumes "Ended \<in> set (pn_events conn)"
  shows "fst (run_private_stream_once E c conn s) \<noteq> StillRunning"
proof -
  from assms obtain r s' where "private_session E c conn (s\<lparr> ss_events := pn_events conn \<rparr>) = (Some r, s')"
    using private_session_stops [of E c conn] unfolding stops_def by force
  then show ?thesis
    by (auto simp: run_private_stream_once_def finish_run_def end_run_def split: sum.split fault.split)
qed

end
