(* ===== verification/Stream_Guarantees.thy ===== *)
theory Stream_Guarantees
  imports Market_Guarantees Private_Guarantees
begin

text \<open>
  The properties of the WebSocket streams, market and private, on sample connections.
\<close>

section \<open>What the runtime is told\<close>

text \<open>The hints of a message that the cache took.\<close>

fun taken_private_hints ::
    "decimal_ops \<Rightarrow> private_pickers \<Rightarrow> OkxPrivateEventHint list \<Rightarrow> OkxPrivateEventState \<Rightarrow> OkxPrivateEventHint list" where
  "taken_private_hints D pick [] s = []"
| "taken_private_hints D pick (h # hs) s =
     (case update_private_hint D pick h s of
        (r, s') \<Rightarrow> (if r = Inr True then [h] else []) @ taken_private_hints D pick hs s')"

lemma apply_private_hints_taken:
  "apply_private_hints D pick hs s = (Inr es, s') \<Longrightarrow> es = map hint_event (taken_private_hints D pick hs s)"
  by (induction hs arbitrary: s es) (auto split: prod.splits sum.splits if_splits)

lemma report_each_private:
  assumes "report_each report_private es r = (Inr u, r')"
  shows "\<exists>k. ec_queue (rr_private r') = drop k (ec_queue (rr_private r) @ es)"
  using assms
proof (induction es arbitrary: r)
  case Nil
  then show ?case by (auto intro: exI [of _ 0])
next
  case (Cons e es)
  let ?q = "\<lambda>r. ec_queue (rr_private r)"
  from Cons.prems obtain r1 where r1: "report_private e r = (Inr (), r1)" "report_each report_private es r1 = (Inr u, r')"
    by (auto split: prod.splits sum.splits)
  from report_private_queue [OF r1(1)] obtain n where "?q r1 = drop n (?q r) @ [e]" by auto
  then have "?q r1 = drop (min n (length (?q r))) (?q r @ [e])" by (auto simp: min_def)
  moreover from Cons.IH [OF r1(2)] obtain k where "?q r' = drop k (?q r1 @ es)" by blast
  moreover have "drop (min n (length (?q r))) (?q r @ [e]) @ es = drop (min n (length (?q r))) (?q r @ e # es)" by simp
  ultimately show ?case by (metis drop_drop)
qed

lemma update_reporter [simp]:
  "pe_runtime_event_reporter (snd (update_private_hint D pick h s)) = pe_runtime_event_reporter s"
  by (cases h) (auto simp: update_private_hint_def update_order_def update_fill_def update_algo_order_def
      update_account_def Let_def split: sum.split prod.split if_splits)

lemma apply_hints_reporter:
  "pe_runtime_event_reporter (snd (apply_private_hints D pick hs s)) = pe_runtime_event_reporter s"
proof (induction hs arbitrary: s)
  case (Cons h hs)
  obtain r s' where "update_private_hint D pick h s = (r, s')" by force
  with update_reporter [of D pick h s] Cons show ?case by (auto split: sum.split prod.splits) (metis snd_conv)+
qed simp

section \<open>Samples\<close>

definition sample_stream_json :: socket_json where
  "sample_stream_json =
     \<lparr> sj_control = (\<lambda>_. Inr \<lparr> cm_event = Some ''login'', cm_code = Some ''0'', cm_msg = None \<rparr>),
       sj_subscription = (\<lambda>p. Inr \<lparr> sm_event = Some ''subscribe'', sm_code = None, sm_msg = None,
         sm_arg = Some \<lparr> sa_channel = ''orders-algo'', sa_inst_id = Some ''BTC-USDT'', sa_inst_type = Some ''SPOT'' \<rparr>,
         sm_has_data = False \<rparr>) \<rparr>"

definition sample_private_json :: private_json where
  "sample_private_json =
     \<lparr> pj_message = (\<lambda>_. None), pj_orders = (\<lambda>_. None), pj_fills = (\<lambda>_. None), pj_accounts = (\<lambda>_. None),
       pj_algo_orders = (\<lambda>_. None) \<rparr>"

definition sample_private_env :: private_env where
  "sample_private_env =
     \<lparr> pw_decimal = exact_decimal,
       pw_pickers = \<lparr> pk_orders = (\<lambda>_. 0), pk_fills = (\<lambda>_. 0), pk_algo_orders = (\<lambda>_. 0) \<rparr>,
       pw_json = sample_private_json, pw_socket_json = sample_stream_json, pw_hmac = (\<lambda>_ m. m), pw_clock = (\<lambda>n. n) \<rparr>"

definition sample_business_config :: OkxPrivateStreamConfig where
  "sample_business_config =
     \<lparr> ps_url = ''w'', ps_kind = BusinessStream, ps_instrument_ids = [''BTC-USDT''], ps_instrument_type = ''SPOT'',
       ps_algo_subscription_selector = AlgoSpot, ps_fills_subscription = FillsDisabled,
       ps_credentials = \<lparr> cr_api_key = ''k'', cr_api_secret = ''s'', cr_api_passphrase = ''p'' \<rparr>,
       ps_reconnect_policy = default_reconnect_policy \<rparr>"

definition sample_market_config :: OkxPublicMarketStreamConfig where
  "sample_market_config =
     \<lparr> pm_url = ''w'', pm_instrument_ids = [''BTC-USDT''], pm_instrument_type = ''SPOT'', pm_subscribe_tickers = True,
       pm_subscribe_instruments = True, pm_candle_channels = [], pm_level2_instrument_ids = [''BTC-USDT''],
       pm_reconnect_policy = default_reconnect_policy \<rparr>"

definition sample_private_connection :: "socket_event list \<Rightarrow> private_connection" where
  "sample_private_connection es =
     \<lparr> pn_connect = Inr (), pn_login_timestamp = Inr ''7'', pn_send_login = Inr (),
       pn_send_subscription = Inr (), pn_events = es \<rparr>"

definition sample_private_start :: "private_stream_state session" where
  "sample_private_start = session_start \<lparr> px_cache = private_event_state_default, px_messages = 0 \<rparr>"

text \<open>A login answer, the acknowledgement and then nothing more.\<close>

definition sample_subscribed_events :: "socket_event list" where
  "sample_subscribed_events = [Message (Text ''login''), Message (Text ''subscribed'')]"

lemmas session_eval =
  run_private_stream_def run_private_stream_once_def private_session_def sbind_def slift_def sreport_def
  smark_subscribed_def ssocket_def sannounce_def Let_def finish_run_def end_run_def

lemma sample_private_run:
  "\<exists>s. run_private_stream sample_private_env sample_business_config
      [sample_private_connection sample_subscribed_events] sample_private_start = (StillRunning, s) \<and> ss_subscribed s"
proof -
  have "trim ''7'' = ''7''" by (rule trim_graphic) (simp_all add: byte_def)
  then have b: "\<not> blank ''7''" "''7'' = trim ''7''"
    by (simp_all add: is_ascii_alphanumeric_def is_ascii_digit_def byte_def)
  have login: "login_request_at h cr ''7'' = Inr \<lparr> lg_api_key = cr_api_key cr, lg_passphrase = cr_api_passphrase cr,
      lg_timestamp = ''7'', lg_sign = okx_websocket_login_signature h ''7'' (cr_api_secret cr) \<rparr>" for h cr
    using b by (simp add: login_request_at_def is_ascii_digit_def byte_def)
  have wait: "wait_for_private_login sample_stream_json label x sample_subscribed_events =
      (Some (Inr ()), x, [Message (Text ''subscribed'')])" for label and x :: private_stream_state
    by (simp add: wait_for_private_login_def sample_subscribed_events_def Let_def parse_login_ack_def
        sample_stream_json_def reject_websocket_notice_def OKX_WEBSOCKET_NOTICE_EVENT_def
        OKX_WEBSOCKET_TEXT_PONG_def read_loop.simps [of True label])
  have acks: "private_stream_subscription_acks sample_business_config =
      {\<lparr> sa_channel = ''orders-algo'', sa_inst_id = Some ''BTC-USDT'', sa_inst_type = Some ''SPOT'' \<rparr>}"
    by (simp add: private_stream_subscription_acks_def sample_business_config_def subscription_ack_def
        OKX_BUSINESS_ALGO_ORDERS_CHANNEL_def algo_selector_as_okx_def OKX_SPOT_INST_TYPE_def)
  have ack: "wait_for_private_subscription_acks sample_private_env sample_business_config a x
      [Message (Text ''subscribed'')] = (Some (Inr ()), x, [])" for a x
    unfolding wait_for_private_subscription_acks_def acks
    by (simp add: wait_for_subscription_acks_def Let_def read_loop.simps [of True _ _ _ _ _ "[_]"]
        sample_private_env_def sample_stream_json_def ack_step_def take_ack_def parse_subscription_event_def
        reject_websocket_notice_def OKX_WEBSOCKET_NOTICE_EVENT_def OKX_WEBSOCKET_SUBSCRIBE_EVENT_def
        OKX_WEBSOCKET_TEXT_PONG_def acknowledge_subscription_def)
  have sub: "\<exists>args. private_stream_subscription sample_business_config = Inr args"
    by (simp add: private_stream_subscription_def sample_business_config_def OKX_SPOT_INST_TYPE_def)
  have rest: "stream_messages label d x [] = (None, x, [])"
    for label and d :: "string \<Rightarrow> private_stream_state \<Rightarrow> unit res \<times> private_stream_state" and x
    by (simp add: stream_messages_def read_loop.simps [of False label])
  have env: "pw_socket_json sample_private_env = sample_stream_json" by (simp add: sample_private_env_def)
  show ?thesis
    using sub
    by (auto simp: session_eval sample_private_connection_def login env sample_private_start_def session_start_def
        wait ack rest)
qed

section \<open>Properties\<close>



text \<open>
  A run does not outlive its socket.  When the socket ends, a run is over, whatever it was waiting for:
  the login answer, the acknowledgements, an idle pong or the next message.
\<close>
theorem run_ends_with_socket:
  assumes "Ended \<in> set (pn_events conn)" and "Ended \<in> set (mn_events conn')"
  shows "fst (run_private_stream_once E c conn s) \<noteq> StillRunning \<and>
    fst (run_public_market_stream_once E' c' conn' s') \<noteq> StillRunning"
  using private_run_stops [OF assms(1)] market_run_stops [OF assms(2)] by simp_all

theorem run_ends_with_socket_witness:
  "fst (run_private_stream_once sample_private_env sample_business_config
      (sample_private_connection (sample_subscribed_events @ [Silence True, Ended])) sample_private_start) \<noteq> StillRunning"
  by (rule run_ends_with_socket [where conn' = "\<lparr> mn_connect = Inr (), mn_send_subscription = Inr (), mn_events = [Ended] \<rparr>", THEN conjunct1])
    (simp_all add: sample_private_connection_def)

text \<open>
  What a stream asks for is what it waits for.  The channels of an accepted subscribe request are
  exactly the acknowledgements the session waits for, for the private and for the market streams.
\<close>
theorem requests_are_awaited:
  assumes "private_stream_subscription c = Inr args"
    and "public_market_subscription (pm_instrument_ids c') (pm_instrument_type c') (pm_subscribe_tickers c')
      (pm_subscribe_instruments c') (pm_candle_channels c') (pm_level2_instrument_ids c') = Inr args'"
  shows "(\<lambda>g. subscription_ack (sg_channel g) (sg_inst_id g) (sg_inst_type g)) ` set args =
      private_stream_subscription_acks c \<and>
    (\<lambda>g. subscription_ack (sg_channel g) (sg_inst_id g) (sg_inst_type g)) ` set args' =
      public_market_subscription_acks c'"
proof
  note defs = subscribe_arg_account_def subscribe_arg_typed_def subscribe_arg_instrument_def
  show "(\<lambda>g. subscription_ack (sg_channel g) (sg_inst_id g) (sg_inst_type g)) ` set args =
      private_stream_subscription_acks c"
  proof -
    from assms(1) have "args = projr (private_stream_subscription c) \<and> ps_instrument_ids c \<noteq> [] \<and>
        ps_instrument_type c = OKX_SPOT_INST_TYPE"
      by (auto simp: private_stream_subscription_def rbind_eq_Inr)
    then show ?thesis
      by (cases "ps_kind c"; cases "ps_fills_subscription c")
        (simp_all add: private_stream_subscription_def private_stream_subscription_acks_def defs
          image_UN image_image insert_commute UNION_singleton_eq_range)
  qed
  show "(\<lambda>g. subscription_ack (sg_channel g) (sg_inst_id g) (sg_inst_type g)) ` set args' =
      public_market_subscription_acks c'"
  proof -
    from assms(2) have "args' = projr (public_market_subscription (pm_instrument_ids c') (pm_instrument_type c')
        (pm_subscribe_tickers c') (pm_subscribe_instruments c') (pm_candle_channels c') (pm_level2_instrument_ids c')) \<and>
        pm_instrument_ids c' \<noteq> [] \<and> pm_instrument_type c' = OKX_SPOT_INST_TYPE \<and>
        (pm_subscribe_tickers c' \<or> pm_subscribe_instruments c' \<or> pm_candle_channels c' \<noteq> [] \<or>
         pm_level2_instrument_ids c' \<noteq> [])"
      by (auto simp: public_market_subscription_def rbind_eq_Inr)
    then show ?thesis
      by (cases "pm_subscribe_tickers c'"; cases "pm_subscribe_instruments c'")
        (simp_all add: public_market_subscription_def public_market_subscription_acks_def defs
          image_Un image_UN image_image)
  qed
qed

theorem requests_are_awaited_witness:
  "\<exists>args. private_stream_subscription sample_business_config = Inr args \<and>
    (\<lambda>g. subscription_ack (sg_channel g) (sg_inst_id g) (sg_inst_type g)) ` set args =
      private_stream_subscription_acks sample_business_config"
proof -
  have "\<exists>args. private_stream_subscription sample_business_config = Inr args"
    by (simp add: private_stream_subscription_def sample_business_config_def OKX_SPOT_INST_TYPE_def)
  moreover have "\<exists>args. public_market_subscription (pm_instrument_ids sample_market_config)
      (pm_instrument_type sample_market_config) (pm_subscribe_tickers sample_market_config)
      (pm_subscribe_instruments sample_market_config) (pm_candle_channels sample_market_config)
      (pm_level2_instrument_ids sample_market_config) = Inr args"
    by (simp add: public_market_subscription_def sample_market_config_def OKX_SPOT_INST_TYPE_def)
  ultimately show ?thesis using requests_are_awaited [THEN conjunct1] by blast
qed





text \<open>
  C25: the market cache only ever holds what was validated.  After any sequence of connections and messages
  it has at most 1024 tickers, candle series and instruments; each series is strictly ordered by time,
  holds at most 32 bars and only valid bars of its own instrument and channel; tickers and instrument
  parameters passed their checks; and every Level-2 book is one that validated messages of its own
  instrument can produce, so that the invariant of the books holds of it.
\<close>
theorem market_cache_invariant:
  assumes "run_public_market_stream E c conns (session_start \<lparr> mx_cache = market_data_state_default, mx_messages = 0 \<rparr>) = (r, s)"
  shows "(let q = mx_cache (ss_state s) in
    length (md_tickers_by_inst_id q) \<le> 1024 \<and> length (md_candles_by_inst_id_and_channel q) \<le> 1024 \<and>
    length (md_instruments_by_inst_id q) \<le> 1024 \<and>
    (\<forall>(k, h)\<in>set (md_tickers_by_inst_id q).
       k = tk_inst_id (th_ticker h) \<and> validate_prices (mw_decimal E) (th_ticker h) = Inr ()) \<and>
    (\<forall>((i, ch), bars)\<in>set (md_candles_by_inst_id_and_channel q).
       sorted_wrt (<) (map fst bars) \<and> length bars \<le> 32 \<and>
       (\<forall>(t, h)\<in>set bars. t = mb_ts_ms (ch_bar h) \<and> i = ch_inst_id h \<and> ch = ch_channel h \<and>
          market_bar_validate (ch_bar h) ''OKX WebSocket candle'' = Inr ())) \<and>
    (\<forall>(k, h)\<in>set (md_instruments_by_inst_id q).
       k = iu_inst_id (ih_instrument h) \<and> ih_source_ts_ms h \<noteq> None \<and>
       validate_instrument_update (ih_instrument h) = Inr ()) \<and>
    (\<forall>i b. md_level2_books_by_instrument q i = Some b \<longrightarrow> level2_reachable (mw_decimal E) i b))"
proof -
  have "market_cache_ok (mw_decimal E) (mx_cache (ss_state s))"
    using market_stream_keeps [of E "session_start \<lparr> mx_cache = market_data_state_default, mx_messages = 0 \<rparr>" c conns]
      assms by (simp add: session_start_def market_cache_default_ok)
  then show ?thesis
    by (auto simp: market_cache_ok_def hints_ok_def keyed_entry_def Let_def ticker_hint_check_def
        OKX_MARKET_DATA_CACHE_MAX_HINTS_PER_KIND_def OKX_MARKET_CANDLE_CACHE_MAX_BARS_def
        candle_series_ok_def bt_ok_def instrument_hint_ops_def)
qed

definition sample_market_env :: market_env where
  "sample_market_env =
     \<lparr> mw_decimal = exact_decimal,
       mw_pickers = \<lparr> mk_tickers = (\<lambda>_. 0), mk_candles = (\<lambda>_. 0), mk_instruments = (\<lambda>_. 0) \<rparr>,
       mw_json = \<lparr> mj_message = (\<lambda>_. None), mj_tickers = (\<lambda>_. None), mj_candles = (\<lambda>_. None),
         mj_instruments = (\<lambda>_. None), mj_books = sample_json \<rparr>,
       mw_socket_json = sample_stream_json, mw_clock = (\<lambda>n k. n + k) \<rparr>"

theorem market_cache_invariant_witness:
  "\<exists>r s. run_public_market_stream sample_market_env sample_market_config
      [\<lparr> mn_connect = Inr (), mn_send_subscription = Inr (), mn_events = [Ended] \<rparr>]
      (session_start \<lparr> mx_cache = market_data_state_default, mx_messages = 0 \<rparr>) = (r, s) \<and>
    length (md_tickers_by_inst_id (mx_cache (ss_state s))) \<le> 1024"
proof -
  obtain r s where run: "run_public_market_stream sample_market_env sample_market_config
      [\<lparr> mn_connect = Inr (), mn_send_subscription = Inr (), mn_events = [Ended] \<rparr>]
      (session_start \<lparr> mx_cache = market_data_state_default, mx_messages = 0 \<rparr>) = (r, s)" by force
  from market_cache_invariant [OF this] have "length (md_tickers_by_inst_id (mx_cache (ss_state s))) \<le> 1024"
    by (simp add: Let_def)
  with run show ?thesis by blast
qed

text \<open>
  C26: the order cache implements last-writer-wins by the exchange's clock.  After any sequence of order
  updates, in any order of arrival, of which the valid ones fit the cache, a key holds exactly the valid
  update of that key with the greatest exchange time, the last to arrive among equals; updates without a
  time are never kept, and an invalid one leaves no trace.
\<close>
theorem orders_latest_by_exchange_time:
  assumes "card ((\<lambda>h. (or_inst_id (oh_order h), or_client_order_id (oh_order h))) `
      {h \<in> set hs. order_hint_check D (oh_order h) = Inr ()}) \<le> 1024"
  shows "map_of (pe_orders_by_client_id (fold (\<lambda>h s. snd (update_order D pick h s)) hs private_event_state_default)) k =
      Some h \<longleftrightarrow>
    latest_hint (\<lambda>h. order_hint_check D (oh_order h) = Inr ())
      (\<lambda>h. (or_inst_id (oh_order h), or_client_order_id (oh_order h))) oh_source_ts_ms hs k h"
  using order_hints.updates_latest [of private_event_state_default hs D pick] assms
  by (cases k) (simp add: OKX_PRIVATE_EVENT_CACHE_MAX_HINTS_PER_KIND_def private_event_state_default_def order_hint_ops_def)

definition sample_order_hint :: "string \<Rightarrow> int option \<Rightarrow> OkxPrivateOrderHint" where
  "sample_order_hint state ts =
     \<lparr> oh_order = \<lparr> or_inst_type = ''SPOT'', or_inst_id = ''BTC-USDT'', or_order_id = ''1'',
         or_client_order_id = ''c'', or_side = ''buy'', or_order_type = ''limit'', or_price = ''7'', or_state = state,
         or_average_price = [], or_accumulated_fill_size = ''0'', or_fee = [], or_fee_currency = [],
         or_rebate = [], or_rebate_currency = [], or_sz = ''7'', or_created_at_ms = ''7'', or_updated_at_ms = [] \<rparr>,
       oh_source_ts_ms = ts, oh_received_at = 0 \<rparr>"

text \<open>A fill overtakes the live state that was pushed before it.\<close>

theorem orders_latest_by_exchange_time_witness:
  "map_of (pe_orders_by_client_id (fold (\<lambda>h s. snd (update_order exact_decimal (pw_pickers sample_private_env) h s))
      [sample_order_hint ''filled'' (Some 9), sample_order_hint ''live'' (Some 8)] private_event_state_default))
    (''BTC-USDT'', ''c'') = Some (sample_order_hint ''filled'' (Some 9))"
proof -
  let ?hs = "[sample_order_hint ''filled'' (Some 9), sample_order_hint ''live'' (Some 8)]"
  let ?good = "\<lambda>h. order_hint_check exact_decimal (oh_order h) = Inr ()"
  have nb: "\<not> blank ''BTC-USDT''" using btc_usdt_trim by (simp add: blank_def)
  have nc: "\<not> blank ''c''"
  proof -
    have "trim ''c'' = ''c''" by (rule trim_graphic) (simp_all add: byte_def)
    then show ?thesis by (simp add: blank_def)
  qed
  have dec: "read_decimal ''7'' = Some 7" "read_decimal ''0'' = Some 0"
    by (simp_all add: read_decimal_def read_unsigned_def ascii_digits_def digits_nat_def)
  have good: "?good (sample_order_hint st ts)" if "st = ''filled'' \<or> st = ''live''" for st ts
    using that nb nc dec
    by (auto simp: order_hint_check_def sample_order_hint_def ensure_spot_inst_type_def ensure_spot_instrument_id_def
        OKX_SPOT_INST_TYPE_def Let_def is_okx_asset_code_def is_ascii_uppercase_def is_ascii_digit_def byte_def
        order_ensure_documented_state_def is_live_def is_terminal_def order_fill_size_def
        parse_non_negative_decimal_def parse_decimal_def average_fill_price_def order_requested_size_def
        parse_positive_decimal_def)
  have key: "(or_inst_id (oh_order h), or_client_order_id (oh_order h)) = (''BTC-USDT'', ''c'')" if "h \<in> set ?hs" for h
    using that by (auto simp: sample_order_hint_def)
  have "card ((\<lambda>h. (or_inst_id (oh_order h), or_client_order_id (oh_order h))) ` {h \<in> set ?hs. ?good h}) \<le> 1024"
  proof -
    have "(\<lambda>h. (or_inst_id (oh_order h), or_client_order_id (oh_order h))) ` {h \<in> set ?hs. ?good h} \<subseteq> {(''BTC-USDT'', ''c'')}"
      using key by blast
    from card_mono [OF _ this] show ?thesis by simp
  qed
  then have "map_of (pe_orders_by_client_id (fold (\<lambda>h s. snd (update_order exact_decimal (pw_pickers sample_private_env) h s))
      ?hs private_event_state_default)) (''BTC-USDT'', ''c'') = Some (sample_order_hint ''filled'' (Some 9)) \<longleftrightarrow>
    latest_hint ?good (\<lambda>h. (or_inst_id (oh_order h), or_client_order_id (oh_order h))) oh_source_ts_ms ?hs
      (''BTC-USDT'', ''c'') (sample_order_hint ''filled'' (Some 9))"
    by (rule orders_latest_by_exchange_time)
  moreover have "latest_hint ?good (\<lambda>h. (or_inst_id (oh_order h), or_client_order_id (oh_order h))) oh_source_ts_ms ?hs
      (''BTC-USDT'', ''c'') (sample_order_hint ''filled'' (Some 9))"
    unfolding latest_hint_def
    by (rule exI [of _ "[]"], rule exI [of _ "[sample_order_hint ''live'' (Some 8)]"], rule exI [of _ 9])
      (use good in \<open>simp add: sample_order_hint_def\<close>)
  ultimately show ?thesis by blast
qed

text \<open>
  The runtime is told of exactly what changed.  When a private message is applied without an error,
  the events queued for the runtime are, in the order of the rows, one for each hint the cache took and
  none for a stale one; they go to the end of the queue, and nothing that was queued is lost except to the
  receiver, which takes from the front.
\<close>
theorem private_events_match_cache:
  assumes "apply_private_event_message_and_report D pick J a payload t s = (Inr n, s')"
    and "pe_runtime_event_reporter s = Some r"
  shows "\<exists>hints r' k. parse_private_event_message_with_authority J a payload t = Inr hints \<and> n = length hints \<and>
    pe_runtime_event_reporter s' = Some r' \<and>
    ec_queue (rr_private r') =
      drop k (ec_queue (rr_private r) @ map hint_event (taken_private_hints D pick hints s))"
proof -
  from assms(1) obtain hints es q where parsed: "parse_private_event_message_with_authority J a payload t = Inr hints"
    and applied: "apply_private_hints D pick hints s = (Inr es, q)"
    and rest: "(case pe_runtime_event_reporter q of None \<Rightarrow> (Inr (length hints), q)
      | Some reporter \<Rightarrow> (case report_each report_private es reporter of (x, reporter') \<Rightarrow>
          (rbind x (\<lambda>_. Inr (length hints)), q\<lparr> pe_runtime_event_reporter := Some reporter' \<rparr>))) = (Inr n, s')"
    by (auto simp: apply_private_event_message_and_report_def apply_private_event_message_inner_def
        split: sum.splits prod.splits)
  have "pe_runtime_event_reporter q = Some r" using apply_hints_reporter [of D pick hints s] applied assms(2) by simp
  with rest obtain u r' where reports: "report_each report_private es r = (Inr u, r')"
    and s': "n = length hints" "s' = q\<lparr> pe_runtime_event_reporter := Some r' \<rparr>"
    by (auto simp: rbind_eq_Inr split: prod.splits)
  from report_each_private [OF reports] obtain k where "ec_queue (rr_private r') = drop k (ec_queue (rr_private r) @ es)"
    by blast
  with parsed s' apply_private_hints_taken [OF applied] show ?thesis by auto
qed

definition sample_order_json :: private_json where
  "sample_order_json = sample_private_json
     \<lparr> pj_message := (\<lambda>_. Some \<lparr> pv_event = None, pv_code = None, pv_msg = None,
         pv_arg = Some \<lparr> pa_channel = ''orders'', pa_inst_type = None, pa_inst_id = None \<rparr>, pv_data = Some [] \<rparr>),
       pj_orders := (\<lambda>_. Some []) \<rparr>"

theorem private_events_match_cache_witness:
  "\<exists>s'. apply_private_event_message_and_report exact_decimal (pw_pickers sample_private_env) sample_order_json
      (event_authority_from sample_business_config) ''m'' 0
      (configure_runtime_observer (reporter_channel 1 1 latency_metrics_default) private_event_state_default) = (Inr 0, s') \<and>
    (\<exists>r' k. pe_runtime_event_reporter s' = Some r' \<and> ec_queue (rr_private r') = drop k [])"
proof -
  let ?s = "configure_runtime_observer (reporter_channel 1 1 latency_metrics_default) private_event_state_default"
  have "parse_private_event_message_with_authority sample_order_json (event_authority_from sample_business_config) ''m'' 0 = Inr []"
    by (simp add: parse_private_event_message_with_authority_def sample_order_json_def private_channel_hints_def
        OKX_PRIVATE_ORDERS_CHANNEL_def parse_websocket_data_def reject_websocket_notice_def
        OKX_WEBSOCKET_NOTICE_EVENT_def)
  then obtain s' where run: "apply_private_event_message_and_report exact_decimal (pw_pickers sample_private_env)
      sample_order_json (event_authority_from sample_business_config) ''m'' 0 ?s = (Inr 0, s')"
    and parsed: "parse_private_event_message_with_authority sample_order_json
      (event_authority_from sample_business_config) ''m'' 0 = Inr []"
    by (auto simp: apply_private_event_message_and_report_def apply_private_event_message_inner_def
        configure_runtime_observer_def)
  have "pe_runtime_event_reporter ?s = Some (reporter_channel 1 1 latency_metrics_default)"
    by (simp add: configure_runtime_observer_def)
  from private_events_match_cache [OF run this] parsed run show ?thesis
    by (auto simp: reporter_channel_def event_channel_new_def)
qed

text \<open>
  The hints of configured instruments are never evicted.  While the protected instruments fit the
  cache, an instrument update, of any instrument, leaves a hint of each protected instrument that had one.
\<close>
theorem protected_instruments_kept:
  assumes "hints_ok OKX_MARKET_DATA_CACHE_MAX_HINTS_PER_KIND good (md_instruments_by_inst_id s)"
    and "finite (md_protected_instrument_ids s)" and "card (md_protected_instrument_ids s) \<le> 1024"
    and "i \<in> md_protected_instrument_ids s" and "map_of (md_instruments_by_inst_id s) i \<noteq> None"
  shows "map_of (md_instruments_by_inst_id (snd (update_instrument pick h s))) i \<noteq> None"
proof -
  let ?k = "iu_inst_id (ih_instrument h)"
  let ?hs = "AList.update ?k h (md_instruments_by_inst_id s)"
  have "distinct (map fst ?hs)" using assms(1) by (auto simp: hints_ok_def intro: distinct_update)
  moreover have "i \<in> fst ` set ?hs" using assms(5) by (auto simp: map_of_eq_None_iff AList.dom_update)
  ultimately have "i \<in> fst ` set (evict_oldest_except p 1024 f (md_protected_instrument_ids s) ?hs)" for p f
    using evict_protected [of ?hs i "md_protected_instrument_ids s" 1024] assms(2-4) by blast
  then have "map_of (evict_oldest_except p 1024 f (md_protected_instrument_ids s) ?hs) i \<noteq> None" for p f
    by (simp add: map_of_eq_None_iff)
  with assms(5) show ?thesis
    by (auto simp: update_instrument_def insert_instrument_hint_def insert_hint_def
        OKX_MARKET_DATA_CACHE_MAX_HINTS_PER_KIND_def split: sum.split)
qed

definition sample_instrument_hint :: OkxInstrumentUpdateHint where
  "sample_instrument_hint =
     \<lparr> ih_instrument = \<lparr> iu_inst_type = ''SPOT'', iu_inst_id = ''BTC-USDT'', iu_group_id = ''1'', iu_state = ''live'',
         iu_tick_size = ''1'', iu_lot_size = ''1'', iu_min_size = ''1'', iu_max_limit_size = [],
         iu_max_limit_amount = [], iu_max_market_size = [], iu_max_market_amount = [], iu_max_trigger_size = [],
         iu_continuous_trading_switch_time = [], iu_upcoming_changes = [] \<rparr>,
       ih_source_ts_ms = Some 7, ih_received_at = 0 \<rparr>"

theorem protected_instruments_kept_witness:
  "map_of (md_instruments_by_inst_id (snd (update_instrument (mw_pickers sample_market_env) sample_instrument_hint
      (market_data_state_default\<lparr> md_instruments_by_inst_id := [(''BTC-USDT'', sample_instrument_hint)],
        md_protected_instrument_ids := {''BTC-USDT''} \<rparr>)))) ''BTC-USDT'' \<noteq> None"
  by (rule protected_instruments_kept [where good = "\<lambda>_ _. True"])
    (simp_all add: hints_ok_def OKX_MARKET_DATA_CACHE_MAX_HINTS_PER_KIND_def)

end
