(* ===== verification/Spec2Isabelle.thy ===== *)
theory Spec2Isabelle
  imports Config_Loading Preflight_Guarantees Preflight_Reads Replay_Book Runtime_Guarantees Stream_Guarantees Trading_Guarantees
begin

text \<open>
  A model of \<open>okx-rust-trading\<close>, a Rust workspace that trades OKX cash SPOT, and the theorems that make it
  correct.  Paths below are under \<open>src/crates/\<close>; \<open>rt/\<close> stands for \<open>okx-trading-runtime/src/\<close>.

  \<^bold>\<open>The program.\<close>  A validated TOML configuration (\<open>rt/config/\<close>) enables strategy instances.  The trading engine
  (\<open>rt/app/live.rs\<close>) checks the account, validates each instrument from one generation of exchange evidence, arms
  the exchange's dead-man switch, opens the WebSocket streams and then runs an event loop.  The loop delivers
  confirmed candles, private events and timers to the strategies, gated by the health of the streams, by
  reconciliations that are owed and by the dead-man switch.  A strategy
  (\<open>rt/strategies/okx_ema_atr_maker_trend.rs\<close>) enters with post-only buys, protects its position with a
  take-profit order and a stop-loss trigger, reconstructs itself from the exchange's history and settles at
  shutdown.  It talks to the exchange through the trait \<open>OkxClient\<close>, which the trading client
  (\<open>rt/okx/trading_client.rs\<close>) implements: orders go over a logged-in WebSocket session where they can, and over
  the REST client (\<open>rt/okx/client.rs\<close>) otherwise; an order or amendment whose fate the session leaves unknown is
  looked up and never sent again, a cancellation is repeated over REST.
  The streams (\<open>rt/okx/websocket.rs\<close>, \<open>rt/okx/websocket/private.rs\<close>) fill the caches of market data and of
  private events, and the live Level-2 book (\<open>okx-market-model\<close>); what they hold are hints, and REST decides.

  \<^bold>\<open>How things are modelled.\<close>
    \<^item> A struct is a \<open>record\<close>, an enum a \<open>datatype\<close>, with the names of the source (a prefix of two letters makes
      the fields of a record distinct); a function that clashes with another has a prefix naming its file.
    \<^item> A \<open>Result\<close> is \<open>'e fault + 'a\<close>: every \<open>?\<close>, \<open>bail!\<close> and \<open>ensure!\<close> is a branch, and \<open>Panic\<close> is a value apart
      from the errors a caller can handle.  Error texts are represented by a context and a reason; the errors
      the REST client tells apart by downcasting are constructors (\<open>rest_error\<close>).
    \<^item> Counters that wrap or saturate are \<open>64 word\<close> or have the bound written out; checked \<open>i128\<close> and \<open>i64\<close>
      operations are checked; \<open>f64\<close> is binary64 with one rounding per operation (\<open>Float64\<close>).
    \<^item> A method on \<open>&mut self\<close> returns its result and the state it leaves.  Asynchronous methods are actions: of
      the strategy (\<open>Strategy_Monad\<close>: runner and trace of requests), of the engine (\<open>Runtime_Engine\<close>), of the REST
      client (\<open>Rest_Base\<close>: client with its clock and the log of what it sent), of the trading client
      (\<open>Trading_Client\<close>: in addition the WebSocket session), of a stream session (\<open>Socket_Session\<close>).
    \<^item> What the code does not decide is an argument, arbitrary in the theorems: the answers of the exchange (a
      function of everything asked before), the times, what happens on a socket (a list of events), the branch
      \<open>select!\<close> takes (a list of inputs), the iteration order of a hash map (a function that picks a key).
    \<^item> Third-party code is a parameter: \<open>serde_json\<close> (records of parsing functions), \<open>rust_decimal\<close>
      (\<open>decimal_ops\<close>; the laws some theorems assume are \<open>decimal_laws\<close>, satisfied by \<open>exact_decimal\<close>), \<open>url\<close>, HMAC,
      percent-encoding and the calendar.  Mutexes are sequential; the one that can be poisoned is modelled so.

  \<^bold>\<open>Theories.\<close>  Each imports what its component calls.
    \<^item> Library: \<open>Prelude\<close> (results, integers), \<open>Rust_Strings\<close>, \<open>Number_Format\<close>, \<open>Float64\<close>, \<open>Decimal_Ops\<close>,
      \<open>Ordered_Map\<close> (\<open>BTreeMap\<close>), \<open>Hint_Cache\<close> (the bounded caches of hints).
    \<^item> Public data: \<open>Public_Protocol\<close> (\<open>okx-public-protocol/src/lib.rs\<close>), \<open>Replay_Book\<close> and \<open>Level2_Book\<close> with
      \<open>Level2_Correct\<close> (\<open>okx-market-model/src/replay_book.rs\<close>, \<open>level2.rs\<close>).
    \<^item> Exchange data: \<open>Okx_Types\<close> (\<open>rt/okx/types.rs\<close>), \<open>Trading_Instrument\<close> (\<open>rt/okx/trading_instrument.rs\<close>),
      \<open>Capability\<close> (\<open>rt/okx/capability.rs\<close>).
    \<^item> Configuration: \<open>Strategy_Config\<close>, \<open>Bot_Config\<close> (\<open>rt/config/types.rs\<close>, \<open>validation.rs\<close>), \<open>Config_Loading\<close>
      (\<open>loader.rs\<close>), \<open>Stream_Config\<close> (\<open>rt/app/okx_stream_config.rs\<close>).
    \<^item> Strategy: \<open>Order_Id\<close>, \<open>Signal\<close>, \<open>Inventory\<close> (the files of these names), \<open>Strategy_State\<close>,
      \<open>Strategy_Evidence\<close>, \<open>Strategy_Monad\<close>, \<open>Strategy_Position\<close>, \<open>Strategy_Orders\<close>, \<open>Strategy_Refresh\<close>,
      \<open>Strategy_Reconstruct\<close>, \<open>Strategy_Runner\<close> (the runner, \<open>entry_submission.rs\<close>, \<open>shutdown.rs\<close>), \<open>Strategy_Dispatch\<close>
      (\<open>rt/app/strategy_tick_execution.rs\<close>, \<open>strategy_tick_failure.rs\<close>); \<open>Strategy_Sample\<close> holds an example.
    \<^item> Engine: \<open>Cancel_All_After\<close> (\<open>rt/app/cancel_all_after_heartbeat.rs\<close>), \<open>Stream_Health\<close>
      (\<open>rt/okx/websocket/health.rs\<close>, \<open>rt/app/websocket_health_tracker.rs\<close>), \<open>Latency_Metrics\<close>, \<open>Event_Delivery\<close>
      (\<open>runtime_event.rs\<close>), \<open>Runtime_Engine\<close>, \<open>Runtime_Loop\<close> (\<open>rt/app/live.rs\<close>, \<open>okx_startup_preflight.rs\<close>).
    \<^item> Streams: \<open>Socket_Protocol\<close> (\<open>auth.rs\<close>, \<open>notice.rs\<close>, \<open>protocol_error.rs\<close>, \<open>subscription.rs\<close>), \<open>Socket_Session\<close>,
      \<open>Market_Cache\<close>, \<open>Market_Stream\<close> (\<open>rt/okx/websocket.rs\<close>), \<open>Private_Cache\<close>, \<open>Private_Stream\<close> (\<open>private.rs\<close>).
    \<^item> Order commands: \<open>Order_Commands\<close> (\<open>rt/okx/websocket/trading.rs\<close>), \<open>Order_Session\<close> (\<open>trading_session.rs\<close>).
    \<^item> REST client (\<open>rt/okx/client.rs\<close>, \<open>queries.rs\<close>): \<open>Rate_Limit\<close> (clock and pacing), \<open>Rest_Base\<close> (state, transport),
      \<open>Rest_Responses\<close>, \<open>Rest_Client\<close> (requests, signing, server time), \<open>Rest_Rows\<close> (checks of rows and
      acknowledgements), \<open>Rest_Instruments\<close> (safety latch, candles, tickers, prices), \<open>Rest_Account\<close> (balances,
      fees, capability generations), \<open>Rest_Pages\<close> (listings), \<open>Rest_Orders\<close>.
    \<^item> Trading client (\<open>rt/okx/trading_client.rs\<close>): \<open>Trading_Client\<close>, \<open>Server_Time_Refresher\<close>.
    \<^item> Economics preflight: \<open>Preflight_Command\<close>, \<open>Economics_Preflight\<close> (\<open>rt/app/economics_preflight.rs\<close>), \<open>Preflight_Probe\<close>
      (\<open>rt/okx/economics_preflight.rs\<close>, \<open>rt/okx/websocket/economics_preflight.rs\<close>); \<open>Pair_Selection\<close>
      (\<open>rt/okx/zero_fee_pair_selection.rs\<close>), a client offered to external callers.
    \<^item> Properties: \<open>Strategy_Safety\<close>, \<open>Strategy_Policy\<close>, \<open>Strategy_Protection\<close>, \<open>Runtime_Safety\<close>, \<open>Runtime_Sample\<close>,
      \<open>Runtime_Guarantees\<close>, \<open>Stream_Stages\<close>, \<open>Market_Guarantees\<close>, \<open>Private_Guarantees\<close>, \<open>Stream_Guarantees\<close>,
      \<open>Order_Guarantees\<close>, \<open>Rest_Frames\<close>, \<open>Rest_Guarantees\<close>, \<open>Rest_Outcomes\<close>, \<open>Trading_Guarantees\<close>,
      \<open>Preflight_Guarantees\<close>, \<open>Preflight_Reads\<close>.

  \<^bold>\<open>Interfaces.\<close>  A locale states what a client relies on; its interpretations discharge it for the code.
    \<^item> \<open>ordered_map\<close>: what the order books need of a \<open>BTreeMap\<close>; interpreted on \<open>bt_insert\<close> and its kin.
    \<^item> \<open>hint_store\<close>: a keyed, bounded cache that ignores stale hints; interpreted on the market and private caches.
    \<^item> \<open>sequenced_feed\<close>: a consumer of a feed with sequence numbers; interpreted on the live Level-2 book.
    \<^item> \<open>stream_runner\<close>: what the reconnecting loop needs of one run; interpreted on the market and private runs.
    \<^item> \<open>exit_discipline\<close> and its extension \<open>trading_discipline\<close>: invariants that survive the permitted requests;
      interpreted on the order policy, the ban of new entries, the running invariant and the engine's policy.
    \<^item> \<open>listing\<close> and its extension \<open>cursor_listing\<close>: what a paginated endpoint promises; interpreted on the five.
    \<^item> \<open>rest_frame\<close>: what an operation of the REST client may change and send; interpreted on the latch, the
      capabilities and the requests that are not mutations.

  \<^bold>\<open>What is shown.\<close>
    \<^item> The strategy and the engine, for every client: each request is one the order policy permits (side, kind,
      size, price and identity of the order), only a confirmed candle leads to an entry, a successful tick
      leaves no open position without its exits, a successful shutdown is flat or protected, the tracked state
      is coherent, dispatch is gated, an owed reconciliation stays owed until it is paid, the dead-man switch is
      armed before any order and disarmed only after a clean exit.  The proofs go through a small logic of
      actions (\<open>yields\<close>, \<open>ekeeps\<close>) whose rules are collected in named theorems.
    \<^item> The clients: an order is sent at most once over both ways together; a result is reported only if the
      exchange gave it; a latched instrument is traded no more; capabilities belong to the account level
      observed last; listings are complete; request identifiers do not collide; rate limits are respected and
      waiting for them ends; no order command waits for ever or misreports its fate; failures of the
      background refresh reach the runtime.
    \<^item> The streams and their caches: readiness means subscribed, data before its acknowledgement is not applied,
      the caches stay bounded, keyed and validated, and the order cache is the latest by the exchange's time.
    \<^item> The books: the live book refines the sequence automaton of its channel and satisfies its invariant, errors
      invalidate it, the replay book is trusted only when ordered, positive, bounded and uncrossed.
    \<^item> Configuration, instrument validation, identifiers, inventory and payload parsing: what an accepted value
      guarantees, and round trips; where the credentials of a loaded profile come from.
    \<^item> The economics preflight, a command of its own that measures fees and latencies over the same client: its report
      says what it was answered, no file is overwritten, and like the pair selection it trades nothing.

  \<^bold>\<open>Bounds.\<close>  No theorem depends on fuel.  Loops that count down in the source are recursions on their counter: at most
  20 pages of 100 rows (a longer listing is an error, as in the code), 3 attempts at stale evidence.  Loops that
  drain are \<open>function\<close>s with a \<open>termination\<close> proof: evictions, trimming of books and series, and the wait for a rate
  limit, whose measure is the number of waits the window and the cooldown still allow.  A socket or an input list
  that ends leaves its reader waiting, which is the result \<open>None\<close> and never an answer; that commands do end is a
  theorem of its own.

  \<^bold>\<open>Found while modelling.\<close>  A confirmed candle older than all 32 retained bars of its series is inserted, trimmed
  away at once and still announced as newly confirmed, so every repetition of it is announced again
  (\<open>late_candle_announced_again\<close>), although a test says that each is announced once.

  \<^bold>\<open>Not modelled.\<close>
    \<^item> Logging and tracing; the observers of \<open>client.rs\<close> that compare a response with the private cache, and the
      Level-2 shadow observation of \<open>live.rs\<close>, which only log; \<open>Display\<close> and \<open>Debug\<close> texts; wiping of credentials.
    \<^item> The host's files and environment and the TOML parser (parameters of \<open>Config_Loading\<close>), TLS, HTTP and DNS, the
      binary.
    \<^item> Code of test builds: the demo qualification programs (\<open>rt/okx/demo_*.rs\<close>), OCO orders, test constructors.
    \<^item> Parallelism within one client: the caches a client shares with the streams may be anything whenever they
      are read, but two operations of one client are not interleaved.
\<close>

end
